(* ===== verification/Prelude.thy ===== *)
theory Prelude
  imports Main "HOL-Library.Word" "HOL-Library.Monad_Syntax"
begin

text \<open>
  Shared types and lemmas of the development: the machine integers of the C sources as words,
  byte-addressed memory with the C block copy, the little-endian layout of multi-byte objects,
  the bus through which code reaches memory-mapped peripherals, and the ways in which control
  can leave a bootloader routine. The collections \<open>mem_simps\<close> and \<open>io_simps\<close> carry the
  component proofs.
\<close>

unbundle bit_operations_syntax

named_theorems mem_simps \<open>reading back what a block store wrote\<close>
named_theorems io_simps \<open>what a bus access keeps of the machine state\<close>

section \<open>Machine integers\<close>

type_synonym u8 = "8 word"
type_synonym u16 = "16 word"
type_synonym u32 = "32 word"

text \<open>A character constant of the C source as the byte it stands for.\<close>

definition ch :: "char \<Rightarrow> u8" where
  "ch c = word_of_nat (of_char c)"

definition str :: "string \<Rightarrow> u8 list" where
  "str cs = map ch cs"

lemma str_Nil [simp]: "str [] = []"
  and str_Cons [simp]: "str (c # cs) = ch c # str cs"
  by (simp_all add: str_def)

text \<open>Widening keeps the value, and narrowing back undoes it.\<close>

lemma unat_ucast_up [simp]:
  fixes w :: "'a :: len word"
  assumes "LENGTH('a) \<le> LENGTH('b :: len)"
  shows "unat (ucast w :: 'b word) = unat w"
proof -
  from assms have "unat w < 2 ^ LENGTH('b)"
    by (meson less_le_trans numeral_le_iff one_le_numeral power_increasing semiring_norm(69) unsigned_less)
  then show ?thesis by (simp add: unsigned_ucast_eq take_bit_nat_eq_self)
qed

lemma ucast_ucast_up [simp]:
  fixes w :: "'a :: len word"
  assumes "LENGTH('a) \<le> LENGTH('b :: len)"
  shows "ucast (ucast w :: 'b word) = w"
  using assms by (intro bit_eqI) (auto simp: bit_simps)

lemma ucast_ucast_via [simp]:
  fixes w :: "'a :: len word"
  assumes "LENGTH('a) \<le> LENGTH('b :: len)"
  shows "ucast (ucast w :: 'b word) = (ucast w :: 'c :: len word)"
  using assms by (intro bit_eqI) (auto simp: bit_simps dest: bit_imp_le_length)

lemma two_le_one_u16 [simp]: "\<not> (2 :: u16) \<le> 1"
  by (simp add: word_le_nat_alt)

lemma unat_inc_u16:
  fixes i :: u16
  assumes "unat i < 65535"
  shows "unat (i + 1) = Suc (unat i)"
proof -
  have "1 + i \<noteq> 0"
  proof
    assume "1 + i = 0"
    then have "i = - 1" by (simp add: add_eq_0_iff)
    with assms show False by (simp add: unsigned_minus_1_eq_mask mask_eq_exp_minus_1)
  qed
  then show ?thesis using unatSuc [of i] by (simp add: add.commute)
qed

lemma ucast_up_eq_iff:
  fixes v w :: "'a :: len word"
  assumes "LENGTH('a) \<le> LENGTH('b :: len)"
  shows "(ucast v :: 'b word) = ucast w \<longleftrightarrow> v = w"
  using ucast_ucast_up [OF assms, of v] ucast_ucast_up [OF assms, of w] by metis

text \<open>The values of a nibble.\<close>

lemma less_16_cases:
  "n < (16 :: nat) \<Longrightarrow> n = 15 \<or> n = 14 \<or> n = 13 \<or> n = 12 \<or> n = 11 \<or> n = 10 \<or> n = 9 \<or> n = 8 \<or>
     n = 7 \<or> n = 6 \<or> n = 5 \<or> n = 4 \<or> n = 3 \<or> n = 2 \<or> n = 1 \<or> n = 0"
  by arith

lemma nibble_of_nat:
  fixes v :: "'a :: len word"
  assumes "4 < LENGTH('a)"
  obtains n where "n < 16" and "v AND 15 = of_nat n"
proof
  have m: "v AND 15 = take_bit 4 v"
    by (simp add: take_bit_eq_mask mask_eq_exp_minus_1)
  show "unat (take_bit 4 v) < 16"
    by (simp only: unsigned_take_bit_eq) (simp add: take_bit_eq_mod)
  show "v AND 15 = of_nat (unat (take_bit 4 v))"
    by (simp add: m)
qed

section \<open>Byte-addressed memory\<close>

type_synonym mem = "u32 \<Rightarrow> u8"

fun store_bytes :: "u32 \<Rightarrow> u8 list \<Rightarrow> mem \<Rightarrow> mem" where
  "store_bytes a [] m = m"
| "store_bytes a (x # xs) m = store_bytes (a + 1) xs (m(a := x))"

fun load_bytes :: "u32 \<Rightarrow> nat \<Rightarrow> mem \<Rightarrow> u8 list" where
  "load_bytes a 0 m = []"
| "load_bytes a (Suc n) m = m a # load_bytes (a + 1) n m"

lemma length_load_bytes [simp]: "length (load_bytes a n m) = n"
  by (induction n arbitrary: a) simp_all

lemma nth_load_bytes: "i < n \<Longrightarrow> load_bytes a n m ! i = m (a + of_nat i)"
proof (induction n arbitrary: a i)
  case (Suc n)
  then show ?case by (cases i) (simp_all add: algebra_simps)
qed simp

lemma load_bytes_cong:
  "(\<And>i. i < n \<Longrightarrow> m (a + of_nat i) = m' (a + of_nat i)) \<Longrightarrow> load_bytes a n m = load_bytes a n m'"
  by (rule nth_equalityI) (simp_all add: nth_load_bytes)

text \<open>The distance of an address above a base, without wrap-around inside a block.\<close>

lemma unat_offset_Suc:
  fixes p a :: u32
  assumes "p \<noteq> a"
  shows "unat (p - a) = Suc (unat (p - (a + 1)))"
proof -
  from assms have "p - a \<noteq> 0" by simp
  then have "unat (p - a - 1) = unat (p - a) - 1" and "unat (p - a) \<noteq> 0"
    by (simp_all add: unat_minus_one unat_eq_0)
  then show ?thesis by (simp add: algebra_simps)
qed

lemma unat_pred_max: "unat (p - (p + 1 :: u32)) = 2 ^ 32 - 1"
  by (simp add: unsigned_minus_1_eq_mask mask_eq_exp_minus_1)

lemma store_bytes_apply:
  fixes p a :: u32
  assumes "length xs < 2 ^ 32"
  shows "store_bytes a xs m p =
    (if unat (p - a) < length xs then xs ! unat (p - a) else m p)"
  using assms
proof (induction xs arbitrary: a m)
  case (Cons x xs)
  show ?case
  proof (cases "p = a")
    case True
    then have "unat (p - (a + 1)) = 2 ^ 32 - 1"
      using unat_pred_max by blast
    with Cons.prems have "store_bytes (a + 1) xs (m(a := x)) p = (m(a := x)) p"
      by (subst Cons.IH) simp_all
    with True show ?thesis by simp
  next
    case False
    with Cons show ?thesis by (simp add: unat_offset_Suc [OF False])
  qed
qed simp

lemma store_bytes_at [mem_simps]:
  assumes "i < length xs" and "length xs < 2 ^ 32"
  shows "store_bytes a xs m (a + of_nat i) = xs ! i"
proof -
  from assms have "unat (of_nat i :: u32) = i"
    by (simp add: unat_of_nat)
  with assms show ?thesis
    by (simp add: store_bytes_apply)
qed

lemma store_bytes_outside [mem_simps]:
  assumes "length xs < 2 ^ 32" and "length xs \<le> unat (p - a)"
  shows "store_bytes a xs m p = m p"
  using assms by (simp add: store_bytes_apply)

lemma store_bytes_append:
  "store_bytes a (xs @ ys) m = store_bytes (a + of_nat (length xs)) ys (store_bytes a xs m)"
  by (induction xs arbitrary: a m) (simp_all add: algebra_simps)

lemma load_store_bytes [mem_simps]:
  assumes "length xs < 2 ^ 32"
  shows "load_bytes a (length xs) (store_bytes a xs m) = xs"
  using assms by (intro nth_equalityI) (simp_all add: nth_load_bytes store_bytes_at)

section \<open>The C block copy\<close>

text \<open>
  \<^verbatim>\<open>memcpy\<close> as the byte loop of \<^verbatim>\<open>boot_code.c\<close> (lines 218 to 224) has it; the second
  bootloader calls the C library's, whose result on blocks that do not overlap is the same.
\<close>

fun memcpy :: "u32 \<Rightarrow> u32 \<Rightarrow> nat \<Rightarrow> mem \<Rightarrow> mem" where
  "memcpy dest src 0 m = m"
| "memcpy dest src (Suc len) m = memcpy (dest + 1) (src + 1) len (m(dest := m src))"

section \<open>Little-endian objects\<close>

definition le16 :: "u8 list \<Rightarrow> u16" where
  "le16 bs = ucast (bs ! 0) OR push_bit 8 (ucast (bs ! 1))"

definition le32 :: "u8 list \<Rightarrow> u32" where
  "le32 bs = ucast (bs ! 0) OR push_bit 8 (ucast (bs ! 1)) OR
     push_bit 16 (ucast (bs ! 2)) OR push_bit 24 (ucast (bs ! 3))"

definition bytes16 :: "u16 \<Rightarrow> u8 list" where
  "bytes16 w = [ucast w, ucast (drop_bit 8 w)]"

definition bytes32 :: "u32 \<Rightarrow> u8 list" where
  "bytes32 w = [ucast w, ucast (drop_bit 8 w), ucast (drop_bit 16 w), ucast (drop_bit 24 w)]"

lemma length_bytes16 [simp]: "length (bytes16 w) = 2"
  by (simp add: bytes16_def)

lemma length_bytes32 [simp]: "length (bytes32 w) = 4"
  by (simp add: bytes32_def)

lemma le16_bytes16 [simp]: "le16 (bytes16 w) = w"
  by (rule bit_eqI) (auto simp: le16_def bytes16_def bit_simps)

lemma le32_bytes32 [simp]: "le32 (bytes32 w) = w"
proof (rule bit_eqI)
  fix n
  assume "possible_bit TYPE(u32) n"
  then consider "n < 8" | "8 \<le> n" "n < 16" | "16 \<le> n" "n < 24" | "24 \<le> n" "n < 32"
    by simp linarith
  then show "bit (le32 (bytes32 w)) n = bit w n"
    by cases (simp_all add: le32_def bytes32_def bit_or_iff bit_push_bit_iff bit_unsigned_iff bit_drop_bit_eq, auto)
qed

definition load32 :: "u32 \<Rightarrow> mem \<Rightarrow> u32" where
  "load32 a m = le32 (load_bytes a 4 m)"

definition store32 :: "u32 \<Rightarrow> u32 \<Rightarrow> mem \<Rightarrow> mem" where
  "store32 a w m = store_bytes a (bytes32 w) m"

lemma load32_store32 [mem_simps]: "load32 a (store32 a w m) = w"
  using load_store_bytes [of "bytes32 w" a m] by (simp add: load32_def store32_def)

end
