(* ===== verification/Machine.thy ===== *)
theory Machine
  imports Prelude
begin

text \<open>
  The machine the bootloaders run on. Peripherals are reached over a bus, which is a parameter:
  the code that answers (the RTL, and for the second bootloader the register headers the build
  generates) is outside the C sources. A bus access may change the peripherals and, because the
  uDMA moves data on its own, the memory. The register names of the second bootloader are those
  of its sources; their addresses and bit positions belong to the generated headers and are not
  fixed here. Each component extends the machine record with the globals of its C file.
\<close>

section \<open>Bus and machine state\<close>

text \<open>
  A pointer handed to a DMA register designates either a RAM address, written like any other
  value, or a buffer of the program itself, given by its contents.
\<close>

datatype buf = Bytes "u8 list" | Words "u32 list"

record ('l, 'e) bus =
  bus_rd :: "'l \<Rightarrow> mem \<times> 'e \<Rightarrow> u32 \<times> (mem \<times> 'e)"
  bus_wr :: "'l \<Rightarrow> u32 \<Rightarrow> mem \<times> 'e \<Rightarrow> mem \<times> 'e"
  bus_wp :: "'l \<Rightarrow> buf \<Rightarrow> mem \<times> 'e \<Rightarrow> mem \<times> 'e"

record 'e machine =
  ram :: mem
  ext :: 'e

definition rd :: "('l, 'e) bus \<Rightarrow> 'l \<Rightarrow> ('e, 'z) machine_scheme \<Rightarrow> u32 \<times> ('e, 'z) machine_scheme" where
  "rd b l s = (case bus_rd b l (ram s, ext s) of (v, m, e) \<Rightarrow> (v, s\<lparr>ram := m, ext := e\<rparr>))"

definition wr :: "('l, 'e) bus \<Rightarrow> 'l \<Rightarrow> u32 \<Rightarrow> ('e, 'z) machine_scheme \<Rightarrow> ('e, 'z) machine_scheme" where
  "wr b l v s = (case bus_wr b l v (ram s, ext s) of (m, e) \<Rightarrow> s\<lparr>ram := m, ext := e\<rparr>)"

definition wp :: "('l, 'e) bus \<Rightarrow> 'l \<Rightarrow> buf \<Rightarrow> ('e, 'z) machine_scheme \<Rightarrow> ('e, 'z) machine_scheme" where
  "wp b l p s = (case bus_wp b l p (ram s, ext s) of (m, e) \<Rightarrow> s\<lparr>ram := m, ext := e\<rparr>)"

text \<open>A compound assignment to a register reads it once and writes it once.\<close>

definition rmw :: "('l, 'e) bus \<Rightarrow> 'l \<Rightarrow> (u32 \<Rightarrow> u32) \<Rightarrow> ('e, 'z) machine_scheme \<Rightarrow> ('e, 'z) machine_scheme" where
  "rmw b l f s = (case rd b l s of (v, s) \<Rightarrow> wr b l (f v) s)"

text \<open>A run of writes acts on memory and peripherals as one function.\<close>

definition on_bus :: "(mem \<times> 'e \<Rightarrow> mem \<times> 'e) \<Rightarrow> ('e, 'z) machine_scheme \<Rightarrow> ('e, 'z) machine_scheme" where
  "on_bus f s = (case f (ram s, ext s) of (m, e) \<Rightarrow> s\<lparr>ram := m, ext := e\<rparr>)"

lemma wr_on_bus: "wr b l v s = on_bus (bus_wr b l v) s"
  and wp_on_bus: "wp b l p s = on_bus (bus_wp b l p) s"
  by (simp_all add: on_bus_def wr_def wp_def)

lemma on_bus_on_bus: "on_bus f (on_bus g s) = on_bus (\<lambda>me. f (g me)) s"
  by (simp add: on_bus_def split: prod.splits)

lemma rd_more [io_simps]: "machine.more (snd (rd b l s)) = machine.more s"
  by (simp add: rd_def split: prod.splits)

lemma wr_more [io_simps]: "machine.more (wr b l v s) = machine.more s"
  by (simp add: wr_def split: prod.splits)

lemma wp_more [io_simps]: "machine.more (wp b l v s) = machine.more s"
  by (simp add: wp_def split: prod.splits)

lemma rmw_more [io_simps]: "machine.more (rmw b l f s) = machine.more s"
  using rd_more [of b l s] by (cases "rd b l s") (simp add: rmw_def wr_more)

section \<open>How a routine can end\<close>

text \<open>
  A routine of the bootloader returns to its caller, passes control to a loaded program and
  never returns, or does something C leaves undefined. A polling loop that never ends is the
  value None of the routines that can poll.
\<close>

datatype fault = OutOfBounds | DivideByZero

datatype exit = Continue | JumpTo u32 | Undefined fault

section \<open>Registers of the second bootloader\<close>

datatype uart_reg =
    uart_setup_div | uart_setup_bits | uart_setup_rx_polling_en | uart_setup_en_tx
  | uart_setup_en_rx | uart_tx_saddr | uart_tx_size | uart_tx_cfg_en
  | uart_valid_rx_data_valid | uart_data_rx_data

datatype qspi_reg =
    rx_saddr | rx_size | rx_cfg_en | rx_cfg_clr | tx_saddr | tx_size | tx_cfg_en | tx_cfg_clr
  | tx_cfg_datasize | cmd_saddr | cmd_size | cmd_cfg_en | cmd_cfg_clr

datatype i2cs_reg =
    i2cs_dev_address_slave_addr | i2cs_enable_ip_enable
  | i2cs_fifo_i2c_apb_read_data_port | i2cs_fifo_apb_i2c_write_data_port
  | i2cs_fifo_i2c_apb_write_flags | i2cs_fifo_i2c_apb_read_flags
  | i2cs_fifo_apb_i2c_read_flags | i2cs_fifo_apb_i2c_write_flags
  | i2cs_msg_i2c_apb | i2cs_msg_i2c_apb_status | i2cs_msg_apb_i2c | i2cs_msg_apb_i2c_status
  | i2cs_fifo_i2c_apb_flush_enable | i2cs_fifo_apb_i2c_flush_enable

datatype a2_reg =
    Udma_ctrl_reg_rst | Udma_ctrl_reg_cg
  | Uart u8 uart_reg | Qspi u8 qspi_reg | I2cs i2cs_reg
  | Soc_reset_reason | Soc_bootsel | Soc_jtagreg
  | Fll_config u32

type_synonym 'e a2_bus = "(a2_reg, 'e) bus"

text \<open>Constants of the generated register headers that the sources name.\<close>

record a2_config =
  UDMA_CTRL_UART0_CLKEN :: u32
  UDMA_CTRL_QSPIM0_CLKEN :: u32

section \<open>Globals shared by the parts of the second bootloader\<close>

record 'e boot_globals = "'e machine" +
  gStopUartMsgFlg :: u8
  gStopUartBootLoaderFlg :: u8
  gStopI2CBootLoaderFlg :: u8

text \<open>Continue with the state of an array access, unless the index was out of range.\<close>

definition within :: "'s option \<Rightarrow> 's \<Rightarrow> ('s \<Rightarrow> (exit \<times> 's) option) \<Rightarrow> (exit \<times> 's) option" where
  "within r s k = (case r of None \<Rightarrow> Some (Undefined OutOfBounds, s) | Some s' \<Rightarrow> k s')"

lemma within_simps [simp]:
  "within None s k = Some (Undefined OutOfBounds, s)"
  "within (Some s') s k = k s'"
  by (simp_all add: within_def)

end
