(* ===== verification/Uart.thy ===== *)
theory Uart
  imports Machine
begin

text \<open>
  The UART driver \<^verbatim>\<open>a2_boot/uart.c\<close> and the debug output routines \<^verbatim>\<open>a2_boot/dbg.c\<close> built on
  it. The locale \<open>uart_hw\<close> states what the driver relies on of the uDMA UART: a poll of the
  transmit size ends, an enabled transfer sends the buffer, a character announced as valid can
  be read once. Inside it every driver routine is shown to return and to have the effect
  \<open>uart_eff\<close> describes; the debug routines inherit it.
\<close>

section \<open>The driver\<close>

definition udma_uart_open ::
  "a2_config \<Rightarrow> 'e a2_bus \<Rightarrow> u8 \<Rightarrow> u32 \<Rightarrow> ('e, 'z) machine_scheme \<Rightarrow> u16 option \<times> ('e, 'z) machine_scheme" where
  "udma_uart_open cfg b uart_id xbaudrate s =
     (let s = rmw b Udma_ctrl_reg_rst (\<lambda>v. v OR push_bit (unat uart_id) (UDMA_CTRL_UART0_CLKEN cfg)) s;
          s = rmw b Udma_ctrl_reg_rst (\<lambda>v. v AND NOT (push_bit (unat uart_id) (UDMA_CTRL_UART0_CLKEN cfg))) s;
          s = rmw b Udma_ctrl_reg_cg (\<lambda>v. v OR push_bit (unat uart_id) (UDMA_CTRL_UART0_CLKEN cfg)) s
      in if xbaudrate = 0 then (None, s)
         else
           let s = wr b (Uart uart_id uart_setup_div) (ucast (ucast (5000000 div xbaudrate) :: u16)) s;
               s = wr b (Uart uart_id uart_setup_bits) 3 s;
               s = wr b (Uart uart_id uart_setup_rx_polling_en) 1 s;
               s = wr b (Uart uart_id uart_setup_en_tx) 1 s;
               s = wr b (Uart uart_id uart_setup_en_rx) 1 s
           in (Some 0, s))"

text \<open>The loop \<^verbatim>\<open>while (puart->tx_size != 0) i++\<close>.\<close>

partial_function (option) uart_wait_tx ::
  "'e a2_bus \<Rightarrow> u8 \<Rightarrow> u32 \<Rightarrow> ('e, 'z) machine_scheme \<Rightarrow> (u32 \<times> ('e, 'z) machine_scheme) option" where
  "uart_wait_tx b uart_id i s =
     (case rd b (Uart uart_id uart_tx_size) s of (v, s) \<Rightarrow>
        if v \<noteq> 0 then uart_wait_tx b uart_id (i + 1) s else Some (i, s))"

definition udma_uart_writeraw ::
  "'e a2_bus \<Rightarrow> u8 \<Rightarrow> u16 \<Rightarrow> u8 list \<Rightarrow> ('e, 'z) machine_scheme \<Rightarrow> (u16 \<times> ('e, 'z) machine_scheme) option" where
  "udma_uart_writeraw b uart_id write_len write_buffer s = do {
     (i, s) \<leftarrow> uart_wait_tx b uart_id 0 s;
     let s = wp b (Uart uart_id uart_tx_saddr) (Bytes write_buffer) s;
     let s = wr b (Uart uart_id uart_tx_size) (ucast write_len) s;
     let s = wr b (Uart uart_id uart_tx_cfg_en) 1 s;
     (i, s) \<leftarrow> uart_wait_tx b uart_id i s;
     Some (ucast i, s)
   }"

text \<open>
  The status is returned with the byte the buffer holds afterwards; \<^verbatim>\<open>read_len\<close> is not used
  by the source.
\<close>

definition udma_uart_readraw ::
  "'e a2_bus \<Rightarrow> u8 \<Rightarrow> u8 \<Rightarrow> ('e, 'z) machine_scheme \<Rightarrow> u8 \<times> u8 \<times> ('e, 'z) machine_scheme" where
  "udma_uart_readraw b uart_id read_buffer s =
     (case rd b (Uart uart_id uart_valid_rx_data_valid) s of (v, s) \<Rightarrow>
        if v = 1
        then case rd b (Uart uart_id uart_data_rx_data) s of (d, s) \<Rightarrow> (1, ucast d, s)
        else (0, read_buffer, s))"

section \<open>Debug output\<close>

definition dbg_ch_raw :: "'e a2_bus \<Rightarrow> u32 \<Rightarrow> ('e, 'z) machine_scheme \<Rightarrow> ('e, 'z) machine_scheme option" where
  "dbg_ch_raw b c s = do { (_, s) \<leftarrow> udma_uart_writeraw b 1 1 (bytes32 c) s; Some s }"

definition dbg_nl :: "'e a2_bus \<Rightarrow> ('e, 'z) machine_scheme \<Rightarrow> ('e, 'z) machine_scheme option" where
  "dbg_nl b s = do { s \<leftarrow> dbg_ch_raw b 0x0D s; dbg_ch_raw b 0x0A s }"

definition dbg_ch :: "'e a2_bus \<Rightarrow> u32 \<Rightarrow> ('e, 'z) machine_scheme \<Rightarrow> ('e, 'z) machine_scheme option" where
  "dbg_ch b c s = (if c = 0x0A then dbg_nl b s else dbg_ch_raw b c s)"

text \<open>
  A string argument is the character array with its terminating zero left out; a zero inside
  it ends the loop as in C. The build makes char signed, so a character is sign extended to the
  int argument of \<^verbatim>\<open>dbg_ch\<close>.
\<close>

fun dbg_str :: "'e a2_bus \<Rightarrow> u8 list \<Rightarrow> ('e, 'z) machine_scheme \<Rightarrow> ('e, 'z) machine_scheme option" where
  "dbg_str b [] s = Some s"
| "dbg_str b (c # cs) s =
     (if c = 0 then Some s else do { s \<leftarrow> dbg_ch b (scast c) s; dbg_str b cs s })"

definition hex4 :: "u32 \<Rightarrow> u32" where
  "hex4 v = (let v = v AND 0x0f; v = v + 0x30 in if v > 0x39 then v - (0x39 + 1) + 0x61 else v)"

definition dbg_hex4 :: "'e a2_bus \<Rightarrow> u32 \<Rightarrow> ('e, 'z) machine_scheme \<Rightarrow> ('e, 'z) machine_scheme option" where
  "dbg_hex4 b v s = dbg_ch b (hex4 v) s"

definition dbg_hex8 :: "'e a2_bus \<Rightarrow> u32 \<Rightarrow> ('e, 'z) machine_scheme \<Rightarrow> ('e, 'z) machine_scheme option" where
  "dbg_hex8 b v s = do { s \<leftarrow> dbg_hex4 b (drop_bit 4 v) s; dbg_hex4 b v s }"

definition dbg_hex16 :: "'e a2_bus \<Rightarrow> u32 \<Rightarrow> ('e, 'z) machine_scheme \<Rightarrow> ('e, 'z) machine_scheme option" where
  "dbg_hex16 b v s = do { s \<leftarrow> dbg_hex8 b (drop_bit 8 v) s; dbg_hex8 b v s }"

definition dbg_hex32 :: "'e a2_bus \<Rightarrow> u32 \<Rightarrow> ('e, 'z) machine_scheme \<Rightarrow> ('e, 'z) machine_scheme option" where
  "dbg_hex32 b v s = do { s \<leftarrow> dbg_hex16 b (drop_bit 16 v) s; dbg_hex16 b v s }"

section \<open>What the driver relies on, and what it then does\<close>

text \<open>
  The observations: for each UART the characters still to be received (whether or not they have
  arrived yet) and the characters sent so far; \<open>oth\<close> stands for the rest of the peripherals.
  \<open>uart_obs\<close> relates two device states between which the characters \<open>out j\<close> left UART \<open>j\<close>
  and nothing else happened.
\<close>

definition uart_obs ::
  "(u8 \<Rightarrow> 'e \<Rightarrow> u8 list) \<Rightarrow> (u8 \<Rightarrow> 'e \<Rightarrow> u8 list) \<Rightarrow> ('e \<Rightarrow> 'o) \<Rightarrow> (u8 \<Rightarrow> u8 list) \<Rightarrow> 'e \<Rightarrow> 'e \<Rightarrow> bool" where
  "uart_obs rx tx oth out e e' \<longleftrightarrow>
     (\<forall>j. tx j e' = tx j e @ out j) \<and> (\<forall>j. rx j e' = rx j e) \<and> oth e' = oth e"

definition uart_eff ::
  "(u8 \<Rightarrow> 'e \<Rightarrow> u8 list) \<Rightarrow> (u8 \<Rightarrow> 'e \<Rightarrow> u8 list) \<Rightarrow> ('e \<Rightarrow> 'o) \<Rightarrow> (u8 \<Rightarrow> u8 list) \<Rightarrow>
   ('e, 'z) machine_scheme \<Rightarrow> ('e, 'z) machine_scheme \<Rightarrow> bool" where
  "uart_eff rx tx oth out s s' \<longleftrightarrow>
     (\<exists>e'. s' = s\<lparr>ext := e'\<rparr> \<and> uart_obs rx tx oth out (ext s) e')"

definition uart_got ::
  "(u8 \<Rightarrow> 'e \<Rightarrow> u8 list) \<Rightarrow> (u8 \<Rightarrow> 'e \<Rightarrow> u8 list) \<Rightarrow> ('e \<Rightarrow> 'o) \<Rightarrow> u8 \<Rightarrow> u8 \<Rightarrow>
   ('e, 'z) machine_scheme \<Rightarrow> ('e, 'z) machine_scheme \<Rightarrow> bool" where
  "uart_got rx tx oth u c s s' \<longleftrightarrow>
     (\<exists>e'. s' = s\<lparr>ext := e'\<rparr> \<and> rx u (ext s) = c # rx u e' \<and>
           (\<forall>j. j \<noteq> u \<longrightarrow> rx j e' = rx j (ext s)) \<and> (\<forall>j. tx j e' = tx j (ext s)) \<and>
           oth e' = oth (ext s))"

definition quiet :: "u8 \<Rightarrow> u8 list" where
  "quiet = (\<lambda>_. [])"

definition sent :: "u8 \<Rightarrow> u8 list \<Rightarrow> u8 \<Rightarrow> u8 list" where
  "sent u bs = (\<lambda>j. if j = u then bs else [])"

lemma uart_eff_refl: "uart_eff rx tx oth quiet s s"
  by (rule exI [of _ "ext s", THEN uart_eff_def [THEN iffD2]]) (simp add: uart_obs_def quiet_def)

lemma uart_eff_trans:
  "uart_eff rx tx oth o1 s s1 \<Longrightarrow> uart_eff rx tx oth o2 s1 s2 \<Longrightarrow>
   uart_eff rx tx oth (\<lambda>j. o1 j @ o2 j) s s2"
  by (auto simp: uart_eff_def uart_obs_def)

lemma sent_append: "(\<lambda>j. sent u xs j @ sent u ys j) = sent u (xs @ ys)"
  by (auto simp: sent_def)

lemma quiet_append: "(\<lambda>j. quiet j @ out j) = out" and append_quiet: "(\<lambda>j. out j @ quiet j) = out"
  by (auto simp: quiet_def)

lemma sent_Nil: "sent u [] = quiet"
  by (auto simp: sent_def quiet_def)

lemma uart_eff_sent_trans:
  "uart_eff rx tx oth (sent u xs) s s1 \<Longrightarrow> uart_eff rx tx oth (sent u ys) s1 s2 \<Longrightarrow>
   uart_eff rx tx oth (sent u (xs @ ys)) s s2"
  using uart_eff_trans [of rx tx oth "sent u xs" s s1 "sent u ys" s2] by (simp add: sent_append)

lemma uart_eff_quiet_left:
  "uart_eff rx tx oth quiet s s1 \<Longrightarrow> uart_eff rx tx oth out s1 s2 \<Longrightarrow> uart_eff rx tx oth out s s2"
  using uart_eff_trans [of rx tx oth quiet s s1 out s2] by (simp add: quiet_append)

lemma uart_eff_quiet_right:
  "uart_eff rx tx oth out s s1 \<Longrightarrow> uart_eff rx tx oth quiet s1 s2 \<Longrightarrow> uart_eff rx tx oth out s s2"
  using uart_eff_trans [of rx tx oth out s s1 quiet s2] by (simp add: append_quiet)

text \<open>What the terminal of UART 1 receives for a string.\<close>

definition dbg_text :: "u8 list \<Rightarrow> u8 list" where
  "dbg_text cs = concat (map (\<lambda>c. if c = 0x0A then [0x0D, 0x0A] else [c]) (takeWhile (\<lambda>c. c \<noteq> 0) cs))"

definition hex8_text :: "u32 \<Rightarrow> u8 list" where
  "hex8_text v = [ucast (hex4 (drop_bit 4 v)), ucast (hex4 v)]"

definition hex32_text :: "u32 \<Rightarrow> u8 list" where
  "hex32_text v = hex8_text (drop_bit 24 v) @ hex8_text (drop_bit 16 v) @ hex8_text (drop_bit 8 v) @ hex8_text v"

locale uart_tx =
  fixes b :: "'e a2_bus"
    and rx :: "u8 \<Rightarrow> 'e \<Rightarrow> u8 list"
    and tx :: "u8 \<Rightarrow> 'e \<Rightarrow> u8 list"
    and oth :: "'e \<Rightarrow> 'o"
    and busy :: "u8 \<Rightarrow> 'e \<Rightarrow> nat"
  assumes poll_busy: "busy u e \<noteq> 0 \<Longrightarrow>
      \<exists>v e'. bus_rd b (Uart u uart_tx_size) (m, e) = (v, m, e') \<and> v \<noteq> 0 \<and>
             busy u e' < busy u e \<and> uart_obs rx tx oth quiet e e'"
    and poll_idle: "busy u e = 0 \<Longrightarrow>
      \<exists>e'. bus_rd b (Uart u uart_tx_size) (m, e) = (0, m, e') \<and>
           busy u e' = 0 \<and> uart_obs rx tx oth quiet e e'"
    and transfer: "busy u e = 0 \<Longrightarrow> 0 < n \<Longrightarrow>
      \<exists>e'. bus_wr b (Uart u uart_tx_cfg_en) 1 (bus_wr b (Uart u uart_tx_size) n
             (bus_wp b (Uart u uart_tx_saddr) (Bytes bs) (m, e))) = (m, e') \<and>
           uart_obs rx tx oth (sent u (take (unat n) bs)) e e'"
begin

lemma wait_returns:
  "\<exists>i' s'. uart_wait_tx b u i s = Some (i', s') \<and> uart_eff rx tx oth quiet s s' \<and> busy u (ext s') = 0"
proof (induction "busy u (ext s)" arbitrary: s i rule: less_induct)
  case less
  show ?case
  proof (cases "busy u (ext s) = 0")
    case True
    from poll_idle [OF True, of "ram s"] obtain e' where
      "rd b (Uart u uart_tx_size) s = (0, s\<lparr>ext := e'\<rparr>)" "busy u e' = 0" "uart_obs rx tx oth quiet (ext s) e'"
      by (auto simp: rd_def)
    then show ?thesis
      by (subst uart_wait_tx.simps) (auto simp: uart_eff_def)
  next
    case False
    from poll_busy [OF False, of "ram s"] obtain v e' where
      e': "rd b (Uart u uart_tx_size) s = (v, s\<lparr>ext := e'\<rparr>)" "v \<noteq> 0" "busy u e' < busy u (ext s)"
        "uart_obs rx tx oth quiet (ext s) e'"
      by (auto simp: rd_def)
    from e'(3) less [of "s\<lparr>ext := e'\<rparr>" "i + 1"] obtain i' s' where
      r: "uart_wait_tx b u (i + 1) (s\<lparr>ext := e'\<rparr>) = Some (i', s')"
        "uart_eff rx tx oth quiet (s\<lparr>ext := e'\<rparr>) s'" "busy u (ext s') = 0"
      by auto
    from e'(4) have "uart_eff rx tx oth quiet s (s\<lparr>ext := e'\<rparr>)"
      by (auto simp: uart_eff_def)
    from uart_eff_quiet_left [OF this r(2)] r e'(1,2) show ?thesis
      by (subst uart_wait_tx.simps) auto
  qed
qed

text \<open>The second wait ends with the transmitter idle.\<close>

lemma write_finishes:
  assumes "0 < n"
  shows "\<exists>i s'. udma_uart_writeraw b u n bs s = Some (i, s') \<and>
           uart_eff rx tx oth (sent u (take (unat n) bs)) s s' \<and> busy u (ext s') = 0"
proof -
  obtain i s1 where 1: "uart_wait_tx b u 0 s = Some (i, s1)" "uart_eff rx tx oth quiet s s1" "busy u (ext s1) = 0"
    using wait_returns by blast
  define s2 where "s2 = wr b (Uart u uart_tx_cfg_en) 1 (wr b (Uart u uart_tx_size) (ucast n)
    (wp b (Uart u uart_tx_saddr) (Bytes bs) s1))"
  have "0 < (ucast n :: u32)" and un: "unat (ucast n :: u32) = unat n"
    using assms by (simp_all add: word_less_nat_alt)
  from transfer [OF 1(3) this(1), of bs "ram s1"] un have 2: "uart_eff rx tx oth (sent u (take (unat n) bs)) s1 s2"
    by (auto simp: s2_def wr_def wp_def uart_eff_def split: prod.splits)
  obtain i' s3 where 3: "uart_wait_tx b u i s2 = Some (i', s3)" "uart_eff rx tx oth quiet s2 s3" "busy u (ext s3) = 0"
    using wait_returns by blast
  have "uart_eff rx tx oth (sent u (take (unat n) bs)) s s3"
    using uart_eff_quiet_left [OF 1(2) uart_eff_quiet_right [OF 2 3(2)]] .
  with 1 3 show ?thesis
    by (auto simp: udma_uart_writeraw_def s2_def)
qed

lemma write_returns:
  "0 < n \<Longrightarrow> \<exists>i s'. udma_uart_writeraw b u n bs s = Some (i, s') \<and>
     uart_eff rx tx oth (sent u (take (unat n) bs)) s s'"
  using write_finishes by blast

lemma dbg_ch_raw_returns:
  "\<exists>s'. dbg_ch_raw b c s = Some s' \<and> uart_eff rx tx oth (sent 1 [ucast c]) s s'"
  using write_returns [of 1 1 "bytes32 c" s] by (auto simp: dbg_ch_raw_def bytes32_def)

lemma dbg_ch_returns:
  "\<exists>s'. dbg_ch b c s = Some s' \<and>
        uart_eff rx tx oth (sent 1 (if c = 0x0A then [0x0D, 0x0A] else [ucast c])) s s'"
proof (cases "c = 0x0A")
  case True
  obtain s1 where 1: "dbg_ch_raw b 0x0D s = Some s1" "uart_eff rx tx oth (sent 1 [0x0D]) s s1"
    using dbg_ch_raw_returns [of "0x0D" s] by auto
  obtain s2 where 2: "dbg_ch_raw b 0x0A s1 = Some s2" "uart_eff rx tx oth (sent 1 [0x0A]) s1 s2"
    using dbg_ch_raw_returns [of "0x0A" s1] by auto
  from uart_eff_sent_trans [OF 1(2) 2(2)] True 1(1) 2(1) show ?thesis
    by (auto simp: dbg_ch_def dbg_nl_def)
next
  case False
  with dbg_ch_raw_returns [of c s] show ?thesis by (auto simp: dbg_ch_def)
qed

lemma dbg_str_returns:
  "\<exists>s'. dbg_str b cs s = Some s' \<and> uart_eff rx tx oth (sent 1 (dbg_text cs)) s s'"
proof (induction cs arbitrary: s)
  case Nil
  then show ?case by (simp add: dbg_text_def sent_Nil uart_eff_refl)
next
  case (Cons c cs)
  show ?case
  proof (cases "c = 0")
    case True
    then show ?thesis by (simp add: dbg_text_def sent_Nil uart_eff_refl)
  next
    case False
    have low: "ucast (scast c :: u32) = c"
    proof (rule bit_eqI)
      fix n
      assume "possible_bit TYPE(u8) n"
      then have "n < 7 \<or> n = 7" by auto
      then show "bit (ucast (scast c :: u32) :: u8) n = bit c n" by (auto simp: bit_simps)
    qed
    have nl: "scast c = (0x0A :: u32) \<longleftrightarrow> c = 0x0A"
    proof
      assume "scast c = (0x0A :: u32)"
      with low have "c = ucast (0x0A :: u32)" by simp
      then show "c = 0x0A" by simp
    qed simp
    obtain s1 where 1: "dbg_ch b (scast c) s = Some s1"
        "uart_eff rx tx oth (sent 1 (if c = 0x0A then [0x0D, 0x0A] else [c])) s s1"
      using dbg_ch_returns [of "scast c" s] by (cases "c = 0x0A") (auto simp: nl low)
    obtain s2 where 2: "dbg_str b cs s1 = Some s2" "uart_eff rx tx oth (sent 1 (dbg_text cs)) s1 s2"
      using Cons.IH by blast
    from uart_eff_sent_trans [OF 1(2) 2(2)] False 1(1) 2(1) show ?thesis
      by (auto simp: dbg_text_def)
  qed
qed

lemma hex4_not_nl: "hex4 v \<noteq> 0x0A"
proof -
  obtain n where "n < 16" "v AND 15 = of_nat n" by (rule nibble_of_nat [of v]) simp
  then show ?thesis using less_16_cases [of n] by (auto simp: hex4_def)
qed

lemma dbg_hex8_returns:
  "\<exists>s'. dbg_hex8 b v s = Some s' \<and> uart_eff rx tx oth (sent 1 (hex8_text v)) s s'"
proof -
  obtain s1 where 1: "dbg_hex4 b (drop_bit 4 v) s = Some s1"
      "uart_eff rx tx oth (sent 1 [ucast (hex4 (drop_bit 4 v))]) s s1"
    using dbg_ch_returns [of "hex4 (drop_bit 4 v)" s] by (auto simp: dbg_hex4_def hex4_not_nl)
  obtain s2 where 2: "dbg_hex4 b v s1 = Some s2" "uart_eff rx tx oth (sent 1 [ucast (hex4 v)]) s1 s2"
    using dbg_ch_returns [of "hex4 v" s1] by (auto simp: dbg_hex4_def hex4_not_nl)
  from uart_eff_sent_trans [OF 1(2) 2(2)] 1(1) 2(1) show ?thesis
    by (auto simp: dbg_hex8_def hex8_text_def)
qed

lemma dbg_hex16_returns:
  "\<exists>s'. dbg_hex16 b v s = Some s' \<and>
        uart_eff rx tx oth (sent 1 (hex8_text (drop_bit 8 v) @ hex8_text v)) s s'"
proof -
  obtain s1 where 1: "dbg_hex8 b (drop_bit 8 v) s = Some s1"
      "uart_eff rx tx oth (sent 1 (hex8_text (drop_bit 8 v))) s s1"
    using dbg_hex8_returns by blast
  obtain s2 where 2: "dbg_hex8 b v s1 = Some s2" "uart_eff rx tx oth (sent 1 (hex8_text v)) s1 s2"
    using dbg_hex8_returns by blast
  from uart_eff_sent_trans [OF 1(2) 2(2)] 1(1) 2(1) show ?thesis
    by (auto simp: dbg_hex16_def)
qed

lemma dbg_hex32_returns:
  "\<exists>s'. dbg_hex32 b v s = Some s' \<and> uart_eff rx tx oth (sent 1 (hex32_text v)) s s'"
proof -
  obtain s1 where 1: "dbg_hex16 b (drop_bit 16 v) s = Some s1"
      "uart_eff rx tx oth (sent 1 (hex8_text (drop_bit 24 v) @ hex8_text (drop_bit 16 v))) s s1"
    using dbg_hex16_returns [of "drop_bit 16 v" s] by (auto simp: drop_bit_drop_bit)
  obtain s2 where 2: "dbg_hex16 b v s1 = Some s2"
      "uart_eff rx tx oth (sent 1 (hex8_text (drop_bit 8 v) @ hex8_text v)) s1 s2"
    using dbg_hex16_returns by blast
  from uart_eff_sent_trans [OF 1(2) 2(2)] 1(1) 2(1) show ?thesis
    by (auto simp: dbg_hex32_def hex32_text_def)
qed

end

text \<open>With the receiving side: a character that the status register announces is there to be read.\<close>

locale uart_hw = uart_tx b rx tx oth busy
  for b :: "'e a2_bus" and rx tx and oth :: "'e \<Rightarrow> 'o" and busy +
  fixes ready :: "u8 \<Rightarrow> 'e \<Rightarrow> bool"
  assumes valid: "\<exists>v e'. bus_rd b (Uart u uart_valid_rx_data_valid) (m, e) = (v, m, e') \<and>
      uart_obs rx tx oth quiet e e' \<and> (v = 1 \<longrightarrow> ready u e')"
    and data: "ready u e \<Longrightarrow>
      \<exists>c e'. bus_rd b (Uart u uart_data_rx_data) (m, e) = (ucast c, m, e') \<and>
             rx u e = c # rx u e' \<and> (\<forall>j. j \<noteq> u \<longrightarrow> rx j e' = rx j e) \<and>
             (\<forall>j. tx j e' = tx j e) \<and> oth e' = oth e"
begin

lemma read_cases:
  obtains (none) s' where "udma_uart_readraw b u c0 s = (0, c0, s')" "uart_eff rx tx oth quiet s s'"
  | (some) c s' where "udma_uart_readraw b u c0 s = (1, c, s')" "uart_got rx tx oth u c s s'"
proof -
  obtain v e1 where v: "bus_rd b (Uart u uart_valid_rx_data_valid) (ram s, ext s) = (v, ram s, e1)"
      "uart_obs rx tx oth quiet (ext s) e1" "v = 1 \<longrightarrow> ready u e1"
    using valid by metis
  show ?thesis
  proof (cases "v = 1")
    case True
    with v data [of u e1 "ram s"] obtain c e2 where
      "bus_rd b (Uart u uart_data_rx_data) (ram s, e1) = (ucast c, ram s, e2)" "rx u e1 = c # rx u e2"
      "\<forall>j. j \<noteq> u \<longrightarrow> rx j e2 = rx j e1" "\<forall>j. tx j e2 = tx j e1" "oth e2 = oth e1"
      by auto
    with v True show ?thesis
      by (intro some [of c "s\<lparr>ext := e2\<rparr>"])
        (auto simp: udma_uart_readraw_def rd_def uart_got_def uart_obs_def quiet_def)
  next
    case False
    with v show ?thesis
      by (intro none [of "s\<lparr>ext := e1\<rparr>"]) (auto simp: udma_uart_readraw_def rd_def uart_eff_def)
  qed
qed

end

end
