(* ===== verification/Uart_Protocol.thy ===== *)
theory Uart_Protocol
  imports Uart
begin

text \<open>
  The UART bootloader \<^verbatim>\<open>a2_boot/uartProtocol.c\<close>, a character driven state machine that reads
  Motorola S-records, with the number parser \<^verbatim>\<open>atoh\<close> of \<^verbatim>\<open>a2_boot/main.c\<close>. One call of
  \<open>processUartProtocolFrames\<close> takes at most one character; \<open>uart_protocol_char\<close> is what it does
  with it, one definition per case of the source's switch.
\<close>

section \<open>State\<close>

datatype uart0ProtocolState_t =
    UART0_PROTOCOL_STATE_IDLE
  | UART0_PROTOCOL_GET_RECORD_TYPE
  | UART0_PROTOCOL_GET_COUNT
  | UART0_PROTOCOL_GET_DESTINATION_ADDRESS
  | UART0_PROTOCOL_GET_DATA
  | UART0_PROTOCOL_GET_CRC
  | UART0_PROTOCOL_GET_TERMINATION_CHARACTER

definition UART_PROTOCOL_CONV_BUF_LEN :: nat where "UART_PROTOCOL_CONV_BUF_LEN = 512"
definition UART_PROTOCOL_MEMORY_WRITE_BUF_LEN :: nat where "UART_PROTOCOL_MEMORY_WRITE_BUF_LEN = 256"

record 'e uart_globals = "'e boot_globals" +
  gsUartProtocolConvToHexBuf :: "u8 list"
  gsMemoryWriteBuf :: "u8 list"
  gsUart0FillIndex :: u16
  gsUart0ProtocolState :: uart0ProtocolState_t
  gsSRecordType :: u8
  gsDestinationAddress :: u32
  gsDestinationAddressSizeInBytes :: u16
  gsTotalCountInBytes :: u16
  gsDataCountInBytes :: u16
  gsMemoryWriteBufIndex :: u16
  gsDataRxdCounterInCharacters :: u16
  gsCRCVal :: u8
  gsCalculatedChkSum :: u16

section \<open>Reading hexadecimal numbers\<close>

text \<open>The branch chain of \<^verbatim>\<open>atoh\<close>; a character that is no digit leaves the last digit in place.\<close>

definition atoh_digit :: "u8 \<Rightarrow> u8 \<Rightarrow> u8" where
  "atoh_digit c lChar =
     (if 0x30 \<le> c \<and> c \<le> 0x39 then c - 0x30
      else if 0x41 \<le> c \<and> c \<le> 0x46 then (c - 0x41) + 10
      else if 0x61 \<le> c \<and> c \<le> 0x66 then (c - 0x61) + 10
      else lChar)"

fun atoh_loop :: "u8 list \<Rightarrow> u8 \<Rightarrow> u32 \<Rightarrow> u32" where
  "atoh_loop [] lChar lValue = lValue"
| "atoh_loop (c # cs) lChar lValue =
     (if c \<noteq> 0 \<and> c \<noteq> 0x20
      then let lChar = atoh_digit c lChar in atoh_loop cs lChar (lValue * 16 + ucast lChar)
      else lValue)"

definition atoh :: "u8 list \<Rightarrow> u16 \<Rightarrow> u32" where
  "atoh aBuf aSize = atoh_loop (take (unat aSize) aBuf) 0 0"

section \<open>Replies\<close>

text \<open>A frame buffer is the array the pointer designates, None for a null pointer.\<close>

fun sendUartProtocolFrame_loop ::
  "'e a2_bus \<Rightarrow> u8 \<Rightarrow> u8 list \<Rightarrow> ('e, 'z) machine_scheme \<Rightarrow> (u8 \<times> ('e, 'z) machine_scheme) option" where
  "sendUartProtocolFrame_loop b i [] s = Some (i, s)"
| "sendUartProtocolFrame_loop b i (c # cs) s = do {
     (_, s) \<leftarrow> udma_uart_writeraw b 0 1 [c] s;
     sendUartProtocolFrame_loop b (i + 1) cs s
   }"

definition sendUartProtocolFrame ::
  "'e a2_bus \<Rightarrow> u8 list option \<Rightarrow> u8 \<Rightarrow> ('e, 'z) machine_scheme \<Rightarrow> (u8 \<times> ('e, 'z) machine_scheme) option" where
  "sendUartProtocolFrame b aUartProtocolFrameBuf aFrameSize s =
     (case aUartProtocolFrameBuf of None \<Rightarrow> Some (0, s)
      | Some frame \<Rightarrow> sendUartProtocolFrame_loop b 0 (take (unat aFrameSize) frame) s)"

definition crlf :: "u8 list" where "crlf = [0x0D, 0x0A]"

definition sendUartBootMeFrame ::
  "'e a2_bus \<Rightarrow> ('e, 'z) machine_scheme \<Rightarrow> (u8 \<times> ('e, 'z) machine_scheme) option" where
  "sendUartBootMeFrame b s = sendUartProtocolFrame b (Some (str ''A2 BOOTME'' @ crlf)) 11 s"

definition sendUartOKorNotOKFrame ::
  "'e a2_bus \<Rightarrow> u8 \<Rightarrow> ('e, 'z) machine_scheme \<Rightarrow> (u8 \<times> ('e, 'z) machine_scheme) option" where
  "sendUartOKorNotOKFrame b aSts s =
     (if aSts = 1 then sendUartProtocolFrame b (Some (str ''OK'' @ crlf)) 4 s
      else if aSts = 0 then sendUartProtocolFrame b (Some (str ''NOT OK'' @ crlf)) 8 s
      else Some (0, s))"

definition parseUartProtocolFrame ::
  "'e a2_bus \<Rightarrow> u8 list \<Rightarrow> ('e, 'z) boot_globals_scheme \<Rightarrow> ('e, 'z) boot_globals_scheme option" where
  "parseUartProtocolFrame b aBuf s = do {
     let s = (if gStopUartMsgFlg s = 0 then s\<lparr>gStopUartMsgFlg := 1\<rparr> else s);
     let s = (if gStopI2CBootLoaderFlg s = 0 then s\<lparr>gStopI2CBootLoaderFlg := 1\<rparr> else s);
     s \<leftarrow> dbg_str b aBuf s;
     (_, s) \<leftarrow> sendUartOKorNotOKFrame b 1 s;
     Some s
   }"

section \<open>The cases of the state machine\<close>

text \<open>Writes through the two running indices, with the array bounds made explicit.\<close>

definition conv_put :: "u8 \<Rightarrow> ('e, 'z) uart_globals_scheme \<Rightarrow> ('e, 'z) uart_globals_scheme option" where
  "conv_put c s =
     (if unat (gsUart0FillIndex s) < length (gsUartProtocolConvToHexBuf s)
      then Some (s\<lparr>gsUartProtocolConvToHexBuf := (gsUartProtocolConvToHexBuf s)[unat (gsUart0FillIndex s) := c],
                   gsUart0FillIndex := gsUart0FillIndex s + 1\<rparr>)
      else None)"

definition mem_put :: "u8 \<Rightarrow> ('e, 'z) uart_globals_scheme \<Rightarrow> ('e, 'z) uart_globals_scheme option" where
  "mem_put c s =
     (if unat (gsMemoryWriteBufIndex s) < length (gsMemoryWriteBuf s)
      then Some (s\<lparr>gsMemoryWriteBuf := (gsMemoryWriteBuf s)[unat (gsMemoryWriteBufIndex s) := c],
                   gsMemoryWriteBufIndex := gsMemoryWriteBufIndex s + 1\<rparr>)
      else None)"

definition conv_value :: "('e, 'z) uart_globals_scheme \<Rightarrow> u32" where
  "conv_value s = atoh (gsUartProtocolConvToHexBuf s) (gsUart0FillIndex s)"

definition uart_case_idle ::
  "u8 \<Rightarrow> ('e, 'z) uart_globals_scheme \<Rightarrow> (exit \<times> ('e, 'z) uart_globals_scheme) option" where
  "uart_case_idle lChar s =
     (if lChar = 0x53
      then let s = s\<lparr>gsUart0ProtocolState := UART0_PROTOCOL_GET_RECORD_TYPE\<rparr>;
               s = (if gStopUartMsgFlg s = 0 then s\<lparr>gStopUartMsgFlg := 1\<rparr> else s);
               s = (if gStopI2CBootLoaderFlg s = 0 then s\<lparr>gStopI2CBootLoaderFlg := 1\<rparr> else s)
           in Some (Continue, s)
      else Some (Continue, s))"

text \<open>
  The record type fixes the size of the address field; type 5 leaves it as it is and an unknown
  type changes nothing but the stored type.
\<close>

definition srec_start :: "('e, 'z) uart_globals_scheme \<Rightarrow> ('e, 'z) uart_globals_scheme" where
  "srec_start s = s\<lparr>gsUart0ProtocolState := UART0_PROTOCOL_GET_COUNT,
                    gsUart0FillIndex := 0, gsCalculatedChkSum := 0\<rparr>"

definition uart_case_record_type ::
  "u8 \<Rightarrow> ('e, 'z) uart_globals_scheme \<Rightarrow> (exit \<times> ('e, 'z) uart_globals_scheme) option" where
  "uart_case_record_type lChar s =
     (let s = s\<lparr>gsSRecordType := lChar\<rparr>; t = gsSRecordType s in
      if t = 0x30 then Some (Continue, srec_start (s\<lparr>gsDestinationAddressSizeInBytes := 2\<rparr>))
      else if t = 0x31 then Some (Continue, srec_start (s\<lparr>gsDestinationAddressSizeInBytes := 2\<rparr>))
      else if t = 0x32 then Some (Continue, srec_start (s\<lparr>gsDestinationAddressSizeInBytes := 3\<rparr>))
      else if t = 0x33 then Some (Continue, srec_start (s\<lparr>gsDestinationAddressSizeInBytes := 4\<rparr>))
      else if t = 0x35 then Some (Continue, srec_start s)
      else if t = 0x37 then Some (Continue, srec_start (s\<lparr>gsDestinationAddressSizeInBytes := 4\<rparr>))
      else if t = 0x38 then Some (Continue, srec_start (s\<lparr>gsDestinationAddressSizeInBytes := 3\<rparr>))
      else if t = 0x39 then Some (Continue, srec_start (s\<lparr>gsDestinationAddressSizeInBytes := 2\<rparr>))
      else Some (Continue, s))"

definition uart_case_count ::
  "u8 \<Rightarrow> ('e, 'z) uart_globals_scheme \<Rightarrow> (exit \<times> ('e, 'z) uart_globals_scheme) option" where
  "uart_case_count lChar s0 =
     within (conv_put lChar s0) s0 (\<lambda>s.
       if gsUart0FillIndex s \<ge> 2
       then within (conv_put 0 s) s (\<lambda>s.
         let total = ucast (conv_value s)
         in Some (Continue, s\<lparr>gsTotalCountInBytes := total,
              gsDataCountInBytes := total - gsDestinationAddressSizeInBytes s - 1, gsUart0FillIndex := 0,
              gsCalculatedChkSum := gsCalculatedChkSum s + total,
              gsUart0ProtocolState := UART0_PROTOCOL_GET_DESTINATION_ADDRESS\<rparr>))
       else Some (Continue, s))"

definition uart_case_address ::
  "u8 \<Rightarrow> ('e, 'z) uart_globals_scheme \<Rightarrow> (exit \<times> ('e, 'z) uart_globals_scheme) option" where
  "uart_case_address lChar s0 =
     within (conv_put lChar s0) s0 (\<lambda>s.
       if unat (gsUart0FillIndex s) \<ge> 2 * unat (gsDestinationAddressSizeInBytes s)
       then within (conv_put 0 s) s (\<lambda>s.
         let a = conv_value s;
             t = gsSRecordType s
         in Some (Continue, s\<lparr>gsDestinationAddress := a,
              gsCalculatedChkSum := gsCalculatedChkSum s + ucast (a AND 0xFF) +
                ucast (drop_bit 8 (a AND 0xFF00)) + ucast (drop_bit 16 (a AND 0xFF0000)) +
                ucast (drop_bit 24 (a AND 0xFF000000)),
              gsUart0FillIndex := 0, gsDataRxdCounterInCharacters := 0, gsMemoryWriteBufIndex := 0,
              gsUart0ProtocolState :=
                (if t = 0x30 \<or> t = 0x31 \<or> t = 0x32 \<or> t = 0x33 then UART0_PROTOCOL_GET_DATA
                 else if t = 0x37 \<or> t = 0x38 \<or> t = 0x39 then UART0_PROTOCOL_GET_CRC
                 else gsUart0ProtocolState s)\<rparr>))
       else Some (Continue, s))"

text \<open>
  The checksum loop counts with an unsigned char against a 16 bit limit, so it does not end for
  a limit above 255.
\<close>

partial_function (option) uart_sum_loop :: "u8 \<Rightarrow> u16 \<Rightarrow> u8 list \<Rightarrow> u16 \<Rightarrow> u16 option" where
  "uart_sum_loop i n xs chk =
     (if ucast i < n then uart_sum_loop (i + 1) n xs (chk + ucast (xs ! unat i)) else Some chk)"

definition uart_case_data ::
  "u8 \<Rightarrow> ('e, 'z) uart_globals_scheme \<Rightarrow> (exit \<times> ('e, 'z) uart_globals_scheme) option" where
  "uart_case_data lChar s0 =
     within (conv_put lChar s0) s0 (\<lambda>s.
       within (if gsUart0FillIndex s = 2
               then do { s \<leftarrow> conv_put 0 s; s \<leftarrow> mem_put (ucast (conv_value s)) s; Some (s\<lparr>gsUart0FillIndex := 0\<rparr>) }
               else Some s) s (\<lambda>s.
         let s = s\<lparr>gsDataRxdCounterInCharacters := gsDataRxdCounterInCharacters s + 1\<rparr> in
         if unat (gsDataRxdCounterInCharacters s) \<ge> 2 * unat (gsDataCountInBytes s)
         then do {
           chk \<leftarrow> uart_sum_loop 0 (gsMemoryWriteBufIndex s) (gsMemoryWriteBuf s) (gsCalculatedChkSum s);
           Some (Continue, s\<lparr>gsCalculatedChkSum := chk, gsUart0FillIndex := 0,
             gsDataRxdCounterInCharacters := 0, gsUart0ProtocolState := UART0_PROTOCOL_GET_CRC\<rparr>)
         }
         else Some (Continue, s)))"

text \<open>What a record whose checksum matches does before the reply.\<close>

definition uart_record_ok ::
  "'e a2_bus \<Rightarrow> ('e, 'z) uart_globals_scheme \<Rightarrow> (exit \<times> ('e, 'z) uart_globals_scheme) option" where
  "uart_record_ok b s =
     (let t = gsSRecordType s; a = gsDestinationAddress s in
      if a \<noteq> 0
      then if t = 0x31 \<or> t = 0x32 \<or> t = 0x33
           then Some (Continue, s\<lparr>ram := store_bytes a (take (unat (gsMemoryWriteBufIndex s)) (gsMemoryWriteBuf s)) (ram s)\<rparr>)
           else if t = 0x37 \<or> t = 0x38 \<or> t = 0x39
           then do {
             s \<leftarrow> dbg_str b (0x0A # str ''UART BL JMP '') s;
             s \<leftarrow> dbg_hex32 b a s;
             s \<leftarrow> dbg_str b (str '' '') s;
             Some (JumpTo a, s)
           }
           else Some (Continue, s)
      else Some (Continue, s))"

definition uart_case_crc ::
  "'e a2_bus \<Rightarrow> u8 \<Rightarrow> ('e, 'z) uart_globals_scheme \<Rightarrow> (exit \<times> ('e, 'z) uart_globals_scheme) option" where
  "uart_case_crc b lChar s0 =
     within (conv_put lChar s0) s0 (\<lambda>s.
       if gsUart0FillIndex s \<ge> 2
       then within (conv_put 0 s) s (\<lambda>s.
         let s = s\<lparr>gsCRCVal := ucast (conv_value s)\<rparr>;
             s = s\<lparr>gsCalculatedChkSum := gsCalculatedChkSum s AND 0xFF\<rparr>;
             s = s\<lparr>gsCalculatedChkSum := gsCalculatedChkSum s XOR 0xFF\<rparr>
         in if gsCalculatedChkSum s = ucast (gsCRCVal s)
            then do {
              (x, s) \<leftarrow> uart_record_ok b s;
              if x = Continue
              then do {
                (_, s) \<leftarrow> sendUartOKorNotOKFrame b 1 s;
                Some (Continue, s\<lparr>gsUart0FillIndex := 0, gsMemoryWriteBufIndex := 0,
                  gsUart0ProtocolState := UART0_PROTOCOL_GET_TERMINATION_CHARACTER\<rparr>)
              }
              else Some (x, s)
            }
            else do {
              s \<leftarrow> dbg_str b (0x0A # str ''CHKSUM ERR '') s;
              s \<leftarrow> dbg_hex8 b (ucast (gsCalculatedChkSum s)) s;
              s \<leftarrow> dbg_hex8 b (ucast (gsCRCVal s)) s;
              (_, s) \<leftarrow> sendUartOKorNotOKFrame b 0 s;
              Some (Continue, s\<lparr>gsUart0FillIndex := 0, gsMemoryWriteBufIndex := 0,
                gsUart0ProtocolState := UART0_PROTOCOL_GET_TERMINATION_CHARACTER\<rparr>)
            })
       else Some (Continue, s))"

definition uart_case_termination ::
  "u8 \<Rightarrow> ('e, 'z) uart_globals_scheme \<Rightarrow> (exit \<times> ('e, 'z) uart_globals_scheme) option" where
  "uart_case_termination lChar s =
     Some (Continue, s\<lparr>gsSRecordType := 0, gsDestinationAddress := 0, gsDataRxdCounterInCharacters := 0,
       gsDestinationAddressSizeInBytes := 0, gsCalculatedChkSum := 0, gsCRCVal := 0,
       gsUart0FillIndex := 0, gsMemoryWriteBufIndex := 0, gsTotalCountInBytes := 0,
       gsUart0ProtocolState := UART0_PROTOCOL_STATE_IDLE\<rparr>)"

definition uart_protocol_char ::
  "'e a2_bus \<Rightarrow> u8 \<Rightarrow> ('e, 'z) uart_globals_scheme \<Rightarrow> (exit \<times> ('e, 'z) uart_globals_scheme) option" where
  "uart_protocol_char b lChar s = (case gsUart0ProtocolState s of
       UART0_PROTOCOL_STATE_IDLE \<Rightarrow> uart_case_idle lChar s
     | UART0_PROTOCOL_GET_RECORD_TYPE \<Rightarrow> uart_case_record_type lChar s
     | UART0_PROTOCOL_GET_COUNT \<Rightarrow> uart_case_count lChar s
     | UART0_PROTOCOL_GET_DESTINATION_ADDRESS \<Rightarrow> uart_case_address lChar s
     | UART0_PROTOCOL_GET_DATA \<Rightarrow> uart_case_data lChar s
     | UART0_PROTOCOL_GET_CRC \<Rightarrow> uart_case_crc b lChar s
     | UART0_PROTOCOL_GET_TERMINATION_CHARACTER \<Rightarrow> uart_case_termination lChar s)"

text \<open>
  Every case of the switch begins by reading one character from UART 0 and does nothing when
  there is none.
\<close>

definition processUartProtocolFrames ::
  "'e a2_bus \<Rightarrow> ('e, 'z) uart_globals_scheme \<Rightarrow> (exit \<times> ('e, 'z) uart_globals_scheme) option" where
  "processUartProtocolFrames b s =
     (case udma_uart_readraw b 0 0 s of (lSts, lChar, s) \<Rightarrow>
        if lSts = 1 then uart_protocol_char b lChar s else Some (Continue, s))"

end
