(* ===== verification/I2cs_Hal.thy ===== *)
theory I2cs_Hal
  imports Machine
begin

text \<open>
  The access routines of the I2C slave, \<^verbatim>\<open>a2_boot/hal_apb_i2cs.c\<close>, one definition per C function.
  The locale \<open>i2cs_hw\<close> states what the bootloader relies on of the peripheral, as its
  documentation describes it: a one byte mailbox in each direction, the status of the incoming one
  being cleared when the message is read, and a FIFO in each direction whose read flags are
  non-zero while it holds data. Inside it every routine is shown to be one operation on the
  abstract peripheral \<open>i2cs_view\<close>.
\<close>

section \<open>The access routines\<close>

definition i2cs_get ::
  "'e a2_bus \<Rightarrow> i2cs_reg \<Rightarrow> ('e, 'z) machine_scheme \<Rightarrow> u8 \<times> ('e, 'z) machine_scheme" where
  "i2cs_get b r s = (case rd b (I2cs r) s of (v, s) \<Rightarrow> (ucast v, s))"

definition hal_get_apb_i2cs_slave_address ::
  "'e a2_bus \<Rightarrow> ('e, 'z) machine_scheme \<Rightarrow> u8 \<times> ('e, 'z) machine_scheme" where
  "hal_get_apb_i2cs_slave_address b s = i2cs_get b i2cs_dev_address_slave_addr s"

definition hal_set_apb_i2cs_slave_address ::
  "'e a2_bus \<Rightarrow> u8 \<Rightarrow> ('e, 'z) machine_scheme \<Rightarrow> ('e, 'z) machine_scheme" where
  "hal_set_apb_i2cs_slave_address b aSlaveAddress s = wr b (I2cs i2cs_dev_address_slave_addr) (ucast aSlaveAddress) s"

definition hal_set_apb_i2cs_slave_on_off ::
  "'e a2_bus \<Rightarrow> u8 \<Rightarrow> ('e, 'z) machine_scheme \<Rightarrow> u8 \<times> ('e, 'z) machine_scheme" where
  "hal_set_apb_i2cs_slave_on_off b aStatus s =
     (let s = (if aStatus = 1 then wr b (I2cs i2cs_enable_ip_enable) 1 s
               else if aStatus = 0 then wr b (I2cs i2cs_enable_ip_enable) 0 s
               else s)
      in i2cs_get b i2cs_enable_ip_enable s)"

definition hal_get_i2cs_fifo_i2c_apb_read_data_port ::
  "'e a2_bus \<Rightarrow> ('e, 'z) machine_scheme \<Rightarrow> u8 \<times> ('e, 'z) machine_scheme" where
  "hal_get_i2cs_fifo_i2c_apb_read_data_port b s = i2cs_get b i2cs_fifo_i2c_apb_read_data_port s"

definition hal_set_i2cs_fifo_apb_i2c_write_data_port ::
  "'e a2_bus \<Rightarrow> u8 \<Rightarrow> ('e, 'z) machine_scheme \<Rightarrow> ('e, 'z) machine_scheme" where
  "hal_set_i2cs_fifo_apb_i2c_write_data_port b aData s =
     wr b (I2cs i2cs_fifo_apb_i2c_write_data_port) (ucast aData) s"

definition hal_get_i2cs_fifo_i2c_apb_write_flags ::
  "'e a2_bus \<Rightarrow> ('e, 'z) machine_scheme \<Rightarrow> u8 \<times> ('e, 'z) machine_scheme" where
  "hal_get_i2cs_fifo_i2c_apb_write_flags b s = i2cs_get b i2cs_fifo_i2c_apb_write_flags s"

definition hal_get_i2cs_fifo_i2c_apb_read_flags ::
  "'e a2_bus \<Rightarrow> ('e, 'z) machine_scheme \<Rightarrow> u8 \<times> ('e, 'z) machine_scheme" where
  "hal_get_i2cs_fifo_i2c_apb_read_flags b s = i2cs_get b i2cs_fifo_i2c_apb_read_flags s"

definition hal_get_i2cs_fifo_apb_i2c_read_flags ::
  "'e a2_bus \<Rightarrow> ('e, 'z) machine_scheme \<Rightarrow> u8 \<times> ('e, 'z) machine_scheme" where
  "hal_get_i2cs_fifo_apb_i2c_read_flags b s = i2cs_get b i2cs_fifo_apb_i2c_read_flags s"

definition hal_get_i2cs_fifo_apb_i2c_write_flags ::
  "'e a2_bus \<Rightarrow> ('e, 'z) machine_scheme \<Rightarrow> u8 \<times> ('e, 'z) machine_scheme" where
  "hal_get_i2cs_fifo_apb_i2c_write_flags b s = i2cs_get b i2cs_fifo_apb_i2c_write_flags s"

definition hal_get_i2cs_msg_i2c_apb ::
  "'e a2_bus \<Rightarrow> ('e, 'z) machine_scheme \<Rightarrow> u8 \<times> ('e, 'z) machine_scheme" where
  "hal_get_i2cs_msg_i2c_apb b s = i2cs_get b i2cs_msg_i2c_apb s"

definition hal_get_i2cs_msg_i2c_apb_status ::
  "'e a2_bus \<Rightarrow> ('e, 'z) machine_scheme \<Rightarrow> u8 \<times> ('e, 'z) machine_scheme" where
  "hal_get_i2cs_msg_i2c_apb_status b s = i2cs_get b i2cs_msg_i2c_apb_status s"

definition hal_set_i2cs_msg_apb_i2c ::
  "'e a2_bus \<Rightarrow> u8 \<Rightarrow> ('e, 'z) machine_scheme \<Rightarrow> ('e, 'z) machine_scheme" where
  "hal_set_i2cs_msg_apb_i2c b aData s = wr b (I2cs i2cs_msg_apb_i2c) (ucast aData) s"

definition hal_get_i2cs_msg_apb_i2c_status ::
  "'e a2_bus \<Rightarrow> ('e, 'z) machine_scheme \<Rightarrow> u8 \<times> ('e, 'z) machine_scheme" where
  "hal_get_i2cs_msg_apb_i2c_status b s = i2cs_get b i2cs_msg_apb_i2c_status s"

text \<open>The two counting loops between the writes only let time pass.\<close>

definition hal_i2cs_fifo_i2c_apb_FIFO_flush ::
  "'e a2_bus \<Rightarrow> ('e, 'z) machine_scheme \<Rightarrow> ('e, 'z) machine_scheme" where
  "hal_i2cs_fifo_i2c_apb_FIFO_flush b s =
     wr b (I2cs i2cs_fifo_i2c_apb_flush_enable) 0 (wr b (I2cs i2cs_fifo_i2c_apb_flush_enable) 1 s)"

definition hal_i2cs_fifo_apb_i2c_FIFO_flush ::
  "'e a2_bus \<Rightarrow> ('e, 'z) machine_scheme \<Rightarrow> ('e, 'z) machine_scheme" where
  "hal_i2cs_fifo_apb_i2c_FIFO_flush b s =
     wr b (I2cs i2cs_fifo_apb_i2c_flush_enable) 0 (wr b (I2cs i2cs_fifo_apb_i2c_flush_enable) 1 s)"

section \<open>The peripheral as the host sees it\<close>

text \<open>
  \<open>inq\<close> are the bytes that reads of the incoming FIFO give until its flags say that it is empty: its
  contents (at most 256 bytes) and those that the host adds in the meantime.
\<close>

record i2cs_view =
  pending :: bool
  message :: u8
  inq :: "u8 list"
  outq :: "u8 list"
  posted :: "u8 list"

text \<open>
  \<open>i2cs_eff\<close> relates two machine states between which only the peripherals changed, the I2C slave
  to the given view and nothing else.
\<close>

definition i2cs_eff ::
  "('e \<Rightarrow> i2cs_view) \<Rightarrow> ('e \<Rightarrow> 'o) \<Rightarrow> i2cs_view \<Rightarrow> ('e, 'z) machine_scheme \<Rightarrow> ('e, 'z) machine_scheme \<Rightarrow> bool" where
  "i2cs_eff view oth v s s' \<longleftrightarrow>
     (\<exists>e'. s' = s\<lparr>ext := e'\<rparr> \<and> view e' = v \<and> oth e' = oth (ext s))"

lemma i2cs_eff_refl: "i2cs_eff view oth (view (ext s)) s s"
  by (auto simp: i2cs_eff_def intro!: exI [of _ "ext s"])

lemma i2cs_eff_trans:
  "i2cs_eff view oth v s s1 \<Longrightarrow> i2cs_eff view oth w s1 s2 \<Longrightarrow> i2cs_eff view oth w s s2"
  by (auto simp: i2cs_eff_def)

lemma i2cs_eff_view: "i2cs_eff view oth v s s' \<Longrightarrow> view (ext s') = v"
  by (auto simp: i2cs_eff_def)

lemma i2cs_eff_ram: "i2cs_eff view oth v s s' \<Longrightarrow> ram s' = ram s"
  by (auto simp: i2cs_eff_def)

locale i2cs_hw =
  fixes b :: "'e a2_bus"
    and view :: "'e \<Rightarrow> i2cs_view"
    and oth :: "'e \<Rightarrow> 'o"
  assumes status_rd: "\<exists>v e'. bus_rd b (I2cs i2cs_msg_i2c_apb_status) (m, e) = (v, m, e') \<and>
      ((ucast v :: u8) \<noteq> 0 \<longleftrightarrow> pending (view e)) \<and> view e' = view e \<and> oth e' = oth e"
    and message_rd: "\<exists>e'. bus_rd b (I2cs i2cs_msg_i2c_apb) (m, e) = (ucast (message (view e)), m, e') \<and>
      view e' = (view e)\<lparr>pending := False\<rparr> \<and> oth e' = oth e"
    and flags_rd: "\<exists>v e'. bus_rd b (I2cs i2cs_fifo_i2c_apb_read_flags) (m, e) = (v, m, e') \<and>
      ((ucast v :: u8) \<noteq> 0 \<longleftrightarrow> inq (view e) \<noteq> []) \<and> view e' = view e \<and> oth e' = oth e"
    and port_rd: "inq (view e) = c # cs \<Longrightarrow>
      \<exists>e'. bus_rd b (I2cs i2cs_fifo_i2c_apb_read_data_port) (m, e) = (ucast c, m, e') \<and>
           view e' = (view e)\<lparr>inq := cs\<rparr> \<and> oth e' = oth e"
    and message_wr: "\<exists>e'. bus_wr b (I2cs i2cs_msg_apb_i2c) (ucast d) (m, e) = (m, e') \<and>
      view e' = (view e)\<lparr>posted := posted (view e) @ [d]\<rparr> \<and> oth e' = oth e"
    and port_wr: "\<exists>e'. bus_wr b (I2cs i2cs_fifo_apb_i2c_write_data_port) (ucast d) (m, e) = (m, e') \<and>
      view e' = (view e)\<lparr>outq := outq (view e) @ [d]\<rparr> \<and> oth e' = oth e"
    and flush_wr: "\<exists>e'. bus_wr b (I2cs i2cs_fifo_apb_i2c_flush_enable) 0
        (bus_wr b (I2cs i2cs_fifo_apb_i2c_flush_enable) 1 (m, e)) = (m, e') \<and>
      view e' = (view e)\<lparr>outq := []\<rparr> \<and> oth e' = oth e"
begin

lemma get_status:
  "\<exists>v s'. hal_get_i2cs_msg_i2c_apb_status b s = (v, s') \<and> (v \<noteq> 0 \<longleftrightarrow> pending (view (ext s))) \<and>
     i2cs_eff view oth (view (ext s)) s s'"
  using status_rd [of "ram s" "ext s"]
  by (auto simp: hal_get_i2cs_msg_i2c_apb_status_def i2cs_get_def rd_def i2cs_eff_def)

lemma get_message:
  "\<exists>s'. hal_get_i2cs_msg_i2c_apb b s = (message (view (ext s)), s') \<and>
     i2cs_eff view oth ((view (ext s))\<lparr>pending := False\<rparr>) s s'"
  using message_rd [of "ram s" "ext s"]
  by (auto simp: hal_get_i2cs_msg_i2c_apb_def i2cs_get_def rd_def i2cs_eff_def)

lemma get_flags:
  "\<exists>v s'. hal_get_i2cs_fifo_i2c_apb_read_flags b s = (v, s') \<and> (v \<noteq> 0 \<longleftrightarrow> inq (view (ext s)) \<noteq> []) \<and>
     i2cs_eff view oth (view (ext s)) s s'"
  using flags_rd [of "ram s" "ext s"]
  by (auto simp: hal_get_i2cs_fifo_i2c_apb_read_flags_def i2cs_get_def rd_def i2cs_eff_def)

lemma get_port:
  "inq (view (ext s)) = c # cs \<Longrightarrow>
   \<exists>s'. hal_get_i2cs_fifo_i2c_apb_read_data_port b s = (c, s') \<and>
     i2cs_eff view oth ((view (ext s))\<lparr>inq := cs\<rparr>) s s'"
  using port_rd [of "ext s" c cs "ram s"]
  by (auto simp: hal_get_i2cs_fifo_i2c_apb_read_data_port_def i2cs_get_def rd_def i2cs_eff_def)

lemma set_message:
  "i2cs_eff view oth ((view (ext s))\<lparr>posted := posted (view (ext s)) @ [d]\<rparr>) s (hal_set_i2cs_msg_apb_i2c b d s)"
  using message_wr [of d "ram s" "ext s"]
  by (auto simp: hal_set_i2cs_msg_apb_i2c_def wr_def i2cs_eff_def)

lemma set_port:
  "i2cs_eff view oth ((view (ext s))\<lparr>outq := outq (view (ext s)) @ [d]\<rparr>) s
     (hal_set_i2cs_fifo_apb_i2c_write_data_port b d s)"
  using port_wr [of d "ram s" "ext s"]
  by (auto simp: hal_set_i2cs_fifo_apb_i2c_write_data_port_def wr_def i2cs_eff_def)

lemma flush_out:
  "i2cs_eff view oth ((view (ext s))\<lparr>outq := []\<rparr>) s (hal_i2cs_fifo_apb_i2c_FIFO_flush b s)"
  using flush_wr [of "ram s" "ext s"]
  by (auto simp: hal_i2cs_fifo_apb_i2c_FIFO_flush_def wr_def i2cs_eff_def split: prod.splits)

end

end
