(* ===== verification/Crc.thy ===== *)
theory Crc
  imports Prelude
begin

text \<open>
  The CRC unit of the second bootloader: \<^verbatim>\<open>a2_boot/crc.c\<close> with the CRC-CCITT parameters
  selected in \<^verbatim>\<open>a2_boot/include/crc.h\<close>. The definitions keep the two implementations of the
  source, the bitwise \<open>crcSlow\<close> and the table driven \<open>crcFast\<close> over the table that \<open>crcInit\<close>
  fills. The lemmas show that the inner loop is linear and injective, that the two
  implementations agree, and the two error-detection laws a frame check relies on, which the
  locale \<open>frame_check\<close> states for its clients.
\<close>

section \<open>Parameters and the inner loop\<close>

definition POLYNOMIAL :: u16 where "POLYNOMIAL = 0x1021"
definition INITIAL_REMAINDER :: u16 where "INITIAL_REMAINDER = 0xFFFF"
definition FINAL_XOR_VALUE :: u16 where "FINAL_XOR_VALUE = 0x0000"
definition CHECK_VALUE :: u16 where "CHECK_VALUE = 0x29B1"
definition WIDTH :: nat where "WIDTH = 16"
definition TOPBIT :: u16 where "TOPBIT = push_bit (WIDTH - 1) 1"

text \<open>One division step: the body of the two loops over \<^verbatim>\<open>bit\<close>.\<close>

definition crc_divide_bit :: "u16 \<Rightarrow> u16" where
  "crc_divide_bit remainder =
     (if remainder AND TOPBIT \<noteq> 0 then push_bit 1 remainder XOR POLYNOMIAL
      else push_bit 1 remainder)"

text \<open>The loop \<^verbatim>\<open>for (bit = 8; bit > 0; --bit)\<close>.\<close>

fun crc_divide_loop :: "nat \<Rightarrow> u16 \<Rightarrow> u16" where
  "crc_divide_loop 0 remainder = remainder"
| "crc_divide_loop (Suc n) remainder = crc_divide_loop n (crc_divide_bit remainder)"

text \<open>
  With the CRC-CCITT parameters the macros \<^verbatim>\<open>REFLECT_DATA\<close> and \<^verbatim>\<open>REFLECT_REMAINDER\<close> are the
  identity, so \<open>reflect\<close> is defined but not called. Its loop variable is an unsigned char, so
  the loop over \<^verbatim>\<open>bit < nBits\<close> ends for every argument.
\<close>

fun reflect_loop :: "nat \<Rightarrow> nat \<Rightarrow> u32 \<Rightarrow> u32 \<Rightarrow> u32" where
  "reflect_loop 0 nBits data reflection = reflection"
| "reflect_loop (Suc todo) nBits data reflection =
     (let i = nBits - Suc todo;
          reflection = (if data AND 0x01 \<noteq> 0
                        then reflection OR push_bit ((nBits - 1) - i) 1 else reflection)
      in reflect_loop todo nBits (drop_bit 1 data) reflection)"

definition reflect :: "u32 \<Rightarrow> u8 \<Rightarrow> u32" where
  "reflect data nBits = reflect_loop (unat nBits) (unat nBits) data 0"

section \<open>The two implementations\<close>

text \<open>
  A message is the array the pointer argument designates; the loops read its first \<^verbatim>\<open>nBytes\<close>
  elements in order. Callers establish that the array has that many.
\<close>

definition crcSlow_byte :: "u8 \<Rightarrow> u16 \<Rightarrow> u16" where
  "crcSlow_byte byte remainder =
     crc_divide_loop 8 (remainder XOR push_bit (WIDTH - 8) (ucast byte))"

definition crcSlow :: "u8 list \<Rightarrow> nat \<Rightarrow> u16" where
  "crcSlow message nBytes =
     fold crcSlow_byte (take nBytes message) INITIAL_REMAINDER XOR FINAL_XOR_VALUE"

definition crcInit_entry :: "nat \<Rightarrow> u16" where
  "crcInit_entry dividend = crc_divide_loop 8 (push_bit (WIDTH - 8) (of_nat dividend))"

definition crcInit :: "u16 list \<Rightarrow> u16 list" where
  "crcInit crcTable =
     fold (\<lambda>dividend tbl. tbl[dividend := crcInit_entry dividend]) [0..<256] crcTable"

definition crcFast_byte :: "u16 list \<Rightarrow> u8 \<Rightarrow> u16 \<Rightarrow> u16" where
  "crcFast_byte crcTable byte remainder =
     (let data = byte XOR ucast (drop_bit (WIDTH - 8) remainder)
      in crcTable ! unat data XOR push_bit 8 remainder)"

definition crcFast :: "u16 list \<Rightarrow> u8 list \<Rightarrow> nat \<Rightarrow> u16" where
  "crcFast crcTable message nBytes =
     fold (crcFast_byte crcTable) (take nBytes message) INITIAL_REMAINDER XOR FINAL_XOR_VALUE"

section \<open>The inner loop is linear and injective\<close>

lemma TOPBIT_test: "r AND TOPBIT \<noteq> 0 \<longleftrightarrow> bit r 15"
  using bit_iff_and_push_bit_not_eq_0 [of r 15] by (simp add: TOPBIT_def WIDTH_def)

lemma bit_times_2: "bit (r * 2 :: u16) n \<longleftrightarrow> n < 16 \<and> 0 < n \<and> bit r (n - 1)"
  by (auto simp: mult.commute [of r] bit_double_iff)

lemma crc_divide_bit_alt:
  "crc_divide_bit r = push_bit 1 r XOR (if bit r 15 then POLYNOMIAL else 0)"
  by (simp add: crc_divide_bit_def TOPBIT_test)

lemma crc_divide_bit_xor:
  "crc_divide_bit (r XOR q) = crc_divide_bit r XOR crc_divide_bit q"
  by (rule bit_eqI) (auto simp: crc_divide_bit_alt bit_simps)

lemma crc_divide_loop_xor:
  "crc_divide_loop n (r XOR q) = crc_divide_loop n r XOR crc_divide_loop n q"
  by (induction n arbitrary: r q) (simp_all add: crc_divide_bit_xor)

lemma crc_divide_bit_eq_0: "crc_divide_bit r = 0 \<longleftrightarrow> r = 0"
proof
  assume z: "crc_divide_bit r = 0"
  have low: "\<not> bit (push_bit 1 r) 0" and "bit POLYNOMIAL 0"
    by (simp_all add: bit_simps POLYNOMIAL_def bit_0)
  moreover from z have "\<not> bit (crc_divide_bit r) 0" by simp
  ultimately have top: "\<not> bit r 15"
    by (auto simp: crc_divide_bit_alt bit_simps split: if_splits)
  with z have shifted: "push_bit 1 r = 0" by (simp add: crc_divide_bit_alt)
  show "r = 0"
  proof (rule bit_eqI)
    fix n
    assume "possible_bit TYPE(u16) n"
    then have "n = 15 \<or> Suc n < 16" by auto
    then show "bit r n = bit 0 n"
    proof
      assume "Suc n < 16"
      then have "bit r n = bit (push_bit 1 r) (Suc n)" by (simp add: bit_times_2)
      with shifted show ?thesis by simp
    qed (use top in simp)
  qed
qed (simp add: crc_divide_bit_alt)

lemma crc_divide_loop_eq_0: "crc_divide_loop n r = 0 \<longleftrightarrow> r = 0"
  by (induction n arbitrary: r) (simp_all add: crc_divide_bit_eq_0)

lemma xor_eq_0_iff: "x XOR y = (0 :: 'a :: len word) \<longleftrightarrow> x = y"
proof
  assume "x XOR y = 0"
  then have "(x XOR y) XOR y = 0 XOR y" by simp
  then show "x = y" by (simp add: xor.assoc)
qed simp

lemma crc_divide_loop_inject:
  "crc_divide_loop n r = crc_divide_loop n q \<longleftrightarrow> r = q"
  using crc_divide_loop_eq_0 [of n "r XOR q"]
  by (simp add: crc_divide_loop_xor xor_eq_0_iff)

text \<open>While the top bit is clear the loop only shifts.\<close>

lemma crc_divide_loop_low:
  "(\<And>i. 16 - n \<le> i \<Longrightarrow> \<not> bit r i) \<Longrightarrow> n \<le> 16 \<Longrightarrow> crc_divide_loop n r = push_bit n r"
proof (induction n arbitrary: r)
  case (Suc n)
  then have "\<not> bit r 15" by simp
  then have "crc_divide_bit r = push_bit 1 r" by (simp add: crc_divide_bit_alt)
  moreover have "crc_divide_loop n (push_bit 1 r) = push_bit n (push_bit 1 r)"
    using Suc.prems by (intro Suc.IH) (auto simp: bit_times_2)
  ultimately show ?case by simp
qed simp

section \<open>The table driven implementation agrees with the bitwise one\<close>

lemma fold_update_nth:
  "i < length t \<Longrightarrow>
   fold (\<lambda>d tbl. tbl[d := f d]) [0..<n] t ! i = (if i < n then f i else t ! i)"
proof (induction n)
  case (Suc n)
  have "length (fold (\<lambda>d tbl. tbl[d := f d]) [0..<n] t) = length t"
    by (induction n) simp_all
  with Suc show ?case by (auto simp: nth_list_update less_Suc_eq)
qed simp

lemma length_crcInit [simp]: "length (crcInit t) = length t"
proof -
  have "length (fold (\<lambda>d tbl. tbl[d := f d]) xs t) = length t" for f :: "nat \<Rightarrow> u16" and xs
    by (induction xs arbitrary: t) simp_all
  then show ?thesis by (simp add: crcInit_def)
qed

lemma crcInit_nth:
  "length t = 256 \<Longrightarrow> i < 256 \<Longrightarrow> crcInit t ! i = crcInit_entry i"
  by (simp add: crcInit_def fold_update_nth)

lemma crcInit_idem: "length t = 256 \<Longrightarrow> length t' = 256 \<Longrightarrow> crcInit t = crcInit t'"
  by (rule nth_equalityI) (simp_all add: crcInit_nth)

lemma word16_split_byte:
  fixes r :: u16 and x :: u8
  shows "r XOR push_bit 8 (ucast x) =
    push_bit 8 (ucast (x XOR ucast (drop_bit 8 r))) XOR take_bit 8 r"
  by (rule bit_eqI) (auto simp: bit_simps)

lemma crc_divide_low_byte: "crc_divide_loop 8 (take_bit 8 r) = push_bit 8 r"
proof -
  have "crc_divide_loop 8 (take_bit 8 r) = push_bit 8 (take_bit 8 r)"
    by (rule crc_divide_loop_low) (auto simp: bit_simps)
  also have "\<dots> = push_bit 8 r"
    by (rule bit_eqI) (auto simp: bit_simps)
  finally show ?thesis .
qed

lemma crcFast_byte_eq:
  assumes "length t = 256"
  shows "crcFast_byte (crcInit t) x r = crcSlow_byte x r"
proof -
  let ?d = "x XOR ucast (drop_bit 8 r) :: u8"
  have "unat ?d < 256" using unsigned_less [of ?d] by simp
  with assms have "crcFast_byte (crcInit t) x r =
      crc_divide_loop 8 (push_bit 8 (ucast ?d)) XOR push_bit 8 r"
    by (simp add: crcFast_byte_def crcInit_nth crcInit_entry_def WIDTH_def Let_def)
  also have "\<dots> = crc_divide_loop 8 (push_bit 8 (ucast ?d) XOR take_bit 8 r)"
    by (simp add: crc_divide_loop_xor crc_divide_low_byte)
  also have "\<dots> = crcSlow_byte x r"
    by (simp add: crcSlow_byte_def WIDTH_def word16_split_byte)
  finally show ?thesis .
qed

lemma crcFast_byte_crcInit:
  "length t = 256 \<Longrightarrow> crcFast_byte (crcInit t) = crcSlow_byte"
  by (intro ext) (rule crcFast_byte_eq)


text \<open>
  C7. After \<open>crcInit\<close> has filled the table, the table driven \<open>crcFast\<close> returns for every
  message and every length the same remainder as the bitwise reference \<open>crcSlow\<close>.
\<close>

theorem crcFast_eq_crcSlow:
  assumes "length crcTable = 256"
  shows "crcFast (crcInit crcTable) message nBytes = crcSlow message nBytes"
  using assms by (simp add: crcFast_def crcSlow_def crcFast_byte_crcInit)

theorem crcFast_eq_crcSlow_witness:
  "crcFast (crcInit (replicate 256 0)) (str ''123456789'') 9 = crcSlow (str ''123456789'') 9"
  by (rule crcFast_eq_crcSlow) simp

section \<open>What the remainder detects\<close>

lemma crcSlow_byte_inject: "crcSlow_byte x r = crcSlow_byte x q \<longleftrightarrow> r = q"
proof -
  have "r XOR z = q XOR z \<longleftrightarrow> r = q" for z
    by (metis xor.assoc xor_self_eq xor.right_neutral)
  then show ?thesis by (simp add: crcSlow_byte_def crc_divide_loop_inject)
qed

lemma push_bit_8_ucast_inject: "push_bit 8 (ucast (x :: u8)) = (push_bit 8 (ucast y) :: u16) \<longleftrightarrow> x = y"
proof
  assume e: "push_bit 8 (ucast x) = (push_bit 8 (ucast y) :: u16)"
  show "x = y"
  proof (rule bit_eqI)
    fix n
    assume "possible_bit TYPE(u8) n"
    then have "n < 8" by simp
    moreover from e have "bit (push_bit 8 (ucast x) :: u16) (n + 8) = bit (push_bit 8 (ucast y) :: u16) (n + 8)"
      by simp
    ultimately show "bit x n = bit y n" by (simp add: bit_simps)
  qed
qed simp

lemma crcSlow_byte_inject_data: "crcSlow_byte x r = crcSlow_byte y r \<longleftrightarrow> x = y"
proof -
  have "r XOR z = r XOR z' \<longleftrightarrow> z = z'" for z z' :: u16
    by (metis xor.assoc xor_self_eq xor.left_neutral)
  then show ?thesis
    by (simp add: crcSlow_byte_def crc_divide_loop_inject WIDTH_def push_bit_8_ucast_inject)
qed

lemma fold_crcSlow_inject: "fold crcSlow_byte xs r = fold crcSlow_byte xs q \<longleftrightarrow> r = q"
  by (induction xs arbitrary: r q) (simp_all add: crcSlow_byte_inject)

definition crc_of :: "u8 list \<Rightarrow> u16" where
  "crc_of message = crcSlow message (length message)"

lemma crc_of_fold: "crc_of m = fold crcSlow_byte m INITIAL_REMAINDER"
  by (simp add: crc_of_def crcSlow_def FINAL_XOR_VALUE_def)

definition crc_hi :: "u16 \<Rightarrow> u8" where "crc_hi c = ucast (drop_bit 8 c)"
definition crc_lo :: "u16 \<Rightarrow> u8" where "crc_lo c = ucast c"

lemma crcSlow_byte_hi: "crcSlow_byte (crc_hi r) r = push_bit 8 r"
proof -
  have "r XOR push_bit 8 (ucast (crc_hi r)) = take_bit 8 r"
    by (rule bit_eqI) (auto simp: crc_hi_def bit_simps)
  then show ?thesis by (simp add: crcSlow_byte_def WIDTH_def crc_divide_low_byte)
qed

lemma crcSlow_byte_lo: "crcSlow_byte (crc_lo r) (push_bit 8 r) = 0"
proof -
  have "push_bit 8 r XOR push_bit 8 (ucast (crc_lo r)) = 0"
    by (rule bit_eqI) (auto simp: crc_lo_def bit_simps)
  then show ?thesis by (simp add: crcSlow_byte_def WIDTH_def crc_divide_loop_eq_0)
qed

lemma crcSlow_two_bytes_eq_0:
  "crcSlow_byte y (crcSlow_byte x r) = 0 \<longleftrightarrow> x = crc_hi r \<and> y = crc_lo r"
proof
  assume "x = crc_hi r \<and> y = crc_lo r"
  then show "crcSlow_byte y (crcSlow_byte x r) = 0"
    by (simp add: crcSlow_byte_hi crcSlow_byte_lo)
next
  assume "crcSlow_byte y (crcSlow_byte x r) = 0"
  then have "crcSlow_byte x r XOR push_bit 8 (ucast y) = 0"
    by (simp add: crcSlow_byte_def [of y] crc_divide_loop_eq_0 WIDTH_def)
  then have "crcSlow_byte x r = push_bit 8 (ucast y)"
    by (metis xor.assoc xor.left_neutral xor_self_eq)
  moreover have "take_bit 8 (ucast y :: u16) = ucast y"
    by (rule bit_eqI) (auto simp: bit_simps dest: bit_imp_le_length)
  then have "crc_divide_loop 8 (ucast y) = push_bit 8 (ucast y)"
    using crc_divide_low_byte [of "ucast y"] by simp
  ultimately have "r XOR push_bit 8 (ucast x) = ucast y"
    by (simp add: crcSlow_byte_def WIDTH_def) (metis crc_divide_loop_inject)
  then have r: "r = push_bit 8 (ucast x) XOR ucast y"
    by (metis xor.assoc xor.commute xor.left_neutral xor_self_eq)
  have "bit x n = bit (crc_hi r) n" "bit y n = bit (crc_lo r) n" if "n < 8" for n
    using that bit_imp_le_length [of y "8 + n"] by (auto simp: r crc_hi_def crc_lo_def bit_simps)
  then show "x = crc_hi r \<and> y = crc_lo r"
    by (intro conjI bit_eqI) simp_all
qed

text \<open>
  C30. Appending the remainder to its message, most significant byte first as the frame format
  does, gives a sequence whose own remainder is zero.
\<close>

theorem crcSlow_residue:
  "crcSlow (message @ [crc_hi (crc_of message), crc_lo (crc_of message)]) (length message + 2) = 0"
  by (simp add: crcSlow_def crc_of_fold FINAL_XOR_VALUE_def crcSlow_byte_hi crcSlow_byte_lo)

text \<open>
  C16. Two messages of the same length that differ in exactly one byte have different
  remainders, wherever the byte is and however many of its bits differ.
\<close>

theorem crcSlow_detects_byte_error:
  assumes "x \<noteq> y"
  shows "crcSlow (xs @ x # ys) (length xs + 1 + length ys) \<noteq>
         crcSlow (xs @ y # ys) (length xs + 1 + length ys)"
  using assms
  by (simp add: crcSlow_def FINAL_XOR_VALUE_def fold_crcSlow_inject crcSlow_byte_inject_data)

theorem crcSlow_detects_byte_error_witness:
  "crcSlow ([1, 2] @ 3 # [4]) (length [1 :: u8, 2] + 1 + length [4 :: u8]) \<noteq>
   crcSlow ([1, 2] @ 7 # [4]) (length [1 :: u8, 2] + 1 + length [4 :: u8])"
  by (rule crcSlow_detects_byte_error) simp

lemma crcSlow_check: "crcSlow (str ''123456789'') 9 = CHECK_VALUE"
  by code_simp

text \<open>
  The two implementations produce the check value that \<^verbatim>\<open>crc.h\<close> records for CRC-CCITT on
  the standard nine byte test message.
\<close>

theorem crc_check_value:
  "crcFast (crcInit (replicate 256 0)) (str ''123456789'') 9 = CHECK_VALUE"
  by (simp add: crcFast_def crcFast_byte_crcInit flip: crcSlow_check) (simp add: crcSlow_def)

section \<open>The contract for frame checks\<close>

text \<open>
  What a protocol relies on: the remainder of a whole frame is zero exactly when its last two
  bytes are the remainder of the rest, and one altered byte changes the remainder. A client
  concludes that no frame with one altered byte is accepted.
\<close>

locale frame_check =
  fixes crc :: "u8 list \<Rightarrow> u16"
  assumes residue_iff: "crc (m @ [x, y]) = 0 \<longleftrightarrow> x = crc_hi (crc m) \<and> y = crc_lo (crc m)"
    and byte_error: "x \<noteq> y \<Longrightarrow> crc (xs @ x # ys) \<noteq> crc (xs @ y # ys)"
begin

lemma altered_byte_rejected:
  assumes "i < length m" and "m ! i \<noteq> x"
  shows "crc (m[i := x]) \<noteq> crc m"
proof -
  from assms(1) have "m = take i m @ m ! i # drop (Suc i) m"
    by (rule id_take_nth_drop)
  moreover from assms(1) have "m[i := x] = take i m @ x # drop (Suc i) m"
    by (rule upd_conv_take_nth_drop)
  ultimately show ?thesis using assms(2) byte_error by metis
qed

lemma altered_frame_rejected:
  assumes "i < length m + 2" and "(m @ [crc_hi (crc m), crc_lo (crc m)]) ! i \<noteq> z"
    and "f = (m @ [crc_hi (crc m), crc_lo (crc m)])[i := z]"
  shows "\<not> (f ! length m = crc_hi (crc (take (length m) f)) \<and>
            f ! Suc (length m) = crc_lo (crc (take (length m) f)))"
proof -
  let ?n = "length m"
  have len: "length f = Suc (Suc ?n)" by (simp add: assms(3))
  then have "f = take ?n f @ [f ! ?n, f ! Suc ?n]"
    by (intro nth_equalityI) (auto simp: nth_append less_Suc_eq)
  then have "crc f = 0 \<longleftrightarrow> f ! ?n = crc_hi (crc (take ?n f)) \<and> f ! Suc ?n = crc_lo (crc (take ?n f))"
    by (metis residue_iff)
  moreover have "crc (m @ [crc_hi (crc m), crc_lo (crc m)]) = 0" by (simp add: residue_iff)
  moreover have "crc f \<noteq> crc (m @ [crc_hi (crc m), crc_lo (crc m)])"
    unfolding assms(3) using assms(1,2) by (intro altered_byte_rejected) simp_all
  ultimately show ?thesis by simp
qed

end

definition crc_of_table :: "u16 list \<Rightarrow> u8 list \<Rightarrow> u16" where
  "crc_of_table crcTable m = crcFast crcTable m (length m)"

lemma crc_of_table_init: "length t = 256 \<Longrightarrow> crc_of_table (crcInit t) m = crc_of m"
  by (simp add: crc_of_table_def crcFast_def crcFast_byte_crcInit crc_of_fold FINAL_XOR_VALUE_def)

interpretation crc16: frame_check "crc_of_table (crcInit (replicate 256 0))"
proof unfold_locales
  fix m :: "u8 list" and x y :: u8 and xs ys :: "u8 list"
  have t: "crc_of_table (crcInit (replicate 256 0)) m = crc_of m" for m
    by (rule crc_of_table_init) simp
  show "crc_of_table (crcInit (replicate 256 0)) (m @ [x, y]) = 0 \<longleftrightarrow>
      x = crc_hi (crc_of_table (crcInit (replicate 256 0)) m) \<and>
      y = crc_lo (crc_of_table (crcInit (replicate 256 0)) m)"
    by (simp add: t crc_of_fold crcSlow_two_bytes_eq_0)
  assume "x \<noteq> y"
  then show "crc_of_table (crcInit (replicate 256 0)) (xs @ x # ys) \<noteq>
      crc_of_table (crcInit (replicate 256 0)) (xs @ y # ys)"
    by (simp add: t crc_of_fold fold_crcSlow_inject crcSlow_byte_inject_data)
qed

section \<open>Bit reflection\<close>

lemma reflect_loop_bit:
  assumes "todo \<le> nBits" and "nBits \<le> 32"
    and "\<And>i. i < todo \<Longrightarrow> \<not> bit reflection i"
  shows "bit (reflect_loop todo nBits data reflection) i =
    (if i < todo then bit data (todo - 1 - i) else bit reflection i)"
  using assms
proof (induction todo arbitrary: data reflection)
  case (Suc todo)
  let ?r = "if data AND 1 \<noteq> 0 then reflection OR push_bit todo 1 else reflection"
  have step: "reflect_loop (Suc todo) nBits data reflection = reflect_loop todo nBits (drop_bit 1 data) ?r"
    using Suc.prems(1) by (simp add: Let_def)
  have odd: "data AND 1 \<noteq> 0 \<longleftrightarrow> bit data 0"
    using bit_iff_and_push_bit_not_eq_0 [of data 0] by simp
  have r: "bit ?r j = (if j = todo then bit data 0 else bit reflection j)" for j
    using Suc.prems odd by (auto simp: bit_simps)
  then have "bit (reflect_loop todo nBits (drop_bit 1 data) ?r) i =
      (if i < todo then bit (drop_bit 1 data) (todo - 1 - i) else bit ?r i)"
    using Suc.prems by (intro Suc.IH) auto
  then show ?case
    unfolding step using r by (auto simp: bit_simps less_Suc_eq Suc_diff_Suc)
qed simp

lemma reflect_bit:
  "nBits \<le> 32 \<Longrightarrow> bit (reflect data nBits) i = (i < unat nBits \<and> bit data (unat nBits - 1 - i))"
proof -
  assume "nBits \<le> 32"
  then have "unat nBits \<le> 32" by (simp add: word_le_nat_alt)
  then show ?thesis by (simp add: reflect_def reflect_loop_bit)
qed

text \<open>
  For up to 32 bits \<open>reflect\<close> mirrors the low \<open>nBits\<close> bits of its argument about their
  middle and clears the rest, so applying it twice keeps exactly those bits.
\<close>

theorem reflect_involution:
  assumes "nBits \<le> 32"
  shows "reflect (reflect data nBits) nBits = take_bit (unat nBits) data"
  using assms by (intro bit_eqI) (auto simp: reflect_bit bit_simps)

theorem reflect_involution_witness: "reflect (reflect 0x1A3 8) 8 = take_bit (unat (8 :: u8)) 0x1A3"
  by (rule reflect_involution) simp

end
