(* ===== verification/I2C_Protocol.thy ===== *)
theory I2C_Protocol
  imports I2cs_Hal Crc Uart_Protocol
begin

text \<open>
  The I2C bootloader \<^verbatim>\<open>a2_boot/I2CProtocol.c\<close>: the host fills the FIFO of the I2C slave with a
  frame (header, payload, CRC), announces it in the mailbox, and the bootloader drains the FIFO
  into a buffer, checks the CRC and loads the payload or jumps. A frame buffer is the byte array
  the pointer designates; the packed structure \<^verbatim>\<open>I2CProtocolFrame_t\<close> is read from its bytes in
  little-endian order. Destinations lie in RAM outside the bootloader's own variables.
\<close>

section \<open>Constants and state\<close>

definition I2C_PROTOCOL_MAX_PAYLOAD_SIZE :: u8 where "I2C_PROTOCOL_MAX_PAYLOAD_SIZE = 240"
definition I2C_PROTOCOL_FRAME_HEADER_SIZE :: nat where "I2C_PROTOCOL_FRAME_HEADER_SIZE = 8"
definition A2_TO_HOST_FRAME_HEADER :: u16 where "A2_TO_HOST_FRAME_HEADER = 0x5A70"
definition HOST_TO_A2_FRAME_HEADER :: u16 where "HOST_TO_A2_FRAME_HEADER = 0xA507"
definition A2_I2C_BL_WITHOUT_CRC_IS_READY_CHECK_CMD :: u8 where "A2_I2C_BL_WITHOUT_CRC_IS_READY_CHECK_CMD = 0x19"
definition A2_I2C_BL_WITH_CRC_IS_READY_CHECK_CMD :: u8 where "A2_I2C_BL_WITH_CRC_IS_READY_CHECK_CMD = 0x20"
definition A2_I2C_BL_IS_READY_CHECK_RSP_YES :: u8 where "A2_I2C_BL_IS_READY_CHECK_RSP_YES = 0x21"
definition I2C_NEW_FRAME_READY_BYTE :: u8 where "I2C_NEW_FRAME_READY_BYTE = 0x23"
definition A2_LOAD_MEMORY_CMD :: u8 where "A2_LOAD_MEMORY_CMD = 0x24"
definition A2_JUMP_TO_ADDRESS_CMD :: u8 where "A2_JUMP_TO_ADDRESS_CMD = 0x26"
definition A2_RESET_REASON_POR :: u8 where "A2_RESET_REASON_POR = 0x27"
definition A2_RESET_REASON_WDT :: u8 where "A2_RESET_REASON_WDT = 0x28"
definition A2_CORRUPTED_FRAME_RCVD :: u8 where "A2_CORRUPTED_FRAME_RCVD = 0x30"
definition A2_GOOD_FRAME_RCVD :: u8 where "A2_GOOD_FRAME_RCVD = 0x31"

lemmas i2c_consts =
  I2C_PROTOCOL_MAX_PAYLOAD_SIZE_def I2C_PROTOCOL_FRAME_HEADER_SIZE_def A2_TO_HOST_FRAME_HEADER_def
  HOST_TO_A2_FRAME_HEADER_def A2_I2C_BL_WITHOUT_CRC_IS_READY_CHECK_CMD_def
  A2_I2C_BL_WITH_CRC_IS_READY_CHECK_CMD_def A2_I2C_BL_IS_READY_CHECK_RSP_YES_def
  I2C_NEW_FRAME_READY_BYTE_def A2_LOAD_MEMORY_CMD_def A2_JUMP_TO_ADDRESS_CMD_def
  A2_CORRUPTED_FRAME_RCVD_def A2_GOOD_FRAME_RCVD_def

record 'e i2c_globals = "'e uart_globals" +
  gsI2CProtocolFrameRxBuf :: "u8 list"
  gUseCRCFlg :: u8
  gsI2CProtocolFrameTxBuf :: "u8 list"
  gsI2CProtocolFrameCounter :: u16
  lastSentFrameSize :: u8
  crcTable :: "u16 list"

section \<open>The frame structure\<close>

record I2CProtocolFrame_t =
  SOF :: u16
  A2RamAddress :: u32
  CmdType :: u8
  DataLen :: u8
  Data :: "u8 list"

definition frame_at :: "u8 list \<Rightarrow> I2CProtocolFrame_t" where
  "frame_at aBuf = \<lparr>SOF = le16 aBuf, A2RamAddress = le32 (drop 2 aBuf), CmdType = aBuf ! 6,
     DataLen = aBuf ! 7, Data = drop 8 aBuf\<rparr>"

section \<open>Forming and sending frames\<close>

text \<open>The length is an int in \<^verbatim>\<open>crcFast\<close>; the 16 bit argument is never negative.\<close>

definition I2CProtocolFrameCalChksum :: "u16 list \<Rightarrow> u8 list \<Rightarrow> u16 \<Rightarrow> u16" where
  "I2CProtocolFrameCalChksum tbl cbuf pkt_size = crcFast tbl cbuf (unat pkt_size)"

text \<open>
  The frame is written into the caller's buffer; the size argument \<^verbatim>\<open>aBufSize\<close> is not looked at,
  so a buffer that is too short for the payload is overrun. A null data pointer leaves the
  payload bytes as they are.
\<close>

definition formI2CProtocolFrame ::
  "u16 list \<Rightarrow> u8 list \<Rightarrow> u8 \<Rightarrow> u8 list option \<Rightarrow> u8 \<Rightarrow> u8 \<Rightarrow> (u8 \<times> u8 list) option" where
  "formI2CProtocolFrame tbl aBuf aCmdType aData aDataLen aCRCOnOff =
     (if aDataLen \<le> I2C_PROTOCOL_MAX_PAYLOAD_SIZE
      then if length aBuf < unat aDataLen + 10 \<or> (case aData of None \<Rightarrow> False | Some d \<Rightarrow> length d < unat aDataLen) then None
      else
        let n = unat aDataLen;
            payload = (case aData of None \<Rightarrow> take n (drop 8 aBuf) | Some d \<Rightarrow> take n d);
            filled = bytes16 A2_TO_HOST_FRAME_HEADER @ take 4 (drop 2 aBuf) @ [aCmdType, aDataLen] @ payload;
            ui16Crc = (if aCRCOnOff = 1
                       then I2CProtocolFrameCalChksum tbl filled (ucast aDataLen + 8) else 0)
        in Some (aDataLen + 2 + 8, filled @ [ucast (drop_bit 8 ui16Crc), ucast ui16Crc] @ drop (n + 10) aBuf)
      else Some (0, aBuf))"

fun i2c_send_loop :: "'e a2_bus \<Rightarrow> u8 list \<Rightarrow> ('e, 'z) machine_scheme \<Rightarrow> ('e, 'z) machine_scheme" where
  "i2c_send_loop b [] s = s"
| "i2c_send_loop b (c # cs) s = i2c_send_loop b cs (hal_set_i2cs_fifo_apb_i2c_write_data_port b c s)"

definition sendI2CProtocolFrame ::
  "'e a2_bus \<Rightarrow> u8 list option \<Rightarrow> u8 \<Rightarrow> ('e, 'z) i2c_globals_scheme \<Rightarrow>
   (u8 \<times> ('e, 'z) i2c_globals_scheme) option" where
  "sendI2CProtocolFrame b aI2CProtocolFrameBuf aFrameSize s =
     (let resend = (aI2CProtocolFrameBuf = None \<and> aFrameSize = 0);
          lFrame = (if resend then Some (gsI2CProtocolFrameTxBuf s) else aI2CProtocolFrameBuf);
          lFrameSize = (if resend then lastSentFrameSize s else aFrameSize);
          s = (if resend then s else s\<lparr>lastSentFrameSize := aFrameSize\<rparr>);
          s = hal_i2cs_fifo_apb_i2c_FIFO_flush b s
      in case lFrame of
           None \<Rightarrow> None
         | Some frame \<Rightarrow>
             if length frame < unat lFrameSize then None
             else
               let s = i2c_send_loop b (take (unat lFrameSize) frame) s;
                   s = hal_set_i2cs_msg_apb_i2c b I2C_NEW_FRAME_READY_BYTE s
               in Some (lFrameSize, s\<lparr>gsI2CProtocolFrameCounter := gsI2CProtocolFrameCounter s + 1\<rparr>))"

section \<open>Receiving frames\<close>

text \<open>
  The received CRC is the last two bytes, most significant first. The index expressions are
  ints, so a frame of fewer than two bytes makes the size argument of the CRC wrap to more than
  65533 and the indices negative.
\<close>

definition i2c_crc_pair :: "u8 list \<Rightarrow> u16 \<Rightarrow> ('e, 'z) i2c_globals_scheme \<Rightarrow> (u16 \<times> u16) option" where
  "i2c_crc_pair aBuf aLen s =
     (if gUseCRCFlg s = 1
      then let n = aLen - 2 in
        if length aBuf < unat n \<or> unat aLen < 2 \<or> length aBuf < unat aLen then None
        else Some (I2CProtocolFrameCalChksum (crcTable s) aBuf n, le16 [aBuf ! (unat aLen - 1), aBuf ! (unat aLen - 2)])
      else Some (0, 0))"

definition i2c_command ::
  "'e a2_bus \<Rightarrow> I2CProtocolFrame_t \<Rightarrow> ('e, 'z) i2c_globals_scheme \<Rightarrow>
   (exit \<times> ('e, 'z) i2c_globals_scheme) option" where
  "i2c_command b frame s =
     (if CmdType frame = A2_LOAD_MEMORY_CMD
      then if length (Data frame) < unat (DataLen frame) then Some (Undefined OutOfBounds, s)
           else Some (Continue, s\<lparr>ram := store_bytes (A2RamAddress frame) (take (unat (DataLen frame)) (Data frame)) (ram s)\<rparr>)
      else if CmdType frame = A2_JUMP_TO_ADDRESS_CMD
      then do {
        s \<leftarrow> dbg_str b (0x0A # str ''I2C BL JMP '') s;
        s \<leftarrow> dbg_hex32 b (A2RamAddress frame) s;
        s \<leftarrow> dbg_str b (str '' '') s;
        Some (JumpTo (A2RamAddress frame), s)
      }
      else Some (Continue, s))"

definition parseI2CProtocolFrame ::
  "'e a2_bus \<Rightarrow> u8 list \<Rightarrow> u16 \<Rightarrow> ('e, 'z) i2c_globals_scheme \<Rightarrow>
   (exit \<times> ('e, 'z) i2c_globals_scheme) option" where
  "parseI2CProtocolFrame b aBuf aLen s =
     (case i2c_crc_pair aBuf aLen s of
        None \<Rightarrow> Some (Undefined OutOfBounds, s)
      | Some (ui16Crc, lRxdCrc) \<Rightarrow>
          if lRxdCrc = ui16Crc
          then if length aBuf < 8 then Some (Undefined OutOfBounds, s)
          else if SOF (frame_at aBuf) = HOST_TO_A2_FRAME_HEADER
          then do {
            (x, s) \<leftarrow> i2c_command b (frame_at aBuf) s;
            if x = Continue
            then Some (Continue, if gUseCRCFlg s = 1 then hal_set_i2cs_msg_apb_i2c b A2_GOOD_FRAME_RCVD s else s)
            else Some (x, s)
          }
          else Some (Continue, s)
          else Some (Continue, if gUseCRCFlg s = 1 then hal_set_i2cs_msg_apb_i2c b A2_CORRUPTED_FRAME_RCVD s else s))"

text \<open>
  The loop that drains the FIFO into the receive buffer. It ends when the read flags are zero;
  the index is not checked against the buffer, so a byte beyond its end is an overrun (Inl with
  the state at that moment).
\<close>

partial_function (option) i2c_drain ::
  "'e a2_bus \<Rightarrow> u16 \<Rightarrow> ('e, 'z) i2c_globals_scheme \<Rightarrow>
   (('e, 'z) i2c_globals_scheme + u16 \<times> ('e, 'z) i2c_globals_scheme) option" where
  "i2c_drain b i s =
     (case hal_get_i2cs_fifo_i2c_apb_read_flags b s of (f, s) \<Rightarrow>
        if f \<noteq> 0
        then case hal_get_i2cs_fifo_i2c_apb_read_data_port b s of (d, s) \<Rightarrow>
          if unat i < length (gsI2CProtocolFrameRxBuf s)
          then i2c_drain b (i + 1) (s\<lparr>gsI2CProtocolFrameRxBuf := (gsI2CProtocolFrameRxBuf s)[unat i := d]\<rparr>)
          else Some (Inl s)
        else Some (Inr (i, s)))"

definition processI2CProtocolFrames ::
  "'e a2_bus \<Rightarrow> ('e, 'z) i2c_globals_scheme \<Rightarrow> (exit \<times> ('e, 'z) i2c_globals_scheme) option" where
  "processI2CProtocolFrames b s =
     (case hal_get_i2cs_msg_i2c_apb_status b s of (st, s) \<Rightarrow>
        if st = 0 then Some (Continue, s)
        else case hal_get_i2cs_msg_i2c_apb b (s\<lparr>gStopUartMsgFlg := 1, gStopUartBootLoaderFlg := 1\<rparr>) of (m1, s) \<Rightarrow>
          if m1 = A2_I2C_BL_WITHOUT_CRC_IS_READY_CHECK_CMD
          then Some (Continue, hal_set_i2cs_msg_apb_i2c b A2_I2C_BL_IS_READY_CHECK_RSP_YES (s\<lparr>gUseCRCFlg := 0\<rparr>))
          else case hal_get_i2cs_msg_i2c_apb b s of (m2, s) \<Rightarrow>
            if m2 = A2_I2C_BL_WITH_CRC_IS_READY_CHECK_CMD
            then Some (Continue, hal_set_i2cs_msg_apb_i2c b A2_I2C_BL_IS_READY_CHECK_RSP_YES (s\<lparr>gUseCRCFlg := 1\<rparr>))
            else case hal_get_i2cs_msg_i2c_apb b s of (m3, s) \<Rightarrow>
              if m3 = I2C_NEW_FRAME_READY_BYTE
              then do {
                r \<leftarrow> i2c_drain b 0 s;
                case r of
                  Inl s \<Rightarrow> Some (Undefined OutOfBounds, s)
                | Inr (i, s) \<Rightarrow> parseI2CProtocolFrame b (gsI2CProtocolFrameRxBuf s) i s
              }
              else Some (Continue, s))"

end
