(* ===== verification/Spi_Flash.thy ===== *)
theory Spi_Flash
  imports I2C_Protocol
begin

text \<open>
  The QSPI driver \<^verbatim>\<open>a2_boot/spi.c\<close>: every routine assembles a list of command words for the uDMA
  QSPI channel in \<^verbatim>\<open>auccmd\<close>, hands it to the channel and, where it reads, polls until the
  receive size is zero. The meaning of the command words is the peripheral's: \<open>spi_out\<close> is the bit
  stream a list of them drives and \<open>spi_in\<close> the number of bytes it receives. The locale
  \<open>flash_hw\<close> states what the driver relies on, in terms of that bit stream: a flash that is sent
  the read opcode 03 and a 24 bit address answers with its contents from there on, the channel
  stores them at the receive address, and polling ends.
\<close>

section \<open>Constants and state\<close>

definition kSPIm_Cfg :: u32 where "kSPIm_Cfg = push_bit 28 0x0"
definition kSPIm_SOT :: u32 where "kSPIm_SOT = push_bit 28 0x1"
definition kSPIm_SendCmd :: u32 where "kSPIm_SendCmd = push_bit 28 0x2"
definition kSPIm_TxData :: u32 where "kSPIm_TxData = push_bit 28 0x6"
definition kSPIm_RxData :: u32 where "kSPIm_RxData = push_bit 28 0x7"
definition kSPIm_EOT :: u32 where "kSPIm_EOT = push_bit 28 0x9"

lemmas kSPIm_defs =
  kSPIm_Cfg_def kSPIm_SOT_def kSPIm_SendCmd_def kSPIm_TxData_def kSPIm_RxData_def kSPIm_EOT_def

record 'e spi_globals = "'e i2c_globals" +
  aucclkdiv :: u8
  auccmd :: "u32 list"

section \<open>The routines\<close>

text \<open>None as the result stands for the division by a zero clock frequency.\<close>

definition udma_qspim_open ::
  "a2_config \<Rightarrow> 'e a2_bus \<Rightarrow> u8 \<Rightarrow> u32 \<Rightarrow> ('e, 'z) spi_globals_scheme \<Rightarrow> u16 option \<times> ('e, 'z) spi_globals_scheme" where
  "udma_qspim_open cfg b qspim_id clk_freq s =
     (let s = rmw b Udma_ctrl_reg_rst (\<lambda>v. v OR push_bit (unat qspim_id) (UDMA_CTRL_QSPIM0_CLKEN cfg)) s;
          s = rmw b Udma_ctrl_reg_rst (\<lambda>v. v AND NOT (push_bit (unat qspim_id) (UDMA_CTRL_QSPIM0_CLKEN cfg))) s;
          s = rmw b Udma_ctrl_reg_cg (\<lambda>v. v OR push_bit (unat qspim_id) (UDMA_CTRL_QSPIM0_CLKEN cfg)) s
      in if clk_freq = 0 then (None, s)
         else (Some 0, s\<lparr>aucclkdiv := ucast (5000000 div clk_freq)\<rparr>))"

text \<open>The command words go to the front of the static buffer, which keeps the rest.\<close>

definition set_cmds :: "u32 list \<Rightarrow> ('e, 'z) spi_globals_scheme \<Rightarrow> ('e, 'z) spi_globals_scheme" where
  "set_cmds ws s = s\<lparr>auccmd := ws @ drop (length ws) (auccmd s)\<rparr>"

text \<open>The three writes that start the command list.\<close>

definition start_cmds ::
  "'e a2_bus \<Rightarrow> u8 \<Rightarrow> nat \<Rightarrow> ('e, 'z) spi_globals_scheme \<Rightarrow> ('e, 'z) spi_globals_scheme" where
  "start_cmds b q n s =
     wr b (Qspi q cmd_cfg_en) 1 (wr b (Qspi q cmd_size) (of_nat n * 4) (wp b (Qspi q cmd_saddr) (Words (auccmd s)) s))"

definition stop_channels :: "'e a2_bus \<Rightarrow> ('e, 'z) machine_scheme \<Rightarrow> ('e, 'z) machine_scheme" where
  "stop_channels b s = wr b (Qspi 0 cmd_cfg_en) 0 (wr b (Qspi 0 tx_cfg_en) 0 (wr b (Qspi 0 rx_cfg_en) 0 s))"

definition start_rx :: "'e a2_bus \<Rightarrow> u32 \<Rightarrow> u32 \<Rightarrow> ('e, 'z) machine_scheme \<Rightarrow> ('e, 'z) machine_scheme" where
  "start_rx b l2addr n s =
     wr b (Qspi 0 rx_cfg_en) 1 (wr b (Qspi 0 rx_size) n (wr b (Qspi 0 rx_saddr) l2addr s))"

text \<open>The loop \<^verbatim>\<open>while (pqspim_regs->rx_size != 0) {}\<close>.\<close>

partial_function (option) qspi_wait_rx :: "'e a2_bus \<Rightarrow> ('e, 'z) machine_scheme \<Rightarrow> ('e, 'z) machine_scheme option" where
  "qspi_wait_rx b s = (case rd b (Qspi 0 rx_size) s of (v, s) \<Rightarrow> if v \<noteq> 0 then qspi_wait_rx b s else Some s)"

definition udma_flash_readid ::
  "'e a2_bus \<Rightarrow> u32 \<Rightarrow> ('e, 'z) spi_globals_scheme \<Rightarrow> ('e, 'z) spi_globals_scheme option" where
  "udma_flash_readid b l2addr s =
     (let s = stop_channels b s;
          s = set_cmds [kSPIm_Cfg OR ucast (aucclkdiv s), kSPIm_SOT, kSPIm_SendCmd OR 0x7009f,
                kSPIm_RxData OR (0x00470000 OR (4 - 1)), kSPIm_EOT OR 1] s
      in qspi_wait_rx b (start_cmds b 0 5 (start_rx b l2addr 4 s)))"

definition udma_flash_reset_enable ::
  "'e a2_bus \<Rightarrow> u8 \<Rightarrow> u8 \<Rightarrow> ('e, 'z) spi_globals_scheme \<Rightarrow> u32 \<times> ('e, 'z) spi_globals_scheme" where
  "udma_flash_reset_enable b qspim_id cs s =
     (let s = wr b (Qspi qspim_id cmd_cfg_clr) 1 (wr b (Qspi qspim_id cmd_cfg_en) 0 s);
          s = set_cmds [kSPIm_Cfg OR ucast (aucclkdiv s), kSPIm_SOT OR ucast cs, kSPIm_SendCmd OR 0x70066,
                kSPIm_EOT OR 1] s
      in (0, start_cmds b qspim_id 4 s))"

definition udma_flash_reset_memory ::
  "'e a2_bus \<Rightarrow> u8 \<Rightarrow> u8 \<Rightarrow> ('e, 'z) spi_globals_scheme \<Rightarrow> u32 \<times> ('e, 'z) spi_globals_scheme" where
  "udma_flash_reset_memory b qspim_id cs s =
     (let s = wr b (Qspi qspim_id cmd_cfg_clr) 1 (wr b (Qspi qspim_id cmd_cfg_en) 0 s);
          s = set_cmds [kSPIm_Cfg OR ucast (aucclkdiv s), kSPIm_SOT OR ucast cs, kSPIm_SendCmd OR 0x70099,
                kSPIm_EOT OR 1] s
      in (0, start_cmds b qspim_id 4 s))"

text \<open>
  The address is sent as sixteen and eight bits. \<^verbatim>\<open>read_len-1\<close> is an int, so a length of zero
  sets every bit of the receive command.
\<close>

definition flash_read_cmds :: "u8 \<Rightarrow> u32 \<Rightarrow> u16 \<Rightarrow> u32 list" where
  "flash_read_cmds clkdiv flash_addr read_len =
     [kSPIm_Cfg OR ucast clkdiv, kSPIm_SOT, kSPIm_SendCmd OR 0x70003,
      kSPIm_SendCmd OR 0xf0000 OR (drop_bit 8 flash_addr AND 0xffff),
      kSPIm_SendCmd OR 0x70000 OR (flash_addr AND 0xff),
      kSPIm_RxData OR (0x00470000 OR (ucast read_len - 1)), kSPIm_EOT OR 1]"

definition udma_flash_read ::
  "'e a2_bus \<Rightarrow> u32 \<Rightarrow> u32 \<Rightarrow> u16 \<Rightarrow> ('e, 'z) spi_globals_scheme \<Rightarrow> ('e, 'z) spi_globals_scheme option" where
  "udma_flash_read b flash_addr l2addr read_len s =
     (let s = stop_channels b s;
          s = set_cmds (flash_read_cmds (aucclkdiv s) flash_addr read_len) s
      in qspi_wait_rx b (start_cmds b 0 7 (start_rx b l2addr (ucast read_len) s)))"

definition udma_flash_write ::
  "'e a2_bus \<Rightarrow> u32 \<Rightarrow> u32 \<Rightarrow> u16 \<Rightarrow> ('e, 'z) spi_globals_scheme \<Rightarrow> ('e, 'z) spi_globals_scheme option" where
  "udma_flash_write b flash_addr l2addr write_len s =
     (let s = stop_channels b s;
          s = set_cmds [kSPIm_Cfg OR ucast (aucclkdiv s), kSPIm_SOT, kSPIm_SendCmd OR 0x70006,
                kSPIm_SendCmd OR 0xf0000 OR (drop_bit 8 flash_addr AND 0xffff),
                kSPIm_SendCmd OR 0x70000 OR (flash_addr AND 0xff),
                kSPIm_TxData OR (0x00470000 OR (ucast write_len - 1)), kSPIm_EOT OR 1] s;
          s = wr b (Qspi 0 tx_saddr) l2addr s;
          s = wr b (Qspi 0 tx_size) (ucast write_len - 1) s;
          s = wr b (Qspi 0 tx_cfg_datasize) 2 s;
          s = wr b (Qspi 0 tx_cfg_en) 1 s
      in qspi_wait_rx b (start_cmds b 0 7 s))"

definition udma_qspim_write ::
  "'e a2_bus \<Rightarrow> u8 \<Rightarrow> u8 \<Rightarrow> u16 \<Rightarrow> u8 list \<Rightarrow> ('e, 'z) spi_globals_scheme \<Rightarrow> ('e, 'z) spi_globals_scheme" where
  "udma_qspim_write b qspim_id cs write_len write_data s =
     (let s = wr b (Qspi qspim_id rx_cfg_clr) 1 s;
          s = wr b (Qspi qspim_id tx_cfg_clr) 1 s;
          s = wr b (Qspi qspim_id cmd_cfg_clr) 1 s;
          s = set_cmds [kSPIm_Cfg OR ucast (aucclkdiv s), kSPIm_SOT OR ucast cs,
                kSPIm_TxData OR 0x0470000 OR (ucast write_len - 1), kSPIm_EOT OR 1] s;
          s = wp b (Qspi qspim_id tx_saddr) (Bytes write_data) s;
          s = wr b (Qspi qspim_id tx_size) (ucast write_len - 1) s;
          s = wr b (Qspi qspim_id tx_cfg_datasize) 2 s;
          s = wr b (Qspi qspim_id tx_cfg_en) 1 s
      in start_cmds b qspim_id 4 s)"

section \<open>What the command words mean\<close>

text \<open>
  The high four bits are the operation. A send command drives the low bits of the word, as many
  as the size field in bits 16 to 20 says plus one, most significant first. A receive command of
  eight bit words takes one byte more than its low sixteen bits say.
\<close>

definition cmd_op :: "u32 \<Rightarrow> nat" where "cmd_op w = unat (drop_bit 28 w)"
definition cmd_bits :: "u32 \<Rightarrow> nat" where "cmd_bits w = unat (drop_bit 16 w AND 0x1F)"

fun spi_out :: "u32 list \<Rightarrow> bool list" where
  "spi_out [] = []"
| "spi_out (w # ws) = (if cmd_op w = 2 then map (bit w) (rev [0..<Suc (cmd_bits w)]) else []) @ spi_out ws"

fun spi_in :: "u32 list \<Rightarrow> nat" where
  "spi_in [] = 0"
| "spi_in (w # ws) = (if cmd_op w = 7 \<and> cmd_bits w = 7 then unat (w AND 0xFFFF) + 1 else 0) + spi_in ws"

definition byte_bits :: "u8 \<Rightarrow> bool list" where
  "byte_bits x = map (bit x) (rev [0..<8])"

text \<open>The request of a flash read: the opcode and three address bytes.\<close>

definition read_request :: "u32 \<Rightarrow> bool list" where
  "read_request a = byte_bits 0x03 @ byte_bits (ucast (drop_bit 16 a)) @ byte_bits (ucast (drop_bit 8 a)) @ byte_bits (ucast a)"

lemma cmd_or: "cmd_op (x OR y) = unat (drop_bit 28 x OR drop_bit 28 y)"
    "cmd_bits (x OR y) = unat ((drop_bit 16 x OR drop_bit 16 y) AND 0x1F)"
  by (simp_all add: cmd_op_def cmd_bits_def)

lemma small_drop:
  fixes x :: u32
  assumes "unat x < 2 ^ 16"
  shows "drop_bit 16 x = 0" and "drop_bit 28 x = 0"
proof -
  have "unat (drop_bit 16 x) = 0" "unat (drop_bit 28 x) = 0"
    using assms unfolding unat_drop_bit_eq by (simp_all add: drop_bit_eq_div)
  then show "drop_bit 16 x = 0" "drop_bit 28 x = 0" by (simp_all only: unat_eq_0)
qed

lemma drop_ucast_small:
  "drop_bit 16 (ucast (c :: u8) :: u32) = 0" "drop_bit 28 (ucast (c :: u8) :: u32) = 0"
proof -
  have "unat (ucast c :: u32) < 2 ^ 16"
    using unsigned_less [of c, where 'a = nat] by simp
  then show "drop_bit 16 (ucast c :: u32) = 0" "drop_bit 28 (ucast c :: u32) = 0"
    by (rule small_drop)+
qed

lemma unat_and_mask_16: "unat (x AND 65535 :: u32) = unat x mod 2 ^ 16"
proof -
  have "x AND 65535 = take_bit 16 x"
    by (simp add: take_bit_eq_mask mask_eq_exp_minus_1)
  then show ?thesis by (simp only: unsigned_take_bit_eq) (simp add: take_bit_eq_mod)
qed

lemma unat_len_minus_one:
  fixes n :: u16
  assumes "0 < n"
  shows "unat (ucast n - 1 :: u32) = unat n - 1"
proof -
  from assms have "(ucast n :: u32) \<noteq> 0"
    by (simp add: word_less_nat_alt flip: unat_eq_0)
  then show ?thesis by (simp add: unat_minus_one)
qed

lemma drop_len:
  fixes n :: u16
  assumes "0 < n"
  shows "drop_bit 16 (ucast n - 1 :: u32) = 0" "drop_bit 28 (ucast n - 1 :: u32) = 0"
proof -
  have "unat (ucast n - 1 :: u32) < 2 ^ 16"
    using unsigned_less [of n, where 'a = nat] by (simp add: unat_len_minus_one [OF assms])
  then show "drop_bit 16 (ucast n - 1 :: u32) = 0" "drop_bit 28 (ucast n - 1 :: u32) = 0"
    by (rule small_drop)+
qed

lemma spi_in_flash_read:
  assumes "0 < n"
  shows "spi_in (flash_read_cmds clkdiv a n) = unat n"
proof -
  have "(ucast n - 1 :: u32) AND 65535 = ucast n - 1"
    using unsigned_less [of n, where 'a = nat]
    by (intro word_unat_eq_iff [THEN iffD2]) (simp add: unat_and_mask_16 unat_len_minus_one [OF assms])
  then have "unat ((1879048192 OR 4653056 OR ucast n - 1 :: u32) AND 65535) = unat n - 1"
    by (simp add: and.commute bit.conj_disj_distrib unat_len_minus_one [OF assms])
  moreover have "0 < unat n" using assms by (simp add: word_less_nat_alt)
  ultimately show ?thesis
    by (simp add: flash_read_cmds_def kSPIm_defs cmd_or drop_ucast_small drop_len [OF assms])
      (simp add: cmd_op_def cmd_bits_def drop_ucast_small)
qed

lemma spi_out_flash_read:
  assumes "0 < n"
  shows "spi_out (flash_read_cmds clkdiv a n) = read_request a"
  by (simp add: flash_read_cmds_def kSPIm_defs cmd_or drop_ucast_small drop_len [OF assms])
    (simp add: cmd_op_def cmd_bits_def read_request_def byte_bits_def upt_rec drop_ucast_small bit_simps)

section \<open>What the driver relies on\<close>

text \<open>
  The flash contents are a memory; a read from \<open>a\<close> delivers the bytes from the address the three
  address bytes form. \<open>todo\<close> is the transfer in progress: where it stores, and what.
\<close>

definition flash_bytes :: "mem \<Rightarrow> u32 \<Rightarrow> nat \<Rightarrow> u8 list" where
  "flash_bytes flash a n = load_bytes (a AND 0xFFFFFF) n flash"

lemma length_flash_bytes [simp]: "length (flash_bytes flash a n) = n"
  by (simp add: flash_bytes_def)

lemma flash_bytes_low:
  assumes "unat fa < 2 ^ 24"
  shows "flash_bytes flash fa n = load_bytes fa n flash"
proof -
  have "fa AND 0xFFFFFF = take_bit 24 fa"
    by (simp add: take_bit_eq_mask mask_eq_exp_minus_1)
  also have "take_bit 24 fa = fa"
    using assms by (intro word_unat_eq_iff [THEN iffD2]) (simp only: unsigned_take_bit_eq, simp add: take_bit_nat_eq_self)
  finally show ?thesis by (simp add: flash_bytes_def)
qed
definition start_read ::
  "'e a2_bus \<Rightarrow> u32 \<Rightarrow> u32 \<Rightarrow> u32 list \<Rightarrow> u32 \<Rightarrow> mem \<times> 'e \<Rightarrow> mem \<times> 'e" where
  "start_read b l2addr n ws k me =
     bus_wr b (Qspi 0 cmd_cfg_en) 1 (bus_wr b (Qspi 0 cmd_size) k (bus_wp b (Qspi 0 cmd_saddr) (Words ws)
      (bus_wr b (Qspi 0 rx_cfg_en) 1 (bus_wr b (Qspi 0 rx_size) n (bus_wr b (Qspi 0 rx_saddr) l2addr
       (bus_wr b (Qspi 0 cmd_cfg_en) 0 (bus_wr b (Qspi 0 tx_cfg_en) 0 (bus_wr b (Qspi 0 rx_cfg_en) 0 me))))))))"

lemma set_cmds_on_bus: "set_cmds ws (on_bus f s) = on_bus f (set_cmds ws s)"
  by (simp add: set_cmds_def on_bus_def split: prod.splits)

lemma start_cmds_on_bus:
  "start_cmds b 0 n (start_rx b l2addr r (set_cmds ws (stop_channels b s))) =
     on_bus (start_read b l2addr r (ws @ drop (length ws) (auccmd s)) (of_nat n * 4)) (set_cmds ws s)"
proof -
  have au: "auccmd (on_bus f s) = auccmd s" for f and s :: "('e, 'z) spi_globals_scheme"
    by (simp add: on_bus_def split: prod.splits)
  show ?thesis
    unfolding start_cmds_def start_rx_def stop_channels_def wr_on_bus wp_on_bus set_cmds_on_bus au on_bus_on_bus start_read_def
    by (simp add: set_cmds_def)
qed

locale flash_hw =
  fixes b :: "'e a2_bus"
    and flash :: mem
    and idle :: "'e \<Rightarrow> bool"
    and todo :: "'e \<Rightarrow> (u32 \<times> u8 list) option"
    and left :: "'e \<Rightarrow> nat"
    and oth :: "'e \<Rightarrow> 'o"
  assumes read_starts: "idle e \<Longrightarrow> 4 * length ws = unat k \<Longrightarrow> spi_out ws = read_request a \<Longrightarrow>
      spi_in ws = unat n \<Longrightarrow>
      \<exists>e'. start_read b l2addr n (ws @ xs) k (m, e) = (m, e') \<and>
           todo e' = Some (l2addr, flash_bytes flash a (unat n)) \<and> oth e' = oth e"
    and read_polls: "todo e = Some (l, ds) \<Longrightarrow>
      \<exists>v m' e'. bus_rd b (Qspi 0 rx_size) (m, e) = (v, m', e') \<and> oth e' = oth e \<and>
        (if v = 0 then m' = store_bytes l ds m \<and> idle e'
         else left e' < left e \<and> todo e' = Some (l, ds) \<and> store_bytes l ds m' = store_bytes l ds m)"
begin

lemma wait_rx_returns:
  assumes "todo (ext s) = Some (l, ds)"
  shows "\<exists>e'. qspi_wait_rx b s = Some (s\<lparr>ram := store_bytes l ds (ram s), ext := e'\<rparr>) \<and> idle e' \<and> oth e' = oth (ext s)"
  using assms
proof (induction "left (ext s)" arbitrary: s rule: less_induct)
  case less
  obtain v m1 e1 where 1: "rd b (Qspi 0 rx_size) s = (v, s\<lparr>ram := m1, ext := e1\<rparr>)" "oth e1 = oth (ext s)"
      "if v = 0 then m1 = store_bytes l ds (ram s) \<and> idle e1
       else left e1 < left (ext s) \<and> todo e1 = Some (l, ds) \<and> store_bytes l ds m1 = store_bytes l ds (ram s)"
    using read_polls [OF less(2), of "ram s"] by (auto simp: rd_def)
  show ?case
  proof (cases "v = 0")
    case True
    with 1 show ?thesis
      by (intro exI [of _ e1]) (subst qspi_wait_rx.simps, simp)
  next
    case False
    with 1(3) have "left e1 < left (ext s)" "todo e1 = Some (l, ds)"
      and m1: "store_bytes l ds m1 = store_bytes l ds (ram s)" by simp_all
    then obtain e2 where "qspi_wait_rx b (s\<lparr>ram := m1, ext := e1\<rparr>) =
        Some (s\<lparr>ram := store_bytes l ds m1, ext := e2\<rparr>)" "idle e2" "oth e2 = oth e1"
      using less(1) [of "s\<lparr>ram := m1, ext := e1\<rparr>"] by auto
    with False 1(1,2) m1 show ?thesis
      by (intro exI [of _ e2]) (subst qspi_wait_rx.simps, simp)
  qed
qed

lemma flash_read_returns:
  assumes "idle (ext s)" and "0 < n"
  shows "\<exists>e'. udma_flash_read b a l2addr n s =
      Some ((set_cmds (flash_read_cmds (aucclkdiv s) a n) s)\<lparr>ram := store_bytes l2addr (flash_bytes flash a (unat n)) (ram s),
        ext := e'\<rparr>) \<and>
    idle e' \<and> oth e' = oth (ext s)"
proof -
  let ?ws = "flash_read_cmds (aucclkdiv s) a n"
  let ?s0 = "set_cmds ?ws s"
  have four: "4 * length ?ws = unat (28 :: u32)"
    by (simp add: flash_read_cmds_def)
  have inq: "spi_in ?ws = unat (ucast n :: u32)"
    using spi_in_flash_read [OF assms(2)] by simp
  obtain e1 where 1: "start_read b l2addr (ucast n) (?ws @ drop 7 (auccmd s)) 28 (ram s, ext s) = (ram s, e1)"
      "todo e1 = Some (l2addr, flash_bytes flash a (unat n))" "oth e1 = oth (ext s)"
    using read_starts [OF assms(1) four spi_out_flash_read [OF assms(2)] inq, of l2addr "drop 7 (auccmd s)" "ram s"] by auto
  have length7: "length ?ws = 7" by (simp add: flash_read_cmds_def)
  have more: "aucclkdiv (stop_channels b s) = aucclkdiv s"
    by (simp add: stop_channels_def wr_def split: prod.splits)
  have "start_cmds b 0 7 (start_rx b l2addr (ucast n) (set_cmds ?ws (stop_channels b s))) = ?s0\<lparr>ext := e1\<rparr>"
    unfolding start_cmds_on_bus length7 using 1(1) by (simp add: on_bus_def set_cmds_def length7)
  moreover obtain e2 where "qspi_wait_rx b (?s0\<lparr>ext := e1\<rparr>) =
      Some (?s0\<lparr>ext := e1\<rparr>\<lparr>ram := store_bytes l2addr (flash_bytes flash a (unat n)) (ram s), ext := e2\<rparr>)"
      "idle e2" "oth e2 = oth e1"
    using wait_rx_returns [of "?s0\<lparr>ext := e1\<rparr>" l2addr "flash_bytes flash a (unat n)"] 1(2)
    by (auto simp: set_cmds_def)
  ultimately show ?thesis
    using 1(3) more by (intro exI [of _ e2]) (simp add: udma_flash_read_def Let_def)
qed

end

end
