(* ===== verification/Devices.thy ===== *)
theory Devices
  imports Spi_Flash
begin

text \<open>
  A small reference device that meets the contracts the drivers rely on, so that their
  hypotheses are known to be satisfiable: each UART delivers a fixed input, keeps its output and
  is busy for two polls after a transfer, the I2C slave is its abstract
  view, the QSPI channel answers flash reads after one poll that still finds it busy (a bare opcode
  that receives nothing, such as a reset, starts no reception), and
  the register of the debugger holds what was last written to it.
\<close>

record hw =
  h_rx :: "u8 \<Rightarrow> u8 list"
  h_tx :: "u8 \<Rightarrow> u8 list"
  h_buf :: "u8 \<Rightarrow> u8 list"
  h_len :: "u8 \<Rightarrow> u32"
  h_busy :: "u8 \<Rightarrow> nat"
  h_i2cs :: i2cs_view
  h_flash :: mem
  h_rxs :: u32
  h_rxn :: u32
  h_cmds :: "u32 list"
  h_cmdn :: u32
  h_left :: nat
  h_todo :: "(u32 \<times> u8 list) option"
  h_jtag :: u32

fun hw_uart_rd :: "u8 \<Rightarrow> uart_reg \<Rightarrow> hw \<Rightarrow> u32 \<times> hw" where
  "hw_uart_rd u uart_tx_size h =
     (if h_busy h u = 0 then (0, h) else (1, h\<lparr>h_busy := (h_busy h)(u := h_busy h u - 1)\<rparr>))"
| "hw_uart_rd u uart_valid_rx_data_valid h = (if h_rx h u = [] then 0 else 1, h)"
| "hw_uart_rd u uart_data_rx_data h =
     (case h_rx h u of [] \<Rightarrow> (0, h) | c # cs \<Rightarrow> (ucast c, h\<lparr>h_rx := (h_rx h)(u := cs)\<rparr>))"
| "hw_uart_rd u _ h = (0, h)"

fun hw_uart_wr :: "u8 \<Rightarrow> uart_reg \<Rightarrow> u32 \<Rightarrow> hw \<Rightarrow> hw" where
  "hw_uart_wr u uart_tx_size v h = h\<lparr>h_len := (h_len h)(u := v)\<rparr>"
| "hw_uart_wr u uart_tx_cfg_en v h =
     h\<lparr>h_tx := (h_tx h)(u := h_tx h u @ take (unat (h_len h u)) (h_buf h u)), h_busy := (h_busy h)(u := 2)\<rparr>"
| "hw_uart_wr u _ v h = h"

fun hw_i2cs_rd :: "i2cs_reg \<Rightarrow> i2cs_view \<Rightarrow> u32 \<times> i2cs_view" where
  "hw_i2cs_rd i2cs_msg_i2c_apb_status v = (if pending v then 1 else 0, v)"
| "hw_i2cs_rd i2cs_msg_i2c_apb v = (ucast (message v), v\<lparr>pending := False\<rparr>)"
| "hw_i2cs_rd i2cs_fifo_i2c_apb_read_flags v = (if inq v = [] then 0 else 1, v)"
| "hw_i2cs_rd i2cs_fifo_i2c_apb_read_data_port v =
     (case inq v of [] \<Rightarrow> (0, v) | c # cs \<Rightarrow> (ucast c, v\<lparr>inq := cs\<rparr>))"
| "hw_i2cs_rd _ v = (0, v)"

fun hw_i2cs_wr :: "i2cs_reg \<Rightarrow> u32 \<Rightarrow> i2cs_view \<Rightarrow> i2cs_view" where
  "hw_i2cs_wr i2cs_msg_apb_i2c d v = v\<lparr>posted := posted v @ [ucast d]\<rparr>"
| "hw_i2cs_wr i2cs_fifo_apb_i2c_write_data_port d v = v\<lparr>outq := outq v @ [ucast d]\<rparr>"
| "hw_i2cs_wr i2cs_fifo_apb_i2c_flush_enable d v = (if d = 1 then v\<lparr>outq := []\<rparr> else v)"
| "hw_i2cs_wr _ d v = v"

text \<open>The flash decodes the address from the bits it is sent.\<close>

definition sent_addr :: "bool list \<Rightarrow> u32" where
  "sent_addr bs = horner_sum of_bool 2 (rev (drop 8 bs))"

lemma sent_addr_read_request: "sent_addr (read_request a) = a AND 0xFFFFFF"
proof -
  have "rev (drop 8 (read_request a)) = map (bit a) [0..<24]"
    by (simp add: read_request_def byte_bits_def upt_rec bit_simps) (simp add: eval_nat_numeral)
  moreover have "a AND 0xFFFFFF = take_bit 24 a"
    by (simp add: take_bit_eq_mask mask_eq_exp_minus_1)
  ultimately show ?thesis
    by (intro bit_eqI) (auto simp: sent_addr_def bit_horner_sum_bit_word_iff bit_take_bit_iff)
qed

lemma length_read_request: "length (read_request a) = 32"
  by (simp add: read_request_def byte_bits_def)

fun hw_qspi_rd :: "qspi_reg \<Rightarrow> mem \<times> hw \<Rightarrow> u32 \<times> mem \<times> hw" where
  "hw_qspi_rd rx_size (m, h) =
     (case h_todo h of None \<Rightarrow> (0, m, h)
      | Some (l, ds) \<Rightarrow> if h_left h = 0 then (0, store_bytes l ds m, h\<lparr>h_todo := None\<rparr>)
                        else (1, m, h\<lparr>h_left := h_left h - 1\<rparr>))"
| "hw_qspi_rd _ mh = (0, mh)"

fun hw_qspi_wr :: "qspi_reg \<Rightarrow> u32 \<Rightarrow> hw \<Rightarrow> hw" where
  "hw_qspi_wr rx_saddr v h = h\<lparr>h_rxs := v\<rparr>"
| "hw_qspi_wr rx_size v h = h\<lparr>h_rxn := v\<rparr>"
| "hw_qspi_wr cmd_size v h = h\<lparr>h_cmdn := v\<rparr>"
| "hw_qspi_wr cmd_cfg_en v h =
     (let ws = take (unat (h_cmdn h) div 4) (h_cmds h) in
      if v = 1 \<and> spi_in ws = unat (h_rxn h) \<and> (0 < spi_in ws \<or> 8 < length (spi_out ws))
      then h\<lparr>h_left := 1, h_todo := Some (h_rxs h, flash_bytes (h_flash h) (sent_addr (spi_out ws)) (spi_in ws))\<rparr>
      else h)"
| "hw_qspi_wr _ v h = h"

fun hw_wp :: "a2_reg \<Rightarrow> buf \<Rightarrow> mem \<times> hw \<Rightarrow> mem \<times> hw" where
  "hw_wp (Uart u uart_tx_saddr) (Bytes bs) (m, h) = (m, h\<lparr>h_buf := (h_buf h)(u := bs)\<rparr>)"
| "hw_wp (Qspi q cmd_saddr) (Words ws) (m, h) = (m, if q = 0 then h\<lparr>h_cmds := ws\<rparr> else h)"
| "hw_wp _ _ mh = mh"

fun hw_rd :: "a2_reg \<Rightarrow> mem \<times> hw \<Rightarrow> u32 \<times> mem \<times> hw" where
  "hw_rd (Uart u r) (m, h) = (case hw_uart_rd u r h of (v, h) \<Rightarrow> (v, m, h))"
| "hw_rd (I2cs r) (m, h) = (case hw_i2cs_rd r (h_i2cs h) of (v, w) \<Rightarrow> (v, m, h\<lparr>h_i2cs := w\<rparr>))"
| "hw_rd (Qspi q r) mh = (if q = 0 then hw_qspi_rd r mh else (0, mh))"
| "hw_rd Soc_jtagreg (m, h) = (h_jtag h, m, h)"
| "hw_rd _ mh = (0, mh)"

fun hw_wr :: "a2_reg \<Rightarrow> u32 \<Rightarrow> mem \<times> hw \<Rightarrow> mem \<times> hw" where
  "hw_wr (Uart u r) v (m, h) = (m, hw_uart_wr u r v h)"
| "hw_wr (I2cs r) v (m, h) = (m, h\<lparr>h_i2cs := hw_i2cs_wr r v (h_i2cs h)\<rparr>)"
| "hw_wr (Qspi q r) v (m, h) = (m, if q = 0 then hw_qspi_wr r v h else h)"
| "hw_wr Soc_jtagreg v (m, h) = (m, h\<lparr>h_jtag := v\<rparr>)"
| "hw_wr _ v mh = mh"

definition hw_bus :: "hw a2_bus" where
  "hw_bus = \<lparr>bus_rd = hw_rd, bus_wr = hw_wr, bus_wp = hw_wp\<rparr>"

definition hw_rx :: "u8 \<Rightarrow> hw \<Rightarrow> u8 list" where "hw_rx u h = h_rx h u"
definition hw_tx :: "u8 \<Rightarrow> hw \<Rightarrow> u8 list" where "hw_tx u h = h_tx h u"
definition hw_busy :: "u8 \<Rightarrow> hw \<Rightarrow> nat" where "hw_busy u h = h_busy h u"
definition hw_ready :: "u8 \<Rightarrow> hw \<Rightarrow> bool" where "hw_ready u h = (h_rx h u \<noteq> [])"
definition hw_view :: "hw \<Rightarrow> i2cs_view" where "hw_view h = h_i2cs h"
definition hw_uobs :: "hw \<Rightarrow> (u8 \<Rightarrow> u8 list) \<times> (u8 \<Rightarrow> u8 list)" where
  "hw_uobs h = (\<lambda>u. hw_rx u h, \<lambda>u. hw_tx u h)"
definition hw_oth :: "hw \<Rightarrow> unit" where "hw_oth h = ()"

interpretation hw_uart: uart_hw hw_bus hw_rx hw_tx hw_oth hw_busy hw_ready
  by unfold_locales
    (auto simp: hw_bus_def hw_rx_def hw_tx_def hw_busy_def hw_ready_def hw_oth_def uart_obs_def quiet_def sent_def
      split: list.splits)

interpretation hw_i2cs: i2cs_hw hw_bus hw_view hw_uobs
  by unfold_locales
    (auto simp: hw_bus_def hw_view_def hw_uobs_def hw_rx_def hw_tx_def)

interpretation hw_i2cs_tx: i2cs_hw hw_bus hw_view "\<lambda>e u. hw_tx u e"
  by unfold_locales
    (auto simp: hw_bus_def hw_view_def hw_tx_def)

interpretation hw_uart_view: uart_hw hw_bus hw_rx hw_tx hw_view hw_busy hw_ready
  by unfold_locales
    (auto simp: hw_bus_def hw_rx_def hw_tx_def hw_busy_def hw_ready_def hw_view_def uart_obs_def quiet_def sent_def
      split: list.splits)

text \<open>With the flash contents fixed, as they are while the bootloader only reads.\<close>

definition hw_idle :: "mem \<Rightarrow> hw \<Rightarrow> bool" where "hw_idle flash h \<longleftrightarrow> h_todo h = None \<and> h_flash h = flash"

definition hw_todo :: "mem \<Rightarrow> hw \<Rightarrow> (u32 \<times> u8 list) option" where
  "hw_todo flash h = (if h_flash h = flash then h_todo h else None)"

interpretation hw_flash: flash_hw hw_bus flash "hw_idle flash" "hw_todo flash" h_left hw_uobs
proof unfold_locales
  fix e :: hw and ws xs :: "u32 list" and k a n l2addr :: u32 and m :: mem
  assume "hw_idle flash e" and k: "4 * length ws = unat k" and "spi_out ws = read_request a" and "spi_in ws = unat n"
  moreover have "unat k div 4 = length ws" using k by simp
  moreover have "flash_bytes flash (a AND 0xFFFFFF) n' = flash_bytes flash a n'" for n'
    by (simp add: flash_bytes_def and.assoc)
  ultimately show "\<exists>e'. start_read hw_bus l2addr n (ws @ xs) k (m, e) = (m, e') \<and>
      hw_todo flash e' = Some (l2addr, flash_bytes flash a (unat n)) \<and> hw_uobs e' = hw_uobs e"
    by (simp add: start_read_def hw_bus_def hw_todo_def hw_idle_def hw_uobs_def hw_rx_def hw_tx_def
        sent_addr_read_request length_read_request Let_def)
next
  fix e :: hw and l :: u32 and ds :: "u8 list" and m :: mem
  assume "hw_todo flash e = Some (l, ds)"
  then show "\<exists>v m' e'. bus_rd hw_bus (Qspi 0 rx_size) (m, e) = (v, m', e') \<and> hw_uobs e' = hw_uobs e \<and>
      (if v = 0 then m' = store_bytes l ds m \<and> hw_idle flash e'
       else h_left e' < h_left e \<and> hw_todo flash e' = Some (l, ds) \<and> store_bytes l ds m' = store_bytes l ds m)"
    by (intro exI [of _ "fst (hw_qspi_rd rx_size (m, e))"] exI [of _ "fst (snd (hw_qspi_rd rx_size (m, e)))"]
          exI [of _ "snd (snd (hw_qspi_rd rx_size (m, e)))"])
      (auto simp: hw_bus_def hw_todo_def hw_idle_def hw_uobs_def hw_rx_def hw_tx_def split: if_splits)
qed

definition hw_init :: hw where
  "hw_init = \<lparr>h_rx = (\<lambda>_. []), h_tx = (\<lambda>_. []), h_buf = (\<lambda>_. []), h_len = (\<lambda>_. 0), h_busy = (\<lambda>_. 0),
     h_i2cs = \<lparr>pending = False, message = 0, inq = [], outq = [], posted = []\<rparr>,
     h_flash = (\<lambda>_. 0), h_rxs = 0, h_rxn = 0, h_cmds = [], h_cmdn = 0, h_left = 0, h_todo = None, h_jtag = 0\<rparr>"

end
