(* ===== verification/Uart_Srec.thy ===== *)
theory Uart_Srec
  imports Uart_Protocol Devices
begin

text \<open>
  What the UART bootloader does with whole S-records. The specification side is the record
  format itself: \<open>srec_text\<close> writes a record as a host does. The lemmas follow the phases of the
  state machine (count, address, data, checksum); the properties at the end state what a
  complete record does to memory and on the line, and what the machine does with a record whose
  checksum is wrong.
\<close>

section \<open>The S-record format\<close>

definition hexd :: "nat \<Rightarrow> u8" where
  "hexd n = (if n < 10 then 0x30 + of_nat n else 0x41 + of_nat (n - 10))"

definition hex_byte :: "u8 \<Rightarrow> u8 list" where
  "hex_byte x = [hexd (unat x div 16), hexd (unat x mod 16)]"

definition addr_bytes :: "nat \<Rightarrow> u32 \<Rightarrow> u8 list" where
  "addr_bytes n a = rev (take n (bytes32 a))"

definition srec_count :: "nat \<Rightarrow> u8 list \<Rightarrow> u8" where
  "srec_count n ds = of_nat (n + length ds + 1)"

definition srec_body :: "nat \<Rightarrow> u32 \<Rightarrow> u8 list \<Rightarrow> u8 list" where
  "srec_body n a ds = srec_count n ds # addr_bytes n a @ ds"

definition srec_checksum :: "u8 list \<Rightarrow> u8" where
  "srec_checksum body = NOT (sum_list body)"

definition srec_text :: "u8 \<Rightarrow> nat \<Rightarrow> u32 \<Rightarrow> u8 list \<Rightarrow> u8 \<Rightarrow> u8 list" where
  "srec_text t n a ds chk = 0x53 # t # concat (map hex_byte (srec_body n a ds)) @ hex_byte chk"

text \<open>The characters of a record one after the other.\<close>

fun feed :: "'e a2_bus \<Rightarrow> u8 list \<Rightarrow> ('e, 'z) uart_globals_scheme \<Rightarrow> (exit \<times> ('e, 'z) uart_globals_scheme) option" where
  "feed b [] s = Some (Continue, s)"
| "feed b (c # cs) s = do {
     (x, s) \<leftarrow> uart_protocol_char b c s;
     if x = Continue then feed b cs s else Some (x, s)
   }"

lemma feed_append:
  "feed b cs s = Some (Continue, s') \<Longrightarrow> feed b (cs @ ds) s = feed b ds s'"
proof (induction cs arbitrary: s)
  case (Cons c cs)
  then obtain x s1 where 1: "uart_protocol_char b c s = Some (x, s1)"
    by (cases "uart_protocol_char b c s") auto
  with Cons show ?case by (cases x) simp_all
qed simp

section \<open>Numbers\<close>

lemma hexd_digit: "n < 16 \<Longrightarrow> atoh_digit (hexd n) l = of_nat n \<and> hexd n \<noteq> 0 \<and> hexd n \<noteq> 0x20"
  by (drule less_16_cases, elim disjE; simp add: hexd_def atoh_digit_def)

lemma atoh_loop_hexd:
  "\<forall>n \<in> set ns. n < 16 \<Longrightarrow>
   atoh_loop (map hexd ns @ 0 # cs) l v = fold (\<lambda>n v. v * 16 + of_nat n) ns v"
proof (induction ns arbitrary: l v)
  case (Cons n ns)
  then have n: "n < 16" by simp
  have "(ucast (of_nat n :: u8) :: u32) = of_nat n"
    using less_16_cases [OF n] by (elim disjE; simp)
  with Cons hexd_digit [OF n] show ?case by (simp add: Let_def)
qed simp

definition nibbles :: "u8 \<Rightarrow> nat list" where
  "nibbles x = [unat x div 16, unat x mod 16]"

lemma hex_byte_nibbles: "hex_byte x = map hexd (nibbles x)"
  by (simp add: hex_byte_def nibbles_def)

lemma nibbles_less: "n \<in> set (nibbles x) \<Longrightarrow> n < 16"
  using unsigned_less [of x, where 'a = nat] by (auto simp: nibbles_def)

lemma fold_nibbles: "fold (\<lambda>n v. v * 16 + of_nat n) (nibbles x) v = v * 256 + (ucast x :: u32)"
proof -
  have "(ucast x :: u32) = of_nat (16 * (unat x div 16) + unat x mod 16)"
    by (simp add: unsigned_of_nat)
  also have "\<dots> = 16 * of_nat (unat x div 16) + of_nat (unat x mod 16)"
    by (simp only: of_nat_add of_nat_mult) simp
  finally show ?thesis by (simp add: nibbles_def algebra_simps)
qed

definition be_value :: "u8 list \<Rightarrow> u32" where
  "be_value xs = fold (\<lambda>x v. v * 256 + ucast x) xs 0"

lemma atoh_loop_hex_bytes:
  "atoh_loop (concat (map hex_byte xs) @ 0 # cs) l v = fold (\<lambda>x v. v * 256 + ucast x) xs v"
proof -
  have "concat (map hex_byte xs) = map hexd (concat (map nibbles xs))"
    by (simp add: hex_byte_nibbles [abs_def] map_concat comp_def)
  moreover have "\<forall>n \<in> set (concat (map nibbles xs)). n < 16"
    using nibbles_less by auto
  moreover have "fold (\<lambda>n v. v * 16 + of_nat n) (concat (map nibbles xs)) v =
      fold (\<lambda>x v. v * 256 + ucast x) xs (v :: u32)"
    by (induction xs arbitrary: v) (simp_all add: fold_nibbles)
  ultimately show ?thesis by (simp add: atoh_loop_hexd)
qed

lemma atoh_hex_bytes:
  "take (unat n) cs = concat (map hex_byte xs) @ [0] \<Longrightarrow> atoh cs n = be_value xs"
  by (simp add: atoh_def be_value_def atoh_loop_hex_bytes)

lemma length_hex_bytes [simp]: "length (concat (map hex_byte xs)) = 2 * length xs"
  by (induction xs) (simp_all add: hex_byte_def)

section \<open>The phases of a record\<close>

text \<open>The two byte buffers have their declared sizes; every operation keeps them.\<close>

definition uart_wf :: "('e, 'z) uart_globals_scheme \<Rightarrow> bool" where
  "uart_wf s \<longleftrightarrow> length (gsUartProtocolConvToHexBuf s) = UART_PROTOCOL_CONV_BUF_LEN \<and>
     length (gsMemoryWriteBuf s) = UART_PROTOCOL_MEMORY_WRITE_BUF_LEN"

definition raise_flag :: "u8 \<Rightarrow> u8" where
  "raise_flag f = (if f = 0 then 1 else f)"

definition srec_addr_size :: "u8 \<Rightarrow> nat" where
  "srec_addr_size t = (if t = 0x33 \<or> t = 0x37 then 4 else if t = 0x32 \<or> t = 0x38 then 3 else 2)"

lemma feed_start:
  assumes "gsUart0ProtocolState s = UART0_PROTOCOL_STATE_IDLE"
    and "t \<in> {0x30, 0x31, 0x32, 0x33, 0x37, 0x38, 0x39}"
  shows "feed b [0x53, t] s = Some (Continue, s\<lparr>gStopUartMsgFlg := raise_flag (gStopUartMsgFlg s),
     gStopI2CBootLoaderFlg := raise_flag (gStopI2CBootLoaderFlg s), gsSRecordType := t,
     gsDestinationAddressSizeInBytes := of_nat (srec_addr_size t), gsUart0FillIndex := 0,
     gsCalculatedChkSum := 0, gsUart0ProtocolState := UART0_PROTOCOL_GET_COUNT\<rparr>)"
  using assms
  by (elim insertE)
    (simp_all add: uart_protocol_char_def uart_case_idle_def uart_case_record_type_def srec_start_def
      raise_flag_def srec_addr_size_def Let_def)

lemma take3_update:
  "length xs = 512 \<Longrightarrow> take 3 (xs[0 := a, Suc 0 := b, 2 := c]) = [a, b, c]"
  by (cases xs; cases "tl xs"; cases "tl (tl xs)")
    (auto simp: take_Suc numeral_eq_Suc split: list.splits)

lemma conv_value_byte:
  assumes "take 3 (gsUartProtocolConvToHexBuf s) = hex_byte x @ [0]" and "gsUart0FillIndex s = 3"
  shows "conv_value s = ucast x"
  using assms atoh_hex_bytes [of 3 "gsUartProtocolConvToHexBuf s" "[x]"]
  by (simp add: conv_value_def be_value_def)

lemma feed_count:
  assumes "gsUart0ProtocolState s = UART0_PROTOCOL_GET_COUNT" and "gsUart0FillIndex s = 0" and "uart_wf s"
  shows "\<exists>B. length B = UART_PROTOCOL_CONV_BUF_LEN \<and>
    feed b (hex_byte x) s = Some (Continue, s\<lparr>gsUartProtocolConvToHexBuf := B,
      gsTotalCountInBytes := ucast x,
      gsDataCountInBytes := ucast x - gsDestinationAddressSizeInBytes s - 1, gsUart0FillIndex := 0,
      gsCalculatedChkSum := gsCalculatedChkSum s + ucast x,
      gsUart0ProtocolState := UART0_PROTOCOL_GET_DESTINATION_ADDRESS\<rparr>)"
proof -
  let ?B = "(gsUartProtocolConvToHexBuf s)[0 := hexd (unat x div 16), Suc 0 := hexd (unat x mod 16), 2 := 0]"
  have len: "length (gsUartProtocolConvToHexBuf s) = 512"
    using assms(3) by (simp add: uart_wf_def UART_PROTOCOL_CONV_BUF_LEN_def)
  then have "take 3 ?B = hex_byte x @ [0]" by (simp add: take3_update hex_byte_def)
  then have "atoh ?B 3 = ucast x"
    using atoh_hex_bytes [of 3 ?B "[x]"] by (simp add: be_value_def)
  with assms(1,2) len show ?thesis
    by (intro exI [of _ ?B])
      (simp add: hex_byte_def uart_protocol_char_def uart_case_count_def conv_put_def conv_value_def
        UART_PROTOCOL_CONV_BUF_LEN_def Let_def)
qed

lemma take_put: "k < length xs \<Longrightarrow> take (Suc k) (xs[k := c]) = take k xs @ [c]"
  by (simp add: take_Suc_conv_app_nth)

lemma feed_collect:
  assumes "gsUart0ProtocolState s = UART0_PROTOCOL_GET_DESTINATION_ADDRESS" and "uart_wf s"
    and "gsUart0FillIndex s = of_nat k" and "k + length cs < 2 * unat (gsDestinationAddressSizeInBytes s)"
    and "unat (gsDestinationAddressSizeInBytes s) \<le> 4"
  shows "\<exists>B. length B = UART_PROTOCOL_CONV_BUF_LEN \<and>
    take (k + length cs) B = take k (gsUartProtocolConvToHexBuf s) @ cs \<and>
    feed b cs s = Some (Continue, s\<lparr>gsUartProtocolConvToHexBuf := B, gsUart0FillIndex := of_nat (k + length cs)\<rparr>)"
  using assms
proof (induction cs arbitrary: s k)
  case Nil
  then show ?case
    by (intro exI [of _ "gsUartProtocolConvToHexBuf s"]) (simp add: uart_wf_def)
next
  case (Cons c cs)
  let ?s = "s\<lparr>gsUartProtocolConvToHexBuf := (gsUartProtocolConvToHexBuf s)[k := c], gsUart0FillIndex := of_nat (Suc k)\<rparr>"
  have k: "unat (of_nat k :: u16) = k" "unat (1 + of_nat k :: u16) = Suc k"
    using Cons.prems(4,5) unat_of_nat [where 'a = 16, of k] unat_of_nat [where 'a = 16, of "Suc k"] by simp_all
  have len: "length (gsUartProtocolConvToHexBuf s) = 512"
    using Cons.prems(2) by (simp add: uart_wf_def UART_PROTOCOL_CONV_BUF_LEN_def)
  have step: "uart_protocol_char b c s = Some (Continue, ?s)"
    using Cons.prems len k
    by (simp add: uart_protocol_char_def uart_case_address_def conv_put_def add.commute)
  obtain B where B: "length B = UART_PROTOCOL_CONV_BUF_LEN"
      "take (Suc k + length cs) B = take (Suc k) (gsUartProtocolConvToHexBuf ?s) @ cs"
      "feed b cs ?s = Some (Continue, ?s\<lparr>gsUartProtocolConvToHexBuf := B, gsUart0FillIndex := of_nat (Suc k + length cs)\<rparr>)"
    using Cons.IH [of ?s "Suc k"] Cons.prems by (auto simp: uart_wf_def)
  have "k < 512" using Cons.prems(4,5) by simp
  with B len step show ?case
    by (intro exI [of _ B]) (simp add: take_put)
qed

definition addr_sum :: "u32 \<Rightarrow> u16" where
  "addr_sum a = ucast (a AND 0xFF) + ucast (drop_bit 8 (a AND 0xFF00)) +
     ucast (drop_bit 16 (a AND 0xFF0000)) + ucast (drop_bit 24 (a AND 0xFF000000))"

definition after_address :: "u8 \<Rightarrow> uart0ProtocolState_t" where
  "after_address t = (if t \<in> {0x30, 0x31, 0x32, 0x33} then UART0_PROTOCOL_GET_DATA
     else if t \<in> {0x37, 0x38, 0x39} then UART0_PROTOCOL_GET_CRC
     else UART0_PROTOCOL_GET_DESTINATION_ADDRESS)"

lemma feed_address:
  assumes "gsUart0ProtocolState s = UART0_PROTOCOL_GET_DESTINATION_ADDRESS" and "uart_wf s"
    and "gsUart0FillIndex s = 0" and "length xs = unat (gsDestinationAddressSizeInBytes s)"
    and "0 < length xs" and "length xs \<le> 4"
  shows "\<exists>B. length B = UART_PROTOCOL_CONV_BUF_LEN \<and>
    feed b (concat (map hex_byte xs)) s = Some (Continue, s\<lparr>gsUartProtocolConvToHexBuf := B,
      gsDestinationAddress := be_value xs, gsUart0FillIndex := 0,
      gsCalculatedChkSum := gsCalculatedChkSum s + addr_sum (be_value xs),
      gsDataRxdCounterInCharacters := 0, gsMemoryWriteBufIndex := 0,
      gsUart0ProtocolState := after_address (gsSRecordType s)\<rparr>)"
proof -
  define cs where "cs = concat (map hex_byte xs)"
  define j where "j = 2 * length xs - 1"
  have lcs: "length cs = Suc j" and "j < 8"
    using assms(5,6) by (simp_all add: cs_def j_def)
  then obtain ds c where cs: "cs = ds @ [c]" and lds: "length ds = j"
    by (metis length_Suc_conv_rev)
  obtain B where B: "length B = UART_PROTOCOL_CONV_BUF_LEN" "take j B = ds"
      "feed b ds s = Some (Continue, s\<lparr>gsUartProtocolConvToHexBuf := B, gsUart0FillIndex := of_nat j\<rparr>)"
    using feed_collect [of s 0 ds b] assms lds by (auto simp: j_def)
  let ?B = "B[j := c, Suc j := 0]"
  have lB: "length B = 512" using B(1) by (simp add: UART_PROTOCOL_CONV_BUF_LEN_def)
  have unj: "unat (of_nat j :: u16) = j" "unat (of_nat j + 1 :: u16) = Suc j" "unat (of_nat j + 2 :: u16) = Suc (Suc j)"
    using \<open>j < 8\<close> unat_of_nat [where 'a = 16, of j] unat_of_nat [where 'a = 16, of "Suc j"]
      unat_of_nat [where 'a = 16, of "Suc (Suc j)"] by (simp_all add: add.commute [of "of_nat j"])
  have "take (Suc (Suc j)) ?B = cs @ [0]"
    using B(2) lB \<open>j < 8\<close> take_put [of "Suc j" "B[j := c]" 0] take_put [of j B c] by (simp add: cs)
  then have val: "atoh ?B (of_nat j + 2) = be_value xs"
    using unj by (intro atoh_hex_bytes) (simp add: cs_def)
  have big: "2 * unat (gsDestinationAddressSizeInBytes s) = Suc j"
    using assms(4,5) by (simp add: j_def)
  have "uart_protocol_char b c (s\<lparr>gsUartProtocolConvToHexBuf := B, gsUart0FillIndex := of_nat j\<rparr>) =
    Some (Continue, s\<lparr>gsUartProtocolConvToHexBuf := ?B,
      gsDestinationAddress := be_value xs, gsUart0FillIndex := 0,
      gsCalculatedChkSum := gsCalculatedChkSum s + addr_sum (be_value xs),
      gsDataRxdCounterInCharacters := 0, gsMemoryWriteBufIndex := 0,
      gsUart0ProtocolState := after_address (gsSRecordType s)\<rparr>)"
    using assms(1) lB \<open>j < 8\<close> unj val big
    by (simp add: uart_protocol_char_def uart_case_address_def conv_put_def conv_value_def
        addr_sum_def after_address_def Let_def add.assoc)
  with B(3) lB show ?thesis
    by (intro exI [of _ ?B]) (simp add: cs feed_append UART_PROTOCOL_CONV_BUF_LEN_def flip: cs_def)
qed

lemma uart_sum_loop_sum:
  assumes "unat n \<le> 255" and "unat i \<le> unat n" and "unat n \<le> length xs"
  shows "uart_sum_loop i n xs chk = Some (chk + sum_list (map ucast (drop (unat i) (take (unat n) xs))))"
  using assms(2)
proof (induction "unat n - unat i" arbitrary: i chk)
  case 0
  then have "\<not> ucast i < n" by (simp add: word_less_nat_alt)
  with 0 show ?case by (subst uart_sum_loop.simps) simp
next
  case (Suc d)
  then have less: "unat i < unat n" by simp
  then have "i \<noteq> - 1"
    using assms(1) by (auto simp: unsigned_minus_1_eq_mask mask_eq_exp_minus_1)
  then have i1: "unat (i + 1) = Suc (unat i)"
    by (metis Suc_eq_plus1 add.commute add_eq_0_iff unatSuc)
  have "uart_sum_loop (i + 1) n xs (chk + ucast (xs ! unat i)) =
      Some (chk + ucast (xs ! unat i) + sum_list (map ucast (drop (unat (i + 1)) (take (unat n) xs))))"
    using Suc i1 by (intro Suc.hyps) simp_all
  moreover have "drop (unat i) (take (unat n) xs) = xs ! unat i # drop (Suc (unat i)) (take (unat n) xs)"
    using less assms(3) by (subst Cons_nth_drop_Suc [symmetric]) simp_all
  moreover have "ucast i < n" using less by (simp add: word_less_nat_alt)
  ultimately show ?case
    by (subst uart_sum_loop.simps) (simp add: i1 add.assoc)
qed

lemma feed_data_byte:
  assumes "gsUart0ProtocolState s = UART0_PROTOCOL_GET_DATA" and "uart_wf s"
    and "gsUart0FillIndex s = 0" and "gsMemoryWriteBufIndex s = of_nat j"
    and "gsDataRxdCounterInCharacters s = of_nat (2 * j)"
    and "j < unat (gsDataCountInBytes s)" and "j < 256"
    and "unat (gsDataCountInBytes s) = Suc j \<Longrightarrow> Suc j \<le> 255"
  shows "\<exists>B. length B = UART_PROTOCOL_CONV_BUF_LEN \<and>
    feed b (hex_byte x) s =
     (let M = (gsMemoryWriteBuf s)[j := x];
          s' = s\<lparr>gsUartProtocolConvToHexBuf := B, gsMemoryWriteBuf := M,
                 gsMemoryWriteBufIndex := of_nat (Suc j), gsUart0FillIndex := 0\<rparr>
      in if unat (gsDataCountInBytes s) = Suc j
         then Some (Continue, s'\<lparr>gsDataRxdCounterInCharacters := 0,
           gsCalculatedChkSum := gsCalculatedChkSum s + sum_list (map ucast (take (Suc j) M)),
           gsUart0ProtocolState := UART0_PROTOCOL_GET_CRC\<rparr>)
         else Some (Continue, s'\<lparr>gsDataRxdCounterInCharacters := of_nat (2 * Suc j)\<rparr>))"
proof -
  let ?B = "(gsUartProtocolConvToHexBuf s)[0 := hexd (unat x div 16), Suc 0 := hexd (unat x mod 16), Suc (Suc 0) := 0]"
  let ?M = "(gsMemoryWriteBuf s)[j := x]"
  have lB: "length (gsUartProtocolConvToHexBuf s) = 512" and lM: "length (gsMemoryWriteBuf s) = 256"
    using assms(2) by (simp_all add: uart_wf_def UART_PROTOCOL_CONV_BUF_LEN_def UART_PROTOCOL_MEMORY_WRITE_BUF_LEN_def)
  from lB have "take 3 ?B = hex_byte x @ [0]"
    using take3_update [OF lB, of _ _ 0] by (simp add: hex_byte_def numeral_2_eq_2)
  then have val: "atoh ?B 3 = ucast x"
    using atoh_hex_bytes [of 3 ?B "[x]"] by (simp add: be_value_def)
  have un: "unat (of_nat j :: u16) = j" "unat (1 + of_nat j :: u16) = Suc j"
     "unat (1 + 2 * of_nat j :: u16) = Suc (2 * j)" "unat (2 + 2 * of_nat j :: u16) = 2 * Suc j"
    using assms(6,7) unat_of_nat [where 'a = 16, of j] unat_of_nat [where 'a = 16, of "Suc j"]
      unat_of_nat [where 'a = 16, of "Suc (2 * j)"] unat_of_nat [where 'a = 16, of "2 * Suc j"] by simp_all
  have sum: "uart_sum_loop 0 (1 + of_nat j) ?M chk = Some (chk + sum_list (map ucast (take (Suc j) ?M)))"
    if "unat (gsDataCountInBytes s) = Suc j" for chk
    using uart_sum_loop_sum [of "1 + of_nat j" 0 ?M chk] un assms(8) [OF that] lM by simp
  have j1: "j < 256" "\<not> 2 * unat (gsDataCountInBytes s) \<le> Suc (2 * j)"
    using assms(6,7) by simp_all
  have last: "2 * unat (gsDataCountInBytes s) \<le> 2 * Suc j \<longleftrightarrow> unat (gsDataCountInBytes s) = Suc j"
    using assms(6) by arith
  show ?thesis
    using assms(1,3,4,5) lB lM val un j1 last sum
    by (intro exI [of _ ?B])
      (simp add: hex_byte_def uart_protocol_char_def uart_case_data_def conv_put_def mem_put_def conv_value_def
        UART_PROTOCOL_CONV_BUF_LEN_def Let_def add.commute del: mult_Suc_right)
qed

lemma feed_data:
  assumes "gsUart0ProtocolState s = UART0_PROTOCOL_GET_DATA" and "uart_wf s"
    and "gsUart0FillIndex s = 0" and "gsMemoryWriteBufIndex s = of_nat j"
    and "gsDataRxdCounterInCharacters s = of_nat (2 * j)"
    and "unat (gsDataCountInBytes s) = j + length ds" and "ds \<noteq> []" and "j + length ds \<le> 252"
  shows "\<exists>B M. length B = UART_PROTOCOL_CONV_BUF_LEN \<and> length M = UART_PROTOCOL_MEMORY_WRITE_BUF_LEN \<and>
    take (j + length ds) M = take j (gsMemoryWriteBuf s) @ ds \<and>
    feed b (concat (map hex_byte ds)) s = Some (Continue, s\<lparr>gsUartProtocolConvToHexBuf := B,
      gsMemoryWriteBuf := M, gsMemoryWriteBufIndex := of_nat (j + length ds), gsUart0FillIndex := 0,
      gsDataRxdCounterInCharacters := 0,
      gsCalculatedChkSum := gsCalculatedChkSum s + sum_list (map ucast (take (j + length ds) M)),
      gsUart0ProtocolState := UART0_PROTOCOL_GET_CRC\<rparr>)"
  using assms
proof (induction ds arbitrary: s j)
  case (Cons x ds)
  have lM: "length (gsMemoryWriteBuf s) = 256" and "j < 256"
    using Cons.prems(2,8) by (simp_all add: uart_wf_def UART_PROTOCOL_MEMORY_WRITE_BUF_LEN_def)
  then have tk: "take (Suc j) ((gsMemoryWriteBuf s)[j := x]) = take j (gsMemoryWriteBuf s) @ [x]"
    by (simp add: take_put)
  obtain B where B: "length B = UART_PROTOCOL_CONV_BUF_LEN" "feed b (hex_byte x) s =
     (let M = (gsMemoryWriteBuf s)[j := x];
          s' = s\<lparr>gsUartProtocolConvToHexBuf := B, gsMemoryWriteBuf := M,
                 gsMemoryWriteBufIndex := of_nat (Suc j), gsUart0FillIndex := 0\<rparr>
      in if unat (gsDataCountInBytes s) = Suc j
         then Some (Continue, s'\<lparr>gsDataRxdCounterInCharacters := 0,
           gsCalculatedChkSum := gsCalculatedChkSum s + sum_list (map ucast (take (Suc j) M)),
           gsUart0ProtocolState := UART0_PROTOCOL_GET_CRC\<rparr>)
         else Some (Continue, s'\<lparr>gsDataRxdCounterInCharacters := of_nat (2 * Suc j)\<rparr>))"
    using feed_data_byte [of s j b x] Cons.prems by auto
  show ?case
  proof (cases "ds = []")
    case True
    with B Cons.prems(6) lM tk show ?thesis
      by (intro exI [of _ B] exI [of _ "(gsMemoryWriteBuf s)[j := x]"])
        (simp add: Let_def UART_PROTOCOL_MEMORY_WRITE_BUF_LEN_def)
  next
    case False
    let ?s = "s\<lparr>gsUartProtocolConvToHexBuf := B, gsMemoryWriteBuf := (gsMemoryWriteBuf s)[j := x],
      gsMemoryWriteBufIndex := of_nat (Suc j), gsUart0FillIndex := 0,
      gsDataRxdCounterInCharacters := of_nat (2 * Suc j)\<rparr>"
    from False B(2) Cons.prems(6) have first: "feed b (hex_byte x) s = Some (Continue, ?s)"
      by (cases ds) (simp_all add: Let_def)
    obtain B' M where "length B' = UART_PROTOCOL_CONV_BUF_LEN" "length M = UART_PROTOCOL_MEMORY_WRITE_BUF_LEN"
      "take (Suc j + length ds) M = take (Suc j) (gsMemoryWriteBuf ?s) @ ds"
      "feed b (concat (map hex_byte ds)) ?s = Some (Continue, ?s\<lparr>gsUartProtocolConvToHexBuf := B',
      gsMemoryWriteBuf := M, gsMemoryWriteBufIndex := of_nat (Suc j + length ds), gsUart0FillIndex := 0,
      gsDataRxdCounterInCharacters := 0,
      gsCalculatedChkSum := gsCalculatedChkSum ?s + sum_list (map ucast (take (Suc j + length ds) M)),
      gsUart0ProtocolState := UART0_PROTOCOL_GET_CRC\<rparr>)"
      using Cons.IH [of ?s "Suc j"] Cons.prems B(1) False by (auto simp: uart_wf_def)
    with tk first show ?thesis
      by (intro exI [of _ B'] exI [of _ M]) (simp add: feed_append)
  qed
qed simp

section \<open>Replies and the checksum byte\<close>

definition OK_text :: "u8 list" where "OK_text = str ''OK'' @ crlf"
definition NOT_OK_text :: "u8 list" where "NOT_OK_text = str ''NOT OK'' @ crlf"

context uart_hw
begin

lemma send_loop_returns:
  "\<exists>n s'. sendUartProtocolFrame_loop b i cs s = Some (n, s') \<and> uart_eff rx tx oth (sent 0 cs) s s'"
proof (induction cs arbitrary: i s)
  case Nil
  then show ?case by (simp add: sent_Nil uart_eff_refl)
next
  case (Cons c cs)
  obtain n s1 where 1: "udma_uart_writeraw b 0 1 [c] s = Some (n, s1)" "uart_eff rx tx oth (sent 0 [c]) s s1"
    using write_returns [of 1 0 "[c]" s] by auto
  obtain n' s2 where 2: "sendUartProtocolFrame_loop b (i + 1) cs s1 = Some (n', s2)"
      "uart_eff rx tx oth (sent 0 cs) s1 s2"
    using Cons.IH by blast
  from uart_eff_sent_trans [OF 1(2) 2(2)] 1(1) 2(1) show ?case by simp
qed

lemma send_ok_returns:
  "\<exists>n s'. sendUartOKorNotOKFrame b 1 s = Some (n, s') \<and> uart_eff rx tx oth (sent 0 OK_text) s s'"
  using send_loop_returns [of 0 OK_text s]
  by (simp add: sendUartOKorNotOKFrame_def sendUartProtocolFrame_def OK_text_def crlf_def)

lemma send_not_ok_returns:
  "\<exists>n s'. sendUartOKorNotOKFrame b 0 s = Some (n, s') \<and> uart_eff rx tx oth (sent 0 NOT_OK_text) s s'"
  using send_loop_returns [of 0 NOT_OK_text s]
  by (simp add: sendUartOKorNotOKFrame_def sendUartProtocolFrame_def NOT_OK_text_def crlf_def)

end

definition crc_ready :: "u8 list \<Rightarrow> u8 \<Rightarrow> ('e, 'z) uart_globals_scheme \<Rightarrow> ('e, 'z) uart_globals_scheme" where
  "crc_ready B x s = s\<lparr>gsUartProtocolConvToHexBuf := B, gsUart0FillIndex := 3, gsCRCVal := x,
     gsCalculatedChkSum := (gsCalculatedChkSum s AND 0xFF) XOR 0xFF\<rparr>"

definition crc_leave :: "('e, 'z) uart_globals_scheme \<Rightarrow> ('e, 'z) uart_globals_scheme" where
  "crc_leave s = s\<lparr>gsUart0FillIndex := 0, gsMemoryWriteBufIndex := 0,
     gsUart0ProtocolState := UART0_PROTOCOL_GET_TERMINATION_CHARACTER\<rparr>"

lemma feed_crc:
  assumes "gsUart0ProtocolState s = UART0_PROTOCOL_GET_CRC" and "uart_wf s" and "gsUart0FillIndex s = 0"
  shows "\<exists>B. length B = UART_PROTOCOL_CONV_BUF_LEN \<and>
    feed b (hex_byte x) s =
      (if (gsCalculatedChkSum s AND 0xFF) XOR 0xFF = ucast x
       then do {
         (r, s) \<leftarrow> uart_record_ok b (crc_ready B x s);
         if r = Continue
         then do { (_, s) \<leftarrow> sendUartOKorNotOKFrame b 1 s; Some (Continue, crc_leave s) }
         else Some (r, s)
       }
       else do {
         s \<leftarrow> dbg_str b (0x0A # str ''CHKSUM ERR '') (crc_ready B x s);
         s \<leftarrow> dbg_hex8 b (ucast (gsCalculatedChkSum s)) s;
         s \<leftarrow> dbg_hex8 b (ucast (gsCRCVal s)) s;
         (_, s) \<leftarrow> sendUartOKorNotOKFrame b 0 s;
         Some (Continue, crc_leave s)
       })"
proof -
  let ?B = "(gsUartProtocolConvToHexBuf s)[0 := hexd (unat x div 16), Suc 0 := hexd (unat x mod 16), 2 := 0]"
  have lB: "length (gsUartProtocolConvToHexBuf s) = 512"
    using assms(2) by (simp add: uart_wf_def UART_PROTOCOL_CONV_BUF_LEN_def)
  then have "take 3 ?B = hex_byte x @ [0]" by (simp add: take3_update hex_byte_def)
  then have val: "atoh ?B 3 = ucast x"
    using atoh_hex_bytes [of 3 ?B "[x]"] by (simp add: be_value_def)
  have feed_last: "feed b [c] t = uart_protocol_char b c t" for c t
    by (cases "uart_protocol_char b c t") auto
  let ?s1 = "s\<lparr>gsUartProtocolConvToHexBuf := (gsUartProtocolConvToHexBuf s)[0 := hexd (unat x div 16)], gsUart0FillIndex := 1\<rparr>"
  have "uart_protocol_char b (hexd (unat x div 16)) s = Some (Continue, ?s1)"
    using assms lB by (simp add: uart_protocol_char_def uart_case_crc_def conv_put_def)
  then have "feed b (hex_byte x) s = uart_protocol_char b (hexd (unat x mod 16)) ?s1"
    using feed_append [of b "[hexd (unat x div 16)]" s ?s1 "[hexd (unat x mod 16)]"]
    by (simp add: hex_byte_def feed_last del: feed.simps)
  also have "\<dots> = (if (gsCalculatedChkSum s AND 0xFF) XOR 0xFF = ucast x
       then do {
         (r, s) \<leftarrow> uart_record_ok b (crc_ready ?B x s);
         if r = Continue
         then do { (_, s) \<leftarrow> sendUartOKorNotOKFrame b 1 s; Some (Continue, crc_leave s) }
         else Some (r, s)
       }
       else do {
         s \<leftarrow> dbg_str b (0x0A # str ''CHKSUM ERR '') (crc_ready ?B x s);
         s \<leftarrow> dbg_hex8 b (ucast (gsCalculatedChkSum s)) s;
         s \<leftarrow> dbg_hex8 b (ucast (gsCRCVal s)) s;
         (_, s) \<leftarrow> sendUartOKorNotOKFrame b 0 s;
         Some (Continue, crc_leave s)
       })"
    unfolding crc_ready_def crc_leave_def
    using assms lB val
    by (simp add: uart_protocol_char_def uart_case_crc_def conv_put_def conv_value_def Let_def)
  finally show ?thesis
    using lB by (intro exI [of _ ?B]) (simp add: UART_PROTOCOL_CONV_BUF_LEN_def)
qed

section \<open>Checksum arithmetic\<close>

lemma ucast_add_u8: "(ucast (x + y :: u16) :: u8) = ucast x + ucast y"
proof -
  have "(word_of_int (k mod 65536) :: u8) = word_of_int k" for k
    by (simp add: word_of_int_eq_iff take_bit_eq_mod mod_mod_cancel)
  then show ?thesis
    unfolding ucast_eq by (simp add: uint_word_ariths flip: wi_hom_add)
qed

lemma ucast_sum_list_u8: "(ucast (sum_list (map ucast ds) :: u16) :: u8) = sum_list ds"
  by (induction ds) (simp_all add: ucast_add_u8)

lemma complement_low_byte: "(w AND 0xFF) XOR 0xFF = (ucast (NOT (ucast w :: u8)) :: u16)"
proof -
  have "bit (0xFF :: u16) n \<longleftrightarrow> n < 8" for n
    using bit_mask_iff [where 'a = u16, of 8 n] by (auto simp: mask_eq_exp_minus_1)
  then show ?thesis by (intro bit_eqI) (auto simp: bit_simps)
qed

lemma bit_byte_masks:
  "bit (0xFF :: u32) n \<longleftrightarrow> n < 8"
  "bit (0xFF00 :: u32) n \<longleftrightarrow> 8 \<le> n \<and> n < 16"
  "bit (0xFF0000 :: u32) n \<longleftrightarrow> 16 \<le> n \<and> n < 24"
  "bit (0xFF000000 :: u32) n \<longleftrightarrow> 24 \<le> n \<and> n < 32"
proof -
  have m: "bit (push_bit k (mask 8) :: u32) n \<longleftrightarrow> k \<le> n \<and> n < k + 8 \<and> n < 32" for k
    by (auto simp: bit_simps)
  have "(0xFF :: u32) = push_bit 0 (mask 8)" "(0xFF00 :: u32) = push_bit 8 (mask 8)"
    "(0xFF0000 :: u32) = push_bit 16 (mask 8)" "(0xFF000000 :: u32) = push_bit 24 (mask 8)"
    by (simp_all add: mask_eq_exp_minus_1)
  then show "bit (0xFF :: u32) n \<longleftrightarrow> n < 8"
    "bit (0xFF00 :: u32) n \<longleftrightarrow> 8 \<le> n \<and> n < 16"
    "bit (0xFF0000 :: u32) n \<longleftrightarrow> 16 \<le> n \<and> n < 24"
    "bit (0xFF000000 :: u32) n \<longleftrightarrow> 24 \<le> n \<and> n < 32"
    by (simp_all only: m) auto
qed

lemma ucast_masked_byte:
  fixes a m :: u32
  assumes "\<And>n. k \<le> n \<Longrightarrow> n < k + 8 \<Longrightarrow> n < 32 \<Longrightarrow> bit m n"
  shows "(ucast (ucast (drop_bit k (a AND m)) :: u16) :: u8) = ucast (drop_bit k a)"
proof (rule bit_eqI)
  fix n
  assume "possible_bit TYPE(u8) n"
  then have "n < 8" by simp
  moreover have "bit a (k + n) \<Longrightarrow> k + n < 32"
    using bit_imp_le_length [of a "k + n"] by simp
  ultimately show "bit (ucast (ucast (drop_bit k (a AND m)) :: u16) :: u8) n = bit (ucast (drop_bit k a) :: u8) n"
    using assms [of "k + n"]
    by (simp only: bit_unsigned_iff bit_drop_bit_eq bit_and_iff comp_def) auto
qed

lemma ucast_addr_sum: "(ucast (addr_sum a) :: u8) = sum_list (bytes32 a)"
proof -
  have "(ucast (ucast (drop_bit 0 (a AND 0xFF)) :: u16) :: u8) = ucast (drop_bit 0 a)"
    by (rule ucast_masked_byte) (unfold bit_byte_masks, simp)
  moreover have "(ucast (ucast (drop_bit 8 (a AND 0xFF00)) :: u16) :: u8) = ucast (drop_bit 8 a)"
    by (rule ucast_masked_byte) (unfold bit_byte_masks, simp)
  moreover have "(ucast (ucast (drop_bit 16 (a AND 0xFF0000)) :: u16) :: u8) = ucast (drop_bit 16 a)"
    by (rule ucast_masked_byte) (unfold bit_byte_masks, simp)
  moreover have "(ucast (ucast (drop_bit 24 (a AND 0xFF000000)) :: u16) :: u8) = ucast (drop_bit 24 a)"
    by (rule ucast_masked_byte) (unfold bit_byte_masks, simp)
  ultimately show ?thesis by (simp add: addr_sum_def ucast_add_u8 bytes32_def add.assoc)
qed

definition addr_fits :: "nat \<Rightarrow> u32 \<Rightarrow> bool" where
  "addr_fits n a \<longleftrightarrow> unat a < 2 ^ (8 * n)"

lemma drop_bytes_fits:
  assumes "addr_fits n a" and "n \<le> k"
  shows "drop_bit (8 * k) a = 0"
proof -
  have "(2 :: nat) ^ (8 * n) \<le> 2 ^ (8 * k)"
    using assms(2) by (intro power_increasing) simp_all
  with assms(1) have "unat a < 2 ^ (8 * k)"
    unfolding addr_fits_def by (rule less_le_trans)
  then have "unat (drop_bit (8 * k) a) = 0"
    by (simp only: unat_drop_bit_eq) (simp add: drop_bit_eq_div)
  then show ?thesis by (simp add: unat_eq_0)
qed

lemma sum_addr_bytes:
  assumes "addr_fits n a" and "n \<in> {2, 3, 4}"
  shows "sum_list (addr_bytes n a) = sum_list (bytes32 a)"
  using assms(2) drop_bytes_fits [OF assms(1), of 2] drop_bytes_fits [OF assms(1), of 3]
  by (elim insertE) (simp_all add: addr_bytes_def bytes32_def numeral_eq_Suc add.commute add.left_commute)

lemma be_value_addr_bytes:
  assumes "addr_fits n a" and "n \<in> {2, 3, 4}"
  shows "be_value (addr_bytes n a) = a"
proof -
  have b: "(ucast (ucast (drop_bit k a) :: u8) :: u32) = of_nat (unat a div 2 ^ k mod 256)" for k
  proof -
    have "(ucast (ucast (drop_bit k a) :: u8) :: u32) = of_nat (unat (ucast (drop_bit k a) :: u8))"
      by simp
    also have "unat (ucast (drop_bit k a) :: u8) = unat a div 2 ^ k mod 256"
      by (simp only: unsigned_ucast_eq unat_drop_bit_eq) (simp add: drop_bit_eq_div take_bit_eq_mod)
    finally show ?thesis .
  qed
  have b0: "(ucast (ucast a :: u8) :: u32) = of_nat (unat a mod 256)"
    using b [of 0] by simp
  have A: "of_nat (unat a) = a" by simp
  let ?A = "unat a"
  have lt: "?A < 2 ^ 32" using unsigned_less [of a, where 'a = nat] by simp
  have n4: "((?A div 2 ^ 24 mod 256 * 256 + ?A div 2 ^ 16 mod 256) * 256 + ?A div 2 ^ 8 mod 256) * 256 + ?A mod 256 = ?A"
  proof -
    have "?A div 2 ^ 16 = ?A div 2 ^ 8 div 2 ^ 8" and "?A div 2 ^ 24 = ?A div 2 ^ 8 div 2 ^ 8 div 2 ^ 8"
      by (simp_all add: div_mult2_eq [symmetric])
    moreover from lt have "?A div 2 ^ 24 < 256" by simp
    ultimately show ?thesis by simp
  qed
  have nested: "((of_nat (?A div 2 ^ 24 mod 256) * 256 + of_nat (?A div 2 ^ 16 mod 256)) * 256 +
      of_nat (?A div 2 ^ 8 mod 256)) * 256 + of_nat (?A mod 256) = a"
    using arg_cong [OF n4, of "of_nat :: nat \<Rightarrow> u32"] by (simp only: of_nat_add of_nat_mult A of_nat_numeral)
  have small: "n = 3 \<Longrightarrow> ?A div 2 ^ 24 = 0" "n = 2 \<Longrightarrow> ?A div 2 ^ 24 = 0" "n = 2 \<Longrightarrow> ?A div 2 ^ 16 = 0"
    using assms(1) by (simp_all add: addr_fits_def)
  from assms(2) consider "n = 2" | "n = 3" | "n = 4" by auto
  then show ?thesis
  proof cases
    case 1
    have "be_value (addr_bytes n a) = of_nat (?A div 2 ^ 8 mod 256) * 256 + of_nat (?A mod 256)"
      unfolding 1 addr_bytes_def bytes32_def be_value_def using b [of 8] b0 by simp
    with nested small 1 show ?thesis by simp
  next
    case 2
    have "be_value (addr_bytes n a) = (of_nat (?A div 2 ^ 16 mod 256) * 256 + of_nat (?A div 2 ^ 8 mod 256)) * 256 + of_nat (?A mod 256)"
      unfolding 2 addr_bytes_def bytes32_def be_value_def using b [of 8] b [of 16] b0 by simp
    with nested small 2 show ?thesis by simp
  next
    case 3
    have "be_value (addr_bytes n a) = ((of_nat (?A div 2 ^ 24 mod 256) * 256 + of_nat (?A div 2 ^ 16 mod 256)) * 256 +
      of_nat (?A div 2 ^ 8 mod 256)) * 256 + of_nat (?A mod 256)"
      unfolding 3 addr_bytes_def bytes32_def be_value_def using b [of 8] b [of 16] b [of 24] b0 by simp
    with nested show ?thesis by simp
  qed
qed

section \<open>A record up to its checksum\<close>

lemma unat_srec_count: "n + length ds + 1 \<le> 255 \<Longrightarrow> unat (srec_count n ds) = n + length ds + 1"
  using unat_of_nat [where 'a = 8, of "n + length ds + 1"] by (simp add: srec_count_def)

lemma srec_data_count:
  assumes "n + length ds + 1 \<le> 255"
  shows "unat (ucast (srec_count n ds) - of_nat n - 1 :: u16) = length ds"
proof -
  have "(ucast (srec_count n ds) :: u16) = of_nat (unat (srec_count n ds))" by simp
  then have "(ucast (srec_count n ds) - of_nat n - 1 :: u16) = of_nat (length ds)"
    by (simp add: unat_srec_count [OF assms])
  with assms show ?thesis using unat_of_nat [where 'a = 16, of "length ds"] by simp
qed

lemma ucast_total_sum:
  assumes "addr_fits n a" and "n \<in> {2, 3, 4}"
  shows "((ucast (srec_count n ds) + addr_sum a + sum_list (map ucast ds)) AND 0xFF) XOR 0xFF =
    (ucast (srec_checksum (srec_body n a ds)) :: u16)"
  unfolding complement_low_byte
  using sum_addr_bytes [OF assms]
  by (simp add: ucast_add_u8 ucast_sum_list_u8 ucast_addr_sum srec_checksum_def srec_body_def add.assoc)

lemma ucast_u8_u16_eq: "(ucast (x :: u8) :: u16) = ucast y \<longleftrightarrow> x = y"
  by (rule ucast_up_eq_iff) simp

text \<open>Where the machine stands when the two checksum characters are due.\<close>

definition at_checksum :: "u8 \<Rightarrow> nat \<Rightarrow> u32 \<Rightarrow> u8 list \<Rightarrow> ('e, 'z) uart_globals_scheme \<Rightarrow> ('e, 'z) uart_globals_scheme \<Rightarrow> bool" where
  "at_checksum t n a ds s s' \<longleftrightarrow>
     gsUart0ProtocolState s' = UART0_PROTOCOL_GET_CRC \<and> uart_wf s' \<and> gsUart0FillIndex s' = 0 \<and>
     gsSRecordType s' = t \<and> gsDestinationAddress s' = a \<and>
     take (unat (gsMemoryWriteBufIndex s')) (gsMemoryWriteBuf s') = ds \<and>
     (gsCalculatedChkSum s' AND 0xFF) XOR 0xFF = ucast (srec_checksum (srec_body n a ds)) \<and>
     ram s' = ram s \<and> ext s' = ext s \<and>
     gStopUartMsgFlg s' = raise_flag (gStopUartMsgFlg s) \<and>
     gStopI2CBootLoaderFlg s' = raise_flag (gStopI2CBootLoaderFlg s) \<and>
     gStopUartBootLoaderFlg s' = gStopUartBootLoaderFlg s"

lemma srec_addr_size_range: "srec_addr_size t \<in> {2, 3, 4}"
  by (simp add: srec_addr_size_def)

lemma feed_to_address:
  assumes "gsUart0ProtocolState s = UART0_PROTOCOL_STATE_IDLE" and "uart_wf s"
    and "t \<in> {0x30, 0x31, 0x32, 0x33, 0x37, 0x38, 0x39}" and "n = srec_addr_size t" and "addr_fits n a"
  shows "\<exists>B. length B = UART_PROTOCOL_CONV_BUF_LEN \<and>
    feed b (0x53 # t # concat (map hex_byte (c # addr_bytes n a))) s = Some (Continue,
     s\<lparr>gStopUartMsgFlg := raise_flag (gStopUartMsgFlg s),
       gStopI2CBootLoaderFlg := raise_flag (gStopI2CBootLoaderFlg s),
       gsUartProtocolConvToHexBuf := B, gsSRecordType := t, gsDestinationAddressSizeInBytes := of_nat n,
       gsTotalCountInBytes := ucast c, gsDataCountInBytes := ucast c - of_nat n - 1,
       gsDestinationAddress := a, gsUart0FillIndex := 0, gsDataRxdCounterInCharacters := 0,
       gsMemoryWriteBufIndex := 0, gsCalculatedChkSum := ucast c + addr_sum a,
       gsUart0ProtocolState := after_address t\<rparr>)"
proof -
  define s1 where "s1 = s\<lparr>gStopUartMsgFlg := raise_flag (gStopUartMsgFlg s),
     gStopI2CBootLoaderFlg := raise_flag (gStopI2CBootLoaderFlg s), gsSRecordType := t,
     gsDestinationAddressSizeInBytes := of_nat n, gsUart0FillIndex := 0,
     gsCalculatedChkSum := 0, gsUart0ProtocolState := UART0_PROTOCOL_GET_COUNT\<rparr>"
  have 1: "feed b [0x53, t] s = Some (Continue, s1)"
    unfolding s1_def assms(4) by (rule feed_start [OF assms(1,3)])
  have "uart_wf s1" using assms(2) by (simp add: s1_def uart_wf_def)
  then obtain B1 where lB1: "length B1 = UART_PROTOCOL_CONV_BUF_LEN" and
      2: "feed b (hex_byte c) s1 = Some (Continue, s1\<lparr>gsUartProtocolConvToHexBuf := B1,
      gsTotalCountInBytes := ucast c,
      gsDataCountInBytes := ucast c - gsDestinationAddressSizeInBytes s1 - 1, gsUart0FillIndex := 0,
      gsCalculatedChkSum := gsCalculatedChkSum s1 + ucast c,
      gsUart0ProtocolState := UART0_PROTOCOL_GET_DESTINATION_ADDRESS\<rparr>)" (is "_ = Some (_, ?s2)")
    using feed_count [of s1 b c] by (auto simp: s1_def)
  have n: "n \<in> {2, 3, 4}" using assms(4) srec_addr_size_range by simp
  then have "n < 65536" by auto
  then have "unat (of_nat n :: u16) = n" using unat_of_nat [where 'a = 16, of n] by simp
  moreover have "length (addr_bytes n a) = n" using n by (auto simp: addr_bytes_def)
  moreover have "uart_wf ?s2" using \<open>uart_wf s1\<close> lB1 by (simp add: uart_wf_def)
  ultimately obtain B2 where "length B2 = UART_PROTOCOL_CONV_BUF_LEN" and
      3: "feed b (concat (map hex_byte (addr_bytes n a))) ?s2 = Some (Continue, ?s2\<lparr>gsUartProtocolConvToHexBuf := B2,
      gsDestinationAddress := be_value (addr_bytes n a), gsUart0FillIndex := 0,
      gsCalculatedChkSum := gsCalculatedChkSum ?s2 + addr_sum (be_value (addr_bytes n a)),
      gsDataRxdCounterInCharacters := 0, gsMemoryWriteBufIndex := 0,
      gsUart0ProtocolState := after_address (gsSRecordType ?s2)\<rparr>)"
    using feed_address [of ?s2 "addr_bytes n a" b] n by (auto simp: s1_def)
  moreover have "0x53 # t # concat (map hex_byte (c # addr_bytes n a)) =
      [0x53, t] @ hex_byte c @ concat (map hex_byte (addr_bytes n a))"
    by simp
  ultimately show ?thesis
    using be_value_addr_bytes [OF assms(5) n]
    by (intro exI [of _ B2]) (simp only: feed_append [OF 1] feed_append [OF 2], simp add: s1_def)
qed

lemma feed_data_record:
  assumes "gsUart0ProtocolState s = UART0_PROTOCOL_STATE_IDLE" and "uart_wf s"
    and "t \<in> {0x30, 0x31, 0x32, 0x33}" and "n = srec_addr_size t" and "addr_fits n a"
    and "ds \<noteq> []" and "n + length ds + 1 \<le> 255"
  shows "\<exists>s'. feed b (0x53 # t # concat (map hex_byte (srec_body n a ds))) s = Some (Continue, s') \<and>
    at_checksum t n a ds s s'"
proof -
  have "t \<in> {0x30, 0x31, 0x32, 0x33, 0x37, 0x38, 0x39}" and data: "after_address t = UART0_PROTOCOL_GET_DATA"
    using assms(3) by (auto simp: after_address_def)
  with feed_to_address [OF assms(1,2) _ assms(4,5), of b "srec_count n ds"] obtain B1 where
    lB1: "length B1 = UART_PROTOCOL_CONV_BUF_LEN" and
    1: "feed b (0x53 # t # concat (map hex_byte (srec_count n ds # addr_bytes n a))) s = Some (Continue,
     s\<lparr>gStopUartMsgFlg := raise_flag (gStopUartMsgFlg s),
       gStopI2CBootLoaderFlg := raise_flag (gStopI2CBootLoaderFlg s),
       gsUartProtocolConvToHexBuf := B1, gsSRecordType := t, gsDestinationAddressSizeInBytes := of_nat n,
       gsTotalCountInBytes := ucast (srec_count n ds), gsDataCountInBytes := ucast (srec_count n ds) - of_nat n - 1,
       gsDestinationAddress := a, gsUart0FillIndex := 0, gsDataRxdCounterInCharacters := 0,
       gsMemoryWriteBufIndex := 0, gsCalculatedChkSum := ucast (srec_count n ds) + addr_sum a,
       gsUart0ProtocolState := UART0_PROTOCOL_GET_DATA\<rparr>)" (is "_ = Some (_, ?s1)")
    by auto
  have n: "n \<in> {2, 3, 4}" using assms(4) srec_addr_size_range by simp
  have wf1: "uart_wf ?s1" using assms(2) lB1 by (simp add: uart_wf_def)
  have len: "length ds \<le> 252" using assms(7) n by auto
  obtain B2 M where lens: "length B2 = UART_PROTOCOL_CONV_BUF_LEN" "length M = UART_PROTOCOL_MEMORY_WRITE_BUF_LEN"
      "take (length ds) M = ds" and
    2: "feed b (concat (map hex_byte ds)) ?s1 = Some (Continue, ?s1\<lparr>gsUartProtocolConvToHexBuf := B2,
      gsMemoryWriteBuf := M, gsMemoryWriteBufIndex := of_nat (length ds), gsUart0FillIndex := 0,
      gsDataRxdCounterInCharacters := 0,
      gsCalculatedChkSum := gsCalculatedChkSum ?s1 + sum_list (map ucast ds),
      gsUart0ProtocolState := UART0_PROTOCOL_GET_CRC\<rparr>)" (is "_ = Some (_, ?s2)")
    using feed_data [OF _ wf1, of 0 ds b] srec_data_count [OF assms(7)] assms(6) len by auto
  have un: "unat (of_nat (length ds) :: u16) = length ds"
    using len unat_of_nat [where 'a = 16, of "length ds"] by simp
  have "feed b (0x53 # t # concat (map hex_byte (srec_body n a ds))) s = Some (Continue, ?s2)"
    using feed_append [OF 1, of "concat (map hex_byte ds)"] 2 by (simp add: srec_body_def)
  moreover have "at_checksum t n a ds s ?s2"
    using lens un ucast_total_sum [OF assms(5) n, of ds] by (simp add: at_checksum_def uart_wf_def)
  ultimately show ?thesis by blast
qed

lemma feed_term_record:
  assumes "gsUart0ProtocolState s = UART0_PROTOCOL_STATE_IDLE" and "uart_wf s"
    and "t \<in> {0x37, 0x38, 0x39}" and "n = srec_addr_size t" and "addr_fits n a"
  shows "\<exists>s'. feed b (0x53 # t # concat (map hex_byte (srec_body n a []))) s = Some (Continue, s') \<and>
    at_checksum t n a [] s s'"
proof -
  have "t \<in> {0x30, 0x31, 0x32, 0x33, 0x37, 0x38, 0x39}" and crc: "after_address t = UART0_PROTOCOL_GET_CRC"
    using assms(3) by (auto simp: after_address_def)
  with feed_to_address [OF assms(1,2) _ assms(4,5), of b "srec_count n []"] obtain B1 where
    lB1: "length B1 = UART_PROTOCOL_CONV_BUF_LEN" and
    1: "feed b (0x53 # t # concat (map hex_byte (srec_count n [] # addr_bytes n a))) s = Some (Continue,
     s\<lparr>gStopUartMsgFlg := raise_flag (gStopUartMsgFlg s),
       gStopI2CBootLoaderFlg := raise_flag (gStopI2CBootLoaderFlg s),
       gsUartProtocolConvToHexBuf := B1, gsSRecordType := t, gsDestinationAddressSizeInBytes := of_nat n,
       gsTotalCountInBytes := ucast (srec_count n []), gsDataCountInBytes := ucast (srec_count n []) - of_nat n - 1,
       gsDestinationAddress := a, gsUart0FillIndex := 0, gsDataRxdCounterInCharacters := 0,
       gsMemoryWriteBufIndex := 0, gsCalculatedChkSum := ucast (srec_count n []) + addr_sum a,
       gsUart0ProtocolState := UART0_PROTOCOL_GET_CRC\<rparr>)" (is "_ = Some (_, ?s1)")
    by auto
  have n: "n \<in> {2, 3, 4}" using assms(4) srec_addr_size_range by simp
  have "at_checksum t n a [] s ?s1"
    using lB1 assms(2) ucast_total_sum [OF assms(5) n, of "[]"] by (simp add: at_checksum_def uart_wf_def)
  with 1 show ?thesis by (auto simp: srec_body_def)
qed

section \<open>The checksum decides\<close>

text \<open>What an accepted data record does to memory: a header record and a record for address 0 nothing.\<close>

definition srec_place :: "u8 \<Rightarrow> u32 \<Rightarrow> u8 list \<Rightarrow> mem \<Rightarrow> mem" where
  "srec_place t a ds m = (if t \<noteq> 0x30 \<and> a \<noteq> 0 then store_bytes a ds m else m)"

context uart_hw
begin

lemma good_checksum_placed:
  assumes "at_checksum t n a ds s0 s" and "t \<in> {0x30, 0x31, 0x32, 0x33}"
  shows "\<exists>s'. feed b (hex_byte (srec_checksum (srec_body n a ds)) @ [z]) s = Some (Continue, s') \<and>
    ram s' = srec_place t a ds (ram s) \<and> uart_obs rx tx oth (sent 0 OK_text) (ext s) (ext s') \<and>
    gsUart0ProtocolState s' = UART0_PROTOCOL_STATE_IDLE \<and> uart_wf s'"
proof -
  let ?x = "srec_checksum (srec_body n a ds)"
  obtain B where lB: "length B = UART_PROTOCOL_CONV_BUF_LEN" and
    B: "feed b (hex_byte ?x) s = do {
         (r, s) \<leftarrow> uart_record_ok b (crc_ready B ?x s);
         if r = Continue
         then do { (_, s) \<leftarrow> sendUartOKorNotOKFrame b 1 s; Some (Continue, crc_leave s) }
         else Some (r, s)
       }"
    using feed_crc [of s b ?x] assms(1) by (auto simp: at_checksum_def)
  let ?s1 = "(crc_ready B ?x s)\<lparr>ram := srec_place t a ds (ram s)\<rparr>"
  have ok: "uart_record_ok b (crc_ready B ?x s) = Some (Continue, ?s1)"
    using assms by (auto simp: uart_record_ok_def crc_ready_def at_checksum_def srec_place_def)
  obtain k s2 where 2: "sendUartOKorNotOKFrame b 1 ?s1 = Some (k, s2)" "uart_eff rx tx oth (sent 0 OK_text) ?s1 s2"
    using send_ok_returns by blast
  have f: "feed b (hex_byte ?x) s = Some (Continue, crc_leave s2)"
    unfolding B by (simp add: ok 2(1))
  have "feed b (hex_byte ?x @ [z]) s = feed b [z] (crc_leave s2)"
    by (rule feed_append [OF f])
  moreover from 2(2) obtain e' where s2: "s2 = ?s1\<lparr>ext := e'\<rparr>" "uart_obs rx tx oth (sent 0 OK_text) (ext s) e'"
    by (auto simp: uart_eff_def crc_ready_def)
  ultimately show ?thesis
    using lB assms(1)
    by (simp add: crc_leave_def crc_ready_def uart_protocol_char_def uart_case_termination_def uart_wf_def at_checksum_def)
qed

lemma bad_checksum_rejected:
  assumes "at_checksum t n a ds s0 s" and "x \<noteq> srec_checksum (srec_body n a ds)"
  shows "\<exists>s'. feed b (hex_byte x @ [z]) s = Some (Continue, s') \<and>
    ram s' = ram s \<and> tx 0 (ext s') = tx 0 (ext s) @ NOT_OK_text \<and>
    gsUart0ProtocolState s' = UART0_PROTOCOL_STATE_IDLE \<and> uart_wf s'"
proof -
  have ne: "(gsCalculatedChkSum s AND 0xFF) XOR 0xFF \<noteq> ucast x"
    using assms by (auto simp: at_checksum_def ucast_u8_u16_eq)
  obtain B where lB: "length B = UART_PROTOCOL_CONV_BUF_LEN" and
    B: "feed b (hex_byte x) s = do {
         s \<leftarrow> dbg_str b (0x0A # str ''CHKSUM ERR '') (crc_ready B x s);
         s \<leftarrow> dbg_hex8 b (ucast (gsCalculatedChkSum s)) s;
         s \<leftarrow> dbg_hex8 b (ucast (gsCRCVal s)) s;
         (_, s) \<leftarrow> sendUartOKorNotOKFrame b 0 s;
         Some (Continue, crc_leave s)
       }"
    using feed_crc [of s b x] assms(1) ne by (auto simp: at_checksum_def)
  obtain s1 o1 where 1: "dbg_str b (0x0A # str ''CHKSUM ERR '') (crc_ready B x s) = Some s1"
      "uart_eff rx tx oth (sent 1 o1) (crc_ready B x s) s1"
    using dbg_str_returns by blast
  obtain s2 o2 where 2: "dbg_hex8 b (ucast (gsCalculatedChkSum s1)) s1 = Some s2" "uart_eff rx tx oth (sent 1 o2) s1 s2"
    using dbg_hex8_returns by blast
  obtain s3 o3 where 3: "dbg_hex8 b (ucast (gsCRCVal s2)) s2 = Some s3" "uart_eff rx tx oth (sent 1 o3) s2 s3"
    using dbg_hex8_returns by blast
  obtain k s4 where 4: "sendUartOKorNotOKFrame b 0 s3 = Some (k, s4)" "uart_eff rx tx oth (sent 0 NOT_OK_text) s3 s4"
    using send_not_ok_returns by blast
  have f: "feed b (hex_byte x) s = Some (Continue, crc_leave s4)"
    unfolding B by (simp add: 1(1) 2(1) 3(1) 4(1) del: dbg_str.simps str_Cons)
  have "feed b (hex_byte x @ [z]) s = feed b [z] (crc_leave s4)"
    by (rule feed_append [OF f])
  moreover from uart_eff_trans [OF uart_eff_trans [OF uart_eff_trans [OF 1(2) 2(2)] 3(2)] 4(2)]
  obtain e' where "s4 = (crc_ready B x s)\<lparr>ext := e'\<rparr>" "tx 0 e' = tx 0 (ext s) @ NOT_OK_text"
    by (auto simp: uart_eff_def uart_obs_def sent_def crc_ready_def)
  ultimately show ?thesis
    using lB assms(1)
    by (simp add: crc_leave_def crc_ready_def uart_protocol_char_def uart_case_termination_def uart_wf_def at_checksum_def)
qed

lemma good_checksum_jumps:
  assumes "at_checksum t n a ds s0 s" and "t \<in> {0x37, 0x38, 0x39}" and "a \<noteq> 0"
  shows "\<exists>s'. feed b (hex_byte (srec_checksum (srec_body n a ds))) s = Some (JumpTo a, s') \<and>
    ram s' = ram s \<and>
    uart_obs rx tx oth (sent 1 (dbg_text (0x0A # str ''UART BL JMP '') @ hex32_text a @ dbg_text (str '' '')))
      (ext s) (ext s')"
proof -
  let ?x = "srec_checksum (srec_body n a ds)"
  obtain B where
    B: "feed b (hex_byte ?x) s = do {
         (r, s) \<leftarrow> uart_record_ok b (crc_ready B ?x s);
         if r = Continue
         then do { (_, s) \<leftarrow> sendUartOKorNotOKFrame b 1 s; Some (Continue, crc_leave s) }
         else Some (r, s)
       }"
    using feed_crc [of s b ?x] assms(1) by (auto simp: at_checksum_def)
  obtain s1 where 1: "dbg_str b (0x0A # str ''UART BL JMP '') (crc_ready B ?x s) = Some s1"
      "uart_eff rx tx oth (sent 1 (dbg_text (0x0A # str ''UART BL JMP ''))) (crc_ready B ?x s) s1"
    using dbg_str_returns by blast
  obtain s2 where 2: "dbg_hex32 b a s1 = Some s2" "uart_eff rx tx oth (sent 1 (hex32_text a)) s1 s2"
    using dbg_hex32_returns by blast
  obtain s3 where 3: "dbg_str b (str '' '') s2 = Some s3" "uart_eff rx tx oth (sent 1 (dbg_text (str '' ''))) s2 s3"
    using dbg_str_returns by blast
  have "uart_record_ok b (crc_ready B ?x s) = Some (JumpTo a, s3)"
    using assms 1(1) 2(1) 3(1) unfolding at_checksum_def
    by (elim insertE) (simp_all add: uart_record_ok_def Let_def, simp_all add: crc_ready_def)
  then have "feed b (hex_byte ?x) s = Some (JumpTo a, s3)"
    unfolding B by simp
  moreover obtain e' where "s3 = (crc_ready B ?x s)\<lparr>ext := e'\<rparr>"
    "uart_obs rx tx oth (sent 1 (dbg_text (0x0A # str ''UART BL JMP '') @ hex32_text a @ dbg_text (str '' ''))) (ext s) e'"
    using uart_eff_sent_trans [OF 1(2) uart_eff_sent_trans [OF 2(2) 3(2)]]
    by (auto simp: uart_eff_def crc_ready_def)
  ultimately show ?thesis by (simp add: crc_ready_def)
qed

end

text \<open>Whole records, text and checksum together.\<close>

context uart_hw
begin

lemma data_record:
  assumes "gsUart0ProtocolState s = UART0_PROTOCOL_STATE_IDLE" and "uart_wf s"
    and "t \<in> {0x30, 0x31, 0x32, 0x33}" and "n = srec_addr_size t" and "addr_fits n a"
    and "ds \<noteq> []" and "n + length ds + 1 \<le> 255"
  shows "\<exists>s'. feed b (srec_text t n a ds (srec_checksum (srec_body n a ds)) @ [z]) s = Some (Continue, s') \<and>
    ram s' = srec_place t a ds (ram s) \<and> uart_obs rx tx oth (sent 0 OK_text) (ext s) (ext s') \<and>
    gsUart0ProtocolState s' = UART0_PROTOCOL_STATE_IDLE \<and> uart_wf s'"
proof -
  from feed_data_record [OF assms] obtain s1 where
    1: "feed b (0x53 # t # concat (map hex_byte (srec_body n a ds))) s = Some (Continue, s1)"
    and at: "at_checksum t n a ds s s1"
    by blast
  from good_checksum_placed [OF at assms(3)] at feed_append [OF 1] show ?thesis
    by (simp add: srec_text_def at_checksum_def)
qed

lemma bad_record:
  assumes "gsUart0ProtocolState s = UART0_PROTOCOL_STATE_IDLE" and "uart_wf s"
    and "t \<in> {0x30, 0x31, 0x32, 0x33}" and "n = srec_addr_size t" and "addr_fits n a"
    and "ds \<noteq> []" and "n + length ds + 1 \<le> 255" and "chk \<noteq> srec_checksum (srec_body n a ds)"
  shows "\<exists>s'. feed b (srec_text t n a ds chk @ [z]) s = Some (Continue, s') \<and>
    ram s' = ram s \<and> tx 0 (ext s') = tx 0 (ext s) @ NOT_OK_text \<and>
    gsUart0ProtocolState s' = UART0_PROTOCOL_STATE_IDLE \<and> uart_wf s'"
proof -
  from feed_data_record [OF assms(1-7)] obtain s1 where
    1: "feed b (0x53 # t # concat (map hex_byte (srec_body n a ds))) s = Some (Continue, s1)"
    and at: "at_checksum t n a ds s s1"
    by blast
  from bad_checksum_rejected [OF at assms(8)] at feed_append [OF 1] show ?thesis
    by (simp add: srec_text_def at_checksum_def)
qed

lemma term_record:
  assumes "gsUart0ProtocolState s = UART0_PROTOCOL_STATE_IDLE" and "uart_wf s"
    and "t \<in> {0x37, 0x38, 0x39}" and "n = srec_addr_size t" and "addr_fits n a" and "a \<noteq> 0"
  shows "\<exists>s'. feed b (srec_text t n a [] (srec_checksum (srec_body n a []))) s = Some (JumpTo a, s') \<and>
    ram s' = ram s \<and>
    uart_obs rx tx oth (sent 1 (dbg_text (0x0A # str ''UART BL JMP '') @ hex32_text a @ dbg_text (str '' '')))
      (ext s) (ext s')"
proof -
  from feed_term_record [OF assms(1,2,3,4,5)] obtain s1 where
    1: "feed b (0x53 # t # concat (map hex_byte (srec_body n a []))) s = Some (Continue, s1)"
    and at: "at_checksum t n a [] s s1"
    by blast
  from good_checksum_jumps [OF at assms(3,6)] at feed_append [OF 1] show ?thesis
    by (simp add: srec_text_def at_checksum_def del: str_Cons)
qed

end

section \<open>Properties of whole records\<close>

text \<open>
  C8. A well formed S1, S2 or S3 record with at least one data byte and a non-zero address,
  received from the idle state, stores exactly its data bytes at its address, is answered with
  OK on UART 0 and with nothing else, and leaves the machine idle after the line end.
\<close>

theorem uart_srec_load:
  assumes "uart_hw b rx tx oth busy ready"
    and "gsUart0ProtocolState s = UART0_PROTOCOL_STATE_IDLE" and "uart_wf s"
    and "t \<in> {0x31, 0x32, 0x33}" and "n = srec_addr_size t" and "addr_fits n a" and "a \<noteq> 0"
    and "ds \<noteq> []" and "n + length ds + 1 \<le> 255"
  shows "\<exists>s'. feed b (srec_text t n a ds (srec_checksum (srec_body n a ds)) @ [z]) s = Some (Continue, s') \<and>
    ram s' = store_bytes a ds (ram s) \<and> uart_obs rx tx oth (sent 0 OK_text) (ext s) (ext s') \<and>
    gsUart0ProtocolState s' = UART0_PROTOCOL_STATE_IDLE \<and> uart_wf s'"
proof -
  from assms(4) have t: "t \<in> {0x30, 0x31, 0x32, 0x33}" and "t \<noteq> 0x30" by auto
  then have "srec_place t a ds (ram s) = store_bytes a ds (ram s)" using assms(7) by (simp add: srec_place_def)
  with uart_hw.data_record [OF assms(1,2,3) t assms(5,6,8,9), of z] show ?thesis by simp
qed


text \<open>
  C19. A termination record S7, S8 or S9 with a non-zero start address and a correct checksum
  passes control to exactly that address, after announcing it on the debug UART, with memory
  unchanged.
\<close>

theorem uart_srec_jump:
  assumes "uart_hw b rx tx oth busy ready"
    and "gsUart0ProtocolState s = UART0_PROTOCOL_STATE_IDLE" and "uart_wf s"
    and "t \<in> {0x37, 0x38, 0x39}" and "n = srec_addr_size t" and "addr_fits n a" and "a \<noteq> 0"
  shows "\<exists>s'. feed b (srec_text t n a [] (srec_checksum (srec_body n a []))) s = Some (JumpTo a, s') \<and>
    ram s' = ram s \<and>
    uart_obs rx tx oth (sent 1 (dbg_text (0x0A # str ''UART BL JMP '') @ hex32_text a @ dbg_text (str '' '')))
      (ext s) (ext s')"
  using uart_hw.term_record [OF assms] .

text \<open>A machine in its power-up state: every global is zero, as the startup code leaves it.\<close>

definition uart_init :: "hw uart_globals" where
  "uart_init = \<lparr>ram = (\<lambda>_. 0), ext = hw_init, gStopUartMsgFlg = 0, gStopUartBootLoaderFlg = 0,
     gStopI2CBootLoaderFlg = 0, gsUartProtocolConvToHexBuf = replicate 512 0, gsMemoryWriteBuf = replicate 256 0,
     gsUart0FillIndex = 0, gsUart0ProtocolState = UART0_PROTOCOL_STATE_IDLE, gsSRecordType = 0,
     gsDestinationAddress = 0, gsDestinationAddressSizeInBytes = 0, gsTotalCountInBytes = 0,
     gsDataCountInBytes = 0, gsMemoryWriteBufIndex = 0, gsDataRxdCounterInCharacters = 0, gsCRCVal = 0,
     gsCalculatedChkSum = 0\<rparr>"

lemma uart_init_wf: "uart_wf uart_init" "gsUart0ProtocolState uart_init = UART0_PROTOCOL_STATE_IDLE"
  by (simp_all add: uart_wf_def uart_init_def UART_PROTOCOL_CONV_BUF_LEN_def UART_PROTOCOL_MEMORY_WRITE_BUF_LEN_def)

theorem uart_srec_load_witness:
  "\<exists>s'. feed hw_bus (srec_text 0x33 4 0x1C000880 [0xDE, 0xAD] (srec_checksum (srec_body 4 0x1C000880 [0xDE, 0xAD])) @ [0x0A])
     uart_init = Some (Continue, s') \<and>
    ram s' = store_bytes 0x1C000880 [0xDE, 0xAD] (ram uart_init) \<and>
    uart_obs hw_rx hw_tx hw_oth (sent 0 OK_text) (ext uart_init) (ext s') \<and>
    gsUart0ProtocolState s' = UART0_PROTOCOL_STATE_IDLE \<and> uart_wf s'"
  by (rule uart_srec_load [OF hw_uart.uart_hw_axioms uart_init_wf(2,1)])
    (simp_all add: srec_addr_size_def addr_fits_def)


theorem uart_srec_jump_witness:
  "\<exists>s'. feed hw_bus (srec_text 0x37 4 0x1C008080 [] (srec_checksum (srec_body 4 0x1C008080 []))) uart_init =
      Some (JumpTo 0x1C008080, s') \<and>
    ram s' = ram uart_init \<and>
    uart_obs hw_rx hw_tx hw_oth
      (sent 1 (dbg_text (0x0A # str ''UART BL JMP '') @ hex32_text 0x1C008080 @ dbg_text (str '' '')))
      (ext uart_init) (ext s')"
  by (rule uart_srec_jump [OF hw_uart.uart_hw_axioms uart_init_wf(2,1)])
    (simp_all add: srec_addr_size_def addr_fits_def)

end
