(* ===== verification/Uart_Safety.thy ===== *)
theory Uart_Safety
  imports Uart_Srec
begin

text \<open>
  Properties of the UART bootloader for every input, well formed or not: the round trip of the
  debug printer and the number parser, what one call of \<open>processUartProtocolFrames\<close> does with the
  UART, the index bounds of the two buffers with the invariant that keeps them, and the three
  inputs the state machine does not handle (a record without data, a count field below the size
  of the address field, and a count record S5).
\<close>

section \<open>Numbers printed by the debug output are read back\<close>

lemma hex4_digit:
  "atoh_digit (ucast (hex4 v)) l = ucast (v AND 15) \<and> (ucast (hex4 v) :: u8) \<noteq> 0 \<and> (ucast (hex4 v) :: u8) \<noteq> 0x20"
proof -
  obtain n where n: "n < 16" "v AND 15 = of_nat n" by (rule nibble_of_nat [of v]) simp
  then show ?thesis
    unfolding hex4_def n(2) using less_16_cases [OF n(1)]
    by (elim disjE; simp add: atoh_digit_def)
qed

lemma nibbles_byte:
  "(drop_bit 4 v AND 15) * 16 + (v AND 15) = (ucast (ucast (v :: u32) :: u8) :: u32)"
proof -
  have nib: "u AND 15 = of_nat (unat u mod 16)" for u :: u32
  proof -
    have "u AND 15 = take_bit 4 u"
      by (simp add: take_bit_eq_mask mask_eq_exp_minus_1)
    also have "\<dots> = of_nat (unat (take_bit 4 u))" by simp
    also have "unat (take_bit 4 u) = unat u mod 16"
      by (simp only: unsigned_take_bit_eq) (simp add: take_bit_eq_mod)
    finally show ?thesis .
  qed
  have "(drop_bit 4 v AND 15) * 16 + (v AND 15) = of_nat (16 * (unat v div 16 mod 16) + unat v mod 16)"
    unfolding nib unat_drop_bit_eq by (simp add: drop_bit_eq_div mult.commute del: of_nat_mod of_nat_div)
  also have "16 * (unat v div 16 mod 16) + unat v mod 16 = unat v mod 256"
    using mod_mult2_eq [of "unat v" 16 16] by simp
  also have "unat v mod 256 = unat (ucast v :: u8)"
    by (simp add: unsigned_ucast_eq take_bit_eq_mod)
  finally show ?thesis by simp
qed

lemma atoh_loop_hex8_text:
  "atoh_loop (hex8_text v @ cs) l x = atoh_loop cs (ucast (v AND 15)) (x * 256 + ucast (ucast v :: u8))"
proof -
  have narrow: "(ucast (ucast (u AND 15) :: u8) :: u32) = u AND 15" for u :: u32
  proof -
    obtain n where n: "n < 16" "u AND 15 = of_nat n" by (rule nibble_of_nat [of u]) simp
    show ?thesis unfolding n(2) using less_16_cases [OF n(1)] by (elim disjE; simp)
  qed
  have "atoh_loop (hex8_text v @ cs) l x =
      atoh_loop cs (ucast (v AND 15)) ((x * 16 + (drop_bit 4 v AND 15)) * 16 + (v AND 15))"
    using hex4_digit [of v] hex4_digit [of "drop_bit 4 v"] narrow
    by (simp add: hex8_text_def Let_def)
  also have "(x * 16 + (drop_bit 4 v AND 15)) * 16 + (v AND 15) = x * 256 + ((drop_bit 4 v AND 15) * 16 + (v AND 15))"
    by (simp add: algebra_simps)
  finally show ?thesis by (simp only: nibbles_byte)
qed

text \<open>
  The eight characters that \<open>dbg_hex32\<close> prints for a word are read back by \<open>atoh\<close> as the
  same word.
\<close>

theorem atoh_dbg_hex32: "atoh (hex32_text w) 8 = w"
proof -
  have "be_value (addr_bytes 4 w) = w"
    using unsigned_less [of w, where 'a = nat] by (intro be_value_addr_bytes) (simp_all add: addr_fits_def)
  moreover have "take 8 (hex32_text w) = hex32_text w"
    by (simp add: hex32_text_def hex8_text_def)
  ultimately show ?thesis
    using atoh_loop_hex8_text [of w "[]"]
    by (simp add: atoh_def hex32_text_def atoh_loop_hex8_text addr_bytes_def bytes32_def be_value_def)
qed

section \<open>One call\<close>

text \<open>
  One call of \<open>processUartProtocolFrames\<close> either finds no character and changes nothing but
  the passing of time in the peripherals, or takes exactly the next character of the input of
  UART 0 and handles it with \<open>uart_protocol_char\<close>.
\<close>

theorem processUartProtocolFrames_one_char:
  assumes "uart_hw b rx tx oth busy ready"
  shows "(\<exists>s'. processUartProtocolFrames b s = Some (Continue, s') \<and> uart_eff rx tx oth quiet s s') \<or>
         (\<exists>c s1. uart_got rx tx oth 0 c s s1 \<and> processUartProtocolFrames b s = uart_protocol_char b c s1)"
proof -
  consider s' where "udma_uart_readraw b 0 0 s = (0, 0, s')" "uart_eff rx tx oth quiet s s'"
    | c s' where "udma_uart_readraw b 0 0 s = (1, c, s')" "uart_got rx tx oth 0 c s s'"
    using uart_hw.read_cases [OF assms, of 0 0 s] by metis
  then show ?thesis
    by cases (auto simp: processUartProtocolFrames_def)
qed

theorem processUartProtocolFrames_one_char_witness:
  "(\<exists>s'. processUartProtocolFrames hw_bus uart_init = Some (Continue, s') \<and>
      uart_eff hw_rx hw_tx hw_oth quiet uart_init s') \<or>
   (\<exists>c s1. uart_got hw_rx hw_tx hw_oth 0 c uart_init s1 \<and>
      processUartProtocolFrames hw_bus uart_init = uart_protocol_char hw_bus c s1)"
  by (rule processUartProtocolFrames_one_char [OF hw_uart.uart_hw_axioms])

section \<open>Bytes on the line\<close>

text \<open>
  The contract \<open>uart_tx\<close> counts a byte as sent when the transmitter has taken it over. Seen more closely,
  such a byte waits in the transmitter's queue and leaves it for the line later, while the size register is
  polled; the size reads as zero only when the queue is empty.
\<close>

locale uart_line = uart_tx b rx "\<lambda>u e. line u e @ queue u e" oth busy
  for b :: "'e a2_bus" and rx line queue :: "u8 \<Rightarrow> 'e \<Rightarrow> u8 list" and oth :: "'e \<Rightarrow> 'o" and busy +
  assumes drained: "busy u e = 0 \<Longrightarrow> queue u e = []"
begin

lemma write_drains:
  assumes "0 < n"
  shows "\<exists>i e'. udma_uart_writeraw b u n bs s = Some (i, s\<lparr>ext := e'\<rparr>) \<and> queue u e' = [] \<and>
    line u e' = line u (ext s) @ queue u (ext s) @ take (unat n) bs \<and>
    (\<forall>j. j \<noteq> u \<longrightarrow> line j e' @ queue j e' = line j (ext s) @ queue j (ext s)) \<and>
    (\<forall>j. rx j e' = rx j (ext s)) \<and> oth e' = oth (ext s)"
proof -
  obtain i e' where w: "udma_uart_writeraw b u n bs s = Some (i, s\<lparr>ext := e'\<rparr>)" "busy u e' = 0"
    and obs: "uart_obs rx (\<lambda>u e. line u e @ queue u e) oth (sent u (take (unat n) bs)) (ext s) e'"
    using write_finishes [OF assms, of u bs s] by (auto simp: uart_eff_def)
  have "line u e' @ queue u e' = line u (ext s) @ queue u (ext s) @ take (unat n) bs"
    using obs by (simp add: uart_obs_def sent_def)
  with drained [OF w(2)] have "queue u e' = []" "line u e' = line u (ext s) @ queue u (ext s) @ take (unat n) bs"
    by simp_all
  moreover have "\<forall>j. j \<noteq> u \<longrightarrow> line j e' @ queue j e' = line j (ext s) @ queue j (ext s)"
    using obs by (simp add: uart_obs_def sent_def)
  ultimately show ?thesis using w(1) obs by (intro exI [of _ i] exI [of _ e']) (simp add: uart_obs_def)
qed

end

text \<open>A transmitter that moves one byte to the line at each poll of its size.\<close>

record line_dev =
  d_line :: "u8 \<Rightarrow> u8 list"
  d_queue :: "u8 \<Rightarrow> u8 list"
  d_buf :: "u8 \<Rightarrow> u8 list"
  d_size :: "u8 \<Rightarrow> u32"

fun line_rd :: "a2_reg \<Rightarrow> mem \<times> line_dev \<Rightarrow> u32 \<times> mem \<times> line_dev" where
  "line_rd (Uart u uart_tx_size) (m, d) =
     (case d_queue d u of
        [] \<Rightarrow> (0, m, d)
      | c # cs \<Rightarrow> (1, m, d\<lparr>d_line := (d_line d)(u := d_line d u @ [c]), d_queue := (d_queue d)(u := cs)\<rparr>))"
| "line_rd _ md = (0, md)"

fun line_wr :: "a2_reg \<Rightarrow> u32 \<Rightarrow> mem \<times> line_dev \<Rightarrow> mem \<times> line_dev" where
  "line_wr (Uart u uart_tx_size) v (m, d) = (m, d\<lparr>d_size := (d_size d)(u := v)\<rparr>)"
| "line_wr (Uart u uart_tx_cfg_en) v (m, d) =
     (m, if v = 1 then d\<lparr>d_queue := (d_queue d)(u := take (unat (d_size d u)) (d_buf d u))\<rparr> else d)"
| "line_wr _ v md = md"

fun line_wp :: "a2_reg \<Rightarrow> buf \<Rightarrow> mem \<times> line_dev \<Rightarrow> mem \<times> line_dev" where
  "line_wp (Uart u uart_tx_saddr) (Bytes bs) (m, d) = (m, d\<lparr>d_buf := (d_buf d)(u := bs)\<rparr>)"
| "line_wp _ _ md = md"

definition line_bus :: "line_dev a2_bus" where
  "line_bus = \<lparr>bus_rd = line_rd, bus_wr = line_wr, bus_wp = line_wp\<rparr>"

interpretation line_uart: uart_line line_bus "\<lambda>u d. []" "\<lambda>u d. d_line d u" "\<lambda>u d. d_queue d u" "\<lambda>d. ()"
  "\<lambda>u d. length (d_queue d u)"
  by unfold_locales (auto simp: line_bus_def uart_obs_def quiet_def sent_def neq_Nil_conv)

definition line_init :: "(line_dev, unit) machine_scheme" where
  "line_init = \<lparr>ram = (\<lambda>_. 0), ext = \<lparr>d_line = (\<lambda>_. []), d_queue = (\<lambda>_. [])(1 := [0x3E]), d_buf = (\<lambda>_. []), d_size = (\<lambda>_. 0)\<rparr>\<rparr>"



section \<open>Records the machine does not handle\<close>

text \<open>Once a record of type 5 has been announced the address phase never ends.\<close>

definition count_record_phase :: "('e, 'z) uart_globals_scheme \<Rightarrow> bool" where
  "count_record_phase s \<longleftrightarrow> uart_wf s \<and> gsUart0ProtocolState s = UART0_PROTOCOL_GET_DESTINATION_ADDRESS \<and>
     gsSRecordType s = 0x35 \<and> unat (gsUart0FillIndex s) \<le> 8 \<and> unat (gsDestinationAddressSizeInBytes s) \<le> 4"

lemma count_record_phase_char:
  assumes "count_record_phase s"
  shows "\<exists>s'. uart_protocol_char b c s = Some (Continue, s') \<and> count_record_phase s' \<and> ram s' = ram s \<and> ext s' = ext s"
proof -
  from assms have len: "length (gsUartProtocolConvToHexBuf s) = 512"
    and le: "unat (gsUart0FillIndex s) \<le> 8" and sz: "unat (gsDestinationAddressSizeInBytes s) \<le> 4"
    and st: "gsUart0ProtocolState s = UART0_PROTOCOL_GET_DESTINATION_ADDRESS" and t: "gsSRecordType s = 0x35"
    by (simp_all add: count_record_phase_def uart_wf_def UART_PROTOCOL_CONV_BUF_LEN_def)
  have un: "unat (gsUart0FillIndex s + 1) = Suc (unat (gsUart0FillIndex s))"
    using le by (simp add: unat_word_ariths)
  show ?thesis
  proof (cases "2 * unat (gsDestinationAddressSizeInBytes s) \<le> Suc (unat (gsUart0FillIndex s))")
    case True
    with assms len le un st t show ?thesis
      by (simp add: uart_protocol_char_def uart_case_address_def conv_put_def Let_def count_record_phase_def uart_wf_def)
  next
    case False
    with assms len le un st t sz show ?thesis
      by (simp add: uart_protocol_char_def uart_case_address_def conv_put_def count_record_phase_def uart_wf_def)
  qed
qed

lemma count_record_phase_feed:
  "count_record_phase s \<Longrightarrow>
   \<exists>s'. feed b cs s = Some (Continue, s') \<and> count_record_phase s' \<and> ram s' = ram s \<and> ext s' = ext s"
proof (induction cs arbitrary: s)
  case (Cons c cs)
  obtain s1 where 1: "uart_protocol_char b c s = Some (Continue, s1)" "count_record_phase s1" "ram s1 = ram s" "ext s1 = ext s"
    using count_record_phase_char [OF Cons.prems] by blast
  from Cons.IH [OF 1(2)] 1 show ?case by auto
qed simp

text \<open>
  C37. After an S5 record has been announced and its count read, no further input, however
  long, makes the UART bootloader reply, store anything, or leave the address phase: the case
  analysis that follows the address has no branch for type 5.
\<close>

theorem uart_count_record_never_ends:
  assumes "gsUart0ProtocolState s = UART0_PROTOCOL_STATE_IDLE" and "uart_wf s"
    and "unat (gsDestinationAddressSizeInBytes s) \<le> 4"
  shows "\<exists>s'. feed b (0x53 # 0x35 # hex_byte c @ cs) s = Some (Continue, s') \<and>
    gsUart0ProtocolState s' = UART0_PROTOCOL_GET_DESTINATION_ADDRESS \<and> ram s' = ram s \<and> ext s' = ext s"
proof -
  define s1 where "s1 = s\<lparr>gStopUartMsgFlg := raise_flag (gStopUartMsgFlg s),
     gStopI2CBootLoaderFlg := raise_flag (gStopI2CBootLoaderFlg s), gsSRecordType := 0x35,
     gsUart0FillIndex := 0, gsCalculatedChkSum := 0, gsUart0ProtocolState := UART0_PROTOCOL_GET_COUNT\<rparr>"
  have 1: "feed b [0x53, 0x35] s = Some (Continue, s1)"
    using assms(1) by (simp add: s1_def uart_protocol_char_def uart_case_idle_def uart_case_record_type_def
        srec_start_def raise_flag_def)
  have "uart_wf s1" using assms(2) by (simp add: s1_def uart_wf_def)
  then obtain B where "length B = UART_PROTOCOL_CONV_BUF_LEN" and
    2: "feed b (hex_byte c) s1 = Some (Continue, s1\<lparr>gsUartProtocolConvToHexBuf := B,
      gsTotalCountInBytes := ucast c,
      gsDataCountInBytes := ucast c - gsDestinationAddressSizeInBytes s1 - 1, gsUart0FillIndex := 0,
      gsCalculatedChkSum := gsCalculatedChkSum s1 + ucast c,
      gsUart0ProtocolState := UART0_PROTOCOL_GET_DESTINATION_ADDRESS\<rparr>)" (is "_ = Some (_, ?s2)")
    using feed_count [of s1 b c] by (auto simp: s1_def)
  then have "count_record_phase ?s2"
    using assms(2,3) by (simp add: count_record_phase_def s1_def uart_wf_def)
  then obtain s3 where "feed b cs ?s2 = Some (Continue, s3)" "count_record_phase s3" "ram s3 = ram ?s2" "ext s3 = ext ?s2"
    using count_record_phase_feed by blast
  moreover have "feed b (0x53 # 0x35 # hex_byte c @ cs) s = feed b cs ?s2"
    using feed_append [OF 1, of "hex_byte c @ cs"] feed_append [OF 2, of cs] by simp
  ultimately show ?thesis by (simp add: count_record_phase_def s1_def)
qed

theorem uart_count_record_never_ends_witness:
  "\<exists>s'. feed hw_bus (0x53 # 0x35 # hex_byte 3 @ str ''0002FA'' @ [0x0D, 0x0A]) uart_init = Some (Continue, s') \<and>
    gsUart0ProtocolState s' = UART0_PROTOCOL_GET_DESTINATION_ADDRESS \<and> ram s' = ram uart_init \<and> ext s' = ext uart_init"
  by (rule uart_count_record_never_ends [OF uart_init_wf(2,1)]) (simp add: uart_init_def)

text \<open>
  C38. A data record without data bytes, such as the common header record S0030000FC, is not
  recognised: the data phase always takes one character, so when the text of the record has
  been read the machine still waits for half a checksum, and neither OK nor NOT OK has been
  sent.
\<close>

theorem uart_empty_record_unanswered:
  assumes "gsUart0ProtocolState s = UART0_PROTOCOL_STATE_IDLE" and "uart_wf s"
    and "t \<in> {0x30, 0x31, 0x32, 0x33}" and "n = srec_addr_size t" and "addr_fits n a"
  shows "\<exists>s'. feed b (srec_text t n a [] chk) s = Some (Continue, s') \<and>
    gsUart0ProtocolState s' = UART0_PROTOCOL_GET_CRC \<and> gsUart0FillIndex s' = 1 \<and>
    ram s' = ram s \<and> ext s' = ext s"
proof -
  have "t \<in> {0x30, 0x31, 0x32, 0x33, 0x37, 0x38, 0x39}" and data: "after_address t = UART0_PROTOCOL_GET_DATA"
    using assms(3) by (auto simp: after_address_def)
  with feed_to_address [OF assms(1,2) _ assms(4,5), of b "srec_count n []"] obtain B1 where
    lB1: "length B1 = UART_PROTOCOL_CONV_BUF_LEN" and
    1: "feed b (0x53 # t # concat (map hex_byte (srec_count n [] # addr_bytes n a))) s = Some (Continue,
     s\<lparr>gStopUartMsgFlg := raise_flag (gStopUartMsgFlg s),
       gStopI2CBootLoaderFlg := raise_flag (gStopI2CBootLoaderFlg s),
       gsUartProtocolConvToHexBuf := B1, gsSRecordType := t, gsDestinationAddressSizeInBytes := of_nat n,
       gsTotalCountInBytes := ucast (srec_count n []), gsDataCountInBytes := ucast (srec_count n []) - of_nat n - 1,
       gsDestinationAddress := a, gsUart0FillIndex := 0, gsDataRxdCounterInCharacters := 0,
       gsMemoryWriteBufIndex := 0, gsCalculatedChkSum := ucast (srec_count n []) + addr_sum a,
       gsUart0ProtocolState := UART0_PROTOCOL_GET_DATA\<rparr>)" (is "_ = Some (_, ?s1)")
    by auto
  have n: "n \<in> {2, 3, 4}" using assms(4) srec_addr_size_range by simp
  then have zero: "unat (gsDataCountInBytes ?s1) = 0"
    using srec_data_count [of n "[]"] by auto
  have wf: "length (gsUartProtocolConvToHexBuf ?s1) = 512"
    using lB1 by (simp add: UART_PROTOCOL_CONV_BUF_LEN_def)
  have sum: "uart_sum_loop 0 0 xs v = Some v" for xs v
    by (subst uart_sum_loop.simps) simp
  have "\<exists>s'. feed b (hex_byte chk) ?s1 = Some (Continue, s') \<and>
      gsUart0ProtocolState s' = UART0_PROTOCOL_GET_CRC \<and> gsUart0FillIndex s' = 1 \<and>
      ram s' = ram s \<and> ext s' = ext s"
    using zero wf sum
    by (simp add: hex_byte_def uart_protocol_char_def uart_case_data_def uart_case_crc_def conv_put_def)
  then show ?thesis
    using feed_append [OF 1, of "hex_byte chk"] by (simp add: srec_text_def srec_body_def)
qed

theorem uart_empty_record_unanswered_witness:
  "\<exists>s'. feed hw_bus (srec_text 0x30 2 0 [] 0xFC) uart_init = Some (Continue, s') \<and>
    gsUart0ProtocolState s' = UART0_PROTOCOL_GET_CRC \<and> gsUart0FillIndex s' = 1 \<and>
    ram s' = ram uart_init \<and> ext s' = ext uart_init"
  by (rule uart_empty_record_unanswered [OF uart_init_wf(2,1)]) (simp_all add: srec_addr_size_def addr_fits_def)

lemma feed_long_data:
  assumes "gsUart0ProtocolState s = UART0_PROTOCOL_GET_DATA" and "uart_wf s"
    and "gsUart0FillIndex s = 0" and "gsMemoryWriteBufIndex s = of_nat j"
    and "gsDataRxdCounterInCharacters s = of_nat (2 * j)"
    and "300 < unat (gsDataCountInBytes s)" and "j + length ds \<le> 256"
  shows "\<exists>s'. feed b (concat (map hex_byte ds)) s = Some (Continue, s') \<and>
    gsUart0ProtocolState s' = UART0_PROTOCOL_GET_DATA \<and> uart_wf s' \<and> gsUart0FillIndex s' = 0 \<and>
    gsMemoryWriteBufIndex s' = of_nat (j + length ds) \<and>
    gsDataRxdCounterInCharacters s' = of_nat (2 * (j + length ds)) \<and>
    gsDataCountInBytes s' = gsDataCountInBytes s"
  using assms
proof (induction ds arbitrary: s j)
  case (Cons x ds)
  obtain B where B: "length B = UART_PROTOCOL_CONV_BUF_LEN"
    "feed b (hex_byte x) s = Some (Continue, s\<lparr>gsUartProtocolConvToHexBuf := B,
       gsMemoryWriteBuf := (gsMemoryWriteBuf s)[j := x], gsMemoryWriteBufIndex := of_nat (Suc j),
       gsUart0FillIndex := 0, gsDataRxdCounterInCharacters := of_nat (2 * Suc j)\<rparr>)" (is "_ = Some (_, ?s)")
    using feed_data_byte [of s j b x] Cons.prems by (auto simp: Let_def)
  from Cons.IH [of ?s "Suc j"] Cons.prems B(1) obtain s' where
    "feed b (concat (map hex_byte ds)) ?s = Some (Continue, s')" "gsUart0ProtocolState s' = UART0_PROTOCOL_GET_DATA"
    "uart_wf s'" "gsUart0FillIndex s' = 0" "gsMemoryWriteBufIndex s' = of_nat (Suc j + length ds)"
    "gsDataRxdCounterInCharacters s' = of_nat (2 * (Suc j + length ds))" "gsDataCountInBytes s' = gsDataCountInBytes s"
    by (auto simp: uart_wf_def)
  with feed_append [OF B(2)] show ?case by simp
qed (auto simp: assms)

text \<open>
  C36. A count field that does not cover the address and the checksum makes the data length
  wrap around to a value that is never reached, and the machine stores received bytes through a
  running index without a limit: the 257th data byte is written outside the 256 byte buffer.
\<close>

theorem uart_short_count_overruns:
  assumes "gsUart0ProtocolState s = UART0_PROTOCOL_STATE_IDLE" and "uart_wf s"
    and "t \<in> {0x30, 0x31, 0x32, 0x33}" and "n = srec_addr_size t" and "addr_fits n a"
    and "unat c \<le> n" and "length ds = 257"
  shows "\<exists>s'. feed b (0x53 # t # concat (map hex_byte (c # addr_bytes n a @ ds))) s =
    Some (Undefined OutOfBounds, s')"
proof -
  have "t \<in> {0x30, 0x31, 0x32, 0x33, 0x37, 0x38, 0x39}" and data: "after_address t = UART0_PROTOCOL_GET_DATA"
    using assms(3) by (auto simp: after_address_def)
  with feed_to_address [OF assms(1,2) _ assms(4,5), of b c] obtain B1 where
    lB1: "length B1 = UART_PROTOCOL_CONV_BUF_LEN" and
    1: "feed b (0x53 # t # concat (map hex_byte (c # addr_bytes n a))) s = Some (Continue,
     s\<lparr>gStopUartMsgFlg := raise_flag (gStopUartMsgFlg s),
       gStopI2CBootLoaderFlg := raise_flag (gStopI2CBootLoaderFlg s),
       gsUartProtocolConvToHexBuf := B1, gsSRecordType := t, gsDestinationAddressSizeInBytes := of_nat n,
       gsTotalCountInBytes := ucast c, gsDataCountInBytes := ucast c - of_nat n - 1,
       gsDestinationAddress := a, gsUart0FillIndex := 0, gsDataRxdCounterInCharacters := 0,
       gsMemoryWriteBufIndex := 0, gsCalculatedChkSum := ucast c + addr_sum a,
       gsUart0ProtocolState := UART0_PROTOCOL_GET_DATA\<rparr>)" (is "_ = Some (_, ?s1)")
    by auto
  have n: "n \<in> {2, 3, 4}" using assms(4) srec_addr_size_range by simp
  have "300 < unat (ucast c - of_nat n - 1 :: u16)"
  proof -
    have "(ucast c :: u16) = of_nat (unat c)" by simp
    moreover have "unat c = 0 \<or> unat c = 1 \<or> unat c = 2 \<or> unat c = 3 \<or> unat c = 4" using assms(6) n by auto
    ultimately show ?thesis using n assms(6)
      by (elim insertE disjE) (simp_all only:, simp_all add: unsigned_minus_1_eq_mask mask_eq_exp_minus_1)
  qed
  moreover obtain ds1 x where ds: "ds = ds1 @ [x]" and l1: "length ds1 = 256"
    using assms(7) by (metis length_Suc_conv_rev eval_nat_numeral(3) numeral_eq_Suc)
  moreover have "uart_wf ?s1" using assms(2) lB1 by (simp add: uart_wf_def)
  ultimately obtain s2 where 2: "feed b (concat (map hex_byte ds1)) ?s1 = Some (Continue, s2)"
    and s2: "gsUart0ProtocolState s2 = UART0_PROTOCOL_GET_DATA" "uart_wf s2" "gsUart0FillIndex s2 = 0"
      "gsMemoryWriteBufIndex s2 = 256" "gsDataRxdCounterInCharacters s2 = 512" "300 < unat (gsDataCountInBytes s2)"
    using feed_long_data [of ?s1 0 ds1 b] by auto
  have lens: "length (gsUartProtocolConvToHexBuf s2) = 512" "length (gsMemoryWriteBuf s2) = 256"
    using s2(2) by (simp_all add: uart_wf_def UART_PROTOCOL_CONV_BUF_LEN_def UART_PROTOCOL_MEMORY_WRITE_BUF_LEN_def)
  have "\<exists>s'. feed b (hex_byte x) s2 = Some (Undefined OutOfBounds, s')"
    using s2 lens
    by (simp add: hex_byte_def uart_protocol_char_def uart_case_data_def conv_put_def mem_put_def Let_def)
  then show ?thesis
    using feed_append [OF 1, of "concat (map hex_byte ds)"] feed_append [OF 2, of "hex_byte x"]
    by (simp add: ds)
qed

theorem uart_short_count_overruns_witness:
  "\<exists>s'. feed hw_bus (0x53 # 0x31 # concat (map hex_byte (1 # addr_bytes 2 0x1000 @ replicate 257 0))) uart_init =
    Some (Undefined OutOfBounds, s')"
  by (rule uart_short_count_overruns [OF uart_init_wf(2,1)]) (simp_all add: srec_addr_size_def addr_fits_def)

end
