(* ===== verification/Image_Loader.thy ===== *)
theory Image_Loader
  imports Machine
begin

text \<open>
  The loader of flash images, which the two bootloaders have in the same words: the working structure
  \<^verbatim>\<open>boot_code_t\<close> (\<^verbatim>\<open>a2_boot/include/flash.h\<close> and \<^verbatim>\<open>boot_code/boot_code.c\<close>), the block loop of
  \<^verbatim>\<open>load_section\<close>, \<^verbatim>\<open>getMemAreas\<close> and \<^verbatim>\<open>findDataFit\<close>. The structure lives in the RAM that the
  sections are loaded into, so it is modelled as bytes of memory: a field is read and written at
  its offset from the structure's address, and a section that overlaps the structure changes it
  while it is in use, as on the device.
\<close>

section \<open>Layout of the structures\<close>

definition BOOT_STACK_SIZE :: u32 where "BOOT_STACK_SIZE = 1024"
definition MAX_NB_AREA :: u32 where "MAX_NB_AREA = 16"
definition FLASH_BLOCK_SIZE :: u32 where "FLASH_BLOCK_SIZE = 4096"
definition HYPER_FLASH_BLOCK_SIZE :: u32 where "HYPER_FLASH_BLOCK_SIZE = push_bit 10 1"

text \<open>
  Offsets in \<^verbatim>\<open>boot_code_t\<close>: flashBuffer 0 to 4096, udma\_buffer to 5120, spi\_flash\_id, step,
  header (16 bytes), memArea (16 entries of 16 bytes), udma\_uart\_tx\_buffer (one byte), stack (1024
  bytes), three bytes of padding, hyperflash, blockSize, qpi.
\<close>

definition flashBuffer_off :: u32 where "flashBuffer_off = 0"
definition step_off :: u32 where "step_off = 5124"
definition header_off :: u32 where "header_off = 5128"
definition memArea_off :: u32 where "memArea_off = 5144"
definition stack_off :: u32 where "stack_off = 5401"
definition hyperflash_off :: u32 where "hyperflash_off = 6428"
definition blockSize_off :: u32 where "blockSize_off = 6432"
definition qpi_off :: u32 where "qpi_off = 6436"
definition sizeof_boot_code_t :: u32 where "sizeof_boot_code_t = 6440"
definition sizeof_header :: u32 where "sizeof_header = 16"
definition sizeof_area :: u32 where "sizeof_area = 16"

lemmas layout_defs =
  flashBuffer_off_def step_off_def header_off_def memArea_off_def stack_off_def hyperflash_off_def
  blockSize_off_def qpi_off_def sizeof_boot_code_t_def sizeof_header_def sizeof_area_def
  BOOT_STACK_SIZE_def MAX_NB_AREA_def FLASH_BLOCK_SIZE_def HYPER_FLASH_BLOCK_SIZE_def

text \<open>The structures of the image, with the names of their fields.\<close>

record flash_v2_mem_area_t =
  area_start :: u32
  area_ptr :: u32
  area_size :: u32
  area_blocks :: u32

record flash_v2_header_t =
  hdr_nextDesc :: u32
  hdr_nbAreas :: u32
  hdr_entry :: u32
  hdr_bootaddr :: u32

definition area_at :: "u32 \<Rightarrow> mem \<Rightarrow> flash_v2_mem_area_t" where
  "area_at p m = \<lparr>area_start = load32 p m, area_ptr = load32 (p + 4) m, area_size = load32 (p + 8) m,
     area_blocks = load32 (p + 12) m\<rparr>"

definition header_at :: "u32 \<Rightarrow> mem \<Rightarrow> flash_v2_header_t" where
  "header_at p m = \<lparr>hdr_nextDesc = load32 p m, hdr_nbAreas = load32 (p + 4) m, hdr_entry = load32 (p + 8) m,
     hdr_bootaddr = load32 (p + 12) m\<rparr>"

definition data_header :: "u32 \<Rightarrow> mem \<Rightarrow> flash_v2_header_t" where
  "data_header data m = header_at (data + header_off) m"

definition data_area :: "u32 \<Rightarrow> u32 \<Rightarrow> mem \<Rightarrow> flash_v2_mem_area_t" where
  "data_area data i m = area_at (data + memArea_off + sizeof_area * i) m"

definition data_blockSize :: "u32 \<Rightarrow> mem \<Rightarrow> u32" where
  "data_blockSize data m = load32 (data + blockSize_off) m"

definition set_field :: "u32 \<Rightarrow> u32 \<Rightarrow> ('e, 'z) machine_scheme \<Rightarrow> ('e, 'z) machine_scheme" where
  "set_field a v s = s\<lparr>ram := store32 a v (ram s)\<rparr>"

type_synonym ('e, 'z) reader =
  "u32 \<Rightarrow> u32 \<Rightarrow> u32 \<Rightarrow> u32 \<Rightarrow> ('e, 'z) machine_scheme \<Rightarrow> ('e, 'z) machine_scheme option"

section \<open>Loading one section\<close>

text \<open>How many bytes the next block transfers.\<close>

definition iter_size :: "u32 \<Rightarrow> u32 \<Rightarrow> u32" where
  "iter_size blockSize sz = (if blockSize > sz then (sz + 3) AND 0xfffffffc else blockSize)"

text \<open>
  The number of blocks and the block size are read from memory in every round. The routine that
  reads from the flash is an argument: it is given the working structure, the flash address, the
  destination and the length.
\<close>

partial_function (option) load_section_loop ::
  "('e, 'z) reader \<Rightarrow> u32 \<Rightarrow> u32 \<Rightarrow> bool \<Rightarrow> u32 \<Rightarrow> u32 \<Rightarrow> u32 \<Rightarrow> u32 \<Rightarrow> ('e, 'z) machine_scheme \<Rightarrow>
   ('e, 'z) machine_scheme option" where
  "load_section_loop read data area isL2Section i flash_addr area_addr sz s =
     (if i < area_blocks (area_at area (ram s))
      then let iterSize = iter_size (data_blockSize data (ram s)) sz in do {
        s \<leftarrow> (if isL2Section then read data flash_addr area_addr iterSize s
              else do {
                s \<leftarrow> read data flash_addr (data + flashBuffer_off) iterSize s;
                Some (s\<lparr>ram := memcpy area_addr (data + flashBuffer_off) (unat iterSize) (ram s)\<rparr>)
              });
        load_section_loop read data area isL2Section (i + 1) (flash_addr + iterSize) (area_addr + iterSize)
          (sz - iterSize) s
      }
      else Some s)"

definition load_section ::
  "('e, 'z) reader \<Rightarrow> u32 \<Rightarrow> u32 \<Rightarrow> ('e, 'z) machine_scheme \<Rightarrow> ('e, 'z) machine_scheme option" where
  "load_section read data area s =
     (let a = area_at area (ram s);
          isL2Section = (area_ptr a \<ge> 0x1C000000 \<and> area_ptr a < 0x1D000000)
      in load_section_loop read data area isL2Section 0 (area_start a) (area_ptr a) (area_size a) s)"

section \<open>The image\<close>

text \<open>
  The number of areas is a signed int here: it is limited to 16 from above, and a negative one
  passes.
\<close>

definition getMemAreas ::
  "('e, 'z) reader \<Rightarrow> u32 \<Rightarrow> ('e, 'z) machine_scheme \<Rightarrow> ('e, 'z) machine_scheme option" where
  "getMemAreas read data s = do {
     s \<leftarrow> read data 0 (data + header_off) sizeof_header s;
     let nbArea = hdr_nbAreas (data_header data (ram s));
     let nbArea = (if sint nbArea \<ge> 16 then MAX_NB_AREA else nbArea);
     if nbArea \<noteq> 0
     then read data sizeof_header (data + memArea_off) (nbArea * sizeof_area) s
     else Some s
   }"

section \<open>Finding room for the working structure\<close>

definition fit_step :: "u32 \<Rightarrow> u32 \<Rightarrow> flash_v2_mem_area_t \<Rightarrow> u32" where
  "fit_step blockSize addr area =
     (if (addr \<ge> area_ptr area \<and> addr < area_ptr area + area_size area) \<or>
         (addr < area_ptr area \<and> addr + sizeof_boot_code_t > area_ptr area)
      then ((area_ptr area + area_size area) + blockSize - 1) AND NOT (blockSize - 1)
      else addr)"

function find_fit_loop :: "mem \<Rightarrow> u32 \<Rightarrow> nat \<Rightarrow> u32 \<Rightarrow> u32 option" where
  "find_fit_loop m data i addr =
     (if i < unat (hdr_nbAreas (data_header data m))
      then if i \<ge> 16 then None
      else find_fit_loop m data (Suc i) (fit_step (data_blockSize data m) addr (data_area data (of_nat i) m))
      else Some addr)"
  by pat_completeness auto
termination by (relation "measure (\<lambda>(m, data, i, addr). 16 - i)") auto

declare find_fit_loop.simps [simp del]

definition findDataFit :: "mem \<Rightarrow> u32 \<Rightarrow> u32 option" where
  "findDataFit m data = find_fit_loop m data 0 0x1c000000"

end
