(* ===== verification/Flash_Boot.thy ===== *)
theory Flash_Boot
  imports Spi_Flash Image_Loader
begin

text \<open>
  Booting from the SPI flash in the second bootloader: the parts of \<^verbatim>\<open>a2_boot/main.c\<close> that drive
  the image loader with the SPI driver, print what they do, and enter the image.
\<close>

record 'e boot_state = "'e spi_globals" +
  sp :: u32

text \<open>The length argument of \<^verbatim>\<open>udma_flash_read\<close> is 16 bits wide.\<close>

definition a2_reader ::
  "'e a2_bus \<Rightarrow> u32 \<Rightarrow> u32 \<Rightarrow> u32 \<Rightarrow> u32 \<Rightarrow> ('e, 'z) spi_globals_scheme \<Rightarrow> ('e, 'z) spi_globals_scheme option" where
  "a2_reader b data flash_addr l2addr sz = udma_flash_read b flash_addr l2addr (ucast sz)"

section \<open>The image\<close>

text \<open>
  The loop over the areas uses the unsigned count of the header, without the limit, so it leaves
  the array of sixteen areas when the header announces more.
\<close>

partial_function (option) load_areas_loop ::
  "'e a2_bus \<Rightarrow> u32 \<Rightarrow> u32 \<Rightarrow> ('e, 'z) spi_globals_scheme \<Rightarrow> (exit \<times> ('e, 'z) spi_globals_scheme) option" where
  "load_areas_loop b data i s =
     (if i < hdr_nbAreas (data_header data (ram s))
      then if i \<ge> MAX_NB_AREA then Some (Undefined OutOfBounds, s)
      else do {
        s \<leftarrow> dbg_str b (0x0A # str ''Loading Section '') s;
        s \<leftarrow> dbg_hex32 b i s;
        s \<leftarrow> dbg_str b (str '' to '') s;
        s \<leftarrow> dbg_hex32 b (area_ptr (data_area data i (ram s))) s;
        s \<leftarrow> load_section (a2_reader b) data (data + memArea_off + sizeof_area * i) s;
        load_areas_loop b data (i + 1) s
      }
      else Some (Continue, s))"

definition loadBinaryAndStart ::
  "'e a2_bus \<Rightarrow> u32 \<Rightarrow> ('e, 'z) spi_globals_scheme \<Rightarrow> (exit \<times> ('e, 'z) spi_globals_scheme) option" where
  "loadBinaryAndStart b data s = do {
     s \<leftarrow> getMemAreas (a2_reader b) data s;
     (x, s) \<leftarrow> load_areas_loop b data 0 s;
     if x \<noteq> Continue then Some (x, s)
     else do {
       s \<leftarrow> dbg_str b (0x0A # str ''Jumping to '') s;
       s \<leftarrow> dbg_hex32 b (hdr_entry (data_header data (ram s))) s;
       s \<leftarrow> dbg_str b (str '' '') s;
       Some (JumpTo (hdr_entry (data_header data (ram s))), s)
     }
   }"

definition loadBinaryAndStart_newStack ::
  "'e a2_bus \<Rightarrow> u32 \<Rightarrow> ('e, 'z) boot_state_scheme \<Rightarrow> (exit \<times> ('e, 'z) boot_state_scheme) option" where
  "loadBinaryAndStart_newStack b data s =
     loadBinaryAndStart b data (s\<lparr>sp := data + stack_off + BOOT_STACK_SIZE\<rparr>)"

text \<open>
  \<^verbatim>\<open>bootCode\<close> is the address the linker gives to the static structure of that name.
\<close>

definition bootFromRom ::
  "'e a2_bus \<Rightarrow> u32 \<Rightarrow> u32 \<Rightarrow> u32 \<Rightarrow> ('e, 'z) boot_state_scheme \<Rightarrow> (exit \<times> ('e, 'z) boot_state_scheme) option" where
  "bootFromRom b bootCode hyperflash qpi s =
     (let bs = (if hyperflash \<noteq> 0 then HYPER_FLASH_BLOCK_SIZE else FLASH_BLOCK_SIZE);
          s = set_field (bootCode + hyperflash_off) hyperflash s;
          s = set_field (bootCode + step_off) 0 s;
          s = set_field (bootCode + blockSize_off) bs s;
          s = set_field (bootCode + qpi_off) qpi s
      in do {
        s \<leftarrow> getMemAreas (a2_reader b) bootCode s;
        case findDataFit (ram s) bootCode of
          None \<Rightarrow> Some (Undefined OutOfBounds, s)
        | Some newData \<Rightarrow>
            let s = set_field (newData + hyperflash_off) hyperflash s;
                s = set_field (newData + qpi_off) qpi s;
                s = set_field (newData + blockSize_off) bs s
            in loadBinaryAndStart_newStack b newData s
      })"

end
