(* ===== verification/A2_Main.thy ===== *)
theory A2_Main
  imports Flash_Boot
begin

text \<open>
  The main program of the second bootloader, \<^verbatim>\<open>main\<close> of \<^verbatim>\<open>a2_boot/main.c\<close>, in the order of the
  source: clocks, pins and peripherals, the start-up messages, the probe of the SPI flash, and
  then either a boot from the flash or the endless loop that serves the two host protocols.
  \<open>a2_poll\<close> is one round of that loop. The strings the compiler puts for \<^verbatim>\<open>__DATE__\<close> and
  \<^verbatim>\<open>__TIME__\<close> and the address of the static working structure are parameters; the symbol
  \<^verbatim>\<open>VERILATOR\<close>, which shortens the start for a simulator, is not defined by the build.
\<close>

definition FLL_START_ADDR :: u32 where "FLL_START_ADDR = 0x1A100000"
definition MY_I2C_SLAVE_ADDRESS :: u8 where "MY_I2C_SLAVE_ADDRESS = 0x62"

record build =
  b_date :: "u8 list"
  b_time :: "u8 list"
  b_bootCode :: u32

definition setFLLInResetAndBypass :: "'e a2_bus \<Rightarrow> u8 \<Rightarrow> ('e, 'z) machine_scheme \<Rightarrow> ('e, 'z) machine_scheme" where
  "setFLLInResetAndBypass b aFLLNum s =
     (if aFLLNum \<le> 2
      then let r = Fll_config (FLL_START_ADDR + ucast aFLLNum * 32);
               s = rmw b r (\<lambda>v. v OR push_bit 19 1) s
           in rmw b r (\<lambda>v. v AND NOT (push_bit 2 1)) s
      else s)"

text \<open>Clocks, pins and peripherals; the reset reason and the boot selection are read here.\<close>

definition a2_setup :: "a2_config \<Rightarrow> 'e a2_bus \<Rightarrow> ('e, 'z) machine_scheme \<Rightarrow> u32 \<times> u32 \<times> ('e, 'z) machine_scheme" where
  "a2_setup cfg b s =
     (let s = setFLLInResetAndBypass b 0 s;
          s = setFLLInResetAndBypass b 1 s;
          s = setFLLInResetAndBypass b 2 s;
          (resetreason, s) = rd b Soc_reset_reason s;
          (_, s) = rd b Soc_bootsel s;
          (v, s) = rd b Soc_bootsel s;
          bootsel = v AND 0x1;
          (_, s) = hal_set_apb_i2cs_slave_on_off b 1 s;
          (a, s) = hal_get_apb_i2cs_slave_address b s;
          s = (if a \<noteq> MY_I2C_SLAVE_ADDRESS then hal_set_apb_i2cs_slave_address b MY_I2C_SLAVE_ADDRESS s else s);
          (_, s) = udma_uart_open cfg b 0 115200 s;
          (_, s) = udma_uart_open cfg b 1 115200 s
      in (resetreason, bootsel, s))"

definition a2_banner ::
  "'e a2_bus \<Rightarrow> build \<Rightarrow> u32 \<Rightarrow> u32 \<Rightarrow> ('e, 'z) machine_scheme \<Rightarrow> ('e, 'z) machine_scheme option" where
  "a2_banner b bld resetreason bootsel s = do {
     s \<leftarrow> dbg_str b (b_date bld) s;
     s \<leftarrow> dbg_str b (str ''  '') s;
     s \<leftarrow> dbg_str b (b_time bld) s;
     s \<leftarrow> dbg_str b (0x0A # str ''A2 Bootloader Bootsel='') s;
     s \<leftarrow> dbg_str b (if bootsel = 1 then str ''1 '' else str ''0 '') s;
     s \<leftarrow> dbg_str b (str ''rr='') s;
     dbg_hex8 b resetreason s
   }"

text \<open>
  The probe hands the value of its variable, zero, to \<^verbatim>\<open>udma_flash_readid\<close> where that function
  expects an address, so the identification goes to address 0 and the variable keeps its value.
\<close>

definition a2_probe ::
  "a2_config \<Rightarrow> 'e a2_bus \<Rightarrow> ('e, 'z) spi_globals_scheme \<Rightarrow> (u32 \<times> ('e, 'z) spi_globals_scheme) option" where
  "a2_probe cfg b s =
     (let lFlashID = (0 :: u32);
          (_, s) = udma_qspim_open cfg b 0 2500000 s;
          (_, s) = udma_flash_reset_enable b 0 0 s;
          (_, s) = udma_flash_reset_memory b 0 0 s
      in do {
        s \<leftarrow> udma_flash_readid b lFlashID s;
        Some (if (lFlashID AND 0xFF) \<noteq> 0xFF then 1 else 0, s)
      })"

definition a2_tstring :: "u32 \<Rightarrow> u32 \<Rightarrow> u8 list" where
  "a2_tstring bootsel flash_present =
     (if bootsel = 0 then str ''.'' else if flash_present = 0 then str ''!'' else [])"

text \<open>Before the loop: the CRC table, the reset reason for the host, the register for the debugger.\<close>

definition a2_serve_init :: "'e a2_bus \<Rightarrow> ('e, 'z) i2c_globals_scheme \<Rightarrow> ('e, 'z) i2c_globals_scheme" where
  "a2_serve_init b s =
     (let s = s\<lparr>crcTable := crcInit (crcTable s)\<rparr>;
          (r, s) = rd b Soc_reset_reason s
      in if r = 1
         then wr b Soc_jtagreg 1 (hal_set_i2cs_msg_apb_i2c b A2_RESET_REASON_POR s)
         else let (r, s) = rd b Soc_reset_reason s
              in wr b Soc_jtagreg 1 (if r AND 0x02 \<noteq> 0 then hal_set_i2cs_msg_apb_i2c b A2_RESET_REASON_WDT s else s))"

text \<open>
  One round: the debugger may have asked for a jump; the protocol that has not been stopped by the
  other one is served; and every 90000 rounds the host is invited on the UART until it has spoken.
\<close>

definition a2_poll ::
  "'e a2_bus \<Rightarrow> u8 list \<Rightarrow> u32 \<Rightarrow> ('e, 'z) i2c_globals_scheme \<Rightarrow>
   (exit \<times> u32 \<times> ('e, 'z) i2c_globals_scheme) option" where
  "a2_poll b tstring bootsel s =
     (case rd b Soc_jtagreg s of (v, s) \<Rightarrow>
        if v \<noteq> 1 then Some (JumpTo 0x1C008080, bootsel, s)
        else do {
          (x, s) \<leftarrow> (if gStopUartBootLoaderFlg s = 0 then processUartProtocolFrames b s else Some (Continue, s));
          if x \<noteq> Continue then Some (x, bootsel, s)
          else do {
            (x, s) \<leftarrow> (if gStopI2CBootLoaderFlg s = 0 then processI2CProtocolFrames b s else Some (Continue, s));
            if x \<noteq> Continue then Some (x, bootsel, s)
            else if bootsel + 1 \<ge> 90000
            then do {
              s \<leftarrow> (if gStopUartMsgFlg s = 0
                    then do { s \<leftarrow> dbg_str b tstring s; (_, s) \<leftarrow> sendUartBootMeFrame b s; Some s }
                    else Some s);
              Some (Continue, 0, s)
            }
            else Some (Continue, bootsel + 1, s)
          }
        })"

partial_function (option) a2_loop ::
  "'e a2_bus \<Rightarrow> u8 list \<Rightarrow> u32 \<Rightarrow> ('e, 'z) i2c_globals_scheme \<Rightarrow> (exit \<times> ('e, 'z) i2c_globals_scheme) option" where
  "a2_loop b tstring bootsel s = do {
     (x, bootsel, s) \<leftarrow> a2_poll b tstring bootsel s;
     if x = Continue then a2_loop b tstring bootsel s else Some (x, s)
   }"

definition a2_main ::
  "a2_config \<Rightarrow> build \<Rightarrow> 'e a2_bus \<Rightarrow> ('e, 'z) boot_state_scheme \<Rightarrow> (exit \<times> ('e, 'z) boot_state_scheme) option" where
  "a2_main cfg bld b s =
     (case a2_setup cfg b s of (resetreason, bootsel, s) \<Rightarrow> do {
        s \<leftarrow> a2_banner b bld resetreason bootsel s;
        (flash_present, s) \<leftarrow> a2_probe cfg b s;
        if bootsel = 1 \<and> flash_present = 1
        then bootFromRom b (b_bootCode bld) 0 0 s
        else a2_loop b (a2_tstring bootsel flash_present) 0 (a2_serve_init b s)
      })"

end
