(* ===== verification/I2C_Frames.thy ===== *)
theory I2C_Frames
  imports I2C_Protocol Uart_Srec
begin

text \<open>
  What the I2C bootloader does with whole frames. \<open>host_body\<close> and \<open>host_frame\<close> are the frames a
  host builds; the lemmas follow one from the announcement in the mailbox through the FIFO and the
  CRC check to the command. The frame check rests on the contract \<open>frame_check\<close> of the CRC unit,
  the peripherals on \<open>i2cs_hw\<close> and \<open>uart_hw\<close>.
\<close>

section \<open>Frames of the host\<close>

definition host_body :: "u32 \<Rightarrow> u8 \<Rightarrow> u8 list \<Rightarrow> u8 list" where
  "host_body a cmd ds = bytes16 HOST_TO_A2_FRAME_HEADER @ bytes32 a @ [cmd, of_nat (length ds)] @ ds"

definition with_crc :: "u8 list \<Rightarrow> u8 list" where
  "with_crc m = m @ [crc_hi (crc_of m), crc_lo (crc_of m)]"

definition host_frame :: "u32 \<Rightarrow> u8 \<Rightarrow> u8 list \<Rightarrow> u8 list" where
  "host_frame a cmd ds = with_crc (host_body a cmd ds)"

definition i2c_wf :: "('e, 'z) i2c_globals_scheme \<Rightarrow> bool" where
  "i2c_wf s \<longleftrightarrow> length (gsI2CProtocolFrameRxBuf s) = 256 \<and> crcTable s = crcInit (replicate 256 0)"

text \<open>The receive buffer after a frame has been drained into it.\<close>

definition rx_filled :: "u8 list \<Rightarrow> ('e, 'z) i2c_globals_scheme \<Rightarrow> u8 list" where
  "rx_filled f s = f @ drop (length f) (gsI2CProtocolFrameRxBuf s)"

text \<open>The state of the globals after a frame has been drained.\<close>

definition drained :: "u8 list \<Rightarrow> 'e \<Rightarrow> ('e, 'z) i2c_globals_scheme \<Rightarrow> ('e, 'z) i2c_globals_scheme" where
  "drained f e s = s\<lparr>gStopUartMsgFlg := 1, gStopUartBootLoaderFlg := 1, ext := e,
     gsI2CProtocolFrameRxBuf := rx_filled f s\<rparr>"

lemma length_rx_filled: "i2c_wf s \<Longrightarrow> length f \<le> 256 \<Longrightarrow> length (rx_filled f s) = 256"
  by (simp add: rx_filled_def i2c_wf_def)

lemma length_host_body [simp]: "length (host_body a cmd ds) = length ds + 8"
  by (simp add: host_body_def)

lemma length_with_crc [simp]: "length (with_crc m) = length m + 2"
  by (simp add: with_crc_def)

lemma length_host_frame [simp]: "length (host_frame a cmd ds) = length ds + 10"
  by (simp add: host_frame_def)

lemma le16_append: "length xs = 2 \<Longrightarrow> le16 (xs @ ys) = le16 xs"
  by (simp add: le16_def nth_append)

lemma le32_append: "length xs = 4 \<Longrightarrow> le32 (xs @ ys) = le32 xs"
  by (simp add: le32_def nth_append)

lemma frame_at_host_body:
  "frame_at (host_body a cmd ds @ ys) =
     \<lparr>SOF = HOST_TO_A2_FRAME_HEADER, A2RamAddress = a, CmdType = cmd, DataLen = of_nat (length ds), Data = ds @ ys\<rparr>"
proof -
  have "host_body a cmd ds @ ys = bytes16 HOST_TO_A2_FRAME_HEADER @ bytes32 a @ [cmd, of_nat (length ds)] @ ds @ ys"
    by (simp add: host_body_def)
  moreover have "le16 (bytes16 HOST_TO_A2_FRAME_HEADER @ zs) = HOST_TO_A2_FRAME_HEADER" for zs
    by (simp add: le16_append)
  moreover have "le32 (bytes32 a @ zs) = a" for zs
    by (simp add: le32_append)
  ultimately show ?thesis
    by (simp add: frame_at_def nth_append)
qed

section \<open>The CRC check\<close>

lemma le16_crc_bytes: "le16 [crc_lo c, crc_hi c] = c"
  using le16_bytes16 [of c] by (simp add: bytes16_def crc_lo_def crc_hi_def)

lemma le16_pair_eq: "le16 [l, h] = c \<longleftrightarrow> h = crc_hi c \<and> l = crc_lo c"
proof
  assume c: "le16 [l, h] = c"
  have "bit h n = bit (crc_hi c) n" "bit l n = bit (crc_lo c) n" if "n < 8" for n
    using that bit_imp_le_length [of l "8 + n"] by (auto simp: c [symmetric] le16_def crc_hi_def crc_lo_def bit_simps)
  then show "h = crc_hi c \<and> l = crc_lo c"
    by (intro conjI bit_eqI) simp_all
qed (simp add: le16_crc_bytes)

lemma crc_pair_no_crc: "gUseCRCFlg s \<noteq> 1 \<Longrightarrow> i2c_crc_pair aBuf n s = Some (0, 0)"
  by (simp add: i2c_crc_pair_def)

lemma crc_pair_filled:
  assumes "i2c_wf s" and "gUseCRCFlg s = 1" and "length f = n + 2" and "n + 2 \<le> 256"
  shows "i2c_crc_pair (rx_filled f s0) (of_nat (length f)) s =
    (if length (rx_filled f s0) < n + 2 then None else Some (crc_of (take n f), le16 [f ! Suc n, f ! n]))"
proof -
  have "unat (of_nat n :: u16) = n" "unat (2 + of_nat n :: u16) = n + 2"
    using assms(4) unat_of_nat [where 'a = 16, of n] unat_of_nat [where 'a = 16, of "n + 2"] by simp_all
  moreover have "crcFast (crcInit (replicate 256 0)) (rx_filled f s0) n = crc_of (take n f)"
    using assms(3) by (simp add: crcFast_def crcFast_byte_crcInit crc_of_fold FINAL_XOR_VALUE_def rx_filled_def)
  moreover have "rx_filled f s0 ! Suc n = f ! Suc n" "rx_filled f s0 ! n = f ! n"
    using assms(3) by (simp_all add: rx_filled_def nth_append)
  ultimately show ?thesis
    using assms(1-3)
    by (simp add: i2c_crc_pair_def I2CProtocolFrameCalChksum_def i2c_wf_def Let_def add.commute)
qed

lemma crc_of_table_crc_of: "crc_of_table (crcInit (replicate 256 0)) = crc_of"
  by (rule ext) (simp add: crc_of_table_init)

lemmas crc_rejects = crc16.altered_frame_rejected [unfolded crc_of_table_crc_of]

section \<open>From the mailbox to the parser\<close>

context i2cs_hw
begin

lemma drain_stop:
  assumes "inq (view (ext s)) = []"
  shows "\<exists>e'. i2c_drain b i s = Some (Inr (i, s\<lparr>ext := e'\<rparr>)) \<and> view e' = view (ext s) \<and> oth e' = oth (ext s)"
proof -
  obtain v e1 where "hal_get_i2cs_fifo_i2c_apb_read_flags b s = (v, s\<lparr>ext := e1\<rparr>)" "v = 0"
      "view e1 = view (ext s)" "oth e1 = oth (ext s)"
    using get_flags [of s] assms by (auto simp: i2cs_eff_def)
  then show ?thesis by (intro exI [of _ e1]) (subst i2c_drain.simps, simp)
qed

lemma drain_step:
  assumes "inq (view (ext s)) = c # cs"
  shows "\<exists>e'. view e' = (view (ext s))\<lparr>inq := cs\<rparr> \<and> oth e' = oth (ext s) \<and>
    i2c_drain b i s =
      (if unat i < length (gsI2CProtocolFrameRxBuf s)
       then i2c_drain b (i + 1) (s\<lparr>ext := e', gsI2CProtocolFrameRxBuf := (gsI2CProtocolFrameRxBuf s)[unat i := c]\<rparr>)
       else Some (Inl (s\<lparr>ext := e'\<rparr>)))"
proof -
  obtain v e1 where 1: "hal_get_i2cs_fifo_i2c_apb_read_flags b s = (v, s\<lparr>ext := e1\<rparr>)" "v \<noteq> 0"
      "view e1 = view (ext s)" "oth e1 = oth (ext s)"
    using get_flags [of s] assms by (auto simp: i2cs_eff_def)
  obtain e2 where "hal_get_i2cs_fifo_i2c_apb_read_data_port b (s\<lparr>ext := e1\<rparr>) = (c, s\<lparr>ext := e2\<rparr>)"
      "view e2 = (view (ext s))\<lparr>inq := cs\<rparr>" "oth e2 = oth (ext s)"
    using get_port [of "s\<lparr>ext := e1\<rparr>" c cs] 1(3,4) assms by (auto simp: i2cs_eff_def)
  with 1(1,2) show ?thesis
    by (intro exI [of _ e2]) (subst i2c_drain.simps, simp)
qed

lemma drain_returns:
  assumes "inq (view (ext s)) = cs" and "unat i + length cs \<le> 256" and "length (gsI2CProtocolFrameRxBuf s) = 256"
  shows "\<exists>e'. i2c_drain b i s = Some (Inr (i + of_nat (length cs), s\<lparr>ext := e', gsI2CProtocolFrameRxBuf :=
      take (unat i) (gsI2CProtocolFrameRxBuf s) @ cs @ drop (unat i + length cs) (gsI2CProtocolFrameRxBuf s)\<rparr>)) \<and>
    view e' = (view (ext s))\<lparr>inq := []\<rparr> \<and> oth e' = oth (ext s)"
  using assms
proof (induction cs arbitrary: i s)
  case Nil
  obtain e' where "i2c_drain b i s = Some (Inr (i, s\<lparr>ext := e'\<rparr>))" "view e' = view (ext s)" "oth e' = oth (ext s)"
    using drain_stop [OF Nil(1)] by blast
  with Nil(1) show ?case by (intro exI [of _ e']) simp
next
  case (Cons c cs)
  let ?B = "gsI2CProtocolFrameRxBuf s"
  have i: "unat i < 256" "unat (i + 1) = Suc (unat i)"
    using Cons.prems(2) by (simp_all add: unat_inc_u16)
  obtain e1 where 1: "view e1 = (view (ext s))\<lparr>inq := cs\<rparr>" "oth e1 = oth (ext s)" and
    d: "i2c_drain b i s = (if unat i < length (gsI2CProtocolFrameRxBuf s)
       then i2c_drain b (i + 1) (s\<lparr>ext := e1, gsI2CProtocolFrameRxBuf := (gsI2CProtocolFrameRxBuf s)[unat i := c]\<rparr>)
       else Some (Inl (s\<lparr>ext := e1\<rparr>)))"
    using drain_step [OF Cons.prems(1), of i] by blast
  let ?s = "s\<lparr>ext := e1, gsI2CProtocolFrameRxBuf := ?B[unat i := c]\<rparr>"
  have IH: "\<exists>e'. i2c_drain b (i + 1) ?s = Some (Inr (i + 1 + of_nat (length cs), ?s\<lparr>ext := e', gsI2CProtocolFrameRxBuf :=
      take (unat (i + 1)) (gsI2CProtocolFrameRxBuf ?s) @ cs @ drop (unat (i + 1) + length cs) (gsI2CProtocolFrameRxBuf ?s)\<rparr>)) \<and>
      view e' = (view (ext ?s))\<lparr>inq := []\<rparr> \<and> oth e' = oth (ext ?s)"
    using Cons.prems(2,3) i 1(1) by (intro Cons.IH) simp_all
  have "take (Suc (unat i)) (?B[unat i := c]) = take (unat i) ?B @ [c]"
    using i(1) Cons.prems(3) by (simp add: take_Suc_conv_app_nth)
  with IH i 1 Cons.prems(3) show ?case
    by (simp add: d add.assoc [symmetric])
qed

lemma drain_overruns:
  assumes "inq (view (ext s)) = cs" and "256 < unat i + length cs" and "unat i \<le> 256"
    and "length (gsI2CProtocolFrameRxBuf s) = 256"
  shows "\<exists>s'. i2c_drain b i s = Some (Inl s') \<and> ram s' = ram s"
  using assms
proof (induction cs arbitrary: i s)
  case (Cons c cs)
  obtain e1 where 1: "view e1 = (view (ext s))\<lparr>inq := cs\<rparr>" "oth e1 = oth (ext s)" and
    d: "i2c_drain b i s = (if unat i < length (gsI2CProtocolFrameRxBuf s)
       then i2c_drain b (i + 1) (s\<lparr>ext := e1, gsI2CProtocolFrameRxBuf := (gsI2CProtocolFrameRxBuf s)[unat i := c]\<rparr>)
       else Some (Inl (s\<lparr>ext := e1\<rparr>)))"
    using drain_step [OF Cons.prems(1), of i] by blast
  show ?case
  proof (cases "unat i < 256")
    case True
    let ?s = "s\<lparr>ext := e1, gsI2CProtocolFrameRxBuf := (gsI2CProtocolFrameRxBuf s)[unat i := c]\<rparr>"
    have "unat (i + 1) = Suc (unat i)"
      using True by (simp add: unat_inc_u16)
    then have "\<exists>s'. i2c_drain b (i + 1) ?s = Some (Inl s') \<and> ram s' = ram ?s"
      using Cons.prems True 1(1) by (intro Cons.IH) simp_all
    with True Cons.prems(4) show ?thesis by (simp add: d)
  next
    case False
    with Cons.prems(4) show ?thesis by (simp add: d)
  qed
qed simp

text \<open>The mailbox is read up to three times; its value stays.\<close>

lemma announced:
  assumes "pending (view (ext s))" and "message (view (ext s)) = I2C_NEW_FRAME_READY_BYTE"
  shows "\<exists>e'. view e' = (view (ext s))\<lparr>pending := False\<rparr> \<and> oth e' = oth (ext s) \<and>
    processI2CProtocolFrames b s = do {
      r \<leftarrow> i2c_drain b 0 (s\<lparr>gStopUartMsgFlg := 1, gStopUartBootLoaderFlg := 1, ext := e'\<rparr>);
      case r of
        Inl s \<Rightarrow> Some (Undefined OutOfBounds, s)
      | Inr (i, s) \<Rightarrow> parseI2CProtocolFrame b (gsI2CProtocolFrameRxBuf s) i s
    }"
proof -
  let ?f = "\<lambda>e. s\<lparr>gStopUartMsgFlg := 1, gStopUartBootLoaderFlg := 1, ext := e\<rparr>"
  let ?w = "(view (ext s))\<lparr>pending := False\<rparr>"
  obtain v e0 where 0: "hal_get_i2cs_msg_i2c_apb_status b s = (v, s\<lparr>ext := e0\<rparr>)" "v \<noteq> 0"
      "view e0 = view (ext s)" "oth e0 = oth (ext s)"
    using get_status [of s] assms(1) by (auto simp: i2cs_eff_def)
  obtain e1 where 1: "hal_get_i2cs_msg_i2c_apb b (s\<lparr>ext := e0, gStopUartMsgFlg := 1, gStopUartBootLoaderFlg := 1\<rparr>) =
      (I2C_NEW_FRAME_READY_BYTE, ?f e1)" "view e1 = ?w" "oth e1 = oth (ext s)"
    using get_message [of "s\<lparr>ext := e0, gStopUartMsgFlg := 1, gStopUartBootLoaderFlg := 1\<rparr>"] 0 assms(2)
    by (auto simp: i2cs_eff_def)
  obtain e2 where 2: "hal_get_i2cs_msg_i2c_apb b (?f e1) = (I2C_NEW_FRAME_READY_BYTE, ?f e2)"
      "view e2 = ?w" "oth e2 = oth (ext s)"
    using get_message [of "?f e1"] 1 assms(2) by (auto simp: i2cs_eff_def)
  obtain e3 where 3: "hal_get_i2cs_msg_i2c_apb b (?f e2) = (I2C_NEW_FRAME_READY_BYTE, ?f e3)"
      "view e3 = ?w" "oth e3 = oth (ext s)"
    using get_message [of "?f e2"] 2 assms(2) by (auto simp: i2cs_eff_def)
  from 0 1 2 3 show ?thesis
    by (intro exI [of _ e3])
      (simp add: processI2CProtocolFrames_def i2c_consts)
qed

lemma received:
  assumes "pending (view (ext s))" and "message (view (ext s)) = I2C_NEW_FRAME_READY_BYTE"
    and "inq (view (ext s)) = f" and "length f \<le> 256" and "i2c_wf s"
  shows "\<exists>e'. view e' = (view (ext s))\<lparr>pending := False, inq := []\<rparr> \<and> oth e' = oth (ext s) \<and>
    processI2CProtocolFrames b s =
      parseI2CProtocolFrame b (rx_filled f s) (of_nat (length f)) (drained f e' s)"
proof -
  obtain e1 where 1: "view e1 = (view (ext s))\<lparr>pending := False\<rparr>" "oth e1 = oth (ext s)" and
    p: "processI2CProtocolFrames b s = do {
      r \<leftarrow> i2c_drain b 0 (s\<lparr>gStopUartMsgFlg := 1, gStopUartBootLoaderFlg := 1, ext := e1\<rparr>);
      case r of
        Inl s \<Rightarrow> Some (Undefined OutOfBounds, s)
      | Inr (i, s) \<Rightarrow> parseI2CProtocolFrame b (gsI2CProtocolFrameRxBuf s) i s
    }"
    using announced [OF assms(1,2)] by blast
  obtain e2 where "view e2 = (view e1)\<lparr>inq := []\<rparr>" "oth e2 = oth e1"
    "i2c_drain b 0 (s\<lparr>gStopUartMsgFlg := 1, gStopUartBootLoaderFlg := 1, ext := e1\<rparr>) =
       Some (Inr (of_nat (length f), drained f e2 s))"
    using drain_returns [of "s\<lparr>gStopUartMsgFlg := 1, gStopUartBootLoaderFlg := 1, ext := e1\<rparr>" f 0] assms(3-5) 1(1)
    by (auto simp: drained_def rx_filled_def i2c_wf_def)
  with 1 p show ?thesis
    by (intro exI [of _ e2]) (simp add: drained_def)
qed

lemma overrun:
  assumes "pending (view (ext s))" and "message (view (ext s)) = I2C_NEW_FRAME_READY_BYTE"
    and "256 < length (inq (view (ext s)))" and "i2c_wf s"
  shows "\<exists>s'. processI2CProtocolFrames b s = Some (Undefined OutOfBounds, s') \<and> ram s' = ram s"
proof -
  obtain e1 where 1: "view e1 = (view (ext s))\<lparr>pending := False\<rparr>" and
    p: "processI2CProtocolFrames b s = do {
      r \<leftarrow> i2c_drain b 0 (s\<lparr>gStopUartMsgFlg := 1, gStopUartBootLoaderFlg := 1, ext := e1\<rparr>);
      case r of
        Inl s \<Rightarrow> Some (Undefined OutOfBounds, s)
      | Inr (i, s) \<Rightarrow> parseI2CProtocolFrame b (gsI2CProtocolFrameRxBuf s) i s
    }"
    using announced [OF assms(1,2)] by blast
  obtain s' where "i2c_drain b 0 (s\<lparr>gStopUartMsgFlg := 1, gStopUartBootLoaderFlg := 1, ext := e1\<rparr>) = Some (Inl s')"
      "ram s' = ram s"
    using drain_overruns [of "s\<lparr>gStopUartMsgFlg := 1, gStopUartBootLoaderFlg := 1, ext := e1\<rparr>"
        "inq (view (ext s))" 0] assms(3,4) 1
    by (auto simp: i2c_wf_def)
  with p show ?thesis by simp
qed

end

lemma drained_simps [simp]:
  "i2c_wf s \<Longrightarrow> length f \<le> 256 \<Longrightarrow> i2c_wf (drained f e s)"
  "gUseCRCFlg (drained f e s) = gUseCRCFlg s" "ram (drained f e s) = ram s" "ext (drained f e s) = e"
  by (simp_all add: drained_def i2c_wf_def rx_filled_def)

lemma crc_pair_host_frame:
  assumes "i2c_wf s" and "gUseCRCFlg s = 1" and "length ds \<le> 246"
  shows "i2c_crc_pair (rx_filled (host_frame a cmd ds) s0) (of_nat (length (host_frame a cmd ds))) s =
    Some (crc_of (host_body a cmd ds), crc_of (host_body a cmd ds))"
  using assms crc_pair_filled [of s "host_frame a cmd ds" "length ds + 8" s0]
  by (simp add: host_frame_def with_crc_def nth_append le16_crc_bytes)
     (simp add: rx_filled_def)

lemma frame_at_rx_filled:
  "frame_at (rx_filled (host_frame a cmd ds) s) = \<lparr>SOF = HOST_TO_A2_FRAME_HEADER, A2RamAddress = a, CmdType = cmd,
     DataLen = of_nat (length ds), Data = ds @ drop (length ds + 8) (rx_filled (host_frame a cmd ds) s)\<rparr>"
  by (simp add: rx_filled_def host_frame_def with_crc_def frame_at_host_body)

lemma parse_accepted:
  assumes "i2c_wf s0" and "i2c_wf s" and "gUseCRCFlg s = 1" and "length ds \<le> 246"
  shows "parseI2CProtocolFrame b (rx_filled (host_frame a cmd ds) s0) (of_nat (length (host_frame a cmd ds))) s = do {
      (x, s) \<leftarrow> i2c_command b (frame_at (rx_filled (host_frame a cmd ds) s0)) s;
      if x = Continue
      then Some (Continue, if gUseCRCFlg s = 1 then hal_set_i2cs_msg_apb_i2c b A2_GOOD_FRAME_RCVD s else s)
      else Some (x, s)
    }"
proof -
  have "length (rx_filled (host_frame a cmd ds) s0) = 256"
    using assms by (intro length_rx_filled) simp_all
  moreover have "SOF (frame_at (rx_filled (host_frame a cmd ds) s0)) = HOST_TO_A2_FRAME_HEADER"
    by (simp add: frame_at_rx_filled)
  ultimately show ?thesis
    using crc_pair_host_frame [OF assms(2-4), of a cmd s0] by (simp add: parseI2CProtocolFrame_def)
qed

lemma command_load:
  assumes "length ds \<le> 246"
  shows "i2c_command b (frame_at (rx_filled (host_frame a A2_LOAD_MEMORY_CMD ds) s0)) s =
    Some (Continue, s\<lparr>ram := store_bytes a ds (ram s)\<rparr>)"
  using assms unat_of_nat [where 'a = 8, of "length ds"]
  by (simp add: i2c_command_def frame_at_rx_filled)

section \<open>Properties of whole frames\<close>

lemma load_frame_processed:
  assumes "i2cs_hw b view oth" and "pending (view (ext s))" and "message (view (ext s)) = I2C_NEW_FRAME_READY_BYTE"
    and "inq (view (ext s)) = host_frame a A2_LOAD_MEMORY_CMD ds" and "length ds \<le> 246"
    and "i2c_wf s" and "gUseCRCFlg s = 1"
  shows "\<exists>s'. processI2CProtocolFrames b s = Some (Continue, s') \<and> ram s' = store_bytes a ds (ram s) \<and>
    view (ext s') = (view (ext s))\<lparr>pending := False, inq := [], posted := posted (view (ext s)) @ [A2_GOOD_FRAME_RCVD]\<rparr> \<and>
    oth (ext s') = oth (ext s) \<and> i2c_wf s' \<and> gUseCRCFlg s' = 1"
proof -
  let ?f = "host_frame a A2_LOAD_MEMORY_CMD ds"
  obtain e1 where 1: "view e1 = (view (ext s))\<lparr>pending := False, inq := []\<rparr>" "oth e1 = oth (ext s)"
      "processI2CProtocolFrames b s = parseI2CProtocolFrame b (rx_filled ?f s) (of_nat (length ?f)) (drained ?f e1 s)"
    using i2cs_hw.received [OF assms(1-4) _ assms(6)] assms(5) unfolding length_host_frame by auto
  let ?s1 = "(drained ?f e1 s)\<lparr>ram := store_bytes a ds (ram s)\<rparr>"
  have wf: "i2c_wf (drained ?f e1 s)" "i2c_wf ?s1" "gUseCRCFlg ?s1 = 1"
    using assms(5-7) by (simp_all add: drained_def i2c_wf_def rx_filled_def)
  obtain e2 where 2: "hal_set_i2cs_msg_apb_i2c b A2_GOOD_FRAME_RCVD ?s1 = ?s1\<lparr>ext := e2\<rparr>"
      "view e2 = (view e1)\<lparr>posted := posted (view e1) @ [A2_GOOD_FRAME_RCVD]\<rparr>" "oth e2 = oth e1"
    using i2cs_hw.set_message [OF assms(1), of ?s1 A2_GOOD_FRAME_RCVD] by (auto simp: i2cs_eff_def)
  have "processI2CProtocolFrames b s = Some (Continue, ?s1\<lparr>ext := e2\<rparr>)"
    using 1(3) 2(1) wf assms(5-7) parse_accepted [OF assms(6) wf(1), of ds b a A2_LOAD_MEMORY_CMD]
    by (simp add: command_load del: length_host_frame)
  with 1(1,2) 2(2,3) wf(2,3) show ?thesis
    by (intro exI [of _ "?s1\<lparr>ext := e2\<rparr>"]) (simp add: i2c_wf_def)
qed

text \<open>
  C9. A load frame with a correct CRC, announced in CRC mode, is drained from the FIFO, its
  payload is stored at its address and nowhere else, and the host is told that a good frame
  arrived, and nothing else.
\<close>

theorem i2c_load_frame:
  assumes "i2cs_hw b view oth" and "pending (view (ext s))" and "message (view (ext s)) = I2C_NEW_FRAME_READY_BYTE"
    and "inq (view (ext s)) = host_frame a A2_LOAD_MEMORY_CMD ds" and "length ds \<le> 246"
    and "i2c_wf s" and "gUseCRCFlg s = 1"
  shows "\<exists>s'. processI2CProtocolFrames b s = Some (Continue, s') \<and> ram s' = store_bytes a ds (ram s) \<and>
    view (ext s') = (view (ext s))\<lparr>pending := False, inq := [], posted := posted (view (ext s)) @ [A2_GOOD_FRAME_RCVD]\<rparr> \<and>
    oth (ext s') = oth (ext s) \<and> i2c_wf s'"
  using load_frame_processed [OF assms] by blast

text \<open>
  C10. A CRC protected frame in which any single byte was altered in transit, header, payload or
  CRC, is refused: memory is unchanged and the host is told that the frame was corrupted.
\<close>

theorem i2c_corrupted_frame:
  assumes "i2cs_hw b view oth" and "pending (view (ext s))" and "message (view (ext s)) = I2C_NEW_FRAME_READY_BYTE"
    and "inq (view (ext s)) = (with_crc m)[i := x]" and "i < length m + 2" and "with_crc m ! i \<noteq> x"
    and "length m \<le> 254" and "i2c_wf s" and "gUseCRCFlg s = 1"
  shows "\<exists>s'. processI2CProtocolFrames b s = Some (Continue, s') \<and> ram s' = ram s \<and>
    posted (view (ext s')) = posted (view (ext s)) @ [A2_CORRUPTED_FRAME_RCVD] \<and> oth (ext s') = oth (ext s)"
proof -
  let ?f = "(with_crc m)[i := x]" and ?n = "length m"
  obtain e1 where 1: "view e1 = (view (ext s))\<lparr>pending := False, inq := []\<rparr>" "oth e1 = oth (ext s)"
      "processI2CProtocolFrames b s = parseI2CProtocolFrame b (rx_filled ?f s) (of_nat (length ?f)) (drained ?f e1 s)"
    using i2cs_hw.received [OF assms(1-4) _ assms(8)] assms(7) unfolding length_list_update length_with_crc by auto
  have "length (rx_filled ?f s) = 256"
    using assms(7,8) by (intro length_rx_filled) simp_all
  then have "i2c_crc_pair (rx_filled ?f s) (of_nat (length ?f)) (drained ?f e1 s) =
      Some (crc_of (take ?n ?f), le16 [?f ! Suc ?n, ?f ! ?n])"
    using crc_pair_filled [of "drained ?f e1 s" ?f ?n s] assms(7-9) by simp
  moreover have "le16 [?f ! Suc ?n, ?f ! ?n] \<noteq> crc_of (take ?n ?f)"
    using crc_rejects [OF assms(5) _ refl, of x] assms(6) by (simp add: le16_pair_eq with_crc_def)
  moreover obtain e2 where "hal_set_i2cs_msg_apb_i2c b A2_CORRUPTED_FRAME_RCVD (drained ?f e1 s) = (drained ?f e1 s)\<lparr>ext := e2\<rparr>"
      "view e2 = (view e1)\<lparr>posted := posted (view e1) @ [A2_CORRUPTED_FRAME_RCVD]\<rparr>" "oth e2 = oth e1"
    using i2cs_hw.set_message [OF assms(1), of "drained ?f e1 s" A2_CORRUPTED_FRAME_RCVD] by (auto simp: i2cs_eff_def)
  ultimately show ?thesis
    using 1 assms(9) by (simp add: parseI2CProtocolFrame_def)
qed

lemma jump_frame_processed:
  assumes "i2cs_hw b view oth" and "uart_tx b rx tx oth' busy"
    and "pending (view (ext s))" and "message (view (ext s)) = I2C_NEW_FRAME_READY_BYTE"
    and "inq (view (ext s)) = host_frame a A2_JUMP_TO_ADDRESS_CMD ds" and "length ds \<le> 246"
    and "i2c_wf s" and "gUseCRCFlg s = 1"
  shows "\<exists>e1 s'. processI2CProtocolFrames b s = Some (JumpTo a, s') \<and> ram s' = ram s \<and>
    view e1 = (view (ext s))\<lparr>pending := False, inq := []\<rparr> \<and> oth e1 = oth (ext s) \<and>
    uart_obs rx tx oth' (sent 1 (dbg_text (0x0A # str ''I2C BL JMP '') @ hex32_text a @ dbg_text (str '' ''))) e1 (ext s')"
proof -
  let ?f = "host_frame a A2_JUMP_TO_ADDRESS_CMD ds"
  obtain e1 where 1: "view e1 = (view (ext s))\<lparr>pending := False, inq := []\<rparr>" "oth e1 = oth (ext s)"
      "processI2CProtocolFrames b s = parseI2CProtocolFrame b (rx_filled ?f s) (of_nat (length ?f)) (drained ?f e1 s)"
    using i2cs_hw.received [OF assms(1,3-5) _ assms(7)] assms(6) unfolding length_host_frame by auto
  let ?s1 = "drained ?f e1 s"
  have wf: "i2c_wf ?s1" "gUseCRCFlg ?s1 = 1"
    using assms(6-8) by simp_all
  obtain s2 where 2: "dbg_str b (0x0A # str ''I2C BL JMP '') ?s1 = Some s2"
      "uart_eff rx tx oth' (sent 1 (dbg_text (0x0A # str ''I2C BL JMP ''))) ?s1 s2"
    using uart_tx.dbg_str_returns [OF assms(2)] by blast
  obtain s3 where 3: "dbg_hex32 b a s2 = Some s3" "uart_eff rx tx oth' (sent 1 (hex32_text a)) s2 s3"
    using uart_tx.dbg_hex32_returns [OF assms(2)] by blast
  obtain s4 where 4: "dbg_str b (str '' '') s3 = Some s4" "uart_eff rx tx oth' (sent 1 (dbg_text (str '' ''))) s3 s4"
    using uart_tx.dbg_str_returns [OF assms(2)] by blast
  have "i2c_command b (frame_at (rx_filled ?f s)) ?s1 = Some (JumpTo a, s4)"
    using 2(1) 3(1) 4(1)
    by (simp add: i2c_command_def frame_at_rx_filled i2c_consts del: dbg_str.simps str_Cons)
  then have "processI2CProtocolFrames b s = Some (JumpTo a, s4)"
    using 1(3) wf parse_accepted [OF assms(7) wf assms(6), of b a A2_JUMP_TO_ADDRESS_CMD]
    by (simp del: length_host_frame)
  with uart_eff_sent_trans [OF 2(2) uart_eff_sent_trans [OF 3(2) 4(2)]] 1(1,2) show ?thesis
    by (intro exI [of _ e1] exI [of _ s4]) (auto simp: uart_eff_def drained_def simp del: str_Cons)
qed

text \<open>
  C20. A jump frame with a correct CRC passes control to its address, after announcing it on the
  debug UART, with memory unchanged and without an answer in the mailbox.
\<close>

theorem i2c_jump_frame:
  assumes "i2cs_hw b view (\<lambda>e. \<lambda>u. tx u e)" and "uart_hw b rx tx view busy ready"
    and "pending (view (ext s))" and "message (view (ext s)) = I2C_NEW_FRAME_READY_BYTE"
    and "inq (view (ext s)) = host_frame a A2_JUMP_TO_ADDRESS_CMD ds" and "length ds \<le> 246"
    and "i2c_wf s" and "gUseCRCFlg s = 1"
  shows "\<exists>s'. processI2CProtocolFrames b s = Some (JumpTo a, s') \<and> ram s' = ram s \<and>
    tx 1 (ext s') = tx 1 (ext s) @ dbg_text (0x0A # str ''I2C BL JMP '') @ hex32_text a @ dbg_text (str '' '') \<and>
    posted (view (ext s')) = posted (view (ext s))"
proof -
  obtain e1 s' where 1: "processI2CProtocolFrames b s = Some (JumpTo a, s')" "ram s' = ram s"
      "view e1 = (view (ext s))\<lparr>pending := False, inq := []\<rparr>" "(\<lambda>u. tx u e1) = (\<lambda>u. tx u (ext s))"
      "uart_obs rx tx view (sent 1 (dbg_text (0x0A # str ''I2C BL JMP '') @ hex32_text a @ dbg_text (str '' ''))) e1 (ext s')"
    using jump_frame_processed [OF assms(1) uart_hw.axioms(1) [OF assms(2)] assms(3-8)] by blast
  have "tx 1 e1 = tx 1 (ext s)" using fun_cong [OF 1(4), of 1] by simp
  with 1(1-3,5) show ?thesis by (auto simp: uart_obs_def sent_def simp del: str_Cons)
qed

lemma ready_check_processed:
  assumes "i2cs_hw b view oth" and "pending (view (ext s))"
    and "message (view (ext s)) = (if crc then A2_I2C_BL_WITH_CRC_IS_READY_CHECK_CMD
                                   else A2_I2C_BL_WITHOUT_CRC_IS_READY_CHECK_CMD)"
  shows "\<exists>s'. processI2CProtocolFrames b s = Some (Continue, s') \<and> ram s' = ram s \<and>
    gUseCRCFlg s' = (if crc then 1 else 0) \<and> gStopUartBootLoaderFlg s' = 1 \<and>
    view (ext s') = (view (ext s))\<lparr>pending := False, posted := posted (view (ext s)) @ [A2_I2C_BL_IS_READY_CHECK_RSP_YES]\<rparr> \<and>
    oth (ext s') = oth (ext s)"
proof -
  let ?f = "\<lambda>e. s\<lparr>gStopUartMsgFlg := 1, gStopUartBootLoaderFlg := 1, ext := e\<rparr>"
  let ?w = "(view (ext s))\<lparr>pending := False\<rparr>" and ?m = "message (view (ext s))"
  obtain v e0 where 0: "hal_get_i2cs_msg_i2c_apb_status b s = (v, s\<lparr>ext := e0\<rparr>)" "v \<noteq> 0" "view e0 = view (ext s)" "oth e0 = oth (ext s)"
    using i2cs_hw.get_status [OF assms(1), of s] assms(2) by (auto simp: i2cs_eff_def)
  obtain e1 where 1: "hal_get_i2cs_msg_i2c_apb b (s\<lparr>ext := e0, gStopUartMsgFlg := 1, gStopUartBootLoaderFlg := 1\<rparr>) =
      (?m, ?f e1)" "view e1 = ?w" "oth e1 = oth (ext s)"
    using i2cs_hw.get_message [OF assms(1), of "s\<lparr>ext := e0, gStopUartMsgFlg := 1, gStopUartBootLoaderFlg := 1\<rparr>"] 0
    by (auto simp: i2cs_eff_def)
  obtain e2 where 2: "hal_get_i2cs_msg_i2c_apb b (?f e1) = (?m, ?f e2)" "view e2 = ?w" "oth e2 = oth (ext s)"
    using i2cs_hw.get_message [OF assms(1), of "?f e1"] 1 by (auto simp: i2cs_eff_def)
  define sn where "sn = (if crc then (?f e2)\<lparr>gUseCRCFlg := 1\<rparr> else (?f e1)\<lparr>gUseCRCFlg := 0\<rparr>)"
  have view_n: "view (ext sn) = ?w" "oth (ext sn) = oth (ext s)" using 1(2,3) 2(2,3) by (simp_all add: sn_def)
  obtain e3 where 3: "hal_set_i2cs_msg_apb_i2c b A2_I2C_BL_IS_READY_CHECK_RSP_YES sn = sn\<lparr>ext := e3\<rparr>"
      "view e3 = ?w\<lparr>posted := posted ?w @ [A2_I2C_BL_IS_READY_CHECK_RSP_YES]\<rparr>" "oth e3 = oth (ext s)"
    using i2cs_hw.set_message [OF assms(1), of sn] view_n by (auto simp: i2cs_eff_def)
  have "processI2CProtocolFrames b s = Some (Continue, sn\<lparr>ext := e3\<rparr>)"
    using 0(1,2) 1(1) 2(1) 3(1) assms(3)
    by (cases crc) (simp_all add: processI2CProtocolFrames_def sn_def i2c_consts)
  with 3(2,3) show ?thesis by (simp add: sn_def)
qed

text \<open>
  The two ready checks answer the host with the ready response and select the mode of the
  frame check; the UART bootloader is stopped from then on.
\<close>

theorem i2c_ready_check:
  assumes "i2cs_hw b view oth" and "pending (view (ext s))"
    and "message (view (ext s)) = (if crc then A2_I2C_BL_WITH_CRC_IS_READY_CHECK_CMD
                                   else A2_I2C_BL_WITHOUT_CRC_IS_READY_CHECK_CMD)"
  shows "\<exists>s'. processI2CProtocolFrames b s = Some (Continue, s') \<and> ram s' = ram s \<and>
    gUseCRCFlg s' = (if crc then 1 else 0) \<and> gStopUartBootLoaderFlg s' = 1 \<and>
    view (ext s') = (view (ext s))\<lparr>pending := False, posted := posted (view (ext s)) @ [A2_I2C_BL_IS_READY_CHECK_RSP_YES]\<rparr>"
  using ready_check_processed [OF assms] by blast

text \<open>
  Without the frame check a load frame is obeyed whatever its last two bytes are, and the
  host gets no answer at all.
\<close>

theorem i2c_load_without_crc:
  assumes "i2cs_hw b view oth" and "pending (view (ext s))" and "message (view (ext s)) = I2C_NEW_FRAME_READY_BYTE"
    and "inq (view (ext s)) = host_body a A2_LOAD_MEMORY_CMD ds @ tail" and "length ds + length tail \<le> 248"
    and "i2c_wf s" and "gUseCRCFlg s = 0"
  shows "\<exists>s'. processI2CProtocolFrames b s = Some (Continue, s') \<and> ram s' = store_bytes a ds (ram s) \<and>
    posted (view (ext s')) = posted (view (ext s)) \<and> inq (view (ext s')) = []"
proof -
  let ?f = "host_body a A2_LOAD_MEMORY_CMD ds @ tail"
  obtain e1 where 1: "view e1 = (view (ext s))\<lparr>pending := False, inq := []\<rparr>"
      "processI2CProtocolFrames b s = parseI2CProtocolFrame b (rx_filled ?f s) (of_nat (length ?f)) (drained ?f e1 s)"
    using i2cs_hw.received [OF assms(1-4) _ assms(6)] assms(5) unfolding length_append length_host_body by auto
  have "length (rx_filled ?f s) = 256"
    using assms(5,6) by (intro length_rx_filled) simp_all
  moreover have fr: "frame_at (rx_filled ?f s) = \<lparr>SOF = HOST_TO_A2_FRAME_HEADER, A2RamAddress = a,
      CmdType = A2_LOAD_MEMORY_CMD, DataLen = of_nat (length ds),
      Data = ds @ tail @ drop (length ds + 8 + length tail) (gsI2CProtocolFrameRxBuf s)\<rparr>"
    using frame_at_host_body [of a A2_LOAD_MEMORY_CMD ds "tail @ drop (length ds + 8 + length tail) (gsI2CProtocolFrameRxBuf s)"]
    by (simp add: rx_filled_def)
  moreover have "unat (of_nat (length ds) :: u8) = length ds"
    using assms(5) unat_of_nat [where 'a = 8, of "length ds"] by simp
  ultimately show ?thesis
    using 1 assms(7) by (simp add: parseI2CProtocolFrame_def crc_pair_no_crc i2c_command_def)
qed

text \<open>
  C35. In CRC mode a frame of fewer than two bytes, such as an announcement with an empty FIFO,
  makes the length of the checked part wrap around, and the check reads outside the buffer.
\<close>

theorem i2c_short_frame_undefined:
  assumes "i2cs_hw b view oth" and "pending (view (ext s))" and "message (view (ext s)) = I2C_NEW_FRAME_READY_BYTE"
    and "length (inq (view (ext s))) < 2" and "i2c_wf s" and "gUseCRCFlg s = 1"
  shows "\<exists>s'. processI2CProtocolFrames b s = Some (Undefined OutOfBounds, s')"
proof -
  let ?f = "inq (view (ext s))"
  obtain e1 where 1: "processI2CProtocolFrames b s =
      parseI2CProtocolFrame b (rx_filled ?f s) (of_nat (length ?f)) (drained ?f e1 s)"
    using i2cs_hw.received [OF assms(1-3) refl _ assms(5)] assms(4) by auto
  have "unat (of_nat (length ?f) :: u16) < 2"
    using assms(4) unat_of_nat [where 'a = 16, of "length ?f"] by simp
  then have "i2c_crc_pair (rx_filled ?f s) (of_nat (length ?f)) (drained ?f e1 s) = None"
    by (simp add: i2c_crc_pair_def assms(6) Let_def)
  with 1 show ?thesis by (simp add: parseI2CProtocolFrame_def)
qed

section \<open>Frames of the bootloader\<close>

lemma crcFast_with_tail:
  "n \<le> length m \<Longrightarrow> crcFast (crcInit (replicate 256 0)) (m @ xs) n = crc_of (take n m)"
  by (simp add: crcFast_def crcFast_byte_crcInit crc_of_fold FINAL_XOR_VALUE_def)

text \<open>
  C17. A frame that the bootloader forms with CRC in a buffer with room for it carries the header,
  command, length and payload it was given, and passes the frame check of the other side; the
  buffer beyond the frame is untouched.
\<close>

theorem form_frame_accepted:
  assumes "length ds \<le> 240" and "length ds + 10 \<le> length aBuf"
  shows "\<exists>body buf'. formI2CProtocolFrame (crcInit (replicate 256 0)) aBuf cmd (Some ds) (of_nat (length ds)) 1 =
      Some (of_nat (length ds + 10), buf') \<and>
    buf' = with_crc body @ drop (length ds + 10) aBuf \<and> crc_of (with_crc body) = 0 \<and>
    frame_at (with_crc body) = \<lparr>SOF = A2_TO_HOST_FRAME_HEADER, A2RamAddress = le32 (drop 2 aBuf), CmdType = cmd,
      DataLen = of_nat (length ds), Data = ds @ drop (length ds + 8) (with_crc body)\<rparr>"
proof -
  define body where "body = bytes16 A2_TO_HOST_FRAME_HEADER @ take 4 (drop 2 aBuf) @ [cmd, of_nat (length ds)] @ ds"
  have n: "unat (of_nat (length ds) :: u8) = length ds" "unat (ucast (of_nat (length ds) :: u8) + 8 :: u16) = length ds + 8"
    using assms(1) unat_of_nat [where 'a = 8, of "length ds"]
    by (simp_all add: unat_word_ariths)
  have len: "length body = length ds + 8"
    using assms(2) by (simp add: body_def)
  have le: "(of_nat (length ds) :: u8) \<le> 240"
    using n(1) assms(1) by (simp add: word_le_nat_alt)
  have "formI2CProtocolFrame (crcInit (replicate 256 0)) aBuf cmd (Some ds) (of_nat (length ds)) 1 =
      Some (of_nat (length ds + 10), with_crc body @ drop (length ds + 10) aBuf)"
    using n le assms(2) crcFast_with_tail [of "length ds + 8" body "[]"] len
    by (simp add: formI2CProtocolFrame_def i2c_consts I2CProtocolFrameCalChksum_def with_crc_def crc_hi_def crc_lo_def
        Let_def body_def add.commute)
  moreover have "crc_of (with_crc body) = 0"
    using crc16.residue_iff [of body, unfolded crc_of_table_crc_of] by (simp add: with_crc_def)
  moreover have "frame_at (with_crc body) = \<lparr>SOF = A2_TO_HOST_FRAME_HEADER, A2RamAddress = le32 (drop 2 aBuf), CmdType = cmd,
      DataLen = of_nat (length ds), Data = ds @ drop (length ds + 8) (with_crc body)\<rparr>"
    using assms(2)
    by (simp add: frame_at_def with_crc_def body_def le16_append nth_append le32_def)
  ultimately show ?thesis by blast
qed

context i2cs_hw
begin

lemma send_loop_returns:
  "i2cs_eff view oth ((view (ext s))\<lparr>outq := outq (view (ext s)) @ cs\<rparr>) s (i2c_send_loop b cs s)"
proof (induction cs arbitrary: s)
  case Nil
  then show ?case by (simp add: i2cs_eff_refl)
next
  case (Cons c cs)
  from set_port [of s c] have 1: "i2cs_eff view oth ((view (ext s))\<lparr>outq := outq (view (ext s)) @ [c]\<rparr>) s
      (hal_set_i2cs_fifo_apb_i2c_write_data_port b c s)" .
  from i2cs_eff_trans [OF this Cons.IH] show ?case
    by (simp add: i2cs_eff_view [OF 1])
qed

lemma send_returns:
  assumes "unat n \<le> length f"
  shows "\<exists>e'. sendI2CProtocolFrame b (Some f) n s = Some (n, s\<lparr>lastSentFrameSize := n, ext := e',
       gsI2CProtocolFrameCounter := gsI2CProtocolFrameCounter s + 1\<rparr>) \<and>
     view e' = (view (ext s))\<lparr>outq := take (unat n) f, posted := posted (view (ext s)) @ [I2C_NEW_FRAME_READY_BYTE]\<rparr>"
    and "unat (lastSentFrameSize s) \<le> length (gsI2CProtocolFrameTxBuf s) \<Longrightarrow>
     \<exists>e'. sendI2CProtocolFrame b None 0 s = Some (lastSentFrameSize s, s\<lparr>ext := e',
       gsI2CProtocolFrameCounter := gsI2CProtocolFrameCounter s + 1\<rparr>) \<and>
     view e' = (view (ext s))\<lparr>outq := take (unat (lastSentFrameSize s)) (gsI2CProtocolFrameTxBuf s),
       posted := posted (view (ext s)) @ [I2C_NEW_FRAME_READY_BYTE]\<rparr>"
proof -
  have core: "\<exists>e'. hal_set_i2cs_msg_apb_i2c b I2C_NEW_FRAME_READY_BYTE
      (i2c_send_loop b cs (hal_i2cs_fifo_apb_i2c_FIFO_flush b s)) = s\<lparr>ext := e'\<rparr> \<and>
      view e' = (view (ext s))\<lparr>outq := cs, posted := posted (view (ext s)) @ [I2C_NEW_FRAME_READY_BYTE]\<rparr>"
    for cs and s :: "('e, 'z) i2c_globals_scheme"
  proof -
    let ?s1 = "hal_i2cs_fifo_apb_i2c_FIFO_flush b s"
    let ?s2 = "i2c_send_loop b cs ?s1"
    note 1 = flush_out [of s]
    note 2 = i2cs_eff_trans [OF 1 send_loop_returns [of ?s1 cs]]
    note 3 = i2cs_eff_trans [OF 2 set_message [of ?s2 I2C_NEW_FRAME_READY_BYTE]]
    from 3 show ?thesis
      unfolding i2cs_eff_view [OF 2] i2cs_eff_view [OF 1] by (auto simp: i2cs_eff_def)
  qed
  show "\<exists>e'. sendI2CProtocolFrame b (Some f) n s = Some (n, s\<lparr>lastSentFrameSize := n, ext := e',
       gsI2CProtocolFrameCounter := gsI2CProtocolFrameCounter s + 1\<rparr>) \<and>
     view e' = (view (ext s))\<lparr>outq := take (unat n) f, posted := posted (view (ext s)) @ [I2C_NEW_FRAME_READY_BYTE]\<rparr>"
    using core [of "take (unat n) f" "s\<lparr>lastSentFrameSize := n\<rparr>"] assms
    by (auto simp: sendI2CProtocolFrame_def Let_def)
  show "\<exists>e'. sendI2CProtocolFrame b None 0 s = Some (lastSentFrameSize s, s\<lparr>ext := e',
       gsI2CProtocolFrameCounter := gsI2CProtocolFrameCounter s + 1\<rparr>) \<and>
     view e' = (view (ext s))\<lparr>outq := take (unat (lastSentFrameSize s)) (gsI2CProtocolFrameTxBuf s),
       posted := posted (view (ext s)) @ [I2C_NEW_FRAME_READY_BYTE]\<rparr>"
    if "unat (lastSentFrameSize s) \<le> length (gsI2CProtocolFrameTxBuf s)"
    using core [of "take (unat (lastSentFrameSize s)) (gsI2CProtocolFrameTxBuf s)" s] that
    by (auto simp: sendI2CProtocolFrame_def Let_def)
qed

end

text \<open>
  Sending a frame replaces the contents of the outgoing FIFO by the frame and announces it.
  The resend request that follows does not send that frame again: it sends the first bytes of a
  transmit buffer that no code fills.
\<close>

theorem i2c_resend_is_not_the_last_frame:
  assumes "i2cs_hw b view oth" and "unat n \<le> length f" and "unat n \<le> length (gsI2CProtocolFrameTxBuf s)"
  shows "\<exists>s1 s2. sendI2CProtocolFrame b (Some f) n s = Some (n, s1) \<and> sendI2CProtocolFrame b None 0 s1 = Some (n, s2) \<and>
    outq (view (ext s1)) = take (unat n) f \<and>
    outq (view (ext s2)) = take (unat n) (gsI2CProtocolFrameTxBuf s) \<and>
    posted (view (ext s2)) = posted (view (ext s)) @ [I2C_NEW_FRAME_READY_BYTE, I2C_NEW_FRAME_READY_BYTE]"
proof -
  obtain e1 where 1: "sendI2CProtocolFrame b (Some f) n s = Some (n, s\<lparr>lastSentFrameSize := n, ext := e1,
       gsI2CProtocolFrameCounter := gsI2CProtocolFrameCounter s + 1\<rparr>)"
      "view e1 = (view (ext s))\<lparr>outq := take (unat n) f, posted := posted (view (ext s)) @ [I2C_NEW_FRAME_READY_BYTE]\<rparr>"
    using i2cs_hw.send_returns(1) [OF assms(1,2)] by blast
  let ?s1 = "s\<lparr>lastSentFrameSize := n, ext := e1, gsI2CProtocolFrameCounter := gsI2CProtocolFrameCounter s + 1\<rparr>"
  obtain e2 where "sendI2CProtocolFrame b None 0 ?s1 = Some (n, ?s1\<lparr>ext := e2,
       gsI2CProtocolFrameCounter := gsI2CProtocolFrameCounter ?s1 + 1\<rparr>)"
      "view e2 = (view e1)\<lparr>outq := take (unat n) (gsI2CProtocolFrameTxBuf s),
        posted := posted (view e1) @ [I2C_NEW_FRAME_READY_BYTE]\<rparr>"
    using i2cs_hw.send_returns(2) [OF assms(1,2), of ?s1] assms(3) by auto
  with 1 show ?thesis by simp
qed

section \<open>Concrete runs\<close>

definition i2c_init :: "hw i2c_globals" where
  "i2c_init = uart_globals.extend uart_init (i2c_globals.fields (replicate 256 0) 0 (replicate 16 0) 0 0 (crcInit (replicate 256 0)))"

definition i2c_host :: "u8 \<Rightarrow> u8 list \<Rightarrow> u8 \<Rightarrow> hw i2c_globals" where
  "i2c_host msg f crc = i2c_init\<lparr>gUseCRCFlg := crc,
     ext := hw_init\<lparr>h_i2cs := \<lparr>pending = True, message = msg, inq = f, outq = [], posted = []\<rparr>\<rparr>\<rparr>"

lemma i2c_host_simps [simp]:
  "pending (hw_view (ext (i2c_host msg f crc)))" "message (hw_view (ext (i2c_host msg f crc))) = msg"
  "inq (hw_view (ext (i2c_host msg f crc))) = f" "gUseCRCFlg (i2c_host msg f crc) = crc"
  "i2c_wf (i2c_host msg f crc)" "gsI2CProtocolFrameTxBuf (i2c_host msg f crc) = replicate 16 0"
  by (simp_all add: i2c_host_def hw_view_def i2c_wf_def i2c_init_def uart_globals.defs i2c_globals.defs uart_init_def)

text \<open>The concrete run of every property above, on the reference device.\<close>

definition load_run :: "hw i2c_globals" where
  "load_run = i2c_host I2C_NEW_FRAME_READY_BYTE (host_frame 0x1C000880 A2_LOAD_MEMORY_CMD [1, 2, 3, 4]) 1"

theorem i2c_load_frame_witness:
  "\<exists>s'. processI2CProtocolFrames hw_bus load_run = Some (Continue, s') \<and>
    ram s' = store_bytes 0x1C000880 [1, 2, 3, 4] (ram load_run) \<and>
    hw_view (ext s') = (hw_view (ext load_run))\<lparr>pending := False, inq := [],
      posted := posted (hw_view (ext load_run)) @ [A2_GOOD_FRAME_RCVD]\<rparr> \<and>
    hw_uobs (ext s') = hw_uobs (ext load_run) \<and> i2c_wf s'"
  by (rule i2c_load_frame [OF hw_i2cs.i2cs_hw_axioms]) (simp_all add: load_run_def)

definition corrupted_run :: "hw i2c_globals" where
  "corrupted_run = i2c_host I2C_NEW_FRAME_READY_BYTE ((with_crc [1, 2, 3])[1 := 7]) 1"

theorem i2c_corrupted_frame_witness:
  "\<exists>s'. processI2CProtocolFrames hw_bus corrupted_run = Some (Continue, s') \<and> ram s' = ram corrupted_run \<and>
    posted (hw_view (ext s')) = posted (hw_view (ext corrupted_run)) @ [A2_CORRUPTED_FRAME_RCVD] \<and>
    hw_uobs (ext s') = hw_uobs (ext corrupted_run)"
  by (rule i2c_corrupted_frame [OF hw_i2cs.i2cs_hw_axioms, of _ "[1, 2, 3]" 1 7])
    (simp_all add: corrupted_run_def with_crc_def)

definition jump_run :: "hw i2c_globals" where
  "jump_run = i2c_host I2C_NEW_FRAME_READY_BYTE (host_frame 0x1C008080 A2_JUMP_TO_ADDRESS_CMD []) 1"

theorem i2c_jump_frame_witness:
  "\<exists>s'. processI2CProtocolFrames hw_bus jump_run = Some (JumpTo 0x1C008080, s') \<and> ram s' = ram jump_run \<and>
    hw_tx 1 (ext s') = hw_tx 1 (ext jump_run) @ dbg_text (0x0A # str ''I2C BL JMP '') @ hex32_text 0x1C008080 @ dbg_text (str '' '') \<and>
    posted (hw_view (ext s')) = posted (hw_view (ext jump_run))"
  by (rule i2c_jump_frame [OF hw_i2cs_tx.i2cs_hw_axioms hw_uart_view.uart_hw_axioms, where ds = "[]"])
    (simp_all add: jump_run_def)

definition ready_run :: "hw i2c_globals" where
  "ready_run = i2c_host A2_I2C_BL_WITH_CRC_IS_READY_CHECK_CMD [] 0"

theorem i2c_ready_check_witness:
  "\<exists>s'. processI2CProtocolFrames hw_bus ready_run = Some (Continue, s') \<and> ram s' = ram ready_run \<and>
    gUseCRCFlg s' = (if True then 1 else 0) \<and> gStopUartBootLoaderFlg s' = 1 \<and>
    hw_view (ext s') = (hw_view (ext ready_run))\<lparr>pending := False,
      posted := posted (hw_view (ext ready_run)) @ [A2_I2C_BL_IS_READY_CHECK_RSP_YES]\<rparr>"
  by (rule i2c_ready_check [OF hw_i2cs.i2cs_hw_axioms]) (simp_all add: ready_run_def)

definition no_crc_run :: "hw i2c_globals" where
  "no_crc_run = i2c_host I2C_NEW_FRAME_READY_BYTE (host_body 0x1C000880 A2_LOAD_MEMORY_CMD [5, 6] @ [0, 0]) 0"

theorem i2c_load_without_crc_witness:
  "\<exists>s'. processI2CProtocolFrames hw_bus no_crc_run = Some (Continue, s') \<and>
    ram s' = store_bytes 0x1C000880 [5, 6] (ram no_crc_run) \<and>
    posted (hw_view (ext s')) = posted (hw_view (ext no_crc_run)) \<and> inq (hw_view (ext s')) = []"
  by (rule i2c_load_without_crc [OF hw_i2cs.i2cs_hw_axioms, of _ _ "[5, 6]" "[0, 0]"]) (simp_all add: no_crc_run_def)

definition short_run :: "hw i2c_globals" where
  "short_run = i2c_host I2C_NEW_FRAME_READY_BYTE [] 1"

theorem i2c_short_frame_undefined_witness:
  "\<exists>s'. processI2CProtocolFrames hw_bus short_run = Some (Undefined OutOfBounds, s')"
  by (rule i2c_short_frame_undefined [OF hw_i2cs.i2cs_hw_axioms]) (simp_all add: short_run_def)

theorem form_frame_accepted_witness:
  "\<exists>body buf'. formI2CProtocolFrame (crcInit (replicate 256 0)) (replicate 16 0) 0x25 (Some [9, 8]) (of_nat (length [9 :: u8, 8])) 1 =
      Some (of_nat (length [9 :: u8, 8] + 10), buf') \<and>
    buf' = with_crc body @ drop (length [9 :: u8, 8] + 10) (replicate 16 0) \<and> crc_of (with_crc body) = 0 \<and>
    frame_at (with_crc body) = \<lparr>SOF = A2_TO_HOST_FRAME_HEADER, A2RamAddress = le32 (drop 2 (replicate 16 0)), CmdType = 0x25,
      DataLen = of_nat (length [9 :: u8, 8]), Data = [9, 8] @ drop (length [9 :: u8, 8] + 8) (with_crc body)\<rparr>"
  by (rule form_frame_accepted) simp_all

theorem i2c_resend_is_not_the_last_frame_witness:
  "\<exists>s1 s2. sendI2CProtocolFrame hw_bus (Some [1, 2]) 2 short_run = Some (2, s1) \<and>
    sendI2CProtocolFrame hw_bus None 0 s1 = Some (2, s2) \<and>
    outq (hw_view (ext s1)) = take (unat (2 :: u8)) [1, 2] \<and>
    outq (hw_view (ext s2)) = take (unat (2 :: u8)) (gsI2CProtocolFrameTxBuf short_run) \<and>
    posted (hw_view (ext s2)) = posted (hw_view (ext short_run)) @ [I2C_NEW_FRAME_READY_BYTE, I2C_NEW_FRAME_READY_BYTE]"
  by (rule i2c_resend_is_not_the_last_frame [OF hw_i2cs.i2cs_hw_axioms]) (simp_all add: short_run_def)

end
