(* ===== verification/Mem_Blocks.thy ===== *)
theory Mem_Blocks
  imports Machine
begin

text \<open>
  Blocks of the byte-addressed memory: which addresses are in a block, blocks at fixed offsets of a
  common base, loads and stores that meet or miss each other, the block copy as a store, and sizes
  rounded up to whole words.
\<close>

section \<open>Blocks of memory\<close>

definition in_blk :: "u32 \<Rightarrow> u32 \<Rightarrow> nat \<Rightarrow> bool" where
  "in_blk p a n \<longleftrightarrow> unat (p - a) < n"

lemma in_blk_0 [simp]: "\<not> in_blk p a 0"
  by (simp add: in_blk_def)

lemma in_blk_split:
  assumes "c \<le> n" and "n < 2 ^ 32"
  shows "in_blk p a n \<longleftrightarrow> in_blk p a c \<or> in_blk p (a + of_nat c) (n - c)"
proof -
  have c: "unat (of_nat c :: u32) = c"
    using assms by (simp add: unat_of_nat)
  have e: "p - (a + of_nat c) = (p - a) - of_nat c" by simp
  show ?thesis
  proof (cases "c \<le> unat (p - a)")
    case True
    then have "unat ((p - a) - of_nat c) = unat (p - a) - c"
      using c by (subst unat_sub) (simp_all add: word_le_nat_alt)
    with True assms(1) show ?thesis by (auto simp: in_blk_def e)
  next
    case False
    then have "unat ((p - a) - of_nat c) = unat (p - a) + 2 ^ 32 - c"
      using c by (simp add: unat_sub_if' word_le_nat_alt)
    with False assms show ?thesis by (auto simp: in_blk_def e)
  qed
qed

lemma in_blk_beyond:
  assumes "in_blk p a c" and "c + k \<le> 2 ^ 32"
  shows "\<not> in_blk p (a + of_nat c) k"
proof (cases "k = 0")
  case False
  with assms(2) have c: "unat (of_nat c :: u32) = c"
    by (simp add: unat_of_nat)
  have e: "p - (a + of_nat c) = (p - a) - of_nat c" by simp
  have "unat ((p - a) - of_nat c) = unat (p - a) + 2 ^ 32 - c"
    using assms(1) c by (simp add: unat_sub_if' word_le_nat_alt in_blk_def)
  with assms show ?thesis unfolding in_blk_def e by simp
qed simp

lemma in_blk_nat:
  assumes "unat a + n \<le> 2 ^ 32"
  shows "in_blk p a n \<longleftrightarrow> unat a \<le> unat p \<and> unat p < unat a + n"
proof (cases "unat a \<le> unat p")
  case True
  then have "unat (p - a) = unat p - unat a"
    by (simp add: unat_sub word_le_nat_alt)
  with True show ?thesis by (auto simp: in_blk_def)
next
  case False
  then have "unat (p - a) = unat p + 2 ^ 32 - unat a"
    by (simp add: unat_sub_if' word_le_nat_alt)
  with False assms show ?thesis by (auto simp: in_blk_def)
qed

lemma store_load_apply:
  assumes "n < 2 ^ 32"
  shows "store_bytes d (load_bytes a n f) m p = (if in_blk p d n then f (a + (p - d)) else m p)"
  using assms by (simp add: store_bytes_apply in_blk_def nth_load_bytes)

lemma load_store_disjoint:
  assumes "length xs < 2 ^ 32" and "\<And>i. i < n \<Longrightarrow> \<not> in_blk (q + of_nat i) d (length xs)"
  shows "load_bytes q n (store_bytes d xs m) = load_bytes q n m"
  using assms by (intro load_bytes_cong) (simp add: store_bytes_apply in_blk_def)

text \<open>Objects at fixed offsets of a common base.\<close>

lemma in_blk_offsets:
  assumes "x < 2 ^ 32" and "y + n \<le> 2 ^ 32"
  shows "in_blk (a + of_nat x) (a + of_nat y) n \<longleftrightarrow> y \<le> x \<and> x < y + n"
proof -
  have "a + of_nat x - (a + of_nat y) = (of_nat x - of_nat y :: u32)" by simp
  then have "in_blk (a + of_nat x) (a + of_nat y) n = in_blk (of_nat x) (of_nat y) n"
    unfolding in_blk_def by (simp only:)
  also have "\<dots> \<longleftrightarrow> y \<le> x \<and> x < y + n"
  proof (cases "y < 2 ^ 32")
    case True
    then have "unat (of_nat x :: u32) = x" "unat (of_nat y :: u32) = y"
      using assms by (simp_all add: unat_of_nat)
    with assms show ?thesis by (subst in_blk_nat) simp_all
  next
    case False
    with assms have "n = 0" by simp
    then show ?thesis by simp
  qed
  finally show ?thesis .
qed

lemma load_store_offsets:
  assumes "x + n \<le> y \<or> y + length xs \<le> x" and "x + n \<le> 2 ^ 32" and "y + length xs < 2 ^ 32"
  shows "load_bytes (a + of_nat x) n (store_bytes (a + of_nat y) xs m) = load_bytes (a + of_nat x) n m"
proof (rule load_store_disjoint)
  fix i
  assume "i < n"
  moreover have "a + of_nat x + of_nat i = a + of_nat (x + i)" by (simp add: add.assoc)
  ultimately show "\<not> in_blk (a + of_nat x + of_nat i) (a + of_nat y) (length xs)"
    using assms in_blk_offsets [of "x + i" y "length xs" a] by (auto simp: add.assoc)
qed (use assms in simp)

lemma load_store_inside:
  assumes "k + j \<le> n" and "n < 2 ^ 32"
  shows "load_bytes (d + of_nat k) j (store_bytes d (load_bytes a n f) m) = load_bytes (a + of_nat k) j f"
proof (rule nth_equalityI)
  fix i
  assume "i < length (load_bytes (d + of_nat k) j (store_bytes d (load_bytes a n f) m))"
  then have i: "i < j" by simp
  have "in_blk (d + of_nat (k + i)) d n"
    using in_blk_offsets [of "k + i" 0 n d] i assms by simp
  with i assms show "load_bytes (d + of_nat k) j (store_bytes d (load_bytes a n f) m) ! i = load_bytes (a + of_nat k) j f ! i"
    by (simp add: nth_load_bytes store_load_apply add.assoc)
qed simp

lemma load32_store_inside:
  "k + 4 \<le> n \<Longrightarrow> n < 2 ^ 32 \<Longrightarrow>
   load32 (d + of_nat k) (store_bytes d (load_bytes a n f) m) = load32 (a + of_nat k) f"
  by (simp add: load32_def load_store_inside)

lemma load32_store_offsets:
  "x + 4 \<le> y \<or> y + length xs \<le> x \<Longrightarrow> x + 4 \<le> 2 ^ 32 \<Longrightarrow> y + length xs < 2 ^ 32 \<Longrightarrow>
   load32 (a + of_nat x) (store_bytes (a + of_nat y) xs m) = load32 (a + of_nat x) m"
  by (simp add: load32_def load_store_offsets)

lemma load32_cong:
  "(\<And>i. i < 4 \<Longrightarrow> m (a + of_nat i) = m' (a + of_nat i)) \<Longrightarrow> load32 a m = load32 a m'"
  by (simp add: load32_def load_bytes_cong [of 4 m a m'])

lemma memcpy_eq_store:
  assumes "\<And>i. i < n \<Longrightarrow> n \<le> unat (d + of_nat i - src)"
  shows "memcpy d src n m = store_bytes d (load_bytes src n m) m"
  using assms
proof (induction n arbitrary: d src m)
  case (Suc n)
  have "n \<le> unat (d + 1 + of_nat i - (src + 1))" if "i < n" for i
    using Suc.prems [of i] that by (simp add: algebra_simps)
  then have "memcpy (d + 1) (src + 1) n (m(d := m src)) =
      store_bytes (d + 1) (load_bytes (src + 1) n (m(d := m src))) (m(d := m src))"
    by (rule Suc.IH)
  moreover have "load_bytes (src + 1) n (m(d := m src)) = load_bytes (src + 1) n m"
  proof (rule load_bytes_cong)
    fix i
    assume "i < n"
    have "src + 1 + of_nat i \<noteq> d"
    proof
      assume "src + 1 + of_nat i = d"
      then have "d + of_nat 0 - src = of_nat (Suc i)" by (auto simp: algebra_simps)
      moreover have "Suc n \<le> unat (d + of_nat 0 - src)" by (rule Suc.prems) simp
      moreover have "unat (of_nat (Suc i) :: u32) \<le> Suc i" unfolding unat_of_nat by (rule mod_less_eq_dividend)
      ultimately show False using \<open>i < n\<close> by simp
    qed
    then show "(m(d := m src)) (src + 1 + of_nat i) = m (src + 1 + of_nat i)" by simp
  qed
  ultimately show ?case by simp
qed simp

section \<open>Rounding\<close>

definition rup :: "nat \<Rightarrow> nat" where
  "rup n = 4 * ((n + 3) div 4)"

lemma rup_ge: "n \<le> rup n" and rup_le: "rup n \<le> n + 3" and rup_0 [simp]: "rup 0 = 0"
  unfolding rup_def by presburger+

lemma rup_add_dvd: "4 dvd b \<Longrightarrow> rup (n + b) = rup n + b"
  unfolding rup_def by presburger

lemma rup_least:
  assumes "4 dvd m" and "n \<le> m"
  shows "rup n \<le> m"
proof -
  from assms(1) obtain k where "m = 4 * k" by auto
  with assms(2) have "(n + 3) div 4 \<le> (4 * k + 3) div 4" by (intro div_le_mono) simp
  with \<open>m = 4 * k\<close> show ?thesis by (simp add: rup_def)
qed

lemma add_rup_least:
  assumes "4 dvd p" and "4 dvd m" and "p + z \<le> m"
  shows "p + rup z \<le> m"
proof -
  have "rup z \<le> m - p" using assms by (intro rup_least) simp_all
  with assms(3) show ?thesis by simp
qed

lemma unat_align_down:
  fixes x :: u32
  shows "unat (x AND NOT (mask k)) = 2 ^ k * (unat x div 2 ^ k)"
proof -
  have "x AND NOT (mask k) = push_bit k (drop_bit k x)"
    by (rule bit_eqI) (auto simp: bit_simps)
  moreover have "unat (push_bit k (drop_bit k x)) = 2 ^ k * (unat x div 2 ^ k)"
  proof -
    have "2 ^ k * (unat x div 2 ^ k) \<le> unat x" by simp
    also have "unat x < 2 ^ 32" using unsigned_less [of x, where 'a = nat] by simp
    finally have l: "2 ^ k * (unat x div 2 ^ k) < 2 ^ 32" .
    have e: "push_bit k (drop_bit k (unat x)) = 2 ^ k * (unat x div 2 ^ k)"
      by (simp add: push_bit_eq_mult drop_bit_eq_div mult.commute)
    have "unat (push_bit k (drop_bit k x)) = take_bit 32 (push_bit k (drop_bit k (unat x)))"
      by (simp add: unsigned_push_bit_eq unat_drop_bit_eq)
    with l show ?thesis unfolding e by (simp add: take_bit_nat_eq_self)
  qed
  ultimately show ?thesis by simp
qed

lemma unat_round_4:
  fixes x :: u32
  assumes "unat x + 3 < 2 ^ 32"
  shows "unat ((x + 3) AND 0xfffffffc) = rup (unat x)"
proof -
  have "(0xfffffffc :: u32) = NOT (mask 2)" by (simp add: mask_eq_exp_minus_1)
  moreover have "unat (x + 3) = unat x + 3" using assms by (simp add: unat_add_lem [THEN iffD1])
  ultimately show ?thesis using unat_align_down [of "x + 3" 2] by (simp add: rup_def)
qed

end
