(* ===== verification/Image_Props.thy ===== *)
theory Image_Props
  imports Image_Loader Mem_Blocks
begin

text \<open>
  What the loader does with a well formed image. \<open>place\<close> is the specification: the memory after the
  sections of an image have been copied from the flash. The locale \<open>image_reader\<close> is the contract of
  the routine that reads from the flash, which each bootloader provides with its own driver. Inside
  it the lemmas show that the block loop of \<open>load_section\<close> implements \<open>place\<close> for one section, outside
  the working structure, and that \<open>getMemAreas\<close> brings the header and the areas into the structure;
  after it, that \<open>findDataFit\<close> keeps the structure clear of the sections.
\<close>

section \<open>Copying a section\<close>

text \<open>
  \<open>high_eq\<close>: the part of the working structure beyond its two buffers is unchanged. \<open>loads\<close>: outside
  the structure, memory changed exactly to the contents of the flash in the given block.
\<close>

definition high_eq :: "u32 \<Rightarrow> mem \<Rightarrow> mem \<Rightarrow> bool" where
  "high_eq data m m' \<longleftrightarrow> (\<forall>p. in_blk p (data + 5120) 1320 \<longrightarrow> m' p = m p)"

definition loads :: "mem \<Rightarrow> u32 \<Rightarrow> u32 \<Rightarrow> u32 \<Rightarrow> nat \<Rightarrow> mem \<Rightarrow> mem \<Rightarrow> bool" where
  "loads flash data aa fa n m m' \<longleftrightarrow> high_eq data m m' \<and>
     (\<forall>p. \<not> in_blk p data 6440 \<longrightarrow> m' p = (if in_blk p aa n then flash (fa + (p - aa)) else m p))"

lemma high_eq_refl: "high_eq data m m"
  and high_eq_trans: "high_eq data m m1 \<Longrightarrow> high_eq data m1 m2 \<Longrightarrow> high_eq data m m2"
  by (simp_all add: high_eq_def)

lemma high_in_data: "in_blk p (data + 5120) 1320 \<Longrightarrow> in_blk p data 6440"
  using in_blk_split [of 5120 6440 p data] by simp

lemma high_load32:
  assumes "high_eq data m m'" and "5120 \<le> x" and "x + 4 \<le> 6440"
  shows "load32 (data + of_nat x) m' = load32 (data + of_nat x) m"
proof (rule load32_cong)
  fix i :: nat
  assume "i < 4"
  with assms(2,3) have "in_blk (data + of_nat (x + i)) (data + of_nat 5120) 1320"
    by (subst in_blk_offsets) simp_all
  with assms(1) show "m' (data + of_nat x + of_nat i) = m (data + of_nat x + of_nat i)"
    by (simp add: high_eq_def add.assoc)
qed

lemma high_area:
  assumes "high_eq data m m'" and "5120 \<le> x" and "x + 16 \<le> 6440"
  shows "area_at (data + of_nat x) m' = area_at (data + of_nat x) m"
  using high_load32 [OF assms(1), of x] high_load32 [OF assms(1), of "x + 4"] high_load32 [OF assms(1), of "x + 8"]
    high_load32 [OF assms(1), of "x + 12"] assms(2,3)
  by (simp add: area_at_def add.assoc)

lemma high_blockSize: "high_eq data m m' \<Longrightarrow> data_blockSize data m' = data_blockSize data m"
  using high_load32 [of data m m' 6432] by (simp add: data_blockSize_def layout_defs)

lemma high_nbAreas: "high_eq data m m' \<Longrightarrow> data_header data m' = data_header data m"
  using high_load32 [of data m m' 5128] high_load32 [of data m m' 5132] high_load32 [of data m m' 5136]
    high_load32 [of data m m' 5140]
  by (simp add: data_header_def header_at_def layout_defs add.assoc)

lemma loads_0: "loads flash data aa fa 0 m m"
  by (simp add: loads_def high_eq_refl)

lemma loads_append:
  assumes "loads flash data aa fa c m m1" and "loads flash data (aa + of_nat c) (fa + of_nat c) k m1 m2"
    and "c + k < 2 ^ 32"
  shows "loads flash data aa fa (c + k) m m2"
proof -
  have "m2 p = (if in_blk p aa (c + k) then flash (fa + (p - aa)) else m p)" if "\<not> in_blk p data 6440" for p
  proof (cases "in_blk p (aa + of_nat c) k")
    case True
    then have "m2 p = flash (fa + of_nat c + (p - (aa + of_nat c)))"
      using assms(2) that by (simp add: loads_def)
    also have "fa + of_nat c + (p - (aa + of_nat c)) = fa + (p - aa)" by simp
    finally show ?thesis using True in_blk_split [of c "c + k" p aa] assms(3) by simp
  next
    case False
    then have "m2 p = m1 p" using assms(2) that by (simp add: loads_def)
    with assms(1) that False show ?thesis
      using in_blk_split [of c "c + k" p aa] assms(3) by (simp add: loads_def)
  qed
  with assms show ?thesis by (auto simp: loads_def intro: high_eq_trans)
qed

lemma loads_store:
  assumes "n \<le> 2 ^ 16" and "\<And>p. in_blk p aa n \<Longrightarrow> \<not> in_blk p data 6440"
  shows "loads flash data aa fa n m (store_bytes aa (load_bytes fa n flash) m)"
  using assms by (auto simp: loads_def high_eq_def store_load_apply dest: high_in_data)

lemma loads_buffers:
  assumes "loads flash data aa fa n m1 m'" and "\<And>p. \<not> in_blk p data 5120 \<Longrightarrow> m1 p = m p"
  shows "loads flash data aa fa n m m'"
proof -
  have "\<not> in_blk p data 5120" if "in_blk p (data + 5120) 1320 \<or> \<not> in_blk p data 6440" for p
    using that in_blk_split [of 5120 6440 p data] in_blk_beyond [of p data 5120 1320] by auto
  with assms show ?thesis by (simp add: loads_def high_eq_def)
qed
section \<open>Images\<close>

lemma header_stored:
  assumes "16 \<le> n" and "n < 2 ^ 32"
  shows "header_at d (store_bytes d (load_bytes a n f) m) = header_at a f"
  using load32_store_inside [of 0 n d a f m] load32_store_inside [of 4 n d a f m]
    load32_store_inside [of 8 n d a f m] load32_store_inside [of 12 n d a f m] assms
  by (simp add: header_at_def)

lemma area_stored:
  assumes "k + 16 \<le> n" and "n < 2 ^ 32"
  shows "area_at (d + of_nat k) (store_bytes d (load_bytes a n f) m) = area_at (a + of_nat k) f"
  using load32_store_inside [of k n d a f m] load32_store_inside [of "k + 4" n d a f m]
    load32_store_inside [of "k + 8" n d a f m] load32_store_inside [of "k + 12" n d a f m] assms
  by (simp add: area_at_def add.assoc)

lemma header_elsewhere:
  assumes "x + 16 \<le> y \<or> y + length xs \<le> x" and "x + 16 \<le> 2 ^ 32" and "y + length xs < 2 ^ 32"
  shows "header_at (a + of_nat x) (store_bytes (a + of_nat y) xs m) = header_at (a + of_nat x) m"
  using load32_store_offsets [of x y xs a m] load32_store_offsets [of "x + 4" y xs a m]
    load32_store_offsets [of "x + 8" y xs a m] load32_store_offsets [of "x + 12" y xs a m] assms
  by (auto simp: header_at_def add.assoc)

lemma area_elsewhere:
  assumes "x + 16 \<le> y \<or> y + length xs \<le> x" and "x + 16 \<le> 2 ^ 32" and "y + length xs < 2 ^ 32"
  shows "area_at (a + of_nat x) (store_bytes (a + of_nat y) xs m) = area_at (a + of_nat x) m"
  using load32_store_offsets [of x y xs a m] load32_store_offsets [of "x + 4" y xs a m]
    load32_store_offsets [of "x + 8" y xs a m] load32_store_offsets [of "x + 12" y xs a m] assms
  by (auto simp: area_at_def add.assoc)

definition img_header :: "mem \<Rightarrow> flash_v2_header_t" where
  "img_header flash = header_at 0 flash"

definition img_nb :: "mem \<Rightarrow> nat" where
  "img_nb flash = unat (hdr_nbAreas (img_header flash))"

definition img_area :: "mem \<Rightarrow> nat \<Rightarrow> flash_v2_mem_area_t" where
  "img_area flash i = area_at (of_nat (16 + 16 * i)) flash"

definition img_areas :: "mem \<Rightarrow> flash_v2_mem_area_t list" where
  "img_areas flash = map (img_area flash) [0..<img_nb flash]"

text \<open>A working structure that holds the header and the areas of the image, for 4 KB blocks.\<close>

definition holds_image :: "mem \<Rightarrow> u32 \<Rightarrow> mem \<Rightarrow> bool" where
  "holds_image flash data m \<longleftrightarrow> data_header data m = img_header flash \<and> data_blockSize data m = 4096 \<and>
     (\<forall>i < img_nb flash. area_at (data + of_nat (5144 + 16 * i)) m = img_area flash i)"

lemma holds_image_high:
  assumes "holds_image flash data m" and "high_eq data m m'" and "img_nb flash \<le> 16"
  shows "holds_image flash data m'"
  unfolding holds_image_def
proof (intro conjI allI impI)
  show "data_header data m' = img_header flash" "data_blockSize data m' = 4096"
    using assms(1) high_nbAreas [OF assms(2)] high_blockSize [OF assms(2)] by (simp_all add: holds_image_def)
  fix i
  assume "i < img_nb flash"
  moreover from this assms(3) have "area_at (data + of_nat (5144 + 16 * i)) m' = area_at (data + of_nat (5144 + 16 * i)) m"
    by (intro high_area [OF assms(2)]) simp_all
  ultimately show "area_at (data + of_nat (5144 + 16 * i)) m' = img_area flash i"
    using assms(1) unfolding holds_image_def by (simp only:)
qed

lemma data_area_alt: "data_area data (of_nat i) m = area_at (data + of_nat (5144 + 16 * i)) m"
  by (simp add: data_area_def layout_defs add.assoc)

text \<open>The sections copied one after the other: the specification of the loader.\<close>

fun place :: "mem \<Rightarrow> flash_v2_mem_area_t list \<Rightarrow> mem \<Rightarrow> mem" where
  "place flash [] m = m"
| "place flash (a # as) m = place flash as
     (\<lambda>p. if in_blk p (area_ptr a) (rup (unat (area_size a))) then flash (area_start a + (p - area_ptr a)) else m p)"

lemma place_cong: "m p = m' p \<Longrightarrow> place flash as m p = place flash as m' p"
proof (induction as arbitrary: m m')
  case (Cons a as)
  then show ?case unfolding place.simps by (intro Cons.IH) simp
qed simp

definition area_fits :: "flash_v2_mem_area_t \<Rightarrow> bool" where
  "area_fits a \<longleftrightarrow>
     (if area_blocks a = 0 then area_size a = 0
      else (unat (area_blocks a) - 1) * 4096 < unat (area_size a) \<and> unat (area_size a) \<le> unat (area_blocks a) * 4096) \<and>
     unat (area_start a) + rup (unat (area_size a)) \<le> 2 ^ 24"

definition clear_of :: "u32 \<Rightarrow> flash_v2_mem_area_t \<Rightarrow> bool" where
  "clear_of data a \<longleftrightarrow> (\<forall>p. in_blk p (area_ptr a) (rup (unat (area_size a))) \<longrightarrow> \<not> in_blk p data 6440)"

text \<open>
  A routine that reads from the flash, as the loader uses it: while the channel is ready (\<open>ok\<close>), a
  read of up to a block returns with the bytes of the flash at their destination, and apart from them
  changes nothing but the command buffer of the working structure. The last three fields of the
  structure (\<^verbatim>\<open>hyperflash\<close>, \<^verbatim>\<open>blockSize\<close>, \<^verbatim>\<open>qpi\<close>) may select the flash (\<open>mode\<close>).
\<close>

definition unbuffered :: "u32 \<Rightarrow> mem \<Rightarrow> mem \<Rightarrow> bool" where
  "unbuffered data m m' \<longleftrightarrow> (\<forall>p. \<not> in_blk p (data + 4096) 1024 \<longrightarrow> m' p = m p)"

lemma unbuffered_refl [simp]: "unbuffered data m m"
  by (simp add: unbuffered_def)

lemma in_buffer:
  assumes "in_blk p (data + 4096) 1024"
  shows "in_blk p data 5120" and "in_blk p data 6440" and "\<not> in_blk p data 4096" and "\<not> in_blk p (data + 5120) 1320"
proof -
  show "in_blk p data 5120" using assms in_blk_split [of 4096 5120 p data] by simp
  then show "in_blk p data 6440" by (simp add: in_blk_def)
  show "\<not> in_blk p data 4096" using assms in_blk_beyond [of p data 4096 1024] by auto
  show "\<not> in_blk p (data + 5120) 1320" using assms in_blk_beyond [of p "data + 4096" 1024 1320] by (simp add: add.commute)
qed

lemma beyond_buffer:
  assumes "5120 \<le> x" and "x + n \<le> 2 ^ 32" and "in_blk p (data + of_nat x) n"
  shows "\<not> in_blk p (data + 4096) 1024"
proof
  assume "in_blk p (data + 4096) 1024"
  then have "in_blk p data x" using in_buffer(1) assms(1) by (force simp: in_blk_def)
  with assms(2,3) show False using in_blk_beyond by blast
qed

lemma unbuffered_high: "unbuffered data m m' \<Longrightarrow> high_eq data m m'"
  by (auto simp: unbuffered_def high_eq_def dest: in_buffer)

lemma unbuffered_outside: "unbuffered data m m' \<Longrightarrow> \<not> in_blk p data 6440 \<Longrightarrow> m' p = m p"
  by (auto simp: unbuffered_def dest: in_buffer)

lemma loads_unbuffered: "loads flash data aa fa n m m1 \<Longrightarrow> unbuffered data m1 m2 \<Longrightarrow> loads flash data aa fa n m m2"
  by (auto simp: loads_def unbuffered_outside dest!: unbuffered_high intro: high_eq_trans)

definition tail_eq :: "u32 \<Rightarrow> mem \<Rightarrow> mem \<Rightarrow> bool" where
  "tail_eq data m m' \<longleftrightarrow> (\<forall>p. in_blk p (data + of_nat 6428) 12 \<longrightarrow> m' p = m p)"

lemma high_tail: "high_eq data m m' \<Longrightarrow> tail_eq data m m'"
  using in_blk_split [of 1308 1320 _ "data + 5120"] by (auto simp: high_eq_def tail_eq_def add.commute)

lemma tail_store:
  assumes "x + length xs \<le> 6428"
  shows "tail_eq data m (store_bytes (data + of_nat x) xs m)"
  unfolding tail_eq_def
proof (intro allI impI)
  fix p
  assume p: "in_blk p (data + of_nat 6428) 12"
  let ?j = "unat (p - (data + of_nat 6428))"
  have j: "?j < 12" using p by (simp add: in_blk_def)
  have "data + of_nat (6428 + ?j) = data + of_nat 6428 + (p - (data + of_nat 6428))" by (simp add: add.assoc)
  also have "\<dots> = p" by simp
  finally obtain k where k: "p = data + of_nat (6428 + k)" "k < 12" using j by metis
  have "\<not> in_blk (data + of_nat (6428 + k)) (data + of_nat x) (length xs)"
    using assms k(2) by (subst in_blk_offsets) auto
  with assms show "store_bytes (data + of_nat x) xs m p = m p"
    unfolding k(1) by (simp add: store_bytes_apply in_blk_def)
qed

text \<open>The length of a block, and what is left of a section after one.\<close>

lemma iter_size_min:
  assumes "0 < unat bs" and "4 dvd unat bs" and "unat bs \<le> 2 ^ 16"
  shows "unat (iter_size bs sz) = min (unat bs) (rup (unat sz))"
proof (cases "unat sz < unat bs")
  case True
  then have "rup (unat sz) \<le> unat bs" using assms(2) by (intro rup_least) simp_all
  with True assms(3) show ?thesis by (simp add: iter_size_def word_less_nat_alt unat_round_4)
next
  case False
  then show ?thesis using rup_ge [of "unat sz"] by (simp add: iter_size_def word_less_nat_alt)
qed

lemma blocks_left:
  fixes c sz :: u32
  assumes "4 dvd bs" and "d * bs < unat sz" and "unat c = min bs (rup (unat sz))"
    and "R = min (Suc d * bs) (rup (unat sz))"
  shows "if d = 0 then R - unat c = 0
    else (d - 1) * bs < unat (sz - c) \<and> R - unat c = min (d * bs) (rup (unat (sz - c)))"
proof (cases "d = 0")
  case False
  then obtain d' where d: "d = Suc d'" by (cases d) simp_all
  then have big: "bs < unat sz" using assms(2) by simp
  then have c: "unat c = bs" using assms(3) rup_ge [of "unat sz"] by simp
  then have u: "unat (sz - c) = unat sz - bs" using big by (simp add: unat_sub word_le_nat_alt)
  have "rup (unat sz) = rup (unat sz - bs) + bs" using rup_add_dvd [OF assms(1), of "unat sz - bs"] big by simp
  with assms(2,4) c u d show ?thesis by (simp add: min_def)
qed (use assms in simp)

locale image_reader =
  fixes read :: "('e, 'z) reader"
    and flash :: mem
    and ok :: "'e \<Rightarrow> bool"
    and mode :: "u32 \<Rightarrow> mem \<Rightarrow> bool"
  assumes mode_cong: "tail_eq data m m' \<Longrightarrow> mode data m' = mode data m"
    and reads: "ok (ext s) \<Longrightarrow> mode data (ram s) \<Longrightarrow> 0 < unat n \<Longrightarrow> unat n \<le> 4096 \<Longrightarrow> unat fa < 2 ^ 24 \<Longrightarrow>
    (\<And>p. in_blk p l2addr (unat n) \<Longrightarrow> \<not> in_blk p (data + 4096) 1024) \<Longrightarrow>
    \<exists>s'. read data fa l2addr n s = Some s' \<and> ok (ext s') \<and>
      unbuffered data (store_bytes l2addr (load_bytes fa (unat n) flash) (ram s)) (ram s')"
begin

definition section_step where
  "section_step isL2 data fa aa c s =
     (if isL2 then read data fa aa c s
      else do {
        s \<leftarrow> read data fa (data + flashBuffer_off) c s;
        Some (s\<lparr>ram := memcpy aa (data + flashBuffer_off) (unat c) (ram s)\<rparr>)
      })"

lemma section_step_loads:
  assumes "ok (ext s)" and "mode data (ram s)" and "0 < unat c" and "unat c \<le> 4096" and "unat fa < 2 ^ 24"
    and clear: "\<And>p. in_blk p aa (unat c) \<Longrightarrow> \<not> in_blk p data 6440"
  shows "\<exists>s'. section_step isL2 data fa aa c s = Some s' \<and> ok (ext s') \<and>
    loads flash data aa fa (unat c) (ram s) (ram s')"
proof (cases isL2)
  case True
  obtain s' where "read data fa aa c s = Some s'" "ok (ext s')"
    "unbuffered data (store_bytes aa (load_bytes fa (unat c) flash) (ram s)) (ram s')"
    using reads [OF assms(1-5)] clear in_buffer(2) by blast
  with True loads_unbuffered [OF loads_store [OF _ clear]] assms(4) show ?thesis
    by (simp add: section_step_def)
next
  case False
  let ?bs = "load_bytes fa (unat c) flash"
  let ?m = "store_bytes data ?bs (ram s)"
  obtain s1 where 1: "read data fa data c s = Some s1" "ok (ext s1)" "unbuffered data ?m (ram s1)"
    using reads [OF assms(1-5), of data] in_buffer(3) assms(4) by (force simp: in_blk_def)
  have "unat c \<le> unat (aa + of_nat i - data)" if "i < unat c" for i
  proof -
    have "in_blk (aa + of_nat i) (aa + of_nat 0) (unat c)"
      using that assms(4) by (subst in_blk_offsets) simp_all
    then have "\<not> in_blk (aa + of_nat i) data 6440" using clear by simp
    with assms(4) show ?thesis by (simp add: in_blk_def)
  qed
  then have "memcpy aa data (unat c) (ram s1) = store_bytes aa (load_bytes data (unat c) (ram s1)) (ram s1)"
    by (rule memcpy_eq_store)
  moreover have "load_bytes data (unat c) (ram s1) = load_bytes data (unat c) ?m"
  proof (rule load_bytes_cong)
    fix i
    assume "i < unat c"
    then have "in_blk (data + of_nat i) (data + of_nat 0) 4096"
      using assms(4) by (subst in_blk_offsets) simp_all
    then have "\<not> in_blk (data + of_nat i) (data + 4096) 1024" using in_buffer(3) by auto
    with 1(3) show "ram s1 (data + of_nat i) = ?m (data + of_nat i)" by (simp add: unbuffered_def)
  qed
  moreover have "load_bytes data (unat c) ?m = ?bs"
    using load_store_inside [of 0 "unat c" "unat c" data fa flash "ram s"] assms(4) by simp
  ultimately have "loads flash data aa fa (unat c) (ram s1) (memcpy aa data (unat c) (ram s1))"
    using loads_store [OF _ clear, of "unat c"] assms(4) by simp
  moreover have "ram s1 p = ram s p" if "\<not> in_blk p data 5120" for p
  proof -
    have "\<not> in_blk p (data + 4096) 1024" using that in_buffer(1) by blast
    moreover have "\<not> in_blk p data (unat c)" using that assms(4) by (simp add: in_blk_def)
    ultimately show ?thesis
      using 1(3) assms(4) by (simp add: unbuffered_def store_load_apply)
  qed
  ultimately have "loads flash data aa fa (unat c) (ram s) (memcpy aa data (unat c) (ram s1))"
    by (rule loads_buffers)
  with False 1 show ?thesis
    by (simp add: section_step_def layout_defs)
qed

lemma section_loop_loads:
  assumes "ok (ext s)" and "unat i + d = unat (area_blocks (area_at (data + of_nat x) (ram s)))"
    and bs: "data_blockSize data (ram s) = bs" "0 < unat bs" "4 dvd unat bs" "unat bs \<le> 4096"
    and "5120 \<le> x" and "x + 16 \<le> 6440"
    and "if d = 0 then R = 0 else (d - 1) * unat bs < unat sz \<and> R = min (d * unat bs) (rup (unat sz))"
    and "unat fa + R \<le> 2 ^ 24" and "\<And>p. in_blk p aa R \<Longrightarrow> \<not> in_blk p data 6440" and "mode data (ram s)"
  shows "\<exists>s'. load_section_loop read data (data + of_nat x) isL2 i fa aa sz s = Some s' \<and> ok (ext s') \<and>
    loads flash data aa fa R (ram s) (ram s')"
  using assms(1-3,7-)
proof (induction d arbitrary: i fa aa sz R s)
  case 0
  then have "\<not> i < area_blocks (area_at (data + of_nat x) (ram s))"
    by (simp add: word_less_nat_alt)
  with 0 show ?case
    by (subst load_section_loop.simps) (simp add: loads_0)
next
  case (Suc d)
  let ?c = "iter_size bs sz"
  have sz: "d * unat bs < unat sz" and R: "R = min (Suc d * unat bs) (rup (unat sz))"
    using Suc.prems(6) by simp_all
  have Rb: "R \<le> 2 ^ 24" using Suc.prems(7) by simp
  have c: "unat ?c = min (unat bs) (rup (unat sz))"
    using bs(4) by (intro iter_size_min [OF bs(2,3)]) simp
  have cR: "unat ?c \<le> R" "0 < unat ?c" "unat ?c \<le> 4096"
    using c R rup_ge [of "unat sz"] sz bs(2,4) by simp_all
  have fa: "unat fa < 2 ^ 24" using cR Suc.prems(7) by simp
  have clear: "\<not> in_blk p data 6440" if "in_blk p aa (unat ?c)" for p
    using that cR(1) by (intro Suc.prems(8)) (simp add: in_blk_def)
  obtain s1 where 1: "section_step isL2 data fa aa ?c s = Some s1" "ok (ext s1)"
      "loads flash data aa fa (unat ?c) (ram s) (ram s1)"
    using section_step_loads [OF Suc.prems(1,9) cR(2,3) fa clear] by blast
  have he: "high_eq data (ram s) (ram s1)" using 1(3) by (simp add: loads_def)
  have less: "i < area_blocks (area_at (data + of_nat x) (ram s))"
    using Suc.prems(2) by (simp add: word_less_nat_alt)
  have i1: "unat (i + 1) = Suc (unat i)"
  proof -
    have "unat i < unat (- 1 :: u32)"
      using less by (metis linorder_not_le max_word_max order_le_less_trans unat_mono word_order.extremum_strict)
    then have "1 + i \<noteq> 0" by (metis add_eq_0_iff less_irrefl)
    then show ?thesis using unatSuc [of i] by (simp add: add.commute)
  qed
  have "\<exists>s'. load_section_loop read data (data + of_nat x) isL2 (i + 1) (fa + ?c) (aa + ?c) (sz - ?c) s1 = Some s' \<and>
      ok (ext s') \<and> loads flash data (aa + ?c) (fa + ?c) (R - unat ?c) (ram s1) (ram s')"
  proof (rule Suc.IH)
    show "unat (i + 1) + d = unat (area_blocks (area_at (data + of_nat x) (ram s1)))"
      using Suc.prems(2) i1 high_area [OF he Suc.prems(4,5)] by simp
    show "data_blockSize data (ram s1) = bs"
      using Suc.prems(3) high_blockSize [OF he] by simp
    show "if d = 0 then R - unat ?c = 0
      else (d - 1) * unat bs < unat (sz - ?c) \<and> R - unat ?c = min (d * unat bs) (rup (unat (sz - ?c)))"
      using blocks_left [OF bs(3) sz c R] .
    show "mode data (ram s1)"
      using Suc.prems(9) mode_cong [OF high_tail [OF he]] by simp
    show "unat (fa + ?c) + (R - unat ?c) \<le> 2 ^ 24"
      using Suc.prems(7) cR(1) by (simp add: unat_add_lem [THEN iffD1])
    show "\<not> in_blk p data 6440" if "in_blk p (aa + ?c) (R - unat ?c)" for p
      using that in_blk_split [of "unat ?c" R p aa] cR(1) Rb Suc.prems(8) by auto
  qed (use 1(2) Suc.prems(4,5) in simp_all)
  then obtain s' where s': "load_section_loop read data (data + of_nat x) isL2 (i + 1) (fa + ?c) (aa + ?c) (sz - ?c) s1 = Some s'"
      "ok (ext s')" "loads flash data (aa + ?c) (fa + ?c) (R - unat ?c) (ram s1) (ram s')"
    by blast
  have "loads flash data aa fa (unat ?c + (R - unat ?c)) (ram s) (ram s')"
    using s'(3) Rb cR(1) by (intro loads_append [OF 1(3)]) simp_all
  with s'(1,2) 1(1) less cR(1) show ?case
    by (subst load_section_loop.simps) (simp add: section_step_def Suc.prems(3) Let_def)
qed

text \<open>A section whose size needs all of its blocks: what is transferred, for any block size up to 4096.\<close>

lemma load_blocks:
  assumes "ok (ext s)" and "data_blockSize data (ram s) = bs" "0 < unat bs" "4 dvd unat bs" "unat bs \<le> 4096"
    and "5120 \<le> x" and "x + 16 \<le> 6440" and "area_at (data + of_nat x) (ram s) = a"
    and "if area_blocks a = 0 then R = 0
      else (unat (area_blocks a) - 1) * unat bs < unat (area_size a) \<and> R = min (unat (area_blocks a) * unat bs) (rup (unat (area_size a)))"
    and "unat (area_start a) + R \<le> 2 ^ 24" and "\<And>p. in_blk p (area_ptr a) R \<Longrightarrow> \<not> in_blk p data 6440" and "mode data (ram s)"
  shows "\<exists>s'. load_section read data (data + of_nat x) s = Some s' \<and> ok (ext s') \<and>
    loads flash data (area_ptr a) (area_start a) R (ram s) (ram s')"
  unfolding load_section_def Let_def assms(8) using assms(9)
  by (intro section_loop_loads [where d = "unat (area_blocks a)", OF _ _ assms(2-5)] assms)
    (simp_all add: assms(8) unat_eq_0)

lemma load_section_loads:
  assumes "ok (ext s)" and "data_blockSize data (ram s) = 4096" and "5120 \<le> x" and "x + 16 \<le> 6440"
    and "area_at (data + of_nat x) (ram s) = a" and "area_fits a" and "clear_of data a" and "mode data (ram s)"
  shows "\<exists>s'. load_section read data (data + of_nat x) s = Some s' \<and> ok (ext s') \<and>
    loads flash data (area_ptr a) (area_start a) (rup (unat (area_size a))) (ram s) (ram s')"
proof -
  have "rup (unat (area_size a)) \<le> unat (area_blocks a) * 4096" if "area_blocks a \<noteq> 0"
    using assms(6) that by (intro rup_least) (simp_all add: area_fits_def)
  then show ?thesis
    using assms(6,7) by (intro load_blocks [OF assms(1,2) _ _ _ assms(3-5) _ _ _ assms(8)])
      (auto simp: area_fits_def clear_of_def)
qed

text \<open>One section of the image, for the loops over the areas.\<close>

lemma area_step:
  assumes "ok (ext s)" and "mode data (ram s)" and "img_nb flash \<le> 16" and "holds_image flash data (ram s)"
    and "area_fits (img_area flash i)" and "clear_of data (img_area flash i)" and "i < img_nb flash"
  shows "\<exists>s'. load_section read data (data + memArea_off + sizeof_area * of_nat i) s = Some s' \<and> ok (ext s') \<and>
    mode data (ram s') \<and> holds_image flash data (ram s') \<and>
    (\<forall>p. \<not> in_blk p data 6440 \<longrightarrow> place flash (drop (Suc i) (img_areas flash)) (ram s') p =
       place flash (drop i (img_areas flash)) (ram s) p)"
proof -
  let ?a = "img_area flash i"
  have at: "area_at (data + of_nat (5144 + 16 * i)) (ram s) = ?a" and bs: "data_blockSize data (ram s) = 4096"
    using assms(4,7) unfolding holds_image_def by blast+
  have x: "5120 \<le> 5144 + 16 * i" "5144 + 16 * i + 16 \<le> 6440" using assms(3,7) by simp_all
  obtain s' where s': "load_section read data (data + of_nat (5144 + 16 * i)) s = Some s'" "ok (ext s')"
      "loads flash data (area_ptr ?a) (area_start ?a) (rup (unat (area_size ?a))) (ram s) (ram s')"
    using load_section_loads [OF assms(1) bs x at assms(5,6,2)] by blast
  have he: "high_eq data (ram s) (ram s')" using s'(3) by (simp add: loads_def)
  have dr: "drop i (img_areas flash) = ?a # drop (Suc i) (img_areas flash)"
    using assms(7) by (simp add: img_areas_def flip: Cons_nth_drop_Suc)
  have "place flash (drop (Suc i) (img_areas flash)) (ram s') p = place flash (drop i (img_areas flash)) (ram s) p"
    if "\<not> in_blk p data 6440" for p
    using s'(3) that unfolding dr place.simps by (intro place_cong) (simp add: loads_def)
  moreover have ad: "data + memArea_off + sizeof_area * of_nat i = data + of_nat (5144 + 16 * i)"
    by (simp add: layout_defs add.assoc)
  moreover have "mode data (ram s')" using assms(2) mode_cong [OF high_tail [OF he]] by simp
  ultimately show ?thesis
    using s'(1,2) holds_image_high [OF assms(4) he assms(3)] unfolding ad by blast
qed

lemma getMemAreas_image:
  assumes "ok (ext s)" and "img_nb flash \<le> 16" and "data_blockSize data (ram s) = 4096" and "mode data (ram s)"
  shows "\<exists>s'. getMemAreas read data s = Some s' \<and> ok (ext s') \<and> mode data (ram s') \<and> holds_image flash data (ram s') \<and>
    (\<forall>p. \<not> in_blk p data 6440 \<longrightarrow> ram s' p = ram s p)"
proof -
  let ?m1 = "store_bytes (data + of_nat 5128) (load_bytes 0 16 flash) (ram s)"
  obtain s1 where 1: "read data 0 (data + header_off) sizeof_header s = Some s1" "ok (ext s1)" "unbuffered data ?m1 (ram s1)"
    using reads [OF assms(1,4), of 16 0 "data + 5128"] beyond_buffer [of 5128 16 _ data] by (auto simp: layout_defs)
  have mode1: "mode data (ram s1)"
    using assms(4) mode_cong [OF tail_store [of 5128 "load_bytes 0 16 flash" data "ram s"]]
      mode_cong [OF high_tail [OF unbuffered_high [OF 1(3)]]] by simp
  have hdr: "data_header data (ram s1) = img_header flash"
    using header_stored [of 16 "data + 5128" 0 flash "ram s"] high_nbAreas [OF unbuffered_high [OF 1(3)]]
    by (simp add: data_header_def img_header_def layout_defs)
  have bs: "data_blockSize data (ram s1) = 4096"
    using load32_store_offsets [of 6432 5128 "load_bytes 0 16 flash" data "ram s"] assms(3)
      high_blockSize [OF unbuffered_high [OF 1(3)]]
    by (simp add: data_blockSize_def layout_defs)
  have out1: "ram s1 p = ram s p" if "\<not> in_blk p data 6440" for p
    using that in_blk_split [of 5128 6440 p data] in_blk_split [of 16 1312 p "data + 5128"] unbuffered_outside [OF 1(3) that]
    by (auto simp: store_load_apply)
  let ?nb = "hdr_nbAreas (img_header flash)"
  have nb: "unat ?nb = img_nb flash" by (simp add: img_nb_def)
  have "sint ?nb = int (unat ?nb)"
    using assms(2) nb by (simp add: sint_uint signed_take_bit_int_eq_self uint_nat)
  then have lim: "16 \<le> sint ?nb \<Longrightarrow> MAX_NB_AREA = ?nb"
    using assms(2) nb by (auto simp: layout_defs word_unat_eq_iff)
  show ?thesis
  proof (cases "?nb = 0")
    case True
    with 1 mode1 hdr bs out1 lim nb show ?thesis
      by (intro exI [of _ s1]) (simp add: getMemAreas_def Let_def holds_image_def img_nb_def)
  next
    case False
    let ?n = "16 * img_nb flash"
    let ?m2 = "store_bytes (data + of_nat 5144) (load_bytes 16 ?n flash) (ram s1)"
    have nb0: "0 < img_nb flash" using False by (simp add: img_nb_def word_less_nat_alt unat_gt_0)
    have nb16: "unat (?nb * 16) = ?n"
      using assms(2) nb by (subst unat_mult_lem [THEN iffD1]) simp_all
    obtain s2 where 2: "read data 16 (data + 5144) (?nb * 16) s1 = Some s2" "ok (ext s2)" "unbuffered data ?m2 (ram s2)"
      using reads [OF 1(2) mode1, of "?nb * 16" 16 "data + 5144"] nb16 nb0 assms(2) beyond_buffer [of 5144 ?n _ data] by auto
    note high = unbuffered_high [OF 2(3)]
    have "mode data (ram s2)"
      using mode1 mode_cong [OF tail_store [of 5144 "load_bytes 16 ?n flash" data "ram s1"]] mode_cong [OF high_tail [OF high]]
        assms(2) by simp
    moreover have "data_header data (ram s2) = img_header flash"
      using header_elsewhere [of 5128 5144 "load_bytes 16 ?n flash" data "ram s1"] assms(2) hdr high_nbAreas [OF high]
      by (simp add: data_header_def layout_defs)
    moreover have "data_blockSize data (ram s2) = 4096"
      using load32_store_offsets [of 6432 5144 "load_bytes 16 ?n flash" data "ram s1"] assms(2) bs high_blockSize [OF high]
      by (simp add: data_blockSize_def layout_defs)
    moreover have "area_at (data + of_nat (5144 + 16 * i)) (ram s2) = img_area flash i" if "i < img_nb flash" for i
    proof -
      have "5120 \<le> 5144 + 16 * i" "5144 + 16 * i + 16 \<le> 6440" using that assms(2) by simp_all
      from high_area [OF high this] show ?thesis
        using area_stored [of "16 * i" ?n "data + of_nat 5144" 16 flash "ram s1"] that assms(2)
        by (simp add: img_area_def add.assoc)
    qed
    moreover have "ram s2 p = ram s p" if "\<not> in_blk p data 6440" for p
      using that out1 in_blk_split [of 5144 6440 p data] in_blk_split [of ?n 1296 p "data + 5144"] assms(2)
        unbuffered_outside [OF 2(3) that]
      by (auto simp: store_load_apply)
    ultimately show ?thesis
      using 1 2 hdr lim False by (intro exI [of _ s2], cases "16 \<le> sint ?nb")
        (simp_all add: getMemAreas_def Let_def holds_image_def header_off_def sizeof_header_def memArea_off_def sizeof_area_def)
  qed
qed

end
section \<open>Finding room\<close>

text \<open>
  The search is a fold over the areas. For areas in the order of their addresses, each clear of the
  next, the place it returns is clear of all of them.
\<close>

lemma find_fit_fold:
  assumes "holds_image flash data m" and "img_nb flash \<le> 16" and "i + d = img_nb flash"
  shows "find_fit_loop m data i addr = Some (fold (\<lambda>a x. fit_step 4096 x a) (drop i (img_areas flash)) addr)"
  using assms(3)
proof (induction d arbitrary: i addr)
  case 0
  with assms(1) show ?case
    by (subst find_fit_loop.simps) (simp add: holds_image_def img_nb_def img_areas_def)
next
  case (Suc d)
  then have i: "i < img_nb flash" by simp
  have "data_area data (of_nat i) m = img_area flash i"
    using assms(1) i unfolding data_area_alt holds_image_def by blast
  moreover have "drop i (img_areas flash) = img_area flash i # drop (Suc i) (img_areas flash)"
    using i by (simp add: img_areas_def flip: Cons_nth_drop_Suc)
  moreover have "i < unat (hdr_nbAreas (data_header data m))" "data_blockSize data m = 4096"
    using assms(1) i by (simp_all add: holds_image_def img_nb_def)
  ultimately show ?case
    using Suc.IH [of "Suc i" "fit_step 4096 addr (img_area flash i)"] Suc.prems assms(2) i
    by (subst find_fit_loop.simps) simp
qed

definition area_end :: "flash_v2_mem_area_t \<Rightarrow> nat" where
  "area_end a = unat (area_ptr a) + rup (unat (area_size a))"

definition area_placed :: "flash_v2_mem_area_t \<Rightarrow> bool" where
  "area_placed a \<longleftrightarrow> 4 dvd unat (area_ptr a) \<and> area_end a + 10536 \<le> 2 ^ 32"

text \<open>The invariant of the search: a candidate is aligned, in range and clear of what was seen.\<close>

definition fit_inv :: "u32 \<Rightarrow> flash_v2_mem_area_t list \<Rightarrow> bool" where
  "fit_inv addr seen \<longleftrightarrow> 4 dvd unat addr \<and> unat addr + 6440 \<le> 2 ^ 32 \<and>
     (\<forall>a \<in> set seen. area_end a \<le> unat addr \<or> unat addr + 6440 \<le> unat (area_ptr a))"

lemma unat_sum:
  fixes x y :: u32
  assumes "unat x + unat y < 2 ^ 32"
  shows "unat (x + y) = unat x + unat y"
  using assms by (simp add: unat_add_lem [THEN iffD1])

lemma fit_step_inv:
  assumes "fit_inv addr seen" and "area_placed a" and "\<And>a'. a' \<in> set seen \<Longrightarrow> area_end a' \<le> unat (area_ptr a)"
  shows "fit_inv (fit_step 4096 addr a) (a # seen)"
proof -
  let ?p = "unat (area_ptr a)" and ?z = "unat (area_size a)"
  have al: "4 dvd ?p" and en: "?p + rup ?z + 10536 \<le> 2 ^ 32"
    using assms(2) by (simp_all add: area_placed_def area_end_def)
  have zr: "?z \<le> rup ?z" by (rule rup_ge)
  have end': "unat (area_ptr a + area_size a) = ?p + ?z"
    using en zr by (intro unat_sum) simp
  have ad: "4 dvd unat addr" "unat addr + 6440 \<le> 2 ^ 32" using assms(1) by (simp_all add: fit_inv_def)
  show ?thesis
  proof (cases "(addr \<ge> area_ptr a \<and> addr < area_ptr a + area_size a) \<or>
         (addr < area_ptr a \<and> addr + sizeof_boot_code_t > area_ptr a)")
    case True
    let ?x = "fit_step 4096 addr a"
    have "?x = (area_ptr a + area_size a + 4095) AND NOT (mask 12)"
      using True by (simp add: fit_step_def mask_eq_exp_minus_1 add.commute)
    moreover have "unat (area_ptr a + area_size a + 4095) = ?p + ?z + 4095"
      using en zr end' by (subst unat_sum) simp_all
    ultimately have x: "unat ?x = 4096 * ((?p + ?z + 4095) div 4096)"
      using unat_align_down [of "area_ptr a + area_size a + 4095" 12] by simp
    have "?p + ?z \<le> unat ?x" "unat ?x \<le> ?p + ?z + 4095" and d4: "4 dvd unat ?x"
      unfolding x by simp_all
    then have "area_end a \<le> unat ?x" "unat ?x + 6440 \<le> 2 ^ 32"
      using add_rup_least [OF al d4, of ?z] en zr by (simp_all add: area_end_def)
    moreover have "area_end a' \<le> unat ?x" if "a' \<in> set seen" for a'
      using assms(3) [OF that] \<open>area_end a \<le> unat ?x\<close> by (simp add: area_end_def)
    ultimately show ?thesis using d4 by (simp add: fit_inv_def)
  next
    case False
    then have st: "fit_step 4096 addr a = addr" unfolding fit_step_def by (rule if_not_P)
    have "unat (addr + sizeof_boot_code_t) = unat addr + 6440 \<or> unat addr + 6440 = 2 ^ 32"
      using ad(2) unat_sum [of addr 6440] by (auto simp: layout_defs)
    with False have "?p + ?z \<le> unat addr \<or> unat addr + 6440 \<le> ?p"
      using en zr end' by (auto simp: word_le_nat_alt word_less_nat_alt)
    moreover have "area_end a \<le> unat addr" if "?p + ?z \<le> unat addr"
      using that add_rup_least [OF al ad(1)] by (simp add: area_end_def)
    ultimately show ?thesis using assms(1) unfolding st by (auto simp: fit_inv_def)
  qed
qed

lemma fold_fit_inv:
  assumes "fit_inv addr seen" and "\<And>a. a \<in> set as \<Longrightarrow> area_placed a"
    and "sorted_wrt (\<lambda>a a'. area_end a \<le> unat (area_ptr a')) (rev seen @ as)"
  shows "fit_inv (fold (\<lambda>a x. fit_step 4096 x a) as addr) (rev as @ seen)"
  using assms
proof (induction as arbitrary: addr seen)
  case (Cons a as)
  have "fit_inv (fit_step 4096 addr a) (a # seen)"
    using Cons.prems by (intro fit_step_inv) (auto simp: sorted_wrt_append)
  then have "fit_inv (fold (\<lambda>a x. fit_step 4096 x a) as (fit_step 4096 addr a)) (rev as @ a # seen)"
    using Cons.prems by (intro Cons.IH) simp_all
  then show ?case by simp
qed simp

lemma fit_inv_clear:
  assumes "fit_inv addr seen" and "a \<in> set seen" and "area_placed a"
  shows "clear_of addr a"
  using assms in_blk_nat [of addr 6440] in_blk_nat [of "area_ptr a" "rup (unat (area_size a))"]
  by (auto simp: clear_of_def fit_inv_def area_placed_def area_end_def)
section \<open>Well formed images\<close>

definition image_wf :: "mem \<Rightarrow> bool" where
  "image_wf flash \<longleftrightarrow> img_nb flash \<le> 16 \<and>
     (\<forall>a \<in> set (img_areas flash). area_fits a \<and> area_placed a) \<and>
     sorted_wrt (\<lambda>a a'. area_end a \<le> unat (area_ptr a')) (img_areas flash)"

lemma place_outside:
  assumes "\<And>a. a \<in> set as \<Longrightarrow> \<not> in_blk p (area_ptr a) (rup (unat (area_size a)))"
  shows "place flash as m p = m p"
  using assms
proof (induction as arbitrary: m)
  case (Cons a as)
  then show ?case by simp
qed simp

lemma placed_disjoint:
  assumes "area_placed a" and "area_placed a'" and "area_end a \<le> unat (area_ptr a')"
    and "in_blk p (area_ptr a) (rup (unat (area_size a)))"
  shows "\<not> in_blk p (area_ptr a') (rup (unat (area_size a')))"
  using assms in_blk_nat [of "area_ptr a" "rup (unat (area_size a))" p]
    in_blk_nat [of "area_ptr a'" "rup (unat (area_size a'))" p]
  by (auto simp: area_placed_def area_end_def)

lemma place_inside:
  assumes "sorted_wrt (\<lambda>a a'. area_end a \<le> unat (area_ptr a')) as" and "\<And>a. a \<in> set as \<Longrightarrow> area_placed a"
    and "a \<in> set as" and "in_blk p (area_ptr a) (rup (unat (area_size a)))"
  shows "place flash as m p = flash (area_start a + (p - area_ptr a))"
  using assms
proof (induction as arbitrary: m)
  case (Cons a' as)
  show ?case
  proof (cases "a \<in> set as")
    case True
    with Cons show ?thesis by simp
  next
    case False
    with Cons.prems(3) have "a = a'" by simp
    moreover have "\<not> in_blk p (area_ptr x) (rup (unat (area_size x)))" if "x \<in> set as" for x
      using placed_disjoint [of a x p] Cons.prems \<open>a = a'\<close> that by auto
    ultimately show ?thesis using Cons.prems(4) by (simp add: place_outside)
  qed
qed simp

lemma fit_is_clear:
  assumes "image_wf flash" and "holds_image flash data m"
  shows "\<exists>addr. findDataFit m data = Some addr \<and> (\<forall>a \<in> set (img_areas flash). clear_of addr a)"
proof -
  let ?addr = "fold (\<lambda>a x. fit_step 4096 x a) (img_areas flash) 0x1c000000"
  have "findDataFit m data = Some ?addr"
    using find_fit_fold [OF assms(2), of 0 "img_nb flash"] assms by (simp add: findDataFit_def image_wf_def)
  moreover have "fit_inv 0x1c000000 []" by (simp add: fit_inv_def)
  then have "fit_inv ?addr (rev (img_areas flash) @ [])"
    using assms by (intro fold_fit_inv) (auto simp: image_wf_def)
  then have "\<forall>a \<in> set (img_areas flash). clear_of ?addr a"
    using assms by (auto simp: image_wf_def intro: fit_inv_clear)
  ultimately show ?thesis by blast
qed

lemma set_field_simps [simp]:
  "ext (set_field a v s) = ext s" "ram (set_field a v s) = store32 a v (ram s)"
  by (simp_all add: set_field_def)

lemma blockSize_stored: "data_blockSize data (store32 (data + blockSize_off) v m) = v"
  by (simp add: data_blockSize_def mem_simps)

lemma blockSize_below_qpi: "data_blockSize data (store32 (data + qpi_off) v m) = data_blockSize data m"
  using load32_store_offsets [of 6432 6436 "bytes32 v" data m]
  by (simp add: data_blockSize_def store32_def layout_defs)

lemma section_loaded:
  assumes "image_wf flash" and "a \<in> set (img_areas flash)" and "clear_of data a"
    and "\<And>p. \<not> in_blk p data 6440 \<Longrightarrow> m' p = place flash (img_areas flash) m p"
  shows "load_bytes (area_ptr a) (unat (area_size a)) m' = load_bytes (area_start a) (unat (area_size a)) flash"
proof (rule nth_equalityI)
  fix i
  assume "i < length (load_bytes (area_ptr a) (unat (area_size a)) m')"
  then have i: "i < unat (area_size a)" by simp
  have small: "unat (area_size a) < 2 ^ 32" using unsigned_less [of "area_size a", where 'a = nat] by simp
  have "in_blk (area_ptr a + of_nat i) (area_ptr a + of_nat 0) (unat (area_size a))"
    using i small by (subst in_blk_offsets) simp_all
  then have blk: "in_blk (area_ptr a + of_nat i) (area_ptr a) (rup (unat (area_size a)))"
    using rup_ge [of "unat (area_size a)"] by (simp add: in_blk_def)
  with assms(3) have "\<not> in_blk (area_ptr a + of_nat i) data 6440" by (simp add: clear_of_def)
  then have "m' (area_ptr a + of_nat i) = place flash (img_areas flash) m (area_ptr a + of_nat i)"
    by (rule assms(4))
  also have "\<dots> = flash (area_start a + of_nat i)"
    using place_inside [OF _ _ assms(2) blk] assms(1) by (simp add: image_wf_def)
  finally show "load_bytes (area_ptr a) (unat (area_size a)) m' ! i = load_bytes (area_start a) (unat (area_size a)) flash ! i"
    using i by (simp add: nth_load_bytes)
qed simp
section \<open>Properties\<close>


definition high_area_1 :: flash_v2_mem_area_t where
  "high_area_1 = \<lparr>area_start = 0x1000, area_ptr = 0x1C002000, area_size = 4096, area_blocks = 1\<rparr>"

definition low_area_2 :: flash_v2_mem_area_t where
  "low_area_2 = \<lparr>area_start = 0x2000, area_ptr = 0x1C000000, area_size = 4096, area_blocks = 1\<rparr>"

text \<open>
  The order of the sections is needed. An example: with a section at 1C002000 listed before one at
  1C000000, the single pass moves the structure off the second one and onto the first.
\<close>

theorem unsorted_areas_overlap:
  "\<not> clear_of (fit_step 4096 (fit_step 4096 0x1c000000 high_area_1) low_area_2) high_area_1"
proof -
  have "fit_step 4096 (fit_step 4096 0x1c000000 high_area_1) low_area_2 = 0x1c001000"
    by (simp add: fit_step_def high_area_1_def low_area_2_def layout_defs)
  moreover have "in_blk 0x1c002000 (area_ptr high_area_1) (rup (unat (area_size high_area_1)))"
    by (simp add: in_blk_def high_area_1_def rup_def)
  moreover have "in_blk 0x1c002000 0x1c001000 6440" by (simp add: in_blk_def)
  ultimately show ?thesis by (auto simp: clear_of_def)
qed

text \<open>
  A header that announces more than sixteen sections makes \<open>findDataFit\<close> read past the array of
  areas: the limit that \<open>getMemAreas\<close> applies is not the bound of this loop.
\<close>

theorem findDataFit_too_many_areas:
  assumes "16 < unat (hdr_nbAreas (data_header data m))"
  shows "findDataFit m data = None"
proof -
  have "find_fit_loop m data (16 - d) addr = None" if "d \<le> 16" for d addr
    using that
  proof (induction d arbitrary: addr)
    case 0
    with assms show ?case by (subst find_fit_loop.simps) simp
  next
    case (Suc d)
    then have "Suc (16 - Suc d) = 16 - d" by simp
    with Suc assms show ?case by (subst find_fit_loop.simps) simp
  qed
  from this [of 16] show ?thesis by (simp add: findDataFit_def)
qed

text \<open>
  The size of a block transfer never exceeds the block size and is a whole number of words when
  the block size is; but after a short last block of a size that is not a whole number of words the
  remaining size wraps around, and a further block would transfer a full 4 KB.
\<close>

theorem iter_size_bounds:
  assumes "unat sz < 4096"
  shows "unat (iter_size 4096 sz) \<le> 4096 \<and> 4 dvd unat (iter_size 4096 sz) \<and>
    (\<not> 4 dvd unat sz \<longrightarrow> iter_size 4096 (sz - iter_size 4096 sz) = 4096)"
proof -
  have c: "unat (iter_size 4096 sz) = rup (unat sz)"
    using assms by (simp add: iter_size_def word_less_nat_alt unat_round_4)
  have "rup (unat sz) \<le> 4096" using assms by (intro rup_least) simp_all
  moreover have "4 dvd rup (unat sz)" by (simp add: rup_def)
  moreover have "iter_size 4096 (sz - iter_size 4096 sz) = 4096" if "\<not> 4 dvd unat sz"
  proof -
    have "unat sz < rup (unat sz)"
      using that rup_ge [of "unat sz"] \<open>4 dvd rup (unat sz)\<close> by (cases "unat sz = rup (unat sz)") auto
    then have "unat (sz - iter_size 4096 sz) = unat sz + 2 ^ 32 - rup (unat sz)"
      using c by (simp add: unat_sub_if' word_le_nat_alt)
    then have "\<not> 4096 > sz - iter_size 4096 sz"
      using \<open>rup (unat sz) \<le> 4096\<close> by (simp add: word_less_nat_alt)
    then show ?thesis by (subst iter_size_def) (rule if_not_P)
  qed
  ultimately show ?thesis using c by simp
qed
section \<open>A concrete image\<close>

text \<open>One section of six bytes for 1C000880, entered at its start.\<close>

definition demo_flash :: mem where
  "demo_flash = store_bytes 0 (concat (map bytes32 [0, 1, 0x1C000880, 0, 0x1000, 0x1C000880, 6, 1])) (\<lambda>_. 7)"

lemma words_nth:
  "i < length ws \<Longrightarrow> take 4 (drop (4 * i) (concat (map bytes32 ws))) = bytes32 (ws ! i)"
proof (induction ws arbitrary: i)
  case (Cons w ws)
  then show ?case by (cases i) simp_all
qed simp

lemma load32_words:
  assumes "i < length ws" and "length ws < 2 ^ 20"
  shows "load32 (a + of_nat (4 * i)) (store_bytes a (concat (map bytes32 ws)) m) = ws ! i"
proof -
  let ?bs = "concat (map bytes32 ws)"
  have len: "length ?bs = 4 * length ws" by (induction ws) simp_all
  have "load_bytes (a + of_nat (4 * i)) 4 (store_bytes a ?bs m) = take 4 (drop (4 * i) ?bs)"
  proof (rule nth_equalityI)
    fix j
    assume "j < length (load_bytes (a + of_nat (4 * i)) 4 (store_bytes a ?bs m))"
    then have j: "4 * i + j < length ?bs" "length ?bs < 2 ^ 32" using assms len by simp_all
    have "a + of_nat (4 * i) + of_nat j = (a + of_nat (4 * i + j) :: u32)" by (simp add: add.assoc)
    then show "load_bytes (a + of_nat (4 * i)) 4 (store_bytes a ?bs m) ! j = take 4 (drop (4 * i) ?bs) ! j"
      using j store_bytes_at [OF j, of a m] \<open>j < length _\<close> by (simp add: nth_load_bytes add.assoc)
  qed (use assms len in simp)
  then show ?thesis using words_nth [OF assms(1)] by (simp add: load32_def)
qed

lemma demo_word: "i < 8 \<Longrightarrow> load32 (of_nat (4 * i)) demo_flash = [0, 1, 0x1C000880, 0, 0x1000, 0x1C000880, 6, 1] ! i"
  unfolding demo_flash_def by (rule load32_words [where a = 0, unfolded add_0_left]) simp_all

lemma demo_header: "img_header demo_flash = \<lparr>hdr_nextDesc = 0, hdr_nbAreas = 1, hdr_entry = 0x1C000880, hdr_bootaddr = 0\<rparr>"
  using demo_word [of 0] demo_word [of 1] demo_word [of 2] demo_word [of 3]
  by (simp add: img_header_def header_at_def)

lemma demo_areas: "img_areas demo_flash =
    [\<lparr>area_start = 0x1000, area_ptr = 0x1C000880, area_size = 6, area_blocks = 1\<rparr>]"
  using demo_word [of 4] demo_word [of 5] demo_word [of 6] demo_word [of 7]
  by (simp add: img_areas_def img_nb_def demo_header img_area_def area_at_def)

lemma demo_wf: "image_wf demo_flash"
  by (simp add: image_wf_def img_nb_def demo_header demo_areas area_fits_def area_placed_def area_end_def rup_def)

definition demo_data :: mem where
  "demo_data = store32 (0x1C010000 + 6432) 4096
     (store_bytes (0x1C010000 + 5128) (load_bytes 0 32 demo_flash) (\<lambda>_. 0))"

lemma demo_holds: "holds_image demo_flash 0x1C010000 demo_data"
proof -
  let ?m1 = "store_bytes (0x1C010000 + of_nat 5128) (load_bytes 0 32 demo_flash) (\<lambda>_. 0)"
  let ?v = "bytes32 4096"
  have e: "demo_data = store_bytes (0x1C010000 + of_nat 6432) ?v ?m1"
    by (simp add: demo_data_def store32_def)
  have "data_header 0x1C010000 demo_data = img_header demo_flash"
    using header_elsewhere [of 5128 6432 ?v "0x1C010000" ?m1] header_stored [of 32 "0x1C010000 + of_nat 5128" 0 demo_flash "\<lambda>_. 0"]
    unfolding e data_header_def img_header_def by (simp add: layout_defs)
  moreover have "data_blockSize 0x1C010000 demo_data = 4096"
    by (simp add: demo_data_def data_blockSize_def layout_defs mem_simps)
  moreover have "area_at (0x1C010000 + of_nat 5144) demo_data = img_area demo_flash 0"
    using area_elsewhere [of 5144 6432 ?v "0x1C010000" ?m1] area_stored [of 16 32 "0x1C010000 + of_nat 5128" 0 demo_flash "\<lambda>_. 0"]
    unfolding e by (simp add: img_area_def)
  ultimately show ?thesis by (simp add: holds_image_def img_nb_def demo_header)
qed


theorem findDataFit_too_many_areas_witness: "findDataFit (\<lambda>_. 1) 0x1C010000 = None"
  by (rule findDataFit_too_many_areas)
    (simp add: data_header_def header_at_def load32_def le32_def nth_load_bytes)

theorem iter_size_bounds_witness:
  "unat (iter_size 4096 5) \<le> 4096 \<and> 4 dvd unat (iter_size 4096 5) \<and>
    iter_size 4096 (5 - iter_size 4096 5) = 4096"
  using iter_size_bounds [of 5] by simp

end
