(* ===== verification/Flash_Image.thy ===== *)
theory Flash_Image
  imports Flash_Boot Image_Props
begin

text \<open>
  The image loader of the second bootloader over the SPI driver: the driver meets the contract of
  the loader, and so a boot ends at the entry point with every section in place.
\<close>

text \<open>The peripherals that a boot from the flash uses.\<close>

locale boot_hw = uart_hw b rx tx idle busy ready + flash_hw b flash idle todo left oth
  for b :: "'e a2_bus" and rx tx idle busy ready flash todo left oth
begin

lemma reads_image:
  "image_reader (a2_reader b :: u32 \<Rightarrow> u32 \<Rightarrow> u32 \<Rightarrow> u32 \<Rightarrow> ('e, 'y) spi_globals_scheme \<Rightarrow> _) flash idle
    (\<lambda>_ _. True)"
proof (unfold_locales, simp)
  fix s :: "('e, 'y) spi_globals_scheme" and n fa data l2addr :: u32
  assume "idle (ext s)" and n: "0 < unat n" "unat n \<le> 4096" and fa: "unat fa < 2 ^ 24"
  have c: "unat (ucast n :: u16) = unat n" "0 < (ucast n :: u16)"
    using n by (simp_all add: unsigned_ucast_eq take_bit_nat_eq_self word_less_nat_alt)
  from flash_read_returns [OF \<open>idle (ext s)\<close> c(2), of fa l2addr] c(1) fa
  show "\<exists>s'. a2_reader b data fa l2addr n s = Some s' \<and> idle (ext s') \<and>
      unbuffered data (store_bytes l2addr (load_bytes fa (unat n) flash) (ram s)) (ram s')"
    by (auto simp: a2_reader_def flash_bytes_low)
qed

text \<open>Debug output leaves the memory and the flash channel alone.\<close>

lemma quiet_str:
  "idle (ext s) \<Longrightarrow> \<exists>s'. dbg_str b cs s = Some s' \<and> idle (ext s') \<and> ram s' = ram s"
  using dbg_str_returns [of cs s] by (auto simp: uart_eff_def uart_obs_def)

lemma quiet_hex32:
  "idle (ext s) \<Longrightarrow> \<exists>s'. dbg_hex32 b v s = Some s' \<and> idle (ext s') \<and> ram s' = ram s"
  using dbg_hex32_returns [of v s] by (auto simp: uart_eff_def uart_obs_def)

lemma load_areas_place:
  assumes "idle (ext s)" and "img_nb flash \<le> 16" and "holds_image flash data (ram s)"
    and "\<And>a. a \<in> set (img_areas flash) \<Longrightarrow> area_fits a \<and> clear_of data a" and "i + d = img_nb flash"
  shows "\<exists>s'. load_areas_loop b data (of_nat i) s = Some (Continue, s') \<and> idle (ext s') \<and>
    holds_image flash data (ram s') \<and>
    (\<forall>p. \<not> in_blk p data 6440 \<longrightarrow> ram s' p = place flash (drop i (img_areas flash)) (ram s) p)"
  using assms
proof (induction d arbitrary: i s)
  case 0
  have "unat (of_nat i :: u32) = i" using 0 by (simp add: unat_of_nat)
  moreover have "data_header data (ram s) = img_header flash" using 0(3) by (simp add: holds_image_def)
  ultimately have "\<not> of_nat i < hdr_nbAreas (data_header data (ram s))"
    using 0(5) by (simp add: word_less_nat_alt img_nb_def)
  with 0 show ?case
    by (subst load_areas_loop.simps) (simp add: img_areas_def)
next
  case (Suc d)
  have i: "i < img_nb flash" "unat (of_nat i :: u32) = i" using Suc.prems by (simp_all add: unat_of_nat)
  have a: "area_fits (img_area flash i)" "clear_of data (img_area flash i)"
    using Suc.prems(4) [of "img_area flash i"] i(1) by (auto simp: img_areas_def)
  have less: "of_nat i < hdr_nbAreas (data_header data (ram s))" "\<not> MAX_NB_AREA \<le> of_nat i"
    using Suc.prems(2,3) i by (simp_all add: holds_image_def word_less_nat_alt word_le_nat_alt img_nb_def layout_defs)
  obtain s1 where 1: "dbg_str b (0x0A # str ''Loading Section '') s = Some s1" "idle (ext s1)" "ram s1 = ram s"
    using quiet_str [OF Suc.prems(1)] by blast
  obtain s2 where 2: "dbg_hex32 b (of_nat i) s1 = Some s2" "idle (ext s2)" "ram s2 = ram s1"
    using quiet_hex32 [OF 1(2)] by blast
  obtain s3 where 3: "dbg_str b (str '' to '') s2 = Some s3" "idle (ext s3)" "ram s3 = ram s2"
    using quiet_str [OF 2(2)] by blast
  obtain s4 where 4: "dbg_hex32 b (area_ptr (data_area data (of_nat i) (ram s3))) s3 = Some s4" "idle (ext s4)" "ram s4 = ram s3"
    using quiet_hex32 [OF 3(2)] by blast
  have ram4: "ram s4 = ram s" using 1(3) 2(3) 3(3) 4(3) by simp
  obtain s5 where 5: "load_section (a2_reader b) data (data + memArea_off + sizeof_area * of_nat i) s4 = Some s5"
      "idle (ext s5)" "holds_image flash data (ram s5)"
      "\<And>p. \<not> in_blk p data 6440 \<Longrightarrow> place flash (drop (Suc i) (img_areas flash)) (ram s5) p =
         place flash (drop i (img_areas flash)) (ram s4) p"
    using image_reader.area_step [OF reads_image 4(2) TrueI Suc.prems(2) _ a i(1)] Suc.prems(3) unfolding ram4 by blast
  obtain s6 where 6: "load_areas_loop b data (of_nat (Suc i)) s5 = Some (Continue, s6)" "idle (ext s6)"
      "holds_image flash data (ram s6)"
      "\<forall>p. \<not> in_blk p data 6440 \<longrightarrow> ram s6 p = place flash (drop (Suc i) (img_areas flash)) (ram s5) p"
    using Suc.IH [OF 5(2) Suc.prems(2) 5(3) Suc.prems(4), of "Suc i"] Suc.prems(5) by auto
  have "load_areas_loop b data (of_nat i) s = Some (Continue, s6)"
    using less 1(1) 2(1) 3(1) 4(1) 5(1) 6(1)
    by (subst load_areas_loop.simps) (simp add: add.commute [of 1] del: dbg_str.simps str_Cons)
  with 5(4) 6(2-4) ram4 show ?case by auto
qed

lemma load_and_start:
  assumes "idle (ext s)" and "img_nb flash \<le> 16" and "data_blockSize data (ram s) = 4096"
    and "\<And>a. a \<in> set (img_areas flash) \<Longrightarrow> area_fits a \<and> clear_of data a"
  shows "\<exists>s'. loadBinaryAndStart b data s = Some (JumpTo (hdr_entry (img_header flash)), s') \<and>
    (\<forall>p. \<not> in_blk p data 6440 \<longrightarrow> ram s' p = place flash (img_areas flash) (ram s) p)"
proof -
  obtain s1 where 1: "getMemAreas (a2_reader b) data s = Some s1" "idle (ext s1)" "holds_image flash data (ram s1)"
      "\<forall>p. \<not> in_blk p data 6440 \<longrightarrow> ram s1 p = ram s p"
    using image_reader.getMemAreas_image [OF reads_image assms(1-3) TrueI] by blast
  obtain s2 where 2: "load_areas_loop b data 0 s1 = Some (Continue, s2)" "idle (ext s2)" "holds_image flash data (ram s2)"
      "\<forall>p. \<not> in_blk p data 6440 \<longrightarrow> ram s2 p = place flash (img_areas flash) (ram s1) p"
    using load_areas_place [OF 1(2) assms(2) 1(3) assms(4), of 0 "img_nb flash"] by auto
  have hdr: "data_header data (ram s2) = img_header flash"
    using 2(3) by (simp add: holds_image_def)
  obtain s3 where 3: "dbg_str b (0x0A # str ''Jumping to '') s2 = Some s3" "idle (ext s3)" "ram s3 = ram s2"
    using quiet_str [OF 2(2)] by blast
  obtain s4 where 4: "dbg_hex32 b (hdr_entry (img_header flash)) s3 = Some s4" "idle (ext s4)" "ram s4 = ram s3"
    using quiet_hex32 [OF 3(2)] by blast
  obtain s5 where 5: "dbg_str b (str '' '') s4 = Some s5" "ram s5 = ram s4"
    using quiet_str [OF 4(2)] by blast
  have "loadBinaryAndStart b data s = Some (JumpTo (hdr_entry (img_header flash)), s5)"
    using 1(1) 2(1) 3(1,3) 4(1,3) 5 hdr by (simp add: loadBinaryAndStart_def del: dbg_str.simps str_Cons)
  moreover have "ram s5 p = place flash (img_areas flash) (ram s) p" if "\<not> in_blk p data 6440" for p
    using that 1(4) 2(4) 3(3) 4(3) 5(2) place_cong [of "ram s1" p "ram s"] by simp
  ultimately show ?thesis by blast
qed

end
end
