(* ===== verification/Flash_Props.thy ===== *)
theory Flash_Props
  imports Flash_Image Devices
begin

text \<open>
  The properties of the flash boot of the second bootloader: a well formed image ends up in memory
  and is entered, and the driver reads what it is asked for.
\<close>

lemma flash_boot_returns:
  assumes "boot_hw b rx tx idle busy ready flash todo left oth" and "idle (ext s)" and "image_wf flash"
  shows "\<exists>s'. bootFromRom b bootCode 0 0 s = Some (JumpTo (hdr_entry (img_header flash)), s') \<and>
    (\<forall>a \<in> set (img_areas flash).
       load_bytes (area_ptr a) (unat (area_size a)) (ram s') = load_bytes (area_start a) (unat (area_size a)) flash)"
proof -
  let ?s0 = "set_field (bootCode + qpi_off) 0 (set_field (bootCode + blockSize_off) FLASH_BLOCK_SIZE
    (set_field (bootCode + step_off) 0 (set_field (bootCode + hyperflash_off) 0 s)))"
  have wf: "img_nb flash \<le> 16" "\<And>a. a \<in> set (img_areas flash) \<Longrightarrow> area_fits a"
    using assms(3) by (simp_all add: image_wf_def)
  have "data_blockSize bootCode (ram ?s0) = 4096"
    by (simp add: blockSize_below_qpi blockSize_stored FLASH_BLOCK_SIZE_def)
  then obtain s1 where 1: "getMemAreas (a2_reader b) bootCode ?s0 = Some s1" "idle (ext s1)" "holds_image flash bootCode (ram s1)"
    using image_reader.getMemAreas_image [OF boot_hw.reads_image [OF assms(1)] _ wf(1) _ TrueI, of ?s0 bootCode] assms(2) by auto
  obtain nd where nd: "findDataFit (ram s1) bootCode = Some nd" "\<And>a. a \<in> set (img_areas flash) \<Longrightarrow> clear_of nd a"
    using fit_is_clear [OF assms(3) 1(3)] by blast
  let ?s2 = "(set_field (nd + blockSize_off) FLASH_BLOCK_SIZE (set_field (nd + qpi_off) 0
    (set_field (nd + hyperflash_off) 0 s1)))\<lparr>sp := nd + stack_off + BOOT_STACK_SIZE\<rparr>"
  have "idle (ext ?s2)" "data_blockSize nd (ram ?s2) = 4096"
    using 1(2) by (simp_all add: blockSize_stored FLASH_BLOCK_SIZE_def)
  then obtain s' where s': "loadBinaryAndStart b nd ?s2 = Some (JumpTo (hdr_entry (img_header flash)), s')"
      "\<And>p. \<not> in_blk p nd 6440 \<Longrightarrow> ram s' p = place flash (img_areas flash) (ram ?s2) p"
    using boot_hw.load_and_start [OF assms(1) _ wf(1), of ?s2 nd] wf(2) nd(2) by blast
  have "bootFromRom b bootCode 0 0 s = Some (JumpTo (hdr_entry (img_header flash)), s')"
    using 1(1) nd(1) s'(1) by (simp add: bootFromRom_def Let_def loadBinaryAndStart_newStack_def)
  with section_loaded [OF assms(3) _ nd(2) s'(2)] show ?thesis by blast
qed

section \<open>Properties\<close>

text \<open>
  Booting from a flash that holds a well formed image (at most sixteen sections in the order of
  their addresses, each with as many 4 KB blocks as it needs) ends with control at the entry point
  of the image, and every section then stands at its address with the contents it has in the flash.
\<close>

theorem boot_from_flash:
  assumes "boot_hw b rx tx idle busy ready flash todo left oth" and "idle (ext s)" and "image_wf flash"
  shows "\<exists>s'. bootFromRom b bootCode 0 0 s = Some (JumpTo (hdr_entry (img_header flash)), s') \<and>
    (\<forall>a \<in> set (img_areas flash).
       load_bytes (area_ptr a) (unat (area_size a)) (ram s') = load_bytes (area_start a) (unat (area_size a)) flash)"
  using flash_boot_returns [OF assms] .

text \<open>
  A flash read of a positive length returns: its polling loop ends, the bytes of the flash from
  the given address are in memory at the given place, and nothing else of the memory changed.
\<close>

theorem udma_flash_read_copies:
  assumes "flash_hw b flash idle todo left oth" and "idle (ext s)" and "0 < n" and "unat fa < 2 ^ 24"
  shows "\<exists>s'. udma_flash_read b fa l2addr n s = Some s' \<and>
    ram s' = store_bytes l2addr (load_bytes fa (unat n) flash) (ram s) \<and> idle (ext s')"
  using flash_hw.flash_read_returns [OF assms(1-3), of fa l2addr] assms(4) by (auto simp: flash_bytes_low)

text \<open>
  The command words of a flash read drive exactly the bits of the read opcode 03 and of the 24
  bit address, most significant bit first, and ask for as many bytes as the length says.
\<close>

theorem flash_read_cmds_decode:
  assumes "0 < n"
  shows "spi_out (flash_read_cmds clkdiv a n) = read_request a \<and> spi_in (flash_read_cmds clkdiv a n) = unat n"
  using assms by (simp add: spi_out_flash_read spi_in_flash_read)

section \<open>A concrete image\<close>

interpretation hw_boot: boot_hw hw_bus hw_rx hw_tx "hw_idle flash" hw_busy hw_ready flash "hw_todo flash" h_left hw_uobs
  by unfold_locales
    (auto simp: hw_bus_def hw_rx_def hw_tx_def hw_busy_def hw_ready_def hw_idle_def uart_obs_def quiet_def sent_def
      split: list.splits)
interpretation hw_reader: image_reader "a2_reader hw_bus" flash "hw_idle flash" "\<lambda>_ _. True"
  by (rule hw_boot.reads_image)

definition boot_init :: "hw boot_state" where
  "boot_init = \<lparr>ram = (\<lambda>_. 0), ext = hw_init\<lparr>h_flash := demo_flash\<rparr>, gStopUartMsgFlg = 0, gStopUartBootLoaderFlg = 0,
     gStopI2CBootLoaderFlg = 0, gsUartProtocolConvToHexBuf = replicate 512 0, gsMemoryWriteBuf = replicate 256 0,
     gsUart0FillIndex = 0, gsUart0ProtocolState = UART0_PROTOCOL_STATE_IDLE, gsSRecordType = 0,
     gsDestinationAddress = 0, gsDestinationAddressSizeInBytes = 0, gsTotalCountInBytes = 0,
     gsDataCountInBytes = 0, gsMemoryWriteBufIndex = 0, gsDataRxdCounterInCharacters = 0, gsCRCVal = 0,
     gsCalculatedChkSum = 0, gsI2CProtocolFrameRxBuf = replicate 256 0, gUseCRCFlg = 0,
     gsI2CProtocolFrameTxBuf = replicate 16 0, gsI2CProtocolFrameCounter = 0, lastSentFrameSize = 0,
     crcTable = replicate 256 0, aucclkdiv = 0, auccmd = replicate 16 0, sp = 0\<rparr>"

lemma boot_init_idle: "hw_idle demo_flash (ext boot_init)"
  by (simp add: boot_init_def hw_idle_def hw_init_def)
theorem boot_from_flash_witness:
  "\<exists>s'. bootFromRom hw_bus 0x1C010000 0 0 boot_init = Some (JumpTo (hdr_entry (img_header demo_flash)), s') \<and>
    (\<forall>a \<in> set (img_areas demo_flash).
       load_bytes (area_ptr a) (unat (area_size a)) (ram s') = load_bytes (area_start a) (unat (area_size a)) demo_flash)"
  by (rule boot_from_flash [OF hw_boot.boot_hw_axioms boot_init_idle demo_wf])

theorem udma_flash_read_copies_witness:
  "\<exists>s'. udma_flash_read hw_bus 8 0x1C000000 4 boot_init = Some s' \<and>
    ram s' = store_bytes 0x1C000000 (load_bytes 8 (unat (4 :: u16)) demo_flash) (ram boot_init) \<and> hw_idle demo_flash (ext s')"
  by (rule udma_flash_read_copies [OF hw_flash.flash_hw_axioms boot_init_idle]) simp_all

theorem flash_read_cmds_decode_witness:
  "spi_out (flash_read_cmds 2 0x123456 256) = read_request 0x123456 \<and>
   spi_in (flash_read_cmds 2 0x123456 256) = unat (256 :: u16)"
  by (rule flash_read_cmds_decode) simp

text \<open>A working structure that holds the image.\<close>
end
