(* ===== verification/A2_Invariants.thy ===== *)
theory A2_Invariants
  imports A2_Main Uart_Srec I2C_Frames Flash_Props
begin

text \<open>
  What holds of the service loop whatever the peripherals do: input and output routines change
  memory and peripherals only (\<open>io_only\<close>), and so every round keeps the buffers at their sizes, the
  CRC table filled, the round counter in range and the stop flags set.
\<close>

section \<open>Routines that only touch memory and peripherals\<close>

definition io_only :: "('e, 'z) machine_scheme \<Rightarrow> ('e, 'z) machine_scheme \<Rightarrow> bool" where
  "io_only s s' \<longleftrightarrow> machine.more s' = machine.more s"

lemma io_only_refl [simp]: "io_only s s"
  by (simp add: io_only_def)

lemma io_only_trans: "io_only s s1 \<Longrightarrow> io_only s1 s2 \<Longrightarrow> io_only s s2"
  by (simp add: io_only_def)

lemma io_onlyE:
  assumes "io_only s s'"
  obtains m e where "s' = s\<lparr>ram := m, ext := e\<rparr>"
proof -
  from assms have "s' = s\<lparr>ram := ram s', ext := ext s'\<rparr>"
    by (cases s, cases s') (simp add: io_only_def)
  then show ?thesis by (rule that)
qed

lemma rd_io: "rd b l s = (v, s') \<Longrightarrow> io_only s s'"
  using rd_more [of b l s] by (simp add: io_only_def)

lemma wr_io: "io_only s (wr b l v s)" and wp_io: "io_only s (wp b l p s)"
  by (simp_all add: io_only_def wr_more wp_more)

lemma uart_wait_tx_io:
  assumes "uart_wait_tx b u i s = Some (i', s')"
  shows "io_only s s'"
proof -
  have "io_only s (snd y)" if "uart_wait_tx b u i s = Some y" for y
    by (rule uart_wait_tx.raw_induct [OF _ that, where P = "\<lambda>b u i s y. io_only s (snd y)"])
      (auto split: prod.splits if_splits dest: rd_io intro: io_only_trans)
  from this [OF assms] show ?thesis by simp
qed

lemma write_io:
  assumes "udma_uart_writeraw b u n bs s = Some (i, s')"
  shows "io_only s s'"
proof -
  obtain i1 s1 i2 where "uart_wait_tx b u 0 s = Some (i1, s1)"
    "uart_wait_tx b u i1 (wr b (Uart u uart_tx_cfg_en) 1 (wr b (Uart u uart_tx_size) (ucast n)
      (wp b (Uart u uart_tx_saddr) (Bytes bs) s1))) = Some (i2, s')"
    using assms by (auto simp: udma_uart_writeraw_def split: Option.bind_splits prod.splits)
  then show ?thesis
    by (meson uart_wait_tx_io io_only_trans wr_io wp_io)
qed

lemma read_io: "udma_uart_readraw b u c0 s = (l, c, s') \<Longrightarrow> io_only s s'"
  by (auto simp: udma_uart_readraw_def split: prod.splits if_splits dest: rd_io intro: io_only_trans)

lemma dbg_ch_io: "dbg_ch b c s = Some s' \<Longrightarrow> io_only s s'"
  by (auto simp: dbg_ch_def dbg_nl_def dbg_ch_raw_def split: if_splits Option.bind_splits prod.splits
      dest!: write_io intro: io_only_trans)

lemma dbg_str_io: "dbg_str b cs s = Some s' \<Longrightarrow> io_only s s'"
  by (induction cs arbitrary: s)
    (auto split: if_splits Option.bind_splits dest: dbg_ch_io intro: io_only_trans)

lemma dbg_hex_io:
  "dbg_hex8 b v s = Some s' \<Longrightarrow> io_only s s'"
  "dbg_hex16 b v s = Some s' \<Longrightarrow> io_only s s'"
  "dbg_hex32 b v s = Some s' \<Longrightarrow> io_only s s'"
proof -
  show 8: "dbg_hex8 b v s = Some s' \<Longrightarrow> io_only s s'" for v s s'
    by (auto simp: dbg_hex8_def dbg_hex4_def split: Option.bind_splits dest!: dbg_ch_io intro: io_only_trans)
  show 16: "dbg_hex16 b v s = Some s' \<Longrightarrow> io_only s s'" for v s s'
    by (auto simp: dbg_hex16_def split: Option.bind_splits dest!: 8 intro: io_only_trans)
  show "dbg_hex32 b v s = Some s' \<Longrightarrow> io_only s s'"
    by (auto simp: dbg_hex32_def split: Option.bind_splits dest!: 16 intro: io_only_trans)
qed

lemma send_frame_io: "sendUartProtocolFrame b f n s = Some (i, s') \<Longrightarrow> io_only s s'"
proof -
  have loop: "sendUartProtocolFrame_loop b i cs s = Some (j, s') \<Longrightarrow> io_only s s'" for i cs s j s'
    by (induction cs arbitrary: i s) (auto split: Option.bind_splits prod.splits dest: write_io intro: io_only_trans)
  show "sendUartProtocolFrame b f n s = Some (i, s') \<Longrightarrow> io_only s s'"
    by (auto simp: sendUartProtocolFrame_def split: option.splits dest: loop)
qed

lemma send_reply_io: "sendUartOKorNotOKFrame b a s = Some (i, s') \<Longrightarrow> io_only s s'"
  and send_bootme_io: "sendUartBootMeFrame b s = Some (i, s') \<Longrightarrow> io_only s s'"
  by (auto simp: sendUartOKorNotOKFrame_def sendUartBootMeFrame_def split: if_splits dest: send_frame_io)

lemma i2cs_get_io: "i2cs_get b r s = (v, s') \<Longrightarrow> io_only s s'"
  by (auto simp: i2cs_get_def split: prod.splits dest: rd_io)

lemmas hal_get_defs = hal_get_i2cs_msg_i2c_apb_status_def hal_get_i2cs_msg_i2c_apb_def
  hal_get_i2cs_fifo_i2c_apb_read_flags_def hal_get_i2cs_fifo_i2c_apb_read_data_port_def

lemma set_message_io: "io_only s (hal_set_i2cs_msg_apb_i2c b d s)"
  by (simp add: hal_set_i2cs_msg_apb_i2c_def wr_io)

lemma io_then:
  "io_only s s1 \<Longrightarrow> io_only s (wr b l v s1)"
  "io_only s s1 \<Longrightarrow> io_only s (hal_set_i2cs_msg_apb_i2c c d s1)"
  by (blast intro: io_only_trans wr_io set_message_io)+

section \<open>The UART bootloader\<close>

text \<open>
  What a character of the UART protocol leaves alone: the flag that stops the UART protocol and the
  variables of the other components. Silence, once ordered, stays ordered, and the protocol never
  stops the I2C side without also stopping the invitations.
\<close>

record 'z kept =
  uart_flag :: u8
  msg_stopped :: bool
  i2c_stopped :: bool
  rest :: 'z

definition uart_inv :: "'z kept \<Rightarrow> ('e, 'z) uart_globals_scheme \<Rightarrow> bool" where
  "uart_inv k s \<longleftrightarrow> uart_wf s \<and> gStopUartBootLoaderFlg s = uart_flag k \<and> uart_globals.more s = rest k \<and>
     (msg_stopped k \<longrightarrow> gStopUartMsgFlg s \<noteq> 0) \<and> (i2c_stopped k \<longrightarrow> gStopI2CBootLoaderFlg s \<noteq> 0) \<and>
     (gStopI2CBootLoaderFlg s \<noteq> 0 \<longrightarrow> gStopUartMsgFlg s \<noteq> 0)"

text \<open>Assignments to the scalar variables of the protocol do not matter.\<close>

lemma uart_inv_scalars [simp]:
  "uart_inv k (s\<lparr>gsUart0FillIndex := v0\<rparr>) = uart_inv k s"
  "uart_inv k (s\<lparr>gsUart0ProtocolState := v1\<rparr>) = uart_inv k s"
  "uart_inv k (s\<lparr>gsSRecordType := v2\<rparr>) = uart_inv k s"
  "uart_inv k (s\<lparr>gsDestinationAddress := v3\<rparr>) = uart_inv k s"
  "uart_inv k (s\<lparr>gsDestinationAddressSizeInBytes := v4\<rparr>) = uart_inv k s"
  "uart_inv k (s\<lparr>gsTotalCountInBytes := v5\<rparr>) = uart_inv k s"
  "uart_inv k (s\<lparr>gsDataCountInBytes := v6\<rparr>) = uart_inv k s"
  "uart_inv k (s\<lparr>gsMemoryWriteBufIndex := v7\<rparr>) = uart_inv k s"
  "uart_inv k (s\<lparr>gsDataRxdCounterInCharacters := v8\<rparr>) = uart_inv k s"
  "uart_inv k (s\<lparr>gsCRCVal := v9\<rparr>) = uart_inv k s"
  "uart_inv k (s\<lparr>gsCalculatedChkSum := v10\<rparr>) = uart_inv k s"
  "uart_inv k (s\<lparr>ram := v11\<rparr>) = uart_inv k s"
  by (simp_all add: uart_inv_def uart_wf_def)

lemma io_uart_inv: "io_only s s' \<Longrightarrow> uart_inv k s \<Longrightarrow> uart_inv k s'"
  by (erule io_onlyE) (simp add: uart_inv_def uart_wf_def)

lemma conv_put_inv: "conv_put c s = Some s' \<Longrightarrow> uart_inv k s \<Longrightarrow> uart_inv k s'"
  and mem_put_inv: "mem_put c s = Some s' \<Longrightarrow> uart_inv k s \<Longrightarrow> uart_inv k s'"
  by (auto simp: conv_put_def mem_put_def uart_inv_def uart_wf_def split: if_splits)

lemma within_Some:
  "within r s k = Some (x, s') \<longleftrightarrow>
   (r = None \<and> x = Undefined OutOfBounds \<and> s' = s) \<or> (\<exists>s1. r = Some s1 \<and> k s1 = Some (x, s'))"
  by (cases r) auto

lemma idle_inv: "uart_case_idle c s = Some (x, s') \<Longrightarrow> uart_inv k s \<Longrightarrow> uart_inv k s'"
  by (auto simp: uart_case_idle_def Let_def uart_inv_def uart_wf_def split: if_splits)

lemma record_type_inv: "uart_case_record_type c s = Some (x, s') \<Longrightarrow> uart_inv k s \<Longrightarrow> uart_inv k s'"
  by (auto simp: uart_case_record_type_def srec_start_def Let_def split: if_splits)

lemma if_Some:
  "((if c then r else r') = Some y) \<longleftrightarrow> (if c then r = Some y else r' = Some y)"
  by simp

lemma if_Some_cases: "(if c then r = Some y else r' = Some y) \<longleftrightarrow> c \<and> r = Some y \<or> \<not> c \<and> r' = Some y"
  by simp

lemmas results = within_Some if_Some if_Some_cases bind_eq_Some_conv

lemma count_inv: "uart_case_count c s = Some (x, s') \<Longrightarrow> uart_inv k s \<Longrightarrow> uart_inv k s'"
  unfolding uart_case_count_def Let_def
  by (auto simp: results split del: if_split dest: conv_put_inv)

lemma address_inv: "uart_case_address c s = Some (x, s') \<Longrightarrow> uart_inv k s \<Longrightarrow> uart_inv k s'"
  unfolding uart_case_address_def Let_def
  by (auto simp: results split del: if_split dest: conv_put_inv)

lemma termination_inv: "uart_case_termination c s = Some (x, s') \<Longrightarrow> uart_inv k s \<Longrightarrow> uart_inv k s'"
  by (auto simp: uart_case_termination_def)

lemma data_inv: "uart_case_data c s = Some (x, s') \<Longrightarrow> uart_inv k s \<Longrightarrow> uart_inv k s'"
  unfolding uart_case_data_def Let_def
  by (auto simp: results split del: if_split dest!: conv_put_inv [of _ _ _ k] mem_put_inv [of _ _ _ k])

lemma record_ok_inv: "uart_record_ok b s = Some (x, s') \<Longrightarrow> uart_inv k s \<Longrightarrow> uart_inv k s'"
  unfolding uart_record_ok_def Let_def
  by (auto simp: results split del: if_split dest!: dbg_str_io dbg_hex_io dest: io_uart_inv [of _ _ k]
      simp del: dbg_str.simps str_Cons)

lemma crc_inv: "uart_case_crc b c s = Some (x, s') \<Longrightarrow> uart_inv k s \<Longrightarrow> uart_inv k s'"
  unfolding uart_case_crc_def Let_def
  by (auto 4 8 simp: results split del: if_split simp del: dbg_str.simps str_Cons
      dest!: conv_put_inv [of _ _ _ k] record_ok_inv [of _ _ _ _ k] dbg_str_io dbg_hex_io send_reply_io
      intro: io_uart_inv)

lemma char_inv: "uart_protocol_char b c s = Some (x, s') \<Longrightarrow> uart_inv k s \<Longrightarrow> uart_inv k s'"
  unfolding uart_protocol_char_def
  by (cases "gsUart0ProtocolState s")
    (auto dest: idle_inv record_type_inv count_inv address_inv data_inv crc_inv termination_inv)

lemma uart_process_inv:
  assumes "processUartProtocolFrames b s = Some (x, s')" and "uart_inv k s"
  shows "uart_inv k s'"
proof -
  obtain l c s1 where r: "udma_uart_readraw b 0 0 s = (l, c, s1)" by (metis prod_cases3)
  with assms(2) have "uart_inv k s1" by (blast intro: io_uart_inv read_io)
  with assms(1) r show ?thesis by (auto simp: processUartProtocolFrames_def split: if_splits dest: char_inv)
qed

section \<open>The I2C bootloader\<close>

text \<open>Likewise for the mailbox: the receive buffer keeps its size and the CRC table its contents.\<close>

record i2c_kept =
  i2c_flag :: u8
  msg_silent :: bool
  uart_stopped :: bool

definition i2c_inv :: "i2c_kept \<Rightarrow> ('e, 'z) i2c_globals_scheme \<Rightarrow> bool" where
  "i2c_inv k s \<longleftrightarrow> uart_wf s \<and> i2c_wf s \<and> gStopI2CBootLoaderFlg s = i2c_flag k \<and>
     (msg_silent k \<longrightarrow> gStopUartMsgFlg s \<noteq> 0) \<and> (uart_stopped k \<longrightarrow> gStopUartBootLoaderFlg s \<noteq> 0) \<and>
     (gStopUartBootLoaderFlg s \<noteq> 0 \<longrightarrow> gStopUartMsgFlg s \<noteq> 0)"

lemma i2c_inv_scalars [simp]:
  "i2c_inv k (s\<lparr>gUseCRCFlg := v0\<rparr>) = i2c_inv k s"
  "i2c_inv k (s\<lparr>ram := v1\<rparr>) = i2c_inv k s"
  "i2c_inv k (s\<lparr>gsI2CProtocolFrameRxBuf := (gsI2CProtocolFrameRxBuf s)[j := d]\<rparr>) = i2c_inv k s"
  by (simp_all add: i2c_inv_def uart_wf_def i2c_wf_def)

lemma io_i2c_inv: "io_only s s' \<Longrightarrow> i2c_inv k s \<Longrightarrow> i2c_inv k s'"
  by (erule io_onlyE) (simp add: i2c_inv_def uart_wf_def i2c_wf_def)

lemma i2c_set_message_inv [simp]: "i2c_inv k s \<Longrightarrow> i2c_inv k (hal_set_i2cs_msg_apb_i2c b d s)"
  by (blast intro: io_i2c_inv set_message_io)

lemma i2c_get_io:
  "hal_get_i2cs_msg_i2c_apb_status b s = (v, s') \<Longrightarrow> io_only s s'"
  "hal_get_i2cs_msg_i2c_apb b s = (v, s') \<Longrightarrow> io_only s s'"
  "hal_get_i2cs_fifo_i2c_apb_read_flags b s = (v, s') \<Longrightarrow> io_only s s'"
  "hal_get_i2cs_fifo_i2c_apb_read_data_port b s = (v, s') \<Longrightarrow> io_only s s'"
  by (auto simp: hal_get_defs dest: i2cs_get_io)

definition drain_state :: "'s + 'i \<times> 's \<Rightarrow> 's" where
  "drain_state r = (case r of Inl s \<Rightarrow> s | Inr p \<Rightarrow> snd p)"

lemma drain_state_simps [simp]: "drain_state (Inl s) = s" "drain_state (Inr (i, s)) = s"
  by (simp_all add: drain_state_def)

lemma i2c_drain_inv:
  assumes "i2c_drain b i s = Some r" and "i2c_inv k s"
  shows "i2c_inv k (drain_state r)"
proof -
  have "i2c_inv k s \<longrightarrow> i2c_inv k (drain_state r)"
    if "i2c_drain b i s = Some r" for i s r
    by (rule i2c_drain.raw_induct [OF _ that, where P = "\<lambda>b i s r. i2c_inv k s \<longrightarrow> i2c_inv k (drain_state r)"])
      (fastforce split: prod.splits if_splits dest!: i2c_get_io dest: io_i2c_inv [of _ _ k])
  with assms show ?thesis by blast
qed

lemma i2c_parse_inv: "parseI2CProtocolFrame b buf n s = Some (x, s') \<Longrightarrow> i2c_inv k s \<Longrightarrow> i2c_inv k s'"
  unfolding parseI2CProtocolFrame_def i2c_command_def
  by (auto simp: results split: option.splits prod.splits if_splits dest!: dbg_str_io dbg_hex_io dest: io_i2c_inv [of _ _ k]
      simp del: dbg_str.simps str_Cons)

lemma i2c_host_spoke:
  "i2c_inv k s \<Longrightarrow> i2c_inv k (s\<lparr>gStopUartMsgFlg := 1, gStopUartBootLoaderFlg := 1\<rparr>)"
  by (simp add: i2c_inv_def uart_wf_def i2c_wf_def)

lemma i2c_process_inv:
  assumes "processI2CProtocolFrames b s = Some (x, s')" and "i2c_inv k s"
  shows "i2c_inv k s'"
proof -
  have parse: "i2c_inv k s'" if "(do {
                r \<leftarrow> i2c_drain b 0 s;
                case r of
                  Inl s \<Rightarrow> Some (Undefined OutOfBounds, s)
                | Inr (i, s) \<Rightarrow> parseI2CProtocolFrame b (gsI2CProtocolFrameRxBuf s) i s
              }) = Some (x, s')" and "i2c_inv k s" for s
  proof -
    from that(1) obtain r where d: "i2c_drain b 0 s = Some r" by (auto simp: bind_eq_Some_conv)
    from i2c_drain_inv [OF d that(2)] that(1) d show ?thesis
      by (cases r) (auto dest: i2c_parse_inv)
  qed
  obtain st s1 where 1: "hal_get_i2cs_msg_i2c_apb_status b s = (st, s1)" by fastforce
  let ?s1 = "s1\<lparr>gStopUartMsgFlg := 1, gStopUartBootLoaderFlg := 1\<rparr>"
  obtain m1 s2 where 2: "hal_get_i2cs_msg_i2c_apb b ?s1 = (m1, s2)" by fastforce
  obtain m2 s3 where 3: "hal_get_i2cs_msg_i2c_apb b s2 = (m2, s3)" by fastforce
  obtain m3 s4 where 4: "hal_get_i2cs_msg_i2c_apb b s3 = (m3, s4)" by fastforce
  have inv1: "i2c_inv k s1" using 1 assms(2) by (blast intro: io_i2c_inv i2c_get_io)
  then have inv2: "i2c_inv k s2" using 2 by (blast intro: io_i2c_inv i2c_get_io i2c_host_spoke)
  then have inv3: "i2c_inv k s3" using 3 by (blast intro: io_i2c_inv i2c_get_io)
  then have inv4: "i2c_inv k s4" using 4 by (blast intro: io_i2c_inv i2c_get_io)
  from assms(1) inv1 inv2 inv3 inv4 show ?thesis
    by (auto simp: processI2CProtocolFrames_def 1 2 3 4 split: if_splits intro: parse)
qed

section \<open>The service loop\<close>

text \<open>
  What the loop maintains: the round counter below its limit, the buffers at their sizes, the CRC
  table filled, and of the two protocols at most one stopped; the invitation is silent when one is.
\<close>

definition serving :: "u32 \<Rightarrow> ('e, 'z) i2c_globals_scheme \<Rightarrow> bool" where
  "serving n s \<longleftrightarrow> n < 90000 \<and> uart_wf s \<and> i2c_wf s \<and>
     (gStopUartBootLoaderFlg s = 0 \<or> gStopI2CBootLoaderFlg s = 0) \<and>
     (gStopUartBootLoaderFlg s \<noteq> 0 \<or> gStopI2CBootLoaderFlg s \<noteq> 0 \<longrightarrow> gStopUartMsgFlg s \<noteq> 0)"

definition stopped_le :: "('e, 'z) i2c_globals_scheme \<Rightarrow> ('e, 'z) i2c_globals_scheme \<Rightarrow> bool" where
  "stopped_le s s' \<longleftrightarrow> (gStopUartMsgFlg s \<noteq> 0 \<longrightarrow> gStopUartMsgFlg s' \<noteq> 0) \<and>
     (gStopUartBootLoaderFlg s \<noteq> 0 \<longrightarrow> gStopUartBootLoaderFlg s' \<noteq> 0) \<and>
     (gStopI2CBootLoaderFlg s \<noteq> 0 \<longrightarrow> gStopI2CBootLoaderFlg s' \<noteq> 0)"

lemma stopped_le_refl [simp]: "stopped_le s s"
  by (simp add: stopped_le_def)

lemma stopped_le_trans: "stopped_le s s1 \<Longrightarrow> stopped_le s1 s2 \<Longrightarrow> stopped_le s s2"
  by (simp add: stopped_le_def)

definition keeps :: "u32 \<Rightarrow> ('e, 'z) i2c_globals_scheme \<Rightarrow> ('e, 'z) i2c_globals_scheme \<Rightarrow> bool" where
  "keeps n s s' \<longleftrightarrow> (serving n s \<longrightarrow> serving n s' \<and> stopped_le s s')"

lemma keeps_trans: "keeps n s s1 \<Longrightarrow> keeps n s1 s2 \<Longrightarrow> keeps n s s2"
  by (auto simp: keeps_def intro: stopped_le_trans)

lemma io_keeps: "io_only s s' \<Longrightarrow> keeps n s s'"
  by (erule io_onlyE) (simp add: keeps_def serving_def stopped_le_def uart_wf_def i2c_wf_def)

lemma uart_served:
  assumes "processUartProtocolFrames b s = Some (x, s')" and "gStopUartBootLoaderFlg s = 0"
  shows "keeps n s s'"
proof -
  let ?k = "\<lparr>uart_flag = gStopUartBootLoaderFlg s, msg_stopped = gStopUartMsgFlg s \<noteq> 0,
    i2c_stopped = gStopI2CBootLoaderFlg s \<noteq> 0, rest = uart_globals.more s\<rparr>"
  have "i2c_wf s' = i2c_wf s" if "uart_globals.more s' = uart_globals.more s"
    using that by (cases s, cases s') (simp add: i2c_wf_def)
  moreover have "serving n s \<Longrightarrow> uart_inv ?k s" by (simp add: serving_def uart_inv_def)
  ultimately show ?thesis
    using uart_process_inv [OF assms(1), of ?k] assms(2)
    by (auto simp: keeps_def serving_def stopped_le_def uart_inv_def)
qed

lemma i2c_served:
  assumes "processI2CProtocolFrames b s = Some (x, s')" and "gStopI2CBootLoaderFlg s = 0"
  shows "keeps n s s'"
proof -
  let ?k = "\<lparr>i2c_flag = gStopI2CBootLoaderFlg s, msg_silent = gStopUartMsgFlg s \<noteq> 0,
    uart_stopped = gStopUartBootLoaderFlg s \<noteq> 0\<rparr>"
  have "serving n s \<Longrightarrow> i2c_inv ?k s" by (simp add: serving_def i2c_inv_def)
  then show ?thesis
    using i2c_process_inv [OF assms(1), of ?k] assms(2)
    by (auto simp: keeps_def serving_def stopped_le_def i2c_inv_def)
qed

lemma keepsD: "keeps n s s' \<Longrightarrow> serving n s \<Longrightarrow> serving n s' \<and> stopped_le s s'"
  by (simp add: keeps_def)

lemma invite_keeps:
  assumes "(if gStopUartMsgFlg s = 0
    then do { s \<leftarrow> dbg_str b t s; (_, s) \<leftarrow> sendUartBootMeFrame b s; Some s } else Some s) = Some s'"
  shows "keeps n s s'"
  using assms by (auto simp: bind_eq_Some_conv keeps_def [of _ s s] split: if_splits
      dest!: dbg_str_io send_bootme_io intro: io_keeps io_only_trans)

lemma poll_keeps:
  assumes "a2_poll b t n s = Some (Continue, n', s')" and "serving n s"
  shows "serving n' s' \<and> stopped_le s s'"
proof -
  obtain s1 where 1: "rd b Soc_jtagreg s = (1, s1)"
    using assms(1) by (cases "rd b Soc_jtagreg s") (auto simp: a2_poll_def split: if_splits)
  obtain s2 where 2: "(if gStopUartBootLoaderFlg s1 = 0 then processUartProtocolFrames b s1 else Some (Continue, s1)) =
      Some (Continue, s2)"
    using assms(1) by (auto simp: a2_poll_def 1 bind_eq_Some_conv split: if_splits)
  obtain s3 where 3: "(if gStopI2CBootLoaderFlg s2 = 0 then processI2CProtocolFrames b s2 else Some (Continue, s2)) =
      Some (Continue, s3)"
    using assms(1) by (auto simp: a2_poll_def 1 2 bind_eq_Some_conv split: if_splits)
  have "keeps n s s3"
  proof (rule keeps_trans)
    show "keeps n s s1" using 1 by (blast intro: io_keeps rd_io)
    have "keeps n s1 s2" using 2 by (auto split: if_splits simp: keeps_def [of _ s2 s2] dest: uart_served)
    moreover have "keeps n s2 s3" using 3 by (auto split: if_splits simp: keeps_def [of _ s3 s3] dest: i2c_served)
    ultimately show "keeps n s1 s3" by (rule keeps_trans)
  qed
  from keepsD [OF this assms(2)] have s3: "serving n s3" "stopped_le s s3" by simp_all
  have "n < 90000" using assms(2) by (simp add: serving_def)
  show ?thesis
  proof (cases "n + 1 \<ge> 90000")
    case True
    then obtain s4 where 4: "(if gStopUartMsgFlg s3 = 0
        then do { s \<leftarrow> dbg_str b t s3; (_, s) \<leftarrow> sendUartBootMeFrame b s; Some s } else Some s3) = Some s4"
        "n' = 0" "s' = s4"
      using assms(1) by (auto simp: a2_poll_def 1 2 3 bind_eq_Some_conv split: if_splits)
    have "serving n s4 \<and> stopped_le s3 s4" by (rule keepsD [OF invite_keeps [OF 4(1)] s3(1)])
    with 4 s3(2) show ?thesis by (auto simp: serving_def intro: stopped_le_trans)
  next
    case False
    with assms(1) have "n' = n + 1" "s' = s3" by (auto simp: a2_poll_def 1 2 3 bind_eq_Some_conv split: if_splits)
    with False s3 show ?thesis by (auto simp: serving_def not_le)
  qed
qed

text \<open>The states at the start of a round, from the state in which the loop is entered.\<close>

inductive a2_reach :: "'e a2_bus \<Rightarrow> u8 list \<Rightarrow> u32 \<Rightarrow> ('e, 'z) i2c_globals_scheme \<Rightarrow> u32 \<Rightarrow> ('e, 'z) i2c_globals_scheme \<Rightarrow> bool"
  for b t n0 s0 where
  entered: "a2_reach b t n0 s0 n0 s0"
| round: "a2_reach b t n0 s0 n s \<Longrightarrow> a2_poll b t n s = Some (Continue, n', s') \<Longrightarrow> a2_reach b t n0 s0 n' s'"

lemma reach_keeps:
  assumes "a2_reach b t n0 s0 n s" and "serving n0 s0"
  shows "serving n s \<and> stopped_le s0 s"
  using assms
proof induction
  case (round n s n' s')
  with poll_keeps [OF round(2)] show ?case by (auto intro: stopped_le_trans)
qed simp

text \<open>The initial values of the variables, as C gives them to the statics.\<close>

definition serve_start :: "('e, 'z) i2c_globals_scheme \<Rightarrow> bool" where
  "serve_start s \<longleftrightarrow> uart_wf s \<and> length (gsI2CProtocolFrameRxBuf s) = 256 \<and> length (crcTable s) = 256 \<and>
     gStopUartMsgFlg s = 0 \<and> gStopUartBootLoaderFlg s = 0 \<and> gStopI2CBootLoaderFlg s = 0"

lemma serve_init_serving:
  assumes "serve_start s"
  shows "serving 0 (a2_serve_init b s)"
proof -
  let ?s = "s\<lparr>crcTable := crcInit (crcTable s)\<rparr>"
  have "crcInit (crcTable s) = crcInit (replicate 256 0)"
    using assms by (intro crcInit_idem) (simp_all add: serve_start_def)
  with assms have "serving 0 ?s"
    by (simp add: serving_def serve_start_def uart_wf_def i2c_wf_def)
  moreover have "io_only ?s (a2_serve_init b s)"
    by (auto simp: a2_serve_init_def Let_def split: prod.splits
        intro!: io_then dest!: rd_io intro: io_only_trans)
  ultimately show ?thesis by (blast dest: io_keeps keepsD)
qed

section \<open>Properties\<close>

text \<open>
  C6. Whatever the peripherals do, at the start of every round of the service loop the round
  counter is below 90000, the receive and conversion buffers have their sizes, the CRC table is the
  one \<open>crcInit\<close> fills in, at most one of the two host protocols has been stopped (the bootloader
  never shuts both hosts out), and the invitations are silent once either has.
\<close>

theorem service_loop_invariant:
  assumes "serve_start s0" and "a2_reach b t 0 (a2_serve_init b s0) n s"
  shows "n < 90000 \<and> uart_wf s \<and> length (gsI2CProtocolFrameRxBuf s) = 256 \<and> crcTable s = crcInit (replicate 256 0) \<and>
    (gStopUartBootLoaderFlg s = 0 \<or> gStopI2CBootLoaderFlg s = 0) \<and>
    (gStopUartBootLoaderFlg s \<noteq> 0 \<or> gStopI2CBootLoaderFlg s \<noteq> 0 \<longrightarrow> gStopUartMsgFlg s \<noteq> 0)"
  using reach_keeps [OF assms(2) serve_init_serving [OF assms(1)]] by (simp add: serving_def i2c_wf_def)

text \<open>
  C15. The first host to speak is served to the end: once the UART host has made the loop stop the
  I2C protocol, or the I2C host the UART protocol, the other protocol is never served again and
  the chosen one never stopped.
\<close>

theorem first_host_stays:
  assumes "serve_start s0" and "a2_reach b t 0 (a2_serve_init b s0) n s" and "a2_reach b t n s n' s'"
  shows "(gStopI2CBootLoaderFlg s \<noteq> 0 \<longrightarrow> gStopI2CBootLoaderFlg s' \<noteq> 0 \<and> gStopUartBootLoaderFlg s' = 0) \<and>
    (gStopUartBootLoaderFlg s \<noteq> 0 \<longrightarrow> gStopUartBootLoaderFlg s' \<noteq> 0 \<and> gStopI2CBootLoaderFlg s' = 0)"
proof -
  have "serving n s" using reach_keeps [OF assms(2) serve_init_serving [OF assms(1)]] by blast
  from reach_keeps [OF assms(3) this] show ?thesis by (auto simp: serving_def stopped_le_def)
qed

section \<open>Witnesses\<close>

text \<open>A run on the reference device, on which the UART host sends the first character of a record.\<close>

definition serve_init :: "hw i2c_globals" where
  "serve_init = i2c_globals.truncate (boot_init\<lparr>ext := hw_init\<lparr>h_rx := (\<lambda>_. [])(0 := [0x53])\<rparr>\<rparr>)"

lemma serve_start_init: "serve_start serve_init"
  by (simp add: serve_start_def serve_init_def boot_init_def i2c_globals.defs uart_wf_def
      UART_PROTOCOL_CONV_BUF_LEN_def UART_PROTOCOL_MEMORY_WRITE_BUF_LEN_def)

definition serve_entered :: "hw i2c_globals" where
  "serve_entered = serve_init\<lparr>crcTable := crcInit (replicate 256 0), ext := (ext serve_init)\<lparr>h_jtag := 1\<rparr>\<rparr>"

lemma serve_entered: "a2_serve_init hw_bus serve_init = serve_entered"
  by (simp add: a2_serve_init_def rd_def wr_def hw_bus_def serve_entered_def serve_init_def boot_init_def i2c_globals.defs)

definition serve_chosen :: "hw i2c_globals" where
  "serve_chosen = serve_entered\<lparr>gStopUartMsgFlg := 1, gStopI2CBootLoaderFlg := 1,
     gsUart0ProtocolState := UART0_PROTOCOL_GET_RECORD_TYPE, ext := hw_init\<lparr>h_jtag := 1\<rparr>\<rparr>"

lemma first_round: "a2_poll hw_bus t 0 serve_entered = Some (Continue, 1, serve_chosen)"
  by (simp add: a2_poll_def rd_def hw_bus_def serve_entered_def serve_chosen_def serve_init_def boot_init_def
      i2c_globals.defs processUartProtocolFrames_def udma_uart_readraw_def hw_init_def uart_protocol_char_def
      uart_case_idle_def Let_def word_le_nat_alt fun_eq_iff)

lemma second_round: "a2_poll hw_bus t 1 serve_chosen = Some (Continue, 2, serve_chosen)"
  by (simp add: a2_poll_def rd_def hw_bus_def serve_entered_def serve_chosen_def serve_init_def boot_init_def
      i2c_globals.defs processUartProtocolFrames_def udma_uart_readraw_def hw_init_def)

lemma chosen_reached: "a2_reach hw_bus t 0 (a2_serve_init hw_bus serve_init) 1 serve_chosen"
  unfolding serve_entered by (rule a2_reach.round [OF a2_reach.entered first_round])

lemma chosen_again: "a2_reach hw_bus t 1 serve_chosen 2 serve_chosen"
  by (rule a2_reach.round [OF a2_reach.entered second_round])

theorem service_loop_invariant_witness:
  "uart_wf serve_chosen \<and> length (gsI2CProtocolFrameRxBuf serve_chosen) = 256 \<and>
    crcTable serve_chosen = crcInit (replicate 256 0) \<and>
    gStopI2CBootLoaderFlg serve_chosen = 1 \<and> gStopUartBootLoaderFlg serve_chosen = 0 \<and> gStopUartMsgFlg serve_chosen \<noteq> 0"
  using service_loop_invariant [OF serve_start_init chosen_reached [of "str ''.''"]]
  by (simp add: serve_chosen_def)

theorem first_host_stays_witness:
  "gStopI2CBootLoaderFlg serve_chosen \<noteq> 0 \<and> gStopUartBootLoaderFlg serve_chosen = 0"
  using first_host_stays [OF serve_start_init chosen_reached chosen_again]
  by (simp add: serve_chosen_def)

end
