(* ===== verification/Uart_Phases.thy ===== *)
theory Uart_Phases
  imports A2_Invariants
begin

text \<open>
  The phases of the S-record state machine as an abstract transition system. The phases are ordered as the
  enumeration of \<^verbatim>\<open>uartProtocol.h\<close> numbers them; every character is a step of the system, whatever
  the peripherals do, so within a record the machine only moves forward.
\<close>

section \<open>The order of the phases\<close>

fun phase_number :: "uart0ProtocolState_t \<Rightarrow> nat" where
  "phase_number UART0_PROTOCOL_STATE_IDLE = 0"
| "phase_number UART0_PROTOCOL_GET_RECORD_TYPE = 1"
| "phase_number UART0_PROTOCOL_GET_COUNT = 2"
| "phase_number UART0_PROTOCOL_GET_DESTINATION_ADDRESS = 3"
| "phase_number UART0_PROTOCOL_GET_DATA = 4"
| "phase_number UART0_PROTOCOL_GET_CRC = 5"
| "phase_number UART0_PROTOCOL_GET_TERMINATION_CHARACTER = 6"

lemma phase_number_inj: "phase_number p = phase_number q \<Longrightarrow> p = q"
  by (cases p; cases q) simp_all

instantiation uart0ProtocolState_t :: linorder
begin

definition less_eq_uart0ProtocolState_t :: "uart0ProtocolState_t \<Rightarrow> uart0ProtocolState_t \<Rightarrow> bool" where
  "p \<le> q \<longleftrightarrow> phase_number p \<le> phase_number q"

definition less_uart0ProtocolState_t :: "uart0ProtocolState_t \<Rightarrow> uart0ProtocolState_t \<Rightarrow> bool" where
  "p < q \<longleftrightarrow> phase_number p < phase_number q"

instance
  by standard (auto simp: less_eq_uart0ProtocolState_t_def less_uart0ProtocolState_t_def intro: phase_number_inj)

end

lemmas phase_order = less_eq_uart0ProtocolState_t_def less_uart0ProtocolState_t_def

section \<open>The transition system\<close>

text \<open>
  A step is labelled with the character that causes it. In idle and where a type is expected the character decides;
  elsewhere the phase goes on, or stays while the field is not complete.
\<close>

definition record_types :: "u8 set" where
  "record_types = {0x30, 0x31, 0x32, 0x33, 0x35, 0x37, 0x38, 0x39}"

inductive phase_step :: "u8 \<Rightarrow> uart0ProtocolState_t \<Rightarrow> uart0ProtocolState_t \<Rightarrow> bool" where
  start: "phase_step 0x53 UART0_PROTOCOL_STATE_IDLE UART0_PROTOCOL_GET_RECORD_TYPE"
| between: "c \<noteq> 0x53 \<Longrightarrow> phase_step c UART0_PROTOCOL_STATE_IDLE UART0_PROTOCOL_STATE_IDLE"
| typed: "c \<in> record_types \<Longrightarrow> phase_step c UART0_PROTOCOL_GET_RECORD_TYPE UART0_PROTOCOL_GET_COUNT"
| untyped: "c \<notin> record_types \<Longrightarrow> phase_step c UART0_PROTOCOL_GET_RECORD_TYPE UART0_PROTOCOL_GET_RECORD_TYPE"
| counted: "phase_step c UART0_PROTOCOL_GET_COUNT UART0_PROTOCOL_GET_DESTINATION_ADDRESS"
| data: "phase_step c UART0_PROTOCOL_GET_DESTINATION_ADDRESS UART0_PROTOCOL_GET_DATA"
| no_data: "phase_step c UART0_PROTOCOL_GET_DESTINATION_ADDRESS UART0_PROTOCOL_GET_CRC"
| complete: "phase_step c UART0_PROTOCOL_GET_DATA UART0_PROTOCOL_GET_CRC"
| checked: "phase_step c UART0_PROTOCOL_GET_CRC UART0_PROTOCOL_GET_TERMINATION_CHARACTER"
| ended: "phase_step c UART0_PROTOCOL_GET_TERMINATION_CHARACTER UART0_PROTOCOL_STATE_IDLE"
| more: "UART0_PROTOCOL_GET_COUNT \<le> p \<Longrightarrow> p < UART0_PROTOCOL_GET_TERMINATION_CHARACTER \<Longrightarrow> phase_step c p p"

inductive_simps phase_step_simps [simp]:
  "phase_step c UART0_PROTOCOL_STATE_IDLE q"
  "phase_step c UART0_PROTOCOL_GET_RECORD_TYPE q"
  "phase_step c UART0_PROTOCOL_GET_COUNT q"
  "phase_step c UART0_PROTOCOL_GET_DESTINATION_ADDRESS q"
  "phase_step c UART0_PROTOCOL_GET_DATA q"
  "phase_step c UART0_PROTOCOL_GET_CRC q"
  "phase_step c UART0_PROTOCOL_GET_TERMINATION_CHARACTER q"

inductive_cases phase_step_from: "phase_step c p q"

lemma phase_step_order:
  "phase_step c p q \<Longrightarrow> p \<le> q \<or> p = UART0_PROTOCOL_GET_TERMINATION_CHARACTER \<and> q = UART0_PROTOCOL_STATE_IDLE"
  by (erule phase_step_from) (simp_all add: phase_order)

text \<open>The only way to a new record.\<close>

lemma phase_step_start:
  "phase_step c p UART0_PROTOCOL_GET_RECORD_TYPE \<Longrightarrow> p \<noteq> UART0_PROTOCOL_GET_RECORD_TYPE \<Longrightarrow>
   c = 0x53 \<and> p = UART0_PROTOCOL_STATE_IDLE"
  by (erule phase_step_from) simp_all

section \<open>Every character is a step\<close>

lemma io_phase: "io_only s s' \<Longrightarrow> gsUart0ProtocolState s' = gsUart0ProtocolState s"
  by (erule io_onlyE) simp

lemma put_phase:
  "conv_put c s = Some s' \<Longrightarrow> gsUart0ProtocolState s' = gsUart0ProtocolState s"
  "mem_put c s = Some s' \<Longrightarrow> gsUart0ProtocolState s' = gsUart0ProtocolState s"
  by (auto simp: conv_put_def mem_put_def split: if_splits)

lemma idle_phase:
  "uart_case_idle c s = Some (x, s') \<Longrightarrow> gsUart0ProtocolState s = UART0_PROTOCOL_STATE_IDLE \<Longrightarrow>
   gsUart0ProtocolState s' = (if c = 0x53 then UART0_PROTOCOL_GET_RECORD_TYPE else UART0_PROTOCOL_STATE_IDLE)"
  by (auto simp: uart_case_idle_def Let_def split: if_splits)

lemma record_type_phase:
  "uart_case_record_type c s = Some (x, s') \<Longrightarrow>
   gsUart0ProtocolState s' = (if c \<in> record_types then UART0_PROTOCOL_GET_COUNT else gsUart0ProtocolState s)"
  by (auto simp: uart_case_record_type_def srec_start_def record_types_def Let_def split: if_splits)

lemma count_phase:
  "uart_case_count c s = Some (x, s') \<Longrightarrow>
   gsUart0ProtocolState s' = gsUart0ProtocolState s \<or> gsUart0ProtocolState s' = UART0_PROTOCOL_GET_DESTINATION_ADDRESS"
  unfolding uart_case_count_def Let_def by (auto simp: results split del: if_split dest!: put_phase)

lemma one_of_three: "Q e \<Longrightarrow> Q u \<Longrightarrow> Q v \<Longrightarrow> Q (if c then u else if d then v else e)"
  by simp

lemma address_phase_all:
  "uart_case_address c s = Some (x, s') \<Longrightarrow> Q (gsUart0ProtocolState s) \<Longrightarrow> Q UART0_PROTOCOL_GET_DATA \<Longrightarrow>
   Q UART0_PROTOCOL_GET_CRC \<Longrightarrow> Q (gsUart0ProtocolState s')"
  unfolding uart_case_address_def Let_def
  by (auto simp: results split del: if_split dest!: put_phase intro!: one_of_three [of Q])

lemma address_phase:
  "uart_case_address c s = Some (x, s') \<Longrightarrow>
   gsUart0ProtocolState s' \<in> {gsUart0ProtocolState s, UART0_PROTOCOL_GET_DATA, UART0_PROTOCOL_GET_CRC}"
  by (rule address_phase_all) auto

lemma data_phase:
  "uart_case_data c s = Some (x, s') \<Longrightarrow>
   gsUart0ProtocolState s' = gsUart0ProtocolState s \<or> gsUart0ProtocolState s' = UART0_PROTOCOL_GET_CRC"
  unfolding uart_case_data_def Let_def by (auto simp: results split del: if_split dest!: put_phase)

lemma record_ok_phase: "uart_record_ok b s = Some (x, s') \<Longrightarrow> gsUart0ProtocolState s' = gsUart0ProtocolState s"
  unfolding uart_record_ok_def Let_def
  by (auto simp: results split del: if_split dest!: dbg_str_io dbg_hex_io io_phase simp del: dbg_str.simps str_Cons)

lemma crc_phase:
  "uart_case_crc b c s = Some (x, s') \<Longrightarrow>
   gsUart0ProtocolState s' = gsUart0ProtocolState s \<or> gsUart0ProtocolState s' = UART0_PROTOCOL_GET_TERMINATION_CHARACTER"
  unfolding uart_case_crc_def Let_def
  by (auto simp: results split del: if_split simp del: dbg_str.simps str_Cons dest!: put_phase record_ok_phase)

lemma termination_phase:
  "uart_case_termination c s = Some (x, s') \<Longrightarrow> gsUart0ProtocolState s' = UART0_PROTOCOL_STATE_IDLE"
  by (auto simp: uart_case_termination_def)

lemmas case_phases = idle_phase record_type_phase count_phase address_phase data_phase crc_phase termination_phase

lemma char_phase:
  "uart_protocol_char b c s = Some (x, s') \<Longrightarrow> phase_step c (gsUart0ProtocolState s) (gsUart0ProtocolState s')"
  unfolding uart_protocol_char_def by (cases "gsUart0ProtocolState s") (auto dest!: case_phases simp: phase_order split: if_splits)

section \<open>Properties\<close>

text \<open>
  C14. The state machine implements the transition system of its phases, whatever the peripherals answer: a round
  of the protocol that receives a character is the step labelled with that character, and a round that
  receives none leaves the phase as it is. So the phase never goes back except from the end of a record to
  idle; a record is begun by the letter S received in idle, always and by nothing else, and the letter S
  inside a record does not make the machine start over.
\<close>

theorem uart_phases:
  assumes "processUartProtocolFrames b s = Some (x, s')" and "udma_uart_readraw b 0 0 s = (received, c, s1)"
  shows "(if received = 1 then phase_step c (gsUart0ProtocolState s) (gsUart0ProtocolState s')
      else gsUart0ProtocolState s' = gsUart0ProtocolState s) \<and>
    (gsUart0ProtocolState s' < gsUart0ProtocolState s \<longrightarrow>
       gsUart0ProtocolState s = UART0_PROTOCOL_GET_TERMINATION_CHARACTER \<and>
       gsUart0ProtocolState s' = UART0_PROTOCOL_STATE_IDLE) \<and>
    (gsUart0ProtocolState s' = UART0_PROTOCOL_GET_RECORD_TYPE \<and> gsUart0ProtocolState s \<noteq> UART0_PROTOCOL_GET_RECORD_TYPE \<longleftrightarrow>
       gsUart0ProtocolState s = UART0_PROTOCOL_STATE_IDLE \<and> received = 1 \<and> c = 0x53)"
proof -
  have "gsUart0ProtocolState s1 = gsUart0ProtocolState s" using assms(2) by (blast intro: io_phase read_io)
  with assms have step: "if received = 1 then phase_step c (gsUart0ProtocolState s) (gsUart0ProtocolState s')
      else gsUart0ProtocolState s' = gsUart0ProtocolState s"
    by (auto simp: processUartProtocolFrames_def split: if_splits dest: char_phase)
  then have "gsUart0ProtocolState s \<le> gsUart0ProtocolState s' \<or>
      gsUart0ProtocolState s = UART0_PROTOCOL_GET_TERMINATION_CHARACTER \<and> gsUart0ProtocolState s' = UART0_PROTOCOL_STATE_IDLE"
    by (auto split: if_splits dest: phase_step_order)
  with step show ?thesis
    by (auto simp: phase_order split: if_splits dest: phase_step_start)
qed

text \<open>The letter S where the type of a record is expected.\<close>

definition inside_record :: "(hw, unit) uart_globals_scheme" where
  "inside_record = uart_init\<lparr>ext := (ext uart_init)\<lparr>h_rx := (\<lambda>_. [0x53])\<rparr>,
     gsUart0ProtocolState := UART0_PROTOCOL_GET_RECORD_TYPE\<rparr>"

theorem uart_phases_witness:
  "\<exists>s'. processUartProtocolFrames hw_bus inside_record = Some (Continue, s') \<and> h_rx (ext s') 0 = [] \<and>
    phase_step 0x53 UART0_PROTOCOL_GET_RECORD_TYPE (gsUart0ProtocolState s') \<and>
    \<not> gsUart0ProtocolState s' < UART0_PROTOCOL_GET_RECORD_TYPE"
proof -
  have "\<exists>s' s1. processUartProtocolFrames hw_bus inside_record = Some (Continue, s') \<and> h_rx (ext s') 0 = [] \<and>
      udma_uart_readraw hw_bus 0 0 inside_record = (1, 0x53, s1)"
    by (simp add: processUartProtocolFrames_def udma_uart_readraw_def rd_def hw_bus_def inside_record_def
        uart_protocol_char_def uart_case_record_type_def)
  moreover have "gsUart0ProtocolState inside_record = UART0_PROTOCOL_GET_RECORD_TYPE" by (simp add: inside_record_def)
  ultimately show ?thesis using uart_phases [of hw_bus inside_record] by fastforce
qed

end
