(* ===== verification/A2_Session.thy ===== *)
theory A2_Session
  imports A2_Invariants
begin

text \<open>
  A whole boot session over the UART: the service loop of \<^verbatim>\<open>a2_boot/main.c\<close> polls the debug
  register, the receiver of UART 0, the mailbox of the I2C slave and its own round counter, while
  a host sends a file of S-records. The locale \<open>uart_host\<close> collects what the loop relies on of the
  peripherals in such a session; inside it the loop is shown to do with the characters of the
  host what \<open>feed\<close> does with them, however many rounds pass between two of them, and to go on
  until one of them ends it.
\<close>

section \<open>What a character does does not depend on the peripherals\<close>

definition with_ext :: "'e \<Rightarrow> (exit \<times> ('e, 'z) machine_scheme) option \<Rightarrow> (exit \<times> ('e, 'z) machine_scheme) option" where
  "with_ext e r = map_option (\<lambda>(x, s). (x, s\<lparr>ext := e\<rparr>)) r"

lemma with_ext_simps [simp]:
  "with_ext e None = None" "with_ext e (Some (x, s)) = Some (x, s\<lparr>ext := e\<rparr>)"
  by (simp_all add: with_ext_def)

lemma put_ext:
  "conv_put c (s\<lparr>ext := e\<rparr>) = map_option (\<lambda>s. s\<lparr>ext := e\<rparr>) (conv_put c s)"
  "conv_value (s\<lparr>ext := e\<rparr>) = conv_value s"
  by (simp_all add: conv_put_def conv_value_def)

lemma idle_ext: "uart_case_idle c (s\<lparr>ext := e\<rparr>) = with_ext e (uart_case_idle c s)"
  by (simp add: uart_case_idle_def Let_def)

lemma record_type_ext: "uart_case_record_type c (s\<lparr>ext := e\<rparr>) = with_ext e (uart_case_record_type c s)"
  by (simp add: uart_case_record_type_def srec_start_def Let_def)

lemma count_ext: "uart_case_count c (s\<lparr>ext := e\<rparr>) = with_ext e (uart_case_count c s)"
  by (simp add: uart_case_count_def conv_put_def conv_value_def Let_def)

lemma address_ext: "uart_case_address c (s\<lparr>ext := e\<rparr>) = with_ext e (uart_case_address c s)"
  by (simp add: uart_case_address_def conv_put_def conv_value_def Let_def)

lemma termination_ext: "uart_case_termination c (s\<lparr>ext := e\<rparr>) = with_ext e (uart_case_termination c s)"
  by (simp add: uart_case_termination_def)

lemma data_ext: "uart_case_data c (s\<lparr>ext := e\<rparr>) = with_ext e (uart_case_data c s)"
  by (cases "uart_sum_loop 0 (gsMemoryWriteBufIndex s) (gsMemoryWriteBuf s) (gsCalculatedChkSum s)")
    (auto simp: uart_case_data_def conv_put_def mem_put_def conv_value_def Let_def with_ext_def
      split: Option.bind_splits option.splits)

lemmas silent_ext = idle_ext record_type_ext count_ext address_ext data_ext termination_ext

text \<open>A transmission, whatever its text.\<close>

definition talk :: "(u8 \<Rightarrow> 'e \<Rightarrow> u8 list) \<Rightarrow> (u8 \<Rightarrow> 'e \<Rightarrow> u8 list) \<Rightarrow> ('e \<Rightarrow> 'o) \<Rightarrow> 'e \<Rightarrow> 'e \<Rightarrow> bool" where
  "talk rx tx oth e e' \<longleftrightarrow> (\<exists>out. uart_obs rx tx oth out e e')"

lemma talk_refl [simp]: "talk rx tx oth e e"
  by (auto simp: talk_def uart_obs_def intro: exI [of _ quiet] simp: quiet_def)

lemma talk_trans: "talk rx tx oth e e1 \<Longrightarrow> talk rx tx oth e1 e2 \<Longrightarrow> talk rx tx oth e e2"
  by (force simp: talk_def uart_obs_def)

lemma silent_core:
  assumes "\<And>e. f e = Some (x, r\<lparr>ext := e\<rparr>)"
  shows "\<exists>x r. \<forall>e. \<exists>e'. f e = Some (x, r\<lparr>ext := e'\<rparr>) \<and> talk rx tx oth e e'"
proof (intro exI allI conjI)
  show "f e = Some (x, r\<lparr>ext := e\<rparr>)" and "talk rx tx oth e e" for e
    using assms by simp_all
qed

lemma eff_talk: "uart_eff rx tx oth out s s' \<Longrightarrow> \<exists>e'. s' = s\<lparr>ext := e'\<rparr> \<and> talk rx tx oth (ext s) e'"
  by (auto simp: uart_eff_def talk_def)

context uart_hw
begin

lemma dbg_str_talks: "\<exists>e'. dbg_str b cs s = Some (s\<lparr>ext := e'\<rparr>) \<and> talk rx tx oth (ext s) e'"
  using dbg_str_returns [of cs s] by (auto dest: eff_talk)

lemma dbg_hex8_talks: "\<exists>e'. dbg_hex8 b v s = Some (s\<lparr>ext := e'\<rparr>) \<and> talk rx tx oth (ext s) e'"
  using dbg_hex8_returns [of v s] by (auto dest: eff_talk)

lemma dbg_hex32_talks: "\<exists>e'. dbg_hex32 b v s = Some (s\<lparr>ext := e'\<rparr>) \<and> talk rx tx oth (ext s) e'"
  using dbg_hex32_returns [of v s] by (auto dest: eff_talk)

lemma send_frame_talks: "\<exists>n e'. sendUartProtocolFrame b f k s = Some (n, s\<lparr>ext := e'\<rparr>) \<and> talk rx tx oth (ext s) e'"
proof (cases f)
  case None
  then show ?thesis by (auto simp: sendUartProtocolFrame_def intro: exI [of _ "ext s"])
next
  case (Some cs)
  with send_loop_returns [of 0 "take (unat k) cs" s] show ?thesis
    by (auto simp: sendUartProtocolFrame_def dest: eff_talk)
qed

lemma send_reply_talks: "\<exists>n e'. sendUartOKorNotOKFrame b v s = Some (n, s\<lparr>ext := e'\<rparr>) \<and> talk rx tx oth (ext s) e'"
proof (cases "v = 0 \<or> v = 1")
  case True
  with send_frame_talks show ?thesis by (auto simp: sendUartOKorNotOKFrame_def)
next
  case False
  then show ?thesis by (auto simp: sendUartOKorNotOKFrame_def intro: exI [of _ "ext s"])
qed

lemma record_ok_core:
  "\<exists>x m. \<forall>e. \<exists>e'. uart_record_ok b (s\<lparr>ext := e\<rparr>) = Some (x, s\<lparr>ram := m, ext := e'\<rparr>) \<and> talk rx tx oth e e'"
proof (cases "gsDestinationAddress s \<noteq> 0 \<and> gsSRecordType s \<in> {0x37, 0x38, 0x39}")
  case True
  let ?a = "gsDestinationAddress s"
  have "\<exists>e'. uart_record_ok b (s\<lparr>ext := e\<rparr>) = Some (JumpTo ?a, s\<lparr>ram := ram s, ext := e'\<rparr>) \<and> talk rx tx oth e e'" for e
  proof -
    obtain e1 where 1: "dbg_str b (0x0A # str ''UART BL JMP '') (s\<lparr>ext := e\<rparr>) = Some (s\<lparr>ext := e1\<rparr>)" "talk rx tx oth e e1"
      using dbg_str_talks [of "0x0A # str ''UART BL JMP ''" "s\<lparr>ext := e\<rparr>"] by (auto simp del: str_Cons dbg_str.simps)
    obtain e2 where 2: "dbg_hex32 b ?a (s\<lparr>ext := e1\<rparr>) = Some (s\<lparr>ext := e2\<rparr>)" "talk rx tx oth e1 e2"
      using dbg_hex32_talks [of ?a "s\<lparr>ext := e1\<rparr>"] by auto
    obtain e3 where 3: "dbg_str b (str '' '') (s\<lparr>ext := e2\<rparr>) = Some (s\<lparr>ext := e3\<rparr>)" "talk rx tx oth e2 e3"
      using dbg_str_talks [of "str '' ''" "s\<lparr>ext := e2\<rparr>"] by (auto simp del: str_Cons dbg_str.simps)
    from True have "gsDestinationAddress s \<noteq> 0" "gsSRecordType s \<noteq> 0x31" "gsSRecordType s \<noteq> 0x32" "gsSRecordType s \<noteq> 0x33"
      "gsSRecordType s = 0x37 \<or> gsSRecordType s = 0x38 \<or> gsSRecordType s = 0x39" by auto
    with 1 2 3 show ?thesis
      by (intro exI [of _ e3])
        (auto simp: uart_record_ok_def Let_def intro: talk_trans simp del: str_Cons dbg_str.simps)
  qed
  then show ?thesis by blast
next
  case False
  define m where "m = (if gsDestinationAddress s \<noteq> 0 \<and> gsSRecordType s \<in> {0x31, 0x32, 0x33}
    then store_bytes (gsDestinationAddress s) (take (unat (gsMemoryWriteBufIndex s)) (gsMemoryWriteBuf s)) (ram s) else ram s)"
  have "uart_record_ok b (s\<lparr>ext := e\<rparr>) = Some (Continue, s\<lparr>ram := m, ext := e\<rparr>)" for e
    using False by (auto simp: uart_record_ok_def m_def Let_def simp del: str_Cons dbg_str.simps)
  moreover have "talk rx tx oth e e" for e by (rule talk_refl)
  ultimately have "\<forall>e. \<exists>e'. uart_record_ok b (s\<lparr>ext := e\<rparr>) = Some (Continue, s\<lparr>ram := m, ext := e'\<rparr>) \<and> talk rx tx oth e e'"
    by auto
  then show ?thesis by (intro exI)
qed

text \<open>The second character of the checksum, after its value has been compared.\<close>

lemma bad_reply_core:
  "\<exists>e'. do {
      s \<leftarrow> dbg_str b (0x0A # str ''CHKSUM ERR '') s;
      s \<leftarrow> dbg_hex8 b (ucast (gsCalculatedChkSum s)) s;
      s \<leftarrow> dbg_hex8 b (ucast (gsCRCVal s)) s;
      (_, s) \<leftarrow> sendUartOKorNotOKFrame b 0 s;
      Some (Continue, crc_leave s)
    } = Some (Continue, (crc_leave s)\<lparr>ext := e'\<rparr>) \<and> talk rx tx oth (ext s) e'"
proof -
  obtain e1 where 1: "dbg_str b (0x0A # str ''CHKSUM ERR '') s = Some (s\<lparr>ext := e1\<rparr>)" "talk rx tx oth (ext s) e1"
    using dbg_str_talks by blast
  obtain e2 where 2: "dbg_hex8 b (ucast (gsCalculatedChkSum s)) (s\<lparr>ext := e1\<rparr>) = Some (s\<lparr>ext := e2\<rparr>)" "talk rx tx oth e1 e2"
    using dbg_hex8_talks [of "ucast (gsCalculatedChkSum s)" "s\<lparr>ext := e1\<rparr>"] by auto
  obtain e3 where 3: "dbg_hex8 b (ucast (gsCRCVal s)) (s\<lparr>ext := e2\<rparr>) = Some (s\<lparr>ext := e3\<rparr>)" "talk rx tx oth e2 e3"
    using dbg_hex8_talks [of "ucast (gsCRCVal s)" "s\<lparr>ext := e2\<rparr>"] by auto
  obtain k e4 where 4: "sendUartOKorNotOKFrame b 0 (s\<lparr>ext := e3\<rparr>) = Some (k, s\<lparr>ext := e4\<rparr>)" "talk rx tx oth e3 e4"
    using send_reply_talks [of 0 "s\<lparr>ext := e3\<rparr>"] by auto
  from 1 2 3 4 show ?thesis
    by (intro exI [of _ e4])
      (auto simp: crc_leave_def intro: talk_trans simp del: str_Cons dbg_str.simps)
qed

lemma good_reply_core:
  "\<exists>x r. \<forall>e. \<exists>e'. do {
      (x, s) \<leftarrow> uart_record_ok b (s\<lparr>ext := e\<rparr>);
      if x = Continue
      then do { (_, s) \<leftarrow> sendUartOKorNotOKFrame b 1 s; Some (Continue, crc_leave s) }
      else Some (x, s)
    } = Some (x, r\<lparr>ext := e'\<rparr>) \<and> talk rx tx oth e e'"
proof -
  obtain x m where ok: "\<And>e. \<exists>e'. uart_record_ok b (s\<lparr>ext := e\<rparr>) = Some (x, s\<lparr>ram := m, ext := e'\<rparr>) \<and> talk rx tx oth e e'"
    using record_ok_core by blast
  let ?r = "if x = Continue then crc_leave (s\<lparr>ram := m\<rparr>) else s\<lparr>ram := m\<rparr>"
  have "\<exists>e'. do {
      (x, s) \<leftarrow> uart_record_ok b (s\<lparr>ext := e\<rparr>);
      if x = Continue
      then do { (_, s) \<leftarrow> sendUartOKorNotOKFrame b 1 s; Some (Continue, crc_leave s) }
      else Some (x, s)
    } = Some (x, ?r\<lparr>ext := e'\<rparr>) \<and> talk rx tx oth e e'" for e
  proof -
    obtain e1 where 1: "uart_record_ok b (s\<lparr>ext := e\<rparr>) = Some (x, s\<lparr>ram := m, ext := e1\<rparr>)" "talk rx tx oth e e1"
      using ok by blast
    obtain k e2 where 2: "sendUartOKorNotOKFrame b 1 (s\<lparr>ram := m, ext := e1\<rparr>) = Some (k, s\<lparr>ram := m, ext := e2\<rparr>)"
        "talk rx tx oth e1 e2"
      using send_reply_talks [of 1 "s\<lparr>ram := m, ext := e1\<rparr>"] by auto
    show ?thesis
      using 1 2 by (intro exI [of _ "if x = Continue then e2 else e1"]) (auto simp: crc_leave_def intro: talk_trans)
  qed
  then show ?thesis by blast
qed

lemma crc_core:
  "\<exists>x r. \<forall>e. \<exists>e'. uart_case_crc b c (s\<lparr>ext := e\<rparr>) = Some (x, r\<lparr>ext := e'\<rparr>) \<and> talk rx tx oth e e'"
proof -
  consider (out) "conv_put c s = None"
    | (first) s1 where "conv_put c s = Some s1" "\<not> gsUart0FillIndex s1 \<ge> 2"
    | (full) s1 where "conv_put c s = Some s1" "gsUart0FillIndex s1 \<ge> 2" "conv_put 0 s1 = None"
    | (second) s1 s2 where "conv_put c s = Some s1" "gsUart0FillIndex s1 \<ge> 2" "conv_put 0 s1 = Some s2"
    by (meson option.exhaust)
  then show ?thesis
  proof cases
    case out
    then have "uart_case_crc b c (s\<lparr>ext := e\<rparr>) = Some (Undefined OutOfBounds, s\<lparr>ext := e\<rparr>)" for e
      by (simp add: uart_case_crc_def put_ext)
    then show ?thesis by (rule silent_core)
  next
    case (first s1)
    then have "uart_case_crc b c (s\<lparr>ext := e\<rparr>) = Some (Continue, s1\<lparr>ext := e\<rparr>)" for e
      by (auto simp: uart_case_crc_def put_ext)
    then show ?thesis by (rule silent_core)
  next
    case (full s1)
    then have "uart_case_crc b c (s\<lparr>ext := e\<rparr>) = Some (Undefined OutOfBounds, s1\<lparr>ext := e\<rparr>)" for e
      by (auto simp: uart_case_crc_def put_ext)
    then show ?thesis by (rule silent_core)
  next
    case (second s1 s2)
    define u where "u = s2\<lparr>gsCRCVal := ucast (conv_value s2), gsCalculatedChkSum := (gsCalculatedChkSum s2 AND 0xFF) XOR 0xFF\<rparr>"
    have u: "(s2\<lparr>ext := e\<rparr>)\<lparr>gsCRCVal := ucast (conv_value s2), gsCalculatedChkSum := (gsCalculatedChkSum s2 AND 0xFF) XOR 0xFF\<rparr> =
        u\<lparr>ext := e\<rparr>" for e
      by (simp add: u_def)
    show ?thesis
    proof (cases "gsCalculatedChkSum u = ucast (gsCRCVal u)")
      case True
      then have "uart_case_crc b c (s\<lparr>ext := e\<rparr>) = do {
          (x, s) \<leftarrow> uart_record_ok b (u\<lparr>ext := e\<rparr>);
          if x = Continue
          then do { (_, s) \<leftarrow> sendUartOKorNotOKFrame b 1 s; Some (Continue, crc_leave s) }
          else Some (x, s)
        }" for e
        using second unfolding crc_leave_def by (simp add: uart_case_crc_def put_ext flip: u) (simp add: u_def)
      with good_reply_core [of u] show ?thesis by simp
    next
      case False
      then have "uart_case_crc b c (s\<lparr>ext := e\<rparr>) = do {
          s \<leftarrow> dbg_str b (0x0A # str ''CHKSUM ERR '') (u\<lparr>ext := e\<rparr>);
          s \<leftarrow> dbg_hex8 b (ucast (gsCalculatedChkSum s)) s;
          s \<leftarrow> dbg_hex8 b (ucast (gsCRCVal s)) s;
          (_, s) \<leftarrow> sendUartOKorNotOKFrame b 0 s;
          Some (Continue, crc_leave s)
        }" for e
        using second unfolding crc_leave_def
        by (simp add: uart_case_crc_def put_ext del: str_Cons dbg_str.simps flip: u)
          (simp add: u_def del: str_Cons dbg_str.simps)
      moreover have "(crc_leave (u\<lparr>ext := e\<rparr>))\<lparr>ext := e'\<rparr> = (crc_leave u)\<lparr>ext := e'\<rparr>" for e e'
        by (simp add: crc_leave_def)
      ultimately show ?thesis
        using bad_reply_core [of "u\<lparr>ext := e\<rparr>" for e]
        by (intro exI [of _ Continue] exI [of _ "crc_leave u"]) (simp del: str_Cons dbg_str.simps)
    qed
  qed
qed

text \<open>So a character leads to the same exit and the same variables whatever the peripherals show.\<close>

lemma char_core:
  assumes "uart_protocol_char b c s = Some (x, r)"
  shows "\<exists>e'. uart_protocol_char b c (s\<lparr>ext := e\<rparr>) = Some (x, r\<lparr>ext := e'\<rparr>) \<and> talk rx tx oth e e'"
proof (cases "gsUart0ProtocolState s = UART0_PROTOCOL_GET_CRC")
  case True
  obtain x' r' where core: "\<And>e. \<exists>e'. uart_case_crc b c (s\<lparr>ext := e\<rparr>) = Some (x', r'\<lparr>ext := e'\<rparr>) \<and> talk rx tx oth e e'"
    using crc_core by blast
  from core [of "ext s"] assms True obtain e0 where "x = x'" "r = r'\<lparr>ext := e0\<rparr>"
    by (auto simp: uart_protocol_char_def)
  with core [of e] True show ?thesis by (auto simp: uart_protocol_char_def)
next
  case False
  then have "uart_protocol_char b c (s\<lparr>ext := e\<rparr>) = with_ext e (uart_protocol_char b c s)"
    by (simp add: uart_protocol_char_def silent_ext split: uart0ProtocolState_t.splits)
  with assms show ?thesis by auto
qed

end

section \<open>The peripherals during a session\<close>

text \<open>Between two states in which the next character has not been put off.\<close>

definition nearer :: "('e \<Rightarrow> nat) \<Rightarrow> ('e, 'z) machine_scheme \<Rightarrow> ('e, 'z) machine_scheme \<Rightarrow> bool" where
  "nearer gap s s' \<longleftrightarrow> gap (ext s') \<le> gap (ext s)"

lemma nearer_refl [simp]: "nearer gap s s"
  by (simp add: nearer_def)

lemma nearer_trans: "nearer gap s s1 \<Longrightarrow> nearer gap s1 s2 \<Longrightarrow> nearer gap s s2"
  by (simp add: nearer_def)

text \<open>
  \<open>jtag\<close> is what the debug register shows, \<open>view\<close> the I2C slave. \<open>gap\<close> bounds the polls the next
  character of UART 0 is away: a poll that finds nothing although characters are still to come
  brings it nearer, and the other accesses of the loop do not put it off.
\<close>

locale uart_host =
  u: uart_hw b rx tx "\<lambda>e. (view e, jtag e)" busy ready + i: i2cs_hw b view "\<lambda>e. (\<lambda>u. rx u e, \<lambda>u. tx u e, jtag e)"
  for b :: "'e a2_bus" and rx tx :: "u8 \<Rightarrow> 'e \<Rightarrow> u8 list" and view :: "'e \<Rightarrow> i2cs_view" and jtag :: "'e \<Rightarrow> u32"
    and busy :: "u8 \<Rightarrow> 'e \<Rightarrow> nat" and ready :: "u8 \<Rightarrow> 'e \<Rightarrow> bool" +
  fixes gap :: "'e \<Rightarrow> nat"
  assumes jtag_rd: "\<exists>e'. bus_rd b Soc_jtagreg (m, e) = (jtag e, m, e') \<and>
      uart_obs rx tx (\<lambda>e. (view e, jtag e)) quiet e e'"
    and jtag_wr: "\<exists>e'. bus_wr b Soc_jtagreg v (m, e) = (m, e') \<and>
      jtag e' = v \<and> view e' = view e \<and> (\<forall>u. rx u e' = rx u e)"
    and arrival: "rx 0 e \<noteq> [] \<Longrightarrow> bus_rd b (Uart 0 uart_valid_rx_data_valid) (m, e) = (v, m', e') \<Longrightarrow>
      v \<noteq> 1 \<Longrightarrow> gap e' < gap e"
    and rd_gap: "r \<in> {Soc_jtagreg, I2cs i2cs_msg_i2c_apb_status, Uart u uart_tx_size} \<Longrightarrow>
      gap (snd (snd (bus_rd b r (m, e)))) \<le> gap e"
    and wr_gap: "gap (snd (bus_wr b (Uart u r') v (m, e))) \<le> gap e"
    and wp_gap: "gap (snd (bus_wp b (Uart u r') p (m, e))) \<le> gap e"
begin

lemma rd_nearer: "rd b (Uart j uart_tx_size) s = (v, s') \<Longrightarrow> nearer gap s s'"
  using rd_gap [of "Uart j uart_tx_size" j "ram s" "ext s"] by (auto simp: nearer_def rd_def split: prod.splits)

lemma wr_nearer: "nearer gap s (wr b (Uart j r) v s)" and wp_nearer: "nearer gap s (wp b (Uart j r) p s)"
  using wr_gap [of j r v "ram s" "ext s"] wp_gap [of j r p "ram s" "ext s"]
  by (auto simp: nearer_def wr_def wp_def split: prod.splits)

lemma wait_nearer:
  assumes "uart_wait_tx b j i s = Some y"
  shows "nearer gap s (snd y)"
proof -
  have "b' = b \<longrightarrow> nearer gap s (snd y)" if "uart_wait_tx b' j i s = Some y" for b' :: "'e a2_bus" and j i s y
    by (rule uart_wait_tx.raw_induct [OF _ that, where P = "\<lambda>b' j i s y. b' = b \<longrightarrow> nearer gap s (snd y)"])
      (auto split: prod.splits if_splits dest: rd_nearer intro: nearer_trans)
  with assms show ?thesis by blast
qed

lemma write_nearer:
  assumes "udma_uart_writeraw b j n bs s = Some (i, s')"
  shows "nearer gap s s'"
proof -
  obtain i1 s1 i2 where "uart_wait_tx b j 0 s = Some (i1, s1)"
    "uart_wait_tx b j i1 (wr b (Uart j uart_tx_cfg_en) 1 (wr b (Uart j uart_tx_size) (ucast n)
      (wp b (Uart j uart_tx_saddr) (Bytes bs) s1))) = Some (i2, s')"
    using assms by (auto simp: udma_uart_writeraw_def split: Option.bind_splits prod.splits)
  from this [THEN wait_nearer] show ?thesis
    by simp (meson nearer_trans wr_nearer wp_nearer)
qed

lemma dbg_ch_nearer: "dbg_ch b c s = Some s' \<Longrightarrow> nearer gap s s'"
  by (auto simp: dbg_ch_def dbg_nl_def dbg_ch_raw_def split: if_splits Option.bind_splits prod.splits
      dest!: write_nearer intro: nearer_trans)

lemma dbg_str_nearer: "dbg_str b cs s = Some s' \<Longrightarrow> nearer gap s s'"
  by (induction cs arbitrary: s)
    (auto split: if_splits Option.bind_splits dest: dbg_ch_nearer intro: nearer_trans)

lemma send_loop_nearer: "sendUartProtocolFrame_loop b i cs s = Some (j, s') \<Longrightarrow> nearer gap s s'"
  by (induction cs arbitrary: i s) (auto split: Option.bind_splits prod.splits dest: write_nearer intro: nearer_trans)

lemma bootme_nearer: "sendUartBootMeFrame b s = Some (i, s') \<Longrightarrow> nearer gap s s'"
  unfolding sendUartBootMeFrame_def sendUartProtocolFrame_def by (auto dest: send_loop_nearer simp del: str_Cons)

text \<open>
  The end of a round, after the UART has been served: the mailbox is empty, and an invitation may
  go out.
\<close>

definition idle_for :: "('e, 'z) machine_scheme \<Rightarrow> 'e \<Rightarrow> bool" where
  "idle_for s e' \<longleftrightarrow> talk rx tx (\<lambda>e. (view e, jtag e)) (ext s) e' \<and> gap e' \<le> gap (ext s)"

lemma mailbox_empty:
  assumes "\<not> pending (view (ext s))"
  shows "\<exists>e'. processI2CProtocolFrames b s = Some (Continue, s\<lparr>ext := e'\<rparr>) \<and> idle_for s e'"
proof -
  obtain v e' where r: "bus_rd b (I2cs i2cs_msg_i2c_apb_status) (ram s, ext s) = (v, ram s, e')"
      "(ucast v :: u8) = 0" "view e' = view (ext s)" "(\<lambda>u. rx u e', \<lambda>u. tx u e', jtag e') = (\<lambda>u. rx u (ext s), \<lambda>u. tx u (ext s), jtag (ext s))"
    using i.status_rd [of "ram s" "ext s"] assms by metis
  then have "talk rx tx (\<lambda>e. (view e, jtag e)) (ext s) e'"
    by (auto simp: talk_def uart_obs_def fun_eq_iff intro: exI [of _ quiet] simp: quiet_def)
  moreover have "gap e' \<le> gap (ext s)"
    using rd_gap [of "I2cs i2cs_msg_i2c_apb_status" 0 "ram s" "ext s"] r(1) by simp
  moreover have "processI2CProtocolFrames b s = Some (Continue, s\<lparr>ext := e'\<rparr>)"
    using r(1,2) by (simp add: processI2CProtocolFrames_def hal_get_i2cs_msg_i2c_apb_status_def i2cs_get_def rd_def)
  ultimately show ?thesis by (auto simp: idle_for_def)
qed

lemma invitation:
  "\<exists>e'. do { s \<leftarrow> dbg_str b t s; (_, s) \<leftarrow> sendUartBootMeFrame b s; Some s } = Some (s\<lparr>ext := e'\<rparr>) \<and> idle_for s e'"
proof -
  obtain e1 where 1: "dbg_str b t s = Some (s\<lparr>ext := e1\<rparr>)" "talk rx tx (\<lambda>e. (view e, jtag e)) (ext s) e1"
    using u.dbg_str_talks by blast
  obtain k e2 where 2: "sendUartBootMeFrame b (s\<lparr>ext := e1\<rparr>) = Some (k, s\<lparr>ext := e2\<rparr>)"
      "talk rx tx (\<lambda>e. (view e, jtag e)) e1 e2"
    using u.send_frame_talks [of "Some (str ''A2 BOOTME'' @ crlf)" 11 "s\<lparr>ext := e1\<rparr>"]
    by (auto simp: sendUartBootMeFrame_def simp del: str_Cons)
  have "gap e2 \<le> gap (ext s)"
    using dbg_str_nearer [OF 1(1)] bootme_nearer [OF 2(1)] by (simp add: nearer_def)
  with 1 2 show ?thesis by (auto simp: idle_for_def intro: talk_trans)
qed

lemma idle_for_trans: "idle_for s e1 \<Longrightarrow> idle_for (s\<lparr>ext := e1\<rparr>) e2 \<Longrightarrow> idle_for s e2"
  by (auto simp: idle_for_def intro: talk_trans)

lemma idle_for_self [simp]: "idle_for s (ext s)"
  by (simp add: idle_for_def)

end

text \<open>\<open>a2_poll\<close> in two parts: up to the UART, and from there on.\<close>

definition a2_poll_rest ::
  "'e a2_bus \<Rightarrow> u8 list \<Rightarrow> u32 \<Rightarrow> ('e, 'z) i2c_globals_scheme \<Rightarrow> (exit \<times> u32 \<times> ('e, 'z) i2c_globals_scheme) option" where
  "a2_poll_rest b tstring bootsel s = do {
     (x, s) \<leftarrow> (if gStopI2CBootLoaderFlg s = 0 then processI2CProtocolFrames b s else Some (Continue, s));
     if x \<noteq> Continue then Some (x, bootsel, s)
     else if bootsel + 1 \<ge> 90000
     then do {
       s \<leftarrow> (if gStopUartMsgFlg s = 0
             then do { s \<leftarrow> dbg_str b tstring s; (_, s) \<leftarrow> sendUartBootMeFrame b s; Some s }
             else Some s);
       Some (Continue, 0, s)
     }
     else Some (Continue, bootsel + 1, s)
   }"

lemma a2_poll_split:
  assumes "rd b Soc_jtagreg s = (1, s1)" and "gStopUartBootLoaderFlg s1 = 0"
  shows "a2_poll b t n s = do {
     (x, s) \<leftarrow> processUartProtocolFrames b s1;
     if x \<noteq> Continue then Some (x, n, s) else a2_poll_rest b t n s
   }"
  using assms unfolding a2_poll_rest_def by (simp add: a2_poll_def)

context uart_host
begin

lemma poll_rest:
  assumes "\<not> pending (view (ext s))"
  shows "\<exists>n' e'. a2_poll_rest b t n s = Some (Continue, n', s\<lparr>ext := e'\<rparr>) \<and> idle_for s e'"
proof -
  obtain e1 where 1: "(if gStopI2CBootLoaderFlg s = 0 then processI2CProtocolFrames b s else Some (Continue, s)) =
      Some (Continue, s\<lparr>ext := e1\<rparr>)" "idle_for s e1"
    using mailbox_empty [OF assms] that [of "ext s"] by (cases "gStopI2CBootLoaderFlg s = 0") auto
  obtain e2 where 2: "(if gStopUartMsgFlg s = 0
        then do { s \<leftarrow> dbg_str b t (s\<lparr>ext := e1\<rparr>); (_, s) \<leftarrow> sendUartBootMeFrame b s; Some s }
        else Some (s\<lparr>ext := e1\<rparr>)) = Some (s\<lparr>ext := e2\<rparr>)" "idle_for (s\<lparr>ext := e1\<rparr>) e2"
    using invitation [of t "s\<lparr>ext := e1\<rparr>"] idle_for_self [of "s\<lparr>ext := e1\<rparr>"]
    by (cases "gStopUartMsgFlg s = 0") auto
  from idle_for_trans [OF 1(2) 2(2)] 1 2(1) show ?thesis
    by (cases "n + 1 \<ge> 90000") (auto simp: a2_poll_rest_def)
qed

section \<open>The loop follows the host\<close>

lemma talk_same:
  "talk rx tx (\<lambda>e. (view e, jtag e)) e e' \<Longrightarrow> rx 0 e' = rx 0 e \<and> view e' = view e \<and> jtag e' = jtag e"
  by (auto simp: talk_def uart_obs_def)

lemma poll_receiver:
  assumes "rx 0 (ext s) = c # cs"
  obtains (none) e' where "udma_uart_readraw b 0 0 s = (0, 0, s\<lparr>ext := e'\<rparr>)"
      "talk rx tx (\<lambda>e. (view e, jtag e)) (ext s) e'" "gap e' < gap (ext s)"
  | (some) e' where "udma_uart_readraw b 0 0 s = (1, c, s\<lparr>ext := e'\<rparr>)" "rx 0 e' = cs"
      "view e' = view (ext s)" "jtag e' = jtag (ext s)"
proof (rule u.read_cases [of 0 0 s])
  fix s'
  assume r: "udma_uart_readraw b 0 0 s = (0, 0, s')" and eff: "uart_eff rx tx (\<lambda>e. (view e, jtag e)) quiet s s'"
  then obtain e' where s': "s' = s\<lparr>ext := e'\<rparr>" and talk: "talk rx tx (\<lambda>e. (view e, jtag e)) (ext s) e'"
    by (auto dest: eff_talk)
  obtain v m' e1 where v: "bus_rd b (Uart 0 uart_valid_rx_data_valid) (ram s, ext s) = (v, m', e1)" by (metis prod_cases3)
  with r s' have "v \<noteq> 1" "e1 = e'"
    by (auto simp: udma_uart_readraw_def rd_def split: prod.splits if_splits dest: arg_cong [where f = ext])
  with arrival [OF _ v] assms have "gap e' < gap (ext s)" by simp
  with r s' talk show thesis by (auto intro: none)
next
  fix c' s'
  assume "udma_uart_readraw b 0 0 s = (1, c', s')" and "uart_got rx tx (\<lambda>e. (view e, jtag e)) 0 c' s s'"
  with assms show thesis by (auto simp: uart_got_def intro: some)
qed

lemma char_serving:
  assumes "uart_protocol_char b c s = Some (x, s')" and "serving n s" and "gStopUartBootLoaderFlg s = 0"
  shows "serving n s' \<and> gStopUartBootLoaderFlg s' = 0"
proof -
  let ?k = "\<lparr>uart_flag = gStopUartBootLoaderFlg s, msg_stopped = gStopUartMsgFlg s \<noteq> 0,
    i2c_stopped = gStopI2CBootLoaderFlg s \<noteq> 0, rest = uart_globals.more s\<rparr>"
  have "uart_inv ?k s" using assms(2) by (simp add: serving_def uart_inv_def)
  from char_inv [OF assms(1) this] assms(2,3) show ?thesis
    by (cases s, cases s') (auto simp: serving_def uart_inv_def i2c_wf_def)
qed

lemma loop_follows:
  assumes "feed b cs s = Some (x, s')" and "x \<noteq> Continue" and "serving k s" and "gStopUartBootLoaderFlg s = 0"
    and "rx 0 e = cs @ ys" and "jtag e = 1" and "\<not> pending (view e)"
  shows "\<exists>e'. a2_loop b t n (s\<lparr>ext := e\<rparr>) = Some (x, s'\<lparr>ext := e'\<rparr>)"
  using assms
proof (induction cs arbitrary: s e n)
  case Nil
  then show ?case by simp
next
  case (Cons c cs)
  then obtain x1 s1 where 1: "uart_protocol_char b c s = Some (x1, s1)" 
    and rest: "(if x1 = Continue then feed b cs s1 else Some (x1, s1)) = Some (x, s')"
    by (auto simp: bind_eq_Some_conv)
  show ?case
    using Cons.prems(5-7)
  proof (induction "gap e" arbitrary: e n rule: less_induct)
    case less
    obtain e1 where 2: "rd b Soc_jtagreg (s\<lparr>ext := e\<rparr>) = (1, s\<lparr>ext := e1\<rparr>)"
      and e1: "rx 0 e1 = c # cs @ ys" "jtag e1 = 1" "\<not> pending (view e1)" "gap e1 \<le> gap e"
      using jtag_rd [of "ram s" e] rd_gap [of Soc_jtagreg 0 "ram s" e] less.prems
      by (auto simp: rd_def uart_obs_def)
    have poll: "a2_poll b t n (s\<lparr>ext := e\<rparr>) = do {
        (x, s) \<leftarrow> processUartProtocolFrames b (s\<lparr>ext := e1\<rparr>);
        if x \<noteq> Continue then Some (x, n, s) else a2_poll_rest b t n s
      }"
      by (rule a2_poll_split [OF 2]) (simp add: Cons.prems(4))
    have "rx 0 (ext (s\<lparr>ext := e1\<rparr>)) = c # cs @ ys" using e1(1) by simp
    then show ?case
    proof (cases rule: poll_receiver)
      case (none e2)
      then have e2: "rx 0 e2 = c # cs @ ys" "jtag e2 = 1" "\<not> pending (view e2)" "gap e2 < gap e"
        using e1 by (auto dest!: talk_same)
      obtain n' e3 where 3: "a2_poll_rest b t n (s\<lparr>ext := e2\<rparr>) = Some (Continue, n', s\<lparr>ext := e3\<rparr>)"
          "idle_for (s\<lparr>ext := e2\<rparr>) e3"
        using poll_rest [of "s\<lparr>ext := e2\<rparr>" t n] e2(3) by auto
      then have "rx 0 e3 = c # cs @ ys" "jtag e3 = 1" "\<not> pending (view e3)" "gap e3 < gap e"
        using e2 by (auto simp: idle_for_def dest!: talk_same)
      with less.hyps [of e3 n'] obtain e' where "a2_loop b t n' (s\<lparr>ext := e3\<rparr>) = Some (x, s'\<lparr>ext := e'\<rparr>)" by auto
      with poll none(1) 3(1) show ?thesis
        by (subst a2_loop.simps) (auto simp: processUartProtocolFrames_def)
    next
      case (some e2)
      obtain e3 where 3: "uart_protocol_char b c (s\<lparr>ext := e2\<rparr>) = Some (x1, s1\<lparr>ext := e3\<rparr>)"
          "talk rx tx (\<lambda>e. (view e, jtag e)) e2 e3"
        using u.char_core [OF 1] by blast
      have e3: "rx 0 e3 = cs @ ys" "jtag e3 = 1" "\<not> pending (view e3)"
        using 3(2) some(2-4) e1 by (auto dest!: talk_same)
      show ?thesis
      proof (cases "x1 = Continue")
        case False
        with rest poll some(1) 3(1) show ?thesis
          by (subst a2_loop.simps) (auto simp: processUartProtocolFrames_def)
      next
        case True
        obtain n' e4 where 4: "a2_poll_rest b t n (s1\<lparr>ext := e3\<rparr>) = Some (Continue, n', s1\<lparr>ext := e4\<rparr>)"
            "idle_for (s1\<lparr>ext := e3\<rparr>) e4"
          using poll_rest [of "s1\<lparr>ext := e3\<rparr>" t n] e3(3) by auto
        then have "rx 0 e4 = cs @ ys" "jtag e4 = 1" "\<not> pending (view e4)"
          using e3 by (auto simp: idle_for_def dest!: talk_same)
        with Cons.IH [of s1 e4 n'] char_serving [OF 1 Cons.prems(3,4)] rest True Cons.prems(2)
        obtain e' where "a2_loop b t n' (s1\<lparr>ext := e4\<rparr>) = Some (x, s'\<lparr>ext := e'\<rparr>)" by auto
        with True poll some(1) 3(1) 4(1) show ?thesis
          by (subst a2_loop.simps) (auto simp: processUartProtocolFrames_def)
      qed
    qed
  qed
qed

end

section \<open>Files of S-records\<close>

text \<open>A line as a host sends it: its type, address and data, and the checksum it carries.\<close>

record srec_line =
  r_type :: u8
  r_addr :: u32
  r_data :: "u8 list"
  r_sum :: u8

definition line_text :: "srec_line \<Rightarrow> u8 list" where
  "line_text r = srec_text (r_type r) (srec_addr_size (r_type r)) (r_addr r) (r_data r) (r_sum r)"

definition line_intact :: "srec_line \<Rightarrow> bool" where
  "line_intact r \<longleftrightarrow> r_sum r = srec_checksum (srec_body (srec_addr_size (r_type r)) (r_addr r) (r_data r))"

text \<open>
  A data line has a type from S0 to S3, an address that fits its field, and data that fill neither
  nothing nor more than the count can say; its checksum may be wrong. The line that ends a file has
  no data, a type from S7 to S9, an address other than 0 and the right checksum.
\<close>

definition data_line :: "srec_line \<Rightarrow> bool" where
  "data_line r \<longleftrightarrow> r_type r \<in> {0x30, 0x31, 0x32, 0x33} \<and> addr_fits (srec_addr_size (r_type r)) (r_addr r) \<and>
     r_data r \<noteq> [] \<and> srec_addr_size (r_type r) + length (r_data r) + 1 \<le> 255"

definition entry_line :: "srec_line \<Rightarrow> bool" where
  "entry_line r \<longleftrightarrow> r_type r \<in> {0x37, 0x38, 0x39} \<and> addr_fits (srec_addr_size (r_type r)) (r_addr r) \<and>
     r_addr r \<noteq> 0 \<and> r_data r = [] \<and> line_intact r"

text \<open>
  The lines that memory takes: S1, S2 and S3 with the right checksum and an address other than 0.
  What a file leaves of the memory, and what the host is told of each line.
\<close>

definition line_stored :: "srec_line \<Rightarrow> bool" where
  "line_stored r \<longleftrightarrow> line_intact r \<and> r_type r \<in> {0x31, 0x32, 0x33} \<and> r_addr r \<noteq> 0"

definition file_memory :: "srec_line list \<Rightarrow> mem \<Rightarrow> mem" where
  "file_memory rs = fold (\<lambda>r. store_bytes (r_addr r) (r_data r)) (filter line_stored rs)"

lemma file_memory_simps [simp]:
  "file_memory [] m = m"
  "file_memory (r # rs) m = file_memory rs (if line_stored r then store_bytes (r_addr r) (r_data r) m else m)"
  by (simp_all add: file_memory_def)

definition line_answer :: "srec_line \<Rightarrow> u8 list" where
  "line_answer r = (if line_intact r then OK_text else NOT_OK_text)"

text \<open>Lines end with one character, or with two as in CR LF, of which the second starts no record.\<close>

definition line_end :: "u8 list \<Rightarrow> bool" where
  "line_end eol \<longleftrightarrow> eol \<noteq> [] \<and> 0x53 \<notin> set (tl eol)"

definition file_text :: "u8 list \<Rightarrow> srec_line list \<Rightarrow> srec_line \<Rightarrow> u8 list" where
  "file_text eol rs entry = concat (map (\<lambda>r. line_text r @ eol) rs) @ line_text entry"

lemma feed_between_records:
  assumes "gsUart0ProtocolState s = UART0_PROTOCOL_STATE_IDLE" and "0x53 \<notin> set cs"
  shows "feed b cs s = Some (Continue, s)"
  using assms(2) by (induction cs) (auto simp: uart_protocol_char_def uart_case_idle_def assms(1))

context uart_hw
begin

lemma feed_data_line:
  assumes "gsUart0ProtocolState s = UART0_PROTOCOL_STATE_IDLE" and "uart_wf s" and "data_line r"
  shows "\<exists>s'. feed b (line_text r @ [z]) s = Some (Continue, s') \<and> ram s' = file_memory [r] (ram s) \<and>
    tx 0 (ext s') = tx 0 (ext s) @ line_answer r \<and>
    gsUart0ProtocolState s' = UART0_PROTOCOL_STATE_IDLE \<and> uart_wf s'"
proof (cases "line_intact r")
  case True
  with data_record [OF assms(1,2), of "r_type r" "srec_addr_size (r_type r)" "r_addr r" "r_data r" z] assms(3)
  show ?thesis
    by (auto simp: data_line_def line_text_def line_intact_def line_stored_def line_answer_def srec_place_def
        uart_obs_def sent_def)
next
  case False
  with bad_record [OF assms(1,2), of "r_type r" "srec_addr_size (r_type r)" "r_addr r" "r_data r" "r_sum r" z] assms(3)
  show ?thesis
    by (auto simp: data_line_def line_text_def line_intact_def line_stored_def line_answer_def)
qed

lemma feed_line:
  assumes "gsUart0ProtocolState s = UART0_PROTOCOL_STATE_IDLE" and "uart_wf s" and "data_line r" and "line_end eol"
  shows "\<exists>s'. feed b (line_text r @ eol) s = Some (Continue, s') \<and> ram s' = file_memory [r] (ram s) \<and>
    tx 0 (ext s') = tx 0 (ext s) @ line_answer r \<and>
    gsUart0ProtocolState s' = UART0_PROTOCOL_STATE_IDLE \<and> uart_wf s'"
proof -
  obtain z zs where eol: "eol = z # zs" "0x53 \<notin> set zs"
    using assms(4) by (cases eol) (auto simp: line_end_def)
  obtain s' where s': "feed b (line_text r @ [z]) s = Some (Continue, s')" "ram s' = file_memory [r] (ram s)"
    "tx 0 (ext s') = tx 0 (ext s) @ line_answer r" "gsUart0ProtocolState s' = UART0_PROTOCOL_STATE_IDLE" "uart_wf s'"
    using feed_data_line [OF assms(1-3)] by blast
  with feed_append [OF s'(1), of zs] feed_between_records [OF s'(4) eol(2), of b] eol(1) show ?thesis by auto
qed

text \<open>Every line is answered, and the answers are all that UART 0 sends.\<close>

lemma feed_file:
  assumes "gsUart0ProtocolState s = UART0_PROTOCOL_STATE_IDLE" and "uart_wf s"
    and "list_all data_line rs" and "entry_line r" and "line_end eol"
  shows "\<exists>s'. feed b (file_text eol rs r) s = Some (JumpTo (r_addr r), s') \<and> ram s' = file_memory rs (ram s) \<and>
    tx 0 (ext s') = tx 0 (ext s) @ concat (map line_answer rs)"
  using assms(1-3)
proof (induction rs arbitrary: s)
  case Nil
  with term_record [of s "r_type r" "srec_addr_size (r_type r)" "r_addr r"] assms(4) show ?case
    by (auto simp: file_text_def line_text_def line_intact_def entry_line_def uart_obs_def sent_def simp del: str_Cons)
next
  case (Cons r1 rs)
  obtain s1 where 1: "feed b (line_text r1 @ eol) s = Some (Continue, s1)" "ram s1 = file_memory [r1] (ram s)"
    "tx 0 (ext s1) = tx 0 (ext s) @ line_answer r1" "gsUart0ProtocolState s1 = UART0_PROTOCOL_STATE_IDLE" "uart_wf s1"
    using feed_line [of s r1 eol] Cons.prems assms(5) by auto
  from Cons.IH [OF 1(4,5)] Cons.prems(3) feed_append [OF 1(1), of "file_text eol rs r"] 1(2,3) show ?case
    by (auto simp: file_text_def)
qed

end

lemma session_boots:
  assumes "uart_host b rx tx view jtag busy ready gap"
    and "serving n s" and "gStopUartBootLoaderFlg s = 0" and "gsUart0ProtocolState s = UART0_PROTOCOL_STATE_IDLE"
    and "jtag (ext s) = 1" and "\<not> pending (view (ext s))"
    and "rx 0 (ext s) = file_text eol rs entry @ ys"
    and "list_all data_line rs" and "entry_line entry" and "line_end eol"
  shows "\<exists>s'. a2_loop b t n s = Some (JumpTo (r_addr entry), s') \<and> ram s' = file_memory rs (ram s)"
proof -
  have hw: "uart_hw b rx tx (\<lambda>e. (view e, jtag e)) busy ready"
    using assms(1) by (simp add: uart_host_def)
  have "uart_wf s" using assms(2) by (simp add: serving_def)
  from uart_hw.feed_file [OF hw assms(4) this assms(8-10)] obtain s' where
    "feed b (file_text eol rs entry) s = Some (JumpTo (r_addr entry), s')" "ram s' = file_memory rs (ram s)"
    by blast
  with uart_host.loop_follows [OF assms(1) this(1) _ assms(2,3,7,5,6), of t n] show ?thesis by auto
qed

section \<open>Properties\<close>

text \<open>
  C5. A UART host that sends S-records to the waiting service loop boots the chip, when the I2C host and the debugger
  are silent. Its file consists of
  S0 to S3 lines with at least one byte of data, each with a right or a wrong checksum, and of a last
  line S7, S8 or S9 with the right checksum and an address other than 0; the lines are separated by one
  character or more, of which the letter S may only be the first. (The state machine does not
  handle S5 lines and lines without data: they are treated in Uart_Safety.) Whatever the pauses between the characters and the
  invitations the loop sends meanwhile, the loop ends with a jump to the address of the last line, and
  memory has then changed by exactly the S1, S2 and S3 lines that have the right checksum and an address
  other than 0, stored in the order of the file.
\<close>

theorem uart_host_boots:
  assumes "uart_host b rx tx view jtag busy ready gap"
    and "serving n s" and "gStopUartBootLoaderFlg s = 0" and "gsUart0ProtocolState s = UART0_PROTOCOL_STATE_IDLE"
    and "jtag (ext s) = 1" and "\<not> pending (view (ext s))"
    and "rx 0 (ext s) = file_text eol rs entry @ ys"
    and "list_all data_line rs" and "entry_line entry" and "line_end eol"
  shows "\<exists>s'. a2_loop b t n s = Some (JumpTo (r_addr entry), s') \<and> ram s' = file_memory rs (ram s)"
  using session_boots [OF assms] .

section \<open>A device with a slow host\<close>

text \<open>
  The reference device with a host that pauses: after each character of UART 0 the receiver finds
  nothing for two polls.
\<close>

definition slow_rd :: "a2_reg \<Rightarrow> mem \<times> hw \<times> nat \<Rightarrow> u32 \<times> mem \<times> hw \<times> nat" where
  "slow_rd r = (\<lambda>(m, h, k).
     if r = Uart 0 uart_valid_rx_data_valid \<and> 0 < k then (0, m, h, k - 1)
     else case hw_rd r (m, h) of (v, m, h) \<Rightarrow> (v, m, h, if r = Uart 0 uart_data_rx_data then 2 else k))"

definition slow_bus :: "(hw \<times> nat) a2_bus" where
  "slow_bus = \<lparr>bus_rd = slow_rd,
     bus_wr = (\<lambda>r v (m, h, k). case hw_wr r v (m, h) of (m, h) \<Rightarrow> (m, h, k)),
     bus_wp = (\<lambda>r p (m, h, k). case hw_wp r p (m, h) of (m, h) \<Rightarrow> (m, h, k))\<rparr>"

interpretation slow: uart_host slow_bus "\<lambda>u e. hw_rx u (fst e)" "\<lambda>u e. hw_tx u (fst e)" "\<lambda>e. hw_view (fst e)"
  "\<lambda>e. h_jtag (fst e)" "\<lambda>u e. hw_busy u (fst e)" "\<lambda>u e. hw_ready u (fst e)" snd
  by unfold_locales
    (auto simp: slow_bus_def slow_rd_def hw_rx_def hw_tx_def hw_view_def hw_busy_def hw_ready_def uart_obs_def quiet_def
      sent_def case_prod_beta split: list.splits if_splits)

text \<open>A header, two good lines, and between them one that was damaged on its way.\<close>

definition sealed_line :: "u8 \<Rightarrow> u32 \<Rightarrow> u8 list \<Rightarrow> srec_line" where
  "sealed_line t a ds = \<lparr>r_type = t, r_addr = a, r_data = ds, r_sum = srec_checksum (srec_body (srec_addr_size t) a ds)\<rparr>"

definition demo_file :: "srec_line list" where
  "demo_file = [sealed_line 0x30 0 (str ''A2''), sealed_line 0x33 0x1C008080 [0x13, 0, 0, 0],
     (sealed_line 0x33 0x1C008084 [0x6F, 0, 0, 0])\<lparr>r_addr := 0x1C008088\<rparr>, sealed_line 0x33 0x1C008084 [0x6F, 0, 0, 0]]"

definition demo_entry :: srec_line where
  "demo_entry = sealed_line 0x37 0x1C008080 []"

lemma demo_lines: "list_all data_line demo_file" "entry_line demo_entry" "r_addr demo_entry = 0x1C008080"
  by (simp_all add: demo_file_def demo_entry_def sealed_line_def data_line_def entry_line_def line_intact_def
      addr_fits_def srec_addr_size_def)

lemma demo_memory:
  "file_memory demo_file m = store_bytes 0x1C008084 [0x6F, 0, 0, 0] (store_bytes 0x1C008080 [0x13, 0, 0, 0] m)"
proof -
  have "\<not> line_intact ((sealed_line 0x33 0x1C008084 [0x6F, 0, 0, 0])\<lparr>r_addr := 0x1C008088\<rparr>)"
    by (simp add: line_intact_def sealed_line_def srec_addr_size_def srec_checksum_def srec_body_def srec_count_def
        addr_bytes_def bytes32_def)
  then show ?thesis
    by (simp add: demo_file_def line_stored_def) (simp add: sealed_line_def line_intact_def)
qed

definition session_init :: "(hw \<times> nat) i2c_globals" where
  "session_init = \<lparr>ram = (\<lambda>_. 0),
     ext = (hw_init\<lparr>h_jtag := 1, h_rx := (\<lambda>_. [])(0 := file_text [0x0D, 0x0A] demo_file demo_entry @ [0x0D, 0x0A])\<rparr>, 2),
     gStopUartMsgFlg = 0, gStopUartBootLoaderFlg = 0,
     gStopI2CBootLoaderFlg = 0, gsUartProtocolConvToHexBuf = replicate 512 0, gsMemoryWriteBuf = replicate 256 0,
     gsUart0FillIndex = 0, gsUart0ProtocolState = UART0_PROTOCOL_STATE_IDLE, gsSRecordType = 0,
     gsDestinationAddress = 0, gsDestinationAddressSizeInBytes = 0, gsTotalCountInBytes = 0,
     gsDataCountInBytes = 0, gsMemoryWriteBufIndex = 0, gsDataRxdCounterInCharacters = 0, gsCRCVal = 0,
     gsCalculatedChkSum = 0, gsI2CProtocolFrameRxBuf = replicate 256 0, gUseCRCFlg = 0,
     gsI2CProtocolFrameTxBuf = replicate 16 0, gsI2CProtocolFrameCounter = 0, lastSentFrameSize = 0,
     crcTable = crcInit (replicate 256 0)\<rparr>"

theorem uart_host_boots_witness:
  "\<exists>s'. a2_loop slow_bus (str ''.'') 0 session_init = Some (JumpTo 0x1C008080, s') \<and>
    ram s' = store_bytes 0x1C008084 [0x6F, 0, 0, 0] (store_bytes 0x1C008080 [0x13, 0, 0, 0] (\<lambda>_. 0))"
proof -
  have "serving 0 session_init"
    by (simp add: serving_def session_init_def uart_wf_def i2c_wf_def
        UART_PROTOCOL_CONV_BUF_LEN_def UART_PROTOCOL_MEMORY_WRITE_BUF_LEN_def)
  from uart_host_boots [OF slow.uart_host_axioms this, of "[0x0D, 0x0A]" demo_file demo_entry "[0x0D, 0x0A]" "str ''.''"]
  show ?thesis
    by (simp add: demo_lines demo_memory) (simp add: session_init_def hw_rx_def hw_view_def hw_init_def line_end_def)
qed

end
