(* ===== verification/A2_Boot.thy ===== *)
theory A2_Boot
  imports A2_Session
begin

text \<open>
  The second bootloader from its first instruction to the program it starts. The locale \<open>a2_board\<close>
  states what the start-up code relies on: the configuration accesses keep an assertion \<open>ok\<close> about
  the peripherals, the boot selection shows the strap, and the identification command of the flash
  ends. Inside it \<open>main\<close> is shown to reach the point where it chooses how to boot; the properties
  add a flash with an image, or a host on the UART.
\<close>

section \<open>Start-up\<close>

text \<open>The registers that the start-up code configures.\<close>

definition startup_reg :: "a2_reg \<Rightarrow> bool" where
  "startup_reg r \<longleftrightarrow> (case r of
       Udma_ctrl_reg_rst \<Rightarrow> True | Udma_ctrl_reg_cg \<Rightarrow> True | Fll_config _ \<Rightarrow> True
     | Soc_reset_reason \<Rightarrow> True | Soc_bootsel \<Rightarrow> True | Soc_jtagreg \<Rightarrow> False
     | I2cs r \<Rightarrow> r \<in> {i2cs_dev_address_slave_addr, i2cs_enable_ip_enable}
     | Uart _ r \<Rightarrow> r \<in> {uart_setup_div, uart_setup_bits, uart_setup_rx_polling_en, uart_setup_en_tx, uart_setup_en_rx}
     | Qspi _ _ \<Rightarrow> False)"

text \<open>
  Start-up may leave the identification of the flash in the first four bytes of memory and changes
  the variables of the SPI driver, and nothing else of the program.
\<close>

definition started ::
  "('e \<Rightarrow> bool) \<Rightarrow> ('e, 'z) spi_globals_scheme \<Rightarrow> ('e, 'z) spi_globals_scheme \<Rightarrow> bool" where
  "started ok s s' \<longleftrightarrow> (ok (ext s) \<longrightarrow> ok (ext s') \<and> (\<forall>p. 4 \<le> p \<longrightarrow> ram s' p = ram s p) \<and>
     s' = s\<lparr>ram := ram s', ext := ext s', aucclkdiv := aucclkdiv s', auccmd := auccmd s'\<rparr>)"

lemma started_refl [simp]: "started ok s s"
  by (simp add: started_def)

lemma started_trans: "started ok s s1 \<Longrightarrow> started ok s1 s2 \<Longrightarrow> started ok s s2"
  by (cases s, cases s1, cases s2) (auto simp: started_def)

lemma started_ext: "ok e' \<Longrightarrow> started ok s (s\<lparr>ext := e'\<rparr>)"
  by (simp add: started_def)

lemma started_vars: "started ok s (s\<lparr>aucclkdiv := d\<rparr>)" "started ok s (set_cmds ws s)"
  by (simp_all add: started_def set_cmds_def)

text \<open>The command lists of the probe: two bare opcodes, and the identification, which receives four bytes.\<close>

definition opcode_cmds :: "u8 \<Rightarrow> u8 \<Rightarrow> u32 \<Rightarrow> u32 list" where
  "opcode_cmds clkdiv cs c = [kSPIm_Cfg OR ucast clkdiv, kSPIm_SOT OR ucast cs, kSPIm_SendCmd OR c, kSPIm_EOT OR 1]"

definition readid_cmds :: "u8 \<Rightarrow> u32 list" where
  "readid_cmds clkdiv = [kSPIm_Cfg OR ucast clkdiv, kSPIm_SOT, kSPIm_SendCmd OR 0x7009f,
     kSPIm_RxData OR (0x00470000 OR (4 - 1)), kSPIm_EOT OR 1]"

lemma opcode_cmds_decode:
  assumes "c \<in> {0x70066, 0x70099}"
  shows "spi_in (opcode_cmds d cs c) = 0" "length (spi_out (opcode_cmds d cs c)) = 8" "length (opcode_cmds d cs c) = 4"
  using assms
  by (auto simp: opcode_cmds_def kSPIm_defs cmd_or drop_ucast_small, auto simp: cmd_op_def cmd_bits_def drop_ucast_small)

lemma readid_cmds_decode:
  "spi_in (readid_cmds d) = 4" "spi_out (readid_cmds d) = byte_bits 0x9F" "length (readid_cmds d) = 5"
  by (simp_all add: readid_cmds_def kSPIm_defs cmd_or drop_ucast_small)
    (simp_all add: cmd_op_def cmd_bits_def drop_ucast_small byte_bits_def upt_rec bit_simps)

text \<open>The bus accesses of a bare opcode as one function.\<close>

definition send_cmds :: "'e a2_bus \<Rightarrow> u32 list \<Rightarrow> u32 \<Rightarrow> mem \<times> 'e \<Rightarrow> mem \<times> 'e" where
  "send_cmds b ws k me = bus_wr b (Qspi 0 cmd_cfg_en) 1 (bus_wr b (Qspi 0 cmd_size) k (bus_wp b (Qspi 0 cmd_saddr) (Words ws)
     (bus_wr b (Qspi 0 cmd_cfg_clr) 1 (bus_wr b (Qspi 0 cmd_cfg_en) 0 me))))"

lemma send_cmds_on_bus:
  "start_cmds b 0 n (set_cmds ws (wr b (Qspi 0 cmd_cfg_clr) 1 (wr b (Qspi 0 cmd_cfg_en) 0 s))) =
     on_bus (send_cmds b (ws @ drop (length ws) (auccmd s)) (of_nat n * 4)) (set_cmds ws s)"
proof -
  have au: "auccmd (on_bus f s) = auccmd s" for f and s :: "('e, 'z) spi_globals_scheme"
    by (simp add: on_bus_def split: prod.splits)
  show ?thesis
    unfolding start_cmds_def wr_on_bus wp_on_bus set_cmds_on_bus au on_bus_on_bus send_cmds_def
    by (simp add: set_cmds_def)
qed

locale a2_board = uart_tx b rx tx ok busy
  for b :: "'e a2_bus" and rx tx :: "u8 \<Rightarrow> 'e \<Rightarrow> u8 list" and ok :: "'e \<Rightarrow> bool" and busy +
  fixes strap :: bool
    and reading :: "'e \<Rightarrow> bool"
    and polls :: "'e \<Rightarrow> nat"
  assumes setup_rd: "startup_reg r \<Longrightarrow> ok e \<Longrightarrow> \<exists>v e'. bus_rd b r (m, e) = (v, m, e') \<and> ok e'"
    and setup_wr: "startup_reg r \<Longrightarrow> ok e \<Longrightarrow> \<exists>e'. bus_wr b r v (m, e) = (m, e') \<and> ok e'"
    and bootsel: "ok e \<Longrightarrow> fst (bus_rd b Soc_bootsel (m, e)) AND 1 = of_bool strap"
    and command: "ok e \<Longrightarrow> spi_in ws = 0 \<Longrightarrow> length (spi_out ws) = 8 \<Longrightarrow> 4 * length ws = unat k \<Longrightarrow>
      \<exists>e'. send_cmds b (ws @ xs) k (m, e) = (m, e') \<and> ok e'"
    and id_starts: "ok e \<Longrightarrow> spi_in ws = 4 \<Longrightarrow> spi_out ws = byte_bits 0x9F \<Longrightarrow> 4 * length ws = unat k \<Longrightarrow>
      \<exists>e'. start_read b 0 4 (ws @ xs) k (m, e) = (m, e') \<and> reading e'"
    and id_polls: "reading e \<Longrightarrow> \<exists>v m' e'. bus_rd b (Qspi 0 rx_size) (m, e) = (v, m', e') \<and>
      (\<forall>p. 4 \<le> p \<longrightarrow> m' p = m p) \<and> (if v = 0 then ok e' else reading e' \<and> polls e' < polls e)"
begin

lemma rd_started:
  assumes "startup_reg r" and "rd b r s = (v, s')"
  shows "started ok s s'"
proof (cases "ok (ext s)")
  case True
  with assms setup_rd [of r "ext s" "ram s"] obtain e' where "s' = s\<lparr>ext := e'\<rparr>" "ok e'" by (auto simp: rd_def)
  then show ?thesis by (simp add: started_ext)
qed (simp add: started_def)

lemma wr_started: "startup_reg r \<Longrightarrow> started ok s (wr b r v s)"
proof (cases "ok (ext s)")
  case True
  assume "startup_reg r"
  with True setup_wr [of r "ext s" v "ram s"] obtain e' where "wr b r v s = s\<lparr>ext := e'\<rparr>" "ok e'" by (auto simp: wr_def)
  then show ?thesis by (simp add: started_ext)
qed (simp add: started_def)

lemma rmw_started: "startup_reg r \<Longrightarrow> started ok s (rmw b r f s)"
  by (auto simp: rmw_def split: prod.splits intro: started_trans [OF rd_started wr_started])

lemma started_then:
  "started ok s s1 \<Longrightarrow> startup_reg r \<Longrightarrow> started ok s (wr b r v s1)"
  "started ok s s1 \<Longrightarrow> startup_reg r \<Longrightarrow> started ok s (rmw b r f s1)"
  "started ok s s1 \<Longrightarrow> startup_reg r \<Longrightarrow> rd b r s1 = (v', s2) \<Longrightarrow> started ok s s2"
  by (blast intro: started_trans wr_started rmw_started rd_started)+

lemma uart_open_started: "started ok s s1 \<Longrightarrow> udma_uart_open cfg b u baud s1 = (r, s2) \<Longrightarrow> started ok s s2"
  by (auto simp: udma_uart_open_def Let_def startup_reg_def split: if_splits intro!: started_then)

lemma fll_started: "started ok s s1 \<Longrightarrow> started ok s (setFLLInResetAndBypass b n s1)"
  by (auto simp: setFLLInResetAndBypass_def Let_def startup_reg_def intro!: started_then)

lemma i2cs_started:
  "started ok s s1 \<Longrightarrow> hal_set_apb_i2cs_slave_on_off b 1 s1 = (v, s2) \<Longrightarrow> started ok s s2"
  "started ok s s1 \<Longrightarrow> hal_get_apb_i2cs_slave_address b s1 = (v, s2) \<Longrightarrow> started ok s s2"
  "started ok s s1 \<Longrightarrow> started ok s (hal_set_apb_i2cs_slave_address b a s1)"
proof -
  have regs: "startup_reg (I2cs i2cs_dev_address_slave_addr)" "startup_reg (I2cs i2cs_enable_ip_enable)"
    by (simp_all add: startup_reg_def)
  show "started ok s s1 \<Longrightarrow> hal_set_apb_i2cs_slave_on_off b 1 s1 = (v, s2) \<Longrightarrow> started ok s s2"
    by (auto simp: hal_set_apb_i2cs_slave_on_off_def i2cs_get_def split: prod.splits
        intro: started_then(3) [OF started_then(1) regs(2)] regs)
  show "started ok s s1 \<Longrightarrow> hal_get_apb_i2cs_slave_address b s1 = (v, s2) \<Longrightarrow> started ok s s2"
    by (auto simp: hal_get_apb_i2cs_slave_address_def i2cs_get_def split: prod.splits intro: started_then(3) [OF _ regs(1)])
  show "started ok s s1 \<Longrightarrow> started ok s (hal_set_apb_i2cs_slave_address b a s1)"
    by (simp add: hal_set_apb_i2cs_slave_address_def started_then(1) regs)
qed

lemma setup_started:
  assumes "a2_setup cfg b s = (resetreason, sel, s')" and "ok (ext s)"
  shows "started ok s s' \<and> sel = of_bool strap"
proof -
  define s1 where "s1 = setFLLInResetAndBypass b 2 (setFLLInResetAndBypass b 1 (setFLLInResetAndBypass b 0 s))"
  obtain r s2 where 2: "rd b Soc_reset_reason s1 = (r, s2)" by fastforce
  obtain v3 s3 where 3: "rd b Soc_bootsel s2 = (v3, s3)" by fastforce
  obtain v4 s4 where 4: "rd b Soc_bootsel s3 = (v4, s4)" by fastforce
  obtain v5 s5 where 5: "hal_set_apb_i2cs_slave_on_off b 1 s4 = (v5, s5)" by fastforce
  obtain a s6 where 6: "hal_get_apb_i2cs_slave_address b s5 = (a, s6)" by fastforce
  define s7 where "s7 = (if a \<noteq> MY_I2C_SLAVE_ADDRESS then hal_set_apb_i2cs_slave_address b MY_I2C_SLAVE_ADDRESS s6 else s6)"
  obtain v8 s8 where 8: "udma_uart_open cfg b 0 115200 s7 = (v8, s8)" by fastforce
  obtain v9 s9 where 9: "udma_uart_open cfg b 1 115200 s8 = (v9, s9)" by fastforce
  have eq: "sel = v4 AND 1" "s' = s9"
    using assms(1) 2 3 4 5 6 8 9 by (auto simp: a2_setup_def s1_def s7_def Let_def)
  have "started ok s s1" unfolding s1_def by (intro fll_started started_refl)
  then have s3: "started ok s s3"
    using started_then(3) [OF started_then(3) [OF _ _ 2] _ 3] by (simp add: startup_reg_def)
  then have "ok (ext s3)" using assms(2) by (simp add: started_def)
  with bootsel [of "ext s3" "ram s3"] 4 have "v4 AND 1 = of_bool strap" by (auto simp: rd_def split: prod.splits)
  moreover have "started ok s s6"
    using i2cs_started(2) [OF i2cs_started(1) [OF started_then(3) [OF s3 _ 4] 5] 6] by (simp add: startup_reg_def)
  then have "started ok s s7" by (simp add: s7_def i2cs_started(3))
  then have "started ok s s9" using 8 9 by (blast intro: uart_open_started)
  ultimately show ?thesis by (simp add: eq)
qed

lemma print_started:
  "\<exists>s'. dbg_str b cs s = Some s' \<and> started ok s s'" "\<exists>s'. dbg_hex8 b v s = Some s' \<and> started ok s s'"
  using dbg_str_returns [of cs s] dbg_hex8_returns [of v s]
  by (auto simp: uart_eff_def uart_obs_def started_def)

lemma banner_started: "\<exists>s'. a2_banner b bld r sel s = Some s' \<and> started ok s s'"
proof -
  obtain s1 where 1: "dbg_str b (b_date bld) s = Some s1" "started ok s s1" using print_started by blast
  obtain s2 where 2: "dbg_str b (str ''  '') s1 = Some s2" "started ok s1 s2" using print_started by blast
  obtain s3 where 3: "dbg_str b (b_time bld) s2 = Some s3" "started ok s2 s3" using print_started by blast
  obtain s4 where 4: "dbg_str b (0x0A # str ''A2 Bootloader Bootsel='') s3 = Some s4" "started ok s3 s4"
    using print_started by blast
  obtain s5 where 5: "dbg_str b (if sel = 1 then str ''1 '' else str ''0 '') s4 = Some s5" "started ok s4 s5"
    using print_started by blast
  obtain s6 where 6: "dbg_str b (str ''rr='') s5 = Some s6" "started ok s5 s6" using print_started by blast
  obtain s7 where 7: "dbg_hex8 b r s6 = Some s7" "started ok s6 s7" using print_started by blast
  have "started ok s s7"
    using 1(2) 2(2) 3(2) 4(2) 5(2) 6(2) 7(2) by (blast intro: started_trans)
  moreover have "a2_banner b bld r sel s = Some s7"
    unfolding a2_banner_def by (simp only: 1(1) 2(1) 3(1) 4(1) 5(1) 6(1) 7(1) Option.bind.simps)
  ultimately show ?thesis by blast
qed

lemma opcode_started:
  assumes "c \<in> {0x70066, 0x70099}"
  shows "started ok s (start_cmds b 0 4 (set_cmds (opcode_cmds d 0 c) (wr b (Qspi 0 cmd_cfg_clr) 1 (wr b (Qspi 0 cmd_cfg_en) 0 s))))"
proof (cases "ok (ext s)")
  case True
  note dec = opcode_cmds_decode [OF assms, of d 0]
  from command [OF True dec(1,2), of 16 "drop 4 (auccmd s)" "ram s"] dec(3) obtain e' where
    "send_cmds b (opcode_cmds d 0 c @ drop 4 (auccmd s)) 16 (ram s, ext s) = (ram s, e')" "ok e'"
    by auto
  then show ?thesis
    unfolding send_cmds_on_bus dec(3) by (simp add: on_bus_def set_cmds_def started_def)
qed (simp add: started_def)

lemma id_wait:
  assumes "reading (ext s)"
  shows "\<exists>s'. qspi_wait_rx b s = Some s' \<and> ok (ext s') \<and> (\<forall>p. 4 \<le> p \<longrightarrow> ram s' p = ram s p) \<and>
    s' = s\<lparr>ram := ram s', ext := ext s'\<rparr>"
  using assms
proof (induction "polls (ext s)" arbitrary: s rule: less_induct)
  case less
  obtain v m1 e1 where 1: "rd b (Qspi 0 rx_size) s = (v, s\<lparr>ram := m1, ext := e1\<rparr>)" "\<And>p. 4 \<le> p \<Longrightarrow> m1 p = ram s p"
      "if v = 0 then ok e1 else reading e1 \<and> polls e1 < polls (ext s)"
    using id_polls [OF less(2), of "ram s"] by (auto simp: rd_def)
  show ?case
  proof (cases "v = 0")
    case True
    with 1 show ?thesis by (subst qspi_wait_rx.simps) simp
  next
    case False
    with 1(3) less(1) [of "s\<lparr>ram := m1, ext := e1\<rparr>"] obtain s' where
      "qspi_wait_rx b (s\<lparr>ram := m1, ext := e1\<rparr>) = Some s'" "ok (ext s')" "\<And>p. 4 \<le> p \<Longrightarrow> ram s' p = m1 p"
      "s' = s\<lparr>ram := ram s', ext := ext s'\<rparr>"
      by auto
    with False 1 show ?thesis by (subst qspi_wait_rx.simps) simp
  qed
qed

lemma readid_started:
  assumes "ok (ext s)"
  shows "\<exists>s'. udma_flash_readid b 0 s = Some s' \<and> started ok s s'"
proof -
  let ?ws = "readid_cmds (aucclkdiv s)"
  obtain e1 where 1: "start_read b 0 4 (?ws @ drop 5 (auccmd s)) 20 (ram s, ext s) = (ram s, e1)" "reading e1"
    using id_starts [OF assms readid_cmds_decode(1,2), of "aucclkdiv s" 20 "drop 5 (auccmd s)" "ram s"]
    by (auto simp: readid_cmds_decode(3))
  have eq: "start_cmds b 0 5 (start_rx b 0 4 (set_cmds ?ws (stop_channels b s))) = (set_cmds ?ws s)\<lparr>ext := e1\<rparr>"
    unfolding start_cmds_on_bus readid_cmds_decode(3)
    using 1(1) by (simp add: on_bus_def set_cmds_def readid_cmds_decode(3))
  have clk: "aucclkdiv (stop_channels b s) = aucclkdiv s"
    by (simp add: stop_channels_def wr_def split: prod.splits)
  have rid: "udma_flash_readid b 0 s = qspi_wait_rx b (start_cmds b 0 5 (start_rx b 0 4 (set_cmds ?ws (stop_channels b s))))"
    by (simp add: udma_flash_readid_def readid_cmds_def clk Let_def)
  obtain s' where "qspi_wait_rx b ((set_cmds ?ws s)\<lparr>ext := e1\<rparr>) = Some s'" "ok (ext s')"
      "\<And>p. 4 \<le> p \<Longrightarrow> ram s' p = ram s p" "s' = (set_cmds ?ws s)\<lparr>ext := e1, ram := ram s', ext := ext s'\<rparr>"
    using id_wait [of "(set_cmds ?ws s)\<lparr>ext := e1\<rparr>"] 1(2) by (auto simp: set_cmds_def)
  moreover from this(4) have "s' = s\<lparr>ram := ram s', ext := ext s', aucclkdiv := aucclkdiv s', auccmd := auccmd s'\<rparr>"
    by (cases s, cases s') (simp add: set_cmds_def)
  ultimately show ?thesis
    unfolding rid eq started_def by auto
qed

lemma probe_started:
  assumes "ok (ext s)"
  shows "\<exists>s'. a2_probe cfg b s = Some (1, s') \<and> started ok s s'"
proof -
  obtain r s1 where 1: "udma_qspim_open cfg b 0 2500000 s = (r, s1)" by fastforce
  define k where "k = push_bit 0 (UDMA_CTRL_QSPIM0_CLKEN cfg)"
  define s0 where "s0 = rmw b Udma_ctrl_reg_cg (\<lambda>v. v OR k) (rmw b Udma_ctrl_reg_rst (\<lambda>v. v AND NOT k)
    (rmw b Udma_ctrl_reg_rst (\<lambda>v. v OR k) s))"
  have "started ok s s0"
    unfolding s0_def by (intro started_then(2) started_refl) (simp_all add: startup_reg_def)
  moreover have "s1 = s0\<lparr>aucclkdiv := ucast (5000000 div 2500000 :: u32)\<rparr>"
    using 1 by (simp add: udma_qspim_open_def s0_def k_def)
  ultimately have "started ok s s1" using started_trans [OF _ started_vars(1)] by blast
  moreover obtain s2 where 2: "udma_flash_reset_enable b 0 0 s1 = (0, s2)" "started ok s1 s2"
    using opcode_started [of "0x70066" s1 "aucclkdiv s1"]
    by (simp add: udma_flash_reset_enable_def opcode_cmds_def wr_def split: prod.splits)
  moreover obtain s3 where 3: "udma_flash_reset_memory b 0 0 s2 = (0, s3)" "started ok s2 s3"
    using opcode_started [of "0x70099" s2 "aucclkdiv s2"]
    by (simp add: udma_flash_reset_memory_def opcode_cmds_def wr_def split: prod.splits)
  ultimately have s3: "started ok s s3" by (blast intro: started_trans)
  then have "ok (ext s3)" using assms by (simp add: started_def)
  then obtain s4 where "udma_flash_readid b 0 s3 = Some s4" "started ok s3 s4" using readid_started by blast
  with 1 2 3 s3 show ?thesis by (auto simp: a2_probe_def intro: started_trans)
qed

text \<open>So \<open>main\<close> comes to the choice with the strap as the selection and everything else as it was.\<close>

lemma main_chooses:
  assumes "ok (ext s)"
  shows "\<exists>s'. started ok s s' \<and> a2_main cfg bld b s =
    (if strap then bootFromRom b (b_bootCode bld) 0 0 s' else a2_loop b (str ''.'') 0 (a2_serve_init b s'))"
proof -
  obtain r sel s1 where 1: "a2_setup cfg b s = (r, sel, s1)" by (metis prod_cases3)
  with setup_started assms have s1: "started ok s s1" "sel = of_bool strap" by blast+
  obtain s2 where 2: "a2_banner b bld r sel s1 = Some s2" "started ok s1 s2" using banner_started by blast
  have s2: "started ok s s2" using s1(1) 2(2) by (rule started_trans)
  then have "ok (ext s2)" using assms by (simp add: started_def)
  then obtain s3 where 3: "a2_probe cfg b s2 = Some (1, s3)" "started ok s2 s3" using probe_started by blast
  have "a2_main cfg bld b s =
      (if strap then bootFromRom b (b_bootCode bld) 0 0 s3 else a2_loop b (str ''.'') 0 (a2_serve_init b s3))"
    using 1 2(1) 3(1) s1(2) by (simp add: a2_main_def a2_tstring_def del: str_Cons)
  with started_trans [OF s2 3(2)] show ?thesis by blast
qed

end

section \<open>A host on the UART\<close>

text \<open>A board whose UART host is about to send \<open>cs\<close> and whose I2C host is silent.\<close>

locale a2_uart_board =
  h: uart_host b rx tx view jtag busy ready gap +
  a2_board b rx tx "\<lambda>e. rx 0 e = cs \<and> \<not> pending (view e) \<and> spi_rest e" busy False reading polls
  for b :: "'e a2_bus" and rx tx :: "u8 \<Rightarrow> 'e \<Rightarrow> u8 list" and view :: "'e \<Rightarrow> i2cs_view" and jtag :: "'e \<Rightarrow> u32"
    and busy :: "u8 \<Rightarrow> 'e \<Rightarrow> nat" and ready :: "u8 \<Rightarrow> 'e \<Rightarrow> bool" and gap :: "'e \<Rightarrow> nat"
    and cs :: "u8 list" and spi_rest reading :: "'e \<Rightarrow> bool" and polls :: "'e \<Rightarrow> nat"
begin

lemma register_written:
  assumes "rx 0 (ext s) = cs" and "\<not> pending (view (ext s))"
  shows "\<exists>e'. wr b Soc_jtagreg 1 s = s\<lparr>ext := e'\<rparr> \<and> rx 0 e' = cs \<and> \<not> pending (view e') \<and> jtag e' = 1"
  using h.jtag_wr [of 1 "ram s" "ext s"] assms by (auto simp: wr_def)

lemma message_posted:
  assumes "rx 0 (ext s) = cs" and "\<not> pending (view (ext s))"
  shows "\<exists>e'. hal_set_i2cs_msg_apb_i2c b d s = s\<lparr>ext := e'\<rparr> \<and> rx 0 e' = cs \<and> \<not> pending (view e')"
  using h.i.message_wr [of d "ram s" "ext s"] assms
  by (auto simp: hal_set_i2cs_msg_apb_i2c_def wr_def fun_eq_iff)

lemma reason_read:
  assumes "rx 0 (ext s) = cs" "\<not> pending (view (ext s))" "spi_rest (ext s)"
  shows "\<exists>v e'. rd b Soc_reset_reason s = (v, s\<lparr>ext := e'\<rparr>) \<and> rx 0 e' = cs \<and> \<not> pending (view e') \<and> spi_rest e'"
  using setup_rd [of Soc_reset_reason "ext s" "ram s"] assms by (auto simp: rd_def startup_reg_def)

lemma serve_init_ready:
  assumes "rx 0 (ext s) = cs" "\<not> pending (view (ext s))" "spi_rest (ext s)"
  shows "\<exists>e'. a2_serve_init b s = s\<lparr>crcTable := crcInit (crcTable s), ext := e'\<rparr> \<and>
    rx 0 e' = cs \<and> \<not> pending (view e') \<and> jtag e' = 1"
proof -
  let ?s = "s\<lparr>crcTable := crcInit (crcTable s)\<rparr>"
  obtain v e1 where 1: "rd b Soc_reset_reason ?s = (v, ?s\<lparr>ext := e1\<rparr>)" "rx 0 e1 = cs" "\<not> pending (view e1)" "spi_rest e1"
    using reason_read [of ?s] assms by auto
  obtain v' e2 where 2: "rd b Soc_reset_reason (?s\<lparr>ext := e1\<rparr>) = (v', ?s\<lparr>ext := e2\<rparr>)" "rx 0 e2 = cs" "\<not> pending (view e2)"
    using reason_read [of "?s\<lparr>ext := e1\<rparr>"] 1 by auto
  have post: "\<exists>e'. hal_set_i2cs_msg_apb_i2c b d (?s\<lparr>ext := e\<rparr>) = ?s\<lparr>ext := e'\<rparr> \<and> rx 0 e' = cs \<and> \<not> pending (view e')"
    if "rx 0 e = cs" "\<not> pending (view e)" for d e
    using message_posted [of "?s\<lparr>ext := e\<rparr>" d] that by auto
  have enter: "\<exists>e'. wr b Soc_jtagreg 1 (?s\<lparr>ext := e\<rparr>) = ?s\<lparr>ext := e'\<rparr> \<and> rx 0 e' = cs \<and> \<not> pending (view e') \<and> jtag e' = 1"
    if "rx 0 e = cs" "\<not> pending (view e)" for e
    using register_written [of "?s\<lparr>ext := e\<rparr>"] that by auto
  obtain e3 where 3: "hal_set_i2cs_msg_apb_i2c b A2_RESET_REASON_POR (?s\<lparr>ext := e1\<rparr>) = ?s\<lparr>ext := e3\<rparr>" "rx 0 e3 = cs" "\<not> pending (view e3)"
    using post 1 by blast
  obtain e4 where 4: "(if v' AND 0x02 \<noteq> 0 then hal_set_i2cs_msg_apb_i2c b A2_RESET_REASON_WDT (?s\<lparr>ext := e2\<rparr>) else ?s\<lparr>ext := e2\<rparr>) =
      ?s\<lparr>ext := e4\<rparr>" "rx 0 e4 = cs" "\<not> pending (view e4)"
    using post 2 by (cases "v' AND 0x02 \<noteq> 0") auto
  show ?thesis
  proof (cases "v = 1")
    case True
    with 1(1) 3 enter [of e3] show ?thesis by (simp add: a2_serve_init_def)
  next
    case False
    with 1(1) 2(1) 4 enter [of e4] show ?thesis by (simp add: a2_serve_init_def)
  qed
qed

end

section \<open>No flash\<close>

text \<open>
  A flash that is not there: the bus reads as ones. The header then announces 4294967295 sections,
  a count that the limit of \<open>getMemAreas\<close> lets pass because it is negative.
\<close>

abbreviation no_flash :: mem where "no_flash \<equiv> \<lambda>_. 0xFF"

lemma no_flash_bytes: "flash_bytes no_flash a n = replicate n 0xFF"
  by (rule nth_equalityI) (simp_all add: flash_bytes_def nth_load_bytes)

lemma ones_stay:
  assumes "n < 2 ^ 32" and "m p = 0xFF"
  shows "store_bytes a (replicate n 0xFF) m p = 0xFF"
  using assms by (simp add: store_bytes_apply)

lemma ones_count:
  assumes "\<And>i. i < 16 \<Longrightarrow> m (data + header_off + of_nat i) = 0xFF"
  shows "hdr_nbAreas (data_header data m) = 0xFFFFFFFF"
proof -
  have "load_bytes (data + header_off + 4) 4 m = [0xFF, 0xFF, 0xFF, 0xFF]"
    using assms [of 4] assms [of 5] assms [of 6] assms [of 7]
    by (simp add: eval_nat_numeral add.assoc)
  then show ?thesis by (simp add: data_header_def header_at_def load32_def le32_def)
qed

lemma no_flash_undefined:
  fixes s :: "('e, 'z) boot_state_scheme"
  assumes "flash_hw b no_flash idle todo left oth" and "idle (ext s)"
  shows "\<exists>s'. bootFromRom b bootCode 0 0 s = Some (Undefined OutOfBounds, s')"
proof -
  let ?s0 = "set_field (bootCode + qpi_off) 0 (set_field (bootCode + blockSize_off) FLASH_BLOCK_SIZE
    (set_field (bootCode + step_off) 0 (set_field (bootCode + hyperflash_off) 0 s)))"
  have read: "\<exists>s'. a2_reader b data fa l n s1 = Some s' \<and> idle (ext s') \<and>
      ram s' = store_bytes l (replicate (unat (ucast n :: u16)) 0xFF) (ram s1)"
    if "idle (ext s1)" "0 < (ucast n :: u16)" for s1 :: "('e, 'z) boot_state_scheme" and data fa l n
    using flash_hw.flash_read_returns [OF assms(1) that, of fa l] by (auto simp: a2_reader_def no_flash_bytes)
  have "idle (ext ?s0)" using assms(2) by simp
  then obtain s1 where 1: "a2_reader b bootCode 0 (bootCode + header_off) sizeof_header ?s0 = Some s1" "idle (ext s1)"
      "ram s1 = store_bytes (bootCode + header_off) (replicate 16 0xFF) (ram ?s0)"
    using read [of ?s0 sizeof_header bootCode 0 "bootCode + header_off"] by (auto simp: sizeof_header_def)
  have ones: "ram s1 (bootCode + header_off + of_nat i) = 0xFF" if "i < 16" for i
  proof -
    have "unat (of_nat i :: u32) = i" using that by (simp add: unat_of_nat)
    with that show ?thesis by (simp add: 1(3) store_bytes_apply)
  qed
  obtain s2 where 2: "a2_reader b bootCode sizeof_header (bootCode + memArea_off) (0xFFFFFFFF * sizeof_area) s1 = Some s2"
      "ram s2 = store_bytes (bootCode + memArea_off) (replicate 65520 0xFF) (ram s1)"
    using read [of s1 "0xFFFFFFFF * sizeof_area" bootCode sizeof_header "bootCode + memArea_off"] 1(2)
    by (auto simp: sizeof_area_def)
  have "getMemAreas (a2_reader b) bootCode ?s0 = Some s2"
    using 1(1) 2(1) ones_count [of "ram s1" bootCode] ones by (simp add: getMemAreas_def)
  moreover have "findDataFit (ram s2) bootCode = None"
  proof (rule findDataFit_too_many_areas)
    have "hdr_nbAreas (data_header bootCode (ram s2)) = 0xFFFFFFFF"
      unfolding 2(2) by (rule ones_count, rule ones_stay) (simp_all add: ones)
    then show "16 < unat (hdr_nbAreas (data_header bootCode (ram s2)))" by simp
  qed
  ultimately show ?thesis by (simp add: bootFromRom_def Let_def)
qed

section \<open>Properties\<close>

text \<open>
  C2. With the boot selection strapped high and a well formed image in the flash, the second bootloader
  as a whole, from its first access on, ends with control at the entry point of the image and every
  section at its address.
\<close>

theorem a2_main_boots_from_flash:
  assumes "boot_hw b rx tx idle busy ready flash todo left oth" and "a2_board b rx tx idle busy True reading polls"
    and "idle (ext s)" and "image_wf flash"
  shows "\<exists>s'. a2_main cfg bld b s = Some (JumpTo (hdr_entry (img_header flash)), s') \<and>
    (\<forall>a \<in> set (img_areas flash).
       load_bytes (area_ptr a) (unat (area_size a)) (ram s') = load_bytes (area_start a) (unat (area_size a)) flash)"
proof -
  obtain s1 where "started idle s s1" "a2_main cfg bld b s = bootFromRom b (b_bootCode bld) 0 0 s1"
    using a2_board.main_chooses [OF assms(2,3), of cfg bld] by auto
  moreover from this(1) have "idle (ext s1)" using assms(3) by (simp add: started_def)
  ultimately show ?thesis using flash_boot_returns [OF assms(1) _ assms(4)] by metis
qed

text \<open>
  C3. With the boot selection strapped low, the second bootloader as a whole boots what a host sends
  over the UART, when the I2C host and the debugger are silent: S0 to S3 lines with at least one byte of data, each with a right or a wrong checksum, and at
  the end an S7, S8 or S9 line with the right checksum and an address other than 0 (S5 lines and lines
  without data, which the state machine does not handle, are not part of such a file). It ends with a jump to the
  address of the last line; memory has then changed by exactly the S1, S2 and S3 lines that have the right
  checksum and an address other than 0, in the order of the file, and before them by start-up in its first
  four bytes at most.
\<close>

theorem a2_main_boots_over_uart:
  assumes "a2_uart_board b rx tx view jtag busy ready gap (file_text eol rs entry @ ys) spi_rest reading polls"
    and "serve_start s" and "gsUart0ProtocolState s = UART0_PROTOCOL_STATE_IDLE"
    and "rx 0 (ext s) = file_text eol rs entry @ ys" and "\<not> pending (view (ext s))" and "spi_rest (ext s)"
    and "list_all data_line rs" and "entry_line entry" and "line_end eol"
  shows "\<exists>s' m. a2_main cfg bld b s = Some (JumpTo (r_addr entry), s') \<and>
    ram s' = file_memory rs m \<and> (\<forall>p. m p = ram s p \<or> p < 4)"
proof -
  let ?ok = "\<lambda>e. rx 0 e = file_text eol rs entry @ ys \<and> \<not> pending (view e) \<and> spi_rest e"
  have board: "a2_board b rx tx ?ok busy False reading polls" and host: "uart_host b rx tx view jtag busy ready gap"
    using assms(1) by (simp_all add: a2_uart_board_def)
  obtain s1 where 1: "started ?ok s s1" "a2_main cfg bld b s = a2_loop b (str ''.'') 0 (a2_serve_init b s1)"
    using a2_board.main_chooses [OF board, of s cfg bld] assms(4-6) by auto
  then have ok: "?ok (ext s1)" "\<And>p. 4 \<le> p \<Longrightarrow> ram s1 p = ram s p"
    and s1: "s1 = s\<lparr>ram := ram s1, ext := ext s1, aucclkdiv := aucclkdiv s1, auccmd := auccmd s1\<rparr>"
    using assms(4-6) by (simp_all add: started_def)
  then obtain e where 2: "a2_serve_init b s1 = s1\<lparr>crcTable := crcInit (crcTable s1), ext := e\<rparr>" (is "_ = ?s2")
    and e: "rx 0 e = file_text eol rs entry @ ys" "\<not> pending (view e)" "jtag e = 1"
    using a2_uart_board.serve_init_ready [OF assms(1), of s1] by auto
  have "serve_start s1" using assms(2) by (subst s1) (simp add: serve_start_def uart_wf_def)
  with serve_init_serving [of s1 b] 2 have "serving 0 ?s2" by simp
  moreover have "gStopUartBootLoaderFlg ?s2 = 0" "gsUart0ProtocolState ?s2 = UART0_PROTOCOL_STATE_IDLE"
    using assms(2,3) by (subst s1; simp add: serve_start_def)+
  ultimately obtain s' where "a2_loop b (str ''.'') 0 ?s2 = Some (JumpTo (r_addr entry), s')"
      "ram s' = file_memory rs (ram s1)"
    using session_boots [OF host, of 0 ?s2 eol rs entry ys "str ''.''"] e assms(7-9) by auto
  with 1(2) 2 ok(2) show ?thesis by (metis not_le)
qed

text \<open>
  C39. The test for a missing flash never fires. With the boot selection strapped high and no flash
  connected, so that every byte read from the bus is FF, the second bootloader does not turn to the
  host protocols, as the comments of \<^verbatim>\<open>main\<close> promise: it takes what it reads for the header of an
  image, with 4294967295 sections, and leaves the array of sections. Whatever the identification command gives
  makes no difference.
\<close>

theorem absent_flash_not_detected:
  assumes "boot_hw b rx tx idle busy ready no_flash todo left oth" and "a2_board b rx tx idle busy True reading polls"
    and "idle (ext s)"
  shows "\<exists>s'. a2_main cfg bld b s = Some (Undefined OutOfBounds, s')"
proof -
  obtain s1 where "started idle s s1" "a2_main cfg bld b s = bootFromRom b (b_bootCode bld) 0 0 s1"
    using a2_board.main_chooses [OF assms(2,3), of cfg bld] by auto
  moreover from this(1) have "idle (ext s1)" using assms(3) by (simp add: started_def)
  ultimately show ?thesis using no_flash_undefined [OF boot_hw.axioms(2) [OF assms(1)]] by metis
qed

section \<open>The reference device as a board\<close>

text \<open>The device with a pausing host, which reads the selection as 0.\<close>

definition slow_rest :: "hw \<times> nat \<Rightarrow> bool" where "slow_rest e \<longleftrightarrow> h_todo (fst e) = None"

definition slow_reading :: "u8 list \<Rightarrow> hw \<times> nat \<Rightarrow> bool" where
  "slow_reading cs e \<longleftrightarrow> (\<exists>ds. h_todo (fst e) = Some (0, ds) \<and> length ds = 4) \<and> hw_rx 0 (fst e) = cs \<and>
     \<not> pending (hw_view (fst e))"

lemma first_bytes_only:
  assumes "length ds = 4" and "4 \<le> p"
  shows "store_bytes 0 ds m p = m p"
  using assms by (intro store_bytes_outside) (simp_all add: word_le_nat_alt)

interpretation slow_board: a2_uart_board slow_bus "\<lambda>u e. hw_rx u (fst e)" "\<lambda>u e. hw_tx u (fst e)" "\<lambda>e. hw_view (fst e)"
  "\<lambda>e. h_jtag (fst e)" "\<lambda>u e. hw_busy u (fst e)" "\<lambda>u e. hw_ready u (fst e)" snd cs slow_rest "slow_reading cs"
  "\<lambda>e. h_left (fst e)"
proof unfold_locales
  fix r e m v
  assume r: "startup_reg r" and "hw_rx 0 (fst e) = cs \<and> \<not> pending (hw_view (fst e)) \<and> slow_rest e"
  then show "\<exists>v e'. bus_rd slow_bus r (m, e) = (v, m, e') \<and>
      hw_rx 0 (fst e') = cs \<and> \<not> pending (hw_view (fst e')) \<and> slow_rest e'"
    and "\<exists>e'. bus_wr slow_bus r v (m, e) = (m, e') \<and>
      hw_rx 0 (fst e') = cs \<and> \<not> pending (hw_view (fst e')) \<and> slow_rest e'"
    by (cases r; auto simp: startup_reg_def slow_bus_def slow_rd_def hw_rx_def hw_view_def slow_rest_def case_prod_beta)+
qed (auto simp: slow_bus_def slow_rd_def hw_rx_def hw_tx_def hw_view_def hw_busy_def slow_rest_def slow_reading_def
      uart_obs_def quiet_def sent_def send_cmds_def start_read_def first_bytes_only case_prod_beta Let_def split: if_splits)

definition board_init :: "(hw \<times> nat) boot_state" where
  "board_init = \<lparr>ram = (\<lambda>_. 0),
     ext = (hw_init\<lparr>h_rx := (\<lambda>_. [])(0 := file_text [0x0D, 0x0A] demo_file demo_entry @ [0x0D, 0x0A])\<rparr>, 2),
     gStopUartMsgFlg = 0, gStopUartBootLoaderFlg = 0,
     gStopI2CBootLoaderFlg = 0, gsUartProtocolConvToHexBuf = replicate 512 0, gsMemoryWriteBuf = replicate 256 0,
     gsUart0FillIndex = 0, gsUart0ProtocolState = UART0_PROTOCOL_STATE_IDLE, gsSRecordType = 0,
     gsDestinationAddress = 0, gsDestinationAddressSizeInBytes = 0, gsTotalCountInBytes = 0,
     gsDataCountInBytes = 0, gsMemoryWriteBufIndex = 0, gsDataRxdCounterInCharacters = 0, gsCRCVal = 0,
     gsCalculatedChkSum = 0, gsI2CProtocolFrameRxBuf = replicate 256 0, gUseCRCFlg = 0,
     gsI2CProtocolFrameTxBuf = replicate 16 0, gsI2CProtocolFrameCounter = 0, lastSentFrameSize = 0,
     crcTable = replicate 256 0, aucclkdiv = 0, auccmd = replicate 16 0, sp = 0\<rparr>"

theorem a2_main_boots_over_uart_witness:
  "\<exists>s' m. a2_main \<lparr>UDMA_CTRL_UART0_CLKEN = 1, UDMA_CTRL_QSPIM0_CLKEN = 4\<rparr>
      \<lparr>b_date = str ''Jan  1 2021'', b_time = str ''12:00:00'', b_bootCode = 0x1C010000\<rparr> slow_bus board_init =
      Some (JumpTo 0x1C008080, s') \<and>
    ram s' = store_bytes 0x1C008084 [0x6F, 0, 0, 0] (store_bytes 0x1C008080 [0x13, 0, 0, 0] m) \<and> (\<forall>p. m p = 0 \<or> p < 4)"
proof -
  have "serve_start board_init"
    by (simp add: serve_start_def board_init_def uart_wf_def UART_PROTOCOL_CONV_BUF_LEN_def UART_PROTOCOL_MEMORY_WRITE_BUF_LEN_def)
  from a2_main_boots_over_uart [OF slow_board.a2_uart_board_axioms this, of "[0x0D, 0x0A]" demo_file demo_entry "[0x0D, 0x0A]"]
  show ?thesis
    by (simp add: demo_lines demo_memory) (simp add: board_init_def hw_rx_def hw_view_def hw_init_def slow_rest_def line_end_def)
qed

text \<open>The reference device with the selection strapped high.\<close>

definition high_bus :: "hw a2_bus" where
  "high_bus = hw_bus\<lparr>bus_rd := (\<lambda>r me. if r = Soc_bootsel then (1, me) else hw_rd r me)\<rparr>"

lemma high_bus_same: "start_read high_bus = start_read hw_bus" "send_cmds high_bus = send_cmds hw_bus"
  "bus_rd high_bus (Qspi q r) = bus_rd hw_bus (Qspi q r)"
  by (simp_all add: fun_eq_iff start_read_def send_cmds_def high_bus_def hw_bus_def)

interpretation high_boot: boot_hw high_bus hw_rx hw_tx "hw_idle flash" hw_busy hw_ready flash "hw_todo flash" h_left hw_uobs
proof unfold_locales
  fix e :: hw and l n a k :: u32 and ws xs :: "u32 list" and m :: mem
  assume "hw_idle flash e" "4 * length ws = unat k" "spi_out ws = read_request a" "spi_in ws = unat n"
  then show "\<exists>e'. start_read high_bus l n (ws @ xs) k (m, e) = (m, e') \<and>
      hw_todo flash e' = Some (l, flash_bytes flash a (unat n)) \<and> hw_uobs e' = hw_uobs e"
    unfolding high_bus_same by (rule hw_flash.read_starts)
next
  fix e :: hw and l :: u32 and ds :: "u8 list" and m :: mem
  assume "hw_todo flash e = Some (l, ds)"
  then show "\<exists>v m' e'. bus_rd high_bus (Qspi 0 rx_size) (m, e) = (v, m', e') \<and> hw_uobs e' = hw_uobs e \<and>
      (if v = 0 then m' = store_bytes l ds m \<and> hw_idle flash e'
       else h_left e' < h_left e \<and> hw_todo flash e' = Some (l, ds) \<and> store_bytes l ds m' = store_bytes l ds m)"
    unfolding high_bus_same by (rule hw_flash.read_polls)
qed (auto simp: high_bus_def hw_bus_def hw_rx_def hw_tx_def hw_busy_def hw_ready_def hw_idle_def uart_obs_def quiet_def
      sent_def split: list.splits)

definition high_reading :: "mem \<Rightarrow> hw \<Rightarrow> bool" where
  "high_reading flash h \<longleftrightarrow> (\<exists>ds. h_todo h = Some (0, ds) \<and> length ds = 4) \<and> h_flash h = flash"

interpretation high_board: a2_board high_bus hw_rx hw_tx "hw_idle flash" hw_busy True "high_reading flash" h_left
proof unfold_locales
  fix r e m v
  assume "startup_reg r" "hw_idle flash e"
  then show "\<exists>v e'. bus_rd high_bus r (m, e) = (v, m, e') \<and> hw_idle flash e'"
    and "\<exists>e'. bus_wr high_bus r v (m, e) = (m, e') \<and> hw_idle flash e'"
    by (cases r; auto simp: startup_reg_def high_bus_def hw_bus_def hw_idle_def)+
next
  fix e m
  assume "high_reading flash e"
  then show "\<exists>v m' e'. bus_rd high_bus (Qspi 0 rx_size) (m, e) = (v, m', e') \<and> (\<forall>p. 4 \<le> p \<longrightarrow> m' p = m p) \<and>
      (if v = 0 then hw_idle flash e' else high_reading flash e' \<and> h_left e' < h_left e)"
    by (cases "h_left e = 0") (auto simp: high_bus_def hw_bus_def hw_idle_def high_reading_def first_bytes_only
        intro: exI [of _ "1 :: u32"])
qed (auto simp: high_bus_def hw_bus_def hw_idle_def high_reading_def send_cmds_def start_read_def Let_def split: if_splits)

theorem a2_main_boots_from_flash_witness:
  "\<exists>s'. a2_main \<lparr>UDMA_CTRL_UART0_CLKEN = 1, UDMA_CTRL_QSPIM0_CLKEN = 4\<rparr>
      \<lparr>b_date = str ''Jan  1 2021'', b_time = str ''12:00:00'', b_bootCode = 0x1C010000\<rparr> high_bus boot_init =
      Some (JumpTo (hdr_entry (img_header demo_flash)), s') \<and>
    (\<forall>a \<in> set (img_areas demo_flash).
       load_bytes (area_ptr a) (unat (area_size a)) (ram s') = load_bytes (area_start a) (unat (area_size a)) demo_flash)"
  by (rule a2_main_boots_from_flash [OF high_boot.boot_hw_axioms high_board.a2_board_axioms boot_init_idle demo_wf])

text \<open>The same device without a flash.\<close>

theorem absent_flash_not_detected_witness:
  "\<exists>s'. a2_main \<lparr>UDMA_CTRL_UART0_CLKEN = 1, UDMA_CTRL_QSPIM0_CLKEN = 4\<rparr>
      \<lparr>b_date = str ''Jan  1 2021'', b_time = str ''12:00:00'', b_bootCode = 0x1C010000\<rparr> high_bus
      (boot_init\<lparr>ext := hw_init\<lparr>h_flash := no_flash\<rparr>\<rparr>) = Some (Undefined OutOfBounds, s')"
  by (rule absent_flash_not_detected [OF high_boot.boot_hw_axioms high_board.a2_board_axioms])
    (simp add: hw_idle_def hw_init_def)

end
