(* ===== verification/A2_I2c_Session.thy ===== *)
theory A2_I2c_Session
  imports A2_Session
begin

text \<open>
  A boot session over the I2C slave. Here the host takes part step by step: it posts a command in
  the mailbox whenever the last one has been taken out, and the rounds of the service loop go on in
  between, in any order. The session is an inductive step relation; the invariant says what has
  been done with the commands posted so far, and the property that every round returns, and which
  round ends the loop.
\<close>

section \<open>The host\<close>

datatype host_cmd = Ready_check | Load u32 "u8 list" | Jump u32

fun cmd_message :: "host_cmd \<Rightarrow> u8" where
  "cmd_message Ready_check = A2_I2C_BL_WITH_CRC_IS_READY_CHECK_CMD"
| "cmd_message _ = I2C_NEW_FRAME_READY_BYTE"

fun cmd_frame :: "host_cmd \<Rightarrow> u8 list" where
  "cmd_frame Ready_check = []"
| "cmd_frame (Load a ds) = host_frame a A2_LOAD_MEMORY_CMD ds"
| "cmd_frame (Jump a) = host_frame a A2_JUMP_TO_ADDRESS_CMD []"

fun cmd_place :: "host_cmd \<Rightarrow> mem \<Rightarrow> mem" where
  "cmd_place (Load a ds) m = store_bytes a ds m"
| "cmd_place _ m = m"

text \<open>A host asks for the bootloader with CRC, loads the pieces of its program and starts it.\<close>

definition boot_cmds :: "(u32 \<times> u8 list) list \<Rightarrow> u32 \<Rightarrow> host_cmd list" where
  "boot_cmds ls entry = Ready_check # map (\<lambda>(a, ds). Load a ds) ls @ [Jump entry]"

lemma boot_cmds_split:
  assumes "boot_cmds ls entry = d @ c # cs"
  obtains (check) "d = []" "c = Ready_check" "cs \<noteq> []"
  | (load) a ds where "d \<noteq> []" "c = Load a ds" "(a, ds) \<in> set ls" "cs \<noteq> []"
  | (jump) "d = Ready_check # map (\<lambda>(a, ds). Load a ds) ls" "c = Jump entry" "cs = []"
proof (cases d)
  case Nil
  with assms check show ?thesis by (auto simp: boot_cmds_def)
next
  case (Cons x d')
  then have eq: "map (\<lambda>(a, ds). Load a ds) ls @ [Jump entry] = d' @ c # cs" and x: "x = Ready_check"
    using assms by (simp_all add: boot_cmds_def)
  show ?thesis
  proof (cases cs rule: rev_cases)
    case Nil
    with eq Cons x jump show ?thesis by auto
  next
    case (snoc cs' y)
    with eq have "map (\<lambda>(a, ds). Load a ds) ls = d' @ c # cs'"
      by (metis append_Cons append_assoc append_eq_append_conv_if append_same_eq butlast_snoc)
    then have "c \<in> (\<lambda>(a, ds). Load a ds) ` set ls" by (metis in_set_conv_decomp list.set_map)
    with Cons snoc load show ?thesis by auto
  qed
qed

inductive i2c_session ::
  "'e a2_bus \<Rightarrow> u8 list \<Rightarrow> ('e \<Rightarrow> i2cs_view) \<Rightarrow> (host_cmd \<Rightarrow> 'e \<Rightarrow> 'e) \<Rightarrow> host_cmd list \<Rightarrow> u32 \<Rightarrow> ('e, 'z) i2c_globals_scheme \<Rightarrow>
   host_cmd list \<Rightarrow> u32 \<Rightarrow> ('e, 'z) i2c_globals_scheme \<Rightarrow> bool"
  for b t view post cs0 n0 s0 where
  entered: "i2c_session b t view post cs0 n0 s0 cs0 n0 s0"
| posts: "i2c_session b t view post cs0 n0 s0 (c # cs) n s \<Longrightarrow> \<not> pending (view (ext s)) \<Longrightarrow>
    i2c_session b t view post cs0 n0 s0 cs n (s\<lparr>ext := post c (ext s)\<rparr>)"
| round: "i2c_session b t view post cs0 n0 s0 cs n s \<Longrightarrow> a2_poll b t n s = Some (Continue, n', s') \<Longrightarrow>
    i2c_session b t view post cs0 n0 s0 cs n' s'"

section \<open>One round\<close>

lemma a2_poll_parts:
  assumes "rd b Soc_jtagreg s = (1, s1)"
  shows "a2_poll b t n s = do {
     (x, s) \<leftarrow> (if gStopUartBootLoaderFlg s1 = 0 then processUartProtocolFrames b s1 else Some (Continue, s1));
     if x \<noteq> Continue then Some (x, n, s) else a2_poll_rest b t n s
   }"
  using assms unfolding a2_poll_rest_def by (simp add: a2_poll_def)

locale i2c_host = uart_host b rx tx view jtag busy ready gap
  for b :: "'e a2_bus" and rx tx :: "u8 \<Rightarrow> 'e \<Rightarrow> u8 list" and view :: "'e \<Rightarrow> i2cs_view" and jtag :: "'e \<Rightarrow> u32"
    and busy :: "u8 \<Rightarrow> 'e \<Rightarrow> nat" and ready :: "u8 \<Rightarrow> 'e \<Rightarrow> bool" and gap :: "'e \<Rightarrow> nat" +
  fixes post :: "host_cmd \<Rightarrow> 'e \<Rightarrow> 'e"
  assumes post_view: "view (post c e) =
      (view e)\<lparr>pending := True, message := cmd_message c, inq := inq (view e) @ cmd_frame c\<rparr>"
    and post_others: "rx u (post c e) = rx u e" "jtag (post c e) = jtag e"
begin

text \<open>With nothing on the UART a round comes to the mailbox with everything as it was.\<close>

lemma mailbox_reached:
  assumes "rx 0 (ext s) = []" and "jtag (ext s) = 1"
  shows "\<exists>e'. a2_poll b t n s = a2_poll_rest b t n (s\<lparr>ext := e'\<rparr>) \<and>
    rx 0 e' = [] \<and> jtag e' = 1 \<and> view e' = view (ext s)"
proof -
  obtain e1 where 1: "rd b Soc_jtagreg s = (1, s\<lparr>ext := e1\<rparr>)" "rx 0 e1 = []" "jtag e1 = 1" "view e1 = view (ext s)"
    using jtag_rd [of "ram s" "ext s"] assms by (auto simp: rd_def uart_obs_def)
  obtain s2 where 2: "udma_uart_readraw b 0 0 (s\<lparr>ext := e1\<rparr>) = (0, 0, s2)"
      "uart_eff rx tx (\<lambda>e. (view e, jtag e)) quiet (s\<lparr>ext := e1\<rparr>) s2"
  proof (rule u.read_cases [of 0 0 "s\<lparr>ext := e1\<rparr>"])
    fix c s'
    assume "uart_got rx tx (\<lambda>e. (view e, jtag e)) 0 c (s\<lparr>ext := e1\<rparr>) s'"
    with 1(2) show thesis by (auto simp: uart_got_def)
  qed (rule that)
  then obtain e2 where e2: "s2 = s\<lparr>ext := e2\<rparr>" "rx 0 e2 = []" "jtag e2 = 1" "view e2 = view (ext s)"
    using 1 by (auto simp: uart_eff_def uart_obs_def)
  show ?thesis
  proof (cases "gStopUartBootLoaderFlg s = 0")
    case True
    with a2_poll_parts [OF 1(1), of t n] 2(1) e2 show ?thesis
      by (intro exI [of _ e2]) (simp add: processUartProtocolFrames_def)
  next
    case False
    with a2_poll_parts [OF 1(1), of t n] 1 show ?thesis by (intro exI [of _ e1]) simp
  qed
qed

lemma rest_after:
  assumes "gStopI2CBootLoaderFlg s = 0" and "processI2CProtocolFrames b s = Some (Continue, s1)"
  shows "\<exists>n' e'. a2_poll_rest b t n s = Some (Continue, n', s1\<lparr>ext := e'\<rparr>) \<and> talk rx tx (\<lambda>e. (view e, jtag e)) (ext s1) e'"
proof -
  obtain e2 where 2: "(if gStopUartMsgFlg s1 = 0
        then do { s \<leftarrow> dbg_str b t s1; (_, s) \<leftarrow> sendUartBootMeFrame b s; Some s }
        else Some s1) = Some (s1\<lparr>ext := e2\<rparr>)" "talk rx tx (\<lambda>e. (view e, jtag e)) (ext s1) e2"
    using invitation [of t s1] that [of "ext s1"] by (cases "gStopUartMsgFlg s1 = 0") (auto simp: idle_for_def)
  with assms show ?thesis
    by (cases "n + 1 \<ge> 90000") (auto simp: a2_poll_rest_def intro: exI [of _ "ext s1"])
qed

end

section \<open>The invariant of a session\<close>

text \<open>
  \<open>d\<close> are the commands posted so far. When the mailbox is empty all of them have been carried out,
  otherwise all but the last, which stands in the mailbox and the FIFO.
\<close>

definition i2c_serving :: "i2c_kept" where
  "i2c_serving = \<lparr>i2c_flag = 0, msg_silent = False, uart_stopped = False\<rparr>"

definition carried_out :: "host_cmd list \<Rightarrow> mem \<Rightarrow> ('e, 'z) i2c_globals_scheme \<Rightarrow> bool" where
  "carried_out d m0 s \<longleftrightarrow> i2c_inv i2c_serving s \<and> ram s = fold cmd_place d m0 \<and> (d \<noteq> [] \<longrightarrow> gUseCRCFlg s = 1)"

definition session_inv ::
  "(u8 \<Rightarrow> 'e \<Rightarrow> u8 list) \<Rightarrow> ('e \<Rightarrow> u32) \<Rightarrow> ('e \<Rightarrow> i2cs_view) \<Rightarrow> host_cmd list \<Rightarrow> mem \<Rightarrow> ('e, 'z) i2c_globals_scheme \<Rightarrow> bool" where
  "session_inv rx jtag view d m0 s \<longleftrightarrow> rx 0 (ext s) = [] \<and> jtag (ext s) = 1 \<and>
     (if pending (view (ext s))
      then \<exists>d' c. d = d' @ [c] \<and> carried_out d' m0 s \<and> message (view (ext s)) = cmd_message c \<and>
             inq (view (ext s)) = cmd_frame c
      else carried_out d m0 s \<and> inq (view (ext s)) = [])"

lemma carried_out_ext [simp]: "carried_out d m0 (s\<lparr>ext := e\<rparr>) = carried_out d m0 s"
  by (simp add: carried_out_def i2c_inv_def uart_wf_def i2c_wf_def)

lemma carried_out_facts:
  "carried_out d m0 s \<Longrightarrow> i2c_wf s \<and> gStopI2CBootLoaderFlg s = 0"
  by (simp add: carried_out_def i2c_inv_def i2c_serving_def)

lemma carried_out_next:
  assumes "processI2CProtocolFrames b s = Some (x, s')" and "carried_out d m0 s"
    and "ram s' = cmd_place c (ram s)" and "gUseCRCFlg s' = 1"
  shows "carried_out (d @ [c]) m0 s'"
  using assms i2c_process_inv [OF assms(1)] by (simp add: carried_out_def)

context i2c_host
begin

abbreviation inv :: "host_cmd list \<Rightarrow> mem \<Rightarrow> ('e, 'z) i2c_globals_scheme \<Rightarrow> bool" where
  "inv \<equiv> session_inv rx jtag view"

text \<open>A round with a command that is carried out and answered.\<close>

lemma round_serves:
  assumes "processI2CProtocolFrames b s = Some (Continue, s1)" and "carried_out d m0 s"
    and "ram s1 = cmd_place c (ram s)" and "gUseCRCFlg s1 = 1"
    and "\<not> pending (view (ext s1))" and "inq (view (ext s1)) = []" and "rx 0 (ext s1) = []" and "jtag (ext s1) = 1"
  shows "\<exists>n' s'. a2_poll_rest b t n s = Some (Continue, n', s') \<and> inv (d @ [c]) m0 s' \<and> \<not> pending (view (ext s'))"
proof -
  obtain n' e' where 1: "a2_poll_rest b t n s = Some (Continue, n', s1\<lparr>ext := e'\<rparr>)"
      "talk rx tx (\<lambda>e. (view e, jtag e)) (ext s1) e'"
    using rest_after [OF _ assms(1)] carried_out_facts [OF assms(2)] by blast
  with talk_same [OF 1(2)] carried_out_next [OF assms(1-4)] assms(5-8) show ?thesis
    by (auto simp: session_inv_def)
qed

lemma round_idle:
  assumes "inv d m0 s" and "\<not> pending (view (ext s))"
  shows "\<exists>n' s'. a2_poll b t n s = Some (Continue, n', s') \<and> inv d m0 s'"
proof -
  have i: "rx 0 (ext s) = []" "jtag (ext s) = 1" "carried_out d m0 s" "inq (view (ext s)) = []"
    using assms by (simp_all add: session_inv_def)
  obtain e1 where 1: "a2_poll b t n s = a2_poll_rest b t n (s\<lparr>ext := e1\<rparr>)"
      "rx 0 e1 = []" "jtag e1 = 1" "view e1 = view (ext s)"
    using mailbox_reached [OF i(1,2)] by blast
  obtain n' e2 where 2: "a2_poll_rest b t n (s\<lparr>ext := e1\<rparr>) = Some (Continue, n', s\<lparr>ext := e2\<rparr>)" "idle_for (s\<lparr>ext := e1\<rparr>) e2"
    using poll_rest [of "s\<lparr>ext := e1\<rparr>" t n] assms(2) 1(4) by auto
  then have "talk rx tx (\<lambda>e. (view e, jtag e)) e1 e2" by (simp add: idle_for_def)
  from talk_same [OF this] 1 2(1) i(3,4) assms(2) show ?thesis by (auto simp: session_inv_def)
qed

lemma round_command:
  assumes "inv d m0 s" and "pending (view (ext s))" and "boot_cmds ls entry = d @ cs"
    and "list_all (\<lambda>(a, ds). length ds \<le> 246) ls"
  shows "\<exists>x n' s'. a2_poll b t n s = Some (x, n', s') \<and>
    (if cs = [] then x = JumpTo entry \<and> ram s' = fold (\<lambda>(a, ds). store_bytes a ds) ls m0
     else x = Continue \<and> inv d m0 s' \<and> \<not> pending (view (ext s')))"
proof -
  obtain d' c where i: "rx 0 (ext s) = []" "jtag (ext s) = 1" "d = d' @ [c]" "carried_out d' m0 s"
      "message (view (ext s)) = cmd_message c" "inq (view (ext s)) = cmd_frame c"
    using assms(1,2) by (auto simp: session_inv_def)
  obtain e1 where 1: "a2_poll b t n s = a2_poll_rest b t n (s\<lparr>ext := e1\<rparr>)"
      "rx 0 e1 = []" "jtag e1 = 1" "view e1 = view (ext s)"
    using mailbox_reached [OF i(1,2)] by blast
  let ?s = "s\<lparr>ext := e1\<rparr>"
  have wf: "i2c_wf ?s" "gStopI2CBootLoaderFlg ?s = 0" "carried_out d' m0 ?s"
    using carried_out_facts [OF i(4)] i(4) by (simp_all add: i2c_wf_def)
  have hw: "i2cs_hw b view (\<lambda>e. (\<lambda>u. rx u e, \<lambda>u. tx u e, jtag e))" by (rule i.i2cs_hw_axioms)
  have split: "boot_cmds ls entry = d' @ c # cs" using assms(3) i(3) by simp
  then show ?thesis
  proof (cases rule: boot_cmds_split)
    case check
    obtain s1 where 2: "processI2CProtocolFrames b ?s = Some (Continue, s1)" "ram s1 = ram s" "gUseCRCFlg s1 = 1"
        "view (ext s1) = (view e1)\<lparr>pending := False, posted := posted (view e1) @ [A2_I2C_BL_IS_READY_CHECK_RSP_YES]\<rparr>"
        "(\<lambda>u. rx u (ext s1), \<lambda>u. tx u (ext s1), jtag (ext s1)) = (\<lambda>u. rx u e1, \<lambda>u. tx u e1, jtag e1)"
      using ready_check_processed [OF hw, of ?s True] assms(2) i(5) check 1(4) by auto
    from round_serves [OF 2(1) wf(3), where c = c and t = t and n = n] 2(2-5) check i(3,6) 1(1-4) show ?thesis
      by (auto simp: fun_eq_iff)
  next
    case (load a ds)
    have "gUseCRCFlg s = 1" "length ds \<le> 246"
      using i(4) load assms(4) by (auto simp: carried_out_def list_all_iff)
    then obtain s1 where 2: "processI2CProtocolFrames b ?s = Some (Continue, s1)" "ram s1 = store_bytes a ds (ram s)"
        "gUseCRCFlg s1 = 1"
        "view (ext s1) = (view e1)\<lparr>pending := False, inq := [], posted := posted (view e1) @ [A2_GOOD_FRAME_RCVD]\<rparr>"
        "(\<lambda>u. rx u (ext s1), \<lambda>u. tx u (ext s1), jtag (ext s1)) = (\<lambda>u. rx u e1, \<lambda>u. tx u e1, jtag e1)"
      using load_frame_processed [OF hw, of ?s a ds] assms(2) i(5,6) load 1(4) wf(1) by auto
    from round_serves [OF 2(1) wf(3), where c = c and t = t and n = n] 2(2-5) load i(3) 1(1-3) show ?thesis
      by (auto simp: fun_eq_iff)
  next
    case jump
    have "gUseCRCFlg s = 1" using i(4) jump by (simp add: carried_out_def)
    then obtain s1 where 2: "processI2CProtocolFrames b ?s = Some (JumpTo entry, s1)" "ram s1 = ram s"
      using jump_frame_processed [OF hw u.uart_tx_axioms, of ?s entry "[]"] assms(2) i(5,6) jump 1(4) wf(1) by auto
    have "fold cmd_place (map (\<lambda>(a, ds). Load a ds) ls) m0 = fold (\<lambda>(a, ds). store_bytes a ds) ls m0"
      by (induction ls arbitrary: m0) auto
    with 2 1(1) wf(2) jump i(4) show ?thesis by (simp add: a2_poll_rest_def carried_out_def)
  qed
qed

lemma session_keeps:
  assumes "i2c_session b t view post (boot_cmds ls entry) n0 s0 cs n s" and "inv [] m0 s0"
    and "\<not> pending (view (ext s0))" and "list_all (\<lambda>(a, ds). length ds \<le> 246) ls"
  shows "\<exists>d. boot_cmds ls entry = d @ cs \<and> inv d m0 s"
  using assms(1)
proof induction
  case entered
  with assms(2) show ?case by simp
next
  case (posts c cs n s)
  then obtain d where d: "boot_cmds ls entry = d @ c # cs" "inv d m0 s" by blast
  with posts(2) have "inv (d @ [c]) m0 (s\<lparr>ext := post c (ext s)\<rparr>)"
    by (auto simp: session_inv_def post_view post_others)
  with d(1) show ?case by (intro exI [of _ "d @ [c]"]) simp
next
  case (round cs n s n' s')
  then obtain d where d: "boot_cmds ls entry = d @ cs" "inv d m0 s" by blast
  show ?case
  proof (cases "pending (view (ext s))")
    case True
    from round_command [OF d(2) True d(1) assms(4), where t = t and n = n] round(2) d(1) show ?thesis
      by (auto split: if_splits)
  next
    case False
    from round_idle [OF d(2) False, where t = t and n = n] round(2) d(1) show ?thesis by auto
  qed
qed

text \<open>A host that posts its next command as soon as it can reaches the last one.\<close>

lemma session_completes:
  assumes "i2c_session b t view post (boot_cmds ls entry) n0 s0 cs n s" and "inv d m0 s" and "\<not> pending (view (ext s))"
    and "boot_cmds ls entry = d @ cs" and "cs \<noteq> []" and "list_all (\<lambda>(a, ds). length ds \<le> 246) ls"
  shows "\<exists>n' s'. i2c_session b t view post (boot_cmds ls entry) n0 s0 [] n' s' \<and> pending (view (ext s'))"
  using assms
proof (induction cs arbitrary: d n s)
  case (Cons c cs)
  let ?s = "s\<lparr>ext := post c (ext s)\<rparr>"
  have sess: "i2c_session b t view post (boot_cmds ls entry) n0 s0 cs n ?s"
    using Cons.prems(1,3) by (rule i2c_session.posts)
  have pend: "pending (view (ext ?s))" by (simp add: post_view)
  show ?case
  proof (cases "cs = []")
    case True
    with sess pend show ?thesis by blast
  next
    case False
    have inv: "inv (d @ [c]) m0 ?s"
      using Cons.prems(2,3) by (auto simp: session_inv_def post_view post_others)
    have d: "boot_cmds ls entry = (d @ [c]) @ cs" using Cons.prems(4) by simp
    from round_command [OF inv pend d Cons.prems(6), where t = t and n = n] False obtain n' s' where
      "a2_poll b t n ?s = Some (Continue, n', s')" "inv (d @ [c]) m0 s'" "\<not> pending (view (ext s'))" by auto
    with Cons.IH [OF i2c_session.round [OF sess] _ _ d False Cons.prems(6)] show ?thesis by blast
  qed
qed simp

end

section \<open>Property\<close>

text \<open>
  C4. An I2C host that asks for the bootloader with CRC, loads any number of pieces of up to 246 bytes
  and orders a jump, boots the chip, however its commands and the rounds of the loop interleave:
  in every state of such a session the next round returns; it goes on with the loop as long as a
  command is still to be posted or the mailbox is empty, and the round that finds the last command
  ends with a jump to its address, with every piece stored in the order of the host.
\<close>

theorem i2c_host_boots:
  assumes "i2c_host b rx tx view jtag busy ready gap post"
    and "serving n0 s0" and "gStopI2CBootLoaderFlg s0 = 0"
    and "rx 0 (ext s0) = []" and "jtag (ext s0) = 1" and "\<not> pending (view (ext s0))" and "inq (view (ext s0)) = []"
    and "list_all (\<lambda>(a, ds). length ds \<le> 246) ls"
    and "i2c_session b t view post (boot_cmds ls entry) n0 s0 cs n s"
  shows "\<exists>x n' s'. a2_poll b t n s = Some (x, n', s') \<and>
    (if cs = [] \<and> pending (view (ext s))
     then x = JumpTo entry \<and> ram s' = fold (\<lambda>(a, ds). store_bytes a ds) ls (ram s0)
     else x = Continue)"
proof -
  have "session_inv rx jtag view [] (ram s0) s0"
    using assms(2-7) by (simp add: session_inv_def carried_out_def i2c_inv_def i2c_serving_def serving_def)
  then obtain d where d: "boot_cmds ls entry = d @ cs" "session_inv rx jtag view d (ram s0) s"
    using i2c_host.session_keeps [OF assms(1,9) _ assms(6,8)] by blast
  show ?thesis
  proof (cases "pending (view (ext s))")
    case True
    from i2c_host.round_command [OF assms(1) d(2) True d(1) assms(8), of t n] True show ?thesis
      by (auto split: if_splits)
  next
    case False
    from i2c_host.round_idle [OF assms(1) d(2) False, of t n] False show ?thesis by auto
  qed
qed

text \<open>The reference device with a host that posts into it.\<close>

definition slow_post :: "host_cmd \<Rightarrow> hw \<times> nat \<Rightarrow> hw \<times> nat" where
  "slow_post c = (\<lambda>(h, k). (h\<lparr>h_i2cs := (h_i2cs h)\<lparr>pending := True, message := cmd_message c,
     inq := inq (h_i2cs h) @ cmd_frame c\<rparr>\<rparr>, k))"

interpretation slow_i2c: i2c_host slow_bus "\<lambda>u e. hw_rx u (fst e)" "\<lambda>u e. hw_tx u (fst e)" "\<lambda>e. hw_view (fst e)"
  "\<lambda>e. h_jtag (fst e)" "\<lambda>u e. hw_busy u (fst e)" "\<lambda>u e. hw_ready u (fst e)" snd slow_post
  by unfold_locales (auto simp: slow_post_def hw_view_def hw_rx_def)

definition i2c_session_init :: "(hw \<times> nat) i2c_globals" where
  "i2c_session_init = session_init\<lparr>ext := (hw_init\<lparr>h_jtag := 1\<rparr>, 0)\<rparr>"

lemma i2c_session_init:
  "serving 0 i2c_session_init" "gStopI2CBootLoaderFlg i2c_session_init = 0" "hw_rx 0 (fst (ext i2c_session_init)) = []"
  "h_jtag (fst (ext i2c_session_init)) = 1" "\<not> pending (hw_view (fst (ext i2c_session_init)))"
  "inq (hw_view (fst (ext i2c_session_init))) = []" "ram i2c_session_init = (\<lambda>_. 0)"
  by (simp_all add: i2c_session_init_def session_init_def hw_init_def hw_view_def hw_rx_def serving_def uart_wf_def i2c_wf_def
      UART_PROTOCOL_CONV_BUF_LEN_def UART_PROTOCOL_MEMORY_WRITE_BUF_LEN_def)

theorem i2c_host_boots_witness:
  "\<exists>n s n' s'. i2c_session slow_bus [] (\<lambda>e. hw_view (fst e)) slow_post
      (boot_cmds [(0x1C008080, [0x13, 0, 0, 0]), (0x1C008084, [0x6F, 0, 0, 0])] 0x1C008080) 0 i2c_session_init [] n s \<and>
    a2_poll slow_bus [] n s = Some (JumpTo 0x1C008080, n', s') \<and>
    ram s' = store_bytes 0x1C008084 [0x6F, 0, 0, 0] (store_bytes 0x1C008080 [0x13, 0, 0, 0] (\<lambda>_. 0))"
proof -
  let ?ls = "[(0x1C008080, [0x13, 0, 0, 0]), (0x1C008084, [0x6F, 0, 0, 0])] :: (u32 \<times> u8 list) list"
  have "session_inv (\<lambda>u e. hw_rx u (fst e)) (\<lambda>e. h_jtag (fst e)) (\<lambda>e. hw_view (fst e)) [] (\<lambda>_. 0) i2c_session_init"
    using i2c_session_init
    by (simp add: session_inv_def carried_out_def i2c_inv_def i2c_serving_def serving_def)
  then obtain n s where s: "i2c_session slow_bus [] (\<lambda>e. hw_view (fst e)) slow_post (boot_cmds ?ls 0x1C008080) 0 i2c_session_init [] n s"
      "pending (hw_view (fst (ext s)))"
    using slow_i2c.session_completes [OF i2c_session.entered, of "[]" "(\<lambda>_. 0)" i2c_session_init ?ls "0x1C008080"]
      i2c_session_init(5) by (simp add: boot_cmds_def) meson
  from i2c_host_boots [OF slow_i2c.i2c_host_axioms i2c_session_init(1-6) _ s(1)] s show ?thesis
    by (auto simp: i2c_session_init(7))
qed

end
