(* ===== verification/I2cs_Fifo.thy ===== *)
theory I2cs_Fifo
  imports I2C_Frames
begin

text \<open>
  The incoming FIFO of the I2C slave with its depth. The peripheral keeps 256 bytes; a host that goes on
  sending while the bootloader reads puts further bytes into the places that become free. In the
  abstract view of \<open>i2cs_hw\<close> the bytes to be read are then those in the FIFO followed by those still to
  come, since the FIFO is not found empty before. This is the input on which the drain loop, which does
  not look at its index, leaves the receive buffer.
\<close>

section \<open>Contract\<close>

definition to_be_read :: "u8 list \<Rightarrow> u8 list \<Rightarrow> u8 list" where
  "to_be_read queued coming = (if queued = [] then [] else queued @ coming)"

text \<open>
  \<open>fifo\<close> is what the FIFO holds, \<open>coming\<close> what the host sends as soon as there is room; no access makes the FIFO hold more
  than 256 bytes.
\<close>

locale i2cs_fifo = i2cs_hw b "\<lambda>e. (slave e)\<lparr>inq := to_be_read (fifo e) (coming e)\<rparr>" oth
  for b :: "'e a2_bus" and slave :: "'e \<Rightarrow> i2cs_view" and fifo coming :: "'e \<Rightarrow> u8 list" and oth :: "'e \<Rightarrow> 'o" +
  assumes depth: "length (fifo e) \<le> 256 \<Longrightarrow> length (fifo (snd (snd (bus_rd b r (m, e))))) \<le> 256"
begin

lemma sends_on:
  assumes "pending (slave (ext s))" and "message (slave (ext s)) = I2C_NEW_FRAME_READY_BYTE"
    and "fifo (ext s) \<noteq> []" and "256 < length (fifo (ext s)) + length (coming (ext s))" and "i2c_wf s"
  shows "\<exists>s'. processI2CProtocolFrames b s = Some (Undefined OutOfBounds, s') \<and> ram s' = ram s"
  using overrun [of s] assms by (simp add: to_be_read_def)

end

section \<open>A FIFO of 256 bytes\<close>

record fifo_dev =
  f_slave :: i2cs_view
  f_fifo :: "u8 list"
  f_coming :: "u8 list"

text \<open>A byte that is read makes room, and the host fills it.\<close>

definition fifo_pop :: "fifo_dev \<Rightarrow> fifo_dev" where
  "fifo_pop d = (let k = 256 - length (tl (f_fifo d)) in
     d\<lparr>f_fifo := tl (f_fifo d) @ take k (f_coming d), f_coming := drop k (f_coming d)\<rparr>)"

definition fifo_view :: "fifo_dev \<Rightarrow> i2cs_view" where
  "fifo_view d = (f_slave d)\<lparr>inq := to_be_read (f_fifo d) (f_coming d)\<rparr>"

fun fifo_rd :: "a2_reg \<Rightarrow> mem \<times> fifo_dev \<Rightarrow> u32 \<times> mem \<times> fifo_dev" where
  "fifo_rd (I2cs i2cs_msg_i2c_apb_status) (m, d) = (if pending (f_slave d) then 1 else 0, m, d)"
| "fifo_rd (I2cs i2cs_msg_i2c_apb) (m, d) =
     (ucast (message (f_slave d)), m, d\<lparr>f_slave := (f_slave d)\<lparr>pending := False\<rparr>\<rparr>)"
| "fifo_rd (I2cs i2cs_fifo_i2c_apb_read_flags) (m, d) = (if f_fifo d = [] then 0 else 1, m, d)"
| "fifo_rd (I2cs i2cs_fifo_i2c_apb_read_data_port) (m, d) =
     (if f_fifo d = [] then (0, m, d) else (ucast (hd (f_fifo d)), m, fifo_pop d))"
| "fifo_rd _ md = (0, md)"

fun fifo_wr :: "a2_reg \<Rightarrow> u32 \<Rightarrow> mem \<times> fifo_dev \<Rightarrow> mem \<times> fifo_dev" where
  "fifo_wr (I2cs r) v (m, d) = (m, d\<lparr>f_slave := hw_i2cs_wr r v (f_slave d)\<rparr>)"
| "fifo_wr _ v md = md"

definition fifo_bus :: "fifo_dev a2_bus" where
  "fifo_bus = \<lparr>bus_rd = fifo_rd, bus_wr = fifo_wr, bus_wp = \<lambda>_ _ md. md\<rparr>"

lemma fifo_rd_depth:
  "length (f_fifo (snd md)) \<le> 256 \<Longrightarrow> length (f_fifo (snd (snd (fifo_rd r md)))) \<le> 256"
  by (induction r md rule: fifo_rd.induct) (auto simp: fifo_pop_def Let_def)

lemma fifo_pop_view: "f_fifo d = c # cs \<Longrightarrow> to_be_read (f_fifo (fifo_pop d)) (f_coming (fifo_pop d)) = cs @ f_coming d"
  by (auto simp: fifo_pop_def to_be_read_def Let_def)

interpretation fifo_slave: i2cs_fifo fifo_bus f_slave f_fifo f_coming "\<lambda>d. ()"
proof unfold_locales
  fix m :: mem and d :: fifo_dev and c cs
  assume "inq ((f_slave d)\<lparr>inq := to_be_read (f_fifo d) (f_coming d)\<rparr>) = c # cs"
  then obtain xs where d: "f_fifo d = c # xs" "cs = xs @ f_coming d"
    by (cases "f_fifo d") (auto simp: to_be_read_def)
  have "f_slave (fifo_pop d) = f_slave d" by (simp add: fifo_pop_def Let_def)
  with d fifo_pop_view [OF d(1)]
  show "\<exists>e'. bus_rd fifo_bus (I2cs i2cs_fifo_i2c_apb_read_data_port) (m, d) = (ucast c, m, e') \<and>
      (f_slave e')\<lparr>inq := to_be_read (f_fifo e') (f_coming e')\<rparr> =
      (f_slave d)\<lparr>inq := to_be_read (f_fifo d) (f_coming d), inq := cs\<rparr> \<and> () = ()"
    by (simp add: fifo_bus_def)
next
  fix m :: mem and d :: fifo_dev and r
  assume "length (f_fifo d) \<le> 256"
  then show "length (f_fifo (snd (snd (bus_rd fifo_bus r (m, d))))) \<le> 256"
    using fifo_rd_depth [of "(m, d)" r] by (simp add: fifo_bus_def)
qed (auto simp: fifo_bus_def to_be_read_def)

section \<open>Properties\<close>

text \<open>
  C34. A host that goes on sending while the bootloader drains the FIFO, which holds no more than 256
  bytes at any time, makes the drain loop write past the end of the 256 byte receive buffer as soon as more than 256 bytes
  come before the FIFO is once found empty; no memory has been written by then.
\<close>

theorem i2c_fifo_overrun:
  assumes "i2cs_fifo b slave fifo coming oth" and "pending (slave (ext s))"
    and "message (slave (ext s)) = I2C_NEW_FRAME_READY_BYTE"
    and "fifo (ext s) \<noteq> []" and "length (fifo (ext s)) \<le> 256" and "256 < length (fifo (ext s)) + length (coming (ext s))" and "i2c_wf s"
  shows "\<exists>s'. processI2CProtocolFrames b s = Some (Undefined OutOfBounds, s') \<and> ram s' = ram s"
  using i2cs_fifo.sends_on [OF assms(1-4,6,7)] .

text \<open>A full FIFO, and one byte more that the host sends as soon as the first has been read.\<close>

definition overrun_run :: "fifo_dev i2c_globals" where
  "overrun_run = \<lparr>ram = (\<lambda>_. 0),
     ext = \<lparr>f_slave = \<lparr>pending = True, message = I2C_NEW_FRAME_READY_BYTE, inq = [], outq = [], posted = []\<rparr>,
       f_fifo = replicate 256 0, f_coming = [0]\<rparr>,
     gStopUartMsgFlg = 0, gStopUartBootLoaderFlg = 0,
     gStopI2CBootLoaderFlg = 0, gsUartProtocolConvToHexBuf = replicate 512 0, gsMemoryWriteBuf = replicate 256 0,
     gsUart0FillIndex = 0, gsUart0ProtocolState = UART0_PROTOCOL_STATE_IDLE, gsSRecordType = 0,
     gsDestinationAddress = 0, gsDestinationAddressSizeInBytes = 0, gsTotalCountInBytes = 0,
     gsDataCountInBytes = 0, gsMemoryWriteBufIndex = 0, gsDataRxdCounterInCharacters = 0, gsCRCVal = 0,
     gsCalculatedChkSum = 0, gsI2CProtocolFrameRxBuf = replicate 256 0, gUseCRCFlg = 1,
     gsI2CProtocolFrameTxBuf = replicate 16 0, gsI2CProtocolFrameCounter = 0, lastSentFrameSize = 0,
     crcTable = crcInit (replicate 256 0)\<rparr>"

theorem i2c_fifo_overrun_witness:
  "\<exists>s'. processI2CProtocolFrames fifo_bus overrun_run = Some (Undefined OutOfBounds, s') \<and> ram s' = ram overrun_run"
  by (rule i2c_fifo_overrun [OF fifo_slave.i2cs_fifo_axioms]) (simp_all add: overrun_run_def i2c_wf_def)

end
