(* ===== verification/Pulp_Io.thy ===== *)
theory Pulp_Io
  imports Machine
begin

text \<open>
  Access to the peripherals of the PULPissimo platform, on which the first bootloader runs:
  \<^verbatim>\<open>hal/pulp_io.h\<close>, \<^verbatim>\<open>archi/utils.h\<close>, \<^verbatim>\<open>archi/chips/pulpissimo/memory_map.h\<close> and the control and
  status register instructions of \<^verbatim>\<open>hal/riscv/riscv_v5.h\<close>. A location of the bus is an address with
  the width of the access, a control and status register, or the wait-for-interrupt instruction,
  during which the peripherals go on. Base and offset are added in 32 bits.
\<close>

datatype pulp_loc = M32 u32 | M16 u32 | M8 u32 | Csr u32 | Wfi

type_synonym 'e pulp_bus = "(pulp_loc, 'e) bus"

section \<open>Loads and stores\<close>

definition pulp_write8 :: "'e pulp_bus \<Rightarrow> u32 \<Rightarrow> u32 \<Rightarrow> ('e, 'z) machine_scheme \<Rightarrow> ('e, 'z) machine_scheme" where
  "pulp_write8 b add val = wr b (M8 add) (val AND 0xFF)"

definition pulp_write16 :: "'e pulp_bus \<Rightarrow> u32 \<Rightarrow> u32 \<Rightarrow> ('e, 'z) machine_scheme \<Rightarrow> ('e, 'z) machine_scheme" where
  "pulp_write16 b add val = wr b (M16 add) (val AND 0xFFFF)"

definition pulp_write32 :: "'e pulp_bus \<Rightarrow> u32 \<Rightarrow> u32 \<Rightarrow> ('e, 'z) machine_scheme \<Rightarrow> ('e, 'z) machine_scheme" where
  "pulp_write32 b add val = wr b (M32 add) val"

definition pulp_read8 :: "'e pulp_bus \<Rightarrow> u32 \<Rightarrow> ('e, 'z) machine_scheme \<Rightarrow> u32 \<times> ('e, 'z) machine_scheme" where
  "pulp_read8 b add s = (case rd b (M8 add) s of (v, s) \<Rightarrow> (v AND 0xFF, s))"

definition pulp_read16 :: "'e pulp_bus \<Rightarrow> u32 \<Rightarrow> ('e, 'z) machine_scheme \<Rightarrow> u32 \<times> ('e, 'z) machine_scheme" where
  "pulp_read16 b add s = (case rd b (M16 add) s of (v, s) \<Rightarrow> (v AND 0xFFFF, s))"

definition pulp_read32 :: "'e pulp_bus \<Rightarrow> u32 \<Rightarrow> ('e, 'z) machine_scheme \<Rightarrow> u32 \<times> ('e, 'z) machine_scheme" where
  "pulp_read32 b add = rd b (M32 add)"

definition IP_WRITE ::
  "'e pulp_bus \<Rightarrow> u32 \<Rightarrow> u32 \<Rightarrow> u32 \<Rightarrow> ('e, 'z) machine_scheme \<Rightarrow> ('e, 'z) machine_scheme" where
  "IP_WRITE b base offset value = pulp_write32 b (base + offset) value"

definition IP_READ ::
  "'e pulp_bus \<Rightarrow> u32 \<Rightarrow> u32 \<Rightarrow> ('e, 'z) machine_scheme \<Rightarrow> u32 \<times> ('e, 'z) machine_scheme" where
  "IP_READ b base offset = pulp_read32 b (base + offset)"

definition ARCHI_WRITE ::
  "'e pulp_bus \<Rightarrow> u32 \<Rightarrow> u32 \<Rightarrow> u32 \<Rightarrow> ('e, 'z) machine_scheme \<Rightarrow> ('e, 'z) machine_scheme" where
  "ARCHI_WRITE b base offset value = wr b (M32 (base + offset)) value"

definition ARCHI_READ ::
  "'e pulp_bus \<Rightarrow> u32 \<Rightarrow> u32 \<Rightarrow> ('e, 'z) machine_scheme \<Rightarrow> u32 \<times> ('e, 'z) machine_scheme" where
  "ARCHI_READ b base offset = rd b (M32 (base + offset))"

lemmas access_defs = pulp_write8_def pulp_write16_def pulp_write32_def pulp_read8_def pulp_read16_def
  pulp_read32_def IP_WRITE_def IP_READ_def ARCHI_WRITE_def ARCHI_READ_def

section \<open>Memory map\<close>

definition ARCHI_SOC_PERIPHERALS_ADDR :: u32 where "ARCHI_SOC_PERIPHERALS_ADDR = 0x1A100000"
definition ARCHI_FC_TIMER_SIZE :: u32 where "ARCHI_FC_TIMER_SIZE = 0x800"
definition ARCHI_FLL_OFFSET :: u32 where "ARCHI_FLL_OFFSET = 0"
definition ARCHI_GPIO_OFFSET :: u32 where "ARCHI_GPIO_OFFSET = 0x1000"
definition ARCHI_UDMA_OFFSET :: u32 where "ARCHI_UDMA_OFFSET = 0x2000"
definition ARCHI_APB_SOC_CTRL_OFFSET :: u32 where "ARCHI_APB_SOC_CTRL_OFFSET = 0x4000"
definition ARCHI_SOC_EU_OFFSET :: u32 where "ARCHI_SOC_EU_OFFSET = 0x6000"
definition ARCHI_FC_ITC_OFFSET :: u32 where "ARCHI_FC_ITC_OFFSET = 0x9800"
definition ARCHI_FC_TIMER_OFFSET :: u32 where "ARCHI_FC_TIMER_OFFSET = 0xB000"
definition ARCHI_FC_HWPE_OFFSET :: u32 where "ARCHI_FC_HWPE_OFFSET = 0xC000"
definition ARCHI_STDOUT_OFFSET :: u32 where "ARCHI_STDOUT_OFFSET = 0xF000"
definition ARCHI_FLL_AREA_SIZE :: u32 where "ARCHI_FLL_AREA_SIZE = 0x10"

definition ARCHI_GPIO_ADDR :: u32 where "ARCHI_GPIO_ADDR = ARCHI_SOC_PERIPHERALS_ADDR + ARCHI_GPIO_OFFSET"
definition ARCHI_UDMA_ADDR :: u32 where "ARCHI_UDMA_ADDR = ARCHI_SOC_PERIPHERALS_ADDR + ARCHI_UDMA_OFFSET"
definition ARCHI_APB_SOC_CTRL_ADDR :: u32 where
  "ARCHI_APB_SOC_CTRL_ADDR = ARCHI_SOC_PERIPHERALS_ADDR + ARCHI_APB_SOC_CTRL_OFFSET"
definition ARCHI_SOC_EU_ADDR :: u32 where "ARCHI_SOC_EU_ADDR = ARCHI_SOC_PERIPHERALS_ADDR + ARCHI_SOC_EU_OFFSET"
definition ARCHI_FC_ITC_ADDR :: u32 where "ARCHI_FC_ITC_ADDR = ARCHI_SOC_PERIPHERALS_ADDR + ARCHI_FC_ITC_OFFSET"
definition ARCHI_FC_TIMER_ADDR :: u32 where "ARCHI_FC_TIMER_ADDR = ARCHI_SOC_PERIPHERALS_ADDR + ARCHI_FC_TIMER_OFFSET"

lemmas map_defs = ARCHI_SOC_PERIPHERALS_ADDR_def ARCHI_FC_TIMER_SIZE_def ARCHI_FLL_OFFSET_def
  ARCHI_GPIO_OFFSET_def ARCHI_UDMA_OFFSET_def ARCHI_APB_SOC_CTRL_OFFSET_def ARCHI_SOC_EU_OFFSET_def
  ARCHI_FC_ITC_OFFSET_def ARCHI_FC_TIMER_OFFSET_def ARCHI_FC_HWPE_OFFSET_def ARCHI_STDOUT_OFFSET_def
  ARCHI_FLL_AREA_SIZE_def ARCHI_GPIO_ADDR_def ARCHI_UDMA_ADDR_def ARCHI_APB_SOC_CTRL_ADDR_def
  ARCHI_SOC_EU_ADDR_def ARCHI_FC_ITC_ADDR_def ARCHI_FC_TIMER_ADDR_def

section \<open>Register fields\<close>

text \<open>
  \<^verbatim>\<open>1<<size\<close> is an int in the source; the fields of the registers are at most 31 bits wide. The
  value that \<^verbatim>\<open>ARCHI_REG_FIELD_SET\<close> inserts is not masked.
\<close>

definition ARCHI_REG_MASK :: "nat \<Rightarrow> nat \<Rightarrow> u32" where
  "ARCHI_REG_MASK offset width = push_bit offset (push_bit width 1 - 1)"

definition ARCHI_REG_FIELD_SET :: "u32 \<Rightarrow> u32 \<Rightarrow> nat \<Rightarrow> nat \<Rightarrow> u32" where
  "ARCHI_REG_FIELD_SET fullValue value offset width =
     (fullValue AND NOT (ARCHI_REG_MASK offset width)) OR push_bit offset value"

definition ARCHI_REG_FIELD_GET :: "u32 \<Rightarrow> nat \<Rightarrow> nat \<Rightarrow> u32" where
  "ARCHI_REG_FIELD_GET fullValue offset width = drop_bit offset (fullValue AND ARCHI_REG_MASK offset width)"

lemma width_mask: "push_bit n 1 - 1 = (mask n :: u32)"
  by (simp add: mask_eq_exp_minus_1 push_bit_eq_mult)

lemma ARCHI_REG_FIELD_GET_eq: "ARCHI_REG_FIELD_GET v offset width = take_bit width (drop_bit offset v)"
  unfolding ARCHI_REG_FIELD_GET_def ARCHI_REG_MASK_def width_mask
  by (rule bit_eqI) (auto simp: bit_simps dest: bit_imp_le_length)

section \<open>Control and status registers\<close>

text \<open>\<^verbatim>\<open>csrrc\<close> and \<^verbatim>\<open>csrrs\<close> read a register and write it with bits cleared or set.\<close>

definition hal_spr_read :: "'e pulp_bus \<Rightarrow> u32 \<Rightarrow> ('e, 'z) machine_scheme \<Rightarrow> u32 \<times> ('e, 'z) machine_scheme" where
  "hal_spr_read b reg = rd b (Csr reg)"

definition hal_spr_write :: "'e pulp_bus \<Rightarrow> u32 \<Rightarrow> u32 \<Rightarrow> ('e, 'z) machine_scheme \<Rightarrow> ('e, 'z) machine_scheme" where
  "hal_spr_write b reg val = wr b (Csr reg) val"

definition hal_spr_read_then_clr ::
  "'e pulp_bus \<Rightarrow> u32 \<Rightarrow> u32 \<Rightarrow> ('e, 'z) machine_scheme \<Rightarrow> u32 \<times> ('e, 'z) machine_scheme" where
  "hal_spr_read_then_clr b reg val s = (case rd b (Csr reg) s of (v, s) \<Rightarrow> (v, wr b (Csr reg) (v AND NOT val) s))"

definition hal_spr_read_then_set ::
  "'e pulp_bus \<Rightarrow> u32 \<Rightarrow> u32 \<Rightarrow> ('e, 'z) machine_scheme \<Rightarrow> u32 \<times> ('e, 'z) machine_scheme" where
  "hal_spr_read_then_set b reg val s = (case rd b (Csr reg) s of (v, s) \<Rightarrow> (v, wr b (Csr reg) (v OR val) s))"

definition hal_irq_disable :: "'e pulp_bus \<Rightarrow> ('e, 'z) machine_scheme \<Rightarrow> u32 \<times> ('e, 'z) machine_scheme" where
  "hal_irq_disable b = hal_spr_read_then_clr b 0x300 (push_bit 3 1)"

definition hal_irq_restore :: "'e pulp_bus \<Rightarrow> u32 \<Rightarrow> ('e, 'z) machine_scheme \<Rightarrow> ('e, 'z) machine_scheme" where
  "hal_irq_restore b state = hal_spr_write b 0x300 state"

definition hal_irq_enable :: "'e pulp_bus \<Rightarrow> ('e, 'z) machine_scheme \<Rightarrow> ('e, 'z) machine_scheme" where
  "hal_irq_enable b s = snd (hal_spr_read_then_set b 0x300 (push_bit 3 1) s)"

end
