(* ===== verification/Pulp_Hal.thy ===== *)
theory Pulp_Hal
  imports Pulp_Io
begin

text \<open>
  The hardware abstraction layer that the first bootloader uses on PULPissimo: the interrupt
  controller (\<^verbatim>\<open>hal/itc/itc_v1.h\<close>), the SoC event unit (\<^verbatim>\<open>hal/soc_eu/soc_eu_v2.h\<close>), the SoC control
  registers (\<^verbatim>\<open>hal/apb_soc/apb_soc_v3.h\<close>), the uDMA (\<^verbatim>\<open>hal/udma/udma_v3.h\<close>), its UART and its SPI
  master, with the register offsets of the \<^verbatim>\<open>archi\<close> headers. Ints that carry register contents are
  32 bit words.
\<close>


section \<open>Interrupt controller\<close>

definition ITC_MASK_OFFSET :: u32 where "ITC_MASK_OFFSET = 0"
definition ITC_MASK_SET_OFFSET :: u32 where "ITC_MASK_SET_OFFSET = 4"
definition ITC_MASK_CLR_OFFSET :: u32 where "ITC_MASK_CLR_OFFSET = 8"
definition ITC_STATUS_OFFSET :: u32 where "ITC_STATUS_OFFSET = 0xc"
definition ITC_STATUS_SET_OFFSET :: u32 where "ITC_STATUS_SET_OFFSET = 0x10"
definition ITC_STATUS_CLR_OFFSET :: u32 where "ITC_STATUS_CLR_OFFSET = 0x14"
definition ITC_ACK_OFFSET :: u32 where "ITC_ACK_OFFSET = 0x18"
definition ITC_ACK_SET_OFFSET :: u32 where "ITC_ACK_SET_OFFSET = 0x1c"
definition ITC_ACK_CLR_OFFSET :: u32 where "ITC_ACK_CLR_OFFSET = 0x20"
definition ITC_FIFO_OFFSET :: u32 where "ITC_FIFO_OFFSET = 0x24"

lemmas itc_defs = ITC_MASK_OFFSET_def ITC_MASK_SET_OFFSET_def ITC_MASK_CLR_OFFSET_def ITC_STATUS_OFFSET_def
  ITC_STATUS_SET_OFFSET_def ITC_STATUS_CLR_OFFSET_def ITC_ACK_OFFSET_def ITC_ACK_SET_OFFSET_def
  ITC_ACK_CLR_OFFSET_def ITC_FIFO_OFFSET_def

definition hal_itc_enable_value_set :: "'e pulp_bus \<Rightarrow> u32 \<Rightarrow> ('e, 'z) machine_scheme \<Rightarrow> ('e, 'z) machine_scheme" where
  "hal_itc_enable_value_set b msk = pulp_write32 b (ARCHI_FC_ITC_ADDR + ITC_MASK_OFFSET) msk"

definition hal_itc_enable_value_get :: "'e pulp_bus \<Rightarrow> ('e, 'z) machine_scheme \<Rightarrow> u32 \<times> ('e, 'z) machine_scheme" where
  "hal_itc_enable_value_get b = pulp_read32 b (ARCHI_FC_ITC_ADDR + ITC_MASK_OFFSET)"

definition hal_itc_ack_value_set :: "'e pulp_bus \<Rightarrow> u32 \<Rightarrow> ('e, 'z) machine_scheme \<Rightarrow> ('e, 'z) machine_scheme" where
  "hal_itc_ack_value_set b msk = pulp_write32 b (ARCHI_FC_ITC_ADDR + ITC_ACK_OFFSET) msk"

definition hal_itc_ack_value_get :: "'e pulp_bus \<Rightarrow> ('e, 'z) machine_scheme \<Rightarrow> u32 \<times> ('e, 'z) machine_scheme" where
  "hal_itc_ack_value_get b = pulp_read32 b (ARCHI_FC_ITC_ADDR + ITC_ACK_OFFSET)"

definition hal_itc_status_value_set :: "'e pulp_bus \<Rightarrow> u32 \<Rightarrow> ('e, 'z) machine_scheme \<Rightarrow> ('e, 'z) machine_scheme" where
  "hal_itc_status_value_set b msk = pulp_write32 b (ARCHI_FC_ITC_ADDR + ITC_STATUS_OFFSET) msk"

definition hal_itc_status_value_get :: "'e pulp_bus \<Rightarrow> ('e, 'z) machine_scheme \<Rightarrow> u32 \<times> ('e, 'z) machine_scheme" where
  "hal_itc_status_value_get b = pulp_read32 b (ARCHI_FC_ITC_ADDR + ITC_STATUS_OFFSET)"

definition hal_itc_status_value_set_remote :: "'e pulp_bus \<Rightarrow> u32 \<Rightarrow> ('e, 'z) machine_scheme \<Rightarrow> ('e, 'z) machine_scheme" where
  "hal_itc_status_value_set_remote b msk = pulp_write32 b (ARCHI_FC_ITC_ADDR + ITC_STATUS_OFFSET) msk"

definition hal_itc_enable_set :: "'e pulp_bus \<Rightarrow> u32 \<Rightarrow> ('e, 'z) machine_scheme \<Rightarrow> ('e, 'z) machine_scheme" where
  "hal_itc_enable_set b msk = pulp_write32 b (ARCHI_FC_ITC_ADDR + ITC_MASK_SET_OFFSET) msk"

definition hal_itc_enable_clr :: "'e pulp_bus \<Rightarrow> u32 \<Rightarrow> ('e, 'z) machine_scheme \<Rightarrow> ('e, 'z) machine_scheme" where
  "hal_itc_enable_clr b msk = pulp_write32 b (ARCHI_FC_ITC_ADDR + ITC_MASK_CLR_OFFSET) msk"

definition hal_itc_ack_set :: "'e pulp_bus \<Rightarrow> u32 \<Rightarrow> ('e, 'z) machine_scheme \<Rightarrow> ('e, 'z) machine_scheme" where
  "hal_itc_ack_set b msk = pulp_write32 b (ARCHI_FC_ITC_ADDR + ITC_ACK_SET_OFFSET) msk"

definition hal_itc_ack_clr :: "'e pulp_bus \<Rightarrow> u32 \<Rightarrow> ('e, 'z) machine_scheme \<Rightarrow> ('e, 'z) machine_scheme" where
  "hal_itc_ack_clr b msk = pulp_write32 b (ARCHI_FC_ITC_ADDR + ITC_ACK_CLR_OFFSET) msk"

definition hal_itc_status_set :: "'e pulp_bus \<Rightarrow> u32 \<Rightarrow> ('e, 'z) machine_scheme \<Rightarrow> ('e, 'z) machine_scheme" where
  "hal_itc_status_set b msk = pulp_write32 b (ARCHI_FC_ITC_ADDR + ITC_STATUS_SET_OFFSET) msk"

definition hal_itc_status_clr :: "'e pulp_bus \<Rightarrow> u32 \<Rightarrow> ('e, 'z) machine_scheme \<Rightarrow> ('e, 'z) machine_scheme" where
  "hal_itc_status_clr b msk = pulp_write32 b (ARCHI_FC_ITC_ADDR + ITC_STATUS_CLR_OFFSET) msk"

definition hal_itc_fifo_pop :: "'e pulp_bus \<Rightarrow> ('e, 'z) machine_scheme \<Rightarrow> u32 \<times> ('e, 'z) machine_scheme" where
  "hal_itc_fifo_pop b = pulp_read32 b (ARCHI_FC_ITC_ADDR + ITC_FIFO_OFFSET)"

definition hal_itc_wait_for_interrupt :: "'e pulp_bus \<Rightarrow> ('e, 'z) machine_scheme \<Rightarrow> ('e, 'z) machine_scheme" where
  "hal_itc_wait_for_interrupt b = wr b Wfi 0"

text \<open>One round of the wait: whether the event was there, with interrupts disabled meanwhile.\<close>

definition itc_wait_round :: "'e pulp_bus \<Rightarrow> u32 \<Rightarrow> ('e, 'z) machine_scheme \<Rightarrow> bool \<times> ('e, 'z) machine_scheme" where
  "itc_wait_round b msk s =
     (case hal_irq_disable b s of (state, s) \<Rightarrow>
      case hal_itc_status_value_get b s of (v, s) \<Rightarrow>
        if v AND msk = 0
        then (False, hal_irq_restore b state
               (hal_itc_enable_clr b msk (hal_itc_wait_for_interrupt b (hal_itc_enable_set b msk s))))
        else (True, hal_irq_restore b state (hal_itc_status_clr b msk s)))"

partial_function (option) hal_itc_wait_for_event_noirq ::
  "'e pulp_bus \<Rightarrow> u32 \<Rightarrow> ('e, 'z) machine_scheme \<Rightarrow> ('e, 'z) machine_scheme option" where
  "hal_itc_wait_for_event_noirq b msk s =
     (case itc_wait_round b msk s of (fin, s) \<Rightarrow> if fin then Some s else hal_itc_wait_for_event_noirq b msk s)"

definition hal_itc_wait_for_event :: "'e pulp_bus \<Rightarrow> u32 \<Rightarrow> ('e, 'z) machine_scheme \<Rightarrow> ('e, 'z) machine_scheme option" where
  "hal_itc_wait_for_event b msk s = hal_itc_wait_for_event_noirq b msk s"


section \<open>SoC event unit\<close>

definition SOC_EU_EVENT :: u32 where "SOC_EU_EVENT = 0"
definition SOC_FC_FIRST_MASK :: u32 where "SOC_FC_FIRST_MASK = 0x04"
definition SOC_CL_FIRST_MASK :: u32 where "SOC_CL_FIRST_MASK = 0x24"
definition SOC_PR_FIRST_MASK :: u32 where "SOC_PR_FIRST_MASK = 0x44"
definition SOC_ERR_FIRST_MASK :: u32 where "SOC_ERR_FIRST_MASK = 0x64"
definition SOC_TIMER_SEL_HI :: u32 where "SOC_TIMER_SEL_HI = 0x84"
definition SOC_TIMER_SEL_LO :: u32 where "SOC_TIMER_SEL_LO = 0x88"
definition SOC_TIMER_SEL_ENABLE_SHIFT :: nat where "SOC_TIMER_SEL_ENABLE_SHIFT = 31"
definition SOC_TIMER_SEL_EVT_SHIFT :: nat where "SOC_TIMER_SEL_EVT_SHIFT = 0"
definition SOC_TIMER_SEL_EVT_WIDTH :: nat where "SOC_TIMER_SEL_EVT_WIDTH = 8"
definition SOC_TIMER_SEL_EVT_MASK :: u32 where "SOC_TIMER_SEL_EVT_MASK = drop_bit (32 - SOC_TIMER_SEL_EVT_WIDTH) (NOT 0)"
definition SOC_NB_EVENT_REGS :: nat where "SOC_NB_EVENT_REGS = 8"

lemmas soc_eu_defs = SOC_EU_EVENT_def SOC_FC_FIRST_MASK_def SOC_CL_FIRST_MASK_def SOC_PR_FIRST_MASK_def
  SOC_ERR_FIRST_MASK_def SOC_TIMER_SEL_HI_def SOC_TIMER_SEL_LO_def SOC_TIMER_SEL_ENABLE_SHIFT_def
  SOC_TIMER_SEL_EVT_SHIFT_def SOC_TIMER_SEL_EVT_WIDTH_def SOC_TIMER_SEL_EVT_MASK_def SOC_NB_EVENT_REGS_def

definition hal_soc_eu_addr :: u32 where "hal_soc_eu_addr = ARCHI_SOC_EU_ADDR"

definition soc_eu_eventMask_set :: "'e pulp_bus \<Rightarrow> u32 \<Rightarrow> u32 \<Rightarrow> ('e, 'z) machine_scheme \<Rightarrow> ('e, 'z) machine_scheme" where
  "soc_eu_eventMask_set b reg value = pulp_write32 b (ARCHI_SOC_EU_ADDR + reg) value"

definition soc_eu_eventMask_get :: "'e pulp_bus \<Rightarrow> u32 \<Rightarrow> ('e, 'z) machine_scheme \<Rightarrow> u32 \<times> ('e, 'z) machine_scheme" where
  "soc_eu_eventMask_get b reg = pulp_read32 b (ARCHI_SOC_EU_ADDR + reg)"

text \<open>Every event of a target is masked; a set bit of a mask register hides its event.\<close>

definition soc_eu_eventMask_reset :: "'e pulp_bus \<Rightarrow> u32 \<Rightarrow> ('e, 'z) machine_scheme \<Rightarrow> ('e, 'z) machine_scheme" where
  "soc_eu_eventMask_reset b first_reg s =
     fold (\<lambda>i. soc_eu_eventMask_set b (first_reg + of_nat i * 4) 0xffffffff) [0..<SOC_NB_EVENT_REGS] s"

definition soc_eu_eventMask_setEvent :: "'e pulp_bus \<Rightarrow> nat \<Rightarrow> u32 \<Rightarrow> ('e, 'z) machine_scheme \<Rightarrow> ('e, 'z) machine_scheme" where
  "soc_eu_eventMask_setEvent b evt first_reg s =
     (let reg = first_reg + of_nat (evt div 32 * 4); evt = evt mod 32 in
      case soc_eu_eventMask_get b reg s of (v, s) \<Rightarrow> soc_eu_eventMask_set b reg (v AND NOT (push_bit evt 1)) s)"

definition soc_eu_eventMask_clearEvent :: "'e pulp_bus \<Rightarrow> nat \<Rightarrow> u32 \<Rightarrow> ('e, 'z) machine_scheme \<Rightarrow> ('e, 'z) machine_scheme" where
  "soc_eu_eventMask_clearEvent b evt first_reg s =
     (let reg = first_reg + of_nat (evt div 32 * 4); evt = evt mod 32 in
      case soc_eu_eventMask_get b reg s of (v, s) \<Rightarrow> soc_eu_eventMask_set b reg (v OR push_bit evt 1) s)"

definition soc_eu_fcEventMask_setEvent :: "'e pulp_bus \<Rightarrow> nat \<Rightarrow> ('e, 'z) machine_scheme \<Rightarrow> ('e, 'z) machine_scheme" where
  "soc_eu_fcEventMask_setEvent b evt = soc_eu_eventMask_setEvent b evt SOC_FC_FIRST_MASK"

definition soc_eu_fcEventMask_clearEvent :: "'e pulp_bus \<Rightarrow> nat \<Rightarrow> ('e, 'z) machine_scheme \<Rightarrow> ('e, 'z) machine_scheme" where
  "soc_eu_fcEventMask_clearEvent b evt = soc_eu_eventMask_clearEvent b evt SOC_FC_FIRST_MASK"

definition soc_eu_prEventMask_setEvent :: "'e pulp_bus \<Rightarrow> nat \<Rightarrow> ('e, 'z) machine_scheme \<Rightarrow> ('e, 'z) machine_scheme" where
  "soc_eu_prEventMask_setEvent b evt = soc_eu_eventMask_setEvent b evt SOC_PR_FIRST_MASK"

definition soc_eu_prEventMask_clearEvent :: "'e pulp_bus \<Rightarrow> nat \<Rightarrow> ('e, 'z) machine_scheme \<Rightarrow> ('e, 'z) machine_scheme" where
  "soc_eu_prEventMask_clearEvent b evt = soc_eu_eventMask_clearEvent b evt SOC_PR_FIRST_MASK"

definition soc_eu_clEventMask_setEvent :: "'e pulp_bus \<Rightarrow> u32 \<Rightarrow> nat \<Rightarrow> ('e, 'z) machine_scheme \<Rightarrow> ('e, 'z) machine_scheme" where
  "soc_eu_clEventMask_setEvent b clusterId evt = soc_eu_eventMask_setEvent b evt SOC_CL_FIRST_MASK"

definition soc_eu_clEventMask_clearEvent :: "'e pulp_bus \<Rightarrow> u32 \<Rightarrow> nat \<Rightarrow> ('e, 'z) machine_scheme \<Rightarrow> ('e, 'z) machine_scheme" where
  "soc_eu_clEventMask_clearEvent b clusterId evt = soc_eu_eventMask_clearEvent b evt SOC_CL_FIRST_MASK"

definition soc_eu_genEventMask :: "'e pulp_bus \<Rightarrow> u32 \<Rightarrow> ('e, 'z) machine_scheme \<Rightarrow> ('e, 'z) machine_scheme" where
  "soc_eu_genEventMask b msk = pulp_write32 b (ARCHI_SOC_EU_ADDR + SOC_EU_EVENT) msk"

definition soc_eu_selEventTimer :: "'e pulp_bus \<Rightarrow> u32 \<Rightarrow> u32 \<Rightarrow> ('e, 'z) machine_scheme \<Rightarrow> ('e, 'z) machine_scheme" where
  "soc_eu_selEventTimer b timer_id msk s =
     (let a = ARCHI_SOC_EU_ADDR + SOC_TIMER_SEL_HI + timer_id * 4 in
      case pulp_read32 b a s of (v, s) \<Rightarrow>
        pulp_write32 b a ((v AND NOT (push_bit SOC_TIMER_SEL_EVT_SHIFT SOC_TIMER_SEL_EVT_MASK)) OR
          (msk AND SOC_TIMER_SEL_EVT_MASK)) s)"

definition soc_eu_setEnableEventTimer :: "'e pulp_bus \<Rightarrow> u32 \<Rightarrow> u32 \<Rightarrow> ('e, 'z) machine_scheme \<Rightarrow> ('e, 'z) machine_scheme" where
  "soc_eu_setEnableEventTimer b timer_id val s =
     (let a = ARCHI_SOC_EU_ADDR + SOC_TIMER_SEL_HI + timer_id * 4 in
      case pulp_read32 b a s of (v, s) \<Rightarrow>
        pulp_write32 b a ((v AND NOT (push_bit SOC_TIMER_SEL_ENABLE_SHIFT 1)) OR val) s)"

end
