(* ===== verification/Pulp_Soc.thy ===== *)
theory Pulp_Soc
  imports Pulp_Hal
begin

text \<open>
  SoC control registers (\<^verbatim>\<open>hal/apb_soc/apb_soc_v3.h\<close>), the uDMA with its generic channel interface
  (\<^verbatim>\<open>hal/udma/udma_v3.h\<close>), and the command encodings of the SPI master
  (\<^verbatim>\<open>archi/udma/spim/udma_spim_v3.h\<close>) and the registers of the UART
  (\<^verbatim>\<open>hal/udma/uart/udma_uart_v1.h\<close>) behind it.
\<close>


section \<open>SoC control registers\<close>

definition APB_SOC_BOOTADDR_OFFSET :: u32 where "APB_SOC_BOOTADDR_OFFSET = 0x04"
definition APB_SOC_INFO_OFFSET :: u32 where "APB_SOC_INFO_OFFSET = 0x00"
definition APB_SOC_CLUSTER_ISOLATE_OFFSET :: u32 where "APB_SOC_CLUSTER_ISOLATE_OFFSET = 0x0C"
definition APB_SOC_PADFUN0_OFFSET :: u32 where "APB_SOC_PADFUN0_OFFSET = 0x10"
definition APB_SOC_PADCFG0_OFFSET :: u32 where "APB_SOC_PADCFG0_OFFSET = 0x20"
definition APB_SOC_BUSY_OFFSET :: u32 where "APB_SOC_BUSY_OFFSET = 0x6C"
definition APB_SOC_JTAG_REG :: u32 where "APB_SOC_JTAG_REG = 0x74"
definition APB_SOC_CORESTATUS_OFFSET :: u32 where "APB_SOC_CORESTATUS_OFFSET = 0xA0"
definition APB_SOC_PADS_CONFIG :: u32 where "APB_SOC_PADS_CONFIG = 0xC4"
definition APB_SOC_BOOTSEL_OFFSET :: u32 where "APB_SOC_BOOTSEL_OFFSET = 0xc4"
definition APB_SOC_FLL_CTRL_OFFSET :: u32 where "APB_SOC_FLL_CTRL_OFFSET = 0xD0"
definition APB_SOC_CLKDIV_SOC_OFFSET :: u32 where "APB_SOC_CLKDIV_SOC_OFFSET = 0xD4"
definition APB_SOC_CLKDIV_CLUSTER_OFFSET :: u32 where "APB_SOC_CLKDIV_CLUSTER_OFFSET = 0xD8"
definition APB_SOC_CLKDIV_PERIPH_OFFSET :: u32 where "APB_SOC_CLKDIV_PERIPH_OFFSET = 0xDC"
definition APB_SOC_PADFUN_SIZE :: nat where "APB_SOC_PADFUN_SIZE = 2"
definition APB_SOC_PADCFG_SIZE :: nat where "APB_SOC_PADCFG_SIZE = 8"
definition APB_SOC_PADS_CONFIG_BOOTSEL_BIT :: nat where "APB_SOC_PADS_CONFIG_BOOTSEL_BIT = 0"
definition APB_SOC_JTAG_REG_EXT_BIT :: nat where "APB_SOC_JTAG_REG_EXT_BIT = 8"
definition APB_SOC_JTAG_REG_EXT_WIDTH :: nat where "APB_SOC_JTAG_REG_EXT_WIDTH = 4"
definition APB_SOC_JTAG_REG_LOC_BIT :: nat where "APB_SOC_JTAG_REG_LOC_BIT = 0"
definition APB_SOC_JTAG_REG_LOC_WIDTH :: nat where "APB_SOC_JTAG_REG_LOC_WIDTH = 4"
definition APB_SOC_STATUS_EOC_BIT :: nat where "APB_SOC_STATUS_EOC_BIT = 31"
definition APB_SOC_INFO_CORES_OFFSET :: u32 where "APB_SOC_INFO_CORES_OFFSET = APB_SOC_INFO_OFFSET + 2"
definition APB_SOC_INFO_CLUSTERS_OFFSET :: u32 where "APB_SOC_INFO_CLUSTERS_OFFSET = APB_SOC_INFO_OFFSET"

definition APB_SOC_PADFUN_OFFSET :: "u32 \<Rightarrow> u32" where "APB_SOC_PADFUN_OFFSET g = APB_SOC_PADFUN0_OFFSET + g * 4"
definition APB_SOC_PADFUN_NO :: "u32 \<Rightarrow> u32" where "APB_SOC_PADFUN_NO pad = drop_bit 4 pad"
definition APB_SOC_PADFUN_BIT :: "u32 \<Rightarrow> u32" where "APB_SOC_PADFUN_BIT pad = push_bit 1 (pad AND 0xF)"
definition APB_SOC_PADCFG_OFFSET :: "u32 \<Rightarrow> u32" where "APB_SOC_PADCFG_OFFSET g = APB_SOC_PADCFG0_OFFSET + g * 4"
definition APB_SOC_PADCFG_NO :: "u32 \<Rightarrow> u32" where "APB_SOC_PADCFG_NO pad = drop_bit 2 pad"
definition APB_SOC_PADCFG_BIT :: "u32 \<Rightarrow> u32" where "APB_SOC_PADCFG_BIT pad = push_bit 3 (pad AND 0x3)"

lemmas apb_soc_defs = APB_SOC_BOOTADDR_OFFSET_def APB_SOC_INFO_OFFSET_def APB_SOC_CLUSTER_ISOLATE_OFFSET_def
  APB_SOC_PADFUN0_OFFSET_def APB_SOC_PADCFG0_OFFSET_def APB_SOC_BUSY_OFFSET_def APB_SOC_JTAG_REG_def
  APB_SOC_CORESTATUS_OFFSET_def APB_SOC_PADS_CONFIG_def APB_SOC_BOOTSEL_OFFSET_def APB_SOC_FLL_CTRL_OFFSET_def
  APB_SOC_CLKDIV_SOC_OFFSET_def APB_SOC_CLKDIV_CLUSTER_OFFSET_def APB_SOC_CLKDIV_PERIPH_OFFSET_def
  APB_SOC_PADFUN_SIZE_def APB_SOC_PADCFG_SIZE_def APB_SOC_PADS_CONFIG_BOOTSEL_BIT_def APB_SOC_JTAG_REG_EXT_BIT_def
  APB_SOC_JTAG_REG_EXT_WIDTH_def APB_SOC_JTAG_REG_LOC_BIT_def APB_SOC_JTAG_REG_LOC_WIDTH_def
  APB_SOC_STATUS_EOC_BIT_def APB_SOC_INFO_CORES_OFFSET_def APB_SOC_INFO_CLUSTERS_OFFSET_def
  APB_SOC_PADFUN_OFFSET_def APB_SOC_PADFUN_NO_def APB_SOC_PADFUN_BIT_def APB_SOC_PADCFG_OFFSET_def
  APB_SOC_PADCFG_NO_def APB_SOC_PADCFG_BIT_def

definition apb_soc_bootaddr_set :: "'e pulp_bus \<Rightarrow> u32 \<Rightarrow> ('e, 'z) machine_scheme \<Rightarrow> ('e, 'z) machine_scheme" where
  "apb_soc_bootaddr_set b value = pulp_write32 b (ARCHI_APB_SOC_CTRL_ADDR + APB_SOC_BOOTADDR_OFFSET) value"

definition apb_soc_bootaddr_get :: "'e pulp_bus \<Rightarrow> ('e, 'z) machine_scheme \<Rightarrow> u32 \<times> ('e, 'z) machine_scheme" where
  "apb_soc_bootaddr_get b = pulp_read32 b (ARCHI_APB_SOC_CTRL_ADDR + APB_SOC_BOOTADDR_OFFSET)"

definition apb_soc_busy_get :: "'e pulp_bus \<Rightarrow> ('e, 'z) machine_scheme \<Rightarrow> u32 \<times> ('e, 'z) machine_scheme" where
  "apb_soc_busy_get b = pulp_read32 b (ARCHI_APB_SOC_CTRL_ADDR + APB_SOC_BUSY_OFFSET)"

definition apb_soc_cluster_isolate_set :: "'e pulp_bus \<Rightarrow> u32 \<Rightarrow> ('e, 'z) machine_scheme \<Rightarrow> ('e, 'z) machine_scheme" where
  "apb_soc_cluster_isolate_set b isolate = pulp_write32 b (ARCHI_APB_SOC_CTRL_ADDR + APB_SOC_CLUSTER_ISOLATE_OFFSET) isolate"

definition apb_soc_status_set :: "'e pulp_bus \<Rightarrow> u32 \<Rightarrow> ('e, 'z) machine_scheme \<Rightarrow> ('e, 'z) machine_scheme" where
  "apb_soc_status_set b value = pulp_write32 b (ARCHI_APB_SOC_CTRL_ADDR + APB_SOC_CORESTATUS_OFFSET) (value OR push_bit APB_SOC_STATUS_EOC_BIT 1)"

definition apb_soc_nbCores :: "'e pulp_bus \<Rightarrow> ('e, 'z) machine_scheme \<Rightarrow> u32 \<times> ('e, 'z) machine_scheme" where
  "apb_soc_nbCores b = pulp_read16 b (ARCHI_APB_SOC_CTRL_ADDR + APB_SOC_INFO_CORES_OFFSET)"

definition apb_soc_nbClusters :: "'e pulp_bus \<Rightarrow> ('e, 'z) machine_scheme \<Rightarrow> u32 \<times> ('e, 'z) machine_scheme" where
  "apb_soc_nbClusters b = pulp_read16 b (ARCHI_APB_SOC_CTRL_ADDR + APB_SOC_INFO_CLUSTERS_OFFSET)"

definition hal_apb_soc_padfun_get :: "'e pulp_bus \<Rightarrow> u32 \<Rightarrow> ('e, 'z) machine_scheme \<Rightarrow> u32 \<times> ('e, 'z) machine_scheme" where
  "hal_apb_soc_padfun_get b i = pulp_read32 b (ARCHI_APB_SOC_CTRL_ADDR + APB_SOC_PADFUN_OFFSET i)"

definition hal_apb_soc_padfun_set :: "'e pulp_bus \<Rightarrow> u32 \<Rightarrow> u32 \<Rightarrow> ('e, 'z) machine_scheme \<Rightarrow> ('e, 'z) machine_scheme" where
  "hal_apb_soc_padfun_set b i value = pulp_write32 b (ARCHI_APB_SOC_CTRL_ADDR + APB_SOC_PADFUN_OFFSET i) value"

definition hal_apb_soc_padcfg_get :: "'e pulp_bus \<Rightarrow> u32 \<Rightarrow> ('e, 'z) machine_scheme \<Rightarrow> u32 \<times> ('e, 'z) machine_scheme" where
  "hal_apb_soc_padcfg_get b i = pulp_read32 b (ARCHI_APB_SOC_CTRL_ADDR + APB_SOC_PADCFG_OFFSET i)"

definition hal_apb_soc_padcfg_set :: "'e pulp_bus \<Rightarrow> u32 \<Rightarrow> u32 \<Rightarrow> ('e, 'z) machine_scheme \<Rightarrow> ('e, 'z) machine_scheme" where
  "hal_apb_soc_padcfg_set b i value = pulp_write32 b (ARCHI_APB_SOC_CTRL_ADDR + APB_SOC_PADCFG_OFFSET i) value"

definition hal_apb_soc_pad_set_function :: "'e pulp_bus \<Rightarrow> u32 \<Rightarrow> u32 \<Rightarrow> ('e, 'z) machine_scheme \<Rightarrow> ('e, 'z) machine_scheme" where
  "hal_apb_soc_pad_set_function b pad func s =
     (let padfunId = APB_SOC_PADFUN_NO pad; padBit = unat (APB_SOC_PADFUN_BIT pad) in
      case hal_apb_soc_padfun_get b padfunId s of (v, s) \<Rightarrow>
        let oldval = v AND NOT (push_bit padBit (push_bit APB_SOC_PADFUN_SIZE 1 - 1));
            newVal = oldval OR push_bit padBit func
        in hal_apb_soc_padfun_set b padfunId newVal s)"

definition hal_apb_soc_pad_set_config :: "'e pulp_bus \<Rightarrow> u32 \<Rightarrow> u32 \<Rightarrow> ('e, 'z) machine_scheme \<Rightarrow> ('e, 'z) machine_scheme" where
  "hal_apb_soc_pad_set_config b pad cfg s =
     (let padcfgId = APB_SOC_PADCFG_NO pad; padBit = unat (APB_SOC_PADCFG_BIT pad) in
      case hal_apb_soc_padcfg_get b padcfgId s of (v, s) \<Rightarrow>
        let oldval = v AND NOT (push_bit padBit (push_bit APB_SOC_PADCFG_SIZE 1 - 1));
            newVal = oldval OR push_bit padBit cfg
        in hal_apb_soc_padcfg_set b padcfgId newVal s)"

definition apb_soc_jtag_reg_read :: "'e pulp_bus \<Rightarrow> ('e, 'z) machine_scheme \<Rightarrow> u32 \<times> ('e, 'z) machine_scheme" where
  "apb_soc_jtag_reg_read b = pulp_read32 b (ARCHI_APB_SOC_CTRL_ADDR + APB_SOC_JTAG_REG)"

definition apb_soc_jtag_reg_write :: "'e pulp_bus \<Rightarrow> u32 \<Rightarrow> ('e, 'z) machine_scheme \<Rightarrow> ('e, 'z) machine_scheme" where
  "apb_soc_jtag_reg_write b value = pulp_write32 b (ARCHI_APB_SOC_CTRL_ADDR + APB_SOC_JTAG_REG) value"

definition apb_soc_jtag_reg_ext :: "u32 \<Rightarrow> u32" where
  "apb_soc_jtag_reg_ext value = ARCHI_REG_FIELD_GET value APB_SOC_JTAG_REG_EXT_BIT APB_SOC_JTAG_REG_EXT_WIDTH"

definition apb_soc_jtag_reg_loc :: "u32 \<Rightarrow> u32" where
  "apb_soc_jtag_reg_loc value = ARCHI_REG_FIELD_GET value APB_SOC_JTAG_REG_LOC_BIT APB_SOC_JTAG_REG_LOC_WIDTH"

definition apb_soc_fll_ctrl_set :: "'e pulp_bus \<Rightarrow> u32 \<Rightarrow> ('e, 'z) machine_scheme \<Rightarrow> ('e, 'z) machine_scheme" where
  "apb_soc_fll_ctrl_set b value = pulp_write32 b (ARCHI_APB_SOC_CTRL_ADDR + APB_SOC_FLL_CTRL_OFFSET) value"

definition apb_soc_fll_ctrl_get :: "'e pulp_bus \<Rightarrow> ('e, 'z) machine_scheme \<Rightarrow> u32 \<times> ('e, 'z) machine_scheme" where
  "apb_soc_fll_ctrl_get b = pulp_read32 b (ARCHI_APB_SOC_CTRL_ADDR + APB_SOC_FLL_CTRL_OFFSET)"

definition apb_soc_fll_clkdiv_set :: "'e pulp_bus \<Rightarrow> u32 \<Rightarrow> u32 \<Rightarrow> ('e, 'z) machine_scheme \<Rightarrow> ('e, 'z) machine_scheme" where
  "apb_soc_fll_clkdiv_set b fll value = pulp_write32 b (ARCHI_APB_SOC_CTRL_ADDR + APB_SOC_CLKDIV_SOC_OFFSET + push_bit 2 fll) value"

definition apb_soc_fll_clkdiv_get :: "'e pulp_bus \<Rightarrow> u32 \<Rightarrow> ('e, 'z) machine_scheme \<Rightarrow> u32 \<times> ('e, 'z) machine_scheme" where
  "apb_soc_fll_clkdiv_get b fll = pulp_read32 b (ARCHI_APB_SOC_CTRL_ADDR + APB_SOC_CLKDIV_SOC_OFFSET + push_bit 2 fll)"

definition apb_soc_fll_clkdiv_soc_set :: "'e pulp_bus \<Rightarrow> u32 \<Rightarrow> ('e, 'z) machine_scheme \<Rightarrow> ('e, 'z) machine_scheme" where
  "apb_soc_fll_clkdiv_soc_set b value = pulp_write32 b (ARCHI_APB_SOC_CTRL_ADDR + APB_SOC_CLKDIV_SOC_OFFSET) value"

definition apb_soc_fll_clkdiv_soc_get :: "'e pulp_bus \<Rightarrow> ('e, 'z) machine_scheme \<Rightarrow> u32 \<times> ('e, 'z) machine_scheme" where
  "apb_soc_fll_clkdiv_soc_get b = pulp_read32 b (ARCHI_APB_SOC_CTRL_ADDR + APB_SOC_CLKDIV_SOC_OFFSET)"

definition apb_soc_fll_clkdiv_cluster_set :: "'e pulp_bus \<Rightarrow> u32 \<Rightarrow> ('e, 'z) machine_scheme \<Rightarrow> ('e, 'z) machine_scheme" where
  "apb_soc_fll_clkdiv_cluster_set b value = pulp_write32 b (ARCHI_APB_SOC_CTRL_ADDR + APB_SOC_CLKDIV_CLUSTER_OFFSET) value"

definition apb_soc_fll_clkdiv_cluster_get :: "'e pulp_bus \<Rightarrow> ('e, 'z) machine_scheme \<Rightarrow> u32 \<times> ('e, 'z) machine_scheme" where
  "apb_soc_fll_clkdiv_cluster_get b = pulp_read32 b (ARCHI_APB_SOC_CTRL_ADDR + APB_SOC_CLKDIV_CLUSTER_OFFSET)"

definition apb_soc_fll_clkdiv_periph_set :: "'e pulp_bus \<Rightarrow> u32 \<Rightarrow> ('e, 'z) machine_scheme \<Rightarrow> ('e, 'z) machine_scheme" where
  "apb_soc_fll_clkdiv_periph_set b value = pulp_write32 b (ARCHI_APB_SOC_CTRL_ADDR + APB_SOC_CLKDIV_PERIPH_OFFSET) value"

definition apb_soc_fll_clkdiv_periph_get :: "'e pulp_bus \<Rightarrow> ('e, 'z) machine_scheme \<Rightarrow> u32 \<times> ('e, 'z) machine_scheme" where
  "apb_soc_fll_clkdiv_periph_get b = pulp_read32 b (ARCHI_APB_SOC_CTRL_ADDR + APB_SOC_CLKDIV_PERIPH_OFFSET)"

definition apb_soc_pads_config_get :: "'e pulp_bus \<Rightarrow> ('e, 'z) machine_scheme \<Rightarrow> u32 \<times> ('e, 'z) machine_scheme" where
  "apb_soc_pads_config_get b = pulp_read32 b (ARCHI_APB_SOC_CTRL_ADDR + APB_SOC_PADS_CONFIG)"

definition apb_soc_pads_config_bootself_get :: "'e pulp_bus \<Rightarrow> ('e, 'z) machine_scheme \<Rightarrow> u32 \<times> ('e, 'z) machine_scheme" where
  "apb_soc_pads_config_bootself_get b s =
     (case apb_soc_pads_config_get b s of (v, s) \<Rightarrow> (drop_bit APB_SOC_PADS_CONFIG_BOOTSEL_BIT v AND 1, s))"

definition apb_soc_bootsel_get :: "'e pulp_bus \<Rightarrow> u32 \<Rightarrow> ('e, 'z) machine_scheme \<Rightarrow> u32 \<times> ('e, 'z) machine_scheme" where
  "apb_soc_bootsel_get b base = ARCHI_READ b base APB_SOC_BOOTSEL_OFFSET"

definition apb_soc_bootsel_set :: "'e pulp_bus \<Rightarrow> u32 \<Rightarrow> u32 \<Rightarrow> ('e, 'z) machine_scheme \<Rightarrow> ('e, 'z) machine_scheme" where
  "apb_soc_bootsel_set b base value = ARCHI_WRITE b base APB_SOC_BOOTSEL_OFFSET value"


section \<open>uDMA\<close>

definition UDMA_PERIPH_AREA_SIZE_LOG2 :: nat where "UDMA_PERIPH_AREA_SIZE_LOG2 = 7"
definition UDMA_CHANNEL_SIZE_LOG2 :: nat where "UDMA_CHANNEL_SIZE_LOG2 = 4"
definition UDMA_FIRST_CHANNEL_OFFSET :: u32 where "UDMA_FIRST_CHANNEL_OFFSET = 0x80"
definition UDMA_CHANNEL_RX_OFFSET :: u32 where "UDMA_CHANNEL_RX_OFFSET = 0x00"
definition UDMA_CHANNEL_TX_OFFSET :: u32 where "UDMA_CHANNEL_TX_OFFSET = 0x10"
definition UDMA_CHANNEL_CUSTOM_OFFSET :: u32 where "UDMA_CHANNEL_CUSTOM_OFFSET = 0x20"
definition UDMA_CHANNEL_SADDR_OFFSET :: u32 where "UDMA_CHANNEL_SADDR_OFFSET = 0x0"
definition UDMA_CHANNEL_SIZE_OFFSET :: u32 where "UDMA_CHANNEL_SIZE_OFFSET = 0x4"
definition UDMA_CHANNEL_CFG_OFFSET :: u32 where "UDMA_CHANNEL_CFG_OFFSET = 0x8"
definition UDMA_CONF_OFFSET :: u32 where "UDMA_CONF_OFFSET = 0x0"
definition UDMA_CONF_CG_OFFSET :: u32 where "UDMA_CONF_CG_OFFSET = 0x00"
definition UDMA_CONF_EVTIN_OFFSET :: u32 where "UDMA_CONF_EVTIN_OFFSET = 0x04"
definition UDMA_CHANNEL_CFG_SHADOW :: u32 where "UDMA_CHANNEL_CFG_SHADOW = push_bit 5 1"
definition UDMA_CHANNEL_CFG_CLEAR :: u32 where "UDMA_CHANNEL_CFG_CLEAR = push_bit 5 1"
definition UDMA_CHANNEL_CFG_EN :: u32 where "UDMA_CHANNEL_CFG_EN = push_bit 4 1"
definition UDMA_CHANNEL_CFG_SIZE_8 :: u32 where "UDMA_CHANNEL_CFG_SIZE_8 = push_bit 1 0"
definition UDMA_CHANNEL_CFG_SIZE_16 :: u32 where "UDMA_CHANNEL_CFG_SIZE_16 = push_bit 1 1"
definition UDMA_CHANNEL_CFG_SIZE_32 :: u32 where "UDMA_CHANNEL_CFG_SIZE_32 = push_bit 1 2"
definition UDMA_CHANNEL_CFG_CONT :: u32 where "UDMA_CHANNEL_CFG_CONT = push_bit 0 1"
definition UDMA_PERIPH_OFFSET :: "u32 \<Rightarrow> u32" where
  "UDMA_PERIPH_OFFSET i = push_bit UDMA_PERIPH_AREA_SIZE_LOG2 i + UDMA_FIRST_CHANNEL_OFFSET"

definition UDMA_PERIPH_GET :: "u32 \<Rightarrow> u32" where
  "UDMA_PERIPH_GET offset = drop_bit UDMA_PERIPH_AREA_SIZE_LOG2 offset"

definition UDMA_CHANNEL_OFFSET :: "u32 \<Rightarrow> u32" where
  "UDMA_CHANNEL_OFFSET i = push_bit UDMA_CHANNEL_SIZE_LOG2 i"

definition UDMA_CHANNEL_GET :: "u32 \<Rightarrow> u32" where
  "UDMA_CHANNEL_GET offset = drop_bit UDMA_CHANNEL_SIZE_LOG2 offset"

definition ARCHI_UDMA_UART_ID :: "u32 \<Rightarrow> u32" where "ARCHI_UDMA_UART_ID i = 0"
definition ARCHI_UDMA_SPIM_ID :: "u32 \<Rightarrow> u32" where "ARCHI_UDMA_SPIM_ID i = 1"

lemmas udma_defs = UDMA_PERIPH_AREA_SIZE_LOG2_def UDMA_CHANNEL_SIZE_LOG2_def UDMA_FIRST_CHANNEL_OFFSET_def
  UDMA_CHANNEL_RX_OFFSET_def UDMA_CHANNEL_TX_OFFSET_def UDMA_CHANNEL_CUSTOM_OFFSET_def UDMA_CHANNEL_SADDR_OFFSET_def
  UDMA_CHANNEL_SIZE_OFFSET_def UDMA_CHANNEL_CFG_OFFSET_def UDMA_CONF_OFFSET_def UDMA_CONF_CG_OFFSET_def
  UDMA_CONF_EVTIN_OFFSET_def UDMA_CHANNEL_CFG_SHADOW_def UDMA_CHANNEL_CFG_CLEAR_def UDMA_CHANNEL_CFG_EN_def
  UDMA_CHANNEL_CFG_SIZE_8_def UDMA_CHANNEL_CFG_SIZE_16_def UDMA_CHANNEL_CFG_SIZE_32_def UDMA_CHANNEL_CFG_CONT_def
  UDMA_PERIPH_OFFSET_def UDMA_PERIPH_GET_def UDMA_CHANNEL_OFFSET_def UDMA_CHANNEL_GET_def ARCHI_UDMA_UART_ID_def
  ARCHI_UDMA_SPIM_ID_def

text \<open>A handle is the address of the registers of a channel pair.\<close>

definition plpUdmaRxChStartAddrSet :: "'e pulp_bus \<Rightarrow> u32 \<Rightarrow> u32 \<Rightarrow> ('e, 'z) machine_scheme \<Rightarrow> ('e, 'z) machine_scheme" where
  "plpUdmaRxChStartAddrSet b handle data = pulp_write32 b (handle + 0) data"

definition plpUdmaRxChStartAddrGet :: "'e pulp_bus \<Rightarrow> u32 \<Rightarrow> ('e, 'z) machine_scheme \<Rightarrow> u32 \<times> ('e, 'z) machine_scheme" where
  "plpUdmaRxChStartAddrGet b handle = pulp_read32 b (handle + 0)"

definition plpUdmaRxChSizeSet :: "'e pulp_bus \<Rightarrow> u32 \<Rightarrow> u32 \<Rightarrow> ('e, 'z) machine_scheme \<Rightarrow> ('e, 'z) machine_scheme" where
  "plpUdmaRxChSizeSet b handle data = pulp_write32 b (handle + 4) data"

definition plpUdmaRxChSizeGet :: "'e pulp_bus \<Rightarrow> u32 \<Rightarrow> ('e, 'z) machine_scheme \<Rightarrow> u32 \<times> ('e, 'z) machine_scheme" where
  "plpUdmaRxChSizeGet b handle = pulp_read32 b (handle + 4)"

definition plpUdmaRxChCfgSet :: "'e pulp_bus \<Rightarrow> u32 \<Rightarrow> u32 \<Rightarrow> ('e, 'z) machine_scheme \<Rightarrow> ('e, 'z) machine_scheme" where
  "plpUdmaRxChCfgSet b handle data = pulp_write32 b (handle + 8) data"

definition plpUdmaRxChCfgGet :: "'e pulp_bus \<Rightarrow> u32 \<Rightarrow> ('e, 'z) machine_scheme \<Rightarrow> u32 \<times> ('e, 'z) machine_scheme" where
  "plpUdmaRxChCfgGet b handle = pulp_read32 b (handle + 8)"

definition plpUdmaTxChStartAddrSet :: "'e pulp_bus \<Rightarrow> u32 \<Rightarrow> u32 \<Rightarrow> ('e, 'z) machine_scheme \<Rightarrow> ('e, 'z) machine_scheme" where
  "plpUdmaTxChStartAddrSet b handle data = pulp_write32 b (handle + 16) data"

definition plpUdmaTxChStartAddrGet :: "'e pulp_bus \<Rightarrow> u32 \<Rightarrow> ('e, 'z) machine_scheme \<Rightarrow> u32 \<times> ('e, 'z) machine_scheme" where
  "plpUdmaTxChStartAddrGet b handle = pulp_read32 b (handle + 16)"

definition plpUdmaTxChSizeSet :: "'e pulp_bus \<Rightarrow> u32 \<Rightarrow> u32 \<Rightarrow> ('e, 'z) machine_scheme \<Rightarrow> ('e, 'z) machine_scheme" where
  "plpUdmaTxChSizeSet b handle data = pulp_write32 b (handle + 20) data"

definition plpUdmaTxChSizeGet :: "'e pulp_bus \<Rightarrow> u32 \<Rightarrow> ('e, 'z) machine_scheme \<Rightarrow> u32 \<times> ('e, 'z) machine_scheme" where
  "plpUdmaTxChSizeGet b handle = pulp_read32 b (handle + 20)"

definition plpUdmaTxChCfgSet :: "'e pulp_bus \<Rightarrow> u32 \<Rightarrow> u32 \<Rightarrow> ('e, 'z) machine_scheme \<Rightarrow> ('e, 'z) machine_scheme" where
  "plpUdmaTxChCfgSet b handle data = pulp_write32 b (handle + 24) data"

definition plpUdmaTxChCfgGet :: "'e pulp_bus \<Rightarrow> u32 \<Rightarrow> ('e, 'z) machine_scheme \<Rightarrow> u32 \<times> ('e, 'z) machine_scheme" where
  "plpUdmaTxChCfgGet b handle = pulp_read32 b (handle + 24)"

definition hal_udma_channel_isTx :: "u32 \<Rightarrow> u32" where
  "hal_udma_channel_isTx addr = drop_bit UDMA_CHANNEL_SIZE_LOG2 addr AND 1"

definition plp_udma_canEnqueue :: "'e pulp_bus \<Rightarrow> u32 \<Rightarrow> ('e, 'z) machine_scheme \<Rightarrow> u32 \<times> ('e, 'z) machine_scheme" where
  "plp_udma_canEnqueue b channelBase s =
     (case pulp_read32 b (channelBase + UDMA_CHANNEL_CFG_OFFSET) s of (v, s) \<Rightarrow>
        (if v AND UDMA_CHANNEL_CFG_SHADOW = 0 then 1 else 0, s))"

definition plp_udma_enqueue :: "'e pulp_bus \<Rightarrow> u32 \<Rightarrow> u32 \<Rightarrow> u32 \<Rightarrow> u32 \<Rightarrow> ('e, 'z) machine_scheme \<Rightarrow> ('e, 'z) machine_scheme" where
  "plp_udma_enqueue b channelBase l2Addr sz cfg s =
     pulp_write32 b (channelBase + UDMA_CHANNEL_CFG_OFFSET) (cfg OR UDMA_CHANNEL_CFG_EN)
      (pulp_write32 b (channelBase + UDMA_CHANNEL_SIZE_OFFSET) sz
       (pulp_write32 b (channelBase + UDMA_CHANNEL_SADDR_OFFSET) l2Addr s))"

definition plp_udma_busy :: "'e pulp_bus \<Rightarrow> u32 \<Rightarrow> ('e, 'z) machine_scheme \<Rightarrow> u32 \<times> ('e, 'z) machine_scheme" where
  "plp_udma_busy b channelOffset s =
     (case pulp_read32 b (channelOffset + UDMA_CHANNEL_CFG_OFFSET) s of (v, s) \<Rightarrow> (v AND UDMA_CHANNEL_CFG_EN, s))"

definition plp_udma_cg_set :: "'e pulp_bus \<Rightarrow> u32 \<Rightarrow> ('e, 'z) machine_scheme \<Rightarrow> ('e, 'z) machine_scheme" where
  "plp_udma_cg_set b value = pulp_write32 b (ARCHI_SOC_PERIPHERALS_ADDR + ARCHI_UDMA_OFFSET + UDMA_CONF_OFFSET + UDMA_CONF_CG_OFFSET) value"

definition plp_udma_cg_get :: "'e pulp_bus \<Rightarrow> ('e, 'z) machine_scheme \<Rightarrow> u32 \<times> ('e, 'z) machine_scheme" where
  "plp_udma_cg_get b = pulp_read32 b (ARCHI_SOC_PERIPHERALS_ADDR + ARCHI_UDMA_OFFSET + UDMA_CONF_OFFSET + UDMA_CONF_CG_OFFSET)"

definition plp_udma_evtin_set :: "'e pulp_bus \<Rightarrow> u32 \<Rightarrow> ('e, 'z) machine_scheme \<Rightarrow> ('e, 'z) machine_scheme" where
  "plp_udma_evtin_set b value = pulp_write32 b (ARCHI_SOC_PERIPHERALS_ADDR + ARCHI_UDMA_OFFSET + UDMA_CONF_OFFSET + UDMA_CONF_EVTIN_OFFSET) value"

definition plp_udma_evtin_get :: "'e pulp_bus \<Rightarrow> ('e, 'z) machine_scheme \<Rightarrow> u32 \<times> ('e, 'z) machine_scheme" where
  "plp_udma_evtin_get b = pulp_read32 b (ARCHI_SOC_PERIPHERALS_ADDR + ARCHI_UDMA_OFFSET + UDMA_CONF_OFFSET + UDMA_CONF_EVTIN_OFFSET)"

definition hal_udma_periph_base :: "u32 \<Rightarrow> u32" where
  "hal_udma_periph_base i = ARCHI_SOC_PERIPHERALS_ADDR + ARCHI_UDMA_OFFSET + UDMA_PERIPH_OFFSET i"

definition hal_udma_channel_base :: "u32 \<Rightarrow> u32" where
  "hal_udma_channel_base i = ARCHI_SOC_PERIPHERALS_ADDR + ARCHI_UDMA_OFFSET + UDMA_PERIPH_OFFSET (drop_bit 1 i) +
     UDMA_CHANNEL_OFFSET (i AND 1)"


section \<open>UART of the uDMA\<close>

definition UART_STATUS_OFFSET :: u32 where "UART_STATUS_OFFSET = 0x00"
definition UART_SETUP_OFFSET :: u32 where "UART_SETUP_OFFSET = 0x04"
definition UDMA_UART_OFFSET :: "u32 \<Rightarrow> u32" where "UDMA_UART_OFFSET i = UDMA_PERIPH_OFFSET (ARCHI_UDMA_UART_ID i)"
definition UDMA_UART_RX_ADDR :: "u32 \<Rightarrow> u32" where
  "UDMA_UART_RX_ADDR i = ARCHI_UDMA_ADDR + UDMA_UART_OFFSET i + UDMA_CHANNEL_RX_OFFSET"
definition UDMA_UART_TX_ADDR :: "u32 \<Rightarrow> u32" where
  "UDMA_UART_TX_ADDR i = ARCHI_UDMA_ADDR + UDMA_UART_OFFSET i + UDMA_CHANNEL_TX_OFFSET"
definition UDMA_UART_CUSTOM_ADDR :: "u32 \<Rightarrow> u32" where
  "UDMA_UART_CUSTOM_ADDR i = ARCHI_UDMA_ADDR + UDMA_UART_OFFSET i + UDMA_CHANNEL_CUSTOM_OFFSET"

lemmas udma_uart_defs = UART_STATUS_OFFSET_def UART_SETUP_OFFSET_def UDMA_UART_OFFSET_def UDMA_UART_RX_ADDR_def
  UDMA_UART_TX_ADDR_def UDMA_UART_CUSTOM_ADDR_def

text \<open>The status and setup registers follow the eight words of the two channels.\<close>

definition plpUdmaUartSetupSet :: "'e pulp_bus \<Rightarrow> u32 \<Rightarrow> u32 \<Rightarrow> ('e, 'z) machine_scheme \<Rightarrow> ('e, 'z) machine_scheme" where
  "plpUdmaUartSetupSet b handle data = pulp_write32 b (handle + 36) data"

definition plpUdmaUartSetupGet :: "'e pulp_bus \<Rightarrow> u32 \<Rightarrow> ('e, 'z) machine_scheme \<Rightarrow> u32 \<times> ('e, 'z) machine_scheme" where
  "plpUdmaUartSetupGet b handle = pulp_read32 b (handle + 36)"

definition plpUdmaUartStatusGet :: "'e pulp_bus \<Rightarrow> u32 \<Rightarrow> ('e, 'z) machine_scheme \<Rightarrow> u32 \<times> ('e, 'z) machine_scheme" where
  "plpUdmaUartStatusGet b handle = pulp_read32 b (handle + 32)"

text \<open>\<open>clk_counter << 16\<close> is an int; its bits are those of the word.\<close>

definition plp_uart_setup :: "'e pulp_bus \<Rightarrow> u32 \<Rightarrow> u32 \<Rightarrow> u16 \<Rightarrow> ('e, 'z) machine_scheme \<Rightarrow> ('e, 'z) machine_scheme" where
  "plp_uart_setup b channel parity clk_counter =
     pulp_write32 b (ARCHI_UDMA_ADDR + UDMA_UART_OFFSET channel + UDMA_CHANNEL_CUSTOM_OFFSET + UART_SETUP_OFFSET)
       (0x0306 OR parity OR push_bit 16 (ucast clk_counter))"

definition plp_uart_disable :: "'e pulp_bus \<Rightarrow> u32 \<Rightarrow> ('e, 'z) machine_scheme \<Rightarrow> ('e, 'z) machine_scheme" where
  "plp_uart_disable b channel =
     pulp_write32 b (ARCHI_UDMA_ADDR + UDMA_UART_OFFSET channel + UDMA_CHANNEL_CUSTOM_OFFSET + UART_SETUP_OFFSET) 0x00500006"

definition plp_uart_tx_busy :: "'e pulp_bus \<Rightarrow> u32 \<Rightarrow> ('e, 'z) machine_scheme \<Rightarrow> u32 \<times> ('e, 'z) machine_scheme" where
  "plp_uart_tx_busy b channel s =
     (case pulp_read32 b (ARCHI_UDMA_ADDR + UDMA_UART_OFFSET channel + UDMA_CHANNEL_CUSTOM_OFFSET + UART_STATUS_OFFSET) s of (v, s) \<Rightarrow> (v AND 1, s))"

definition plp_uart_rx_busy :: "'e pulp_bus \<Rightarrow> u32 \<Rightarrow> ('e, 'z) machine_scheme \<Rightarrow> u32 \<times> ('e, 'z) machine_scheme" where
  "plp_uart_rx_busy b channel s =
     (case pulp_read32 b (ARCHI_UDMA_ADDR + UDMA_UART_OFFSET channel + UDMA_CHANNEL_CUSTOM_OFFSET + UART_STATUS_OFFSET) s of (v, s) \<Rightarrow>
        (drop_bit 1 v AND 1, s))"

definition plp_uart_reg_read :: "'e pulp_bus \<Rightarrow> u32 \<Rightarrow> u32 \<Rightarrow> ('e, 'z) machine_scheme \<Rightarrow> u32 \<times> ('e, 'z) machine_scheme" where
  "plp_uart_reg_read b channel addr = pulp_read32 b (ARCHI_UDMA_ADDR + UDMA_UART_OFFSET channel + UDMA_CHANNEL_CUSTOM_OFFSET + addr)"

definition plp_uart_reg_write :: "'e pulp_bus \<Rightarrow> u32 \<Rightarrow> u32 \<Rightarrow> u32 \<Rightarrow> ('e, 'z) machine_scheme \<Rightarrow> ('e, 'z) machine_scheme" where
  "plp_uart_reg_write b channel addr cfg = pulp_write32 b (ARCHI_UDMA_ADDR + UDMA_UART_OFFSET channel + UDMA_CHANNEL_CUSTOM_OFFSET + addr) cfg"

end
