(* ===== verification/Spim_Cmds.thy ===== *)
theory Spim_Cmds
  imports Pulp_Soc
begin

text \<open>
  The command words of the uDMA SPI master, \<^verbatim>\<open>archi/udma/spim/udma_spim_v3.h\<close>: identifiers, field
  positions and the macros that assemble a command. The arguments are not masked except where the
  source masks them, so one that is too wide spills into the next field. The macros for the
  microcode registers name identifiers that this version of the header does not define.
\<close>

section \<open>Identifiers and field positions\<close>

definition SPI_CMD_CFG_ID :: u32 where "SPI_CMD_CFG_ID = 0"
definition SPI_CMD_SOT_ID :: u32 where "SPI_CMD_SOT_ID = 1"
definition SPI_CMD_SEND_CMD_ID :: u32 where "SPI_CMD_SEND_CMD_ID = 2"
definition SPI_CMD_DUMMY_ID :: u32 where "SPI_CMD_DUMMY_ID = 4"
definition SPI_CMD_WAIT_ID :: u32 where "SPI_CMD_WAIT_ID = 5"
definition SPI_CMD_TX_DATA_ID :: u32 where "SPI_CMD_TX_DATA_ID = 6"
definition SPI_CMD_RX_DATA_ID :: u32 where "SPI_CMD_RX_DATA_ID = 7"
definition SPI_CMD_RPT_ID :: u32 where "SPI_CMD_RPT_ID = 8"
definition SPI_CMD_EOT_ID :: u32 where "SPI_CMD_EOT_ID = 9"
definition SPI_CMD_RPT_END_ID :: u32 where "SPI_CMD_RPT_END_ID = 10"
definition SPI_CMD_RX_CHECK_ID :: u32 where "SPI_CMD_RX_CHECK_ID = 11"
definition SPI_CMD_FUL_ID :: u32 where "SPI_CMD_FUL_ID = 12"
definition SPI_CMD_ID_OFFSET :: nat where "SPI_CMD_ID_OFFSET = 28"
definition SPI_CMD_QPI_ENA :: u32 where "SPI_CMD_QPI_ENA = 1"
definition SPI_CMD_QPI_DIS :: u32 where "SPI_CMD_QPI_DIS = 0"
definition SPI_CMD_LSB_FIRST :: u32 where "SPI_CMD_LSB_FIRST = 1"
definition SPI_CMD_MSB_FIRST :: u32 where "SPI_CMD_MSB_FIRST = 0"
definition SPI_CMD_4_WORD_PER_TRANSF :: u32 where "SPI_CMD_4_WORD_PER_TRANSF = 2"
definition SPI_CMD_2_WORD_PER_TRANSF :: u32 where "SPI_CMD_2_WORD_PER_TRANSF = 1"
definition SPI_CMD_1_WORD_PER_TRANSF :: u32 where "SPI_CMD_1_WORD_PER_TRANSF = 0"
definition SPI_CMD_CFG_CLK_DIV_OFFSET :: nat where "SPI_CMD_CFG_CLK_DIV_OFFSET = 0"
definition SPI_CMD_CFG_CPHA_OFFSET :: nat where "SPI_CMD_CFG_CPHA_OFFSET = 8"
definition SPI_CMD_CFG_CPOL_OFFSET :: nat where "SPI_CMD_CFG_CPOL_OFFSET = 9"
definition SPI_CMD_SOT_CS_OFFSET :: nat where "SPI_CMD_SOT_CS_OFFSET = 0"
definition SPI_CMD_SEND_CMD_SIZE_OFFSET :: nat where "SPI_CMD_SEND_CMD_SIZE_OFFSET = 16"
definition SPI_CMD_SEND_CMD_QPI_OFFSET :: nat where "SPI_CMD_SEND_CMD_QPI_OFFSET = 27"
definition SPI_CMD_DUMMY_CYCLE_OFFSET :: nat where "SPI_CMD_DUMMY_CYCLE_OFFSET = 16"
definition SPI_CMD_TX_DATA_SIZE_OFFSET :: nat where "SPI_CMD_TX_DATA_SIZE_OFFSET = 0"
definition SPI_CMD_TX_DATA_QPI_OFFSET :: nat where "SPI_CMD_TX_DATA_QPI_OFFSET = 27"
definition SPI_CMD_TX_DATA_WORDTRANS_OFFSET :: nat where "SPI_CMD_TX_DATA_WORDTRANS_OFFSET = 21"
definition SPI_CMD_TX_DATA_LSBFIRST_OFFSET :: nat where "SPI_CMD_TX_DATA_LSBFIRST_OFFSET = 26"
definition SPI_CMD_TX_DATA_BITSWORD_OFFSET :: nat where "SPI_CMD_TX_DATA_BITSWORD_OFFSET = 16"
definition SPI_CMD_RX_DATA_SIZE_OFFSET :: nat where "SPI_CMD_RX_DATA_SIZE_OFFSET = 0"
definition SPI_CMD_RX_DATA_QPI_OFFSET :: nat where "SPI_CMD_RX_DATA_QPI_OFFSET = 27"
definition SPI_CMD_RX_DATA_WORDTRANS_OFFSET :: nat where "SPI_CMD_RX_DATA_WORDTRANS_OFFSET = 21"
definition SPI_CMD_RX_DATA_LSBFIRST_OFFSET :: nat where "SPI_CMD_RX_DATA_LSBFIRST_OFFSET = 26"
definition SPI_CMD_RX_DATA_BITSWORD_OFFSET :: nat where "SPI_CMD_RX_DATA_BITSWORD_OFFSET = 16"
definition SPI_CMD_RPT_NB_OFFSET :: nat where "SPI_CMD_RPT_NB_OFFSET = 0"
definition SPI_CMD_EOT_GEN_EVT_OFFSET :: nat where "SPI_CMD_EOT_GEN_EVT_OFFSET = 0"
definition SPI_CMD_EOT_CS_KEEP_OFFSET :: nat where "SPI_CMD_EOT_CS_KEEP_OFFSET = 1"
definition SPI_CMD_WAIT_EVENT_OFFSET :: nat where "SPI_CMD_WAIT_EVENT_OFFSET = 0"
definition SPI_CMD_RX_CHECK_VALUE_OFFSET :: nat where "SPI_CMD_RX_CHECK_VALUE_OFFSET = 0"
definition SPI_CMD_RX_CHECK_SIZE_OFFSET :: nat where "SPI_CMD_RX_CHECK_SIZE_OFFSET = 16"
definition SPI_CMD_RX_CHECK_MODE_OFFSET :: nat where "SPI_CMD_RX_CHECK_MODE_OFFSET = 24"
definition SPI_CMD_RX_CHECK_BYTE_ALIGN_OFFSET :: nat where "SPI_CMD_RX_CHECK_BYTE_ALIGN_OFFSET = 26"
definition SPI_CMD_RX_CHECK_QPI_OFFSET :: nat where "SPI_CMD_RX_CHECK_QPI_OFFSET = 27"
definition SPI_CMD_FUL_SIZE_OFFSET :: nat where "SPI_CMD_FUL_SIZE_OFFSET = 0"
definition SPI_CMD_FUL_WORDTRANS_OFFSET :: nat where "SPI_CMD_FUL_WORDTRANS_OFFSET = 21"
definition SPI_CMD_FUL_LSBFIRST_OFFSET :: nat where "SPI_CMD_FUL_LSBFIRST_OFFSET = 26"
definition SPI_CMD_FUL_BITSWORD_OFFSET :: nat where "SPI_CMD_FUL_BITSWORD_OFFSET = 16"

lemmas spi_cmd_consts =
  SPI_CMD_CFG_ID_def SPI_CMD_SOT_ID_def SPI_CMD_SEND_CMD_ID_def SPI_CMD_DUMMY_ID_def
  SPI_CMD_WAIT_ID_def SPI_CMD_TX_DATA_ID_def SPI_CMD_RX_DATA_ID_def SPI_CMD_RPT_ID_def
  SPI_CMD_EOT_ID_def SPI_CMD_RPT_END_ID_def SPI_CMD_RX_CHECK_ID_def SPI_CMD_FUL_ID_def
  SPI_CMD_ID_OFFSET_def SPI_CMD_QPI_ENA_def SPI_CMD_QPI_DIS_def SPI_CMD_LSB_FIRST_def
  SPI_CMD_MSB_FIRST_def SPI_CMD_4_WORD_PER_TRANSF_def SPI_CMD_2_WORD_PER_TRANSF_def SPI_CMD_1_WORD_PER_TRANSF_def
  SPI_CMD_CFG_CLK_DIV_OFFSET_def SPI_CMD_CFG_CPHA_OFFSET_def SPI_CMD_CFG_CPOL_OFFSET_def SPI_CMD_SOT_CS_OFFSET_def
  SPI_CMD_SEND_CMD_SIZE_OFFSET_def SPI_CMD_SEND_CMD_QPI_OFFSET_def SPI_CMD_DUMMY_CYCLE_OFFSET_def SPI_CMD_TX_DATA_SIZE_OFFSET_def
  SPI_CMD_TX_DATA_QPI_OFFSET_def SPI_CMD_TX_DATA_WORDTRANS_OFFSET_def SPI_CMD_TX_DATA_LSBFIRST_OFFSET_def SPI_CMD_TX_DATA_BITSWORD_OFFSET_def
  SPI_CMD_RX_DATA_SIZE_OFFSET_def SPI_CMD_RX_DATA_QPI_OFFSET_def SPI_CMD_RX_DATA_WORDTRANS_OFFSET_def SPI_CMD_RX_DATA_LSBFIRST_OFFSET_def
  SPI_CMD_RX_DATA_BITSWORD_OFFSET_def SPI_CMD_RPT_NB_OFFSET_def SPI_CMD_EOT_GEN_EVT_OFFSET_def SPI_CMD_EOT_CS_KEEP_OFFSET_def
  SPI_CMD_WAIT_EVENT_OFFSET_def SPI_CMD_RX_CHECK_VALUE_OFFSET_def SPI_CMD_RX_CHECK_SIZE_OFFSET_def SPI_CMD_RX_CHECK_MODE_OFFSET_def
  SPI_CMD_RX_CHECK_BYTE_ALIGN_OFFSET_def SPI_CMD_RX_CHECK_QPI_OFFSET_def SPI_CMD_FUL_SIZE_OFFSET_def SPI_CMD_FUL_WORDTRANS_OFFSET_def
  SPI_CMD_FUL_LSBFIRST_OFFSET_def SPI_CMD_FUL_BITSWORD_OFFSET_def

section \<open>Commands\<close>

definition SPI_CMD_CFG :: "u32 \<Rightarrow> u32 \<Rightarrow> u32 \<Rightarrow> u32" where
  "SPI_CMD_CFG clockDiv cpol cpha =
     push_bit SPI_CMD_ID_OFFSET SPI_CMD_CFG_ID OR push_bit SPI_CMD_CFG_CPOL_OFFSET cpol OR push_bit SPI_CMD_CFG_CPHA_OFFSET cpha OR push_bit SPI_CMD_CFG_CLK_DIV_OFFSET clockDiv"

definition SPI_CMD_SOT :: "u32 \<Rightarrow> u32" where
  "SPI_CMD_SOT cs =
     push_bit SPI_CMD_ID_OFFSET SPI_CMD_SOT_ID OR push_bit SPI_CMD_SOT_CS_OFFSET cs"

definition SPI_CMD_SEND_CMD :: "u32 \<Rightarrow> u32 \<Rightarrow> u32 \<Rightarrow> u32" where
  "SPI_CMD_SEND_CMD cmd bits qpi =
     push_bit SPI_CMD_ID_OFFSET SPI_CMD_SEND_CMD_ID OR push_bit SPI_CMD_SEND_CMD_QPI_OFFSET qpi OR push_bit SPI_CMD_SEND_CMD_SIZE_OFFSET (bits - 1) OR (cmd AND 0xFFFF)"

definition SPI_CMD_SEND_BITS :: "u32 \<Rightarrow> u32 \<Rightarrow> u32 \<Rightarrow> u32" where
  "SPI_CMD_SEND_BITS data bits qpi =
     push_bit SPI_CMD_ID_OFFSET SPI_CMD_SEND_CMD_ID OR push_bit SPI_CMD_SEND_CMD_QPI_OFFSET qpi OR push_bit SPI_CMD_SEND_CMD_SIZE_OFFSET (bits - 1) OR (data AND 0xFFFF)"

definition SPI_CMD_DUMMY :: "u32 \<Rightarrow> u32" where
  "SPI_CMD_DUMMY cycles =
     push_bit SPI_CMD_ID_OFFSET SPI_CMD_DUMMY_ID OR push_bit SPI_CMD_DUMMY_CYCLE_OFFSET (cycles - 1)"

definition SPI_CMD_TX_DATA :: "u32 \<Rightarrow> u32 \<Rightarrow> u32 \<Rightarrow> u32 \<Rightarrow> u32 \<Rightarrow> u32" where
  "SPI_CMD_TX_DATA words wordstrans bitsword qpi lsbfirst =
     push_bit SPI_CMD_ID_OFFSET SPI_CMD_TX_DATA_ID OR push_bit SPI_CMD_TX_DATA_QPI_OFFSET qpi OR push_bit SPI_CMD_TX_DATA_WORDTRANS_OFFSET wordstrans OR
     push_bit SPI_CMD_TX_DATA_BITSWORD_OFFSET (bitsword - 1) OR push_bit SPI_CMD_TX_DATA_SIZE_OFFSET (words - 1) OR push_bit SPI_CMD_TX_DATA_LSBFIRST_OFFSET lsbfirst"

definition SPI_CMD_RX_DATA :: "u32 \<Rightarrow> u32 \<Rightarrow> u32 \<Rightarrow> u32 \<Rightarrow> u32 \<Rightarrow> u32" where
  "SPI_CMD_RX_DATA words wordstrans bitsword qpi lsbfirst =
     push_bit SPI_CMD_ID_OFFSET SPI_CMD_RX_DATA_ID OR push_bit SPI_CMD_RX_DATA_QPI_OFFSET qpi OR push_bit SPI_CMD_RX_DATA_WORDTRANS_OFFSET wordstrans OR
     push_bit SPI_CMD_RX_DATA_BITSWORD_OFFSET (bitsword - 1) OR push_bit SPI_CMD_RX_DATA_SIZE_OFFSET (words - 1) OR push_bit SPI_CMD_RX_DATA_LSBFIRST_OFFSET lsbfirst"

definition SPI_CMD_RPT :: "u32 \<Rightarrow> u32" where
  "SPI_CMD_RPT iter =
     push_bit SPI_CMD_ID_OFFSET SPI_CMD_RPT_ID OR push_bit SPI_CMD_RPT_NB_OFFSET iter"

definition SPI_CMD_EOT :: "u32 \<Rightarrow> u32 \<Rightarrow> u32" where
  "SPI_CMD_EOT evt cs_keep =
     push_bit 28 SPI_CMD_EOT_ID OR push_bit SPI_CMD_EOT_GEN_EVT_OFFSET evt OR push_bit SPI_CMD_EOT_CS_KEEP_OFFSET cs_keep"

definition SPI_CMD_RX_CHECK :: "u32 \<Rightarrow> u32 \<Rightarrow> u32 \<Rightarrow> u32 \<Rightarrow> u32 \<Rightarrow> u32" where
  "SPI_CMD_RX_CHECK mode bits value qpi byte_align =
     push_bit SPI_CMD_ID_OFFSET SPI_CMD_RX_CHECK_ID OR push_bit SPI_CMD_RX_CHECK_VALUE_OFFSET value OR push_bit SPI_CMD_RX_CHECK_MODE_OFFSET mode OR
     push_bit SPI_CMD_RX_CHECK_SIZE_OFFSET (bits - 1) OR push_bit SPI_CMD_RX_CHECK_BYTE_ALIGN_OFFSET byte_align OR push_bit SPI_CMD_RX_CHECK_QPI_OFFSET qpi"

definition SPI_CMD_WAIT :: "u32 \<Rightarrow> u32" where
  "SPI_CMD_WAIT event =
     push_bit SPI_CMD_ID_OFFSET SPI_CMD_WAIT_ID OR push_bit SPI_CMD_WAIT_EVENT_OFFSET event"

definition SPI_CMD_RPT_END :: "u32" where
  "SPI_CMD_RPT_END =
     push_bit SPI_CMD_ID_OFFSET SPI_CMD_RPT_END_ID"

definition SPI_CMD_FUL :: "u32 \<Rightarrow> u32 \<Rightarrow> u32 \<Rightarrow> u32 \<Rightarrow> u32" where
  "SPI_CMD_FUL words wordstrans bitsword lsbfirst =
     push_bit SPI_CMD_ID_OFFSET SPI_CMD_FUL_ID OR push_bit SPI_CMD_FUL_WORDTRANS_OFFSET wordstrans OR push_bit SPI_CMD_FUL_BITSWORD_OFFSET (bitsword - 1) OR
     push_bit SPI_CMD_FUL_SIZE_OFFSET (words - 1) OR push_bit SPI_CMD_FUL_LSBFIRST_OFFSET lsbfirst"

section \<open>Addresses of the channels\<close>

definition UDMA_SPIM_OFFSET :: "u32 \<Rightarrow> u32" where "UDMA_SPIM_OFFSET i = UDMA_PERIPH_OFFSET (ARCHI_UDMA_SPIM_ID i)"
definition UDMA_SPIM_CMD_ADDR :: "u32 \<Rightarrow> u32" where "UDMA_SPIM_CMD_ADDR i = ARCHI_UDMA_ADDR + UDMA_SPIM_OFFSET i + 0x20"
definition UDMA_SPIM_RX_ADDR :: "u32 \<Rightarrow> u32" where "UDMA_SPIM_RX_ADDR i = ARCHI_UDMA_ADDR + UDMA_SPIM_OFFSET i + 0x00"
definition UDMA_SPIM_TX_ADDR :: "u32 \<Rightarrow> u32" where "UDMA_SPIM_TX_ADDR i = ARCHI_UDMA_ADDR + UDMA_SPIM_OFFSET i + 0x10"
definition UDMA_SPIM_CUSTOM_ADDR :: "u32 \<Rightarrow> u32" where
  "UDMA_SPIM_CUSTOM_ADDR i = ARCHI_UDMA_ADDR + UDMA_SPIM_OFFSET i + UDMA_CHANNEL_CUSTOM_OFFSET"

lemmas udma_spim_defs = UDMA_SPIM_OFFSET_def UDMA_SPIM_CMD_ADDR_def UDMA_SPIM_RX_ADDR_def UDMA_SPIM_TX_ADDR_def
  UDMA_SPIM_CUSTOM_ADDR_def

end
