(* ===== verification/Boot_Rom.thy ===== *)
theory Boot_Rom
  imports Spim_Cmds Image_Loader
begin

text \<open>
  The first bootloader, \<^verbatim>\<open>boot_code/boot_code.c\<close>, as the platform header \<^verbatim>\<open>archi/chips/pulpissimo\<close>
  configures it: no debug output, no HyperBus channel, the SoC event unit present. It chooses how to
  boot from the JTAG register and the boot selection pin, and boots from the flash with the image
  loader over the SPI channel of the uDMA, waiting for the end of a transfer with the interrupt
  controller. The exit of a routine that spins for ever is the value None.
\<close>

section \<open>Constants\<close>

definition ARCHI_FC_EVT_CLK_REF :: nat where "ARCHI_FC_EVT_CLK_REF = 14"
definition ARCHI_FC_EVT_SOC_EVT :: nat where "ARCHI_FC_EVT_SOC_EVT = 26"
definition ARCHI_SOC_EVENT_SPIM0_EOT :: nat where "ARCHI_SOC_EVENT_SPIM0_EOT = 7"
definition ARCHI_SOC_EVENT_UDMA_NB_CHANNEL_EVT :: nat where "ARCHI_SOC_EVENT_UDMA_NB_CHANNEL_EVT = push_bit 2 1"
definition ARCHI_SOC_EVENT_PERIPH_FIRST_EVT :: "nat \<Rightarrow> nat" where
  "ARCHI_SOC_EVENT_PERIPH_FIRST_EVT x = x * ARCHI_SOC_EVENT_UDMA_NB_CHANNEL_EVT"
definition ARCHI_UDMA_UART_TX_EVT :: nat where "ARCHI_UDMA_UART_TX_EVT = 1"
definition ARCHI_SOC_EVENT_UART_TX :: "nat \<Rightarrow> nat" where
  "ARCHI_SOC_EVENT_UART_TX i =
     ARCHI_SOC_EVENT_PERIPH_FIRST_EVT (unat (ARCHI_UDMA_UART_ID (of_nat i))) + ARCHI_UDMA_UART_TX_EVT"
definition APB_SOC_BOOT_OTHER :: u32 where "APB_SOC_BOOT_OTHER = 0"
definition APB_SOC_BOOT_JTAG :: u32 where "APB_SOC_BOOT_JTAG = 1"
definition APB_SOC_BOOT_SPIM :: u32 where "APB_SOC_BOOT_SPIM = 6"
definition APB_SOC_PLT_OTHER :: u32 where "APB_SOC_PLT_OTHER = 0"

lemmas rom_consts = ARCHI_FC_EVT_CLK_REF_def ARCHI_FC_EVT_SOC_EVT_def ARCHI_SOC_EVENT_SPIM0_EOT_def
  ARCHI_SOC_EVENT_UDMA_NB_CHANNEL_EVT_def ARCHI_SOC_EVENT_PERIPH_FIRST_EVT_def ARCHI_UDMA_UART_TX_EVT_def
  ARCHI_SOC_EVENT_UART_TX_def APB_SOC_BOOT_OTHER_def APB_SOC_BOOT_JTAG_def APB_SOC_BOOT_SPIM_def APB_SOC_PLT_OTHER_def

text \<open>The buffer for the commands follows the flash buffer in the working structure.\<close>

definition udma_buffer_off :: u32 where "udma_buffer_off = 4096"

record 'e rom_state = "'e machine" +
  rom_sp :: u32

section \<open>Waiting\<close>

text \<open>The final \<^verbatim>\<open>while (1)\<close> loops: without a way out, with nothing or a wait in the body.\<close>

definition spin :: "(exit \<times> 's) option" where "spin = None"

partial_function (option) abort_loop :: "'e pulp_bus \<Rightarrow> ('e, 'z) machine_scheme \<Rightarrow> (exit \<times> ('e, 'z) machine_scheme) option" where
  "abort_loop b s = abort_loop b (hal_itc_wait_for_interrupt b s)"

definition boot_abort :: "'e pulp_bus \<Rightarrow> ('e, 'z) machine_scheme \<Rightarrow> (exit \<times> ('e, 'z) machine_scheme) option" where
  "boot_abort b s = abort_loop b (hal_itc_enable_value_set b 0 s)"

partial_function (option) soc_event_loop :: "'e pulp_bus \<Rightarrow> ('e, 'z) machine_scheme \<Rightarrow> ('e, 'z) machine_scheme option" where
  "soc_event_loop b s =
     (case hal_itc_status_value_get b s of (v, s) \<Rightarrow>
        if drop_bit ARCHI_FC_EVT_SOC_EVT v AND 1 = 0 then soc_event_loop b (hal_itc_wait_for_interrupt b s)
        else Some s)"

definition wait_soc_event :: "'e pulp_bus \<Rightarrow> ('e, 'z) machine_scheme \<Rightarrow> ('e, 'z) machine_scheme option" where
  "wait_soc_event b s = do {
     s \<leftarrow> soc_event_loop b (hal_itc_enable_set b (push_bit ARCHI_FC_EVT_SOC_EVT 1) s);
     let (_, s) = hal_itc_fifo_pop b s;
     let s = hal_itc_status_clr b (push_bit ARCHI_FC_EVT_SOC_EVT 1) s;
     Some (hal_itc_enable_clr b (push_bit ARCHI_FC_EVT_SOC_EVT 1) s)
   }"

text \<open>One tick of the reference clock, and a number of them; the count is a small positive int.\<close>

definition clock_tick :: "'e pulp_bus \<Rightarrow> ('e, 'z) machine_scheme \<Rightarrow> ('e, 'z) machine_scheme" where
  "clock_tick b s = hal_itc_status_clr b (push_bit ARCHI_FC_EVT_CLK_REF 1) (hal_itc_wait_for_interrupt b s)"

definition wait_clock_ref :: "'e pulp_bus \<Rightarrow> nat \<Rightarrow> ('e, 'z) machine_scheme \<Rightarrow> ('e, 'z) machine_scheme" where
  "wait_clock_ref b nbTicks s =
     hal_itc_enable_clr b (push_bit ARCHI_FC_EVT_CLK_REF 1)
       ((clock_tick b ^^ nbTicks) (hal_itc_enable_set b (push_bit ARCHI_FC_EVT_CLK_REF 1) s))"

section \<open>Reading the flash\<close>

definition rom_flash_cmds :: "u32 \<Rightarrow> u32 \<Rightarrow> u32 list" where
  "rom_flash_cmds flashAddr sz =
     [SPI_CMD_CFG 0 0 0, SPI_CMD_SOT 0, SPI_CMD_SEND_CMD 0x03 8 SPI_CMD_QPI_DIS,
      SPI_CMD_SEND_BITS (drop_bit 8 flashAddr AND 0xFFFF) 16 SPI_CMD_QPI_DIS,
      SPI_CMD_SEND_BITS (flashAddr AND 0xFF) 8 SPI_CMD_QPI_DIS,
      SPI_CMD_RX_DATA sz SPI_CMD_4_WORD_PER_TRANSF 8 SPI_CMD_QPI_DIS SPI_CMD_MSB_FIRST,
      SPI_CMD_EOT 1 0]"

definition store_words :: "u32 \<Rightarrow> u32 list \<Rightarrow> mem \<Rightarrow> mem" where
  "store_words a ws = store_bytes a (concat (map bytes32 ws))"

definition flash_read ::
  "'e pulp_bus \<Rightarrow> u32 \<Rightarrow> u32 \<Rightarrow> u32 \<Rightarrow> u32 \<Rightarrow> ('e, 'z) machine_scheme \<Rightarrow> ('e, 'z) machine_scheme option" where
  "flash_read b data flashAddr l2Addr sz s =
     (if load32 (data + hyperflash_off) (ram s) = 0
      then
        let buffer = data + udma_buffer_off;
            s = s\<lparr>ram := store_words buffer (rom_flash_cmds flashAddr sz) (ram s)\<rparr>;
            s = plp_udma_enqueue b (UDMA_SPIM_RX_ADDR 0) l2Addr sz (UDMA_CHANNEL_CFG_EN OR UDMA_CHANNEL_CFG_SIZE_32) s;
            s = plp_udma_enqueue b (UDMA_SPIM_CMD_ADDR 0) buffer 28 (UDMA_CHANNEL_CFG_EN OR UDMA_CHANNEL_CFG_SIZE_32) s
        in wait_soc_event b s
      else Some s)"

text \<open>Without a HyperBus channel there is nothing to configure.\<close>

definition flash_checkAndConf :: "u32 \<Rightarrow> ('e, 'z) machine_scheme \<Rightarrow> ('e, 'z) machine_scheme" where
  "flash_checkAndConf data s = s"

section \<open>Booting from the flash\<close>

definition rom_init :: "'e pulp_bus \<Rightarrow> u32 \<Rightarrow> ('e, 'z) machine_scheme \<Rightarrow> ('e, 'z) machine_scheme" where
  "rom_init b data s =
     (let s = set_field (data + step_off) 0 s;
          (cg, s) = plp_udma_cg_get b s;
          s = plp_udma_cg_set b (cg OR push_bit (unat (ARCHI_UDMA_SPIM_ID 0)) 1) s;
          s = soc_eu_eventMask_reset b SOC_FC_FIRST_MASK s;
          s = soc_eu_fcEventMask_setEvent b ARCHI_SOC_EVENT_SPIM0_EOT s;
          s = soc_eu_fcEventMask_setEvent b (ARCHI_SOC_EVENT_UART_TX 0) s
      in wait_clock_ref b 20 s)"

definition deinit :: "'e pulp_bus \<Rightarrow> ('e, 'z) machine_scheme \<Rightarrow> ('e, 'z) machine_scheme" where
  "deinit b s = plp_udma_cg_set b 0 (soc_eu_eventMask_reset b SOC_FC_FIRST_MASK (plp_uart_disable b 0 s))"

definition rom_load_section ::
  "'e pulp_bus \<Rightarrow> u32 \<Rightarrow> u32 \<Rightarrow> ('e, 'z) machine_scheme \<Rightarrow> ('e, 'z) machine_scheme option" where
  "rom_load_section b = load_section (flash_read b)"

definition rom_getMemAreas :: "'e pulp_bus \<Rightarrow> u32 \<Rightarrow> ('e, 'z) machine_scheme \<Rightarrow> ('e, 'z) machine_scheme option" where
  "rom_getMemAreas b = getMemAreas (flash_read b)"

definition rom_jump_to_entry ::
  "'e pulp_bus \<Rightarrow> u32 \<Rightarrow> ('e, 'z) machine_scheme \<Rightarrow> (exit \<times> ('e, 'z) machine_scheme) option" where
  "rom_jump_to_entry b data s =
     (let s = apb_soc_bootaddr_set b (hdr_bootaddr (data_header data (ram s))) s
      in Some (JumpTo (hdr_entry (data_header data (ram s))), s))"

partial_function (option) rom_areas_loop ::
  "'e pulp_bus \<Rightarrow> u32 \<Rightarrow> u32 \<Rightarrow> ('e, 'z) machine_scheme \<Rightarrow> (exit \<times> ('e, 'z) machine_scheme) option" where
  "rom_areas_loop b data i s =
     (if i < hdr_nbAreas (data_header data (ram s))
      then if i \<ge> MAX_NB_AREA then Some (Undefined OutOfBounds, s)
      else do {
        s \<leftarrow> rom_load_section b data (data + memArea_off + sizeof_area * i) s;
        rom_areas_loop b data (i + 1) s
      }
      else Some (Continue, s))"

definition rom_loadBinaryAndStart ::
  "'e pulp_bus \<Rightarrow> u32 \<Rightarrow> ('e, 'z) machine_scheme \<Rightarrow> (exit \<times> ('e, 'z) machine_scheme) option" where
  "rom_loadBinaryAndStart b data s = do {
     s \<leftarrow> rom_getMemAreas b data s;
     (x, s) \<leftarrow> rom_areas_loop b data 0 s;
     if x \<noteq> Continue then Some (x, s) else rom_jump_to_entry b data (deinit b s)
   }"

definition rom_loadBinaryAndStart_newStack ::
  "'e pulp_bus \<Rightarrow> u32 \<Rightarrow> ('e, 'z) rom_state_scheme \<Rightarrow> (exit \<times> ('e, 'z) rom_state_scheme) option" where
  "rom_loadBinaryAndStart_newStack b data s =
     rom_loadBinaryAndStart b data (s\<lparr>rom_sp := data + stack_off + BOOT_STACK_SIZE\<rparr>)"

definition rom_findDataFit :: "mem \<Rightarrow> u32 \<Rightarrow> u32 option" where
  "rom_findDataFit = findDataFit"

text \<open>\<^verbatim>\<open>bootCode\<close> is the address the linker gives to the static structure of that name.\<close>

definition rom_bootFromRom ::
  "'e pulp_bus \<Rightarrow> u32 \<Rightarrow> u32 \<Rightarrow> u32 \<Rightarrow> ('e, 'z) rom_state_scheme \<Rightarrow> (exit \<times> ('e, 'z) rom_state_scheme) option" where
  "rom_bootFromRom b bootCode hyperflash qpi s =
     (let bs = (if hyperflash \<noteq> 0 then HYPER_FLASH_BLOCK_SIZE else FLASH_BLOCK_SIZE);
          s = set_field (bootCode + hyperflash_off) hyperflash s;
          s = set_field (bootCode + blockSize_off) bs s;
          s = set_field (bootCode + qpi_off) qpi s;
          s = rom_init b bootCode s;
          s = flash_checkAndConf bootCode s
      in do {
        s \<leftarrow> rom_getMemAreas b bootCode s;
        case rom_findDataFit (ram s) bootCode of
          None \<Rightarrow> Some (Undefined OutOfBounds, s)
        | Some newData \<Rightarrow>
            let s = set_field (newData + hyperflash_off) hyperflash s;
                s = set_field (newData + qpi_off) qpi s;
                s = set_field (newData + blockSize_off) bs s
            in rom_loadBinaryAndStart_newStack b newData s
      })"

section \<open>Booting from JTAG, and the choice\<close>

partial_function (option) jtag_loop ::
  "'e pulp_bus \<Rightarrow> ('e, 'z) machine_scheme \<Rightarrow> (exit \<times> ('e, 'z) machine_scheme) option" where
  "jtag_loop b s =
     (case apb_soc_jtag_reg_read b s of (value, s) \<Rightarrow>
        if apb_soc_jtag_reg_ext value AND 1 \<noteq> 0 then Some (JumpTo 0x1c008080, s)
        else jtag_loop b (wait_clock_ref b 1 s))"

definition bootFromJtag :: "'e pulp_bus \<Rightarrow> ('e, 'z) machine_scheme \<Rightarrow> (exit \<times> ('e, 'z) machine_scheme) option" where
  "bootFromJtag b s = jtag_loop b (apb_soc_jtag_reg_write b 1 s)"

text \<open>
  \<^verbatim>\<open>choose_boot_mode\<close> and \<^verbatim>\<open>bootFromOther\<close> call each other; the argument \<open>other\<close> is the outcome of the
  call that goes back. A mode without a case falls to the final loop.
\<close>

definition choose_boot_mode ::
  "'e pulp_bus \<Rightarrow> u32 \<Rightarrow> u32 \<Rightarrow> (exit \<times> ('e, 'z) rom_state_scheme) option \<Rightarrow> ('e, 'z) rom_state_scheme \<Rightarrow>
   (exit \<times> ('e, 'z) rom_state_scheme) option" where
  "choose_boot_mode b bootCode mode other s =
     (if mode = APB_SOC_BOOT_SPIM then rom_bootFromRom b bootCode 0 0 s
      else if mode = APB_SOC_BOOT_JTAG then bootFromJtag b s
      else if mode = APB_SOC_BOOT_OTHER then other
      else spin)"

lemma choose_boot_mode_mono [partial_function_mono]:
  "monotone (fun_ord option_ord) option_ord other \<Longrightarrow>
   monotone (fun_ord option_ord) option_ord (\<lambda>f. choose_boot_mode b bootCode mode (other f) s)"
  unfolding choose_boot_mode_def by (intro partial_function_mono)

partial_function (option) bootFromOther ::
  "'e pulp_bus \<Rightarrow> u32 \<Rightarrow> u32 \<Rightarrow> ('e, 'z) rom_state_scheme \<Rightarrow> (exit \<times> ('e, 'z) rom_state_scheme) option" where
  "bootFromOther b bootCode platform s =
     (case apb_soc_jtag_reg_read b s of (v, s) \<Rightarrow>
        let value = apb_soc_jtag_reg_ext v in
        if value \<noteq> 0
        then choose_boot_mode b bootCode (ARCHI_REG_FIELD_GET value 1 (APB_SOC_JTAG_REG_EXT_WIDTH - 1))
               (bootFromOther b bootCode platform s) s
        else case apb_soc_bootsel_get b ARCHI_APB_SOC_CTRL_ADDR s of (sel, s) \<Rightarrow>
          if sel \<noteq> 0 then boot_abort b s else rom_bootFromRom b bootCode 0 1 s)"

definition rom_main :: "'e pulp_bus \<Rightarrow> u32 \<Rightarrow> ('e, 'z) rom_state_scheme \<Rightarrow> (exit \<times> ('e, 'z) rom_state_scheme) option" where
  "rom_main b bootCode s = bootFromOther b bootCode APB_SOC_PLT_OTHER s"

end
