(* ===== verification/Hyper_Hal.thy ===== *)
theory Hyper_Hal
  imports Boot_Rom
begin

text \<open>
  The HyperBus channel of the uDMA: \<^verbatim>\<open>archi/udma/hyper/udma_hyper_v1.h\<close> and
  \<^verbatim>\<open>hal/udma/hyper/udma_hyper_v1.h\<close>. The number of the channel, \<^verbatim>\<open>ARCHI_UDMA_HYPER_ID\<close>, is defined by the
  header of a chip that has the channel and by none of this tree: it is the argument \<open>hid\<close>. The
  routines take their argument at the width the code gives it (\<^verbatim>\<open>unsigned char\<close>, \<^verbatim>\<open>unsigned short\<close> or
  \<^verbatim>\<open>unsigned int\<close>); expressions are of type int, so at 32 bits,
  and a shift out of them wraps.
\<close>

section \<open>Addresses\<close>

type_synonym hyper_id = "u32 \<Rightarrow> u32"

definition REG_ACCESS :: u32 where "REG_ACCESS = 1"
definition MEM_ACCESS :: u32 where "MEM_ACCESS = 0"
definition REG_MBR0 :: u32 where "REG_MBR0 = 0"
definition REG_MBR1 :: u32 where "REG_MBR1 = 0x1000000"
definition HYPER_EXT_ADDR_CHANNEL_OFFSET :: u32 where "HYPER_EXT_ADDR_CHANNEL_OFFSET = 0"
definition HYPER_EXT_CFG_CHANNEL_OFFSET :: u32 where "HYPER_EXT_CFG_CHANNEL_OFFSET = 4"
definition HYPER_MEM_CFG0_CHANNEL_OFFSET :: u32 where "HYPER_MEM_CFG0_CHANNEL_OFFSET = 8"
definition HYPER_MEM_CFG1_CHANNEL_OFFSET :: u32 where "HYPER_MEM_CFG1_CHANNEL_OFFSET = 0xC"
definition HYPER_MEM_CFG2_CHANNEL_OFFSET :: u32 where "HYPER_MEM_CFG2_CHANNEL_OFFSET = 0x10"
definition HYPER_MEM_CFG3_CHANNEL_OFFSET :: u32 where "HYPER_MEM_CFG3_CHANNEL_OFFSET = 0x14"
definition HYPER_MEM_CFG4_CHANNEL_OFFSET :: u32 where "HYPER_MEM_CFG4_CHANNEL_OFFSET = 0x18"
definition HYPER_MEM_CFG5_CHANNEL_OFFSET :: u32 where "HYPER_MEM_CFG5_CHANNEL_OFFSET = 0x1C"
definition HYPER_MEM_CFG6_CHANNEL_OFFSET :: u32 where "HYPER_MEM_CFG6_CHANNEL_OFFSET = 0x20"
definition HYPER_MEM_CFG7_CHANNEL_OFFSET :: u32 where "HYPER_MEM_CFG7_CHANNEL_OFFSET = 0x24"
definition HYPER_EXT_ADDR_CHANNEL_CUSTOM_OFFSET :: u32 where "HYPER_EXT_ADDR_CHANNEL_CUSTOM_OFFSET = 0x20"
definition HYPER_EXT_CFG_CHANNEL_CUSTOM_OFFSET :: u32 where "HYPER_EXT_CFG_CHANNEL_CUSTOM_OFFSET = 0x24"
definition HYPER_MEM_CFG0_CHANNEL_CUSTOM_OFFSET :: u32 where "HYPER_MEM_CFG0_CHANNEL_CUSTOM_OFFSET = 0x28"
definition HYPER_MEM_CFG1_CHANNEL_CUSTOM_OFFSET :: u32 where "HYPER_MEM_CFG1_CHANNEL_CUSTOM_OFFSET = 0x2C"
definition HYPER_MEM_CFG2_CHANNEL_CUSTOM_OFFSET :: u32 where "HYPER_MEM_CFG2_CHANNEL_CUSTOM_OFFSET = 0x30"
definition HYPER_MEM_CFG3_CHANNEL_CUSTOM_OFFSET :: u32 where "HYPER_MEM_CFG3_CHANNEL_CUSTOM_OFFSET = 0x34"
definition HYPER_MEM_CFG4_CHANNEL_CUSTOM_OFFSET :: u32 where "HYPER_MEM_CFG4_CHANNEL_CUSTOM_OFFSET = 0x38"
definition HYPER_MEM_CFG5_CHANNEL_CUSTOM_OFFSET :: u32 where "HYPER_MEM_CFG5_CHANNEL_CUSTOM_OFFSET = 0x3C"
definition HYPER_MEM_CFG6_CHANNEL_CUSTOM_OFFSET :: u32 where "HYPER_MEM_CFG6_CHANNEL_CUSTOM_OFFSET = 0x40"
definition HYPER_MEM_CFG7_CHANNEL_CUSTOM_OFFSET :: u32 where "HYPER_MEM_CFG7_CHANNEL_CUSTOM_OFFSET = 0x44"
definition REG_MBR_WIDTH :: nat where "REG_MBR_WIDTH = 24"
definition HYPER_NB_REGS :: nat where "HYPER_NB_REGS = 10"
definition ARCHI_UDMA_HYPER_RX_EVT :: nat where "ARCHI_UDMA_HYPER_RX_EVT = 0"
definition ARCHI_UDMA_HYPER_TX_EVT :: nat where "ARCHI_UDMA_HYPER_TX_EVT = 1"

definition UDMA_HYPER_OFFSET :: "hyper_id \<Rightarrow> u32 \<Rightarrow> u32" where "UDMA_HYPER_OFFSET hid i = UDMA_PERIPH_OFFSET (hid i)"
definition UDMA_HYPER_RX_ADDR :: "hyper_id \<Rightarrow> u32 \<Rightarrow> u32" where "UDMA_HYPER_RX_ADDR hid i = ARCHI_UDMA_ADDR + UDMA_HYPER_OFFSET hid i + UDMA_CHANNEL_RX_OFFSET"
definition UDMA_HYPER_TX_ADDR :: "hyper_id \<Rightarrow> u32 \<Rightarrow> u32" where "UDMA_HYPER_TX_ADDR hid i = ARCHI_UDMA_ADDR + UDMA_HYPER_OFFSET hid i + UDMA_CHANNEL_TX_OFFSET"
definition UDMA_HYPER_CUSTOM_ADDR :: "hyper_id \<Rightarrow> u32 \<Rightarrow> u32" where "UDMA_HYPER_CUSTOM_ADDR hid i = ARCHI_UDMA_ADDR + UDMA_HYPER_OFFSET hid i + UDMA_CHANNEL_CUSTOM_OFFSET"
definition ARCHI_SOC_EVENT_HYPER_RX :: "hyper_id \<Rightarrow> u32 \<Rightarrow> nat" where
  "ARCHI_SOC_EVENT_HYPER_RX hid i = ARCHI_SOC_EVENT_PERIPH_FIRST_EVT (unat (hid i)) + ARCHI_UDMA_HYPER_RX_EVT"
definition ARCHI_SOC_EVENT_HYPER_TX :: "hyper_id \<Rightarrow> u32 \<Rightarrow> nat" where
  "ARCHI_SOC_EVENT_HYPER_TX hid i = ARCHI_SOC_EVENT_PERIPH_FIRST_EVT (unat (hid i)) + ARCHI_UDMA_HYPER_TX_EVT"

definition HYPER_EXT_ADDR_OFFSET :: "hyper_id \<Rightarrow> u32" where "HYPER_EXT_ADDR_OFFSET hid = UDMA_HYPER_OFFSET hid 0 + HYPER_EXT_ADDR_CHANNEL_CUSTOM_OFFSET"
definition HYPER_EXT_CFG_OFFSET :: "hyper_id \<Rightarrow> u32" where "HYPER_EXT_CFG_OFFSET hid = UDMA_HYPER_OFFSET hid 0 + HYPER_EXT_CFG_CHANNEL_CUSTOM_OFFSET"
definition HYPER_MEM_CFG0_OFFSET :: "hyper_id \<Rightarrow> u32" where "HYPER_MEM_CFG0_OFFSET hid = UDMA_HYPER_OFFSET hid 0 + HYPER_MEM_CFG0_CHANNEL_CUSTOM_OFFSET"
definition HYPER_MEM_CFG1_OFFSET :: "hyper_id \<Rightarrow> u32" where "HYPER_MEM_CFG1_OFFSET hid = UDMA_HYPER_OFFSET hid 0 + HYPER_MEM_CFG1_CHANNEL_CUSTOM_OFFSET"
definition HYPER_MEM_CFG2_OFFSET :: "hyper_id \<Rightarrow> u32" where "HYPER_MEM_CFG2_OFFSET hid = UDMA_HYPER_OFFSET hid 0 + HYPER_MEM_CFG2_CHANNEL_CUSTOM_OFFSET"
definition HYPER_MEM_CFG3_OFFSET :: "hyper_id \<Rightarrow> u32" where "HYPER_MEM_CFG3_OFFSET hid = UDMA_HYPER_OFFSET hid 0 + HYPER_MEM_CFG3_CHANNEL_CUSTOM_OFFSET"
definition HYPER_MEM_CFG4_OFFSET :: "hyper_id \<Rightarrow> u32" where "HYPER_MEM_CFG4_OFFSET hid = UDMA_HYPER_OFFSET hid 0 + HYPER_MEM_CFG4_CHANNEL_CUSTOM_OFFSET"
definition HYPER_MEM_CFG5_OFFSET :: "hyper_id \<Rightarrow> u32" where "HYPER_MEM_CFG5_OFFSET hid = UDMA_HYPER_OFFSET hid 0 + HYPER_MEM_CFG5_CHANNEL_CUSTOM_OFFSET"
definition HYPER_MEM_CFG6_OFFSET :: "hyper_id \<Rightarrow> u32" where "HYPER_MEM_CFG6_OFFSET hid = UDMA_HYPER_OFFSET hid 0 + HYPER_MEM_CFG6_CHANNEL_CUSTOM_OFFSET"
definition HYPER_MEM_CFG7_OFFSET :: "hyper_id \<Rightarrow> u32" where "HYPER_MEM_CFG7_OFFSET hid = UDMA_HYPER_OFFSET hid 0 + HYPER_MEM_CFG7_CHANNEL_CUSTOM_OFFSET"
definition HYPER_EXT_ADDR :: "hyper_id \<Rightarrow> u32" where "HYPER_EXT_ADDR hid = ARCHI_UDMA_ADDR + HYPER_EXT_ADDR_OFFSET hid"
definition HYPER_EXT_CFG :: "hyper_id \<Rightarrow> u32" where "HYPER_EXT_CFG hid = ARCHI_UDMA_ADDR + HYPER_EXT_CFG_OFFSET hid"
definition HYPER_MEM_CFG0 :: "hyper_id \<Rightarrow> u32" where "HYPER_MEM_CFG0 hid = ARCHI_UDMA_ADDR + HYPER_MEM_CFG0_OFFSET hid"
definition HYPER_MEM_CFG1 :: "hyper_id \<Rightarrow> u32" where "HYPER_MEM_CFG1 hid = ARCHI_UDMA_ADDR + HYPER_MEM_CFG1_OFFSET hid"
definition HYPER_MEM_CFG2 :: "hyper_id \<Rightarrow> u32" where "HYPER_MEM_CFG2 hid = ARCHI_UDMA_ADDR + HYPER_MEM_CFG2_OFFSET hid"
definition HYPER_MEM_CFG3 :: "hyper_id \<Rightarrow> u32" where "HYPER_MEM_CFG3 hid = ARCHI_UDMA_ADDR + HYPER_MEM_CFG3_OFFSET hid"
definition HYPER_MEM_CFG4 :: "hyper_id \<Rightarrow> u32" where "HYPER_MEM_CFG4 hid = ARCHI_UDMA_ADDR + HYPER_MEM_CFG4_OFFSET hid"
definition HYPER_MEM_CFG5 :: "hyper_id \<Rightarrow> u32" where "HYPER_MEM_CFG5 hid = ARCHI_UDMA_ADDR + HYPER_MEM_CFG5_OFFSET hid"
definition HYPER_MEM_CFG6 :: "hyper_id \<Rightarrow> u32" where "HYPER_MEM_CFG6 hid = ARCHI_UDMA_ADDR + HYPER_MEM_CFG6_OFFSET hid"
definition HYPER_MEM_CFG7 :: "hyper_id \<Rightarrow> u32" where "HYPER_MEM_CFG7 hid = ARCHI_UDMA_ADDR + HYPER_MEM_CFG7_OFFSET hid"

lemmas hyper_addr_defs = HYPER_EXT_ADDR_CHANNEL_CUSTOM_OFFSET_def HYPER_EXT_CFG_CHANNEL_CUSTOM_OFFSET_def
  HYPER_MEM_CFG0_CHANNEL_CUSTOM_OFFSET_def HYPER_MEM_CFG1_CHANNEL_CUSTOM_OFFSET_def
  HYPER_MEM_CFG2_CHANNEL_CUSTOM_OFFSET_def HYPER_MEM_CFG3_CHANNEL_CUSTOM_OFFSET_def
  HYPER_MEM_CFG4_CHANNEL_CUSTOM_OFFSET_def HYPER_MEM_CFG5_CHANNEL_CUSTOM_OFFSET_def
  HYPER_MEM_CFG6_CHANNEL_CUSTOM_OFFSET_def HYPER_MEM_CFG7_CHANNEL_CUSTOM_OFFSET_def UDMA_HYPER_OFFSET_def
  UDMA_HYPER_RX_ADDR_def UDMA_HYPER_TX_ADDR_def UDMA_HYPER_CUSTOM_ADDR_def HYPER_EXT_ADDR_OFFSET_def
  HYPER_EXT_CFG_OFFSET_def HYPER_MEM_CFG0_OFFSET_def HYPER_MEM_CFG1_OFFSET_def HYPER_MEM_CFG2_OFFSET_def
  HYPER_MEM_CFG3_OFFSET_def HYPER_MEM_CFG4_OFFSET_def HYPER_MEM_CFG5_OFFSET_def HYPER_MEM_CFG6_OFFSET_def
  HYPER_MEM_CFG7_OFFSET_def HYPER_EXT_ADDR_def HYPER_EXT_CFG_def HYPER_MEM_CFG0_def HYPER_MEM_CFG1_def
  HYPER_MEM_CFG2_def HYPER_MEM_CFG3_def HYPER_MEM_CFG4_def HYPER_MEM_CFG5_def HYPER_MEM_CFG6_def HYPER_MEM_CFG7_def

section \<open>Fields\<close>

definition HYPER_EXT_ADDR_MASK :: u32 where "HYPER_EXT_ADDR_MASK = 0xFFFFFFFF"
definition HYPER_EXT_CFG_MASK :: u32 where "HYPER_EXT_CFG_MASK = 0"
definition HYPER_MEM_CFG0_MASK :: u32 where "HYPER_MEM_CFG0_MASK = 0x3FFF"
definition HYPER_MEM_CFG1_MASK :: u32 where "HYPER_MEM_CFG1_MASK = 0xFFFFFF"
definition HYPER_MEM_CFG2_MASK :: u32 where "HYPER_MEM_CFG2_MASK = 0x1FF01FF"
definition HYPER_MEM_CFG3_MASK :: u32 where "HYPER_MEM_CFG3_MASK = 0x73F"
definition HYPER_MEM_CFG4_MASK :: u32 where "HYPER_MEM_CFG4_MASK = 0x3FFF"
definition HYPER_MEM_CFG5_MASK :: u32 where "HYPER_MEM_CFG5_MASK = 0xFFFFFF"
definition HYPER_MEM_CFG6_MASK :: u32 where "HYPER_MEM_CFG6_MASK = 0x1FF01FF"
definition HYPER_MEM_CFG7_MASK :: u32 where "HYPER_MEM_CFG7_MASK = 0x3F"

definition HYPER_MEM_CFG0_MBR0_OFFSET :: nat where "HYPER_MEM_CFG0_MBR0_OFFSET = 0"
definition HYPER_MEM_CFG0_LATENCY0_OFFSET :: nat where "HYPER_MEM_CFG0_LATENCY0_OFFSET = 8"
definition HYPER_MEM_CFG0_WRAP_SIZE0_OFFSET :: nat where "HYPER_MEM_CFG0_WRAP_SIZE0_OFFSET = 12"
definition HYPER_MEM_CFG1_RD_CSHI0_OFFSET :: nat where "HYPER_MEM_CFG1_RD_CSHI0_OFFSET = 0"
definition HYPER_MEM_CFG1_RD_CSS0_OFFSET :: nat where "HYPER_MEM_CFG1_RD_CSS0_OFFSET = 4"
definition HYPER_MEM_CFG1_RD_CSH0_OFFSET :: nat where "HYPER_MEM_CFG1_RD_CSH0_OFFSET = 8"
definition HYPER_MEM_CFG1_WR_CSHI0_OFFSET :: nat where "HYPER_MEM_CFG1_WR_CSHI0_OFFSET = 12"
definition HYPER_MEM_CFG1_WR_CSS0_OFFSET :: nat where "HYPER_MEM_CFG1_WR_CSS0_OFFSET = 16"
definition HYPER_MEM_CFG1_WR_CSH0_OFFSET :: nat where "HYPER_MEM_CFG1_WR_CSH0_OFFSET = 20"
definition HYPER_MEM_CFG2_RD_MAX_LENGTH0_OFFSET :: nat where "HYPER_MEM_CFG2_RD_MAX_LENGTH0_OFFSET = 0"
definition HYPER_MEM_CFG2_WR_MAX_LENGTH0_OFFSET :: nat where "HYPER_MEM_CFG2_WR_MAX_LENGTH0_OFFSET = 16"
definition HYPER_MEM_CFG3_ACS0_OFFSET :: nat where "HYPER_MEM_CFG3_ACS0_OFFSET = 0"
definition HYPER_MEM_CFG3_TCO0_OFFSET :: nat where "HYPER_MEM_CFG3_TCO0_OFFSET = 1"
definition HYPER_MEM_CFG3_DT0_OFFSET :: nat where "HYPER_MEM_CFG3_DT0_OFFSET = 2"
definition HYPER_MEM_CFG3_CRT0_OFFSET :: nat where "HYPER_MEM_CFG3_CRT0_OFFSET = 3"
definition HYPER_MEM_CFG3_RD_MAX_LEN_EN0_OFFSET :: nat where "HYPER_MEM_CFG3_RD_MAX_LEN_EN0_OFFSET = 4"
definition HYPER_MEM_CFG3_WR_MAX_LEN_EN0_OFFSET :: nat where "HYPER_MEM_CFG3_WR_MAX_LEN_EN0_OFFSET = 5"
definition HYPER_MEM_CFG3_RDS_DELAY_ADJ_OFFSET :: nat where "HYPER_MEM_CFG3_RDS_DELAY_ADJ_OFFSET = 8"
definition HYPER_MEM_CFG4_MBR1_OFFSET :: nat where "HYPER_MEM_CFG4_MBR1_OFFSET = 0"
definition HYPER_MEM_CFG4_LATENCY1_OFFSET :: nat where "HYPER_MEM_CFG4_LATENCY1_OFFSET = 8"
definition HYPER_MEM_CFG4_WRAP_SIZE1_OFFSET :: nat where "HYPER_MEM_CFG4_WRAP_SIZE1_OFFSET = 12"
definition HYPER_MEM_CFG5_RD_CSHI1_OFFSET :: nat where "HYPER_MEM_CFG5_RD_CSHI1_OFFSET = 0"
definition HYPER_MEM_CFG5_RD_CSS1_OFFSET :: nat where "HYPER_MEM_CFG5_RD_CSS1_OFFSET = 4"
definition HYPER_MEM_CFG5_RD_CSH1_OFFSET :: nat where "HYPER_MEM_CFG5_RD_CSH1_OFFSET = 8"
definition HYPER_MEM_CFG5_WR_CSHI1_OFFSET :: nat where "HYPER_MEM_CFG5_WR_CSHI1_OFFSET = 12"
definition HYPER_MEM_CFG5_WR_CSS1_OFFSET :: nat where "HYPER_MEM_CFG5_WR_CSS1_OFFSET = 16"
definition HYPER_MEM_CFG5_WR_CSH1_OFFSET :: nat where "HYPER_MEM_CFG5_WR_CSH1_OFFSET = 20"
definition HYPER_MEM_CFG6_RD_MAX_LENGTH1_OFFSET :: nat where "HYPER_MEM_CFG6_RD_MAX_LENGTH1_OFFSET = 0"
definition HYPER_MEM_CFG6_WR_MAX_LENGTH1_OFFSET :: nat where "HYPER_MEM_CFG6_WR_MAX_LENGTH1_OFFSET = 16"
definition HYPER_MEM_CFG7_ACS1_OFFSET :: nat where "HYPER_MEM_CFG7_ACS1_OFFSET = 0"
definition HYPER_MEM_CFG7_TCO1_OFFSET :: nat where "HYPER_MEM_CFG7_TCO1_OFFSET = 1"
definition HYPER_MEM_CFG7_DT1_OFFSET :: nat where "HYPER_MEM_CFG7_DT1_OFFSET = 2"
definition HYPER_MEM_CFG7_CRT1_OFFSET :: nat where "HYPER_MEM_CFG7_CRT1_OFFSET = 3"
definition HYPER_MEM_CFG7_RD_MAX_LEN_EN1_OFFSET :: nat where "HYPER_MEM_CFG7_RD_MAX_LEN_EN1_OFFSET = 4"
definition HYPER_MEM_CFG7_WR_MAX_LEN_EN1_OFFSET :: nat where "HYPER_MEM_CFG7_WR_MAX_LEN_EN1_OFFSET = 5"

definition HYPER_MEM_CFG3_MASK_GEN_B :: "nat \<Rightarrow> u32" where "HYPER_MEM_CFG3_MASK_GEN_B off = NOT (push_bit off 1) AND HYPER_MEM_CFG3_MASK"
definition HYPER_MEM_CFG7_MASK_GEN_B :: "nat \<Rightarrow> u32" where "HYPER_MEM_CFG7_MASK_GEN_B off = NOT (push_bit off 1) AND HYPER_MEM_CFG7_MASK"
definition HYPER_MEM_CFG0_MASK_GEN_TB :: "nat \<Rightarrow> u32" where "HYPER_MEM_CFG0_MASK_GEN_TB off = NOT (push_bit off 3) AND HYPER_MEM_CFG0_MASK"
definition HYPER_MEM_CFG4_MASK_GEN_TB :: "nat \<Rightarrow> u32" where "HYPER_MEM_CFG4_MASK_GEN_TB off = NOT (push_bit off 3) AND HYPER_MEM_CFG4_MASK"
definition HYPER_MEM_CFG3_MASK_GEN_THB :: "nat \<Rightarrow> u32" where "HYPER_MEM_CFG3_MASK_GEN_THB off = NOT (push_bit off 7) AND HYPER_MEM_CFG3_MASK"
definition HYPER_MEM_CFG0_MASK_GEN_HB :: "nat \<Rightarrow> u32" where "HYPER_MEM_CFG0_MASK_GEN_HB off = NOT (push_bit off 0xF) AND HYPER_MEM_CFG0_MASK"
definition HYPER_MEM_CFG1_MASK_GEN_HB :: "nat \<Rightarrow> u32" where "HYPER_MEM_CFG1_MASK_GEN_HB off = NOT (push_bit off 0xF) AND HYPER_MEM_CFG1_MASK"
definition HYPER_MEM_CFG4_MASK_GEN_HB :: "nat \<Rightarrow> u32" where "HYPER_MEM_CFG4_MASK_GEN_HB off = NOT (push_bit off 0xF) AND HYPER_MEM_CFG4_MASK"
definition HYPER_MEM_CFG5_MASK_GEN_HB :: "nat \<Rightarrow> u32" where "HYPER_MEM_CFG5_MASK_GEN_HB off = NOT (push_bit off 0xF) AND HYPER_MEM_CFG5_MASK"
definition HYPER_MEM_CFG0_MASK_GEN_BYTE :: "nat \<Rightarrow> u32" where "HYPER_MEM_CFG0_MASK_GEN_BYTE off = NOT (push_bit off 0xFF) AND HYPER_MEM_CFG0_MASK"
definition HYPER_MEM_CFG4_MASK_GEN_BYTE :: "nat \<Rightarrow> u32" where "HYPER_MEM_CFG4_MASK_GEN_BYTE off = NOT (push_bit off 0xFF) AND HYPER_MEM_CFG4_MASK"
definition HYPER_MEM_CFG2_MASK_GEN_NB :: "nat \<Rightarrow> u32" where "HYPER_MEM_CFG2_MASK_GEN_NB off = NOT (push_bit off 0x1FF) AND HYPER_MEM_CFG2_MASK"
definition HYPER_MEM_CFG6_MASK_GEN_NB :: "nat \<Rightarrow> u32" where "HYPER_MEM_CFG6_MASK_GEN_NB off = NOT (push_bit off 0x1FF) AND HYPER_MEM_CFG6_MASK"

definition HYPER_MEM_CFG0_MBR0_MASK_BYTE :: u32 where "HYPER_MEM_CFG0_MBR0_MASK_BYTE = HYPER_MEM_CFG0_MASK_GEN_BYTE HYPER_MEM_CFG0_MBR0_OFFSET"
definition HYPER_MEM_CFG0_LATENCY0_MASK_HB :: u32 where "HYPER_MEM_CFG0_LATENCY0_MASK_HB = HYPER_MEM_CFG0_MASK_GEN_HB HYPER_MEM_CFG0_LATENCY0_OFFSET"
definition HYPER_MEM_CFG0_WRAP_SIZE0_MASK_TB :: u32 where "HYPER_MEM_CFG0_WRAP_SIZE0_MASK_TB = HYPER_MEM_CFG0_MASK_GEN_TB HYPER_MEM_CFG0_WRAP_SIZE0_OFFSET"
definition HYPER_MEM_CFG1_RD_CSHI0_MASK_HB :: u32 where "HYPER_MEM_CFG1_RD_CSHI0_MASK_HB = HYPER_MEM_CFG1_MASK_GEN_HB HYPER_MEM_CFG1_RD_CSHI0_OFFSET"
definition HYPER_MEM_CFG1_RD_CSS0_MASK_HB :: u32 where "HYPER_MEM_CFG1_RD_CSS0_MASK_HB = HYPER_MEM_CFG1_MASK_GEN_HB HYPER_MEM_CFG1_RD_CSS0_OFFSET"
definition HYPER_MEM_CFG1_RD_CSH0_MASK_HB :: u32 where "HYPER_MEM_CFG1_RD_CSH0_MASK_HB = HYPER_MEM_CFG1_MASK_GEN_HB HYPER_MEM_CFG1_RD_CSH0_OFFSET"
definition HYPER_MEM_CFG1_WR_CSHI0_MASK_HB :: u32 where "HYPER_MEM_CFG1_WR_CSHI0_MASK_HB = HYPER_MEM_CFG1_MASK_GEN_HB HYPER_MEM_CFG1_WR_CSHI0_OFFSET"
definition HYPER_MEM_CFG1_WR_CSS0_MASK_HB :: u32 where "HYPER_MEM_CFG1_WR_CSS0_MASK_HB = HYPER_MEM_CFG1_MASK_GEN_HB HYPER_MEM_CFG1_WR_CSS0_OFFSET"
definition HYPER_MEM_CFG1_WR_CSH0_MASK_HB :: u32 where "HYPER_MEM_CFG1_WR_CSH0_MASK_HB = HYPER_MEM_CFG1_MASK_GEN_HB HYPER_MEM_CFG1_WR_CSH0_OFFSET"
definition HYPER_MEM_CFG2_RD_MAX_LENGTH0_MASK_NB :: u32 where "HYPER_MEM_CFG2_RD_MAX_LENGTH0_MASK_NB = HYPER_MEM_CFG2_MASK_GEN_NB HYPER_MEM_CFG2_RD_MAX_LENGTH0_OFFSET"
definition HYPER_MEM_CFG2_WR_MAX_LENGTH0_MASK_NB :: u32 where "HYPER_MEM_CFG2_WR_MAX_LENGTH0_MASK_NB = HYPER_MEM_CFG2_MASK_GEN_NB HYPER_MEM_CFG2_WR_MAX_LENGTH0_OFFSET"
definition HYPER_MEM_CFG3_ACS0_MASK_B :: u32 where "HYPER_MEM_CFG3_ACS0_MASK_B = HYPER_MEM_CFG3_MASK_GEN_B HYPER_MEM_CFG3_ACS0_OFFSET"
definition HYPER_MEM_CFG3_TCO0_MASK_B :: u32 where "HYPER_MEM_CFG3_TCO0_MASK_B = HYPER_MEM_CFG3_MASK_GEN_B HYPER_MEM_CFG3_TCO0_OFFSET"
definition HYPER_MEM_CFG3_DT0_MASK_B :: u32 where "HYPER_MEM_CFG3_DT0_MASK_B = HYPER_MEM_CFG3_MASK_GEN_B HYPER_MEM_CFG3_DT0_OFFSET"
definition HYPER_MEM_CFG3_CRT0_MASK_B :: u32 where "HYPER_MEM_CFG3_CRT0_MASK_B = HYPER_MEM_CFG3_MASK_GEN_B HYPER_MEM_CFG3_CRT0_OFFSET"
definition HYPER_MEM_CFG3_RD_MAX_LEN_EN0_MASK_B :: u32 where "HYPER_MEM_CFG3_RD_MAX_LEN_EN0_MASK_B = HYPER_MEM_CFG3_MASK_GEN_B HYPER_MEM_CFG3_RD_MAX_LEN_EN0_OFFSET"
definition HYPER_MEM_CFG3_WR_MAX_LEN_EN0_MASK_B :: u32 where "HYPER_MEM_CFG3_WR_MAX_LEN_EN0_MASK_B = HYPER_MEM_CFG3_MASK_GEN_B HYPER_MEM_CFG3_WR_MAX_LEN_EN0_OFFSET"
definition HYPER_MEM_CFG3_RDS_DELAY_ADJ_MASK_THB :: u32 where "HYPER_MEM_CFG3_RDS_DELAY_ADJ_MASK_THB = HYPER_MEM_CFG3_MASK_GEN_THB HYPER_MEM_CFG3_RDS_DELAY_ADJ_OFFSET"
definition HYPER_MEM_CFG4_MBR1_MASK_BYTE :: u32 where "HYPER_MEM_CFG4_MBR1_MASK_BYTE = HYPER_MEM_CFG4_MASK_GEN_BYTE HYPER_MEM_CFG4_MBR1_OFFSET"
definition HYPER_MEM_CFG4_WRAP_SIZE1_MASK_TB :: u32 where "HYPER_MEM_CFG4_WRAP_SIZE1_MASK_TB = HYPER_MEM_CFG4_MASK_GEN_TB HYPER_MEM_CFG4_WRAP_SIZE1_OFFSET"
definition HYPER_MEM_CFG5_RD_CSHI1_MASK_HB :: u32 where "HYPER_MEM_CFG5_RD_CSHI1_MASK_HB = HYPER_MEM_CFG5_MASK_GEN_HB HYPER_MEM_CFG5_RD_CSHI1_OFFSET"
definition HYPER_MEM_CFG5_RD_CSS1_MASK_HB :: u32 where "HYPER_MEM_CFG5_RD_CSS1_MASK_HB = HYPER_MEM_CFG5_MASK_GEN_HB HYPER_MEM_CFG5_RD_CSS1_OFFSET"
definition HYPER_MEM_CFG5_RD_CSH1_MASK_HB :: u32 where "HYPER_MEM_CFG5_RD_CSH1_MASK_HB = HYPER_MEM_CFG5_MASK_GEN_HB HYPER_MEM_CFG5_RD_CSH1_OFFSET"
definition HYPER_MEM_CFG5_WR_CSHI1_MASK_HB :: u32 where "HYPER_MEM_CFG5_WR_CSHI1_MASK_HB = HYPER_MEM_CFG5_MASK_GEN_HB HYPER_MEM_CFG5_WR_CSHI1_OFFSET"
definition HYPER_MEM_CFG5_WR_CSS1_MASK_HB :: u32 where "HYPER_MEM_CFG5_WR_CSS1_MASK_HB = HYPER_MEM_CFG5_MASK_GEN_HB HYPER_MEM_CFG5_WR_CSS1_OFFSET"
definition HYPER_MEM_CFG5_WR_CSH1_MASK_HB :: u32 where "HYPER_MEM_CFG5_WR_CSH1_MASK_HB = HYPER_MEM_CFG5_MASK_GEN_HB HYPER_MEM_CFG5_WR_CSH1_OFFSET"
definition HYPER_MEM_CFG6_RD_MAX_LENGTH1_MASK_NB :: u32 where "HYPER_MEM_CFG6_RD_MAX_LENGTH1_MASK_NB = HYPER_MEM_CFG6_MASK_GEN_NB HYPER_MEM_CFG6_RD_MAX_LENGTH1_OFFSET"
definition HYPER_MEM_CFG6_WR_MAX_LENGTH1_MASK_NB :: u32 where "HYPER_MEM_CFG6_WR_MAX_LENGTH1_MASK_NB = HYPER_MEM_CFG6_MASK_GEN_NB HYPER_MEM_CFG6_WR_MAX_LENGTH1_OFFSET"
definition HYPER_MEM_CFG7_ACS1_MASK_B :: u32 where "HYPER_MEM_CFG7_ACS1_MASK_B = HYPER_MEM_CFG7_MASK_GEN_B HYPER_MEM_CFG7_ACS1_OFFSET"
definition HYPER_MEM_CFG7_TCO1_MASK_B :: u32 where "HYPER_MEM_CFG7_TCO1_MASK_B = HYPER_MEM_CFG7_MASK_GEN_B HYPER_MEM_CFG7_TCO1_OFFSET"
definition HYPER_MEM_CFG7_DT1_MASK_B :: u32 where "HYPER_MEM_CFG7_DT1_MASK_B = HYPER_MEM_CFG7_MASK_GEN_B HYPER_MEM_CFG7_DT1_OFFSET"
definition HYPER_MEM_CFG7_CRT1_MASK_B :: u32 where "HYPER_MEM_CFG7_CRT1_MASK_B = HYPER_MEM_CFG7_MASK_GEN_B HYPER_MEM_CFG7_CRT1_OFFSET"
definition HYPER_MEM_CFG7_RD_MAX_LEN_EN1_MASK_B :: u32 where "HYPER_MEM_CFG7_RD_MAX_LEN_EN1_MASK_B = HYPER_MEM_CFG7_MASK_GEN_B HYPER_MEM_CFG7_RD_MAX_LEN_EN1_OFFSET"
definition HYPER_MEM_CFG7_WR_MAX_LEN_EN1_MASK_B :: u32 where "HYPER_MEM_CFG7_WR_MAX_LEN_EN1_MASK_B = HYPER_MEM_CFG7_MASK_GEN_B HYPER_MEM_CFG7_WR_MAX_LEN_EN1_OFFSET"

lemmas hyper_mask_defs = HYPER_EXT_ADDR_MASK_def HYPER_EXT_CFG_MASK_def HYPER_MEM_CFG0_MASK_def
  HYPER_MEM_CFG1_MASK_def HYPER_MEM_CFG2_MASK_def HYPER_MEM_CFG3_MASK_def HYPER_MEM_CFG4_MASK_def
  HYPER_MEM_CFG5_MASK_def HYPER_MEM_CFG6_MASK_def HYPER_MEM_CFG7_MASK_def
lemmas hyper_off_defs = HYPER_MEM_CFG0_MBR0_OFFSET_def HYPER_MEM_CFG0_LATENCY0_OFFSET_def
  HYPER_MEM_CFG0_WRAP_SIZE0_OFFSET_def HYPER_MEM_CFG1_RD_CSHI0_OFFSET_def HYPER_MEM_CFG1_RD_CSS0_OFFSET_def
  HYPER_MEM_CFG1_RD_CSH0_OFFSET_def HYPER_MEM_CFG1_WR_CSHI0_OFFSET_def HYPER_MEM_CFG1_WR_CSS0_OFFSET_def
  HYPER_MEM_CFG1_WR_CSH0_OFFSET_def HYPER_MEM_CFG2_RD_MAX_LENGTH0_OFFSET_def
  HYPER_MEM_CFG2_WR_MAX_LENGTH0_OFFSET_def HYPER_MEM_CFG3_ACS0_OFFSET_def HYPER_MEM_CFG3_TCO0_OFFSET_def
  HYPER_MEM_CFG3_DT0_OFFSET_def HYPER_MEM_CFG3_CRT0_OFFSET_def HYPER_MEM_CFG3_RD_MAX_LEN_EN0_OFFSET_def
  HYPER_MEM_CFG3_WR_MAX_LEN_EN0_OFFSET_def HYPER_MEM_CFG3_RDS_DELAY_ADJ_OFFSET_def HYPER_MEM_CFG4_MBR1_OFFSET_def
  HYPER_MEM_CFG4_LATENCY1_OFFSET_def HYPER_MEM_CFG4_WRAP_SIZE1_OFFSET_def HYPER_MEM_CFG5_RD_CSHI1_OFFSET_def
  HYPER_MEM_CFG5_RD_CSS1_OFFSET_def HYPER_MEM_CFG5_RD_CSH1_OFFSET_def HYPER_MEM_CFG5_WR_CSHI1_OFFSET_def
  HYPER_MEM_CFG5_WR_CSS1_OFFSET_def HYPER_MEM_CFG5_WR_CSH1_OFFSET_def HYPER_MEM_CFG6_RD_MAX_LENGTH1_OFFSET_def
  HYPER_MEM_CFG6_WR_MAX_LENGTH1_OFFSET_def HYPER_MEM_CFG7_ACS1_OFFSET_def HYPER_MEM_CFG7_TCO1_OFFSET_def
  HYPER_MEM_CFG7_DT1_OFFSET_def HYPER_MEM_CFG7_CRT1_OFFSET_def HYPER_MEM_CFG7_RD_MAX_LEN_EN1_OFFSET_def
  HYPER_MEM_CFG7_WR_MAX_LEN_EN1_OFFSET_def
lemmas hyper_gen_defs = HYPER_MEM_CFG3_MASK_GEN_B_def HYPER_MEM_CFG7_MASK_GEN_B_def HYPER_MEM_CFG0_MASK_GEN_TB_def
  HYPER_MEM_CFG4_MASK_GEN_TB_def HYPER_MEM_CFG3_MASK_GEN_THB_def HYPER_MEM_CFG0_MASK_GEN_HB_def
  HYPER_MEM_CFG1_MASK_GEN_HB_def HYPER_MEM_CFG4_MASK_GEN_HB_def HYPER_MEM_CFG5_MASK_GEN_HB_def
  HYPER_MEM_CFG0_MASK_GEN_BYTE_def HYPER_MEM_CFG4_MASK_GEN_BYTE_def HYPER_MEM_CFG2_MASK_GEN_NB_def
  HYPER_MEM_CFG6_MASK_GEN_NB_def
lemmas hyper_field_defs = HYPER_MEM_CFG0_MBR0_MASK_BYTE_def HYPER_MEM_CFG0_LATENCY0_MASK_HB_def
  HYPER_MEM_CFG0_WRAP_SIZE0_MASK_TB_def HYPER_MEM_CFG1_RD_CSHI0_MASK_HB_def HYPER_MEM_CFG1_RD_CSS0_MASK_HB_def
  HYPER_MEM_CFG1_RD_CSH0_MASK_HB_def HYPER_MEM_CFG1_WR_CSHI0_MASK_HB_def HYPER_MEM_CFG1_WR_CSS0_MASK_HB_def
  HYPER_MEM_CFG1_WR_CSH0_MASK_HB_def HYPER_MEM_CFG2_RD_MAX_LENGTH0_MASK_NB_def
  HYPER_MEM_CFG2_WR_MAX_LENGTH0_MASK_NB_def HYPER_MEM_CFG3_ACS0_MASK_B_def HYPER_MEM_CFG3_TCO0_MASK_B_def
  HYPER_MEM_CFG3_DT0_MASK_B_def HYPER_MEM_CFG3_CRT0_MASK_B_def HYPER_MEM_CFG3_RD_MAX_LEN_EN0_MASK_B_def
  HYPER_MEM_CFG3_WR_MAX_LEN_EN0_MASK_B_def HYPER_MEM_CFG3_RDS_DELAY_ADJ_MASK_THB_def
  HYPER_MEM_CFG4_MBR1_MASK_BYTE_def HYPER_MEM_CFG4_WRAP_SIZE1_MASK_TB_def HYPER_MEM_CFG5_RD_CSHI1_MASK_HB_def
  HYPER_MEM_CFG5_RD_CSS1_MASK_HB_def HYPER_MEM_CFG5_RD_CSH1_MASK_HB_def HYPER_MEM_CFG5_WR_CSHI1_MASK_HB_def
  HYPER_MEM_CFG5_WR_CSS1_MASK_HB_def HYPER_MEM_CFG5_WR_CSH1_MASK_HB_def HYPER_MEM_CFG6_RD_MAX_LENGTH1_MASK_NB_def
  HYPER_MEM_CFG6_WR_MAX_LENGTH1_MASK_NB_def HYPER_MEM_CFG7_ACS1_MASK_B_def HYPER_MEM_CFG7_TCO1_MASK_B_def
  HYPER_MEM_CFG7_DT1_MASK_B_def HYPER_MEM_CFG7_CRT1_MASK_B_def HYPER_MEM_CFG7_RD_MAX_LEN_EN1_MASK_B_def
  HYPER_MEM_CFG7_WR_MAX_LEN_EN1_MASK_B_def

section \<open>Registers\<close>

definition hal_hyper_udma_ext_addr_set :: "'e pulp_bus \<Rightarrow> hyper_id \<Rightarrow> u32 \<Rightarrow> ('e, 'z) machine_scheme \<Rightarrow> ('e, 'z) machine_scheme" where
  "hal_hyper_udma_ext_addr_set b hid value = pulp_write32 b (HYPER_EXT_ADDR hid) (value AND HYPER_EXT_ADDR_MASK)"

definition hal_hyper_udma_ext_addr_get :: "'e pulp_bus \<Rightarrow> hyper_id \<Rightarrow> ('e, 'z) machine_scheme \<Rightarrow> u32 \<times> ('e, 'z) machine_scheme" where
  "hal_hyper_udma_ext_addr_get b hid = pulp_read32 b (HYPER_EXT_ADDR hid)"

definition hal_hyper_udma_mem_cfg0_set :: "'e pulp_bus \<Rightarrow> hyper_id \<Rightarrow> u16 \<Rightarrow> ('e, 'z) machine_scheme \<Rightarrow> ('e, 'z) machine_scheme" where
  "hal_hyper_udma_mem_cfg0_set b hid value = pulp_write32 b (HYPER_MEM_CFG0 hid) (ucast value AND HYPER_MEM_CFG0_MASK)"

definition hal_hyper_udma_mem_cfg0_get :: "'e pulp_bus \<Rightarrow> hyper_id \<Rightarrow> ('e, 'z) machine_scheme \<Rightarrow> u16 \<times> ('e, 'z) machine_scheme" where
  "hal_hyper_udma_mem_cfg0_get b hid s = (case pulp_read32 b (HYPER_MEM_CFG0 hid) s of (v, s) \<Rightarrow> (ucast (v AND HYPER_MEM_CFG0_MASK), s))"

definition hal_hyper_udma_mem_cfg1_set :: "'e pulp_bus \<Rightarrow> hyper_id \<Rightarrow> u32 \<Rightarrow> ('e, 'z) machine_scheme \<Rightarrow> ('e, 'z) machine_scheme" where
  "hal_hyper_udma_mem_cfg1_set b hid value = pulp_write32 b (HYPER_MEM_CFG1 hid) (value AND HYPER_MEM_CFG1_MASK)"

definition hal_hyper_udma_mem_cfg1_get :: "'e pulp_bus \<Rightarrow> hyper_id \<Rightarrow> ('e, 'z) machine_scheme \<Rightarrow> u32 \<times> ('e, 'z) machine_scheme" where
  "hal_hyper_udma_mem_cfg1_get b hid s = (case pulp_read32 b (HYPER_MEM_CFG1 hid) s of (v, s) \<Rightarrow> (v AND HYPER_MEM_CFG1_MASK, s))"

definition hal_hyper_udma_mem_cfg2_set :: "'e pulp_bus \<Rightarrow> hyper_id \<Rightarrow> u32 \<Rightarrow> ('e, 'z) machine_scheme \<Rightarrow> ('e, 'z) machine_scheme" where
  "hal_hyper_udma_mem_cfg2_set b hid value = pulp_write32 b (HYPER_MEM_CFG2 hid) (value AND HYPER_MEM_CFG2_MASK)"

definition hal_hyper_udma_mem_cfg2_get :: "'e pulp_bus \<Rightarrow> hyper_id \<Rightarrow> ('e, 'z) machine_scheme \<Rightarrow> u32 \<times> ('e, 'z) machine_scheme" where
  "hal_hyper_udma_mem_cfg2_get b hid s = (case pulp_read32 b (HYPER_MEM_CFG2 hid) s of (v, s) \<Rightarrow> (v AND HYPER_MEM_CFG2_MASK, s))"

definition hal_hyper_udma_mem_cfg3_set :: "'e pulp_bus \<Rightarrow> hyper_id \<Rightarrow> u16 \<Rightarrow> ('e, 'z) machine_scheme \<Rightarrow> ('e, 'z) machine_scheme" where
  "hal_hyper_udma_mem_cfg3_set b hid value = pulp_write32 b (HYPER_MEM_CFG3 hid) (ucast value AND HYPER_MEM_CFG3_MASK)"

definition hal_hyper_udma_mem_cfg3_get :: "'e pulp_bus \<Rightarrow> hyper_id \<Rightarrow> ('e, 'z) machine_scheme \<Rightarrow> u16 \<times> ('e, 'z) machine_scheme" where
  "hal_hyper_udma_mem_cfg3_get b hid s = (case pulp_read32 b (HYPER_MEM_CFG3 hid) s of (v, s) \<Rightarrow> (ucast (v AND HYPER_MEM_CFG3_MASK), s))"

definition hal_hyper_udma_mem_cfg4_set :: "'e pulp_bus \<Rightarrow> hyper_id \<Rightarrow> u16 \<Rightarrow> ('e, 'z) machine_scheme \<Rightarrow> ('e, 'z) machine_scheme" where
  "hal_hyper_udma_mem_cfg4_set b hid value = pulp_write32 b (HYPER_MEM_CFG4 hid) (ucast value AND HYPER_MEM_CFG4_MASK)"

definition hal_hyper_udma_mem_cfg4_get :: "'e pulp_bus \<Rightarrow> hyper_id \<Rightarrow> ('e, 'z) machine_scheme \<Rightarrow> u16 \<times> ('e, 'z) machine_scheme" where
  "hal_hyper_udma_mem_cfg4_get b hid s = (case pulp_read32 b (HYPER_MEM_CFG4 hid) s of (v, s) \<Rightarrow> (ucast (v AND HYPER_MEM_CFG4_MASK), s))"

definition hal_hyper_udma_mem_cfg5_set :: "'e pulp_bus \<Rightarrow> hyper_id \<Rightarrow> u32 \<Rightarrow> ('e, 'z) machine_scheme \<Rightarrow> ('e, 'z) machine_scheme" where
  "hal_hyper_udma_mem_cfg5_set b hid value = pulp_write32 b (HYPER_MEM_CFG5 hid) (value AND HYPER_MEM_CFG5_MASK)"

definition hal_hyper_udma_mem_cfg5_get :: "'e pulp_bus \<Rightarrow> hyper_id \<Rightarrow> ('e, 'z) machine_scheme \<Rightarrow> u32 \<times> ('e, 'z) machine_scheme" where
  "hal_hyper_udma_mem_cfg5_get b hid s = (case pulp_read32 b (HYPER_MEM_CFG5 hid) s of (v, s) \<Rightarrow> (v AND HYPER_MEM_CFG5_MASK, s))"

definition hal_hyper_udma_mem_cfg6_set :: "'e pulp_bus \<Rightarrow> hyper_id \<Rightarrow> u32 \<Rightarrow> ('e, 'z) machine_scheme \<Rightarrow> ('e, 'z) machine_scheme" where
  "hal_hyper_udma_mem_cfg6_set b hid value = pulp_write32 b (HYPER_MEM_CFG6 hid) (value AND HYPER_MEM_CFG6_MASK)"

definition hal_hyper_udma_mem_cfg6_get :: "'e pulp_bus \<Rightarrow> hyper_id \<Rightarrow> ('e, 'z) machine_scheme \<Rightarrow> u32 \<times> ('e, 'z) machine_scheme" where
  "hal_hyper_udma_mem_cfg6_get b hid s = (case pulp_read32 b (HYPER_MEM_CFG6 hid) s of (v, s) \<Rightarrow> (v AND HYPER_MEM_CFG6_MASK, s))"

definition hal_hyper_udma_mem_cfg7_set :: "'e pulp_bus \<Rightarrow> hyper_id \<Rightarrow> u8 \<Rightarrow> ('e, 'z) machine_scheme \<Rightarrow> ('e, 'z) machine_scheme" where
  "hal_hyper_udma_mem_cfg7_set b hid value = pulp_write32 b (HYPER_MEM_CFG7 hid) (ucast value AND HYPER_MEM_CFG7_MASK)"

definition hal_hyper_udma_mem_cfg7_get :: "'e pulp_bus \<Rightarrow> hyper_id \<Rightarrow> ('e, 'z) machine_scheme \<Rightarrow> u8 \<times> ('e, 'z) machine_scheme" where
  "hal_hyper_udma_mem_cfg7_get b hid s = (case pulp_read32 b (HYPER_MEM_CFG7 hid) s of (v, s) \<Rightarrow> (ucast (v AND HYPER_MEM_CFG7_MASK), s))"

definition hal_hyper_udma_addr_set :: "'e pulp_bus \<Rightarrow> hyper_id \<Rightarrow> u32 \<Rightarrow> ('e, 'z) machine_scheme \<Rightarrow> ('e, 'z) machine_scheme" where
  "hal_hyper_udma_addr_set b hid addr = hal_hyper_udma_ext_addr_set b hid addr"

lemmas hyper_reg_defs = hal_hyper_udma_mem_cfg0_set_def hal_hyper_udma_mem_cfg0_get_def
  hal_hyper_udma_mem_cfg1_set_def hal_hyper_udma_mem_cfg1_get_def hal_hyper_udma_mem_cfg2_set_def
  hal_hyper_udma_mem_cfg2_get_def hal_hyper_udma_mem_cfg3_set_def hal_hyper_udma_mem_cfg3_get_def
  hal_hyper_udma_mem_cfg4_set_def hal_hyper_udma_mem_cfg4_get_def hal_hyper_udma_mem_cfg5_set_def
  hal_hyper_udma_mem_cfg5_get_def hal_hyper_udma_mem_cfg6_set_def hal_hyper_udma_mem_cfg6_get_def
  hal_hyper_udma_mem_cfg7_set_def hal_hyper_udma_mem_cfg7_get_def

section \<open>Fields of the registers\<close>

definition hal_hyper_udma_mbr0_set :: "'e pulp_bus \<Rightarrow> hyper_id \<Rightarrow> u8 \<Rightarrow> ('e, 'z) machine_scheme \<Rightarrow> ('e, 'z) machine_scheme" where
  "hal_hyper_udma_mbr0_set b hid mbr0 s =
     (case hal_hyper_udma_mem_cfg0_get b hid s of (x, s) \<Rightarrow>
        hal_hyper_udma_mem_cfg0_set b hid (ucast ((ucast x AND HYPER_MEM_CFG0_MBR0_MASK_BYTE) OR push_bit HYPER_MEM_CFG0_MBR0_OFFSET (ucast mbr0))) s)"

definition hal_hyper_udma_latency0_set :: "'e pulp_bus \<Rightarrow> hyper_id \<Rightarrow> u8 \<Rightarrow> ('e, 'z) machine_scheme \<Rightarrow> ('e, 'z) machine_scheme" where
  "hal_hyper_udma_latency0_set b hid latency0 s =
     (case hal_hyper_udma_mem_cfg0_get b hid s of (x, s) \<Rightarrow>
        hal_hyper_udma_mem_cfg0_set b hid (ucast ((ucast x AND HYPER_MEM_CFG0_LATENCY0_MASK_HB) OR push_bit HYPER_MEM_CFG0_LATENCY0_OFFSET (ucast latency0))) s)"

definition hal_hyper_udma_wrap_size0_set :: "'e pulp_bus \<Rightarrow> hyper_id \<Rightarrow> u8 \<Rightarrow> ('e, 'z) machine_scheme \<Rightarrow> ('e, 'z) machine_scheme" where
  "hal_hyper_udma_wrap_size0_set b hid wrapsize s =
     (case hal_hyper_udma_mem_cfg0_get b hid s of (x, s) \<Rightarrow>
        hal_hyper_udma_mem_cfg0_set b hid (ucast ((ucast x AND HYPER_MEM_CFG0_WRAP_SIZE0_MASK_TB) OR push_bit HYPER_MEM_CFG0_WRAP_SIZE0_OFFSET (ucast wrapsize))) s)"

definition hal_hyper_udma_rd_cshi0_set :: "'e pulp_bus \<Rightarrow> hyper_id \<Rightarrow> u8 \<Rightarrow> ('e, 'z) machine_scheme \<Rightarrow> ('e, 'z) machine_scheme" where
  "hal_hyper_udma_rd_cshi0_set b hid value s =
     (case hal_hyper_udma_mem_cfg1_get b hid s of (x, s) \<Rightarrow>
        hal_hyper_udma_mem_cfg1_set b hid ((x AND HYPER_MEM_CFG1_RD_CSHI0_MASK_HB) OR push_bit HYPER_MEM_CFG1_RD_CSHI0_OFFSET (ucast value)) s)"

definition hal_hyper_udma_rd_css0_set :: "'e pulp_bus \<Rightarrow> hyper_id \<Rightarrow> u8 \<Rightarrow> ('e, 'z) machine_scheme \<Rightarrow> ('e, 'z) machine_scheme" where
  "hal_hyper_udma_rd_css0_set b hid value s =
     (case hal_hyper_udma_mem_cfg1_get b hid s of (x, s) \<Rightarrow>
        hal_hyper_udma_mem_cfg1_set b hid ((x AND HYPER_MEM_CFG1_RD_CSS0_MASK_HB) OR push_bit HYPER_MEM_CFG1_RD_CSS0_OFFSET (ucast value)) s)"

definition hal_hyper_udma_rd_csh0_set :: "'e pulp_bus \<Rightarrow> hyper_id \<Rightarrow> u8 \<Rightarrow> ('e, 'z) machine_scheme \<Rightarrow> ('e, 'z) machine_scheme" where
  "hal_hyper_udma_rd_csh0_set b hid value s =
     (case hal_hyper_udma_mem_cfg1_get b hid s of (x, s) \<Rightarrow>
        hal_hyper_udma_mem_cfg1_set b hid ((x AND HYPER_MEM_CFG1_RD_CSH0_MASK_HB) OR push_bit HYPER_MEM_CFG1_RD_CSH0_OFFSET (ucast value)) s)"

definition hal_hyper_udma_wr_cshi0_set :: "'e pulp_bus \<Rightarrow> hyper_id \<Rightarrow> u8 \<Rightarrow> ('e, 'z) machine_scheme \<Rightarrow> ('e, 'z) machine_scheme" where
  "hal_hyper_udma_wr_cshi0_set b hid value s =
     (case hal_hyper_udma_mem_cfg1_get b hid s of (x, s) \<Rightarrow>
        hal_hyper_udma_mem_cfg1_set b hid ((x AND HYPER_MEM_CFG1_WR_CSHI0_MASK_HB) OR push_bit HYPER_MEM_CFG1_WR_CSHI0_OFFSET (ucast value)) s)"

definition hal_hyper_udma_wr_css0_set :: "'e pulp_bus \<Rightarrow> hyper_id \<Rightarrow> u8 \<Rightarrow> ('e, 'z) machine_scheme \<Rightarrow> ('e, 'z) machine_scheme" where
  "hal_hyper_udma_wr_css0_set b hid value s =
     (case hal_hyper_udma_mem_cfg1_get b hid s of (x, s) \<Rightarrow>
        hal_hyper_udma_mem_cfg1_set b hid ((x AND HYPER_MEM_CFG1_WR_CSS0_MASK_HB) OR push_bit HYPER_MEM_CFG1_WR_CSS0_OFFSET (ucast value)) s)"

definition hal_hyper_udma_wr_csh0_set :: "'e pulp_bus \<Rightarrow> hyper_id \<Rightarrow> u8 \<Rightarrow> ('e, 'z) machine_scheme \<Rightarrow> ('e, 'z) machine_scheme" where
  "hal_hyper_udma_wr_csh0_set b hid value s =
     (case hal_hyper_udma_mem_cfg1_get b hid s of (x, s) \<Rightarrow>
        hal_hyper_udma_mem_cfg1_set b hid ((x AND HYPER_MEM_CFG1_WR_CSH0_MASK_HB) OR push_bit HYPER_MEM_CFG1_WR_CSH0_OFFSET (ucast value)) s)"

definition hal_hyper_udma_rd_max_length0_set :: "'e pulp_bus \<Rightarrow> hyper_id \<Rightarrow> u16 \<Rightarrow> ('e, 'z) machine_scheme \<Rightarrow> ('e, 'z) machine_scheme" where
  "hal_hyper_udma_rd_max_length0_set b hid value s =
     (case hal_hyper_udma_mem_cfg2_get b hid s of (x, s) \<Rightarrow>
        hal_hyper_udma_mem_cfg2_set b hid ((x AND HYPER_MEM_CFG2_RD_MAX_LENGTH0_MASK_NB) OR push_bit HYPER_MEM_CFG2_RD_MAX_LENGTH0_OFFSET (ucast value)) s)"

definition hal_hyper_udma_wr_max_length0_set :: "'e pulp_bus \<Rightarrow> hyper_id \<Rightarrow> u16 \<Rightarrow> ('e, 'z) machine_scheme \<Rightarrow> ('e, 'z) machine_scheme" where
  "hal_hyper_udma_wr_max_length0_set b hid value s =
     (case hal_hyper_udma_mem_cfg2_get b hid s of (x, s) \<Rightarrow>
        hal_hyper_udma_mem_cfg2_set b hid ((x AND HYPER_MEM_CFG2_WR_MAX_LENGTH0_MASK_NB) OR push_bit HYPER_MEM_CFG2_WR_MAX_LENGTH0_OFFSET (ucast value)) s)"

definition hal_hyper_udma_acs0_set :: "'e pulp_bus \<Rightarrow> hyper_id \<Rightarrow> u8 \<Rightarrow> ('e, 'z) machine_scheme \<Rightarrow> ('e, 'z) machine_scheme" where
  "hal_hyper_udma_acs0_set b hid value s =
     (case hal_hyper_udma_mem_cfg3_get b hid s of (x, s) \<Rightarrow>
        hal_hyper_udma_mem_cfg3_set b hid (ucast ((ucast x AND HYPER_MEM_CFG3_ACS0_MASK_B) OR push_bit HYPER_MEM_CFG3_ACS0_OFFSET (ucast value))) s)"

definition hal_hyper_udma_tco0_set :: "'e pulp_bus \<Rightarrow> hyper_id \<Rightarrow> u8 \<Rightarrow> ('e, 'z) machine_scheme \<Rightarrow> ('e, 'z) machine_scheme" where
  "hal_hyper_udma_tco0_set b hid value s =
     (case hal_hyper_udma_mem_cfg3_get b hid s of (x, s) \<Rightarrow>
        hal_hyper_udma_mem_cfg3_set b hid (ucast ((ucast x AND HYPER_MEM_CFG3_TCO0_MASK_B) OR push_bit HYPER_MEM_CFG3_TCO0_OFFSET (ucast value))) s)"

definition hal_hyper_udma_dt0_set :: "'e pulp_bus \<Rightarrow> hyper_id \<Rightarrow> u8 \<Rightarrow> ('e, 'z) machine_scheme \<Rightarrow> ('e, 'z) machine_scheme" where
  "hal_hyper_udma_dt0_set b hid value s =
     (case hal_hyper_udma_mem_cfg3_get b hid s of (x, s) \<Rightarrow>
        hal_hyper_udma_mem_cfg3_set b hid (ucast ((ucast x AND HYPER_MEM_CFG3_DT0_MASK_B) OR push_bit HYPER_MEM_CFG3_DT0_OFFSET (ucast value))) s)"

definition hal_hyper_udma_crt0_set :: "'e pulp_bus \<Rightarrow> hyper_id \<Rightarrow> u8 \<Rightarrow> ('e, 'z) machine_scheme \<Rightarrow> ('e, 'z) machine_scheme" where
  "hal_hyper_udma_crt0_set b hid value s =
     (case hal_hyper_udma_mem_cfg3_get b hid s of (x, s) \<Rightarrow>
        hal_hyper_udma_mem_cfg3_set b hid (ucast ((ucast x AND HYPER_MEM_CFG3_CRT0_MASK_B) OR push_bit HYPER_MEM_CFG3_CRT0_OFFSET (ucast value))) s)"

definition hal_hyper_udma_rd_maxlen_en0_set :: "'e pulp_bus \<Rightarrow> hyper_id \<Rightarrow> u8 \<Rightarrow> ('e, 'z) machine_scheme \<Rightarrow> ('e, 'z) machine_scheme" where
  "hal_hyper_udma_rd_maxlen_en0_set b hid value s =
     (case hal_hyper_udma_mem_cfg3_get b hid s of (x, s) \<Rightarrow>
        hal_hyper_udma_mem_cfg3_set b hid (ucast ((ucast x AND HYPER_MEM_CFG3_RD_MAX_LEN_EN0_MASK_B) OR push_bit HYPER_MEM_CFG3_RD_MAX_LEN_EN0_OFFSET (ucast value))) s)"

definition hal_hyper_udma_wr_maxlen_en0_set :: "'e pulp_bus \<Rightarrow> hyper_id \<Rightarrow> u8 \<Rightarrow> ('e, 'z) machine_scheme \<Rightarrow> ('e, 'z) machine_scheme" where
  "hal_hyper_udma_wr_maxlen_en0_set b hid value s =
     (case hal_hyper_udma_mem_cfg3_get b hid s of (x, s) \<Rightarrow>
        hal_hyper_udma_mem_cfg3_set b hid (ucast ((ucast x AND HYPER_MEM_CFG3_WR_MAX_LEN_EN0_MASK_B) OR push_bit HYPER_MEM_CFG3_WR_MAX_LEN_EN0_OFFSET (ucast value))) s)"

definition hal_hyper_udma_rds_delay_adj_set :: "'e pulp_bus \<Rightarrow> hyper_id \<Rightarrow> u8 \<Rightarrow> ('e, 'z) machine_scheme \<Rightarrow> ('e, 'z) machine_scheme" where
  "hal_hyper_udma_rds_delay_adj_set b hid value s =
     (case hal_hyper_udma_mem_cfg3_get b hid s of (x, s) \<Rightarrow>
        hal_hyper_udma_mem_cfg3_set b hid (ucast ((ucast x AND HYPER_MEM_CFG3_RDS_DELAY_ADJ_MASK_THB) OR push_bit HYPER_MEM_CFG3_RDS_DELAY_ADJ_OFFSET (ucast value))) s)"

definition hal_hyper_udma_mbr1_set :: "'e pulp_bus \<Rightarrow> hyper_id \<Rightarrow> u8 \<Rightarrow> ('e, 'z) machine_scheme \<Rightarrow> ('e, 'z) machine_scheme" where
  "hal_hyper_udma_mbr1_set b hid mbr1 s =
     (case hal_hyper_udma_mem_cfg4_get b hid s of (x, s) \<Rightarrow>
        hal_hyper_udma_mem_cfg4_set b hid (ucast ((ucast x AND HYPER_MEM_CFG4_MBR1_MASK_BYTE) OR push_bit HYPER_MEM_CFG4_MBR1_OFFSET (ucast mbr1))) s)"

definition hal_hyper_udma_wrap_size1_set :: "'e pulp_bus \<Rightarrow> hyper_id \<Rightarrow> u8 \<Rightarrow> ('e, 'z) machine_scheme \<Rightarrow> ('e, 'z) machine_scheme" where
  "hal_hyper_udma_wrap_size1_set b hid wrapsize s =
     (case hal_hyper_udma_mem_cfg4_get b hid s of (x, s) \<Rightarrow>
        hal_hyper_udma_mem_cfg4_set b hid (ucast ((ucast x AND HYPER_MEM_CFG4_WRAP_SIZE1_MASK_TB) OR push_bit HYPER_MEM_CFG4_WRAP_SIZE1_OFFSET (ucast wrapsize))) s)"

definition hal_hyper_udma_rd_cshi1_set :: "'e pulp_bus \<Rightarrow> hyper_id \<Rightarrow> u8 \<Rightarrow> ('e, 'z) machine_scheme \<Rightarrow> ('e, 'z) machine_scheme" where
  "hal_hyper_udma_rd_cshi1_set b hid value s =
     (case hal_hyper_udma_mem_cfg5_get b hid s of (x, s) \<Rightarrow>
        hal_hyper_udma_mem_cfg5_set b hid ((x AND HYPER_MEM_CFG5_RD_CSHI1_MASK_HB) OR push_bit HYPER_MEM_CFG5_RD_CSHI1_OFFSET (ucast value)) s)"

definition hal_hyper_udma_rd_css1_set :: "'e pulp_bus \<Rightarrow> hyper_id \<Rightarrow> u8 \<Rightarrow> ('e, 'z) machine_scheme \<Rightarrow> ('e, 'z) machine_scheme" where
  "hal_hyper_udma_rd_css1_set b hid value s =
     (case hal_hyper_udma_mem_cfg5_get b hid s of (x, s) \<Rightarrow>
        hal_hyper_udma_mem_cfg5_set b hid ((x AND HYPER_MEM_CFG5_RD_CSS1_MASK_HB) OR push_bit HYPER_MEM_CFG5_RD_CSS1_OFFSET (ucast value)) s)"

definition hal_hyper_udma_rd_csh1_set :: "'e pulp_bus \<Rightarrow> hyper_id \<Rightarrow> u8 \<Rightarrow> ('e, 'z) machine_scheme \<Rightarrow> ('e, 'z) machine_scheme" where
  "hal_hyper_udma_rd_csh1_set b hid value s =
     (case hal_hyper_udma_mem_cfg5_get b hid s of (x, s) \<Rightarrow>
        hal_hyper_udma_mem_cfg5_set b hid ((x AND HYPER_MEM_CFG5_RD_CSH1_MASK_HB) OR push_bit HYPER_MEM_CFG5_RD_CSH1_OFFSET (ucast value)) s)"

definition hal_hyper_udma_wr_cshi1_set :: "'e pulp_bus \<Rightarrow> hyper_id \<Rightarrow> u8 \<Rightarrow> ('e, 'z) machine_scheme \<Rightarrow> ('e, 'z) machine_scheme" where
  "hal_hyper_udma_wr_cshi1_set b hid value s =
     (case hal_hyper_udma_mem_cfg5_get b hid s of (x, s) \<Rightarrow>
        hal_hyper_udma_mem_cfg5_set b hid ((x AND HYPER_MEM_CFG5_WR_CSHI1_MASK_HB) OR push_bit HYPER_MEM_CFG5_WR_CSHI1_OFFSET (ucast value)) s)"

definition hal_hyper_udma_wr_css1_set :: "'e pulp_bus \<Rightarrow> hyper_id \<Rightarrow> u8 \<Rightarrow> ('e, 'z) machine_scheme \<Rightarrow> ('e, 'z) machine_scheme" where
  "hal_hyper_udma_wr_css1_set b hid value s =
     (case hal_hyper_udma_mem_cfg5_get b hid s of (x, s) \<Rightarrow>
        hal_hyper_udma_mem_cfg5_set b hid ((x AND HYPER_MEM_CFG5_WR_CSS1_MASK_HB) OR push_bit HYPER_MEM_CFG5_WR_CSS1_OFFSET (ucast value)) s)"

definition hal_hyper_udma_wr_csh1_set :: "'e pulp_bus \<Rightarrow> hyper_id \<Rightarrow> u8 \<Rightarrow> ('e, 'z) machine_scheme \<Rightarrow> ('e, 'z) machine_scheme" where
  "hal_hyper_udma_wr_csh1_set b hid value s =
     (case hal_hyper_udma_mem_cfg5_get b hid s of (x, s) \<Rightarrow>
        hal_hyper_udma_mem_cfg5_set b hid ((x AND HYPER_MEM_CFG5_WR_CSH1_MASK_HB) OR push_bit HYPER_MEM_CFG5_WR_CSH1_OFFSET (ucast value)) s)"

definition hal_hyper_udma_rd_max_length1_set :: "'e pulp_bus \<Rightarrow> hyper_id \<Rightarrow> u16 \<Rightarrow> ('e, 'z) machine_scheme \<Rightarrow> ('e, 'z) machine_scheme" where
  "hal_hyper_udma_rd_max_length1_set b hid value s =
     (case hal_hyper_udma_mem_cfg6_get b hid s of (x, s) \<Rightarrow>
        hal_hyper_udma_mem_cfg6_set b hid ((x AND HYPER_MEM_CFG6_RD_MAX_LENGTH1_MASK_NB) OR push_bit HYPER_MEM_CFG6_RD_MAX_LENGTH1_OFFSET (ucast value)) s)"

definition hal_hyper_udma_wr_max_length1_set :: "'e pulp_bus \<Rightarrow> hyper_id \<Rightarrow> u16 \<Rightarrow> ('e, 'z) machine_scheme \<Rightarrow> ('e, 'z) machine_scheme" where
  "hal_hyper_udma_wr_max_length1_set b hid value s =
     (case hal_hyper_udma_mem_cfg6_get b hid s of (x, s) \<Rightarrow>
        hal_hyper_udma_mem_cfg6_set b hid ((x AND HYPER_MEM_CFG6_WR_MAX_LENGTH1_MASK_NB) OR push_bit HYPER_MEM_CFG6_WR_MAX_LENGTH1_OFFSET (ucast value)) s)"

definition hal_hyper_udma_acs1_set :: "'e pulp_bus \<Rightarrow> hyper_id \<Rightarrow> u8 \<Rightarrow> ('e, 'z) machine_scheme \<Rightarrow> ('e, 'z) machine_scheme" where
  "hal_hyper_udma_acs1_set b hid value s =
     (case hal_hyper_udma_mem_cfg7_get b hid s of (x, s) \<Rightarrow>
        hal_hyper_udma_mem_cfg7_set b hid (ucast ((ucast x AND HYPER_MEM_CFG7_ACS1_MASK_B) OR push_bit HYPER_MEM_CFG7_ACS1_OFFSET (ucast value))) s)"

definition hal_hyper_udma_tco1_set :: "'e pulp_bus \<Rightarrow> hyper_id \<Rightarrow> u8 \<Rightarrow> ('e, 'z) machine_scheme \<Rightarrow> ('e, 'z) machine_scheme" where
  "hal_hyper_udma_tco1_set b hid value s =
     (case hal_hyper_udma_mem_cfg7_get b hid s of (x, s) \<Rightarrow>
        hal_hyper_udma_mem_cfg7_set b hid (ucast ((ucast x AND HYPER_MEM_CFG7_TCO1_MASK_B) OR push_bit HYPER_MEM_CFG7_TCO1_OFFSET (ucast value))) s)"

definition hal_hyper_udma_dt1_set :: "'e pulp_bus \<Rightarrow> hyper_id \<Rightarrow> u8 \<Rightarrow> ('e, 'z) machine_scheme \<Rightarrow> ('e, 'z) machine_scheme" where
  "hal_hyper_udma_dt1_set b hid value s =
     (case hal_hyper_udma_mem_cfg7_get b hid s of (x, s) \<Rightarrow>
        hal_hyper_udma_mem_cfg7_set b hid (ucast ((ucast x AND HYPER_MEM_CFG7_DT1_MASK_B) OR push_bit HYPER_MEM_CFG7_DT1_OFFSET (ucast value))) s)"

definition hal_hyper_udma_crt1_set :: "'e pulp_bus \<Rightarrow> hyper_id \<Rightarrow> u8 \<Rightarrow> ('e, 'z) machine_scheme \<Rightarrow> ('e, 'z) machine_scheme" where
  "hal_hyper_udma_crt1_set b hid value s =
     (case hal_hyper_udma_mem_cfg7_get b hid s of (x, s) \<Rightarrow>
        hal_hyper_udma_mem_cfg7_set b hid (ucast ((ucast x AND HYPER_MEM_CFG7_CRT1_MASK_B) OR push_bit HYPER_MEM_CFG7_CRT1_OFFSET (ucast value))) s)"

definition hal_hyper_udma_rd_maxlen_en1_set :: "'e pulp_bus \<Rightarrow> hyper_id \<Rightarrow> u8 \<Rightarrow> ('e, 'z) machine_scheme \<Rightarrow> ('e, 'z) machine_scheme" where
  "hal_hyper_udma_rd_maxlen_en1_set b hid value s =
     (case hal_hyper_udma_mem_cfg7_get b hid s of (x, s) \<Rightarrow>
        hal_hyper_udma_mem_cfg7_set b hid (ucast ((ucast x AND HYPER_MEM_CFG7_RD_MAX_LEN_EN1_MASK_B) OR push_bit HYPER_MEM_CFG7_RD_MAX_LEN_EN1_OFFSET (ucast value))) s)"

definition hal_hyper_udma_wr_maxlen_en1_set :: "'e pulp_bus \<Rightarrow> hyper_id \<Rightarrow> u8 \<Rightarrow> ('e, 'z) machine_scheme \<Rightarrow> ('e, 'z) machine_scheme" where
  "hal_hyper_udma_wr_maxlen_en1_set b hid value s =
     (case hal_hyper_udma_mem_cfg7_get b hid s of (x, s) \<Rightarrow>
        hal_hyper_udma_mem_cfg7_set b hid (ucast ((ucast x AND HYPER_MEM_CFG7_WR_MAX_LEN_EN1_MASK_B) OR push_bit HYPER_MEM_CFG7_WR_MAX_LEN_EN1_OFFSET (ucast value))) s)"

lemmas hyper_setter_defs = hal_hyper_udma_mbr0_set_def hal_hyper_udma_latency0_set_def
  hal_hyper_udma_wrap_size0_set_def hal_hyper_udma_rd_cshi0_set_def hal_hyper_udma_rd_css0_set_def
  hal_hyper_udma_rd_csh0_set_def hal_hyper_udma_wr_cshi0_set_def hal_hyper_udma_wr_css0_set_def
  hal_hyper_udma_wr_csh0_set_def hal_hyper_udma_rd_max_length0_set_def hal_hyper_udma_wr_max_length0_set_def
  hal_hyper_udma_acs0_set_def hal_hyper_udma_tco0_set_def hal_hyper_udma_dt0_set_def hal_hyper_udma_crt0_set_def
  hal_hyper_udma_rd_maxlen_en0_set_def hal_hyper_udma_wr_maxlen_en0_set_def hal_hyper_udma_rds_delay_adj_set_def
  hal_hyper_udma_mbr1_set_def hal_hyper_udma_wrap_size1_set_def hal_hyper_udma_rd_cshi1_set_def
  hal_hyper_udma_rd_css1_set_def hal_hyper_udma_rd_csh1_set_def hal_hyper_udma_wr_cshi1_set_def
  hal_hyper_udma_wr_css1_set_def hal_hyper_udma_wr_csh1_set_def hal_hyper_udma_rd_max_length1_set_def
  hal_hyper_udma_wr_max_length1_set_def hal_hyper_udma_acs1_set_def hal_hyper_udma_tco1_set_def
  hal_hyper_udma_dt1_set_def hal_hyper_udma_crt1_set_def hal_hyper_udma_rd_maxlen_en1_set_def
  hal_hyper_udma_wr_maxlen_en1_set_def

section \<open>Clock, external address and transfers\<close>

text \<open>The clock of the channel; the two routines of the header.\<close>

definition hal_hyper_start_ip :: "'e pulp_bus \<Rightarrow> hyper_id \<Rightarrow> ('e, 'z) machine_scheme \<Rightarrow> ('e, 'z) machine_scheme" where
  "hal_hyper_start_ip b hid s =
     (case plp_udma_cg_get b s of (cg, s) \<Rightarrow> plp_udma_cg_set b (cg OR push_bit (unat (hid 0)) 1) s)"

definition hal_hyper_stop_ip :: "'e pulp_bus \<Rightarrow> hyper_id \<Rightarrow> ('e, 'z) machine_scheme \<Rightarrow> ('e, 'z) machine_scheme" where
  "hal_hyper_stop_ip b hid s =
     (case plp_udma_cg_get b s of (cg, s) \<Rightarrow> plp_udma_cg_set b (cg AND NOT (push_bit (unat (hid 0)) 1) AND 0xffffffff) s)"

definition hal_hyper_ext_addr_set :: "'e pulp_bus \<Rightarrow> hyper_id \<Rightarrow> u32 \<Rightarrow> ('e, 'z) machine_scheme \<Rightarrow> ('e, 'z) machine_scheme" where
  "hal_hyper_ext_addr_set b hid value = pulp_write32 b (ARCHI_UDMA_ADDR + HYPER_EXT_ADDR_OFFSET hid) value"

definition hal_hyper_ram_ext_addr_set :: "'e pulp_bus \<Rightarrow> hyper_id \<Rightarrow> u32 \<Rightarrow> ('e, 'z) machine_scheme \<Rightarrow> ('e, 'z) machine_scheme" where
  "hal_hyper_ram_ext_addr_set b hid value = hal_hyper_ext_addr_set b hid (REG_MBR0 OR value)"

definition hal_hyper_flash_ext_addr_set :: "'e pulp_bus \<Rightarrow> hyper_id \<Rightarrow> u32 \<Rightarrow> ('e, 'z) machine_scheme \<Rightarrow> ('e, 'z) machine_scheme" where
  "hal_hyper_flash_ext_addr_set b hid value = hal_hyper_ext_addr_set b hid (REG_MBR1 OR value)"

definition hal_hyper_enqueue :: "'e pulp_bus \<Rightarrow> hyper_id \<Rightarrow> u32 \<Rightarrow> u32 \<Rightarrow> u32 \<Rightarrow> u32 \<Rightarrow> u32 \<Rightarrow> ('e, 'z) machine_scheme \<Rightarrow> ('e, 'z) machine_scheme" where
  "hal_hyper_enqueue b hid channelBase l2Addr ext_addr sz cfg s =
     plp_udma_enqueue b channelBase l2Addr sz cfg (hal_hyper_ext_addr_set b hid ext_addr s)"

definition hal_hyper_ram_enqueue :: "'e pulp_bus \<Rightarrow> hyper_id \<Rightarrow> u32 \<Rightarrow> u32 \<Rightarrow> u32 \<Rightarrow> u32 \<Rightarrow> u32 \<Rightarrow> ('e, 'z) machine_scheme \<Rightarrow> ('e, 'z) machine_scheme" where
  "hal_hyper_ram_enqueue b hid channelBase l2Addr ext_addr sz cfg s =
     plp_udma_enqueue b channelBase l2Addr sz cfg (hal_hyper_ram_ext_addr_set b hid ext_addr s)"

definition hal_hyper_flash_enqueue :: "'e pulp_bus \<Rightarrow> hyper_id \<Rightarrow> u32 \<Rightarrow> u32 \<Rightarrow> u32 \<Rightarrow> u32 \<Rightarrow> u32 \<Rightarrow> ('e, 'z) machine_scheme \<Rightarrow> ('e, 'z) machine_scheme" where
  "hal_hyper_flash_enqueue b hid channelBase l2Addr ext_addr sz cfg s =
     plp_udma_enqueue b channelBase l2Addr sz cfg (hal_hyper_flash_ext_addr_set b hid ext_addr s)"

lemmas hyper_addr_setters = hal_hyper_ext_addr_set_def hal_hyper_ram_ext_addr_set_def
  hal_hyper_flash_ext_addr_set_def

end
