(* ===== verification/Hyper_Boot.thy ===== *)
theory Hyper_Boot
  imports Hyper_Hal
begin

text \<open>
  The parts of \<^verbatim>\<open>boot_code/boot_code.c\<close> for a chip with a HyperBus channel, as they are compiled with
  \<^verbatim>\<open>PLP_UDMA_HAS_HYPER\<close>. The events of the channel are unmasked under another name, \<^verbatim>\<open>ARCHI_UDMA_HAS_HYPER\<close>,
  which is the argument \<open>archi_has\<close> of \<open>hyper_init\<close>; the clock is enabled under the number \<^verbatim>\<open>UDMA_HYPER_ID\<close>,
  the argument \<open>uid\<close>, where the routines of the channel use \<^verbatim>\<open>ARCHI_UDMA_HYPER_ID\<close>. None of the four names is
  defined by a header of this tree. The branches for the SPI flash are those of \<open>Boot_Rom\<close>.
\<close>

definition hyper_flash_read ::
  "'e pulp_bus \<Rightarrow> hyper_id \<Rightarrow> u32 \<Rightarrow> u32 \<Rightarrow> u32 \<Rightarrow> u32 \<Rightarrow> ('e, 'z) machine_scheme \<Rightarrow> ('e, 'z) machine_scheme option" where
  "hyper_flash_read b hid data flashAddr l2Addr sz s =
     (if load32 (data + hyperflash_off) (ram s) = 0
      then flash_read b data flashAddr l2Addr sz s
      else
        let s = hal_hyper_flash_ext_addr_set b hid flashAddr s;
            s = plp_udma_enqueue b (UDMA_HYPER_RX_ADDR hid 0) l2Addr sz (UDMA_CHANNEL_CFG_EN OR UDMA_CHANNEL_CFG_SIZE_32) s
        in wait_soc_event b s)"

text \<open>The command is a short at the start of the command buffer.\<close>

definition flash_enqueueCommand ::
  "'e pulp_bus \<Rightarrow> hyper_id \<Rightarrow> u32 \<Rightarrow> u16 \<Rightarrow> u32 \<Rightarrow> ('e, 'z) machine_scheme \<Rightarrow> ('e, 'z) machine_scheme option" where
  "flash_enqueueCommand b hid data value addr s =
     (let buffer = data + udma_buffer_off;
          s = s\<lparr>ram := store_bytes buffer [ucast value, ucast (drop_bit 8 value)] (ram s)\<rparr>;
          s = hal_hyper_flash_ext_addr_set b hid (push_bit 1 addr) s;
          s = plp_udma_enqueue b (UDMA_HYPER_TX_ADDR hid 0) buffer 2 (UDMA_CHANNEL_CFG_EN OR UDMA_CHANNEL_CFG_SIZE_32) s
      in wait_soc_event b s)"

definition hyper_checkAndConf ::
  "'e pulp_bus \<Rightarrow> hyper_id \<Rightarrow> hyper_id \<Rightarrow> u32 \<Rightarrow> ('e, 'z) machine_scheme \<Rightarrow> ('e, 'z) machine_scheme" where
  "hyper_checkAndConf b hid uid data s =
     (if load32 (data + hyperflash_off) (ram s) = 0 then s
      else
        let (cg, s) = plp_udma_cg_get b s;
            s = plp_udma_cg_set b (cg OR push_bit (unat (uid 0)) 1) s;
            s = hal_hyper_udma_mbr0_set b hid (ucast REG_MBR0) s;
            s = hal_hyper_udma_mbr1_set b hid (ucast (drop_bit 24 REG_MBR1)) s;
            s = hal_hyper_udma_dt0_set b hid 1 s;
            s = hal_hyper_udma_dt1_set b hid 0 s;
            s = hal_hyper_udma_crt1_set b hid (ucast MEM_ACCESS) s
        in hal_hyper_udma_crt0_set b hid (ucast MEM_ACCESS) s)"

definition hyper_init ::
  "'e pulp_bus \<Rightarrow> hyper_id \<Rightarrow> bool \<Rightarrow> u32 \<Rightarrow> ('e, 'z) machine_scheme \<Rightarrow> ('e, 'z) machine_scheme" where
  "hyper_init b hid archi_has data s =
     (let s = set_field (data + step_off) 0 s;
          (cg, s) = plp_udma_cg_get b s;
          s = plp_udma_cg_set b (cg OR push_bit (unat (ARCHI_UDMA_SPIM_ID 0)) 1) s;
          s = soc_eu_eventMask_reset b SOC_FC_FIRST_MASK s;
          s = soc_eu_fcEventMask_setEvent b ARCHI_SOC_EVENT_SPIM0_EOT s;
          s = soc_eu_fcEventMask_setEvent b (ARCHI_SOC_EVENT_UART_TX 0) s;
          s = (if archi_has
               then soc_eu_fcEventMask_setEvent b (ARCHI_SOC_EVENT_HYPER_TX hid 0)
                      (soc_eu_fcEventMask_setEvent b (ARCHI_SOC_EVENT_HYPER_RX hid 0) s)
               else s)
      in wait_clock_ref b 20 s)"

end
