(* ===== verification/Builtins_Emu.thy ===== *)
theory Builtins_Emu
  imports Pulp_Io
begin

text \<open>
  The C versions of the processor's arithmetic instructions, \<^verbatim>\<open>archi/riscv/builtins_v2_emu.h\<close>, and the
  same macros in \<^verbatim>\<open>hal/riscv/riscv_v5.h\<close>. An \<^verbatim>\<open>int\<close> or \<^verbatim>\<open>unsigned int\<close> is a 32 bit word, read as
  signed or not by the operation: sums and products wrap around, as the machine's do (C leaves a
  signed overflow undefined), and a shift to the right of a signed value is arithmetic. The
  accumulator of an unsigned macro is unsigned; the product of two \<^verbatim>\<open>unsigned short\<close> operands is an
  \<^verbatim>\<open>int\<close>, as C promotes them. Vectors are tuples of 16 or 8 bit words, in the order of their indices.
  The macros whose braces do not balance (\<^verbatim>\<open>__NEG2\<close> to \<^verbatim>\<open>__SLL4\<close>) cannot be used and are left out.
\<close>

section \<open>Vectors\<close>

type_synonym v2 = "u16 \<times> u16"
type_synonym v4 = "u8 \<times> u8 \<times> u8 \<times> u8"

fun v2_map2 :: "(u16 \<Rightarrow> u16 \<Rightarrow> u16) \<Rightarrow> v2 \<Rightarrow> v2 \<Rightarrow> v2" where
  "v2_map2 f (x0, x1) (y0, y1) = (f x0 y0, f x1 y1)"

fun v4_map2 :: "(u8 \<Rightarrow> u8 \<Rightarrow> u8) \<Rightarrow> v4 \<Rightarrow> v4 \<Rightarrow> v4" where
  "v4_map2 f (x0, x1, x2, x3) (y0, y1, y2, y3) = (f x0 y0, f x1 y1, f x2 y2, f x3 y3)"

definition PACK2 :: "u32 \<Rightarrow> u32 \<Rightarrow> v2" where
  "PACK2 x y = (ucast x, ucast y)"

definition PACKU2 :: "u32 \<Rightarrow> u32 \<Rightarrow> v2" where
  "PACKU2 x y = (ucast x, ucast y)"

definition PACK4 :: "u32 \<Rightarrow> u32 \<Rightarrow> u32 \<Rightarrow> u32 \<Rightarrow> v4" where
  "PACK4 x y z t = (ucast x, ucast y, ucast z, ucast t)"

definition PACKU4 :: "u32 \<Rightarrow> u32 \<Rightarrow> u32 \<Rightarrow> u32 \<Rightarrow> v4" where
  "PACKU4 x y z t = (ucast x, ucast y, ucast z, ucast t)"

definition MAX_int :: "u32 \<Rightarrow> u32 \<Rightarrow> u32" where
  "MAX_int x y = (if y <s x then x else y)"

definition MAX2 :: "v2 \<Rightarrow> v2 \<Rightarrow> v2" where
  "MAX2 x y = v2_map2 (\<lambda>a b. if b <s a then a else b) x y"

definition MAXU2 :: "v2 \<Rightarrow> v2 \<Rightarrow> v2" where
  "MAXU2 x y = v2_map2 (\<lambda>a b. if b < a then a else b) x y"

definition MIN2 :: "v2 \<Rightarrow> v2 \<Rightarrow> v2" where
  "MIN2 x y = v2_map2 (\<lambda>a b. if a <s b then a else b) x y"

definition MINU2 :: "v2 \<Rightarrow> v2 \<Rightarrow> v2" where
  "MINU2 x y = v2_map2 (\<lambda>a b. if a < b then a else b) x y"

definition MAX4 :: "v4 \<Rightarrow> v4 \<Rightarrow> v4" where
  "MAX4 x y = v4_map2 (\<lambda>a b. if b <s a then a else b) x y"

definition MAXU4 :: "v4 \<Rightarrow> v4 \<Rightarrow> v4" where
  "MAXU4 x y = v4_map2 (\<lambda>a b. if b < a then a else b) x y"

definition MIN4 :: "v4 \<Rightarrow> v4 \<Rightarrow> v4" where
  "MIN4 x y = v4_map2 (\<lambda>a b. if a <s b then a else b) x y"

definition MINU4 :: "v4 \<Rightarrow> v4 \<Rightarrow> v4" where
  "MINU4 x y = v4_map2 (\<lambda>a b. if a < b then a else b) x y"

section \<open>Saturation and absolute value\<close>

definition CLIP :: "u32 \<Rightarrow> nat \<Rightarrow> u32" where
  "CLIP x precision = 
     (if x <s - push_bit precision 1 then - push_bit precision 1
      else if push_bit precision 1 - 1 <s x then push_bit precision 1 - 1 else x)"

definition CLIP_R :: "u32 \<Rightarrow> u32 \<Rightarrow> u32" where
  "CLIP_R x bound = 
     (if x \<le>s - (bound + 1) then - (bound + 1) else if bound \<le>s x then bound else x)"

definition CLIPU :: "u32 \<Rightarrow> nat \<Rightarrow> u32" where
  "CLIPU x precision = 
     (if x <s 0 then 0 else if push_bit precision 1 - 1 <s x then push_bit precision 1 - 1 else x)"

definition CLIPU_R :: "u32 \<Rightarrow> u32 \<Rightarrow> u32" where
  "CLIPU_R x bound = (if x \<le>s 0 then 0 else if bound \<le>s x then bound else x)"

fun ABS2 :: "v2 \<Rightarrow> v2" where
  "ABS2 (x0, x1) = (if x0 <s 0 then - x0 else x0, if x1 <s 0 then - x1 else x1)"

fun ABS4 :: "v4 \<Rightarrow> v4" where
  "ABS4 (x0, x1, x2, x3) = (if x0 <s 0 then - x0 else x0, if x1 <s 0 then - x1 else x1,
     if x2 <s 0 then - x2 else x2, if x3 <s 0 then - x3 else x3)"

section \<open>Multiplication\<close>

text \<open>
  The low or high half of an operand, taken as a signed or an unsigned 16 bit value.
\<close>

definition lo_s :: "u32 \<Rightarrow> u32" where
  "lo_s x = scast (ucast x :: u16)"

definition lo_u :: "u32 \<Rightarrow> u32" where
  "lo_u x = ucast (ucast x :: u16)"

definition hi_s :: "u32 \<Rightarrow> u32" where
  "hi_s x = scast (ucast (drop_bit 16 x) :: u16)"

definition hi_u :: "u32 \<Rightarrow> u32" where
  "hi_u x = ucast (ucast (drop_bit 16 x) :: u16)"

lemmas half_defs = lo_s_def lo_u_def hi_s_def hi_u_def

definition MAC :: "u32 \<Rightarrow> u32 \<Rightarrow> u32 \<Rightarrow> u32" where
  "MAC Acc x y = Acc + x * y"

definition MSU :: "u32 \<Rightarrow> u32 \<Rightarrow> u32 \<Rightarrow> u32" where
  "MSU Acc x y = Acc - x * y"

definition MACS :: "u32 \<Rightarrow> u32 \<Rightarrow> u32 \<Rightarrow> u32" where
  "MACS Acc x y = Acc + lo_s x * lo_s y"

definition MACHHS :: "u32 \<Rightarrow> u32 \<Rightarrow> u32 \<Rightarrow> u32" where
  "MACHHS Acc x y = Acc + hi_s x * hi_s y"

definition MACU :: "u32 \<Rightarrow> u32 \<Rightarrow> u32 \<Rightarrow> u32" where
  "MACU Acc x y = Acc + lo_u x * lo_u y"

definition MACHHU :: "u32 \<Rightarrow> u32 \<Rightarrow> u32 \<Rightarrow> u32" where
  "MACHHU Acc x y = Acc + hi_u x * hi_u y"

definition MACSN :: "u32 \<Rightarrow> u32 \<Rightarrow> u32 \<Rightarrow> nat \<Rightarrow> u32" where
  "MACSN Acc x y n = signed_drop_bit n (Acc + lo_s x * lo_s y)"

definition MACHHSN :: "u32 \<Rightarrow> u32 \<Rightarrow> u32 \<Rightarrow> nat \<Rightarrow> u32" where
  "MACHHSN Acc x y n = signed_drop_bit n (Acc + hi_s x * hi_s y)"

definition MACUN :: "u32 \<Rightarrow> u32 \<Rightarrow> u32 \<Rightarrow> nat \<Rightarrow> u32" where
  "MACUN Acc x y n = drop_bit n (Acc + lo_u x * lo_u y)"

definition MACHHUN :: "u32 \<Rightarrow> u32 \<Rightarrow> u32 \<Rightarrow> nat \<Rightarrow> u32" where
  "MACHHUN Acc x y n = drop_bit n (Acc + hi_u x * hi_u y)"

definition MACSRN :: "u32 \<Rightarrow> u32 \<Rightarrow> u32 \<Rightarrow> nat \<Rightarrow> u32" where
  "MACSRN Acc x y n = signed_drop_bit n (Acc + lo_s x * lo_s y + push_bit (n - 1) 1)"

definition MACHHSRN :: "u32 \<Rightarrow> u32 \<Rightarrow> u32 \<Rightarrow> nat \<Rightarrow> u32" where
  "MACHHSRN Acc x y n = signed_drop_bit n (Acc + hi_s x * hi_s y + push_bit (n - 1) 1)"

definition MACURN :: "u32 \<Rightarrow> u32 \<Rightarrow> u32 \<Rightarrow> nat \<Rightarrow> u32" where
  "MACURN Acc x y n = drop_bit n (Acc + lo_u x * lo_u y + push_bit (n - 1) 1)"

definition MACHHURN :: "u32 \<Rightarrow> u32 \<Rightarrow> u32 \<Rightarrow> nat \<Rightarrow> u32" where
  "MACHHURN Acc x y n = Acc + hi_u x * hi_u y + of_nat n"

definition MULS :: "u32 \<Rightarrow> u32 \<Rightarrow> u32" where
  "MULS x y = lo_s x * lo_s y"

definition MULHHS :: "u32 \<Rightarrow> u32 \<Rightarrow> u32" where
  "MULHHS x y = hi_s x * hi_s y"

definition MULU :: "u32 \<Rightarrow> u32 \<Rightarrow> u32" where
  "MULU x y = lo_u x * lo_u y"

definition MULHHU :: "u32 \<Rightarrow> u32 \<Rightarrow> u32" where
  "MULHHU x y = hi_u x * hi_u y"

definition MULSN :: "u32 \<Rightarrow> u32 \<Rightarrow> nat \<Rightarrow> u32" where
  "MULSN x y n = signed_drop_bit n (lo_s x * lo_s y)"

definition MULHHSN :: "u32 \<Rightarrow> u32 \<Rightarrow> nat \<Rightarrow> u32" where
  "MULHHSN x y n = signed_drop_bit n (hi_s x * hi_s y)"

definition MULUN :: "u32 \<Rightarrow> u32 \<Rightarrow> nat \<Rightarrow> u32" where
  "MULUN x y n = signed_drop_bit n (lo_u x * lo_u y)"

definition MULHHUN :: "u32 \<Rightarrow> u32 \<Rightarrow> nat \<Rightarrow> u32" where
  "MULHHUN x y n = signed_drop_bit n (hi_u x * hi_u y)"

definition MULSRN :: "u32 \<Rightarrow> u32 \<Rightarrow> nat \<Rightarrow> u32" where
  "MULSRN x y n = signed_drop_bit n (lo_s x * lo_s y + push_bit (n - 1) 1)"

definition MULHHSRN :: "u32 \<Rightarrow> u32 \<Rightarrow> nat \<Rightarrow> u32" where
  "MULHHSRN x y n = signed_drop_bit n (hi_s x * hi_s y + push_bit (n - 1) 1)"

definition MULURN :: "u32 \<Rightarrow> u32 \<Rightarrow> nat \<Rightarrow> u32" where
  "MULURN x y n = signed_drop_bit n (lo_u x * lo_u y + push_bit (n - 1) 1)"

definition MULHHURN :: "u32 \<Rightarrow> u32 \<Rightarrow> nat \<Rightarrow> u32" where
  "MULHHURN x y n = signed_drop_bit n (hi_u x * hi_u y + push_bit (n - 1) 1)"

section \<open>Products of vectors\<close>

text \<open>
  The elements of the two operands are converted by \<open>f\<close> and \<open>g\<close>. Whether a plain \<^verbatim>\<open>char\<close> is signed is
  left to the compiler: the macros on four elements that use it take its conversion as the argument
  \<open>pc\<close>. A scalar operand is first cut to the size of an element.
\<close>

fun dot2 :: "(u16 \<Rightarrow> u32) \<Rightarrow> (u16 \<Rightarrow> u32) \<Rightarrow> v2 \<Rightarrow> v2 \<Rightarrow> u32" where
  "dot2 f g (x0, x1) (y0, y1) = f x0 * g y0 + f x1 * g y1"

fun dot4 :: "(u8 \<Rightarrow> u32) \<Rightarrow> (u8 \<Rightarrow> u32) \<Rightarrow> v4 \<Rightarrow> v4 \<Rightarrow> u32" where
  "dot4 f g (x0, x1, x2, x3) (y0, y1, y2, y3) = f x0 * g y0 + f x1 * g y1 + f x2 * g y2 + f x3 * g y3"

fun sumdot2 :: "(u16 \<Rightarrow> u32) \<Rightarrow> (u16 \<Rightarrow> u32) \<Rightarrow> v2 \<Rightarrow> v2 \<Rightarrow> u32 \<Rightarrow> u32" where
  "sumdot2 f g (x0, x1) (y0, y1) z = z + f x0 * g y0 + f x1 * g y1"

fun sumdot4 :: "(u8 \<Rightarrow> u32) \<Rightarrow> (u8 \<Rightarrow> u32) \<Rightarrow> v4 \<Rightarrow> v4 \<Rightarrow> u32 \<Rightarrow> u32" where
  "sumdot4 f g (x0, x1, x2, x3) (y0, y1, y2, y3) z = z + f x0 * g y0 + f x1 * g y1 + f x2 * g y2 + f x3 * g y3"

definition DOTP2 :: "v2 \<Rightarrow> v2 \<Rightarrow> u32" where
  "DOTP2 x y = dot2 scast scast x y"

definition DOTPU2 :: "v2 \<Rightarrow> v2 \<Rightarrow> u32" where
  "DOTPU2 x y = dot2 ucast ucast x y"

definition DOTPUS2 :: "v2 \<Rightarrow> v2 \<Rightarrow> u32" where
  "DOTPUS2 x y = dot2 ucast scast x y"

definition DOTPSC2 :: "v2 \<Rightarrow> u32 \<Rightarrow> u32" where
  "DOTPSC2 x y = dot2 scast scast x (ucast y, ucast y)"

definition DOTPUSC2 :: "v2 \<Rightarrow> u32 \<Rightarrow> u32" where
  "DOTPUSC2 x y = dot2 ucast ucast x (ucast y, ucast y)"

definition DOTPUSSC2 :: "v2 \<Rightarrow> u32 \<Rightarrow> u32" where
  "DOTPUSSC2 x y = dot2 ucast scast x (ucast y, ucast y)"

definition SUMDOTP2 :: "v2 \<Rightarrow> v2 \<Rightarrow> u32 \<Rightarrow> u32" where
  "SUMDOTP2 x y z = sumdot2 scast scast x y z"

definition SUMDOTPU2 :: "v2 \<Rightarrow> v2 \<Rightarrow> u32 \<Rightarrow> u32" where
  "SUMDOTPU2 x y z = sumdot2 ucast ucast x y z"

definition SUMDOTPUS2 :: "v2 \<Rightarrow> v2 \<Rightarrow> u32 \<Rightarrow> u32" where
  "SUMDOTPUS2 x y z = sumdot2 ucast scast x y z"

definition SUMDOTPSC2 :: "v2 \<Rightarrow> u32 \<Rightarrow> u32 \<Rightarrow> u32" where
  "SUMDOTPSC2 x y z = sumdot2 scast scast x (ucast y, ucast y) z"

definition SUMDOTPUSC2 :: "v2 \<Rightarrow> u32 \<Rightarrow> u32 \<Rightarrow> u32" where
  "SUMDOTPUSC2 x y z = sumdot2 ucast ucast x (ucast y, ucast y) z"

definition SUMDOTPUSSC2 :: "v2 \<Rightarrow> u32 \<Rightarrow> u32 \<Rightarrow> u32" where
  "SUMDOTPUSSC2 x y z = sumdot2 ucast scast x (ucast y, ucast y) z"

definition DOTP4 :: "(u8 \<Rightarrow> u32) \<Rightarrow> v4 \<Rightarrow> v4 \<Rightarrow> u32" where
  "DOTP4 pc x y = dot4 pc pc x y"

definition DOTPU4 :: "v4 \<Rightarrow> v4 \<Rightarrow> u32" where
  "DOTPU4 x y = dot4 ucast ucast x y"

definition DOTPUS4 :: "(u8 \<Rightarrow> u32) \<Rightarrow> v4 \<Rightarrow> v4 \<Rightarrow> u32" where
  "DOTPUS4 pc x y = dot4 ucast pc x y"

definition DOTPSC4 :: "(u8 \<Rightarrow> u32) \<Rightarrow> v4 \<Rightarrow> u32 \<Rightarrow> u32" where
  "DOTPSC4 pc x y = dot4 pc pc x (ucast y, ucast y, ucast y, ucast y)"

definition DOTPUSC4 :: "v4 \<Rightarrow> u32 \<Rightarrow> u32" where
  "DOTPUSC4 x y = dot4 ucast ucast x (ucast y, ucast y, ucast y, ucast y)"

definition DOTPUSSC4 :: "(u8 \<Rightarrow> u32) \<Rightarrow> v4 \<Rightarrow> u32 \<Rightarrow> u32" where
  "DOTPUSSC4 pc x y = dot4 ucast pc x (ucast y, ucast y, ucast y, ucast y)"

definition SUMDOTP4 :: "(u8 \<Rightarrow> u32) \<Rightarrow> v4 \<Rightarrow> v4 \<Rightarrow> u32 \<Rightarrow> u32" where
  "SUMDOTP4 pc x y z = sumdot4 pc pc x y z"

definition SUMDOTPU4 :: "v4 \<Rightarrow> v4 \<Rightarrow> u32 \<Rightarrow> u32" where
  "SUMDOTPU4 x y z = sumdot4 ucast ucast x y z"

definition SUMDOTPUS4 :: "(u8 \<Rightarrow> u32) \<Rightarrow> v4 \<Rightarrow> v4 \<Rightarrow> u32 \<Rightarrow> u32" where
  "SUMDOTPUS4 pc x y z = sumdot4 ucast pc x y z"

definition SUMDOTPSC4 :: "(u8 \<Rightarrow> u32) \<Rightarrow> v4 \<Rightarrow> u32 \<Rightarrow> u32 \<Rightarrow> u32" where
  "SUMDOTPSC4 pc x y z = sumdot4 pc pc x (ucast y, ucast y, ucast y, ucast y) z"

definition SUMDOTPUSC4 :: "v4 \<Rightarrow> u32 \<Rightarrow> u32 \<Rightarrow> u32" where
  "SUMDOTPUSC4 x y z = sumdot4 ucast ucast x (ucast y, ucast y, ucast y, ucast y) z"

definition SUMDOTPUSSC4 :: "(u8 \<Rightarrow> u32) \<Rightarrow> v4 \<Rightarrow> u32 \<Rightarrow> u32 \<Rightarrow> u32" where
  "SUMDOTPUSSC4 pc x y z = sumdot4 ucast pc x (ucast y, ucast y, ucast y, ucast y) z"

section \<open>Bits\<close>

text \<open>
  \<^verbatim>\<open>__builtin_clz\<close> and \<^verbatim>\<open>__builtin_clrsb\<close> are the compiler's: leading zeros, and further bits equal to the sign.
\<close>

definition builtin_clz :: "u32 \<Rightarrow> nat" where
  "builtin_clz x = length (takeWhile Not (map (bit x) (rev [0..<32])))"

definition builtin_clrsb :: "u32 \<Rightarrow> nat" where
  "builtin_clrsb x = length (takeWhile (\<lambda>b. b = bit x 31) (map (bit x) (rev [0..<31])))"

definition FL1 :: "u32 \<Rightarrow> int" where
  "FL1 x = 31 - int (builtin_clz x)"

definition CLB :: "u32 \<Rightarrow> nat" where
  "CLB x = builtin_clrsb x"

text \<open>
  The field of a size and an offset. The shifts are by less than 32 in a valid use.
\<close>

definition field_ones :: "nat \<Rightarrow> nat \<Rightarrow> u32" where
  "field_ones sz off = push_bit off (push_bit sz 1 - 1)"

definition BITSET :: "u32 \<Rightarrow> nat \<Rightarrow> nat \<Rightarrow> u32" where
  "BITSET x sz off = x OR field_ones sz off"

definition BITSET_R :: "u32 \<Rightarrow> nat \<Rightarrow> nat \<Rightarrow> u32" where
  "BITSET_R x sz off = x OR field_ones sz off"

definition BITSET_R_SAFE :: "u32 \<Rightarrow> nat \<Rightarrow> nat \<Rightarrow> u32" where
  "BITSET_R_SAFE x sz off = x OR field_ones (take_bit 5 sz) (take_bit 5 off)"

definition BITCLR :: "u32 \<Rightarrow> nat \<Rightarrow> nat \<Rightarrow> u32" where
  "BITCLR x sz off = x AND NOT (field_ones sz off)"

definition BITCLR_R :: "u32 \<Rightarrow> nat \<Rightarrow> nat \<Rightarrow> u32" where
  "BITCLR_R x sz off = x AND NOT (field_ones sz off)"

definition BITCLR_R_SAFE :: "u32 \<Rightarrow> nat \<Rightarrow> nat \<Rightarrow> u32" where
  "BITCLR_R_SAFE x sz off = x AND NOT (field_ones (take_bit 5 sz) (take_bit 5 off))"

text \<open>
  The operand of the extractions is an \<^verbatim>\<open>int\<close>, shifted arithmetically; the mask is unsigned, so from the
  conjunction on everything is. For a width of 32 the macros shift by the width of the word, which
  is undefined in C; the definitions of the field macros are meant for smaller widths.
\<close>

definition BITEXTRACT :: "u32 \<Rightarrow> nat \<Rightarrow> nat \<Rightarrow> u32" where
  "BITEXTRACT x sz off = drop_bit (32 - sz) (push_bit (32 - sz) (signed_drop_bit off x AND (push_bit sz 1 - 1)))"

definition BITEXTRACT_R :: "u32 \<Rightarrow> nat \<Rightarrow> nat \<Rightarrow> u32" where
  "BITEXTRACT_R x sz off = drop_bit (32 - sz) (push_bit (32 - sz) (signed_drop_bit off x AND (push_bit sz 1 - 1)))"

definition BITEXTRACTU :: "u32 \<Rightarrow> nat \<Rightarrow> nat \<Rightarrow> u32" where
  "BITEXTRACTU x sz off = signed_drop_bit off x AND (push_bit sz 1 - 1)"

definition BITEXTRACTU_R :: "u32 \<Rightarrow> nat \<Rightarrow> nat \<Rightarrow> u32" where
  "BITEXTRACTU_R x sz off = signed_drop_bit off x AND (push_bit sz 1 - 1)"

definition BITEXTRACT_R_SAFE :: "u32 \<Rightarrow> nat \<Rightarrow> nat \<Rightarrow> u32" where
  "BITEXTRACT_R_SAFE x sz off = 
     (let sz = (if sz > 32 then 32 else sz) in
      drop_bit (32 - sz) (push_bit (32 - sz) (signed_drop_bit (take_bit 5 off) x AND (push_bit sz 1 - 1))))"

definition BITEXTRACTU_R_SAFE :: "u32 \<Rightarrow> nat \<Rightarrow> nat \<Rightarrow> u32" where
  "BITEXTRACTU_R_SAFE x sz off = 
     (let sz = (if sz > 32 then 32 else sz) in signed_drop_bit (take_bit 5 off) x AND (push_bit sz 1 - 1))"

definition BITINSERT :: "u32 \<Rightarrow> u32 \<Rightarrow> nat \<Rightarrow> nat \<Rightarrow> u32" where
  "BITINSERT dst src sz off = 
     (dst AND NOT (field_ones sz off)) OR push_bit off (src AND (push_bit sz 1 - 1))"

definition BITINSERT_R :: "u32 \<Rightarrow> u32 \<Rightarrow> nat \<Rightarrow> nat \<Rightarrow> u32" where
  "BITINSERT_R dst src sz off = 
     (dst AND NOT (field_ones sz off)) OR push_bit off (src AND (push_bit sz 1 - 1))"

definition BITINSERT_R_SAFE :: "u32 \<Rightarrow> u32 \<Rightarrow> nat \<Rightarrow> nat \<Rightarrow> u32" where
  "BITINSERT_R_SAFE dst src sz off = 
     (let sz = (if sz > 32 then 32 else sz); off = take_bit 5 off in
      (dst AND NOT (field_ones sz off)) OR push_bit off (src AND (push_bit sz 1 - 1)))"

definition ROTR :: "u32 \<Rightarrow> u32" where
  "ROTR x = (signed_drop_bit 1 x AND 0x7FFFFFFF) OR push_bit 31 x"

section \<open>Normalisation and rounding\<close>

definition ADDNORMU :: "u32 \<Rightarrow> u32 \<Rightarrow> nat \<Rightarrow> u32" where
  "ADDNORMU x y scale = drop_bit scale (x + y)"

definition ADDROUNDNORMU :: "u32 \<Rightarrow> u32 \<Rightarrow> nat \<Rightarrow> u32" where
  "ADDROUNDNORMU x y scale = drop_bit scale (x + y + push_bit (scale - 1) 1)"

definition ADDNORMU_REG :: "u32 \<Rightarrow> u32 \<Rightarrow> nat \<Rightarrow> u32" where
  "ADDNORMU_REG x y scale = drop_bit scale (x + y)"

definition ADDROUNDNORMU_REG :: "u32 \<Rightarrow> u32 \<Rightarrow> nat \<Rightarrow> u32" where
  "ADDROUNDNORMU_REG x y scale = drop_bit scale (x + y + push_bit (scale - 1) 1)"

definition ADDNORM :: "u32 \<Rightarrow> u32 \<Rightarrow> nat \<Rightarrow> u32" where
  "ADDNORM x y scale = signed_drop_bit scale (x + y)"

definition ADDROUNDNORM :: "u32 \<Rightarrow> u32 \<Rightarrow> nat \<Rightarrow> u32" where
  "ADDROUNDNORM x y scale = signed_drop_bit scale (x + y + push_bit (scale - 1) 1)"

definition ADDNORM_REG :: "u32 \<Rightarrow> u32 \<Rightarrow> nat \<Rightarrow> u32" where
  "ADDNORM_REG x y scale = signed_drop_bit scale (x + y)"

definition ADDROUNDNORM_REG :: "u32 \<Rightarrow> u32 \<Rightarrow> nat \<Rightarrow> u32" where
  "ADDROUNDNORM_REG x y scale = signed_drop_bit scale (x + y + push_bit (scale - 1) 1)"

definition SUBNORMU :: "u32 \<Rightarrow> u32 \<Rightarrow> nat \<Rightarrow> u32" where
  "SUBNORMU x y scale = drop_bit scale (x - y)"

definition SUBROUNDNORMU :: "u32 \<Rightarrow> u32 \<Rightarrow> nat \<Rightarrow> u32" where
  "SUBROUNDNORMU x y scale = drop_bit scale (x - y + push_bit (scale - 1) 1)"

definition SUBNORMU_REG :: "u32 \<Rightarrow> u32 \<Rightarrow> nat \<Rightarrow> u32" where
  "SUBNORMU_REG x y scale = drop_bit scale (x - y)"

definition SUBROUNDNORMU_REG :: "u32 \<Rightarrow> u32 \<Rightarrow> nat \<Rightarrow> u32" where
  "SUBROUNDNORMU_REG x y scale = drop_bit scale (x - y + push_bit (scale - 1) 1)"

definition SUBNORM :: "u32 \<Rightarrow> u32 \<Rightarrow> nat \<Rightarrow> u32" where
  "SUBNORM x y scale = signed_drop_bit scale (x - y)"

definition SUBROUNDNORM :: "u32 \<Rightarrow> u32 \<Rightarrow> nat \<Rightarrow> u32" where
  "SUBROUNDNORM x y scale = signed_drop_bit scale (x - y + push_bit (scale - 1) 1)"

definition SUBNORM_REG :: "u32 \<Rightarrow> u32 \<Rightarrow> nat \<Rightarrow> u32" where
  "SUBNORM_REG x y scale = signed_drop_bit scale (x - y)"

definition SUBROUNDNORM_REG :: "u32 \<Rightarrow> u32 \<Rightarrow> nat \<Rightarrow> u32" where
  "SUBROUNDNORM_REG x y scale = signed_drop_bit scale (x - y + push_bit (scale - 1) 1)"

definition ROUNDNORMU :: "u32 \<Rightarrow> nat \<Rightarrow> u32" where
  "ROUNDNORMU x scale = drop_bit scale (x + push_bit (scale - 1) 1)"

definition ROUNDNORMU_REG :: "u32 \<Rightarrow> nat \<Rightarrow> u32" where
  "ROUNDNORMU_REG x scale = drop_bit scale (x + push_bit (scale - 1) 1)"

definition ROUNDNORM :: "u32 \<Rightarrow> nat \<Rightarrow> u32" where
  "ROUNDNORM x scale = signed_drop_bit scale (x + push_bit (scale - 1) 1)"

definition ROUNDNORM_REG :: "u32 \<Rightarrow> nat \<Rightarrow> u32" where
  "ROUNDNORM_REG x scale = signed_drop_bit scale (x + push_bit (scale - 1) 1)"

text \<open>
  The emulation has one core and no special registers.
\<close>

definition COREID :: "u32" where
  "COREID = 0"

definition CLUSTERID :: "u32" where
  "CLUSTERID = 0"

definition NCORE :: "u32" where
  "NCORE = 1"

definition SPRREAD :: "u32 \<Rightarrow> u32" where
  "SPRREAD x = 0"

definition SPRREAD_VOL :: "u32 \<Rightarrow> u32" where
  "SPRREAD_VOL x = 0"

definition READ_BASE_OFF :: "u32 \<Rightarrow> u32 \<Rightarrow> u32" where
  "READ_BASE_OFF base off = 0"

definition READ_BASE_OFF_VOL :: "u32 \<Rightarrow> u32 \<Rightarrow> u32" where
  "READ_BASE_OFF_VOL base off = 0"

definition READ_BASE_OFF_HALF_VOL :: "u32 \<Rightarrow> u32 \<Rightarrow> u32" where
  "READ_BASE_OFF_HALF_VOL base off = 0"

definition READ_BASE_OFF_BYTE_VOL :: "u32 \<Rightarrow> u32 \<Rightarrow> u32" where
  "READ_BASE_OFF_BYTE_VOL base off = 0"

section \<open>The macros of the processor header\<close>

text \<open>
  \<^verbatim>\<open>riscv_v5.h\<close> repeats the macros under other names for a compiler without the instructions. Its
  products of vectors use the elements as they are, so the names for unsigned or mixed operands
  differ only in the type of the vectors. \<^verbatim>\<open>__builtin_clb\<close> is a function of its own.
\<close>

definition builtin_pack2 :: "u32 \<Rightarrow> u32 \<Rightarrow> v2" where
  "builtin_pack2 x y = (ucast x, ucast y)"

definition builtin_packu2 :: "u32 \<Rightarrow> u32 \<Rightarrow> v2" where
  "builtin_packu2 x y = (ucast x, ucast y)"

definition builtin_pack4 :: "u32 \<Rightarrow> u32 \<Rightarrow> u32 \<Rightarrow> u32 \<Rightarrow> v4" where
  "builtin_pack4 x y z t = (ucast x, ucast y, ucast z, ucast t)"

definition builtin_packu4 :: "u32 \<Rightarrow> u32 \<Rightarrow> u32 \<Rightarrow> u32 \<Rightarrow> v4" where
  "builtin_packu4 x y z t = (ucast x, ucast y, ucast z, ucast t)"

definition builtin_max2 :: "v2 \<Rightarrow> v2 \<Rightarrow> v2" where
  "builtin_max2 x y = v2_map2 (\<lambda>a b. if b <s a then a else b) x y"

definition builtin_maxu2 :: "v2 \<Rightarrow> v2 \<Rightarrow> v2" where
  "builtin_maxu2 x y = v2_map2 (\<lambda>a b. if b < a then a else b) x y"

definition builtin_min2 :: "v2 \<Rightarrow> v2 \<Rightarrow> v2" where
  "builtin_min2 x y = v2_map2 (\<lambda>a b. if a <s b then a else b) x y"

definition builtin_minu2 :: "v2 \<Rightarrow> v2 \<Rightarrow> v2" where
  "builtin_minu2 x y = v2_map2 (\<lambda>a b. if a < b then a else b) x y"

definition builtin_max4 :: "v4 \<Rightarrow> v4 \<Rightarrow> v4" where
  "builtin_max4 x y = v4_map2 (\<lambda>a b. if b <s a then a else b) x y"

definition builtin_maxu4 :: "v4 \<Rightarrow> v4 \<Rightarrow> v4" where
  "builtin_maxu4 x y = v4_map2 (\<lambda>a b. if b < a then a else b) x y"

definition builtin_min4 :: "v4 \<Rightarrow> v4 \<Rightarrow> v4" where
  "builtin_min4 x y = v4_map2 (\<lambda>a b. if a <s b then a else b) x y"

definition builtin_minu4 :: "v4 \<Rightarrow> v4 \<Rightarrow> v4" where
  "builtin_minu4 x y = v4_map2 (\<lambda>a b. if a < b then a else b) x y"

definition builtin_clip :: "u32 \<Rightarrow> nat \<Rightarrow> u32" where
  "builtin_clip x precision = 
     (if x <s - push_bit precision 1 then - push_bit precision 1
      else if push_bit precision 1 - 1 <s x then push_bit precision 1 - 1 else x)"

definition builtin_clipu :: "u32 \<Rightarrow> nat \<Rightarrow> u32" where
  "builtin_clipu x precision = 
     (if x <s 0 then 0 else if push_bit precision 1 - 1 <s x then push_bit precision 1 - 1 else x)"

fun builtin_abs2 :: "v2 \<Rightarrow> v2" where
  "builtin_abs2 (x0, x1) = (if x0 <s 0 then - x0 else x0, if x1 <s 0 then - x1 else x1)"

fun builtin_abs4 :: "v4 \<Rightarrow> v4" where
  "builtin_abs4 (x0, x1, x2, x3) = (if x0 <s 0 then - x0 else x0, if x1 <s 0 then - x1 else x1,
     if x2 <s 0 then - x2 else x2, if x3 <s 0 then - x3 else x3)"

definition builtin_macs :: "u32 \<Rightarrow> u32 \<Rightarrow> u32 \<Rightarrow> u32" where
  "builtin_macs Acc x y = Acc + lo_s x * lo_s y"

definition builtin_machhs :: "u32 \<Rightarrow> u32 \<Rightarrow> u32 \<Rightarrow> u32" where
  "builtin_machhs Acc x y = Acc + hi_s x * hi_s y"

definition builtin_macu :: "u32 \<Rightarrow> u32 \<Rightarrow> u32 \<Rightarrow> u32" where
  "builtin_macu Acc x y = Acc + lo_u x * lo_u y"

definition builtin_machhu :: "u32 \<Rightarrow> u32 \<Rightarrow> u32 \<Rightarrow> u32" where
  "builtin_machhu Acc x y = Acc + hi_u x * hi_u y"

definition builtin_macsN :: "u32 \<Rightarrow> u32 \<Rightarrow> u32 \<Rightarrow> nat \<Rightarrow> u32" where
  "builtin_macsN Acc x y n = signed_drop_bit n (Acc + lo_s x * lo_s y)"

definition builtin_machhsN :: "u32 \<Rightarrow> u32 \<Rightarrow> u32 \<Rightarrow> nat \<Rightarrow> u32" where
  "builtin_machhsN Acc x y n = signed_drop_bit n (Acc + hi_s x * hi_s y)"

definition builtin_macuN :: "u32 \<Rightarrow> u32 \<Rightarrow> u32 \<Rightarrow> nat \<Rightarrow> u32" where
  "builtin_macuN Acc x y n = drop_bit n (Acc + lo_u x * lo_u y)"

definition builtin_machhuN :: "u32 \<Rightarrow> u32 \<Rightarrow> u32 \<Rightarrow> nat \<Rightarrow> u32" where
  "builtin_machhuN Acc x y n = drop_bit n (Acc + hi_u x * hi_u y)"

definition builtin_macsRN :: "u32 \<Rightarrow> u32 \<Rightarrow> u32 \<Rightarrow> nat \<Rightarrow> u32" where
  "builtin_macsRN Acc x y n = signed_drop_bit n (Acc + lo_s x * lo_s y + push_bit (n - 1) 1)"

definition builtin_machhsRN :: "u32 \<Rightarrow> u32 \<Rightarrow> u32 \<Rightarrow> nat \<Rightarrow> u32" where
  "builtin_machhsRN Acc x y n = signed_drop_bit n (Acc + hi_s x * hi_s y + push_bit (n - 1) 1)"

definition builtin_macuRN :: "u32 \<Rightarrow> u32 \<Rightarrow> u32 \<Rightarrow> nat \<Rightarrow> u32" where
  "builtin_macuRN Acc x y n = drop_bit n (Acc + lo_u x * lo_u y + push_bit (n - 1) 1)"

definition builtin_machhuRN :: "u32 \<Rightarrow> u32 \<Rightarrow> u32 \<Rightarrow> nat \<Rightarrow> u32" where
  "builtin_machhuRN Acc x y n = Acc + hi_u x * hi_u y + of_nat n"

definition builtin_mulsN :: "u32 \<Rightarrow> u32 \<Rightarrow> nat \<Rightarrow> u32" where
  "builtin_mulsN x y n = signed_drop_bit n (lo_s x * lo_s y)"

definition builtin_mulsRN :: "u32 \<Rightarrow> u32 \<Rightarrow> nat \<Rightarrow> u32" where
  "builtin_mulsRN x y n = signed_drop_bit n (lo_s x * lo_s y + push_bit (n - 1) 1)"

definition builtin_muluN :: "u32 \<Rightarrow> u32 \<Rightarrow> nat \<Rightarrow> u32" where
  "builtin_muluN x y n = signed_drop_bit n (lo_u x * lo_u y)"

definition builtin_muluRN :: "u32 \<Rightarrow> u32 \<Rightarrow> nat \<Rightarrow> u32" where
  "builtin_muluRN x y n = signed_drop_bit n (lo_u x * lo_u y + push_bit (n - 1) 1)"

definition builtin_dotp2 :: "v2 \<Rightarrow> v2 \<Rightarrow> u32" where
  "builtin_dotp2 x y = dot2 scast scast x y"

definition builtin_sumdotp2 :: "v2 \<Rightarrow> v2 \<Rightarrow> u32 \<Rightarrow> u32" where
  "builtin_sumdotp2 x y z = sumdot2 scast scast x y z"

definition builtin_dotpu2 :: "v2 \<Rightarrow> v2 \<Rightarrow> u32" where
  "builtin_dotpu2 x y = dot2 ucast ucast x y"

definition builtin_sumdotpu2 :: "v2 \<Rightarrow> v2 \<Rightarrow> u32 \<Rightarrow> u32" where
  "builtin_sumdotpu2 x y z = sumdot2 ucast ucast x y z"

definition builtin_dotpus2 :: "v2 \<Rightarrow> v2 \<Rightarrow> u32" where
  "builtin_dotpus2 x y = dot2 ucast scast x y"

definition builtin_sumdotpus2 :: "v2 \<Rightarrow> v2 \<Rightarrow> u32 \<Rightarrow> u32" where
  "builtin_sumdotpus2 x y z = sumdot2 ucast scast x y z"

definition builtin_dotp4 :: "v4 \<Rightarrow> v4 \<Rightarrow> u32" where
  "builtin_dotp4 x y = dot4 scast scast x y"

definition builtin_sumdotp4 :: "v4 \<Rightarrow> v4 \<Rightarrow> u32 \<Rightarrow> u32" where
  "builtin_sumdotp4 x y z = sumdot4 scast scast x y z"

definition builtin_dotpu4 :: "v4 \<Rightarrow> v4 \<Rightarrow> u32" where
  "builtin_dotpu4 x y = dot4 ucast ucast x y"

definition builtin_sumdotpu4 :: "v4 \<Rightarrow> v4 \<Rightarrow> u32 \<Rightarrow> u32" where
  "builtin_sumdotpu4 x y z = sumdot4 ucast ucast x y z"

definition builtin_dotpus4 :: "v4 \<Rightarrow> v4 \<Rightarrow> u32" where
  "builtin_dotpus4 x y = dot4 ucast scast x y"

definition builtin_sumdotpus4 :: "v4 \<Rightarrow> v4 \<Rightarrow> u32 \<Rightarrow> u32" where
  "builtin_sumdotpus4 x y z = sumdot4 ucast scast x y z"

function builtin_clb_loop :: "u32 \<Rightarrow> nat \<Rightarrow> nat" where
  "builtin_clb_loop x result =
     (if x \<noteq> 0 then builtin_clb_loop (drop_bit 1 x) (if x AND 1 \<noteq> 0 then Suc result else result) else result)"
  by pat_completeness auto
termination
proof (relation "measure (\<lambda>(x, result). unat x)")
  fix x :: u32
  assume "x \<noteq> 0"
  then have "0 < unat x" by (simp add: unat_gt_0)
  then show "((drop_bit 1 x, if x AND 1 \<noteq> 0 then Suc result else result), x, result) \<in> measure (\<lambda>(x, result). unat x)" for result
    by (simp add: drop_bit_Suc unat_div)
qed simp

declare builtin_clb_loop.simps [simp del]

definition builtin_clb :: "u32 \<Rightarrow> nat" where
  "builtin_clb x = builtin_clb_loop x 0"

definition builtin_bitextract :: "u32 \<Rightarrow> nat \<Rightarrow> nat \<Rightarrow> u32" where
  "builtin_bitextract x sz off = drop_bit (32 - sz) (push_bit (32 - sz) (signed_drop_bit off x AND (push_bit sz 1 - 1)))"

definition builtin_bitextractu :: "u32 \<Rightarrow> nat \<Rightarrow> nat \<Rightarrow> u32" where
  "builtin_bitextractu x sz off = signed_drop_bit off x AND (push_bit sz 1 - 1)"

definition builtin_bitinsert :: "u32 \<Rightarrow> u32 \<Rightarrow> nat \<Rightarrow> nat \<Rightarrow> u32" where
  "builtin_bitinsert dst src sz off = 
     (dst AND NOT (field_ones sz off)) OR push_bit off (src AND (push_bit sz 1 - 1))"

definition builtin_bitinsert_r :: "u32 \<Rightarrow> u32 \<Rightarrow> nat \<Rightarrow> nat \<Rightarrow> u32" where
  "builtin_bitinsert_r dst src sz off = 
     (dst AND NOT (field_ones sz off)) OR push_bit off (src AND (push_bit sz 1 - 1))"

definition builtin_rotr :: "u32 \<Rightarrow> u32" where
  "builtin_rotr x = (signed_drop_bit 1 x AND 0x7FFFFFFF) OR push_bit 31 x"

definition builtin_addroundnormu :: "u32 \<Rightarrow> u32 \<Rightarrow> nat \<Rightarrow> u32" where
  "builtin_addroundnormu x y scale = drop_bit scale (x + y + push_bit (scale - 1) 1)"

definition builtin_roundnormu :: "u32 \<Rightarrow> nat \<Rightarrow> u32" where
  "builtin_roundnormu x scale = drop_bit scale (x + push_bit (scale - 1) 1)"

definition builtin_addroundnorm :: "u32 \<Rightarrow> u32 \<Rightarrow> nat \<Rightarrow> u32" where
  "builtin_addroundnorm x y scale = signed_drop_bit scale (x + y + push_bit (scale - 1) 1)"

definition builtin_roundnorm :: "u32 \<Rightarrow> nat \<Rightarrow> u32" where
  "builtin_roundnorm x scale = signed_drop_bit scale (x + push_bit (scale - 1) 1)"

end
