(* ===== verification/Builtins_Props.thy ===== *)
theory Builtins_Props
  imports Builtins_Emu
begin

text \<open>
  Fields of a word as the macros read and write them, stated once as the contract \<open>reg_field\<close> and
  interpreted for the insertion and extraction of the emulation; and what the saturation, rounding
  and bit counting macros compute.
\<close>

section \<open>Fields of a register\<close>

locale reg_field =
  fixes get :: "u32 \<Rightarrow> u32"
    and put :: "u32 \<Rightarrow> u32 \<Rightarrow> u32"
    and off width :: nat
  assumes fits: "off + width \<le> 32"
    and get_eq: "get x = take_bit width (drop_bit off x)"
    and put_bit: "n < 32 \<Longrightarrow> bit (put x v) n \<longleftrightarrow> (if off \<le> n \<and> n < off + width then bit v (n - off) else bit x n)"
begin

lemma get_put: "get (put x v) = take_bit width v"
  using fits by (intro bit_word_eqI) (auto simp: get_eq bit_simps put_bit)

lemma put_get: "put x (get x) = x"
  using fits by (intro bit_word_eqI) (auto simp: get_eq bit_simps put_bit)

lemma put_put: "put (put x v) w = put x w"
  by (intro bit_word_eqI) (auto simp: put_bit)

lemma put_elsewhere:
  assumes "off' + width' \<le> off \<or> off + width \<le> off'" and "off' + width' \<le> 32"
  shows "take_bit width' (drop_bit off' (put x v)) = take_bit width' (drop_bit off' x)"
proof (rule bit_word_eqI)
  fix n
  assume "n < LENGTH(32)"
  moreover have "bit (put x v) (off' + n) = bit x (off' + n)" if "n < width'"
    using assms that by (subst put_bit) auto
  ultimately show "bit (take_bit width' (drop_bit off' (put x v))) n = bit (take_bit width' (drop_bit off' x)) n"
    by (auto simp: bit_simps)
qed

end

lemma field_ones_bit: "bit (field_ones sz off) n \<longleftrightarrow> off \<le> n \<and> n < off + sz \<and> n < 32"
  unfolding field_ones_def width_mask by (auto simp: bit_simps)

lemma emu_field:
  assumes "off + sz \<le> 32"
  shows "reg_field (\<lambda>x. BITEXTRACTU x sz off) (\<lambda>x v. BITINSERT x v sz off) off sz"
proof
  show "BITEXTRACTU x sz off = take_bit sz (drop_bit off x)" for x
    unfolding BITEXTRACTU_def width_mask using assms by (intro bit_word_eqI) (auto simp: bit_simps)
  show "bit (BITINSERT x v sz off) n \<longleftrightarrow> (if off \<le> n \<and> n < off + sz then bit v (n - off) else bit x n)"
    if "n < 32" for x v n
    unfolding BITINSERT_def width_mask using that by (auto simp: bit_simps field_ones_bit)
qed (rule assms)

text \<open>The field of the JTAG register that selects how to boot, as the macros would write it.\<close>

interpretation jtag_ext: reg_field "\<lambda>x. BITEXTRACTU x 4 8" "\<lambda>x v. BITINSERT x v 4 8" 8 4
  by (rule emu_field) simp

section \<open>Properties\<close>

text \<open>
  C32. Reading a field of at most 30 bits that has just been inserted gives the inserted value cut to
  the width of the field, and every field of at most 30 bits that does not meet it reads as before.
  (The mask of a wider field is outside what the macros can compute: \<^verbatim>\<open>(1<<31)-1\<close> overflows the
  int, and a shift by 32 is undefined.)
\<close>

theorem bitinsert_bitextract:
  assumes "sz < 31" "off < 32" "off + sz \<le> 32" and "sz' < 31" "off' < 32" "off' + sz' \<le> 32"
    and "off' + sz' \<le> off \<or> off + sz \<le> off'"
  shows "BITEXTRACTU (BITINSERT dst src sz off) sz off = take_bit sz src \<and>
    BITEXTRACTU (BITINSERT dst src sz off) sz' off' = BITEXTRACTU dst sz' off'"
  using reg_field.get_put [OF emu_field [OF assms(3)]] reg_field.put_elsewhere [OF emu_field [OF assms(3)] assms(7,6)]
  by (simp add: reg_field.get_eq [OF emu_field [OF assms(6)]])

theorem bitinsert_bitextract_witness:
  "BITEXTRACTU (BITINSERT 0xABCD 5 4 8) 4 8 = take_bit 4 5 \<and> BITEXTRACTU (BITINSERT 0xABCD 5 4 8) 8 0 = BITEXTRACTU 0xABCD 8 0"
  using bitinsert_bitextract [of 4 8 8 0 "0xABCD" 5] by simp

text \<open>
  The signed extraction never returns a negative value: because its mask is unsigned, the final
  shift does not copy the sign, and the result is that of the unsigned extraction.
\<close>

theorem bitextract_unsigned:
  assumes "0 < sz" and "sz < 32"
  shows "BITEXTRACT x sz off = BITEXTRACTU x sz off \<and> 0 \<le>s BITEXTRACT x sz off"
proof
  show e: "BITEXTRACT x sz off = BITEXTRACTU x sz off"
    unfolding BITEXTRACT_def BITEXTRACTU_def width_mask using assms by (intro bit_word_eqI) (auto simp: bit_simps)
  have "\<not> bit (BITEXTRACTU x sz off) 31"
    unfolding BITEXTRACTU_def width_mask using assms by (auto simp: bit_simps)
  then show "0 \<le>s BITEXTRACT x sz off"
    unfolding e by (simp add: word_sle_eq sint_uint signed_take_bit_nonnegative_iff bit_uint_iff)
qed

theorem bitextract_unsigned_witness:
  "BITEXTRACT 0xF00 4 8 = BITEXTRACTU 0xF00 4 8 \<and> 0 \<le>s BITEXTRACT 0xF00 4 8"
  by (rule bitextract_unsigned) simp_all

lemma ones_step: "card {n. bit (x :: u32) n} = card {n. bit (drop_bit 1 x) n} + of_bool (bit x 0)"
proof -
  have fin: "finite {n. bit (y :: u32) n}" for y
    by (rule finite_subset [of _ "{..<32}"]) (auto dest: bit_imp_le_length)
  have "{n. bit x n} = Suc ` {n. bit (drop_bit 1 x) n} \<union> (if bit x 0 then {0} else {})"
  proof (rule set_eqI)
    fix n
    show "n \<in> {n. bit x n} \<longleftrightarrow> n \<in> Suc ` {n. bit (drop_bit 1 x) n} \<union> (if bit x 0 then {0} else {})"
      by (cases n) (auto simp: bit_drop_bit_eq)
  qed
  moreover have "card (Suc ` {n. bit (drop_bit 1 x) n} \<union> (if bit x 0 then {0} else {})) =
      card {n. bit (drop_bit 1 x) n} + of_bool (bit x 0)"
    using fin [of "drop_bit 1 x"] by (auto simp: card_image)
  ultimately show ?thesis by simp
qed

lemma clb_loop_ones: "builtin_clb_loop x result = card {n. bit x n} + result"
proof (induction x result rule: builtin_clb_loop.induct)
  case (1 x result)
  have "x AND 1 \<noteq> 0 \<longleftrightarrow> bit x 0"
    by (simp add: and_one_eq bit_0 odd_iff_mod_2_eq_one)
  with 1 ones_step [of x] show ?case
    by (subst builtin_clb_loop.simps) auto
qed

text \<open>
  The function that is meant to count the sign bits of a word counts its ones: it gives 0 for 0,
  where the instruction (and the emulation with the compiler's function) gives 31.
\<close>

theorem clb_counts_ones:
  "builtin_clb x = card {n. bit x n} \<and> builtin_clb 0 = 0 \<and> CLB 0 = 31"
  by (simp add: builtin_clb_def clb_loop_ones CLB_def builtin_clrsb_def upt_rec)

lemma clip_bounds:
  assumes "p < 31"
  shows "sint (- push_bit p 1 :: u32) = - (2 ^ p)" and "sint (push_bit p 1 - 1 :: u32) = 2 ^ p - 1"
proof -
  have p: "0 < (2 :: int) ^ p" "(2 :: int) ^ p \<le> 1073741824"
    using power_increasing [of p 30 "2 :: int"] assms by simp_all
  have "sint (word_of_int (- q) :: u32) = - q \<and> sint (word_of_int (q - 1) :: u32) = q - 1"
    if "0 < q" "q \<le> 1073741824" for q
    using that by (simp add: sint_sbintrunc' signed_take_bit_int_eq_self del: word_of_int_minus of_int_diff of_int_minus)
  from this [OF p] have "sint (word_of_int (- (2 ^ p)) :: u32) = - (2 ^ p)" "sint (word_of_int (2 ^ p - 1) :: u32) = 2 ^ p - 1"
    by blast+
  then show "sint (- push_bit p 1 :: u32) = - (2 ^ p)" and "sint (push_bit p 1 - 1 :: u32) = 2 ^ p - 1"
    by simp_all
qed

text \<open>
  C33. The saturation macros clamp a signed word as a mathematical integer: below the range to its lower
  end, above it to its upper end, and inside it the value stays. The range is that of a signed number of
  the given bits and a sign for CLIP, of an unsigned number of that many bits for CLIPU, for every
  precision below 31; and the variants that take the upper bound instead of the number of bits agree.
\<close>

theorem clip_saturates:
  assumes "p < 31"
  shows "sint (CLIP x p) = max (- (2 ^ p)) (min (2 ^ p - 1) (sint x)) \<and>
    sint (CLIPU x p) = max 0 (min (2 ^ p - 1) (sint x)) \<and>
    CLIP_R x (push_bit p 1 - 1) = CLIP x p \<and> CLIPU_R x (push_bit p 1 - 1) = CLIPU x p"
proof (intro conjI)
  note ends = clip_bounds [OF assms]
  have pos: "(1 :: int) \<le> 2 ^ p" by simp
  show c: "sint (CLIP x p) = max (- (2 ^ p)) (min (2 ^ p - 1) (sint x))"
    using ends pos by (auto simp: CLIP_def word_sless_alt)
  show u: "sint (CLIPU x p) = max 0 (min (2 ^ p - 1) (sint x))"
    using ends pos by (auto simp: CLIPU_def word_sless_alt)
  have neg: "- ((push_bit p 1 - 1) + 1) = (- push_bit p 1 :: u32)" by simp
  have "sint (CLIP_R x (push_bit p 1 - 1)) = sint (CLIP x p)"
    unfolding c CLIP_R_def neg using ends pos by (auto simp: word_sle_eq)
  then show "CLIP_R x (push_bit p 1 - 1) = CLIP x p" by (rule signed_word_eqI)
  have "sint (CLIPU_R x (push_bit p 1 - 1)) = sint (CLIPU x p)"
    unfolding u CLIPU_R_def using ends pos by (auto simp: word_sle_eq)
  then show "CLIPU_R x (push_bit p 1 - 1) = CLIPU x p" by (rule signed_word_eqI)
qed

text \<open>The smallest word, clipped to eight bits with sign and to eight bits without.\<close>

theorem clip_saturates_witness:
  "sint (CLIP 0x80000000 7) = - 128 \<and> sint (CLIPU 0x80000000 8) = 0 \<and> sint (CLIP 300 7) = 127"
  using clip_saturates [of 7 "0x80000000"] clip_saturates [of 8 "0x80000000"] clip_saturates [of 7 300] by simp

end
