(* ===== verification/Hyper_Props.thy ===== *)
theory Hyper_Props
  imports Hyper_Hal Builtins_Props
begin

text \<open>
  What the field setters of the HyperBus channel write: for a value that fits the field, the register
  with the value inserted in the field, as the reference operation \<open>BITINSERT\<close> does it; the fields of
  a register do not meet and make up the bits the register has.
\<close>

section \<open>The value written\<close>

lemma low_bits:
  fixes v :: u32
  assumes "unat v < 2 ^ w" and "bit v k"
  shows "k < w"
proof (rule ccontr)
  assume "\<not> k < w"
  have "take_bit w v = v"
    by (intro word_unat_eq_iff [THEN iffD2]) (use assms(1) in \<open>simp add: unsigned_take_bit_eq take_bit_nat_eq_self\<close>)
  with assms(2) \<open>\<not> k < w\<close> show False by (metis bit_take_bit_iff)
qed

lemma ucast_back:
  fixes v :: u32
  assumes "unat v < 2 ^ w" and "w \<le> LENGTH('a::len)"
  shows "(ucast (ucast v :: 'a word) :: u32) = v"
  using low_bits [OF assms(1)] assms(2) by (intro bit_word_eqI) (auto simp: bit_simps intro: less_le_trans)

lemma ucast_masked:
  fixes x R :: u32
  assumes "take_bit LENGTH('a::len) R = R"
  shows "(ucast (ucast x :: 'a word) :: u32) AND R = x AND R"
proof (rule bit_word_eqI)
  fix n
  assume "n < LENGTH(32)"
  moreover have "bit R n \<Longrightarrow> n < LENGTH('a)" using assms by (metis bit_take_bit_iff)
  ultimately show "bit ((ucast (ucast x :: 'a word) :: u32) AND R) n = bit (x AND R) n" by (auto simp: bit_simps)
qed

lemma shifted_in:
  assumes "off + w \<le> 32" and "push_bit off (mask w) AND R = push_bit off (mask w)" and "unat v < 2 ^ w"
    and "M = NOT (push_bit off (mask w)) AND R"
  shows "(((x AND R) AND M) OR push_bit off v) AND R = BITINSERT (x AND R) v w off"
proof (rule bit_word_eqI)
  fix n
  assume "n < LENGTH(32)"
  then have n: "n < 32" by simp
  have R: "bit R n" if "off \<le> n" "n < off + w"
  proof -
    have "bit (push_bit off (mask w) AND R) n" unfolding assms(2) using that n by (simp add: bit_simps less_diff_conv2)
    then show ?thesis by (simp add: bit_simps)
  qed
  have v: "n < off + w" if "off \<le> n" "bit v (n - off)"
    using low_bits [OF assms(3) that(2)] that(1) by linarith
  show "bit ((((x AND R) AND M) OR push_bit off v) AND R) n = bit (BITINSERT (x AND R) v w off) n"
    using n R v by (auto simp: reg_field.put_bit [OF emu_field [OF assms(1)]] bit_simps assms(4))
qed

lemma shifted_in_narrow:
  assumes "off + w \<le> 32" and "push_bit off (mask w) AND R = push_bit off (mask w)" and "unat v < 2 ^ w"
    and "M = NOT (push_bit off (mask w)) AND R" and "take_bit LENGTH('a::len) R = R" and "w \<le> LENGTH('b::len)"
  shows "(ucast (ucast ((ucast (ucast (x AND R) :: 'a word) AND M) OR push_bit off (ucast (ucast v :: 'b word))) :: 'a word) :: u32)
    AND R = BITINSERT (x AND R) v w off"
proof -
  have "(ucast (ucast (x AND R) :: 'a word) :: u32) AND M = ((ucast (ucast (x AND R) :: 'a word) :: u32) AND R) AND M"
    by (simp add: assms(4) ac_simps)
  then have "(ucast (ucast (x AND R) :: 'a word) :: u32) AND M = (x AND R) AND M"
    by (simp add: ucast_masked [OF assms(5)])
  then show ?thesis
    using shifted_in [OF assms(1-4), of x] by (simp only: ucast_back [OF assms(3,6)] ucast_masked [OF assms(5)])
qed

lemma shifted_in_wide:
  assumes "off + w \<le> 32" and "push_bit off (mask w) AND R = push_bit off (mask w)" and "unat v < 2 ^ w"
    and "M = NOT (push_bit off (mask w)) AND R" and "w \<le> LENGTH('b::len)"
  shows "(((x AND R) AND M) OR push_bit off (ucast (ucast v :: 'b word))) AND R = BITINSERT (x AND R) v w off"
  using shifted_in [OF assms(1-4), of x] by (simp add: ucast_back [OF assms(3,5)])

section \<open>The setters\<close>

text \<open>The setters, each with its register, the bits of that register, and the place and width of the field.\<close>

definition hyper_setters ::
  "'e pulp_bus \<Rightarrow> hyper_id \<Rightarrow> ((u32 \<Rightarrow> ('e, 'z) machine_scheme \<Rightarrow> ('e, 'z) machine_scheme) \<times> u32 \<times> u32 \<times> nat \<times> nat) list" where
  "hyper_setters b hid =
    [(\<lambda>v. hal_hyper_udma_mbr0_set b hid (ucast v), HYPER_MEM_CFG0 hid, HYPER_MEM_CFG0_MASK, HYPER_MEM_CFG0_MBR0_OFFSET, 8),
     (\<lambda>v. hal_hyper_udma_latency0_set b hid (ucast v), HYPER_MEM_CFG0 hid, HYPER_MEM_CFG0_MASK, HYPER_MEM_CFG0_LATENCY0_OFFSET, 4),
     (\<lambda>v. hal_hyper_udma_wrap_size0_set b hid (ucast v), HYPER_MEM_CFG0 hid, HYPER_MEM_CFG0_MASK, HYPER_MEM_CFG0_WRAP_SIZE0_OFFSET, 2),
     (\<lambda>v. hal_hyper_udma_rd_cshi0_set b hid (ucast v), HYPER_MEM_CFG1 hid, HYPER_MEM_CFG1_MASK, HYPER_MEM_CFG1_RD_CSHI0_OFFSET, 4),
     (\<lambda>v. hal_hyper_udma_rd_css0_set b hid (ucast v), HYPER_MEM_CFG1 hid, HYPER_MEM_CFG1_MASK, HYPER_MEM_CFG1_RD_CSS0_OFFSET, 4),
     (\<lambda>v. hal_hyper_udma_rd_csh0_set b hid (ucast v), HYPER_MEM_CFG1 hid, HYPER_MEM_CFG1_MASK, HYPER_MEM_CFG1_RD_CSH0_OFFSET, 4),
     (\<lambda>v. hal_hyper_udma_wr_cshi0_set b hid (ucast v), HYPER_MEM_CFG1 hid, HYPER_MEM_CFG1_MASK, HYPER_MEM_CFG1_WR_CSHI0_OFFSET, 4),
     (\<lambda>v. hal_hyper_udma_wr_css0_set b hid (ucast v), HYPER_MEM_CFG1 hid, HYPER_MEM_CFG1_MASK, HYPER_MEM_CFG1_WR_CSS0_OFFSET, 4),
     (\<lambda>v. hal_hyper_udma_wr_csh0_set b hid (ucast v), HYPER_MEM_CFG1 hid, HYPER_MEM_CFG1_MASK, HYPER_MEM_CFG1_WR_CSH0_OFFSET, 4),
     (\<lambda>v. hal_hyper_udma_rd_max_length0_set b hid (ucast v), HYPER_MEM_CFG2 hid, HYPER_MEM_CFG2_MASK, HYPER_MEM_CFG2_RD_MAX_LENGTH0_OFFSET, 9),
     (\<lambda>v. hal_hyper_udma_wr_max_length0_set b hid (ucast v), HYPER_MEM_CFG2 hid, HYPER_MEM_CFG2_MASK, HYPER_MEM_CFG2_WR_MAX_LENGTH0_OFFSET, 9),
     (\<lambda>v. hal_hyper_udma_acs0_set b hid (ucast v), HYPER_MEM_CFG3 hid, HYPER_MEM_CFG3_MASK, HYPER_MEM_CFG3_ACS0_OFFSET, 1),
     (\<lambda>v. hal_hyper_udma_tco0_set b hid (ucast v), HYPER_MEM_CFG3 hid, HYPER_MEM_CFG3_MASK, HYPER_MEM_CFG3_TCO0_OFFSET, 1),
     (\<lambda>v. hal_hyper_udma_dt0_set b hid (ucast v), HYPER_MEM_CFG3 hid, HYPER_MEM_CFG3_MASK, HYPER_MEM_CFG3_DT0_OFFSET, 1),
     (\<lambda>v. hal_hyper_udma_crt0_set b hid (ucast v), HYPER_MEM_CFG3 hid, HYPER_MEM_CFG3_MASK, HYPER_MEM_CFG3_CRT0_OFFSET, 1),
     (\<lambda>v. hal_hyper_udma_rd_maxlen_en0_set b hid (ucast v), HYPER_MEM_CFG3 hid, HYPER_MEM_CFG3_MASK, HYPER_MEM_CFG3_RD_MAX_LEN_EN0_OFFSET, 1),
     (\<lambda>v. hal_hyper_udma_wr_maxlen_en0_set b hid (ucast v), HYPER_MEM_CFG3 hid, HYPER_MEM_CFG3_MASK, HYPER_MEM_CFG3_WR_MAX_LEN_EN0_OFFSET, 1),
     (\<lambda>v. hal_hyper_udma_rds_delay_adj_set b hid (ucast v), HYPER_MEM_CFG3 hid, HYPER_MEM_CFG3_MASK, HYPER_MEM_CFG3_RDS_DELAY_ADJ_OFFSET, 3),
     (\<lambda>v. hal_hyper_udma_mbr1_set b hid (ucast v), HYPER_MEM_CFG4 hid, HYPER_MEM_CFG4_MASK, HYPER_MEM_CFG4_MBR1_OFFSET, 8),
     (\<lambda>v. hal_hyper_udma_wrap_size1_set b hid (ucast v), HYPER_MEM_CFG4 hid, HYPER_MEM_CFG4_MASK, HYPER_MEM_CFG4_WRAP_SIZE1_OFFSET, 2),
     (\<lambda>v. hal_hyper_udma_rd_cshi1_set b hid (ucast v), HYPER_MEM_CFG5 hid, HYPER_MEM_CFG5_MASK, HYPER_MEM_CFG5_RD_CSHI1_OFFSET, 4),
     (\<lambda>v. hal_hyper_udma_rd_css1_set b hid (ucast v), HYPER_MEM_CFG5 hid, HYPER_MEM_CFG5_MASK, HYPER_MEM_CFG5_RD_CSS1_OFFSET, 4),
     (\<lambda>v. hal_hyper_udma_rd_csh1_set b hid (ucast v), HYPER_MEM_CFG5 hid, HYPER_MEM_CFG5_MASK, HYPER_MEM_CFG5_RD_CSH1_OFFSET, 4),
     (\<lambda>v. hal_hyper_udma_wr_cshi1_set b hid (ucast v), HYPER_MEM_CFG5 hid, HYPER_MEM_CFG5_MASK, HYPER_MEM_CFG5_WR_CSHI1_OFFSET, 4),
     (\<lambda>v. hal_hyper_udma_wr_css1_set b hid (ucast v), HYPER_MEM_CFG5 hid, HYPER_MEM_CFG5_MASK, HYPER_MEM_CFG5_WR_CSS1_OFFSET, 4),
     (\<lambda>v. hal_hyper_udma_wr_csh1_set b hid (ucast v), HYPER_MEM_CFG5 hid, HYPER_MEM_CFG5_MASK, HYPER_MEM_CFG5_WR_CSH1_OFFSET, 4),
     (\<lambda>v. hal_hyper_udma_rd_max_length1_set b hid (ucast v), HYPER_MEM_CFG6 hid, HYPER_MEM_CFG6_MASK, HYPER_MEM_CFG6_RD_MAX_LENGTH1_OFFSET, 9),
     (\<lambda>v. hal_hyper_udma_wr_max_length1_set b hid (ucast v), HYPER_MEM_CFG6 hid, HYPER_MEM_CFG6_MASK, HYPER_MEM_CFG6_WR_MAX_LENGTH1_OFFSET, 9),
     (\<lambda>v. hal_hyper_udma_acs1_set b hid (ucast v), HYPER_MEM_CFG7 hid, HYPER_MEM_CFG7_MASK, HYPER_MEM_CFG7_ACS1_OFFSET, 1),
     (\<lambda>v. hal_hyper_udma_tco1_set b hid (ucast v), HYPER_MEM_CFG7 hid, HYPER_MEM_CFG7_MASK, HYPER_MEM_CFG7_TCO1_OFFSET, 1),
     (\<lambda>v. hal_hyper_udma_dt1_set b hid (ucast v), HYPER_MEM_CFG7 hid, HYPER_MEM_CFG7_MASK, HYPER_MEM_CFG7_DT1_OFFSET, 1),
     (\<lambda>v. hal_hyper_udma_crt1_set b hid (ucast v), HYPER_MEM_CFG7 hid, HYPER_MEM_CFG7_MASK, HYPER_MEM_CFG7_CRT1_OFFSET, 1),
     (\<lambda>v. hal_hyper_udma_rd_maxlen_en1_set b hid (ucast v), HYPER_MEM_CFG7 hid, HYPER_MEM_CFG7_MASK, HYPER_MEM_CFG7_RD_MAX_LEN_EN1_OFFSET, 1),
     (\<lambda>v. hal_hyper_udma_wr_maxlen_en1_set b hid (ucast v), HYPER_MEM_CFG7 hid, HYPER_MEM_CFG7_MASK, HYPER_MEM_CFG7_WR_MAX_LEN_EN1_OFFSET, 1)]"

text \<open>A field of a register, as a read, an insertion and a write.\<close>

definition field_update ::
  "'e pulp_bus \<Rightarrow> u32 \<Rightarrow> u32 \<Rightarrow> nat \<Rightarrow> nat \<Rightarrow> u32 \<Rightarrow> ('e, 'z) machine_scheme \<Rightarrow> ('e, 'z) machine_scheme" where
  "field_update b reg R off w v s =
     (case pulp_read32 b reg s of (x, s) \<Rightarrow> pulp_write32 b reg (BITINSERT (x AND R) v w off) s)"

lemma narrow_setter:
  assumes "off + w \<le> 32" and "push_bit off (mask w) AND R = push_bit off (mask w)" and "unat v < 2 ^ w"
    and "M = NOT (push_bit off (mask w)) AND R" and "take_bit LENGTH('a::len) R = R" and "w \<le> LENGTH('b::len)"
  shows "pulp_write32 b reg ((ucast (ucast ((ucast (ucast (fst (pulp_read32 b reg s) AND R) :: 'a word) AND M)
      OR push_bit off (ucast (ucast v :: 'b word))) :: 'a word) :: u32) AND R) (snd (pulp_read32 b reg s)) =
    field_update b reg R off w v s"
  unfolding shifted_in_narrow [OF assms] by (simp add: field_update_def split_beta)

lemma wide_setter:
  assumes "off + w \<le> 32" and "push_bit off (mask w) AND R = push_bit off (mask w)" and "unat v < 2 ^ w"
    and "M = NOT (push_bit off (mask w)) AND R" and "w \<le> LENGTH('b::len)"
  shows "pulp_write32 b reg ((((fst (pulp_read32 b reg s) AND R) AND M) OR push_bit off (ucast (ucast v :: 'b word))) AND R)
      (snd (pulp_read32 b reg s)) = field_update b reg R off w v s"
  unfolding shifted_in_wide [OF assms] by (simp add: field_update_def split_beta)

lemmas hyper_evals = hyper_mask_defs hyper_off_defs hyper_gen_defs hyper_field_defs

lemma all_setters_insert:
  "list_all (\<lambda>(f, reg, R, off, w). \<forall>v s. unat v < 2 ^ w \<longrightarrow> f v s = field_update b reg R off w v s) (hyper_setters b hid)"
  unfolding hyper_setters_def list.pred_inject prod.case hyper_setter_defs hyper_reg_defs split_beta fst_conv snd_conv
  by (intro conjI allI impI TrueI; (rule narrow_setter wide_setter)?)
    (simp_all add: hyper_evals mask_eq_exp_minus_1)

lemma setter_row:
  "(f, reg, R, off, w) \<in> set (hyper_setters b hid) \<Longrightarrow> unat v < 2 ^ w \<Longrightarrow> f v s = field_update b reg R off w v s"
  using all_setters_insert [of b hid] by (auto simp: list_all_iff)

text \<open>The setters of a register come in the order of their fields, and no two fields meet.\<close>

lemma setters_apart:
  "sorted_wrt (\<lambda>(f, reg, R, off, w) (f', reg', R', off', w'). reg = reg' \<longrightarrow> off + w \<le> off') (hyper_setters b hid)"
  unfolding hyper_setters_def sorted_wrt.simps list.set ball_simps prod.case hyper_off_defs hyper_addr_defs by simp

section \<open>Properties\<close>

text \<open>
  C26. Every field setter of the HyperBus channel, given a value that fits its field, reads the one
  register that holds the field and writes it back with the value inserted there and its other bits
  kept; and the fields of the setters do not meet, so that one setter never undoes another.
\<close>

theorem hyper_setters_insert:
  "list_all (\<lambda>(f, reg, R, off, w). \<forall>v s. unat v < 2 ^ w \<longrightarrow>
      f v s = (case pulp_read32 b reg s of (x, s) \<Rightarrow> pulp_write32 b reg (BITINSERT (x AND R) v w off) s))
     (hyper_setters b hid) \<and>
   sorted_wrt (\<lambda>(f, reg, R, off, w) (f', reg', R', off', w'). reg = reg' \<longrightarrow> off + w \<le> off') (hyper_setters b hid)"
  using all_setters_insert setters_apart unfolding field_update_def by blast

text \<open>A platform of registers that keep what is written to them, and nothing else.\<close>

definition reg_bus :: "(pulp_loc \<Rightarrow> u32) pulp_bus" where
  "reg_bus = \<lparr>bus_rd = (\<lambda>loc (m, e). (e loc, m, e)), bus_wr = (\<lambda>loc v (m, e). (m, e(loc := v))), bus_wp = (\<lambda>_ _ me. me)\<rparr>"

definition reg_start :: "(pulp_loc \<Rightarrow> u32) machine" where
  "reg_start = \<lparr>ram = (\<lambda>_. 0), ext = (\<lambda>_. 0x123)\<rparr>"

theorem hyper_setters_insert_witness:
  "hal_hyper_udma_dt0_set reg_bus (\<lambda>_. 3) (ucast (1 :: u32)) reg_start =
    (case pulp_read32 reg_bus (HYPER_MEM_CFG3 (\<lambda>_. 3)) reg_start of (x, s) \<Rightarrow>
       pulp_write32 reg_bus (HYPER_MEM_CFG3 (\<lambda>_. 3)) (BITINSERT (x AND HYPER_MEM_CFG3_MASK) 1 1 HYPER_MEM_CFG3_DT0_OFFSET) s)"
proof -
  have "(\<lambda>v. hal_hyper_udma_dt0_set reg_bus (\<lambda>_. 3) (ucast v), HYPER_MEM_CFG3 (\<lambda>_. 3), HYPER_MEM_CFG3_MASK, HYPER_MEM_CFG3_DT0_OFFSET, 1)
      \<in> set (hyper_setters reg_bus (\<lambda>_. 3))"
    by (simp add: hyper_setters_def)
  note row = hyper_setters_insert [THEN conjunct1, unfolded list_all_iff, THEN bspec, OF this, unfolded prod.case, rule_format]
  show ?thesis by (rule row) simp
qed

end
