(* ===== verification/Boot_Rom_Props.thy ===== *)
theory Boot_Rom_Props
  imports Boot_Rom Image_Props Spi_Flash
begin

text \<open>
  What the first bootloader does: its command words are those of the second bootloader's driver, so
  one meaning of command words serves both; its flash routine meets the contract of the image loader,
  over a uDMA channel that only works once its clock is enabled and its event unmasked; and so a boot
  from the flash enters the image with every section in place. Then the choice of the boot mode and
  the JTAG handshake.
\<close>

section \<open>The command words\<close>

text \<open>The two drivers write the same words, for the lengths that fit the field of the command.\<close>

lemma rom_flash_cmds_eq:
  assumes "n = ucast (k :: u16)"
  shows "rom_flash_cmds a n = flash_read_cmds 0 a k"
  unfolding rom_flash_cmds_def flash_read_cmds_def kSPIm_defs SPI_CMD_CFG_def SPI_CMD_SOT_def SPI_CMD_SEND_CMD_def
    SPI_CMD_SEND_BITS_def SPI_CMD_RX_DATA_def SPI_CMD_EOT_def spi_cmd_consts assms
  by (simp add: or.assoc and.assoc) (simp flip: or.assoc)

section \<open>What the flash routine relies on\<close>

text \<open>
  Waiting for a transfer (\<open>soc_events\<close>): it takes place while the core polls the interrupt controller
  or sleeps, and ends with the event pending, which is acknowledged by taking it from the FIFO and
  clearing the status bit. The registers in \<open>calm_reg\<close> do not start a transfer, and nothing but the
  code changes the clock gating and the event mask.
\<close>

definition cg_reg :: u32 where
  "cg_reg = ARCHI_SOC_PERIPHERALS_ADDR + ARCHI_UDMA_OFFSET + UDMA_CONF_OFFSET + UDMA_CONF_CG_OFFSET"

definition evmask_reg :: u32 where "evmask_reg = ARCHI_SOC_EU_ADDR + SOC_FC_FIRST_MASK"

definition spim_cg_bit :: nat where "spim_cg_bit = unat (ARCHI_UDMA_SPIM_ID 0)"

definition calm_reg :: "u32 \<Rightarrow> bool" where
  "calm_reg a \<longleftrightarrow> a = cg_reg \<or> in_blk a ARCHI_SOC_EU_ADDR 0x100 \<or> in_blk a ARCHI_FC_ITC_ADDR 0x28 \<or>
     in_blk a ARCHI_APB_SOC_CTRL_ADDR 0x1000 \<or>
     a = ARCHI_UDMA_ADDR + UDMA_UART_OFFSET 0 + UDMA_CHANNEL_CUSTOM_OFFSET + UART_SETUP_OFFSET"

definition calm_loc :: "pulp_loc \<Rightarrow> bool" where
  "calm_loc l = (case l of M32 a \<Rightarrow> calm_reg a | Wfi \<Rightarrow> True | _ \<Rightarrow> False)"

definition enqueue_on_bus :: "'e pulp_bus \<Rightarrow> u32 \<Rightarrow> u32 \<Rightarrow> u32 \<Rightarrow> u32 \<Rightarrow> mem \<times> 'e \<Rightarrow> mem \<times> 'e" where
  "enqueue_on_bus b base a n cfg me =
     bus_wr b (M32 (base + UDMA_CHANNEL_CFG_OFFSET)) (cfg OR UDMA_CHANNEL_CFG_EN)
      (bus_wr b (M32 (base + UDMA_CHANNEL_SIZE_OFFSET)) n (bus_wr b (M32 (base + UDMA_CHANNEL_SADDR_OFFSET)) a me))"

definition start_transfer :: "'e pulp_bus \<Rightarrow> u32 \<Rightarrow> u32 \<Rightarrow> u32 \<Rightarrow> u32 \<Rightarrow> mem \<times> 'e \<Rightarrow> mem \<times> 'e" where
  "start_transfer b l2addr n buffer k me =
     enqueue_on_bus b (UDMA_SPIM_CMD_ADDR 0) buffer k (UDMA_CHANNEL_CFG_EN OR UDMA_CHANNEL_CFG_SIZE_32)
      (enqueue_on_bus b (UDMA_SPIM_RX_ADDR 0) l2addr n (UDMA_CHANNEL_CFG_EN OR UDMA_CHANNEL_CFG_SIZE_32) me)"

lemma enqueue_on_bus: "plp_udma_enqueue b base a n cfg s = on_bus (enqueue_on_bus b base a n cfg) s"
  by (simp add: plp_udma_enqueue_def access_defs wr_on_bus on_bus_on_bus enqueue_on_bus_def [abs_def])

text \<open>The field \<^verbatim>\<open>hyperflash\<close> is one of the last three of the structure.\<close>

lemma tail_mode:
  assumes "tail_eq data m m'"
  shows "load32 (data + hyperflash_off) m' = load32 (data + hyperflash_off) m"
proof -
  have "load32 (data + of_nat 6428) m' = load32 (data + of_nat 6428) m"
  proof (rule load32_cong)
    fix i :: nat
    assume "i < 4"
    then have "in_blk (data + of_nat (6428 + i)) (data + of_nat 6428) 12" by (subst in_blk_offsets) simp_all
    with assms show "m' (data + of_nat 6428 + of_nat i) = m (data + of_nat 6428 + of_nat i)"
      by (simp add: tail_eq_def add.assoc)
  qed
  then show ?thesis by (simp add: hyperflash_off_def)
qed

locale soc_events =
  fixes b :: "'e pulp_bus"
    and calm :: "'e \<Rightarrow> bool"
    and cg evmask :: "'e \<Rightarrow> u32"
    and todo :: "'e \<Rightarrow> (u32 \<times> u8 list) option"
    and left :: "'e \<Rightarrow> nat"
    and fin popped :: "'e \<Rightarrow> bool"
  assumes calm_rd: "calm e \<Longrightarrow> calm_loc loc \<Longrightarrow>
      \<exists>v e'. bus_rd b loc (m, e) = (v, m, e') \<and> calm e' \<and> cg e' = cg e \<and> evmask e' = evmask e \<and>
        (loc = M32 cg_reg \<longrightarrow> v = cg e) \<and> (loc = M32 evmask_reg \<longrightarrow> v = evmask e)"
    and calm_wr: "calm e \<Longrightarrow> calm_loc loc \<Longrightarrow>
      \<exists>e'. bus_wr b loc v (m, e) = (m, e') \<and> calm e' \<and> cg e' = (if loc = M32 cg_reg then v else cg e) \<and>
        evmask e' = (if loc = M32 evmask_reg then v else evmask e)"
    and busy_wr: "todo e = Some (l, ds) \<Longrightarrow> loc = Wfi \<or> loc = M32 (ARCHI_FC_ITC_ADDR + ITC_MASK_SET_OFFSET) \<Longrightarrow>
      \<exists>m' e'. bus_wr b loc v (m, e) = (m', e') \<and> cg e' = cg e \<and> evmask e' = evmask e \<and> todo e' = Some (l, ds) \<and>
        store_bytes l ds m' = store_bytes l ds m \<and> (if loc = Wfi then left e' < left e \<or> left e = 0 else left e' \<le> left e)"
    and polls: "todo e = Some (l, ds) \<Longrightarrow>
      \<exists>v m' e'. bus_rd b (M32 (ARCHI_FC_ITC_ADDR + ITC_STATUS_OFFSET)) (m, e) = (v, m', e') \<and>
        cg e' = cg e \<and> evmask e' = evmask e \<and>
        (if bit v ARCHI_FC_EVT_SOC_EVT then m' = store_bytes l ds m \<and> fin e'
         else 0 < left e' \<and> left e' \<le> left e \<and> todo e' = Some (l, ds) \<and> store_bytes l ds m' = store_bytes l ds m)"
    and pops: "fin e \<Longrightarrow> \<exists>v e'. bus_rd b (M32 (ARCHI_FC_ITC_ADDR + ITC_FIFO_OFFSET)) (m, e) = (v, m, e') \<and>
        popped e' \<and> cg e' = cg e \<and> evmask e' = evmask e"
    and acknowledges: "popped e \<Longrightarrow> bit v ARCHI_FC_EVT_SOC_EVT \<Longrightarrow>
      \<exists>e'. bus_wr b (M32 (ARCHI_FC_ITC_ADDR + ITC_STATUS_CLR_OFFSET)) v (m, e) = (m, e') \<and>
        calm e' \<and> cg e' = cg e \<and> evmask e' = evmask e"
begin

lemma event_loop_returns:
  assumes "todo (ext s) = Some (l, ds)"
  shows "\<exists>e'. soc_event_loop b s = Some (s\<lparr>ram := store_bytes l ds (ram s), ext := e'\<rparr>) \<and> fin e' \<and>
    cg e' = cg (ext s) \<and> evmask e' = evmask (ext s)"
  using assms
proof (induction "left (ext s)" arbitrary: s rule: less_induct)
  case less
  obtain v m1 e1 where 1: "hal_itc_status_value_get b s = (v, s\<lparr>ram := m1, ext := e1\<rparr>)"
      "cg e1 = cg (ext s)" "evmask e1 = evmask (ext s)"
      "if bit v ARCHI_FC_EVT_SOC_EVT then m1 = store_bytes l ds (ram s) \<and> fin e1
       else 0 < left e1 \<and> left e1 \<le> left (ext s) \<and> todo e1 = Some (l, ds) \<and> store_bytes l ds m1 = store_bytes l ds (ram s)"
    using polls [OF less(2), of "ram s"] by (auto simp: hal_itc_status_value_get_def access_defs rd_def)
  have test: "(drop_bit ARCHI_FC_EVT_SOC_EVT v AND 1 = 0) = (\<not> bit v ARCHI_FC_EVT_SOC_EVT)"
    by (simp add: bit_iff_odd_drop_bit and_one_eq odd_iff_mod_2_eq_one)
  show ?case
  proof (cases "bit v ARCHI_FC_EVT_SOC_EVT")
    case True
    with 1 test show ?thesis
      by (intro exI [of _ e1]) (subst soc_event_loop.simps, simp)
  next
    case False
    with 1(4) have t1: "todo e1 = Some (l, ds)" and l1: "0 < left e1" "left e1 \<le> left (ext s)"
      and m1: "store_bytes l ds m1 = store_bytes l ds (ram s)" by simp_all
    obtain m2 e2 where 2: "bus_wr b Wfi 0 (m1, e1) = (m2, e2)" "cg e2 = cg e1" "evmask e2 = evmask e1"
        "todo e2 = Some (l, ds)" "store_bytes l ds m2 = store_bytes l ds m1" "left e2 < left e1"
      using busy_wr [OF t1, of Wfi 0 m1] l1 by auto
    let ?s2 = "s\<lparr>ram := m2, ext := e2\<rparr>"
    obtain e3 where 3: "soc_event_loop b ?s2 = Some (?s2\<lparr>ram := store_bytes l ds m2, ext := e3\<rparr>)" "fin e3"
        "cg e3 = cg e2" "evmask e3 = evmask e2"
      using less(1) [of ?s2] 2 l1 by auto
    have "hal_itc_wait_for_interrupt b (s\<lparr>ram := m1, ext := e1\<rparr>) = ?s2"
      using 2(1) by (simp add: hal_itc_wait_for_interrupt_def wr_def)
    with False 1 test 2 3 m1 show ?thesis
      by (intro exI [of _ e3]) (subst soc_event_loop.simps, simp)
  qed
qed

lemma wr_calm:
  assumes "calm (ext s)" and "calm_loc l"
  shows "ram (wr b l v s) = ram s" and "calm (ext (wr b l v s))"
    and "cg (ext (wr b l v s)) = (if l = M32 cg_reg then v else cg (ext s))"
    and "evmask (ext (wr b l v s)) = (if l = M32 evmask_reg then v else evmask (ext s))"
proof -
  obtain e' where e': "bus_wr b l v (ram s, ext s) = (ram s, e')" "calm e'"
      "cg e' = (if l = M32 cg_reg then v else cg (ext s))"
      "evmask e' = (if l = M32 evmask_reg then v else evmask (ext s))"
    using calm_wr [OF assms, of v "ram s"] by blast
  then show "ram (wr b l v s) = ram s" and "calm (ext (wr b l v s))"
    and "cg (ext (wr b l v s)) = (if l = M32 cg_reg then v else cg (ext s))"
    and "evmask (ext (wr b l v s)) = (if l = M32 evmask_reg then v else evmask (ext s))"
    by (simp_all add: wr_def)
qed

lemma rd_calm:
  assumes "calm (ext s)" and "calm_loc l"
  shows "ram (snd (rd b l s)) = ram s" and "calm (ext (snd (rd b l s)))"
    and "cg (ext (snd (rd b l s))) = cg (ext s)" and "evmask (ext (snd (rd b l s))) = evmask (ext s)"
    and "l = M32 cg_reg \<Longrightarrow> fst (rd b l s) = cg (ext s)"
    and "l = M32 evmask_reg \<Longrightarrow> fst (rd b l s) = evmask (ext s)"
proof -
  obtain v e' where e': "bus_rd b l (ram s, ext s) = (v, ram s, e')" "calm e'" "cg e' = cg (ext s)"
      "evmask e' = evmask (ext s)" "l = M32 cg_reg \<longrightarrow> v = cg (ext s)" "l = M32 evmask_reg \<longrightarrow> v = evmask (ext s)"
    using calm_rd [OF assms, of "ram s"] by blast
  then show "ram (snd (rd b l s)) = ram s" and "calm (ext (snd (rd b l s)))"
    and "cg (ext (snd (rd b l s))) = cg (ext s)" and "evmask (ext (snd (rd b l s))) = evmask (ext s)"
    and "l = M32 cg_reg \<Longrightarrow> fst (rd b l s) = cg (ext s)"
    and "l = M32 evmask_reg \<Longrightarrow> fst (rd b l s) = evmask (ext s)"
    by (simp_all add: rd_def)
qed

lemma wait_soc_event_returns:
  assumes "todo (ext s) = Some (l, ds)"
  shows "\<exists>s'. wait_soc_event b s = Some s' \<and> ram s' = store_bytes l ds (ram s) \<and> calm (ext s') \<and>
    cg (ext s') = cg (ext s) \<and> evmask (ext s') = evmask (ext s)"
proof -
  let ?v = "push_bit ARCHI_FC_EVT_SOC_EVT 1 :: u32"
  obtain m1 e1 where 1: "hal_itc_enable_set b ?v s = s\<lparr>ram := m1, ext := e1\<rparr>" "cg e1 = cg (ext s)"
      "evmask e1 = evmask (ext s)" "todo e1 = Some (l, ds)" "store_bytes l ds m1 = store_bytes l ds (ram s)"
    using busy_wr [OF assms, of "M32 (ARCHI_FC_ITC_ADDR + ITC_MASK_SET_OFFSET)" ?v "ram s"]
    by (auto simp: hal_itc_enable_set_def access_defs wr_def)
  let ?s1 = "s\<lparr>ram := m1, ext := e1\<rparr>"
  obtain e2 where 2: "soc_event_loop b ?s1 = Some (?s1\<lparr>ram := store_bytes l ds m1, ext := e2\<rparr>)" "fin e2"
      "cg e2 = cg e1" "evmask e2 = evmask e1"
    using event_loop_returns [of ?s1] 1(4) by auto
  let ?s2 = "?s1\<lparr>ram := store_bytes l ds m1, ext := e2\<rparr>"
  obtain x e3 where 3: "hal_itc_fifo_pop b ?s2 = (x, ?s2\<lparr>ext := e3\<rparr>)" "popped e3" "cg e3 = cg e2" "evmask e3 = evmask e2"
    using pops [OF 2(2), of "ram ?s2"] by (auto simp: hal_itc_fifo_pop_def access_defs rd_def)
  obtain e4 where 4: "hal_itc_status_clr b ?v (?s2\<lparr>ext := e3\<rparr>) = ?s2\<lparr>ext := e4\<rparr>" "calm e4" "cg e4 = cg e3" "evmask e4 = evmask e3"
    using acknowledges [OF 3(2), of ?v "ram ?s2"]
    by (auto simp: hal_itc_status_clr_def access_defs wr_def rom_consts bit_simps)
  have "calm_loc (M32 (ARCHI_FC_ITC_ADDR + ITC_MASK_CLR_OFFSET))"
      "ARCHI_FC_ITC_ADDR + ITC_MASK_CLR_OFFSET \<noteq> cg_reg" "ARCHI_FC_ITC_ADDR + ITC_MASK_CLR_OFFSET \<noteq> evmask_reg"
    by (simp_all add: calm_loc_def calm_reg_def cg_reg_def evmask_reg_def in_blk_def map_defs itc_defs udma_defs soc_eu_defs)
  then show ?thesis
    using 1 2 3 4 wr_calm [of "?s2\<lparr>ext := e4\<rparr>" "M32 (ARCHI_FC_ITC_ADDR + ITC_MASK_CLR_OFFSET)" ?v]
    by (simp add: wait_soc_event_def hal_itc_enable_clr_def access_defs)
qed

text \<open>Setting up: from any calm state the clock is enabled and the event unmasked, in any order of bits.\<close>

lemma calm_locs:
  "calm_loc Wfi" "calm_loc (M32 cg_reg)" "i < 8 \<Longrightarrow> calm_loc (M32 (ARCHI_SOC_EU_ADDR + (SOC_FC_FIRST_MASK + of_nat i * 4)))"
  "calm_loc (M32 evmask_reg)"
  "calm_loc (M32 (ARCHI_FC_ITC_ADDR + ITC_MASK_SET_OFFSET))" "calm_loc (M32 (ARCHI_FC_ITC_ADDR + ITC_MASK_CLR_OFFSET))"
  "calm_loc (M32 (ARCHI_FC_ITC_ADDR + ITC_STATUS_CLR_OFFSET))"
  "calm_loc (M32 (ARCHI_APB_SOC_CTRL_ADDR + APB_SOC_BOOTADDR_OFFSET))"
  "calm_loc (M32 (ARCHI_UDMA_ADDR + UDMA_UART_OFFSET 0 + UDMA_CHANNEL_CUSTOM_OFFSET + UART_SETUP_OFFSET))"
proof -
  show "calm_loc (M32 (ARCHI_SOC_EU_ADDR + (SOC_FC_FIRST_MASK + of_nat i * 4)))" if "i < 8"
  proof -
    have "i = 0 \<or> i = 1 \<or> i = 2 \<or> i = 3 \<or> i = 4 \<or> i = 5 \<or> i = 6 \<or> i = 7" using that by arith
    then show ?thesis
      by (elim disjE) (simp_all add: calm_loc_def calm_reg_def in_blk_def map_defs soc_eu_defs)
  qed
qed (simp_all add: calm_loc_def calm_reg_def cg_reg_def evmask_reg_def in_blk_def map_defs itc_defs udma_defs soc_eu_defs apb_soc_defs)

lemma tick_calm:
  assumes "calm (ext s)"
  shows "ram (clock_tick b s) = ram s" and "calm (ext (clock_tick b s))"
    and "cg (ext (clock_tick b s)) = cg (ext s)" and "evmask (ext (clock_tick b s)) = evmask (ext s)"
proof -
  have "ARCHI_FC_ITC_ADDR + ITC_STATUS_CLR_OFFSET \<noteq> cg_reg" "ARCHI_FC_ITC_ADDR + ITC_STATUS_CLR_OFFSET \<noteq> evmask_reg"
    by (simp_all add: cg_reg_def evmask_reg_def map_defs itc_defs udma_defs soc_eu_defs)
  with assms show "ram (clock_tick b s) = ram s" and "calm (ext (clock_tick b s))"
    and "cg (ext (clock_tick b s)) = cg (ext s)" and "evmask (ext (clock_tick b s)) = evmask (ext s)"
    by (simp_all add: clock_tick_def hal_itc_status_clr_def hal_itc_wait_for_interrupt_def access_defs wr_calm calm_locs)
qed

lemma ticks_calm:
  assumes "calm (ext s)"
  shows "ram ((clock_tick b ^^ n) s) = ram s \<and> calm (ext ((clock_tick b ^^ n) s)) \<and>
    cg (ext ((clock_tick b ^^ n) s)) = cg (ext s) \<and> evmask (ext ((clock_tick b ^^ n) s)) = evmask (ext s)"
  using assms by (induction n) (simp_all add: tick_calm)

lemma wait_clock_calm:
  assumes "calm (ext s)"
  shows "ram (wait_clock_ref b n s) = ram s" and "calm (ext (wait_clock_ref b n s))"
    and "cg (ext (wait_clock_ref b n s)) = cg (ext s)" and "evmask (ext (wait_clock_ref b n s)) = evmask (ext s)"
proof -
  have "ARCHI_FC_ITC_ADDR + ITC_MASK_CLR_OFFSET \<noteq> cg_reg" "ARCHI_FC_ITC_ADDR + ITC_MASK_CLR_OFFSET \<noteq> evmask_reg"
      "ARCHI_FC_ITC_ADDR + ITC_MASK_SET_OFFSET \<noteq> cg_reg" "ARCHI_FC_ITC_ADDR + ITC_MASK_SET_OFFSET \<noteq> evmask_reg"
    by (simp_all add: cg_reg_def evmask_reg_def map_defs itc_defs udma_defs soc_eu_defs)
  with assms show "ram (wait_clock_ref b n s) = ram s" and "calm (ext (wait_clock_ref b n s))"
    and "cg (ext (wait_clock_ref b n s)) = cg (ext s)" and "evmask (ext (wait_clock_ref b n s)) = evmask (ext s)"
    by (simp_all add: wait_clock_ref_def hal_itc_enable_set_def hal_itc_enable_clr_def access_defs wr_calm calm_locs ticks_calm)
qed

lemma mask_regs: "i < 8 \<Longrightarrow> ARCHI_SOC_EU_ADDR + (SOC_FC_FIRST_MASK + of_nat i * 4) \<noteq> cg_reg"
proof -
  assume "i < 8"
  then have "i = 0 \<or> i = 1 \<or> i = 2 \<or> i = 3 \<or> i = 4 \<or> i = 5 \<or> i = 6 \<or> i = 7" by arith
  then show ?thesis
    by (elim disjE) (simp_all add: cg_reg_def map_defs soc_eu_defs udma_defs)
qed

lemma mask_set_calm:
  assumes "calm (ext s)" and "i < 8"
  shows "ram (soc_eu_eventMask_set b (SOC_FC_FIRST_MASK + of_nat i * 4) v s) = ram s"
    and "calm (ext (soc_eu_eventMask_set b (SOC_FC_FIRST_MASK + of_nat i * 4) v s))"
    and "cg (ext (soc_eu_eventMask_set b (SOC_FC_FIRST_MASK + of_nat i * 4) v s)) = cg (ext s)"
    and "evmask (ext (soc_eu_eventMask_set b (SOC_FC_FIRST_MASK + of_nat i * 4) v s)) \<in> {v, evmask (ext s)}"
    and "i = 0 \<Longrightarrow> evmask (ext (soc_eu_eventMask_set b (SOC_FC_FIRST_MASK + of_nat i * 4) v s)) = v"
  using mask_regs [OF assms(2)] wr_calm [OF assms(1) calm_locs(3) [OF assms(2)], of v]
  by (simp_all add: soc_eu_eventMask_set_def access_defs evmask_reg_def)

lemma mask_run_calm:
  assumes "calm (ext s)" and "set is \<subseteq> {..<8}" and "f = (\<lambda>i. soc_eu_eventMask_set b (SOC_FC_FIRST_MASK + of_nat i * 4) v)"
  shows "ram (fold f is s) = ram s \<and> calm (ext (fold f is s)) \<and> cg (ext (fold f is s)) = cg (ext s) \<and>
    evmask (ext (fold f is s)) \<in> {v, evmask (ext s)}"
  using assms(1,2)
proof (induction "is" arbitrary: s)
  case (Cons i "is")
  then have "i < 8" by simp
  from mask_set_calm [OF Cons.prems(1) this, of v] Cons.IH [of "f i s"] Cons.prems(2)
  show ?case by (auto simp: assms(3))
qed simp

lemma mask_reset_calm:
  assumes "calm (ext s)"
  shows "ram (soc_eu_eventMask_reset b SOC_FC_FIRST_MASK s) = ram s" and "calm (ext (soc_eu_eventMask_reset b SOC_FC_FIRST_MASK s))"
    and "cg (ext (soc_eu_eventMask_reset b SOC_FC_FIRST_MASK s)) = cg (ext s)"
    and "evmask (ext (soc_eu_eventMask_reset b SOC_FC_FIRST_MASK s)) = 0xffffffff"
proof -
  let ?f = "\<lambda>i. soc_eu_eventMask_set b (SOC_FC_FIRST_MASK + of_nat i * 4) 0xffffffff"
  have "soc_eu_eventMask_reset b SOC_FC_FIRST_MASK s = fold ?f [1..<8] (?f 0 s)"
    unfolding soc_eu_eventMask_reset_def SOC_NB_EVENT_REGS_def by (simp only: upt_conv_Cons [of 0 8]) simp
  moreover have "set [1..<8] \<subseteq> {..<8 :: nat}" by auto
  ultimately show "ram (soc_eu_eventMask_reset b SOC_FC_FIRST_MASK s) = ram s" and "calm (ext (soc_eu_eventMask_reset b SOC_FC_FIRST_MASK s))"
    and "cg (ext (soc_eu_eventMask_reset b SOC_FC_FIRST_MASK s)) = cg (ext s)"
    and "evmask (ext (soc_eu_eventMask_reset b SOC_FC_FIRST_MASK s)) = 0xffffffff"
    using mask_run_calm [of "?f 0 s" "[1..<8]", OF _ _ refl, of "0xffffffff"] mask_set_calm [OF assms, of 0 "0xffffffff"]
    by (simp_all only:) auto
qed

lemma set_event_calm:
  assumes "calm (ext s)" and "evt < 32"
  shows "ram (soc_eu_fcEventMask_setEvent b evt s) = ram s" and "calm (ext (soc_eu_fcEventMask_setEvent b evt s))"
    and "cg (ext (soc_eu_fcEventMask_setEvent b evt s)) = cg (ext s)"
    and "evmask (ext (soc_eu_fcEventMask_setEvent b evt s)) = evmask (ext s) AND NOT (push_bit evt 1)"
proof -
  have reg: "evmask_reg \<noteq> cg_reg" by (simp add: cg_reg_def evmask_reg_def map_defs soc_eu_defs udma_defs)
  have e: "soc_eu_fcEventMask_setEvent b evt s =
      wr b (M32 evmask_reg) (fst (rd b (M32 evmask_reg) s) AND NOT (push_bit evt 1)) (snd (rd b (M32 evmask_reg) s))"
    using assms(2) by (simp add: soc_eu_fcEventMask_setEvent_def soc_eu_eventMask_setEvent_def soc_eu_eventMask_get_def
        soc_eu_eventMask_set_def access_defs evmask_reg_def Let_def split_beta)
  show "ram (soc_eu_fcEventMask_setEvent b evt s) = ram s" and "calm (ext (soc_eu_fcEventMask_setEvent b evt s))"
    and "cg (ext (soc_eu_fcEventMask_setEvent b evt s)) = cg (ext s)"
    and "evmask (ext (soc_eu_fcEventMask_setEvent b evt s)) = evmask (ext s) AND NOT (push_bit evt 1)"
    using assms(1) reg unfolding e by (simp_all add: wr_calm rd_calm calm_locs)
qed

lemma deinit_keeps:
  assumes "calm (ext s)"
  shows "ram (deinit b s) = ram s" and "calm (ext (deinit b s))"
  using assms
  by (simp_all add: deinit_def plp_udma_cg_set_def plp_uart_disable_def access_defs wr_calm mask_reset_calm calm_locs
      calm_locs(2) [unfolded cg_reg_def])

end

text \<open>
  The flash on the SPI channel: the uDMA fetches the command words from memory when the command channel
  is enabled, and makes the transfer if the clock of the channel is on and its event is not masked.
\<close>

locale rom_hw = soc_events b calm cg evmask todo left fin popped
  for b :: "'e pulp_bus"
    and flash :: mem
    and calm :: "'e \<Rightarrow> bool"
    and cg evmask :: "'e \<Rightarrow> u32"
    and todo :: "'e \<Rightarrow> (u32 \<times> u8 list) option"
    and left :: "'e \<Rightarrow> nat"
    and fin popped :: "'e \<Rightarrow> bool" +
  assumes starts: "calm e \<Longrightarrow> bit (cg e) spim_cg_bit \<Longrightarrow> \<not> bit (evmask e) ARCHI_SOC_EVENT_SPIM0_EOT \<Longrightarrow>
      load_bytes buffer (4 * length ws) m = concat (map bytes32 ws) \<Longrightarrow> unat k = 4 * length ws \<Longrightarrow>
      spi_out ws = read_request a \<Longrightarrow> spi_in ws = unat n \<Longrightarrow>
      (\<And>p. in_blk p l2addr (unat n) \<Longrightarrow> \<not> in_blk p buffer (4 * length ws)) \<Longrightarrow>
      \<exists>e'. start_transfer b l2addr n buffer k (m, e) = (m, e') \<and> todo e' = Some (l2addr, flash_bytes flash a (unat n)) \<and>
        cg e' = cg e \<and> evmask e' = evmask e"
begin

text \<open>Ready for a read of the flash.\<close>

definition set_up :: "'e \<Rightarrow> bool" where
  "set_up e \<longleftrightarrow> calm e \<and> bit (cg e) spim_cg_bit \<and> \<not> bit (evmask e) ARCHI_SOC_EVENT_SPIM0_EOT"

text \<open>The flash is selected by the field \<^verbatim>\<open>hyperflash\<close> of the working structure being zero.\<close>

lemma flash_read_returns:
  assumes "set_up (ext s)" and "load32 (data + hyperflash_off) (ram s) = 0" and n: "0 < unat n" "unat n \<le> 4096"
    and "unat fa < 2 ^ 24" and apart: "\<And>p. in_blk p l2addr (unat n) \<Longrightarrow> \<not> in_blk p (data + 4096) 1024"
  shows "\<exists>s'. flash_read b data fa l2addr n s = Some s' \<and> set_up (ext s') \<and>
    ram s' = store_bytes l2addr (load_bytes fa (unat n) flash) (store_words (data + 4096) (rom_flash_cmds fa n) (ram s))"
proof -
  let ?ws = "rom_flash_cmds fa n" and ?k = "ucast n :: u16"
  let ?m = "store_words (data + 4096) ?ws (ram s)"
  have k: "n = ucast ?k"
  proof -
    have "unat (take_bit 16 n) = unat n"
      using n(2) by (simp only: unsigned_take_bit_eq) (simp add: take_bit_nat_eq_self)
    then show ?thesis by (intro word_unat_eq_iff [THEN iffD2]) (simp add: unsigned_ucast_eq)
  qed
  have "?k \<noteq> 0"
  proof
    assume "?k = 0"
    then have "n = 0" using k by (simp only: unsigned_0)
    with n(1) show False by simp
  qed
  then have k0: "0 < ?k" by (simp add: word_gt_0)
  have ku: "unat ?k = unat n" using arg_cong [OF k, of unat] unat_ucast_up [of ?k, where 'b = 32] by simp
  have cmds: "spi_out ?ws = read_request fa" "spi_in ?ws = unat n" "length ?ws = 7"
    by (simp_all only: rom_flash_cmds_eq [OF k] spi_out_flash_read [OF k0] spi_in_flash_read [OF k0] ku)
      (simp add: flash_read_cmds_def)
  have held: "load_bytes (data + 4096) (4 * length ?ws) ?m = concat (map bytes32 ?ws)"
    using load_store_bytes [of "concat (map bytes32 ?ws)" "data + 4096" "ram s"]
    by (simp add: store_words_def rom_flash_cmds_def)
  have clear: "\<not> in_blk p (data + 4096) (4 * length ?ws)" if "in_blk p l2addr (unat n)" for p
    using apart [OF that] by (simp add: in_blk_def cmds(3))
  obtain e1 where 1: "start_transfer b l2addr n (data + 4096) 28 (?m, ext s) = (?m, e1)"
      "todo e1 = Some (l2addr, flash_bytes flash fa (unat n))" "cg e1 = cg (ext s)" "evmask e1 = evmask (ext s)"
    using starts [OF _ _ _ held _ cmds(1,2) clear, of "ext s" 28] assms(1) cmds(3) by (auto simp: set_up_def)
  let ?s1 = "s\<lparr>ram := ?m, ext := e1\<rparr>"
  have "plp_udma_enqueue b (UDMA_SPIM_CMD_ADDR 0) (data + 4096) 28 (UDMA_CHANNEL_CFG_EN OR UDMA_CHANNEL_CFG_SIZE_32)
      (plp_udma_enqueue b (UDMA_SPIM_RX_ADDR 0) l2addr n (UDMA_CHANNEL_CFG_EN OR UDMA_CHANNEL_CFG_SIZE_32)
        (s\<lparr>ram := ?m\<rparr>)) = ?s1"
    unfolding enqueue_on_bus on_bus_on_bus start_transfer_def [symmetric] using 1(1) by (simp add: on_bus_def)
  moreover obtain s2 where "wait_soc_event b ?s1 = Some s2" "ram s2 = store_bytes l2addr (flash_bytes flash fa (unat n)) ?m"
      "calm (ext s2)" "cg (ext s2) = cg e1" "evmask (ext s2) = evmask e1"
    using wait_soc_event_returns [of ?s1] 1(2) by auto
  ultimately show ?thesis
    using assms(1,2) 1(3,4) flash_bytes_low [OF assms(5)]
    by (intro exI [of _ s2]) (simp add: flash_read_def Let_def udma_buffer_off_def set_up_def)
qed

lemma reads_image:
  "image_reader (flash_read b :: u32 \<Rightarrow> u32 \<Rightarrow> u32 \<Rightarrow> u32 \<Rightarrow> ('e, 'y) machine_scheme \<Rightarrow> _) flash set_up
    (\<lambda>data m. load32 (data + hyperflash_off) m = 0)"
proof (unfold_locales, goal_cases)
  case (1 data m m')
  then show ?case by (simp add: tail_mode)
next
  case (2 s data n fa l2addr)
  let ?m = "store_words (data + 4096) (rom_flash_cmds fa n) (ram s)"
  obtain s' where s': "flash_read b data fa l2addr n s = Some s'" "set_up (ext s')"
      "ram s' = store_bytes l2addr (load_bytes fa (unat n) flash) ?m"
    using flash_read_returns [OF 2] by blast
  have "ram s' p = store_bytes l2addr (load_bytes fa (unat n) flash) (ram s) p" if "\<not> in_blk p (data + 4096) 1024" for p
  proof -
    have "\<not> in_blk p (data + 4096) 28" using that by (simp add: in_blk_def)
    then have "?m p = ram s p" by (simp add: store_words_def rom_flash_cmds_def store_bytes_apply in_blk_def)
    then show ?thesis using 2(4) by (simp add: s'(3) store_bytes_apply)
  qed
  with s' show ?case by (auto simp: unbuffered_def)
qed

lemma init_sets_up:
  assumes "calm (ext s)"
  shows "set_up (ext (rom_init b data s))" and "ram (rom_init b data s) = store32 (data + step_off) 0 (ram s)"
proof -
  let ?s0 = "set_field (data + step_off) 0 s"
  let ?s1 = "wr b (M32 cg_reg) (fst (rd b (M32 cg_reg) ?s0) OR push_bit spim_cg_bit 1) (snd (rd b (M32 cg_reg) ?s0))"
  have e: "rom_init b data s = wait_clock_ref b 20 (soc_eu_fcEventMask_setEvent b (ARCHI_SOC_EVENT_UART_TX 0)
      (soc_eu_fcEventMask_setEvent b ARCHI_SOC_EVENT_SPIM0_EOT (soc_eu_eventMask_reset b SOC_FC_FIRST_MASK ?s1)))"
    by (simp add: rom_init_def Let_def plp_udma_cg_get_def plp_udma_cg_set_def access_defs cg_reg_def spim_cg_bit_def split_beta)
  have reg: "cg_reg \<noteq> evmask_reg" by (simp add: cg_reg_def evmask_reg_def map_defs soc_eu_defs udma_defs)
  have 1: "calm (ext ?s1)" "ram ?s1 = ram ?s0" "bit (cg (ext ?s1)) spim_cg_bit"
    using assms reg by (simp_all add: wr_calm rd_calm calm_locs bit_simps spim_cg_bit_def udma_defs)
  have evts: "ARCHI_SOC_EVENT_SPIM0_EOT < 32" "ARCHI_SOC_EVENT_UART_TX 0 < 32"
    by (simp_all add: rom_consts udma_defs)
  show "set_up (ext (rom_init b data s))" and "ram (rom_init b data s) = store32 (data + step_off) 0 (ram s)"
    unfolding e using 1 evts
    by (simp_all add: wait_clock_calm set_event_calm mask_reset_calm set_up_def)
      (simp add: rom_consts bit_simps)
qed

lemma rom_areas_place:
  assumes "set_up (ext s)" and "load32 (data + hyperflash_off) (ram s) = 0" and "img_nb flash \<le> 16"
    and "holds_image flash data (ram s)"
    and "\<And>a. a \<in> set (img_areas flash) \<Longrightarrow> area_fits a \<and> clear_of data a" and "i + d = img_nb flash"
  shows "\<exists>s'. rom_areas_loop b data (of_nat i) s = Some (Continue, s') \<and> set_up (ext s') \<and>
    holds_image flash data (ram s') \<and>
    (\<forall>p. \<not> in_blk p data 6440 \<longrightarrow> ram s' p = place flash (drop i (img_areas flash)) (ram s) p)"
  using assms
proof (induction d arbitrary: i s)
  case 0
  have "unat (of_nat i :: u32) = i" using 0 by (simp add: unat_of_nat)
  moreover have "data_header data (ram s) = img_header flash" using 0(4) by (simp add: holds_image_def)
  ultimately have "\<not> of_nat i < hdr_nbAreas (data_header data (ram s))"
    using 0(6) by (simp add: word_less_nat_alt img_nb_def)
  with 0 show ?case
    by (subst rom_areas_loop.simps) (simp add: img_areas_def)
next
  case (Suc d)
  have i: "i < img_nb flash" "unat (of_nat i :: u32) = i" using Suc.prems by (simp_all add: unat_of_nat)
  have a: "area_fits (img_area flash i)" "clear_of data (img_area flash i)"
    using Suc.prems(5) [of "img_area flash i"] i(1) by (auto simp: img_areas_def)
  have less: "of_nat i < hdr_nbAreas (data_header data (ram s))" "\<not> MAX_NB_AREA \<le> of_nat i"
    using Suc.prems(3,4) i by (simp_all add: holds_image_def word_less_nat_alt word_le_nat_alt img_nb_def layout_defs)
  obtain s1 where 1: "rom_load_section b data (data + memArea_off + sizeof_area * of_nat i) s = Some s1"
      "set_up (ext s1)" "load32 (data + hyperflash_off) (ram s1) = 0" "holds_image flash data (ram s1)"
      "\<And>p. \<not> in_blk p data 6440 \<Longrightarrow> place flash (drop (Suc i) (img_areas flash)) (ram s1) p =
         place flash (drop i (img_areas flash)) (ram s) p"
    using image_reader.area_step [OF reads_image Suc.prems(1,2,3,4) a i(1)] unfolding rom_load_section_def by blast
  obtain s2 where 2: "rom_areas_loop b data (of_nat (Suc i)) s1 = Some (Continue, s2)" "set_up (ext s2)"
      "holds_image flash data (ram s2)"
      "\<forall>p. \<not> in_blk p data 6440 \<longrightarrow> ram s2 p = place flash (drop (Suc i) (img_areas flash)) (ram s1) p"
    using Suc.IH [OF 1(2,3) Suc.prems(3) 1(4) Suc.prems(5), of "Suc i"] Suc.prems(6) by auto
  have "rom_areas_loop b data (of_nat i) s = Some (Continue, s2)"
    using less 1(1) 2(1) by (subst rom_areas_loop.simps) (simp add: add.commute [of 1])
  with 1(5) 2(2-4) show ?case by auto
qed

lemma rom_load_and_start:
  assumes "set_up (ext s)" and "load32 (data + hyperflash_off) (ram s) = 0" and "img_nb flash \<le> 16"
    and "data_blockSize data (ram s) = 4096"
    and "\<And>a. a \<in> set (img_areas flash) \<Longrightarrow> area_fits a \<and> clear_of data a"
  shows "\<exists>s'. rom_loadBinaryAndStart b data s = Some (JumpTo (hdr_entry (img_header flash)), s') \<and>
    (\<forall>p. \<not> in_blk p data 6440 \<longrightarrow> ram s' p = place flash (img_areas flash) (ram s) p)"
proof -
  obtain s1 where 1: "rom_getMemAreas b data s = Some s1" "set_up (ext s1)" "load32 (data + hyperflash_off) (ram s1) = 0"
      "holds_image flash data (ram s1)" "\<forall>p. \<not> in_blk p data 6440 \<longrightarrow> ram s1 p = ram s p"
    using image_reader.getMemAreas_image [OF reads_image assms(1,3,4,2)] unfolding rom_getMemAreas_def by blast
  obtain s2 where 2: "rom_areas_loop b data 0 s1 = Some (Continue, s2)" "set_up (ext s2)" "holds_image flash data (ram s2)"
      "\<forall>p. \<not> in_blk p data 6440 \<longrightarrow> ram s2 p = place flash (img_areas flash) (ram s1) p"
    using rom_areas_place [OF 1(2,3) assms(3) 1(4) assms(5), of 0 "img_nb flash"] by auto
  let ?s3 = "deinit b s2"
  have ram3: "ram ?s3 = ram s2" "calm (ext ?s3)" using 2(2) by (simp_all add: deinit_keeps set_up_def)
  let ?s4 = "apb_soc_bootaddr_set b (hdr_bootaddr (data_header data (ram ?s3))) ?s3"
  have "ram ?s4 = ram s2"
    using ram3 by (simp add: apb_soc_bootaddr_set_def access_defs wr_calm calm_locs)
  moreover have "data_header data (ram s2) = img_header flash" using 2(3) by (simp add: holds_image_def)
  ultimately show ?thesis
    using 1(1,5) 2(1,4) place_cong [of "ram s1" _ "ram s"]
    by (intro exI [of _ ?s4]) (simp add: rom_loadBinaryAndStart_def rom_jump_to_entry_def Let_def ram3)
qed

end

section \<open>Properties\<close>

lemma mode_stored: "load32 (data + hyperflash_off) (store32 (data + hyperflash_off) v m) = v"
  by (simp add: mem_simps)

lemma mode_below_blockSize: "load32 (data + hyperflash_off) (store32 (data + blockSize_off) v m) = load32 (data + hyperflash_off) m"
  and mode_below_qpi: "load32 (data + hyperflash_off) (store32 (data + qpi_off) v m) = load32 (data + hyperflash_off) m"
  and mode_above_step: "load32 (data + hyperflash_off) (store32 (data + step_off) v m) = load32 (data + hyperflash_off) m"
  and blockSize_above_step: "data_blockSize data (store32 (data + step_off) v m) = data_blockSize data m"
  using load32_store_offsets [of 6428 6432 "bytes32 v" data m] load32_store_offsets [of 6428 6436 "bytes32 v" data m]
    load32_store_offsets [of 6428 5124 "bytes32 v" data m] load32_store_offsets [of 6432 5124 "bytes32 v" data m]
  by (simp_all add: data_blockSize_def store32_def layout_defs)

text \<open>
  C1. The first bootloader, started with the peripherals at rest, boots from a flash that holds a well
  formed image: it sets up the clock and the event of the SPI channel itself, ends with control at the
  entry point of the image, and every section then stands at its address with the contents it has in
  the flash.
\<close>

theorem rom_boot_from_flash:
  assumes "rom_hw b flash calm cg evmask todo left fin popped" and "calm (ext s)" and "image_wf flash"
  shows "\<exists>s'. rom_bootFromRom b bootCode 0 qpi s = Some (JumpTo (hdr_entry (img_header flash)), s') \<and>
    (\<forall>a \<in> set (img_areas flash).
       load_bytes (area_ptr a) (unat (area_size a)) (ram s') = load_bytes (area_start a) (unat (area_size a)) flash)"
proof -
  let ?up = "rom_hw.set_up calm cg evmask"
  let ?s0 = "set_field (bootCode + qpi_off) qpi (set_field (bootCode + blockSize_off) FLASH_BLOCK_SIZE
    (set_field (bootCode + hyperflash_off) 0 s))"
  let ?s1 = "rom_init b bootCode ?s0"
  have wf: "img_nb flash \<le> 16" "\<And>a. a \<in> set (img_areas flash) \<Longrightarrow> area_fits a"
    using assms(3) by (simp_all add: image_wf_def)
  have 1: "?up (ext ?s1)" "ram ?s1 = store32 (bootCode + step_off) 0 (ram ?s0)"
    using rom_hw.init_sets_up [OF assms(1), of ?s0] assms(2) by simp_all
  have "data_blockSize bootCode (ram ?s1) = 4096" "load32 (bootCode + hyperflash_off) (ram ?s1) = 0"
    unfolding 1(2)
    by (simp_all add: blockSize_above_step mode_above_step mode_below_qpi mode_below_blockSize mode_stored
        blockSize_below_qpi blockSize_stored FLASH_BLOCK_SIZE_def)
  then obtain s2 where 2: "rom_getMemAreas b bootCode ?s1 = Some s2" "?up (ext s2)" "holds_image flash bootCode (ram s2)"
    using image_reader.getMemAreas_image [OF rom_hw.reads_image [OF assms(1)] 1(1) wf(1)] unfolding rom_getMemAreas_def by blast
  obtain nd where nd: "findDataFit (ram s2) bootCode = Some nd" "\<And>a. a \<in> set (img_areas flash) \<Longrightarrow> clear_of nd a"
    using fit_is_clear [OF assms(3) 2(3)] by blast
  let ?s3 = "(set_field (nd + blockSize_off) FLASH_BLOCK_SIZE (set_field (nd + qpi_off) qpi
    (set_field (nd + hyperflash_off) 0 s2)))\<lparr>rom_sp := nd + stack_off + BOOT_STACK_SIZE\<rparr>"
  have "?up (ext ?s3)" "load32 (nd + hyperflash_off) (ram ?s3) = 0" "data_blockSize nd (ram ?s3) = 4096"
    using 2(2) by (simp_all add: blockSize_stored mode_below_blockSize mode_below_qpi mode_stored FLASH_BLOCK_SIZE_def)
  then obtain s' where s': "rom_loadBinaryAndStart b nd ?s3 = Some (JumpTo (hdr_entry (img_header flash)), s')"
      "\<And>p. \<not> in_blk p nd 6440 \<Longrightarrow> ram s' p = place flash (img_areas flash) (ram ?s3) p"
    using rom_hw.rom_load_and_start [OF assms(1) _ _ wf(1), of ?s3 nd] wf(2) nd(2) by blast
  have "rom_bootFromRom b bootCode 0 qpi s = Some (JumpTo (hdr_entry (img_header flash)), s')"
    using 2(1) nd(1) s'(1)
    by (simp add: rom_bootFromRom_def Let_def flash_checkAndConf_def rom_loadBinaryAndStart_newStack_def rom_findDataFit_def)
  with section_loaded [OF assms(3) _ nd(2) s'(2)] show ?thesis by blast
qed

text \<open>A loop without a way out does not return.\<close>

lemma abort_loop_never: "abort_loop b s = None"
proof -
  have "False" if "abort_loop b s = Some r" for r
    by (rule abort_loop.raw_induct [OF _ that, where P = "\<lambda>_ _ _. False"]) blast
  then show ?thesis by (cases "abort_loop b s") blast+
qed

lemma boot_mode: "ARCHI_REG_FIELD_GET (take_bit 4 x) 1 3 = take_bit 3 (drop_bit 1 x)"
  unfolding ARCHI_REG_FIELD_GET_eq by (rule bit_eqI) (auto simp: bit_simps)

lemma boot_modes:
  fixes x :: u32
  assumes "x < 16"
  shows "ARCHI_REG_FIELD_GET x 1 3 = 6 \<longleftrightarrow> x = 12 \<or> x = 13" and "ARCHI_REG_FIELD_GET x 1 3 = 1 \<longleftrightarrow> x = 2 \<or> x = 3"
    and "ARCHI_REG_FIELD_GET x 1 3 = 0 \<longleftrightarrow> x = 0 \<or> x = 1"
proof -
  obtain n where x: "x = of_nat n" "n < 16"
    using assms by (intro that [of "unat x"]) (simp_all add: word_less_nat_alt)
  from less_16_cases [OF x(2)] have "x \<in> {15, 14, 13, 12, 11, 10, 9, 8, 7, 6, 5, 4, 3, 2, 1, 0}"
    unfolding x(1) by auto
  then show "ARCHI_REG_FIELD_GET x 1 3 = 6 \<longleftrightarrow> x = 12 \<or> x = 13" and "ARCHI_REG_FIELD_GET x 1 3 = 1 \<longleftrightarrow> x = 2 \<or> x = 3"
    and "ARCHI_REG_FIELD_GET x 1 3 = 0 \<longleftrightarrow> x = 0 \<or> x = 1"
    by (auto simp: ARCHI_REG_FIELD_GET_def ARCHI_REG_MASK_def)
qed

lemma ext_field: "apb_soc_jtag_reg_ext v = take_bit 4 (drop_bit 8 v)" and ext_field_small: "apb_soc_jtag_reg_ext v < 16"
proof -
  show e: "apb_soc_jtag_reg_ext v = take_bit 4 (drop_bit 8 v)" for v
    by (simp add: apb_soc_jtag_reg_ext_def ARCHI_REG_FIELD_GET_eq apb_soc_defs)
  have "unat (take_bit 4 (drop_bit 8 v)) < 16"
    by (simp only: unsigned_take_bit_eq) (simp add: take_bit_eq_mod)
  then show "apb_soc_jtag_reg_ext v < 16" by (simp add: e word_less_nat_alt)
qed

text \<open>
  C31. For every address and every length that fits the field of the command, the first bootloader
  writes the very command words that the driver of the second one writes with clock divider 0.
\<close>

theorem rom_driver_agrees: "rom_flash_cmds a (ucast (k :: u16)) = flash_read_cmds 0 a k"
  by (rule rom_flash_cmds_eq) (rule refl)

text \<open>
  C12. How the first bootloader boots is decided by bits 8 to 11 of the JTAG register: 12 or 13 is a
  boot from the flash, 2 or 3 one from JTAG, 1 reads the register again; with 0 the selection pin
  decides between giving up and a boot from the flash with the quad mode; for every other value the
  bootloader spins for ever.
\<close>

theorem rom_boot_choice:
  "rom_main b bootCode s =
     (case apb_soc_jtag_reg_read b s of (v, s1) \<Rightarrow>
        let x = take_bit 4 (drop_bit 8 v) in
        if x = 0 then
          (case apb_soc_bootsel_get b ARCHI_APB_SOC_CTRL_ADDR s1 of (sel, s2) \<Rightarrow>
             if sel = 0 then rom_bootFromRom b bootCode 0 1 s2 else None)
        else if x = 1 then rom_main b bootCode s1
        else if x = 2 \<or> x = 3 then bootFromJtag b s1
        else if x = 12 \<or> x = 13 then rom_bootFromRom b bootCode 0 0 s1
        else None)"
proof -
  obtain v s1 where 1: "apb_soc_jtag_reg_read b s = (v, s1)" by fastforce
  let ?x = "apb_soc_jtag_reg_ext v"
  note modes = boot_modes [OF ext_field_small [of v]]
  have w: "APB_SOC_JTAG_REG_EXT_WIDTH - 1 = 3" by (simp add: APB_SOC_JTAG_REG_EXT_WIDTH_def)
  have "rom_main b bootCode s =
      (if ?x \<noteq> 0 then choose_boot_mode b bootCode (ARCHI_REG_FIELD_GET ?x 1 3) (rom_main b bootCode s1) s1
       else case apb_soc_bootsel_get b ARCHI_APB_SOC_CTRL_ADDR s1 of (sel, s2) \<Rightarrow>
         if sel \<noteq> 0 then None else rom_bootFromRom b bootCode 0 1 s2)"
    unfolding rom_main_def
    by (subst bootFromOther.simps) (simp only: 1 w prod.case Let_def boot_abort_def abort_loop_never)
  also have "choose_boot_mode b bootCode (ARCHI_REG_FIELD_GET ?x 1 3) r s1 =
      (if ?x = 12 \<or> ?x = 13 then rom_bootFromRom b bootCode 0 0 s1
       else if ?x = 2 \<or> ?x = 3 then bootFromJtag b s1
       else if ?x = 0 \<or> ?x = 1 then r else None)" for r
    by (simp only: choose_boot_mode_def rom_consts modes spin_def)
  finally show ?thesis
    unfolding 1 prod.case Let_def ext_field [symmetric]
    by (cases "?x = 0"; cases "?x = 1"; cases "?x = 2"; cases "?x = 3") (simp_all split: prod.splits)
qed

text \<open>One round of the JTAG handshake that does not find the flag, and whether a state shows it.\<close>

definition jtag_poll :: "'e pulp_bus \<Rightarrow> ('e, 'z) machine_scheme \<Rightarrow> ('e, 'z) machine_scheme" where
  "jtag_poll b s = wait_clock_ref b 1 (snd (apb_soc_jtag_reg_read b s))"

definition jtag_flag :: "'e pulp_bus \<Rightarrow> ('e, 'z) machine_scheme \<Rightarrow> bool" where
  "jtag_flag b s = bit (fst (apb_soc_jtag_reg_read b s)) 8"

lemma jtag_ext_bit: "apb_soc_jtag_reg_ext v AND 1 = 0 \<longleftrightarrow> \<not> bit v 8"
proof -
  have "x AND 1 = 0 \<longleftrightarrow> \<not> bit x 0" for x :: u32
    by (simp add: and_one_eq bit_0 odd_iff_mod_2_eq_one)
  then show ?thesis by (simp add: ext_field bit_simps)
qed

lemma jtag_loop_unfold:
  "jtag_loop b s = (if jtag_flag b s then Some (JumpTo 0x1c008080, snd (apb_soc_jtag_reg_read b s)) else jtag_loop b (jtag_poll b s))"
  by (subst jtag_loop.simps) (simp add: jtag_flag_def jtag_poll_def split_beta jtag_ext_bit)

lemma jtag_loop_found:
  assumes "jtag_flag b ((jtag_poll b ^^ n) s)" and "\<And>k. k < n \<Longrightarrow> \<not> jtag_flag b ((jtag_poll b ^^ k) s)"
  shows "jtag_loop b s = Some (JumpTo 0x1c008080, snd (apb_soc_jtag_reg_read b ((jtag_poll b ^^ n) s)))"
  using assms
proof (induction n arbitrary: s)
  case 0
  then show ?case by (subst jtag_loop_unfold) simp
next
  case (Suc n)
  from Suc.prems(2) [of 0] have "\<not> jtag_flag b s" by simp
  moreover have "jtag_loop b (jtag_poll b s) = Some (JumpTo 0x1c008080, snd (apb_soc_jtag_reg_read b ((jtag_poll b ^^ n) (jtag_poll b s))))"
  proof (rule Suc.IH)
    show "jtag_flag b ((jtag_poll b ^^ n) (jtag_poll b s))"
      using Suc.prems(1) by (simp add: funpow_swap1)
    show "\<not> jtag_flag b ((jtag_poll b ^^ k) (jtag_poll b s))" if "k < n" for k
      using Suc.prems(2) [of "Suc k"] that by (simp add: funpow_swap1)
  qed
  ultimately show ?case by (subst jtag_loop_unfold) (simp add: funpow_swap1)
qed

lemma jtag_loop_returns:
  assumes "jtag_loop b s = Some r"
  shows "\<exists>n. jtag_flag b ((jtag_poll b ^^ n) s)"
proof (rule jtag_loop.raw_induct [OF _ assms, where P = "\<lambda>b s _. \<exists>n. jtag_flag b ((jtag_poll b ^^ n) s)"])
  fix f :: "'a pulp_bus \<Rightarrow> ('a, 'b) machine_scheme \<Rightarrow> (exit \<times> ('a, 'b) machine_scheme) option" and b s r
  assume IH: "\<And>b s r. f b s = Some r \<Longrightarrow> \<exists>n. jtag_flag b ((jtag_poll b ^^ n) s)"
    and run: "(case apb_soc_jtag_reg_read b s of (value, s) \<Rightarrow>
        if apb_soc_jtag_reg_ext value AND 1 \<noteq> 0 then Some (JumpTo 0x1c008080, s) else f b (wait_clock_ref b 1 s)) = Some r"
  show "\<exists>n. jtag_flag b ((jtag_poll b ^^ n) s)"
  proof (cases "jtag_flag b s")
    case True
    then show ?thesis by (intro exI [of _ 0]) simp
  next
    case False
    then have "f b (jtag_poll b s) = Some r"
      using run by (simp add: jtag_flag_def jtag_poll_def split_beta jtag_ext_bit)
    then obtain n where "jtag_flag b ((jtag_poll b ^^ n) (jtag_poll b s))" using IH by blast
    then show ?thesis by (intro exI [of _ "Suc n"]) (simp add: funpow_swap1)
  qed
qed

text \<open>
  C21. Booting from JTAG writes 1 to the register and then polls it once per tick of the reference
  clock: if the debugger ever sets bit 8, the first poll that shows it ends the boot with control at
  1C008080; if it never does, the bootloader waits for ever.
\<close>

theorem jtag_boot_waits:
  "bootFromJtag b s =
     (let s0 = apb_soc_jtag_reg_write b 1 s;
          flag_at = (\<lambda>n. jtag_flag b ((jtag_poll b ^^ n) s0))
      in if \<exists>n. flag_at n
         then Some (JumpTo 0x1c008080, snd (apb_soc_jtag_reg_read b ((jtag_poll b ^^ (LEAST n. flag_at n)) s0)))
         else None)"
proof -
  let ?s0 = "apb_soc_jtag_reg_write b 1 s"
  let ?P = "\<lambda>n. jtag_flag b ((jtag_poll b ^^ n) ?s0)"
  show ?thesis
  proof (cases "\<exists>n. ?P n")
    case True
    then have "?P (LEAST n. ?P n)" by (rule LeastI_ex)
    moreover have "\<not> ?P k" if "k < (LEAST n. ?P n)" for k using that by (rule not_less_Least)
    ultimately show ?thesis
      using True jtag_loop_found [of b "LEAST n. ?P n" ?s0] by (simp add: bootFromJtag_def Let_def)
  next
    case False
    then have "jtag_loop b ?s0 = None"
      using jtag_loop_returns [of b ?s0] by (cases "jtag_loop b ?s0") auto
    with False show ?thesis by (simp add: bootFromJtag_def Let_def)
  qed
qed

end
