(* ===== verification/Hyper_Boot_Props.thy ===== *)
theory Hyper_Boot_Props
  imports Hyper_Boot Hyper_Props Boot_Rom_Props
begin

text \<open>
  The first bootloader on a chip with a HyperBus channel: what it relies on (\<open>hyper_hw\<close>), that it sets up
  the channel so that a flash address selects the flash, that its routine then meets the contract of
  the image loader, and that without its event unmasked the routine waits for ever.
\<close>

section \<open>What the routines rely on\<close>

text \<open>
  The chip select, as \<^verbatim>\<open>hal_hyper_udma_addr_set\<close> documents it for the eight high bits of the address:
  the second chip, the flash, is selected from its base address on, provided that is above the base
  of the first; the type of the second device is 0, and it is accessed as memory.
\<close>

definition flash_selected :: "(nat \<Rightarrow> u32) \<Rightarrow> u32 \<Rightarrow> bool" where
  "flash_selected c a \<longleftrightarrow> take_bit 8 (c 0) < take_bit 8 (c 4) \<and> take_bit 8 (c 4) \<le> drop_bit 24 a \<and>
     \<not> bit (c 7) HYPER_MEM_CFG7_DT1_OFFSET \<and> \<not> bit (c 7) HYPER_MEM_CFG7_CRT1_OFFSET"

definition cfg_reg :: "hyper_id \<Rightarrow> nat \<Rightarrow> u32" where
  "cfg_reg hid k = HYPER_MEM_CFG0 hid + of_nat (4 * k)"

lemma cfg_regs:
  "HYPER_MEM_CFG0 hid = cfg_reg hid 0" "HYPER_MEM_CFG3 hid = cfg_reg hid 3"
  "HYPER_MEM_CFG4 hid = cfg_reg hid 4" "HYPER_MEM_CFG7 hid = cfg_reg hid 7"
  by (simp_all add: cfg_reg_def hyper_addr_defs)

definition start_hyper :: "'e pulp_bus \<Rightarrow> hyper_id \<Rightarrow> u32 \<Rightarrow> u32 \<Rightarrow> u32 \<Rightarrow> mem \<times> 'e \<Rightarrow> mem \<times> 'e" where
  "start_hyper b hid a l2addr n me =
     enqueue_on_bus b (UDMA_HYPER_RX_ADDR hid 0) l2addr n (UDMA_CHANNEL_CFG_EN OR UDMA_CHANNEL_CFG_SIZE_32)
      (bus_wr b (M32 (HYPER_EXT_ADDR hid)) a me)"

text \<open>The six fields that \<open>hyper_checkAndConf\<close> sets.\<close>

lemma conf_setters:
  "hal_hyper_udma_mbr0_set b hid (ucast REG_MBR0) s =
     field_update b (HYPER_MEM_CFG0 hid) HYPER_MEM_CFG0_MASK HYPER_MEM_CFG0_MBR0_OFFSET 8 0 s"
  "hal_hyper_udma_mbr1_set b hid (ucast (drop_bit 24 REG_MBR1)) s =
     field_update b (HYPER_MEM_CFG4 hid) HYPER_MEM_CFG4_MASK HYPER_MEM_CFG4_MBR1_OFFSET 8 1 s"
  "hal_hyper_udma_dt0_set b hid 1 s = field_update b (HYPER_MEM_CFG3 hid) HYPER_MEM_CFG3_MASK HYPER_MEM_CFG3_DT0_OFFSET 1 1 s"
  "hal_hyper_udma_dt1_set b hid 0 s = field_update b (HYPER_MEM_CFG7 hid) HYPER_MEM_CFG7_MASK HYPER_MEM_CFG7_DT1_OFFSET 1 0 s"
  "hal_hyper_udma_crt1_set b hid (ucast MEM_ACCESS) s =
     field_update b (HYPER_MEM_CFG7 hid) HYPER_MEM_CFG7_MASK HYPER_MEM_CFG7_CRT1_OFFSET 1 0 s"
  "hal_hyper_udma_crt0_set b hid (ucast MEM_ACCESS) s =
     field_update b (HYPER_MEM_CFG3 hid) HYPER_MEM_CFG3_MASK HYPER_MEM_CFG3_CRT0_OFFSET 1 0 s"
proof -
  let ?row = "\<lambda>g reg R off w. ((\<lambda>v. g b hid (ucast (v :: u32))), reg hid, R, off, w) \<in> set (hyper_setters b hid)"
  have rows: "?row hal_hyper_udma_mbr0_set HYPER_MEM_CFG0 HYPER_MEM_CFG0_MASK HYPER_MEM_CFG0_MBR0_OFFSET 8"
    "?row hal_hyper_udma_mbr1_set HYPER_MEM_CFG4 HYPER_MEM_CFG4_MASK HYPER_MEM_CFG4_MBR1_OFFSET 8"
    "?row hal_hyper_udma_dt0_set HYPER_MEM_CFG3 HYPER_MEM_CFG3_MASK HYPER_MEM_CFG3_DT0_OFFSET 1"
    "?row hal_hyper_udma_dt1_set HYPER_MEM_CFG7 HYPER_MEM_CFG7_MASK HYPER_MEM_CFG7_DT1_OFFSET 1"
    "?row hal_hyper_udma_crt1_set HYPER_MEM_CFG7 HYPER_MEM_CFG7_MASK HYPER_MEM_CFG7_CRT1_OFFSET 1"
    "?row hal_hyper_udma_crt0_set HYPER_MEM_CFG3 HYPER_MEM_CFG3_MASK HYPER_MEM_CFG3_CRT0_OFFSET 1"
    unfolding hyper_setters_def by simp_all
  show "hal_hyper_udma_mbr0_set b hid (ucast REG_MBR0) s =
     field_update b (HYPER_MEM_CFG0 hid) HYPER_MEM_CFG0_MASK HYPER_MEM_CFG0_MBR0_OFFSET 8 0 s"
  "hal_hyper_udma_mbr1_set b hid (ucast (drop_bit 24 REG_MBR1)) s =
     field_update b (HYPER_MEM_CFG4 hid) HYPER_MEM_CFG4_MASK HYPER_MEM_CFG4_MBR1_OFFSET 8 1 s"
  "hal_hyper_udma_dt0_set b hid 1 s = field_update b (HYPER_MEM_CFG3 hid) HYPER_MEM_CFG3_MASK HYPER_MEM_CFG3_DT0_OFFSET 1 1 s"
  "hal_hyper_udma_dt1_set b hid 0 s = field_update b (HYPER_MEM_CFG7 hid) HYPER_MEM_CFG7_MASK HYPER_MEM_CFG7_DT1_OFFSET 1 0 s"
  "hal_hyper_udma_crt1_set b hid (ucast MEM_ACCESS) s =
     field_update b (HYPER_MEM_CFG7 hid) HYPER_MEM_CFG7_MASK HYPER_MEM_CFG7_CRT1_OFFSET 1 0 s"
  "hal_hyper_udma_crt0_set b hid (ucast MEM_ACCESS) s =
     field_update b (HYPER_MEM_CFG3 hid) HYPER_MEM_CFG3_MASK HYPER_MEM_CFG3_CRT0_OFFSET 1 0 s"
    using setter_row [OF rows(1), of 0 s] setter_row [OF rows(2), of 1 s] setter_row [OF rows(3), of 1 s]
      setter_row [OF rows(4), of 0 s] setter_row [OF rows(5), of 0 s] setter_row [OF rows(6), of 0 s]
    by (simp_all add: REG_MBR0_def REG_MBR1_def MEM_ACCESS_def)
qed

text \<open>
  The states are classified by the contents \<open>c\<close> of the eight configuration registers, which nothing but
  the code changes; for every contents the platform waits for events as the first bootloader expects
  (\<open>soc_events\<close>). A read is started by enabling the receive channel with its clock on and the flash
  selected, and signals its end unless its event is masked: then (\<open>stuck\<close>) no event is ever pending.
\<close>

locale hyper_hw =
  fixes b :: "'e pulp_bus"
    and hid :: hyper_id
    and flash :: mem
    and calm :: "(nat \<Rightarrow> u32) \<Rightarrow> 'e \<Rightarrow> bool"
    and cg evmask :: "'e \<Rightarrow> u32"
    and todo :: "(nat \<Rightarrow> u32) \<Rightarrow> 'e \<Rightarrow> (u32 \<times> u8 list) option"
    and left :: "'e \<Rightarrow> nat"
    and fin popped :: "(nat \<Rightarrow> u32) \<Rightarrow> 'e \<Rightarrow> bool"
    and stuck :: "'e \<Rightarrow> bool"
  assumes events: "soc_events b (calm c) cg evmask (todo c) left (fin c) (popped c)"
    and hid_small: "unat (hid 0) < 8"
    and cfg_rd: "calm c e \<Longrightarrow> k < 8 \<Longrightarrow>
      \<exists>e'. bus_rd b (M32 (cfg_reg hid k)) (m, e) = (c k, m, e') \<and> calm c e' \<and> cg e' = cg e \<and> evmask e' = evmask e"
    and cfg_wr: "calm c e \<Longrightarrow> k < 8 \<Longrightarrow>
      \<exists>e'. bus_wr b (M32 (cfg_reg hid k)) v (m, e) = (m, e') \<and> calm (c(k := v)) e' \<and> cg e' = cg e \<and> evmask e' = evmask e"
    and starts: "calm c e \<Longrightarrow> bit (cg e) (unat (hid 0)) \<Longrightarrow> \<not> bit (evmask e) (ARCHI_SOC_EVENT_HYPER_RX hid 0) \<Longrightarrow>
      flash_selected c a \<Longrightarrow>
      \<exists>e'. start_hyper b hid a l2addr n (m, e) = (m, e') \<and> todo c e' = Some (l2addr, flash_bytes flash a (unat n)) \<and>
        cg e' = cg e \<and> evmask e' = evmask e"
    and masked: "calm c e \<Longrightarrow> bit (evmask e) (ARCHI_SOC_EVENT_HYPER_RX hid 0) \<Longrightarrow>
      stuck (snd (start_hyper b hid a l2addr n (m, e)))"
    and stuck_rd: "stuck e \<Longrightarrow> bus_rd b (M32 (ARCHI_FC_ITC_ADDR + ITC_STATUS_OFFSET)) (m, e) = (v, m', e') \<Longrightarrow>
      stuck e' \<and> \<not> bit v ARCHI_FC_EVT_SOC_EVT"
    and stuck_wr: "stuck e \<Longrightarrow> loc = Wfi \<or> loc = M32 (ARCHI_FC_ITC_ADDR + ITC_MASK_SET_OFFSET) \<Longrightarrow>
      stuck (snd (bus_wr b loc v (m, e)))"
begin

text \<open>Setting up.\<close>

definition flash_chip :: "(nat \<Rightarrow> u32) \<Rightarrow> bool" where
  "flash_chip c \<longleftrightarrow> take_bit 8 (c 0) = 0 \<and> take_bit 8 (c 4) = 1 \<and>
     \<not> bit (c 7) HYPER_MEM_CFG7_DT1_OFFSET \<and> \<not> bit (c 7) HYPER_MEM_CFG7_CRT1_OFFSET"

definition set_up :: "'e \<Rightarrow> bool" where
  "set_up e \<longleftrightarrow> (\<exists>c. calm c e \<and> flash_chip c) \<and> bit (cg e) (unat (hid 0)) \<and> \<not> bit (evmask e) (ARCHI_SOC_EVENT_HYPER_RX hid 0)"

lemma field_update_calm:
  assumes "calm c (ext s)" and "k < 8"
  shows "ram (field_update b (cfg_reg hid k) R off w v s) = ram s"
    and "calm (c(k := BITINSERT (c k AND R) v w off)) (ext (field_update b (cfg_reg hid k) R off w v s))"
    and "cg (ext (field_update b (cfg_reg hid k) R off w v s)) = cg (ext s)"
    and "evmask (ext (field_update b (cfg_reg hid k) R off w v s)) = evmask (ext s)"
proof -
  obtain e1 where 1: "bus_rd b (M32 (cfg_reg hid k)) (ram s, ext s) = (c k, ram s, e1)" "calm c e1"
      "cg e1 = cg (ext s)" "evmask e1 = evmask (ext s)"
    using cfg_rd [OF assms] by blast
  obtain e2 where 2: "bus_wr b (M32 (cfg_reg hid k)) (BITINSERT (c k AND R) v w off) (ram s, e1) = (ram s, e2)"
      "calm (c(k := BITINSERT (c k AND R) v w off)) e2" "cg e2 = cg e1" "evmask e2 = evmask e1"
    using cfg_wr [OF 1(2) assms(2)] by blast
  from 1 2 show "ram (field_update b (cfg_reg hid k) R off w v s) = ram s"
    and "calm (c(k := BITINSERT (c k AND R) v w off)) (ext (field_update b (cfg_reg hid k) R off w v s))"
    and "cg (ext (field_update b (cfg_reg hid k) R off w v s)) = cg (ext s)"
    and "evmask (ext (field_update b (cfg_reg hid k) R off w v s)) = evmask (ext s)"
    by (simp_all add: field_update_def access_defs rd_def wr_def)
qed

lemma conf_chip:
  assumes "c' 0 = BITINSERT x0 0 8 HYPER_MEM_CFG0_MBR0_OFFSET" and "c' 4 = BITINSERT x4 1 8 HYPER_MEM_CFG4_MBR1_OFFSET"
    and "c' 7 = BITINSERT (BITINSERT x7 0 1 HYPER_MEM_CFG7_DT1_OFFSET AND R) 0 1 HYPER_MEM_CFG7_CRT1_OFFSET"
  shows "flash_chip c'"
proof -
  have "take_bit 8 (drop_bit 0 (BITINSERT x v 8 0)) = take_bit 8 v" for x v
    using reg_field.get_put [OF emu_field, of 0 8 x v] reg_field.get_eq [OF emu_field, of 0 8] by simp
  then show ?thesis
    unfolding flash_chip_def assms hyper_off_defs
    by (simp add: reg_field.put_bit [OF emu_field] bit_and_iff)
qed

lemma conf_sets_up:
  assumes "calm c (ext s)" and "load32 (data + hyperflash_off) (ram s) \<noteq> 0" and "s' = hyper_checkAndConf b hid uid data s"
  shows "ram s' = ram s" and "\<exists>c'. calm c' (ext s') \<and> flash_chip c'" and "unat (uid 0) < 32 \<Longrightarrow> bit (cg (ext s')) (unat (uid 0))"
    and "evmask (ext s') = evmask (ext s)"
proof -
  note soc = soc_events.wr_calm [OF events [of c]] soc_events.rd_calm [OF events [of c]] soc_events.calm_locs [OF events [of c]]
  let ?s1 = "wr b (M32 cg_reg) (fst (rd b (M32 cg_reg) s) OR push_bit (unat (uid 0)) 1) (snd (rd b (M32 cg_reg) s))"
  have regs: "cg_reg \<noteq> evmask_reg" by (simp add: cg_reg_def evmask_reg_def map_defs soc_eu_defs udma_defs)
  have 1: "calm c (ext ?s1)" "ram ?s1 = ram s" "evmask (ext ?s1) = evmask (ext s)"
      "cg (ext ?s1) = (cg (ext s) OR push_bit (unat (uid 0)) 1)"
    using assms(1) regs by (simp_all add: soc)
  note 2 = field_update_calm [OF 1(1), where k = 0 and R = HYPER_MEM_CFG0_MASK and off = HYPER_MEM_CFG0_MBR0_OFFSET and w = 8 and v = 0, simplified]
  note 3 = field_update_calm [OF 2(2), where k = 4 and R = HYPER_MEM_CFG4_MASK and off = HYPER_MEM_CFG4_MBR1_OFFSET and w = 8 and v = 1, simplified]
  note 4 = field_update_calm [OF 3(2), where k = 3 and R = HYPER_MEM_CFG3_MASK and off = HYPER_MEM_CFG3_DT0_OFFSET and w = 1 and v = 1, simplified]
  note 5 = field_update_calm [OF 4(2), where k = 7 and R = HYPER_MEM_CFG7_MASK and off = HYPER_MEM_CFG7_DT1_OFFSET and w = 1 and v = 0, simplified]
  note 6 = field_update_calm [OF 5(2), where k = 7 and R = HYPER_MEM_CFG7_MASK and off = HYPER_MEM_CFG7_CRT1_OFFSET and w = 1 and v = 0, simplified]
  note 7 = field_update_calm [OF 6(2), where k = 3 and R = HYPER_MEM_CFG3_MASK and off = HYPER_MEM_CFG3_CRT0_OFFSET and w = 1 and v = 0, simplified]
  have s': "s' = field_update b (cfg_reg hid 3) HYPER_MEM_CFG3_MASK HYPER_MEM_CFG3_CRT0_OFFSET 1 0
     (field_update b (cfg_reg hid 7) HYPER_MEM_CFG7_MASK HYPER_MEM_CFG7_CRT1_OFFSET 1 0
     (field_update b (cfg_reg hid 7) HYPER_MEM_CFG7_MASK HYPER_MEM_CFG7_DT1_OFFSET 1 0
     (field_update b (cfg_reg hid 3) HYPER_MEM_CFG3_MASK HYPER_MEM_CFG3_DT0_OFFSET 1 1
     (field_update b (cfg_reg hid 4) HYPER_MEM_CFG4_MASK HYPER_MEM_CFG4_MBR1_OFFSET 8 1
     (field_update b (cfg_reg hid 0) HYPER_MEM_CFG0_MASK HYPER_MEM_CFG0_MBR0_OFFSET 8 0 ?s1)))))"
    using assms(2)
    by (simp add: assms(3) hyper_checkAndConf_def conf_setters cfg_regs plp_udma_cg_get_def plp_udma_cg_set_def
        access_defs cg_reg_def split_beta Let_def)
  show "ram s' = ram s" and "evmask (ext s') = evmask (ext s)" unfolding s' using 1 2 3 4 5 6 7 by simp_all
  show "bit (cg (ext s')) (unat (uid 0))" if "unat (uid 0) < 32"
    unfolding s' using 1 2 3 4 5 6 7 that by (simp add: bit_simps)
  let ?c = "c(0 := BITINSERT (c 0 AND HYPER_MEM_CFG0_MASK) 0 8 HYPER_MEM_CFG0_MBR0_OFFSET,
      4 := BITINSERT (c 4 AND HYPER_MEM_CFG4_MASK) 1 8 HYPER_MEM_CFG4_MBR1_OFFSET,
      7 := BITINSERT (BITINSERT (c 7 AND HYPER_MEM_CFG7_MASK) 0 1 HYPER_MEM_CFG7_DT1_OFFSET AND HYPER_MEM_CFG7_MASK) 0 1
        HYPER_MEM_CFG7_CRT1_OFFSET,
      3 := BITINSERT (BITINSERT (c 3 AND HYPER_MEM_CFG3_MASK) 1 1 HYPER_MEM_CFG3_DT0_OFFSET AND HYPER_MEM_CFG3_MASK) 0 1
        HYPER_MEM_CFG3_CRT0_OFFSET)"
  have "calm ?c (ext s')" unfolding s' using 7(2) by simp
  moreover have "flash_chip ?c" by (rule conf_chip) simp_all
  ultimately show "\<exists>c'. calm c' (ext s') \<and> flash_chip c'" by blast
qed

lemma hyper_events:
  "ARCHI_SOC_EVENT_HYPER_RX hid 0 = 4 * unat (hid 0)" "ARCHI_SOC_EVENT_HYPER_TX hid 0 = 4 * unat (hid 0) + 1"
  "ARCHI_SOC_EVENT_UART_TX 0 = 1"
  by (simp_all add: ARCHI_SOC_EVENT_HYPER_RX_def ARCHI_SOC_EVENT_HYPER_TX_def ARCHI_UDMA_HYPER_RX_EVT_def
      ARCHI_UDMA_HYPER_TX_EVT_def rom_consts udma_defs)

lemma other_masked:
  assumes "n < 32" and "n \<noteq> p" and "n \<noteq> q"
  shows "bit (0xffffffff AND NOT (push_bit p 1) AND NOT (push_bit q 1) :: u32) n"
proof -
  have "(0xffffffff :: u32) = - 1" by simp
  then show ?thesis using assms by (simp only:) (simp add: bit_simps)
qed

lemma init_unmasks:
  assumes "calm c (ext s)" and "s' = hyper_init b hid archi_has data s"
  shows "ram s' = store32 (data + step_off) 0 (ram s)" and "calm c (ext s')"
    and "bit (evmask (ext s')) (ARCHI_SOC_EVENT_HYPER_RX hid 0) \<longleftrightarrow> \<not> archi_has"
proof -
  note soc = soc_events.wr_calm [OF events [of c]] soc_events.rd_calm [OF events [of c]] soc_events.calm_locs [OF events [of c]]
    soc_events.wait_clock_calm [OF events [of c]] soc_events.set_event_calm [OF events [of c]] soc_events.mask_reset_calm [OF events [of c]]
  let ?s0 = "set_field (data + step_off) 0 s"
  let ?s1 = "wr b (M32 cg_reg) (fst (rd b (M32 cg_reg) ?s0) OR push_bit spim_cg_bit 1) (snd (rd b (M32 cg_reg) ?s0))"
  let ?s2 = "soc_eu_fcEventMask_setEvent b (ARCHI_SOC_EVENT_UART_TX 0)
      (soc_eu_fcEventMask_setEvent b ARCHI_SOC_EVENT_SPIM0_EOT (soc_eu_eventMask_reset b SOC_FC_FIRST_MASK ?s1))"
  let ?s3 = "if archi_has then soc_eu_fcEventMask_setEvent b (ARCHI_SOC_EVENT_HYPER_TX hid 0)
      (soc_eu_fcEventMask_setEvent b (ARCHI_SOC_EVENT_HYPER_RX hid 0) ?s2) else ?s2"
  have s': "s' = wait_clock_ref b 20 ?s3"
    by (simp add: assms(2) hyper_init_def Let_def plp_udma_cg_get_def plp_udma_cg_set_def access_defs cg_reg_def spim_cg_bit_def split_beta)
  have 1: "calm c (ext ?s1)" "ram ?s1 = ram ?s0" using assms(1) by (simp_all add: soc)
  have evts: "ARCHI_SOC_EVENT_SPIM0_EOT < 32" "ARCHI_SOC_EVENT_UART_TX 0 < 32" "4 * unat (hid 0) < 32" "4 * unat (hid 0) + 1 < 32"
    using hid_small by (simp_all add: hyper_events ARCHI_SOC_EVENT_SPIM0_EOT_def)
  have 2: "calm c (ext ?s2)" "ram ?s2 = ram ?s0"
      "evmask (ext ?s2) = 0xffffffff AND NOT (push_bit ARCHI_SOC_EVENT_SPIM0_EOT 1) AND NOT (push_bit (ARCHI_SOC_EVENT_UART_TX 0) 1)"
    using 1 evts by (simp_all add: soc and.assoc)
  have 3: "calm c (ext ?s3)" "ram ?s3 = ram ?s0"
      "evmask (ext ?s3) = (if archi_has then evmask (ext ?s2) AND NOT (push_bit (4 * unat (hid 0)) 1) AND NOT (push_bit (4 * unat (hid 0) + 1) 1)
         else evmask (ext ?s2))"
    using 2(1,2) evts by (simp_all add: soc hyper_events and.assoc)
  have "4 * unat (hid 0) \<noteq> 1" "4 * unat (hid 0) \<noteq> 7" by presburger+
  then have "bit (evmask (ext ?s2)) (4 * unat (hid 0))"
    unfolding 2(3) using evts by (intro other_masked) (simp_all add: hyper_events ARCHI_SOC_EVENT_SPIM0_EOT_def)
  then have "bit (evmask (ext ?s3)) (4 * unat (hid 0)) \<longleftrightarrow> \<not> archi_has"
    unfolding 3(3) using evts by (simp add: bit_simps)
  with 3(1,2) show "ram s' = store32 (data + step_off) 0 (ram s)" and "calm c (ext s')"
    and "bit (evmask (ext s')) (ARCHI_SOC_EVENT_HYPER_RX hid 0) \<longleftrightarrow> \<not> archi_has"
    unfolding s' by (simp_all add: soc hyper_events)
qed

text \<open>Reading.\<close>

lemma start_hyper_eq:
  "plp_udma_enqueue b (UDMA_HYPER_RX_ADDR hid 0) l2addr n (UDMA_CHANNEL_CFG_EN OR UDMA_CHANNEL_CFG_SIZE_32)
     (hal_hyper_flash_ext_addr_set b hid fa s) = on_bus (start_hyper b hid (REG_MBR1 OR fa) l2addr n) s"
  by (simp add: enqueue_on_bus hyper_addr_setters access_defs wr_on_bus on_bus_on_bus start_hyper_def [abs_def] HYPER_EXT_ADDR_def)

lemma selects:
  assumes "flash_chip c" and "unat fa < 2 ^ 24"
  shows "flash_selected c (REG_MBR1 OR fa)" and "flash_bytes flash (REG_MBR1 OR fa) n = load_bytes fa n flash"
proof -
  have "drop_bit 24 fa = 0"
    using low_bits [OF assms(2)] by (intro bit_word_eqI) (auto simp: bit_simps)
  then have "drop_bit 24 (REG_MBR1 OR fa) = 1" by (simp add: REG_MBR1_def)
  then show "flash_selected c (REG_MBR1 OR fa)" using assms(1) by (simp add: flash_selected_def flash_chip_def)
  have "(REG_MBR1 OR fa) AND 0xFFFFFF = fa AND 0xFFFFFF"
    by (simp add: REG_MBR1_def bit.conj_disj_distrib2)
  then show "flash_bytes flash (REG_MBR1 OR fa) n = load_bytes fa n flash"
    using flash_bytes_low [OF assms(2), of flash n] by (simp add: flash_bytes_def)
qed

lemma hyper_read_returns:
  assumes "set_up (ext s)" and "load32 (data + hyperflash_off) (ram s) \<noteq> 0" and "unat fa < 2 ^ 24"
  shows "\<exists>s'. hyper_flash_read b hid data fa l2addr n s = Some s' \<and> set_up (ext s') \<and>
    ram s' = store_bytes l2addr (load_bytes fa (unat n) flash) (ram s)"
proof -
  obtain c where c: "calm c (ext s)" "flash_chip c" and up: "bit (cg (ext s)) (unat (hid 0))"
      "\<not> bit (evmask (ext s)) (ARCHI_SOC_EVENT_HYPER_RX hid 0)"
    using assms(1) by (auto simp: set_up_def)
  obtain e1 where 1: "start_hyper b hid (REG_MBR1 OR fa) l2addr n (ram s, ext s) = (ram s, e1)"
      "todo c e1 = Some (l2addr, load_bytes fa (unat n) flash)" "cg e1 = cg (ext s)" "evmask e1 = evmask (ext s)"
    using starts [OF c(1) up selects(1) [OF c(2) assms(3)]] selects(2) [OF c(2) assms(3)] by metis
  obtain s2 where "wait_soc_event b (s\<lparr>ram := ram s, ext := e1\<rparr>) = Some s2" "ram s2 = store_bytes l2addr (load_bytes fa (unat n) flash) (ram s)"
      "calm c (ext s2)" "cg (ext s2) = cg e1" "evmask (ext s2) = evmask e1"
    using soc_events.wait_soc_event_returns [OF events [of c], of "s\<lparr>ram := ram s, ext := e1\<rparr>"] 1(2) by auto
  with 1 c(2) up assms(2) show ?thesis
    by (intro exI [of _ s2]) (auto simp: hyper_flash_read_def Let_def start_hyper_eq on_bus_def set_up_def)
qed

lemma reads_image:
  "image_reader (hyper_flash_read b hid :: u32 \<Rightarrow> u32 \<Rightarrow> u32 \<Rightarrow> u32 \<Rightarrow> ('e, 'y) machine_scheme \<Rightarrow> _) flash set_up
    (\<lambda>data m. load32 (data + hyperflash_off) m \<noteq> 0)"
proof (unfold_locales, goal_cases)
  case (1 data m m')
  then show ?case by (simp add: tail_mode)
next
  case (2 s data n fa l2addr)
  obtain s' where "hyper_flash_read b hid data fa l2addr n s = Some s'" "set_up (ext s')"
      "ram s' = store_bytes l2addr (load_bytes fa (unat n) flash) (ram s)"
    using hyper_read_returns [OF 2(1,2,5)] by blast
  then show ?case by simp
qed

text \<open>Waiting for an event that is masked.\<close>

lemma event_loop_stuck:
  assumes "stuck (ext s)"
  shows "soc_event_loop b s = None"
proof (rule ccontr)
  assume "soc_event_loop b s \<noteq> None"
  then obtain s' where loops: "soc_event_loop b s = Some s'" by blast
  have "b = b \<longrightarrow> stuck (ext s) \<longrightarrow> False"
  proof (rule soc_event_loop.raw_induct [OF _ loops, where P = "\<lambda>b' s s'. b' = b \<longrightarrow> stuck (ext s) \<longrightarrow> False"], goal_cases)
    case (1 loop b' s s')
    show ?case
    proof (intro impI)
      assume b: "b' = b" and st: "stuck (ext s)"
      obtain v m1 e1 where r: "bus_rd b (M32 (ARCHI_FC_ITC_ADDR + ITC_STATUS_OFFSET)) (ram s, ext s) = (v, m1, e1)"
        by (metis surj_pair)
      have e1: "stuck e1" "\<not> bit v ARCHI_FC_EVT_SOC_EVT" using stuck_rd [OF st r] by simp_all
      have "drop_bit ARCHI_FC_EVT_SOC_EVT v AND 1 = 0"
        using e1(2) by (simp add: bit_iff_odd_drop_bit and_one_eq odd_iff_mod_2_eq_one)
      then have "loop b (hal_itc_wait_for_interrupt b (s\<lparr>ram := m1, ext := e1\<rparr>)) = Some s'"
        using 1(2) r by (simp add: b hal_itc_status_value_get_def access_defs rd_def)
      moreover have "stuck (ext (hal_itc_wait_for_interrupt b (s\<lparr>ram := m1, ext := e1\<rparr>)))"
        using stuck_wr [OF e1(1), of Wfi 0 m1] by (simp add: hal_itc_wait_for_interrupt_def wr_def split_beta)
      ultimately show False using 1(1) by blast
    qed
  qed
  with assms show False by blast
qed

lemma hyper_read_stuck:
  assumes "calm c (ext s)" and "bit (evmask (ext s)) (ARCHI_SOC_EVENT_HYPER_RX hid 0)"
    and "load32 (data + hyperflash_off) (ram s) \<noteq> 0"
  shows "hyper_flash_read b hid data fa l2addr n s = None"
proof -
  let ?s1 = "on_bus (start_hyper b hid (REG_MBR1 OR fa) l2addr n) s"
  have "stuck (ext ?s1)" using masked [OF assms(1,2)] by (simp add: on_bus_def split_beta)
  then have "stuck (ext (hal_itc_enable_set b v ?s1))" for v
    using stuck_wr [of "ext ?s1" "M32 (ARCHI_FC_ITC_ADDR + ITC_MASK_SET_OFFSET)" v "ram ?s1"]
    by (simp add: hal_itc_enable_set_def access_defs wr_def split_beta)
  then show ?thesis
    using assms(3) by (simp add: hyper_flash_read_def Let_def start_hyper_eq wait_soc_event_def event_loop_stuck)
qed

end

section \<open>Properties\<close>

text \<open>The record of the areas lies beyond the step counter.\<close>

lemma area_above_step:
  assumes "i < 16"
  shows "data_area data (of_nat i) (store32 (data + step_off) v m) = data_area data (of_nat i) m"
  using assms area_elsewhere [of "5144 + 16 * i" 5124 "bytes32 v" data m]
  by (simp add: data_area_alt store32_def layout_defs del: of_nat_add of_nat_mult)

text \<open>
  A section of 1001 bytes in two blocks: the first transfer takes 1004 bytes, and for the second, when nothing is
  left, the remaining size has wrapped around to FFFFFFFD and a full block is transferred.
\<close>

lemma hyper_block_too_many:
  "iter_size HYPER_FLASH_BLOCK_SIZE 1001 = 1004"
  "iter_size HYPER_FLASH_BLOCK_SIZE (1001 - 1004) = HYPER_FLASH_BLOCK_SIZE"
  by (simp_all add: iter_size_def HYPER_FLASH_BLOCK_SIZE_def)

text \<open>
  C25. With the HyperBus channel, after the initialisation and the configuration of the channel, the
  loader copies a section from the HyperFlash and returns, provided that the section has at least one block of
  1024 bytes and none that it does not need (all its blocks but the last are smaller than its size), lies in the
  first 16 MB of the flash, and has its place clear of the working structure. It transfers as many blocks
  as the section has, or the section rounded up to whole words if that is less: exactly these bytes change
  to the contents of the flash, and nothing else outside the working structure. So a section that
  counts its blocks by 4096 bytes, as for the SPI flash, is cut off at a quarter of its blocks. (With a block
  too many the remaining size of a section that is not a whole number of words wraps around, and a full
  block more is copied; see \<open>hyper_block_too_many\<close>.)
\<close>

theorem hyper_loads_section:
  assumes "hyper_hw b hid flash calm cg evmask todo left fin popped stuck" and "calm c (ext s)" and "uid 0 = hid 0"
    and "load32 (data + hyperflash_off) (ram s) \<noteq> 0" and "data_blockSize data (ram s) = HYPER_FLASH_BLOCK_SIZE"
    and "i < 16" and "data_area data (of_nat i) (ram s) = a" and "area_blocks a \<noteq> 0"
    and "(unat (area_blocks a) - 1) * 1024 < unat (area_size a)"
    and "R = min (unat (area_blocks a) * 1024) (rup (unat (area_size a)))" and "unat (area_start a) + R \<le> 2 ^ 24"
    and "\<And>p. in_blk p (area_ptr a) R \<Longrightarrow> \<not> in_blk p data 6440"
  shows "\<exists>s'. load_section (hyper_flash_read b hid) data (data + memArea_off + sizeof_area * of_nat i)
      (hyper_checkAndConf b hid uid data (hyper_init b hid True data s)) = Some s' \<and>
    (\<forall>p. \<not> in_blk p data 6440 \<longrightarrow>
       ram s' p = (if in_blk p (area_ptr a) R then flash (area_start a + (p - area_ptr a)) else ram s p))"
proof -
  let ?s1 = "hyper_init b hid True data s"
  let ?s2 = "hyper_checkAndConf b hid uid data ?s1"
  note 1 = hyper_hw.init_unmasks [OF assms(1,2) refl, of True data]
  have mode: "load32 (data + hyperflash_off) (ram ?s1) \<noteq> 0" using assms(4) by (simp add: 1(1) mode_above_step)
  note 2 = hyper_hw.conf_sets_up [OF assms(1) 1(2) mode refl, of uid]
  have "unat (uid 0) < 32" using hyper_hw.hid_small [OF assms(1)] assms(3) by simp
  then have up: "hyper_hw.set_up hid calm cg evmask (ext ?s2)"
    using 1(3) 2(2-4) assms(3) by (simp add: hyper_hw.set_up_def [OF assms(1)])
  have at: "area_at (data + of_nat (5144 + 16 * i)) (ram ?s2) = a" and bs: "data_blockSize data (ram ?s2) = 1024"
    using assms(5-7) unfolding 2(1) 1(1) data_area_alt [symmetric]
    by (simp_all add: area_above_step blockSize_above_step HYPER_FLASH_BLOCK_SIZE_def)
  have mode2: "load32 (data + hyperflash_off) (ram ?s2) \<noteq> 0" using mode by (simp add: 2(1))
  obtain s' where s': "load_section (hyper_flash_read b hid) data (data + of_nat (5144 + 16 * i)) ?s2 = Some s'"
      "loads flash data (area_ptr a) (area_start a) R (ram ?s2) (ram s')"
    using image_reader.load_blocks [OF hyper_hw.reads_image [OF assms(1)] up bs _ _ _ _ _ at _ assms(11,12) mode2] assms(6,8-10)
    by auto
  have ad: "data + memArea_off + sizeof_area * of_nat i = data + of_nat (5144 + 16 * i)"
    by (simp add: layout_defs add.assoc)
  have "ram ?s2 p = ram s p" if "\<not> in_blk p data 6440" for p
    using that in_blk_split [of 5124 6440 p data] by (simp add: 2(1) 1(1) store32_def store_bytes_apply in_blk_def layout_defs)
  with s' show ?thesis unfolding ad by (auto simp: loads_def)
qed

text \<open>
  C27. The event of the HyperBus channel is unmasked under \<^verbatim>\<open>ARCHI_UDMA_HAS_HYPER\<close> only, while its reads are
  compiled under \<^verbatim>\<open>PLP_UDMA_HAS_HYPER\<close>: with the second name and without the first, the first read of the
  HyperFlash never returns.
\<close>

theorem hyper_masked_event_hangs:
  assumes "hyper_hw b hid flash calm cg evmask todo left fin popped stuck" and "calm c (ext s)"
    and "load32 (data + hyperflash_off) (ram s) \<noteq> 0"
  shows "hyper_flash_read b hid data fa l2addr n (hyper_checkAndConf b hid uid data (hyper_init b hid False data s)) = None"
proof -
  let ?s1 = "hyper_init b hid False data s"
  note 1 = hyper_hw.init_unmasks [OF assms(1,2) refl, of False data]
  have mode: "load32 (data + hyperflash_off) (ram ?s1) \<noteq> 0" using assms(3) by (simp add: 1(1) mode_above_step)
  note 2 = hyper_hw.conf_sets_up [OF assms(1) 1(2) mode refl, of uid]
  from 2(2) obtain c' where "calm c' (ext (hyper_checkAndConf b hid uid data ?s1))" by blast
  then show ?thesis by (rule hyper_hw.hyper_read_stuck [OF assms(1)]) (use 1(3) 2(1,4) mode in simp_all)
qed

end
