(* ===== verification/Rom_Device.thy ===== *)
theory Rom_Device
  imports Boot_Rom_Props Devices
begin

text \<open>
  A reference device that meets the contract of the first bootloader's flash routine, and the
  properties of that bootloader on it. A transfer fetches its command words from memory when the
  command channel is enabled, provided the clock of the channel is on and its event is not masked,
  and is over once the core has slept twice.
\<close>

record rom_dev =
  d_flash :: mem
  d_cg :: u32
  d_mask :: u32
  d_rxs :: u32
  d_rxn :: u32
  d_cmds :: u32
  d_cmdn :: u32
  d_todo :: "(u32 \<times> u8 list) option"
  d_left :: nat
  d_fin :: bool
  d_popped :: bool
  d_jtag :: u32
  d_sel :: u32

fun load_words :: "u32 \<Rightarrow> nat \<Rightarrow> mem \<Rightarrow> u32 list" where
  "load_words a 0 m = []"
| "load_words a (Suc n) m = load32 a m # load_words (a + 4) n m"

lemma load_words_held:
  "load_bytes a (4 * length ws) m = concat (map bytes32 ws) \<Longrightarrow> load_words a (length ws) m = ws"
proof (induction ws arbitrary: a)
  case (Cons w ws)
  have "load_bytes a (4 * length (w # ws)) m = load_bytes a 4 m @ load_bytes (a + 4) (4 * length ws) m"
    by (simp add: eval_nat_numeral add.assoc)
  with Cons.prems have "load_bytes a 4 m = bytes32 w" "load_bytes (a + 4) (4 * length ws) m = concat (map bytes32 ws)"
    by simp_all
  with Cons.IH show ?case by (simp add: load32_def)
qed simp

definition dev_start :: "mem \<Rightarrow> rom_dev \<Rightarrow> rom_dev" where
  "dev_start m d =
     (let ws = load_words (d_cmds d) (unat (d_cmdn d) div 4) m in
      if bit (d_cg d) spim_cg_bit \<and> \<not> bit (d_mask d) ARCHI_SOC_EVENT_SPIM0_EOT \<and> spi_in ws = unat (d_rxn d)
      then d\<lparr>d_left := 2, d_todo := Some (d_rxs d, flash_bytes (d_flash d) (sent_addr (spi_out ws)) (spi_in ws))\<rparr>
      else d)"

definition dev_status :: "mem \<times> rom_dev \<Rightarrow> u32 \<times> mem \<times> rom_dev" where
  "dev_status me = (case me of (m, d) \<Rightarrow>
     case d_todo d of
       Some (l, ds) \<Rightarrow> if d_left d = 0 then (0x4000000, store_bytes l ds m, d\<lparr>d_todo := None, d_fin := True\<rparr>) else (0, m, d)
     | None \<Rightarrow> (if d_fin d then 0x4000000 else 0, m, d))"

definition dev_rd :: "pulp_loc \<Rightarrow> mem \<times> rom_dev \<Rightarrow> u32 \<times> mem \<times> rom_dev" where
  "dev_rd loc me = (case me of (m, d) \<Rightarrow>
     if loc = M32 cg_reg then (d_cg d, m, d)
     else if loc = M32 evmask_reg then (d_mask d, m, d)
     else if loc = M32 (ARCHI_FC_ITC_ADDR + ITC_STATUS_OFFSET) then dev_status (m, d)
     else if loc = M32 (ARCHI_FC_ITC_ADDR + ITC_FIFO_OFFSET)
     then (7, m, if d_fin d then d\<lparr>d_fin := False, d_popped := True\<rparr> else d)
     else if loc = M32 (ARCHI_APB_SOC_CTRL_ADDR + APB_SOC_JTAG_REG) then (d_jtag d, m, d)
     else if loc = M32 (ARCHI_APB_SOC_CTRL_ADDR + APB_SOC_BOOTSEL_OFFSET) then (d_sel d, m, d)
     else (0, m, d))"

definition dev_wr :: "pulp_loc \<Rightarrow> u32 \<Rightarrow> mem \<times> rom_dev \<Rightarrow> mem \<times> rom_dev" where
  "dev_wr loc v me = (case me of (m, d) \<Rightarrow> (m,
     if loc = Wfi then d\<lparr>d_left := d_left d - 1\<rparr>
     else if loc = M32 cg_reg then d\<lparr>d_cg := v\<rparr>
     else if loc = M32 evmask_reg then d\<lparr>d_mask := v\<rparr>
     else if loc = M32 (ARCHI_FC_ITC_ADDR + ITC_STATUS_CLR_OFFSET)
     then (if bit v ARCHI_FC_EVT_SOC_EVT then d\<lparr>d_popped := False\<rparr> else d)
     else if loc = M32 (UDMA_SPIM_RX_ADDR 0 + UDMA_CHANNEL_SADDR_OFFSET) then d\<lparr>d_rxs := v\<rparr>
     else if loc = M32 (UDMA_SPIM_RX_ADDR 0 + UDMA_CHANNEL_SIZE_OFFSET) then d\<lparr>d_rxn := v\<rparr>
     else if loc = M32 (UDMA_SPIM_CMD_ADDR 0 + UDMA_CHANNEL_SADDR_OFFSET) then d\<lparr>d_cmds := v\<rparr>
     else if loc = M32 (UDMA_SPIM_CMD_ADDR 0 + UDMA_CHANNEL_SIZE_OFFSET) then d\<lparr>d_cmdn := v\<rparr>
     else if loc = M32 (UDMA_SPIM_CMD_ADDR 0 + UDMA_CHANNEL_CFG_OFFSET) then dev_start m d
     else d))"

definition dev_bus :: "rom_dev pulp_bus" where
  "dev_bus = \<lparr>bus_rd = dev_rd, bus_wr = dev_wr, bus_wp = (\<lambda>_ _ me. me)\<rparr>"

definition dev_calm :: "mem \<Rightarrow> rom_dev \<Rightarrow> bool" where
  "dev_calm flash d \<longleftrightarrow> d_flash d = flash \<and> d_todo d = None \<and> \<not> d_fin d \<and> \<not> d_popped d"

definition dev_todo :: "mem \<Rightarrow> rom_dev \<Rightarrow> (u32 \<times> u8 list) option" where
  "dev_todo flash d = (if d_flash d = flash \<and> \<not> d_fin d \<and> \<not> d_popped d then d_todo d else None)"

definition dev_fin :: "mem \<Rightarrow> rom_dev \<Rightarrow> bool" where
  "dev_fin flash d \<longleftrightarrow> d_flash d = flash \<and> d_todo d = None \<and> d_fin d \<and> \<not> d_popped d"

definition dev_popped :: "mem \<Rightarrow> rom_dev \<Rightarrow> bool" where
  "dev_popped flash d \<longleftrightarrow> d_flash d = flash \<and> d_todo d = None \<and> \<not> d_fin d \<and> d_popped d"

lemmas dev_views = dev_calm_def dev_todo_def dev_fin_def dev_popped_def

lemmas dev_addrs = cg_reg_def evmask_reg_def map_defs itc_defs udma_defs udma_spim_defs udma_uart_defs soc_eu_defs apb_soc_defs

lemma dev_regs:
  "cg_reg = 0x1A102000" "evmask_reg = 0x1A106004" "ARCHI_FC_ITC_ADDR + ITC_STATUS_OFFSET = 0x1A10980C"
  "ARCHI_FC_ITC_ADDR + ITC_STATUS_CLR_OFFSET = 0x1A109814" "ARCHI_FC_ITC_ADDR + ITC_FIFO_OFFSET = 0x1A109824"
  "ARCHI_FC_ITC_ADDR + ITC_MASK_SET_OFFSET = 0x1A109804"
  "UDMA_SPIM_RX_ADDR 0 + UDMA_CHANNEL_SADDR_OFFSET = 0x1A102100" "UDMA_SPIM_RX_ADDR 0 + UDMA_CHANNEL_SIZE_OFFSET = 0x1A102104"
  "UDMA_SPIM_RX_ADDR 0 + UDMA_CHANNEL_CFG_OFFSET = 0x1A102108"
  "UDMA_SPIM_CMD_ADDR 0 + UDMA_CHANNEL_SADDR_OFFSET = 0x1A102120" "UDMA_SPIM_CMD_ADDR 0 + UDMA_CHANNEL_SIZE_OFFSET = 0x1A102124"
  "UDMA_SPIM_CMD_ADDR 0 + UDMA_CHANNEL_CFG_OFFSET = 0x1A102128"
  by (simp_all add: dev_addrs)

lemma calm_not_spim:
  "calm_reg a \<Longrightarrow> a \<noteq> 0x1A102100 \<and> a \<noteq> 0x1A102104 \<and> a \<noteq> 0x1A102120 \<and> a \<noteq> 0x1A102124 \<and> a \<noteq> 0x1A102128"
  by (intro conjI notI) (simp_all add: calm_reg_def in_blk_def dev_addrs)

interpretation dev: rom_hw dev_bus flash "dev_calm flash" d_cg d_mask "dev_todo flash" d_left "dev_fin flash" "dev_popped flash"
proof (unfold_locales, goal_cases)
  case (1 e loc m)
  then show ?case
    by (auto simp: dev_bus_def dev_rd_def dev_status_def dev_views dev_regs)
next
  case (2 e loc v m)
  then show ?case
    using calm_not_spim by (cases loc) (auto simp: dev_bus_def dev_wr_def dev_views dev_regs calm_loc_def)
next
  case (3 e l ds loc v m)
  then show ?case
    by (auto simp: dev_bus_def dev_wr_def dev_regs dev_views split: if_splits)
next
  case (4 e l ds m)
  let ?r = "dev_status (m, e)"
  have e: "d_flash e = flash" "\<not> d_fin e" "\<not> d_popped e" "d_todo e = Some (l, ds)"
    using 4 by (simp_all add: dev_todo_def split: if_splits)
  have r: "bus_rd dev_bus (M32 (ARCHI_FC_ITC_ADDR + ITC_STATUS_OFFSET)) (m, e) = ?r"
    by (simp add: dev_bus_def dev_rd_def dev_regs)
  show ?case
  proof (cases "d_left e = 0")
    case True
    with e have "?r = (0x4000000, store_bytes l ds m, e\<lparr>d_todo := None, d_fin := True\<rparr>)" by (simp add: dev_status_def)
    with e r show ?thesis by (simp add: dev_views rom_consts bit_iff_odd)
  next
    case False
    with e have "?r = (0, m, e)" by (simp add: dev_status_def)
    with e r False show ?thesis by (simp add: dev_views)
  qed
next
  case (5 e m)
  then show ?case
    by (auto simp: dev_bus_def dev_rd_def dev_regs dev_views)
next
  case (6 e v m)
  then show ?case
    by (auto simp: dev_bus_def dev_wr_def dev_regs dev_views)
next
  case (7 e buffer ws m k a n l2addr)
  have "flash_bytes flash (a AND 0xFFFFFF) n' = flash_bytes flash a n'" for n'
    by (simp add: flash_bytes_def and.assoc)
  with 7 load_words_held [OF 7(4)] show ?case
    by (simp add: start_transfer_def enqueue_on_bus_def dev_bus_def dev_wr_def dev_regs dev_start_def dev_views
        sent_addr_read_request)
qed

interpretation dev_reader: image_reader "flash_read dev_bus" flash "dev.set_up flash" "\<lambda>data m. load32 (data + hyperflash_off) m = 0"
  by (rule dev.reads_image)

definition rom_start :: "rom_dev rom_state" where
  "rom_start = \<lparr>ram = (\<lambda>_. 0), ext = \<lparr>d_flash = demo_flash, d_cg = 0, d_mask = 0, d_rxs = 0, d_rxn = 0, d_cmds = 0, d_cmdn = 0,
     d_todo = None, d_left = 0, d_fin = False, d_popped = False, d_jtag = 0, d_sel = 0\<rparr>, rom_sp = 0\<rparr>"

theorem rom_boot_from_flash_witness:
  "\<exists>s'. rom_bootFromRom dev_bus 0x1C010000 0 1 rom_start = Some (JumpTo 0x1C000880, s') \<and>
    load_bytes 0x1C000880 6 (ram s') = load_bytes 0x1000 6 demo_flash"
  using rom_boot_from_flash [OF dev.rom_hw_axioms, of demo_flash rom_start "0x1C010000" 1] demo_wf
  by (simp add: dev_calm_def rom_start_def demo_header demo_areas)

end
