(* ===== verification/Hyper_Device.thy ===== *)
theory Hyper_Device
  imports Hyper_Boot_Props Rom_Device
begin

text \<open>
  A reference device for the HyperBus channel: the platform of \<open>Rom_Device\<close> with channel number 3, eight
  configuration registers and an external address. Enabling the receive channel starts a transfer when
  the clock is on, the event is not masked and the flash is selected.
\<close>

record hyper_dev =
  h_rom :: rom_dev
  h_cfg :: "nat \<Rightarrow> u32"
  h_ext :: u32
  h_rxs :: u32
  h_rxn :: u32

definition hyper3 :: hyper_id where "hyper3 i = 3"

definition is_cfg :: "u32 \<Rightarrow> bool" where
  "is_cfg a \<longleftrightarrow> 0x1A102228 \<le> a \<and> a < 0x1A102248"

definition cfg_index :: "u32 \<Rightarrow> nat" where
  "cfg_index a = unat (a - 0x1A102228) div 4"

definition hyper_start :: "hyper_dev \<Rightarrow> hyper_dev" where
  "hyper_start d =
     (if bit (d_cg (h_rom d)) 3 \<and> \<not> bit (d_mask (h_rom d)) 12 \<and> flash_selected (h_cfg d) (h_ext d)
      then d\<lparr>h_rom := (h_rom d)\<lparr>d_left := 2, d_todo := Some (h_rxs d, flash_bytes (d_flash (h_rom d)) (h_ext d) (unat (h_rxn d)))\<rparr>\<rparr>
      else d)"

definition hyper_rd :: "pulp_loc \<Rightarrow> mem \<times> hyper_dev \<Rightarrow> u32 \<times> mem \<times> hyper_dev" where
  "hyper_rd loc me = (case me of (m, d) \<Rightarrow>
     case loc of
       M32 a \<Rightarrow> if is_cfg a then (h_cfg d (cfg_index a), m, d)
                else (case dev_rd loc (m, h_rom d) of (v, m', r) \<Rightarrow> (v, m', d\<lparr>h_rom := r\<rparr>))
     | _ \<Rightarrow> (case dev_rd loc (m, h_rom d) of (v, m', r) \<Rightarrow> (v, m', d\<lparr>h_rom := r\<rparr>)))"

definition hyper_wr :: "pulp_loc \<Rightarrow> u32 \<Rightarrow> mem \<times> hyper_dev \<Rightarrow> mem \<times> hyper_dev" where
  "hyper_wr loc v me = (case me of (m, d) \<Rightarrow>
     case loc of
       M32 a \<Rightarrow> if is_cfg a then (m, d\<lparr>h_cfg := (h_cfg d)(cfg_index a := v)\<rparr>)
                else if a = 0x1A102220 then (m, d\<lparr>h_ext := v\<rparr>)
                else if a = 0x1A102200 then (m, d\<lparr>h_rxs := v\<rparr>)
                else if a = 0x1A102204 then (m, d\<lparr>h_rxn := v\<rparr>)
                else if a = 0x1A102208 then (m, hyper_start d)
                else (case dev_wr loc v (m, h_rom d) of (m', r) \<Rightarrow> (m', d\<lparr>h_rom := r\<rparr>))
     | _ \<Rightarrow> (case dev_wr loc v (m, h_rom d) of (m', r) \<Rightarrow> (m', d\<lparr>h_rom := r\<rparr>)))"

definition hyper_bus :: "hyper_dev pulp_bus" where
  "hyper_bus = \<lparr>bus_rd = hyper_rd, bus_wr = hyper_wr, bus_wp = (\<lambda>_ _ me. me)\<rparr>"

section \<open>The platform underneath\<close>

text \<open>Outside the registers of the channel the device is the platform.\<close>

definition hyper_reg :: "pulp_loc \<Rightarrow> bool" where
  "hyper_reg loc = (case loc of M32 a \<Rightarrow> 0x1A102200 \<le> a \<and> a < 0x1A102248 | _ \<Rightarrow> False)"

lemma under_rd:
  assumes "\<not> hyper_reg loc" and "bus_rd dev_bus loc (m, h_rom d) = (v, m', r)"
  shows "bus_rd hyper_bus loc (m, d) = (v, m', d\<lparr>h_rom := r\<rparr>)"
proof -
  have "\<not> is_cfg a" if "loc = M32 a" for a
    using assms(1) that by (auto simp: hyper_reg_def is_cfg_def word_less_nat_alt word_le_nat_alt)
  with assms(2) show ?thesis by (auto simp: hyper_bus_def hyper_rd_def dev_bus_def split: pulp_loc.split)
qed

lemma under_wr:
  assumes "\<not> hyper_reg loc" and "bus_wr dev_bus loc v (m, h_rom d) = (m', r)"
  shows "bus_wr hyper_bus loc v (m, d) = (m', d\<lparr>h_rom := r\<rparr>)"
proof -
  have "\<not> is_cfg a \<and> a \<noteq> 0x1A102220 \<and> a \<noteq> 0x1A102200 \<and> a \<noteq> 0x1A102204 \<and> a \<noteq> 0x1A102208" if "loc = M32 a" for a
    using assms(1) that by (auto simp: hyper_reg_def is_cfg_def word_less_nat_alt word_le_nat_alt)
  with assms(2) show ?thesis by (auto simp: hyper_bus_def hyper_wr_def dev_bus_def split: pulp_loc.split)
qed

lemma calm_not_hyper: "calm_loc loc \<Longrightarrow> \<not> hyper_reg loc"
  by (cases loc) (auto simp: calm_loc_def hyper_reg_def calm_reg_def in_blk_def dev_addrs word_less_nat_alt word_le_nat_alt unat_sub_if' split: if_splits)

definition h_calm :: "mem \<Rightarrow> (nat \<Rightarrow> u32) \<Rightarrow> hyper_dev \<Rightarrow> bool" where
  "h_calm flash c d \<longleftrightarrow> h_cfg d = c \<and> dev_calm flash (h_rom d)"

definition h_todo :: "mem \<Rightarrow> (nat \<Rightarrow> u32) \<Rightarrow> hyper_dev \<Rightarrow> (u32 \<times> u8 list) option" where
  "h_todo flash c d = (if h_cfg d = c then dev_todo flash (h_rom d) else None)"

definition h_fin :: "mem \<Rightarrow> (nat \<Rightarrow> u32) \<Rightarrow> hyper_dev \<Rightarrow> bool" where
  "h_fin flash c d \<longleftrightarrow> h_cfg d = c \<and> dev_fin flash (h_rom d)"

definition h_popped :: "mem \<Rightarrow> (nat \<Rightarrow> u32) \<Rightarrow> hyper_dev \<Rightarrow> bool" where
  "h_popped flash c d \<longleftrightarrow> h_cfg d = c \<and> dev_popped flash (h_rom d)"

definition h_stuck :: "hyper_dev \<Rightarrow> bool" where
  "h_stuck d \<longleftrightarrow> d_todo (h_rom d) = None \<and> \<not> d_fin (h_rom d)"

lemmas hyper_views = h_calm_def h_todo_def h_fin_def h_popped_def

lemma itc_not_hyper:
  "\<not> hyper_reg Wfi" "\<not> hyper_reg (M32 (ARCHI_FC_ITC_ADDR + ITC_MASK_SET_OFFSET))"
  "\<not> hyper_reg (M32 (ARCHI_FC_ITC_ADDR + ITC_STATUS_OFFSET))" "\<not> hyper_reg (M32 (ARCHI_FC_ITC_ADDR + ITC_FIFO_OFFSET))"
  "\<not> hyper_reg (M32 (ARCHI_FC_ITC_ADDR + ITC_STATUS_CLR_OFFSET))"
  by (simp_all add: hyper_reg_def dev_addrs)

interpretation h_events: soc_events hyper_bus "h_calm flash c" "\<lambda>d. d_cg (h_rom d)" "\<lambda>d. d_mask (h_rom d)" "h_todo flash c"
  "\<lambda>d. d_left (h_rom d)" "h_fin flash c" "h_popped flash c"
proof (unfold_locales, goal_cases)
  case (1 e loc m)
  then obtain v r where "bus_rd dev_bus loc (m, h_rom e) = (v, m, r)" "dev_calm flash r" "d_cg r = d_cg (h_rom e)"
      "d_mask r = d_mask (h_rom e)" "loc = M32 cg_reg \<longrightarrow> v = d_cg (h_rom e)" "loc = M32 evmask_reg \<longrightarrow> v = d_mask (h_rom e)"
    using dev.calm_rd [of flash "h_rom e" loc m] by (auto simp: hyper_views)
  with 1 under_rd [OF calm_not_hyper [OF 1(2)]] show ?case by (force simp: hyper_views)
next
  case (2 e loc v m)
  then obtain r where "bus_wr dev_bus loc v (m, h_rom e) = (m, r)" "dev_calm flash r"
      "d_cg r = (if loc = M32 cg_reg then v else d_cg (h_rom e))" "d_mask r = (if loc = M32 evmask_reg then v else d_mask (h_rom e))"
    using dev.calm_wr [of flash "h_rom e" loc v m] by (auto simp: hyper_views)
  with 2 under_wr [OF calm_not_hyper [OF 2(2)]] show ?case by (force simp: hyper_views)
next
  case (3 e l ds loc v m)
  then obtain m' r where "bus_wr dev_bus loc v (m, h_rom e) = (m', r)" "d_cg r = d_cg (h_rom e)" "d_mask r = d_mask (h_rom e)"
      "dev_todo flash r = Some (l, ds)" "store_bytes l ds m' = store_bytes l ds m"
      "if loc = Wfi then d_left r < d_left (h_rom e) \<or> d_left (h_rom e) = 0 else d_left r \<le> d_left (h_rom e)"
    using dev.busy_wr [of flash "h_rom e" l ds loc v m] by (auto simp: hyper_views split: if_splits)
  moreover have "\<not> hyper_reg loc" using 3(2) itc_not_hyper by blast
  ultimately show ?case using 3(1) under_wr [of loc v m e m' r]
    by (intro exI [of _ m'] exI [of _ "e\<lparr>h_rom := r\<rparr>"]) (simp add: hyper_views split: if_splits)
next
  case (4 e l ds m)
  then obtain v m' r where "bus_rd dev_bus (M32 (ARCHI_FC_ITC_ADDR + ITC_STATUS_OFFSET)) (m, h_rom e) = (v, m', r)"
      "d_cg r = d_cg (h_rom e)" "d_mask r = d_mask (h_rom e)"
      "if bit v ARCHI_FC_EVT_SOC_EVT then m' = store_bytes l ds m \<and> dev_fin flash r
       else 0 < d_left r \<and> d_left r \<le> d_left (h_rom e) \<and> dev_todo flash r = Some (l, ds) \<and> store_bytes l ds m' = store_bytes l ds m"
    using dev.polls [of flash "h_rom e" l ds m] by (auto simp: hyper_views split: if_splits)
  with 4 under_rd [OF itc_not_hyper(3), of m e v m' r] show ?case
    by (intro exI [of _ v] exI [of _ m'] exI [of _ "e\<lparr>h_rom := r\<rparr>"]) (simp add: hyper_views split: if_splits)
next
  case (5 e m)
  then obtain v r where "bus_rd dev_bus (M32 (ARCHI_FC_ITC_ADDR + ITC_FIFO_OFFSET)) (m, h_rom e) = (v, m, r)" "dev_popped flash r"
      "d_cg r = d_cg (h_rom e)" "d_mask r = d_mask (h_rom e)"
    using dev.pops [of flash "h_rom e" m] by (auto simp: hyper_views)
  with 5 under_rd [OF itc_not_hyper(4), of m e v m r] show ?case by (force simp: hyper_views)
next
  case (6 e v m)
  then obtain r where "bus_wr dev_bus (M32 (ARCHI_FC_ITC_ADDR + ITC_STATUS_CLR_OFFSET)) v (m, h_rom e) = (m, r)" "dev_calm flash r"
      "d_cg r = d_cg (h_rom e)" "d_mask r = d_mask (h_rom e)"
    using dev.acknowledges [of flash "h_rom e" v m] by (auto simp: hyper_views)
  with 6 under_wr [OF itc_not_hyper(5), of v m e m r] show ?case by (force simp: hyper_views)
qed

section \<open>The channel\<close>

lemma hyper3_regs:
  "HYPER_EXT_ADDR hyper3 = 0x1A102220" "UDMA_HYPER_RX_ADDR hyper3 0 + UDMA_CHANNEL_SADDR_OFFSET = 0x1A102200"
  "UDMA_HYPER_RX_ADDR hyper3 0 + UDMA_CHANNEL_SIZE_OFFSET = 0x1A102204" "UDMA_HYPER_RX_ADDR hyper3 0 + UDMA_CHANNEL_CFG_OFFSET = 0x1A102208"
  "ARCHI_SOC_EVENT_HYPER_RX hyper3 0 = 12"
  by (simp_all add: hyper_addr_defs hyper3_def map_defs udma_defs ARCHI_SOC_EVENT_HYPER_RX_def ARCHI_UDMA_HYPER_RX_EVT_def rom_consts)

lemma cfg_reg3:
  assumes "k < 8"
  shows "is_cfg (cfg_reg hyper3 k)" and "cfg_index (cfg_reg hyper3 k) = k"
proof -
  have r: "cfg_reg hyper3 k = 0x1A102228 + of_nat (4 * k)"
    by (simp add: cfg_reg_def hyper_addr_defs hyper3_def map_defs udma_defs)
  have u: "unat (of_nat (4 * k) :: u32) = 4 * k" using assms by (simp add: unat_of_nat del: of_nat_mult)
  then show "cfg_index (cfg_reg hyper3 k) = k" by (simp add: cfg_index_def r)
  have "unat (cfg_reg hyper3 k) = 0x1A102228 + 4 * k"
    unfolding r using assms u by (subst unat_add_lem [THEN iffD1]) simp_all
  then show "is_cfg (cfg_reg hyper3 k)" using assms by (simp add: is_cfg_def word_less_nat_alt word_le_nat_alt)
qed

lemma start_hyper3:
  "start_hyper hyper_bus hyper3 a l2addr n (m, d) = (m, hyper_start (d\<lparr>h_ext := a, h_rxs := l2addr, h_rxn := n\<rparr>))"
  by (simp add: start_hyper_def enqueue_on_bus_def hyper3_regs hyper_bus_def hyper_wr_def is_cfg_def)

interpretation h_dev: hyper_hw hyper_bus hyper3 flash "h_calm flash" "\<lambda>d. d_cg (h_rom d)" "\<lambda>d. d_mask (h_rom d)" "h_todo flash"
  "\<lambda>d. d_left (h_rom d)" "h_fin flash" "h_popped flash" h_stuck
proof (unfold_locales, goal_cases)
  case 1
  then show ?case by (simp add: hyper3_def)
next
  case (2 c e k m)
  then show ?case by (simp add: hyper_bus_def hyper_rd_def cfg_reg3 hyper_views)
next
  case (3 c e k v m)
  then show ?case by (simp add: hyper_bus_def hyper_wr_def cfg_reg3 hyper_views)
next
  case (4 c e a l2addr n m)
  then show ?case by (simp add: start_hyper3 hyper_start_def hyper3_regs hyper3_def hyper_views dev_views)
next
  case (5 c e a l2addr n m)
  then show ?case by (simp add: start_hyper3 hyper_start_def hyper3_regs h_stuck_def hyper_views dev_views)
next
  case (6 e m v m' e')
  have "bus_rd dev_bus (M32 (ARCHI_FC_ITC_ADDR + ITC_STATUS_OFFSET)) (m, h_rom e) = (0, m, h_rom e)"
    using 6(1) by (simp add: h_stuck_def dev_bus_def dev_rd_def dev_regs dev_status_def)
  with 6 under_rd [OF itc_not_hyper(3)] show ?case by auto
next
  case (7 e loc v m)
  obtain m' r where r: "bus_wr dev_bus loc v (m, h_rom e) = (m', r)" by fastforce
  then have "d_todo r = None \<and> \<not> d_fin r" using 7 by (auto simp: h_stuck_def dev_bus_def dev_wr_def dev_regs)
  moreover have "\<not> hyper_reg loc" using 7(2) itc_not_hyper by blast
  ultimately show ?case using under_wr [OF _ r] by (simp add: h_stuck_def)
qed

interpretation h_reader: image_reader "hyper_flash_read hyper_bus hyper3" flash "h_dev.set_up flash"
  "\<lambda>data m. load32 (data + hyperflash_off) m \<noteq> 0"
  by (rule h_dev.reads_image)

section \<open>A section on the device\<close>

text \<open>A section of 5000 bytes in two blocks, as it is described for blocks of 4096 bytes.\<close>

definition hyper_data :: mem where
  "hyper_data = store_bytes (0x1C010000 + of_nat 6428) (concat (map bytes32 [1, 1024]))
     (store_bytes (0x1C010000 + of_nat 5144) (concat (map bytes32 [0x1000, 0x1C000000, 5000, 2])) (\<lambda>_. 0))"

definition hyper_begin :: "hyper_dev rom_state" where
  "hyper_begin = \<lparr>ram = hyper_data, ext = \<lparr>h_rom = ext rom_start, h_cfg = (\<lambda>_. 0x3F0F), h_ext = 0, h_rxs = 0, h_rxn = 0\<rparr>, rom_sp = 0\<rparr>"

lemma hyper_data_fields:
  "load32 (0x1C010000 + hyperflash_off) hyper_data = 1" "data_blockSize 0x1C010000 hyper_data = 1024"
  "data_area 0x1C010000 (of_nat 0) hyper_data = \<lparr>area_start = 0x1000, area_ptr = 0x1C000000, area_size = 5000, area_blocks = 2\<rparr>"
proof -
  let ?m = "store_bytes (0x1C010000 + of_nat 5144) (concat (map bytes32 [0x1000, 0x1C000000, 5000, 2])) (\<lambda>_. 0)"
  have w: "load32 (0x1C010000 + of_nat 6428 + of_nat (4 * k)) hyper_data = [1, 1024] ! k" if "k < 2" for k
    using that unfolding hyper_data_def by (intro load32_words) simp_all
  then show "load32 (0x1C010000 + hyperflash_off) hyper_data = 1" "data_blockSize 0x1C010000 hyper_data = 1024"
    using w [of 0] w [of 1] by (simp_all add: data_blockSize_def layout_defs)
  have a: "load32 (0x1C010000 + of_nat 5144 + of_nat (4 * k)) ?m = [0x1000, 0x1C000000, 5000, 2] ! k" if "k < 4" for k
    using that by (intro load32_words) simp_all
  have "area_at (0x1C010000 + of_nat 5144) hyper_data = area_at (0x1C010000 + of_nat 5144) ?m"
    unfolding hyper_data_def by (rule area_elsewhere) simp_all
  then show "data_area 0x1C010000 (of_nat 0) hyper_data = \<lparr>area_start = 0x1000, area_ptr = 0x1C000000, area_size = 5000, area_blocks = 2\<rparr>"
    using a [of 0] a [of 1] a [of 2] a [of 3] by (simp add: data_area_def area_at_def layout_defs)
qed

lemma begin_ram: "ram hyper_begin = hyper_data"
  by (simp add: hyper_begin_def)

theorem hyper_loads_section_witness:
  "\<exists>s'. load_section (hyper_flash_read hyper_bus hyper3) 0x1C010000 (0x1C010000 + memArea_off + sizeof_area * of_nat 0)
      (hyper_checkAndConf hyper_bus hyper3 hyper3 0x1C010000 (hyper_init hyper_bus hyper3 True 0x1C010000 hyper_begin)) = Some s' \<and>
    (\<forall>p. \<not> in_blk p 0x1C010000 6440 \<longrightarrow>
       ram s' p = (if in_blk p 0x1C000000 2048 then demo_flash (0x1000 + (p - 0x1C000000)) else hyper_data p))"
proof -
  let ?a = "\<lparr>area_start = 0x1000, area_ptr = 0x1C000000, area_size = 5000, area_blocks = 2\<rparr> :: flash_v2_mem_area_t"
  have "h_calm demo_flash (\<lambda>_. 0x3F0F) (ext hyper_begin)"
    by (simp add: h_calm_def dev_calm_def hyper_begin_def rom_start_def)
  moreover have "\<not> in_blk p 0x1C010000 6440" if "in_blk p 0x1C000000 2048" for p
    using that by (simp add: in_blk_def unat_sub_if' split: if_splits)
  ultimately have "\<exists>s'. load_section (hyper_flash_read hyper_bus hyper3) 0x1C010000 (0x1C010000 + memArea_off + sizeof_area * of_nat 0)
      (hyper_checkAndConf hyper_bus hyper3 hyper3 0x1C010000 (hyper_init hyper_bus hyper3 True 0x1C010000 hyper_begin)) = Some s' \<and>
    (\<forall>p. \<not> in_blk p 0x1C010000 6440 \<longrightarrow>
       ram s' p = (if in_blk p (area_ptr ?a) 2048 then demo_flash (area_start ?a + (p - area_ptr ?a)) else ram hyper_begin p))"
    using hyper_data_fields
    by (intro hyper_loads_section [OF h_dev.hyper_hw_axioms]) (simp_all add: begin_ram rup_def HYPER_FLASH_BLOCK_SIZE_def)
  then show ?thesis by (simp only: flash_v2_mem_area_t.select_convs begin_ram)
qed

theorem hyper_masked_event_hangs_witness:
  "hyper_flash_read hyper_bus hyper3 0x1C010000 0 0x1C000000 16
     (hyper_checkAndConf hyper_bus hyper3 hyper3 0x1C010000 (hyper_init hyper_bus hyper3 False 0x1C010000 hyper_begin)) = None"
  by (rule hyper_masked_event_hangs [OF h_dev.hyper_hw_axioms, of demo_flash "\<lambda>_. 0x3F0F"])
    (use hyper_data_fields(1) in \<open>simp_all add: h_calm_def dev_calm_def hyper_begin_def rom_start_def\<close>)

end
