(* ===== verification/Cplx_Emu.thy ===== *)
theory Cplx_Emu
  imports Builtins_Emu
begin

text \<open>
  The complex arithmetic of \<^verbatim>\<open>archi/riscv/builtins_v2_emu.h\<close>, which the header offers on cores with
  \<^verbatim>\<open>ARCHI_CORE_HAS_CPLX\<close>: pairs of 16 bit fractions (Q15), real part first. The Viterbi macros leave their
  decision in two flags, variables that the header does not declare; they are the state \<open>vit_flags\<close>.
\<close>

section \<open>Operations\<close>

definition CPLXMULS :: "v2 \<Rightarrow> v2 \<Rightarrow> v2" where
  "CPLXMULS x y =
     (word_of_int (drop_bit 15 (sint (fst x) * sint (fst y) - sint (snd x) * sint (snd y))),
      word_of_int (drop_bit 15 (sint (fst x) * sint (snd y) + sint (snd x) * sint (fst y))))"

definition CPLXMULSDIV2 :: "v2 \<Rightarrow> v2 \<Rightarrow> v2" where
  "CPLXMULSDIV2 x y = map_prod (signed_drop_bit 1) (signed_drop_bit 1) (CPLXMULS x y)"

definition CPLXMULSDIV4 :: "v2 \<Rightarrow> v2 \<Rightarrow> v2" where
  "CPLXMULSDIV4 x y = map_prod (signed_drop_bit 2) (signed_drop_bit 2) (CPLXMULS x y)"

definition CPLXCONJ :: "v2 \<Rightarrow> v2" where
  "CPLXCONJ x = (fst x, - snd x)"

definition SUB2ROTMJ :: "v2 \<Rightarrow> v2 \<Rightarrow> v2" where
  "SUB2ROTMJ x y = (snd x - snd y, fst y - fst x)"

definition ADD2DIV2 :: "v2 \<Rightarrow> v2 \<Rightarrow> v2" where
  "ADD2DIV2 x y = v2_map2 (\<lambda>a b. signed_drop_bit 1 (a + b)) x y"

definition ADD2DIV4 :: "v2 \<Rightarrow> v2 \<Rightarrow> v2" where
  "ADD2DIV4 x y = v2_map2 (\<lambda>a b. signed_drop_bit 2 (a + b)) x y"

definition ADD4DIV2 :: "v4 \<Rightarrow> v4 \<Rightarrow> v4" where
  "ADD4DIV2 x y = v4_map2 (\<lambda>a b. signed_drop_bit 1 (a + b)) x y"

definition ADD4DIV4 :: "v4 \<Rightarrow> v4 \<Rightarrow> v4" where
  "ADD4DIV4 x y = v4_map2 (\<lambda>a b. signed_drop_bit 2 (a + b)) x y"

definition SUB2DIV2 :: "v2 \<Rightarrow> v2 \<Rightarrow> v2" where
  "SUB2DIV2 x y = v2_map2 (\<lambda>a b. signed_drop_bit 1 (a - b)) x y"

definition SUB2DIV4 :: "v2 \<Rightarrow> v2 \<Rightarrow> v2" where
  "SUB2DIV4 x y = v2_map2 (\<lambda>a b. signed_drop_bit 2 (a - b)) x y"

definition SUB4DIV2 :: "v4 \<Rightarrow> v4 \<Rightarrow> v4" where
  "SUB4DIV2 x y = v4_map2 (\<lambda>a b. signed_drop_bit 1 (a - b)) x y"

definition SUB4DIV4 :: "v4 \<Rightarrow> v4 \<Rightarrow> v4" where
  "SUB4DIV4 x y = v4_map2 (\<lambda>a b. signed_drop_bit 2 (a - b)) x y"

record vit_flags =
  VitT0_Flag :: u32
  VitT1_Flag :: u32

definition VITMAX :: "v2 \<Rightarrow> v2 \<Rightarrow> vit_flags \<Rightarrow> v2 \<times> vit_flags" where
  "VITMAX x y f =
     (let f = f\<lparr>VitT1_Flag := if snd x \<le>s snd y then 1 else 0\<rparr>;
          f = f\<lparr>VitT0_Flag := if fst x \<le>s fst y then 1 else 0\<rparr>
      in ((if fst y <s fst x then fst x else fst y, if snd y <s snd x then snd x else snd y), f))"

definition VITSEL :: "v2 \<Rightarrow> v2 \<Rightarrow> vit_flags \<Rightarrow> v2" where
  "VITSEL x y f =
     (ucast (push_bit 1 (scast (if VitT0_Flag f \<noteq> 0 then fst y else fst x)) OR VitT0_Flag f),
      ucast (push_bit 1 (scast (if VitT1_Flag f \<noteq> 0 then snd y else snd x)) OR VitT1_Flag f))"

section \<open>Rotation, conjugation and scaling\<close>

lemma drop_bit_15: "drop_bit 15 (32768 * (z :: int)) = z"
  by (simp add: drop_bit_eq_div)

text \<open>The subtraction with a rotation is the product with \<open>- j\<close>, which is exact in this format.\<close>

lemma sub2rotmj_rotates: "SUB2ROTMJ x y = CPLXMULS (fst x - fst y, snd x - snd y) (0, 0x8000)"
proof -
  have "sint (0x8000 :: u16) = - 32768" by simp
  moreover have "word_of_int (drop_bit 15 (sint d * 32768)) = d" "word_of_int (drop_bit 15 (- (sint d * 32768))) = - d" for d :: u16
    using drop_bit_15 [of "sint d"] drop_bit_15 [of "- sint d"] by (simp_all add: mult.commute)
  ultimately show ?thesis by (simp add: SUB2ROTMJ_def CPLXMULS_def)
qed

lemma conj_conj: "CPLXCONJ (CPLXCONJ x) = x"
  by (simp add: CPLXCONJ_def)

text \<open>The signed value of a result that fits 16 bits.\<close>

lemma sint_fits:
  "- 32768 \<le> z \<Longrightarrow> z < 32768 \<Longrightarrow> sint (word_of_int z :: u16) = z"
  by (simp add: sint_sbintrunc' signed_take_bit_int_eq_self)

lemma sint_range: "- 32768 \<le> sint (a :: u16)" "sint (a :: u16) < 32768"
  using sint_ge [of a] sint_lt [of a] by simp_all

text \<open>The product with the conjugate is real, unless the imaginary part is -1, which has no negative.\<close>

lemma mul_conj_real:
  assumes "snd x \<noteq> 0x8000"
  shows "snd (CPLXMULS x (CPLXCONJ x)) = 0"
proof -
  have "sint (snd x) \<noteq> - 32768"
  proof
    assume "sint (snd x) = - 32768"
    then have "word_of_int (sint (snd x)) = (word_of_int (- 32768) :: u16)" by (rule arg_cong)
    with assms show False by simp
  qed
  then have "sint (word_of_int (- sint (snd x)) :: u16) = - sint (snd x)"
    using sint_range [of "snd x"] by (intro sint_fits) simp_all
  then have "sint (- snd x) = - sint (snd x)" by simp
  then show ?thesis by (simp add: CPLXMULS_def CPLXCONJ_def mult.commute)
qed

lemma mul_conj_of_minus_one: "snd (CPLXMULS (a, 0x8000) (CPLXCONJ (a, 0x8000))) = - (2 * a)"
proof -
  have "sint a * (- 32768) + (- 32768) * sint a = 32768 * (- (2 * sint a))" by simp
  moreover have "word_of_int (- (2 * sint a)) = - (2 * a)" by simp
  ultimately show ?thesis using drop_bit_15 [of "- (2 * sint a)"] by (simp add: CPLXMULS_def CPLXCONJ_def)
qed

text \<open>A sum that fits is halved, rounding down; one that does not changes its sign first.\<close>

lemma add2div2_average:
  assumes "- 32768 \<le> sint a + sint c" "sint a + sint c < 32768" "- 32768 \<le> sint b + sint d" "sint b + sint d < 32768"
  shows "map_prod sint sint (ADD2DIV2 (a, b) (c, d)) = ((sint a + sint c) div 2, (sint b + sint d) div 2)"
proof -
  have "sint (word_of_int (sint x + sint y) :: u16) = sint x + sint y" if "- 32768 \<le> sint x + sint y" "sint x + sint y < 32768" for x y :: u16
    using that by (rule sint_fits)
  then show ?thesis using assms by (simp add: ADD2DIV2_def sint_signed_drop_bit_eq drop_bit_eq_div)
qed

lemma add2div2_wraps: "ADD2DIV2 (0x7FFF, 0) (0x7FFF, 0) = (- 1, 0)"
  by (simp add: ADD2DIV2_def)

section \<open>Viterbi steps\<close>

text \<open>
  One step of a Viterbi decoder: the survivor metrics are the lane maxima, and the path that is selected next
  is the one of the survivor, shifted by the bit that says which one it was (the second on a tie).
\<close>

lemma viterbi_step:
  assumes "VITMAX x y f = (m, f')"
  shows "sint (fst m) = max (sint (fst x)) (sint (fst y))" and "sint (snd m) = max (sint (snd x)) (sint (snd y))"
    and "VITSEL p q f' =
      (if sint (fst x) \<le> sint (fst y) then 2 * fst q + 1 else 2 * fst p, if sint (snd x) \<le> sint (snd y) then 2 * snd q + 1 else 2 * snd p)"
proof -
  have sel: "ucast (push_bit 1 (scast a :: u32) OR 1) = 2 * a + 1" "ucast (push_bit 1 (scast a :: u32)) = 2 * a" for a :: u16
  proof -
    show *: "ucast (push_bit 1 (scast a :: u32)) = 2 * a" for a :: u16
    proof -
      have "push_bit 1 a = 2 * a" by (simp add: push_bit_eq_mult mult.commute)
      moreover have "ucast (push_bit k (scast a :: u32)) = push_bit k a" for k
        by (intro bit_word_eqI) (auto simp: bit_simps)
      ultimately show ?thesis by metis
    qed
    have "ucast (z OR 1) = (ucast z OR 1 :: u16)" for z :: u32
      by (intro bit_word_eqI) (auto simp: bit_simps)
    moreover have "2 * a OR 1 = 2 * a + 1" by (simp add: or_one_eq)
    ultimately show "ucast (push_bit 1 (scast a :: u32) OR 1) = 2 * a + 1" by (simp only: *)
  qed
  show "sint (fst m) = max (sint (fst x)) (sint (fst y))" and "sint (snd m) = max (sint (snd x)) (sint (snd y))"
    using assms by (auto simp: VITMAX_def Let_def word_sless_alt max_def)
  show "VITSEL p q f' =
      (if sint (fst x) \<le> sint (fst y) then 2 * fst q + 1 else 2 * fst p, if sint (snd x) \<le> sint (snd y) then 2 * snd q + 1 else 2 * snd p)"
    using assms by (auto simp: VITMAX_def VITSEL_def Let_def word_sle_eq sel [simplified])
qed

end
