(* ===== verification/Fll.thy ===== *)
theory Fll
  imports Builtins_Props
begin

text \<open>
  The frequency locked loops: register layout and field macros of \<^verbatim>\<open>archi/fll/fll_v1.h\<close> and the access
  routines of \<^verbatim>\<open>hal/fll/fll_v1.h\<close>. The unions of a bit field structure and a raw word are records
  with their conversions from and to the word, low fields first.
  \<^verbatim>\<open>FLL_STATUS_MULT_FACTOR_SET\<close> names an argument it does not have and cannot be used.
\<close>

section \<open>Registers and fields\<close>

definition FLL_STATUS_OFFSET :: u32 where "FLL_STATUS_OFFSET = 0x000"
definition FLL_CONF1_OFFSET :: u32 where "FLL_CONF1_OFFSET = 0x004"
definition FLL_CONF2_OFFSET :: u32 where "FLL_CONF2_OFFSET = 0x008"
definition FLL_INTEGRATOR_OFFSET :: u32 where "FLL_INTEGRATOR_OFFSET = 0x00C"
definition FLL_STATUS_MULT_FACTOR_BIT :: nat where "FLL_STATUS_MULT_FACTOR_BIT = 0"
definition FLL_STATUS_MULT_FACTOR_WIDTH :: nat where "FLL_STATUS_MULT_FACTOR_WIDTH = 16"
definition FLL_STATUS_MULT_FACTOR_MASK :: u32 where "FLL_STATUS_MULT_FACTOR_MASK = 0xFFFF"
definition FLL_CONF1_MODE_BIT :: nat where "FLL_CONF1_MODE_BIT = 31"
definition FLL_CONF1_MODE_WIDTH :: nat where "FLL_CONF1_MODE_WIDTH = 1"
definition FLL_CONF1_MODE_MASK :: u32 where "FLL_CONF1_MODE_MASK = 0x80000000"
definition FLL_CONF1_LOCK_BIT :: nat where "FLL_CONF1_LOCK_BIT = 30"
definition FLL_CONF1_LOCK_WIDTH :: nat where "FLL_CONF1_LOCK_WIDTH = 1"
definition FLL_CONF1_LOCK_MASK :: u32 where "FLL_CONF1_LOCK_MASK = 0x40000000"
definition FLL_CONF1_DIV_BIT :: nat where "FLL_CONF1_DIV_BIT = 26"
definition FLL_CONF1_DIV_WIDTH :: nat where "FLL_CONF1_DIV_WIDTH = 4"
definition FLL_CONF1_DIV_MASK :: u32 where "FLL_CONF1_DIV_MASK = 0x3C000000"
definition FLL_CONF1_DCO_BIT :: nat where "FLL_CONF1_DCO_BIT = 16"
definition FLL_CONF1_DCO_WIDTH :: nat where "FLL_CONF1_DCO_WIDTH = 10"
definition FLL_CONF1_DCO_MASK :: u32 where "FLL_CONF1_DCO_MASK = 0x03FF0000"
definition FLL_CONF1_MULT_FACTOR_BIT :: nat where "FLL_CONF1_MULT_FACTOR_BIT = 0"
definition FLL_CONF1_MULT_FACTOR_WIDTH :: nat where "FLL_CONF1_MULT_FACTOR_WIDTH = 16"
definition FLL_CONF1_MULT_FACTOR_MASK :: u32 where "FLL_CONF1_MULT_FACTOR_MASK = 0xFFFF"
definition FLL_CONF1_MODE_STANDALONE :: nat where "FLL_CONF1_MODE_STANDALONE = 0"
definition FLL_CONF1_MODE_NORMAL :: nat where "FLL_CONF1_MODE_NORMAL = 1"
definition FLL_CONF2_GAIN_BIT :: nat where "FLL_CONF2_GAIN_BIT = 0"
definition FLL_CONF2_GAIN_WIDTH :: nat where "FLL_CONF2_GAIN_WIDTH = 4"
definition FLL_CONF2_GAIN_MASK :: u32 where "FLL_CONF2_GAIN_MASK = 0x0000000F"
definition FLL_CONF2_DEASSERT_CYCLES_BIT :: nat where "FLL_CONF2_DEASSERT_CYCLES_BIT = 4"
definition FLL_CONF2_DEASSERT_CYCLES_WIDTH :: nat where "FLL_CONF2_DEASSERT_CYCLES_WIDTH = 6"
definition FLL_CONF2_DEASSERT_CYCLES_MASK :: u32 where "FLL_CONF2_DEASSERT_CYCLES_MASK = 0x000003F0"
definition FLL_CONF2_ASSERT_CYCLES_BIT :: nat where "FLL_CONF2_ASSERT_CYCLES_BIT = 10"
definition FLL_CONF2_ASSERT_CYCLES_WIDTH :: nat where "FLL_CONF2_ASSERT_CYCLES_WIDTH = 6"
definition FLL_CONF2_ASSERT_CYCLES_MASK :: u32 where "FLL_CONF2_ASSERT_CYCLES_MASK = 0x0000FC00"
definition FLL_CONF2_TOLERANCE_BIT :: nat where "FLL_CONF2_TOLERANCE_BIT = 16"
definition FLL_CONF2_TOLERANCE_WIDTH :: nat where "FLL_CONF2_TOLERANCE_WIDTH = 12"
definition FLL_CONF2_TOLERANCE_MASK :: u32 where "FLL_CONF2_TOLERANCE_MASK = 0x0FFF0000"
definition FLL_CONF2_STA_CLOCK_BIT :: nat where "FLL_CONF2_STA_CLOCK_BIT = 29"
definition FLL_CONF2_STA_CLOCK_WIDTH :: nat where "FLL_CONF2_STA_CLOCK_WIDTH = 1"
definition FLL_CONF2_STA_CLOCK_MASK :: u32 where "FLL_CONF2_STA_CLOCK_MASK = 0x20000000"
definition FLL_CONF2_OPEN_LOOP_BIT :: nat where "FLL_CONF2_OPEN_LOOP_BIT = 30"
definition FLL_CONF2_OPEN_LOOP_WIDTH :: nat where "FLL_CONF2_OPEN_LOOP_WIDTH = 1"
definition FLL_CONF2_OPEN_LOOP_MASK :: u32 where "FLL_CONF2_OPEN_LOOP_MASK = 0x40000000"
definition FLL_CONF2_DITHERING_BIT :: nat where "FLL_CONF2_DITHERING_BIT = 31"
definition FLL_CONF2_DITHERING_WIDTH :: nat where "FLL_CONF2_DITHERING_WIDTH = 1"
definition FLL_CONF2_DITHERING_MASK :: u32 where "FLL_CONF2_DITHERING_MASK = 0x80000000"
definition FLL_INTEGRATOR_INT_BIT :: nat where "FLL_INTEGRATOR_INT_BIT = 16"
definition FLL_INTEGRATOR_INT_WIDTH :: nat where "FLL_INTEGRATOR_INT_WIDTH = 10"
definition FLL_INTEGRATOR_INT_MASK :: u32 where "FLL_INTEGRATOR_INT_MASK = 0x03FF0000"
definition FLL_INTEGRATOR_FRACT_BIT :: nat where "FLL_INTEGRATOR_FRACT_BIT = 6"
definition FLL_INTEGRATOR_FRACT_WIDTH :: nat where "FLL_INTEGRATOR_FRACT_WIDTH = 10"
definition FLL_INTEGRATOR_FRACT_MASK :: u32 where "FLL_INTEGRATOR_FRACT_MASK = 0x0000FFC0"

lemmas fll_defs = FLL_STATUS_OFFSET_def FLL_CONF1_OFFSET_def FLL_CONF2_OFFSET_def FLL_INTEGRATOR_OFFSET_def
  FLL_STATUS_MULT_FACTOR_BIT_def FLL_STATUS_MULT_FACTOR_WIDTH_def FLL_STATUS_MULT_FACTOR_MASK_def
  FLL_CONF1_MODE_BIT_def FLL_CONF1_MODE_WIDTH_def FLL_CONF1_MODE_MASK_def FLL_CONF1_LOCK_BIT_def
  FLL_CONF1_LOCK_WIDTH_def FLL_CONF1_LOCK_MASK_def FLL_CONF1_DIV_BIT_def FLL_CONF1_DIV_WIDTH_def
  FLL_CONF1_DIV_MASK_def FLL_CONF1_DCO_BIT_def FLL_CONF1_DCO_WIDTH_def FLL_CONF1_DCO_MASK_def
  FLL_CONF1_MULT_FACTOR_BIT_def FLL_CONF1_MULT_FACTOR_WIDTH_def FLL_CONF1_MULT_FACTOR_MASK_def
  FLL_CONF1_MODE_STANDALONE_def FLL_CONF1_MODE_NORMAL_def FLL_CONF2_GAIN_BIT_def FLL_CONF2_GAIN_WIDTH_def
  FLL_CONF2_GAIN_MASK_def FLL_CONF2_DEASSERT_CYCLES_BIT_def FLL_CONF2_DEASSERT_CYCLES_WIDTH_def
  FLL_CONF2_DEASSERT_CYCLES_MASK_def FLL_CONF2_ASSERT_CYCLES_BIT_def FLL_CONF2_ASSERT_CYCLES_WIDTH_def
  FLL_CONF2_ASSERT_CYCLES_MASK_def FLL_CONF2_TOLERANCE_BIT_def FLL_CONF2_TOLERANCE_WIDTH_def
  FLL_CONF2_TOLERANCE_MASK_def FLL_CONF2_STA_CLOCK_BIT_def FLL_CONF2_STA_CLOCK_WIDTH_def
  FLL_CONF2_STA_CLOCK_MASK_def FLL_CONF2_OPEN_LOOP_BIT_def FLL_CONF2_OPEN_LOOP_WIDTH_def
  FLL_CONF2_OPEN_LOOP_MASK_def FLL_CONF2_DITHERING_BIT_def FLL_CONF2_DITHERING_WIDTH_def
  FLL_CONF2_DITHERING_MASK_def FLL_INTEGRATOR_INT_BIT_def FLL_INTEGRATOR_INT_WIDTH_def
  FLL_INTEGRATOR_INT_MASK_def FLL_INTEGRATOR_FRACT_BIT_def FLL_INTEGRATOR_FRACT_WIDTH_def
  FLL_INTEGRATOR_FRACT_MASK_def

record fll_reg_status_t =
  actual_mult_factor :: "16 word"
  status_reserved :: "16 word"

definition status_raw :: "fll_reg_status_t \<Rightarrow> u32" where
  "status_raw r = ucast (actual_mult_factor r) OR push_bit 16 (ucast (status_reserved r))"

definition status_of_raw :: "u32 \<Rightarrow> fll_reg_status_t" where
  "status_of_raw v = \<lparr>actual_mult_factor = ucast v, status_reserved = ucast (drop_bit 16 v)\<rparr>"

record fll_reg_conf1_t =
  mult_factor :: "16 word"
  dco_input :: "10 word"
  clock_out_divider :: "4 word"
  output_lock_enable :: "1 word"
  fll_mode :: "1 word"

definition conf1_raw :: "fll_reg_conf1_t \<Rightarrow> u32" where
  "conf1_raw r = ucast (mult_factor r) OR push_bit 16 (ucast (dco_input r)) OR push_bit 26 (ucast (clock_out_divider r)) OR push_bit 30 (ucast (output_lock_enable r)) OR push_bit 31 (ucast (fll_mode r))"

definition conf1_of_raw :: "u32 \<Rightarrow> fll_reg_conf1_t" where
  "conf1_of_raw v = \<lparr>mult_factor = ucast v, dco_input = ucast (drop_bit 16 v), clock_out_divider = ucast (drop_bit 26 v), output_lock_enable = ucast (drop_bit 30 v), fll_mode = ucast (drop_bit 31 v)\<rparr>"

record fll_reg_conf2_t =
  loop_gain :: "4 word"
  de_assert_cycles :: "6 word"
  assert_cycles :: "6 word"
  lock_tolerance :: "12 word"
  conf2_pad :: "1 word"
  config_clock_sel :: "1 word"
  open_loop :: "1 word"
  dithering :: "1 word"

definition conf2_raw :: "fll_reg_conf2_t \<Rightarrow> u32" where
  "conf2_raw r = ucast (loop_gain r) OR push_bit 4 (ucast (de_assert_cycles r)) OR push_bit 10 (ucast (assert_cycles r)) OR push_bit 16 (ucast (lock_tolerance r)) OR push_bit 28 (ucast (conf2_pad r)) OR push_bit 29 (ucast (config_clock_sel r)) OR push_bit 30 (ucast (open_loop r)) OR push_bit 31 (ucast (dithering r))"

definition conf2_of_raw :: "u32 \<Rightarrow> fll_reg_conf2_t" where
  "conf2_of_raw v = \<lparr>loop_gain = ucast v, de_assert_cycles = ucast (drop_bit 4 v), assert_cycles = ucast (drop_bit 10 v), lock_tolerance = ucast (drop_bit 16 v), conf2_pad = ucast (drop_bit 28 v), config_clock_sel = ucast (drop_bit 29 v), open_loop = ucast (drop_bit 30 v), dithering = ucast (drop_bit 31 v)\<rparr>"

record fll_reg_integrator_t =
  pad1 :: "6 word"
  state_fract_part :: "10 word"
  state_int_part :: "10 word"
  pad2 :: "6 word"

definition integrator_raw :: "fll_reg_integrator_t \<Rightarrow> u32" where
  "integrator_raw r = ucast (pad1 r) OR push_bit 6 (ucast (state_fract_part r)) OR push_bit 16 (ucast (state_int_part r)) OR push_bit 26 (ucast (pad2 r))"

definition integrator_of_raw :: "u32 \<Rightarrow> fll_reg_integrator_t" where
  "integrator_of_raw v = \<lparr>pad1 = ucast v, state_fract_part = ucast (drop_bit 6 v), state_int_part = ucast (drop_bit 16 v), pad2 = ucast (drop_bit 26 v)\<rparr>"

section \<open>Field macros\<close>

definition FLL_STATUS_MULT_FACTOR_GET :: "u32 \<Rightarrow> u32" where "FLL_STATUS_MULT_FACTOR_GET value = drop_bit 0 value AND 0xFFFF"
definition FLL_STATUS_MULT_FACTOR :: "u32 \<Rightarrow> u32" where "FLL_STATUS_MULT_FACTOR factor = push_bit 16 factor"
definition FLL_CONF1_MODE_GET :: "u32 \<Rightarrow> u32" where "FLL_CONF1_MODE_GET value = drop_bit 16 value AND 0x1"
definition FLL_CONF1_MODE_SET :: "u32 \<Rightarrow> u32 \<Rightarrow> u32" where "FLL_CONF1_MODE_SET dst src = BITINSERT dst src 1 31"
definition FLL_CONF1_MODE :: "u32 \<Rightarrow> u32" where "FLL_CONF1_MODE factor = push_bit 31 factor"
definition FLL_CONF1_LOCK_GET :: "u32 \<Rightarrow> u32" where "FLL_CONF1_LOCK_GET value = drop_bit 16 value AND 0x1"
definition FLL_CONF1_LOCK_SET :: "u32 \<Rightarrow> u32 \<Rightarrow> u32" where "FLL_CONF1_LOCK_SET dst src = BITINSERT dst src 30 1"
definition FLL_CONF1_LOCK :: "u32 \<Rightarrow> u32" where "FLL_CONF1_LOCK factor = push_bit 30 factor"
definition FLL_CONF1_DIV_GET :: "u32 \<Rightarrow> u32" where "FLL_CONF1_DIV_GET value = drop_bit 26 value AND 0xF"
definition FLL_CONF1_DIV_SET :: "u32 \<Rightarrow> u32 \<Rightarrow> u32" where "FLL_CONF1_DIV_SET dst src = BITINSERT dst src 26 4"
definition FLL_CONF1_DIV :: "u32 \<Rightarrow> u32" where "FLL_CONF1_DIV factor = push_bit 26 factor"
definition FLL_CONF1_DCO_GET :: "u32 \<Rightarrow> u32" where "FLL_CONF1_DCO_GET value = drop_bit 16 value AND 0x3FF"
definition FLL_CONF1_DCO_SET :: "u32 \<Rightarrow> u32 \<Rightarrow> u32" where "FLL_CONF1_DCO_SET dst src = BITINSERT dst src 16 10"
definition FLL_CONF1_DCO :: "u32 \<Rightarrow> u32" where "FLL_CONF1_DCO factor = push_bit 16 factor"
definition FLL_CONF1_MULT_FACTOR_GET :: "u32 \<Rightarrow> u32" where "FLL_CONF1_MULT_FACTOR_GET value = drop_bit 0 value AND 0xFFFF"
definition FLL_CONF1_MULT_FACTOR_SET :: "u32 \<Rightarrow> u32 \<Rightarrow> u32" where "FLL_CONF1_MULT_FACTOR_SET dst src = BITINSERT dst src 0 16"
definition FLL_CONF1_MULT_FACTOR :: "u32 \<Rightarrow> u32" where "FLL_CONF1_MULT_FACTOR factor = push_bit 0 factor"
definition FLL_CONF2_GAIN_GET :: "u32 \<Rightarrow> u32" where "FLL_CONF2_GAIN_GET value = drop_bit 0 value AND 0xF"
definition FLL_CONF2_GAIN_SET :: "u32 \<Rightarrow> u32 \<Rightarrow> u32" where "FLL_CONF2_GAIN_SET dst src = BITINSERT dst src 4 0"
definition FLL_CONF2_GAIN :: "u32 \<Rightarrow> u32" where "FLL_CONF2_GAIN value = push_bit 0 value"
definition FLL_CONF2_ASSERT_CYCLES_GET :: "u32 \<Rightarrow> u32" where "FLL_CONF2_ASSERT_CYCLES_GET value = drop_bit 4 value AND 0x3F"
definition FLL_CONF2_ASSERT_CYCLES_SET :: "u32 \<Rightarrow> u32 \<Rightarrow> u32" where "FLL_CONF2_ASSERT_CYCLES_SET dst src = BITINSERT dst src 6 4"
definition FLL_CONF2_ASSERT_CYCLES :: "u32 \<Rightarrow> u32" where "FLL_CONF2_ASSERT_CYCLES value = push_bit 4 value"
definition FLL_CONF2_DEASSERT_CYCLES_GET :: "u32 \<Rightarrow> u32" where "FLL_CONF2_DEASSERT_CYCLES_GET value = drop_bit 10 value AND 0x3F"
definition FLL_CONF2_DEASSERT_CYCLES_SET :: "u32 \<Rightarrow> u32 \<Rightarrow> u32" where "FLL_CONF2_DEASSERT_CYCLES_SET dst src = BITINSERT dst src 6 10"
definition FLL_CONF2_DEASSERT_CYCLES :: "u32 \<Rightarrow> u32" where "FLL_CONF2_DEASSERT_CYCLES value = push_bit 10 value"
definition FLL_CONF2_TOLERANCE_GET :: "u32 \<Rightarrow> u32" where "FLL_CONF2_TOLERANCE_GET value = drop_bit 16 value AND 0xFFF"
definition FLL_CONF2_TOLERANCE_SET :: "u32 \<Rightarrow> u32 \<Rightarrow> u32" where "FLL_CONF2_TOLERANCE_SET dst src = BITINSERT dst src 12 16"
definition FLL_CONF2_TOLERANCE :: "u32 \<Rightarrow> u32" where "FLL_CONF2_TOLERANCE value = push_bit 16 value"
definition FLL_CONF2_STA_CLOCK_GET :: "u32 \<Rightarrow> u32" where "FLL_CONF2_STA_CLOCK_GET value = drop_bit 29 value AND 0x1"
definition FLL_CONF2_STA_CLOCK_SET :: "u32 \<Rightarrow> u32 \<Rightarrow> u32" where "FLL_CONF2_STA_CLOCK_SET dst src = BITINSERT dst src 1 29"
definition FLL_CONF2_STA_CLOCK :: "u32 \<Rightarrow> u32" where "FLL_CONF2_STA_CLOCK value = push_bit 29 value"
definition FLL_CONF2_OPEN_LOOP_GET :: "u32 \<Rightarrow> u32" where "FLL_CONF2_OPEN_LOOP_GET value = drop_bit 30 value AND 0x1"
definition FLL_CONF2_OPEN_LOOP_SET :: "u32 \<Rightarrow> u32 \<Rightarrow> u32" where "FLL_CONF2_OPEN_LOOP_SET dst src = BITINSERT dst src 1 30"
definition FLL_CONF2_OPEN_LOOP :: "u32 \<Rightarrow> u32" where "FLL_CONF2_OPEN_LOOP value = push_bit 30 value"
definition FLL_CONF2_DITHER_GET :: "u32 \<Rightarrow> u32" where "FLL_CONF2_DITHER_GET value = drop_bit 31 value AND 0x1"
definition FLL_CONF2_DITHER_SET :: "u32 \<Rightarrow> u32 \<Rightarrow> u32" where "FLL_CONF2_DITHER_SET dst src = BITINSERT dst src 1 31"
definition FLL_CONF2_DITHER :: "u32 \<Rightarrow> u32" where "FLL_CONF2_DITHER value = push_bit 31 value"
definition FLL_INTEGRATOR_FRACT_GET :: "u32 \<Rightarrow> u32" where "FLL_INTEGRATOR_FRACT_GET value = drop_bit 6 value AND 0x3FF"
definition FLL_INTEGRATOR_FRACT_SET :: "u32 \<Rightarrow> u32 \<Rightarrow> u32" where "FLL_INTEGRATOR_FRACT_SET dst src = BITINSERT dst src 6 10"
definition FLL_INTEGRATOR_FRACT :: "u32 \<Rightarrow> u32" where "FLL_INTEGRATOR_FRACT value = push_bit 6 value"
definition FLL_INTEGRATOR_INT_GET :: "u32 \<Rightarrow> u32" where "FLL_INTEGRATOR_INT_GET value = drop_bit 16 value AND 0x3FF"
definition FLL_INTEGRATOR_INT_SET :: "u32 \<Rightarrow> u32 \<Rightarrow> u32" where "FLL_INTEGRATOR_INT_SET dst src = BITINSERT dst src 16 10"
definition FLL_INTEGRATOR_INT :: "u32 \<Rightarrow> u32" where "FLL_INTEGRATOR_INT value = push_bit 16 value"

lemmas fll_macros = FLL_STATUS_MULT_FACTOR_GET_def FLL_STATUS_MULT_FACTOR_def FLL_CONF1_MODE_GET_def
  FLL_CONF1_MODE_SET_def FLL_CONF1_MODE_def FLL_CONF1_LOCK_GET_def FLL_CONF1_LOCK_SET_def FLL_CONF1_LOCK_def
  FLL_CONF1_DIV_GET_def FLL_CONF1_DIV_SET_def FLL_CONF1_DIV_def FLL_CONF1_DCO_GET_def FLL_CONF1_DCO_SET_def
  FLL_CONF1_DCO_def FLL_CONF1_MULT_FACTOR_GET_def FLL_CONF1_MULT_FACTOR_SET_def FLL_CONF1_MULT_FACTOR_def
  FLL_CONF2_GAIN_GET_def FLL_CONF2_GAIN_SET_def FLL_CONF2_GAIN_def FLL_CONF2_ASSERT_CYCLES_GET_def
  FLL_CONF2_ASSERT_CYCLES_SET_def FLL_CONF2_ASSERT_CYCLES_def FLL_CONF2_DEASSERT_CYCLES_GET_def
  FLL_CONF2_DEASSERT_CYCLES_SET_def FLL_CONF2_DEASSERT_CYCLES_def FLL_CONF2_TOLERANCE_GET_def
  FLL_CONF2_TOLERANCE_SET_def FLL_CONF2_TOLERANCE_def FLL_CONF2_STA_CLOCK_GET_def FLL_CONF2_STA_CLOCK_SET_def
  FLL_CONF2_STA_CLOCK_def FLL_CONF2_OPEN_LOOP_GET_def FLL_CONF2_OPEN_LOOP_SET_def FLL_CONF2_OPEN_LOOP_def
  FLL_CONF2_DITHER_GET_def FLL_CONF2_DITHER_SET_def FLL_CONF2_DITHER_def FLL_INTEGRATOR_FRACT_GET_def
  FLL_INTEGRATOR_FRACT_SET_def FLL_INTEGRATOR_FRACT_def FLL_INTEGRATOR_INT_GET_def FLL_INTEGRATOR_INT_SET_def
  FLL_INTEGRATOR_INT_def

section \<open>Access\<close>

datatype hal_fll_e = FLL_SOC | FLL_CLUSTER

datatype hal_fll_config_e = FLL_CONFIG1 | FLL_CONFIG2 | FLL_INTEGRATOR

fun fll_config_code :: "hal_fll_config_e \<Rightarrow> u32" where
  "fll_config_code FLL_CONFIG1 = 0"
| "fll_config_code FLL_CONFIG2 = 1"
| "fll_config_code FLL_INTEGRATOR = 2"

definition N_FLL :: nat where "N_FLL = 2"

definition fll_addr :: "u32 \<Rightarrow> u32" where
  "fll_addr fll = ARCHI_SOC_PERIPHERALS_ADDR + ARCHI_FLL_OFFSET + fll * ARCHI_FLL_AREA_SIZE"

definition fll_status_set ::
  "'e pulp_bus \<Rightarrow> u32 \<Rightarrow> u32 \<Rightarrow> ('e, 'z) machine_scheme \<Rightarrow> ('e, 'z) machine_scheme" where
  "fll_status_set b base value = IP_WRITE b base FLL_STATUS_OFFSET value"

definition fll_status_get ::
  "'e pulp_bus \<Rightarrow> u32 \<Rightarrow> ('e, 'z) machine_scheme \<Rightarrow> u32 \<times> ('e, 'z) machine_scheme" where
  "fll_status_get b base = IP_READ b base FLL_STATUS_OFFSET"

definition fll_conf1_set ::
  "'e pulp_bus \<Rightarrow> u32 \<Rightarrow> u32 \<Rightarrow> ('e, 'z) machine_scheme \<Rightarrow> ('e, 'z) machine_scheme" where
  "fll_conf1_set b base value = IP_WRITE b base FLL_CONF1_OFFSET value"

definition fll_conf1_get ::
  "'e pulp_bus \<Rightarrow> u32 \<Rightarrow> ('e, 'z) machine_scheme \<Rightarrow> u32 \<times> ('e, 'z) machine_scheme" where
  "fll_conf1_get b base = IP_READ b base FLL_CONF1_OFFSET"

definition fll_conf2_set ::
  "'e pulp_bus \<Rightarrow> u32 \<Rightarrow> u32 \<Rightarrow> ('e, 'z) machine_scheme \<Rightarrow> ('e, 'z) machine_scheme" where
  "fll_conf2_set b base value = IP_WRITE b base FLL_CONF2_OFFSET value"

definition fll_conf2_get ::
  "'e pulp_bus \<Rightarrow> u32 \<Rightarrow> ('e, 'z) machine_scheme \<Rightarrow> u32 \<times> ('e, 'z) machine_scheme" where
  "fll_conf2_get b base = IP_READ b base FLL_CONF2_OFFSET"

definition GetFllStatus ::
  "'e pulp_bus \<Rightarrow> u32 \<Rightarrow> ('e, 'z) machine_scheme \<Rightarrow> u32 \<times> ('e, 'z) machine_scheme" where
  "GetFllStatus b Fll = IP_READ b ARCHI_SOC_PERIPHERALS_ADDR FLL_STATUS_OFFSET"

definition GetFllConfiguration ::
  "'e pulp_bus \<Rightarrow> u32 \<Rightarrow> hal_fll_config_e \<Rightarrow> ('e, 'z) machine_scheme \<Rightarrow> u32 \<times> ('e, 'z) machine_scheme" where
  "GetFllConfiguration b Fll Reg = 
     IP_READ b ARCHI_SOC_PERIPHERALS_ADDR (FLL_CONF1_OFFSET + fll_config_code Reg * 4 + Fll * ARCHI_FLL_AREA_SIZE)"

definition SetFllConfiguration ::
  "'e pulp_bus \<Rightarrow> u32 \<Rightarrow> hal_fll_config_e \<Rightarrow> u32 \<Rightarrow> ('e, 'z) machine_scheme \<Rightarrow> ('e, 'z) machine_scheme" where
  "SetFllConfiguration b Fll Reg Value = 
     IP_WRITE b ARCHI_SOC_PERIPHERALS_ADDR (FLL_CONF1_OFFSET + fll_config_code Reg * 4 + Fll * ARCHI_FLL_AREA_SIZE) Value"

definition hal_fll_status_reg_get ::
  "'e pulp_bus \<Rightarrow> u32 \<Rightarrow> ('e, 'z) machine_scheme \<Rightarrow> u32 \<times> ('e, 'z) machine_scheme" where
  "hal_fll_status_reg_get b fll = IP_READ b ARCHI_SOC_PERIPHERALS_ADDR (FLL_STATUS_OFFSET + fll * ARCHI_FLL_AREA_SIZE)"

definition hal_fll_conf_reg1_set ::
  "'e pulp_bus \<Rightarrow> u32 \<Rightarrow> u32 \<Rightarrow> ('e, 'z) machine_scheme \<Rightarrow> ('e, 'z) machine_scheme" where
  "hal_fll_conf_reg1_set b fll value = 
     IP_WRITE b ARCHI_SOC_PERIPHERALS_ADDR (FLL_CONF1_OFFSET + fll * ARCHI_FLL_AREA_SIZE) value"

definition hal_fll_conf_reg1_get ::
  "'e pulp_bus \<Rightarrow> u32 \<Rightarrow> ('e, 'z) machine_scheme \<Rightarrow> u32 \<times> ('e, 'z) machine_scheme" where
  "hal_fll_conf_reg1_get b fll = IP_READ b ARCHI_SOC_PERIPHERALS_ADDR (FLL_CONF1_OFFSET + fll * ARCHI_FLL_AREA_SIZE)"

definition hal_fll_conf_reg2_set ::
  "'e pulp_bus \<Rightarrow> u32 \<Rightarrow> u32 \<Rightarrow> ('e, 'z) machine_scheme \<Rightarrow> ('e, 'z) machine_scheme" where
  "hal_fll_conf_reg2_set b fll value = 
     IP_WRITE b ARCHI_SOC_PERIPHERALS_ADDR (FLL_CONF2_OFFSET + fll * ARCHI_FLL_AREA_SIZE) value"

definition hal_fll_conf_reg2_get ::
  "'e pulp_bus \<Rightarrow> u32 \<Rightarrow> ('e, 'z) machine_scheme \<Rightarrow> u32 \<times> ('e, 'z) machine_scheme" where
  "hal_fll_conf_reg2_get b fll = IP_READ b ARCHI_SOC_PERIPHERALS_ADDR (FLL_CONF2_OFFSET + fll * ARCHI_FLL_AREA_SIZE)"

definition hal_fll_integrator_set ::
  "'e pulp_bus \<Rightarrow> u32 \<Rightarrow> u32 \<Rightarrow> ('e, 'z) machine_scheme \<Rightarrow> ('e, 'z) machine_scheme" where
  "hal_fll_integrator_set b fll value = 
     IP_WRITE b ARCHI_SOC_PERIPHERALS_ADDR (FLL_INTEGRATOR_OFFSET + fll * ARCHI_FLL_AREA_SIZE) value"

definition hal_fll_integrator_get ::
  "'e pulp_bus \<Rightarrow> u32 \<Rightarrow> ('e, 'z) machine_scheme \<Rightarrow> u32 \<times> ('e, 'z) machine_scheme" where
  "hal_fll_integrator_get b fll = IP_READ b ARCHI_SOC_PERIPHERALS_ADDR (FLL_INTEGRATOR_OFFSET + fll * ARCHI_FLL_AREA_SIZE)"

definition hal_fll_update_mult_div ::
  "'e pulp_bus \<Rightarrow> u32 \<Rightarrow> u32 \<Rightarrow> u32 \<Rightarrow> ('e, 'z) machine_scheme \<Rightarrow> ('e, 'z) machine_scheme" where
  "hal_fll_update_mult_div b fll mult dv s =
     (case hal_fll_conf_reg1_get b fll s of (v, s) \<Rightarrow>
        let reg = conf1_of_raw v;
            reg = reg\<lparr>mult_factor := ucast mult\<rparr>;
            reg = reg\<lparr>clock_out_divider := ucast dv\<rparr>
        in hal_fll_conf_reg1_set b fll (conf1_raw reg) s)"

section \<open>Fields that the macros read and write consistently\<close>

lemma fll_field:
  assumes "off + width \<le> 32" and "\<And>x. get x = drop_bit off x AND mask width" and "put = (\<lambda>x v. BITINSERT x v width off)"
  shows "reg_field get put off width"
  unfolding assms(3) using reg_field.put_bit [OF emu_field [OF assms(1)]]
  by unfold_locales (simp_all add: assms(1,2) take_bit_eq_mask)

lemma masks: "mask 1 = (1 :: u32)" "mask 4 = (0xF :: u32)" "mask 6 = (0x3F :: u32)" "mask 12 = (0xFFF :: u32)"
  by (simp_all add: mask_eq_exp_minus_1)

interpretation fll_gain: reg_field FLL_CONF2_GAIN_GET FLL_CONF2_GAIN_SET 0 4
  by (rule fll_field) (simp_all add: fll_macros masks fun_eq_iff)

interpretation fll_tolerance: reg_field FLL_CONF2_TOLERANCE_GET FLL_CONF2_TOLERANCE_SET 16 12
  by (rule fll_field) (simp_all add: fll_macros masks fun_eq_iff)

interpretation fll_sta_clock: reg_field FLL_CONF2_STA_CLOCK_GET FLL_CONF2_STA_CLOCK_SET 29 1
  by (rule fll_field) (simp_all add: fll_macros masks fun_eq_iff)

interpretation fll_open_loop: reg_field FLL_CONF2_OPEN_LOOP_GET FLL_CONF2_OPEN_LOOP_SET 30 1
  by (rule fll_field) (simp_all add: fll_macros masks fun_eq_iff)

interpretation fll_dither: reg_field FLL_CONF2_DITHER_GET FLL_CONF2_DITHER_SET 31 1
  by (rule fll_field) (simp_all add: fll_macros masks fun_eq_iff)

section \<open>Properties\<close>

lemma bit_beyond:
  fixes x :: "'a :: len word"
  shows "LENGTH('a) \<le> k \<Longrightarrow> \<not> bit x k"
  using bit_imp_le_length [of x k] by auto

lemma conf1_bits:
  "bit (conf1_raw r) n \<longleftrightarrow>
     (if n < 16 then bit (mult_factor r) n
      else if n < 26 then bit (dco_input r) (n - 16)
      else if n < 30 then bit (clock_out_divider r) (n - 26)
      else if n = 30 then bit (output_lock_enable r) 0
      else n = 31 \<and> bit (fll_mode r) 0)"
  by (auto simp: conf1_raw_def bit_simps dest: bit_imp_le_length)

lemma fll_update_at:
  assumes "hal_fll_conf_reg1_get b fll s = (v, s1)"
  shows "\<exists>v'. hal_fll_update_mult_div b fll mult dv s = hal_fll_conf_reg1_set b fll v' s1 \<and>
    FLL_CONF1_MULT_FACTOR_GET v' = take_bit 16 mult \<and> FLL_CONF1_DIV_GET v' = take_bit 4 dv \<and>
    FLL_CONF1_DCO_GET v' = FLL_CONF1_DCO_GET v \<and> drop_bit 30 v' = drop_bit 30 v"
proof (intro exI conjI)
  let ?v = "conf1_raw (conf1_of_raw v\<lparr>mult_factor := ucast mult, clock_out_divider := ucast dv\<rparr>)"
  show "hal_fll_update_mult_div b fll mult dv s = hal_fll_conf_reg1_set b fll ?v s1"
    using assms by (simp add: hal_fll_update_mult_div_def Let_def)
  have b: "bit ?v n \<longleftrightarrow> (if n < 16 then bit mult n else if n < 26 then bit v n else if n < 30 then bit dv (n - 26) else bit v n)" for n
  proof (cases "n < 32")
    case True
    then have "n < 30 \<or> n = 30 \<or> n = 31" by arith
    then show ?thesis by (elim disjE) (auto simp: conf1_bits conf1_of_raw_def bit_simps)
  next
    case False
    then have "\<not> bit v n" "\<not> bit ?v n" by (auto dest: bit_imp_le_length)
    with False show ?thesis by simp
  qed
  have m: "drop_bit k x AND mask w = take_bit w (drop_bit k x)" for k w and x :: u32
    by (simp add: take_bit_eq_mask)
  have masks': "(0xFFFF :: u32) = mask 16" "(0x3FF :: u32) = mask 10" "(0xF :: u32) = mask 4"
    by (simp_all add: mask_eq_exp_minus_1)
  show "FLL_CONF1_MULT_FACTOR_GET ?v = take_bit 16 mult"
    unfolding FLL_CONF1_MULT_FACTOR_GET_def masks' m by (intro bit_word_eqI) (auto simp: bit_simps b)
  show "FLL_CONF1_DIV_GET ?v = take_bit 4 dv"
    unfolding FLL_CONF1_DIV_GET_def masks' m by (intro bit_word_eqI) (auto simp: bit_simps b)
  show "FLL_CONF1_DCO_GET ?v = FLL_CONF1_DCO_GET v"
    unfolding FLL_CONF1_DCO_GET_def masks' m by (intro bit_word_eqI) (auto simp: bit_simps b)
  show "drop_bit 30 ?v = drop_bit 30 v"
    by (intro bit_word_eqI) (auto simp: bit_simps b)
qed

text \<open>
  C28. Updating the multiplier and the divider of an FLL writes its first configuration register once,
  with the two fields replaced by the low bits of the arguments and every other field as it was read.
\<close>

theorem fll_update_keeps_fields:
  "\<exists>v'. hal_fll_update_mult_div b fll mult dv s = hal_fll_conf_reg1_set b fll v' (snd (hal_fll_conf_reg1_get b fll s)) \<and>
    FLL_CONF1_MULT_FACTOR_GET v' = take_bit 16 mult \<and> FLL_CONF1_DIV_GET v' = take_bit 4 dv \<and>
    FLL_CONF1_DCO_GET v' = FLL_CONF1_DCO_GET (fst (hal_fll_conf_reg1_get b fll s)) \<and>
    drop_bit 30 v' = drop_bit 30 (fst (hal_fll_conf_reg1_get b fll s))"
  by (rule fll_update_at) simp

text \<open>
  Field macros that do not do what they are for: setting the lock, the divider or the multiplier
  is lost to the matching reader (size and offset of the insertion are swapped, the last one inserts
  no bit at all), the mode is read from bit 16 instead of 31, and the assert and de-assert cycles are
  taken from each other's place in the register.
\<close>

theorem fll_field_macros_disagree:
  "FLL_CONF1_LOCK_GET (FLL_CONF1_LOCK_SET 0 1) = 0 \<and> FLL_CONF1_DIV_GET (FLL_CONF1_DIV_SET 0 1) = 0 \<and>
   FLL_CONF1_MULT_FACTOR_SET dst src = dst \<and> FLL_CONF1_MODE_GET (FLL_CONF1_MODE_SET 0 1) = 0 \<and>
   FLL_CONF2_ASSERT_CYCLES_GET (conf2_raw r) = ucast (de_assert_cycles r) \<and>
   FLL_CONF2_DEASSERT_CYCLES_GET (conf2_raw r) = ucast (assert_cycles r)"
proof (intro conjI)
  have six: "bit x n \<Longrightarrow> n < 6" for x :: "6 word" and n
    using bit_imp_le_length [of x n] by simp
  have place: "n < 6 \<Longrightarrow> bit (conf2_raw r) (4 + n) = bit (de_assert_cycles r) n"
    "n < 6 \<Longrightarrow> bit (conf2_raw r) (10 + n) = bit (assert_cycles r) n" for n
    by (simp_all add: conf2_raw_def bit_simps bit_beyond)
  show "FLL_CONF2_ASSERT_CYCLES_GET (conf2_raw r) = ucast (de_assert_cycles r)"
    unfolding FLL_CONF2_ASSERT_CYCLES_GET_def masks(3) [symmetric]
    by (rule bit_word_eqI, rename_tac n, case_tac "n < 6") (auto simp: bit_simps place dest: six)
  show "FLL_CONF2_DEASSERT_CYCLES_GET (conf2_raw r) = ucast (assert_cycles r)"
    unfolding FLL_CONF2_DEASSERT_CYCLES_GET_def masks(3) [symmetric]
    by (rule bit_word_eqI, rename_tac n, case_tac "n < 6") (auto simp: bit_simps place dest: six)
  show "FLL_CONF1_MULT_FACTOR_SET dst src = dst" by (simp add: fll_macros BITINSERT_def field_ones_def)
  show "FLL_CONF1_LOCK_GET (FLL_CONF1_LOCK_SET 0 1) = 0" by (simp add: fll_macros BITINSERT_def field_ones_def)
  show "FLL_CONF1_DIV_GET (FLL_CONF1_DIV_SET 0 1) = 0" by (simp add: fll_macros BITINSERT_def field_ones_def)
  show "FLL_CONF1_MODE_GET (FLL_CONF1_MODE_SET 0 1) = 0" by (simp add: fll_macros BITINSERT_def field_ones_def)
qed

end
