(* ===== verification/Riscv_Csr.thy ===== *)
theory Riscv_Csr
  imports Pulp_Io
begin

text \<open>
  The processor's own registers: the register numbers of \<^verbatim>\<open>archi/riscv/priv_1_10.h\<close>, the events of
  \<^verbatim>\<open>archi/riscv/pcer_v2.h\<close> and the routines of \<^verbatim>\<open>hal/riscv/riscv_v5.h\<close> for the identification of the
  core, the performance counters and the stack check. The configuration is that of PULPissimo:
  neither \<^verbatim>\<open>ARCHI_HAS_FC\<close> nor \<^verbatim>\<open>PLP_NO_PERF_COUNTERS\<close> is defined, and the builtin functions of the PULP
  compiler are not used for register accesses.
\<close>

section \<open>Register numbers\<close>

definition RV_CSR_MSTATUS :: u32 where "RV_CSR_MSTATUS = 0x300"
definition RV_CSR_MEPC :: u32 where "RV_CSR_MEPC = 0x341"
definition RV_CSR_MCAUSE :: u32 where "RV_CSR_MCAUSE = 0x342"
definition RV_CSR_MTVAL :: u32 where "RV_CSR_MTVAL = 0x343"
definition RV_CSR_MESTATUS :: u32 where "RV_CSR_MESTATUS = 0x7C0"
definition RV_CSR_MISA :: u32 where "RV_CSR_MISA = 0xF10"
definition RV_CSR_MIMPID :: u32 where "RV_CSR_MIMPID = 0xF13"
definition RV_CSR_MHARTID :: u32 where "RV_CSR_MHARTID = 0xF14"
definition CSR_PCER :: u32 where "CSR_PCER = 0xCC0"
definition CSR_PCMR :: u32 where "CSR_PCMR = 0xCC1"
definition CSR_STACK_CONF :: u32 where "CSR_STACK_CONF = 0x7D0"
definition CSR_STACK_START :: u32 where "CSR_STACK_START = 0x7D1"
definition CSR_STACK_END :: u32 where "CSR_STACK_END = 0x7D2"
definition CSR_MESTATUS_INTEN_BIT :: u32 where "CSR_MESTATUS_INTEN_BIT = 0"
definition CSR_MESTATUS_PRV_BIT :: u32 where "CSR_MESTATUS_PRV_BIT = 1"
definition CSR_MESTATUS_PRV_MACH :: u32 where "CSR_MESTATUS_PRV_MACH = 3"
definition CSR_HWLOOP0_START :: u32 where "CSR_HWLOOP0_START = 0x7C0"
definition CSR_HWLOOP0_END :: u32 where "CSR_HWLOOP0_END = 0x7C1"
definition CSR_HWLOOP0_COUNTER :: u32 where "CSR_HWLOOP0_COUNTER = 0x7C2"
definition CSR_HWLOOP1_START :: u32 where "CSR_HWLOOP1_START = 0x7C4"
definition CSR_HWLOOP1_END :: u32 where "CSR_HWLOOP1_END = 0x7C5"
definition CSR_HWLOOP1_COUNTER :: u32 where "CSR_HWLOOP1_COUNTER = 0x7C6"
definition CSR_PCCR :: "u32 \<Rightarrow> u32" where "CSR_PCCR N = 0x780 + N"

lemmas csr_numbers = RV_CSR_MSTATUS_def RV_CSR_MEPC_def RV_CSR_MCAUSE_def RV_CSR_MTVAL_def RV_CSR_MESTATUS_def
  RV_CSR_MISA_def RV_CSR_MIMPID_def RV_CSR_MHARTID_def CSR_PCER_def CSR_PCMR_def CSR_STACK_CONF_def
  CSR_STACK_START_def CSR_STACK_END_def CSR_MESTATUS_INTEN_BIT_def CSR_MESTATUS_PRV_BIT_def
  CSR_MESTATUS_PRV_MACH_def CSR_HWLOOP0_START_def CSR_HWLOOP0_END_def CSR_HWLOOP0_COUNTER_def
  CSR_HWLOOP1_START_def CSR_HWLOOP1_END_def CSR_HWLOOP1_COUNTER_def CSR_PCCR_def

section \<open>Events\<close>

definition CSR_PCER_CYCLES :: u32 where "CSR_PCER_CYCLES = 0"
definition CSR_PCER_INSTR :: u32 where "CSR_PCER_INSTR = 1"
definition CSR_PCER_LD_STALL :: u32 where "CSR_PCER_LD_STALL = 2"
definition CSR_PCER_JMP_STALL :: u32 where "CSR_PCER_JMP_STALL = 3"
definition CSR_PCER_IMISS :: u32 where "CSR_PCER_IMISS = 4"
definition CSR_PCER_LD :: u32 where "CSR_PCER_LD = 5"
definition CSR_PCER_ST :: u32 where "CSR_PCER_ST = 6"
definition CSR_PCER_JUMP :: u32 where "CSR_PCER_JUMP = 7"
definition CSR_PCER_BRANCH :: u32 where "CSR_PCER_BRANCH = 8"
definition CSR_PCER_TAKEN_BRANCH :: u32 where "CSR_PCER_TAKEN_BRANCH = 9"
definition CSR_PCER_RVC :: u32 where "CSR_PCER_RVC = 10"
definition CSR_PCER_ELW :: u32 where "CSR_PCER_ELW = 11"
definition CSR_PCER_LD_EXT :: u32 where "CSR_PCER_LD_EXT = 12"
definition CSR_PCER_ST_EXT :: u32 where "CSR_PCER_ST_EXT = 13"
definition CSR_PCER_LD_EXT_CYC :: u32 where "CSR_PCER_LD_EXT_CYC = 14"
definition CSR_PCER_ST_EXT_CYC :: u32 where "CSR_PCER_ST_EXT_CYC = 15"
definition CSR_PCER_TCDM_CONT :: u32 where "CSR_PCER_TCDM_CONT = 16"
definition CSR_PCER_NB_EVENTS :: u32 where "CSR_PCER_NB_EVENTS = 17"
definition CSR_PCER_NB_INTERNAL_EVENTS :: u32 where "CSR_PCER_NB_INTERNAL_EVENTS = 12"
definition CSR_NB_PCCR :: u32 where "CSR_NB_PCCR = 31"
definition CSR_PCER_ALL_EVENTS_MASK :: u32 where "CSR_PCER_ALL_EVENTS_MASK = 0xffffffff"
definition CSR_PCMR_ACTIVE :: u32 where "CSR_PCMR_ACTIVE = 0x1"
definition CSR_PCMR_SATURATE :: u32 where "CSR_PCMR_SATURATE = 0x2"

lemmas pcer_events = CSR_PCER_CYCLES_def CSR_PCER_INSTR_def CSR_PCER_LD_STALL_def CSR_PCER_JMP_STALL_def
  CSR_PCER_IMISS_def CSR_PCER_LD_def CSR_PCER_ST_def CSR_PCER_JUMP_def CSR_PCER_BRANCH_def
  CSR_PCER_TAKEN_BRANCH_def CSR_PCER_RVC_def CSR_PCER_ELW_def CSR_PCER_LD_EXT_def CSR_PCER_ST_EXT_def
  CSR_PCER_LD_EXT_CYC_def CSR_PCER_ST_EXT_CYC_def CSR_PCER_TCDM_CONT_def CSR_PCER_NB_EVENTS_def
  CSR_PCER_NB_INTERNAL_EVENTS_def CSR_NB_PCCR_def CSR_PCER_ALL_EVENTS_MASK_def CSR_PCMR_ACTIVE_def
  CSR_PCMR_SATURATE_def

definition CSR_PCER_EVENT_MASK :: "u32 \<Rightarrow> u32" where "CSR_PCER_EVENT_MASK eventId = push_bit (unat eventId) 1"

definition CSR_PCER_NAME :: "u32 \<Rightarrow> string" where
  "CSR_PCER_NAME i = (if i = 0 then ''Cycles'' else if i = 1 then ''Instructions'' else if i = 2 then
     ''LD_Stall'' else if i = 3 then ''Jmp_Stall'' else if i = 4 then ''IMISS'' else if i = 5 then ''LD'' else if
     i = 6 then ''ST'' else if i = 7 then ''JUMP'' else if i = 8 then ''BRANCH'' else if i = 9 then
     ''TAKEN_BRANCH'' else if i = 10 then ''RVC'' else if i = 11 then ''ELW'' else if i = 12 then ''LD_EXT'' else
     if i = 13 then ''ST_EXT'' else if i = 14 then ''LD_EXT_CYC'' else if i = 15 then ''ST_EXT_CYC'' else if i =
     16 then ''TCDM_CONT'' else ''NA'')"

section \<open>Identification\<close>

definition hal_spr_read_then_clr_from_reg ::
  "'e pulp_bus \<Rightarrow> u32 \<Rightarrow> u32 \<Rightarrow> ('e, 'z) machine_scheme \<Rightarrow> u32 \<times> ('e, 'z) machine_scheme" where
  "hal_spr_read_then_clr_from_reg b reg val s =
     (case rd b (Csr reg) s of (v, s) \<Rightarrow> (v, wr b (Csr reg) (v AND NOT val) s))"

definition hal_spr_read_then_set_from_reg ::
  "'e pulp_bus \<Rightarrow> u32 \<Rightarrow> u32 \<Rightarrow> ('e, 'z) machine_scheme \<Rightarrow> u32 \<times> ('e, 'z) machine_scheme" where
  "hal_spr_read_then_set_from_reg b reg val s =
     (case rd b (Csr reg) s of (v, s) \<Rightarrow> (v, wr b (Csr reg) (v OR val) s))"

definition hal_mepc_read :: "'e pulp_bus \<Rightarrow> ('e, 'z) machine_scheme \<Rightarrow> u32 \<times> ('e, 'z) machine_scheme" where
  "hal_mepc_read b = hal_spr_read b RV_CSR_MEPC"

definition core_id :: "'e pulp_bus \<Rightarrow> ('e, 'z) machine_scheme \<Rightarrow> u32 \<times> ('e, 'z) machine_scheme" where
  "core_id b s = (case rd b (Csr 0xF14) s of (hart_id, s) \<Rightarrow> (hart_id AND 0x01F, s))"

text \<open>The identifier is a signed int, so the shift copies its sign; the mask removes the copies.\<close>

definition cluster_id :: "'e pulp_bus \<Rightarrow> ('e, 'z) machine_scheme \<Rightarrow> u32 \<times> ('e, 'z) machine_scheme" where
  "cluster_id b s = (case rd b (Csr 0xF14) s of (hart_id, s) \<Rightarrow> (signed_drop_bit 5 hart_id AND 0x3F, s))"

definition hal_core_id :: "'e pulp_bus \<Rightarrow> ('e, 'z) machine_scheme \<Rightarrow> u32 \<times> ('e, 'z) machine_scheme" where
  "hal_core_id b = core_id b"

definition hal_has_fc :: u32 where "hal_has_fc = 0"
definition hal_is_fc :: u32 where "hal_is_fc = 0"

section \<open>Performance counters\<close>

definition PCER_NB_EVENTS :: u32 where "PCER_NB_EVENTS = CSR_PCER_NB_EVENTS"
definition PCER_ALL_EVENTS_MASK :: u32 where "PCER_ALL_EVENTS_MASK = CSR_PCER_ALL_EVENTS_MASK"
definition PCMR_ACTIVE :: u32 where "PCMR_ACTIVE = CSR_PCMR_ACTIVE"
definition PCMR_SATURATE :: u32 where "PCMR_SATURATE = CSR_PCMR_SATURATE"

definition cpu_perf_conf_events :: "'e pulp_bus \<Rightarrow> u32 \<Rightarrow> ('e, 'z) machine_scheme \<Rightarrow> ('e, 'z) machine_scheme" where
  "cpu_perf_conf_events b eventMask = wr b (Csr 0xCC0) eventMask"

definition cpu_perf_conf_events_get :: "'e pulp_bus \<Rightarrow> ('e, 'z) machine_scheme \<Rightarrow> u32 \<times> ('e, 'z) machine_scheme" where
  "cpu_perf_conf_events_get b = rd b (Csr 0xCC0)"

definition cpu_perf_conf :: "'e pulp_bus \<Rightarrow> u32 \<Rightarrow> ('e, 'z) machine_scheme \<Rightarrow> ('e, 'z) machine_scheme" where
  "cpu_perf_conf b confMask = wr b (Csr 0xCC1) confMask"

definition cpu_perf_start :: "'e pulp_bus \<Rightarrow> u32 \<Rightarrow> ('e, 'z) machine_scheme \<Rightarrow> ('e, 'z) machine_scheme" where
  "cpu_perf_start b conf = cpu_perf_conf b (conf OR CSR_PCMR_ACTIVE)"

definition cpu_perf_stop :: "'e pulp_bus \<Rightarrow> u32 \<Rightarrow> ('e, 'z) machine_scheme \<Rightarrow> ('e, 'z) machine_scheme" where
  "cpu_perf_stop b conf = cpu_perf_conf b conf"

definition cpu_perf_set :: "u32 \<Rightarrow> u32 \<Rightarrow> ('e, 'z) machine_scheme \<Rightarrow> ('e, 'z) machine_scheme" where
  "cpu_perf_set counterId value s = s"

definition cpu_perf_setall :: "'e pulp_bus \<Rightarrow> u32 \<Rightarrow> ('e, 'z) machine_scheme \<Rightarrow> ('e, 'z) machine_scheme" where
  "cpu_perf_setall b value = wr b (Csr 0x79F) value"

text \<open>The 31 cases of the switch read consecutive registers; any other counter reads as 0.\<close>

definition cpu_perf_get ::
  "'e pulp_bus \<Rightarrow> u32 \<Rightarrow> ('e, 'z) machine_scheme \<Rightarrow> u32 \<times> ('e, 'z) machine_scheme" where
  "cpu_perf_get b counterId s = (if counterId \<le> 30 then rd b (Csr (0x780 + counterId)) s else (0, s))"

text \<open>A null pointer is None.\<close>

definition cpu_perf_name :: "u32 \<Rightarrow> string option" where
  "cpu_perf_name event = (if event = 0 then Some ''CYCLES'' else if event = 1 then Some ''INSTR'' else if
     event = 2 then Some ''LD_STALL'' else if event = 3 then Some ''JMP_STALL'' else if event = 4 then Some
     ''IMISS'' else if event = 5 then Some ''LD'' else if event = 6 then Some ''ST'' else if event = 7 then Some
     ''JUMP'' else if event = 8 then Some ''BRANCH'' else if event = 9 then Some ''TAKEN_BRANCH'' else if event =
     10 then Some ''RVC'' else if event = 11 then Some ''LD_EXT'' else if event = 12 then Some ''ST_EXT'' else if
     event = 13 then Some ''LD_EXT_CYC'' else if event = 14 then Some ''ST_EXT_CYC'' else if event = 15 then Some
     ''TCDM_CONT'' else None)"

section \<open>Stack check\<close>

definition cpu_stack_check_enable ::
  "'e pulp_bus \<Rightarrow> u32 \<Rightarrow> u32 \<Rightarrow> ('e, 'z) machine_scheme \<Rightarrow> ('e, 'z) machine_scheme" where
  "cpu_stack_check_enable b base limit s =
     (let s = wr b (Csr 0x7D0) 0 s;
          s = wr b (Csr 0x7D1) base s;
          s = wr b (Csr 0x7D2) limit s
      in wr b (Csr 0x7D0) 1 s)"

definition cpu_stack_check_disable :: "'e pulp_bus \<Rightarrow> ('e, 'z) machine_scheme \<Rightarrow> ('e, 'z) machine_scheme" where
  "cpu_stack_check_disable b = wr b (Csr 0x7D0) 0"

section \<open>Contract of the register file\<close>

text \<open>
  The registers hold what was last written to them, and writing all counters at once gives every
  counter the value.
\<close>

locale csr_file =
  fixes b :: "'e pulp_bus" and csr :: "'e \<Rightarrow> u32 \<Rightarrow> u32"
  assumes rd_csr: "bus_rd b (Csr r) (m, e) = (csr e r, m, e)"
    and wr_csr: "r \<noteq> 0x79F \<Longrightarrow> \<exists>e'. bus_wr b (Csr r) v (m, e) = (m, e') \<and> csr e' = (csr e)(r := v)"
    and wr_all: "\<exists>e'. bus_wr b (Csr 0x79F) v (m, e) = (m, e') \<and>
      csr e' = (\<lambda>r. if 0x780 \<le> r \<and> r < 0x79F then v else csr e r)"
begin

lemma read: "rd b (Csr r) s = (csr (ext s) r, s)"
  by (simp add: rd_def rd_csr)

lemma written: "r \<noteq> 0x79F \<Longrightarrow> csr (ext (wr b (Csr r) v s)) = (csr (ext s))(r := v)"
  using wr_csr [of r v "ram s" "ext s"] by (auto simp: wr_def)

lemma written_all: "csr (ext (wr b (Csr 0x79F) v s)) = (\<lambda>r. if 0x780 \<le> r \<and> r < 0x79F then v else csr (ext s) r)"
  using wr_all [of v "ram s" "ext s"] by (auto simp: wr_def)

lemma counter_range: "i \<le> 30 \<Longrightarrow> 0x780 \<le> 0x780 + i \<and> 0x780 + i < (0x79F :: u32)"
  by (simp add: word_le_nat_alt word_less_nat_alt unat_add_lem [THEN iffD1])

lemma counters_set: "fst (cpu_perf_get b i (cpu_perf_setall b v s)) = (if i \<le> 30 then v else 0)"
  using counter_range by (simp add: cpu_perf_get_def cpu_perf_setall_def read written_all)

lemma single_set_ignored: "fst (cpu_perf_get b i (cpu_perf_set j v s)) = fst (cpu_perf_get b i s)"
  by (simp add: cpu_perf_set_def)

lemma stack_checked:
  "csr (ext (cpu_stack_check_enable b base limit s)) = (csr (ext s))(0x7D1 := base, 0x7D2 := limit, 0x7D0 := 1)"
  by (simp add: cpu_stack_check_enable_def written fun_eq_iff)

end

text \<open>A register file as a function satisfies the contract.\<close>

definition csr_rd :: "pulp_loc \<Rightarrow> mem \<times> (u32 \<Rightarrow> u32) \<Rightarrow> u32 \<times> (mem \<times> (u32 \<Rightarrow> u32))" where
  "csr_rd l me = (case l of Csr r \<Rightarrow> (snd me r, me) | _ \<Rightarrow> (0, me))"

definition csr_wr :: "pulp_loc \<Rightarrow> u32 \<Rightarrow> mem \<times> (u32 \<Rightarrow> u32) \<Rightarrow> mem \<times> (u32 \<Rightarrow> u32)" where
  "csr_wr l v me = (case me of (m, f) \<Rightarrow> (case l of
     Csr r \<Rightarrow> (m, if r = 0x79F then (\<lambda>x. if 0x780 \<le> x \<and> x < 0x79F then v else f x) else f(r := v))
   | _ \<Rightarrow> (m, f)))"

definition csr_bus :: "(u32 \<Rightarrow> u32) pulp_bus" where
  "csr_bus = \<lparr>bus_rd = csr_rd, bus_wr = csr_wr, bus_wp = \<lambda>_ _ me. me\<rparr>"

interpretation csr_dev: csr_file csr_bus "\<lambda>e. e"
  by unfold_locales (simp_all add: csr_bus_def csr_rd_def csr_wr_def)

section \<open>Properties\<close>

text \<open>
  On a register file that keeps what is written to it, setting all performance counters is seen by
  reading any of the 31 counters, a counter number beyond them reads as 0, and enabling the stack check
  ends with both limits set and the check on.
\<close>

theorem perf_counters:
  assumes "csr_file b csr"
  shows "fst (cpu_perf_get b i (cpu_perf_setall b v s)) = (if i \<le> 30 then v else 0) \<and>
    csr (ext (cpu_stack_check_enable b base limit s)) = (csr (ext s))(0x7D1 := base, 0x7D2 := limit, 0x7D0 := 1)"
  using assms by (simp add: csr_file.counters_set csr_file.stack_checked fun_eq_iff)

theorem perf_counters_witness:
  "fst (cpu_perf_get csr_bus 30 (cpu_perf_setall csr_bus 7 \<lparr>ram = \<lambda>_. 0, ext = \<lambda>_. 0\<rparr>)) = 7"
  using perf_counters [OF csr_dev.csr_file_axioms, of 30 7 "\<lparr>ram = \<lambda>_. 0, ext = \<lambda>_. 0\<rparr>" 0 0] by simp

text \<open>
  The names of the performance events are wrong from event 11 on: each of the events 11 to 15 is
  given the name of the event after it, event 11 (waiting for an event) has no name of its own and
  event 16, the last one that is counted, has none.
\<close>

theorem perf_names_shifted:
  "cpu_perf_name CSR_PCER_ELW = Some (CSR_PCER_NAME CSR_PCER_LD_EXT) \<and>
   cpu_perf_name CSR_PCER_LD_EXT = Some (CSR_PCER_NAME CSR_PCER_ST_EXT) \<and>
   cpu_perf_name CSR_PCER_ST_EXT = Some (CSR_PCER_NAME CSR_PCER_LD_EXT_CYC) \<and>
   cpu_perf_name CSR_PCER_LD_EXT_CYC = Some (CSR_PCER_NAME CSR_PCER_ST_EXT_CYC) \<and>
   cpu_perf_name CSR_PCER_ST_EXT_CYC = Some (CSR_PCER_NAME CSR_PCER_TCDM_CONT) \<and>
   cpu_perf_name CSR_PCER_TCDM_CONT = None \<and> CSR_PCER_TCDM_CONT < PCER_NB_EVENTS"
  by (simp add: cpu_perf_name_def CSR_PCER_NAME_def pcer_events PCER_NB_EVENTS_def)

end
