(* ===== verification/Timer.thy ===== *)
theory Timer
  imports Builtins_Props
begin

text \<open>
  The timer: registers, fields and accessors of \<^verbatim>\<open>archi/timer/timer_v2.h\<close> and the routines of
  \<^verbatim>\<open>hal/timer/timer_v2.h\<close>. The two configuration registers are described three times in the source, by
  bit numbers, by a bit field structure and by access macros; the property shows that the macros and
  the structure agree.
\<close>

section \<open>Registers\<close>

definition TIMER_CFG_LO_OFFSET :: u32 where "TIMER_CFG_LO_OFFSET = 0x0"
definition TIMER_CFG_HI_OFFSET :: u32 where "TIMER_CFG_HI_OFFSET = 0x4"
definition TIMER_CNT_LO_OFFSET :: u32 where "TIMER_CNT_LO_OFFSET = 0x8"
definition TIMER_CNT_HI_OFFSET :: u32 where "TIMER_CNT_HI_OFFSET = 0xc"
definition TIMER_CMP_LO_OFFSET :: u32 where "TIMER_CMP_LO_OFFSET = 0x10"
definition TIMER_CMP_HI_OFFSET :: u32 where "TIMER_CMP_HI_OFFSET = 0x14"
definition TIMER_START_LO_OFFSET :: u32 where "TIMER_START_LO_OFFSET = 0x18"
definition TIMER_START_HI_OFFSET :: u32 where "TIMER_START_HI_OFFSET = 0x1c"
definition TIMER_RESET_LO_OFFSET :: u32 where "TIMER_RESET_LO_OFFSET = 0x20"
definition TIMER_RESET_HI_OFFSET :: u32 where "TIMER_RESET_HI_OFFSET = 0x24"

lemmas timer_offsets = TIMER_CFG_LO_OFFSET_def TIMER_CFG_HI_OFFSET_def TIMER_CNT_LO_OFFSET_def
  TIMER_CNT_HI_OFFSET_def TIMER_CMP_LO_OFFSET_def TIMER_CMP_HI_OFFSET_def TIMER_START_LO_OFFSET_def
  TIMER_START_HI_OFFSET_def TIMER_RESET_LO_OFFSET_def TIMER_RESET_HI_OFFSET_def

definition timer_cfg_lo_get :: "'e pulp_bus \<Rightarrow> u32 \<Rightarrow> ('e, 'z) machine_scheme \<Rightarrow> u32 \<times> ('e, 'z) machine_scheme" where
  "timer_cfg_lo_get b base = ARCHI_READ b base TIMER_CFG_LO_OFFSET"

definition timer_cfg_lo_set :: "'e pulp_bus \<Rightarrow> u32 \<Rightarrow> u32 \<Rightarrow> ('e, 'z) machine_scheme \<Rightarrow> ('e, 'z) machine_scheme" where
  "timer_cfg_lo_set b base value = ARCHI_WRITE b base TIMER_CFG_LO_OFFSET value"

definition timer_cfg_hi_get :: "'e pulp_bus \<Rightarrow> u32 \<Rightarrow> ('e, 'z) machine_scheme \<Rightarrow> u32 \<times> ('e, 'z) machine_scheme" where
  "timer_cfg_hi_get b base = ARCHI_READ b base TIMER_CFG_HI_OFFSET"

definition timer_cfg_hi_set :: "'e pulp_bus \<Rightarrow> u32 \<Rightarrow> u32 \<Rightarrow> ('e, 'z) machine_scheme \<Rightarrow> ('e, 'z) machine_scheme" where
  "timer_cfg_hi_set b base value = ARCHI_WRITE b base TIMER_CFG_HI_OFFSET value"

definition timer_cnt_lo_get :: "'e pulp_bus \<Rightarrow> u32 \<Rightarrow> ('e, 'z) machine_scheme \<Rightarrow> u32 \<times> ('e, 'z) machine_scheme" where
  "timer_cnt_lo_get b base = ARCHI_READ b base TIMER_CNT_LO_OFFSET"

definition timer_cnt_lo_set :: "'e pulp_bus \<Rightarrow> u32 \<Rightarrow> u32 \<Rightarrow> ('e, 'z) machine_scheme \<Rightarrow> ('e, 'z) machine_scheme" where
  "timer_cnt_lo_set b base value = ARCHI_WRITE b base TIMER_CNT_LO_OFFSET value"

definition timer_cnt_hi_get :: "'e pulp_bus \<Rightarrow> u32 \<Rightarrow> ('e, 'z) machine_scheme \<Rightarrow> u32 \<times> ('e, 'z) machine_scheme" where
  "timer_cnt_hi_get b base = ARCHI_READ b base TIMER_CNT_HI_OFFSET"

definition timer_cnt_hi_set :: "'e pulp_bus \<Rightarrow> u32 \<Rightarrow> u32 \<Rightarrow> ('e, 'z) machine_scheme \<Rightarrow> ('e, 'z) machine_scheme" where
  "timer_cnt_hi_set b base value = ARCHI_WRITE b base TIMER_CNT_HI_OFFSET value"

definition timer_cmp_lo_get :: "'e pulp_bus \<Rightarrow> u32 \<Rightarrow> ('e, 'z) machine_scheme \<Rightarrow> u32 \<times> ('e, 'z) machine_scheme" where
  "timer_cmp_lo_get b base = ARCHI_READ b base TIMER_CMP_LO_OFFSET"

definition timer_cmp_lo_set :: "'e pulp_bus \<Rightarrow> u32 \<Rightarrow> u32 \<Rightarrow> ('e, 'z) machine_scheme \<Rightarrow> ('e, 'z) machine_scheme" where
  "timer_cmp_lo_set b base value = ARCHI_WRITE b base TIMER_CMP_LO_OFFSET value"

definition timer_cmp_hi_get :: "'e pulp_bus \<Rightarrow> u32 \<Rightarrow> ('e, 'z) machine_scheme \<Rightarrow> u32 \<times> ('e, 'z) machine_scheme" where
  "timer_cmp_hi_get b base = ARCHI_READ b base TIMER_CMP_HI_OFFSET"

definition timer_cmp_hi_set :: "'e pulp_bus \<Rightarrow> u32 \<Rightarrow> u32 \<Rightarrow> ('e, 'z) machine_scheme \<Rightarrow> ('e, 'z) machine_scheme" where
  "timer_cmp_hi_set b base value = ARCHI_WRITE b base TIMER_CMP_HI_OFFSET value"

definition timer_start_lo_get :: "'e pulp_bus \<Rightarrow> u32 \<Rightarrow> ('e, 'z) machine_scheme \<Rightarrow> u32 \<times> ('e, 'z) machine_scheme" where
  "timer_start_lo_get b base = ARCHI_READ b base TIMER_START_LO_OFFSET"

definition timer_start_lo_set :: "'e pulp_bus \<Rightarrow> u32 \<Rightarrow> u32 \<Rightarrow> ('e, 'z) machine_scheme \<Rightarrow> ('e, 'z) machine_scheme" where
  "timer_start_lo_set b base value = ARCHI_WRITE b base TIMER_START_LO_OFFSET value"

definition timer_start_hi_get :: "'e pulp_bus \<Rightarrow> u32 \<Rightarrow> ('e, 'z) machine_scheme \<Rightarrow> u32 \<times> ('e, 'z) machine_scheme" where
  "timer_start_hi_get b base = ARCHI_READ b base TIMER_START_HI_OFFSET"

definition timer_start_hi_set :: "'e pulp_bus \<Rightarrow> u32 \<Rightarrow> u32 \<Rightarrow> ('e, 'z) machine_scheme \<Rightarrow> ('e, 'z) machine_scheme" where
  "timer_start_hi_set b base value = ARCHI_WRITE b base TIMER_START_HI_OFFSET value"

definition timer_reset_lo_get :: "'e pulp_bus \<Rightarrow> u32 \<Rightarrow> ('e, 'z) machine_scheme \<Rightarrow> u32 \<times> ('e, 'z) machine_scheme" where
  "timer_reset_lo_get b base = ARCHI_READ b base TIMER_RESET_LO_OFFSET"

definition timer_reset_lo_set :: "'e pulp_bus \<Rightarrow> u32 \<Rightarrow> u32 \<Rightarrow> ('e, 'z) machine_scheme \<Rightarrow> ('e, 'z) machine_scheme" where
  "timer_reset_lo_set b base value = ARCHI_WRITE b base TIMER_RESET_LO_OFFSET value"

definition timer_reset_hi_get :: "'e pulp_bus \<Rightarrow> u32 \<Rightarrow> ('e, 'z) machine_scheme \<Rightarrow> u32 \<times> ('e, 'z) machine_scheme" where
  "timer_reset_hi_get b base = ARCHI_READ b base TIMER_RESET_HI_OFFSET"

definition timer_reset_hi_set :: "'e pulp_bus \<Rightarrow> u32 \<Rightarrow> u32 \<Rightarrow> ('e, 'z) machine_scheme \<Rightarrow> ('e, 'z) machine_scheme" where
  "timer_reset_hi_set b base value = ARCHI_WRITE b base TIMER_RESET_HI_OFFSET value"

section \<open>Configuration\<close>

definition TIMER_CFG_LO_ENABLE_BIT :: nat where "TIMER_CFG_LO_ENABLE_BIT = 0"
definition TIMER_CFG_LO_ENABLE_WIDTH :: nat where "TIMER_CFG_LO_ENABLE_WIDTH = 1"
definition TIMER_CFG_LO_RESET_BIT :: nat where "TIMER_CFG_LO_RESET_BIT = 1"
definition TIMER_CFG_LO_RESET_WIDTH :: nat where "TIMER_CFG_LO_RESET_WIDTH = 1"
definition TIMER_CFG_LO_IRQEN_BIT :: nat where "TIMER_CFG_LO_IRQEN_BIT = 2"
definition TIMER_CFG_LO_IRQEN_WIDTH :: nat where "TIMER_CFG_LO_IRQEN_WIDTH = 1"
definition TIMER_CFG_LO_IEM_BIT :: nat where "TIMER_CFG_LO_IEM_BIT = 3"
definition TIMER_CFG_LO_IEM_WIDTH :: nat where "TIMER_CFG_LO_IEM_WIDTH = 1"
definition TIMER_CFG_LO_MODE_BIT :: nat where "TIMER_CFG_LO_MODE_BIT = 4"
definition TIMER_CFG_LO_MODE_WIDTH :: nat where "TIMER_CFG_LO_MODE_WIDTH = 1"
definition TIMER_CFG_LO_ONE_S_BIT :: nat where "TIMER_CFG_LO_ONE_S_BIT = 5"
definition TIMER_CFG_LO_ONE_S_WIDTH :: nat where "TIMER_CFG_LO_ONE_S_WIDTH = 1"
definition TIMER_CFG_LO_PEN_BIT :: nat where "TIMER_CFG_LO_PEN_BIT = 6"
definition TIMER_CFG_LO_PEN_WIDTH :: nat where "TIMER_CFG_LO_PEN_WIDTH = 1"
definition TIMER_CFG_LO_CCFG_BIT :: nat where "TIMER_CFG_LO_CCFG_BIT = 7"
definition TIMER_CFG_LO_CCFG_WIDTH :: nat where "TIMER_CFG_LO_CCFG_WIDTH = 1"
definition TIMER_CFG_LO_PVAL_BIT :: nat where "TIMER_CFG_LO_PVAL_BIT = 8"
definition TIMER_CFG_LO_PVAL_WIDTH :: nat where "TIMER_CFG_LO_PVAL_WIDTH = 8"
definition TIMER_CFG_LO_CASC_BIT :: nat where "TIMER_CFG_LO_CASC_BIT = 31"
definition TIMER_CFG_LO_CASC_WIDTH :: nat where "TIMER_CFG_LO_CASC_WIDTH = 1"
definition TIMER_CFG_HI_ENABLE_BIT :: nat where "TIMER_CFG_HI_ENABLE_BIT = 0"
definition TIMER_CFG_HI_ENABLE_WIDTH :: nat where "TIMER_CFG_HI_ENABLE_WIDTH = 1"
definition TIMER_CFG_HI_RESET_BIT :: nat where "TIMER_CFG_HI_RESET_BIT = 1"
definition TIMER_CFG_HI_RESET_WIDTH :: nat where "TIMER_CFG_HI_RESET_WIDTH = 1"
definition TIMER_CFG_HI_IRQEN_BIT :: nat where "TIMER_CFG_HI_IRQEN_BIT = 2"
definition TIMER_CFG_HI_IRQEN_WIDTH :: nat where "TIMER_CFG_HI_IRQEN_WIDTH = 1"
definition TIMER_CFG_HI_IEM_BIT :: nat where "TIMER_CFG_HI_IEM_BIT = 3"
definition TIMER_CFG_HI_IEM_WIDTH :: nat where "TIMER_CFG_HI_IEM_WIDTH = 1"
definition TIMER_CFG_HI_MODE_BIT :: nat where "TIMER_CFG_HI_MODE_BIT = 4"
definition TIMER_CFG_HI_MODE_WIDTH :: nat where "TIMER_CFG_HI_MODE_WIDTH = 1"
definition TIMER_CFG_HI_ONE_S_BIT :: nat where "TIMER_CFG_HI_ONE_S_BIT = 5"
definition TIMER_CFG_HI_ONE_S_WIDTH :: nat where "TIMER_CFG_HI_ONE_S_WIDTH = 1"
definition TIMER_CFG_HI_PEN_BIT :: nat where "TIMER_CFG_HI_PEN_BIT = 6"
definition TIMER_CFG_HI_PEN_WIDTH :: nat where "TIMER_CFG_HI_PEN_WIDTH = 1"
definition TIMER_CFG_HI_CLKCFG_BIT :: nat where "TIMER_CFG_HI_CLKCFG_BIT = 7"
definition TIMER_CFG_HI_CLKCFG_WIDTH :: nat where "TIMER_CFG_HI_CLKCFG_WIDTH = 1"
definition TIMER_CFG_LO_ENABLE_MASK :: u32 where "TIMER_CFG_LO_ENABLE_MASK = 0x1"
definition TIMER_CFG_LO_RESET_MASK :: u32 where "TIMER_CFG_LO_RESET_MASK = 0x2"
definition TIMER_CFG_LO_IRQEN_MASK :: u32 where "TIMER_CFG_LO_IRQEN_MASK = 0x4"
definition TIMER_CFG_LO_IEM_MASK :: u32 where "TIMER_CFG_LO_IEM_MASK = 0x8"
definition TIMER_CFG_LO_MODE_MASK :: u32 where "TIMER_CFG_LO_MODE_MASK = 0x10"
definition TIMER_CFG_LO_ONE_S_MASK :: u32 where "TIMER_CFG_LO_ONE_S_MASK = 0x20"
definition TIMER_CFG_LO_PEN_MASK :: u32 where "TIMER_CFG_LO_PEN_MASK = 0x40"
definition TIMER_CFG_LO_CCFG_MASK :: u32 where "TIMER_CFG_LO_CCFG_MASK = 0x80"
definition TIMER_CFG_LO_PVAL_MASK :: u32 where "TIMER_CFG_LO_PVAL_MASK = 0xff00"
definition TIMER_CFG_LO_CASC_MASK :: u32 where "TIMER_CFG_LO_CASC_MASK = 0x80000000"
definition TIMER_CFG_HI_ENABLE_MASK :: u32 where "TIMER_CFG_HI_ENABLE_MASK = 0x1"
definition TIMER_CFG_HI_RESET_MASK :: u32 where "TIMER_CFG_HI_RESET_MASK = 0x2"
definition TIMER_CFG_HI_IRQEN_MASK :: u32 where "TIMER_CFG_HI_IRQEN_MASK = 0x4"
definition TIMER_CFG_HI_IEM_MASK :: u32 where "TIMER_CFG_HI_IEM_MASK = 0x8"
definition TIMER_CFG_HI_MODE_MASK :: u32 where "TIMER_CFG_HI_MODE_MASK = 0x10"
definition TIMER_CFG_HI_ONE_S_MASK :: u32 where "TIMER_CFG_HI_ONE_S_MASK = 0x20"
definition TIMER_CFG_HI_PEN_MASK :: u32 where "TIMER_CFG_HI_PEN_MASK = 0x40"
definition TIMER_CFG_HI_CLKCFG_MASK :: u32 where "TIMER_CFG_HI_CLKCFG_MASK = 0x80"

lemmas timer_fields = TIMER_CFG_LO_ENABLE_BIT_def TIMER_CFG_LO_ENABLE_WIDTH_def TIMER_CFG_LO_RESET_BIT_def
  TIMER_CFG_LO_RESET_WIDTH_def TIMER_CFG_LO_IRQEN_BIT_def TIMER_CFG_LO_IRQEN_WIDTH_def
  TIMER_CFG_LO_IEM_BIT_def TIMER_CFG_LO_IEM_WIDTH_def TIMER_CFG_LO_MODE_BIT_def TIMER_CFG_LO_MODE_WIDTH_def
  TIMER_CFG_LO_ONE_S_BIT_def TIMER_CFG_LO_ONE_S_WIDTH_def TIMER_CFG_LO_PEN_BIT_def TIMER_CFG_LO_PEN_WIDTH_def
  TIMER_CFG_LO_CCFG_BIT_def TIMER_CFG_LO_CCFG_WIDTH_def TIMER_CFG_LO_PVAL_BIT_def TIMER_CFG_LO_PVAL_WIDTH_def
  TIMER_CFG_LO_CASC_BIT_def TIMER_CFG_LO_CASC_WIDTH_def TIMER_CFG_HI_ENABLE_BIT_def
  TIMER_CFG_HI_ENABLE_WIDTH_def TIMER_CFG_HI_RESET_BIT_def TIMER_CFG_HI_RESET_WIDTH_def
  TIMER_CFG_HI_IRQEN_BIT_def TIMER_CFG_HI_IRQEN_WIDTH_def TIMER_CFG_HI_IEM_BIT_def TIMER_CFG_HI_IEM_WIDTH_def
  TIMER_CFG_HI_MODE_BIT_def TIMER_CFG_HI_MODE_WIDTH_def TIMER_CFG_HI_ONE_S_BIT_def
  TIMER_CFG_HI_ONE_S_WIDTH_def TIMER_CFG_HI_PEN_BIT_def TIMER_CFG_HI_PEN_WIDTH_def TIMER_CFG_HI_CLKCFG_BIT_def
  TIMER_CFG_HI_CLKCFG_WIDTH_def TIMER_CFG_LO_ENABLE_MASK_def TIMER_CFG_LO_RESET_MASK_def
  TIMER_CFG_LO_IRQEN_MASK_def TIMER_CFG_LO_IEM_MASK_def TIMER_CFG_LO_MODE_MASK_def TIMER_CFG_LO_ONE_S_MASK_def
  TIMER_CFG_LO_PEN_MASK_def TIMER_CFG_LO_CCFG_MASK_def TIMER_CFG_LO_PVAL_MASK_def TIMER_CFG_LO_CASC_MASK_def
  TIMER_CFG_HI_ENABLE_MASK_def TIMER_CFG_HI_RESET_MASK_def TIMER_CFG_HI_IRQEN_MASK_def
  TIMER_CFG_HI_IEM_MASK_def TIMER_CFG_HI_MODE_MASK_def TIMER_CFG_HI_ONE_S_MASK_def TIMER_CFG_HI_PEN_MASK_def
  TIMER_CFG_HI_CLKCFG_MASK_def

definition TIMER_CFG_LO_ENABLE_GET :: "u32 \<Rightarrow> u32" where "TIMER_CFG_LO_ENABLE_GET value = BITEXTRACTU value 1 0"
definition TIMER_CFG_LO_ENABLE_GETS :: "u32 \<Rightarrow> u32" where "TIMER_CFG_LO_ENABLE_GETS value = BITEXTRACT value 1 0"
definition TIMER_CFG_LO_ENABLE_SET :: "u32 \<Rightarrow> u32 \<Rightarrow> u32" where "TIMER_CFG_LO_ENABLE_SET value field = BITINSERT value field 1 0"
definition TIMER_CFG_LO_ENABLE :: "u32 \<Rightarrow> u32" where "TIMER_CFG_LO_ENABLE val = push_bit 0 val"
definition TIMER_CFG_LO_RESET_GET :: "u32 \<Rightarrow> u32" where "TIMER_CFG_LO_RESET_GET value = BITEXTRACTU value 1 1"
definition TIMER_CFG_LO_RESET_GETS :: "u32 \<Rightarrow> u32" where "TIMER_CFG_LO_RESET_GETS value = BITEXTRACT value 1 1"
definition TIMER_CFG_LO_RESET_SET :: "u32 \<Rightarrow> u32 \<Rightarrow> u32" where "TIMER_CFG_LO_RESET_SET value field = BITINSERT value field 1 1"
definition TIMER_CFG_LO_RESET :: "u32 \<Rightarrow> u32" where "TIMER_CFG_LO_RESET val = push_bit 1 val"
definition TIMER_CFG_LO_IRQEN_GET :: "u32 \<Rightarrow> u32" where "TIMER_CFG_LO_IRQEN_GET value = BITEXTRACTU value 1 2"
definition TIMER_CFG_LO_IRQEN_GETS :: "u32 \<Rightarrow> u32" where "TIMER_CFG_LO_IRQEN_GETS value = BITEXTRACT value 1 2"
definition TIMER_CFG_LO_IRQEN_SET :: "u32 \<Rightarrow> u32 \<Rightarrow> u32" where "TIMER_CFG_LO_IRQEN_SET value field = BITINSERT value field 1 2"
definition TIMER_CFG_LO_IRQEN :: "u32 \<Rightarrow> u32" where "TIMER_CFG_LO_IRQEN val = push_bit 2 val"
definition TIMER_CFG_LO_IEM_GET :: "u32 \<Rightarrow> u32" where "TIMER_CFG_LO_IEM_GET value = BITEXTRACTU value 1 3"
definition TIMER_CFG_LO_IEM_GETS :: "u32 \<Rightarrow> u32" where "TIMER_CFG_LO_IEM_GETS value = BITEXTRACT value 1 3"
definition TIMER_CFG_LO_IEM_SET :: "u32 \<Rightarrow> u32 \<Rightarrow> u32" where "TIMER_CFG_LO_IEM_SET value field = BITINSERT value field 1 3"
definition TIMER_CFG_LO_IEM :: "u32 \<Rightarrow> u32" where "TIMER_CFG_LO_IEM val = push_bit 3 val"
definition TIMER_CFG_LO_MODE_GET :: "u32 \<Rightarrow> u32" where "TIMER_CFG_LO_MODE_GET value = BITEXTRACTU value 1 4"
definition TIMER_CFG_LO_MODE_GETS :: "u32 \<Rightarrow> u32" where "TIMER_CFG_LO_MODE_GETS value = BITEXTRACT value 1 4"
definition TIMER_CFG_LO_MODE_SET :: "u32 \<Rightarrow> u32 \<Rightarrow> u32" where "TIMER_CFG_LO_MODE_SET value field = BITINSERT value field 1 4"
definition TIMER_CFG_LO_MODE :: "u32 \<Rightarrow> u32" where "TIMER_CFG_LO_MODE val = push_bit 4 val"
definition TIMER_CFG_LO_ONE_S_GET :: "u32 \<Rightarrow> u32" where "TIMER_CFG_LO_ONE_S_GET value = BITEXTRACTU value 1 5"
definition TIMER_CFG_LO_ONE_S_GETS :: "u32 \<Rightarrow> u32" where "TIMER_CFG_LO_ONE_S_GETS value = BITEXTRACT value 1 5"
definition TIMER_CFG_LO_ONE_S_SET :: "u32 \<Rightarrow> u32 \<Rightarrow> u32" where "TIMER_CFG_LO_ONE_S_SET value field = BITINSERT value field 1 5"
definition TIMER_CFG_LO_ONE_S :: "u32 \<Rightarrow> u32" where "TIMER_CFG_LO_ONE_S val = push_bit 5 val"
definition TIMER_CFG_LO_PEN_GET :: "u32 \<Rightarrow> u32" where "TIMER_CFG_LO_PEN_GET value = BITEXTRACTU value 1 6"
definition TIMER_CFG_LO_PEN_GETS :: "u32 \<Rightarrow> u32" where "TIMER_CFG_LO_PEN_GETS value = BITEXTRACT value 1 6"
definition TIMER_CFG_LO_PEN_SET :: "u32 \<Rightarrow> u32 \<Rightarrow> u32" where "TIMER_CFG_LO_PEN_SET value field = BITINSERT value field 1 6"
definition TIMER_CFG_LO_PEN :: "u32 \<Rightarrow> u32" where "TIMER_CFG_LO_PEN val = push_bit 6 val"
definition TIMER_CFG_LO_CCFG_GET :: "u32 \<Rightarrow> u32" where "TIMER_CFG_LO_CCFG_GET value = BITEXTRACTU value 1 7"
definition TIMER_CFG_LO_CCFG_GETS :: "u32 \<Rightarrow> u32" where "TIMER_CFG_LO_CCFG_GETS value = BITEXTRACT value 1 7"
definition TIMER_CFG_LO_CCFG_SET :: "u32 \<Rightarrow> u32 \<Rightarrow> u32" where "TIMER_CFG_LO_CCFG_SET value field = BITINSERT value field 1 7"
definition TIMER_CFG_LO_CCFG :: "u32 \<Rightarrow> u32" where "TIMER_CFG_LO_CCFG val = push_bit 7 val"
definition TIMER_CFG_LO_PVAL_GET :: "u32 \<Rightarrow> u32" where "TIMER_CFG_LO_PVAL_GET value = BITEXTRACTU value 8 8"
definition TIMER_CFG_LO_PVAL_GETS :: "u32 \<Rightarrow> u32" where "TIMER_CFG_LO_PVAL_GETS value = BITEXTRACT value 8 8"
definition TIMER_CFG_LO_PVAL_SET :: "u32 \<Rightarrow> u32 \<Rightarrow> u32" where "TIMER_CFG_LO_PVAL_SET value field = BITINSERT value field 8 8"
definition TIMER_CFG_LO_PVAL :: "u32 \<Rightarrow> u32" where "TIMER_CFG_LO_PVAL val = push_bit 8 val"
definition TIMER_CFG_LO_CASC_GET :: "u32 \<Rightarrow> u32" where "TIMER_CFG_LO_CASC_GET value = BITEXTRACTU value 1 31"
definition TIMER_CFG_LO_CASC_GETS :: "u32 \<Rightarrow> u32" where "TIMER_CFG_LO_CASC_GETS value = BITEXTRACT value 1 31"
definition TIMER_CFG_LO_CASC_SET :: "u32 \<Rightarrow> u32 \<Rightarrow> u32" where "TIMER_CFG_LO_CASC_SET value field = BITINSERT value field 1 31"
definition TIMER_CFG_LO_CASC :: "u32 \<Rightarrow> u32" where "TIMER_CFG_LO_CASC val = push_bit 31 val"
definition TIMER_CFG_HI_ENABLE_GET :: "u32 \<Rightarrow> u32" where "TIMER_CFG_HI_ENABLE_GET value = BITEXTRACTU value 1 0"
definition TIMER_CFG_HI_ENABLE_GETS :: "u32 \<Rightarrow> u32" where "TIMER_CFG_HI_ENABLE_GETS value = BITEXTRACT value 1 0"
definition TIMER_CFG_HI_ENABLE_SET :: "u32 \<Rightarrow> u32 \<Rightarrow> u32" where "TIMER_CFG_HI_ENABLE_SET value field = BITINSERT value field 1 0"
definition TIMER_CFG_HI_ENABLE :: "u32 \<Rightarrow> u32" where "TIMER_CFG_HI_ENABLE val = push_bit 0 val"
definition TIMER_CFG_HI_RESET_GET :: "u32 \<Rightarrow> u32" where "TIMER_CFG_HI_RESET_GET value = BITEXTRACTU value 1 1"
definition TIMER_CFG_HI_RESET_GETS :: "u32 \<Rightarrow> u32" where "TIMER_CFG_HI_RESET_GETS value = BITEXTRACT value 1 1"
definition TIMER_CFG_HI_RESET_SET :: "u32 \<Rightarrow> u32 \<Rightarrow> u32" where "TIMER_CFG_HI_RESET_SET value field = BITINSERT value field 1 1"
definition TIMER_CFG_HI_RESET :: "u32 \<Rightarrow> u32" where "TIMER_CFG_HI_RESET val = push_bit 1 val"
definition TIMER_CFG_HI_IRQEN_GET :: "u32 \<Rightarrow> u32" where "TIMER_CFG_HI_IRQEN_GET value = BITEXTRACTU value 1 2"
definition TIMER_CFG_HI_IRQEN_GETS :: "u32 \<Rightarrow> u32" where "TIMER_CFG_HI_IRQEN_GETS value = BITEXTRACT value 1 2"
definition TIMER_CFG_HI_IRQEN_SET :: "u32 \<Rightarrow> u32 \<Rightarrow> u32" where "TIMER_CFG_HI_IRQEN_SET value field = BITINSERT value field 1 2"
definition TIMER_CFG_HI_IRQEN :: "u32 \<Rightarrow> u32" where "TIMER_CFG_HI_IRQEN val = push_bit 2 val"
definition TIMER_CFG_HI_IEM_GET :: "u32 \<Rightarrow> u32" where "TIMER_CFG_HI_IEM_GET value = BITEXTRACTU value 1 3"
definition TIMER_CFG_HI_IEM_GETS :: "u32 \<Rightarrow> u32" where "TIMER_CFG_HI_IEM_GETS value = BITEXTRACT value 1 3"
definition TIMER_CFG_HI_IEM_SET :: "u32 \<Rightarrow> u32 \<Rightarrow> u32" where "TIMER_CFG_HI_IEM_SET value field = BITINSERT value field 1 3"
definition TIMER_CFG_HI_IEM :: "u32 \<Rightarrow> u32" where "TIMER_CFG_HI_IEM val = push_bit 3 val"
definition TIMER_CFG_HI_MODE_GET :: "u32 \<Rightarrow> u32" where "TIMER_CFG_HI_MODE_GET value = BITEXTRACTU value 1 4"
definition TIMER_CFG_HI_MODE_GETS :: "u32 \<Rightarrow> u32" where "TIMER_CFG_HI_MODE_GETS value = BITEXTRACT value 1 4"
definition TIMER_CFG_HI_MODE_SET :: "u32 \<Rightarrow> u32 \<Rightarrow> u32" where "TIMER_CFG_HI_MODE_SET value field = BITINSERT value field 1 4"
definition TIMER_CFG_HI_MODE :: "u32 \<Rightarrow> u32" where "TIMER_CFG_HI_MODE val = push_bit 4 val"
definition TIMER_CFG_HI_ONE_S_GET :: "u32 \<Rightarrow> u32" where "TIMER_CFG_HI_ONE_S_GET value = BITEXTRACTU value 1 5"
definition TIMER_CFG_HI_ONE_S_GETS :: "u32 \<Rightarrow> u32" where "TIMER_CFG_HI_ONE_S_GETS value = BITEXTRACT value 1 5"
definition TIMER_CFG_HI_ONE_S_SET :: "u32 \<Rightarrow> u32 \<Rightarrow> u32" where "TIMER_CFG_HI_ONE_S_SET value field = BITINSERT value field 1 5"
definition TIMER_CFG_HI_ONE_S :: "u32 \<Rightarrow> u32" where "TIMER_CFG_HI_ONE_S val = push_bit 5 val"
definition TIMER_CFG_HI_PEN_GET :: "u32 \<Rightarrow> u32" where "TIMER_CFG_HI_PEN_GET value = BITEXTRACTU value 1 6"
definition TIMER_CFG_HI_PEN_GETS :: "u32 \<Rightarrow> u32" where "TIMER_CFG_HI_PEN_GETS value = BITEXTRACT value 1 6"
definition TIMER_CFG_HI_PEN_SET :: "u32 \<Rightarrow> u32 \<Rightarrow> u32" where "TIMER_CFG_HI_PEN_SET value field = BITINSERT value field 1 6"
definition TIMER_CFG_HI_PEN :: "u32 \<Rightarrow> u32" where "TIMER_CFG_HI_PEN val = push_bit 6 val"
definition TIMER_CFG_HI_CLKCFG_GET :: "u32 \<Rightarrow> u32" where "TIMER_CFG_HI_CLKCFG_GET value = BITEXTRACTU value 1 7"
definition TIMER_CFG_HI_CLKCFG_GETS :: "u32 \<Rightarrow> u32" where "TIMER_CFG_HI_CLKCFG_GETS value = BITEXTRACT value 1 7"
definition TIMER_CFG_HI_CLKCFG_SET :: "u32 \<Rightarrow> u32 \<Rightarrow> u32" where "TIMER_CFG_HI_CLKCFG_SET value field = BITINSERT value field 1 7"
definition TIMER_CFG_HI_CLKCFG :: "u32 \<Rightarrow> u32" where "TIMER_CFG_HI_CLKCFG val = push_bit 7 val"

lemmas timer_macros = TIMER_CFG_LO_ENABLE_GET_def TIMER_CFG_LO_ENABLE_GETS_def TIMER_CFG_LO_ENABLE_SET_def
  TIMER_CFG_LO_ENABLE_def TIMER_CFG_LO_RESET_GET_def TIMER_CFG_LO_RESET_GETS_def TIMER_CFG_LO_RESET_SET_def
  TIMER_CFG_LO_RESET_def TIMER_CFG_LO_IRQEN_GET_def TIMER_CFG_LO_IRQEN_GETS_def TIMER_CFG_LO_IRQEN_SET_def
  TIMER_CFG_LO_IRQEN_def TIMER_CFG_LO_IEM_GET_def TIMER_CFG_LO_IEM_GETS_def TIMER_CFG_LO_IEM_SET_def
  TIMER_CFG_LO_IEM_def TIMER_CFG_LO_MODE_GET_def TIMER_CFG_LO_MODE_GETS_def TIMER_CFG_LO_MODE_SET_def
  TIMER_CFG_LO_MODE_def TIMER_CFG_LO_ONE_S_GET_def TIMER_CFG_LO_ONE_S_GETS_def TIMER_CFG_LO_ONE_S_SET_def
  TIMER_CFG_LO_ONE_S_def TIMER_CFG_LO_PEN_GET_def TIMER_CFG_LO_PEN_GETS_def TIMER_CFG_LO_PEN_SET_def
  TIMER_CFG_LO_PEN_def TIMER_CFG_LO_CCFG_GET_def TIMER_CFG_LO_CCFG_GETS_def TIMER_CFG_LO_CCFG_SET_def
  TIMER_CFG_LO_CCFG_def TIMER_CFG_LO_PVAL_GET_def TIMER_CFG_LO_PVAL_GETS_def TIMER_CFG_LO_PVAL_SET_def
  TIMER_CFG_LO_PVAL_def TIMER_CFG_LO_CASC_GET_def TIMER_CFG_LO_CASC_GETS_def TIMER_CFG_LO_CASC_SET_def
  TIMER_CFG_LO_CASC_def TIMER_CFG_HI_ENABLE_GET_def TIMER_CFG_HI_ENABLE_GETS_def TIMER_CFG_HI_ENABLE_SET_def
  TIMER_CFG_HI_ENABLE_def TIMER_CFG_HI_RESET_GET_def TIMER_CFG_HI_RESET_GETS_def TIMER_CFG_HI_RESET_SET_def
  TIMER_CFG_HI_RESET_def TIMER_CFG_HI_IRQEN_GET_def TIMER_CFG_HI_IRQEN_GETS_def TIMER_CFG_HI_IRQEN_SET_def
  TIMER_CFG_HI_IRQEN_def TIMER_CFG_HI_IEM_GET_def TIMER_CFG_HI_IEM_GETS_def TIMER_CFG_HI_IEM_SET_def
  TIMER_CFG_HI_IEM_def TIMER_CFG_HI_MODE_GET_def TIMER_CFG_HI_MODE_GETS_def TIMER_CFG_HI_MODE_SET_def
  TIMER_CFG_HI_MODE_def TIMER_CFG_HI_ONE_S_GET_def TIMER_CFG_HI_ONE_S_GETS_def TIMER_CFG_HI_ONE_S_SET_def
  TIMER_CFG_HI_ONE_S_def TIMER_CFG_HI_PEN_GET_def TIMER_CFG_HI_PEN_GETS_def TIMER_CFG_HI_PEN_SET_def
  TIMER_CFG_HI_PEN_def TIMER_CFG_HI_CLKCFG_GET_def TIMER_CFG_HI_CLKCFG_GETS_def TIMER_CFG_HI_CLKCFG_SET_def
  TIMER_CFG_HI_CLKCFG_def

text \<open>The bits of the high register that no field covers are a field of the record, so that the word is not lost.\<close>

record timer_cfg_lo_t =
  lo_enable :: "1 word"
  lo_reset :: "1 word"
  lo_irqen :: "1 word"
  lo_iem :: "1 word"
  lo_mode :: "1 word"
  lo_one_s :: "1 word"
  lo_pen :: "1 word"
  lo_ccfg :: "1 word"
  lo_pval :: "8 word"
  lo_padding0 :: "15 word"
  lo_casc :: "1 word"

definition timer_cfg_lo_t_raw :: "timer_cfg_lo_t \<Rightarrow> u32" where
  "timer_cfg_lo_t_raw r =
     ucast (lo_enable r) OR push_bit 1 (ucast (lo_reset r)) OR push_bit 2 (ucast (lo_irqen r)) OR push_bit 3 (ucast (lo_iem r)) OR push_bit 4 (ucast (lo_mode r)) OR push_bit 5 (ucast (lo_one_s r)) OR push_bit 6 (ucast (lo_pen r)) OR push_bit 7 (ucast (lo_ccfg r)) OR push_bit 8 (ucast (lo_pval r)) OR push_bit 16 (ucast (lo_padding0 r)) OR push_bit 31 (ucast (lo_casc r))"

definition timer_cfg_lo_t_of_raw :: "u32 \<Rightarrow> timer_cfg_lo_t" where
  "timer_cfg_lo_t_of_raw v = \<lparr>lo_enable = ucast v,
     lo_reset = ucast (drop_bit 1 v),
     lo_irqen = ucast (drop_bit 2 v),
     lo_iem = ucast (drop_bit 3 v),
     lo_mode = ucast (drop_bit 4 v),
     lo_one_s = ucast (drop_bit 5 v),
     lo_pen = ucast (drop_bit 6 v),
     lo_ccfg = ucast (drop_bit 7 v),
     lo_pval = ucast (drop_bit 8 v),
     lo_padding0 = ucast (drop_bit 16 v),
     lo_casc = ucast (drop_bit 31 v)\<rparr>"

record timer_cfg_hi_t =
  hi_enable :: "1 word"
  hi_reset :: "1 word"
  hi_irqen :: "1 word"
  hi_iem :: "1 word"
  hi_mode :: "1 word"
  hi_one_s :: "1 word"
  hi_pen :: "1 word"
  hi_clkcfg :: "1 word"
  hi_padding :: "24 word"

definition timer_cfg_hi_t_raw :: "timer_cfg_hi_t \<Rightarrow> u32" where
  "timer_cfg_hi_t_raw r =
     ucast (hi_enable r) OR push_bit 1 (ucast (hi_reset r)) OR push_bit 2 (ucast (hi_irqen r)) OR push_bit 3 (ucast (hi_iem r)) OR push_bit 4 (ucast (hi_mode r)) OR push_bit 5 (ucast (hi_one_s r)) OR push_bit 6 (ucast (hi_pen r)) OR push_bit 7 (ucast (hi_clkcfg r)) OR push_bit 8 (ucast (hi_padding r))"

definition timer_cfg_hi_t_of_raw :: "u32 \<Rightarrow> timer_cfg_hi_t" where
  "timer_cfg_hi_t_of_raw v = \<lparr>hi_enable = ucast v,
     hi_reset = ucast (drop_bit 1 v),
     hi_irqen = ucast (drop_bit 2 v),
     hi_iem = ucast (drop_bit 3 v),
     hi_mode = ucast (drop_bit 4 v),
     hi_one_s = ucast (drop_bit 5 v),
     hi_pen = ucast (drop_bit 6 v),
     hi_clkcfg = ucast (drop_bit 7 v),
     hi_padding = ucast (drop_bit 8 v)\<rparr>"

text \<open>The fields of the other registers; those of 32 bits are whole registers.\<close>

definition TIMER_CNT_LO_CNT_LO_BIT :: nat where "TIMER_CNT_LO_CNT_LO_BIT = 0"
definition TIMER_CNT_LO_CNT_LO_WIDTH :: nat where "TIMER_CNT_LO_CNT_LO_WIDTH = 32"
definition TIMER_CNT_LO_CNT_LO_MASK :: u32 where "TIMER_CNT_LO_CNT_LO_MASK = 0xffffffff"
definition TIMER_CNT_HI_CNT_HI_BIT :: nat where "TIMER_CNT_HI_CNT_HI_BIT = 0"
definition TIMER_CNT_HI_CNT_HI_WIDTH :: nat where "TIMER_CNT_HI_CNT_HI_WIDTH = 32"
definition TIMER_CNT_HI_CNT_HI_MASK :: u32 where "TIMER_CNT_HI_CNT_HI_MASK = 0xffffffff"
definition TIMER_CMP_LO_CMP_LO_BIT :: nat where "TIMER_CMP_LO_CMP_LO_BIT = 0"
definition TIMER_CMP_LO_CMP_LO_WIDTH :: nat where "TIMER_CMP_LO_CMP_LO_WIDTH = 32"
definition TIMER_CMP_LO_CMP_LO_MASK :: u32 where "TIMER_CMP_LO_CMP_LO_MASK = 0xffffffff"
definition TIMER_CMP_HI_CMP_HI_BIT :: nat where "TIMER_CMP_HI_CMP_HI_BIT = 0"
definition TIMER_CMP_HI_CMP_HI_WIDTH :: nat where "TIMER_CMP_HI_CMP_HI_WIDTH = 32"
definition TIMER_CMP_HI_CMP_HI_MASK :: u32 where "TIMER_CMP_HI_CMP_HI_MASK = 0xffffffff"
definition TIMER_START_LO_STRT_LO_BIT :: nat where "TIMER_START_LO_STRT_LO_BIT = 0"
definition TIMER_START_LO_STRT_LO_WIDTH :: nat where "TIMER_START_LO_STRT_LO_WIDTH = 1"
definition TIMER_START_LO_STRT_LO_MASK :: u32 where "TIMER_START_LO_STRT_LO_MASK = 0x1"
definition TIMER_START_HI_STRT_HI_BIT :: nat where "TIMER_START_HI_STRT_HI_BIT = 0"
definition TIMER_START_HI_STRT_HI_WIDTH :: nat where "TIMER_START_HI_STRT_HI_WIDTH = 1"
definition TIMER_START_HI_STRT_HI_MASK :: u32 where "TIMER_START_HI_STRT_HI_MASK = 0x1"
definition TIMER_RESET_LO_RST_LO_BIT :: nat where "TIMER_RESET_LO_RST_LO_BIT = 0"
definition TIMER_RESET_LO_RST_LO_WIDTH :: nat where "TIMER_RESET_LO_RST_LO_WIDTH = 1"
definition TIMER_RESET_LO_RST_LO_MASK :: u32 where "TIMER_RESET_LO_RST_LO_MASK = 0x1"
definition TIMER_RESET_HI_RST_HI_BIT :: nat where "TIMER_RESET_HI_RST_HI_BIT = 0"
definition TIMER_RESET_HI_RST_HI_WIDTH :: nat where "TIMER_RESET_HI_RST_HI_WIDTH = 1"
definition TIMER_RESET_HI_RST_HI_MASK :: u32 where "TIMER_RESET_HI_RST_HI_MASK = 0x1"
definition TIMER_START_LO_STRT_LO_GET :: "u32 \<Rightarrow> u32" where "TIMER_START_LO_STRT_LO_GET value = BITEXTRACTU value 1 0"
definition TIMER_START_LO_STRT_LO_GETS :: "u32 \<Rightarrow> u32" where "TIMER_START_LO_STRT_LO_GETS value = BITEXTRACT value 1 0"
definition TIMER_START_LO_STRT_LO_SET :: "u32 \<Rightarrow> u32 \<Rightarrow> u32" where "TIMER_START_LO_STRT_LO_SET value field = BITINSERT value field 1 0"
definition TIMER_START_LO_STRT_LO :: "u32 \<Rightarrow> u32" where "TIMER_START_LO_STRT_LO val = push_bit 0 val"
definition TIMER_START_HI_STRT_HI_GET :: "u32 \<Rightarrow> u32" where "TIMER_START_HI_STRT_HI_GET value = BITEXTRACTU value 1 0"
definition TIMER_START_HI_STRT_HI_GETS :: "u32 \<Rightarrow> u32" where "TIMER_START_HI_STRT_HI_GETS value = BITEXTRACT value 1 0"
definition TIMER_START_HI_STRT_HI_SET :: "u32 \<Rightarrow> u32 \<Rightarrow> u32" where "TIMER_START_HI_STRT_HI_SET value field = BITINSERT value field 1 0"
definition TIMER_START_HI_STRT_HI :: "u32 \<Rightarrow> u32" where "TIMER_START_HI_STRT_HI val = push_bit 0 val"
definition TIMER_RESET_LO_RST_LO_GET :: "u32 \<Rightarrow> u32" where "TIMER_RESET_LO_RST_LO_GET value = BITEXTRACTU value 1 0"
definition TIMER_RESET_LO_RST_LO_GETS :: "u32 \<Rightarrow> u32" where "TIMER_RESET_LO_RST_LO_GETS value = BITEXTRACT value 1 0"
definition TIMER_RESET_LO_RST_LO_SET :: "u32 \<Rightarrow> u32 \<Rightarrow> u32" where "TIMER_RESET_LO_RST_LO_SET value field = BITINSERT value field 1 0"
definition TIMER_RESET_LO_RST_LO :: "u32 \<Rightarrow> u32" where "TIMER_RESET_LO_RST_LO val = push_bit 0 val"
definition TIMER_RESET_HI_RST_HI_GET :: "u32 \<Rightarrow> u32" where "TIMER_RESET_HI_RST_HI_GET value = BITEXTRACTU value 1 0"
definition TIMER_RESET_HI_RST_HI_GETS :: "u32 \<Rightarrow> u32" where "TIMER_RESET_HI_RST_HI_GETS value = BITEXTRACT value 1 0"
definition TIMER_RESET_HI_RST_HI_SET :: "u32 \<Rightarrow> u32 \<Rightarrow> u32" where "TIMER_RESET_HI_RST_HI_SET value field = BITINSERT value field 1 0"
definition TIMER_RESET_HI_RST_HI :: "u32 \<Rightarrow> u32" where "TIMER_RESET_HI_RST_HI val = push_bit 0 val"

lemmas timer_fields2 = TIMER_CNT_LO_CNT_LO_BIT_def TIMER_CNT_LO_CNT_LO_WIDTH_def TIMER_CNT_LO_CNT_LO_MASK_def
  TIMER_CNT_HI_CNT_HI_BIT_def TIMER_CNT_HI_CNT_HI_WIDTH_def TIMER_CNT_HI_CNT_HI_MASK_def
  TIMER_CMP_LO_CMP_LO_BIT_def TIMER_CMP_LO_CMP_LO_WIDTH_def TIMER_CMP_LO_CMP_LO_MASK_def
  TIMER_CMP_HI_CMP_HI_BIT_def TIMER_CMP_HI_CMP_HI_WIDTH_def TIMER_CMP_HI_CMP_HI_MASK_def
  TIMER_START_LO_STRT_LO_BIT_def TIMER_START_LO_STRT_LO_WIDTH_def TIMER_START_LO_STRT_LO_MASK_def
  TIMER_START_HI_STRT_HI_BIT_def TIMER_START_HI_STRT_HI_WIDTH_def TIMER_START_HI_STRT_HI_MASK_def
  TIMER_RESET_LO_RST_LO_BIT_def TIMER_RESET_LO_RST_LO_WIDTH_def TIMER_RESET_LO_RST_LO_MASK_def
  TIMER_RESET_HI_RST_HI_BIT_def TIMER_RESET_HI_RST_HI_WIDTH_def TIMER_RESET_HI_RST_HI_MASK_def

section \<open>Routines\<close>

text \<open>The address of a timer is that of a configuration with a fabric controller.\<close>

definition timer_base_fc :: "u32 \<Rightarrow> u32 \<Rightarrow> u32" where
  "timer_base_fc i sub_id = ARCHI_FC_TIMER_ADDR + i * ARCHI_FC_TIMER_SIZE + sub_id * 4"

definition timer_conf_get :: "'e pulp_bus \<Rightarrow> u32 \<Rightarrow> ('e, 'z) machine_scheme \<Rightarrow> u32 \<times> ('e, 'z) machine_scheme" where
  "timer_conf_get b addr = timer_cfg_lo_get b addr"

definition timer_conf_set :: "'e pulp_bus \<Rightarrow> u32 \<Rightarrow> u32 \<Rightarrow> ('e, 'z) machine_scheme \<Rightarrow> ('e, 'z) machine_scheme" where
  "timer_conf_set b addr value = timer_cfg_lo_set b addr value"

definition timer_count_get :: "'e pulp_bus \<Rightarrow> u32 \<Rightarrow> ('e, 'z) machine_scheme \<Rightarrow> u32 \<times> ('e, 'z) machine_scheme" where
  "timer_count_get b addr = timer_cnt_lo_get b addr"

definition timer_count_set :: "'e pulp_bus \<Rightarrow> u32 \<Rightarrow> u32 \<Rightarrow> ('e, 'z) machine_scheme \<Rightarrow> ('e, 'z) machine_scheme" where
  "timer_count_set b addr value = timer_cnt_lo_set b addr value"

definition timer_cmp_get :: "'e pulp_bus \<Rightarrow> u32 \<Rightarrow> ('e, 'z) machine_scheme \<Rightarrow> u32 \<times> ('e, 'z) machine_scheme" where
  "timer_cmp_get b addr = timer_cmp_lo_get b addr"

definition timer_cmp_set :: "'e pulp_bus \<Rightarrow> u32 \<Rightarrow> u32 \<Rightarrow> ('e, 'z) machine_scheme \<Rightarrow> ('e, 'z) machine_scheme" where
  "timer_cmp_set b addr value = timer_cmp_lo_set b addr value"

definition timer_reset :: "'e pulp_bus \<Rightarrow> u32 \<Rightarrow> ('e, 'z) machine_scheme \<Rightarrow> ('e, 'z) machine_scheme" where
  "timer_reset b addr = timer_reset_lo_set b addr 1"

definition timer_start :: "'e pulp_bus \<Rightarrow> u32 \<Rightarrow> ('e, 'z) machine_scheme \<Rightarrow> ('e, 'z) machine_scheme" where
  "timer_start b addr = timer_start_lo_set b addr 1"

section \<open>Properties\<close>

lemma extract_ucast:
  fixes f :: "'a :: len word"
  assumes "f = ucast (drop_bit off v)" and "w = LENGTH('a)" and "off + w \<le> 32"
  shows "BITEXTRACTU v w off = ucast f"
proof -
  have "BITEXTRACTU v w off = take_bit w (drop_bit off v)"
    by (rule reg_field.get_eq [OF emu_field [OF assms(3)]])
  then show ?thesis
    unfolding assms(1,2) by (intro bit_word_eqI) (auto simp: bit_simps)
qed

text \<open>
  Every access macro of the low configuration register of the timer reads the field of that name of
  the bit field structure.
\<close>

theorem timer_cfg_lo_macros:
  "TIMER_CFG_LO_ENABLE_GET v = ucast (lo_enable (timer_cfg_lo_t_of_raw v)) \<and>
   TIMER_CFG_LO_RESET_GET v = ucast (lo_reset (timer_cfg_lo_t_of_raw v)) \<and>
   TIMER_CFG_LO_IRQEN_GET v = ucast (lo_irqen (timer_cfg_lo_t_of_raw v)) \<and>
   TIMER_CFG_LO_IEM_GET v = ucast (lo_iem (timer_cfg_lo_t_of_raw v)) \<and>
   TIMER_CFG_LO_MODE_GET v = ucast (lo_mode (timer_cfg_lo_t_of_raw v)) \<and>
   TIMER_CFG_LO_ONE_S_GET v = ucast (lo_one_s (timer_cfg_lo_t_of_raw v)) \<and>
   TIMER_CFG_LO_PEN_GET v = ucast (lo_pen (timer_cfg_lo_t_of_raw v)) \<and>
   TIMER_CFG_LO_CCFG_GET v = ucast (lo_ccfg (timer_cfg_lo_t_of_raw v)) \<and>
   TIMER_CFG_LO_PVAL_GET v = ucast (lo_pval (timer_cfg_lo_t_of_raw v)) \<and>
   TIMER_CFG_LO_CASC_GET v = ucast (lo_casc (timer_cfg_lo_t_of_raw v))"
  unfolding timer_macros timer_cfg_lo_t_of_raw_def timer_cfg_lo_t.simps
  by (intro conjI extract_ucast) simp_all

text \<open>The same for the high configuration register.\<close>

theorem timer_cfg_hi_macros:
  "TIMER_CFG_HI_ENABLE_GET v = ucast (hi_enable (timer_cfg_hi_t_of_raw v)) \<and>
   TIMER_CFG_HI_RESET_GET v = ucast (hi_reset (timer_cfg_hi_t_of_raw v)) \<and>
   TIMER_CFG_HI_IRQEN_GET v = ucast (hi_irqen (timer_cfg_hi_t_of_raw v)) \<and>
   TIMER_CFG_HI_IEM_GET v = ucast (hi_iem (timer_cfg_hi_t_of_raw v)) \<and>
   TIMER_CFG_HI_MODE_GET v = ucast (hi_mode (timer_cfg_hi_t_of_raw v)) \<and>
   TIMER_CFG_HI_ONE_S_GET v = ucast (hi_one_s (timer_cfg_hi_t_of_raw v)) \<and>
   TIMER_CFG_HI_PEN_GET v = ucast (hi_pen (timer_cfg_hi_t_of_raw v)) \<and>
   TIMER_CFG_HI_CLKCFG_GET v = ucast (hi_clkcfg (timer_cfg_hi_t_of_raw v))"
  unfolding timer_macros timer_cfg_hi_t_of_raw_def timer_cfg_hi_t.simps
  by (intro conjI extract_ucast) simp_all

end
