(* ===== verification/Gpio.thy ===== *)
theory Gpio
  imports Builtins_Props
begin

text \<open>
  General purpose input and output: the registers and accessors of \<^verbatim>\<open>archi/gpio/gpio_v3.h\<close> and the
  routines of \<^verbatim>\<open>hal/gpio/gpio_v3.h\<close>.
\<close>

section \<open>Registers\<close>

definition GPIO_PADDIR_OFFSET :: u32 where "GPIO_PADDIR_OFFSET = 0x0"
definition GPIO_GPIOEN_OFFSET :: u32 where "GPIO_GPIOEN_OFFSET = 0x4"
definition GPIO_PADIN_OFFSET :: u32 where "GPIO_PADIN_OFFSET = 0x8"
definition GPIO_PADOUT_OFFSET :: u32 where "GPIO_PADOUT_OFFSET = 0xc"
definition GPIO_PADOUTSET_OFFSET :: u32 where "GPIO_PADOUTSET_OFFSET = 0x10"
definition GPIO_PADOUTCLR_OFFSET :: u32 where "GPIO_PADOUTCLR_OFFSET = 0x14"
definition GPIO_INTEN_OFFSET :: u32 where "GPIO_INTEN_OFFSET = 0x18"
definition GPIO_INTTYPE0_OFFSET :: u32 where "GPIO_INTTYPE0_OFFSET = 0x1c"
definition GPIO_INTTYPE1_OFFSET :: u32 where "GPIO_INTTYPE1_OFFSET = 0x20"
definition GPIO_INTSTATUS_OFFSET :: u32 where "GPIO_INTSTATUS_OFFSET = 0x24"
definition GPIO_PADCFG0_OFFSET :: u32 where "GPIO_PADCFG0_OFFSET = 0x28"
definition GPIO_PADCFG1_OFFSET :: u32 where "GPIO_PADCFG1_OFFSET = 0x2c"
definition GPIO_PADCFG2_OFFSET :: u32 where "GPIO_PADCFG2_OFFSET = 0x30"
definition GPIO_PADCFG3_OFFSET :: u32 where "GPIO_PADCFG3_OFFSET = 0x34"
definition GPIO_PADDIR_32_63_OFFSET :: u32 where "GPIO_PADDIR_32_63_OFFSET = 0x38"
definition GPIO_GPIOEN_32_63_OFFSET :: u32 where "GPIO_GPIOEN_32_63_OFFSET = 0x3c"
definition GPIO_PADIN_32_63_OFFSET :: u32 where "GPIO_PADIN_32_63_OFFSET = 0x40"
definition GPIO_PADOUT_32_63_OFFSET :: u32 where "GPIO_PADOUT_32_63_OFFSET = 0x44"
definition GPIO_PADOUTSET_32_63_OFFSET :: u32 where "GPIO_PADOUTSET_32_63_OFFSET = 0x48"
definition GPIO_PADOUTCLR_32_63_OFFSET :: u32 where "GPIO_PADOUTCLR_32_63_OFFSET = 0x4c"
definition GPIO_INTEN_32_63_OFFSET :: u32 where "GPIO_INTEN_32_63_OFFSET = 0x50"
definition GPIO_INTTYPE_32_47_OFFSET :: u32 where "GPIO_INTTYPE_32_47_OFFSET = 0x54"
definition GPIO_INTTYPE_48_63_OFFSET :: u32 where "GPIO_INTTYPE_48_63_OFFSET = 0x58"
definition GPIO_INTSTATUS_32_63_OFFSET :: u32 where "GPIO_INTSTATUS_32_63_OFFSET = 0x5c"
definition GPIO_PADCFG_32_39_OFFSET :: u32 where "GPIO_PADCFG_32_39_OFFSET = 0x60"
definition GPIO_PADCFG_40_47_OFFSET :: u32 where "GPIO_PADCFG_40_47_OFFSET = 0x64"
definition GPIO_PADCFG_48_55_OFFSET :: u32 where "GPIO_PADCFG_48_55_OFFSET = 0x68"
definition GPIO_PADCFG_56_63_OFFSET :: u32 where "GPIO_PADCFG_56_63_OFFSET = 0x6c"

lemmas gpio_offsets = GPIO_PADDIR_OFFSET_def GPIO_GPIOEN_OFFSET_def GPIO_PADIN_OFFSET_def
  GPIO_PADOUT_OFFSET_def GPIO_PADOUTSET_OFFSET_def GPIO_PADOUTCLR_OFFSET_def GPIO_INTEN_OFFSET_def
  GPIO_INTTYPE0_OFFSET_def GPIO_INTTYPE1_OFFSET_def GPIO_INTSTATUS_OFFSET_def GPIO_PADCFG0_OFFSET_def
  GPIO_PADCFG1_OFFSET_def GPIO_PADCFG2_OFFSET_def GPIO_PADCFG3_OFFSET_def GPIO_PADDIR_32_63_OFFSET_def
  GPIO_GPIOEN_32_63_OFFSET_def GPIO_PADIN_32_63_OFFSET_def GPIO_PADOUT_32_63_OFFSET_def
  GPIO_PADOUTSET_32_63_OFFSET_def GPIO_PADOUTCLR_32_63_OFFSET_def GPIO_INTEN_32_63_OFFSET_def
  GPIO_INTTYPE_32_47_OFFSET_def GPIO_INTTYPE_48_63_OFFSET_def GPIO_INTSTATUS_32_63_OFFSET_def
  GPIO_PADCFG_32_39_OFFSET_def GPIO_PADCFG_40_47_OFFSET_def GPIO_PADCFG_48_55_OFFSET_def
  GPIO_PADCFG_56_63_OFFSET_def

definition gpio_paddir_get :: "'e pulp_bus \<Rightarrow> u32 \<Rightarrow> ('e, 'z) machine_scheme \<Rightarrow> u32 \<times> ('e, 'z) machine_scheme" where
  "gpio_paddir_get b base = ARCHI_READ b base GPIO_PADDIR_OFFSET"

definition gpio_paddir_set :: "'e pulp_bus \<Rightarrow> u32 \<Rightarrow> u32 \<Rightarrow> ('e, 'z) machine_scheme \<Rightarrow> ('e, 'z) machine_scheme" where
  "gpio_paddir_set b base value = ARCHI_WRITE b base GPIO_PADDIR_OFFSET value"

definition gpio_gpioen_get :: "'e pulp_bus \<Rightarrow> u32 \<Rightarrow> ('e, 'z) machine_scheme \<Rightarrow> u32 \<times> ('e, 'z) machine_scheme" where
  "gpio_gpioen_get b base = ARCHI_READ b base GPIO_GPIOEN_OFFSET"

definition gpio_gpioen_set :: "'e pulp_bus \<Rightarrow> u32 \<Rightarrow> u32 \<Rightarrow> ('e, 'z) machine_scheme \<Rightarrow> ('e, 'z) machine_scheme" where
  "gpio_gpioen_set b base value = ARCHI_WRITE b base GPIO_GPIOEN_OFFSET value"

definition gpio_padin_get :: "'e pulp_bus \<Rightarrow> u32 \<Rightarrow> ('e, 'z) machine_scheme \<Rightarrow> u32 \<times> ('e, 'z) machine_scheme" where
  "gpio_padin_get b base = ARCHI_READ b base GPIO_PADIN_OFFSET"

definition gpio_padin_set :: "'e pulp_bus \<Rightarrow> u32 \<Rightarrow> u32 \<Rightarrow> ('e, 'z) machine_scheme \<Rightarrow> ('e, 'z) machine_scheme" where
  "gpio_padin_set b base value = ARCHI_WRITE b base GPIO_PADIN_OFFSET value"

definition gpio_padout_get :: "'e pulp_bus \<Rightarrow> u32 \<Rightarrow> ('e, 'z) machine_scheme \<Rightarrow> u32 \<times> ('e, 'z) machine_scheme" where
  "gpio_padout_get b base = ARCHI_READ b base GPIO_PADOUT_OFFSET"

definition gpio_padout_set :: "'e pulp_bus \<Rightarrow> u32 \<Rightarrow> u32 \<Rightarrow> ('e, 'z) machine_scheme \<Rightarrow> ('e, 'z) machine_scheme" where
  "gpio_padout_set b base value = ARCHI_WRITE b base GPIO_PADOUT_OFFSET value"

definition gpio_padoutset_get :: "'e pulp_bus \<Rightarrow> u32 \<Rightarrow> ('e, 'z) machine_scheme \<Rightarrow> u32 \<times> ('e, 'z) machine_scheme" where
  "gpio_padoutset_get b base = ARCHI_READ b base GPIO_PADOUTSET_OFFSET"

definition gpio_padoutset_set :: "'e pulp_bus \<Rightarrow> u32 \<Rightarrow> u32 \<Rightarrow> ('e, 'z) machine_scheme \<Rightarrow> ('e, 'z) machine_scheme" where
  "gpio_padoutset_set b base value = ARCHI_WRITE b base GPIO_PADOUTSET_OFFSET value"

definition gpio_padoutclr_get :: "'e pulp_bus \<Rightarrow> u32 \<Rightarrow> ('e, 'z) machine_scheme \<Rightarrow> u32 \<times> ('e, 'z) machine_scheme" where
  "gpio_padoutclr_get b base = ARCHI_READ b base GPIO_PADOUTCLR_OFFSET"

definition gpio_padoutclr_set :: "'e pulp_bus \<Rightarrow> u32 \<Rightarrow> u32 \<Rightarrow> ('e, 'z) machine_scheme \<Rightarrow> ('e, 'z) machine_scheme" where
  "gpio_padoutclr_set b base value = ARCHI_WRITE b base GPIO_PADOUTCLR_OFFSET value"

definition gpio_inten_get :: "'e pulp_bus \<Rightarrow> u32 \<Rightarrow> ('e, 'z) machine_scheme \<Rightarrow> u32 \<times> ('e, 'z) machine_scheme" where
  "gpio_inten_get b base = ARCHI_READ b base GPIO_INTEN_OFFSET"

definition gpio_inten_set :: "'e pulp_bus \<Rightarrow> u32 \<Rightarrow> u32 \<Rightarrow> ('e, 'z) machine_scheme \<Rightarrow> ('e, 'z) machine_scheme" where
  "gpio_inten_set b base value = ARCHI_WRITE b base GPIO_INTEN_OFFSET value"

definition gpio_inttype0_get :: "'e pulp_bus \<Rightarrow> u32 \<Rightarrow> ('e, 'z) machine_scheme \<Rightarrow> u32 \<times> ('e, 'z) machine_scheme" where
  "gpio_inttype0_get b base = ARCHI_READ b base GPIO_INTTYPE0_OFFSET"

definition gpio_inttype0_set :: "'e pulp_bus \<Rightarrow> u32 \<Rightarrow> u32 \<Rightarrow> ('e, 'z) machine_scheme \<Rightarrow> ('e, 'z) machine_scheme" where
  "gpio_inttype0_set b base value = ARCHI_WRITE b base GPIO_INTTYPE0_OFFSET value"

definition gpio_inttype1_get :: "'e pulp_bus \<Rightarrow> u32 \<Rightarrow> ('e, 'z) machine_scheme \<Rightarrow> u32 \<times> ('e, 'z) machine_scheme" where
  "gpio_inttype1_get b base = ARCHI_READ b base GPIO_INTTYPE1_OFFSET"

definition gpio_inttype1_set :: "'e pulp_bus \<Rightarrow> u32 \<Rightarrow> u32 \<Rightarrow> ('e, 'z) machine_scheme \<Rightarrow> ('e, 'z) machine_scheme" where
  "gpio_inttype1_set b base value = ARCHI_WRITE b base GPIO_INTTYPE1_OFFSET value"

definition gpio_intstatus_get :: "'e pulp_bus \<Rightarrow> u32 \<Rightarrow> ('e, 'z) machine_scheme \<Rightarrow> u32 \<times> ('e, 'z) machine_scheme" where
  "gpio_intstatus_get b base = ARCHI_READ b base GPIO_INTSTATUS_OFFSET"

definition gpio_intstatus_set :: "'e pulp_bus \<Rightarrow> u32 \<Rightarrow> u32 \<Rightarrow> ('e, 'z) machine_scheme \<Rightarrow> ('e, 'z) machine_scheme" where
  "gpio_intstatus_set b base value = ARCHI_WRITE b base GPIO_INTSTATUS_OFFSET value"

definition gpio_padcfg0_get :: "'e pulp_bus \<Rightarrow> u32 \<Rightarrow> ('e, 'z) machine_scheme \<Rightarrow> u32 \<times> ('e, 'z) machine_scheme" where
  "gpio_padcfg0_get b base = ARCHI_READ b base GPIO_PADCFG0_OFFSET"

definition gpio_padcfg0_set :: "'e pulp_bus \<Rightarrow> u32 \<Rightarrow> u32 \<Rightarrow> ('e, 'z) machine_scheme \<Rightarrow> ('e, 'z) machine_scheme" where
  "gpio_padcfg0_set b base value = ARCHI_WRITE b base GPIO_PADCFG0_OFFSET value"

definition gpio_padcfg1_get :: "'e pulp_bus \<Rightarrow> u32 \<Rightarrow> ('e, 'z) machine_scheme \<Rightarrow> u32 \<times> ('e, 'z) machine_scheme" where
  "gpio_padcfg1_get b base = ARCHI_READ b base GPIO_PADCFG1_OFFSET"

definition gpio_padcfg1_set :: "'e pulp_bus \<Rightarrow> u32 \<Rightarrow> u32 \<Rightarrow> ('e, 'z) machine_scheme \<Rightarrow> ('e, 'z) machine_scheme" where
  "gpio_padcfg1_set b base value = ARCHI_WRITE b base GPIO_PADCFG1_OFFSET value"

definition gpio_padcfg2_get :: "'e pulp_bus \<Rightarrow> u32 \<Rightarrow> ('e, 'z) machine_scheme \<Rightarrow> u32 \<times> ('e, 'z) machine_scheme" where
  "gpio_padcfg2_get b base = ARCHI_READ b base GPIO_PADCFG2_OFFSET"

definition gpio_padcfg2_set :: "'e pulp_bus \<Rightarrow> u32 \<Rightarrow> u32 \<Rightarrow> ('e, 'z) machine_scheme \<Rightarrow> ('e, 'z) machine_scheme" where
  "gpio_padcfg2_set b base value = ARCHI_WRITE b base GPIO_PADCFG2_OFFSET value"

definition gpio_padcfg3_get :: "'e pulp_bus \<Rightarrow> u32 \<Rightarrow> ('e, 'z) machine_scheme \<Rightarrow> u32 \<times> ('e, 'z) machine_scheme" where
  "gpio_padcfg3_get b base = ARCHI_READ b base GPIO_PADCFG3_OFFSET"

definition gpio_padcfg3_set :: "'e pulp_bus \<Rightarrow> u32 \<Rightarrow> u32 \<Rightarrow> ('e, 'z) machine_scheme \<Rightarrow> ('e, 'z) machine_scheme" where
  "gpio_padcfg3_set b base value = ARCHI_WRITE b base GPIO_PADCFG3_OFFSET value"

definition gpio_paddir_32_63_get :: "'e pulp_bus \<Rightarrow> u32 \<Rightarrow> ('e, 'z) machine_scheme \<Rightarrow> u32 \<times> ('e, 'z) machine_scheme" where
  "gpio_paddir_32_63_get b base = ARCHI_READ b base GPIO_PADDIR_32_63_OFFSET"

definition gpio_paddir_32_63_set :: "'e pulp_bus \<Rightarrow> u32 \<Rightarrow> u32 \<Rightarrow> ('e, 'z) machine_scheme \<Rightarrow> ('e, 'z) machine_scheme" where
  "gpio_paddir_32_63_set b base value = ARCHI_WRITE b base GPIO_PADDIR_32_63_OFFSET value"

definition gpio_gpioen_32_63_get :: "'e pulp_bus \<Rightarrow> u32 \<Rightarrow> ('e, 'z) machine_scheme \<Rightarrow> u32 \<times> ('e, 'z) machine_scheme" where
  "gpio_gpioen_32_63_get b base = ARCHI_READ b base GPIO_GPIOEN_32_63_OFFSET"

definition gpio_gpioen_32_63_set :: "'e pulp_bus \<Rightarrow> u32 \<Rightarrow> u32 \<Rightarrow> ('e, 'z) machine_scheme \<Rightarrow> ('e, 'z) machine_scheme" where
  "gpio_gpioen_32_63_set b base value = ARCHI_WRITE b base GPIO_GPIOEN_32_63_OFFSET value"

definition gpio_padin_32_63_get :: "'e pulp_bus \<Rightarrow> u32 \<Rightarrow> ('e, 'z) machine_scheme \<Rightarrow> u32 \<times> ('e, 'z) machine_scheme" where
  "gpio_padin_32_63_get b base = ARCHI_READ b base GPIO_PADIN_32_63_OFFSET"

definition gpio_padin_32_63_set :: "'e pulp_bus \<Rightarrow> u32 \<Rightarrow> u32 \<Rightarrow> ('e, 'z) machine_scheme \<Rightarrow> ('e, 'z) machine_scheme" where
  "gpio_padin_32_63_set b base value = ARCHI_WRITE b base GPIO_PADIN_32_63_OFFSET value"

definition gpio_padout_32_63_get :: "'e pulp_bus \<Rightarrow> u32 \<Rightarrow> ('e, 'z) machine_scheme \<Rightarrow> u32 \<times> ('e, 'z) machine_scheme" where
  "gpio_padout_32_63_get b base = ARCHI_READ b base GPIO_PADOUT_32_63_OFFSET"

definition gpio_padout_32_63_set :: "'e pulp_bus \<Rightarrow> u32 \<Rightarrow> u32 \<Rightarrow> ('e, 'z) machine_scheme \<Rightarrow> ('e, 'z) machine_scheme" where
  "gpio_padout_32_63_set b base value = ARCHI_WRITE b base GPIO_PADOUT_32_63_OFFSET value"

definition gpio_padoutset_32_63_get :: "'e pulp_bus \<Rightarrow> u32 \<Rightarrow> ('e, 'z) machine_scheme \<Rightarrow> u32 \<times> ('e, 'z) machine_scheme" where
  "gpio_padoutset_32_63_get b base = ARCHI_READ b base GPIO_PADOUTSET_32_63_OFFSET"

definition gpio_padoutset_32_63_set :: "'e pulp_bus \<Rightarrow> u32 \<Rightarrow> u32 \<Rightarrow> ('e, 'z) machine_scheme \<Rightarrow> ('e, 'z) machine_scheme" where
  "gpio_padoutset_32_63_set b base value = ARCHI_WRITE b base GPIO_PADOUTSET_32_63_OFFSET value"

definition gpio_padoutclr_32_63_get :: "'e pulp_bus \<Rightarrow> u32 \<Rightarrow> ('e, 'z) machine_scheme \<Rightarrow> u32 \<times> ('e, 'z) machine_scheme" where
  "gpio_padoutclr_32_63_get b base = ARCHI_READ b base GPIO_PADOUTCLR_32_63_OFFSET"

definition gpio_padoutclr_32_63_set :: "'e pulp_bus \<Rightarrow> u32 \<Rightarrow> u32 \<Rightarrow> ('e, 'z) machine_scheme \<Rightarrow> ('e, 'z) machine_scheme" where
  "gpio_padoutclr_32_63_set b base value = ARCHI_WRITE b base GPIO_PADOUTCLR_32_63_OFFSET value"

definition gpio_inten_32_63_get :: "'e pulp_bus \<Rightarrow> u32 \<Rightarrow> ('e, 'z) machine_scheme \<Rightarrow> u32 \<times> ('e, 'z) machine_scheme" where
  "gpio_inten_32_63_get b base = ARCHI_READ b base GPIO_INTEN_32_63_OFFSET"

definition gpio_inten_32_63_set :: "'e pulp_bus \<Rightarrow> u32 \<Rightarrow> u32 \<Rightarrow> ('e, 'z) machine_scheme \<Rightarrow> ('e, 'z) machine_scheme" where
  "gpio_inten_32_63_set b base value = ARCHI_WRITE b base GPIO_INTEN_32_63_OFFSET value"

definition gpio_inttype_32_47_get :: "'e pulp_bus \<Rightarrow> u32 \<Rightarrow> ('e, 'z) machine_scheme \<Rightarrow> u32 \<times> ('e, 'z) machine_scheme" where
  "gpio_inttype_32_47_get b base = ARCHI_READ b base GPIO_INTTYPE_32_47_OFFSET"

definition gpio_inttype_32_47_set :: "'e pulp_bus \<Rightarrow> u32 \<Rightarrow> u32 \<Rightarrow> ('e, 'z) machine_scheme \<Rightarrow> ('e, 'z) machine_scheme" where
  "gpio_inttype_32_47_set b base value = ARCHI_WRITE b base GPIO_INTTYPE_32_47_OFFSET value"

definition gpio_inttype_48_63_get :: "'e pulp_bus \<Rightarrow> u32 \<Rightarrow> ('e, 'z) machine_scheme \<Rightarrow> u32 \<times> ('e, 'z) machine_scheme" where
  "gpio_inttype_48_63_get b base = ARCHI_READ b base GPIO_INTTYPE_48_63_OFFSET"

definition gpio_inttype_48_63_set :: "'e pulp_bus \<Rightarrow> u32 \<Rightarrow> u32 \<Rightarrow> ('e, 'z) machine_scheme \<Rightarrow> ('e, 'z) machine_scheme" where
  "gpio_inttype_48_63_set b base value = ARCHI_WRITE b base GPIO_INTTYPE_48_63_OFFSET value"

definition gpio_intstatus_32_63_get :: "'e pulp_bus \<Rightarrow> u32 \<Rightarrow> ('e, 'z) machine_scheme \<Rightarrow> u32 \<times> ('e, 'z) machine_scheme" where
  "gpio_intstatus_32_63_get b base = ARCHI_READ b base GPIO_INTSTATUS_32_63_OFFSET"

definition gpio_intstatus_32_63_set :: "'e pulp_bus \<Rightarrow> u32 \<Rightarrow> u32 \<Rightarrow> ('e, 'z) machine_scheme \<Rightarrow> ('e, 'z) machine_scheme" where
  "gpio_intstatus_32_63_set b base value = ARCHI_WRITE b base GPIO_INTSTATUS_32_63_OFFSET value"

definition gpio_padcfg_32_39_get :: "'e pulp_bus \<Rightarrow> u32 \<Rightarrow> ('e, 'z) machine_scheme \<Rightarrow> u32 \<times> ('e, 'z) machine_scheme" where
  "gpio_padcfg_32_39_get b base = ARCHI_READ b base GPIO_PADCFG_32_39_OFFSET"

definition gpio_padcfg_32_39_set :: "'e pulp_bus \<Rightarrow> u32 \<Rightarrow> u32 \<Rightarrow> ('e, 'z) machine_scheme \<Rightarrow> ('e, 'z) machine_scheme" where
  "gpio_padcfg_32_39_set b base value = ARCHI_WRITE b base GPIO_PADCFG_32_39_OFFSET value"

definition gpio_padcfg_40_47_get :: "'e pulp_bus \<Rightarrow> u32 \<Rightarrow> ('e, 'z) machine_scheme \<Rightarrow> u32 \<times> ('e, 'z) machine_scheme" where
  "gpio_padcfg_40_47_get b base = ARCHI_READ b base GPIO_PADCFG_40_47_OFFSET"

definition gpio_padcfg_40_47_set :: "'e pulp_bus \<Rightarrow> u32 \<Rightarrow> u32 \<Rightarrow> ('e, 'z) machine_scheme \<Rightarrow> ('e, 'z) machine_scheme" where
  "gpio_padcfg_40_47_set b base value = ARCHI_WRITE b base GPIO_PADCFG_40_47_OFFSET value"

definition gpio_padcfg_48_55_get :: "'e pulp_bus \<Rightarrow> u32 \<Rightarrow> ('e, 'z) machine_scheme \<Rightarrow> u32 \<times> ('e, 'z) machine_scheme" where
  "gpio_padcfg_48_55_get b base = ARCHI_READ b base GPIO_PADCFG_48_55_OFFSET"

definition gpio_padcfg_48_55_set :: "'e pulp_bus \<Rightarrow> u32 \<Rightarrow> u32 \<Rightarrow> ('e, 'z) machine_scheme \<Rightarrow> ('e, 'z) machine_scheme" where
  "gpio_padcfg_48_55_set b base value = ARCHI_WRITE b base GPIO_PADCFG_48_55_OFFSET value"

definition gpio_padcfg_56_63_get :: "'e pulp_bus \<Rightarrow> u32 \<Rightarrow> ('e, 'z) machine_scheme \<Rightarrow> u32 \<times> ('e, 'z) machine_scheme" where
  "gpio_padcfg_56_63_get b base = ARCHI_READ b base GPIO_PADCFG_56_63_OFFSET"

definition gpio_padcfg_56_63_set :: "'e pulp_bus \<Rightarrow> u32 \<Rightarrow> u32 \<Rightarrow> ('e, 'z) machine_scheme \<Rightarrow> ('e, 'z) machine_scheme" where
  "gpio_padcfg_56_63_set b base value = ARCHI_WRITE b base GPIO_PADCFG_56_63_OFFSET value"

section \<open>Fields\<close>

definition GPIO_PADDIR_DIR_BIT :: nat where "GPIO_PADDIR_DIR_BIT = 0"
definition GPIO_PADDIR_DIR_WIDTH :: nat where "GPIO_PADDIR_DIR_WIDTH = 32"
definition GPIO_GPIOEN_GPIOEN_BIT :: nat where "GPIO_GPIOEN_GPIOEN_BIT = 0"
definition GPIO_GPIOEN_GPIOEN_WIDTH :: nat where "GPIO_GPIOEN_GPIOEN_WIDTH = 32"
definition GPIO_PADIN_DATA_IN_BIT :: nat where "GPIO_PADIN_DATA_IN_BIT = 0"
definition GPIO_PADIN_DATA_IN_WIDTH :: nat where "GPIO_PADIN_DATA_IN_WIDTH = 32"
definition GPIO_PADOUT_DATA_OUT_BIT :: nat where "GPIO_PADOUT_DATA_OUT_BIT = 0"
definition GPIO_PADOUT_DATA_OUT_WIDTH :: nat where "GPIO_PADOUT_DATA_OUT_WIDTH = 32"
definition GPIO_PADOUTSET_DATA_SET_BIT :: nat where "GPIO_PADOUTSET_DATA_SET_BIT = 0"
definition GPIO_PADOUTSET_DATA_SET_WIDTH :: nat where "GPIO_PADOUTSET_DATA_SET_WIDTH = 32"
definition GPIO_PADOUTCLR_DATA_CLEAR_BIT :: nat where "GPIO_PADOUTCLR_DATA_CLEAR_BIT = 0"
definition GPIO_PADOUTCLR_DATA_CLEAR_WIDTH :: nat where "GPIO_PADOUTCLR_DATA_CLEAR_WIDTH = 32"
definition GPIO_INTEN_INTEN_BIT :: nat where "GPIO_INTEN_INTEN_BIT = 0"
definition GPIO_INTEN_INTEN_WIDTH :: nat where "GPIO_INTEN_INTEN_WIDTH = 32"
definition GPIO_INTTYPE0_INTTYPE0_BIT :: nat where "GPIO_INTTYPE0_INTTYPE0_BIT = 0"
definition GPIO_INTTYPE0_INTTYPE0_WIDTH :: nat where "GPIO_INTTYPE0_INTTYPE0_WIDTH = 32"
definition GPIO_INTTYPE1_INTTYPE1_BIT :: nat where "GPIO_INTTYPE1_INTTYPE1_BIT = 0"
definition GPIO_INTTYPE1_INTTYPE1_WIDTH :: nat where "GPIO_INTTYPE1_INTTYPE1_WIDTH = 32"
definition GPIO_INTSTATUS_INTSTATUS_BIT :: nat where "GPIO_INTSTATUS_INTSTATUS_BIT = 0"
definition GPIO_INTSTATUS_INTSTATUS_WIDTH :: nat where "GPIO_INTSTATUS_INTSTATUS_WIDTH = 32"
definition GPIO_PADCFG0_GPIO0_CFG_BIT :: nat where "GPIO_PADCFG0_GPIO0_CFG_BIT = 0"
definition GPIO_PADCFG0_GPIO0_CFG_WIDTH :: nat where "GPIO_PADCFG0_GPIO0_CFG_WIDTH = 4"
definition GPIO_PADCFG0_GPIO1_CFG_BIT :: nat where "GPIO_PADCFG0_GPIO1_CFG_BIT = 4"
definition GPIO_PADCFG0_GPIO1_CFG_WIDTH :: nat where "GPIO_PADCFG0_GPIO1_CFG_WIDTH = 4"
definition GPIO_PADCFG0_GPIO2_CFG_BIT :: nat where "GPIO_PADCFG0_GPIO2_CFG_BIT = 8"
definition GPIO_PADCFG0_GPIO2_CFG_WIDTH :: nat where "GPIO_PADCFG0_GPIO2_CFG_WIDTH = 4"
definition GPIO_PADCFG0_GPIO3_CFG_BIT :: nat where "GPIO_PADCFG0_GPIO3_CFG_BIT = 12"
definition GPIO_PADCFG0_GPIO3_CFG_WIDTH :: nat where "GPIO_PADCFG0_GPIO3_CFG_WIDTH = 4"
definition GPIO_PADCFG0_GPIO4_CFG_BIT :: nat where "GPIO_PADCFG0_GPIO4_CFG_BIT = 16"
definition GPIO_PADCFG0_GPIO4_CFG_WIDTH :: nat where "GPIO_PADCFG0_GPIO4_CFG_WIDTH = 4"
definition GPIO_PADCFG0_GPIO5_CFG_BIT :: nat where "GPIO_PADCFG0_GPIO5_CFG_BIT = 20"
definition GPIO_PADCFG0_GPIO5_CFG_WIDTH :: nat where "GPIO_PADCFG0_GPIO5_CFG_WIDTH = 4"
definition GPIO_PADCFG0_GPIO6_CFG_BIT :: nat where "GPIO_PADCFG0_GPIO6_CFG_BIT = 24"
definition GPIO_PADCFG0_GPIO6_CFG_WIDTH :: nat where "GPIO_PADCFG0_GPIO6_CFG_WIDTH = 4"
definition GPIO_PADCFG0_GPIO7_CFG_BIT :: nat where "GPIO_PADCFG0_GPIO7_CFG_BIT = 28"
definition GPIO_PADCFG0_GPIO7_CFG_WIDTH :: nat where "GPIO_PADCFG0_GPIO7_CFG_WIDTH = 4"
definition GPIO_PADCFG1_GPIO4_PE_BIT :: nat where "GPIO_PADCFG1_GPIO4_PE_BIT = 0"
definition GPIO_PADCFG1_GPIO4_PE_WIDTH :: nat where "GPIO_PADCFG1_GPIO4_PE_WIDTH = 1"
definition GPIO_PADCFG1_GPIO4_DS_BIT :: nat where "GPIO_PADCFG1_GPIO4_DS_BIT = 1"
definition GPIO_PADCFG1_GPIO4_DS_WIDTH :: nat where "GPIO_PADCFG1_GPIO4_DS_WIDTH = 1"
definition GPIO_PADDIR_32_63_DIR_BIT :: nat where "GPIO_PADDIR_32_63_DIR_BIT = 0"
definition GPIO_PADDIR_32_63_DIR_WIDTH :: nat where "GPIO_PADDIR_32_63_DIR_WIDTH = 32"
definition GPIO_GPIOEN_32_63_GPIOEN_BIT :: nat where "GPIO_GPIOEN_32_63_GPIOEN_BIT = 0"
definition GPIO_GPIOEN_32_63_GPIOEN_WIDTH :: nat where "GPIO_GPIOEN_32_63_GPIOEN_WIDTH = 32"
definition GPIO_PADIN_32_63_DATA_IN_BIT :: nat where "GPIO_PADIN_32_63_DATA_IN_BIT = 0"
definition GPIO_PADIN_32_63_DATA_IN_WIDTH :: nat where "GPIO_PADIN_32_63_DATA_IN_WIDTH = 32"
definition GPIO_PADOUT_32_63_DATA_OUT_BIT :: nat where "GPIO_PADOUT_32_63_DATA_OUT_BIT = 0"
definition GPIO_PADOUT_32_63_DATA_OUT_WIDTH :: nat where "GPIO_PADOUT_32_63_DATA_OUT_WIDTH = 32"
definition GPIO_PADOUTSET_32_63_DATA_SET_BIT :: nat where "GPIO_PADOUTSET_32_63_DATA_SET_BIT = 0"
definition GPIO_PADOUTSET_32_63_DATA_SET_WIDTH :: nat where "GPIO_PADOUTSET_32_63_DATA_SET_WIDTH = 32"
definition GPIO_PADOUTCLR_32_63_DATA_CLEAR_BIT :: nat where "GPIO_PADOUTCLR_32_63_DATA_CLEAR_BIT = 0"
definition GPIO_PADOUTCLR_32_63_DATA_CLEAR_WIDTH :: nat where "GPIO_PADOUTCLR_32_63_DATA_CLEAR_WIDTH = 32"
definition GPIO_INTEN_32_63_INTEN_BIT :: nat where "GPIO_INTEN_32_63_INTEN_BIT = 0"
definition GPIO_INTEN_32_63_INTEN_WIDTH :: nat where "GPIO_INTEN_32_63_INTEN_WIDTH = 32"
definition GPIO_INTTYPE_32_47_INTTYPE0_BIT :: nat where "GPIO_INTTYPE_32_47_INTTYPE0_BIT = 0"
definition GPIO_INTTYPE_32_47_INTTYPE0_WIDTH :: nat where "GPIO_INTTYPE_32_47_INTTYPE0_WIDTH = 32"
definition GPIO_INTTYPE_48_63_INTTYPE1_BIT :: nat where "GPIO_INTTYPE_48_63_INTTYPE1_BIT = 0"
definition GPIO_INTTYPE_48_63_INTTYPE1_WIDTH :: nat where "GPIO_INTTYPE_48_63_INTTYPE1_WIDTH = 32"
definition GPIO_INTSTATUS_32_63_INTSTATUS_BIT :: nat where "GPIO_INTSTATUS_32_63_INTSTATUS_BIT = 0"
definition GPIO_INTSTATUS_32_63_INTSTATUS_WIDTH :: nat where "GPIO_INTSTATUS_32_63_INTSTATUS_WIDTH = 32"
definition GPIO_PADDIR_DIR_MASK :: u32 where "GPIO_PADDIR_DIR_MASK = 0xffffffff"
definition GPIO_GPIOEN_GPIOEN_MASK :: u32 where "GPIO_GPIOEN_GPIOEN_MASK = 0xffffffff"
definition GPIO_PADIN_DATA_IN_MASK :: u32 where "GPIO_PADIN_DATA_IN_MASK = 0xffffffff"
definition GPIO_PADOUT_DATA_OUT_MASK :: u32 where "GPIO_PADOUT_DATA_OUT_MASK = 0xffffffff"
definition GPIO_PADOUTSET_DATA_SET_MASK :: u32 where "GPIO_PADOUTSET_DATA_SET_MASK = 0xffffffff"
definition GPIO_PADOUTCLR_DATA_CLEAR_MASK :: u32 where "GPIO_PADOUTCLR_DATA_CLEAR_MASK = 0xffffffff"
definition GPIO_INTEN_INTEN_MASK :: u32 where "GPIO_INTEN_INTEN_MASK = 0xffffffff"
definition GPIO_INTTYPE0_INTTYPE0_MASK :: u32 where "GPIO_INTTYPE0_INTTYPE0_MASK = 0xffffffff"
definition GPIO_INTTYPE1_INTTYPE1_MASK :: u32 where "GPIO_INTTYPE1_INTTYPE1_MASK = 0xffffffff"
definition GPIO_INTSTATUS_INTSTATUS_MASK :: u32 where "GPIO_INTSTATUS_INTSTATUS_MASK = 0xffffffff"
definition GPIO_PADCFG0_GPIO0_CFG_MASK :: u32 where "GPIO_PADCFG0_GPIO0_CFG_MASK = 0xf"
definition GPIO_PADCFG0_GPIO1_CFG_MASK :: u32 where "GPIO_PADCFG0_GPIO1_CFG_MASK = 0xf0"
definition GPIO_PADCFG0_GPIO2_CFG_MASK :: u32 where "GPIO_PADCFG0_GPIO2_CFG_MASK = 0xf00"
definition GPIO_PADCFG0_GPIO3_CFG_MASK :: u32 where "GPIO_PADCFG0_GPIO3_CFG_MASK = 0xf000"
definition GPIO_PADCFG0_GPIO4_CFG_MASK :: u32 where "GPIO_PADCFG0_GPIO4_CFG_MASK = 0xf0000"
definition GPIO_PADCFG0_GPIO5_CFG_MASK :: u32 where "GPIO_PADCFG0_GPIO5_CFG_MASK = 0xf00000"
definition GPIO_PADCFG0_GPIO6_CFG_MASK :: u32 where "GPIO_PADCFG0_GPIO6_CFG_MASK = 0xf000000"
definition GPIO_PADCFG0_GPIO7_CFG_MASK :: u32 where "GPIO_PADCFG0_GPIO7_CFG_MASK = 0xf0000000"
definition GPIO_PADCFG1_GPIO4_PE_MASK :: u32 where "GPIO_PADCFG1_GPIO4_PE_MASK = 0x1"
definition GPIO_PADCFG1_GPIO4_DS_MASK :: u32 where "GPIO_PADCFG1_GPIO4_DS_MASK = 0x2"
definition GPIO_PADDIR_32_63_DIR_MASK :: u32 where "GPIO_PADDIR_32_63_DIR_MASK = 0xffffffff"
definition GPIO_GPIOEN_32_63_GPIOEN_MASK :: u32 where "GPIO_GPIOEN_32_63_GPIOEN_MASK = 0xffffffff"
definition GPIO_PADIN_32_63_DATA_IN_MASK :: u32 where "GPIO_PADIN_32_63_DATA_IN_MASK = 0xffffffff"
definition GPIO_PADOUT_32_63_DATA_OUT_MASK :: u32 where "GPIO_PADOUT_32_63_DATA_OUT_MASK = 0xffffffff"
definition GPIO_PADOUTSET_32_63_DATA_SET_MASK :: u32 where "GPIO_PADOUTSET_32_63_DATA_SET_MASK = 0xffffffff"
definition GPIO_PADOUTCLR_32_63_DATA_CLEAR_MASK :: u32 where "GPIO_PADOUTCLR_32_63_DATA_CLEAR_MASK = 0xffffffff"
definition GPIO_INTEN_32_63_INTEN_MASK :: u32 where "GPIO_INTEN_32_63_INTEN_MASK = 0xffffffff"
definition GPIO_INTTYPE_32_47_INTTYPE0_MASK :: u32 where "GPIO_INTTYPE_32_47_INTTYPE0_MASK = 0xffffffff"
definition GPIO_INTTYPE_48_63_INTTYPE1_MASK :: u32 where "GPIO_INTTYPE_48_63_INTTYPE1_MASK = 0xffffffff"
definition GPIO_INTSTATUS_32_63_INTSTATUS_MASK :: u32 where "GPIO_INTSTATUS_32_63_INTSTATUS_MASK = 0xffffffff"

lemmas gpio_fields = GPIO_PADDIR_DIR_BIT_def GPIO_PADDIR_DIR_WIDTH_def GPIO_GPIOEN_GPIOEN_BIT_def
  GPIO_GPIOEN_GPIOEN_WIDTH_def GPIO_PADIN_DATA_IN_BIT_def GPIO_PADIN_DATA_IN_WIDTH_def
  GPIO_PADOUT_DATA_OUT_BIT_def GPIO_PADOUT_DATA_OUT_WIDTH_def GPIO_PADOUTSET_DATA_SET_BIT_def
  GPIO_PADOUTSET_DATA_SET_WIDTH_def GPIO_PADOUTCLR_DATA_CLEAR_BIT_def GPIO_PADOUTCLR_DATA_CLEAR_WIDTH_def
  GPIO_INTEN_INTEN_BIT_def GPIO_INTEN_INTEN_WIDTH_def GPIO_INTTYPE0_INTTYPE0_BIT_def
  GPIO_INTTYPE0_INTTYPE0_WIDTH_def GPIO_INTTYPE1_INTTYPE1_BIT_def GPIO_INTTYPE1_INTTYPE1_WIDTH_def
  GPIO_INTSTATUS_INTSTATUS_BIT_def GPIO_INTSTATUS_INTSTATUS_WIDTH_def GPIO_PADCFG0_GPIO0_CFG_BIT_def
  GPIO_PADCFG0_GPIO0_CFG_WIDTH_def GPIO_PADCFG0_GPIO1_CFG_BIT_def GPIO_PADCFG0_GPIO1_CFG_WIDTH_def
  GPIO_PADCFG0_GPIO2_CFG_BIT_def GPIO_PADCFG0_GPIO2_CFG_WIDTH_def GPIO_PADCFG0_GPIO3_CFG_BIT_def
  GPIO_PADCFG0_GPIO3_CFG_WIDTH_def GPIO_PADCFG0_GPIO4_CFG_BIT_def GPIO_PADCFG0_GPIO4_CFG_WIDTH_def
  GPIO_PADCFG0_GPIO5_CFG_BIT_def GPIO_PADCFG0_GPIO5_CFG_WIDTH_def GPIO_PADCFG0_GPIO6_CFG_BIT_def
  GPIO_PADCFG0_GPIO6_CFG_WIDTH_def GPIO_PADCFG0_GPIO7_CFG_BIT_def GPIO_PADCFG0_GPIO7_CFG_WIDTH_def
  GPIO_PADCFG1_GPIO4_PE_BIT_def GPIO_PADCFG1_GPIO4_PE_WIDTH_def GPIO_PADCFG1_GPIO4_DS_BIT_def
  GPIO_PADCFG1_GPIO4_DS_WIDTH_def GPIO_PADDIR_32_63_DIR_BIT_def GPIO_PADDIR_32_63_DIR_WIDTH_def
  GPIO_GPIOEN_32_63_GPIOEN_BIT_def GPIO_GPIOEN_32_63_GPIOEN_WIDTH_def GPIO_PADIN_32_63_DATA_IN_BIT_def
  GPIO_PADIN_32_63_DATA_IN_WIDTH_def GPIO_PADOUT_32_63_DATA_OUT_BIT_def GPIO_PADOUT_32_63_DATA_OUT_WIDTH_def
  GPIO_PADOUTSET_32_63_DATA_SET_BIT_def GPIO_PADOUTSET_32_63_DATA_SET_WIDTH_def
  GPIO_PADOUTCLR_32_63_DATA_CLEAR_BIT_def GPIO_PADOUTCLR_32_63_DATA_CLEAR_WIDTH_def
  GPIO_INTEN_32_63_INTEN_BIT_def GPIO_INTEN_32_63_INTEN_WIDTH_def GPIO_INTTYPE_32_47_INTTYPE0_BIT_def
  GPIO_INTTYPE_32_47_INTTYPE0_WIDTH_def GPIO_INTTYPE_48_63_INTTYPE1_BIT_def
  GPIO_INTTYPE_48_63_INTTYPE1_WIDTH_def GPIO_INTSTATUS_32_63_INTSTATUS_BIT_def
  GPIO_INTSTATUS_32_63_INTSTATUS_WIDTH_def GPIO_PADDIR_DIR_MASK_def GPIO_GPIOEN_GPIOEN_MASK_def
  GPIO_PADIN_DATA_IN_MASK_def GPIO_PADOUT_DATA_OUT_MASK_def GPIO_PADOUTSET_DATA_SET_MASK_def
  GPIO_PADOUTCLR_DATA_CLEAR_MASK_def GPIO_INTEN_INTEN_MASK_def GPIO_INTTYPE0_INTTYPE0_MASK_def
  GPIO_INTTYPE1_INTTYPE1_MASK_def GPIO_INTSTATUS_INTSTATUS_MASK_def GPIO_PADCFG0_GPIO0_CFG_MASK_def
  GPIO_PADCFG0_GPIO1_CFG_MASK_def GPIO_PADCFG0_GPIO2_CFG_MASK_def GPIO_PADCFG0_GPIO3_CFG_MASK_def
  GPIO_PADCFG0_GPIO4_CFG_MASK_def GPIO_PADCFG0_GPIO5_CFG_MASK_def GPIO_PADCFG0_GPIO6_CFG_MASK_def
  GPIO_PADCFG0_GPIO7_CFG_MASK_def GPIO_PADCFG1_GPIO4_PE_MASK_def GPIO_PADCFG1_GPIO4_DS_MASK_def
  GPIO_PADDIR_32_63_DIR_MASK_def GPIO_GPIOEN_32_63_GPIOEN_MASK_def GPIO_PADIN_32_63_DATA_IN_MASK_def
  GPIO_PADOUT_32_63_DATA_OUT_MASK_def GPIO_PADOUTSET_32_63_DATA_SET_MASK_def
  GPIO_PADOUTCLR_32_63_DATA_CLEAR_MASK_def GPIO_INTEN_32_63_INTEN_MASK_def
  GPIO_INTTYPE_32_47_INTTYPE0_MASK_def GPIO_INTTYPE_48_63_INTTYPE1_MASK_def
  GPIO_INTSTATUS_32_63_INTSTATUS_MASK_def

definition GPIO_PADCFG0_GPIO0_CFG_GET :: "u32 \<Rightarrow> u32" where "GPIO_PADCFG0_GPIO0_CFG_GET value = BITEXTRACTU value 4 0"
definition GPIO_PADCFG0_GPIO0_CFG_GETS :: "u32 \<Rightarrow> u32" where "GPIO_PADCFG0_GPIO0_CFG_GETS value = BITEXTRACT value 4 0"
definition GPIO_PADCFG0_GPIO0_CFG_SET :: "u32 \<Rightarrow> u32 \<Rightarrow> u32" where "GPIO_PADCFG0_GPIO0_CFG_SET value field = BITINSERT value field 4 0"
definition GPIO_PADCFG0_GPIO0_CFG :: "u32 \<Rightarrow> u32" where "GPIO_PADCFG0_GPIO0_CFG val = push_bit 0 val"
definition GPIO_PADCFG0_GPIO1_CFG_GET :: "u32 \<Rightarrow> u32" where "GPIO_PADCFG0_GPIO1_CFG_GET value = BITEXTRACTU value 4 4"
definition GPIO_PADCFG0_GPIO1_CFG_GETS :: "u32 \<Rightarrow> u32" where "GPIO_PADCFG0_GPIO1_CFG_GETS value = BITEXTRACT value 4 4"
definition GPIO_PADCFG0_GPIO1_CFG_SET :: "u32 \<Rightarrow> u32 \<Rightarrow> u32" where "GPIO_PADCFG0_GPIO1_CFG_SET value field = BITINSERT value field 4 4"
definition GPIO_PADCFG0_GPIO1_CFG :: "u32 \<Rightarrow> u32" where "GPIO_PADCFG0_GPIO1_CFG val = push_bit 4 val"
definition GPIO_PADCFG0_GPIO2_CFG_GET :: "u32 \<Rightarrow> u32" where "GPIO_PADCFG0_GPIO2_CFG_GET value = BITEXTRACTU value 4 8"
definition GPIO_PADCFG0_GPIO2_CFG_GETS :: "u32 \<Rightarrow> u32" where "GPIO_PADCFG0_GPIO2_CFG_GETS value = BITEXTRACT value 4 8"
definition GPIO_PADCFG0_GPIO2_CFG_SET :: "u32 \<Rightarrow> u32 \<Rightarrow> u32" where "GPIO_PADCFG0_GPIO2_CFG_SET value field = BITINSERT value field 4 8"
definition GPIO_PADCFG0_GPIO2_CFG :: "u32 \<Rightarrow> u32" where "GPIO_PADCFG0_GPIO2_CFG val = push_bit 8 val"
definition GPIO_PADCFG0_GPIO3_CFG_GET :: "u32 \<Rightarrow> u32" where "GPIO_PADCFG0_GPIO3_CFG_GET value = BITEXTRACTU value 4 12"
definition GPIO_PADCFG0_GPIO3_CFG_GETS :: "u32 \<Rightarrow> u32" where "GPIO_PADCFG0_GPIO3_CFG_GETS value = BITEXTRACT value 4 12"
definition GPIO_PADCFG0_GPIO3_CFG_SET :: "u32 \<Rightarrow> u32 \<Rightarrow> u32" where "GPIO_PADCFG0_GPIO3_CFG_SET value field = BITINSERT value field 4 12"
definition GPIO_PADCFG0_GPIO3_CFG :: "u32 \<Rightarrow> u32" where "GPIO_PADCFG0_GPIO3_CFG val = push_bit 12 val"
definition GPIO_PADCFG0_GPIO4_CFG_GET :: "u32 \<Rightarrow> u32" where "GPIO_PADCFG0_GPIO4_CFG_GET value = BITEXTRACTU value 4 16"
definition GPIO_PADCFG0_GPIO4_CFG_GETS :: "u32 \<Rightarrow> u32" where "GPIO_PADCFG0_GPIO4_CFG_GETS value = BITEXTRACT value 4 16"
definition GPIO_PADCFG0_GPIO4_CFG_SET :: "u32 \<Rightarrow> u32 \<Rightarrow> u32" where "GPIO_PADCFG0_GPIO4_CFG_SET value field = BITINSERT value field 4 16"
definition GPIO_PADCFG0_GPIO4_CFG :: "u32 \<Rightarrow> u32" where "GPIO_PADCFG0_GPIO4_CFG val = push_bit 16 val"
definition GPIO_PADCFG0_GPIO5_CFG_GET :: "u32 \<Rightarrow> u32" where "GPIO_PADCFG0_GPIO5_CFG_GET value = BITEXTRACTU value 4 20"
definition GPIO_PADCFG0_GPIO5_CFG_GETS :: "u32 \<Rightarrow> u32" where "GPIO_PADCFG0_GPIO5_CFG_GETS value = BITEXTRACT value 4 20"
definition GPIO_PADCFG0_GPIO5_CFG_SET :: "u32 \<Rightarrow> u32 \<Rightarrow> u32" where "GPIO_PADCFG0_GPIO5_CFG_SET value field = BITINSERT value field 4 20"
definition GPIO_PADCFG0_GPIO5_CFG :: "u32 \<Rightarrow> u32" where "GPIO_PADCFG0_GPIO5_CFG val = push_bit 20 val"
definition GPIO_PADCFG0_GPIO6_CFG_GET :: "u32 \<Rightarrow> u32" where "GPIO_PADCFG0_GPIO6_CFG_GET value = BITEXTRACTU value 4 24"
definition GPIO_PADCFG0_GPIO6_CFG_GETS :: "u32 \<Rightarrow> u32" where "GPIO_PADCFG0_GPIO6_CFG_GETS value = BITEXTRACT value 4 24"
definition GPIO_PADCFG0_GPIO6_CFG_SET :: "u32 \<Rightarrow> u32 \<Rightarrow> u32" where "GPIO_PADCFG0_GPIO6_CFG_SET value field = BITINSERT value field 4 24"
definition GPIO_PADCFG0_GPIO6_CFG :: "u32 \<Rightarrow> u32" where "GPIO_PADCFG0_GPIO6_CFG val = push_bit 24 val"
definition GPIO_PADCFG0_GPIO7_CFG_GET :: "u32 \<Rightarrow> u32" where "GPIO_PADCFG0_GPIO7_CFG_GET value = BITEXTRACTU value 4 28"
definition GPIO_PADCFG0_GPIO7_CFG_GETS :: "u32 \<Rightarrow> u32" where "GPIO_PADCFG0_GPIO7_CFG_GETS value = BITEXTRACT value 4 28"
definition GPIO_PADCFG0_GPIO7_CFG_SET :: "u32 \<Rightarrow> u32 \<Rightarrow> u32" where "GPIO_PADCFG0_GPIO7_CFG_SET value field = BITINSERT value field 4 28"
definition GPIO_PADCFG0_GPIO7_CFG :: "u32 \<Rightarrow> u32" where "GPIO_PADCFG0_GPIO7_CFG val = push_bit 28 val"
definition GPIO_PADCFG1_GPIO4_PE_GET :: "u32 \<Rightarrow> u32" where "GPIO_PADCFG1_GPIO4_PE_GET value = BITEXTRACTU value 1 0"
definition GPIO_PADCFG1_GPIO4_PE_GETS :: "u32 \<Rightarrow> u32" where "GPIO_PADCFG1_GPIO4_PE_GETS value = BITEXTRACT value 1 0"
definition GPIO_PADCFG1_GPIO4_PE_SET :: "u32 \<Rightarrow> u32 \<Rightarrow> u32" where "GPIO_PADCFG1_GPIO4_PE_SET value field = BITINSERT value field 1 0"
definition GPIO_PADCFG1_GPIO4_PE :: "u32 \<Rightarrow> u32" where "GPIO_PADCFG1_GPIO4_PE val = push_bit 0 val"
definition GPIO_PADCFG1_GPIO4_DS_GET :: "u32 \<Rightarrow> u32" where "GPIO_PADCFG1_GPIO4_DS_GET value = BITEXTRACTU value 1 1"
definition GPIO_PADCFG1_GPIO4_DS_GETS :: "u32 \<Rightarrow> u32" where "GPIO_PADCFG1_GPIO4_DS_GETS value = BITEXTRACT value 1 1"
definition GPIO_PADCFG1_GPIO4_DS_SET :: "u32 \<Rightarrow> u32 \<Rightarrow> u32" where "GPIO_PADCFG1_GPIO4_DS_SET value field = BITINSERT value field 1 1"
definition GPIO_PADCFG1_GPIO4_DS :: "u32 \<Rightarrow> u32" where "GPIO_PADCFG1_GPIO4_DS val = push_bit 1 val"

lemmas gpio_macros = GPIO_PADCFG0_GPIO0_CFG_GET_def GPIO_PADCFG0_GPIO0_CFG_GETS_def
  GPIO_PADCFG0_GPIO0_CFG_SET_def GPIO_PADCFG0_GPIO0_CFG_def GPIO_PADCFG0_GPIO1_CFG_GET_def
  GPIO_PADCFG0_GPIO1_CFG_GETS_def GPIO_PADCFG0_GPIO1_CFG_SET_def GPIO_PADCFG0_GPIO1_CFG_def
  GPIO_PADCFG0_GPIO2_CFG_GET_def GPIO_PADCFG0_GPIO2_CFG_GETS_def GPIO_PADCFG0_GPIO2_CFG_SET_def
  GPIO_PADCFG0_GPIO2_CFG_def GPIO_PADCFG0_GPIO3_CFG_GET_def GPIO_PADCFG0_GPIO3_CFG_GETS_def
  GPIO_PADCFG0_GPIO3_CFG_SET_def GPIO_PADCFG0_GPIO3_CFG_def GPIO_PADCFG0_GPIO4_CFG_GET_def
  GPIO_PADCFG0_GPIO4_CFG_GETS_def GPIO_PADCFG0_GPIO4_CFG_SET_def GPIO_PADCFG0_GPIO4_CFG_def
  GPIO_PADCFG0_GPIO5_CFG_GET_def GPIO_PADCFG0_GPIO5_CFG_GETS_def GPIO_PADCFG0_GPIO5_CFG_SET_def
  GPIO_PADCFG0_GPIO5_CFG_def GPIO_PADCFG0_GPIO6_CFG_GET_def GPIO_PADCFG0_GPIO6_CFG_GETS_def
  GPIO_PADCFG0_GPIO6_CFG_SET_def GPIO_PADCFG0_GPIO6_CFG_def GPIO_PADCFG0_GPIO7_CFG_GET_def
  GPIO_PADCFG0_GPIO7_CFG_GETS_def GPIO_PADCFG0_GPIO7_CFG_SET_def GPIO_PADCFG0_GPIO7_CFG_def
  GPIO_PADCFG1_GPIO4_PE_GET_def GPIO_PADCFG1_GPIO4_PE_GETS_def GPIO_PADCFG1_GPIO4_PE_SET_def
  GPIO_PADCFG1_GPIO4_PE_def GPIO_PADCFG1_GPIO4_DS_GET_def GPIO_PADCFG1_GPIO4_DS_GETS_def
  GPIO_PADCFG1_GPIO4_DS_SET_def GPIO_PADCFG1_GPIO4_DS_def

lemma gpio_masks: "GPIO_PADDIR_DIR_MASK = push_bit GPIO_PADDIR_DIR_BIT (mask GPIO_PADDIR_DIR_WIDTH) \<and>
   GPIO_GPIOEN_GPIOEN_MASK = push_bit GPIO_GPIOEN_GPIOEN_BIT (mask GPIO_GPIOEN_GPIOEN_WIDTH) \<and>
   GPIO_PADIN_DATA_IN_MASK = push_bit GPIO_PADIN_DATA_IN_BIT (mask GPIO_PADIN_DATA_IN_WIDTH) \<and>
   GPIO_PADOUT_DATA_OUT_MASK = push_bit GPIO_PADOUT_DATA_OUT_BIT (mask GPIO_PADOUT_DATA_OUT_WIDTH) \<and>
   GPIO_PADOUTSET_DATA_SET_MASK = push_bit GPIO_PADOUTSET_DATA_SET_BIT (mask GPIO_PADOUTSET_DATA_SET_WIDTH) \<and>
   GPIO_PADOUTCLR_DATA_CLEAR_MASK = push_bit GPIO_PADOUTCLR_DATA_CLEAR_BIT (mask GPIO_PADOUTCLR_DATA_CLEAR_WIDTH) \<and>
   GPIO_INTEN_INTEN_MASK = push_bit GPIO_INTEN_INTEN_BIT (mask GPIO_INTEN_INTEN_WIDTH) \<and>
   GPIO_INTTYPE0_INTTYPE0_MASK = push_bit GPIO_INTTYPE0_INTTYPE0_BIT (mask GPIO_INTTYPE0_INTTYPE0_WIDTH) \<and>
   GPIO_INTTYPE1_INTTYPE1_MASK = push_bit GPIO_INTTYPE1_INTTYPE1_BIT (mask GPIO_INTTYPE1_INTTYPE1_WIDTH) \<and>
   GPIO_INTSTATUS_INTSTATUS_MASK = push_bit GPIO_INTSTATUS_INTSTATUS_BIT (mask GPIO_INTSTATUS_INTSTATUS_WIDTH) \<and>
   GPIO_PADCFG0_GPIO0_CFG_MASK = push_bit GPIO_PADCFG0_GPIO0_CFG_BIT (mask GPIO_PADCFG0_GPIO0_CFG_WIDTH) \<and>
   GPIO_PADCFG0_GPIO1_CFG_MASK = push_bit GPIO_PADCFG0_GPIO1_CFG_BIT (mask GPIO_PADCFG0_GPIO1_CFG_WIDTH) \<and>
   GPIO_PADCFG0_GPIO2_CFG_MASK = push_bit GPIO_PADCFG0_GPIO2_CFG_BIT (mask GPIO_PADCFG0_GPIO2_CFG_WIDTH) \<and>
   GPIO_PADCFG0_GPIO3_CFG_MASK = push_bit GPIO_PADCFG0_GPIO3_CFG_BIT (mask GPIO_PADCFG0_GPIO3_CFG_WIDTH) \<and>
   GPIO_PADCFG0_GPIO4_CFG_MASK = push_bit GPIO_PADCFG0_GPIO4_CFG_BIT (mask GPIO_PADCFG0_GPIO4_CFG_WIDTH) \<and>
   GPIO_PADCFG0_GPIO5_CFG_MASK = push_bit GPIO_PADCFG0_GPIO5_CFG_BIT (mask GPIO_PADCFG0_GPIO5_CFG_WIDTH) \<and>
   GPIO_PADCFG0_GPIO6_CFG_MASK = push_bit GPIO_PADCFG0_GPIO6_CFG_BIT (mask GPIO_PADCFG0_GPIO6_CFG_WIDTH) \<and>
   GPIO_PADCFG0_GPIO7_CFG_MASK = push_bit GPIO_PADCFG0_GPIO7_CFG_BIT (mask GPIO_PADCFG0_GPIO7_CFG_WIDTH) \<and>
   GPIO_PADCFG1_GPIO4_PE_MASK = push_bit GPIO_PADCFG1_GPIO4_PE_BIT (mask GPIO_PADCFG1_GPIO4_PE_WIDTH) \<and>
   GPIO_PADCFG1_GPIO4_DS_MASK = push_bit GPIO_PADCFG1_GPIO4_DS_BIT (mask GPIO_PADCFG1_GPIO4_DS_WIDTH) \<and>
   GPIO_PADDIR_32_63_DIR_MASK = push_bit GPIO_PADDIR_32_63_DIR_BIT (mask GPIO_PADDIR_32_63_DIR_WIDTH) \<and>
   GPIO_GPIOEN_32_63_GPIOEN_MASK = push_bit GPIO_GPIOEN_32_63_GPIOEN_BIT (mask GPIO_GPIOEN_32_63_GPIOEN_WIDTH) \<and>
   GPIO_PADIN_32_63_DATA_IN_MASK = push_bit GPIO_PADIN_32_63_DATA_IN_BIT (mask GPIO_PADIN_32_63_DATA_IN_WIDTH) \<and>
   GPIO_PADOUT_32_63_DATA_OUT_MASK = push_bit GPIO_PADOUT_32_63_DATA_OUT_BIT (mask GPIO_PADOUT_32_63_DATA_OUT_WIDTH) \<and>
   GPIO_PADOUTSET_32_63_DATA_SET_MASK = push_bit GPIO_PADOUTSET_32_63_DATA_SET_BIT (mask GPIO_PADOUTSET_32_63_DATA_SET_WIDTH) \<and>
   GPIO_PADOUTCLR_32_63_DATA_CLEAR_MASK = push_bit GPIO_PADOUTCLR_32_63_DATA_CLEAR_BIT (mask GPIO_PADOUTCLR_32_63_DATA_CLEAR_WIDTH) \<and>
   GPIO_INTEN_32_63_INTEN_MASK = push_bit GPIO_INTEN_32_63_INTEN_BIT (mask GPIO_INTEN_32_63_INTEN_WIDTH) \<and>
   GPIO_INTTYPE_32_47_INTTYPE0_MASK = push_bit GPIO_INTTYPE_32_47_INTTYPE0_BIT (mask GPIO_INTTYPE_32_47_INTTYPE0_WIDTH) \<and>
   GPIO_INTTYPE_48_63_INTTYPE1_MASK = push_bit GPIO_INTTYPE_48_63_INTTYPE1_BIT (mask GPIO_INTTYPE_48_63_INTTYPE1_WIDTH) \<and>
   GPIO_INTSTATUS_32_63_INTSTATUS_MASK = push_bit GPIO_INTSTATUS_32_63_INTSTATUS_BIT (mask GPIO_INTSTATUS_32_63_INTSTATUS_WIDTH)"
  unfolding gpio_fields by (simp add: mask_eq_exp_minus_1)

section \<open>Routines\<close>

text \<open>
  \<^verbatim>\<open>1<<pin\<close> is defined in C for pins below 32 only; the model shifts the bit out for larger ones. The
  interrupt type of a pin takes two bits of one of two registers.
\<close>

definition ARCHI_GPIO_PADDIR_IN :: u32 where "ARCHI_GPIO_PADDIR_IN = 0"
definition ARCHI_GPIO_PADDIR_OUT :: u32 where "ARCHI_GPIO_PADDIR_OUT = 1"
definition ARCHI_GPIO_INTTYPE_RISE :: u32 where "ARCHI_GPIO_INTTYPE_RISE = 1"
definition ARCHI_GPIO_INTTYPE_FALL :: u32 where "ARCHI_GPIO_INTTYPE_FALL = 0"
definition ARCHI_GPIO_INTTYPE_RISE_AND_FALL :: u32 where "ARCHI_GPIO_INTTYPE_RISE_AND_FALL = 2"
definition ARCHI_GPIO_INTTYPE_NO :: "u32 \<Rightarrow> u32" where "ARCHI_GPIO_INTTYPE_NO gpio = drop_bit 4 gpio"
definition ARCHI_GPIO_INTTYPE_GPIO :: "u32 \<Rightarrow> u32" where "ARCHI_GPIO_INTTYPE_GPIO inttype = inttype * 16"
definition ARCHI_GPIO_INTTYPE_SIZE :: nat where "ARCHI_GPIO_INTTYPE_SIZE = 2"
definition ARCHI_GPIO_INTTYPE_BIT :: "u32 \<Rightarrow> u32" where "ARCHI_GPIO_INTTYPE_BIT pad = push_bit 1 (pad AND 0xF)"

definition ARCHI_GPIO_INTTYPE_GET :: "u32 \<Rightarrow> u32 \<Rightarrow> u32" where
  "ARCHI_GPIO_INTTYPE_GET gpio value =
     drop_bit (unat (ARCHI_GPIO_INTTYPE_BIT gpio)) value AND (push_bit ARCHI_GPIO_INTTYPE_SIZE 1 - 1)"

definition hal_gpio_inttype_set ::
  "'e pulp_bus \<Rightarrow> u32 \<Rightarrow> u32 \<Rightarrow> ('e, 'z) machine_scheme \<Rightarrow> ('e, 'z) machine_scheme" where
  "hal_gpio_inttype_set b i value s =
     (if i = 0 then gpio_inttype0_set b ARCHI_GPIO_ADDR value s else gpio_inttype1_set b ARCHI_GPIO_ADDR value s)"

definition hal_gpio_inttype_get ::
  "'e pulp_bus \<Rightarrow> u32 \<Rightarrow> ('e, 'z) machine_scheme \<Rightarrow> u32 \<times> ('e, 'z) machine_scheme" where
  "hal_gpio_inttype_get b i s =
     (if i = 0 then gpio_inttype0_get b ARCHI_GPIO_ADDR s else gpio_inttype1_get b ARCHI_GPIO_ADDR s)"

definition hal_gpio_en_get :: "'e pulp_bus \<Rightarrow> ('e, 'z) machine_scheme \<Rightarrow> u32 \<times> ('e, 'z) machine_scheme" where
  "hal_gpio_en_get b = gpio_gpioen_get b ARCHI_GPIO_ADDR"

definition hal_gpio_en_set :: "'e pulp_bus \<Rightarrow> u32 \<Rightarrow> ('e, 'z) machine_scheme \<Rightarrow> ('e, 'z) machine_scheme" where
  "hal_gpio_en_set b value = gpio_gpioen_set b ARCHI_GPIO_ADDR value"

definition hal_gpio_set_dir ::
  "'e pulp_bus \<Rightarrow> u32 \<Rightarrow> u8 \<Rightarrow> ('e, 'z) machine_scheme \<Rightarrow> ('e, 'z) machine_scheme" where
  "hal_gpio_set_dir b msk is_out s =
     (case gpio_paddir_get b ARCHI_GPIO_ADDR s of (current, s) \<Rightarrow>
        let current = (if is_out \<noteq> 0 then current OR msk else current AND NOT msk)
        in gpio_paddir_set b ARCHI_GPIO_ADDR current s)"

definition hal_gpio_set_value ::
  "'e pulp_bus \<Rightarrow> u32 \<Rightarrow> u8 \<Rightarrow> ('e, 'z) machine_scheme \<Rightarrow> ('e, 'z) machine_scheme" where
  "hal_gpio_set_value b msk value s =
     (case gpio_padout_get b ARCHI_GPIO_ADDR s of (current, s) \<Rightarrow>
        let current = (if value \<noteq> 0 then current OR msk else current AND NOT msk)
        in gpio_padout_set b ARCHI_GPIO_ADDR current s)"

definition hal_gpio_get_value :: "'e pulp_bus \<Rightarrow> ('e, 'z) machine_scheme \<Rightarrow> u32 \<times> ('e, 'z) machine_scheme" where
  "hal_gpio_get_value b = gpio_padout_get b ARCHI_GPIO_ADDR"

definition hal_gpio_set_pin_value ::
  "'e pulp_bus \<Rightarrow> u32 \<Rightarrow> u8 \<Rightarrow> ('e, 'z) machine_scheme \<Rightarrow> ('e, 'z) machine_scheme" where
  "hal_gpio_set_pin_value b pin value s =
     (case gpio_padout_get b ARCHI_GPIO_ADDR s of (current, s) \<Rightarrow>
        let current = (if value \<noteq> 0 then current OR push_bit (unat pin) 1 else current AND NOT (push_bit (unat pin) 1))
        in gpio_padout_set b ARCHI_GPIO_ADDR current s)"

section \<open>Contract of the pads\<close>

text \<open>
  What the routines rely on: the direction and output registers hold what was last written to them,
  and reading them changes nothing.
\<close>

locale gpio_hw =
  fixes b :: "'e pulp_bus" and dir out :: "'e \<Rightarrow> u32"
  assumes rd_dir: "bus_rd b (M32 (ARCHI_GPIO_ADDR + GPIO_PADDIR_OFFSET)) (m, e) = (dir e, m, e)"
    and rd_out: "bus_rd b (M32 (ARCHI_GPIO_ADDR + GPIO_PADOUT_OFFSET)) (m, e) = (out e, m, e)"
    and wr_dir: "\<exists>e'. bus_wr b (M32 (ARCHI_GPIO_ADDR + GPIO_PADDIR_OFFSET)) v (m, e) = (m, e') \<and> dir e' = v \<and> out e' = out e"
    and wr_out: "\<exists>e'. bus_wr b (M32 (ARCHI_GPIO_ADDR + GPIO_PADOUT_OFFSET)) v (m, e) = (m, e') \<and> dir e' = dir e \<and> out e' = v"
begin

lemma get_dir: "gpio_paddir_get b ARCHI_GPIO_ADDR s = (dir (ext s), s)"
  by (simp add: gpio_paddir_get_def ARCHI_READ_def rd_def rd_dir)

lemma get_out: "gpio_padout_get b ARCHI_GPIO_ADDR s = (out (ext s), s)"
  by (simp add: gpio_padout_get_def ARCHI_READ_def rd_def rd_out)

lemma set_dir:
  "dir (ext (gpio_paddir_set b ARCHI_GPIO_ADDR v s)) = v \<and> out (ext (gpio_paddir_set b ARCHI_GPIO_ADDR v s)) = out (ext s)"
  using wr_dir [of v "ram s" "ext s"] by (auto simp: gpio_paddir_set_def ARCHI_WRITE_def wr_def)

lemma set_out:
  "out (ext (gpio_padout_set b ARCHI_GPIO_ADDR v s)) = v \<and> dir (ext (gpio_padout_set b ARCHI_GPIO_ADDR v s)) = dir (ext s)"
  using wr_out [of v "ram s" "ext s"] by (auto simp: gpio_padout_set_def ARCHI_WRITE_def wr_def)

lemma pin_value:
  assumes "pin < 32"
  shows "bit (out (ext (hal_gpio_set_pin_value b pin v s))) n \<longleftrightarrow>
    (if n = unat pin then v \<noteq> 0 else bit (out (ext s)) n)"
  using assms by (auto simp: hal_gpio_set_pin_value_def get_out set_out Let_def bit_simps word_less_nat_alt
    push_bit_of_1 not_less dest: bit_imp_le_length)

lemma pin_dir: "dir (ext (hal_gpio_set_pin_value b pin v s)) = dir (ext s)"
  by (simp add: hal_gpio_set_pin_value_def get_out set_out Let_def)

lemma as_input:
  "dir (ext (hal_gpio_set_dir b msk 0 s)) = dir (ext s) AND NOT msk \<and> out (ext (hal_gpio_set_dir b msk 0 s)) = out (ext s)"
  by (simp add: hal_gpio_set_dir_def get_dir set_dir Let_def)

end

text \<open>
  A reference device after the register descriptions of the header: writes to the set and clear
  registers change the bits that are set in the value, the input register shows the pins.
\<close>

record pads =
  pad_dir :: u32
  pad_out :: u32
  pad_in :: u32

definition pads_rd :: "pulp_loc \<Rightarrow> mem \<times> pads \<Rightarrow> u32 \<times> (mem \<times> pads)" where
  "pads_rd l me =
     (if l = M32 (ARCHI_GPIO_ADDR + GPIO_PADDIR_OFFSET) then (pad_dir (snd me), me)
      else if l = M32 (ARCHI_GPIO_ADDR + GPIO_PADIN_OFFSET) then (pad_in (snd me), me)
      else if l = M32 (ARCHI_GPIO_ADDR + GPIO_PADOUT_OFFSET) then (pad_out (snd me), me)
      else (0, me))"

definition pads_wr :: "pulp_loc \<Rightarrow> u32 \<Rightarrow> mem \<times> pads \<Rightarrow> mem \<times> pads" where
  "pads_wr l v me = (case me of (m, e) \<Rightarrow>
     if l = M32 (ARCHI_GPIO_ADDR + GPIO_PADDIR_OFFSET) then (m, e\<lparr>pad_dir := v\<rparr>)
     else if l = M32 (ARCHI_GPIO_ADDR + GPIO_PADOUT_OFFSET) then (m, e\<lparr>pad_out := v\<rparr>)
     else if l = M32 (ARCHI_GPIO_ADDR + GPIO_PADOUTSET_OFFSET) then (m, e\<lparr>pad_out := pad_out e OR v\<rparr>)
     else if l = M32 (ARCHI_GPIO_ADDR + GPIO_PADOUTCLR_OFFSET) then (m, e\<lparr>pad_out := pad_out e AND NOT v\<rparr>)
     else (m, e))"

definition pads_bus :: "pads pulp_bus" where
  "pads_bus = \<lparr>bus_rd = pads_rd, bus_wr = pads_wr, bus_wp = \<lambda>_ _ me. me\<rparr>"

interpretation pad_dev: gpio_hw pads_bus pad_dir pad_out
  by unfold_locales (simp_all add: pads_bus_def pads_rd_def pads_wr_def gpio_offsets map_defs)

section \<open>Properties\<close>

text \<open>
  C29. Setting the value of a pin below 32 makes that pin, and no other, read back as the value, and
  leaves the directions alone, on every device whose direction and output registers hold what is
  written to them.
\<close>

theorem gpio_set_pin:
  assumes "gpio_hw b dir out" and "pin < 32"
  shows "bit (fst (hal_gpio_get_value b (hal_gpio_set_pin_value b pin v s))) n =
      (if n = unat pin then v \<noteq> 0 else bit (fst (hal_gpio_get_value b s)) n) \<and>
    dir (ext (hal_gpio_set_pin_value b pin v s)) = dir (ext s)"
  using assms by (simp add: hal_gpio_get_value_def gpio_hw.get_out gpio_hw.pin_value gpio_hw.pin_dir)

definition pads_demo :: "pads machine" where
  "pads_demo = \<lparr>ram = \<lambda>_. 0, ext = \<lparr>pad_dir = 0xF0, pad_out = 0, pad_in = 0x55\<rparr>\<rparr>"

theorem gpio_set_pin_witness:
  "bit (fst (hal_gpio_get_value pads_bus (hal_gpio_set_pin_value pads_bus 5 1 pads_demo))) 5"
  using gpio_set_pin [OF pad_dev.gpio_hw_axioms, of 5 1 pads_demo 5] by simp

text \<open>
  The value read from the pads is the value last driven, not the level of the pins: turning pins
  into inputs does not change what is read, and on the reference device, where the input register
  shows other levels, they are not seen.
\<close>

theorem gpio_value_is_output:
  assumes "gpio_hw b dir out"
  shows "fst (hal_gpio_get_value b (hal_gpio_set_dir b msk 0 s)) = out (ext s) \<and>
    dir (ext (hal_gpio_set_dir b msk 0 s)) AND msk = 0 \<and>
    fst (hal_gpio_get_value pads_bus pads_demo) \<noteq> fst (gpio_padin_get pads_bus ARCHI_GPIO_ADDR pads_demo)"
proof (intro conjI)
  show "fst (hal_gpio_get_value b (hal_gpio_set_dir b msk 0 s)) = out (ext s)"
    using assms by (simp add: hal_gpio_get_value_def gpio_hw.get_out gpio_hw.as_input)
  show "dir (ext (hal_gpio_set_dir b msk 0 s)) AND msk = 0"
    using assms by (simp add: gpio_hw.as_input and.assoc)
  show "fst (hal_gpio_get_value pads_bus pads_demo) \<noteq> fst (gpio_padin_get pads_bus ARCHI_GPIO_ADDR pads_demo)"
    by (simp add: hal_gpio_get_value_def gpio_padout_get_def gpio_padin_get_def ARCHI_READ_def rd_def pads_bus_def pads_rd_def
      gpio_offsets map_defs pads_demo_def)
qed

theorem gpio_value_is_output_witness:
  "fst (hal_gpio_get_value pads_bus (hal_gpio_set_dir pads_bus 0xF0 0 pads_demo)) = pad_out (ext pads_demo)"
  using gpio_value_is_output [OF pad_dev.gpio_hw_axioms, of "0xF0" pads_demo] by simp

end
