(* ===== verification/Udma_Periphs.thy ===== *)
theory Udma_Periphs
  imports Boot_Rom Builtins_Props
begin

text \<open>
  The numbering of peripherals, channels and events of \<^verbatim>\<open>archi/chips/pulpissimo/properties.h\<close> and
  \<^verbatim>\<open>archi/udma/udma_v3.h\<close>, the camera interface of \<^verbatim>\<open>hal/udma/cpi/udma_cpi_v1.h\<close> with the registers
  of \<^verbatim>\<open>archi/udma/cpi/udma_cpi_v1_old.h\<close> and \<^verbatim>\<open>udma_cpi_v1.h\<close>, and the I2C master commands of
  \<^verbatim>\<open>udma_i2c_v2.h\<close>. The properties compare the descriptions with each other.
\<close>

section \<open>Peripherals, channels and events\<close>

definition ARCHI_L2_PRIV0_ADDR :: u32 where "ARCHI_L2_PRIV0_ADDR = 0x1c000000"
definition ARCHI_L2_PRIV0_SIZE :: u32 where "ARCHI_L2_PRIV0_SIZE = 0x00008000"
definition ARCHI_L2_PRIV1_ADDR :: u32 where "ARCHI_L2_PRIV1_ADDR = 0x1c008000"
definition ARCHI_L2_PRIV1_SIZE :: u32 where "ARCHI_L2_PRIV1_SIZE = 0x00008000"
definition ARCHI_L2_SHARED_ADDR :: u32 where "ARCHI_L2_SHARED_ADDR = 0x1c010000"
definition ARCHI_L2_SHARED_SIZE :: u32 where "ARCHI_L2_SHARED_SIZE = 0x00070000"
definition ARCHI_FC_CID :: nat where "ARCHI_FC_CID = 31"
definition ARCHI_REF_CLOCK_LOG2 :: nat where "ARCHI_REF_CLOCK_LOG2 = 15"
definition ARCHI_UDMA_NB_SPIM :: nat where "ARCHI_UDMA_NB_SPIM = 1"
definition ARCHI_UDMA_NB_UART :: nat where "ARCHI_UDMA_NB_UART = 1"
definition ARCHI_UDMA_NB_SDIO :: nat where "ARCHI_UDMA_NB_SDIO = 1"
definition ARCHI_UDMA_NB_I2C :: nat where "ARCHI_UDMA_NB_I2C = 1"
definition ARCHI_UDMA_NB_I2S :: nat where "ARCHI_UDMA_NB_I2S = 1"
definition ARCHI_UDMA_NB_CAM :: nat where "ARCHI_UDMA_NB_CAM = 1"
definition ARCHI_UDMA_NB_TRACER :: nat where "ARCHI_UDMA_NB_TRACER = 1"
definition ARCHI_UDMA_NB_FILTER :: nat where "ARCHI_UDMA_NB_FILTER = 1"
definition ARCHI_UDMA_I2C_ID :: "u32 \<Rightarrow> u32" where "ARCHI_UDMA_I2C_ID i = 2 + i"
definition ARCHI_UDMA_SDIO_ID :: "u32 \<Rightarrow> u32" where "ARCHI_UDMA_SDIO_ID i = 4 + i"
definition ARCHI_UDMA_I2S_ID :: "u32 \<Rightarrow> u32" where "ARCHI_UDMA_I2S_ID i = 5"
definition ARCHI_UDMA_CAM_ID :: "u32 \<Rightarrow> u32" where "ARCHI_UDMA_CAM_ID i = 6"
definition ARCHI_UDMA_FILTER_ID :: "u32 \<Rightarrow> u32" where "ARCHI_UDMA_FILTER_ID i = 7 + i"
definition ARCHI_UDMA_TRACER_ID :: "u32 \<Rightarrow> u32" where "ARCHI_UDMA_TRACER_ID i = 8"
definition ARCHI_UDMA_TGEN_ID :: "u32 \<Rightarrow> u32" where "ARCHI_UDMA_TGEN_ID i = 9"
definition ARCHI_NB_PERIPH :: nat where "ARCHI_NB_PERIPH = 10"
definition ARCHI_NB_FLL :: nat where "ARCHI_NB_FLL = 2"
definition ARCHI_SOC_EVENT_PERIPH_EVT_NB :: nat where "ARCHI_SOC_EVENT_PERIPH_EVT_NB = 160"
definition ARCHI_SOC_EVENT_SW_NB :: nat where "ARCHI_SOC_EVENT_SW_NB = 8"
definition ARCHI_SOC_EVENT_NB_TOTAL :: nat where "ARCHI_SOC_EVENT_NB_TOTAL = 256"
definition ARCHI_SOC_EVENT_UDMA_NB_CHANNEL_EVT_LOG2 :: nat where "ARCHI_SOC_EVENT_UDMA_NB_CHANNEL_EVT_LOG2 = 2"
definition ARCHI_SOC_EVENT_UDMA_FIRST_EVT :: nat where "ARCHI_SOC_EVENT_UDMA_FIRST_EVT = 0"
definition ARCHI_SOC_EVENT_UDMA_NB_TGEN_EVT :: nat where "ARCHI_SOC_EVENT_UDMA_NB_TGEN_EVT = 6"
definition ARCHI_SOC_EVENT_UART0_RX :: nat where "ARCHI_SOC_EVENT_UART0_RX = 0"
definition ARCHI_SOC_EVENT_UART0_TX :: nat where "ARCHI_SOC_EVENT_UART0_TX = 1"
definition ARCHI_SOC_EVENT_UART0_EOT :: nat where "ARCHI_SOC_EVENT_UART0_EOT = 2"
definition ARCHI_SOC_EVENT_UART0_RX_DATA :: nat where "ARCHI_SOC_EVENT_UART0_RX_DATA = 3"
definition ARCHI_SOC_EVENT_SPIM0_RX :: nat where "ARCHI_SOC_EVENT_SPIM0_RX = 4"
definition ARCHI_SOC_EVENT_SPIM0_TX :: nat where "ARCHI_SOC_EVENT_SPIM0_TX = 5"
definition ARCHI_SOC_EVENT_SPIM0_CMD :: nat where "ARCHI_SOC_EVENT_SPIM0_CMD = 6"
definition ARCHI_SOC_EVENT_I2C0_RX :: nat where "ARCHI_SOC_EVENT_I2C0_RX = 8"
definition ARCHI_SOC_EVENT_I2C0_TX :: nat where "ARCHI_SOC_EVENT_I2C0_TX = 9"
definition ARCHI_SOC_EVENT_I2C1_RX :: nat where "ARCHI_SOC_EVENT_I2C1_RX = 12"
definition ARCHI_SOC_EVENT_I2C1_TX :: nat where "ARCHI_SOC_EVENT_I2C1_TX = 13"
definition ARCHI_SOC_EVENT_SDIO0_RX :: nat where "ARCHI_SOC_EVENT_SDIO0_RX = 16"
definition ARCHI_SOC_EVENT_SDIO0_TX :: nat where "ARCHI_SOC_EVENT_SDIO0_TX = 17"
definition ARCHI_SOC_EVENT_I2S0_RX :: nat where "ARCHI_SOC_EVENT_I2S0_RX = 20"
definition ARCHI_SOC_EVENT_I2S0_TX :: nat where "ARCHI_SOC_EVENT_I2S0_TX = 21"
definition ARCHI_SOC_EVENT_CPI0_RX :: nat where "ARCHI_SOC_EVENT_CPI0_RX = 24"
definition ARCHI_SOC_EVENT_FILTER0_RX :: nat where "ARCHI_SOC_EVENT_FILTER0_RX = 28"
definition ARCHI_SOC_EVENT_FILTER0_TX :: nat where "ARCHI_SOC_EVENT_FILTER0_TX = 29"
definition ARCHI_SOC_EVENT_CLUSTER_ON_OFF :: nat where "ARCHI_SOC_EVENT_CLUSTER_ON_OFF = 31"
definition ARCHI_SOC_EVENT_MSP :: nat where "ARCHI_SOC_EVENT_MSP = 37"
definition ARCHI_SOC_EVENT_ICU_MODE_CHANGED :: nat where "ARCHI_SOC_EVENT_ICU_MODE_CHANGED = 37"
definition ARCHI_SOC_EVENT_ICU_OK :: nat where "ARCHI_SOC_EVENT_ICU_OK = 37"
definition ARCHI_SOC_EVENT_ICU_DELAYED :: nat where "ARCHI_SOC_EVENT_ICU_DELAYED = 37"
definition ARCHI_SOC_EVENT_CLUSTER_CG_OK :: nat where "ARCHI_SOC_EVENT_CLUSTER_CG_OK = 35"
definition ARCHI_SOC_EVENT_PICL_OK :: nat where "ARCHI_SOC_EVENT_PICL_OK = 36"
definition ARCHI_SOC_EVENT_SCU_OK :: nat where "ARCHI_SOC_EVENT_SCU_OK = 37"
definition ARCHI_SOC_EVENT_PMU_NB_EVENTS :: nat where "ARCHI_SOC_EVENT_PMU_NB_EVENTS = 7"
definition ARCHI_SOC_EVENT_GPIO :: nat where "ARCHI_SOC_EVENT_GPIO = 42"
definition ARCHI_SOC_EVENT_NB_I2S_CHANNELS :: nat where "ARCHI_SOC_EVENT_NB_I2S_CHANNELS = 4"
definition ARCHI_SOC_EVENT_NB_UDMA_CHANNELS :: nat where "ARCHI_SOC_EVENT_NB_UDMA_CHANNELS = 19"
definition ARCHI_SOC_EVENT_FCHWPE0 :: nat where "ARCHI_SOC_EVENT_FCHWPE0 = 140"
definition ARCHI_SOC_EVENT_FCHWPE1 :: nat where "ARCHI_SOC_EVENT_FCHWPE1 = 141"
definition ARCHI_SOC_EVENT_SW_EVENT0 :: nat where "ARCHI_SOC_EVENT_SW_EVENT0 = 48"
definition ARCHI_SOC_EVENT_SW_EVENT1 :: nat where "ARCHI_SOC_EVENT_SW_EVENT1 = 49"
definition ARCHI_SOC_EVENT_SW_EVENT2 :: nat where "ARCHI_SOC_EVENT_SW_EVENT2 = 50"
definition ARCHI_SOC_EVENT_SW_EVENT3 :: nat where "ARCHI_SOC_EVENT_SW_EVENT3 = 51"
definition ARCHI_SOC_EVENT_SW_EVENT4 :: nat where "ARCHI_SOC_EVENT_SW_EVENT4 = 52"
definition ARCHI_SOC_EVENT_SW_EVENT5 :: nat where "ARCHI_SOC_EVENT_SW_EVENT5 = 53"
definition ARCHI_SOC_EVENT_SW_EVENT6 :: nat where "ARCHI_SOC_EVENT_SW_EVENT6 = 54"
definition ARCHI_SOC_EVENT_SW_EVENT7 :: nat where "ARCHI_SOC_EVENT_SW_EVENT7 = 55"
definition ARCHI_SOC_EVENT_NB :: nat where "ARCHI_SOC_EVENT_NB = 8"
definition ARCHI_SOC_EVENT_REF_CLK_RISE :: nat where "ARCHI_SOC_EVENT_REF_CLK_RISE = 56"
definition ARCHI_FC_EVT_FIRST_SW :: nat where "ARCHI_FC_EVT_FIRST_SW = 0"
definition ARCHI_FC_EVT_NB_SW :: nat where "ARCHI_FC_EVT_NB_SW = 8"
definition ARCHI_FC_EVT_TIMER0_LO :: nat where "ARCHI_FC_EVT_TIMER0_LO = 10"
definition ARCHI_FC_EVT_TIMER0_HI :: nat where "ARCHI_FC_EVT_TIMER0_HI = 11"
definition ARCHI_FC_EVT_GPIO :: nat where "ARCHI_FC_EVT_GPIO = 15"
definition ARCHI_FC_EVT_RTC :: nat where "ARCHI_FC_EVT_RTC = 16"
definition ARCHI_FC_EVT_ADV_TIMER0 :: nat where "ARCHI_FC_EVT_ADV_TIMER0 = 17"
definition ARCHI_FC_EVT_ADV_TIMER1 :: nat where "ARCHI_FC_EVT_ADV_TIMER1 = 18"
definition ARCHI_FC_EVT_ADV_TIMER2 :: nat where "ARCHI_FC_EVT_ADV_TIMER2 = 19"
definition ARCHI_FC_EVT_ADV_TIMER3 :: nat where "ARCHI_FC_EVT_ADV_TIMER3 = 20"
definition ARCHI_FC_EVT_CLUSTER_NOT_BUSY :: nat where "ARCHI_FC_EVT_CLUSTER_NOT_BUSY = 21"
definition ARCHI_FC_EVT_CLUSTER_POK :: nat where "ARCHI_FC_EVT_CLUSTER_POK = 22"
definition ARCHI_FC_EVT_CLUSTER_CG_OK :: nat where "ARCHI_FC_EVT_CLUSTER_CG_OK = 23"
definition ARCHI_FC_EVT_PICL_OK :: nat where "ARCHI_FC_EVT_PICL_OK = 24"
definition ARCHI_FC_EVT_SCU_OK :: nat where "ARCHI_FC_EVT_SCU_OK = 25"
definition ARCHI_FC_EVT_QUEUE_ERROR :: nat where "ARCHI_FC_EVT_QUEUE_ERROR = 29"
definition ARCHI_REF_CLOCK :: u32 where "ARCHI_REF_CLOCK = push_bit ARCHI_REF_CLOCK_LOG2 1"
definition ARCHI_SOC_EVENT_UDMA_NB_EVT :: nat where "ARCHI_SOC_EVENT_UDMA_NB_EVT = ARCHI_SOC_EVENT_UDMA_NB_CHANNEL_EVT * ARCHI_NB_PERIPH"
definition ARCHI_SOC_EVENT_PMU_FIRST_EVENT :: nat where "ARCHI_SOC_EVENT_PMU_FIRST_EVENT = ARCHI_SOC_EVENT_CLUSTER_ON_OFF"
definition UDMA_CHANNEL_INTCFG_OFFSET :: u32 where "UDMA_CHANNEL_INTCFG_OFFSET = 0xC"
definition UDMA_CONF_SIZE :: u32 where "UDMA_CONF_SIZE = 0x040"
definition UDMA_NB_PERIPH_EVENTS_LOG2 :: nat where "UDMA_NB_PERIPH_EVENTS_LOG2 = 2"
definition UDMA_NB_PERIPH_EVENTS :: u32 where "UDMA_NB_PERIPH_EVENTS = push_bit UDMA_NB_PERIPH_EVENTS_LOG2 1"
definition ARCHI_UDMA_SPIM_RX_OFFSET :: u32 where "ARCHI_UDMA_SPIM_RX_OFFSET = 0x00"
definition ARCHI_UDMA_SPIM_TX_OFFSET :: u32 where "ARCHI_UDMA_SPIM_TX_OFFSET = 0x10"
definition ARCHI_UDMA_SPIM_CMD_OFFSET :: u32 where "ARCHI_UDMA_SPIM_CMD_OFFSET = 0x20"
definition ARCHI_UDMA_SPIM_RX_EVT :: u32 where "ARCHI_UDMA_SPIM_RX_EVT = 0"
definition ARCHI_UDMA_SPIM_TX_EVT :: u32 where "ARCHI_UDMA_SPIM_TX_EVT = 1"
definition ARCHI_UDMA_SPIM_CMD_EVT :: u32 where "ARCHI_UDMA_SPIM_CMD_EVT = 2"
definition ARCHI_UDMA_SPIM_EOT_EVT :: u32 where "ARCHI_UDMA_SPIM_EOT_EVT = 3"
definition UDMA_CHANNEL_ID :: "u32 \<Rightarrow> u32" where "UDMA_CHANNEL_ID i = i * 2"
definition UDMA_PERIPH_ID :: "u32 \<Rightarrow> u32" where "UDMA_PERIPH_ID i = i div 2"
definition UDMA_EVENT_ID :: "u32 \<Rightarrow> u32" where "UDMA_EVENT_ID i = i * UDMA_NB_PERIPH_EVENTS"
definition ARCHI_SOC_EVENT_UDMA_RX :: "u32 \<Rightarrow> u32" where "ARCHI_SOC_EVENT_UDMA_RX periph = periph * 2"
definition ARCHI_SOC_EVENT_UDMA_TX :: "u32 \<Rightarrow> u32" where "ARCHI_SOC_EVENT_UDMA_TX periph = periph * 2 + 1"
definition UDMA_CONF_EVTIN_EVT :: "u32 \<Rightarrow> u32 \<Rightarrow> u32" where
  "UDMA_CONF_EVTIN_EVT udmaId globalId = push_bit (unat (udmaId * 8)) globalId"

lemmas periph_numbers = ARCHI_L2_PRIV0_ADDR_def ARCHI_L2_PRIV0_SIZE_def ARCHI_L2_PRIV1_ADDR_def
  ARCHI_L2_PRIV1_SIZE_def ARCHI_L2_SHARED_ADDR_def ARCHI_L2_SHARED_SIZE_def ARCHI_FC_CID_def
  ARCHI_REF_CLOCK_LOG2_def ARCHI_UDMA_NB_SPIM_def ARCHI_UDMA_NB_UART_def ARCHI_UDMA_NB_SDIO_def
  ARCHI_UDMA_NB_I2C_def ARCHI_UDMA_NB_I2S_def ARCHI_UDMA_NB_CAM_def ARCHI_UDMA_NB_TRACER_def
  ARCHI_UDMA_NB_FILTER_def ARCHI_UDMA_I2C_ID_def ARCHI_UDMA_SDIO_ID_def ARCHI_UDMA_I2S_ID_def
  ARCHI_UDMA_CAM_ID_def ARCHI_UDMA_FILTER_ID_def ARCHI_UDMA_TRACER_ID_def ARCHI_UDMA_TGEN_ID_def
  ARCHI_NB_PERIPH_def ARCHI_NB_FLL_def ARCHI_SOC_EVENT_PERIPH_EVT_NB_def ARCHI_SOC_EVENT_SW_NB_def
  ARCHI_SOC_EVENT_NB_TOTAL_def ARCHI_SOC_EVENT_UDMA_NB_CHANNEL_EVT_LOG2_def ARCHI_SOC_EVENT_UDMA_FIRST_EVT_def
  ARCHI_SOC_EVENT_UDMA_NB_TGEN_EVT_def ARCHI_SOC_EVENT_UART0_RX_def ARCHI_SOC_EVENT_UART0_TX_def
  ARCHI_SOC_EVENT_UART0_EOT_def ARCHI_SOC_EVENT_UART0_RX_DATA_def ARCHI_SOC_EVENT_SPIM0_RX_def
  ARCHI_SOC_EVENT_SPIM0_TX_def ARCHI_SOC_EVENT_SPIM0_CMD_def ARCHI_SOC_EVENT_I2C0_RX_def
  ARCHI_SOC_EVENT_I2C0_TX_def ARCHI_SOC_EVENT_I2C1_RX_def ARCHI_SOC_EVENT_I2C1_TX_def
  ARCHI_SOC_EVENT_SDIO0_RX_def ARCHI_SOC_EVENT_SDIO0_TX_def ARCHI_SOC_EVENT_I2S0_RX_def
  ARCHI_SOC_EVENT_I2S0_TX_def ARCHI_SOC_EVENT_CPI0_RX_def ARCHI_SOC_EVENT_FILTER0_RX_def
  ARCHI_SOC_EVENT_FILTER0_TX_def ARCHI_SOC_EVENT_CLUSTER_ON_OFF_def ARCHI_SOC_EVENT_MSP_def
  ARCHI_SOC_EVENT_ICU_MODE_CHANGED_def ARCHI_SOC_EVENT_ICU_OK_def ARCHI_SOC_EVENT_ICU_DELAYED_def
  ARCHI_SOC_EVENT_CLUSTER_CG_OK_def ARCHI_SOC_EVENT_PICL_OK_def ARCHI_SOC_EVENT_SCU_OK_def
  ARCHI_SOC_EVENT_PMU_NB_EVENTS_def ARCHI_SOC_EVENT_GPIO_def ARCHI_SOC_EVENT_NB_I2S_CHANNELS_def
  ARCHI_SOC_EVENT_NB_UDMA_CHANNELS_def ARCHI_SOC_EVENT_FCHWPE0_def ARCHI_SOC_EVENT_FCHWPE1_def
  ARCHI_SOC_EVENT_SW_EVENT0_def ARCHI_SOC_EVENT_SW_EVENT1_def ARCHI_SOC_EVENT_SW_EVENT2_def
  ARCHI_SOC_EVENT_SW_EVENT3_def ARCHI_SOC_EVENT_SW_EVENT4_def ARCHI_SOC_EVENT_SW_EVENT5_def
  ARCHI_SOC_EVENT_SW_EVENT6_def ARCHI_SOC_EVENT_SW_EVENT7_def ARCHI_SOC_EVENT_NB_def
  ARCHI_SOC_EVENT_REF_CLK_RISE_def ARCHI_FC_EVT_FIRST_SW_def ARCHI_FC_EVT_NB_SW_def ARCHI_FC_EVT_TIMER0_LO_def
  ARCHI_FC_EVT_TIMER0_HI_def ARCHI_FC_EVT_GPIO_def ARCHI_FC_EVT_RTC_def ARCHI_FC_EVT_ADV_TIMER0_def
  ARCHI_FC_EVT_ADV_TIMER1_def ARCHI_FC_EVT_ADV_TIMER2_def ARCHI_FC_EVT_ADV_TIMER3_def
  ARCHI_FC_EVT_CLUSTER_NOT_BUSY_def ARCHI_FC_EVT_CLUSTER_POK_def ARCHI_FC_EVT_CLUSTER_CG_OK_def
  ARCHI_FC_EVT_PICL_OK_def ARCHI_FC_EVT_SCU_OK_def ARCHI_FC_EVT_QUEUE_ERROR_def ARCHI_REF_CLOCK_def
  ARCHI_SOC_EVENT_UDMA_NB_EVT_def ARCHI_SOC_EVENT_PMU_FIRST_EVENT_def UDMA_CHANNEL_INTCFG_OFFSET_def
  UDMA_CONF_SIZE_def UDMA_NB_PERIPH_EVENTS_LOG2_def UDMA_NB_PERIPH_EVENTS_def ARCHI_UDMA_SPIM_RX_OFFSET_def
  ARCHI_UDMA_SPIM_TX_OFFSET_def ARCHI_UDMA_SPIM_CMD_OFFSET_def ARCHI_UDMA_SPIM_RX_EVT_def
  ARCHI_UDMA_SPIM_TX_EVT_def ARCHI_UDMA_SPIM_CMD_EVT_def ARCHI_UDMA_SPIM_EOT_EVT_def UDMA_CHANNEL_ID_def
  UDMA_PERIPH_ID_def UDMA_EVENT_ID_def ARCHI_SOC_EVENT_UDMA_RX_def ARCHI_SOC_EVENT_UDMA_TX_def
  UDMA_CONF_EVTIN_EVT_def

section \<open>I2C master\<close>

definition I2C_CMD_OFFSET :: nat where "I2C_CMD_OFFSET = 4"
definition I2C_CMD_START :: u32 where "I2C_CMD_START = push_bit I2C_CMD_OFFSET 0x0"
definition I2C_CMD_STOP :: u32 where "I2C_CMD_STOP = push_bit I2C_CMD_OFFSET 0x2"
definition I2C_CMD_RD_ACK :: u32 where "I2C_CMD_RD_ACK = push_bit I2C_CMD_OFFSET 0x4"
definition I2C_CMD_RD_NACK :: u32 where "I2C_CMD_RD_NACK = push_bit I2C_CMD_OFFSET 0x6"
definition I2C_CMD_WR :: u32 where "I2C_CMD_WR = push_bit I2C_CMD_OFFSET 0x8"
definition I2C_CMD_WAIT :: u32 where "I2C_CMD_WAIT = push_bit I2C_CMD_OFFSET 0xA"
definition I2C_CMD_RPT :: u32 where "I2C_CMD_RPT = push_bit I2C_CMD_OFFSET 0xC"
definition I2C_CMD_CFG :: u32 where "I2C_CMD_CFG = push_bit I2C_CMD_OFFSET 0xE"
definition I2C_CMD_WAIT_EV :: u32 where "I2C_CMD_WAIT_EV = push_bit I2C_CMD_OFFSET 0x1"
definition UDMA_I2C_OFFSET :: "u32 \<Rightarrow> u32" where "UDMA_I2C_OFFSET i = UDMA_PERIPH_OFFSET (ARCHI_UDMA_I2C_ID i)"
definition UDMA_I2C_DATA_ADDR :: "u32 \<Rightarrow> u32" where "UDMA_I2C_DATA_ADDR i = ARCHI_UDMA_ADDR + UDMA_I2C_OFFSET i + UDMA_CHANNEL_RX_OFFSET"
definition UDMA_I2C_CMD_ADDR :: "u32 \<Rightarrow> u32" where "UDMA_I2C_CMD_ADDR i = ARCHI_UDMA_ADDR + UDMA_I2C_OFFSET i + UDMA_CHANNEL_TX_OFFSET"
definition UDMA_I2C_CUSTOM_ADDR :: "u32 \<Rightarrow> u32" where "UDMA_I2C_CUSTOM_ADDR i = ARCHI_UDMA_ADDR + UDMA_I2C_OFFSET i + UDMA_CHANNEL_CUSTOM_OFFSET"
definition ARCHI_SOC_EVENT_I2C_DATA :: "u32 \<Rightarrow> nat" where "ARCHI_SOC_EVENT_I2C_DATA i = ARCHI_SOC_EVENT_PERIPH_FIRST_EVT (unat (ARCHI_UDMA_I2C_ID i)) + 0"
definition ARCHI_SOC_EVENT_I2C_CMD :: "u32 \<Rightarrow> nat" where "ARCHI_SOC_EVENT_I2C_CMD i = ARCHI_SOC_EVENT_PERIPH_FIRST_EVT (unat (ARCHI_UDMA_I2C_ID i)) + 1"

lemmas i2c_master = I2C_CMD_OFFSET_def I2C_CMD_START_def I2C_CMD_STOP_def I2C_CMD_RD_ACK_def
  I2C_CMD_RD_NACK_def I2C_CMD_WR_def I2C_CMD_WAIT_def I2C_CMD_RPT_def I2C_CMD_CFG_def I2C_CMD_WAIT_EV_def
  UDMA_I2C_OFFSET_def UDMA_I2C_DATA_ADDR_def UDMA_I2C_CMD_ADDR_def UDMA_I2C_CUSTOM_ADDR_def
  ARCHI_SOC_EVENT_I2C_DATA_def ARCHI_SOC_EVENT_I2C_CMD_def

section \<open>Camera interface\<close>

definition CAM_GLOB_OFFSET :: u32 where "CAM_GLOB_OFFSET = 0x00"
definition CAM_LL_OFFSET :: u32 where "CAM_LL_OFFSET = 0x04"
definition CAM_UR_OFFSET :: u32 where "CAM_UR_OFFSET = 0x08"
definition CAM_SIZE_OFFSET :: u32 where "CAM_SIZE_OFFSET = 0x0C"
definition CAM_FILTER_OFFSET :: u32 where "CAM_FILTER_OFFSET = 0x10"
definition CAM_CFG_GLOB_FRAMEDROP_EN_OFFSET :: nat where "CAM_CFG_GLOB_FRAMEDROP_EN_OFFSET = 0"
definition CAM_CFG_GLOB_FRAMEDROP_EN_WIDTH :: nat where "CAM_CFG_GLOB_FRAMEDROP_EN_WIDTH = 1"
definition CAM_CFG_GLOB_FRAMEDROP_EN_MASK :: u32 where "CAM_CFG_GLOB_FRAMEDROP_EN_MASK = push_bit CAM_CFG_GLOB_FRAMEDROP_EN_OFFSET 0x1"
definition CAM_CFG_GLOB_FRAMEDROP_EN_ENA :: u32 where "CAM_CFG_GLOB_FRAMEDROP_EN_ENA = push_bit CAM_CFG_GLOB_FRAMEDROP_EN_OFFSET 1"
definition CAM_CFG_GLOB_FRAMEDROP_EN_DIS :: u32 where "CAM_CFG_GLOB_FRAMEDROP_EN_DIS = push_bit CAM_CFG_GLOB_FRAMEDROP_EN_OFFSET 0"
definition CAM_CFG_GLOB_FRAMEDROP_VAL_OFFSET :: nat where "CAM_CFG_GLOB_FRAMEDROP_VAL_OFFSET = 1"
definition CAM_CFG_GLOB_FRAMEDROP_VAL_WIDTH :: nat where "CAM_CFG_GLOB_FRAMEDROP_VAL_WIDTH = 6"
definition CAM_CFG_GLOB_FRAMEDROP_VAL_MASK :: u32 where "CAM_CFG_GLOB_FRAMEDROP_VAL_MASK = push_bit CAM_CFG_GLOB_FRAMEDROP_VAL_OFFSET 0x3f"
definition CAM_CFG_GLOB_FRAMEDROP_VAL :: "u32 \<Rightarrow> u32" where "CAM_CFG_GLOB_FRAMEDROP_VAL val = push_bit CAM_CFG_GLOB_FRAMEDROP_VAL_OFFSET val"
definition CAM_CFG_GLOB_FRAMESLICE_EN_OFFSET :: nat where "CAM_CFG_GLOB_FRAMESLICE_EN_OFFSET = 7"
definition CAM_CFG_GLOB_FRAMESLICE_EN_WIDTH :: nat where "CAM_CFG_GLOB_FRAMESLICE_EN_WIDTH = 1"
definition CAM_CFG_GLOB_FRAMESLICE_EN_MASK :: u32 where "CAM_CFG_GLOB_FRAMESLICE_EN_MASK = push_bit CAM_CFG_GLOB_FRAMESLICE_EN_OFFSET 0x1"
definition CAM_CFG_GLOB_FRAMESLICE_EN_ENA :: u32 where "CAM_CFG_GLOB_FRAMESLICE_EN_ENA = push_bit CAM_CFG_GLOB_FRAMESLICE_EN_OFFSET 1"
definition CAM_CFG_GLOB_FRAMESLICE_EN_DIS :: u32 where "CAM_CFG_GLOB_FRAMESLICE_EN_DIS = push_bit CAM_CFG_GLOB_FRAMESLICE_EN_OFFSET 0"
definition CAM_CFG_GLOB_FORMAT_OFFSET :: nat where "CAM_CFG_GLOB_FORMAT_OFFSET = 8"
definition CAM_CFG_GLOB_FORMAT_WIDTH :: nat where "CAM_CFG_GLOB_FORMAT_WIDTH = 2"
definition CAM_CFG_GLOB_FORMAT_MASK :: u32 where "CAM_CFG_GLOB_FORMAT_MASK = push_bit CAM_CFG_GLOB_FORMAT_OFFSET 0x7"
definition CAM_CFG_GLOB_FORMAT_RGB565 :: u32 where "CAM_CFG_GLOB_FORMAT_RGB565 = push_bit CAM_CFG_GLOB_FORMAT_OFFSET 0"
definition CAM_CFG_GLOB_FORMAT_RGB555 :: u32 where "CAM_CFG_GLOB_FORMAT_RGB555 = push_bit CAM_CFG_GLOB_FORMAT_OFFSET 1"
definition CAM_CFG_GLOB_FORMAT_RGB444 :: u32 where "CAM_CFG_GLOB_FORMAT_RGB444 = push_bit CAM_CFG_GLOB_FORMAT_OFFSET 2"
definition CAM_CFG_GLOB_FORMAT_BYPASS_LITEND :: u32 where "CAM_CFG_GLOB_FORMAT_BYPASS_LITEND = push_bit CAM_CFG_GLOB_FORMAT_OFFSET 4"
definition CAM_CFG_GLOB_FORMAT_BYPASS_BIGEND :: u32 where "CAM_CFG_GLOB_FORMAT_BYPASS_BIGEND = push_bit CAM_CFG_GLOB_FORMAT_OFFSET 5"
definition ARCHI_CAM_CFG_GLOB_FORMAT_RGB565 :: u32 where "ARCHI_CAM_CFG_GLOB_FORMAT_RGB565 = 0"
definition ARCHI_CAM_CFG_GLOB_FORMAT_RGB555 :: u32 where "ARCHI_CAM_CFG_GLOB_FORMAT_RGB555 = 1"
definition ARCHI_CAM_CFG_GLOB_FORMAT_RGB444 :: u32 where "ARCHI_CAM_CFG_GLOB_FORMAT_RGB444 = 2"
definition ARCHI_CAM_CFG_GLOB_FORMAT_BYPASS_LITEND :: u32 where "ARCHI_CAM_CFG_GLOB_FORMAT_BYPASS_LITEND = 4"
definition ARCHI_CAM_CFG_GLOB_FORMAT_BYPASS_BIGEND :: u32 where "ARCHI_CAM_CFG_GLOB_FORMAT_BYPASS_BIGEND = 5"
definition CAM_CFG_GLOB_SHIFT_OFFSET :: nat where "CAM_CFG_GLOB_SHIFT_OFFSET = 11"
definition CAM_CFG_GLOB_SHIFT_WIDTH :: nat where "CAM_CFG_GLOB_SHIFT_WIDTH = 4"
definition CAM_CFG_GLOB_SHIFT_MASK :: u32 where "CAM_CFG_GLOB_SHIFT_MASK = push_bit CAM_CFG_GLOB_SHIFT_OFFSET 0xf"
definition CAM_CFG_GLOB_SHIFT :: "u32 \<Rightarrow> u32" where "CAM_CFG_GLOB_SHIFT val = push_bit CAM_CFG_GLOB_SHIFT_OFFSET val"
definition CAM_CFG_GLOB_EN_OFFSET :: nat where "CAM_CFG_GLOB_EN_OFFSET = 31"
definition CAM_CFG_GLOB_EN_WIDTH :: nat where "CAM_CFG_GLOB_EN_WIDTH = 1"
definition CAM_CFG_GLOB_EN_MASK :: u32 where "CAM_CFG_GLOB_EN_MASK = push_bit CAM_CFG_GLOB_EN_OFFSET 0x1"
definition CAM_CFG_GLOB_EN_ENA :: u32 where "CAM_CFG_GLOB_EN_ENA = push_bit CAM_CFG_GLOB_EN_OFFSET 1"
definition CAM_CFG_GLOB_EN_DIS :: u32 where "CAM_CFG_GLOB_EN_DIS = push_bit CAM_CFG_GLOB_EN_OFFSET 0"
definition CAM_CFG_LL_FRAMESLICE_LLX_OFFSET :: nat where "CAM_CFG_LL_FRAMESLICE_LLX_OFFSET = 0"
definition CAM_CFG_LL_FRAMESLICE_LLX_WIDTH :: nat where "CAM_CFG_LL_FRAMESLICE_LLX_WIDTH = 16"
definition CAM_CFG_LL_FRAMESLICE_LLX_MASK :: u32 where "CAM_CFG_LL_FRAMESLICE_LLX_MASK = push_bit CAM_CFG_LL_FRAMESLICE_LLX_OFFSET 0xffff"
definition CAM_CFG_LL_FRAMESLICE_LLX :: "u32 \<Rightarrow> u32" where "CAM_CFG_LL_FRAMESLICE_LLX val = push_bit CAM_CFG_LL_FRAMESLICE_LLX_OFFSET val"
definition CAM_CFG_LL_FRAMESLICE_LLY_OFFSET :: nat where "CAM_CFG_LL_FRAMESLICE_LLY_OFFSET = 16"
definition CAM_CFG_LL_FRAMESLICE_LLY_WIDTH :: nat where "CAM_CFG_LL_FRAMESLICE_LLY_WIDTH = 16"
definition CAM_CFG_LL_FRAMESLICE_LLY_MASK :: u32 where "CAM_CFG_LL_FRAMESLICE_LLY_MASK = push_bit CAM_CFG_LL_FRAMESLICE_LLY_OFFSET 0xffff"
definition CAM_CFG_LL_FRAMESLICE_LLY :: "u32 \<Rightarrow> u32" where "CAM_CFG_LL_FRAMESLICE_LLY val = push_bit CAM_CFG_LL_FRAMESLICE_LLY_OFFSET val"
definition CAM_CFG_UR_FRAMESLICE_URX_OFFSET :: nat where "CAM_CFG_UR_FRAMESLICE_URX_OFFSET = 0"
definition CAM_CFG_UR_FRAMESLICE_URX_WIDTH :: nat where "CAM_CFG_UR_FRAMESLICE_URX_WIDTH = 16"
definition CAM_CFG_UR_FRAMESLICE_URX_MASK :: u32 where "CAM_CFG_UR_FRAMESLICE_URX_MASK = push_bit CAM_CFG_UR_FRAMESLICE_URX_OFFSET 0xffff"
definition CAM_CFG_UR_FRAMESLICE_URX :: "u32 \<Rightarrow> u32" where "CAM_CFG_UR_FRAMESLICE_URX val = push_bit CAM_CFG_UR_FRAMESLICE_URX_OFFSET val"
definition CAM_CFG_UR_FRAMESLICE_URY_OFFSET :: nat where "CAM_CFG_UR_FRAMESLICE_URY_OFFSET = 16"
definition CAM_CFG_UR_FRAMESLICE_URY_WIDTH :: nat where "CAM_CFG_UR_FRAMESLICE_URY_WIDTH = 16"
definition CAM_CFG_UR_FRAMESLICE_URY_MASK :: u32 where "CAM_CFG_UR_FRAMESLICE_URY_MASK = push_bit CAM_CFG_UR_FRAMESLICE_URY_OFFSET 0xffff"
definition CAM_CFG_UR_FRAMESLICE_URY :: "u32 \<Rightarrow> u32" where "CAM_CFG_UR_FRAMESLICE_URY val = push_bit CAM_CFG_UR_FRAMESLICE_URY_OFFSET val"
definition CAM_CFG_SIZE_ROWLEN_OFFSET :: nat where "CAM_CFG_SIZE_ROWLEN_OFFSET = 16"
definition CAM_CFG_SIZE_ROWLEN_WIDTH :: nat where "CAM_CFG_SIZE_ROWLEN_WIDTH = 16"
definition CAM_CFG_SIZE_ROWLEN_MASK :: u32 where "CAM_CFG_SIZE_ROWLEN_MASK = push_bit CAM_CFG_SIZE_ROWLEN_OFFSET 0xffff"
definition CAM_CFG_SIZE_ROWLEN :: "u32 \<Rightarrow> u32" where "CAM_CFG_SIZE_ROWLEN val = push_bit CAM_CFG_SIZE_ROWLEN_OFFSET (val - 1)"
definition CAM_CFG_FILTER_B_COEFF_OFFSET :: nat where "CAM_CFG_FILTER_B_COEFF_OFFSET = 0"
definition CAM_CFG_FILTER_B_COEFF_WIDTH :: nat where "CAM_CFG_FILTER_B_COEFF_WIDTH = 8"
definition CAM_CFG_FILTER_B_COEFF_MASK :: u32 where "CAM_CFG_FILTER_B_COEFF_MASK = push_bit CAM_CFG_FILTER_B_COEFF_OFFSET 0xff"
definition CAM_CFG_FILTER_B_COEFF :: "u32 \<Rightarrow> u32" where "CAM_CFG_FILTER_B_COEFF val = push_bit CAM_CFG_FILTER_B_COEFF_OFFSET val"
definition CAM_CFG_FILTER_G_COEFF_OFFSET :: nat where "CAM_CFG_FILTER_G_COEFF_OFFSET = 8"
definition CAM_CFG_FILTER_G_COEFF_WIDTH :: nat where "CAM_CFG_FILTER_G_COEFF_WIDTH = 8"
definition CAM_CFG_FILTER_G_COEFF_MASK :: u32 where "CAM_CFG_FILTER_G_COEFF_MASK = push_bit CAM_CFG_FILTER_G_COEFF_OFFSET 0xff"
definition CAM_CFG_FILTER_G_COEFF :: "u32 \<Rightarrow> u32" where "CAM_CFG_FILTER_G_COEFF val = push_bit CAM_CFG_FILTER_G_COEFF_OFFSET val"
definition CAM_CFG_FILTER_R_COEFF_OFFSET :: nat where "CAM_CFG_FILTER_R_COEFF_OFFSET = 16"
definition CAM_CFG_FILTER_R_COEFF_WIDTH :: nat where "CAM_CFG_FILTER_R_COEFF_WIDTH = 8"
definition CAM_CFG_FILTER_R_COEFF_MASK :: u32 where "CAM_CFG_FILTER_R_COEFF_MASK = push_bit CAM_CFG_FILTER_R_COEFF_OFFSET 0xff"
definition CAM_CFG_FILTER_R_COEFF :: "u32 \<Rightarrow> u32" where "CAM_CFG_FILTER_R_COEFF val = push_bit CAM_CFG_FILTER_R_COEFF_OFFSET val"
definition CAM_CFG_GLOB_FRAMEDROP_EN_BIT :: nat where "CAM_CFG_GLOB_FRAMEDROP_EN_BIT = 0"
definition CAM_CFG_GLOB_FRAMEDROP_VAL_BIT :: nat where "CAM_CFG_GLOB_FRAMEDROP_VAL_BIT = 1"
definition CAM_CFG_GLOB_FRAMEDROP_VAL_SIZE :: nat where "CAM_CFG_GLOB_FRAMEDROP_VAL_SIZE = 6"
definition CAM_CFG_GLOB_FRAMESLICE_EN_BIT :: nat where "CAM_CFG_GLOB_FRAMESLICE_EN_BIT = 7"
definition CAM_CFG_GLOB_FORMAT_BIT :: nat where "CAM_CFG_GLOB_FORMAT_BIT = 8"
definition CAM_CFG_GLOB_FORMAT_SIZE :: nat where "CAM_CFG_GLOB_FORMAT_SIZE = 3"
definition CAM_CFG_GLOB_SHIFT_BIT :: nat where "CAM_CFG_GLOB_SHIFT_BIT = 11"
definition CAM_CFG_GLOB_SHIFT_SIZE :: nat where "CAM_CFG_GLOB_SHIFT_SIZE = 4"
definition CAM_CFG_GLOB_EN_BIT :: nat where "CAM_CFG_GLOB_EN_BIT = 31"
definition CAM_CFG_LL_FRAMESLICE_LLX_BIT :: nat where "CAM_CFG_LL_FRAMESLICE_LLX_BIT = 0"
definition CAM_CFG_LL_FRAMESLICE_LLX_SIZE :: nat where "CAM_CFG_LL_FRAMESLICE_LLX_SIZE = 16"
definition CAM_CFG_LL_FRAMESLICE_LLY_BIT :: nat where "CAM_CFG_LL_FRAMESLICE_LLY_BIT = 16"
definition CAM_CFG_LL_FRAMESLICE_LLY_SIZE :: nat where "CAM_CFG_LL_FRAMESLICE_LLY_SIZE = 16"
definition CAM_CFG_UR_FRAMESLICE_URX_BIT :: nat where "CAM_CFG_UR_FRAMESLICE_URX_BIT = 0"
definition CAM_CFG_UR_FRAMESLICE_URX_SIZE :: nat where "CAM_CFG_UR_FRAMESLICE_URX_SIZE = 16"
definition CAM_CFG_UR_FRAMESLICE_URY_BIT :: nat where "CAM_CFG_UR_FRAMESLICE_URY_BIT = 16"
definition CAM_CFG_UR_FRAMESLICE_URY_SIZE :: nat where "CAM_CFG_UR_FRAMESLICE_URY_SIZE = 16"
definition CAM_CFG_SIZE_ROWLEN_BIT :: nat where "CAM_CFG_SIZE_ROWLEN_BIT = 16"
definition CAM_CFG_SIZE_ROWLEN_SIZE :: nat where "CAM_CFG_SIZE_ROWLEN_SIZE = 16"
definition CAM_CFG_FILTER_B_COEFF_BIT :: nat where "CAM_CFG_FILTER_B_COEFF_BIT = 0"
definition CAM_CFG_FILTER_B_COEFF_SIZE :: nat where "CAM_CFG_FILTER_B_COEFF_SIZE = 8"
definition CAM_CFG_FILTER_G_COEFF_BIT :: nat where "CAM_CFG_FILTER_G_COEFF_BIT = 8"
definition CAM_CFG_FILTER_G_COEFF_SIZE :: nat where "CAM_CFG_FILTER_G_COEFF_SIZE = 8"
definition CAM_CFG_FILTER_R_COEFF_BIT :: nat where "CAM_CFG_FILTER_R_COEFF_BIT = 16"
definition CAM_CFG_FILTER_R_COEFF_SIZE :: nat where "CAM_CFG_FILTER_R_COEFF_SIZE = 8"

lemmas cam_consts = CAM_GLOB_OFFSET_def CAM_LL_OFFSET_def CAM_UR_OFFSET_def CAM_SIZE_OFFSET_def
  CAM_FILTER_OFFSET_def CAM_CFG_GLOB_FRAMEDROP_EN_OFFSET_def CAM_CFG_GLOB_FRAMEDROP_EN_WIDTH_def
  CAM_CFG_GLOB_FRAMEDROP_EN_MASK_def CAM_CFG_GLOB_FRAMEDROP_EN_ENA_def CAM_CFG_GLOB_FRAMEDROP_EN_DIS_def
  CAM_CFG_GLOB_FRAMEDROP_VAL_OFFSET_def CAM_CFG_GLOB_FRAMEDROP_VAL_WIDTH_def
  CAM_CFG_GLOB_FRAMEDROP_VAL_MASK_def CAM_CFG_GLOB_FRAMEDROP_VAL_def CAM_CFG_GLOB_FRAMESLICE_EN_OFFSET_def
  CAM_CFG_GLOB_FRAMESLICE_EN_WIDTH_def CAM_CFG_GLOB_FRAMESLICE_EN_MASK_def CAM_CFG_GLOB_FRAMESLICE_EN_ENA_def
  CAM_CFG_GLOB_FRAMESLICE_EN_DIS_def CAM_CFG_GLOB_FORMAT_OFFSET_def CAM_CFG_GLOB_FORMAT_WIDTH_def
  CAM_CFG_GLOB_FORMAT_MASK_def CAM_CFG_GLOB_FORMAT_RGB565_def CAM_CFG_GLOB_FORMAT_RGB555_def
  CAM_CFG_GLOB_FORMAT_RGB444_def CAM_CFG_GLOB_FORMAT_BYPASS_LITEND_def CAM_CFG_GLOB_FORMAT_BYPASS_BIGEND_def
  ARCHI_CAM_CFG_GLOB_FORMAT_RGB565_def ARCHI_CAM_CFG_GLOB_FORMAT_RGB555_def
  ARCHI_CAM_CFG_GLOB_FORMAT_RGB444_def ARCHI_CAM_CFG_GLOB_FORMAT_BYPASS_LITEND_def
  ARCHI_CAM_CFG_GLOB_FORMAT_BYPASS_BIGEND_def CAM_CFG_GLOB_SHIFT_OFFSET_def CAM_CFG_GLOB_SHIFT_WIDTH_def
  CAM_CFG_GLOB_SHIFT_MASK_def CAM_CFG_GLOB_SHIFT_def CAM_CFG_GLOB_EN_OFFSET_def CAM_CFG_GLOB_EN_WIDTH_def
  CAM_CFG_GLOB_EN_MASK_def CAM_CFG_GLOB_EN_ENA_def CAM_CFG_GLOB_EN_DIS_def
  CAM_CFG_LL_FRAMESLICE_LLX_OFFSET_def CAM_CFG_LL_FRAMESLICE_LLX_WIDTH_def CAM_CFG_LL_FRAMESLICE_LLX_MASK_def
  CAM_CFG_LL_FRAMESLICE_LLX_def CAM_CFG_LL_FRAMESLICE_LLY_OFFSET_def CAM_CFG_LL_FRAMESLICE_LLY_WIDTH_def
  CAM_CFG_LL_FRAMESLICE_LLY_MASK_def CAM_CFG_LL_FRAMESLICE_LLY_def CAM_CFG_UR_FRAMESLICE_URX_OFFSET_def
  CAM_CFG_UR_FRAMESLICE_URX_WIDTH_def CAM_CFG_UR_FRAMESLICE_URX_MASK_def CAM_CFG_UR_FRAMESLICE_URX_def
  CAM_CFG_UR_FRAMESLICE_URY_OFFSET_def CAM_CFG_UR_FRAMESLICE_URY_WIDTH_def CAM_CFG_UR_FRAMESLICE_URY_MASK_def
  CAM_CFG_UR_FRAMESLICE_URY_def CAM_CFG_SIZE_ROWLEN_OFFSET_def CAM_CFG_SIZE_ROWLEN_WIDTH_def
  CAM_CFG_SIZE_ROWLEN_MASK_def CAM_CFG_SIZE_ROWLEN_def CAM_CFG_FILTER_B_COEFF_OFFSET_def
  CAM_CFG_FILTER_B_COEFF_WIDTH_def CAM_CFG_FILTER_B_COEFF_MASK_def CAM_CFG_FILTER_B_COEFF_def
  CAM_CFG_FILTER_G_COEFF_OFFSET_def CAM_CFG_FILTER_G_COEFF_WIDTH_def CAM_CFG_FILTER_G_COEFF_MASK_def
  CAM_CFG_FILTER_G_COEFF_def CAM_CFG_FILTER_R_COEFF_OFFSET_def CAM_CFG_FILTER_R_COEFF_WIDTH_def
  CAM_CFG_FILTER_R_COEFF_MASK_def CAM_CFG_FILTER_R_COEFF_def CAM_CFG_GLOB_FRAMEDROP_EN_BIT_def
  CAM_CFG_GLOB_FRAMEDROP_VAL_BIT_def CAM_CFG_GLOB_FRAMEDROP_VAL_SIZE_def CAM_CFG_GLOB_FRAMESLICE_EN_BIT_def
  CAM_CFG_GLOB_FORMAT_BIT_def CAM_CFG_GLOB_FORMAT_SIZE_def CAM_CFG_GLOB_SHIFT_BIT_def
  CAM_CFG_GLOB_SHIFT_SIZE_def CAM_CFG_GLOB_EN_BIT_def CAM_CFG_LL_FRAMESLICE_LLX_BIT_def
  CAM_CFG_LL_FRAMESLICE_LLX_SIZE_def CAM_CFG_LL_FRAMESLICE_LLY_BIT_def CAM_CFG_LL_FRAMESLICE_LLY_SIZE_def
  CAM_CFG_UR_FRAMESLICE_URX_BIT_def CAM_CFG_UR_FRAMESLICE_URX_SIZE_def CAM_CFG_UR_FRAMESLICE_URY_BIT_def
  CAM_CFG_UR_FRAMESLICE_URY_SIZE_def CAM_CFG_SIZE_ROWLEN_BIT_def CAM_CFG_SIZE_ROWLEN_SIZE_def
  CAM_CFG_FILTER_B_COEFF_BIT_def CAM_CFG_FILTER_B_COEFF_SIZE_def CAM_CFG_FILTER_G_COEFF_BIT_def
  CAM_CFG_FILTER_G_COEFF_SIZE_def CAM_CFG_FILTER_R_COEFF_BIT_def CAM_CFG_FILTER_R_COEFF_SIZE_def

definition UDMA_CPI_CAM_RX_SADDR_OFFSET :: u32 where "UDMA_CPI_CAM_RX_SADDR_OFFSET = 0x0"
definition UDMA_CPI_CAM_RX_SIZE_OFFSET :: u32 where "UDMA_CPI_CAM_RX_SIZE_OFFSET = 0x4"
definition UDMA_CPI_CAM_RX_CFG_OFFSET :: u32 where "UDMA_CPI_CAM_RX_CFG_OFFSET = 0x8"
definition UDMA_CPI_CAM_RX_INITCFG_OFFSET :: u32 where "UDMA_CPI_CAM_RX_INITCFG_OFFSET = 0xc"
definition UDMA_CPI_CAM_TX_SADDR_OFFSET :: u32 where "UDMA_CPI_CAM_TX_SADDR_OFFSET = 0x10"
definition UDMA_CPI_CAM_TX_SIZE_OFFSET :: u32 where "UDMA_CPI_CAM_TX_SIZE_OFFSET = 0x14"
definition UDMA_CPI_CAM_TX_CFG_OFFSET :: u32 where "UDMA_CPI_CAM_TX_CFG_OFFSET = 0x18"
definition UDMA_CPI_CAM_TX_INITCFG_OFFSET :: u32 where "UDMA_CPI_CAM_TX_INITCFG_OFFSET = 0x1c"
definition UDMA_CPI_CAM_CFG_GLOB_OFFSET :: u32 where "UDMA_CPI_CAM_CFG_GLOB_OFFSET = 0x20"
definition UDMA_CPI_CAM_CFG_LL_OFFSET :: u32 where "UDMA_CPI_CAM_CFG_LL_OFFSET = 0x24"
definition UDMA_CPI_CAM_CFG_UR_OFFSET :: u32 where "UDMA_CPI_CAM_CFG_UR_OFFSET = 0x28"
definition UDMA_CPI_CAM_CFG_SIZE_OFFSET :: u32 where "UDMA_CPI_CAM_CFG_SIZE_OFFSET = 0x2c"
definition UDMA_CPI_CAM_CFG_FILTER_OFFSET :: u32 where "UDMA_CPI_CAM_CFG_FILTER_OFFSET = 0x30"
definition UDMA_CPI_CAM_VSYNC_POLARITY_OFFSET :: u32 where "UDMA_CPI_CAM_VSYNC_POLARITY_OFFSET = 0x34"

lemmas cpi_offsets = UDMA_CPI_CAM_RX_SADDR_OFFSET_def UDMA_CPI_CAM_RX_SIZE_OFFSET_def
  UDMA_CPI_CAM_RX_CFG_OFFSET_def UDMA_CPI_CAM_RX_INITCFG_OFFSET_def UDMA_CPI_CAM_TX_SADDR_OFFSET_def
  UDMA_CPI_CAM_TX_SIZE_OFFSET_def UDMA_CPI_CAM_TX_CFG_OFFSET_def UDMA_CPI_CAM_TX_INITCFG_OFFSET_def
  UDMA_CPI_CAM_CFG_GLOB_OFFSET_def UDMA_CPI_CAM_CFG_LL_OFFSET_def UDMA_CPI_CAM_CFG_UR_OFFSET_def
  UDMA_CPI_CAM_CFG_SIZE_OFFSET_def UDMA_CPI_CAM_CFG_FILTER_OFFSET_def UDMA_CPI_CAM_VSYNC_POLARITY_OFFSET_def

definition UDMA_CPI_CAM_RX_SADDR_RX_SADDR_BIT :: nat where "UDMA_CPI_CAM_RX_SADDR_RX_SADDR_BIT = 0"
definition UDMA_CPI_CAM_RX_SADDR_RX_SADDR_WIDTH :: nat where "UDMA_CPI_CAM_RX_SADDR_RX_SADDR_WIDTH = 16"
definition UDMA_CPI_CAM_RX_SIZE_RX_SIZE_BIT :: nat where "UDMA_CPI_CAM_RX_SIZE_RX_SIZE_BIT = 0"
definition UDMA_CPI_CAM_RX_SIZE_RX_SIZE_WIDTH :: nat where "UDMA_CPI_CAM_RX_SIZE_RX_SIZE_WIDTH = 17"
definition UDMA_CPI_CAM_RX_CFG_CONTINOUS_BIT :: nat where "UDMA_CPI_CAM_RX_CFG_CONTINOUS_BIT = 0"
definition UDMA_CPI_CAM_RX_CFG_CONTINOUS_WIDTH :: nat where "UDMA_CPI_CAM_RX_CFG_CONTINOUS_WIDTH = 1"
definition UDMA_CPI_CAM_RX_CFG_DATASIZE_BIT :: nat where "UDMA_CPI_CAM_RX_CFG_DATASIZE_BIT = 1"
definition UDMA_CPI_CAM_RX_CFG_DATASIZE_WIDTH :: nat where "UDMA_CPI_CAM_RX_CFG_DATASIZE_WIDTH = 2"
definition UDMA_CPI_CAM_RX_CFG_EN_BIT :: nat where "UDMA_CPI_CAM_RX_CFG_EN_BIT = 4"
definition UDMA_CPI_CAM_RX_CFG_EN_WIDTH :: nat where "UDMA_CPI_CAM_RX_CFG_EN_WIDTH = 1"
definition UDMA_CPI_CAM_RX_CFG_PENDING_BIT :: nat where "UDMA_CPI_CAM_RX_CFG_PENDING_BIT = 5"
definition UDMA_CPI_CAM_RX_CFG_PENDING_WIDTH :: nat where "UDMA_CPI_CAM_RX_CFG_PENDING_WIDTH = 1"
definition UDMA_CPI_CAM_RX_CFG_CLR_BIT :: nat where "UDMA_CPI_CAM_RX_CFG_CLR_BIT = 6"
definition UDMA_CPI_CAM_RX_CFG_CLR_WIDTH :: nat where "UDMA_CPI_CAM_RX_CFG_CLR_WIDTH = 1"
definition UDMA_CPI_CAM_CFG_GLOB_FRAMEDROP_EN_BIT :: nat where "UDMA_CPI_CAM_CFG_GLOB_FRAMEDROP_EN_BIT = 0"
definition UDMA_CPI_CAM_CFG_GLOB_FRAMEDROP_EN_WIDTH :: nat where "UDMA_CPI_CAM_CFG_GLOB_FRAMEDROP_EN_WIDTH = 1"
definition UDMA_CPI_CAM_CFG_GLOB_FRAMEDROP_VAL_BIT :: nat where "UDMA_CPI_CAM_CFG_GLOB_FRAMEDROP_VAL_BIT = 1"
definition UDMA_CPI_CAM_CFG_GLOB_FRAMEDROP_VAL_WIDTH :: nat where "UDMA_CPI_CAM_CFG_GLOB_FRAMEDROP_VAL_WIDTH = 6"
definition UDMA_CPI_CAM_CFG_GLOB_FRAMESLICE_EN_BIT :: nat where "UDMA_CPI_CAM_CFG_GLOB_FRAMESLICE_EN_BIT = 7"
definition UDMA_CPI_CAM_CFG_GLOB_FRAMESLICE_EN_WIDTH :: nat where "UDMA_CPI_CAM_CFG_GLOB_FRAMESLICE_EN_WIDTH = 1"
definition UDMA_CPI_CAM_CFG_GLOB_FORMAT_BIT :: nat where "UDMA_CPI_CAM_CFG_GLOB_FORMAT_BIT = 8"
definition UDMA_CPI_CAM_CFG_GLOB_FORMAT_WIDTH :: nat where "UDMA_CPI_CAM_CFG_GLOB_FORMAT_WIDTH = 3"
definition UDMA_CPI_CAM_CFG_GLOB_SHIFT_BIT :: nat where "UDMA_CPI_CAM_CFG_GLOB_SHIFT_BIT = 11"
definition UDMA_CPI_CAM_CFG_GLOB_SHIFT_WIDTH :: nat where "UDMA_CPI_CAM_CFG_GLOB_SHIFT_WIDTH = 4"
definition UDMA_CPI_CAM_CFG_GLOB_EN_BIT :: nat where "UDMA_CPI_CAM_CFG_GLOB_EN_BIT = 31"
definition UDMA_CPI_CAM_CFG_GLOB_EN_WIDTH :: nat where "UDMA_CPI_CAM_CFG_GLOB_EN_WIDTH = 1"
definition UDMA_CPI_CAM_CFG_LL_FRAMESLICE_LLX_BIT :: nat where "UDMA_CPI_CAM_CFG_LL_FRAMESLICE_LLX_BIT = 0"
definition UDMA_CPI_CAM_CFG_LL_FRAMESLICE_LLX_WIDTH :: nat where "UDMA_CPI_CAM_CFG_LL_FRAMESLICE_LLX_WIDTH = 16"
definition UDMA_CPI_CAM_CFG_LL_FRAMESLICE_LLY_BIT :: nat where "UDMA_CPI_CAM_CFG_LL_FRAMESLICE_LLY_BIT = 16"
definition UDMA_CPI_CAM_CFG_LL_FRAMESLICE_LLY_WIDTH :: nat where "UDMA_CPI_CAM_CFG_LL_FRAMESLICE_LLY_WIDTH = 16"
definition UDMA_CPI_CAM_CFG_UR_FRAMESLICE_URX_BIT :: nat where "UDMA_CPI_CAM_CFG_UR_FRAMESLICE_URX_BIT = 0"
definition UDMA_CPI_CAM_CFG_UR_FRAMESLICE_URX_WIDTH :: nat where "UDMA_CPI_CAM_CFG_UR_FRAMESLICE_URX_WIDTH = 16"
definition UDMA_CPI_CAM_CFG_UR_FRAMESLICE_URY_BIT :: nat where "UDMA_CPI_CAM_CFG_UR_FRAMESLICE_URY_BIT = 16"
definition UDMA_CPI_CAM_CFG_UR_FRAMESLICE_URY_WIDTH :: nat where "UDMA_CPI_CAM_CFG_UR_FRAMESLICE_URY_WIDTH = 16"
definition UDMA_CPI_CAM_CFG_SIZE_ROWLEN_BIT :: nat where "UDMA_CPI_CAM_CFG_SIZE_ROWLEN_BIT = 16"
definition UDMA_CPI_CAM_CFG_SIZE_ROWLEN_WIDTH :: nat where "UDMA_CPI_CAM_CFG_SIZE_ROWLEN_WIDTH = 16"
definition UDMA_CPI_CAM_CFG_FILTER_B_COEFF_BIT :: nat where "UDMA_CPI_CAM_CFG_FILTER_B_COEFF_BIT = 0"
definition UDMA_CPI_CAM_CFG_FILTER_B_COEFF_WIDTH :: nat where "UDMA_CPI_CAM_CFG_FILTER_B_COEFF_WIDTH = 8"
definition UDMA_CPI_CAM_CFG_FILTER_G_COEFF_BIT :: nat where "UDMA_CPI_CAM_CFG_FILTER_G_COEFF_BIT = 8"
definition UDMA_CPI_CAM_CFG_FILTER_G_COEFF_WIDTH :: nat where "UDMA_CPI_CAM_CFG_FILTER_G_COEFF_WIDTH = 8"
definition UDMA_CPI_CAM_CFG_FILTER_R_COEFF_BIT :: nat where "UDMA_CPI_CAM_CFG_FILTER_R_COEFF_BIT = 16"
definition UDMA_CPI_CAM_CFG_FILTER_R_COEFF_WIDTH :: nat where "UDMA_CPI_CAM_CFG_FILTER_R_COEFF_WIDTH = 8"
definition UDMA_CPI_CAM_VSYNC_POLARITY_VSYNC_POLARITY_BIT :: nat where "UDMA_CPI_CAM_VSYNC_POLARITY_VSYNC_POLARITY_BIT = 0"
definition UDMA_CPI_CAM_VSYNC_POLARITY_VSYNC_POLARITY_WIDTH :: nat where "UDMA_CPI_CAM_VSYNC_POLARITY_VSYNC_POLARITY_WIDTH = 1"
definition UDMA_CPI_CAM_RX_SADDR_RX_SADDR_MASK :: u32 where "UDMA_CPI_CAM_RX_SADDR_RX_SADDR_MASK = 0xffff"
definition UDMA_CPI_CAM_RX_SIZE_RX_SIZE_MASK :: u32 where "UDMA_CPI_CAM_RX_SIZE_RX_SIZE_MASK = 0x1ffff"
definition UDMA_CPI_CAM_RX_CFG_CONTINOUS_MASK :: u32 where "UDMA_CPI_CAM_RX_CFG_CONTINOUS_MASK = 0x1"
definition UDMA_CPI_CAM_RX_CFG_DATASIZE_MASK :: u32 where "UDMA_CPI_CAM_RX_CFG_DATASIZE_MASK = 0x6"
definition UDMA_CPI_CAM_RX_CFG_EN_MASK :: u32 where "UDMA_CPI_CAM_RX_CFG_EN_MASK = 0x10"
definition UDMA_CPI_CAM_RX_CFG_PENDING_MASK :: u32 where "UDMA_CPI_CAM_RX_CFG_PENDING_MASK = 0x20"
definition UDMA_CPI_CAM_RX_CFG_CLR_MASK :: u32 where "UDMA_CPI_CAM_RX_CFG_CLR_MASK = 0x40"
definition UDMA_CPI_CAM_CFG_GLOB_FRAMEDROP_EN_MASK :: u32 where "UDMA_CPI_CAM_CFG_GLOB_FRAMEDROP_EN_MASK = 0x1"
definition UDMA_CPI_CAM_CFG_GLOB_FRAMEDROP_VAL_MASK :: u32 where "UDMA_CPI_CAM_CFG_GLOB_FRAMEDROP_VAL_MASK = 0x7e"
definition UDMA_CPI_CAM_CFG_GLOB_FRAMESLICE_EN_MASK :: u32 where "UDMA_CPI_CAM_CFG_GLOB_FRAMESLICE_EN_MASK = 0x80"
definition UDMA_CPI_CAM_CFG_GLOB_FORMAT_MASK :: u32 where "UDMA_CPI_CAM_CFG_GLOB_FORMAT_MASK = 0x700"
definition UDMA_CPI_CAM_CFG_GLOB_SHIFT_MASK :: u32 where "UDMA_CPI_CAM_CFG_GLOB_SHIFT_MASK = 0x7800"
definition UDMA_CPI_CAM_CFG_GLOB_EN_MASK :: u32 where "UDMA_CPI_CAM_CFG_GLOB_EN_MASK = 0x80000000"
definition UDMA_CPI_CAM_CFG_LL_FRAMESLICE_LLX_MASK :: u32 where "UDMA_CPI_CAM_CFG_LL_FRAMESLICE_LLX_MASK = 0xffff"
definition UDMA_CPI_CAM_CFG_LL_FRAMESLICE_LLY_MASK :: u32 where "UDMA_CPI_CAM_CFG_LL_FRAMESLICE_LLY_MASK = 0xffff0000"
definition UDMA_CPI_CAM_CFG_UR_FRAMESLICE_URX_MASK :: u32 where "UDMA_CPI_CAM_CFG_UR_FRAMESLICE_URX_MASK = 0xffff"
definition UDMA_CPI_CAM_CFG_UR_FRAMESLICE_URY_MASK :: u32 where "UDMA_CPI_CAM_CFG_UR_FRAMESLICE_URY_MASK = 0xffff0000"
definition UDMA_CPI_CAM_CFG_SIZE_ROWLEN_MASK :: u32 where "UDMA_CPI_CAM_CFG_SIZE_ROWLEN_MASK = 0xffff0000"
definition UDMA_CPI_CAM_CFG_FILTER_B_COEFF_MASK :: u32 where "UDMA_CPI_CAM_CFG_FILTER_B_COEFF_MASK = 0xff"
definition UDMA_CPI_CAM_CFG_FILTER_G_COEFF_MASK :: u32 where "UDMA_CPI_CAM_CFG_FILTER_G_COEFF_MASK = 0xff00"
definition UDMA_CPI_CAM_CFG_FILTER_R_COEFF_MASK :: u32 where "UDMA_CPI_CAM_CFG_FILTER_R_COEFF_MASK = 0xff0000"
definition UDMA_CPI_CAM_VSYNC_POLARITY_VSYNC_POLARITY_MASK :: u32 where "UDMA_CPI_CAM_VSYNC_POLARITY_VSYNC_POLARITY_MASK = 0x1"

lemmas cpi_fields = UDMA_CPI_CAM_RX_SADDR_RX_SADDR_BIT_def UDMA_CPI_CAM_RX_SADDR_RX_SADDR_WIDTH_def
  UDMA_CPI_CAM_RX_SIZE_RX_SIZE_BIT_def UDMA_CPI_CAM_RX_SIZE_RX_SIZE_WIDTH_def
  UDMA_CPI_CAM_RX_CFG_CONTINOUS_BIT_def UDMA_CPI_CAM_RX_CFG_CONTINOUS_WIDTH_def
  UDMA_CPI_CAM_RX_CFG_DATASIZE_BIT_def UDMA_CPI_CAM_RX_CFG_DATASIZE_WIDTH_def UDMA_CPI_CAM_RX_CFG_EN_BIT_def
  UDMA_CPI_CAM_RX_CFG_EN_WIDTH_def UDMA_CPI_CAM_RX_CFG_PENDING_BIT_def UDMA_CPI_CAM_RX_CFG_PENDING_WIDTH_def
  UDMA_CPI_CAM_RX_CFG_CLR_BIT_def UDMA_CPI_CAM_RX_CFG_CLR_WIDTH_def UDMA_CPI_CAM_CFG_GLOB_FRAMEDROP_EN_BIT_def
  UDMA_CPI_CAM_CFG_GLOB_FRAMEDROP_EN_WIDTH_def UDMA_CPI_CAM_CFG_GLOB_FRAMEDROP_VAL_BIT_def
  UDMA_CPI_CAM_CFG_GLOB_FRAMEDROP_VAL_WIDTH_def UDMA_CPI_CAM_CFG_GLOB_FRAMESLICE_EN_BIT_def
  UDMA_CPI_CAM_CFG_GLOB_FRAMESLICE_EN_WIDTH_def UDMA_CPI_CAM_CFG_GLOB_FORMAT_BIT_def
  UDMA_CPI_CAM_CFG_GLOB_FORMAT_WIDTH_def UDMA_CPI_CAM_CFG_GLOB_SHIFT_BIT_def
  UDMA_CPI_CAM_CFG_GLOB_SHIFT_WIDTH_def UDMA_CPI_CAM_CFG_GLOB_EN_BIT_def UDMA_CPI_CAM_CFG_GLOB_EN_WIDTH_def
  UDMA_CPI_CAM_CFG_LL_FRAMESLICE_LLX_BIT_def UDMA_CPI_CAM_CFG_LL_FRAMESLICE_LLX_WIDTH_def
  UDMA_CPI_CAM_CFG_LL_FRAMESLICE_LLY_BIT_def UDMA_CPI_CAM_CFG_LL_FRAMESLICE_LLY_WIDTH_def
  UDMA_CPI_CAM_CFG_UR_FRAMESLICE_URX_BIT_def UDMA_CPI_CAM_CFG_UR_FRAMESLICE_URX_WIDTH_def
  UDMA_CPI_CAM_CFG_UR_FRAMESLICE_URY_BIT_def UDMA_CPI_CAM_CFG_UR_FRAMESLICE_URY_WIDTH_def
  UDMA_CPI_CAM_CFG_SIZE_ROWLEN_BIT_def UDMA_CPI_CAM_CFG_SIZE_ROWLEN_WIDTH_def
  UDMA_CPI_CAM_CFG_FILTER_B_COEFF_BIT_def UDMA_CPI_CAM_CFG_FILTER_B_COEFF_WIDTH_def
  UDMA_CPI_CAM_CFG_FILTER_G_COEFF_BIT_def UDMA_CPI_CAM_CFG_FILTER_G_COEFF_WIDTH_def
  UDMA_CPI_CAM_CFG_FILTER_R_COEFF_BIT_def UDMA_CPI_CAM_CFG_FILTER_R_COEFF_WIDTH_def
  UDMA_CPI_CAM_VSYNC_POLARITY_VSYNC_POLARITY_BIT_def UDMA_CPI_CAM_VSYNC_POLARITY_VSYNC_POLARITY_WIDTH_def
  UDMA_CPI_CAM_RX_SADDR_RX_SADDR_MASK_def UDMA_CPI_CAM_RX_SIZE_RX_SIZE_MASK_def
  UDMA_CPI_CAM_RX_CFG_CONTINOUS_MASK_def UDMA_CPI_CAM_RX_CFG_DATASIZE_MASK_def UDMA_CPI_CAM_RX_CFG_EN_MASK_def
  UDMA_CPI_CAM_RX_CFG_PENDING_MASK_def UDMA_CPI_CAM_RX_CFG_CLR_MASK_def
  UDMA_CPI_CAM_CFG_GLOB_FRAMEDROP_EN_MASK_def UDMA_CPI_CAM_CFG_GLOB_FRAMEDROP_VAL_MASK_def
  UDMA_CPI_CAM_CFG_GLOB_FRAMESLICE_EN_MASK_def UDMA_CPI_CAM_CFG_GLOB_FORMAT_MASK_def
  UDMA_CPI_CAM_CFG_GLOB_SHIFT_MASK_def UDMA_CPI_CAM_CFG_GLOB_EN_MASK_def
  UDMA_CPI_CAM_CFG_LL_FRAMESLICE_LLX_MASK_def UDMA_CPI_CAM_CFG_LL_FRAMESLICE_LLY_MASK_def
  UDMA_CPI_CAM_CFG_UR_FRAMESLICE_URX_MASK_def UDMA_CPI_CAM_CFG_UR_FRAMESLICE_URY_MASK_def
  UDMA_CPI_CAM_CFG_SIZE_ROWLEN_MASK_def UDMA_CPI_CAM_CFG_FILTER_B_COEFF_MASK_def
  UDMA_CPI_CAM_CFG_FILTER_G_COEFF_MASK_def UDMA_CPI_CAM_CFG_FILTER_R_COEFF_MASK_def
  UDMA_CPI_CAM_VSYNC_POLARITY_VSYNC_POLARITY_MASK_def

definition UDMA_CPI_CAM_RX_SADDR_RX_SADDR_GET :: "u32 \<Rightarrow> u32" where "UDMA_CPI_CAM_RX_SADDR_RX_SADDR_GET value = BITEXTRACTU value 16 0"
definition UDMA_CPI_CAM_RX_SADDR_RX_SADDR_GETS :: "u32 \<Rightarrow> u32" where "UDMA_CPI_CAM_RX_SADDR_RX_SADDR_GETS value = BITEXTRACT value 16 0"
definition UDMA_CPI_CAM_RX_SADDR_RX_SADDR_SET :: "u32 \<Rightarrow> u32 \<Rightarrow> u32" where "UDMA_CPI_CAM_RX_SADDR_RX_SADDR_SET value field = BITINSERT value field 16 0"
definition UDMA_CPI_CAM_RX_SADDR_RX_SADDR :: "u32 \<Rightarrow> u32" where "UDMA_CPI_CAM_RX_SADDR_RX_SADDR val = push_bit 0 val"
definition UDMA_CPI_CAM_RX_SIZE_RX_SIZE_GET :: "u32 \<Rightarrow> u32" where "UDMA_CPI_CAM_RX_SIZE_RX_SIZE_GET value = BITEXTRACTU value 17 0"
definition UDMA_CPI_CAM_RX_SIZE_RX_SIZE_GETS :: "u32 \<Rightarrow> u32" where "UDMA_CPI_CAM_RX_SIZE_RX_SIZE_GETS value = BITEXTRACT value 17 0"
definition UDMA_CPI_CAM_RX_SIZE_RX_SIZE_SET :: "u32 \<Rightarrow> u32 \<Rightarrow> u32" where "UDMA_CPI_CAM_RX_SIZE_RX_SIZE_SET value field = BITINSERT value field 17 0"
definition UDMA_CPI_CAM_RX_SIZE_RX_SIZE :: "u32 \<Rightarrow> u32" where "UDMA_CPI_CAM_RX_SIZE_RX_SIZE val = push_bit 0 val"
definition UDMA_CPI_CAM_RX_CFG_CONTINOUS_GET :: "u32 \<Rightarrow> u32" where "UDMA_CPI_CAM_RX_CFG_CONTINOUS_GET value = BITEXTRACTU value 1 0"
definition UDMA_CPI_CAM_RX_CFG_CONTINOUS_GETS :: "u32 \<Rightarrow> u32" where "UDMA_CPI_CAM_RX_CFG_CONTINOUS_GETS value = BITEXTRACT value 1 0"
definition UDMA_CPI_CAM_RX_CFG_CONTINOUS_SET :: "u32 \<Rightarrow> u32 \<Rightarrow> u32" where "UDMA_CPI_CAM_RX_CFG_CONTINOUS_SET value field = BITINSERT value field 1 0"
definition UDMA_CPI_CAM_RX_CFG_CONTINOUS :: "u32 \<Rightarrow> u32" where "UDMA_CPI_CAM_RX_CFG_CONTINOUS val = push_bit 0 val"
definition UDMA_CPI_CAM_RX_CFG_DATASIZE_GET :: "u32 \<Rightarrow> u32" where "UDMA_CPI_CAM_RX_CFG_DATASIZE_GET value = BITEXTRACTU value 2 1"
definition UDMA_CPI_CAM_RX_CFG_DATASIZE_GETS :: "u32 \<Rightarrow> u32" where "UDMA_CPI_CAM_RX_CFG_DATASIZE_GETS value = BITEXTRACT value 2 1"
definition UDMA_CPI_CAM_RX_CFG_DATASIZE_SET :: "u32 \<Rightarrow> u32 \<Rightarrow> u32" where "UDMA_CPI_CAM_RX_CFG_DATASIZE_SET value field = BITINSERT value field 2 1"
definition UDMA_CPI_CAM_RX_CFG_DATASIZE :: "u32 \<Rightarrow> u32" where "UDMA_CPI_CAM_RX_CFG_DATASIZE val = push_bit 1 val"
definition UDMA_CPI_CAM_RX_CFG_EN_GET :: "u32 \<Rightarrow> u32" where "UDMA_CPI_CAM_RX_CFG_EN_GET value = BITEXTRACTU value 1 4"
definition UDMA_CPI_CAM_RX_CFG_EN_GETS :: "u32 \<Rightarrow> u32" where "UDMA_CPI_CAM_RX_CFG_EN_GETS value = BITEXTRACT value 1 4"
definition UDMA_CPI_CAM_RX_CFG_EN_SET :: "u32 \<Rightarrow> u32 \<Rightarrow> u32" where "UDMA_CPI_CAM_RX_CFG_EN_SET value field = BITINSERT value field 1 4"
definition UDMA_CPI_CAM_RX_CFG_EN :: "u32 \<Rightarrow> u32" where "UDMA_CPI_CAM_RX_CFG_EN val = push_bit 4 val"
definition UDMA_CPI_CAM_RX_CFG_PENDING_GET :: "u32 \<Rightarrow> u32" where "UDMA_CPI_CAM_RX_CFG_PENDING_GET value = BITEXTRACTU value 1 5"
definition UDMA_CPI_CAM_RX_CFG_PENDING_GETS :: "u32 \<Rightarrow> u32" where "UDMA_CPI_CAM_RX_CFG_PENDING_GETS value = BITEXTRACT value 1 5"
definition UDMA_CPI_CAM_RX_CFG_PENDING_SET :: "u32 \<Rightarrow> u32 \<Rightarrow> u32" where "UDMA_CPI_CAM_RX_CFG_PENDING_SET value field = BITINSERT value field 1 5"
definition UDMA_CPI_CAM_RX_CFG_PENDING :: "u32 \<Rightarrow> u32" where "UDMA_CPI_CAM_RX_CFG_PENDING val = push_bit 5 val"
definition UDMA_CPI_CAM_RX_CFG_CLR_GET :: "u32 \<Rightarrow> u32" where "UDMA_CPI_CAM_RX_CFG_CLR_GET value = BITEXTRACTU value 1 6"
definition UDMA_CPI_CAM_RX_CFG_CLR_GETS :: "u32 \<Rightarrow> u32" where "UDMA_CPI_CAM_RX_CFG_CLR_GETS value = BITEXTRACT value 1 6"
definition UDMA_CPI_CAM_RX_CFG_CLR_SET :: "u32 \<Rightarrow> u32 \<Rightarrow> u32" where "UDMA_CPI_CAM_RX_CFG_CLR_SET value field = BITINSERT value field 1 6"
definition UDMA_CPI_CAM_RX_CFG_CLR :: "u32 \<Rightarrow> u32" where "UDMA_CPI_CAM_RX_CFG_CLR val = push_bit 6 val"
definition UDMA_CPI_CAM_CFG_GLOB_FRAMEDROP_EN_GET :: "u32 \<Rightarrow> u32" where "UDMA_CPI_CAM_CFG_GLOB_FRAMEDROP_EN_GET value = BITEXTRACTU value 1 0"
definition UDMA_CPI_CAM_CFG_GLOB_FRAMEDROP_EN_GETS :: "u32 \<Rightarrow> u32" where "UDMA_CPI_CAM_CFG_GLOB_FRAMEDROP_EN_GETS value = BITEXTRACT value 1 0"
definition UDMA_CPI_CAM_CFG_GLOB_FRAMEDROP_EN_SET :: "u32 \<Rightarrow> u32 \<Rightarrow> u32" where "UDMA_CPI_CAM_CFG_GLOB_FRAMEDROP_EN_SET value field = BITINSERT value field 1 0"
definition UDMA_CPI_CAM_CFG_GLOB_FRAMEDROP_EN :: "u32 \<Rightarrow> u32" where "UDMA_CPI_CAM_CFG_GLOB_FRAMEDROP_EN val = push_bit 0 val"
definition UDMA_CPI_CAM_CFG_GLOB_FRAMEDROP_VAL_GET :: "u32 \<Rightarrow> u32" where "UDMA_CPI_CAM_CFG_GLOB_FRAMEDROP_VAL_GET value = BITEXTRACTU value 6 1"
definition UDMA_CPI_CAM_CFG_GLOB_FRAMEDROP_VAL_GETS :: "u32 \<Rightarrow> u32" where "UDMA_CPI_CAM_CFG_GLOB_FRAMEDROP_VAL_GETS value = BITEXTRACT value 6 1"
definition UDMA_CPI_CAM_CFG_GLOB_FRAMEDROP_VAL_SET :: "u32 \<Rightarrow> u32 \<Rightarrow> u32" where "UDMA_CPI_CAM_CFG_GLOB_FRAMEDROP_VAL_SET value field = BITINSERT value field 6 1"
definition UDMA_CPI_CAM_CFG_GLOB_FRAMEDROP_VAL :: "u32 \<Rightarrow> u32" where "UDMA_CPI_CAM_CFG_GLOB_FRAMEDROP_VAL val = push_bit 1 val"
definition UDMA_CPI_CAM_CFG_GLOB_FRAMESLICE_EN_GET :: "u32 \<Rightarrow> u32" where "UDMA_CPI_CAM_CFG_GLOB_FRAMESLICE_EN_GET value = BITEXTRACTU value 1 7"
definition UDMA_CPI_CAM_CFG_GLOB_FRAMESLICE_EN_GETS :: "u32 \<Rightarrow> u32" where "UDMA_CPI_CAM_CFG_GLOB_FRAMESLICE_EN_GETS value = BITEXTRACT value 1 7"
definition UDMA_CPI_CAM_CFG_GLOB_FRAMESLICE_EN_SET :: "u32 \<Rightarrow> u32 \<Rightarrow> u32" where "UDMA_CPI_CAM_CFG_GLOB_FRAMESLICE_EN_SET value field = BITINSERT value field 1 7"
definition UDMA_CPI_CAM_CFG_GLOB_FRAMESLICE_EN :: "u32 \<Rightarrow> u32" where "UDMA_CPI_CAM_CFG_GLOB_FRAMESLICE_EN val = push_bit 7 val"
definition UDMA_CPI_CAM_CFG_GLOB_FORMAT_GET :: "u32 \<Rightarrow> u32" where "UDMA_CPI_CAM_CFG_GLOB_FORMAT_GET value = BITEXTRACTU value 3 8"
definition UDMA_CPI_CAM_CFG_GLOB_FORMAT_GETS :: "u32 \<Rightarrow> u32" where "UDMA_CPI_CAM_CFG_GLOB_FORMAT_GETS value = BITEXTRACT value 3 8"
definition UDMA_CPI_CAM_CFG_GLOB_FORMAT_SET :: "u32 \<Rightarrow> u32 \<Rightarrow> u32" where "UDMA_CPI_CAM_CFG_GLOB_FORMAT_SET value field = BITINSERT value field 3 8"
definition UDMA_CPI_CAM_CFG_GLOB_FORMAT :: "u32 \<Rightarrow> u32" where "UDMA_CPI_CAM_CFG_GLOB_FORMAT val = push_bit 8 val"
definition UDMA_CPI_CAM_CFG_GLOB_SHIFT_GET :: "u32 \<Rightarrow> u32" where "UDMA_CPI_CAM_CFG_GLOB_SHIFT_GET value = BITEXTRACTU value 4 11"
definition UDMA_CPI_CAM_CFG_GLOB_SHIFT_GETS :: "u32 \<Rightarrow> u32" where "UDMA_CPI_CAM_CFG_GLOB_SHIFT_GETS value = BITEXTRACT value 4 11"
definition UDMA_CPI_CAM_CFG_GLOB_SHIFT_SET :: "u32 \<Rightarrow> u32 \<Rightarrow> u32" where "UDMA_CPI_CAM_CFG_GLOB_SHIFT_SET value field = BITINSERT value field 4 11"
definition UDMA_CPI_CAM_CFG_GLOB_SHIFT :: "u32 \<Rightarrow> u32" where "UDMA_CPI_CAM_CFG_GLOB_SHIFT val = push_bit 11 val"
definition UDMA_CPI_CAM_CFG_GLOB_EN_GET :: "u32 \<Rightarrow> u32" where "UDMA_CPI_CAM_CFG_GLOB_EN_GET value = BITEXTRACTU value 1 31"
definition UDMA_CPI_CAM_CFG_GLOB_EN_GETS :: "u32 \<Rightarrow> u32" where "UDMA_CPI_CAM_CFG_GLOB_EN_GETS value = BITEXTRACT value 1 31"
definition UDMA_CPI_CAM_CFG_GLOB_EN_SET :: "u32 \<Rightarrow> u32 \<Rightarrow> u32" where "UDMA_CPI_CAM_CFG_GLOB_EN_SET value field = BITINSERT value field 1 31"
definition UDMA_CPI_CAM_CFG_GLOB_EN :: "u32 \<Rightarrow> u32" where "UDMA_CPI_CAM_CFG_GLOB_EN val = push_bit 31 val"
definition UDMA_CPI_CAM_CFG_LL_FRAMESLICE_LLX_GET :: "u32 \<Rightarrow> u32" where "UDMA_CPI_CAM_CFG_LL_FRAMESLICE_LLX_GET value = BITEXTRACTU value 16 0"
definition UDMA_CPI_CAM_CFG_LL_FRAMESLICE_LLX_GETS :: "u32 \<Rightarrow> u32" where "UDMA_CPI_CAM_CFG_LL_FRAMESLICE_LLX_GETS value = BITEXTRACT value 16 0"
definition UDMA_CPI_CAM_CFG_LL_FRAMESLICE_LLX_SET :: "u32 \<Rightarrow> u32 \<Rightarrow> u32" where "UDMA_CPI_CAM_CFG_LL_FRAMESLICE_LLX_SET value field = BITINSERT value field 16 0"
definition UDMA_CPI_CAM_CFG_LL_FRAMESLICE_LLX :: "u32 \<Rightarrow> u32" where "UDMA_CPI_CAM_CFG_LL_FRAMESLICE_LLX val = push_bit 0 val"
definition UDMA_CPI_CAM_CFG_LL_FRAMESLICE_LLY_GET :: "u32 \<Rightarrow> u32" where "UDMA_CPI_CAM_CFG_LL_FRAMESLICE_LLY_GET value = BITEXTRACTU value 16 16"
definition UDMA_CPI_CAM_CFG_LL_FRAMESLICE_LLY_GETS :: "u32 \<Rightarrow> u32" where "UDMA_CPI_CAM_CFG_LL_FRAMESLICE_LLY_GETS value = BITEXTRACT value 16 16"
definition UDMA_CPI_CAM_CFG_LL_FRAMESLICE_LLY_SET :: "u32 \<Rightarrow> u32 \<Rightarrow> u32" where "UDMA_CPI_CAM_CFG_LL_FRAMESLICE_LLY_SET value field = BITINSERT value field 16 16"
definition UDMA_CPI_CAM_CFG_LL_FRAMESLICE_LLY :: "u32 \<Rightarrow> u32" where "UDMA_CPI_CAM_CFG_LL_FRAMESLICE_LLY val = push_bit 16 val"
definition UDMA_CPI_CAM_CFG_UR_FRAMESLICE_URX_GET :: "u32 \<Rightarrow> u32" where "UDMA_CPI_CAM_CFG_UR_FRAMESLICE_URX_GET value = BITEXTRACTU value 16 0"
definition UDMA_CPI_CAM_CFG_UR_FRAMESLICE_URX_GETS :: "u32 \<Rightarrow> u32" where "UDMA_CPI_CAM_CFG_UR_FRAMESLICE_URX_GETS value = BITEXTRACT value 16 0"
definition UDMA_CPI_CAM_CFG_UR_FRAMESLICE_URX_SET :: "u32 \<Rightarrow> u32 \<Rightarrow> u32" where "UDMA_CPI_CAM_CFG_UR_FRAMESLICE_URX_SET value field = BITINSERT value field 16 0"
definition UDMA_CPI_CAM_CFG_UR_FRAMESLICE_URX :: "u32 \<Rightarrow> u32" where "UDMA_CPI_CAM_CFG_UR_FRAMESLICE_URX val = push_bit 0 val"
definition UDMA_CPI_CAM_CFG_UR_FRAMESLICE_URY_GET :: "u32 \<Rightarrow> u32" where "UDMA_CPI_CAM_CFG_UR_FRAMESLICE_URY_GET value = BITEXTRACTU value 16 16"
definition UDMA_CPI_CAM_CFG_UR_FRAMESLICE_URY_GETS :: "u32 \<Rightarrow> u32" where "UDMA_CPI_CAM_CFG_UR_FRAMESLICE_URY_GETS value = BITEXTRACT value 16 16"
definition UDMA_CPI_CAM_CFG_UR_FRAMESLICE_URY_SET :: "u32 \<Rightarrow> u32 \<Rightarrow> u32" where "UDMA_CPI_CAM_CFG_UR_FRAMESLICE_URY_SET value field = BITINSERT value field 16 16"
definition UDMA_CPI_CAM_CFG_UR_FRAMESLICE_URY :: "u32 \<Rightarrow> u32" where "UDMA_CPI_CAM_CFG_UR_FRAMESLICE_URY val = push_bit 16 val"
definition UDMA_CPI_CAM_CFG_SIZE_ROWLEN_GET :: "u32 \<Rightarrow> u32" where "UDMA_CPI_CAM_CFG_SIZE_ROWLEN_GET value = BITEXTRACTU value 16 16"
definition UDMA_CPI_CAM_CFG_SIZE_ROWLEN_GETS :: "u32 \<Rightarrow> u32" where "UDMA_CPI_CAM_CFG_SIZE_ROWLEN_GETS value = BITEXTRACT value 16 16"
definition UDMA_CPI_CAM_CFG_SIZE_ROWLEN_SET :: "u32 \<Rightarrow> u32 \<Rightarrow> u32" where "UDMA_CPI_CAM_CFG_SIZE_ROWLEN_SET value field = BITINSERT value field 16 16"
definition UDMA_CPI_CAM_CFG_SIZE_ROWLEN :: "u32 \<Rightarrow> u32" where "UDMA_CPI_CAM_CFG_SIZE_ROWLEN val = push_bit 16 val"
definition UDMA_CPI_CAM_CFG_FILTER_B_COEFF_GET :: "u32 \<Rightarrow> u32" where "UDMA_CPI_CAM_CFG_FILTER_B_COEFF_GET value = BITEXTRACTU value 8 0"
definition UDMA_CPI_CAM_CFG_FILTER_B_COEFF_GETS :: "u32 \<Rightarrow> u32" where "UDMA_CPI_CAM_CFG_FILTER_B_COEFF_GETS value = BITEXTRACT value 8 0"
definition UDMA_CPI_CAM_CFG_FILTER_B_COEFF_SET :: "u32 \<Rightarrow> u32 \<Rightarrow> u32" where "UDMA_CPI_CAM_CFG_FILTER_B_COEFF_SET value field = BITINSERT value field 8 0"
definition UDMA_CPI_CAM_CFG_FILTER_B_COEFF :: "u32 \<Rightarrow> u32" where "UDMA_CPI_CAM_CFG_FILTER_B_COEFF val = push_bit 0 val"
definition UDMA_CPI_CAM_CFG_FILTER_G_COEFF_GET :: "u32 \<Rightarrow> u32" where "UDMA_CPI_CAM_CFG_FILTER_G_COEFF_GET value = BITEXTRACTU value 8 8"
definition UDMA_CPI_CAM_CFG_FILTER_G_COEFF_GETS :: "u32 \<Rightarrow> u32" where "UDMA_CPI_CAM_CFG_FILTER_G_COEFF_GETS value = BITEXTRACT value 8 8"
definition UDMA_CPI_CAM_CFG_FILTER_G_COEFF_SET :: "u32 \<Rightarrow> u32 \<Rightarrow> u32" where "UDMA_CPI_CAM_CFG_FILTER_G_COEFF_SET value field = BITINSERT value field 8 8"
definition UDMA_CPI_CAM_CFG_FILTER_G_COEFF :: "u32 \<Rightarrow> u32" where "UDMA_CPI_CAM_CFG_FILTER_G_COEFF val = push_bit 8 val"
definition UDMA_CPI_CAM_CFG_FILTER_R_COEFF_GET :: "u32 \<Rightarrow> u32" where "UDMA_CPI_CAM_CFG_FILTER_R_COEFF_GET value = BITEXTRACTU value 8 16"
definition UDMA_CPI_CAM_CFG_FILTER_R_COEFF_GETS :: "u32 \<Rightarrow> u32" where "UDMA_CPI_CAM_CFG_FILTER_R_COEFF_GETS value = BITEXTRACT value 8 16"
definition UDMA_CPI_CAM_CFG_FILTER_R_COEFF_SET :: "u32 \<Rightarrow> u32 \<Rightarrow> u32" where "UDMA_CPI_CAM_CFG_FILTER_R_COEFF_SET value field = BITINSERT value field 8 16"
definition UDMA_CPI_CAM_CFG_FILTER_R_COEFF :: "u32 \<Rightarrow> u32" where "UDMA_CPI_CAM_CFG_FILTER_R_COEFF val = push_bit 16 val"
definition UDMA_CPI_CAM_VSYNC_POLARITY_VSYNC_POLARITY_GET :: "u32 \<Rightarrow> u32" where "UDMA_CPI_CAM_VSYNC_POLARITY_VSYNC_POLARITY_GET value = BITEXTRACTU value 1 0"
definition UDMA_CPI_CAM_VSYNC_POLARITY_VSYNC_POLARITY_GETS :: "u32 \<Rightarrow> u32" where "UDMA_CPI_CAM_VSYNC_POLARITY_VSYNC_POLARITY_GETS value = BITEXTRACT value 1 0"
definition UDMA_CPI_CAM_VSYNC_POLARITY_VSYNC_POLARITY_SET :: "u32 \<Rightarrow> u32 \<Rightarrow> u32" where "UDMA_CPI_CAM_VSYNC_POLARITY_VSYNC_POLARITY_SET value field = BITINSERT value field 1 0"
definition UDMA_CPI_CAM_VSYNC_POLARITY_VSYNC_POLARITY :: "u32 \<Rightarrow> u32" where "UDMA_CPI_CAM_VSYNC_POLARITY_VSYNC_POLARITY val = push_bit 0 val"

lemmas cpi_macros = UDMA_CPI_CAM_RX_SADDR_RX_SADDR_GET_def UDMA_CPI_CAM_RX_SADDR_RX_SADDR_GETS_def
  UDMA_CPI_CAM_RX_SADDR_RX_SADDR_SET_def UDMA_CPI_CAM_RX_SADDR_RX_SADDR_def
  UDMA_CPI_CAM_RX_SIZE_RX_SIZE_GET_def UDMA_CPI_CAM_RX_SIZE_RX_SIZE_GETS_def
  UDMA_CPI_CAM_RX_SIZE_RX_SIZE_SET_def UDMA_CPI_CAM_RX_SIZE_RX_SIZE_def UDMA_CPI_CAM_RX_CFG_CONTINOUS_GET_def
  UDMA_CPI_CAM_RX_CFG_CONTINOUS_GETS_def UDMA_CPI_CAM_RX_CFG_CONTINOUS_SET_def
  UDMA_CPI_CAM_RX_CFG_CONTINOUS_def UDMA_CPI_CAM_RX_CFG_DATASIZE_GET_def UDMA_CPI_CAM_RX_CFG_DATASIZE_GETS_def
  UDMA_CPI_CAM_RX_CFG_DATASIZE_SET_def UDMA_CPI_CAM_RX_CFG_DATASIZE_def UDMA_CPI_CAM_RX_CFG_EN_GET_def
  UDMA_CPI_CAM_RX_CFG_EN_GETS_def UDMA_CPI_CAM_RX_CFG_EN_SET_def UDMA_CPI_CAM_RX_CFG_EN_def
  UDMA_CPI_CAM_RX_CFG_PENDING_GET_def UDMA_CPI_CAM_RX_CFG_PENDING_GETS_def UDMA_CPI_CAM_RX_CFG_PENDING_SET_def
  UDMA_CPI_CAM_RX_CFG_PENDING_def UDMA_CPI_CAM_RX_CFG_CLR_GET_def UDMA_CPI_CAM_RX_CFG_CLR_GETS_def
  UDMA_CPI_CAM_RX_CFG_CLR_SET_def UDMA_CPI_CAM_RX_CFG_CLR_def UDMA_CPI_CAM_CFG_GLOB_FRAMEDROP_EN_GET_def
  UDMA_CPI_CAM_CFG_GLOB_FRAMEDROP_EN_GETS_def UDMA_CPI_CAM_CFG_GLOB_FRAMEDROP_EN_SET_def
  UDMA_CPI_CAM_CFG_GLOB_FRAMEDROP_EN_def UDMA_CPI_CAM_CFG_GLOB_FRAMEDROP_VAL_GET_def
  UDMA_CPI_CAM_CFG_GLOB_FRAMEDROP_VAL_GETS_def UDMA_CPI_CAM_CFG_GLOB_FRAMEDROP_VAL_SET_def
  UDMA_CPI_CAM_CFG_GLOB_FRAMEDROP_VAL_def UDMA_CPI_CAM_CFG_GLOB_FRAMESLICE_EN_GET_def
  UDMA_CPI_CAM_CFG_GLOB_FRAMESLICE_EN_GETS_def UDMA_CPI_CAM_CFG_GLOB_FRAMESLICE_EN_SET_def
  UDMA_CPI_CAM_CFG_GLOB_FRAMESLICE_EN_def UDMA_CPI_CAM_CFG_GLOB_FORMAT_GET_def
  UDMA_CPI_CAM_CFG_GLOB_FORMAT_GETS_def UDMA_CPI_CAM_CFG_GLOB_FORMAT_SET_def UDMA_CPI_CAM_CFG_GLOB_FORMAT_def
  UDMA_CPI_CAM_CFG_GLOB_SHIFT_GET_def UDMA_CPI_CAM_CFG_GLOB_SHIFT_GETS_def UDMA_CPI_CAM_CFG_GLOB_SHIFT_SET_def
  UDMA_CPI_CAM_CFG_GLOB_SHIFT_def UDMA_CPI_CAM_CFG_GLOB_EN_GET_def UDMA_CPI_CAM_CFG_GLOB_EN_GETS_def
  UDMA_CPI_CAM_CFG_GLOB_EN_SET_def UDMA_CPI_CAM_CFG_GLOB_EN_def UDMA_CPI_CAM_CFG_LL_FRAMESLICE_LLX_GET_def
  UDMA_CPI_CAM_CFG_LL_FRAMESLICE_LLX_GETS_def UDMA_CPI_CAM_CFG_LL_FRAMESLICE_LLX_SET_def
  UDMA_CPI_CAM_CFG_LL_FRAMESLICE_LLX_def UDMA_CPI_CAM_CFG_LL_FRAMESLICE_LLY_GET_def
  UDMA_CPI_CAM_CFG_LL_FRAMESLICE_LLY_GETS_def UDMA_CPI_CAM_CFG_LL_FRAMESLICE_LLY_SET_def
  UDMA_CPI_CAM_CFG_LL_FRAMESLICE_LLY_def UDMA_CPI_CAM_CFG_UR_FRAMESLICE_URX_GET_def
  UDMA_CPI_CAM_CFG_UR_FRAMESLICE_URX_GETS_def UDMA_CPI_CAM_CFG_UR_FRAMESLICE_URX_SET_def
  UDMA_CPI_CAM_CFG_UR_FRAMESLICE_URX_def UDMA_CPI_CAM_CFG_UR_FRAMESLICE_URY_GET_def
  UDMA_CPI_CAM_CFG_UR_FRAMESLICE_URY_GETS_def UDMA_CPI_CAM_CFG_UR_FRAMESLICE_URY_SET_def
  UDMA_CPI_CAM_CFG_UR_FRAMESLICE_URY_def UDMA_CPI_CAM_CFG_SIZE_ROWLEN_GET_def
  UDMA_CPI_CAM_CFG_SIZE_ROWLEN_GETS_def UDMA_CPI_CAM_CFG_SIZE_ROWLEN_SET_def UDMA_CPI_CAM_CFG_SIZE_ROWLEN_def
  UDMA_CPI_CAM_CFG_FILTER_B_COEFF_GET_def UDMA_CPI_CAM_CFG_FILTER_B_COEFF_GETS_def
  UDMA_CPI_CAM_CFG_FILTER_B_COEFF_SET_def UDMA_CPI_CAM_CFG_FILTER_B_COEFF_def
  UDMA_CPI_CAM_CFG_FILTER_G_COEFF_GET_def UDMA_CPI_CAM_CFG_FILTER_G_COEFF_GETS_def
  UDMA_CPI_CAM_CFG_FILTER_G_COEFF_SET_def UDMA_CPI_CAM_CFG_FILTER_G_COEFF_def
  UDMA_CPI_CAM_CFG_FILTER_R_COEFF_GET_def UDMA_CPI_CAM_CFG_FILTER_R_COEFF_GETS_def
  UDMA_CPI_CAM_CFG_FILTER_R_COEFF_SET_def UDMA_CPI_CAM_CFG_FILTER_R_COEFF_def
  UDMA_CPI_CAM_VSYNC_POLARITY_VSYNC_POLARITY_GET_def UDMA_CPI_CAM_VSYNC_POLARITY_VSYNC_POLARITY_GETS_def
  UDMA_CPI_CAM_VSYNC_POLARITY_VSYNC_POLARITY_SET_def UDMA_CPI_CAM_VSYNC_POLARITY_VSYNC_POLARITY_def

definition udma_cpi_cam_rx_saddr_get :: "'e pulp_bus \<Rightarrow> u32 \<Rightarrow> ('e, 'z) machine_scheme \<Rightarrow> u32 \<times> ('e, 'z) machine_scheme" where
  "udma_cpi_cam_rx_saddr_get b base = ARCHI_READ b base UDMA_CPI_CAM_RX_SADDR_OFFSET"

definition udma_cpi_cam_rx_saddr_set :: "'e pulp_bus \<Rightarrow> u32 \<Rightarrow> u32 \<Rightarrow> ('e, 'z) machine_scheme \<Rightarrow> ('e, 'z) machine_scheme" where
  "udma_cpi_cam_rx_saddr_set b base value = ARCHI_WRITE b base UDMA_CPI_CAM_RX_SADDR_OFFSET value"

definition udma_cpi_cam_rx_size_get :: "'e pulp_bus \<Rightarrow> u32 \<Rightarrow> ('e, 'z) machine_scheme \<Rightarrow> u32 \<times> ('e, 'z) machine_scheme" where
  "udma_cpi_cam_rx_size_get b base = ARCHI_READ b base UDMA_CPI_CAM_RX_SIZE_OFFSET"

definition udma_cpi_cam_rx_size_set :: "'e pulp_bus \<Rightarrow> u32 \<Rightarrow> u32 \<Rightarrow> ('e, 'z) machine_scheme \<Rightarrow> ('e, 'z) machine_scheme" where
  "udma_cpi_cam_rx_size_set b base value = ARCHI_WRITE b base UDMA_CPI_CAM_RX_SIZE_OFFSET value"

definition udma_cpi_cam_rx_cfg_get :: "'e pulp_bus \<Rightarrow> u32 \<Rightarrow> ('e, 'z) machine_scheme \<Rightarrow> u32 \<times> ('e, 'z) machine_scheme" where
  "udma_cpi_cam_rx_cfg_get b base = ARCHI_READ b base UDMA_CPI_CAM_RX_CFG_OFFSET"

definition udma_cpi_cam_rx_cfg_set :: "'e pulp_bus \<Rightarrow> u32 \<Rightarrow> u32 \<Rightarrow> ('e, 'z) machine_scheme \<Rightarrow> ('e, 'z) machine_scheme" where
  "udma_cpi_cam_rx_cfg_set b base value = ARCHI_WRITE b base UDMA_CPI_CAM_RX_CFG_OFFSET value"

definition udma_cpi_cam_rx_initcfg_get :: "'e pulp_bus \<Rightarrow> u32 \<Rightarrow> ('e, 'z) machine_scheme \<Rightarrow> u32 \<times> ('e, 'z) machine_scheme" where
  "udma_cpi_cam_rx_initcfg_get b base = ARCHI_READ b base UDMA_CPI_CAM_RX_INITCFG_OFFSET"

definition udma_cpi_cam_rx_initcfg_set :: "'e pulp_bus \<Rightarrow> u32 \<Rightarrow> u32 \<Rightarrow> ('e, 'z) machine_scheme \<Rightarrow> ('e, 'z) machine_scheme" where
  "udma_cpi_cam_rx_initcfg_set b base value = ARCHI_WRITE b base UDMA_CPI_CAM_RX_INITCFG_OFFSET value"

definition udma_cpi_cam_tx_saddr_get :: "'e pulp_bus \<Rightarrow> u32 \<Rightarrow> ('e, 'z) machine_scheme \<Rightarrow> u32 \<times> ('e, 'z) machine_scheme" where
  "udma_cpi_cam_tx_saddr_get b base = ARCHI_READ b base UDMA_CPI_CAM_TX_SADDR_OFFSET"

definition udma_cpi_cam_tx_saddr_set :: "'e pulp_bus \<Rightarrow> u32 \<Rightarrow> u32 \<Rightarrow> ('e, 'z) machine_scheme \<Rightarrow> ('e, 'z) machine_scheme" where
  "udma_cpi_cam_tx_saddr_set b base value = ARCHI_WRITE b base UDMA_CPI_CAM_TX_SADDR_OFFSET value"

definition udma_cpi_cam_tx_size_get :: "'e pulp_bus \<Rightarrow> u32 \<Rightarrow> ('e, 'z) machine_scheme \<Rightarrow> u32 \<times> ('e, 'z) machine_scheme" where
  "udma_cpi_cam_tx_size_get b base = ARCHI_READ b base UDMA_CPI_CAM_TX_SIZE_OFFSET"

definition udma_cpi_cam_tx_size_set :: "'e pulp_bus \<Rightarrow> u32 \<Rightarrow> u32 \<Rightarrow> ('e, 'z) machine_scheme \<Rightarrow> ('e, 'z) machine_scheme" where
  "udma_cpi_cam_tx_size_set b base value = ARCHI_WRITE b base UDMA_CPI_CAM_TX_SIZE_OFFSET value"

definition udma_cpi_cam_tx_cfg_get :: "'e pulp_bus \<Rightarrow> u32 \<Rightarrow> ('e, 'z) machine_scheme \<Rightarrow> u32 \<times> ('e, 'z) machine_scheme" where
  "udma_cpi_cam_tx_cfg_get b base = ARCHI_READ b base UDMA_CPI_CAM_TX_CFG_OFFSET"

definition udma_cpi_cam_tx_cfg_set :: "'e pulp_bus \<Rightarrow> u32 \<Rightarrow> u32 \<Rightarrow> ('e, 'z) machine_scheme \<Rightarrow> ('e, 'z) machine_scheme" where
  "udma_cpi_cam_tx_cfg_set b base value = ARCHI_WRITE b base UDMA_CPI_CAM_TX_CFG_OFFSET value"

definition udma_cpi_cam_tx_initcfg_get :: "'e pulp_bus \<Rightarrow> u32 \<Rightarrow> ('e, 'z) machine_scheme \<Rightarrow> u32 \<times> ('e, 'z) machine_scheme" where
  "udma_cpi_cam_tx_initcfg_get b base = ARCHI_READ b base UDMA_CPI_CAM_TX_INITCFG_OFFSET"

definition udma_cpi_cam_tx_initcfg_set :: "'e pulp_bus \<Rightarrow> u32 \<Rightarrow> u32 \<Rightarrow> ('e, 'z) machine_scheme \<Rightarrow> ('e, 'z) machine_scheme" where
  "udma_cpi_cam_tx_initcfg_set b base value = ARCHI_WRITE b base UDMA_CPI_CAM_TX_INITCFG_OFFSET value"

definition udma_cpi_cam_cfg_glob_get :: "'e pulp_bus \<Rightarrow> u32 \<Rightarrow> ('e, 'z) machine_scheme \<Rightarrow> u32 \<times> ('e, 'z) machine_scheme" where
  "udma_cpi_cam_cfg_glob_get b base = ARCHI_READ b base UDMA_CPI_CAM_CFG_GLOB_OFFSET"

definition udma_cpi_cam_cfg_glob_set :: "'e pulp_bus \<Rightarrow> u32 \<Rightarrow> u32 \<Rightarrow> ('e, 'z) machine_scheme \<Rightarrow> ('e, 'z) machine_scheme" where
  "udma_cpi_cam_cfg_glob_set b base value = ARCHI_WRITE b base UDMA_CPI_CAM_CFG_GLOB_OFFSET value"

definition udma_cpi_cam_cfg_ll_get :: "'e pulp_bus \<Rightarrow> u32 \<Rightarrow> ('e, 'z) machine_scheme \<Rightarrow> u32 \<times> ('e, 'z) machine_scheme" where
  "udma_cpi_cam_cfg_ll_get b base = ARCHI_READ b base UDMA_CPI_CAM_CFG_LL_OFFSET"

definition udma_cpi_cam_cfg_ll_set :: "'e pulp_bus \<Rightarrow> u32 \<Rightarrow> u32 \<Rightarrow> ('e, 'z) machine_scheme \<Rightarrow> ('e, 'z) machine_scheme" where
  "udma_cpi_cam_cfg_ll_set b base value = ARCHI_WRITE b base UDMA_CPI_CAM_CFG_LL_OFFSET value"

definition udma_cpi_cam_cfg_ur_get :: "'e pulp_bus \<Rightarrow> u32 \<Rightarrow> ('e, 'z) machine_scheme \<Rightarrow> u32 \<times> ('e, 'z) machine_scheme" where
  "udma_cpi_cam_cfg_ur_get b base = ARCHI_READ b base UDMA_CPI_CAM_CFG_UR_OFFSET"

definition udma_cpi_cam_cfg_ur_set :: "'e pulp_bus \<Rightarrow> u32 \<Rightarrow> u32 \<Rightarrow> ('e, 'z) machine_scheme \<Rightarrow> ('e, 'z) machine_scheme" where
  "udma_cpi_cam_cfg_ur_set b base value = ARCHI_WRITE b base UDMA_CPI_CAM_CFG_UR_OFFSET value"

definition udma_cpi_cam_cfg_size_get :: "'e pulp_bus \<Rightarrow> u32 \<Rightarrow> ('e, 'z) machine_scheme \<Rightarrow> u32 \<times> ('e, 'z) machine_scheme" where
  "udma_cpi_cam_cfg_size_get b base = ARCHI_READ b base UDMA_CPI_CAM_CFG_SIZE_OFFSET"

definition udma_cpi_cam_cfg_size_set :: "'e pulp_bus \<Rightarrow> u32 \<Rightarrow> u32 \<Rightarrow> ('e, 'z) machine_scheme \<Rightarrow> ('e, 'z) machine_scheme" where
  "udma_cpi_cam_cfg_size_set b base value = ARCHI_WRITE b base UDMA_CPI_CAM_CFG_SIZE_OFFSET value"

definition udma_cpi_cam_cfg_filter_get :: "'e pulp_bus \<Rightarrow> u32 \<Rightarrow> ('e, 'z) machine_scheme \<Rightarrow> u32 \<times> ('e, 'z) machine_scheme" where
  "udma_cpi_cam_cfg_filter_get b base = ARCHI_READ b base UDMA_CPI_CAM_CFG_FILTER_OFFSET"

definition udma_cpi_cam_cfg_filter_set :: "'e pulp_bus \<Rightarrow> u32 \<Rightarrow> u32 \<Rightarrow> ('e, 'z) machine_scheme \<Rightarrow> ('e, 'z) machine_scheme" where
  "udma_cpi_cam_cfg_filter_set b base value = ARCHI_WRITE b base UDMA_CPI_CAM_CFG_FILTER_OFFSET value"

definition udma_cpi_cam_vsync_polarity_get :: "'e pulp_bus \<Rightarrow> u32 \<Rightarrow> ('e, 'z) machine_scheme \<Rightarrow> u32 \<times> ('e, 'z) machine_scheme" where
  "udma_cpi_cam_vsync_polarity_get b base = ARCHI_READ b base UDMA_CPI_CAM_VSYNC_POLARITY_OFFSET"

definition udma_cpi_cam_vsync_polarity_set :: "'e pulp_bus \<Rightarrow> u32 \<Rightarrow> u32 \<Rightarrow> ('e, 'z) machine_scheme \<Rightarrow> ('e, 'z) machine_scheme" where
  "udma_cpi_cam_vsync_polarity_set b base value = ARCHI_WRITE b base UDMA_CPI_CAM_VSYNC_POLARITY_OFFSET value"

definition UDMA_CAM_OFFSET :: "u32 \<Rightarrow> u32" where "UDMA_CAM_OFFSET i = UDMA_PERIPH_OFFSET (ARCHI_UDMA_CAM_ID i)"
definition UDMA_CAM_RX_ADDR :: "u32 \<Rightarrow> u32" where "UDMA_CAM_RX_ADDR i = ARCHI_UDMA_ADDR + UDMA_CAM_OFFSET i + UDMA_CHANNEL_RX_OFFSET"
definition UDMA_CAM_CUSTOM_ADDR :: "u32 \<Rightarrow> u32" where "UDMA_CAM_CUSTOM_ADDR i = ARCHI_UDMA_ADDR + UDMA_CAM_OFFSET i + UDMA_CHANNEL_CUSTOM_OFFSET"
definition ARCHI_SOC_EVENT_CAM_RX :: "u32 \<Rightarrow> u32" where "ARCHI_SOC_EVENT_CAM_RX i = ARCHI_SOC_EVENT_UDMA_RX (ARCHI_UDMA_CAM_ID i)"

definition hal_cpi_ll_set :: "'e pulp_bus \<Rightarrow> u32 \<Rightarrow> u32 \<Rightarrow> ('e, 'z) machine_scheme \<Rightarrow> ('e, 'z) machine_scheme" where
  "hal_cpi_ll_set b cpi value = pulp_write32 b (UDMA_CAM_CUSTOM_ADDR cpi + CAM_LL_OFFSET) value"

definition hal_cpi_ll_read :: "'e pulp_bus \<Rightarrow> u32 \<Rightarrow> ('e, 'z) machine_scheme \<Rightarrow> u32 \<times> ('e, 'z) machine_scheme" where
  "hal_cpi_ll_read b cpi = pulp_read32 b (UDMA_CAM_CUSTOM_ADDR cpi + CAM_LL_OFFSET)"

definition hal_cpi_ur_set :: "'e pulp_bus \<Rightarrow> u32 \<Rightarrow> u32 \<Rightarrow> ('e, 'z) machine_scheme \<Rightarrow> ('e, 'z) machine_scheme" where
  "hal_cpi_ur_set b cpi value = pulp_write32 b (UDMA_CAM_CUSTOM_ADDR cpi + CAM_UR_OFFSET) value"

definition hal_cpi_ur_read :: "'e pulp_bus \<Rightarrow> u32 \<Rightarrow> ('e, 'z) machine_scheme \<Rightarrow> u32 \<times> ('e, 'z) machine_scheme" where
  "hal_cpi_ur_read b cpi = pulp_read32 b (UDMA_CAM_CUSTOM_ADDR cpi + CAM_UR_OFFSET)"

definition hal_cpi_size_set :: "'e pulp_bus \<Rightarrow> u32 \<Rightarrow> u32 \<Rightarrow> ('e, 'z) machine_scheme \<Rightarrow> ('e, 'z) machine_scheme" where
  "hal_cpi_size_set b cpi value = pulp_write32 b (UDMA_CAM_CUSTOM_ADDR cpi + CAM_SIZE_OFFSET) value"

definition hal_cpi_size_read :: "'e pulp_bus \<Rightarrow> u32 \<Rightarrow> ('e, 'z) machine_scheme \<Rightarrow> u32 \<times> ('e, 'z) machine_scheme" where
  "hal_cpi_size_read b cpi = pulp_read32 b (UDMA_CAM_CUSTOM_ADDR cpi + CAM_SIZE_OFFSET)"

definition hal_cpi_glob_set :: "'e pulp_bus \<Rightarrow> u32 \<Rightarrow> u32 \<Rightarrow> ('e, 'z) machine_scheme \<Rightarrow> ('e, 'z) machine_scheme" where
  "hal_cpi_glob_set b cpi value = pulp_write32 b (UDMA_CAM_CUSTOM_ADDR cpi + CAM_GLOB_OFFSET) value"

definition hal_cpi_glob_read :: "'e pulp_bus \<Rightarrow> u32 \<Rightarrow> ('e, 'z) machine_scheme \<Rightarrow> u32 \<times> ('e, 'z) machine_scheme" where
  "hal_cpi_glob_read b cpi = pulp_read32 b (UDMA_CAM_CUSTOM_ADDR cpi + CAM_GLOB_OFFSET)"

definition hal_cpi_filter_set :: "'e pulp_bus \<Rightarrow> u32 \<Rightarrow> u32 \<Rightarrow> ('e, 'z) machine_scheme \<Rightarrow> ('e, 'z) machine_scheme" where
  "hal_cpi_filter_set b cpi value = pulp_write32 b (UDMA_CAM_CUSTOM_ADDR cpi + CAM_FILTER_OFFSET) value"

definition hal_cpi_filter_read :: "'e pulp_bus \<Rightarrow> u32 \<Rightarrow> ('e, 'z) machine_scheme \<Rightarrow> u32 \<times> ('e, 'z) machine_scheme" where
  "hal_cpi_filter_read b cpi = pulp_read32 b (UDMA_CAM_CUSTOM_ADDR cpi + CAM_FILTER_OFFSET)"

definition plp_cam_glob_set ::
  "'e pulp_bus \<Rightarrow> u32 \<Rightarrow> u32 \<Rightarrow> u32 \<Rightarrow> u32 \<Rightarrow> u32 \<Rightarrow> u32 \<Rightarrow> ('e, 'z) machine_scheme \<Rightarrow> ('e, 'z) machine_scheme" where
  "plp_cam_glob_set b enabled frameDropEn nbFrameDrop frameSliceEn fmt shift =
     pulp_write32 b (ARCHI_UDMA_ADDR + UDMA_CAM_OFFSET 0 + UDMA_CHANNEL_CUSTOM_OFFSET + CAM_GLOB_OFFSET)
       (push_bit CAM_CFG_GLOB_EN_BIT enabled OR push_bit CAM_CFG_GLOB_FRAMEDROP_EN_BIT frameDropEn OR
        push_bit CAM_CFG_GLOB_FRAMEDROP_VAL_BIT nbFrameDrop OR push_bit CAM_CFG_GLOB_FORMAT_BIT fmt OR
        push_bit CAM_CFG_GLOB_SHIFT_BIT shift)"

text \<open>
  A handle points to a structure of 32-bit members: the eight registers of the two channels, then the
  five camera registers. A member is accessed at the handle plus its offset.
\<close>

definition CAM_HANDLE :: "u32 \<Rightarrow> u32" where "CAM_HANDLE i = ARCHI_UDMA_ADDR + UDMA_CAM_OFFSET i"

definition plpUdmaCamGlobSet :: "'e pulp_bus \<Rightarrow> u32 \<Rightarrow> u32 \<Rightarrow> ('e, 'z) machine_scheme \<Rightarrow> ('e, 'z) machine_scheme" where
  "plpUdmaCamGlobSet b handle data = pulp_write32 b (handle + 0x20) data"

definition plpUdmaCamGlobGet :: "'e pulp_bus \<Rightarrow> u32 \<Rightarrow> ('e, 'z) machine_scheme \<Rightarrow> u32 \<times> ('e, 'z) machine_scheme" where
  "plpUdmaCamGlobGet b handle = pulp_read32 b (handle + 0x20)"

definition plpUdmaCamLlSet :: "'e pulp_bus \<Rightarrow> u32 \<Rightarrow> u32 \<Rightarrow> ('e, 'z) machine_scheme \<Rightarrow> ('e, 'z) machine_scheme" where
  "plpUdmaCamLlSet b handle data = pulp_write32 b (handle + 0x24) data"

definition plpUdmaCamLlGet :: "'e pulp_bus \<Rightarrow> u32 \<Rightarrow> ('e, 'z) machine_scheme \<Rightarrow> u32 \<times> ('e, 'z) machine_scheme" where
  "plpUdmaCamLlGet b handle = pulp_read32 b (handle + 0x24)"

definition plpUdmaCamUrSet :: "'e pulp_bus \<Rightarrow> u32 \<Rightarrow> u32 \<Rightarrow> ('e, 'z) machine_scheme \<Rightarrow> ('e, 'z) machine_scheme" where
  "plpUdmaCamUrSet b handle data = pulp_write32 b (handle + 0x28) data"

definition plpUdmaCamUrGet :: "'e pulp_bus \<Rightarrow> u32 \<Rightarrow> ('e, 'z) machine_scheme \<Rightarrow> u32 \<times> ('e, 'z) machine_scheme" where
  "plpUdmaCamUrGet b handle = pulp_read32 b (handle + 0x28)"

definition plpUdmaCamSizeSet :: "'e pulp_bus \<Rightarrow> u32 \<Rightarrow> u32 \<Rightarrow> ('e, 'z) machine_scheme \<Rightarrow> ('e, 'z) machine_scheme" where
  "plpUdmaCamSizeSet b handle data = pulp_write32 b (handle + 0x2c) data"

definition plpUdmaCamSizeGet :: "'e pulp_bus \<Rightarrow> u32 \<Rightarrow> ('e, 'z) machine_scheme \<Rightarrow> u32 \<times> ('e, 'z) machine_scheme" where
  "plpUdmaCamSizeGet b handle = pulp_read32 b (handle + 0x2c)"

definition plpUdmaCamFilterSet :: "'e pulp_bus \<Rightarrow> u32 \<Rightarrow> u32 \<Rightarrow> ('e, 'z) machine_scheme \<Rightarrow> ('e, 'z) machine_scheme" where
  "plpUdmaCamFilterSet b handle data = pulp_write32 b (handle + 0x30) data"

definition plpUdmaCamFilterGet :: "'e pulp_bus \<Rightarrow> u32 \<Rightarrow> ('e, 'z) machine_scheme \<Rightarrow> u32 \<times> ('e, 'z) machine_scheme" where
  "plpUdmaCamFilterGet b handle = pulp_read32 b (handle + 0x30)"

section \<open>Properties\<close>

lemmas cam_access = plpUdmaCamGlobSet_def plpUdmaCamGlobGet_def plpUdmaCamLlSet_def plpUdmaCamLlGet_def plpUdmaCamUrSet_def plpUdmaCamUrGet_def plpUdmaCamSizeSet_def plpUdmaCamSizeGet_def plpUdmaCamFilterSet_def plpUdmaCamFilterGet_def
  hal_cpi_glob_set_def hal_cpi_glob_read_def hal_cpi_ll_set_def hal_cpi_ll_read_def hal_cpi_ur_set_def hal_cpi_ur_read_def hal_cpi_size_set_def hal_cpi_size_read_def hal_cpi_filter_set_def hal_cpi_filter_read_def
  UDMA_CAM_CUSTOM_ADDR_def CAM_HANDLE_def UDMA_CAM_OFFSET_def pulp_write32_def pulp_read32_def

text \<open>
  The two sets of camera routines, through the handle structure and through addresses, access the same
  registers; the first also agrees with the register offsets of the generated header.
\<close>

theorem cam_handle_agrees:
  "plpUdmaCamGlobSet b (CAM_HANDLE i) v s = hal_cpi_glob_set b i v s \<and>
   plpUdmaCamGlobGet b (CAM_HANDLE i) s = hal_cpi_glob_read b i s \<and>
   plpUdmaCamLlSet b (CAM_HANDLE i) v s = hal_cpi_ll_set b i v s \<and>
   plpUdmaCamLlGet b (CAM_HANDLE i) s = hal_cpi_ll_read b i s \<and>
   plpUdmaCamUrSet b (CAM_HANDLE i) v s = hal_cpi_ur_set b i v s \<and>
   plpUdmaCamUrGet b (CAM_HANDLE i) s = hal_cpi_ur_read b i s \<and>
   plpUdmaCamSizeSet b (CAM_HANDLE i) v s = hal_cpi_size_set b i v s \<and>
   plpUdmaCamSizeGet b (CAM_HANDLE i) s = hal_cpi_size_read b i s \<and>
   plpUdmaCamFilterSet b (CAM_HANDLE i) v s = hal_cpi_filter_set b i v s \<and>
   plpUdmaCamFilterGet b (CAM_HANDLE i) s = hal_cpi_filter_read b i s \<and>
   plpUdmaCamGlobSet b h v s = udma_cpi_cam_cfg_glob_set b h v s \<and> plpUdmaCamFilterSet b h v s = udma_cpi_cam_cfg_filter_set b h v s"
  by (simp_all add: cam_access cam_consts cpi_offsets udma_defs periph_numbers add.assoc
    udma_cpi_cam_cfg_glob_set_def udma_cpi_cam_cfg_filter_set_def ARCHI_WRITE_def)

text \<open>
  The camera's old routine for the global register loses the frame slice flag: whatever it is given,
  the value written has that bit taken from the other arguments only, and is the same for any flag.
\<close>

theorem cam_glob_set_loses_slice:
  "plp_cam_glob_set b enabled drop_en n flag fmt shift s = plp_cam_glob_set b enabled drop_en n flag' fmt shift s \<and>
   plp_cam_glob_set b 1 0 0 1 0 0 s = hal_cpi_glob_set b 0 0x80000000 s \<and>
   UDMA_CPI_CAM_CFG_GLOB_FRAMESLICE_EN_GET 0x80000000 = 0"
  by (simp add: plp_cam_glob_set_def hal_cpi_glob_set_def UDMA_CAM_CUSTOM_ADDR_def cam_consts cpi_macros BITEXTRACTU_def)

text \<open>
  The event numbers of the platform are four per peripheral, in the order of the peripheral
  identifiers, as \<^verbatim>\<open>UDMA_EVENT_ID\<close> computes them; \<^verbatim>\<open>ARCHI_SOC_EVENT_UDMA_RX\<close> computes two per
  peripheral, so that the camera's event is taken to be one of the second I2C channel's. The macro that
  inverts the offset of a peripheral is off by one, because of the area before the first channel.
\<close>

theorem udma_event_numbers:
  "UDMA_EVENT_ID (ARCHI_UDMA_SPIM_ID 0) = of_nat ARCHI_SOC_EVENT_SPIM0_RX \<and>
   UDMA_EVENT_ID (ARCHI_UDMA_I2C_ID 0) = of_nat ARCHI_SOC_EVENT_I2C0_RX \<and>
   UDMA_EVENT_ID (ARCHI_UDMA_I2C_ID 1) = of_nat ARCHI_SOC_EVENT_I2C1_RX \<and>
   UDMA_EVENT_ID (ARCHI_UDMA_SDIO_ID 0) = of_nat ARCHI_SOC_EVENT_SDIO0_RX \<and>
   UDMA_EVENT_ID (ARCHI_UDMA_I2S_ID 0) = of_nat ARCHI_SOC_EVENT_I2S0_RX \<and>
   UDMA_EVENT_ID (ARCHI_UDMA_CAM_ID 0) = of_nat ARCHI_SOC_EVENT_CPI0_RX \<and>
   UDMA_EVENT_ID (ARCHI_UDMA_FILTER_ID 0) = of_nat ARCHI_SOC_EVENT_FILTER0_RX \<and>
   ARCHI_SOC_EVENT_CAM_RX 0 = of_nat ARCHI_SOC_EVENT_I2C1_RX \<and> ARCHI_SOC_EVENT_CAM_RX 0 \<noteq> of_nat ARCHI_SOC_EVENT_CPI0_RX \<and>
   UDMA_PERIPH_GET (UDMA_PERIPH_OFFSET i) = take_bit 25 (i + 1)"
proof (intro conjI)
  have "push_bit 7 i + 0x80 = push_bit 7 (i + 1)" by (simp add: push_bit_eq_mult)
  moreover have "drop_bit 7 (push_bit 7 x) = take_bit 25 x" for x :: u32
    by (intro bit_word_eqI) (auto simp: bit_simps)
  ultimately show "UDMA_PERIPH_GET (UDMA_PERIPH_OFFSET i) = take_bit 25 (i + 1)"
    by (simp add: UDMA_PERIPH_GET_def UDMA_PERIPH_OFFSET_def UDMA_PERIPH_AREA_SIZE_LOG2_def UDMA_FIRST_CHANNEL_OFFSET_def)
qed (simp_all add: periph_numbers udma_defs ARCHI_SOC_EVENT_CAM_RX_def)

end
