(* ===== verification/Udma_I2s.thy ===== *)
theory Udma_I2s
  imports Udma_Periphs
begin

text \<open>
  The I2S interface of \<^verbatim>\<open>archi/udma/i2s/udma_i2s_v2.h\<close>: register offsets, fields with the macros that
  read and insert them, and the accessors of the registers. \<^verbatim>\<open>ARCHI_BEXTRACTU\<close>, \<^verbatim>\<open>ARCHI_BEXTRACT\<close> and
  \<^verbatim>\<open>ARCHI_BINSERT\<close> are the field operations of \<open>Builtins_Emu\<close>.
\<close>

section \<open>Registers and fields\<close>

definition UDMA_I2S_I2S_RX_SADDR_OFFSET :: u32 where "UDMA_I2S_I2S_RX_SADDR_OFFSET = 0x0"
definition UDMA_I2S_I2S_RX_SIZE_OFFSET :: u32 where "UDMA_I2S_I2S_RX_SIZE_OFFSET = 0x4"
definition UDMA_I2S_I2S_RX_CFG_OFFSET :: u32 where "UDMA_I2S_I2S_RX_CFG_OFFSET = 0x8"
definition UDMA_I2S_I2S_RX_INITCFG_OFFSET :: u32 where "UDMA_I2S_I2S_RX_INITCFG_OFFSET = 0xc"
definition UDMA_I2S_I2S_TX_SADDR_OFFSET :: u32 where "UDMA_I2S_I2S_TX_SADDR_OFFSET = 0x10"
definition UDMA_I2S_I2S_TX_SIZE_OFFSET :: u32 where "UDMA_I2S_I2S_TX_SIZE_OFFSET = 0x14"
definition UDMA_I2S_I2S_TX_CFG_OFFSET :: u32 where "UDMA_I2S_I2S_TX_CFG_OFFSET = 0x18"
definition UDMA_I2S_I2S_TX_INITCFG_OFFSET :: u32 where "UDMA_I2S_I2S_TX_INITCFG_OFFSET = 0x1c"
definition UDMA_I2S_I2S_CLKCFG_SETUP_OFFSET :: u32 where "UDMA_I2S_I2S_CLKCFG_SETUP_OFFSET = 0x20"
definition UDMA_I2S_I2S_SLV_SETUP_OFFSET :: u32 where "UDMA_I2S_I2S_SLV_SETUP_OFFSET = 0x24"
definition UDMA_I2S_I2S_MST_SETUP_OFFSET :: u32 where "UDMA_I2S_I2S_MST_SETUP_OFFSET = 0x28"
definition UDMA_I2S_I2S_PDM_SETUP_OFFSET :: u32 where "UDMA_I2S_I2S_PDM_SETUP_OFFSET = 0x2c"

lemmas i2s_offsets = UDMA_I2S_I2S_RX_SADDR_OFFSET_def UDMA_I2S_I2S_RX_SIZE_OFFSET_def
  UDMA_I2S_I2S_RX_CFG_OFFSET_def UDMA_I2S_I2S_RX_INITCFG_OFFSET_def UDMA_I2S_I2S_TX_SADDR_OFFSET_def
  UDMA_I2S_I2S_TX_SIZE_OFFSET_def UDMA_I2S_I2S_TX_CFG_OFFSET_def UDMA_I2S_I2S_TX_INITCFG_OFFSET_def
  UDMA_I2S_I2S_CLKCFG_SETUP_OFFSET_def UDMA_I2S_I2S_SLV_SETUP_OFFSET_def UDMA_I2S_I2S_MST_SETUP_OFFSET_def
  UDMA_I2S_I2S_PDM_SETUP_OFFSET_def

definition UDMA_I2S_I2S_RX_SADDR_RX_SADDR_BIT :: nat where "UDMA_I2S_I2S_RX_SADDR_RX_SADDR_BIT = 0"
definition UDMA_I2S_I2S_RX_SADDR_RX_SADDR_WIDTH :: nat where "UDMA_I2S_I2S_RX_SADDR_RX_SADDR_WIDTH = 16"
definition UDMA_I2S_I2S_RX_SIZE_RX_SIZE_BIT :: nat where "UDMA_I2S_I2S_RX_SIZE_RX_SIZE_BIT = 0"
definition UDMA_I2S_I2S_RX_SIZE_RX_SIZE_WIDTH :: nat where "UDMA_I2S_I2S_RX_SIZE_RX_SIZE_WIDTH = 17"
definition UDMA_I2S_I2S_RX_CFG_CONTINOUS_BIT :: nat where "UDMA_I2S_I2S_RX_CFG_CONTINOUS_BIT = 0"
definition UDMA_I2S_I2S_RX_CFG_CONTINOUS_WIDTH :: nat where "UDMA_I2S_I2S_RX_CFG_CONTINOUS_WIDTH = 1"
definition UDMA_I2S_I2S_RX_CFG_DATASIZE_BIT :: nat where "UDMA_I2S_I2S_RX_CFG_DATASIZE_BIT = 1"
definition UDMA_I2S_I2S_RX_CFG_DATASIZE_WIDTH :: nat where "UDMA_I2S_I2S_RX_CFG_DATASIZE_WIDTH = 2"
definition UDMA_I2S_I2S_RX_CFG_EN_BIT :: nat where "UDMA_I2S_I2S_RX_CFG_EN_BIT = 4"
definition UDMA_I2S_I2S_RX_CFG_EN_WIDTH :: nat where "UDMA_I2S_I2S_RX_CFG_EN_WIDTH = 1"
definition UDMA_I2S_I2S_RX_CFG_CLR_BIT :: nat where "UDMA_I2S_I2S_RX_CFG_CLR_BIT = 5"
definition UDMA_I2S_I2S_RX_CFG_CLR_WIDTH :: nat where "UDMA_I2S_I2S_RX_CFG_CLR_WIDTH = 1"
definition UDMA_I2S_I2S_RX_CFG_PENDING_BIT :: nat where "UDMA_I2S_I2S_RX_CFG_PENDING_BIT = 5"
definition UDMA_I2S_I2S_RX_CFG_PENDING_WIDTH :: nat where "UDMA_I2S_I2S_RX_CFG_PENDING_WIDTH = 1"
definition UDMA_I2S_I2S_TX_SADDR_TX_SADDR_BIT :: nat where "UDMA_I2S_I2S_TX_SADDR_TX_SADDR_BIT = 0"
definition UDMA_I2S_I2S_TX_SADDR_TX_SADDR_WIDTH :: nat where "UDMA_I2S_I2S_TX_SADDR_TX_SADDR_WIDTH = 16"
definition UDMA_I2S_I2S_TX_SIZE_TX_SIZE_BIT :: nat where "UDMA_I2S_I2S_TX_SIZE_TX_SIZE_BIT = 0"
definition UDMA_I2S_I2S_TX_SIZE_TX_SIZE_WIDTH :: nat where "UDMA_I2S_I2S_TX_SIZE_TX_SIZE_WIDTH = 17"
definition UDMA_I2S_I2S_TX_CFG_CONTINOUS_BIT :: nat where "UDMA_I2S_I2S_TX_CFG_CONTINOUS_BIT = 0"
definition UDMA_I2S_I2S_TX_CFG_CONTINOUS_WIDTH :: nat where "UDMA_I2S_I2S_TX_CFG_CONTINOUS_WIDTH = 1"
definition UDMA_I2S_I2S_TX_CFG_DATASIZE_BIT :: nat where "UDMA_I2S_I2S_TX_CFG_DATASIZE_BIT = 1"
definition UDMA_I2S_I2S_TX_CFG_DATASIZE_WIDTH :: nat where "UDMA_I2S_I2S_TX_CFG_DATASIZE_WIDTH = 2"
definition UDMA_I2S_I2S_TX_CFG_EN_BIT :: nat where "UDMA_I2S_I2S_TX_CFG_EN_BIT = 4"
definition UDMA_I2S_I2S_TX_CFG_EN_WIDTH :: nat where "UDMA_I2S_I2S_TX_CFG_EN_WIDTH = 1"
definition UDMA_I2S_I2S_TX_CFG_CLR_BIT :: nat where "UDMA_I2S_I2S_TX_CFG_CLR_BIT = 5"
definition UDMA_I2S_I2S_TX_CFG_CLR_WIDTH :: nat where "UDMA_I2S_I2S_TX_CFG_CLR_WIDTH = 1"
definition UDMA_I2S_I2S_TX_CFG_PENDING_BIT :: nat where "UDMA_I2S_I2S_TX_CFG_PENDING_BIT = 5"
definition UDMA_I2S_I2S_TX_CFG_PENDING_WIDTH :: nat where "UDMA_I2S_I2S_TX_CFG_PENDING_WIDTH = 1"
definition UDMA_I2S_I2S_CLKCFG_SETUP_MASTER_CLK_DIV_BIT :: nat where "UDMA_I2S_I2S_CLKCFG_SETUP_MASTER_CLK_DIV_BIT = 0"
definition UDMA_I2S_I2S_CLKCFG_SETUP_MASTER_CLK_DIV_WIDTH :: nat where "UDMA_I2S_I2S_CLKCFG_SETUP_MASTER_CLK_DIV_WIDTH = 8"
definition UDMA_I2S_I2S_CLKCFG_SETUP_SLAVE_CLK_DIV_BIT :: nat where "UDMA_I2S_I2S_CLKCFG_SETUP_SLAVE_CLK_DIV_BIT = 8"
definition UDMA_I2S_I2S_CLKCFG_SETUP_SLAVE_CLK_DIV_WIDTH :: nat where "UDMA_I2S_I2S_CLKCFG_SETUP_SLAVE_CLK_DIV_WIDTH = 8"
definition UDMA_I2S_I2S_CLKCFG_SETUP_COMMON_CLK_DIV_BIT :: nat where "UDMA_I2S_I2S_CLKCFG_SETUP_COMMON_CLK_DIV_BIT = 16"
definition UDMA_I2S_I2S_CLKCFG_SETUP_COMMON_CLK_DIV_WIDTH :: nat where "UDMA_I2S_I2S_CLKCFG_SETUP_COMMON_CLK_DIV_WIDTH = 8"
definition UDMA_I2S_I2S_CLKCFG_SETUP_SLAVE_CLK_EN_BIT :: nat where "UDMA_I2S_I2S_CLKCFG_SETUP_SLAVE_CLK_EN_BIT = 24"
definition UDMA_I2S_I2S_CLKCFG_SETUP_SLAVE_CLK_EN_WIDTH :: nat where "UDMA_I2S_I2S_CLKCFG_SETUP_SLAVE_CLK_EN_WIDTH = 1"
definition UDMA_I2S_I2S_CLKCFG_SETUP_MASTER_CLK_EN_BIT :: nat where "UDMA_I2S_I2S_CLKCFG_SETUP_MASTER_CLK_EN_BIT = 25"
definition UDMA_I2S_I2S_CLKCFG_SETUP_MASTER_CLK_EN_WIDTH :: nat where "UDMA_I2S_I2S_CLKCFG_SETUP_MASTER_CLK_EN_WIDTH = 1"
definition UDMA_I2S_I2S_CLKCFG_SETUP_PDM_CLK_EN_BIT :: nat where "UDMA_I2S_I2S_CLKCFG_SETUP_PDM_CLK_EN_BIT = 26"
definition UDMA_I2S_I2S_CLKCFG_SETUP_PDM_CLK_EN_WIDTH :: nat where "UDMA_I2S_I2S_CLKCFG_SETUP_PDM_CLK_EN_WIDTH = 1"
definition UDMA_I2S_I2S_CLKCFG_SETUP_SLAVE_EXT_BIT :: nat where "UDMA_I2S_I2S_CLKCFG_SETUP_SLAVE_EXT_BIT = 28"
definition UDMA_I2S_I2S_CLKCFG_SETUP_SLAVE_EXT_WIDTH :: nat where "UDMA_I2S_I2S_CLKCFG_SETUP_SLAVE_EXT_WIDTH = 1"
definition UDMA_I2S_I2S_CLKCFG_SETUP_SLAVE_NUM_BIT :: nat where "UDMA_I2S_I2S_CLKCFG_SETUP_SLAVE_NUM_BIT = 29"
definition UDMA_I2S_I2S_CLKCFG_SETUP_SLAVE_NUM_WIDTH :: nat where "UDMA_I2S_I2S_CLKCFG_SETUP_SLAVE_NUM_WIDTH = 1"
definition UDMA_I2S_I2S_CLKCFG_SETUP_MASTER_EXT_BIT :: nat where "UDMA_I2S_I2S_CLKCFG_SETUP_MASTER_EXT_BIT = 30"
definition UDMA_I2S_I2S_CLKCFG_SETUP_MASTER_EXT_WIDTH :: nat where "UDMA_I2S_I2S_CLKCFG_SETUP_MASTER_EXT_WIDTH = 1"
definition UDMA_I2S_I2S_CLKCFG_SETUP_MASTER_NUM_BIT :: nat where "UDMA_I2S_I2S_CLKCFG_SETUP_MASTER_NUM_BIT = 31"
definition UDMA_I2S_I2S_CLKCFG_SETUP_MASTER_NUM_WIDTH :: nat where "UDMA_I2S_I2S_CLKCFG_SETUP_MASTER_NUM_WIDTH = 1"
definition UDMA_I2S_I2S_SLV_SETUP_SLAVE_WORDS_BIT :: nat where "UDMA_I2S_I2S_SLV_SETUP_SLAVE_WORDS_BIT = 0"
definition UDMA_I2S_I2S_SLV_SETUP_SLAVE_WORDS_WIDTH :: nat where "UDMA_I2S_I2S_SLV_SETUP_SLAVE_WORDS_WIDTH = 3"
definition UDMA_I2S_I2S_SLV_SETUP_SLAVE_BITS_BIT :: nat where "UDMA_I2S_I2S_SLV_SETUP_SLAVE_BITS_BIT = 8"
definition UDMA_I2S_I2S_SLV_SETUP_SLAVE_BITS_WIDTH :: nat where "UDMA_I2S_I2S_SLV_SETUP_SLAVE_BITS_WIDTH = 5"
definition UDMA_I2S_I2S_SLV_SETUP_SLAVE_LSB_BIT :: nat where "UDMA_I2S_I2S_SLV_SETUP_SLAVE_LSB_BIT = 16"
definition UDMA_I2S_I2S_SLV_SETUP_SLAVE_LSB_WIDTH :: nat where "UDMA_I2S_I2S_SLV_SETUP_SLAVE_LSB_WIDTH = 1"
definition UDMA_I2S_I2S_SLV_SETUP_SLAVE_2CH_BIT :: nat where "UDMA_I2S_I2S_SLV_SETUP_SLAVE_2CH_BIT = 17"
definition UDMA_I2S_I2S_SLV_SETUP_SLAVE_2CH_WIDTH :: nat where "UDMA_I2S_I2S_SLV_SETUP_SLAVE_2CH_WIDTH = 1"
definition UDMA_I2S_I2S_SLV_SETUP_SLAVE_EN_BIT :: nat where "UDMA_I2S_I2S_SLV_SETUP_SLAVE_EN_BIT = 31"
definition UDMA_I2S_I2S_SLV_SETUP_SLAVE_EN_WIDTH :: nat where "UDMA_I2S_I2S_SLV_SETUP_SLAVE_EN_WIDTH = 1"
definition UDMA_I2S_I2S_MST_SETUP_MASTER_WORDS_BIT :: nat where "UDMA_I2S_I2S_MST_SETUP_MASTER_WORDS_BIT = 0"
definition UDMA_I2S_I2S_MST_SETUP_MASTER_WORDS_WIDTH :: nat where "UDMA_I2S_I2S_MST_SETUP_MASTER_WORDS_WIDTH = 3"
definition UDMA_I2S_I2S_MST_SETUP_MASTER_BITS_BIT :: nat where "UDMA_I2S_I2S_MST_SETUP_MASTER_BITS_BIT = 8"
definition UDMA_I2S_I2S_MST_SETUP_MASTER_BITS_WIDTH :: nat where "UDMA_I2S_I2S_MST_SETUP_MASTER_BITS_WIDTH = 5"
definition UDMA_I2S_I2S_MST_SETUP_MASTER_LSB_BIT :: nat where "UDMA_I2S_I2S_MST_SETUP_MASTER_LSB_BIT = 16"
definition UDMA_I2S_I2S_MST_SETUP_MASTER_LSB_WIDTH :: nat where "UDMA_I2S_I2S_MST_SETUP_MASTER_LSB_WIDTH = 1"
definition UDMA_I2S_I2S_MST_SETUP_MASTER_2CH_BIT :: nat where "UDMA_I2S_I2S_MST_SETUP_MASTER_2CH_BIT = 17"
definition UDMA_I2S_I2S_MST_SETUP_MASTER_2CH_WIDTH :: nat where "UDMA_I2S_I2S_MST_SETUP_MASTER_2CH_WIDTH = 1"
definition UDMA_I2S_I2S_MST_SETUP_MASTER_EN_BIT :: nat where "UDMA_I2S_I2S_MST_SETUP_MASTER_EN_BIT = 31"
definition UDMA_I2S_I2S_MST_SETUP_MASTER_EN_WIDTH :: nat where "UDMA_I2S_I2S_MST_SETUP_MASTER_EN_WIDTH = 1"
definition UDMA_I2S_I2S_PDM_SETUP_PDM_SHIFT_BIT :: nat where "UDMA_I2S_I2S_PDM_SETUP_PDM_SHIFT_BIT = 0"
definition UDMA_I2S_I2S_PDM_SETUP_PDM_SHIFT_WIDTH :: nat where "UDMA_I2S_I2S_PDM_SETUP_PDM_SHIFT_WIDTH = 3"
definition UDMA_I2S_I2S_PDM_SETUP_PDM_DECIMATION_BIT :: nat where "UDMA_I2S_I2S_PDM_SETUP_PDM_DECIMATION_BIT = 3"
definition UDMA_I2S_I2S_PDM_SETUP_PDM_DECIMATION_WIDTH :: nat where "UDMA_I2S_I2S_PDM_SETUP_PDM_DECIMATION_WIDTH = 10"
definition UDMA_I2S_I2S_PDM_SETUP_PDM_MODE_BIT :: nat where "UDMA_I2S_I2S_PDM_SETUP_PDM_MODE_BIT = 13"
definition UDMA_I2S_I2S_PDM_SETUP_PDM_MODE_WIDTH :: nat where "UDMA_I2S_I2S_PDM_SETUP_PDM_MODE_WIDTH = 2"
definition UDMA_I2S_I2S_PDM_SETUP_PDM_EN_BIT :: nat where "UDMA_I2S_I2S_PDM_SETUP_PDM_EN_BIT = 31"
definition UDMA_I2S_I2S_PDM_SETUP_PDM_EN_WIDTH :: nat where "UDMA_I2S_I2S_PDM_SETUP_PDM_EN_WIDTH = 1"
definition UDMA_I2S_I2S_RX_SADDR_RX_SADDR_MASK :: u32 where "UDMA_I2S_I2S_RX_SADDR_RX_SADDR_MASK = 0xffff"
definition UDMA_I2S_I2S_RX_SIZE_RX_SIZE_MASK :: u32 where "UDMA_I2S_I2S_RX_SIZE_RX_SIZE_MASK = 0x1ffff"
definition UDMA_I2S_I2S_RX_CFG_CONTINOUS_MASK :: u32 where "UDMA_I2S_I2S_RX_CFG_CONTINOUS_MASK = 0x1"
definition UDMA_I2S_I2S_RX_CFG_DATASIZE_MASK :: u32 where "UDMA_I2S_I2S_RX_CFG_DATASIZE_MASK = 0x6"
definition UDMA_I2S_I2S_RX_CFG_EN_MASK :: u32 where "UDMA_I2S_I2S_RX_CFG_EN_MASK = 0x10"
definition UDMA_I2S_I2S_RX_CFG_CLR_MASK :: u32 where "UDMA_I2S_I2S_RX_CFG_CLR_MASK = 0x20"
definition UDMA_I2S_I2S_RX_CFG_PENDING_MASK :: u32 where "UDMA_I2S_I2S_RX_CFG_PENDING_MASK = 0x20"
definition UDMA_I2S_I2S_TX_SADDR_TX_SADDR_MASK :: u32 where "UDMA_I2S_I2S_TX_SADDR_TX_SADDR_MASK = 0xffff"
definition UDMA_I2S_I2S_TX_SIZE_TX_SIZE_MASK :: u32 where "UDMA_I2S_I2S_TX_SIZE_TX_SIZE_MASK = 0x1ffff"
definition UDMA_I2S_I2S_TX_CFG_CONTINOUS_MASK :: u32 where "UDMA_I2S_I2S_TX_CFG_CONTINOUS_MASK = 0x1"
definition UDMA_I2S_I2S_TX_CFG_DATASIZE_MASK :: u32 where "UDMA_I2S_I2S_TX_CFG_DATASIZE_MASK = 0x6"
definition UDMA_I2S_I2S_TX_CFG_EN_MASK :: u32 where "UDMA_I2S_I2S_TX_CFG_EN_MASK = 0x10"
definition UDMA_I2S_I2S_TX_CFG_CLR_MASK :: u32 where "UDMA_I2S_I2S_TX_CFG_CLR_MASK = 0x20"
definition UDMA_I2S_I2S_TX_CFG_PENDING_MASK :: u32 where "UDMA_I2S_I2S_TX_CFG_PENDING_MASK = 0x20"
definition UDMA_I2S_I2S_CLKCFG_SETUP_MASTER_CLK_DIV_MASK :: u32 where "UDMA_I2S_I2S_CLKCFG_SETUP_MASTER_CLK_DIV_MASK = 0xff"
definition UDMA_I2S_I2S_CLKCFG_SETUP_SLAVE_CLK_DIV_MASK :: u32 where "UDMA_I2S_I2S_CLKCFG_SETUP_SLAVE_CLK_DIV_MASK = 0xff00"
definition UDMA_I2S_I2S_CLKCFG_SETUP_COMMON_CLK_DIV_MASK :: u32 where "UDMA_I2S_I2S_CLKCFG_SETUP_COMMON_CLK_DIV_MASK = 0xff0000"
definition UDMA_I2S_I2S_CLKCFG_SETUP_SLAVE_CLK_EN_MASK :: u32 where "UDMA_I2S_I2S_CLKCFG_SETUP_SLAVE_CLK_EN_MASK = 0x1000000"
definition UDMA_I2S_I2S_CLKCFG_SETUP_MASTER_CLK_EN_MASK :: u32 where "UDMA_I2S_I2S_CLKCFG_SETUP_MASTER_CLK_EN_MASK = 0x2000000"
definition UDMA_I2S_I2S_CLKCFG_SETUP_PDM_CLK_EN_MASK :: u32 where "UDMA_I2S_I2S_CLKCFG_SETUP_PDM_CLK_EN_MASK = 0x4000000"
definition UDMA_I2S_I2S_CLKCFG_SETUP_SLAVE_EXT_MASK :: u32 where "UDMA_I2S_I2S_CLKCFG_SETUP_SLAVE_EXT_MASK = 0x10000000"
definition UDMA_I2S_I2S_CLKCFG_SETUP_SLAVE_NUM_MASK :: u32 where "UDMA_I2S_I2S_CLKCFG_SETUP_SLAVE_NUM_MASK = 0x20000000"
definition UDMA_I2S_I2S_CLKCFG_SETUP_MASTER_EXT_MASK :: u32 where "UDMA_I2S_I2S_CLKCFG_SETUP_MASTER_EXT_MASK = 0x40000000"
definition UDMA_I2S_I2S_CLKCFG_SETUP_MASTER_NUM_MASK :: u32 where "UDMA_I2S_I2S_CLKCFG_SETUP_MASTER_NUM_MASK = 0x80000000"
definition UDMA_I2S_I2S_SLV_SETUP_SLAVE_WORDS_MASK :: u32 where "UDMA_I2S_I2S_SLV_SETUP_SLAVE_WORDS_MASK = 0x7"
definition UDMA_I2S_I2S_SLV_SETUP_SLAVE_BITS_MASK :: u32 where "UDMA_I2S_I2S_SLV_SETUP_SLAVE_BITS_MASK = 0x1f00"
definition UDMA_I2S_I2S_SLV_SETUP_SLAVE_LSB_MASK :: u32 where "UDMA_I2S_I2S_SLV_SETUP_SLAVE_LSB_MASK = 0x10000"
definition UDMA_I2S_I2S_SLV_SETUP_SLAVE_2CH_MASK :: u32 where "UDMA_I2S_I2S_SLV_SETUP_SLAVE_2CH_MASK = 0x20000"
definition UDMA_I2S_I2S_SLV_SETUP_SLAVE_EN_MASK :: u32 where "UDMA_I2S_I2S_SLV_SETUP_SLAVE_EN_MASK = 0x80000000"
definition UDMA_I2S_I2S_MST_SETUP_MASTER_WORDS_MASK :: u32 where "UDMA_I2S_I2S_MST_SETUP_MASTER_WORDS_MASK = 0x7"
definition UDMA_I2S_I2S_MST_SETUP_MASTER_BITS_MASK :: u32 where "UDMA_I2S_I2S_MST_SETUP_MASTER_BITS_MASK = 0x1f00"
definition UDMA_I2S_I2S_MST_SETUP_MASTER_LSB_MASK :: u32 where "UDMA_I2S_I2S_MST_SETUP_MASTER_LSB_MASK = 0x10000"
definition UDMA_I2S_I2S_MST_SETUP_MASTER_2CH_MASK :: u32 where "UDMA_I2S_I2S_MST_SETUP_MASTER_2CH_MASK = 0x20000"
definition UDMA_I2S_I2S_MST_SETUP_MASTER_EN_MASK :: u32 where "UDMA_I2S_I2S_MST_SETUP_MASTER_EN_MASK = 0x80000000"
definition UDMA_I2S_I2S_PDM_SETUP_PDM_SHIFT_MASK :: u32 where "UDMA_I2S_I2S_PDM_SETUP_PDM_SHIFT_MASK = 0x7"
definition UDMA_I2S_I2S_PDM_SETUP_PDM_DECIMATION_MASK :: u32 where "UDMA_I2S_I2S_PDM_SETUP_PDM_DECIMATION_MASK = 0x1ff8"
definition UDMA_I2S_I2S_PDM_SETUP_PDM_MODE_MASK :: u32 where "UDMA_I2S_I2S_PDM_SETUP_PDM_MODE_MASK = 0x6000"
definition UDMA_I2S_I2S_PDM_SETUP_PDM_EN_MASK :: u32 where "UDMA_I2S_I2S_PDM_SETUP_PDM_EN_MASK = 0x80000000"

lemmas i2s_fields = UDMA_I2S_I2S_RX_SADDR_RX_SADDR_BIT_def UDMA_I2S_I2S_RX_SADDR_RX_SADDR_WIDTH_def
  UDMA_I2S_I2S_RX_SIZE_RX_SIZE_BIT_def UDMA_I2S_I2S_RX_SIZE_RX_SIZE_WIDTH_def
  UDMA_I2S_I2S_RX_CFG_CONTINOUS_BIT_def UDMA_I2S_I2S_RX_CFG_CONTINOUS_WIDTH_def
  UDMA_I2S_I2S_RX_CFG_DATASIZE_BIT_def UDMA_I2S_I2S_RX_CFG_DATASIZE_WIDTH_def UDMA_I2S_I2S_RX_CFG_EN_BIT_def
  UDMA_I2S_I2S_RX_CFG_EN_WIDTH_def UDMA_I2S_I2S_RX_CFG_CLR_BIT_def UDMA_I2S_I2S_RX_CFG_CLR_WIDTH_def
  UDMA_I2S_I2S_RX_CFG_PENDING_BIT_def UDMA_I2S_I2S_RX_CFG_PENDING_WIDTH_def
  UDMA_I2S_I2S_TX_SADDR_TX_SADDR_BIT_def UDMA_I2S_I2S_TX_SADDR_TX_SADDR_WIDTH_def
  UDMA_I2S_I2S_TX_SIZE_TX_SIZE_BIT_def UDMA_I2S_I2S_TX_SIZE_TX_SIZE_WIDTH_def
  UDMA_I2S_I2S_TX_CFG_CONTINOUS_BIT_def UDMA_I2S_I2S_TX_CFG_CONTINOUS_WIDTH_def
  UDMA_I2S_I2S_TX_CFG_DATASIZE_BIT_def UDMA_I2S_I2S_TX_CFG_DATASIZE_WIDTH_def UDMA_I2S_I2S_TX_CFG_EN_BIT_def
  UDMA_I2S_I2S_TX_CFG_EN_WIDTH_def UDMA_I2S_I2S_TX_CFG_CLR_BIT_def UDMA_I2S_I2S_TX_CFG_CLR_WIDTH_def
  UDMA_I2S_I2S_TX_CFG_PENDING_BIT_def UDMA_I2S_I2S_TX_CFG_PENDING_WIDTH_def
  UDMA_I2S_I2S_CLKCFG_SETUP_MASTER_CLK_DIV_BIT_def UDMA_I2S_I2S_CLKCFG_SETUP_MASTER_CLK_DIV_WIDTH_def
  UDMA_I2S_I2S_CLKCFG_SETUP_SLAVE_CLK_DIV_BIT_def UDMA_I2S_I2S_CLKCFG_SETUP_SLAVE_CLK_DIV_WIDTH_def
  UDMA_I2S_I2S_CLKCFG_SETUP_COMMON_CLK_DIV_BIT_def UDMA_I2S_I2S_CLKCFG_SETUP_COMMON_CLK_DIV_WIDTH_def
  UDMA_I2S_I2S_CLKCFG_SETUP_SLAVE_CLK_EN_BIT_def UDMA_I2S_I2S_CLKCFG_SETUP_SLAVE_CLK_EN_WIDTH_def
  UDMA_I2S_I2S_CLKCFG_SETUP_MASTER_CLK_EN_BIT_def UDMA_I2S_I2S_CLKCFG_SETUP_MASTER_CLK_EN_WIDTH_def
  UDMA_I2S_I2S_CLKCFG_SETUP_PDM_CLK_EN_BIT_def UDMA_I2S_I2S_CLKCFG_SETUP_PDM_CLK_EN_WIDTH_def
  UDMA_I2S_I2S_CLKCFG_SETUP_SLAVE_EXT_BIT_def UDMA_I2S_I2S_CLKCFG_SETUP_SLAVE_EXT_WIDTH_def
  UDMA_I2S_I2S_CLKCFG_SETUP_SLAVE_NUM_BIT_def UDMA_I2S_I2S_CLKCFG_SETUP_SLAVE_NUM_WIDTH_def
  UDMA_I2S_I2S_CLKCFG_SETUP_MASTER_EXT_BIT_def UDMA_I2S_I2S_CLKCFG_SETUP_MASTER_EXT_WIDTH_def
  UDMA_I2S_I2S_CLKCFG_SETUP_MASTER_NUM_BIT_def UDMA_I2S_I2S_CLKCFG_SETUP_MASTER_NUM_WIDTH_def
  UDMA_I2S_I2S_SLV_SETUP_SLAVE_WORDS_BIT_def UDMA_I2S_I2S_SLV_SETUP_SLAVE_WORDS_WIDTH_def
  UDMA_I2S_I2S_SLV_SETUP_SLAVE_BITS_BIT_def UDMA_I2S_I2S_SLV_SETUP_SLAVE_BITS_WIDTH_def
  UDMA_I2S_I2S_SLV_SETUP_SLAVE_LSB_BIT_def UDMA_I2S_I2S_SLV_SETUP_SLAVE_LSB_WIDTH_def
  UDMA_I2S_I2S_SLV_SETUP_SLAVE_2CH_BIT_def UDMA_I2S_I2S_SLV_SETUP_SLAVE_2CH_WIDTH_def
  UDMA_I2S_I2S_SLV_SETUP_SLAVE_EN_BIT_def UDMA_I2S_I2S_SLV_SETUP_SLAVE_EN_WIDTH_def
  UDMA_I2S_I2S_MST_SETUP_MASTER_WORDS_BIT_def UDMA_I2S_I2S_MST_SETUP_MASTER_WORDS_WIDTH_def
  UDMA_I2S_I2S_MST_SETUP_MASTER_BITS_BIT_def UDMA_I2S_I2S_MST_SETUP_MASTER_BITS_WIDTH_def
  UDMA_I2S_I2S_MST_SETUP_MASTER_LSB_BIT_def UDMA_I2S_I2S_MST_SETUP_MASTER_LSB_WIDTH_def
  UDMA_I2S_I2S_MST_SETUP_MASTER_2CH_BIT_def UDMA_I2S_I2S_MST_SETUP_MASTER_2CH_WIDTH_def
  UDMA_I2S_I2S_MST_SETUP_MASTER_EN_BIT_def UDMA_I2S_I2S_MST_SETUP_MASTER_EN_WIDTH_def
  UDMA_I2S_I2S_PDM_SETUP_PDM_SHIFT_BIT_def UDMA_I2S_I2S_PDM_SETUP_PDM_SHIFT_WIDTH_def
  UDMA_I2S_I2S_PDM_SETUP_PDM_DECIMATION_BIT_def UDMA_I2S_I2S_PDM_SETUP_PDM_DECIMATION_WIDTH_def
  UDMA_I2S_I2S_PDM_SETUP_PDM_MODE_BIT_def UDMA_I2S_I2S_PDM_SETUP_PDM_MODE_WIDTH_def
  UDMA_I2S_I2S_PDM_SETUP_PDM_EN_BIT_def UDMA_I2S_I2S_PDM_SETUP_PDM_EN_WIDTH_def
  UDMA_I2S_I2S_RX_SADDR_RX_SADDR_MASK_def UDMA_I2S_I2S_RX_SIZE_RX_SIZE_MASK_def
  UDMA_I2S_I2S_RX_CFG_CONTINOUS_MASK_def UDMA_I2S_I2S_RX_CFG_DATASIZE_MASK_def UDMA_I2S_I2S_RX_CFG_EN_MASK_def
  UDMA_I2S_I2S_RX_CFG_CLR_MASK_def UDMA_I2S_I2S_RX_CFG_PENDING_MASK_def
  UDMA_I2S_I2S_TX_SADDR_TX_SADDR_MASK_def UDMA_I2S_I2S_TX_SIZE_TX_SIZE_MASK_def
  UDMA_I2S_I2S_TX_CFG_CONTINOUS_MASK_def UDMA_I2S_I2S_TX_CFG_DATASIZE_MASK_def UDMA_I2S_I2S_TX_CFG_EN_MASK_def
  UDMA_I2S_I2S_TX_CFG_CLR_MASK_def UDMA_I2S_I2S_TX_CFG_PENDING_MASK_def
  UDMA_I2S_I2S_CLKCFG_SETUP_MASTER_CLK_DIV_MASK_def UDMA_I2S_I2S_CLKCFG_SETUP_SLAVE_CLK_DIV_MASK_def
  UDMA_I2S_I2S_CLKCFG_SETUP_COMMON_CLK_DIV_MASK_def UDMA_I2S_I2S_CLKCFG_SETUP_SLAVE_CLK_EN_MASK_def
  UDMA_I2S_I2S_CLKCFG_SETUP_MASTER_CLK_EN_MASK_def UDMA_I2S_I2S_CLKCFG_SETUP_PDM_CLK_EN_MASK_def
  UDMA_I2S_I2S_CLKCFG_SETUP_SLAVE_EXT_MASK_def UDMA_I2S_I2S_CLKCFG_SETUP_SLAVE_NUM_MASK_def
  UDMA_I2S_I2S_CLKCFG_SETUP_MASTER_EXT_MASK_def UDMA_I2S_I2S_CLKCFG_SETUP_MASTER_NUM_MASK_def
  UDMA_I2S_I2S_SLV_SETUP_SLAVE_WORDS_MASK_def UDMA_I2S_I2S_SLV_SETUP_SLAVE_BITS_MASK_def
  UDMA_I2S_I2S_SLV_SETUP_SLAVE_LSB_MASK_def UDMA_I2S_I2S_SLV_SETUP_SLAVE_2CH_MASK_def
  UDMA_I2S_I2S_SLV_SETUP_SLAVE_EN_MASK_def UDMA_I2S_I2S_MST_SETUP_MASTER_WORDS_MASK_def
  UDMA_I2S_I2S_MST_SETUP_MASTER_BITS_MASK_def UDMA_I2S_I2S_MST_SETUP_MASTER_LSB_MASK_def
  UDMA_I2S_I2S_MST_SETUP_MASTER_2CH_MASK_def UDMA_I2S_I2S_MST_SETUP_MASTER_EN_MASK_def
  UDMA_I2S_I2S_PDM_SETUP_PDM_SHIFT_MASK_def UDMA_I2S_I2S_PDM_SETUP_PDM_DECIMATION_MASK_def
  UDMA_I2S_I2S_PDM_SETUP_PDM_MODE_MASK_def UDMA_I2S_I2S_PDM_SETUP_PDM_EN_MASK_def

section \<open>Field macros and accessors\<close>

definition UDMA_I2S_I2S_RX_SADDR_RX_SADDR_GET :: "u32 \<Rightarrow> u32" where "UDMA_I2S_I2S_RX_SADDR_RX_SADDR_GET value = BITEXTRACTU value 16 0"
definition UDMA_I2S_I2S_RX_SADDR_RX_SADDR_GETS :: "u32 \<Rightarrow> u32" where "UDMA_I2S_I2S_RX_SADDR_RX_SADDR_GETS value = BITEXTRACT value 16 0"
definition UDMA_I2S_I2S_RX_SADDR_RX_SADDR_SET :: "u32 \<Rightarrow> u32 \<Rightarrow> u32" where "UDMA_I2S_I2S_RX_SADDR_RX_SADDR_SET value field = BITINSERT value field 16 0"
definition UDMA_I2S_I2S_RX_SADDR_RX_SADDR :: "u32 \<Rightarrow> u32" where "UDMA_I2S_I2S_RX_SADDR_RX_SADDR val = push_bit 0 val"
definition UDMA_I2S_I2S_RX_SIZE_RX_SIZE_GET :: "u32 \<Rightarrow> u32" where "UDMA_I2S_I2S_RX_SIZE_RX_SIZE_GET value = BITEXTRACTU value 17 0"
definition UDMA_I2S_I2S_RX_SIZE_RX_SIZE_GETS :: "u32 \<Rightarrow> u32" where "UDMA_I2S_I2S_RX_SIZE_RX_SIZE_GETS value = BITEXTRACT value 17 0"
definition UDMA_I2S_I2S_RX_SIZE_RX_SIZE_SET :: "u32 \<Rightarrow> u32 \<Rightarrow> u32" where "UDMA_I2S_I2S_RX_SIZE_RX_SIZE_SET value field = BITINSERT value field 17 0"
definition UDMA_I2S_I2S_RX_SIZE_RX_SIZE :: "u32 \<Rightarrow> u32" where "UDMA_I2S_I2S_RX_SIZE_RX_SIZE val = push_bit 0 val"
definition UDMA_I2S_I2S_RX_CFG_CONTINOUS_GET :: "u32 \<Rightarrow> u32" where "UDMA_I2S_I2S_RX_CFG_CONTINOUS_GET value = BITEXTRACTU value 1 0"
definition UDMA_I2S_I2S_RX_CFG_CONTINOUS_GETS :: "u32 \<Rightarrow> u32" where "UDMA_I2S_I2S_RX_CFG_CONTINOUS_GETS value = BITEXTRACT value 1 0"
definition UDMA_I2S_I2S_RX_CFG_CONTINOUS_SET :: "u32 \<Rightarrow> u32 \<Rightarrow> u32" where "UDMA_I2S_I2S_RX_CFG_CONTINOUS_SET value field = BITINSERT value field 1 0"
definition UDMA_I2S_I2S_RX_CFG_CONTINOUS :: "u32 \<Rightarrow> u32" where "UDMA_I2S_I2S_RX_CFG_CONTINOUS val = push_bit 0 val"
definition UDMA_I2S_I2S_RX_CFG_DATASIZE_GET :: "u32 \<Rightarrow> u32" where "UDMA_I2S_I2S_RX_CFG_DATASIZE_GET value = BITEXTRACTU value 2 1"
definition UDMA_I2S_I2S_RX_CFG_DATASIZE_GETS :: "u32 \<Rightarrow> u32" where "UDMA_I2S_I2S_RX_CFG_DATASIZE_GETS value = BITEXTRACT value 2 1"
definition UDMA_I2S_I2S_RX_CFG_DATASIZE_SET :: "u32 \<Rightarrow> u32 \<Rightarrow> u32" where "UDMA_I2S_I2S_RX_CFG_DATASIZE_SET value field = BITINSERT value field 2 1"
definition UDMA_I2S_I2S_RX_CFG_DATASIZE :: "u32 \<Rightarrow> u32" where "UDMA_I2S_I2S_RX_CFG_DATASIZE val = push_bit 1 val"
definition UDMA_I2S_I2S_RX_CFG_EN_GET :: "u32 \<Rightarrow> u32" where "UDMA_I2S_I2S_RX_CFG_EN_GET value = BITEXTRACTU value 1 4"
definition UDMA_I2S_I2S_RX_CFG_EN_GETS :: "u32 \<Rightarrow> u32" where "UDMA_I2S_I2S_RX_CFG_EN_GETS value = BITEXTRACT value 1 4"
definition UDMA_I2S_I2S_RX_CFG_EN_SET :: "u32 \<Rightarrow> u32 \<Rightarrow> u32" where "UDMA_I2S_I2S_RX_CFG_EN_SET value field = BITINSERT value field 1 4"
definition UDMA_I2S_I2S_RX_CFG_EN :: "u32 \<Rightarrow> u32" where "UDMA_I2S_I2S_RX_CFG_EN val = push_bit 4 val"
definition UDMA_I2S_I2S_RX_CFG_CLR_GET :: "u32 \<Rightarrow> u32" where "UDMA_I2S_I2S_RX_CFG_CLR_GET value = BITEXTRACTU value 1 5"
definition UDMA_I2S_I2S_RX_CFG_CLR_GETS :: "u32 \<Rightarrow> u32" where "UDMA_I2S_I2S_RX_CFG_CLR_GETS value = BITEXTRACT value 1 5"
definition UDMA_I2S_I2S_RX_CFG_CLR_SET :: "u32 \<Rightarrow> u32 \<Rightarrow> u32" where "UDMA_I2S_I2S_RX_CFG_CLR_SET value field = BITINSERT value field 1 5"
definition UDMA_I2S_I2S_RX_CFG_CLR :: "u32 \<Rightarrow> u32" where "UDMA_I2S_I2S_RX_CFG_CLR val = push_bit 5 val"
definition UDMA_I2S_I2S_RX_CFG_PENDING_GET :: "u32 \<Rightarrow> u32" where "UDMA_I2S_I2S_RX_CFG_PENDING_GET value = BITEXTRACTU value 1 5"
definition UDMA_I2S_I2S_RX_CFG_PENDING_GETS :: "u32 \<Rightarrow> u32" where "UDMA_I2S_I2S_RX_CFG_PENDING_GETS value = BITEXTRACT value 1 5"
definition UDMA_I2S_I2S_RX_CFG_PENDING_SET :: "u32 \<Rightarrow> u32 \<Rightarrow> u32" where "UDMA_I2S_I2S_RX_CFG_PENDING_SET value field = BITINSERT value field 1 5"
definition UDMA_I2S_I2S_RX_CFG_PENDING :: "u32 \<Rightarrow> u32" where "UDMA_I2S_I2S_RX_CFG_PENDING val = push_bit 5 val"
definition UDMA_I2S_I2S_TX_SADDR_TX_SADDR_GET :: "u32 \<Rightarrow> u32" where "UDMA_I2S_I2S_TX_SADDR_TX_SADDR_GET value = BITEXTRACTU value 16 0"
definition UDMA_I2S_I2S_TX_SADDR_TX_SADDR_GETS :: "u32 \<Rightarrow> u32" where "UDMA_I2S_I2S_TX_SADDR_TX_SADDR_GETS value = BITEXTRACT value 16 0"
definition UDMA_I2S_I2S_TX_SADDR_TX_SADDR_SET :: "u32 \<Rightarrow> u32 \<Rightarrow> u32" where "UDMA_I2S_I2S_TX_SADDR_TX_SADDR_SET value field = BITINSERT value field 16 0"
definition UDMA_I2S_I2S_TX_SADDR_TX_SADDR :: "u32 \<Rightarrow> u32" where "UDMA_I2S_I2S_TX_SADDR_TX_SADDR val = push_bit 0 val"
definition UDMA_I2S_I2S_TX_SIZE_TX_SIZE_GET :: "u32 \<Rightarrow> u32" where "UDMA_I2S_I2S_TX_SIZE_TX_SIZE_GET value = BITEXTRACTU value 17 0"
definition UDMA_I2S_I2S_TX_SIZE_TX_SIZE_GETS :: "u32 \<Rightarrow> u32" where "UDMA_I2S_I2S_TX_SIZE_TX_SIZE_GETS value = BITEXTRACT value 17 0"
definition UDMA_I2S_I2S_TX_SIZE_TX_SIZE_SET :: "u32 \<Rightarrow> u32 \<Rightarrow> u32" where "UDMA_I2S_I2S_TX_SIZE_TX_SIZE_SET value field = BITINSERT value field 17 0"
definition UDMA_I2S_I2S_TX_SIZE_TX_SIZE :: "u32 \<Rightarrow> u32" where "UDMA_I2S_I2S_TX_SIZE_TX_SIZE val = push_bit 0 val"
definition UDMA_I2S_I2S_TX_CFG_CONTINOUS_GET :: "u32 \<Rightarrow> u32" where "UDMA_I2S_I2S_TX_CFG_CONTINOUS_GET value = BITEXTRACTU value 1 0"
definition UDMA_I2S_I2S_TX_CFG_CONTINOUS_GETS :: "u32 \<Rightarrow> u32" where "UDMA_I2S_I2S_TX_CFG_CONTINOUS_GETS value = BITEXTRACT value 1 0"
definition UDMA_I2S_I2S_TX_CFG_CONTINOUS_SET :: "u32 \<Rightarrow> u32 \<Rightarrow> u32" where "UDMA_I2S_I2S_TX_CFG_CONTINOUS_SET value field = BITINSERT value field 1 0"
definition UDMA_I2S_I2S_TX_CFG_CONTINOUS :: "u32 \<Rightarrow> u32" where "UDMA_I2S_I2S_TX_CFG_CONTINOUS val = push_bit 0 val"
definition UDMA_I2S_I2S_TX_CFG_DATASIZE_GET :: "u32 \<Rightarrow> u32" where "UDMA_I2S_I2S_TX_CFG_DATASIZE_GET value = BITEXTRACTU value 2 1"
definition UDMA_I2S_I2S_TX_CFG_DATASIZE_GETS :: "u32 \<Rightarrow> u32" where "UDMA_I2S_I2S_TX_CFG_DATASIZE_GETS value = BITEXTRACT value 2 1"
definition UDMA_I2S_I2S_TX_CFG_DATASIZE_SET :: "u32 \<Rightarrow> u32 \<Rightarrow> u32" where "UDMA_I2S_I2S_TX_CFG_DATASIZE_SET value field = BITINSERT value field 2 1"
definition UDMA_I2S_I2S_TX_CFG_DATASIZE :: "u32 \<Rightarrow> u32" where "UDMA_I2S_I2S_TX_CFG_DATASIZE val = push_bit 1 val"
definition UDMA_I2S_I2S_TX_CFG_EN_GET :: "u32 \<Rightarrow> u32" where "UDMA_I2S_I2S_TX_CFG_EN_GET value = BITEXTRACTU value 1 4"
definition UDMA_I2S_I2S_TX_CFG_EN_GETS :: "u32 \<Rightarrow> u32" where "UDMA_I2S_I2S_TX_CFG_EN_GETS value = BITEXTRACT value 1 4"
definition UDMA_I2S_I2S_TX_CFG_EN_SET :: "u32 \<Rightarrow> u32 \<Rightarrow> u32" where "UDMA_I2S_I2S_TX_CFG_EN_SET value field = BITINSERT value field 1 4"
definition UDMA_I2S_I2S_TX_CFG_EN :: "u32 \<Rightarrow> u32" where "UDMA_I2S_I2S_TX_CFG_EN val = push_bit 4 val"
definition UDMA_I2S_I2S_TX_CFG_CLR_GET :: "u32 \<Rightarrow> u32" where "UDMA_I2S_I2S_TX_CFG_CLR_GET value = BITEXTRACTU value 1 5"
definition UDMA_I2S_I2S_TX_CFG_CLR_GETS :: "u32 \<Rightarrow> u32" where "UDMA_I2S_I2S_TX_CFG_CLR_GETS value = BITEXTRACT value 1 5"
definition UDMA_I2S_I2S_TX_CFG_CLR_SET :: "u32 \<Rightarrow> u32 \<Rightarrow> u32" where "UDMA_I2S_I2S_TX_CFG_CLR_SET value field = BITINSERT value field 1 5"
definition UDMA_I2S_I2S_TX_CFG_CLR :: "u32 \<Rightarrow> u32" where "UDMA_I2S_I2S_TX_CFG_CLR val = push_bit 5 val"
definition UDMA_I2S_I2S_TX_CFG_PENDING_GET :: "u32 \<Rightarrow> u32" where "UDMA_I2S_I2S_TX_CFG_PENDING_GET value = BITEXTRACTU value 1 5"
definition UDMA_I2S_I2S_TX_CFG_PENDING_GETS :: "u32 \<Rightarrow> u32" where "UDMA_I2S_I2S_TX_CFG_PENDING_GETS value = BITEXTRACT value 1 5"
definition UDMA_I2S_I2S_TX_CFG_PENDING_SET :: "u32 \<Rightarrow> u32 \<Rightarrow> u32" where "UDMA_I2S_I2S_TX_CFG_PENDING_SET value field = BITINSERT value field 1 5"
definition UDMA_I2S_I2S_TX_CFG_PENDING :: "u32 \<Rightarrow> u32" where "UDMA_I2S_I2S_TX_CFG_PENDING val = push_bit 5 val"
definition UDMA_I2S_I2S_CLKCFG_SETUP_MASTER_CLK_DIV_GET :: "u32 \<Rightarrow> u32" where "UDMA_I2S_I2S_CLKCFG_SETUP_MASTER_CLK_DIV_GET value = BITEXTRACTU value 8 0"
definition UDMA_I2S_I2S_CLKCFG_SETUP_MASTER_CLK_DIV_GETS :: "u32 \<Rightarrow> u32" where "UDMA_I2S_I2S_CLKCFG_SETUP_MASTER_CLK_DIV_GETS value = BITEXTRACT value 8 0"
definition UDMA_I2S_I2S_CLKCFG_SETUP_MASTER_CLK_DIV_SET :: "u32 \<Rightarrow> u32 \<Rightarrow> u32" where "UDMA_I2S_I2S_CLKCFG_SETUP_MASTER_CLK_DIV_SET value field = BITINSERT value field 8 0"
definition UDMA_I2S_I2S_CLKCFG_SETUP_MASTER_CLK_DIV :: "u32 \<Rightarrow> u32" where "UDMA_I2S_I2S_CLKCFG_SETUP_MASTER_CLK_DIV val = push_bit 0 val"
definition UDMA_I2S_I2S_CLKCFG_SETUP_SLAVE_CLK_DIV_GET :: "u32 \<Rightarrow> u32" where "UDMA_I2S_I2S_CLKCFG_SETUP_SLAVE_CLK_DIV_GET value = BITEXTRACTU value 8 8"
definition UDMA_I2S_I2S_CLKCFG_SETUP_SLAVE_CLK_DIV_GETS :: "u32 \<Rightarrow> u32" where "UDMA_I2S_I2S_CLKCFG_SETUP_SLAVE_CLK_DIV_GETS value = BITEXTRACT value 8 8"
definition UDMA_I2S_I2S_CLKCFG_SETUP_SLAVE_CLK_DIV_SET :: "u32 \<Rightarrow> u32 \<Rightarrow> u32" where "UDMA_I2S_I2S_CLKCFG_SETUP_SLAVE_CLK_DIV_SET value field = BITINSERT value field 8 8"
definition UDMA_I2S_I2S_CLKCFG_SETUP_SLAVE_CLK_DIV :: "u32 \<Rightarrow> u32" where "UDMA_I2S_I2S_CLKCFG_SETUP_SLAVE_CLK_DIV val = push_bit 8 val"
definition UDMA_I2S_I2S_CLKCFG_SETUP_COMMON_CLK_DIV_GET :: "u32 \<Rightarrow> u32" where "UDMA_I2S_I2S_CLKCFG_SETUP_COMMON_CLK_DIV_GET value = BITEXTRACTU value 8 16"
definition UDMA_I2S_I2S_CLKCFG_SETUP_COMMON_CLK_DIV_GETS :: "u32 \<Rightarrow> u32" where "UDMA_I2S_I2S_CLKCFG_SETUP_COMMON_CLK_DIV_GETS value = BITEXTRACT value 8 16"
definition UDMA_I2S_I2S_CLKCFG_SETUP_COMMON_CLK_DIV_SET :: "u32 \<Rightarrow> u32 \<Rightarrow> u32" where "UDMA_I2S_I2S_CLKCFG_SETUP_COMMON_CLK_DIV_SET value field = BITINSERT value field 8 16"
definition UDMA_I2S_I2S_CLKCFG_SETUP_COMMON_CLK_DIV :: "u32 \<Rightarrow> u32" where "UDMA_I2S_I2S_CLKCFG_SETUP_COMMON_CLK_DIV val = push_bit 16 val"
definition UDMA_I2S_I2S_CLKCFG_SETUP_SLAVE_CLK_EN_GET :: "u32 \<Rightarrow> u32" where "UDMA_I2S_I2S_CLKCFG_SETUP_SLAVE_CLK_EN_GET value = BITEXTRACTU value 1 24"
definition UDMA_I2S_I2S_CLKCFG_SETUP_SLAVE_CLK_EN_GETS :: "u32 \<Rightarrow> u32" where "UDMA_I2S_I2S_CLKCFG_SETUP_SLAVE_CLK_EN_GETS value = BITEXTRACT value 1 24"
definition UDMA_I2S_I2S_CLKCFG_SETUP_SLAVE_CLK_EN_SET :: "u32 \<Rightarrow> u32 \<Rightarrow> u32" where "UDMA_I2S_I2S_CLKCFG_SETUP_SLAVE_CLK_EN_SET value field = BITINSERT value field 1 24"
definition UDMA_I2S_I2S_CLKCFG_SETUP_SLAVE_CLK_EN :: "u32 \<Rightarrow> u32" where "UDMA_I2S_I2S_CLKCFG_SETUP_SLAVE_CLK_EN val = push_bit 24 val"
definition UDMA_I2S_I2S_CLKCFG_SETUP_MASTER_CLK_EN_GET :: "u32 \<Rightarrow> u32" where "UDMA_I2S_I2S_CLKCFG_SETUP_MASTER_CLK_EN_GET value = BITEXTRACTU value 1 25"
definition UDMA_I2S_I2S_CLKCFG_SETUP_MASTER_CLK_EN_GETS :: "u32 \<Rightarrow> u32" where "UDMA_I2S_I2S_CLKCFG_SETUP_MASTER_CLK_EN_GETS value = BITEXTRACT value 1 25"
definition UDMA_I2S_I2S_CLKCFG_SETUP_MASTER_CLK_EN_SET :: "u32 \<Rightarrow> u32 \<Rightarrow> u32" where "UDMA_I2S_I2S_CLKCFG_SETUP_MASTER_CLK_EN_SET value field = BITINSERT value field 1 25"
definition UDMA_I2S_I2S_CLKCFG_SETUP_MASTER_CLK_EN :: "u32 \<Rightarrow> u32" where "UDMA_I2S_I2S_CLKCFG_SETUP_MASTER_CLK_EN val = push_bit 25 val"
definition UDMA_I2S_I2S_CLKCFG_SETUP_PDM_CLK_EN_GET :: "u32 \<Rightarrow> u32" where "UDMA_I2S_I2S_CLKCFG_SETUP_PDM_CLK_EN_GET value = BITEXTRACTU value 1 26"
definition UDMA_I2S_I2S_CLKCFG_SETUP_PDM_CLK_EN_GETS :: "u32 \<Rightarrow> u32" where "UDMA_I2S_I2S_CLKCFG_SETUP_PDM_CLK_EN_GETS value = BITEXTRACT value 1 26"
definition UDMA_I2S_I2S_CLKCFG_SETUP_PDM_CLK_EN_SET :: "u32 \<Rightarrow> u32 \<Rightarrow> u32" where "UDMA_I2S_I2S_CLKCFG_SETUP_PDM_CLK_EN_SET value field = BITINSERT value field 1 26"
definition UDMA_I2S_I2S_CLKCFG_SETUP_PDM_CLK_EN :: "u32 \<Rightarrow> u32" where "UDMA_I2S_I2S_CLKCFG_SETUP_PDM_CLK_EN val = push_bit 26 val"
definition UDMA_I2S_I2S_CLKCFG_SETUP_SLAVE_EXT_GET :: "u32 \<Rightarrow> u32" where "UDMA_I2S_I2S_CLKCFG_SETUP_SLAVE_EXT_GET value = BITEXTRACTU value 1 28"
definition UDMA_I2S_I2S_CLKCFG_SETUP_SLAVE_EXT_GETS :: "u32 \<Rightarrow> u32" where "UDMA_I2S_I2S_CLKCFG_SETUP_SLAVE_EXT_GETS value = BITEXTRACT value 1 28"
definition UDMA_I2S_I2S_CLKCFG_SETUP_SLAVE_EXT_SET :: "u32 \<Rightarrow> u32 \<Rightarrow> u32" where "UDMA_I2S_I2S_CLKCFG_SETUP_SLAVE_EXT_SET value field = BITINSERT value field 1 28"
definition UDMA_I2S_I2S_CLKCFG_SETUP_SLAVE_EXT :: "u32 \<Rightarrow> u32" where "UDMA_I2S_I2S_CLKCFG_SETUP_SLAVE_EXT val = push_bit 28 val"
definition UDMA_I2S_I2S_CLKCFG_SETUP_SLAVE_NUM_GET :: "u32 \<Rightarrow> u32" where "UDMA_I2S_I2S_CLKCFG_SETUP_SLAVE_NUM_GET value = BITEXTRACTU value 1 29"
definition UDMA_I2S_I2S_CLKCFG_SETUP_SLAVE_NUM_GETS :: "u32 \<Rightarrow> u32" where "UDMA_I2S_I2S_CLKCFG_SETUP_SLAVE_NUM_GETS value = BITEXTRACT value 1 29"
definition UDMA_I2S_I2S_CLKCFG_SETUP_SLAVE_NUM_SET :: "u32 \<Rightarrow> u32 \<Rightarrow> u32" where "UDMA_I2S_I2S_CLKCFG_SETUP_SLAVE_NUM_SET value field = BITINSERT value field 1 29"
definition UDMA_I2S_I2S_CLKCFG_SETUP_SLAVE_NUM :: "u32 \<Rightarrow> u32" where "UDMA_I2S_I2S_CLKCFG_SETUP_SLAVE_NUM val = push_bit 29 val"
definition UDMA_I2S_I2S_CLKCFG_SETUP_MASTER_EXT_GET :: "u32 \<Rightarrow> u32" where "UDMA_I2S_I2S_CLKCFG_SETUP_MASTER_EXT_GET value = BITEXTRACTU value 1 30"
definition UDMA_I2S_I2S_CLKCFG_SETUP_MASTER_EXT_GETS :: "u32 \<Rightarrow> u32" where "UDMA_I2S_I2S_CLKCFG_SETUP_MASTER_EXT_GETS value = BITEXTRACT value 1 30"
definition UDMA_I2S_I2S_CLKCFG_SETUP_MASTER_EXT_SET :: "u32 \<Rightarrow> u32 \<Rightarrow> u32" where "UDMA_I2S_I2S_CLKCFG_SETUP_MASTER_EXT_SET value field = BITINSERT value field 1 30"
definition UDMA_I2S_I2S_CLKCFG_SETUP_MASTER_EXT :: "u32 \<Rightarrow> u32" where "UDMA_I2S_I2S_CLKCFG_SETUP_MASTER_EXT val = push_bit 30 val"
definition UDMA_I2S_I2S_CLKCFG_SETUP_MASTER_NUM_GET :: "u32 \<Rightarrow> u32" where "UDMA_I2S_I2S_CLKCFG_SETUP_MASTER_NUM_GET value = BITEXTRACTU value 1 31"
definition UDMA_I2S_I2S_CLKCFG_SETUP_MASTER_NUM_GETS :: "u32 \<Rightarrow> u32" where "UDMA_I2S_I2S_CLKCFG_SETUP_MASTER_NUM_GETS value = BITEXTRACT value 1 31"
definition UDMA_I2S_I2S_CLKCFG_SETUP_MASTER_NUM_SET :: "u32 \<Rightarrow> u32 \<Rightarrow> u32" where "UDMA_I2S_I2S_CLKCFG_SETUP_MASTER_NUM_SET value field = BITINSERT value field 1 31"
definition UDMA_I2S_I2S_CLKCFG_SETUP_MASTER_NUM :: "u32 \<Rightarrow> u32" where "UDMA_I2S_I2S_CLKCFG_SETUP_MASTER_NUM val = push_bit 31 val"
definition UDMA_I2S_I2S_SLV_SETUP_SLAVE_WORDS_GET :: "u32 \<Rightarrow> u32" where "UDMA_I2S_I2S_SLV_SETUP_SLAVE_WORDS_GET value = BITEXTRACTU value 3 0"
definition UDMA_I2S_I2S_SLV_SETUP_SLAVE_WORDS_GETS :: "u32 \<Rightarrow> u32" where "UDMA_I2S_I2S_SLV_SETUP_SLAVE_WORDS_GETS value = BITEXTRACT value 3 0"
definition UDMA_I2S_I2S_SLV_SETUP_SLAVE_WORDS_SET :: "u32 \<Rightarrow> u32 \<Rightarrow> u32" where "UDMA_I2S_I2S_SLV_SETUP_SLAVE_WORDS_SET value field = BITINSERT value field 3 0"
definition UDMA_I2S_I2S_SLV_SETUP_SLAVE_WORDS :: "u32 \<Rightarrow> u32" where "UDMA_I2S_I2S_SLV_SETUP_SLAVE_WORDS val = push_bit 0 val"
definition UDMA_I2S_I2S_SLV_SETUP_SLAVE_BITS_GET :: "u32 \<Rightarrow> u32" where "UDMA_I2S_I2S_SLV_SETUP_SLAVE_BITS_GET value = BITEXTRACTU value 5 8"
definition UDMA_I2S_I2S_SLV_SETUP_SLAVE_BITS_GETS :: "u32 \<Rightarrow> u32" where "UDMA_I2S_I2S_SLV_SETUP_SLAVE_BITS_GETS value = BITEXTRACT value 5 8"
definition UDMA_I2S_I2S_SLV_SETUP_SLAVE_BITS_SET :: "u32 \<Rightarrow> u32 \<Rightarrow> u32" where "UDMA_I2S_I2S_SLV_SETUP_SLAVE_BITS_SET value field = BITINSERT value field 5 8"
definition UDMA_I2S_I2S_SLV_SETUP_SLAVE_BITS :: "u32 \<Rightarrow> u32" where "UDMA_I2S_I2S_SLV_SETUP_SLAVE_BITS val = push_bit 8 val"
definition UDMA_I2S_I2S_SLV_SETUP_SLAVE_LSB_GET :: "u32 \<Rightarrow> u32" where "UDMA_I2S_I2S_SLV_SETUP_SLAVE_LSB_GET value = BITEXTRACTU value 1 16"
definition UDMA_I2S_I2S_SLV_SETUP_SLAVE_LSB_GETS :: "u32 \<Rightarrow> u32" where "UDMA_I2S_I2S_SLV_SETUP_SLAVE_LSB_GETS value = BITEXTRACT value 1 16"
definition UDMA_I2S_I2S_SLV_SETUP_SLAVE_LSB_SET :: "u32 \<Rightarrow> u32 \<Rightarrow> u32" where "UDMA_I2S_I2S_SLV_SETUP_SLAVE_LSB_SET value field = BITINSERT value field 1 16"
definition UDMA_I2S_I2S_SLV_SETUP_SLAVE_LSB :: "u32 \<Rightarrow> u32" where "UDMA_I2S_I2S_SLV_SETUP_SLAVE_LSB val = push_bit 16 val"
definition UDMA_I2S_I2S_SLV_SETUP_SLAVE_2CH_GET :: "u32 \<Rightarrow> u32" where "UDMA_I2S_I2S_SLV_SETUP_SLAVE_2CH_GET value = BITEXTRACTU value 1 17"
definition UDMA_I2S_I2S_SLV_SETUP_SLAVE_2CH_GETS :: "u32 \<Rightarrow> u32" where "UDMA_I2S_I2S_SLV_SETUP_SLAVE_2CH_GETS value = BITEXTRACT value 1 17"
definition UDMA_I2S_I2S_SLV_SETUP_SLAVE_2CH_SET :: "u32 \<Rightarrow> u32 \<Rightarrow> u32" where "UDMA_I2S_I2S_SLV_SETUP_SLAVE_2CH_SET value field = BITINSERT value field 1 17"
definition UDMA_I2S_I2S_SLV_SETUP_SLAVE_2CH :: "u32 \<Rightarrow> u32" where "UDMA_I2S_I2S_SLV_SETUP_SLAVE_2CH val = push_bit 17 val"
definition UDMA_I2S_I2S_SLV_SETUP_SLAVE_EN_GET :: "u32 \<Rightarrow> u32" where "UDMA_I2S_I2S_SLV_SETUP_SLAVE_EN_GET value = BITEXTRACTU value 1 31"
definition UDMA_I2S_I2S_SLV_SETUP_SLAVE_EN_GETS :: "u32 \<Rightarrow> u32" where "UDMA_I2S_I2S_SLV_SETUP_SLAVE_EN_GETS value = BITEXTRACT value 1 31"
definition UDMA_I2S_I2S_SLV_SETUP_SLAVE_EN_SET :: "u32 \<Rightarrow> u32 \<Rightarrow> u32" where "UDMA_I2S_I2S_SLV_SETUP_SLAVE_EN_SET value field = BITINSERT value field 1 31"
definition UDMA_I2S_I2S_SLV_SETUP_SLAVE_EN :: "u32 \<Rightarrow> u32" where "UDMA_I2S_I2S_SLV_SETUP_SLAVE_EN val = push_bit 31 val"
definition UDMA_I2S_I2S_MST_SETUP_MASTER_WORDS_GET :: "u32 \<Rightarrow> u32" where "UDMA_I2S_I2S_MST_SETUP_MASTER_WORDS_GET value = BITEXTRACTU value 3 0"
definition UDMA_I2S_I2S_MST_SETUP_MASTER_WORDS_GETS :: "u32 \<Rightarrow> u32" where "UDMA_I2S_I2S_MST_SETUP_MASTER_WORDS_GETS value = BITEXTRACT value 3 0"
definition UDMA_I2S_I2S_MST_SETUP_MASTER_WORDS_SET :: "u32 \<Rightarrow> u32 \<Rightarrow> u32" where "UDMA_I2S_I2S_MST_SETUP_MASTER_WORDS_SET value field = BITINSERT value field 3 0"
definition UDMA_I2S_I2S_MST_SETUP_MASTER_WORDS :: "u32 \<Rightarrow> u32" where "UDMA_I2S_I2S_MST_SETUP_MASTER_WORDS val = push_bit 0 val"
definition UDMA_I2S_I2S_MST_SETUP_MASTER_BITS_GET :: "u32 \<Rightarrow> u32" where "UDMA_I2S_I2S_MST_SETUP_MASTER_BITS_GET value = BITEXTRACTU value 5 8"
definition UDMA_I2S_I2S_MST_SETUP_MASTER_BITS_GETS :: "u32 \<Rightarrow> u32" where "UDMA_I2S_I2S_MST_SETUP_MASTER_BITS_GETS value = BITEXTRACT value 5 8"
definition UDMA_I2S_I2S_MST_SETUP_MASTER_BITS_SET :: "u32 \<Rightarrow> u32 \<Rightarrow> u32" where "UDMA_I2S_I2S_MST_SETUP_MASTER_BITS_SET value field = BITINSERT value field 5 8"
definition UDMA_I2S_I2S_MST_SETUP_MASTER_BITS :: "u32 \<Rightarrow> u32" where "UDMA_I2S_I2S_MST_SETUP_MASTER_BITS val = push_bit 8 val"
definition UDMA_I2S_I2S_MST_SETUP_MASTER_LSB_GET :: "u32 \<Rightarrow> u32" where "UDMA_I2S_I2S_MST_SETUP_MASTER_LSB_GET value = BITEXTRACTU value 1 16"
definition UDMA_I2S_I2S_MST_SETUP_MASTER_LSB_GETS :: "u32 \<Rightarrow> u32" where "UDMA_I2S_I2S_MST_SETUP_MASTER_LSB_GETS value = BITEXTRACT value 1 16"
definition UDMA_I2S_I2S_MST_SETUP_MASTER_LSB_SET :: "u32 \<Rightarrow> u32 \<Rightarrow> u32" where "UDMA_I2S_I2S_MST_SETUP_MASTER_LSB_SET value field = BITINSERT value field 1 16"
definition UDMA_I2S_I2S_MST_SETUP_MASTER_LSB :: "u32 \<Rightarrow> u32" where "UDMA_I2S_I2S_MST_SETUP_MASTER_LSB val = push_bit 16 val"
definition UDMA_I2S_I2S_MST_SETUP_MASTER_2CH_GET :: "u32 \<Rightarrow> u32" where "UDMA_I2S_I2S_MST_SETUP_MASTER_2CH_GET value = BITEXTRACTU value 1 17"
definition UDMA_I2S_I2S_MST_SETUP_MASTER_2CH_GETS :: "u32 \<Rightarrow> u32" where "UDMA_I2S_I2S_MST_SETUP_MASTER_2CH_GETS value = BITEXTRACT value 1 17"
definition UDMA_I2S_I2S_MST_SETUP_MASTER_2CH_SET :: "u32 \<Rightarrow> u32 \<Rightarrow> u32" where "UDMA_I2S_I2S_MST_SETUP_MASTER_2CH_SET value field = BITINSERT value field 1 17"
definition UDMA_I2S_I2S_MST_SETUP_MASTER_2CH :: "u32 \<Rightarrow> u32" where "UDMA_I2S_I2S_MST_SETUP_MASTER_2CH val = push_bit 17 val"
definition UDMA_I2S_I2S_MST_SETUP_MASTER_EN_GET :: "u32 \<Rightarrow> u32" where "UDMA_I2S_I2S_MST_SETUP_MASTER_EN_GET value = BITEXTRACTU value 1 31"
definition UDMA_I2S_I2S_MST_SETUP_MASTER_EN_GETS :: "u32 \<Rightarrow> u32" where "UDMA_I2S_I2S_MST_SETUP_MASTER_EN_GETS value = BITEXTRACT value 1 31"
definition UDMA_I2S_I2S_MST_SETUP_MASTER_EN_SET :: "u32 \<Rightarrow> u32 \<Rightarrow> u32" where "UDMA_I2S_I2S_MST_SETUP_MASTER_EN_SET value field = BITINSERT value field 1 31"
definition UDMA_I2S_I2S_MST_SETUP_MASTER_EN :: "u32 \<Rightarrow> u32" where "UDMA_I2S_I2S_MST_SETUP_MASTER_EN val = push_bit 31 val"
definition UDMA_I2S_I2S_PDM_SETUP_PDM_SHIFT_GET :: "u32 \<Rightarrow> u32" where "UDMA_I2S_I2S_PDM_SETUP_PDM_SHIFT_GET value = BITEXTRACTU value 3 0"
definition UDMA_I2S_I2S_PDM_SETUP_PDM_SHIFT_GETS :: "u32 \<Rightarrow> u32" where "UDMA_I2S_I2S_PDM_SETUP_PDM_SHIFT_GETS value = BITEXTRACT value 3 0"
definition UDMA_I2S_I2S_PDM_SETUP_PDM_SHIFT_SET :: "u32 \<Rightarrow> u32 \<Rightarrow> u32" where "UDMA_I2S_I2S_PDM_SETUP_PDM_SHIFT_SET value field = BITINSERT value field 3 0"
definition UDMA_I2S_I2S_PDM_SETUP_PDM_SHIFT :: "u32 \<Rightarrow> u32" where "UDMA_I2S_I2S_PDM_SETUP_PDM_SHIFT val = push_bit 0 val"
definition UDMA_I2S_I2S_PDM_SETUP_PDM_DECIMATION_GET :: "u32 \<Rightarrow> u32" where "UDMA_I2S_I2S_PDM_SETUP_PDM_DECIMATION_GET value = BITEXTRACTU value 10 3"
definition UDMA_I2S_I2S_PDM_SETUP_PDM_DECIMATION_GETS :: "u32 \<Rightarrow> u32" where "UDMA_I2S_I2S_PDM_SETUP_PDM_DECIMATION_GETS value = BITEXTRACT value 10 3"
definition UDMA_I2S_I2S_PDM_SETUP_PDM_DECIMATION_SET :: "u32 \<Rightarrow> u32 \<Rightarrow> u32" where "UDMA_I2S_I2S_PDM_SETUP_PDM_DECIMATION_SET value field = BITINSERT value field 10 3"
definition UDMA_I2S_I2S_PDM_SETUP_PDM_DECIMATION :: "u32 \<Rightarrow> u32" where "UDMA_I2S_I2S_PDM_SETUP_PDM_DECIMATION val = push_bit 3 val"
definition UDMA_I2S_I2S_PDM_SETUP_PDM_MODE_GET :: "u32 \<Rightarrow> u32" where "UDMA_I2S_I2S_PDM_SETUP_PDM_MODE_GET value = BITEXTRACTU value 2 13"
definition UDMA_I2S_I2S_PDM_SETUP_PDM_MODE_GETS :: "u32 \<Rightarrow> u32" where "UDMA_I2S_I2S_PDM_SETUP_PDM_MODE_GETS value = BITEXTRACT value 2 13"
definition UDMA_I2S_I2S_PDM_SETUP_PDM_MODE_SET :: "u32 \<Rightarrow> u32 \<Rightarrow> u32" where "UDMA_I2S_I2S_PDM_SETUP_PDM_MODE_SET value field = BITINSERT value field 2 13"
definition UDMA_I2S_I2S_PDM_SETUP_PDM_MODE :: "u32 \<Rightarrow> u32" where "UDMA_I2S_I2S_PDM_SETUP_PDM_MODE val = push_bit 13 val"
definition UDMA_I2S_I2S_PDM_SETUP_PDM_EN_GET :: "u32 \<Rightarrow> u32" where "UDMA_I2S_I2S_PDM_SETUP_PDM_EN_GET value = BITEXTRACTU value 1 31"
definition UDMA_I2S_I2S_PDM_SETUP_PDM_EN_GETS :: "u32 \<Rightarrow> u32" where "UDMA_I2S_I2S_PDM_SETUP_PDM_EN_GETS value = BITEXTRACT value 1 31"
definition UDMA_I2S_I2S_PDM_SETUP_PDM_EN_SET :: "u32 \<Rightarrow> u32 \<Rightarrow> u32" where "UDMA_I2S_I2S_PDM_SETUP_PDM_EN_SET value field = BITINSERT value field 1 31"
definition UDMA_I2S_I2S_PDM_SETUP_PDM_EN :: "u32 \<Rightarrow> u32" where "UDMA_I2S_I2S_PDM_SETUP_PDM_EN val = push_bit 31 val"

lemmas i2s_gets = UDMA_I2S_I2S_RX_SADDR_RX_SADDR_GET_def UDMA_I2S_I2S_RX_SIZE_RX_SIZE_GET_def
  UDMA_I2S_I2S_RX_CFG_CONTINOUS_GET_def UDMA_I2S_I2S_RX_CFG_DATASIZE_GET_def UDMA_I2S_I2S_RX_CFG_EN_GET_def
  UDMA_I2S_I2S_RX_CFG_CLR_GET_def UDMA_I2S_I2S_RX_CFG_PENDING_GET_def UDMA_I2S_I2S_TX_SADDR_TX_SADDR_GET_def
  UDMA_I2S_I2S_TX_SIZE_TX_SIZE_GET_def UDMA_I2S_I2S_TX_CFG_CONTINOUS_GET_def
  UDMA_I2S_I2S_TX_CFG_DATASIZE_GET_def UDMA_I2S_I2S_TX_CFG_EN_GET_def UDMA_I2S_I2S_TX_CFG_CLR_GET_def
  UDMA_I2S_I2S_TX_CFG_PENDING_GET_def UDMA_I2S_I2S_CLKCFG_SETUP_MASTER_CLK_DIV_GET_def
  UDMA_I2S_I2S_CLKCFG_SETUP_SLAVE_CLK_DIV_GET_def UDMA_I2S_I2S_CLKCFG_SETUP_COMMON_CLK_DIV_GET_def
  UDMA_I2S_I2S_CLKCFG_SETUP_SLAVE_CLK_EN_GET_def UDMA_I2S_I2S_CLKCFG_SETUP_MASTER_CLK_EN_GET_def
  UDMA_I2S_I2S_CLKCFG_SETUP_PDM_CLK_EN_GET_def UDMA_I2S_I2S_CLKCFG_SETUP_SLAVE_EXT_GET_def
  UDMA_I2S_I2S_CLKCFG_SETUP_SLAVE_NUM_GET_def UDMA_I2S_I2S_CLKCFG_SETUP_MASTER_EXT_GET_def
  UDMA_I2S_I2S_CLKCFG_SETUP_MASTER_NUM_GET_def UDMA_I2S_I2S_SLV_SETUP_SLAVE_WORDS_GET_def
  UDMA_I2S_I2S_SLV_SETUP_SLAVE_BITS_GET_def UDMA_I2S_I2S_SLV_SETUP_SLAVE_LSB_GET_def
  UDMA_I2S_I2S_SLV_SETUP_SLAVE_2CH_GET_def UDMA_I2S_I2S_SLV_SETUP_SLAVE_EN_GET_def
  UDMA_I2S_I2S_MST_SETUP_MASTER_WORDS_GET_def UDMA_I2S_I2S_MST_SETUP_MASTER_BITS_GET_def
  UDMA_I2S_I2S_MST_SETUP_MASTER_LSB_GET_def UDMA_I2S_I2S_MST_SETUP_MASTER_2CH_GET_def
  UDMA_I2S_I2S_MST_SETUP_MASTER_EN_GET_def UDMA_I2S_I2S_PDM_SETUP_PDM_SHIFT_GET_def
  UDMA_I2S_I2S_PDM_SETUP_PDM_DECIMATION_GET_def UDMA_I2S_I2S_PDM_SETUP_PDM_MODE_GET_def
  UDMA_I2S_I2S_PDM_SETUP_PDM_EN_GET_def

lemmas i2s_sets = UDMA_I2S_I2S_RX_SADDR_RX_SADDR_SET_def UDMA_I2S_I2S_RX_SIZE_RX_SIZE_SET_def
  UDMA_I2S_I2S_RX_CFG_CONTINOUS_SET_def UDMA_I2S_I2S_RX_CFG_DATASIZE_SET_def UDMA_I2S_I2S_RX_CFG_EN_SET_def
  UDMA_I2S_I2S_RX_CFG_CLR_SET_def UDMA_I2S_I2S_RX_CFG_PENDING_SET_def UDMA_I2S_I2S_TX_SADDR_TX_SADDR_SET_def
  UDMA_I2S_I2S_TX_SIZE_TX_SIZE_SET_def UDMA_I2S_I2S_TX_CFG_CONTINOUS_SET_def
  UDMA_I2S_I2S_TX_CFG_DATASIZE_SET_def UDMA_I2S_I2S_TX_CFG_EN_SET_def UDMA_I2S_I2S_TX_CFG_CLR_SET_def
  UDMA_I2S_I2S_TX_CFG_PENDING_SET_def UDMA_I2S_I2S_CLKCFG_SETUP_MASTER_CLK_DIV_SET_def
  UDMA_I2S_I2S_CLKCFG_SETUP_SLAVE_CLK_DIV_SET_def UDMA_I2S_I2S_CLKCFG_SETUP_COMMON_CLK_DIV_SET_def
  UDMA_I2S_I2S_CLKCFG_SETUP_SLAVE_CLK_EN_SET_def UDMA_I2S_I2S_CLKCFG_SETUP_MASTER_CLK_EN_SET_def
  UDMA_I2S_I2S_CLKCFG_SETUP_PDM_CLK_EN_SET_def UDMA_I2S_I2S_CLKCFG_SETUP_SLAVE_EXT_SET_def
  UDMA_I2S_I2S_CLKCFG_SETUP_SLAVE_NUM_SET_def UDMA_I2S_I2S_CLKCFG_SETUP_MASTER_EXT_SET_def
  UDMA_I2S_I2S_CLKCFG_SETUP_MASTER_NUM_SET_def UDMA_I2S_I2S_SLV_SETUP_SLAVE_WORDS_SET_def
  UDMA_I2S_I2S_SLV_SETUP_SLAVE_BITS_SET_def UDMA_I2S_I2S_SLV_SETUP_SLAVE_LSB_SET_def
  UDMA_I2S_I2S_SLV_SETUP_SLAVE_2CH_SET_def UDMA_I2S_I2S_SLV_SETUP_SLAVE_EN_SET_def
  UDMA_I2S_I2S_MST_SETUP_MASTER_WORDS_SET_def UDMA_I2S_I2S_MST_SETUP_MASTER_BITS_SET_def
  UDMA_I2S_I2S_MST_SETUP_MASTER_LSB_SET_def UDMA_I2S_I2S_MST_SETUP_MASTER_2CH_SET_def
  UDMA_I2S_I2S_MST_SETUP_MASTER_EN_SET_def UDMA_I2S_I2S_PDM_SETUP_PDM_SHIFT_SET_def
  UDMA_I2S_I2S_PDM_SETUP_PDM_DECIMATION_SET_def UDMA_I2S_I2S_PDM_SETUP_PDM_MODE_SET_def
  UDMA_I2S_I2S_PDM_SETUP_PDM_EN_SET_def

lemmas i2s_values = UDMA_I2S_I2S_RX_SADDR_RX_SADDR_def UDMA_I2S_I2S_RX_SIZE_RX_SIZE_def
  UDMA_I2S_I2S_RX_CFG_CONTINOUS_def UDMA_I2S_I2S_RX_CFG_DATASIZE_def UDMA_I2S_I2S_RX_CFG_EN_def
  UDMA_I2S_I2S_RX_CFG_CLR_def UDMA_I2S_I2S_RX_CFG_PENDING_def UDMA_I2S_I2S_TX_SADDR_TX_SADDR_def
  UDMA_I2S_I2S_TX_SIZE_TX_SIZE_def UDMA_I2S_I2S_TX_CFG_CONTINOUS_def UDMA_I2S_I2S_TX_CFG_DATASIZE_def
  UDMA_I2S_I2S_TX_CFG_EN_def UDMA_I2S_I2S_TX_CFG_CLR_def UDMA_I2S_I2S_TX_CFG_PENDING_def
  UDMA_I2S_I2S_CLKCFG_SETUP_MASTER_CLK_DIV_def UDMA_I2S_I2S_CLKCFG_SETUP_SLAVE_CLK_DIV_def
  UDMA_I2S_I2S_CLKCFG_SETUP_COMMON_CLK_DIV_def UDMA_I2S_I2S_CLKCFG_SETUP_SLAVE_CLK_EN_def
  UDMA_I2S_I2S_CLKCFG_SETUP_MASTER_CLK_EN_def UDMA_I2S_I2S_CLKCFG_SETUP_PDM_CLK_EN_def
  UDMA_I2S_I2S_CLKCFG_SETUP_SLAVE_EXT_def UDMA_I2S_I2S_CLKCFG_SETUP_SLAVE_NUM_def
  UDMA_I2S_I2S_CLKCFG_SETUP_MASTER_EXT_def UDMA_I2S_I2S_CLKCFG_SETUP_MASTER_NUM_def
  UDMA_I2S_I2S_SLV_SETUP_SLAVE_WORDS_def UDMA_I2S_I2S_SLV_SETUP_SLAVE_BITS_def
  UDMA_I2S_I2S_SLV_SETUP_SLAVE_LSB_def UDMA_I2S_I2S_SLV_SETUP_SLAVE_2CH_def
  UDMA_I2S_I2S_SLV_SETUP_SLAVE_EN_def UDMA_I2S_I2S_MST_SETUP_MASTER_WORDS_def
  UDMA_I2S_I2S_MST_SETUP_MASTER_BITS_def UDMA_I2S_I2S_MST_SETUP_MASTER_LSB_def
  UDMA_I2S_I2S_MST_SETUP_MASTER_2CH_def UDMA_I2S_I2S_MST_SETUP_MASTER_EN_def
  UDMA_I2S_I2S_PDM_SETUP_PDM_SHIFT_def UDMA_I2S_I2S_PDM_SETUP_PDM_DECIMATION_def
  UDMA_I2S_I2S_PDM_SETUP_PDM_MODE_def UDMA_I2S_I2S_PDM_SETUP_PDM_EN_def

definition udma_i2s_i2s_rx_saddr_get :: "'e pulp_bus \<Rightarrow> u32 \<Rightarrow> ('e, 'z) machine_scheme \<Rightarrow> u32 \<times> ('e, 'z) machine_scheme" where
  "udma_i2s_i2s_rx_saddr_get b base = ARCHI_READ b base UDMA_I2S_I2S_RX_SADDR_OFFSET"

definition udma_i2s_i2s_rx_saddr_set :: "'e pulp_bus \<Rightarrow> u32 \<Rightarrow> u32 \<Rightarrow> ('e, 'z) machine_scheme \<Rightarrow> ('e, 'z) machine_scheme" where
  "udma_i2s_i2s_rx_saddr_set b base value = ARCHI_WRITE b base UDMA_I2S_I2S_RX_SADDR_OFFSET value"

definition udma_i2s_i2s_rx_size_get :: "'e pulp_bus \<Rightarrow> u32 \<Rightarrow> ('e, 'z) machine_scheme \<Rightarrow> u32 \<times> ('e, 'z) machine_scheme" where
  "udma_i2s_i2s_rx_size_get b base = ARCHI_READ b base UDMA_I2S_I2S_RX_SIZE_OFFSET"

definition udma_i2s_i2s_rx_size_set :: "'e pulp_bus \<Rightarrow> u32 \<Rightarrow> u32 \<Rightarrow> ('e, 'z) machine_scheme \<Rightarrow> ('e, 'z) machine_scheme" where
  "udma_i2s_i2s_rx_size_set b base value = ARCHI_WRITE b base UDMA_I2S_I2S_RX_SIZE_OFFSET value"

definition udma_i2s_i2s_rx_cfg_get :: "'e pulp_bus \<Rightarrow> u32 \<Rightarrow> ('e, 'z) machine_scheme \<Rightarrow> u32 \<times> ('e, 'z) machine_scheme" where
  "udma_i2s_i2s_rx_cfg_get b base = ARCHI_READ b base UDMA_I2S_I2S_RX_CFG_OFFSET"

definition udma_i2s_i2s_rx_cfg_set :: "'e pulp_bus \<Rightarrow> u32 \<Rightarrow> u32 \<Rightarrow> ('e, 'z) machine_scheme \<Rightarrow> ('e, 'z) machine_scheme" where
  "udma_i2s_i2s_rx_cfg_set b base value = ARCHI_WRITE b base UDMA_I2S_I2S_RX_CFG_OFFSET value"

definition udma_i2s_i2s_rx_initcfg_get :: "'e pulp_bus \<Rightarrow> u32 \<Rightarrow> ('e, 'z) machine_scheme \<Rightarrow> u32 \<times> ('e, 'z) machine_scheme" where
  "udma_i2s_i2s_rx_initcfg_get b base = ARCHI_READ b base UDMA_I2S_I2S_RX_INITCFG_OFFSET"

definition udma_i2s_i2s_rx_initcfg_set :: "'e pulp_bus \<Rightarrow> u32 \<Rightarrow> u32 \<Rightarrow> ('e, 'z) machine_scheme \<Rightarrow> ('e, 'z) machine_scheme" where
  "udma_i2s_i2s_rx_initcfg_set b base value = ARCHI_WRITE b base UDMA_I2S_I2S_RX_INITCFG_OFFSET value"

definition udma_i2s_i2s_tx_saddr_get :: "'e pulp_bus \<Rightarrow> u32 \<Rightarrow> ('e, 'z) machine_scheme \<Rightarrow> u32 \<times> ('e, 'z) machine_scheme" where
  "udma_i2s_i2s_tx_saddr_get b base = ARCHI_READ b base UDMA_I2S_I2S_TX_SADDR_OFFSET"

definition udma_i2s_i2s_tx_saddr_set :: "'e pulp_bus \<Rightarrow> u32 \<Rightarrow> u32 \<Rightarrow> ('e, 'z) machine_scheme \<Rightarrow> ('e, 'z) machine_scheme" where
  "udma_i2s_i2s_tx_saddr_set b base value = ARCHI_WRITE b base UDMA_I2S_I2S_TX_SADDR_OFFSET value"

definition udma_i2s_i2s_tx_size_get :: "'e pulp_bus \<Rightarrow> u32 \<Rightarrow> ('e, 'z) machine_scheme \<Rightarrow> u32 \<times> ('e, 'z) machine_scheme" where
  "udma_i2s_i2s_tx_size_get b base = ARCHI_READ b base UDMA_I2S_I2S_TX_SIZE_OFFSET"

definition udma_i2s_i2s_tx_size_set :: "'e pulp_bus \<Rightarrow> u32 \<Rightarrow> u32 \<Rightarrow> ('e, 'z) machine_scheme \<Rightarrow> ('e, 'z) machine_scheme" where
  "udma_i2s_i2s_tx_size_set b base value = ARCHI_WRITE b base UDMA_I2S_I2S_TX_SIZE_OFFSET value"

definition udma_i2s_i2s_tx_cfg_get :: "'e pulp_bus \<Rightarrow> u32 \<Rightarrow> ('e, 'z) machine_scheme \<Rightarrow> u32 \<times> ('e, 'z) machine_scheme" where
  "udma_i2s_i2s_tx_cfg_get b base = ARCHI_READ b base UDMA_I2S_I2S_TX_CFG_OFFSET"

definition udma_i2s_i2s_tx_cfg_set :: "'e pulp_bus \<Rightarrow> u32 \<Rightarrow> u32 \<Rightarrow> ('e, 'z) machine_scheme \<Rightarrow> ('e, 'z) machine_scheme" where
  "udma_i2s_i2s_tx_cfg_set b base value = ARCHI_WRITE b base UDMA_I2S_I2S_TX_CFG_OFFSET value"

definition udma_i2s_i2s_tx_initcfg_get :: "'e pulp_bus \<Rightarrow> u32 \<Rightarrow> ('e, 'z) machine_scheme \<Rightarrow> u32 \<times> ('e, 'z) machine_scheme" where
  "udma_i2s_i2s_tx_initcfg_get b base = ARCHI_READ b base UDMA_I2S_I2S_TX_INITCFG_OFFSET"

definition udma_i2s_i2s_tx_initcfg_set :: "'e pulp_bus \<Rightarrow> u32 \<Rightarrow> u32 \<Rightarrow> ('e, 'z) machine_scheme \<Rightarrow> ('e, 'z) machine_scheme" where
  "udma_i2s_i2s_tx_initcfg_set b base value = ARCHI_WRITE b base UDMA_I2S_I2S_TX_INITCFG_OFFSET value"

definition udma_i2s_i2s_clkcfg_setup_get :: "'e pulp_bus \<Rightarrow> u32 \<Rightarrow> ('e, 'z) machine_scheme \<Rightarrow> u32 \<times> ('e, 'z) machine_scheme" where
  "udma_i2s_i2s_clkcfg_setup_get b base = ARCHI_READ b base UDMA_I2S_I2S_CLKCFG_SETUP_OFFSET"

definition udma_i2s_i2s_clkcfg_setup_set :: "'e pulp_bus \<Rightarrow> u32 \<Rightarrow> u32 \<Rightarrow> ('e, 'z) machine_scheme \<Rightarrow> ('e, 'z) machine_scheme" where
  "udma_i2s_i2s_clkcfg_setup_set b base value = ARCHI_WRITE b base UDMA_I2S_I2S_CLKCFG_SETUP_OFFSET value"

definition udma_i2s_i2s_slv_setup_get :: "'e pulp_bus \<Rightarrow> u32 \<Rightarrow> ('e, 'z) machine_scheme \<Rightarrow> u32 \<times> ('e, 'z) machine_scheme" where
  "udma_i2s_i2s_slv_setup_get b base = ARCHI_READ b base UDMA_I2S_I2S_SLV_SETUP_OFFSET"

definition udma_i2s_i2s_slv_setup_set :: "'e pulp_bus \<Rightarrow> u32 \<Rightarrow> u32 \<Rightarrow> ('e, 'z) machine_scheme \<Rightarrow> ('e, 'z) machine_scheme" where
  "udma_i2s_i2s_slv_setup_set b base value = ARCHI_WRITE b base UDMA_I2S_I2S_SLV_SETUP_OFFSET value"

definition udma_i2s_i2s_mst_setup_get :: "'e pulp_bus \<Rightarrow> u32 \<Rightarrow> ('e, 'z) machine_scheme \<Rightarrow> u32 \<times> ('e, 'z) machine_scheme" where
  "udma_i2s_i2s_mst_setup_get b base = ARCHI_READ b base UDMA_I2S_I2S_MST_SETUP_OFFSET"

definition udma_i2s_i2s_mst_setup_set :: "'e pulp_bus \<Rightarrow> u32 \<Rightarrow> u32 \<Rightarrow> ('e, 'z) machine_scheme \<Rightarrow> ('e, 'z) machine_scheme" where
  "udma_i2s_i2s_mst_setup_set b base value = ARCHI_WRITE b base UDMA_I2S_I2S_MST_SETUP_OFFSET value"

definition udma_i2s_i2s_pdm_setup_get :: "'e pulp_bus \<Rightarrow> u32 \<Rightarrow> ('e, 'z) machine_scheme \<Rightarrow> u32 \<times> ('e, 'z) machine_scheme" where
  "udma_i2s_i2s_pdm_setup_get b base = ARCHI_READ b base UDMA_I2S_I2S_PDM_SETUP_OFFSET"

definition udma_i2s_i2s_pdm_setup_set :: "'e pulp_bus \<Rightarrow> u32 \<Rightarrow> u32 \<Rightarrow> ('e, 'z) machine_scheme \<Rightarrow> ('e, 'z) machine_scheme" where
  "udma_i2s_i2s_pdm_setup_set b base value = ARCHI_WRITE b base UDMA_I2S_I2S_PDM_SETUP_OFFSET value"

end
