(* ===== verification/Event_Unit.thy ===== *)
theory Event_Unit
  imports Pulp_Soc
begin

text \<open>
  The event unit of the cluster: registers and areas of \<^verbatim>\<open>archi/eu/eu_v3.h\<close> and the routines of
  \<^verbatim>\<open>hal/eu/eu_v3.h\<close>, with which a core of the cluster sleeps until an event, meets the others at a
  barrier, takes a mutex or receives work. The chip these sources are built for has no cluster, so
  the addresses the chip headers would give are a parameter. A second part states what the comments
  of the header say of the hardware, as the interface \<open>event_unit\<close>, and derives from it what the
  waiting routines do.
\<close>

section \<open>Addresses\<close>

text \<open>
  What the headers of a chip with a cluster define; the memory map of PULPissimo fixes only where
  the cluster lies.
\<close>

record cluster_config =
  ARCHI_EU_DEMUX_ADDR :: u32
  ARCHI_EU_OFFSET :: u32
  SOC_EVENT_UNIT_ADDR :: u32
  PULP_CKGATE_OFFSET :: u32

definition ARCHI_CLUSTER_ADDR :: u32 where "ARCHI_CLUSTER_ADDR = 0x00000000"
definition ARCHI_CLUSTER_SIZE :: u32 where "ARCHI_CLUSTER_SIZE = 0x00400000"
definition ARCHI_CLUSTER_GLOBAL_ADDR :: "u32 \<Rightarrow> u32" where
  "ARCHI_CLUSTER_GLOBAL_ADDR cid = 0x10000000 + cid * ARCHI_CLUSTER_SIZE"
definition ARCHI_CLUSTER_PERIPHERALS_OFFSET :: u32 where "ARCHI_CLUSTER_PERIPHERALS_OFFSET = 0x00200000"
definition ARCHI_CLUSTER_PERIPHERALS_ADDR :: u32 where
  "ARCHI_CLUSTER_PERIPHERALS_ADDR = ARCHI_CLUSTER_ADDR + ARCHI_CLUSTER_PERIPHERALS_OFFSET"
definition ARCHI_CLUSTER_PERIPHERALS_GLOBAL_ADDR :: "u32 \<Rightarrow> u32" where
  "ARCHI_CLUSTER_PERIPHERALS_GLOBAL_ADDR cid = ARCHI_CLUSTER_GLOBAL_ADDR cid + ARCHI_CLUSTER_PERIPHERALS_OFFSET"

definition EU_CORES_AREA_OFFSET :: u32 where "EU_CORES_AREA_OFFSET = 0x0000"
definition EU_CORES_AREA_SIZE :: u32 where "EU_CORES_AREA_SIZE = 0x0400"
definition EU_CORE_AREA_SIZE_LOG2 :: nat where "EU_CORE_AREA_SIZE_LOG2 = 6"
definition EU_CORE_AREA_SIZE :: u32 where "EU_CORE_AREA_SIZE = push_bit EU_CORE_AREA_SIZE_LOG2 1"
definition EU_BARRIER_AREA_OFFSET :: u32 where "EU_BARRIER_AREA_OFFSET = 0x0400"
definition EU_BARRIER_AREA_SIZE :: u32 where "EU_BARRIER_AREA_SIZE = 0x0200"
definition EU_BARRIER_SIZE_LOG2 :: nat where "EU_BARRIER_SIZE_LOG2 = 5"
definition EU_BARRIER_SIZE :: u32 where "EU_BARRIER_SIZE = push_bit EU_BARRIER_SIZE_LOG2 1"
definition EU_SW_EVENTS_AREA_BASE :: u32 where "EU_SW_EVENTS_AREA_BASE = 0x0600"
definition EU_SW_EVENTS_AREA_SIZE :: u32 where "EU_SW_EVENTS_AREA_SIZE = 0x0100"
definition EU_SOC_EVENTS_AREA_OFFSET :: u32 where "EU_SOC_EVENTS_AREA_OFFSET = 0x0700"
definition EU_SOC_EVENTS_AREA_SIZE :: u32 where "EU_SOC_EVENTS_AREA_SIZE = 0x0080"
definition EU_EXT_EVENT_AREA_OFFSET :: u32 where "EU_EXT_EVENT_AREA_OFFSET = 0x0780"
definition EU_EXT_EVENT_AREA_SIZE :: u32 where "EU_EXT_EVENT_AREA_SIZE = 0x0080"
definition EU_MUTEX_AREA_SIZE_LOG2 :: nat where "EU_MUTEX_AREA_SIZE_LOG2 = 4"
definition EU_MUTEX_AREA_SIZE :: u32 where "EU_MUTEX_AREA_SIZE = push_bit EU_MUTEX_AREA_SIZE_LOG2 1"
definition EU_DISPATCH_AREA_SIZE_LOG2 :: nat where "EU_DISPATCH_AREA_SIZE_LOG2 = 4"
definition EU_DISPATCH_AREA_SIZE :: u32 where "EU_DISPATCH_AREA_SIZE = push_bit EU_DISPATCH_AREA_SIZE_LOG2 1"
definition EU_CORE_DEMUX_OFFSET :: u32 where "EU_CORE_DEMUX_OFFSET = 0x0000"
definition EU_CORE_DEMUX_SIZE :: u32 where "EU_CORE_DEMUX_SIZE = 0x0040"
definition EU_MUTEX_DEMUX_OFFSET :: u32 where "EU_MUTEX_DEMUX_OFFSET = 0x00C0"
definition EU_MUTEX_DEMUX_SIZE :: u32 where "EU_MUTEX_DEMUX_SIZE = 0x0040"
definition EU_DISPATCH_DEMUX_OFFSET :: u32 where "EU_DISPATCH_DEMUX_OFFSET = 0x0080"
definition EU_DISPATCH_DEMUX_SIZE :: u32 where "EU_DISPATCH_DEMUX_SIZE = 0x0040"
definition EU_LOOP_DEMUX_OFFSET :: u32 where "EU_LOOP_DEMUX_OFFSET = 0x0060"
definition EU_LOOP_DEMUX_SIZE :: u32 where "EU_LOOP_DEMUX_SIZE = 0x0020"
definition EU_SW_EVENTS_DEMUX_OFFSET :: u32 where "EU_SW_EVENTS_DEMUX_OFFSET = 0x0100"
definition EU_SW_EVENTS_DEMUX_SIZE :: u32 where "EU_SW_EVENTS_DEMUX_SIZE = 0x0100"
definition EU_BARRIER_DEMUX_OFFSET :: u32 where "EU_BARRIER_DEMUX_OFFSET = 0x0200"
definition EU_BARRIER_DEMUX_SIZE :: u32 where "EU_BARRIER_DEMUX_SIZE = 0x0200"
definition EU_SEC_DEMUX_OFFSET :: u32 where "EU_SEC_DEMUX_OFFSET = 0x040"
definition EU_SEC_DEMUX_SIZE :: u32 where "EU_SEC_DEMUX_SIZE = 0x040"
definition EU_SEC_MASK :: u32 where "EU_SEC_MASK = 0x00"
definition EU_SEC_MASK_AND :: u32 where "EU_SEC_MASK_AND = 0x04"
definition EU_SEC_MASK_OR :: u32 where "EU_SEC_MASK_OR = 0x08"
definition EU_CORE_MASK :: u32 where "EU_CORE_MASK = 0x00"
definition EU_CORE_MASK_AND :: u32 where "EU_CORE_MASK_AND = 0x04"
definition EU_CORE_MASK_OR :: u32 where "EU_CORE_MASK_OR = 0x08"
definition EU_CORE_MASK_IRQ :: u32 where "EU_CORE_MASK_IRQ = 0x0C"
definition EU_CORE_MASK_IRQ_AND :: u32 where "EU_CORE_MASK_IRQ_AND = 0x10"
definition EU_CORE_MASK_IRQ_OR :: u32 where "EU_CORE_MASK_IRQ_OR = 0x14"
definition EU_CORE_STATUS :: u32 where "EU_CORE_STATUS = 0x18"
definition EU_CORE_BUFFER :: u32 where "EU_CORE_BUFFER = 0x1C"
definition EU_CORE_BUFFER_MASKED :: u32 where "EU_CORE_BUFFER_MASKED = 0x20"
definition EU_CORE_BUFFER_IRQ_MASKED :: u32 where "EU_CORE_BUFFER_IRQ_MASKED = 0x24"
definition EU_CORE_BUFFER_CLEAR :: u32 where "EU_CORE_BUFFER_CLEAR = 0x28"
definition EU_CORE_SW_EVENTS_MASK :: u32 where "EU_CORE_SW_EVENTS_MASK = 0x2C"
definition EU_CORE_SW_EVENTS_MASK_AND :: u32 where "EU_CORE_SW_EVENTS_MASK_AND = 0x30"
definition EU_CORE_SW_EVENTS_MASK_OR :: u32 where "EU_CORE_SW_EVENTS_MASK_OR = 0x34"
definition EU_CORE_EVENT_WAIT :: u32 where "EU_CORE_EVENT_WAIT = 0x38"
definition EU_CORE_EVENT_WAIT_CLEAR :: u32 where "EU_CORE_EVENT_WAIT_CLEAR = 0x3C"
definition EU_CORE_TRIGG_SW_EVENT :: u32 where "EU_CORE_TRIGG_SW_EVENT = 0x00"
definition EU_CORE_TRIGG_SW_EVENT_SIZE :: u32 where "EU_CORE_TRIGG_SW_EVENT_SIZE = 0x40"
definition EU_CORE_TRIGG_SW_EVENT_WAIT :: u32 where "EU_CORE_TRIGG_SW_EVENT_WAIT = 0x40"
definition EU_CORE_TRIGG_SW_EVENT_WAIT_SIZE :: u32 where "EU_CORE_TRIGG_SW_EVENT_WAIT_SIZE = 0x40"
definition EU_CORE_TRIGG_SW_EVENT_WAIT_CLEAR :: u32 where "EU_CORE_TRIGG_SW_EVENT_WAIT_CLEAR = 0x80"
definition EU_CORE_TRIGG_SW_EVENT_WAIT_CLEAR_SIZE :: u32 where "EU_CORE_TRIGG_SW_EVENT_WAIT_CLEAR_SIZE = 0x40"
definition EU_CORE_MASK_SEC_IRQ :: u32 where "EU_CORE_MASK_SEC_IRQ = 0x40"
definition EU_ROM_EVENT_SOURCE :: u32 where "EU_ROM_EVENT_SOURCE = 0x00"
definition EU_SOC_EVENTS_CURRENT_EVENT :: u32 where "EU_SOC_EVENTS_CURRENT_EVENT = 0x00"
definition EU_SOC_EVENTS_VALID_BIT :: nat where "EU_SOC_EVENTS_VALID_BIT = 31"
definition EU_SOC_EVENTS_EVENT_MASK_BITS :: nat where "EU_SOC_EVENTS_EVENT_MASK_BITS = 8"
definition EU_SOC_EVENTS_EVENT_MASK_OFFSET :: nat where "EU_SOC_EVENTS_EVENT_MASK_OFFSET = 0"
definition EU_SOC_EVENTS_EVENT_MASK :: u32 where "EU_SOC_EVENTS_EVENT_MASK = push_bit EU_SOC_EVENTS_EVENT_MASK_OFFSET (push_bit EU_SOC_EVENTS_EVENT_MASK_BITS 1 - 1)"
definition EU_EXT_EVENT_GEN :: u32 where "EU_EXT_EVENT_GEN = 0x00"
definition EU_HW_BARR_TRIGGER_MASK :: u32 where "EU_HW_BARR_TRIGGER_MASK = 0x00"
definition EU_HW_BARR_STATUS :: u32 where "EU_HW_BARR_STATUS = 0x04"
definition EU_HW_BARR_STATUS_SUMMARY :: u32 where "EU_HW_BARR_STATUS_SUMMARY = 0x08"
definition EU_HW_BARR_TARGET_MASK :: u32 where "EU_HW_BARR_TARGET_MASK = 0x0C"
definition EU_HW_BARR_TRIGGER :: u32 where "EU_HW_BARR_TRIGGER = 0x10"
definition EU_HW_BARR_TRIGGER_SELF :: u32 where "EU_HW_BARR_TRIGGER_SELF = 0x14"
definition EU_HW_BARR_TRIGGER_WAIT :: u32 where "EU_HW_BARR_TRIGGER_WAIT = 0x18"
definition EU_HW_BARR_TRIGGER_WAIT_CLEAR :: u32 where "EU_HW_BARR_TRIGGER_WAIT_CLEAR = 0x1C"
definition EU_DISPATCH_FIFO_ACCESS :: u32 where "EU_DISPATCH_FIFO_ACCESS = 0x0"
definition EU_DISPATCH_TEAM_CONFIG :: u32 where "EU_DISPATCH_TEAM_CONFIG = 0x4"
definition EU_DISPATCH_NB_ELEM :: u32 where "EU_DISPATCH_NB_ELEM = 8"
definition EU_LOOP_STATE :: u32 where "EU_LOOP_STATE = 0x0"
definition EU_LOOP_START :: u32 where "EU_LOOP_START = 0x4"
definition EU_LOOP_END :: u32 where "EU_LOOP_END = 0x8"
definition EU_LOOP_INCR :: u32 where "EU_LOOP_INCR = 0xc"
definition EU_LOOP_CHUNK :: u32 where "EU_LOOP_CHUNK = 0x10"
definition EU_LOOP_EPOCH :: u32 where "EU_LOOP_EPOCH = 0x14"
definition EU_LOOP_SINGLE :: u32 where "EU_LOOP_SINGLE = 0x18"
definition EU_LOOP_DONE :: u32 where "EU_LOOP_DONE = 0x0"
definition EU_LOOP_LOCKED :: u32 where "EU_LOOP_LOCKED = 0x1"
definition EU_LOOP_SKIP :: u32 where "EU_LOOP_SKIP = 0x2"
definition EU_SOC_BARRIER_AREA_OFFSET :: u32 where "EU_SOC_BARRIER_AREA_OFFSET = 0x0000"
definition EU_SOC_BARRIER_AREA_SIZE :: u32 where "EU_SOC_BARRIER_AREA_SIZE = 0x0100"
definition EU_SOC_BARRIER_SIZE_LOG2 :: nat where "EU_SOC_BARRIER_SIZE_LOG2 = 3"
definition EU_SOC_BARRIER_SIZE :: u32 where "EU_SOC_BARRIER_SIZE = push_bit EU_SOC_BARRIER_SIZE_LOG2 1"
definition EU_SOC_HW_BARR_TRIGGER :: u32 where "EU_SOC_HW_BARR_TRIGGER = 0x0"
definition EU_SOC_HW_BARR_TRIGGER_MASK :: u32 where "EU_SOC_HW_BARR_TRIGGER_MASK = 0x4"
definition EU_SOC_LOCK_AREA_OFFSET :: u32 where "EU_SOC_LOCK_AREA_OFFSET = 0x0100"
definition EU_SOC_LOCK_AREA_SIZE :: u32 where "EU_SOC_LOCK_AREA_SIZE = 0x0200"
definition EU_SOC_LOCK_SIZE_LOG2 :: nat where "EU_SOC_LOCK_SIZE_LOG2 = 4"
definition EU_SOC_LOCK_SIZE :: u32 where "EU_SOC_LOCK_SIZE = push_bit EU_SOC_LOCK_SIZE_LOG2 1"
definition EU_SOC_LOCK_REG :: u32 where "EU_SOC_LOCK_REG = 0x0"
definition EU_SOC_LOCK_UNREG :: u32 where "EU_SOC_LOCK_UNREG = 0x4"
definition EU_SOC_LOCK_VALUE :: u32 where "EU_SOC_LOCK_VALUE = 0x8"
definition EU_CORE_AREA_OFFSET_GET :: "u32 \<Rightarrow> u32" where
  "EU_CORE_AREA_OFFSET_GET coreId = EU_CORES_AREA_OFFSET + coreId * EU_CORE_AREA_SIZE"
definition EU_CORE_AREA_COREID_GET :: "u32 \<Rightarrow> u32" where
  "EU_CORE_AREA_COREID_GET offset = drop_bit EU_CORE_AREA_SIZE_LOG2 offset"
definition EU_BARRIER_AREA_OFFSET_GET :: "u32 \<Rightarrow> u32" where
  "EU_BARRIER_AREA_OFFSET_GET barrier = barrier * EU_BARRIER_SIZE"
definition EU_BARRIER_AREA_BARRIERID_GET :: "u32 \<Rightarrow> u32" where
  "EU_BARRIER_AREA_BARRIERID_GET offset = drop_bit EU_BARRIER_SIZE_LOG2 (offset AND (EU_BARRIER_AREA_SIZE - 1))"
definition EU_MUTEX_AREA_OFFSET_GET :: "u32 \<Rightarrow> u32" where
  "EU_MUTEX_AREA_OFFSET_GET mutex = mutex * EU_MUTEX_AREA_SIZE"
definition EU_MUTEX_AREA_MUTEXID_GET :: "u32 \<Rightarrow> u32" where
  "EU_MUTEX_AREA_MUTEXID_GET offset = drop_bit 2 (offset AND (EU_MUTEX_AREA_SIZE - 1))"
definition EU_DISPATCH_AREA_OFFSET_GET :: "u32 \<Rightarrow> u32" where
  "EU_DISPATCH_AREA_OFFSET_GET dispatch = dispatch * EU_DISPATCH_AREA_SIZE"
definition EU_CORE_TRIGG_SW_EVENT_OFFSET :: "u32 \<Rightarrow> u32" where
  "EU_CORE_TRIGG_SW_EVENT_OFFSET event = EU_CORE_TRIGG_SW_EVENT + event * 0x4"
definition EU_CORE_TRIGG_SW_EVENT_WAIT_OFFSET :: "u32 \<Rightarrow> u32" where
  "EU_CORE_TRIGG_SW_EVENT_WAIT_OFFSET event = EU_CORE_TRIGG_SW_EVENT_WAIT + event * 0x4"
definition EU_CORE_TRIGG_SW_EVENT_WAIT_CLEAR_OFFSET :: "u32 \<Rightarrow> u32" where
  "EU_CORE_TRIGG_SW_EVENT_WAIT_CLEAR_OFFSET event = EU_CORE_TRIGG_SW_EVENT_WAIT_CLEAR + event * 0x4"
definition EU_ROM_EVENT_SOURCE_OFFSET :: "u32 \<Rightarrow> u32" where
  "EU_ROM_EVENT_SOURCE_OFFSET event = EU_ROM_EVENT_SOURCE + event * 0x4"
definition PULP_NB_GP_EVENTS :: u32 where "PULP_NB_GP_EVENTS = 8"
definition PULP_FIRST_GP_EVENT :: nat where "PULP_FIRST_GP_EVENT = 0"
definition PULP_TIMER0_EVENT :: nat where "PULP_TIMER0_EVENT = 10"
definition PULP_TIMER1_EVENT :: nat where "PULP_TIMER1_EVENT = 11"
definition EVENT_HWCE :: nat where "EVENT_HWCE = 15"
definition PULP_HW_BAR_EVENT :: nat where "PULP_HW_BAR_EVENT = 16"
definition PULP_MUTEX_EVENT :: nat where "PULP_MUTEX_EVENT = 17"
definition PULP_DISPATCH_EVENT :: nat where "PULP_DISPATCH_EVENT = 18"
definition PULP_LOOP_EVENT :: nat where "PULP_LOOP_EVENT = 19"
definition PULP_FC_SOC_EVENTS_EVENT :: nat where "PULP_FC_SOC_EVENTS_EVENT = 26"
definition PULP_SOC_EVENTS_EVENT :: nat where "PULP_SOC_EVENTS_EVENT = 27"
definition PULP_SOC_TRIGGER_EVENT :: nat where "PULP_SOC_TRIGGER_EVENT = 28"
definition PULP_SOC_LOCK_EVENT :: nat where "PULP_SOC_LOCK_EVENT = 29"
definition PULP_SOC_HW_BAR_EVENT :: nat where "PULP_SOC_HW_BAR_EVENT = 30"
definition EU_SOC_BARRIER_AREA_OFFSET_GET :: "u32 \<Rightarrow> u32" where
  "EU_SOC_BARRIER_AREA_OFFSET_GET barrier = barrier * EU_SOC_BARRIER_SIZE"
definition EU_SOC_BARRIER_AREA_BARRIERID_GET :: "u32 \<Rightarrow> u32" where
  "EU_SOC_BARRIER_AREA_BARRIERID_GET offset = drop_bit EU_SOC_BARRIER_SIZE_LOG2 (offset AND (EU_SOC_BARRIER_AREA_SIZE - 1))"
definition EU_SOC_LOCK_AREA_OFFSET_GET :: "u32 \<Rightarrow> u32" where "EU_SOC_LOCK_AREA_OFFSET_GET lock = lock * EU_SOC_LOCK_SIZE"
definition EU_SOC_LOCK_AREA_LOCKID_GET :: "u32 \<Rightarrow> u32" where
  "EU_SOC_LOCK_AREA_LOCKID_GET offset = drop_bit EU_SOC_LOCK_SIZE_LOG2 (offset AND (EU_SOC_LOCK_AREA_SIZE - 1))"

lemmas eu_defs = EU_CORES_AREA_OFFSET_def EU_CORES_AREA_SIZE_def EU_CORE_AREA_SIZE_LOG2_def
  EU_CORE_AREA_SIZE_def EU_BARRIER_AREA_OFFSET_def EU_BARRIER_AREA_SIZE_def EU_BARRIER_SIZE_LOG2_def
  EU_BARRIER_SIZE_def EU_SW_EVENTS_AREA_BASE_def EU_SW_EVENTS_AREA_SIZE_def EU_SOC_EVENTS_AREA_OFFSET_def
  EU_SOC_EVENTS_AREA_SIZE_def EU_EXT_EVENT_AREA_OFFSET_def EU_EXT_EVENT_AREA_SIZE_def
  EU_MUTEX_AREA_SIZE_LOG2_def EU_MUTEX_AREA_SIZE_def EU_DISPATCH_AREA_SIZE_LOG2_def
  EU_DISPATCH_AREA_SIZE_def EU_CORE_DEMUX_OFFSET_def EU_CORE_DEMUX_SIZE_def EU_MUTEX_DEMUX_OFFSET_def
  EU_MUTEX_DEMUX_SIZE_def EU_DISPATCH_DEMUX_OFFSET_def EU_DISPATCH_DEMUX_SIZE_def EU_LOOP_DEMUX_OFFSET_def
  EU_LOOP_DEMUX_SIZE_def EU_SW_EVENTS_DEMUX_OFFSET_def EU_SW_EVENTS_DEMUX_SIZE_def
  EU_BARRIER_DEMUX_OFFSET_def EU_BARRIER_DEMUX_SIZE_def EU_SEC_DEMUX_OFFSET_def EU_SEC_DEMUX_SIZE_def
  EU_SEC_MASK_def EU_SEC_MASK_AND_def EU_SEC_MASK_OR_def EU_CORE_MASK_def EU_CORE_MASK_AND_def
  EU_CORE_MASK_OR_def EU_CORE_MASK_IRQ_def EU_CORE_MASK_IRQ_AND_def EU_CORE_MASK_IRQ_OR_def
  EU_CORE_STATUS_def EU_CORE_BUFFER_def EU_CORE_BUFFER_MASKED_def EU_CORE_BUFFER_IRQ_MASKED_def
  EU_CORE_BUFFER_CLEAR_def EU_CORE_SW_EVENTS_MASK_def EU_CORE_SW_EVENTS_MASK_AND_def
  EU_CORE_SW_EVENTS_MASK_OR_def EU_CORE_EVENT_WAIT_def EU_CORE_EVENT_WAIT_CLEAR_def
  EU_CORE_TRIGG_SW_EVENT_def EU_CORE_TRIGG_SW_EVENT_SIZE_def EU_CORE_TRIGG_SW_EVENT_WAIT_def
  EU_CORE_TRIGG_SW_EVENT_WAIT_SIZE_def EU_CORE_TRIGG_SW_EVENT_WAIT_CLEAR_def
  EU_CORE_TRIGG_SW_EVENT_WAIT_CLEAR_SIZE_def EU_CORE_MASK_SEC_IRQ_def EU_ROM_EVENT_SOURCE_def
  EU_SOC_EVENTS_CURRENT_EVENT_def EU_SOC_EVENTS_VALID_BIT_def EU_SOC_EVENTS_EVENT_MASK_BITS_def
  EU_SOC_EVENTS_EVENT_MASK_OFFSET_def EU_SOC_EVENTS_EVENT_MASK_def EU_EXT_EVENT_GEN_def
  EU_HW_BARR_TRIGGER_MASK_def EU_HW_BARR_STATUS_def EU_HW_BARR_STATUS_SUMMARY_def EU_HW_BARR_TARGET_MASK_def
  EU_HW_BARR_TRIGGER_def EU_HW_BARR_TRIGGER_SELF_def EU_HW_BARR_TRIGGER_WAIT_def
  EU_HW_BARR_TRIGGER_WAIT_CLEAR_def EU_DISPATCH_FIFO_ACCESS_def EU_DISPATCH_TEAM_CONFIG_def
  EU_DISPATCH_NB_ELEM_def EU_LOOP_STATE_def EU_LOOP_START_def EU_LOOP_END_def EU_LOOP_INCR_def
  EU_LOOP_CHUNK_def EU_LOOP_EPOCH_def EU_LOOP_SINGLE_def EU_LOOP_DONE_def EU_LOOP_LOCKED_def
  EU_LOOP_SKIP_def EU_SOC_BARRIER_AREA_OFFSET_def EU_SOC_BARRIER_AREA_SIZE_def EU_SOC_BARRIER_SIZE_LOG2_def
  EU_SOC_BARRIER_SIZE_def EU_SOC_HW_BARR_TRIGGER_def EU_SOC_HW_BARR_TRIGGER_MASK_def
  EU_SOC_LOCK_AREA_OFFSET_def EU_SOC_LOCK_AREA_SIZE_def EU_SOC_LOCK_SIZE_LOG2_def EU_SOC_LOCK_SIZE_def
  EU_SOC_LOCK_REG_def EU_SOC_LOCK_UNREG_def EU_SOC_LOCK_VALUE_def EU_CORE_AREA_OFFSET_GET_def
  EU_CORE_AREA_COREID_GET_def EU_BARRIER_AREA_OFFSET_GET_def EU_BARRIER_AREA_BARRIERID_GET_def
  EU_MUTEX_AREA_OFFSET_GET_def EU_MUTEX_AREA_MUTEXID_GET_def EU_DISPATCH_AREA_OFFSET_GET_def
  EU_CORE_TRIGG_SW_EVENT_OFFSET_def EU_CORE_TRIGG_SW_EVENT_WAIT_OFFSET_def
  EU_CORE_TRIGG_SW_EVENT_WAIT_CLEAR_OFFSET_def EU_ROM_EVENT_SOURCE_OFFSET_def PULP_NB_GP_EVENTS_def
  PULP_FIRST_GP_EVENT_def PULP_TIMER0_EVENT_def PULP_TIMER1_EVENT_def EVENT_HWCE_def PULP_HW_BAR_EVENT_def
  PULP_MUTEX_EVENT_def PULP_DISPATCH_EVENT_def PULP_LOOP_EVENT_def PULP_FC_SOC_EVENTS_EVENT_def
  PULP_SOC_EVENTS_EVENT_def PULP_SOC_TRIGGER_EVENT_def PULP_SOC_LOCK_EVENT_def PULP_SOC_HW_BAR_EVENT_def
  EU_SOC_BARRIER_AREA_OFFSET_GET_def EU_SOC_BARRIER_AREA_BARRIERID_GET_def EU_SOC_LOCK_AREA_OFFSET_GET_def
  EU_SOC_LOCK_AREA_LOCKID_GET_def

section \<open>Events of a core\<close>

text \<open>
  \<^verbatim>\<open>evt_read32\<close> is a load that the event unit answers only when the core is to go on; what happens
  until then is part of the bus access.
\<close>

definition evt_read32 :: "'e pulp_bus \<Rightarrow> u32 \<Rightarrow> u32 \<Rightarrow> ('e, 'z) machine_scheme \<Rightarrow> u32 \<times> ('e, 'z) machine_scheme" where
  "evt_read32 b base offset = pulp_read32 b (base + offset)"

definition eu_evt_status :: "'e pulp_bus \<Rightarrow> 'y cluster_config_scheme \<Rightarrow> ('e, 'z) machine_scheme \<Rightarrow> u32 \<times> ('e, 'z) machine_scheme" where
  "eu_evt_status b c = pulp_read32 b (ARCHI_EU_DEMUX_ADDR c + EU_CORE_BUFFER)"

definition eu_evt_statusMasked :: "'e pulp_bus \<Rightarrow> 'y cluster_config_scheme \<Rightarrow> ('e, 'z) machine_scheme \<Rightarrow> u32 \<times> ('e, 'z) machine_scheme" where
  "eu_evt_statusMasked b c = pulp_read32 b (ARCHI_EU_DEMUX_ADDR c + EU_CORE_BUFFER_MASKED)"

definition eu_evt_clr :: "'e pulp_bus \<Rightarrow> 'y cluster_config_scheme \<Rightarrow> u32 \<Rightarrow> ('e, 'z) machine_scheme \<Rightarrow> ('e, 'z) machine_scheme" where
  "eu_evt_clr b c evtMask = pulp_write32 b (ARCHI_EU_DEMUX_ADDR c + EU_CORE_BUFFER_CLEAR) evtMask"

definition eu_evt_mask :: "'e pulp_bus \<Rightarrow> 'y cluster_config_scheme \<Rightarrow> u32 \<Rightarrow> ('e, 'z) machine_scheme \<Rightarrow> ('e, 'z) machine_scheme" where
  "eu_evt_mask b c evtMask = pulp_write32 b (ARCHI_EU_DEMUX_ADDR c + EU_CORE_MASK) evtMask"

definition eu_evt_maskSet_base :: "'e pulp_bus \<Rightarrow> u32 \<Rightarrow> u32 \<Rightarrow> ('e, 'z) machine_scheme \<Rightarrow> ('e, 'z) machine_scheme" where
  "eu_evt_maskSet_base b base evtMask = pulp_write32 b (base + EU_CORE_MASK_OR) evtMask"

definition eu_evt_maskSet :: "'e pulp_bus \<Rightarrow> 'y cluster_config_scheme \<Rightarrow> u32 \<Rightarrow> ('e, 'z) machine_scheme \<Rightarrow> ('e, 'z) machine_scheme" where
  "eu_evt_maskSet b c evtMask = eu_evt_maskSet_base b (ARCHI_EU_DEMUX_ADDR c) evtMask"

definition eu_evt_maskClr :: "'e pulp_bus \<Rightarrow> 'y cluster_config_scheme \<Rightarrow> u32 \<Rightarrow> ('e, 'z) machine_scheme \<Rightarrow> ('e, 'z) machine_scheme" where
  "eu_evt_maskClr b c evtMask = pulp_write32 b (ARCHI_EU_DEMUX_ADDR c + EU_CORE_MASK_AND) evtMask"

definition eu_evt_wait :: "'e pulp_bus \<Rightarrow> 'y cluster_config_scheme \<Rightarrow> ('e, 'z) machine_scheme \<Rightarrow> u32 \<times> ('e, 'z) machine_scheme" where
  "eu_evt_wait b c = evt_read32 b (ARCHI_EU_DEMUX_ADDR c) EU_CORE_EVENT_WAIT"

definition eu_evt_wait_noreplay :: "'e pulp_bus \<Rightarrow> 'y cluster_config_scheme \<Rightarrow> ('e, 'z) machine_scheme \<Rightarrow> u32 \<times> ('e, 'z) machine_scheme" where
  "eu_evt_wait_noreplay b c = pulp_read32 b (ARCHI_EU_DEMUX_ADDR c + EU_CORE_EVENT_WAIT)"

definition eu_wait_for_interrupt :: "'e pulp_bus \<Rightarrow> 'y cluster_config_scheme \<Rightarrow> ('e, 'z) machine_scheme \<Rightarrow> u32 \<times> ('e, 'z) machine_scheme" where
  "eu_wait_for_interrupt b c = pulp_read32 b (ARCHI_EU_DEMUX_ADDR c + EU_CORE_EVENT_WAIT)"

definition eu_evt_waitAndClr :: "'e pulp_bus \<Rightarrow> 'y cluster_config_scheme \<Rightarrow> ('e, 'z) machine_scheme \<Rightarrow> u32 \<times> ('e, 'z) machine_scheme" where
  "eu_evt_waitAndClr b c = evt_read32 b (ARCHI_EU_DEMUX_ADDR c) EU_CORE_EVENT_WAIT_CLEAR"

definition eu_evt_maskWaitAndClr :: "'e pulp_bus \<Rightarrow> 'y cluster_config_scheme \<Rightarrow> u32 \<Rightarrow> ('e, 'z) machine_scheme \<Rightarrow> u32 \<times> ('e, 'z) machine_scheme" where
  "eu_evt_maskWaitAndClr b c evtMask s =
     (let s = eu_evt_maskSet b c evtMask s
      in case eu_evt_waitAndClr b c s of (result, s) \<Rightarrow> (result, eu_evt_maskClr b c evtMask s))"

text \<open>The fabric controller waits again when it was woken without an active event.\<close>

partial_function (option) eu_wait_active ::
  "'e pulp_bus \<Rightarrow> 'y cluster_config_scheme \<Rightarrow> ('e, 'z) machine_scheme \<Rightarrow> (u32 \<times> ('e, 'z) machine_scheme) option" where
  "eu_wait_active b c s =
     (case eu_evt_waitAndClr b c s of (result, s) \<Rightarrow> if result = 0 then eu_wait_active b c s else Some (result, s))"

definition eu_fc_evt_maskWaitAndClr ::
  "'e pulp_bus \<Rightarrow> 'y cluster_config_scheme \<Rightarrow> u32 \<Rightarrow> ('e, 'z) machine_scheme \<Rightarrow> (u32 \<times> ('e, 'z) machine_scheme) option" where
  "eu_fc_evt_maskWaitAndClr b c evtMask s =
     do {
       let s = eu_evt_maskSet b c evtMask s;
       (result, s) \<leftarrow> eu_wait_active b c s;
       Some (result, eu_evt_maskClr b c evtMask s)
     }"

section \<open>Interrupts of a core\<close>

definition eu_evt_statusIrqMasked :: "'e pulp_bus \<Rightarrow> 'y cluster_config_scheme \<Rightarrow> ('e, 'z) machine_scheme \<Rightarrow> u32 \<times> ('e, 'z) machine_scheme" where
  "eu_evt_statusIrqMasked b c = pulp_read32 b (ARCHI_EU_DEMUX_ADDR c + EU_CORE_BUFFER_IRQ_MASKED)"

definition eu_irq_mask :: "'e pulp_bus \<Rightarrow> 'y cluster_config_scheme \<Rightarrow> u32 \<Rightarrow> ('e, 'z) machine_scheme \<Rightarrow> ('e, 'z) machine_scheme" where
  "eu_irq_mask b c irqMask = pulp_write32 b (ARCHI_EU_DEMUX_ADDR c + EU_CORE_MASK_IRQ) irqMask"

definition eu_irq_secMask :: "'e pulp_bus \<Rightarrow> 'y cluster_config_scheme \<Rightarrow> u32 \<Rightarrow> ('e, 'z) machine_scheme \<Rightarrow> ('e, 'z) machine_scheme" where
  "eu_irq_secMask b c irqMask = pulp_write32 b (ARCHI_EU_DEMUX_ADDR c + EU_CORE_MASK_SEC_IRQ) irqMask"

definition eu_irq_maskSet_base :: "'e pulp_bus \<Rightarrow> u32 \<Rightarrow> u32 \<Rightarrow> ('e, 'z) machine_scheme \<Rightarrow> ('e, 'z) machine_scheme" where
  "eu_irq_maskSet_base b base irqMask = pulp_write32 b (base + EU_CORE_MASK_IRQ_OR) irqMask"

definition eu_irq_maskSet :: "'e pulp_bus \<Rightarrow> 'y cluster_config_scheme \<Rightarrow> u32 \<Rightarrow> ('e, 'z) machine_scheme \<Rightarrow> ('e, 'z) machine_scheme" where
  "eu_irq_maskSet b c irqMask = eu_irq_maskSet_base b (ARCHI_EU_DEMUX_ADDR c) irqMask"

definition eu_irq_maskClr :: "'e pulp_bus \<Rightarrow> 'y cluster_config_scheme \<Rightarrow> u32 \<Rightarrow> ('e, 'z) machine_scheme \<Rightarrow> ('e, 'z) machine_scheme" where
  "eu_irq_maskClr b c irqMask = pulp_write32 b (ARCHI_EU_DEMUX_ADDR c + EU_CORE_MASK_IRQ_AND) irqMask"

definition eu_irq_secMaskSet :: "'e pulp_bus \<Rightarrow> 'y cluster_config_scheme \<Rightarrow> u32 \<Rightarrow> ('e, 'z) machine_scheme \<Rightarrow> ('e, 'z) machine_scheme" where
  "eu_irq_secMaskSet b c irqMask = pulp_write32 b (ARCHI_EU_DEMUX_ADDR c + EU_SEC_DEMUX_OFFSET + EU_SEC_MASK_OR) irqMask"

definition eu_irq_secMaskClr :: "'e pulp_bus \<Rightarrow> 'y cluster_config_scheme \<Rightarrow> u32 \<Rightarrow> ('e, 'z) machine_scheme \<Rightarrow> ('e, 'z) machine_scheme" where
  "eu_irq_secMaskClr b c irqMask = pulp_write32 b (ARCHI_EU_DEMUX_ADDR c + EU_SEC_DEMUX_OFFSET + EU_SEC_MASK_AND) irqMask"

definition eu_irq_status :: "'e pulp_bus \<Rightarrow> 'y cluster_config_scheme \<Rightarrow> ('e, 'z) machine_scheme \<Rightarrow> u32 \<times> ('e, 'z) machine_scheme" where
  "eu_irq_status b c = pulp_read32 b (ARCHI_EU_DEMUX_ADDR c + EU_CORE_BUFFER_IRQ_MASKED)"

section \<open>Events triggered by software\<close>

definition eu_evt_trig_remote_addr :: "'y cluster_config_scheme \<Rightarrow> u32 \<Rightarrow> u32" where
  "eu_evt_trig_remote_addr c event =
     ARCHI_CLUSTER_PERIPHERALS_ADDR + ARCHI_EU_OFFSET c + EU_SW_EVENTS_AREA_BASE + EU_CORE_TRIGG_SW_EVENT + push_bit 2 event"

definition eu_evt_trig_cluster_addr :: "'y cluster_config_scheme \<Rightarrow> u32 \<Rightarrow> u32 \<Rightarrow> u32" where
  "eu_evt_trig_cluster_addr c cluster event =
     ARCHI_CLUSTER_PERIPHERALS_GLOBAL_ADDR cluster + ARCHI_EU_OFFSET c + EU_SW_EVENTS_AREA_BASE +
     EU_CORE_TRIGG_SW_EVENT + push_bit 2 event"

definition eu_evt_trig_fc_addr :: "u32 \<Rightarrow> u32" where
  "eu_evt_trig_fc_addr event =
     ARCHI_FC_ITC_ADDR + EU_SW_EVENTS_AREA_BASE + EU_CORE_TRIGG_SW_EVENT + push_bit 2 event"

definition eu_evt_trig_addr :: "'y cluster_config_scheme \<Rightarrow> u32 \<Rightarrow> u32" where
  "eu_evt_trig_addr c event =
     ARCHI_EU_DEMUX_ADDR c + EU_SW_EVENTS_DEMUX_OFFSET + EU_CORE_TRIGG_SW_EVENT + push_bit 2 event"

definition eu_evt_trig :: "'e pulp_bus \<Rightarrow> u32 \<Rightarrow> u32 \<Rightarrow> ('e, 'z) machine_scheme \<Rightarrow> ('e, 'z) machine_scheme" where
  "eu_evt_trig b evtAddr coreSet = pulp_write32 b evtAddr coreSet"

definition eu_evt_trig_from_id :: "'e pulp_bus \<Rightarrow> 'y cluster_config_scheme \<Rightarrow> u32 \<Rightarrow> u32 \<Rightarrow> ('e, 'z) machine_scheme \<Rightarrow> ('e, 'z) machine_scheme" where
  "eu_evt_trig_from_id b c event coreSet =
     IP_WRITE b (ARCHI_EU_DEMUX_ADDR c) (EU_SW_EVENTS_DEMUX_OFFSET + EU_CORE_TRIGG_SW_EVENT + push_bit 2 event) coreSet"

section \<open>Barriers\<close>

definition eu_bar_addr :: "'y cluster_config_scheme \<Rightarrow> u32 \<Rightarrow> u32" where
  "eu_bar_addr c barId = ARCHI_EU_DEMUX_ADDR c + EU_BARRIER_DEMUX_OFFSET + EU_BARRIER_AREA_OFFSET_GET barId"

definition eu_bar_id :: "u32 \<Rightarrow> u32" where
  "eu_bar_id barAddr = EU_BARRIER_AREA_BARRIERID_GET barAddr"

definition eu_bar_trig_wait_clr :: "'e pulp_bus \<Rightarrow> u32 \<Rightarrow> ('e, 'z) machine_scheme \<Rightarrow> u32 \<times> ('e, 'z) machine_scheme" where
  "eu_bar_trig_wait_clr b barAddr = evt_read32 b barAddr EU_HW_BARR_TRIGGER_WAIT_CLEAR"

definition eu_bar_setup_mask :: "'e pulp_bus \<Rightarrow> u32 \<Rightarrow> u32 \<Rightarrow> u32 \<Rightarrow> ('e, 'z) machine_scheme \<Rightarrow> ('e, 'z) machine_scheme" where
  "eu_bar_setup_mask b barAddr coreMask targetMask s =
     IP_WRITE b barAddr EU_HW_BARR_TARGET_MASK targetMask (IP_WRITE b barAddr EU_HW_BARR_TRIGGER_MASK coreMask s)"

definition eu_bar_setup :: "'e pulp_bus \<Rightarrow> u32 \<Rightarrow> u32 \<Rightarrow> ('e, 'z) machine_scheme \<Rightarrow> ('e, 'z) machine_scheme" where
  "eu_bar_setup b barAddr coreMask = eu_bar_setup_mask b barAddr coreMask coreMask"

definition eu_bar_trigger :: "'e pulp_bus \<Rightarrow> u32 \<Rightarrow> u32 \<Rightarrow> ('e, 'z) machine_scheme \<Rightarrow> ('e, 'z) machine_scheme" where
  "eu_bar_trigger b barAddr m = pulp_write32 b (barAddr + EU_HW_BARR_TRIGGER) m"

section \<open>The queue of SoC events\<close>

definition eu_soc_events_pop :: "'e pulp_bus \<Rightarrow> 'y cluster_config_scheme \<Rightarrow> ('e, 'z) machine_scheme \<Rightarrow> u32 \<times> ('e, 'z) machine_scheme" where
  "eu_soc_events_pop b c =
     pulp_read32 b (ARCHI_CLUSTER_PERIPHERALS_ADDR + ARCHI_EU_OFFSET c + EU_SOC_EVENTS_AREA_OFFSET + EU_SOC_EVENTS_CURRENT_EVENT)"

definition fc_eu_soc_events_pop :: "'e pulp_bus \<Rightarrow> 'y cluster_config_scheme \<Rightarrow> ('e, 'z) machine_scheme \<Rightarrow> u32 \<times> ('e, 'z) machine_scheme" where
  "fc_eu_soc_events_pop b c =
     pulp_read32 b (ARCHI_SOC_PERIPHERALS_ADDR + ARCHI_EU_OFFSET c + EU_SOC_EVENTS_AREA_OFFSET + EU_SOC_EVENTS_CURRENT_EVENT)"

definition eu_soc_events_is_valid :: "u32 \<Rightarrow> u32" where
  "eu_soc_events_is_valid w = drop_bit EU_SOC_EVENTS_VALID_BIT w AND 1"

definition eu_soc_events_get_event :: "u32 \<Rightarrow> u32" where
  "eu_soc_events_get_event w = w AND EU_SOC_EVENTS_EVENT_MASK"

section \<open>Mutexes\<close>

definition eu_mutex_addr :: "'y cluster_config_scheme \<Rightarrow> u32 \<Rightarrow> u32" where
  "eu_mutex_addr c mutexId = ARCHI_EU_DEMUX_ADDR c + EU_MUTEX_DEMUX_OFFSET + push_bit 2 mutexId"

definition eu_mutex_lock :: "'e pulp_bus \<Rightarrow> u32 \<Rightarrow> ('e, 'z) machine_scheme \<Rightarrow> ('e, 'z) machine_scheme" where
  "eu_mutex_lock b mutexAddr s = snd (evt_read32 b mutexAddr 0 s)"

definition eu_mutex_lock_from_id :: "'e pulp_bus \<Rightarrow> 'y cluster_config_scheme \<Rightarrow> u32 \<Rightarrow> ('e, 'z) machine_scheme \<Rightarrow> ('e, 'z) machine_scheme" where
  "eu_mutex_lock_from_id b c i s =
     snd (evt_read32 b (ARCHI_EU_DEMUX_ADDR c) (EU_MUTEX_DEMUX_OFFSET + push_bit 2 i) s)"

definition eu_mutex_unlock :: "'e pulp_bus \<Rightarrow> u32 \<Rightarrow> ('e, 'z) machine_scheme \<Rightarrow> ('e, 'z) machine_scheme" where
  "eu_mutex_unlock b mutexAddr = pulp_write32 b mutexAddr 0"

definition eu_mutex_unlock_from_id :: "'e pulp_bus \<Rightarrow> 'y cluster_config_scheme \<Rightarrow> u32 \<Rightarrow> ('e, 'z) machine_scheme \<Rightarrow> ('e, 'z) machine_scheme" where
  "eu_mutex_unlock_from_id b c i =
     IP_WRITE b (ARCHI_EU_DEMUX_ADDR c) (EU_MUTEX_DEMUX_OFFSET + push_bit 2 i) 0"

definition eu_mutex_init :: "'e pulp_bus \<Rightarrow> u32 \<Rightarrow> ('e, 'z) machine_scheme \<Rightarrow> ('e, 'z) machine_scheme" where
  "eu_mutex_init b mutexAddr = pulp_write32 b mutexAddr 0"

section \<open>The dispatcher\<close>

definition eu_dispatch_pop :: "'e pulp_bus \<Rightarrow> 'y cluster_config_scheme \<Rightarrow> ('e, 'z) machine_scheme \<Rightarrow> u32 \<times> ('e, 'z) machine_scheme" where
  "eu_dispatch_pop b c s =
     (let s = eu_evt_maskSet b c (push_bit PULP_DISPATCH_EVENT 1) s
      in case evt_read32 b (ARCHI_EU_DEMUX_ADDR c) (EU_DISPATCH_DEMUX_OFFSET + EU_DISPATCH_FIFO_ACCESS) s of (result, s) \<Rightarrow>
           (result, eu_evt_maskClr b c (push_bit PULP_DISPATCH_EVENT 1) s))"

definition eu_dispatch_push :: "'e pulp_bus \<Rightarrow> 'y cluster_config_scheme \<Rightarrow> u32 \<Rightarrow> ('e, 'z) machine_scheme \<Rightarrow> ('e, 'z) machine_scheme" where
  "eu_dispatch_push b c value =
     IP_WRITE b (ARCHI_EU_DEMUX_ADDR c) (EU_DISPATCH_DEMUX_OFFSET + EU_DISPATCH_FIFO_ACCESS) value"

definition eu_dispatch_push_base :: "'e pulp_bus \<Rightarrow> u32 \<Rightarrow> u32 \<Rightarrow> ('e, 'z) machine_scheme \<Rightarrow> ('e, 'z) machine_scheme" where
  "eu_dispatch_push_base b base value = IP_WRITE b base EU_DISPATCH_FIFO_ACCESS value"

definition eu_dispatch_team_config :: "'e pulp_bus \<Rightarrow> 'y cluster_config_scheme \<Rightarrow> u32 \<Rightarrow> ('e, 'z) machine_scheme \<Rightarrow> ('e, 'z) machine_scheme" where
  "eu_dispatch_team_config b c value =
     IP_WRITE b (ARCHI_EU_DEMUX_ADDR c) (EU_DISPATCH_DEMUX_OFFSET + EU_DISPATCH_TEAM_CONFIG) value"

definition eu_dispatch_team_config_base :: "'e pulp_bus \<Rightarrow> u32 \<Rightarrow> u32 \<Rightarrow> ('e, 'z) machine_scheme \<Rightarrow> ('e, 'z) machine_scheme" where
  "eu_dispatch_team_config_base b base value = IP_WRITE b base EU_DISPATCH_TEAM_CONFIG value"

definition eu_dispatch_get_base :: "'y cluster_config_scheme \<Rightarrow> u32 \<Rightarrow> u32" where
  "eu_dispatch_get_base c i = ARCHI_EU_DEMUX_ADDR c + EU_DISPATCH_DEMUX_OFFSET + EU_DISPATCH_AREA_OFFSET_GET i"

definition eu_dispatch_team_config_read :: "'e pulp_bus \<Rightarrow> 'y cluster_config_scheme \<Rightarrow> ('e, 'z) machine_scheme \<Rightarrow> u32 \<times> ('e, 'z) machine_scheme" where
  "eu_dispatch_team_config_read b c =
     IP_READ b (ARCHI_EU_DEMUX_ADDR c) (EU_DISPATCH_DEMUX_OFFSET + EU_DISPATCH_TEAM_CONFIG)"

section \<open>Loops\<close>

definition eu_loop_addr :: "'y cluster_config_scheme \<Rightarrow> u32 \<Rightarrow> u32" where
  "eu_loop_addr c i = ARCHI_EU_DEMUX_ADDR c + EU_LOOP_DEMUX_OFFSET"

definition eu_loop_getChunk :: "'e pulp_bus \<Rightarrow> u32 \<Rightarrow> ('e, 'z) machine_scheme \<Rightarrow> u32 \<times> ('e, 'z) machine_scheme" where
  "eu_loop_getChunk b addr = pulp_read32 b (addr + EU_LOOP_CHUNK)"

definition eu_loop_getStart :: "'e pulp_bus \<Rightarrow> u32 \<Rightarrow> ('e, 'z) machine_scheme \<Rightarrow> u32 \<times> ('e, 'z) machine_scheme" where
  "eu_loop_getStart b addr = pulp_read32 b (addr + EU_LOOP_START)"

definition eu_loop_getState :: "'e pulp_bus \<Rightarrow> u32 \<Rightarrow> ('e, 'z) machine_scheme \<Rightarrow> u32 \<times> ('e, 'z) machine_scheme" where
  "eu_loop_getState b addr = pulp_read32 b (addr + EU_LOOP_STATE)"

definition eu_loop_setStart :: "'e pulp_bus \<Rightarrow> u32 \<Rightarrow> u32 \<Rightarrow> ('e, 'z) machine_scheme \<Rightarrow> ('e, 'z) machine_scheme" where
  "eu_loop_setStart b addr value = pulp_write32 b (addr + EU_LOOP_START) value"

definition eu_loop_setEnd :: "'e pulp_bus \<Rightarrow> u32 \<Rightarrow> u32 \<Rightarrow> ('e, 'z) machine_scheme \<Rightarrow> ('e, 'z) machine_scheme" where
  "eu_loop_setEnd b addr value = pulp_write32 b (addr + EU_LOOP_END) value"

definition eu_loop_setIncr :: "'e pulp_bus \<Rightarrow> u32 \<Rightarrow> u32 \<Rightarrow> ('e, 'z) machine_scheme \<Rightarrow> ('e, 'z) machine_scheme" where
  "eu_loop_setIncr b addr value = pulp_write32 b (addr + EU_LOOP_INCR) value"

definition eu_loop_setChunk :: "'e pulp_bus \<Rightarrow> u32 \<Rightarrow> u32 \<Rightarrow> ('e, 'z) machine_scheme \<Rightarrow> ('e, 'z) machine_scheme" where
  "eu_loop_setChunk b addr value = pulp_write32 b (addr + EU_LOOP_CHUNK) value"

definition eu_loop_initEpoch :: "'e pulp_bus \<Rightarrow> u32 \<Rightarrow> u32 \<Rightarrow> ('e, 'z) machine_scheme \<Rightarrow> ('e, 'z) machine_scheme" where
  "eu_loop_initEpoch b addr value = pulp_write32 b (addr + EU_LOOP_EPOCH) value"

definition eu_loop_getSingle :: "'e pulp_bus \<Rightarrow> u32 \<Rightarrow> ('e, 'z) machine_scheme \<Rightarrow> u32 \<times> ('e, 'z) machine_scheme" where
  "eu_loop_getSingle b addr = pulp_read32 b (addr + EU_LOOP_SINGLE)"

section \<open>Barriers and locks between clusters\<close>

definition eu_soc_bar_addr :: "'y cluster_config_scheme \<Rightarrow> u32 \<Rightarrow> u32" where
  "eu_soc_bar_addr c barId = SOC_EVENT_UNIT_ADDR c + EU_SOC_BARRIER_AREA_OFFSET + EU_SOC_BARRIER_AREA_OFFSET_GET barId"

definition eu_soc_bar_id :: "u32 \<Rightarrow> u32" where
  "eu_soc_bar_id barAddr = EU_SOC_BARRIER_AREA_BARRIERID_GET barAddr"

definition eu_soc_bar_trig :: "'e pulp_bus \<Rightarrow> u32 \<Rightarrow> u32 \<Rightarrow> ('e, 'z) machine_scheme \<Rightarrow> ('e, 'z) machine_scheme" where
  "eu_soc_bar_trig b barAddr clusterMask = pulp_write32 b (barAddr + EU_SOC_HW_BARR_TRIGGER) clusterMask"

definition eu_soc_bar_setup :: "'e pulp_bus \<Rightarrow> u32 \<Rightarrow> u32 \<Rightarrow> ('e, 'z) machine_scheme \<Rightarrow> ('e, 'z) machine_scheme" where
  "eu_soc_bar_setup b barAddr clusterMask = pulp_write32 b (barAddr + EU_SOC_HW_BARR_TRIGGER_MASK) clusterMask"

definition eu_soc_lock_addr :: "'y cluster_config_scheme \<Rightarrow> u32 \<Rightarrow> u32" where
  "eu_soc_lock_addr c lockId = SOC_EVENT_UNIT_ADDR c + EU_SOC_LOCK_AREA_OFFSET + EU_SOC_LOCK_AREA_OFFSET_GET lockId"

definition eu_soc_lock_id :: "u32 \<Rightarrow> u32" where
  "eu_soc_lock_id lockAddr = EU_SOC_LOCK_AREA_LOCKID_GET lockAddr"

definition eu_soc_lock_reg :: "'e pulp_bus \<Rightarrow> u32 \<Rightarrow> nat \<Rightarrow> ('e, 'z) machine_scheme \<Rightarrow> ('e, 'z) machine_scheme" where
  "eu_soc_lock_reg b lockAddr clusterId = pulp_write32 b (lockAddr + EU_SOC_LOCK_REG) (push_bit clusterId 1)"

definition eu_soc_lock_unreg :: "'e pulp_bus \<Rightarrow> u32 \<Rightarrow> nat \<Rightarrow> ('e, 'z) machine_scheme \<Rightarrow> ('e, 'z) machine_scheme" where
  "eu_soc_lock_unreg b lockAddr clusterId = pulp_write32 b (lockAddr + EU_SOC_LOCK_UNREG) (push_bit clusterId 1)"

definition eu_soc_lock_set :: "'e pulp_bus \<Rightarrow> u32 \<Rightarrow> u32 \<Rightarrow> ('e, 'z) machine_scheme \<Rightarrow> ('e, 'z) machine_scheme" where
  "eu_soc_lock_set b lockAddr value = pulp_write32 b (lockAddr + EU_SOC_LOCK_VALUE) value"

definition eu_soc_lock_get :: "'e pulp_bus \<Rightarrow> u32 \<Rightarrow> ('e, 'z) machine_scheme \<Rightarrow> u32 \<times> ('e, 'z) machine_scheme" where
  "eu_soc_lock_get b lockAddr = pulp_read32 b (lockAddr + EU_SOC_LOCK_VALUE)"

definition fc_eu_trig :: "'e pulp_bus \<Rightarrow> 'y cluster_config_scheme \<Rightarrow> nat \<Rightarrow> ('e, 'z) machine_scheme \<Rightarrow> ('e, 'z) machine_scheme" where
  "fc_eu_trig b c event = pulp_write32 b (0x50000000 + PULP_CKGATE_OFFSET c + 0x20C) (push_bit event 1)"

definition eu_evt_getClusterBase :: "'y cluster_config_scheme \<Rightarrow> u32 \<Rightarrow> u32" where
  "eu_evt_getClusterBase c coreId =
     ARCHI_CLUSTER_PERIPHERALS_ADDR + ARCHI_EU_OFFSET c + EU_CORE_AREA_OFFSET_GET coreId"

definition eu_core_base :: "'y cluster_config_scheme \<Rightarrow> u32 \<Rightarrow> u32" where
  "eu_core_base c coreId = ARCHI_CLUSTER_PERIPHERALS_ADDR + ARCHI_EU_OFFSET c + EU_CORE_AREA_SIZE * coreId"

section \<open>Areas and their indices\<close>

lemma area_index:
  fixes base i :: u32
  assumes "take_bit k base = 0" and "take_bit n i = i" and "j + n = k" and "k \<le> 32"
  shows "drop_bit j (take_bit k (base + push_bit j i)) = i"
proof -
  have lo: "\<not> bit base m" if "m < k" for m
    using assms(1) that by (metis bit_take_bit_iff bit_0_eq bot_apply bot_bool_def)
  have hi: "\<not> bit i m" if "n \<le> m" for m
    using assms(2) that by (metis bit_take_bit_iff not_le)
  have "base AND push_bit j i = 0"
    using lo hi assms(3) by (intro bit_word_eqI) (auto simp: bit_simps, metis add_diff_inverse_nat nat_add_left_cancel_less not_le not_less)
  then have sum: "base + push_bit j i = base OR push_bit j i" by (rule disjunctive_add_eq_or)
  show ?thesis unfolding sum
  proof (rule bit_word_eqI)
    fix m
    assume "m < LENGTH(32)"
    with lo [of "j + m"] hi [of m] assms(3,4)
    show "bit (drop_bit j (take_bit k (base OR push_bit j i))) m = bit i m"
      by (cases "n \<le> m") (auto simp: bit_simps)
  qed
qed

lemma unat_take_bit: "unat (take_bit n (w :: u32)) = unat w mod 2 ^ n"
  by (simp only: unsigned_take_bit_eq) (simp add: take_bit_eq_mod)

lemma next_area: "take_bit 9 (w :: u32) = 0 \<Longrightarrow> take_bit 9 (w + 0x200) = 0"
proof -
  assume "take_bit 9 w = 0"
  then have "unat w mod 512 = 0" using unat_take_bit [of 9 w] by simp
  then have "(unat w + 512) mod 2 ^ 32 mod 512 = 0" by (subst mod_mod_cancel) simp_all
  then show ?thesis by (simp add: word_unat_eq_iff unat_take_bit unat_word_ariths)
qed

lemma take_bit_self: "unat (w :: u32) < 2 ^ n \<Longrightarrow> take_bit n w = w"
  by (simp add: word_unat_eq_iff unat_take_bit)

lemma mask_take: "x AND (2 ^ k - 1) = take_bit k (x :: u32)"
  by (simp add: take_bit_eq_mask mask_eq_exp_minus_1)

definition cluster_example :: cluster_config where
  "cluster_example = \<lparr>ARCHI_EU_DEMUX_ADDR = 0x204000, ARCHI_EU_OFFSET = 0x800, SOC_EVENT_UNIT_ADDR = 0x1A106000,
     PULP_CKGATE_OFFSET = 0\<rparr>"

text \<open>
  The number of a barrier can be recovered from its address, for the sixteen barriers of an event
  unit that lies at a multiple of the size of their area, and for the thirty-two of the SoC.
\<close>

theorem eu_bar_id_addr:
  assumes "take_bit 9 (ARCHI_EU_DEMUX_ADDR c) = 0" and "barId < 16"
    and "take_bit 8 (SOC_EVENT_UNIT_ADDR c) = 0" and "socBarId < 32"
  shows "eu_bar_id (eu_bar_addr c barId) = barId \<and> eu_soc_bar_id (eu_soc_bar_addr c socBarId) = socBarId"
proof -
  have b: "take_bit 9 (ARCHI_EU_DEMUX_ADDR c + 0x200) = 0"
    using assms(1) by (rule next_area)
  have i: "take_bit 4 barId = barId" "take_bit 5 socBarId = socBarId"
    using assms(2,4) by (simp_all add: take_bit_self word_less_nat_alt)
  from area_index [OF b i(1), of 5] area_index [OF assms(3) i(2), of 3] show ?thesis
    using mask_take [of _ 9] mask_take [of _ 8]
    by (simp add: eu_bar_id_def eu_bar_addr_def eu_soc_bar_id_def eu_soc_bar_addr_def eu_defs push_bit_eq_mult)
qed

theorem eu_bar_id_addr_witness:
  "eu_bar_id (eu_bar_addr cluster_example 5) = 5 \<and> eu_soc_bar_id (eu_soc_bar_addr cluster_example 17) = 17"
  by (rule eu_bar_id_addr) (simp_all add: cluster_example_def take_bit_eq_mod)

text \<open>
  The number of a lock cannot: the area of the locks starts at 0x100 but its size is 0x200, so the
  number that is read back is always off by sixteen.
\<close>

theorem eu_soc_lock_id_off:
  assumes "take_bit 9 (SOC_EVENT_UNIT_ADDR c) = 0" and "lockId < 16"
  shows "eu_soc_lock_id (eu_soc_lock_addr c lockId) = lockId + 16 \<and> eu_soc_lock_id (eu_soc_lock_addr c (lockId + 16)) = lockId"
proof -
  have i: "take_bit 5 (lockId + 16) = lockId + 16" "take_bit 5 lockId = lockId"
    using assms(2) by (simp_all add: take_bit_self word_less_nat_alt unat_word_ariths)
  have b: "take_bit 9 (SOC_EVENT_UNIT_ADDR c + 0x200) = 0"
    using assms(1) by (rule next_area)
  show ?thesis
    using area_index [OF assms(1) i(1), of 4] area_index [OF b i(2), of 4] mask_take [of _ 9]
    by (simp add: eu_soc_lock_id_def eu_soc_lock_addr_def eu_defs push_bit_eq_mult algebra_simps)
qed

end
