(* ===== verification/Mchan.thy ===== *)
theory Mchan
  imports Event_Unit Builtins_Props
begin

text \<open>
  The DMA of the cluster: registers, fields and field macros of \<^verbatim>\<open>archi/dma/mchan_v7.h\<close> (those of the
  fields that are a whole word apart: their macros shift by the width of the word) and the routines
  of \<^verbatim>\<open>hal/dma/mchan_v7.h\<close>, for 32-bit external addresses. A transfer is enqueued by writing its
  command word, its addresses and, for a tile, its line length and stride to one register.
\<close>

section \<open>Registers and fields\<close>

definition MCHAN_CMD_OFFSET :: u32 where "MCHAN_CMD_OFFSET = 0x0"
definition MCHAN_STATUS_OFFSET :: u32 where "MCHAN_STATUS_OFFSET = 0x4"

lemmas mchan_offsets = MCHAN_CMD_OFFSET_def MCHAN_STATUS_OFFSET_def

definition MCHAN_CMD_CMD_BIT :: nat where "MCHAN_CMD_CMD_BIT = 0"
definition MCHAN_CMD_CMD_WIDTH :: nat where "MCHAN_CMD_CMD_WIDTH = 32"
definition MCHAN_STATUS_STATUS_BIT :: nat where "MCHAN_STATUS_STATUS_BIT = 0"
definition MCHAN_STATUS_STATUS_WIDTH :: nat where "MCHAN_STATUS_STATUS_WIDTH = 32"
definition MCHAN_CMD_CMD_LEN_BIT :: nat where "MCHAN_CMD_CMD_LEN_BIT = 0"
definition MCHAN_CMD_CMD_LEN_WIDTH :: nat where "MCHAN_CMD_CMD_LEN_WIDTH = 17"
definition MCHAN_CMD_CMD_TYPE_BIT :: nat where "MCHAN_CMD_CMD_TYPE_BIT = 17"
definition MCHAN_CMD_CMD_TYPE_WIDTH :: nat where "MCHAN_CMD_CMD_TYPE_WIDTH = 1"
definition MCHAN_CMD_CMD_INC_BIT :: nat where "MCHAN_CMD_CMD_INC_BIT = 18"
definition MCHAN_CMD_CMD_INC_WIDTH :: nat where "MCHAN_CMD_CMD_INC_WIDTH = 1"
definition MCHAN_CMD_CMD__2D_EXT_BIT :: nat where "MCHAN_CMD_CMD__2D_EXT_BIT = 19"
definition MCHAN_CMD_CMD__2D_EXT_WIDTH :: nat where "MCHAN_CMD_CMD__2D_EXT_WIDTH = 1"
definition MCHAN_CMD_CMD_ELE_BIT :: nat where "MCHAN_CMD_CMD_ELE_BIT = 20"
definition MCHAN_CMD_CMD_ELE_WIDTH :: nat where "MCHAN_CMD_CMD_ELE_WIDTH = 1"
definition MCHAN_CMD_CMD_ILE_BIT :: nat where "MCHAN_CMD_CMD_ILE_BIT = 21"
definition MCHAN_CMD_CMD_ILE_WIDTH :: nat where "MCHAN_CMD_CMD_ILE_WIDTH = 1"
definition MCHAN_CMD_CMD_BLE_BIT :: nat where "MCHAN_CMD_CMD_BLE_BIT = 22"
definition MCHAN_CMD_CMD_BLE_WIDTH :: nat where "MCHAN_CMD_CMD_BLE_WIDTH = 1"
definition MCHAN_CMD_CMD__2D_TCDM_BIT :: nat where "MCHAN_CMD_CMD__2D_TCDM_BIT = 23"
definition MCHAN_CMD_CMD__2D_TCDM_WIDTH :: nat where "MCHAN_CMD_CMD__2D_TCDM_WIDTH = 1"
definition MCHAN_CMD_GET_TID_TID_BIT :: nat where "MCHAN_CMD_GET_TID_TID_BIT = 0"
definition MCHAN_CMD_GET_TID_TID_WIDTH :: nat where "MCHAN_CMD_GET_TID_TID_WIDTH = 4"
definition MCHAN_CMD_TCDM_ADDR_ADDR_BIT :: nat where "MCHAN_CMD_TCDM_ADDR_ADDR_BIT = 0"
definition MCHAN_CMD_TCDM_ADDR_ADDR_WIDTH :: nat where "MCHAN_CMD_TCDM_ADDR_ADDR_WIDTH = 32"
definition MCHAN_CMD_EXT_ADDR_ADDR_BIT :: nat where "MCHAN_CMD_EXT_ADDR_ADDR_BIT = 0"
definition MCHAN_CMD_EXT_ADDR_ADDR_WIDTH :: nat where "MCHAN_CMD_EXT_ADDR_ADDR_WIDTH = 32"
definition MCHAN_CMD_2D_EXT_COUNT__2D_EXT_COUNT_BIT :: nat where "MCHAN_CMD_2D_EXT_COUNT__2D_EXT_COUNT_BIT = 0"
definition MCHAN_CMD_2D_EXT_COUNT__2D_EXT_COUNT_WIDTH :: nat where "MCHAN_CMD_2D_EXT_COUNT__2D_EXT_COUNT_WIDTH = 32"
definition MCHAN_CMD_2D_EXT_STRIDE__2D_EXT_STRIDE_BIT :: nat where "MCHAN_CMD_2D_EXT_STRIDE__2D_EXT_STRIDE_BIT = 0"
definition MCHAN_CMD_2D_EXT_STRIDE__2D_EXT_STRIDE_WIDTH :: nat where "MCHAN_CMD_2D_EXT_STRIDE__2D_EXT_STRIDE_WIDTH = 32"
definition MCHAN_CMD_2D_TCDM_COUNT__2D_TCDM_COUNT_BIT :: nat where "MCHAN_CMD_2D_TCDM_COUNT__2D_TCDM_COUNT_BIT = 0"
definition MCHAN_CMD_2D_TCDM_COUNT__2D_TCDM_COUNT_WIDTH :: nat where "MCHAN_CMD_2D_TCDM_COUNT__2D_TCDM_COUNT_WIDTH = 32"
definition MCHAN_CMD_2D_TCDM_STRIDE__2D_TCDM_STRIDE_BIT :: nat where "MCHAN_CMD_2D_TCDM_STRIDE__2D_TCDM_STRIDE_BIT = 0"
definition MCHAN_CMD_2D_TCDM_STRIDE__2D_TCDM_STRIDE_WIDTH :: nat where "MCHAN_CMD_2D_TCDM_STRIDE__2D_TCDM_STRIDE_WIDTH = 32"
definition MCHAN_STATUS_STATUS_TID_TR_BIT :: nat where "MCHAN_STATUS_STATUS_TID_TR_BIT = 0"
definition MCHAN_STATUS_STATUS_TID_TR_WIDTH :: nat where "MCHAN_STATUS_STATUS_TID_TR_WIDTH = 16"
definition MCHAN_STATUS_STATUS_TID_ALLOC_BIT :: nat where "MCHAN_STATUS_STATUS_TID_ALLOC_BIT = 16"
definition MCHAN_STATUS_STATUS_TID_ALLOC_WIDTH :: nat where "MCHAN_STATUS_STATUS_TID_ALLOC_WIDTH = 16"
definition MCHAN_STATUS_FREE_TID_TID_FREE_BIT :: nat where "MCHAN_STATUS_FREE_TID_TID_FREE_BIT = 0"
definition MCHAN_STATUS_FREE_TID_TID_FREE_WIDTH :: nat where "MCHAN_STATUS_FREE_TID_TID_FREE_WIDTH = 16"
definition MCHAN_CMD_CMD_MASK :: u32 where "MCHAN_CMD_CMD_MASK = 0xffffffff"
definition MCHAN_STATUS_STATUS_MASK :: u32 where "MCHAN_STATUS_STATUS_MASK = 0xffffffff"
definition MCHAN_CMD_CMD_LEN_MASK :: u32 where "MCHAN_CMD_CMD_LEN_MASK = 0x1ffff"
definition MCHAN_CMD_CMD_TYPE_MASK :: u32 where "MCHAN_CMD_CMD_TYPE_MASK = 0x20000"
definition MCHAN_CMD_CMD_INC_MASK :: u32 where "MCHAN_CMD_CMD_INC_MASK = 0x40000"
definition MCHAN_CMD_CMD__2D_EXT_MASK :: u32 where "MCHAN_CMD_CMD__2D_EXT_MASK = 0x80000"
definition MCHAN_CMD_CMD_ELE_MASK :: u32 where "MCHAN_CMD_CMD_ELE_MASK = 0x100000"
definition MCHAN_CMD_CMD_ILE_MASK :: u32 where "MCHAN_CMD_CMD_ILE_MASK = 0x200000"
definition MCHAN_CMD_CMD_BLE_MASK :: u32 where "MCHAN_CMD_CMD_BLE_MASK = 0x400000"
definition MCHAN_CMD_CMD__2D_TCDM_MASK :: u32 where "MCHAN_CMD_CMD__2D_TCDM_MASK = 0x800000"
definition MCHAN_CMD_GET_TID_TID_MASK :: u32 where "MCHAN_CMD_GET_TID_TID_MASK = 0xf"
definition MCHAN_CMD_TCDM_ADDR_ADDR_MASK :: u32 where "MCHAN_CMD_TCDM_ADDR_ADDR_MASK = 0xffffffff"
definition MCHAN_CMD_EXT_ADDR_ADDR_MASK :: u32 where "MCHAN_CMD_EXT_ADDR_ADDR_MASK = 0xffffffff"
definition MCHAN_CMD_2D_EXT_COUNT__2D_EXT_COUNT_MASK :: u32 where "MCHAN_CMD_2D_EXT_COUNT__2D_EXT_COUNT_MASK = 0xffffffff"
definition MCHAN_CMD_2D_EXT_STRIDE__2D_EXT_STRIDE_MASK :: u32 where "MCHAN_CMD_2D_EXT_STRIDE__2D_EXT_STRIDE_MASK = 0xffffffff"
definition MCHAN_CMD_2D_TCDM_COUNT__2D_TCDM_COUNT_MASK :: u32 where "MCHAN_CMD_2D_TCDM_COUNT__2D_TCDM_COUNT_MASK = 0xffffffff"
definition MCHAN_CMD_2D_TCDM_STRIDE__2D_TCDM_STRIDE_MASK :: u32 where "MCHAN_CMD_2D_TCDM_STRIDE__2D_TCDM_STRIDE_MASK = 0xffffffff"
definition MCHAN_STATUS_STATUS_TID_TR_MASK :: u32 where "MCHAN_STATUS_STATUS_TID_TR_MASK = 0xffff"
definition MCHAN_STATUS_STATUS_TID_ALLOC_MASK :: u32 where "MCHAN_STATUS_STATUS_TID_ALLOC_MASK = 0xffff0000"
definition MCHAN_STATUS_FREE_TID_TID_FREE_MASK :: u32 where "MCHAN_STATUS_FREE_TID_TID_FREE_MASK = 0xffff"

lemmas mchan_fields = MCHAN_CMD_CMD_BIT_def MCHAN_CMD_CMD_WIDTH_def MCHAN_STATUS_STATUS_BIT_def
  MCHAN_STATUS_STATUS_WIDTH_def MCHAN_CMD_CMD_LEN_BIT_def MCHAN_CMD_CMD_LEN_WIDTH_def
  MCHAN_CMD_CMD_TYPE_BIT_def MCHAN_CMD_CMD_TYPE_WIDTH_def MCHAN_CMD_CMD_INC_BIT_def
  MCHAN_CMD_CMD_INC_WIDTH_def MCHAN_CMD_CMD__2D_EXT_BIT_def MCHAN_CMD_CMD__2D_EXT_WIDTH_def
  MCHAN_CMD_CMD_ELE_BIT_def MCHAN_CMD_CMD_ELE_WIDTH_def MCHAN_CMD_CMD_ILE_BIT_def MCHAN_CMD_CMD_ILE_WIDTH_def
  MCHAN_CMD_CMD_BLE_BIT_def MCHAN_CMD_CMD_BLE_WIDTH_def MCHAN_CMD_CMD__2D_TCDM_BIT_def
  MCHAN_CMD_CMD__2D_TCDM_WIDTH_def MCHAN_CMD_GET_TID_TID_BIT_def MCHAN_CMD_GET_TID_TID_WIDTH_def
  MCHAN_CMD_TCDM_ADDR_ADDR_BIT_def MCHAN_CMD_TCDM_ADDR_ADDR_WIDTH_def MCHAN_CMD_EXT_ADDR_ADDR_BIT_def
  MCHAN_CMD_EXT_ADDR_ADDR_WIDTH_def MCHAN_CMD_2D_EXT_COUNT__2D_EXT_COUNT_BIT_def
  MCHAN_CMD_2D_EXT_COUNT__2D_EXT_COUNT_WIDTH_def MCHAN_CMD_2D_EXT_STRIDE__2D_EXT_STRIDE_BIT_def
  MCHAN_CMD_2D_EXT_STRIDE__2D_EXT_STRIDE_WIDTH_def MCHAN_CMD_2D_TCDM_COUNT__2D_TCDM_COUNT_BIT_def
  MCHAN_CMD_2D_TCDM_COUNT__2D_TCDM_COUNT_WIDTH_def MCHAN_CMD_2D_TCDM_STRIDE__2D_TCDM_STRIDE_BIT_def
  MCHAN_CMD_2D_TCDM_STRIDE__2D_TCDM_STRIDE_WIDTH_def MCHAN_STATUS_STATUS_TID_TR_BIT_def
  MCHAN_STATUS_STATUS_TID_TR_WIDTH_def MCHAN_STATUS_STATUS_TID_ALLOC_BIT_def
  MCHAN_STATUS_STATUS_TID_ALLOC_WIDTH_def MCHAN_STATUS_FREE_TID_TID_FREE_BIT_def
  MCHAN_STATUS_FREE_TID_TID_FREE_WIDTH_def MCHAN_CMD_CMD_MASK_def MCHAN_STATUS_STATUS_MASK_def
  MCHAN_CMD_CMD_LEN_MASK_def MCHAN_CMD_CMD_TYPE_MASK_def MCHAN_CMD_CMD_INC_MASK_def
  MCHAN_CMD_CMD__2D_EXT_MASK_def MCHAN_CMD_CMD_ELE_MASK_def MCHAN_CMD_CMD_ILE_MASK_def
  MCHAN_CMD_CMD_BLE_MASK_def MCHAN_CMD_CMD__2D_TCDM_MASK_def MCHAN_CMD_GET_TID_TID_MASK_def
  MCHAN_CMD_TCDM_ADDR_ADDR_MASK_def MCHAN_CMD_EXT_ADDR_ADDR_MASK_def
  MCHAN_CMD_2D_EXT_COUNT__2D_EXT_COUNT_MASK_def MCHAN_CMD_2D_EXT_STRIDE__2D_EXT_STRIDE_MASK_def
  MCHAN_CMD_2D_TCDM_COUNT__2D_TCDM_COUNT_MASK_def MCHAN_CMD_2D_TCDM_STRIDE__2D_TCDM_STRIDE_MASK_def
  MCHAN_STATUS_STATUS_TID_TR_MASK_def MCHAN_STATUS_STATUS_TID_ALLOC_MASK_def
  MCHAN_STATUS_FREE_TID_TID_FREE_MASK_def

definition MCHAN_CMD_CMD :: "u32 \<Rightarrow> u32" where "MCHAN_CMD_CMD val = push_bit 0 val"
definition MCHAN_STATUS_STATUS :: "u32 \<Rightarrow> u32" where "MCHAN_STATUS_STATUS val = push_bit 0 val"
definition MCHAN_CMD_CMD_LEN_GET :: "u32 \<Rightarrow> u32" where "MCHAN_CMD_CMD_LEN_GET value = BITEXTRACTU value 17 0"
definition MCHAN_CMD_CMD_LEN_GETS :: "u32 \<Rightarrow> u32" where "MCHAN_CMD_CMD_LEN_GETS value = BITEXTRACT value 17 0"
definition MCHAN_CMD_CMD_LEN_SET :: "u32 \<Rightarrow> u32 \<Rightarrow> u32" where "MCHAN_CMD_CMD_LEN_SET value field = BITINSERT value field 17 0"
definition MCHAN_CMD_CMD_LEN :: "u32 \<Rightarrow> u32" where "MCHAN_CMD_CMD_LEN val = push_bit 0 val"
definition MCHAN_CMD_CMD_TYPE_GET :: "u32 \<Rightarrow> u32" where "MCHAN_CMD_CMD_TYPE_GET value = BITEXTRACTU value 1 17"
definition MCHAN_CMD_CMD_TYPE_GETS :: "u32 \<Rightarrow> u32" where "MCHAN_CMD_CMD_TYPE_GETS value = BITEXTRACT value 1 17"
definition MCHAN_CMD_CMD_TYPE_SET :: "u32 \<Rightarrow> u32 \<Rightarrow> u32" where "MCHAN_CMD_CMD_TYPE_SET value field = BITINSERT value field 1 17"
definition MCHAN_CMD_CMD_TYPE :: "u32 \<Rightarrow> u32" where "MCHAN_CMD_CMD_TYPE val = push_bit 17 val"
definition MCHAN_CMD_CMD_INC_GET :: "u32 \<Rightarrow> u32" where "MCHAN_CMD_CMD_INC_GET value = BITEXTRACTU value 1 18"
definition MCHAN_CMD_CMD_INC_GETS :: "u32 \<Rightarrow> u32" where "MCHAN_CMD_CMD_INC_GETS value = BITEXTRACT value 1 18"
definition MCHAN_CMD_CMD_INC_SET :: "u32 \<Rightarrow> u32 \<Rightarrow> u32" where "MCHAN_CMD_CMD_INC_SET value field = BITINSERT value field 1 18"
definition MCHAN_CMD_CMD_INC :: "u32 \<Rightarrow> u32" where "MCHAN_CMD_CMD_INC val = push_bit 18 val"
definition MCHAN_CMD_CMD__2D_EXT_GET :: "u32 \<Rightarrow> u32" where "MCHAN_CMD_CMD__2D_EXT_GET value = BITEXTRACTU value 1 19"
definition MCHAN_CMD_CMD__2D_EXT_GETS :: "u32 \<Rightarrow> u32" where "MCHAN_CMD_CMD__2D_EXT_GETS value = BITEXTRACT value 1 19"
definition MCHAN_CMD_CMD__2D_EXT_SET :: "u32 \<Rightarrow> u32 \<Rightarrow> u32" where "MCHAN_CMD_CMD__2D_EXT_SET value field = BITINSERT value field 1 19"
definition MCHAN_CMD_CMD__2D_EXT :: "u32 \<Rightarrow> u32" where "MCHAN_CMD_CMD__2D_EXT val = push_bit 19 val"
definition MCHAN_CMD_CMD_ELE_GET :: "u32 \<Rightarrow> u32" where "MCHAN_CMD_CMD_ELE_GET value = BITEXTRACTU value 1 20"
definition MCHAN_CMD_CMD_ELE_GETS :: "u32 \<Rightarrow> u32" where "MCHAN_CMD_CMD_ELE_GETS value = BITEXTRACT value 1 20"
definition MCHAN_CMD_CMD_ELE_SET :: "u32 \<Rightarrow> u32 \<Rightarrow> u32" where "MCHAN_CMD_CMD_ELE_SET value field = BITINSERT value field 1 20"
definition MCHAN_CMD_CMD_ELE :: "u32 \<Rightarrow> u32" where "MCHAN_CMD_CMD_ELE val = push_bit 20 val"
definition MCHAN_CMD_CMD_ILE_GET :: "u32 \<Rightarrow> u32" where "MCHAN_CMD_CMD_ILE_GET value = BITEXTRACTU value 1 21"
definition MCHAN_CMD_CMD_ILE_GETS :: "u32 \<Rightarrow> u32" where "MCHAN_CMD_CMD_ILE_GETS value = BITEXTRACT value 1 21"
definition MCHAN_CMD_CMD_ILE_SET :: "u32 \<Rightarrow> u32 \<Rightarrow> u32" where "MCHAN_CMD_CMD_ILE_SET value field = BITINSERT value field 1 21"
definition MCHAN_CMD_CMD_ILE :: "u32 \<Rightarrow> u32" where "MCHAN_CMD_CMD_ILE val = push_bit 21 val"
definition MCHAN_CMD_CMD_BLE_GET :: "u32 \<Rightarrow> u32" where "MCHAN_CMD_CMD_BLE_GET value = BITEXTRACTU value 1 22"
definition MCHAN_CMD_CMD_BLE_GETS :: "u32 \<Rightarrow> u32" where "MCHAN_CMD_CMD_BLE_GETS value = BITEXTRACT value 1 22"
definition MCHAN_CMD_CMD_BLE_SET :: "u32 \<Rightarrow> u32 \<Rightarrow> u32" where "MCHAN_CMD_CMD_BLE_SET value field = BITINSERT value field 1 22"
definition MCHAN_CMD_CMD_BLE :: "u32 \<Rightarrow> u32" where "MCHAN_CMD_CMD_BLE val = push_bit 22 val"
definition MCHAN_CMD_CMD__2D_TCDM_GET :: "u32 \<Rightarrow> u32" where "MCHAN_CMD_CMD__2D_TCDM_GET value = BITEXTRACTU value 1 23"
definition MCHAN_CMD_CMD__2D_TCDM_GETS :: "u32 \<Rightarrow> u32" where "MCHAN_CMD_CMD__2D_TCDM_GETS value = BITEXTRACT value 1 23"
definition MCHAN_CMD_CMD__2D_TCDM_SET :: "u32 \<Rightarrow> u32 \<Rightarrow> u32" where "MCHAN_CMD_CMD__2D_TCDM_SET value field = BITINSERT value field 1 23"
definition MCHAN_CMD_CMD__2D_TCDM :: "u32 \<Rightarrow> u32" where "MCHAN_CMD_CMD__2D_TCDM val = push_bit 23 val"
definition MCHAN_CMD_GET_TID_TID_GET :: "u32 \<Rightarrow> u32" where "MCHAN_CMD_GET_TID_TID_GET value = BITEXTRACTU value 4 0"
definition MCHAN_CMD_GET_TID_TID_GETS :: "u32 \<Rightarrow> u32" where "MCHAN_CMD_GET_TID_TID_GETS value = BITEXTRACT value 4 0"
definition MCHAN_CMD_GET_TID_TID_SET :: "u32 \<Rightarrow> u32 \<Rightarrow> u32" where "MCHAN_CMD_GET_TID_TID_SET value field = BITINSERT value field 4 0"
definition MCHAN_CMD_GET_TID_TID :: "u32 \<Rightarrow> u32" where "MCHAN_CMD_GET_TID_TID val = push_bit 0 val"
definition MCHAN_CMD_TCDM_ADDR_ADDR :: "u32 \<Rightarrow> u32" where "MCHAN_CMD_TCDM_ADDR_ADDR val = push_bit 0 val"
definition MCHAN_CMD_EXT_ADDR_ADDR :: "u32 \<Rightarrow> u32" where "MCHAN_CMD_EXT_ADDR_ADDR val = push_bit 0 val"
definition MCHAN_CMD_2D_EXT_COUNT__2D_EXT_COUNT :: "u32 \<Rightarrow> u32" where "MCHAN_CMD_2D_EXT_COUNT__2D_EXT_COUNT val = push_bit 0 val"
definition MCHAN_CMD_2D_EXT_STRIDE__2D_EXT_STRIDE :: "u32 \<Rightarrow> u32" where "MCHAN_CMD_2D_EXT_STRIDE__2D_EXT_STRIDE val = push_bit 0 val"
definition MCHAN_CMD_2D_TCDM_COUNT__2D_TCDM_COUNT :: "u32 \<Rightarrow> u32" where "MCHAN_CMD_2D_TCDM_COUNT__2D_TCDM_COUNT val = push_bit 0 val"
definition MCHAN_CMD_2D_TCDM_STRIDE__2D_TCDM_STRIDE :: "u32 \<Rightarrow> u32" where "MCHAN_CMD_2D_TCDM_STRIDE__2D_TCDM_STRIDE val = push_bit 0 val"
definition MCHAN_STATUS_STATUS_TID_TR_GET :: "u32 \<Rightarrow> u32" where "MCHAN_STATUS_STATUS_TID_TR_GET value = BITEXTRACTU value 16 0"
definition MCHAN_STATUS_STATUS_TID_TR_GETS :: "u32 \<Rightarrow> u32" where "MCHAN_STATUS_STATUS_TID_TR_GETS value = BITEXTRACT value 16 0"
definition MCHAN_STATUS_STATUS_TID_TR_SET :: "u32 \<Rightarrow> u32 \<Rightarrow> u32" where "MCHAN_STATUS_STATUS_TID_TR_SET value field = BITINSERT value field 16 0"
definition MCHAN_STATUS_STATUS_TID_TR :: "u32 \<Rightarrow> u32" where "MCHAN_STATUS_STATUS_TID_TR val = push_bit 0 val"
definition MCHAN_STATUS_STATUS_TID_ALLOC_GET :: "u32 \<Rightarrow> u32" where "MCHAN_STATUS_STATUS_TID_ALLOC_GET value = BITEXTRACTU value 16 16"
definition MCHAN_STATUS_STATUS_TID_ALLOC_GETS :: "u32 \<Rightarrow> u32" where "MCHAN_STATUS_STATUS_TID_ALLOC_GETS value = BITEXTRACT value 16 16"
definition MCHAN_STATUS_STATUS_TID_ALLOC_SET :: "u32 \<Rightarrow> u32 \<Rightarrow> u32" where "MCHAN_STATUS_STATUS_TID_ALLOC_SET value field = BITINSERT value field 16 16"
definition MCHAN_STATUS_STATUS_TID_ALLOC :: "u32 \<Rightarrow> u32" where "MCHAN_STATUS_STATUS_TID_ALLOC val = push_bit 16 val"
definition MCHAN_STATUS_FREE_TID_TID_FREE_GET :: "u32 \<Rightarrow> u32" where "MCHAN_STATUS_FREE_TID_TID_FREE_GET value = BITEXTRACTU value 16 0"
definition MCHAN_STATUS_FREE_TID_TID_FREE_GETS :: "u32 \<Rightarrow> u32" where "MCHAN_STATUS_FREE_TID_TID_FREE_GETS value = BITEXTRACT value 16 0"
definition MCHAN_STATUS_FREE_TID_TID_FREE_SET :: "u32 \<Rightarrow> u32 \<Rightarrow> u32" where "MCHAN_STATUS_FREE_TID_TID_FREE_SET value field = BITINSERT value field 16 0"
definition MCHAN_STATUS_FREE_TID_TID_FREE :: "u32 \<Rightarrow> u32" where "MCHAN_STATUS_FREE_TID_TID_FREE val = push_bit 0 val"

lemmas mchan_gets = MCHAN_CMD_CMD_LEN_GET_def MCHAN_CMD_CMD_TYPE_GET_def MCHAN_CMD_CMD_INC_GET_def
  MCHAN_CMD_CMD__2D_EXT_GET_def MCHAN_CMD_CMD_ELE_GET_def MCHAN_CMD_CMD_ILE_GET_def MCHAN_CMD_CMD_BLE_GET_def
  MCHAN_CMD_CMD__2D_TCDM_GET_def MCHAN_CMD_GET_TID_TID_GET_def MCHAN_STATUS_STATUS_TID_TR_GET_def
  MCHAN_STATUS_STATUS_TID_ALLOC_GET_def MCHAN_STATUS_FREE_TID_TID_FREE_GET_def

definition mchan_cmd_get :: "'e pulp_bus \<Rightarrow> u32 \<Rightarrow> ('e, 'z) machine_scheme \<Rightarrow> u32 \<times> ('e, 'z) machine_scheme" where
  "mchan_cmd_get b base = ARCHI_READ b base MCHAN_CMD_OFFSET"

definition mchan_cmd_set :: "'e pulp_bus \<Rightarrow> u32 \<Rightarrow> u32 \<Rightarrow> ('e, 'z) machine_scheme \<Rightarrow> ('e, 'z) machine_scheme" where
  "mchan_cmd_set b base value = ARCHI_WRITE b base MCHAN_CMD_OFFSET value"

definition mchan_status_get :: "'e pulp_bus \<Rightarrow> u32 \<Rightarrow> ('e, 'z) machine_scheme \<Rightarrow> u32 \<times> ('e, 'z) machine_scheme" where
  "mchan_status_get b base = ARCHI_READ b base MCHAN_STATUS_OFFSET"

definition mchan_status_set :: "'e pulp_bus \<Rightarrow> u32 \<Rightarrow> u32 \<Rightarrow> ('e, 'z) machine_scheme \<Rightarrow> ('e, 'z) machine_scheme" where
  "mchan_status_set b base value = ARCHI_WRITE b base MCHAN_STATUS_OFFSET value"

section \<open>Commands\<close>

text \<open>The addresses and the event number that the headers of a chip with a cluster would define.\<close>

record dma_config = cluster_config +
  ARCHI_MCHAN_EXT_ADDR :: u32
  ARCHI_CL_EVT_DMA0 :: nat

definition PLP_DMA_LOC2EXT :: u32 where "PLP_DMA_LOC2EXT = 0"
definition PLP_DMA_EXT2LOC :: u32 where "PLP_DMA_EXT2LOC = 1"
definition PLP_DMA_1D :: u32 where "PLP_DMA_1D = 0"
definition PLP_DMA_2D :: u32 where "PLP_DMA_2D = 1"
definition PLP_DMA_NO_TRIG_EVT :: u32 where "PLP_DMA_NO_TRIG_EVT = 0"
definition PLP_DMA_TRIG_EVT :: u32 where "PLP_DMA_TRIG_EVT = 1"
definition PLP_DMA_NO_TRIG_IRQ :: u32 where "PLP_DMA_NO_TRIG_IRQ = 0"
definition PLP_DMA_TRIG_IRQ :: u32 where "PLP_DMA_TRIG_IRQ = 1"
definition PLP_DMA_PRIV :: u32 where "PLP_DMA_PRIV = 0"
definition PLP_DMA_SHARED :: u32 where "PLP_DMA_SHARED = 1"
definition PLP_DMA_FIX :: u32 where "PLP_DMA_FIX = 0"
definition PLP_DMA_INC :: u32 where "PLP_DMA_INC = 1"

lemmas dma_consts = PLP_DMA_LOC2EXT_def PLP_DMA_EXT2LOC_def PLP_DMA_1D_def PLP_DMA_2D_def
  PLP_DMA_NO_TRIG_EVT_def PLP_DMA_TRIG_EVT_def PLP_DMA_NO_TRIG_IRQ_def PLP_DMA_TRIG_IRQ_def PLP_DMA_PRIV_def
  PLP_DMA_SHARED_def PLP_DMA_FIX_def PLP_DMA_INC_def

definition DMA_WRITE :: "'e pulp_bus \<Rightarrow> dma_config \<Rightarrow> u32 \<Rightarrow> u32 \<Rightarrow> ('e, 'z) machine_scheme \<Rightarrow> ('e, 'z) machine_scheme" where
  "DMA_WRITE b c value offset = pulp_write32 b (ARCHI_MCHAN_EXT_ADDR c + offset) value"

definition DMA_READ :: "'e pulp_bus \<Rightarrow> dma_config \<Rightarrow> u32 \<Rightarrow> ('e, 'z) machine_scheme \<Rightarrow> u32 \<times> ('e, 'z) machine_scheme" where
  "DMA_READ b c offset = pulp_read32 b (ARCHI_MCHAN_EXT_ADDR c + offset)"

definition plp_dma_counter_alloc :: "'e pulp_bus \<Rightarrow> dma_config \<Rightarrow> ('e, 'z) machine_scheme \<Rightarrow> u32 \<times> ('e, 'z) machine_scheme" where
  "plp_dma_counter_alloc b c = DMA_READ b c MCHAN_CMD_OFFSET"

text \<open>A shift of a 32-bit value uses the low five bits of the amount.\<close>

definition counter_bit :: "u32 \<Rightarrow> u32" where
  "counter_bit counter = push_bit (unat (take_bit 5 counter)) 1"

definition plp_dma_counter_free :: "'e pulp_bus \<Rightarrow> dma_config \<Rightarrow> u32 \<Rightarrow> ('e, 'z) machine_scheme \<Rightarrow> ('e, 'z) machine_scheme" where
  "plp_dma_counter_free b c counter = DMA_WRITE b c (counter_bit counter) MCHAN_STATUS_OFFSET"

definition plp_dma_getCmd :: "u32 \<Rightarrow> u32 \<Rightarrow> u32 \<Rightarrow> u32 \<Rightarrow> u32 \<Rightarrow> u32 \<Rightarrow> u32" where
  "plp_dma_getCmd ext2loc sz is2D trigEvt trigIrq broadcast =
     (let res = builtin_bitinsert 0 ext2loc 1 MCHAN_CMD_CMD_TYPE_BIT;
          res = builtin_bitinsert res PLP_DMA_INC 1 MCHAN_CMD_CMD_INC_BIT;
          res = builtin_bitinsert res is2D 1 MCHAN_CMD_CMD__2D_EXT_BIT;
          res = builtin_bitinsert res sz MCHAN_CMD_CMD_LEN_WIDTH MCHAN_CMD_CMD_LEN_BIT;
          res = builtin_bitinsert res trigEvt 1 MCHAN_CMD_CMD_ELE_BIT;
          res = builtin_bitinsert res trigIrq 1 MCHAN_CMD_CMD_ILE_BIT;
          res = builtin_bitinsert res broadcast 1 MCHAN_CMD_CMD_BLE_BIT
      in res)"

definition plp_dma_cmd_push :: "'e pulp_bus \<Rightarrow> dma_config \<Rightarrow> u32 \<Rightarrow> u32 \<Rightarrow> u32 \<Rightarrow> ('e, 'z) machine_scheme \<Rightarrow> ('e, 'z) machine_scheme" where
  "plp_dma_cmd_push b c cmd locAddr extAddr s =
     (let s = DMA_WRITE b c cmd MCHAN_CMD_OFFSET s;
          s = DMA_WRITE b c locAddr MCHAN_CMD_OFFSET s
      in DMA_WRITE b c extAddr MCHAN_CMD_OFFSET s)"

definition plp_dma_cmd_push_2d :: "'e pulp_bus \<Rightarrow> dma_config \<Rightarrow> u32 \<Rightarrow> u32 \<Rightarrow> u32 \<Rightarrow> u32 \<Rightarrow> u32 \<Rightarrow> ('e, 'z) machine_scheme \<Rightarrow> ('e, 'z) machine_scheme" where
  "plp_dma_cmd_push_2d b c cmd locAddr extAddr stride len s =
     (let s = plp_dma_cmd_push b c cmd locAddr extAddr s;
          s = DMA_WRITE b c len MCHAN_CMD_OFFSET s
      in DMA_WRITE b c stride MCHAN_CMD_OFFSET s)"

section \<open>Transfers\<close>

definition plp_dma_memcpy :: "'e pulp_bus \<Rightarrow> dma_config \<Rightarrow> u32 \<Rightarrow> u32 \<Rightarrow> u16 \<Rightarrow> u32 \<Rightarrow> ('e, 'z) machine_scheme \<Rightarrow> u32 \<times> ('e, 'z) machine_scheme" where
  "plp_dma_memcpy b c ext_addr loc sz ext2loc s =
     (case plp_dma_counter_alloc b c s of (counter, s) \<Rightarrow>
        let cmd = plp_dma_getCmd ext2loc (ucast sz) PLP_DMA_1D PLP_DMA_TRIG_EVT PLP_DMA_NO_TRIG_IRQ PLP_DMA_SHARED
        in (counter, plp_dma_cmd_push b c cmd loc ext_addr s))"

definition plp_dma_l1ToExt :: "'e pulp_bus \<Rightarrow> dma_config \<Rightarrow> u32 \<Rightarrow> u32 \<Rightarrow> u16 \<Rightarrow> ('e, 'z) machine_scheme \<Rightarrow> u32 \<times> ('e, 'z) machine_scheme" where
  "plp_dma_l1ToExt b c ext_addr loc sz s =
     (case plp_dma_counter_alloc b c s of (counter, s) \<Rightarrow>
        let cmd = plp_dma_getCmd PLP_DMA_LOC2EXT (ucast sz) PLP_DMA_1D PLP_DMA_TRIG_EVT PLP_DMA_NO_TRIG_IRQ PLP_DMA_SHARED
        in (counter, plp_dma_cmd_push b c cmd loc ext_addr s))"

definition plp_dma_extToL1 :: "'e pulp_bus \<Rightarrow> dma_config \<Rightarrow> u32 \<Rightarrow> u32 \<Rightarrow> u16 \<Rightarrow> ('e, 'z) machine_scheme \<Rightarrow> u32 \<times> ('e, 'z) machine_scheme" where
  "plp_dma_extToL1 b c loc ext_addr sz s =
     (case plp_dma_counter_alloc b c s of (counter, s) \<Rightarrow>
        let cmd = plp_dma_getCmd PLP_DMA_EXT2LOC (ucast sz) PLP_DMA_1D PLP_DMA_TRIG_EVT PLP_DMA_NO_TRIG_IRQ PLP_DMA_SHARED
        in (counter, plp_dma_cmd_push b c cmd loc ext_addr s))"

definition plp_dma_memcpy_irq :: "'e pulp_bus \<Rightarrow> dma_config \<Rightarrow> u32 \<Rightarrow> u32 \<Rightarrow> u16 \<Rightarrow> u32 \<Rightarrow> ('e, 'z) machine_scheme \<Rightarrow> u32 \<times> ('e, 'z) machine_scheme" where
  "plp_dma_memcpy_irq b c ext_addr loc sz ext2loc s =
     (case plp_dma_counter_alloc b c s of (counter, s) \<Rightarrow>
        let cmd = plp_dma_getCmd ext2loc (ucast sz) PLP_DMA_1D PLP_DMA_NO_TRIG_EVT PLP_DMA_TRIG_IRQ PLP_DMA_SHARED
        in (counter, plp_dma_cmd_push b c cmd loc ext_addr s))"

definition plp_dma_l1ToExt_irq :: "'e pulp_bus \<Rightarrow> dma_config \<Rightarrow> u32 \<Rightarrow> u32 \<Rightarrow> u16 \<Rightarrow> ('e, 'z) machine_scheme \<Rightarrow> u32 \<times> ('e, 'z) machine_scheme" where
  "plp_dma_l1ToExt_irq b c ext_addr loc sz s =
     (case plp_dma_counter_alloc b c s of (counter, s) \<Rightarrow>
        let cmd = plp_dma_getCmd PLP_DMA_LOC2EXT (ucast sz) PLP_DMA_1D PLP_DMA_NO_TRIG_EVT PLP_DMA_TRIG_IRQ PLP_DMA_SHARED
        in (counter, plp_dma_cmd_push b c cmd loc ext_addr s))"

definition plp_dma_extToL1_irq :: "'e pulp_bus \<Rightarrow> dma_config \<Rightarrow> u32 \<Rightarrow> u32 \<Rightarrow> u16 \<Rightarrow> ('e, 'z) machine_scheme \<Rightarrow> u32 \<times> ('e, 'z) machine_scheme" where
  "plp_dma_extToL1_irq b c loc ext_addr sz s =
     (case plp_dma_counter_alloc b c s of (counter, s) \<Rightarrow>
        let cmd = plp_dma_getCmd PLP_DMA_EXT2LOC (ucast sz) PLP_DMA_1D PLP_DMA_NO_TRIG_EVT PLP_DMA_TRIG_IRQ PLP_DMA_SHARED
        in (counter, plp_dma_cmd_push b c cmd loc ext_addr s))"

definition plp_dma_memcpy_2d_keepCounter :: "'e pulp_bus \<Rightarrow> dma_config \<Rightarrow> u32 \<Rightarrow> u32 \<Rightarrow> u16 \<Rightarrow> u16 \<Rightarrow> u16 \<Rightarrow> u32 \<Rightarrow> ('e, 'z) machine_scheme \<Rightarrow> ('e, 'z) machine_scheme" where
  "plp_dma_memcpy_2d_keepCounter b c ext_addr loc sz stride len ext2loc s =
     (let cmd = plp_dma_getCmd ext2loc (ucast sz) PLP_DMA_2D PLP_DMA_TRIG_EVT PLP_DMA_NO_TRIG_IRQ PLP_DMA_SHARED
      in plp_dma_cmd_push_2d b c cmd loc ext_addr (ucast stride) (ucast len) s)"

definition plp_dma_memcpy_2d :: "'e pulp_bus \<Rightarrow> dma_config \<Rightarrow> u32 \<Rightarrow> u32 \<Rightarrow> u16 \<Rightarrow> u16 \<Rightarrow> u16 \<Rightarrow> u32 \<Rightarrow> ('e, 'z) machine_scheme \<Rightarrow> u32 \<times> ('e, 'z) machine_scheme" where
  "plp_dma_memcpy_2d b c ext_addr loc sz stride len ext2loc s =
     (case plp_dma_counter_alloc b c s of (counter, s) \<Rightarrow>
        (counter, plp_dma_memcpy_2d_keepCounter b c ext_addr loc sz stride len ext2loc s))"

definition plp_dma_l1ToExt_2d :: "'e pulp_bus \<Rightarrow> dma_config \<Rightarrow> u32 \<Rightarrow> u32 \<Rightarrow> u16 \<Rightarrow> u16 \<Rightarrow> u16 \<Rightarrow> ('e, 'z) machine_scheme \<Rightarrow> u32 \<times> ('e, 'z) machine_scheme" where
  "plp_dma_l1ToExt_2d b c ext_addr loc sz stride len s =
     (case plp_dma_counter_alloc b c s of (counter, s) \<Rightarrow>
        let cmd = plp_dma_getCmd PLP_DMA_LOC2EXT (ucast sz) PLP_DMA_2D PLP_DMA_TRIG_EVT PLP_DMA_NO_TRIG_IRQ PLP_DMA_SHARED
        in (counter, plp_dma_cmd_push_2d b c cmd loc ext_addr (ucast stride) (ucast len) s))"

definition plp_dma_extToL1_2d :: "'e pulp_bus \<Rightarrow> dma_config \<Rightarrow> u32 \<Rightarrow> u32 \<Rightarrow> u16 \<Rightarrow> u16 \<Rightarrow> u16 \<Rightarrow> ('e, 'z) machine_scheme \<Rightarrow> u32 \<times> ('e, 'z) machine_scheme" where
  "plp_dma_extToL1_2d b c loc ext_addr sz stride len s =
     (case plp_dma_counter_alloc b c s of (counter, s) \<Rightarrow>
        let cmd = plp_dma_getCmd PLP_DMA_EXT2LOC (ucast sz) PLP_DMA_2D PLP_DMA_TRIG_EVT PLP_DMA_NO_TRIG_IRQ PLP_DMA_SHARED
        in (counter, plp_dma_cmd_push_2d b c cmd loc ext_addr (ucast stride) (ucast len) s))"

definition plp_dma_memcpy_2d_irq :: "'e pulp_bus \<Rightarrow> dma_config \<Rightarrow> u32 \<Rightarrow> u32 \<Rightarrow> u16 \<Rightarrow> u16 \<Rightarrow> u16 \<Rightarrow> u32 \<Rightarrow> ('e, 'z) machine_scheme \<Rightarrow> u32 \<times> ('e, 'z) machine_scheme" where
  "plp_dma_memcpy_2d_irq b c ext_addr loc sz stride len ext2loc s =
     (case plp_dma_counter_alloc b c s of (counter, s) \<Rightarrow>
        let cmd = plp_dma_getCmd ext2loc (ucast sz) PLP_DMA_2D PLP_DMA_NO_TRIG_EVT PLP_DMA_TRIG_IRQ PLP_DMA_SHARED
        in (counter, plp_dma_cmd_push_2d b c cmd loc ext_addr (ucast stride) (ucast len) s))"

definition plp_dma_l1ToExt_2d_irq :: "'e pulp_bus \<Rightarrow> dma_config \<Rightarrow> u32 \<Rightarrow> u32 \<Rightarrow> u16 \<Rightarrow> u16 \<Rightarrow> u16 \<Rightarrow> ('e, 'z) machine_scheme \<Rightarrow> u32 \<times> ('e, 'z) machine_scheme" where
  "plp_dma_l1ToExt_2d_irq b c ext_addr loc sz stride len s =
     (case plp_dma_counter_alloc b c s of (counter, s) \<Rightarrow>
        let cmd = plp_dma_getCmd PLP_DMA_LOC2EXT (ucast sz) PLP_DMA_2D PLP_DMA_NO_TRIG_EVT PLP_DMA_TRIG_IRQ PLP_DMA_SHARED
        in (counter, plp_dma_cmd_push_2d b c cmd loc ext_addr (ucast stride) (ucast len) s))"

definition plp_dma_extToL1_2d_irq :: "'e pulp_bus \<Rightarrow> dma_config \<Rightarrow> u32 \<Rightarrow> u32 \<Rightarrow> u16 \<Rightarrow> u16 \<Rightarrow> u16 \<Rightarrow> ('e, 'z) machine_scheme \<Rightarrow> u32 \<times> ('e, 'z) machine_scheme" where
  "plp_dma_extToL1_2d_irq b c loc ext_addr sz stride len s =
     (case plp_dma_counter_alloc b c s of (counter, s) \<Rightarrow>
        let cmd = plp_dma_getCmd PLP_DMA_EXT2LOC (ucast sz) PLP_DMA_2D PLP_DMA_NO_TRIG_EVT PLP_DMA_TRIG_IRQ PLP_DMA_SHARED
        in (counter, plp_dma_cmd_push_2d b c cmd loc ext_addr (ucast stride) (ucast len) s))"

section \<open>Waiting\<close>

text \<open>Both waiting routines sleep between two looks at the status register.\<close>

partial_function (option) dma_sleep_while ::
  "'e pulp_bus \<Rightarrow> dma_config \<Rightarrow> u32 \<Rightarrow> ('e, 'z) machine_scheme \<Rightarrow> ('e, 'z) machine_scheme option" where
  "dma_sleep_while b c busy s =
     (case DMA_READ b c MCHAN_STATUS_OFFSET s of (status, s) \<Rightarrow>
        if status AND busy \<noteq> 0
        then dma_sleep_while b c busy
               (snd (eu_evt_maskWaitAndClr b c (push_bit (ARCHI_CL_EVT_DMA0 c) 1) s))
        else Some s)"

definition plp_dma_barrier :: "'e pulp_bus \<Rightarrow> dma_config \<Rightarrow> ('e, 'z) machine_scheme \<Rightarrow> ('e, 'z) machine_scheme option" where
  "plp_dma_barrier b c s =
     do {
       s \<leftarrow> dma_sleep_while b c 0xFFFF s;
       Some (DMA_WRITE b c (- 1) MCHAN_STATUS_OFFSET s)
     }"

definition plp_dma_wait :: "'e pulp_bus \<Rightarrow> dma_config \<Rightarrow> u32 \<Rightarrow> ('e, 'z) machine_scheme \<Rightarrow> ('e, 'z) machine_scheme option" where
  "plp_dma_wait b c counter s =
     do {
       s \<leftarrow> dma_sleep_while b c (counter_bit counter) s;
       Some (plp_dma_counter_free b c counter s)
     }"

definition plp_dma_status :: "'e pulp_bus \<Rightarrow> dma_config \<Rightarrow> ('e, 'z) machine_scheme \<Rightarrow> u32 \<times> ('e, 'z) machine_scheme" where
  "plp_dma_status b c = DMA_READ b c MCHAN_STATUS_OFFSET"

end
