(* ===== verification/Reg_Layouts.thy ===== *)
theory Reg_Layouts
  imports Timer Gpio Udma_I2s Mchan
begin

text \<open>
  The register types of the generated headers. A register is described there three times: by the
  members of a bit field structure in a union with the raw word, by a position, a width and a mask
  for every field, and by macros that read and insert fields; and the block of registers twice, by
  offsets and by a structure. Bit fields are allocated from the least significant bit on, as the
  compiler of the target does; the members of the packed structure of a block are consecutive words.
  The properties compare the descriptions.
\<close>

section \<open>Layouts\<close>

type_synonym layout = "(string \<times> nat) list"

fun bit_fields :: "nat \<Rightarrow> layout \<Rightarrow> (string \<times> nat \<times> nat) list" where
  "bit_fields p [] = []"
| "bit_fields p ((n, w) # fs) = (n, p, w) # bit_fields (p + w) fs"

definition member :: "layout \<Rightarrow> string \<Rightarrow> (nat \<times> nat) option" where
  "member lay n = map_of (bit_fields 0 lay) n"

definition member_get :: "layout \<Rightarrow> string \<Rightarrow> u32 \<Rightarrow> u32 option" where
  "member_get lay n raw = map_option (\<lambda>(p, w). take_bit w (drop_bit p raw)) (member lay n)"

definition member_set :: "layout \<Rightarrow> string \<Rightarrow> u32 \<Rightarrow> u32 \<Rightarrow> u32 option" where
  "member_set lay n v raw =
     map_option (\<lambda>(p, w). (raw AND NOT (push_bit p (mask w))) OR push_bit p (take_bit w v)) (member lay n)"

fun word_offsets :: "u32 \<Rightarrow> string list \<Rightarrow> (string \<times> u32) list" where
  "word_offsets p [] = []"
| "word_offsets p (n # ns) = (n, p) # word_offsets (p + 4) ns"

section \<open>The types\<close>

text \<open>Registers of \<^verbatim>\<open>archi/timer/timer_v2.h\<close>.\<close>

definition timer_cfg_lo_bits :: layout where "timer_cfg_lo_bits = [(''enable'', 1), (''reset'', 1),
  (''irqen'', 1), (''iem'', 1), (''mode'', 1), (''one_s'', 1), (''pen'', 1), (''ccfg'', 1), (''pval'', 8),
  (''padding0'', 15), (''casc'', 1)]"
definition timer_cfg_hi_bits :: layout where "timer_cfg_hi_bits = [(''enable'', 1), (''reset'', 1),
  (''irqen'', 1), (''iem'', 1), (''mode'', 1), (''one_s'', 1), (''pen'', 1), (''clkcfg'', 1)]"
definition timer_cnt_lo_t :: layout where "timer_cnt_lo_t = [(''cnt_lo'', 32)]"
definition timer_cnt_hi_t :: layout where "timer_cnt_hi_t = [(''cnt_hi'', 32)]"
definition timer_cmp_lo_t :: layout where "timer_cmp_lo_t = [(''cmp_lo'', 32)]"
definition timer_cmp_hi_t :: layout where "timer_cmp_hi_t = [(''cmp_hi'', 32)]"
definition timer_start_lo_t :: layout where "timer_start_lo_t = [(''strt_lo'', 1)]"
definition timer_start_hi_t :: layout where "timer_start_hi_t = [(''strt_hi'', 1)]"
definition timer_reset_lo_t :: layout where "timer_reset_lo_t = [(''rst_lo'', 1)]"
definition timer_reset_hi_t :: layout where "timer_reset_hi_t = [(''rst_hi'', 1)]"
definition timer_timer_t :: "string list" where "timer_timer_t = [''cfg_lo'', ''cfg_hi'', ''cnt_lo'',
  ''cnt_hi'', ''cmp_lo'', ''cmp_hi'', ''start_lo'', ''start_hi'', ''reset_lo'', ''reset_hi'']"

text \<open>Registers of \<^verbatim>\<open>archi/gpio/gpio_v3.h\<close>.\<close>

definition gpio_paddir_t :: layout where "gpio_paddir_t = [(''dir'', 32)]"
definition gpio_gpioen_t :: layout where "gpio_gpioen_t = [(''gpioen'', 32)]"
definition gpio_padin_t :: layout where "gpio_padin_t = [(''data_in'', 32)]"
definition gpio_padout_t :: layout where "gpio_padout_t = [(''data_out'', 32)]"
definition gpio_padoutset_t :: layout where "gpio_padoutset_t = [(''data_set'', 32)]"
definition gpio_padoutclr_t :: layout where "gpio_padoutclr_t = [(''data_clear'', 32)]"
definition gpio_inten_t :: layout where "gpio_inten_t = [(''inten'', 32)]"
definition gpio_inttype0_t :: layout where "gpio_inttype0_t = [(''inttype0'', 32)]"
definition gpio_inttype1_t :: layout where "gpio_inttype1_t = [(''inttype1'', 32)]"
definition gpio_intstatus_t :: layout where "gpio_intstatus_t = [(''intstatus'', 32)]"
definition gpio_padcfg0_t :: layout where "gpio_padcfg0_t = [(''gpio0_cfg'', 4), (''gpio1_cfg'', 4),
  (''gpio2_cfg'', 4), (''gpio3_cfg'', 4), (''gpio4_cfg'', 4), (''gpio5_cfg'', 4), (''gpio6_cfg'', 4),
  (''gpio7_cfg'', 4)]"
definition gpio_padcfg1_t :: layout where "gpio_padcfg1_t = [(''gpio4_pe'', 1), (''gpio4_ds'', 1)]"
definition gpio_padcfg2_t :: layout where "gpio_padcfg2_t = []"
definition gpio_padcfg3_t :: layout where "gpio_padcfg3_t = []"
definition gpio_paddir_32_63_t :: layout where "gpio_paddir_32_63_t = [(''dir'', 32)]"
definition gpio_gpioen_32_63_t :: layout where "gpio_gpioen_32_63_t = [(''gpioen'', 32)]"
definition gpio_padin_32_63_t :: layout where "gpio_padin_32_63_t = [(''data_in'', 32)]"
definition gpio_padout_32_63_t :: layout where "gpio_padout_32_63_t = [(''data_out'', 32)]"
definition gpio_padoutset_32_63_t :: layout where "gpio_padoutset_32_63_t = [(''data_set'', 32)]"
definition gpio_padoutclr_32_63_t :: layout where "gpio_padoutclr_32_63_t = [(''data_clear'', 32)]"
definition gpio_inten_32_63_t :: layout where "gpio_inten_32_63_t = [(''inten'', 32)]"
definition gpio_inttype_32_47_t :: layout where "gpio_inttype_32_47_t = [(''inttype0'', 32)]"
definition gpio_inttype_48_63_t :: layout where "gpio_inttype_48_63_t = [(''inttype1'', 32)]"
definition gpio_intstatus_32_63_t :: layout where "gpio_intstatus_32_63_t = [(''intstatus'', 32)]"
definition gpio_padcfg_32_39_t :: layout where "gpio_padcfg_32_39_t = []"
definition gpio_padcfg_40_47_t :: layout where "gpio_padcfg_40_47_t = []"
definition gpio_padcfg_48_55_t :: layout where "gpio_padcfg_48_55_t = []"
definition gpio_padcfg_56_63_t :: layout where "gpio_padcfg_56_63_t = []"
definition gpio_gpio_t :: "string list" where "gpio_gpio_t = [''paddir'', ''gpioen'', ''padin'', ''padout'',
  ''padoutset'', ''padoutclr'', ''inten'', ''inttype0'', ''inttype1'', ''intstatus'', ''padcfg0'',
  ''padcfg1'', ''padcfg2'', ''padcfg3'', ''paddir_32_63'', ''gpioen_32_63'', ''padin_32_63'',
  ''padout_32_63'', ''padoutset_32_63'', ''padoutclr_32_63'', ''inten_32_63'', ''inttype_32_47'',
  ''inttype_48_63'', ''intstatus_32_63'', ''padcfg_32_39'', ''padcfg_40_47'', ''padcfg_48_55'',
  ''padcfg_56_63'']"

text \<open>Registers of \<^verbatim>\<open>archi/itc/itc_v1.h\<close>.\<close>

definition itc_mask_t :: layout where "itc_mask_t = []"
definition itc_mask_set_t :: layout where "itc_mask_set_t = []"
definition itc_mask_clr_t :: layout where "itc_mask_clr_t = []"
definition itc_status_t :: layout where "itc_status_t = []"
definition itc_status_set_t :: layout where "itc_status_set_t = []"
definition itc_status_clr_t :: layout where "itc_status_clr_t = []"
definition itc_ack_t :: layout where "itc_ack_t = []"
definition itc_ack_set_t :: layout where "itc_ack_set_t = []"
definition itc_ack_clr_t :: layout where "itc_ack_clr_t = []"
definition itc_fifo_t :: layout where "itc_fifo_t = []"
definition itc_itc_t :: "string list" where "itc_itc_t = [''mask'', ''mask_set'', ''mask_clr'', ''status'',
  ''status_set'', ''status_clr'', ''ack'', ''ack_set'', ''ack_clr'', ''fifo'']"

text \<open>Registers of \<^verbatim>\<open>archi/udma/cpi/udma_cpi_v1.h\<close>.\<close>

definition udma_cpi_cam_rx_saddr_t :: layout where "udma_cpi_cam_rx_saddr_t = [(''rx_saddr'', 16)]"
definition udma_cpi_cam_rx_size_t :: layout where "udma_cpi_cam_rx_size_t = [(''rx_size'', 17)]"
definition udma_cpi_cam_rx_cfg_t :: layout where "udma_cpi_cam_rx_cfg_t = [(''continous'', 1),
  (''datasize'', 2), (''padding0'', 1), (''en'', 1), (''pending'', 1), (''clr'', 1)]"
definition udma_cpi_cam_rx_initcfg_t :: layout where "udma_cpi_cam_rx_initcfg_t = []"
definition udma_cpi_cam_tx_saddr_t :: layout where "udma_cpi_cam_tx_saddr_t = []"
definition udma_cpi_cam_tx_size_t :: layout where "udma_cpi_cam_tx_size_t = []"
definition udma_cpi_cam_tx_cfg_t :: layout where "udma_cpi_cam_tx_cfg_t = []"
definition udma_cpi_cam_tx_initcfg_t :: layout where "udma_cpi_cam_tx_initcfg_t = []"
definition udma_cpi_cam_cfg_glob_t :: layout where "udma_cpi_cam_cfg_glob_t = [(''framedrop_en'', 1),
  (''framedrop_val'', 6), (''frameslice_en'', 1), (''format'', 3), (''shift'', 4), (''padding0'', 16),
  (''en'', 1)]"
definition udma_cpi_cam_cfg_ll_t :: layout where "udma_cpi_cam_cfg_ll_t = [(''frameslice_llx'', 16),
  (''frameslice_lly'', 16)]"
definition udma_cpi_cam_cfg_ur_t :: layout where "udma_cpi_cam_cfg_ur_t = [(''frameslice_urx'', 16),
  (''frameslice_ury'', 16)]"
definition udma_cpi_cam_cfg_size_t :: layout where "udma_cpi_cam_cfg_size_t = [(''padding0'', 16),
  (''rowlen'', 16)]"
definition udma_cpi_cam_cfg_filter_t :: layout where "udma_cpi_cam_cfg_filter_t = [(''b_coeff'', 8),
  (''g_coeff'', 8), (''r_coeff'', 8)]"
definition udma_cpi_cam_vsync_polarity_t :: layout where "udma_cpi_cam_vsync_polarity_t =
  [(''vsync_polarity'', 1)]"
definition udma_cpi_udma_cpi_t :: "string list" where "udma_cpi_udma_cpi_t = [''cam_rx_saddr'',
  ''cam_rx_size'', ''cam_rx_cfg'', ''cam_rx_initcfg'', ''cam_tx_saddr'', ''cam_tx_size'', ''cam_tx_cfg'',
  ''cam_tx_initcfg'', ''cam_cfg_glob'', ''cam_cfg_ll'', ''cam_cfg_ur'', ''cam_cfg_size'',
  ''cam_cfg_filter'', ''cam_vsync_polarity'']"

text \<open>Registers of \<^verbatim>\<open>archi/udma/i2s/udma_i2s_v2.h\<close>.\<close>

definition udma_i2s_i2s_rx_saddr_t :: layout where "udma_i2s_i2s_rx_saddr_t = [(''rx_saddr'', 16)]"
definition udma_i2s_i2s_rx_size_t :: layout where "udma_i2s_i2s_rx_size_t = [(''rx_size'', 17)]"
definition udma_i2s_i2s_rx_cfg_t :: layout where "udma_i2s_i2s_rx_cfg_t = [(''continous'', 1),
  (''datasize'', 2), (''padding0'', 1), (''en'', 1), (''clr'', 1), (''pending'', 1)]"
definition udma_i2s_i2s_rx_initcfg_t :: layout where "udma_i2s_i2s_rx_initcfg_t = []"
definition udma_i2s_i2s_tx_saddr_t :: layout where "udma_i2s_i2s_tx_saddr_t = [(''tx_saddr'', 16)]"
definition udma_i2s_i2s_tx_size_t :: layout where "udma_i2s_i2s_tx_size_t = [(''tx_size'', 17)]"
definition udma_i2s_i2s_tx_cfg_t :: layout where "udma_i2s_i2s_tx_cfg_t = [(''continous'', 1),
  (''datasize'', 2), (''padding0'', 1), (''en'', 1), (''clr'', 1), (''pending'', 1)]"
definition udma_i2s_i2s_tx_initcfg_t :: layout where "udma_i2s_i2s_tx_initcfg_t = []"
definition udma_i2s_i2s_clkcfg_setup_t :: layout where "udma_i2s_i2s_clkcfg_setup_t = [(''master_clk_div'',
  8), (''slave_clk_div'', 8), (''common_clk_div'', 8), (''slave_clk_en'', 1), (''master_clk_en'', 1),
  (''pdm_clk_en'', 1), (''padding0'', 1), (''slave_ext'', 1), (''slave_num'', 1), (''master_ext'', 1),
  (''master_num'', 1)]"
definition udma_i2s_i2s_slv_setup_t :: layout where "udma_i2s_i2s_slv_setup_t = [(''slave_words'', 3),
  (''padding0'', 5), (''slave_bits'', 5), (''padding1'', 3), (''slave_lsb'', 1), (''slave_2ch'', 1),
  (''padding2'', 13), (''slave_en'', 1)]"
definition udma_i2s_i2s_mst_setup_t :: layout where "udma_i2s_i2s_mst_setup_t = [(''master_words'', 3),
  (''padding0'', 5), (''master_bits'', 5), (''padding1'', 3), (''master_lsb'', 1), (''master_2ch'', 1),
  (''padding2'', 13), (''master_en'', 1)]"
definition udma_i2s_i2s_pdm_setup_t :: layout where "udma_i2s_i2s_pdm_setup_t = [(''pdm_shift'', 3),
  (''pdm_decimation'', 10), (''pdm_mode'', 2), (''padding0'', 16), (''pdm_en'', 1)]"
definition udma_i2s_udma_i2s_t :: "string list" where "udma_i2s_udma_i2s_t = [''i2s_rx_saddr'',
  ''i2s_rx_size'', ''i2s_rx_cfg'', ''i2s_rx_initcfg'', ''i2s_tx_saddr'', ''i2s_tx_size'', ''i2s_tx_cfg'',
  ''i2s_tx_initcfg'', ''i2s_clkcfg_setup'', ''i2s_slv_setup'', ''i2s_mst_setup'', ''i2s_pdm_setup'']"

section \<open>The two other descriptions\<close>

text \<open>For every register type its fields with position, width and mask.\<close>

definition timer_fields_table :: "(layout \<times> (string \<times> nat \<times> nat \<times> u32) list) list" where
  "timer_fields_table = [(timer_cfg_lo_bits, [(''enable'', TIMER_CFG_LO_ENABLE_BIT,
    TIMER_CFG_LO_ENABLE_WIDTH, TIMER_CFG_LO_ENABLE_MASK), (''reset'', TIMER_CFG_LO_RESET_BIT,
    TIMER_CFG_LO_RESET_WIDTH, TIMER_CFG_LO_RESET_MASK), (''irqen'', TIMER_CFG_LO_IRQEN_BIT,
    TIMER_CFG_LO_IRQEN_WIDTH, TIMER_CFG_LO_IRQEN_MASK), (''iem'', TIMER_CFG_LO_IEM_BIT,
    TIMER_CFG_LO_IEM_WIDTH, TIMER_CFG_LO_IEM_MASK), (''mode'', TIMER_CFG_LO_MODE_BIT,
    TIMER_CFG_LO_MODE_WIDTH, TIMER_CFG_LO_MODE_MASK), (''one_s'', TIMER_CFG_LO_ONE_S_BIT,
    TIMER_CFG_LO_ONE_S_WIDTH, TIMER_CFG_LO_ONE_S_MASK), (''pen'', TIMER_CFG_LO_PEN_BIT,
    TIMER_CFG_LO_PEN_WIDTH, TIMER_CFG_LO_PEN_MASK), (''ccfg'', TIMER_CFG_LO_CCFG_BIT,
    TIMER_CFG_LO_CCFG_WIDTH, TIMER_CFG_LO_CCFG_MASK), (''pval'', TIMER_CFG_LO_PVAL_BIT,
    TIMER_CFG_LO_PVAL_WIDTH, TIMER_CFG_LO_PVAL_MASK), (''casc'', TIMER_CFG_LO_CASC_BIT,
    TIMER_CFG_LO_CASC_WIDTH, TIMER_CFG_LO_CASC_MASK)]), (timer_cfg_hi_bits, [(''enable'',
    TIMER_CFG_HI_ENABLE_BIT, TIMER_CFG_HI_ENABLE_WIDTH, TIMER_CFG_HI_ENABLE_MASK), (''reset'',
    TIMER_CFG_HI_RESET_BIT, TIMER_CFG_HI_RESET_WIDTH, TIMER_CFG_HI_RESET_MASK), (''irqen'',
    TIMER_CFG_HI_IRQEN_BIT, TIMER_CFG_HI_IRQEN_WIDTH, TIMER_CFG_HI_IRQEN_MASK), (''iem'',
    TIMER_CFG_HI_IEM_BIT, TIMER_CFG_HI_IEM_WIDTH, TIMER_CFG_HI_IEM_MASK), (''mode'', TIMER_CFG_HI_MODE_BIT,
    TIMER_CFG_HI_MODE_WIDTH, TIMER_CFG_HI_MODE_MASK), (''one_s'', TIMER_CFG_HI_ONE_S_BIT,
    TIMER_CFG_HI_ONE_S_WIDTH, TIMER_CFG_HI_ONE_S_MASK), (''pen'', TIMER_CFG_HI_PEN_BIT,
    TIMER_CFG_HI_PEN_WIDTH, TIMER_CFG_HI_PEN_MASK), (''clkcfg'', TIMER_CFG_HI_CLKCFG_BIT,
    TIMER_CFG_HI_CLKCFG_WIDTH, TIMER_CFG_HI_CLKCFG_MASK)]), (timer_cnt_lo_t, [(''cnt_lo'',
    TIMER_CNT_LO_CNT_LO_BIT, TIMER_CNT_LO_CNT_LO_WIDTH, TIMER_CNT_LO_CNT_LO_MASK)]), (timer_cnt_hi_t,
    [(''cnt_hi'', TIMER_CNT_HI_CNT_HI_BIT, TIMER_CNT_HI_CNT_HI_WIDTH, TIMER_CNT_HI_CNT_HI_MASK)]),
    (timer_cmp_lo_t, [(''cmp_lo'', TIMER_CMP_LO_CMP_LO_BIT, TIMER_CMP_LO_CMP_LO_WIDTH,
    TIMER_CMP_LO_CMP_LO_MASK)]), (timer_cmp_hi_t, [(''cmp_hi'', TIMER_CMP_HI_CMP_HI_BIT,
    TIMER_CMP_HI_CMP_HI_WIDTH, TIMER_CMP_HI_CMP_HI_MASK)]), (timer_start_lo_t, [(''strt_lo'',
    TIMER_START_LO_STRT_LO_BIT, TIMER_START_LO_STRT_LO_WIDTH, TIMER_START_LO_STRT_LO_MASK)]),
    (timer_start_hi_t, [(''strt_hi'', TIMER_START_HI_STRT_HI_BIT, TIMER_START_HI_STRT_HI_WIDTH,
    TIMER_START_HI_STRT_HI_MASK)]), (timer_reset_lo_t, [(''rst_lo'', TIMER_RESET_LO_RST_LO_BIT,
    TIMER_RESET_LO_RST_LO_WIDTH, TIMER_RESET_LO_RST_LO_MASK)]), (timer_reset_hi_t, [(''rst_hi'',
    TIMER_RESET_HI_RST_HI_BIT, TIMER_RESET_HI_RST_HI_WIDTH, TIMER_RESET_HI_RST_HI_MASK)])]"

definition gpio_fields_table :: "(layout \<times> (string \<times> nat \<times> nat \<times> u32) list) list" where
  "gpio_fields_table = [(gpio_paddir_t, [(''dir'', GPIO_PADDIR_DIR_BIT, GPIO_PADDIR_DIR_WIDTH,
    GPIO_PADDIR_DIR_MASK)]), (gpio_gpioen_t, [(''gpioen'', GPIO_GPIOEN_GPIOEN_BIT, GPIO_GPIOEN_GPIOEN_WIDTH,
    GPIO_GPIOEN_GPIOEN_MASK)]), (gpio_padin_t, [(''data_in'', GPIO_PADIN_DATA_IN_BIT,
    GPIO_PADIN_DATA_IN_WIDTH, GPIO_PADIN_DATA_IN_MASK)]), (gpio_padout_t, [(''data_out'',
    GPIO_PADOUT_DATA_OUT_BIT, GPIO_PADOUT_DATA_OUT_WIDTH, GPIO_PADOUT_DATA_OUT_MASK)]), (gpio_padoutset_t,
    [(''data_set'', GPIO_PADOUTSET_DATA_SET_BIT, GPIO_PADOUTSET_DATA_SET_WIDTH,
    GPIO_PADOUTSET_DATA_SET_MASK)]), (gpio_padoutclr_t, [(''data_clear'', GPIO_PADOUTCLR_DATA_CLEAR_BIT,
    GPIO_PADOUTCLR_DATA_CLEAR_WIDTH, GPIO_PADOUTCLR_DATA_CLEAR_MASK)]), (gpio_inten_t, [(''inten'',
    GPIO_INTEN_INTEN_BIT, GPIO_INTEN_INTEN_WIDTH, GPIO_INTEN_INTEN_MASK)]), (gpio_inttype0_t,
    [(''inttype0'', GPIO_INTTYPE0_INTTYPE0_BIT, GPIO_INTTYPE0_INTTYPE0_WIDTH,
    GPIO_INTTYPE0_INTTYPE0_MASK)]), (gpio_inttype1_t, [(''inttype1'', GPIO_INTTYPE1_INTTYPE1_BIT,
    GPIO_INTTYPE1_INTTYPE1_WIDTH, GPIO_INTTYPE1_INTTYPE1_MASK)]), (gpio_intstatus_t, [(''intstatus'',
    GPIO_INTSTATUS_INTSTATUS_BIT, GPIO_INTSTATUS_INTSTATUS_WIDTH, GPIO_INTSTATUS_INTSTATUS_MASK)]),
    (gpio_padcfg0_t, [(''gpio0_cfg'', GPIO_PADCFG0_GPIO0_CFG_BIT, GPIO_PADCFG0_GPIO0_CFG_WIDTH,
    GPIO_PADCFG0_GPIO0_CFG_MASK), (''gpio1_cfg'', GPIO_PADCFG0_GPIO1_CFG_BIT, GPIO_PADCFG0_GPIO1_CFG_WIDTH,
    GPIO_PADCFG0_GPIO1_CFG_MASK), (''gpio2_cfg'', GPIO_PADCFG0_GPIO2_CFG_BIT, GPIO_PADCFG0_GPIO2_CFG_WIDTH,
    GPIO_PADCFG0_GPIO2_CFG_MASK), (''gpio3_cfg'', GPIO_PADCFG0_GPIO3_CFG_BIT, GPIO_PADCFG0_GPIO3_CFG_WIDTH,
    GPIO_PADCFG0_GPIO3_CFG_MASK), (''gpio4_cfg'', GPIO_PADCFG0_GPIO4_CFG_BIT, GPIO_PADCFG0_GPIO4_CFG_WIDTH,
    GPIO_PADCFG0_GPIO4_CFG_MASK), (''gpio5_cfg'', GPIO_PADCFG0_GPIO5_CFG_BIT, GPIO_PADCFG0_GPIO5_CFG_WIDTH,
    GPIO_PADCFG0_GPIO5_CFG_MASK), (''gpio6_cfg'', GPIO_PADCFG0_GPIO6_CFG_BIT, GPIO_PADCFG0_GPIO6_CFG_WIDTH,
    GPIO_PADCFG0_GPIO6_CFG_MASK), (''gpio7_cfg'', GPIO_PADCFG0_GPIO7_CFG_BIT, GPIO_PADCFG0_GPIO7_CFG_WIDTH,
    GPIO_PADCFG0_GPIO7_CFG_MASK)]), (gpio_padcfg1_t, [(''gpio4_pe'', GPIO_PADCFG1_GPIO4_PE_BIT,
    GPIO_PADCFG1_GPIO4_PE_WIDTH, GPIO_PADCFG1_GPIO4_PE_MASK), (''gpio4_ds'', GPIO_PADCFG1_GPIO4_DS_BIT,
    GPIO_PADCFG1_GPIO4_DS_WIDTH, GPIO_PADCFG1_GPIO4_DS_MASK)]), (gpio_paddir_32_63_t, [(''dir'',
    GPIO_PADDIR_32_63_DIR_BIT, GPIO_PADDIR_32_63_DIR_WIDTH, GPIO_PADDIR_32_63_DIR_MASK)]),
    (gpio_gpioen_32_63_t, [(''gpioen'', GPIO_GPIOEN_32_63_GPIOEN_BIT, GPIO_GPIOEN_32_63_GPIOEN_WIDTH,
    GPIO_GPIOEN_32_63_GPIOEN_MASK)]), (gpio_padin_32_63_t, [(''data_in'', GPIO_PADIN_32_63_DATA_IN_BIT,
    GPIO_PADIN_32_63_DATA_IN_WIDTH, GPIO_PADIN_32_63_DATA_IN_MASK)]), (gpio_padout_32_63_t, [(''data_out'',
    GPIO_PADOUT_32_63_DATA_OUT_BIT, GPIO_PADOUT_32_63_DATA_OUT_WIDTH, GPIO_PADOUT_32_63_DATA_OUT_MASK)]),
    (gpio_padoutset_32_63_t, [(''data_set'', GPIO_PADOUTSET_32_63_DATA_SET_BIT,
    GPIO_PADOUTSET_32_63_DATA_SET_WIDTH, GPIO_PADOUTSET_32_63_DATA_SET_MASK)]), (gpio_padoutclr_32_63_t,
    [(''data_clear'', GPIO_PADOUTCLR_32_63_DATA_CLEAR_BIT, GPIO_PADOUTCLR_32_63_DATA_CLEAR_WIDTH,
    GPIO_PADOUTCLR_32_63_DATA_CLEAR_MASK)]), (gpio_inten_32_63_t, [(''inten'', GPIO_INTEN_32_63_INTEN_BIT,
    GPIO_INTEN_32_63_INTEN_WIDTH, GPIO_INTEN_32_63_INTEN_MASK)]), (gpio_inttype_32_47_t, [(''inttype0'',
    GPIO_INTTYPE_32_47_INTTYPE0_BIT, GPIO_INTTYPE_32_47_INTTYPE0_WIDTH, GPIO_INTTYPE_32_47_INTTYPE0_MASK)]),
    (gpio_inttype_48_63_t, [(''inttype1'', GPIO_INTTYPE_48_63_INTTYPE1_BIT,
    GPIO_INTTYPE_48_63_INTTYPE1_WIDTH, GPIO_INTTYPE_48_63_INTTYPE1_MASK)]), (gpio_intstatus_32_63_t,
    [(''intstatus'', GPIO_INTSTATUS_32_63_INTSTATUS_BIT, GPIO_INTSTATUS_32_63_INTSTATUS_WIDTH,
    GPIO_INTSTATUS_32_63_INTSTATUS_MASK)])]"

definition cpi_fields_table :: "(layout \<times> (string \<times> nat \<times> nat \<times> u32) list) list" where
  "cpi_fields_table = [(udma_cpi_cam_rx_saddr_t, [(''rx_saddr'', UDMA_CPI_CAM_RX_SADDR_RX_SADDR_BIT,
    UDMA_CPI_CAM_RX_SADDR_RX_SADDR_WIDTH, UDMA_CPI_CAM_RX_SADDR_RX_SADDR_MASK)]), (udma_cpi_cam_rx_size_t,
    [(''rx_size'', UDMA_CPI_CAM_RX_SIZE_RX_SIZE_BIT, UDMA_CPI_CAM_RX_SIZE_RX_SIZE_WIDTH,
    UDMA_CPI_CAM_RX_SIZE_RX_SIZE_MASK)]), (udma_cpi_cam_rx_cfg_t, [(''continous'',
    UDMA_CPI_CAM_RX_CFG_CONTINOUS_BIT, UDMA_CPI_CAM_RX_CFG_CONTINOUS_WIDTH,
    UDMA_CPI_CAM_RX_CFG_CONTINOUS_MASK), (''datasize'', UDMA_CPI_CAM_RX_CFG_DATASIZE_BIT,
    UDMA_CPI_CAM_RX_CFG_DATASIZE_WIDTH, UDMA_CPI_CAM_RX_CFG_DATASIZE_MASK), (''en'',
    UDMA_CPI_CAM_RX_CFG_EN_BIT, UDMA_CPI_CAM_RX_CFG_EN_WIDTH, UDMA_CPI_CAM_RX_CFG_EN_MASK), (''pending'',
    UDMA_CPI_CAM_RX_CFG_PENDING_BIT, UDMA_CPI_CAM_RX_CFG_PENDING_WIDTH, UDMA_CPI_CAM_RX_CFG_PENDING_MASK),
    (''clr'', UDMA_CPI_CAM_RX_CFG_CLR_BIT, UDMA_CPI_CAM_RX_CFG_CLR_WIDTH, UDMA_CPI_CAM_RX_CFG_CLR_MASK)]),
    (udma_cpi_cam_cfg_glob_t, [(''framedrop_en'', UDMA_CPI_CAM_CFG_GLOB_FRAMEDROP_EN_BIT,
    UDMA_CPI_CAM_CFG_GLOB_FRAMEDROP_EN_WIDTH, UDMA_CPI_CAM_CFG_GLOB_FRAMEDROP_EN_MASK), (''framedrop_val'',
    UDMA_CPI_CAM_CFG_GLOB_FRAMEDROP_VAL_BIT, UDMA_CPI_CAM_CFG_GLOB_FRAMEDROP_VAL_WIDTH,
    UDMA_CPI_CAM_CFG_GLOB_FRAMEDROP_VAL_MASK), (''frameslice_en'', UDMA_CPI_CAM_CFG_GLOB_FRAMESLICE_EN_BIT,
    UDMA_CPI_CAM_CFG_GLOB_FRAMESLICE_EN_WIDTH, UDMA_CPI_CAM_CFG_GLOB_FRAMESLICE_EN_MASK), (''format'',
    UDMA_CPI_CAM_CFG_GLOB_FORMAT_BIT, UDMA_CPI_CAM_CFG_GLOB_FORMAT_WIDTH,
    UDMA_CPI_CAM_CFG_GLOB_FORMAT_MASK), (''shift'', UDMA_CPI_CAM_CFG_GLOB_SHIFT_BIT,
    UDMA_CPI_CAM_CFG_GLOB_SHIFT_WIDTH, UDMA_CPI_CAM_CFG_GLOB_SHIFT_MASK), (''en'',
    UDMA_CPI_CAM_CFG_GLOB_EN_BIT, UDMA_CPI_CAM_CFG_GLOB_EN_WIDTH, UDMA_CPI_CAM_CFG_GLOB_EN_MASK)]),
    (udma_cpi_cam_cfg_ll_t, [(''frameslice_llx'', UDMA_CPI_CAM_CFG_LL_FRAMESLICE_LLX_BIT,
    UDMA_CPI_CAM_CFG_LL_FRAMESLICE_LLX_WIDTH, UDMA_CPI_CAM_CFG_LL_FRAMESLICE_LLX_MASK), (''frameslice_lly'',
    UDMA_CPI_CAM_CFG_LL_FRAMESLICE_LLY_BIT, UDMA_CPI_CAM_CFG_LL_FRAMESLICE_LLY_WIDTH,
    UDMA_CPI_CAM_CFG_LL_FRAMESLICE_LLY_MASK)]), (udma_cpi_cam_cfg_ur_t, [(''frameslice_urx'',
    UDMA_CPI_CAM_CFG_UR_FRAMESLICE_URX_BIT, UDMA_CPI_CAM_CFG_UR_FRAMESLICE_URX_WIDTH,
    UDMA_CPI_CAM_CFG_UR_FRAMESLICE_URX_MASK), (''frameslice_ury'', UDMA_CPI_CAM_CFG_UR_FRAMESLICE_URY_BIT,
    UDMA_CPI_CAM_CFG_UR_FRAMESLICE_URY_WIDTH, UDMA_CPI_CAM_CFG_UR_FRAMESLICE_URY_MASK)]),
    (udma_cpi_cam_cfg_size_t, [(''rowlen'', UDMA_CPI_CAM_CFG_SIZE_ROWLEN_BIT,
    UDMA_CPI_CAM_CFG_SIZE_ROWLEN_WIDTH, UDMA_CPI_CAM_CFG_SIZE_ROWLEN_MASK)]), (udma_cpi_cam_cfg_filter_t,
    [(''b_coeff'', UDMA_CPI_CAM_CFG_FILTER_B_COEFF_BIT, UDMA_CPI_CAM_CFG_FILTER_B_COEFF_WIDTH,
    UDMA_CPI_CAM_CFG_FILTER_B_COEFF_MASK), (''g_coeff'', UDMA_CPI_CAM_CFG_FILTER_G_COEFF_BIT,
    UDMA_CPI_CAM_CFG_FILTER_G_COEFF_WIDTH, UDMA_CPI_CAM_CFG_FILTER_G_COEFF_MASK), (''r_coeff'',
    UDMA_CPI_CAM_CFG_FILTER_R_COEFF_BIT, UDMA_CPI_CAM_CFG_FILTER_R_COEFF_WIDTH,
    UDMA_CPI_CAM_CFG_FILTER_R_COEFF_MASK)]), (udma_cpi_cam_vsync_polarity_t, [(''vsync_polarity'',
    UDMA_CPI_CAM_VSYNC_POLARITY_VSYNC_POLARITY_BIT, UDMA_CPI_CAM_VSYNC_POLARITY_VSYNC_POLARITY_WIDTH,
    UDMA_CPI_CAM_VSYNC_POLARITY_VSYNC_POLARITY_MASK)])]"

definition i2s_fields_table :: "(layout \<times> (string \<times> nat \<times> nat \<times> u32) list) list" where
  "i2s_fields_table = [(udma_i2s_i2s_rx_saddr_t, [(''rx_saddr'', UDMA_I2S_I2S_RX_SADDR_RX_SADDR_BIT,
    UDMA_I2S_I2S_RX_SADDR_RX_SADDR_WIDTH, UDMA_I2S_I2S_RX_SADDR_RX_SADDR_MASK)]), (udma_i2s_i2s_rx_size_t,
    [(''rx_size'', UDMA_I2S_I2S_RX_SIZE_RX_SIZE_BIT, UDMA_I2S_I2S_RX_SIZE_RX_SIZE_WIDTH,
    UDMA_I2S_I2S_RX_SIZE_RX_SIZE_MASK)]), (udma_i2s_i2s_rx_cfg_t, [(''continous'',
    UDMA_I2S_I2S_RX_CFG_CONTINOUS_BIT, UDMA_I2S_I2S_RX_CFG_CONTINOUS_WIDTH,
    UDMA_I2S_I2S_RX_CFG_CONTINOUS_MASK), (''datasize'', UDMA_I2S_I2S_RX_CFG_DATASIZE_BIT,
    UDMA_I2S_I2S_RX_CFG_DATASIZE_WIDTH, UDMA_I2S_I2S_RX_CFG_DATASIZE_MASK), (''en'',
    UDMA_I2S_I2S_RX_CFG_EN_BIT, UDMA_I2S_I2S_RX_CFG_EN_WIDTH, UDMA_I2S_I2S_RX_CFG_EN_MASK), (''clr'',
    UDMA_I2S_I2S_RX_CFG_CLR_BIT, UDMA_I2S_I2S_RX_CFG_CLR_WIDTH, UDMA_I2S_I2S_RX_CFG_CLR_MASK)]),
    (udma_i2s_i2s_tx_saddr_t, [(''tx_saddr'', UDMA_I2S_I2S_TX_SADDR_TX_SADDR_BIT,
    UDMA_I2S_I2S_TX_SADDR_TX_SADDR_WIDTH, UDMA_I2S_I2S_TX_SADDR_TX_SADDR_MASK)]), (udma_i2s_i2s_tx_size_t,
    [(''tx_size'', UDMA_I2S_I2S_TX_SIZE_TX_SIZE_BIT, UDMA_I2S_I2S_TX_SIZE_TX_SIZE_WIDTH,
    UDMA_I2S_I2S_TX_SIZE_TX_SIZE_MASK)]), (udma_i2s_i2s_tx_cfg_t, [(''continous'',
    UDMA_I2S_I2S_TX_CFG_CONTINOUS_BIT, UDMA_I2S_I2S_TX_CFG_CONTINOUS_WIDTH,
    UDMA_I2S_I2S_TX_CFG_CONTINOUS_MASK), (''datasize'', UDMA_I2S_I2S_TX_CFG_DATASIZE_BIT,
    UDMA_I2S_I2S_TX_CFG_DATASIZE_WIDTH, UDMA_I2S_I2S_TX_CFG_DATASIZE_MASK), (''en'',
    UDMA_I2S_I2S_TX_CFG_EN_BIT, UDMA_I2S_I2S_TX_CFG_EN_WIDTH, UDMA_I2S_I2S_TX_CFG_EN_MASK), (''clr'',
    UDMA_I2S_I2S_TX_CFG_CLR_BIT, UDMA_I2S_I2S_TX_CFG_CLR_WIDTH, UDMA_I2S_I2S_TX_CFG_CLR_MASK)]),
    (udma_i2s_i2s_clkcfg_setup_t, [(''master_clk_div'', UDMA_I2S_I2S_CLKCFG_SETUP_MASTER_CLK_DIV_BIT,
    UDMA_I2S_I2S_CLKCFG_SETUP_MASTER_CLK_DIV_WIDTH, UDMA_I2S_I2S_CLKCFG_SETUP_MASTER_CLK_DIV_MASK),
    (''slave_clk_div'', UDMA_I2S_I2S_CLKCFG_SETUP_SLAVE_CLK_DIV_BIT,
    UDMA_I2S_I2S_CLKCFG_SETUP_SLAVE_CLK_DIV_WIDTH, UDMA_I2S_I2S_CLKCFG_SETUP_SLAVE_CLK_DIV_MASK),
    (''common_clk_div'', UDMA_I2S_I2S_CLKCFG_SETUP_COMMON_CLK_DIV_BIT,
    UDMA_I2S_I2S_CLKCFG_SETUP_COMMON_CLK_DIV_WIDTH, UDMA_I2S_I2S_CLKCFG_SETUP_COMMON_CLK_DIV_MASK),
    (''slave_clk_en'', UDMA_I2S_I2S_CLKCFG_SETUP_SLAVE_CLK_EN_BIT,
    UDMA_I2S_I2S_CLKCFG_SETUP_SLAVE_CLK_EN_WIDTH, UDMA_I2S_I2S_CLKCFG_SETUP_SLAVE_CLK_EN_MASK),
    (''master_clk_en'', UDMA_I2S_I2S_CLKCFG_SETUP_MASTER_CLK_EN_BIT,
    UDMA_I2S_I2S_CLKCFG_SETUP_MASTER_CLK_EN_WIDTH, UDMA_I2S_I2S_CLKCFG_SETUP_MASTER_CLK_EN_MASK),
    (''pdm_clk_en'', UDMA_I2S_I2S_CLKCFG_SETUP_PDM_CLK_EN_BIT, UDMA_I2S_I2S_CLKCFG_SETUP_PDM_CLK_EN_WIDTH,
    UDMA_I2S_I2S_CLKCFG_SETUP_PDM_CLK_EN_MASK), (''slave_ext'', UDMA_I2S_I2S_CLKCFG_SETUP_SLAVE_EXT_BIT,
    UDMA_I2S_I2S_CLKCFG_SETUP_SLAVE_EXT_WIDTH, UDMA_I2S_I2S_CLKCFG_SETUP_SLAVE_EXT_MASK), (''slave_num'',
    UDMA_I2S_I2S_CLKCFG_SETUP_SLAVE_NUM_BIT, UDMA_I2S_I2S_CLKCFG_SETUP_SLAVE_NUM_WIDTH,
    UDMA_I2S_I2S_CLKCFG_SETUP_SLAVE_NUM_MASK), (''master_ext'', UDMA_I2S_I2S_CLKCFG_SETUP_MASTER_EXT_BIT,
    UDMA_I2S_I2S_CLKCFG_SETUP_MASTER_EXT_WIDTH, UDMA_I2S_I2S_CLKCFG_SETUP_MASTER_EXT_MASK), (''master_num'',
    UDMA_I2S_I2S_CLKCFG_SETUP_MASTER_NUM_BIT, UDMA_I2S_I2S_CLKCFG_SETUP_MASTER_NUM_WIDTH,
    UDMA_I2S_I2S_CLKCFG_SETUP_MASTER_NUM_MASK)]), (udma_i2s_i2s_slv_setup_t, [(''slave_words'',
    UDMA_I2S_I2S_SLV_SETUP_SLAVE_WORDS_BIT, UDMA_I2S_I2S_SLV_SETUP_SLAVE_WORDS_WIDTH,
    UDMA_I2S_I2S_SLV_SETUP_SLAVE_WORDS_MASK), (''slave_bits'', UDMA_I2S_I2S_SLV_SETUP_SLAVE_BITS_BIT,
    UDMA_I2S_I2S_SLV_SETUP_SLAVE_BITS_WIDTH, UDMA_I2S_I2S_SLV_SETUP_SLAVE_BITS_MASK), (''slave_lsb'',
    UDMA_I2S_I2S_SLV_SETUP_SLAVE_LSB_BIT, UDMA_I2S_I2S_SLV_SETUP_SLAVE_LSB_WIDTH,
    UDMA_I2S_I2S_SLV_SETUP_SLAVE_LSB_MASK), (''slave_2ch'', UDMA_I2S_I2S_SLV_SETUP_SLAVE_2CH_BIT,
    UDMA_I2S_I2S_SLV_SETUP_SLAVE_2CH_WIDTH, UDMA_I2S_I2S_SLV_SETUP_SLAVE_2CH_MASK), (''slave_en'',
    UDMA_I2S_I2S_SLV_SETUP_SLAVE_EN_BIT, UDMA_I2S_I2S_SLV_SETUP_SLAVE_EN_WIDTH,
    UDMA_I2S_I2S_SLV_SETUP_SLAVE_EN_MASK)]), (udma_i2s_i2s_mst_setup_t, [(''master_words'',
    UDMA_I2S_I2S_MST_SETUP_MASTER_WORDS_BIT, UDMA_I2S_I2S_MST_SETUP_MASTER_WORDS_WIDTH,
    UDMA_I2S_I2S_MST_SETUP_MASTER_WORDS_MASK), (''master_bits'', UDMA_I2S_I2S_MST_SETUP_MASTER_BITS_BIT,
    UDMA_I2S_I2S_MST_SETUP_MASTER_BITS_WIDTH, UDMA_I2S_I2S_MST_SETUP_MASTER_BITS_MASK), (''master_lsb'',
    UDMA_I2S_I2S_MST_SETUP_MASTER_LSB_BIT, UDMA_I2S_I2S_MST_SETUP_MASTER_LSB_WIDTH,
    UDMA_I2S_I2S_MST_SETUP_MASTER_LSB_MASK), (''master_2ch'', UDMA_I2S_I2S_MST_SETUP_MASTER_2CH_BIT,
    UDMA_I2S_I2S_MST_SETUP_MASTER_2CH_WIDTH, UDMA_I2S_I2S_MST_SETUP_MASTER_2CH_MASK), (''master_en'',
    UDMA_I2S_I2S_MST_SETUP_MASTER_EN_BIT, UDMA_I2S_I2S_MST_SETUP_MASTER_EN_WIDTH,
    UDMA_I2S_I2S_MST_SETUP_MASTER_EN_MASK)]), (udma_i2s_i2s_pdm_setup_t, [(''pdm_shift'',
    UDMA_I2S_I2S_PDM_SETUP_PDM_SHIFT_BIT, UDMA_I2S_I2S_PDM_SETUP_PDM_SHIFT_WIDTH,
    UDMA_I2S_I2S_PDM_SETUP_PDM_SHIFT_MASK), (''pdm_decimation'', UDMA_I2S_I2S_PDM_SETUP_PDM_DECIMATION_BIT,
    UDMA_I2S_I2S_PDM_SETUP_PDM_DECIMATION_WIDTH, UDMA_I2S_I2S_PDM_SETUP_PDM_DECIMATION_MASK), (''pdm_mode'',
    UDMA_I2S_I2S_PDM_SETUP_PDM_MODE_BIT, UDMA_I2S_I2S_PDM_SETUP_PDM_MODE_WIDTH,
    UDMA_I2S_I2S_PDM_SETUP_PDM_MODE_MASK), (''pdm_en'', UDMA_I2S_I2S_PDM_SETUP_PDM_EN_BIT,
    UDMA_I2S_I2S_PDM_SETUP_PDM_EN_WIDTH, UDMA_I2S_I2S_PDM_SETUP_PDM_EN_MASK)])]"

definition timer_offset_table :: "(string \<times> u32) list" where
  "timer_offset_table = [(''cfg_lo'', TIMER_CFG_LO_OFFSET), (''cfg_hi'', TIMER_CFG_HI_OFFSET), (''cnt_lo'',
    TIMER_CNT_LO_OFFSET), (''cnt_hi'', TIMER_CNT_HI_OFFSET), (''cmp_lo'', TIMER_CMP_LO_OFFSET), (''cmp_hi'',
    TIMER_CMP_HI_OFFSET), (''start_lo'', TIMER_START_LO_OFFSET), (''start_hi'', TIMER_START_HI_OFFSET),
    (''reset_lo'', TIMER_RESET_LO_OFFSET), (''reset_hi'', TIMER_RESET_HI_OFFSET)]"

definition gpio_offset_table :: "(string \<times> u32) list" where
  "gpio_offset_table = [(''paddir'', GPIO_PADDIR_OFFSET), (''gpioen'', GPIO_GPIOEN_OFFSET), (''padin'',
    GPIO_PADIN_OFFSET), (''padout'', GPIO_PADOUT_OFFSET), (''padoutset'', GPIO_PADOUTSET_OFFSET),
    (''padoutclr'', GPIO_PADOUTCLR_OFFSET), (''inten'', GPIO_INTEN_OFFSET), (''inttype0'',
    GPIO_INTTYPE0_OFFSET), (''inttype1'', GPIO_INTTYPE1_OFFSET), (''intstatus'', GPIO_INTSTATUS_OFFSET),
    (''padcfg0'', GPIO_PADCFG0_OFFSET), (''padcfg1'', GPIO_PADCFG1_OFFSET), (''padcfg2'',
    GPIO_PADCFG2_OFFSET), (''padcfg3'', GPIO_PADCFG3_OFFSET), (''paddir_32_63'', GPIO_PADDIR_32_63_OFFSET),
    (''gpioen_32_63'', GPIO_GPIOEN_32_63_OFFSET), (''padin_32_63'', GPIO_PADIN_32_63_OFFSET),
    (''padout_32_63'', GPIO_PADOUT_32_63_OFFSET), (''padoutset_32_63'', GPIO_PADOUTSET_32_63_OFFSET),
    (''padoutclr_32_63'', GPIO_PADOUTCLR_32_63_OFFSET), (''inten_32_63'', GPIO_INTEN_32_63_OFFSET),
    (''inttype_32_47'', GPIO_INTTYPE_32_47_OFFSET), (''inttype_48_63'', GPIO_INTTYPE_48_63_OFFSET),
    (''intstatus_32_63'', GPIO_INTSTATUS_32_63_OFFSET), (''padcfg_32_39'', GPIO_PADCFG_32_39_OFFSET),
    (''padcfg_40_47'', GPIO_PADCFG_40_47_OFFSET), (''padcfg_48_55'', GPIO_PADCFG_48_55_OFFSET),
    (''padcfg_56_63'', GPIO_PADCFG_56_63_OFFSET)]"

definition itc_offset_table :: "(string \<times> u32) list" where
  "itc_offset_table = [(''mask'', ITC_MASK_OFFSET), (''mask_set'', ITC_MASK_SET_OFFSET), (''mask_clr'',
    ITC_MASK_CLR_OFFSET), (''status'', ITC_STATUS_OFFSET), (''status_set'', ITC_STATUS_SET_OFFSET),
    (''status_clr'', ITC_STATUS_CLR_OFFSET), (''ack'', ITC_ACK_OFFSET), (''ack_set'', ITC_ACK_SET_OFFSET),
    (''ack_clr'', ITC_ACK_CLR_OFFSET), (''fifo'', ITC_FIFO_OFFSET)]"

definition cpi_offset_table :: "(string \<times> u32) list" where
  "cpi_offset_table = [(''cam_rx_saddr'', UDMA_CPI_CAM_RX_SADDR_OFFSET), (''cam_rx_size'',
    UDMA_CPI_CAM_RX_SIZE_OFFSET), (''cam_rx_cfg'', UDMA_CPI_CAM_RX_CFG_OFFSET), (''cam_rx_initcfg'',
    UDMA_CPI_CAM_RX_INITCFG_OFFSET), (''cam_tx_saddr'', UDMA_CPI_CAM_TX_SADDR_OFFSET), (''cam_tx_size'',
    UDMA_CPI_CAM_TX_SIZE_OFFSET), (''cam_tx_cfg'', UDMA_CPI_CAM_TX_CFG_OFFSET), (''cam_tx_initcfg'',
    UDMA_CPI_CAM_TX_INITCFG_OFFSET), (''cam_cfg_glob'', UDMA_CPI_CAM_CFG_GLOB_OFFSET), (''cam_cfg_ll'',
    UDMA_CPI_CAM_CFG_LL_OFFSET), (''cam_cfg_ur'', UDMA_CPI_CAM_CFG_UR_OFFSET), (''cam_cfg_size'',
    UDMA_CPI_CAM_CFG_SIZE_OFFSET), (''cam_cfg_filter'', UDMA_CPI_CAM_CFG_FILTER_OFFSET),
    (''cam_vsync_polarity'', UDMA_CPI_CAM_VSYNC_POLARITY_OFFSET)]"

definition i2s_offset_table :: "(string \<times> u32) list" where
  "i2s_offset_table = [(''i2s_rx_saddr'', UDMA_I2S_I2S_RX_SADDR_OFFSET), (''i2s_rx_size'',
    UDMA_I2S_I2S_RX_SIZE_OFFSET), (''i2s_rx_cfg'', UDMA_I2S_I2S_RX_CFG_OFFSET), (''i2s_rx_initcfg'',
    UDMA_I2S_I2S_RX_INITCFG_OFFSET), (''i2s_tx_saddr'', UDMA_I2S_I2S_TX_SADDR_OFFSET), (''i2s_tx_size'',
    UDMA_I2S_I2S_TX_SIZE_OFFSET), (''i2s_tx_cfg'', UDMA_I2S_I2S_TX_CFG_OFFSET), (''i2s_tx_initcfg'',
    UDMA_I2S_I2S_TX_INITCFG_OFFSET), (''i2s_clkcfg_setup'', UDMA_I2S_I2S_CLKCFG_SETUP_OFFSET),
    (''i2s_slv_setup'', UDMA_I2S_I2S_SLV_SETUP_OFFSET), (''i2s_mst_setup'', UDMA_I2S_I2S_MST_SETUP_OFFSET),
    (''i2s_pdm_setup'', UDMA_I2S_I2S_PDM_SETUP_OFFSET)]"

lemmas layouts = timer_cfg_lo_bits_def timer_cfg_hi_bits_def timer_cnt_lo_t_def timer_cnt_hi_t_def
  timer_cmp_lo_t_def timer_cmp_hi_t_def timer_start_lo_t_def timer_start_hi_t_def timer_reset_lo_t_def
  timer_reset_hi_t_def gpio_paddir_t_def gpio_gpioen_t_def gpio_padin_t_def gpio_padout_t_def
  gpio_padoutset_t_def gpio_padoutclr_t_def gpio_inten_t_def gpio_inttype0_t_def gpio_inttype1_t_def
  gpio_intstatus_t_def gpio_padcfg0_t_def gpio_padcfg1_t_def gpio_padcfg2_t_def gpio_padcfg3_t_def
  gpio_paddir_32_63_t_def gpio_gpioen_32_63_t_def gpio_padin_32_63_t_def gpio_padout_32_63_t_def
  gpio_padoutset_32_63_t_def gpio_padoutclr_32_63_t_def gpio_inten_32_63_t_def gpio_inttype_32_47_t_def
  gpio_inttype_48_63_t_def gpio_intstatus_32_63_t_def gpio_padcfg_32_39_t_def gpio_padcfg_40_47_t_def
  gpio_padcfg_48_55_t_def gpio_padcfg_56_63_t_def itc_mask_t_def itc_mask_set_t_def itc_mask_clr_t_def
  itc_status_t_def itc_status_set_t_def itc_status_clr_t_def itc_ack_t_def itc_ack_set_t_def
  itc_ack_clr_t_def itc_fifo_t_def udma_cpi_cam_rx_saddr_t_def udma_cpi_cam_rx_size_t_def
  udma_cpi_cam_rx_cfg_t_def udma_cpi_cam_rx_initcfg_t_def udma_cpi_cam_tx_saddr_t_def
  udma_cpi_cam_tx_size_t_def udma_cpi_cam_tx_cfg_t_def udma_cpi_cam_tx_initcfg_t_def
  udma_cpi_cam_cfg_glob_t_def udma_cpi_cam_cfg_ll_t_def udma_cpi_cam_cfg_ur_t_def
  udma_cpi_cam_cfg_size_t_def udma_cpi_cam_cfg_filter_t_def udma_cpi_cam_vsync_polarity_t_def
  udma_i2s_i2s_rx_saddr_t_def udma_i2s_i2s_rx_size_t_def udma_i2s_i2s_rx_cfg_t_def
  udma_i2s_i2s_rx_initcfg_t_def udma_i2s_i2s_tx_saddr_t_def udma_i2s_i2s_tx_size_t_def
  udma_i2s_i2s_tx_cfg_t_def udma_i2s_i2s_tx_initcfg_t_def udma_i2s_i2s_clkcfg_setup_t_def
  udma_i2s_i2s_slv_setup_t_def udma_i2s_i2s_mst_setup_t_def udma_i2s_i2s_pdm_setup_t_def

lemmas blocks = timer_timer_t_def gpio_gpio_t_def itc_itc_t_def udma_cpi_udma_cpi_t_def
  udma_i2s_udma_i2s_t_def timer_offset_table_def gpio_offset_table_def itc_offset_table_def
  cpi_offset_table_def i2s_offset_table_def

text \<open>The macros of the I2S fields: reader, inserter, value in place.\<close>

definition i2s_macro_table :: "((u32 \<Rightarrow> u32) \<times> (u32 \<Rightarrow> u32 \<Rightarrow> u32) \<times> (u32 \<Rightarrow> u32) \<times> nat \<times> nat) list" where
  "i2s_macro_table = [(UDMA_I2S_I2S_RX_SADDR_RX_SADDR_GET, UDMA_I2S_I2S_RX_SADDR_RX_SADDR_SET,
    UDMA_I2S_I2S_RX_SADDR_RX_SADDR, UDMA_I2S_I2S_RX_SADDR_RX_SADDR_BIT,
    UDMA_I2S_I2S_RX_SADDR_RX_SADDR_WIDTH), (UDMA_I2S_I2S_RX_SIZE_RX_SIZE_GET,
    UDMA_I2S_I2S_RX_SIZE_RX_SIZE_SET, UDMA_I2S_I2S_RX_SIZE_RX_SIZE, UDMA_I2S_I2S_RX_SIZE_RX_SIZE_BIT,
    UDMA_I2S_I2S_RX_SIZE_RX_SIZE_WIDTH), (UDMA_I2S_I2S_RX_CFG_CONTINOUS_GET,
    UDMA_I2S_I2S_RX_CFG_CONTINOUS_SET, UDMA_I2S_I2S_RX_CFG_CONTINOUS, UDMA_I2S_I2S_RX_CFG_CONTINOUS_BIT,
    UDMA_I2S_I2S_RX_CFG_CONTINOUS_WIDTH), (UDMA_I2S_I2S_RX_CFG_DATASIZE_GET,
    UDMA_I2S_I2S_RX_CFG_DATASIZE_SET, UDMA_I2S_I2S_RX_CFG_DATASIZE, UDMA_I2S_I2S_RX_CFG_DATASIZE_BIT,
    UDMA_I2S_I2S_RX_CFG_DATASIZE_WIDTH), (UDMA_I2S_I2S_RX_CFG_EN_GET, UDMA_I2S_I2S_RX_CFG_EN_SET,
    UDMA_I2S_I2S_RX_CFG_EN, UDMA_I2S_I2S_RX_CFG_EN_BIT, UDMA_I2S_I2S_RX_CFG_EN_WIDTH),
    (UDMA_I2S_I2S_RX_CFG_CLR_GET, UDMA_I2S_I2S_RX_CFG_CLR_SET, UDMA_I2S_I2S_RX_CFG_CLR,
    UDMA_I2S_I2S_RX_CFG_CLR_BIT, UDMA_I2S_I2S_RX_CFG_CLR_WIDTH), (UDMA_I2S_I2S_RX_CFG_PENDING_GET,
    UDMA_I2S_I2S_RX_CFG_PENDING_SET, UDMA_I2S_I2S_RX_CFG_PENDING, UDMA_I2S_I2S_RX_CFG_PENDING_BIT,
    UDMA_I2S_I2S_RX_CFG_PENDING_WIDTH), (UDMA_I2S_I2S_TX_SADDR_TX_SADDR_GET,
    UDMA_I2S_I2S_TX_SADDR_TX_SADDR_SET, UDMA_I2S_I2S_TX_SADDR_TX_SADDR, UDMA_I2S_I2S_TX_SADDR_TX_SADDR_BIT,
    UDMA_I2S_I2S_TX_SADDR_TX_SADDR_WIDTH), (UDMA_I2S_I2S_TX_SIZE_TX_SIZE_GET,
    UDMA_I2S_I2S_TX_SIZE_TX_SIZE_SET, UDMA_I2S_I2S_TX_SIZE_TX_SIZE, UDMA_I2S_I2S_TX_SIZE_TX_SIZE_BIT,
    UDMA_I2S_I2S_TX_SIZE_TX_SIZE_WIDTH), (UDMA_I2S_I2S_TX_CFG_CONTINOUS_GET,
    UDMA_I2S_I2S_TX_CFG_CONTINOUS_SET, UDMA_I2S_I2S_TX_CFG_CONTINOUS, UDMA_I2S_I2S_TX_CFG_CONTINOUS_BIT,
    UDMA_I2S_I2S_TX_CFG_CONTINOUS_WIDTH), (UDMA_I2S_I2S_TX_CFG_DATASIZE_GET,
    UDMA_I2S_I2S_TX_CFG_DATASIZE_SET, UDMA_I2S_I2S_TX_CFG_DATASIZE, UDMA_I2S_I2S_TX_CFG_DATASIZE_BIT,
    UDMA_I2S_I2S_TX_CFG_DATASIZE_WIDTH), (UDMA_I2S_I2S_TX_CFG_EN_GET, UDMA_I2S_I2S_TX_CFG_EN_SET,
    UDMA_I2S_I2S_TX_CFG_EN, UDMA_I2S_I2S_TX_CFG_EN_BIT, UDMA_I2S_I2S_TX_CFG_EN_WIDTH),
    (UDMA_I2S_I2S_TX_CFG_CLR_GET, UDMA_I2S_I2S_TX_CFG_CLR_SET, UDMA_I2S_I2S_TX_CFG_CLR,
    UDMA_I2S_I2S_TX_CFG_CLR_BIT, UDMA_I2S_I2S_TX_CFG_CLR_WIDTH), (UDMA_I2S_I2S_TX_CFG_PENDING_GET,
    UDMA_I2S_I2S_TX_CFG_PENDING_SET, UDMA_I2S_I2S_TX_CFG_PENDING, UDMA_I2S_I2S_TX_CFG_PENDING_BIT,
    UDMA_I2S_I2S_TX_CFG_PENDING_WIDTH), (UDMA_I2S_I2S_CLKCFG_SETUP_MASTER_CLK_DIV_GET,
    UDMA_I2S_I2S_CLKCFG_SETUP_MASTER_CLK_DIV_SET, UDMA_I2S_I2S_CLKCFG_SETUP_MASTER_CLK_DIV,
    UDMA_I2S_I2S_CLKCFG_SETUP_MASTER_CLK_DIV_BIT, UDMA_I2S_I2S_CLKCFG_SETUP_MASTER_CLK_DIV_WIDTH),
    (UDMA_I2S_I2S_CLKCFG_SETUP_SLAVE_CLK_DIV_GET, UDMA_I2S_I2S_CLKCFG_SETUP_SLAVE_CLK_DIV_SET,
    UDMA_I2S_I2S_CLKCFG_SETUP_SLAVE_CLK_DIV, UDMA_I2S_I2S_CLKCFG_SETUP_SLAVE_CLK_DIV_BIT,
    UDMA_I2S_I2S_CLKCFG_SETUP_SLAVE_CLK_DIV_WIDTH), (UDMA_I2S_I2S_CLKCFG_SETUP_COMMON_CLK_DIV_GET,
    UDMA_I2S_I2S_CLKCFG_SETUP_COMMON_CLK_DIV_SET, UDMA_I2S_I2S_CLKCFG_SETUP_COMMON_CLK_DIV,
    UDMA_I2S_I2S_CLKCFG_SETUP_COMMON_CLK_DIV_BIT, UDMA_I2S_I2S_CLKCFG_SETUP_COMMON_CLK_DIV_WIDTH),
    (UDMA_I2S_I2S_CLKCFG_SETUP_SLAVE_CLK_EN_GET, UDMA_I2S_I2S_CLKCFG_SETUP_SLAVE_CLK_EN_SET,
    UDMA_I2S_I2S_CLKCFG_SETUP_SLAVE_CLK_EN, UDMA_I2S_I2S_CLKCFG_SETUP_SLAVE_CLK_EN_BIT,
    UDMA_I2S_I2S_CLKCFG_SETUP_SLAVE_CLK_EN_WIDTH), (UDMA_I2S_I2S_CLKCFG_SETUP_MASTER_CLK_EN_GET,
    UDMA_I2S_I2S_CLKCFG_SETUP_MASTER_CLK_EN_SET, UDMA_I2S_I2S_CLKCFG_SETUP_MASTER_CLK_EN,
    UDMA_I2S_I2S_CLKCFG_SETUP_MASTER_CLK_EN_BIT, UDMA_I2S_I2S_CLKCFG_SETUP_MASTER_CLK_EN_WIDTH),
    (UDMA_I2S_I2S_CLKCFG_SETUP_PDM_CLK_EN_GET, UDMA_I2S_I2S_CLKCFG_SETUP_PDM_CLK_EN_SET,
    UDMA_I2S_I2S_CLKCFG_SETUP_PDM_CLK_EN, UDMA_I2S_I2S_CLKCFG_SETUP_PDM_CLK_EN_BIT,
    UDMA_I2S_I2S_CLKCFG_SETUP_PDM_CLK_EN_WIDTH), (UDMA_I2S_I2S_CLKCFG_SETUP_SLAVE_EXT_GET,
    UDMA_I2S_I2S_CLKCFG_SETUP_SLAVE_EXT_SET, UDMA_I2S_I2S_CLKCFG_SETUP_SLAVE_EXT,
    UDMA_I2S_I2S_CLKCFG_SETUP_SLAVE_EXT_BIT, UDMA_I2S_I2S_CLKCFG_SETUP_SLAVE_EXT_WIDTH),
    (UDMA_I2S_I2S_CLKCFG_SETUP_SLAVE_NUM_GET, UDMA_I2S_I2S_CLKCFG_SETUP_SLAVE_NUM_SET,
    UDMA_I2S_I2S_CLKCFG_SETUP_SLAVE_NUM, UDMA_I2S_I2S_CLKCFG_SETUP_SLAVE_NUM_BIT,
    UDMA_I2S_I2S_CLKCFG_SETUP_SLAVE_NUM_WIDTH), (UDMA_I2S_I2S_CLKCFG_SETUP_MASTER_EXT_GET,
    UDMA_I2S_I2S_CLKCFG_SETUP_MASTER_EXT_SET, UDMA_I2S_I2S_CLKCFG_SETUP_MASTER_EXT,
    UDMA_I2S_I2S_CLKCFG_SETUP_MASTER_EXT_BIT, UDMA_I2S_I2S_CLKCFG_SETUP_MASTER_EXT_WIDTH),
    (UDMA_I2S_I2S_CLKCFG_SETUP_MASTER_NUM_GET, UDMA_I2S_I2S_CLKCFG_SETUP_MASTER_NUM_SET,
    UDMA_I2S_I2S_CLKCFG_SETUP_MASTER_NUM, UDMA_I2S_I2S_CLKCFG_SETUP_MASTER_NUM_BIT,
    UDMA_I2S_I2S_CLKCFG_SETUP_MASTER_NUM_WIDTH), (UDMA_I2S_I2S_SLV_SETUP_SLAVE_WORDS_GET,
    UDMA_I2S_I2S_SLV_SETUP_SLAVE_WORDS_SET, UDMA_I2S_I2S_SLV_SETUP_SLAVE_WORDS,
    UDMA_I2S_I2S_SLV_SETUP_SLAVE_WORDS_BIT, UDMA_I2S_I2S_SLV_SETUP_SLAVE_WORDS_WIDTH),
    (UDMA_I2S_I2S_SLV_SETUP_SLAVE_BITS_GET, UDMA_I2S_I2S_SLV_SETUP_SLAVE_BITS_SET,
    UDMA_I2S_I2S_SLV_SETUP_SLAVE_BITS, UDMA_I2S_I2S_SLV_SETUP_SLAVE_BITS_BIT,
    UDMA_I2S_I2S_SLV_SETUP_SLAVE_BITS_WIDTH), (UDMA_I2S_I2S_SLV_SETUP_SLAVE_LSB_GET,
    UDMA_I2S_I2S_SLV_SETUP_SLAVE_LSB_SET, UDMA_I2S_I2S_SLV_SETUP_SLAVE_LSB,
    UDMA_I2S_I2S_SLV_SETUP_SLAVE_LSB_BIT, UDMA_I2S_I2S_SLV_SETUP_SLAVE_LSB_WIDTH),
    (UDMA_I2S_I2S_SLV_SETUP_SLAVE_2CH_GET, UDMA_I2S_I2S_SLV_SETUP_SLAVE_2CH_SET,
    UDMA_I2S_I2S_SLV_SETUP_SLAVE_2CH, UDMA_I2S_I2S_SLV_SETUP_SLAVE_2CH_BIT,
    UDMA_I2S_I2S_SLV_SETUP_SLAVE_2CH_WIDTH), (UDMA_I2S_I2S_SLV_SETUP_SLAVE_EN_GET,
    UDMA_I2S_I2S_SLV_SETUP_SLAVE_EN_SET, UDMA_I2S_I2S_SLV_SETUP_SLAVE_EN,
    UDMA_I2S_I2S_SLV_SETUP_SLAVE_EN_BIT, UDMA_I2S_I2S_SLV_SETUP_SLAVE_EN_WIDTH),
    (UDMA_I2S_I2S_MST_SETUP_MASTER_WORDS_GET, UDMA_I2S_I2S_MST_SETUP_MASTER_WORDS_SET,
    UDMA_I2S_I2S_MST_SETUP_MASTER_WORDS, UDMA_I2S_I2S_MST_SETUP_MASTER_WORDS_BIT,
    UDMA_I2S_I2S_MST_SETUP_MASTER_WORDS_WIDTH), (UDMA_I2S_I2S_MST_SETUP_MASTER_BITS_GET,
    UDMA_I2S_I2S_MST_SETUP_MASTER_BITS_SET, UDMA_I2S_I2S_MST_SETUP_MASTER_BITS,
    UDMA_I2S_I2S_MST_SETUP_MASTER_BITS_BIT, UDMA_I2S_I2S_MST_SETUP_MASTER_BITS_WIDTH),
    (UDMA_I2S_I2S_MST_SETUP_MASTER_LSB_GET, UDMA_I2S_I2S_MST_SETUP_MASTER_LSB_SET,
    UDMA_I2S_I2S_MST_SETUP_MASTER_LSB, UDMA_I2S_I2S_MST_SETUP_MASTER_LSB_BIT,
    UDMA_I2S_I2S_MST_SETUP_MASTER_LSB_WIDTH), (UDMA_I2S_I2S_MST_SETUP_MASTER_2CH_GET,
    UDMA_I2S_I2S_MST_SETUP_MASTER_2CH_SET, UDMA_I2S_I2S_MST_SETUP_MASTER_2CH,
    UDMA_I2S_I2S_MST_SETUP_MASTER_2CH_BIT, UDMA_I2S_I2S_MST_SETUP_MASTER_2CH_WIDTH),
    (UDMA_I2S_I2S_MST_SETUP_MASTER_EN_GET, UDMA_I2S_I2S_MST_SETUP_MASTER_EN_SET,
    UDMA_I2S_I2S_MST_SETUP_MASTER_EN, UDMA_I2S_I2S_MST_SETUP_MASTER_EN_BIT,
    UDMA_I2S_I2S_MST_SETUP_MASTER_EN_WIDTH), (UDMA_I2S_I2S_PDM_SETUP_PDM_SHIFT_GET,
    UDMA_I2S_I2S_PDM_SETUP_PDM_SHIFT_SET, UDMA_I2S_I2S_PDM_SETUP_PDM_SHIFT,
    UDMA_I2S_I2S_PDM_SETUP_PDM_SHIFT_BIT, UDMA_I2S_I2S_PDM_SETUP_PDM_SHIFT_WIDTH),
    (UDMA_I2S_I2S_PDM_SETUP_PDM_DECIMATION_GET, UDMA_I2S_I2S_PDM_SETUP_PDM_DECIMATION_SET,
    UDMA_I2S_I2S_PDM_SETUP_PDM_DECIMATION, UDMA_I2S_I2S_PDM_SETUP_PDM_DECIMATION_BIT,
    UDMA_I2S_I2S_PDM_SETUP_PDM_DECIMATION_WIDTH), (UDMA_I2S_I2S_PDM_SETUP_PDM_MODE_GET,
    UDMA_I2S_I2S_PDM_SETUP_PDM_MODE_SET, UDMA_I2S_I2S_PDM_SETUP_PDM_MODE,
    UDMA_I2S_I2S_PDM_SETUP_PDM_MODE_BIT, UDMA_I2S_I2S_PDM_SETUP_PDM_MODE_WIDTH),
    (UDMA_I2S_I2S_PDM_SETUP_PDM_EN_GET, UDMA_I2S_I2S_PDM_SETUP_PDM_EN_SET, UDMA_I2S_I2S_PDM_SETUP_PDM_EN,
    UDMA_I2S_I2S_PDM_SETUP_PDM_EN_BIT, UDMA_I2S_I2S_PDM_SETUP_PDM_EN_WIDTH)]"

section \<open>The cluster DMA\<close>

text \<open>Registers of \<^verbatim>\<open>archi/dma/mchan_v7.h\<close>: the command port has a type for each word it takes.\<close>

definition mchan_cmd_t :: layout where "mchan_cmd_t = [(''cmd'', 32)]"
definition mchan_status_t :: layout where "mchan_status_t = [(''status'', 32)]"
definition mchan_cmd_cmd_t :: layout where "mchan_cmd_cmd_t = [(''len'', 17), (''type'', 1), (''inc'', 1),
  (''_2d_ext'', 1), (''ele'', 1), (''ile'', 1), (''ble'', 1), (''_2d_tcdm'', 1)]"
definition mchan_cmd_get_tid_t :: layout where "mchan_cmd_get_tid_t = [(''tid'', 4)]"
definition mchan_cmd_tcdm_addr_t :: layout where "mchan_cmd_tcdm_addr_t = [(''addr'', 32)]"
definition mchan_cmd_ext_addr_t :: layout where "mchan_cmd_ext_addr_t = [(''addr'', 32)]"
definition mchan_cmd_2d_ext_count_t :: layout where "mchan_cmd_2d_ext_count_t = [(''_2d_ext_count'', 32)]"
definition mchan_cmd_2d_ext_stride_t :: layout where "mchan_cmd_2d_ext_stride_t = [(''_2d_ext_stride'',
  32)]"
definition mchan_cmd_2d_tcdm_count_t :: layout where "mchan_cmd_2d_tcdm_count_t = [(''_2d_tcdm_count'',
  32)]"
definition mchan_cmd_2d_tcdm_stride_t :: layout where "mchan_cmd_2d_tcdm_stride_t = [(''_2d_tcdm_stride'',
  32)]"
definition mchan_status_status_t :: layout where "mchan_status_status_t = [(''tid_tr'', 16), (''tid_alloc'',
  16)]"
definition mchan_status_free_tid_t :: layout where "mchan_status_free_tid_t = [(''tid_free'', 16)]"

lemmas mchan_layouts = mchan_cmd_t_def mchan_status_t_def mchan_cmd_cmd_t_def mchan_cmd_get_tid_t_def
  mchan_cmd_tcdm_addr_t_def mchan_cmd_ext_addr_t_def mchan_cmd_2d_ext_count_t_def
  mchan_cmd_2d_ext_stride_t_def mchan_cmd_2d_tcdm_count_t_def mchan_cmd_2d_tcdm_stride_t_def
  mchan_status_status_t_def mchan_status_free_tid_t_def

definition mchan_fields_table :: "(layout \<times> (string \<times> nat \<times> nat \<times> u32) list) list" where
  "mchan_fields_table = [(mchan_cmd_t, [(''cmd'', MCHAN_CMD_CMD_BIT, MCHAN_CMD_CMD_WIDTH,
    MCHAN_CMD_CMD_MASK)]), (mchan_status_t, [(''status'', MCHAN_STATUS_STATUS_BIT,
    MCHAN_STATUS_STATUS_WIDTH, MCHAN_STATUS_STATUS_MASK)]), (mchan_cmd_cmd_t, [(''len'',
    MCHAN_CMD_CMD_LEN_BIT, MCHAN_CMD_CMD_LEN_WIDTH, MCHAN_CMD_CMD_LEN_MASK), (''type'',
    MCHAN_CMD_CMD_TYPE_BIT, MCHAN_CMD_CMD_TYPE_WIDTH, MCHAN_CMD_CMD_TYPE_MASK), (''inc'',
    MCHAN_CMD_CMD_INC_BIT, MCHAN_CMD_CMD_INC_WIDTH, MCHAN_CMD_CMD_INC_MASK), (''_2d_ext'',
    MCHAN_CMD_CMD__2D_EXT_BIT, MCHAN_CMD_CMD__2D_EXT_WIDTH, MCHAN_CMD_CMD__2D_EXT_MASK), (''ele'',
    MCHAN_CMD_CMD_ELE_BIT, MCHAN_CMD_CMD_ELE_WIDTH, MCHAN_CMD_CMD_ELE_MASK), (''ile'',
    MCHAN_CMD_CMD_ILE_BIT, MCHAN_CMD_CMD_ILE_WIDTH, MCHAN_CMD_CMD_ILE_MASK), (''ble'',
    MCHAN_CMD_CMD_BLE_BIT, MCHAN_CMD_CMD_BLE_WIDTH, MCHAN_CMD_CMD_BLE_MASK), (''_2d_tcdm'',
    MCHAN_CMD_CMD__2D_TCDM_BIT, MCHAN_CMD_CMD__2D_TCDM_WIDTH, MCHAN_CMD_CMD__2D_TCDM_MASK)]),
    (mchan_cmd_get_tid_t, [(''tid'', MCHAN_CMD_GET_TID_TID_BIT, MCHAN_CMD_GET_TID_TID_WIDTH,
    MCHAN_CMD_GET_TID_TID_MASK)]), (mchan_cmd_tcdm_addr_t, [(''addr'', MCHAN_CMD_TCDM_ADDR_ADDR_BIT,
    MCHAN_CMD_TCDM_ADDR_ADDR_WIDTH, MCHAN_CMD_TCDM_ADDR_ADDR_MASK)]), (mchan_cmd_ext_addr_t, [(''addr'',
    MCHAN_CMD_EXT_ADDR_ADDR_BIT, MCHAN_CMD_EXT_ADDR_ADDR_WIDTH, MCHAN_CMD_EXT_ADDR_ADDR_MASK)]),
    (mchan_cmd_2d_ext_count_t, [(''_2d_ext_count'', MCHAN_CMD_2D_EXT_COUNT__2D_EXT_COUNT_BIT,
    MCHAN_CMD_2D_EXT_COUNT__2D_EXT_COUNT_WIDTH, MCHAN_CMD_2D_EXT_COUNT__2D_EXT_COUNT_MASK)]),
    (mchan_cmd_2d_ext_stride_t, [(''_2d_ext_stride'', MCHAN_CMD_2D_EXT_STRIDE__2D_EXT_STRIDE_BIT,
    MCHAN_CMD_2D_EXT_STRIDE__2D_EXT_STRIDE_WIDTH, MCHAN_CMD_2D_EXT_STRIDE__2D_EXT_STRIDE_MASK)]),
    (mchan_cmd_2d_tcdm_count_t, [(''_2d_tcdm_count'', MCHAN_CMD_2D_TCDM_COUNT__2D_TCDM_COUNT_BIT,
    MCHAN_CMD_2D_TCDM_COUNT__2D_TCDM_COUNT_WIDTH, MCHAN_CMD_2D_TCDM_COUNT__2D_TCDM_COUNT_MASK)]),
    (mchan_cmd_2d_tcdm_stride_t, [(''_2d_tcdm_stride'', MCHAN_CMD_2D_TCDM_STRIDE__2D_TCDM_STRIDE_BIT,
    MCHAN_CMD_2D_TCDM_STRIDE__2D_TCDM_STRIDE_WIDTH, MCHAN_CMD_2D_TCDM_STRIDE__2D_TCDM_STRIDE_MASK)]),
    (mchan_status_status_t, [(''tid_tr'', MCHAN_STATUS_STATUS_TID_TR_BIT, MCHAN_STATUS_STATUS_TID_TR_WIDTH,
    MCHAN_STATUS_STATUS_TID_TR_MASK), (''tid_alloc'', MCHAN_STATUS_STATUS_TID_ALLOC_BIT,
    MCHAN_STATUS_STATUS_TID_ALLOC_WIDTH, MCHAN_STATUS_STATUS_TID_ALLOC_MASK)]), (mchan_status_free_tid_t,
    [(''tid_free'', MCHAN_STATUS_FREE_TID_TID_FREE_BIT, MCHAN_STATUS_FREE_TID_TID_FREE_WIDTH,
    MCHAN_STATUS_FREE_TID_TID_FREE_MASK)])]"

section \<open>Properties\<close>

definition described :: "layout \<times> (string \<times> nat \<times> nat \<times> u32) list \<Rightarrow> bool" where
  "described r = (case r of (lay, fs) \<Rightarrow>
     list_all (\<lambda>(n, p, w, m). member lay n = Some (p, w) \<and> p + w \<le> 32 \<and> m = push_bit p (mask w)) fs)"

lemma described_Cons:
  "described (lay, []) = True"
  "described (lay, (n, p, w, m) # fs) \<longleftrightarrow>
     member lay n = Some (p, w) \<and> p + w \<le> 32 \<and> m = push_bit p (mask w) \<and> described (lay, fs)"
  by (auto simp: described_def)

lemma timer_described: "list_all described timer_fields_table"
  by (simp add: timer_fields_table_def described_Cons member_def layouts timer_fields timer_fields2 mask_eq_exp_minus_1)

lemma gpio_described: "list_all described gpio_fields_table"
  by (simp add: gpio_fields_table_def described_Cons member_def layouts gpio_fields mask_eq_exp_minus_1)

lemma cpi_described: "list_all described cpi_fields_table"
  by (simp add: cpi_fields_table_def described_Cons member_def layouts cpi_fields mask_eq_exp_minus_1)

lemma i2s_described: "list_all described i2s_fields_table"
  by (simp add: i2s_fields_table_def described_Cons member_def layouts i2s_fields mask_eq_exp_minus_1)

lemma mchan_described: "list_all described mchan_fields_table"
  by (simp add: mchan_fields_table_def described_Cons member_def mchan_layouts mchan_fields mask_eq_exp_minus_1)

lemma bitinsert_layout:
  assumes "p + w \<le> 32"
  shows "BITINSERT raw v w p = (raw AND NOT (push_bit p (mask w))) OR push_bit p (take_bit w v)"
  using assms by (intro bit_word_eqI) (auto simp: reg_field.put_bit [OF emu_field] bit_simps)

lemma described_members:
  assumes "described (lay, fs)" and "(n, p, w, m) \<in> set fs"
  shows "member_get lay n raw = Some (BITEXTRACTU raw w p) \<and> member_set lay n v raw = Some (BITINSERT raw v w p) \<and>
    m = push_bit p (mask w)"
proof -
  from assms have m: "member lay n = Some (p, w)" "p + w \<le> 32" "m = push_bit p (mask w)"
    by (auto simp: described_def list_all_iff)
  with reg_field.get_eq [OF emu_field [OF m(2)], of raw] bitinsert_layout [OF m(2), of raw v] show ?thesis
    by (simp add: member_get_def member_set_def)
qed

text \<open>
  For every field of the tables, which are those of the timer, the pins, the camera, the I2S interface
  and the cluster DMA without the status flag of the two I2S channels (see below), the descriptions agree:
  reading a member of a register type, and assigning to it, is what the field macros of that field
  do with its position and width, and the mask covers exactly its bits (for a field that is the
  whole word the macros shift by its width, so only the mask is compared). The structures of the
  register blocks put every register at its offset.
\<close>

theorem reg_types_agree:
  "list_all (\<lambda>(lay, fs). list_all (\<lambda>(n, p, w, m). m = push_bit p (mask w) \<and>
      (w = 32 \<or> (\<forall>raw v. member_get lay n raw = Some (BITEXTRACTU raw w p) \<and>
                          member_set lay n v raw = Some (BITINSERT raw v w p)))) fs)
     (timer_fields_table @ gpio_fields_table @ cpi_fields_table @ i2s_fields_table @ mchan_fields_table) \<and>
   word_offsets 0 timer_timer_t = timer_offset_table \<and> word_offsets 0 gpio_gpio_t = gpio_offset_table \<and>
   word_offsets 0 itc_itc_t = itc_offset_table \<and> word_offsets 0 udma_cpi_udma_cpi_t = cpi_offset_table \<and>
   word_offsets 0 udma_i2s_udma_i2s_t = i2s_offset_table"
proof -
  have "list_all described (timer_fields_table @ gpio_fields_table @ cpi_fields_table @ i2s_fields_table @ mchan_fields_table)"
    by (simp add: timer_described gpio_described cpi_described i2s_described mchan_described)
  then have "list_all (\<lambda>(lay, fs). list_all (\<lambda>(n, p, w, m). m = push_bit p (mask w) \<and>
      (w = 32 \<or> (\<forall>raw v. member_get lay n raw = Some (BITEXTRACTU raw w p) \<and>
                          member_set lay n v raw = Some (BITINSERT raw v w p)))) fs)
     (timer_fields_table @ gpio_fields_table @ cpi_fields_table @ i2s_fields_table @ mchan_fields_table)"
    unfolding list_all_iff using described_members by fast
  moreover have "word_offsets 0 timer_timer_t = timer_offset_table" "word_offsets 0 gpio_gpio_t = gpio_offset_table"
      "word_offsets 0 itc_itc_t = itc_offset_table" "word_offsets 0 udma_cpi_udma_cpi_t = cpi_offset_table"
      "word_offsets 0 udma_i2s_udma_i2s_t = i2s_offset_table"
    by (simp_all add: blocks timer_offsets gpio_offsets cpi_offsets i2s_offsets itc_defs)
  ultimately show ?thesis by blast
qed

text \<open>
  The field left out of the tables: the status flag of a channel shares bit 5 with the clear command in the macros,
  but as a structure member it follows it at bit 6, so a set flag reads as clear there.
\<close>

theorem i2s_pending_position:
  "member udma_i2s_i2s_rx_cfg_t ''pending'' = Some (6, 1) \<and> member udma_i2s_i2s_tx_cfg_t ''pending'' = Some (6, 1) \<and>
   UDMA_I2S_I2S_RX_CFG_PENDING_GET 0x20 = 1 \<and> member_get udma_i2s_i2s_rx_cfg_t ''pending'' 0x20 = Some 0 \<and>
   UDMA_I2S_I2S_TX_CFG_PENDING_GET 0x20 = 1 \<and> member_get udma_i2s_i2s_tx_cfg_t ''pending'' 0x20 = Some 0"
  by (simp add: member_get_def member_def layouts UDMA_I2S_I2S_RX_CFG_PENDING_GET_def UDMA_I2S_I2S_TX_CFG_PENDING_GET_def
      BITEXTRACTU_def)

lemma i2s_macro_rows:
  "list_all (\<lambda>(get, put, val, p, w). p + w \<le> 32 \<and> get = (\<lambda>x. BITEXTRACTU x w p) \<and>
     put = (\<lambda>x v. BITINSERT x v w p) \<and> val = push_bit p) i2s_macro_table"
  by (simp add: i2s_macro_table_def i2s_fields fun_eq_iff i2s_gets i2s_sets i2s_values)

text \<open>Every field of the I2S registers that is inserted, or put in place in an empty word, is read back cut to its width.\<close>

theorem i2s_macros_read_back:
  "list_all (\<lambda>(get, put, val, p, w). \<forall>x v. get (put x v) = take_bit w v \<and> get (val v) = take_bit w v) i2s_macro_table"
proof -
  have "get (put x v) = take_bit w v \<and> get (val v) = take_bit w v"
    if "p + w \<le> 32 \<and> get = (\<lambda>x. BITEXTRACTU x w p) \<and> put = (\<lambda>x v. BITINSERT x v w p) \<and> val = push_bit p"
    for get put val and p w :: nat and x v :: u32
    using that reg_field.get_put [OF emu_field, of p w x v] reg_field.get_eq [OF emu_field, of p w "push_bit p v"]
    by (auto intro!: bit_word_eqI simp: bit_simps)
  with i2s_macro_rows show ?thesis unfolding list_all_iff by fast
qed

end
