(* ===== verification/Mchan_Props.thy ===== *)
theory Mchan_Props
  imports Mchan
begin

text \<open>
  What the routines of the cluster DMA achieve. The hardware is an interface: the comments of the two
  headers say what the event unit and the DMA do at each access, and that transfers are carried out
  in the order of a queue while the core goes on. The properties hold for every such hardware,
  whatever the moments at which transfers end.
\<close>

section \<open>Transfers of the hardware\<close>

text \<open>A transfer is the list of the words written for it; their meaning is that of the header's fields.\<close>

type_synonym xfer = "u32 list"

definition words_needed :: "u32 \<Rightarrow> nat" where
  "words_needed cmd =
     3 + (if MCHAN_CMD_CMD__2D_EXT_GET cmd = 1 then 2 else 0) + (if MCHAN_CMD_CMD__2D_TCDM_GET cmd = 1 then 2 else 0)"

definition xfer_len :: "xfer \<Rightarrow> nat" where
  "xfer_len ws = unat (MCHAN_CMD_CMD_LEN_GET (ws ! 0))"

definition xfer_event :: "xfer \<Rightarrow> bool" where
  "xfer_event ws \<longleftrightarrow> MCHAN_CMD_CMD_ELE_GET (ws ! 0) = 1"

text \<open>The position of byte \<open>i\<close> of a tile whose lines have \<open>n\<close> bytes and start \<open>stride\<close> bytes apart.\<close>

definition tile_pos :: "nat \<Rightarrow> u32 \<Rightarrow> nat \<Rightarrow> u32" where
  "tile_pos n stride i = of_nat (i div n) * stride + of_nat (i mod n)"

definition ext_byte :: "xfer \<Rightarrow> nat \<Rightarrow> u32" where
  "ext_byte ws i =
     (if MCHAN_CMD_CMD_INC_GET (ws ! 0) = 0 then ws ! 2
      else if MCHAN_CMD_CMD__2D_EXT_GET (ws ! 0) = 1 then ws ! 2 + tile_pos (unat (ws ! 3)) (ws ! 4) i
      else ws ! 2 + of_nat i)"

definition loc_byte :: "xfer \<Rightarrow> nat \<Rightarrow> u32" where
  "loc_byte ws i =
     (if MCHAN_CMD_CMD__2D_TCDM_GET (ws ! 0) = 1
      then ws ! 1 + tile_pos (unat (ws ! (length ws - 2))) (ws ! (length ws - 1)) i
      else ws ! 1 + of_nat i)"

definition move_byte :: "xfer \<Rightarrow> nat \<Rightarrow> mem \<Rightarrow> mem" where
  "move_byte ws i m =
     (if MCHAN_CMD_CMD_TYPE_GET (ws ! 0) = 1 then m(loc_byte ws i := m (ext_byte ws i))
      else m(ext_byte ws i := m (loc_byte ws i)))"

definition xfer_run :: "xfer \<Rightarrow> mem \<Rightarrow> mem" where
  "xfer_run ws = fold (move_byte ws) [0..<xfer_len ws]"

definition run_all :: "(nat \<times> xfer) list \<Rightarrow> mem \<Rightarrow> mem" where
  "run_all xs = fold (\<lambda>x. xfer_run (snd x)) xs"

lemma run_all_append: "run_all (xs @ ys) m = run_all ys (run_all xs m)"
  by (simp add: run_all_def)

section \<open>What is seen of the hardware\<close>

record dma_hw =
  emask :: u32
  ebuf :: u32
  pending :: "(nat \<times> xfer) list"
  port :: "u32 list"
  account :: nat
  taken :: "nat set"

definition feed :: "u32 \<Rightarrow> dma_hw \<Rightarrow> dma_hw" where
  "feed v h =
     (let ws = port h @ [v]
      in if length ws = words_needed (hd ws) then h\<lparr>port := [], pending := pending h @ [(account h, ws)]\<rparr>
         else h\<lparr>port := ws\<rparr>)"

text \<open>
  Between two accesses some of the transfers at the front of the queue end. One that asks for it
  sets the bit \<open>ev\<close> of the event buffer; other events may arrive too.
\<close>

definition elapse :: "nat \<Rightarrow> mem \<times> dma_hw \<Rightarrow> mem \<times> dma_hw \<Rightarrow> bool" where
  "elapse ev s t \<longleftrightarrow>
     (\<exists>k eb. t = (run_all (take k (pending (snd s))) (fst s),
                  (snd s)\<lparr>pending := drop k (pending (snd s)), ebuf := eb\<rparr>) \<and>
             (bit eb ev \<longleftrightarrow> bit (ebuf (snd s)) ev \<or> (\<exists>x\<in>set (take k (pending (snd s))). xfer_event (snd x))))"

definition acts :: "nat \<Rightarrow> (dma_hw \<Rightarrow> dma_hw) \<Rightarrow> mem \<times> dma_hw \<Rightarrow> mem \<times> dma_hw \<Rightarrow> bool" where
  "acts ev f s t \<longleftrightarrow> (\<exists>m h. elapse ev s (m, h) \<and> t = (m, f h))"

text \<open>The event has happened, or a transfer that is still queued will raise it.\<close>

definition signalled :: "nat \<Rightarrow> dma_hw \<Rightarrow> bool" where
  "signalled ev h \<longleftrightarrow> bit (ebuf h) ev \<or> (\<exists>x\<in>set (pending h). xfer_event (snd x))"

lemma elapse_elim:
  assumes "elapse ev s t"
  obtains k where "fst t = run_all (take k (pending (snd s))) (fst s)" "pending (snd t) = drop k (pending (snd s))"
    "emask (snd t) = emask (snd s)" "port (snd t) = port (snd s)" "account (snd t) = account (snd s)"
    "taken (snd t) = taken (snd s)"
    "bit (ebuf (snd t)) ev \<longleftrightarrow> bit (ebuf (snd s)) ev \<or> (\<exists>x\<in>set (take k (pending (snd s))). xfer_event (snd x))"
proof -
  from assms obtain k eb where t: "t = (run_all (take k (pending (snd s))) (fst s),
        (snd s)\<lparr>pending := drop k (pending (snd s)), ebuf := eb\<rparr>)"
    and e: "bit eb ev \<longleftrightarrow> bit (ebuf (snd s)) ev \<or> (\<exists>x\<in>set (take k (pending (snd s))). xfer_event (snd x))"
    unfolding elapse_def by blast
  show thesis by (rule that [of k]) (simp_all add: t e)
qed

text \<open>The part of such a change that a client of the DMA sees.\<close>

definition moved :: "mem \<times> dma_hw \<Rightarrow> mem \<times> dma_hw \<Rightarrow> bool" where
  "moved s t \<longleftrightarrow>
     (\<exists>k. fst t = run_all (take k (pending (snd s))) (fst s) \<and> pending (snd t) = drop k (pending (snd s))) \<and>
     port (snd t) = port (snd s) \<and> account (snd t) = account (snd s) \<and> taken (snd t) = taken (snd s)"

lemma moved_refl: "moved s s"
  by (auto simp: moved_def run_all_def intro!: exI [of _ 0])

lemma moved_trans:
  assumes "moved s t" and "moved t u"
  shows "moved s u"
proof -
  from assms obtain k j where
    "fst t = run_all (take k (pending (snd s))) (fst s)" "pending (snd t) = drop k (pending (snd s))"
    "fst u = run_all (take j (pending (snd t))) (fst t)" "pending (snd u) = drop j (pending (snd t))"
    unfolding moved_def by blast
  then have "fst u = run_all (take (k + j) (pending (snd s))) (fst s)" "pending (snd u) = drop (k + j) (pending (snd s))"
    by (simp_all add: take_add run_all_append) (simp add: add.commute)
  with assms show ?thesis unfolding moved_def by metis
qed

lemma moved_pending: "moved s t \<Longrightarrow> set (pending (snd t)) \<subseteq> set (pending (snd s))"
  by (auto simp: moved_def dest: in_set_dropD)

lemma elapse_moved: "elapse ev s t \<Longrightarrow> moved s t"
  by (erule elapse_elim) (auto simp: moved_def)

lemma elapse_emask: "elapse ev s t \<Longrightarrow> emask (snd t) = emask (snd s)"
  by (erule elapse_elim)

text \<open>The number of wake-ups that are still to come.\<close>

definition work :: "nat \<Rightarrow> dma_hw \<Rightarrow> nat" where
  "work ev h = 2 * length (pending h) + (if bit (ebuf h) ev then 1 else 0)"

lemma elapse_work:
  assumes "elapse ev s t"
  shows "work ev (snd t) \<le> work ev (snd s)"
proof -
  obtain k where p: "pending (snd t) = drop k (pending (snd s))"
    and e: "bit (ebuf (snd t)) ev \<longleftrightarrow> bit (ebuf (snd s)) ev \<or> (\<exists>x\<in>set (take k (pending (snd s))). xfer_event (snd x))"
    using assms by (rule elapse_elim)
  show ?thesis
  proof (cases "take k (pending (snd s)) = []")
    case True
    with p e show ?thesis by (auto simp: work_def)
  next
    case False
    then have "length (pending (snd t)) < length (pending (snd s))" by (auto simp: p)
    then show ?thesis by (simp add: work_def)
  qed
qed

text \<open>No wake-up is lost: what would wake the core still does after some time.\<close>

lemma elapse_signalled:
  assumes "elapse ev s t" and "signalled ev (snd s)"
  shows "signalled ev (snd t)"
proof -
  obtain k where "pending (snd t) = drop k (pending (snd s))"
    "bit (ebuf (snd t)) ev \<longleftrightarrow> bit (ebuf (snd s)) ev \<or> (\<exists>x\<in>set (take k (pending (snd s))). xfer_event (snd x))"
    using assms(1) by (rule elapse_elim)
  moreover have "set (pending (snd s)) = set (take k (pending (snd s))) \<union> set (drop k (pending (snd s)))"
    by (metis append_take_drop_id set_append)
  ultimately show ?thesis using assms(2) unfolding signalled_def by auto
qed

text \<open>What the core does to the front end of the DMA commutes with the end of transfers.\<close>

lemma moved_feed:
  assumes "moved s t"
  shows "moved (fst s, feed v (snd s)) (fst t, feed v (snd t))"
proof -
  from assms obtain k where k: "fst t = run_all (take k (pending (snd s))) (fst s)" "pending (snd t) = drop k (pending (snd s))"
    and same: "port (snd t) = port (snd s)" "account (snd t) = account (snd s)" "taken (snd t) = taken (snd s)"
    unfolding moved_def by blast
  define j where "j = min k (length (pending (snd s)))"
  have "take k (pending (snd s)) = take j (pending (snd s))" "drop k (pending (snd s)) = drop j (pending (snd s))"
    and "j \<le> length (pending (snd s))"
    by (auto simp: j_def min_def)
  with k same show ?thesis unfolding moved_def by (auto simp: feed_def Let_def intro!: exI [of _ j])
qed

lemma moved_counters:
  assumes "moved s t"
  shows "moved (fst s, (snd s)\<lparr>account := a, taken := f (taken (snd s))\<rparr>) (fst t, (snd t)\<lparr>account := a, taken := f (taken (snd t))\<rparr>)"
    and "moved (fst s, (snd s)\<lparr>taken := f (taken (snd s))\<rparr>) (fst t, (snd t)\<lparr>taken := f (taken (snd t))\<rparr>)"
  using assms by (auto simp: moved_def)

definition seen :: "('e \<Rightarrow> dma_hw) \<Rightarrow> ('e, 'z) machine_scheme \<Rightarrow> mem \<times> dma_hw" where
  "seen view s = (ram s, view (ext s))"

lemma seen_wr:
  assumes "acts ev f (ram s, view (ext s)) (map_prod (\<lambda>m. m) view (bus_wr b l v (ram s, ext s)))"
  shows "acts ev f (seen view s) (seen view (wr b l v s))"
  using assms by (auto simp: seen_def wr_def map_prod_def split: prod.splits)

lemma acts_emask:
  assumes "acts ev (\<lambda>h. h\<lparr>emask := g (emask h)\<rparr>) (seen view s) (seen view s')"
  shows "moved (seen view s) (seen view s')" and "work ev (view (ext s')) \<le> work ev (view (ext s))"
    and "emask (view (ext s')) = g (emask (view (ext s)))"
    and "signalled ev (view (ext s)) \<Longrightarrow> signalled ev (view (ext s'))"
proof -
  from assms obtain m h where a: "elapse ev (seen view s) (m, h)" "ram s' = m"
    and v: "view (ext s') = h\<lparr>emask := g (emask h)\<rparr>"
    by (auto simp: acts_def seen_def)
  show "moved (seen view s) (seen view s')" "work ev (view (ext s')) \<le> work ev (view (ext s))"
    "emask (view (ext s')) = g (emask (view (ext s)))"
    using elapse_moved [OF a(1)] elapse_work [OF a(1)] elapse_emask [OF a(1)] a(2)
    by (simp_all add: seen_def v moved_def work_def)
  show "signalled ev (view (ext s')) " if "signalled ev (view (ext s))"
    using elapse_signalled [OF a(1)] that by (simp add: seen_def v signalled_def)
qed

lemma seen_rd:
  "bus_rd b l (ram s, ext s) = (v, m', e') \<Longrightarrow> rd b l s = (v, s\<lparr>ram := m', ext := e'\<rparr>)"
  by (simp add: rd_def)

locale cluster_dma =
  fixes b :: "'e pulp_bus" and c :: dma_config and view :: "'e \<Rightarrow> dma_hw"
  assumes event_number: "ARCHI_CL_EVT_DMA0 c < 32"
    and mask_set: "acts (ARCHI_CL_EVT_DMA0 c) (\<lambda>h. h\<lparr>emask := emask h OR v\<rparr>) (m, view e)
      (map_prod (\<lambda>m. m) view (bus_wr b (M32 (ARCHI_EU_DEMUX_ADDR c + EU_CORE_MASK_OR)) v (m, e)))"
    and mask_clr: "acts (ARCHI_CL_EVT_DMA0 c) (\<lambda>h. h\<lparr>emask := emask h AND NOT v\<rparr>) (m, view e)
      (map_prod (\<lambda>m. m) view (bus_wr b (M32 (ARCHI_EU_DEMUX_ADDR c + EU_CORE_MASK_AND)) v (m, e)))"
    and wait_clear: "signalled (ARCHI_CL_EVT_DMA0 c) (view e) \<Longrightarrow> bit (emask (view e)) (ARCHI_CL_EVT_DMA0 c) \<Longrightarrow>
      \<exists>m' h' e'. elapse (ARCHI_CL_EVT_DMA0 c) (m, view e) (m', h') \<and> ebuf h' AND emask h' \<noteq> 0 \<and>
        bus_rd b (M32 (ARCHI_EU_DEMUX_ADDR c + EU_CORE_EVENT_WAIT_CLEAR)) (m, e) = (ebuf h' AND emask h', m', e') \<and>
        view e' = h'\<lparr>ebuf := ebuf h' AND NOT (emask h')\<rparr>"
    and status: "\<exists>m' e' v. elapse (ARCHI_CL_EVT_DMA0 c) (m, view e) (m', view e') \<and>
        bus_rd b (M32 (ARCHI_MCHAN_EXT_ADDR c + MCHAN_STATUS_OFFSET)) (m, e) = (v, m', e') \<and>
        (\<forall>i<16. bit v i \<longleftrightarrow> i \<in> fst ` set (pending (view e')))"
    and free: "acts (ARCHI_CL_EVT_DMA0 c) (\<lambda>h. h\<lparr>taken := taken h - {i. bit v i}\<rparr>) (m, view e)
      (map_prod (\<lambda>m. m) view (bus_wr b (M32 (ARCHI_MCHAN_EXT_ADDR c + MCHAN_STATUS_OFFSET)) v (m, e)))"
    and alloc: "\<not> {..<16} \<subseteq> taken (view e) \<Longrightarrow>
      \<exists>m' h' e' i. elapse (ARCHI_CL_EVT_DMA0 c) (m, view e) (m', h') \<and> i < 16 \<and> i \<notin> taken (view e) \<and>
        bus_rd b (M32 (ARCHI_MCHAN_EXT_ADDR c + MCHAN_CMD_OFFSET)) (m, e) = (of_nat i, m', e') \<and>
        view e' = h'\<lparr>account := i, taken := insert i (taken h')\<rparr>"
    and push: "acts (ARCHI_CL_EVT_DMA0 c) (feed v) (m, view e)
      (map_prod (\<lambda>m. m) view (bus_wr b (M32 (ARCHI_MCHAN_EXT_ADDR c + MCHAN_CMD_OFFSET)) v (m, e)))"
begin

lemma woken:
  fixes s :: "('e, 'z) machine_scheme"
  assumes "signalled (ARCHI_CL_EVT_DMA0 c) (view (ext s))"
    and only: "\<And>n. bit (emask (view (ext s))) n \<longleftrightarrow> n = ARCHI_CL_EVT_DMA0 c"
  shows "\<exists>r s'. eu_evt_waitAndClr b c s = (r, s') \<and> moved (seen view s) (seen view s') \<and>
    work (ARCHI_CL_EVT_DMA0 c) (view (ext s')) < work (ARCHI_CL_EVT_DMA0 c) (view (ext s)) \<and>
    emask (view (ext s')) = emask (view (ext s))"
proof -
  let ?ev = "ARCHI_CL_EVT_DMA0 c"
  from assms(1) only obtain m h e where
    a: "elapse ?ev (ram s, view (ext s)) (m, h)" "ebuf h AND emask h \<noteq> 0"
    "bus_rd b (M32 (ARCHI_EU_DEMUX_ADDR c + EU_CORE_EVENT_WAIT_CLEAR)) (ram s, ext s) = (ebuf h AND emask h, m, e)"
    and v: "view e = h\<lparr>ebuf := ebuf h AND NOT (emask h)\<rparr>"
    using wait_clear [of "ext s" "ram s"] by auto
  have em: "emask h = emask (view (ext s))" using elapse_emask [OF a(1)] by simp
  from a(2) obtain n where "bit (ebuf h AND emask h) n" by (auto simp: bit_eq_iff)
  with only em have "bit (ebuf h) ?ev" by (auto simp: bit_simps)
  with elapse_moved [OF a(1)] elapse_work [OF a(1)] only em seen_rd [OF a(3)] show ?thesis
    by (simp add: eu_evt_waitAndClr_def evt_read32_def pulp_read32_def seen_def v moved_def work_def bit_simps)
qed

lemma woken_once:
  fixes s :: "('e, 'z) machine_scheme"
  assumes only: "\<And>n. bit (emask (view (ext s))) n \<Longrightarrow> n = ARCHI_CL_EVT_DMA0 c"
    and ev: "signalled (ARCHI_CL_EVT_DMA0 c) (view (ext s))"
  shows "\<exists>r s'. eu_evt_maskWaitAndClr b c (push_bit (ARCHI_CL_EVT_DMA0 c) 1) s = (r, s') \<and>
    moved (seen view s) (seen view s') \<and>
    work (ARCHI_CL_EVT_DMA0 c) (view (ext s')) < work (ARCHI_CL_EVT_DMA0 c) (view (ext s)) \<and>
    emask (view (ext s')) = 0"
proof -
  let ?ev = "ARCHI_CL_EVT_DMA0 c"
  define s1 where "s1 = eu_evt_maskSet b c (push_bit ?ev 1) s"
  have "acts ?ev (\<lambda>h. h\<lparr>emask := emask h OR push_bit ?ev 1\<rparr>) (seen view s) (seen view s1)"
    unfolding s1_def eu_evt_maskSet_def eu_evt_maskSet_base_def pulp_write32_def by (rule seen_wr) (rule mask_set)
  note a1 = acts_emask [OF this]
  have only1: "bit (emask (view (ext s1))) n \<longleftrightarrow> n = ?ev" for n
    using only event_number by (auto simp: a1(3) bit_simps)
  from woken [OF a1(4) [OF ev] only1] obtain r s2 where
    a2: "eu_evt_waitAndClr b c s1 = (r, s2)" "moved (seen view s1) (seen view s2)"
      "work ?ev (view (ext s2)) < work ?ev (view (ext s1))" "emask (view (ext s2)) = emask (view (ext s1))"
    by blast
  define s3 where "s3 = eu_evt_maskClr b c (push_bit ?ev 1) s2"
  have "acts ?ev (\<lambda>h. h\<lparr>emask := emask h AND NOT (push_bit ?ev 1)\<rparr>) (seen view s2) (seen view s3)"
    unfolding s3_def eu_evt_maskClr_def pulp_write32_def by (rule seen_wr) (rule mask_clr)
  note a3 = acts_emask [OF this]
  have "emask (view (ext s3)) = 0"
    by (rule bit_word_eqI) (auto simp: a3(3) a2(4) only1 bit_simps)
  moreover have "eu_evt_maskWaitAndClr b c (push_bit ?ev 1) s = (r, s3)"
    using a2(1) by (simp add: eu_evt_maskWaitAndClr_def s1_def s3_def)
  ultimately show ?thesis
    using a1(2) a2(3) a3(2) moved_trans [OF moved_trans [OF a1(1) a2(2)] a3(1)] by auto
qed

lemma status_seen:
  fixes s :: "('e, 'z) machine_scheme"
  shows "\<exists>v s'. DMA_READ b c MCHAN_STATUS_OFFSET s = (v, s') \<and> elapse (ARCHI_CL_EVT_DMA0 c) (seen view s) (seen view s') \<and>
    (\<forall>i<16. bit v i \<longleftrightarrow> i \<in> fst ` set (pending (view (ext s'))))"
proof -
  obtain m e v where "elapse (ARCHI_CL_EVT_DMA0 c) (ram s, view (ext s)) (m, view e)"
    "bus_rd b (M32 (ARCHI_MCHAN_EXT_ADDR c + MCHAN_STATUS_OFFSET)) (ram s, ext s) = (v, m, e)"
    "\<forall>i<16. bit v i \<longleftrightarrow> i \<in> fst ` set (pending (view e))"
    using status [of "ram s" "ext s"] by blast
  then show ?thesis by (simp add: DMA_READ_def pulp_read32_def seen_rd seen_def)
qed

text \<open>
  Sleeping ends, and only when no transfer of the counters waited for is left in the queue: every
  turn uses up a wake-up, and none is lost between the look at the status and the sleep.
\<close>

lemma sleep_while:
  fixes s :: "('e, 'z) machine_scheme"
  assumes busy: "\<And>n. bit busy n \<Longrightarrow> n < 16"
    and "\<And>x. x \<in> set (pending (view (ext s))) \<Longrightarrow> bit busy (fst x) \<Longrightarrow> xfer_event (snd x)"
    and "\<And>n. bit (emask (view (ext s))) n \<Longrightarrow> n = ARCHI_CL_EVT_DMA0 c"
  shows "\<exists>s'. dma_sleep_while b c busy s = Some s' \<and> moved (seen view s) (seen view s') \<and>
    (\<forall>x\<in>set (pending (view (ext s'))). \<not> bit busy (fst x)) \<and>
    (\<forall>n. bit (emask (view (ext s'))) n \<longrightarrow> n = ARCHI_CL_EVT_DMA0 c)"
  using assms(2,3)
proof (induction "work (ARCHI_CL_EVT_DMA0 c) (view (ext s))" arbitrary: s rule: less_induct)
  case less
  let ?ev = "ARCHI_CL_EVT_DMA0 c"
  obtain v s1 where r: "DMA_READ b c MCHAN_STATUS_OFFSET s = (v, s1)" and e: "elapse ?ev (seen view s) (seen view s1)"
    and st: "\<forall>i<16. bit v i \<longleftrightarrow> i \<in> fst ` set (pending (view (ext s1)))"
    using status_seen [of s] by blast
  have mv: "moved (seen view s) (seen view s1)" and em: "emask (view (ext s1)) = emask (view (ext s))"
    using elapse_moved [OF e] elapse_emask [OF e] by (simp_all add: seen_def)
  have p1: "set (pending (view (ext s1))) \<subseteq> set (pending (view (ext s)))"
    using moved_pending [OF mv] by (simp add: seen_def)
  show ?case
  proof (cases "v AND busy = 0")
    case True
    then have "\<not> (bit v n \<and> bit busy n)" for n
      by (metis bit_and_iff bit_0_eq bot_apply bot_bool_def)
    with st busy have "\<forall>x\<in>set (pending (view (ext s1))). \<not> bit busy (fst x)" by blast
    moreover have "dma_sleep_while b c busy s = Some s1"
      by (subst dma_sleep_while.simps) (simp add: r True)
    ultimately show ?thesis using mv less.prems(2) by (simp add: em)
  next
    case False
    then obtain n where n: "bit v n" "bit busy n" by (auto simp: bit_eq_iff bit_simps)
    with st busy obtain x where x: "x \<in> set (pending (view (ext s1)))" "fst x = n" by (metis (no_types) image_iff)
    with less.prems(1) [of x] p1 n have "xfer_event (snd x)" by blast
    with x have sig: "signalled ?ev (view (ext s1))" by (auto simp: signalled_def)
    have "\<And>n. bit (emask (view (ext s1))) n \<Longrightarrow> n = ?ev" using less.prems(2) em by simp
    from woken_once [OF this sig] obtain r2 s2 where
      w: "eu_evt_maskWaitAndClr b c (push_bit ?ev 1) s1 = (r2, s2)" "moved (seen view s1) (seen view s2)"
        "work ?ev (view (ext s2)) < work ?ev (view (ext s1))" "emask (view (ext s2)) = 0"
      by blast
    have p2: "set (pending (view (ext s2))) \<subseteq> set (pending (view (ext s)))"
      using moved_pending [OF w(2)] p1 by (auto simp: seen_def)
    have eq: "dma_sleep_while b c busy s = dma_sleep_while b c busy s2"
      using w(1) by (subst dma_sleep_while.simps) (simp add: r False)
    have "work ?ev (view (ext s2)) < work ?ev (view (ext s))"
      using elapse_work [OF e] w(3) by (simp add: seen_def)
    moreover have "xfer_event (snd x)" if "x \<in> set (pending (view (ext s2)))" "bit busy (fst x)" for x
      using that less.prems(1) p2 by blast
    ultimately obtain s' where
      "dma_sleep_while b c busy s2 = Some s'" "moved (seen view s2) (seen view s')"
      "\<forall>x\<in>set (pending (view (ext s'))). \<not> bit busy (fst x)"
      "\<forall>n. bit (emask (view (ext s'))) n \<longrightarrow> n = ?ev"
      using less.hyps [of s2] w(4) by auto
    then show ?thesis using eq moved_trans [OF moved_trans [OF mv w(2)]] by auto
  qed
qed

lemma fed:
  fixes s :: "('e, 'z) machine_scheme"
  assumes "moved S (seen view s)"
  shows "moved (fst S, feed v (snd S)) (seen view (DMA_WRITE b c v MCHAN_CMD_OFFSET s))"
    and "emask (view (ext (DMA_WRITE b c v MCHAN_CMD_OFFSET s))) = emask (view (ext s))"
proof -
  let ?t = "DMA_WRITE b c v MCHAN_CMD_OFFSET s"
  have "acts (ARCHI_CL_EVT_DMA0 c) (feed v) (seen view s) (seen view ?t)"
    unfolding DMA_WRITE_def pulp_write32_def by (rule seen_wr) (rule push)
  then obtain m h where e: "elapse (ARCHI_CL_EVT_DMA0 c) (seen view s) (m, h)" and t: "seen view ?t = (m, feed v h)"
    unfolding acts_def by blast
  from moved_feed [OF moved_trans [OF assms elapse_moved [OF e]], of v] t
  show "moved (fst S, feed v (snd S)) (seen view ?t)" by simp
  from elapse_emask [OF e] t show "emask (view (ext ?t)) = emask (view (ext s))"
    by (auto simp: seen_def feed_def Let_def)
qed

lemma allocated:
  fixes s :: "('e, 'z) machine_scheme"
  assumes "\<not> {..<16} \<subseteq> taken (view (ext s))"
  shows "\<exists>i s'. plp_dma_counter_alloc b c s = (of_nat i, s') \<and> i < 16 \<and> i \<notin> taken (view (ext s)) \<and>
    moved (ram s, (view (ext s))\<lparr>account := i, taken := insert i (taken (view (ext s)))\<rparr>) (seen view s') \<and>
    emask (view (ext s')) = emask (view (ext s))"
proof -
  from alloc [OF assms, of "ram s"] obtain m h e i where
    a: "elapse (ARCHI_CL_EVT_DMA0 c) (ram s, view (ext s)) (m, h)" "i < 16" "i \<notin> taken (view (ext s))"
      "bus_rd b (M32 (ARCHI_MCHAN_EXT_ADDR c + MCHAN_CMD_OFFSET)) (ram s, ext s) = (of_nat i, m, e)"
    and v: "view e = h\<lparr>account := i, taken := insert i (taken h)\<rparr>"
    by blast
  from moved_counters(1) [OF elapse_moved [OF a(1)], where a = i and f = "insert i"] elapse_emask [OF a(1)] a(2-4) v show ?thesis
    by (auto simp: plp_dma_counter_alloc_def DMA_READ_def pulp_read32_def seen_rd seen_def)
qed

lemma freed:
  fixes s :: "('e, 'z) machine_scheme"
  assumes "moved S (seen view s)"
  shows "moved (fst S, (snd S)\<lparr>taken := taken (snd S) - {i. bit v i}\<rparr>) (seen view (DMA_WRITE b c v MCHAN_STATUS_OFFSET s))"
proof -
  let ?t = "DMA_WRITE b c v MCHAN_STATUS_OFFSET s"
  have "acts (ARCHI_CL_EVT_DMA0 c) (\<lambda>h. h\<lparr>taken := taken h - {i. bit v i}\<rparr>) (seen view s) (seen view ?t)"
    unfolding DMA_WRITE_def pulp_write32_def by (rule seen_wr) (rule free)
  then obtain m h where e: "elapse (ARCHI_CL_EVT_DMA0 c) (seen view s) (m, h)"
    and t: "seen view ?t = (m, h\<lparr>taken := taken h - {i. bit v i}\<rparr>)"
    unfolding acts_def by blast
  from moved_counters(2) [OF moved_trans [OF assms elapse_moved [OF e]], where f = "\<lambda>t. t - {i. bit v i}"] t
  show ?thesis by simp
qed

text \<open>Freeing counters when the queue has been worked off changes nothing else.\<close>

lemma freed_empty:
  fixes s :: "('e, 'z) machine_scheme" and v :: u32
  assumes "moved S (seen view s)" and "pending (view (ext s)) = []"
  defines "t \<equiv> DMA_WRITE b c v MCHAN_STATUS_OFFSET s"
  shows "ram t = run_all (pending (snd S)) (fst S) \<and> pending (view (ext t)) = [] \<and>
    taken (view (ext t)) = taken (snd S) - {i. bit v i}"
proof -
  have "pending (view (ext t)) = []"
    using moved_pending [OF freed [OF moved_refl, of s v]] assms(2) by (simp add: t_def seen_def)
  moreover obtain k where "ram t = run_all (take k (pending (snd S))) (fst S)"
    "pending (view (ext t)) = drop k (pending (snd S))" "taken (view (ext t)) = taken (snd S) - {i. bit v i}"
    using freed [OF assms(1), of v] by (auto simp: moved_def seen_def t_def)
  ultimately show ?thesis by (metis append_Nil2 append_take_drop_id)
qed

lemma waited:
  fixes s :: "('e, 'z) machine_scheme"
  assumes "moved S (seen view s)" and i: "i < 16" and ev: "xfer_event ws"
    and S: "pending (snd S) = xs @ [(i, ws)]" "i \<notin> fst ` set xs"
    and "\<And>n. bit (emask (view (ext s))) n \<Longrightarrow> n = ARCHI_CL_EVT_DMA0 c"
  shows "\<exists>s'. plp_dma_wait b c (of_nat i) s = Some s' \<and> ram s' = run_all (xs @ [(i, ws)]) (fst S) \<and>
    pending (view (ext s')) = [] \<and> taken (view (ext s')) = taken (snd S) - {i}"
proof -
  have cb: "counter_bit (of_nat i) = push_bit i 1"
    using i by (simp add: counter_bit_def unsigned_take_bit_eq unat_of_nat take_bit_nat_eq_self)
  have bits: "{n. bit (push_bit i 1 :: u32) n} = {i}" using i by (auto simp: bit_simps)
  have "set (pending (view (ext s))) \<subseteq> set (xs @ [(i, ws)])"
    using moved_pending [OF assms(1)] S(1) by (simp add: seen_def)
  then have sole: "x = (i, ws)" if "x \<in> set (pending (view (ext s)))" "fst x = i" for x
    using that S(2) by force
  have "xfer_event (snd x)" if "x \<in> set (pending (view (ext s)))" "bit (push_bit i 1 :: u32) (fst x)" for x
    using sole [OF that(1)] that(2) ev by (auto simp del: split_paired_All simp: bit_simps)
  with sleep_while [of "push_bit i 1" s] i assms(6) obtain s1 where
    s1: "dma_sleep_while b c (push_bit i 1) s = Some s1" "moved (seen view s) (seen view s1)"
      "\<forall>x\<in>set (pending (view (ext s1))). \<not> bit (push_bit i 1 :: u32) (fst x)"
    by (auto simp: bit_simps)
  from moved_trans [OF assms(1) s1(2)] have mv: "moved S (seen view s1)" .
  have "pending (view (ext s1)) = []"
  proof -
    from mv obtain k where k: "pending (view (ext s1)) = drop k (xs @ [(i, ws)])" by (auto simp: moved_def S(1) seen_def)
    have "(i, ws) \<notin> set (pending (view (ext s1)))" using s1(3) i by (auto simp: bit_simps)
    then show ?thesis unfolding k by (cases "k \<le> length xs") auto
  qed
  with freed_empty [OF mv, of "push_bit i 1"] S(1) s1(1) bits show ?thesis
    by (simp add: plp_dma_wait_def plp_dma_counter_free_def cb)
qed

lemma fed_all:
  fixes s :: "('e, 'z) machine_scheme"
  assumes "moved S (seen view s)"
  shows "moved (fst S, fold feed ws (snd S)) (seen view (fold (\<lambda>v. DMA_WRITE b c v MCHAN_CMD_OFFSET) ws s)) \<and>
    emask (view (ext (fold (\<lambda>v. DMA_WRITE b c v MCHAN_CMD_OFFSET) ws s))) = emask (view (ext s))"
  using assms
proof (induction ws arbitrary: S s)
  case (Cons v ws)
  from Cons.IH [OF fed(1) [OF Cons.prems, of v]] fed(2) [OF Cons.prems, of v] show ?case by simp
qed simp

text \<open>
  A transfer on a counter of its own, enqueued behind others that are already queued, is done when
  the wait for its counter returns; so are those before it.
\<close>

lemma transfer:
  fixes s :: "('e, 'z) machine_scheme"
  assumes idle: "port (view (ext s)) = []" "fst ` set (pending (view (ext s))) \<subseteq> taken (view (ext s))"
      "\<not> {..<16} \<subseteq> taken (view (ext s))"
    and only: "\<And>n. bit (emask (view (ext s))) n \<Longrightarrow> n = ARCHI_CL_EVT_DMA0 c"
    and ws: "xfer_event ws" "\<And>h. port h = [] \<Longrightarrow> fold feed ws h = h\<lparr>pending := pending h @ [(account h, ws)]\<rparr>"
  shows "\<exists>i s1 s'. plp_dma_counter_alloc b c s = (of_nat i, s1) \<and>
    plp_dma_wait b c (of_nat i) (fold (\<lambda>v. DMA_WRITE b c v MCHAN_CMD_OFFSET) ws s1) = Some s' \<and>
    ram s' = xfer_run ws (run_all (pending (view (ext s))) (ram s)) \<and>
    pending (view (ext s')) = [] \<and> taken (view (ext s')) = taken (view (ext s))"
proof -
  let ?h = "view (ext s)"
  from allocated [OF idle(3)] obtain i s1 where
    a: "plp_dma_counter_alloc b c s = (of_nat i, s1)" "i < 16" "i \<notin> taken ?h"
      "moved (ram s, ?h\<lparr>account := i, taken := insert i (taken ?h)\<rparr>) (seen view s1)"
      "emask (view (ext s1)) = emask ?h"
    by blast
  define s2 where "s2 = fold (\<lambda>v. DMA_WRITE b c v MCHAN_CMD_OFFSET) ws s1"
  define S where "S = (ram s, ?h\<lparr>account := i, taken := insert i (taken ?h), pending := pending ?h @ [(i, ws)]\<rparr>)"
  from fed_all [OF a(4), of ws] idle(1) have "moved S (seen view s2)" and em: "emask (view (ext s2)) = emask (view (ext s1))"
    by (simp_all add: s2_def S_def ws(2))
  moreover have "pending (snd S) = pending ?h @ [(i, ws)]" "i \<notin> fst ` set (pending ?h)"
    using idle(2) a(3) by (auto simp: S_def)
  ultimately obtain s' where "plp_dma_wait b c (of_nat i) s2 = Some s'" "ram s' = run_all (pending ?h @ [(i, ws)]) (ram s)"
    "pending (view (ext s')) = []" "taken (view (ext s')) = taken (snd S) - {i}"
    using waited [of S s2 i ws "pending ?h"] a(2,5) ws(1) only em by (auto simp: S_def)
  moreover have "taken (snd S) - {i} = taken ?h" using a(3) by (simp add: S_def)
  ultimately show ?thesis using a(1) by (auto simp: s2_def run_all_append) (auto simp: run_all_def)
qed

end

section \<open>Commands\<close>

lemma bit_bitinsert:
  assumes "off + sz \<le> 32" and "n < 32"
  shows "bit (builtin_bitinsert x v sz off) n \<longleftrightarrow> (if off \<le> n \<and> n < off + sz then bit v (n - off) else bit x n)"
  using reg_field.put_bit [OF emu_field [OF assms(1)] assms(2)] by (simp add: builtin_bitinsert_def BITINSERT_def)

lemma getCmd_bit:
  assumes "n < 32"
  shows "bit (plp_dma_getCmd ext2loc sz is2D trigEvt trigIrq broadcast) n \<longleftrightarrow>
    (if n < 17 then bit sz n else if n = 17 then bit ext2loc 0 else if n = 18 then True else if n = 19 then bit is2D 0
     else if n = 20 then bit trigEvt 0 else if n = 21 then bit trigIrq 0 else n = 22 \<and> bit broadcast 0)"
  using assms by (auto simp: plp_dma_getCmd_def Let_def bit_bitinsert mchan_fields PLP_DMA_INC_def)

lemma bit_get: "off + w \<le> 32 \<Longrightarrow> bit (BITEXTRACTU x w off) n \<longleftrightarrow> n < w \<and> bit x (off + n)"
  using reg_field.get_eq [OF emu_field, of off w x] by (auto simp: bit_simps)

lemma getCmd_fields:
  "MCHAN_CMD_CMD_LEN_GET (plp_dma_getCmd ext2loc sz is2D trigEvt trigIrq broadcast) = take_bit 17 sz"
  "MCHAN_CMD_CMD_TYPE_GET (plp_dma_getCmd ext2loc sz is2D trigEvt trigIrq broadcast) = take_bit 1 ext2loc"
  "MCHAN_CMD_CMD_INC_GET (plp_dma_getCmd ext2loc sz is2D trigEvt trigIrq broadcast) = 1"
  "MCHAN_CMD_CMD__2D_EXT_GET (plp_dma_getCmd ext2loc sz is2D trigEvt trigIrq broadcast) = take_bit 1 is2D"
  "MCHAN_CMD_CMD_ELE_GET (plp_dma_getCmd ext2loc sz is2D trigEvt trigIrq broadcast) = take_bit 1 trigEvt"
  "MCHAN_CMD_CMD_ILE_GET (plp_dma_getCmd ext2loc sz is2D trigEvt trigIrq broadcast) = take_bit 1 trigIrq"
  "MCHAN_CMD_CMD_BLE_GET (plp_dma_getCmd ext2loc sz is2D trigEvt trigIrq broadcast) = take_bit 1 broadcast"
  "MCHAN_CMD_CMD__2D_TCDM_GET (plp_dma_getCmd ext2loc sz is2D trigEvt trigIrq broadcast) = 0"
  by (rule bit_word_eqI; simp only: mchan_gets bit_take_bit_iff; auto simp: bit_get getCmd_bit bit_1_iff)+

lemma len_of_short: "unat (take_bit 17 (ucast n :: u32)) = unat (n :: u16)"
proof -
  have "take_bit 17 (ucast n :: u32) = ucast n" by (rule bit_word_eqI) (auto simp: bit_simps dest: bit_imp_le_length)
  then show ?thesis by simp
qed

text \<open>The words that the routines write for an event-based transfer form one transfer.\<close>

lemma push_words:
  assumes "cmd = plp_dma_getCmd dir sz PLP_DMA_1D PLP_DMA_TRIG_EVT irq shared"
  shows "xfer_event [cmd, loc, ea]"
    and "port h = [] \<Longrightarrow> fold feed [cmd, loc, ea] h = h\<lparr>pending := pending h @ [(account h, [cmd, loc, ea])]\<rparr>"
    and "plp_dma_cmd_push b c cmd loc ea s = fold (\<lambda>v. DMA_WRITE b c v MCHAN_CMD_OFFSET) [cmd, loc, ea] s"
  by (simp_all add: assms xfer_event_def feed_def words_needed_def getCmd_fields dma_consts plp_dma_cmd_push_def)

lemma push_words_2d:
  assumes "cmd = plp_dma_getCmd dir sz PLP_DMA_2D PLP_DMA_TRIG_EVT irq shared"
  shows "xfer_event [cmd, loc, ea, len, stride]"
    and "port h = [] \<Longrightarrow>
      fold feed [cmd, loc, ea, len, stride] h = h\<lparr>pending := pending h @ [(account h, [cmd, loc, ea, len, stride])]\<rparr>"
    and "plp_dma_cmd_push_2d b c cmd loc ea stride len s =
      fold (\<lambda>v. DMA_WRITE b c v MCHAN_CMD_OFFSET) [cmd, loc, ea, len, stride] s"
  by (simp_all add: assms xfer_event_def feed_def words_needed_def getCmd_fields dma_consts plp_dma_cmd_push_def
      plp_dma_cmd_push_2d_def)

section \<open>Copying\<close>

definition copy_byte :: "(nat \<Rightarrow> u32) \<Rightarrow> (nat \<Rightarrow> u32) \<Rightarrow> nat \<Rightarrow> mem \<Rightarrow> mem" where
  "copy_byte d src i m = m(d i := m (src i))"

lemma copy_byte_apply: "copy_byte d src i m p = (if p = d i then m (src i) else m p)"
  by (simp add: copy_byte_def)

lemma move_byte_copy:
  "move_byte ws = (if MCHAN_CMD_CMD_TYPE_GET (ws ! 0) = 1 then copy_byte (loc_byte ws) (ext_byte ws)
     else copy_byte (ext_byte ws) (loc_byte ws))"
  by (simp add: fun_eq_iff move_byte_def copy_byte_def)

lemma copy_fold:
  assumes "inj_on d {..<n}" and "\<And>i j. i < n \<Longrightarrow> j < n \<Longrightarrow> d i \<noteq> src j"
  shows "(\<forall>i<n. fold (copy_byte d src) [0..<n] m (d i) = m (src i)) \<and>
    (\<forall>p. (\<forall>i<n. p \<noteq> d i) \<longrightarrow> fold (copy_byte d src) [0..<n] m p = m p)"
  using assms
proof (induction n)
  case (Suc n)
  let ?f = "fold (copy_byte d src) [0..<n] m"
  from Suc.prems(1) have "inj_on d {..<n}" by (rule inj_on_subset) auto
  with Suc have IH: "\<forall>i<n. ?f (d i) = m (src i)" "\<forall>p. (\<forall>i<n. p \<noteq> d i) \<longrightarrow> ?f p = m p" by auto
  have "d i \<noteq> d n" if "i < n" for i using Suc.prems(1) that by (auto simp: inj_on_def)
  moreover have "?f (src n) = m (src n)" using IH(2) Suc.prems(2) by (metis less_Suc_eq)
  moreover have "fold (copy_byte d src) [0..<Suc n] m p = (if p = d n then ?f (src n) else ?f p)" for p
    by (simp only: upt_Suc_append [OF le0] fold_append fold_simps comp_apply copy_byte_apply)
  ultimately show ?case using IH by (simp add: less_Suc_eq del: upt_Suc)
qed simp

lemma linear_inj: "n \<le> 65536 \<Longrightarrow> inj_on (\<lambda>i. a + of_nat i :: u32) {..<n}"
  by (auto simp: inj_on_def word_of_nat_eq_iff take_bit_nat_eq_self)

lemma unat_short: "unat (n :: u16) \<le> 65536"
proof -
  have "unat n < 2 ^ LENGTH(16)" by (rule unsigned_less)
  then show ?thesis by simp
qed

lemma run_linear:
  fixes n :: u16 and loc ea :: u32
  assumes cmd: "cmd = plp_dma_getCmd dir (ucast n) PLP_DMA_1D evt irq shared" and "dir = 0 \<or> dir = 1"
    and apart: "\<And>i j. i < unat n \<Longrightarrow> j < unat n \<Longrightarrow> loc + of_nat i \<noteq> ea + of_nat j"
  defines "d \<equiv> if dir = 1 then loc else ea" and "src \<equiv> if dir = 1 then ea else loc"
  shows "(\<forall>i<unat n. xfer_run [cmd, loc, ea] m (d + of_nat i) = m (src + of_nat i)) \<and>
    (\<forall>p. (\<forall>i<unat n. p \<noteq> d + of_nat i) \<longrightarrow> xfer_run [cmd, loc, ea] m p = m p)"
proof -
  have fs: "loc_byte [cmd, loc, ea] = (\<lambda>i. loc + of_nat i)" "ext_byte [cmd, loc, ea] = (\<lambda>i. ea + of_nat i)"
    by (simp_all add: fun_eq_iff loc_byte_def ext_byte_def cmd getCmd_fields dma_consts)
  have "xfer_run [cmd, loc, ea] = fold (move_byte [cmd, loc, ea]) [0..<unat n]"
    by (simp add: xfer_run_def xfer_len_def cmd getCmd_fields len_of_short)
  also have "move_byte [cmd, loc, ea] = copy_byte (\<lambda>i. d + of_nat i) (\<lambda>i. src + of_nat i)"
    using assms(2) unfolding move_byte_copy fs by (auto simp: cmd getCmd_fields d_def src_def)
  finally have "xfer_run [cmd, loc, ea] = fold (copy_byte (\<lambda>i. d + of_nat i) (\<lambda>i. src + of_nat i)) [0..<unat n]"
    .
  moreover have "d + of_nat i \<noteq> src + of_nat j" if "i < unat n" "j < unat n" for i j
    using apart [OF that] apart [OF that(2,1)] by (simp add: d_def src_def)
  ultimately show ?thesis using copy_fold [OF linear_inj [OF unat_short]] by simp
qed

lemma run_tile:
  fixes n len stride :: u16 and loc ea :: u32
  assumes cmd: "cmd = plp_dma_getCmd PLP_DMA_EXT2LOC (ucast n) PLP_DMA_2D evt irq shared"
    and apart: "\<And>i j. i < unat n \<Longrightarrow> j < unat n \<Longrightarrow> loc + of_nat i \<noteq> ea + tile_pos (unat len) (ucast stride) j"
  shows "(\<forall>i<unat n. xfer_run [cmd, loc, ea, ucast len, ucast stride] m (loc + of_nat i) =
        m (ea + tile_pos (unat len) (ucast stride) i)) \<and>
    (\<forall>p. (\<forall>i<unat n. p \<noteq> loc + of_nat i) \<longrightarrow> xfer_run [cmd, loc, ea, ucast len, ucast stride] m p = m p)"
proof -
  have "loc_byte [cmd, loc, ea, ucast len, ucast stride] = (\<lambda>i. loc + of_nat i)"
    "ext_byte [cmd, loc, ea, ucast len, ucast stride] = (\<lambda>i. ea + tile_pos (unat len) (ucast stride) i)"
    by (simp_all add: fun_eq_iff loc_byte_def ext_byte_def cmd getCmd_fields dma_consts)
  then have "xfer_run [cmd, loc, ea, ucast len, ucast stride] =
      fold (copy_byte (\<lambda>i. loc + of_nat i) (\<lambda>i. ea + tile_pos (unat len) (ucast stride) i)) [0..<unat n]"
    by (simp add: xfer_run_def xfer_len_def move_byte_copy cmd getCmd_fields len_of_short dma_consts)
  then show ?thesis using copy_fold [OF linear_inj [OF unat_short]] apart by simp
qed

section \<open>A cluster\<close>

text \<open>A device that carries out what is queued while the core sleeps, at the addresses of a PULP cluster.\<close>

definition pulp_cluster :: dma_config where
  "pulp_cluster = \<lparr>ARCHI_EU_DEMUX_ADDR = 0x204000, ARCHI_EU_OFFSET = 0x800, SOC_EVENT_UNIT_ADDR = 0x1A106000,
     PULP_CKGATE_OFFSET = 0, ARCHI_MCHAN_EXT_ADDR = 0x201800, ARCHI_CL_EVT_DMA0 = 8\<rparr>"

definition busy_word :: "(nat \<times> xfer) list \<Rightarrow> u32" where
  "busy_word xs = fold (\<lambda>x v. v OR push_bit (fst x) 1) xs 0"

definition sleepy_dma :: "dma_hw pulp_bus" where
  "sleepy_dma = \<lparr>
     bus_rd = (\<lambda>l (m, h).
       if l = M32 0x201804 then (busy_word (pending h), m, h)
       else if l = M32 0x201800 then
         (case filter (\<lambda>i. i \<notin> taken h) [0..<16] of
            [] \<Rightarrow> (0, m, h)
          | i # _ \<Rightarrow> (of_nat i, m, h\<lparr>account := i, taken := insert i (taken h)\<rparr>))
       else if l = M32 0x20403C then
         (let eb = (if list_ex (\<lambda>x. xfer_event (snd x)) (pending h) then ebuf h OR push_bit 8 1 else ebuf h)
          in (eb AND emask h, run_all (pending h) m, h\<lparr>pending := [], ebuf := eb AND NOT (emask h)\<rparr>))
       else (0, m, h)),
     bus_wr = (\<lambda>l v (m, h).
       (m, if l = M32 0x204008 then h\<lparr>emask := emask h OR v\<rparr>
           else if l = M32 0x204004 then h\<lparr>emask := emask h AND NOT v\<rparr>
           else if l = M32 0x201804 then h\<lparr>taken := taken h - {i. bit v i}\<rparr>
           else if l = M32 0x201800 then feed v h
           else h)),
     bus_wp = (\<lambda>l p s. s)\<rparr>"

lemma busy_word_bit: "i < 32 \<Longrightarrow> bit (busy_word xs) i \<longleftrightarrow> i \<in> fst ` set xs"
proof -
  assume "i < 32"
  then have "bit (fold (\<lambda>x v. v OR push_bit (fst x) 1) xs v) i \<longleftrightarrow> bit v i \<or> i \<in> fst ` set xs" for v :: u32
    by (induction xs arbitrary: v) (auto simp: bit_simps)
  then show ?thesis by (simp add: busy_word_def)
qed

lemma elapse_refl: "elapse ev s s"
  by (cases s) (auto simp: elapse_def run_all_def intro!: exI [of _ 0] exI [of _ "ebuf (snd s)"])

lemma acts_at_once: "t = (m, f h) \<Longrightarrow> acts ev f (m, h) t"
  unfolding acts_def using elapse_refl by blast

lemma elapse_all:
  assumes "bit eb ev \<longleftrightarrow> bit (ebuf h) ev \<or> (\<exists>x\<in>set (pending h). xfer_event (snd x))"
  shows "elapse ev (m, h) (run_all (pending h) m, h\<lparr>pending := [], ebuf := eb\<rparr>)"
  unfolding elapse_def using assms by (intro exI [of _ "length (pending h)"] exI [of _ eb]) simp

interpretation sleepy: cluster_dma sleepy_dma pulp_cluster "\<lambda>h. h"
proof
  fix m :: mem and e :: dma_hw
  let ?ev = "ARCHI_CL_EVT_DMA0 pulp_cluster"
  show "\<exists>m' h' e'. elapse ?ev (m, e) (m', h') \<and> ebuf h' AND emask h' \<noteq> 0 \<and>
        bus_rd sleepy_dma (M32 (ARCHI_EU_DEMUX_ADDR pulp_cluster + EU_CORE_EVENT_WAIT_CLEAR)) (m, e) = (ebuf h' AND emask h', m', e') \<and>
        e' = h'\<lparr>ebuf := ebuf h' AND NOT (emask h')\<rparr>" if "signalled ?ev e" and b: "bit (emask e) ?ev"
  proof -
    define eb where "eb = (if list_ex (\<lambda>x. xfer_event (snd x)) (pending e) then ebuf e OR push_bit 8 1 else ebuf e)"
    have 8: "?ev = 8" by (simp add: pulp_cluster_def)
    have eb: "bit eb ?ev \<longleftrightarrow> bit (ebuf e) ?ev \<or> (\<exists>x\<in>set (pending e). xfer_event (snd x))"
      by (auto simp: eb_def 8 list_ex_iff bit_simps)
    with that have "bit (eb AND emask e) ?ev" by (simp add: signalled_def bit_simps)
    then have "eb AND emask e \<noteq> 0" by auto
    with elapse_all [OF eb] show ?thesis
      by (intro exI conjI) (auto simp: sleepy_dma_def pulp_cluster_def eu_defs eb_def [symmetric])
  qed
  show "\<exists>m' e' v. elapse ?ev (m, e) (m', e') \<and>
        bus_rd sleepy_dma (M32 (ARCHI_MCHAN_EXT_ADDR pulp_cluster + MCHAN_STATUS_OFFSET)) (m, e) = (v, m', e') \<and>
        (\<forall>i<16. bit v i \<longleftrightarrow> i \<in> fst ` set (pending e'))"
  proof (intro exI conjI)
    show "\<forall>i<16. bit (busy_word (pending e)) i \<longleftrightarrow> i \<in> fst ` set (pending e)"
      by (intro allI impI busy_word_bit) simp
  qed (rule elapse_refl, simp add: sleepy_dma_def pulp_cluster_def mchan_offsets)
  show "\<exists>m' h' e' i. elapse ?ev (m, e) (m', h') \<and> i < 16 \<and> i \<notin> taken e \<and>
        bus_rd sleepy_dma (M32 (ARCHI_MCHAN_EXT_ADDR pulp_cluster + MCHAN_CMD_OFFSET)) (m, e) = (of_nat i, m', e') \<and>
        e' = h'\<lparr>account := i, taken := insert i (taken h')\<rparr>" if "\<not> {..<16} \<subseteq> taken e"
  proof -
    from that have "filter (\<lambda>i. i \<notin> taken e) [0..<16] \<noteq> []" by (auto simp: filter_empty_conv)
    then obtain i js where i: "filter (\<lambda>i. i \<notin> taken e) [0..<16] = i # js" by (meson neq_Nil_conv)
    then have "i \<in> set (filter (\<lambda>i. i \<notin> taken e) [0..<16])" by simp
    then have "i < 16" "i \<notin> taken e" by simp_all
    moreover have "bus_rd sleepy_dma (M32 (ARCHI_MCHAN_EXT_ADDR pulp_cluster + MCHAN_CMD_OFFSET)) (m, e) =
        (of_nat i, m, e\<lparr>account := i, taken := insert i (taken e)\<rparr>)"
      by (simp add: sleepy_dma_def pulp_cluster_def mchan_offsets i del: upt_rec_numeral)
    ultimately show ?thesis using elapse_refl by blast
  qed
qed (simp add: pulp_cluster_def, (rule acts_at_once, simp add: sleepy_dma_def pulp_cluster_def eu_defs mchan_offsets)+)

definition cluster_at_rest :: "dma_hw machine" where
  "cluster_at_rest = \<lparr>ram = (\<lambda>a. if a = 0x1C000000 then 5 else if a = 0x1C000001 then 6 else 0),
     ext = \<lparr>emask = 0, ebuf = 0, pending = [], port = [], account = 0, taken = {}\<rparr>\<rparr>"

lemma at_rest:
  "port (ext cluster_at_rest) = []" "fst ` set (pending (ext cluster_at_rest)) \<subseteq> taken (ext cluster_at_rest)"
  "\<not> {..<16} \<subseteq> taken (ext cluster_at_rest)"
  "\<And>k. bit (emask (ext cluster_at_rest)) k \<Longrightarrow> k = ARCHI_CL_EVT_DMA0 pulp_cluster"
  by (simp_all add: cluster_at_rest_def lessThan_empty_iff)

section \<open>Properties\<close>

text \<open>
  C24. A transfer started with \<^verbatim>\<open>plp_dma_memcpy\<close> and waited for with \<^verbatim>\<open>plp_dma_wait\<close>: the wait returns,
  whenever the hardware gets to the transfer; then the block has been copied in the direction asked for
  (after the transfers that were queued before it), no other byte has changed, nothing is left in
  the queue, and the counter is free again. The core must not let other events wake it, one of the 16
  counters must be free, and the two blocks must not overlap.
\<close>

theorem dma_memcpy_completes:
  fixes s :: "('e, 'z) machine_scheme" and n :: u16
  assumes hw: "cluster_dma b c view"
    and idle: "port (view (ext s)) = []" "fst ` set (pending (view (ext s))) \<subseteq> taken (view (ext s))"
      "\<not> {..<16} \<subseteq> taken (view (ext s))"
    and only: "\<And>k. bit (emask (view (ext s))) k \<Longrightarrow> k = ARCHI_CL_EVT_DMA0 c"
    and dir: "dir = 0 \<or> dir = 1"
    and apart: "\<And>i j. i < unat n \<Longrightarrow> j < unat n \<Longrightarrow> loc + of_nat i \<noteq> ea + of_nat j"
  defines "m \<equiv> run_all (pending (view (ext s))) (ram s)"
    and "d \<equiv> if dir = 1 then loc else ea" and "src \<equiv> if dir = 1 then ea else loc"
  shows "\<exists>counter s1 s'. plp_dma_memcpy b c ea loc n dir s = (counter, s1) \<and> plp_dma_wait b c counter s1 = Some s' \<and>
    (\<forall>i<unat n. ram s' (d + of_nat i) = m (src + of_nat i)) \<and>
    (\<forall>p. (\<forall>i<unat n. p \<noteq> d + of_nat i) \<longrightarrow> ram s' p = m p) \<and>
    pending (view (ext s')) = [] \<and> taken (view (ext s')) = taken (view (ext s))"
proof -
  define cmd where "cmd = plp_dma_getCmd dir (ucast n) PLP_DMA_1D PLP_DMA_TRIG_EVT PLP_DMA_NO_TRIG_IRQ PLP_DMA_SHARED"
  note words = push_words [OF cmd_def]
  obtain i s1 s' where
    a: "plp_dma_counter_alloc b c s = (of_nat i, s1)"
      "plp_dma_wait b c (of_nat i) (plp_dma_cmd_push b c cmd loc ea s1) = Some s'"
    and r: "ram s' = xfer_run [cmd, loc, ea] m" "pending (view (ext s')) = []" "taken (view (ext s')) = taken (view (ext s))"
    using cluster_dma.transfer [OF hw idle only words(1,2)] unfolding words(3) m_def by blast
  have "plp_dma_memcpy b c ea loc n dir s = (of_nat i, plp_dma_cmd_push b c cmd loc ea s1)"
    by (simp add: plp_dma_memcpy_def a(1) cmd_def)
  with a(2) r run_linear [OF cmd_def dir apart, of m, folded d_def src_def] show ?thesis by auto
qed

theorem dma_memcpy_completes_witness:
  "\<exists>counter s1 s'. plp_dma_memcpy sleepy_dma pulp_cluster 0x1C000000 0x10000000 2 1 cluster_at_rest = (counter, s1) \<and>
    plp_dma_wait sleepy_dma pulp_cluster counter s1 = Some s' \<and>
    ram s' 0x10000000 = 5 \<and> ram s' 0x10000001 = 6 \<and> pending (ext s') = []"
proof -
  have "(0x10000000 :: u32) + of_nat i \<noteq> 0x1C000000 + of_nat j" if "i < unat (2 :: u16)" "j < unat (2 :: u16)" for i j
    using that by (auto simp: less_2_cases_iff)
  from dma_memcpy_completes [OF sleepy.cluster_dma_axioms at_rest _ this, where dir = 1 and n = 2]
  obtain counter s1 s' where
    "plp_dma_memcpy sleepy_dma pulp_cluster 0x1C000000 0x10000000 2 1 cluster_at_rest = (counter, s1)"
    "plp_dma_wait sleepy_dma pulp_cluster counter s1 = Some s'" "pending (ext s') = []"
    "\<forall>i<2. ram s' (0x10000000 + of_nat i) = ram cluster_at_rest (0x1C000000 + of_nat i)"
    by (auto simp: cluster_at_rest_def run_all_def)
  then show ?thesis by (auto simp: cluster_at_rest_def numeral_2_eq_2 All_less_Suc)
qed

text \<open>
  The same for a tile: \<^verbatim>\<open>plp_dma_extToL1_2d\<close> gathers the lines of a tile of the external memory into
  consecutive bytes of the cluster memory.
\<close>

theorem dma_tile_completes:
  fixes s :: "('e, 'z) machine_scheme" and n :: u16
  assumes hw: "cluster_dma b c view"
    and idle: "port (view (ext s)) = []" "fst ` set (pending (view (ext s))) \<subseteq> taken (view (ext s))"
      "\<not> {..<16} \<subseteq> taken (view (ext s))"
    and only: "\<And>k. bit (emask (view (ext s))) k \<Longrightarrow> k = ARCHI_CL_EVT_DMA0 c"
    and apart: "\<And>i j. i < unat n \<Longrightarrow> j < unat n \<Longrightarrow> loc + of_nat i \<noteq> ea + tile_pos (unat len) (ucast stride) j"
  defines "m \<equiv> run_all (pending (view (ext s))) (ram s)"
  shows "\<exists>counter s1 s'. plp_dma_extToL1_2d b c loc ea n stride len s = (counter, s1) \<and> plp_dma_wait b c counter s1 = Some s' \<and>
    (\<forall>i<unat n. ram s' (loc + of_nat i) = m (ea + tile_pos (unat len) (ucast stride) i)) \<and>
    (\<forall>p. (\<forall>i<unat n. p \<noteq> loc + of_nat i) \<longrightarrow> ram s' p = m p) \<and>
    pending (view (ext s')) = [] \<and> taken (view (ext s')) = taken (view (ext s))"
proof -
  define cmd where
    "cmd = plp_dma_getCmd PLP_DMA_EXT2LOC (ucast n) PLP_DMA_2D PLP_DMA_TRIG_EVT PLP_DMA_NO_TRIG_IRQ PLP_DMA_SHARED"
  note words = push_words_2d [OF cmd_def]
  obtain i s1 s' where
    a: "plp_dma_counter_alloc b c s = (of_nat i, s1)"
      "plp_dma_wait b c (of_nat i) (plp_dma_cmd_push_2d b c cmd loc ea (ucast stride) (ucast len) s1) = Some s'"
    and r: "ram s' = xfer_run [cmd, loc, ea, ucast len, ucast stride] m" "pending (view (ext s')) = []"
      "taken (view (ext s')) = taken (view (ext s))"
    using cluster_dma.transfer [OF hw idle only words(1,2)] unfolding words(3) m_def by blast
  have "plp_dma_extToL1_2d b c loc ea n stride len s =
      (of_nat i, plp_dma_cmd_push_2d b c cmd loc ea (ucast stride) (ucast len) s1)"
    by (simp add: plp_dma_extToL1_2d_def a(1) cmd_def)
  with a(2) r run_tile [OF cmd_def apart, of m] show ?thesis by auto
qed

theorem dma_tile_completes_witness:
  "\<exists>counter s1 s'. plp_dma_extToL1_2d sleepy_dma pulp_cluster 0x10000000 0x1BFFFFFF 4 2 1 cluster_at_rest = (counter, s1) \<and>
    plp_dma_wait sleepy_dma pulp_cluster counter s1 = Some s' \<and>
    ram s' 0x10000000 = 0 \<and> ram s' 0x10000001 = 6 \<and> taken (ext s') = {}"
proof -
  have "(0x10000000 :: u32) + of_nat i \<noteq> 0x1BFFFFFF + tile_pos (unat (1 :: u16)) (ucast (2 :: u16)) j"
    if "i < unat (4 :: u16)" "j < unat (4 :: u16)" for i j
  proof -
    from that have "i = 0 \<or> i = 1 \<or> i = 2 \<or> i = 3" "j = 0 \<or> j = 1 \<or> j = 2 \<or> j = 3" by auto
    then show ?thesis by (elim disjE) (simp_all add: tile_pos_def)
  qed
  from dma_tile_completes [OF sleepy.cluster_dma_axioms at_rest this, where n = 4]
  obtain counter s1 s' where
    "plp_dma_extToL1_2d sleepy_dma pulp_cluster 0x10000000 0x1BFFFFFF 4 2 1 cluster_at_rest = (counter, s1)"
    "plp_dma_wait sleepy_dma pulp_cluster counter s1 = Some s'" "taken (ext s') = {}"
    and c: "\<forall>i<4. ram s' (0x10000000 + of_nat i) = ram cluster_at_rest (0x1BFFFFFF + tile_pos 1 2 i)"
    by (auto simp: cluster_at_rest_def run_all_def)
  moreover from c have "ram s' 0x10000000 = 0" "ram s' 0x10000001 = 6"
    by (auto dest: spec [of _ 0] spec [of _ 1] simp: cluster_at_rest_def tile_pos_def)
  ultimately show ?thesis by blast
qed

text \<open>
  The barrier of the DMA returns when the queue is empty and frees every counter, provided every transfer in
  the queue raises the event: one that was enqueued to raise an interrupt instead need not wake the core.
\<close>

theorem dma_barrier_completes:
  fixes s :: "('e, 'z) machine_scheme"
  assumes hw: "cluster_dma b c view"
    and queue: "\<And>x. x \<in> set (pending (view (ext s))) \<Longrightarrow> fst x < 16 \<and> xfer_event (snd x)"
    and only: "\<And>k. bit (emask (view (ext s))) k \<Longrightarrow> k = ARCHI_CL_EVT_DMA0 c"
  shows "\<exists>s'. plp_dma_barrier b c s = Some s' \<and> ram s' = run_all (pending (view (ext s))) (ram s) \<and>
    pending (view (ext s')) = [] \<and> taken (view (ext s')) \<inter> {..<16} = {}"
proof -
  have bits: "bit (0xFFFF :: u32) n \<longleftrightarrow> n < 16" for n
    using bit_mask_iff [of 16 n, where 'a = u32] by (auto simp: mask_eq_exp_minus_1 dest: bit_imp_le_length)
  obtain s1 where
    s1: "dma_sleep_while b c 0xFFFF s = Some s1" "moved (seen view s) (seen view s1)"
      "\<forall>x\<in>set (pending (view (ext s1))). \<not> fst x < 16"
    using cluster_dma.sleep_while [OF hw, of "0xFFFF" s, unfolded bits] queue only by blast
  have "pending (view (ext s1)) = []"
    using s1(3) queue moved_pending [OF s1(2)] by (cases "pending (view (ext s1))") (auto simp: seen_def)
  from cluster_dma.freed_empty [OF hw s1(2) this, of "- 1"] s1(1) show ?thesis
    by (auto simp: plp_dma_barrier_def seen_def)
qed

end
