(* ===== verification/Tb_Checker.thy ===== *)
theory Tb_Checker
  imports Pulp_Soc Builtins_Props
begin

text \<open>
  The bit macros of \<^verbatim>\<open>hal/utils.h\<close> and the checker of \<^verbatim>\<open>hal/tb/tb.h\<close>, with which a program asks the test bench
  whether the power domains are in the states it expects. The two sides share a structure in memory
  and take turns through the JTAG register; the test bench is the interface \<open>checking_bench\<close>.
\<close>

section \<open>Bit macros\<close>

definition BIT_MASK_ONE :: "nat \<Rightarrow> u32" where "BIT_MASK_ONE n = push_bit n 1"
definition BIT_MASK_LSBS :: "nat \<Rightarrow> u32" where "BIT_MASK_LSBS n = BIT_MASK_ONE n - 1"
definition BIT_MASK_IMEDS :: "nat \<Rightarrow> nat \<Rightarrow> u32" where "BIT_MASK_IMEDS start n = push_bit start (BIT_MASK_LSBS n)"
definition BIT_SET :: "u32 \<Rightarrow> u32 \<Rightarrow> u32" where "BIT_SET y m = y OR m"
definition BIT_CLEAR :: "u32 \<Rightarrow> u32 \<Rightarrow> u32" where "BIT_CLEAR y m = y AND NOT m"
definition BIT_FLIP :: "u32 \<Rightarrow> u32 \<Rightarrow> u32" where "BIT_FLIP y m = y XOR m"
definition BIT_MASK_PREP :: "u32 \<Rightarrow> nat \<Rightarrow> nat \<Rightarrow> u32" where
  "BIT_MASK_PREP x start n = push_bit start (x AND BIT_MASK_LSBS n)"
definition BIT_GET :: "u32 \<Rightarrow> nat \<Rightarrow> nat \<Rightarrow> u32" where "BIT_GET y start n = drop_bit start y AND BIT_MASK_LSBS n"
definition BIT_INSERT :: "u32 \<Rightarrow> u32 \<Rightarrow> nat \<Rightarrow> nat \<Rightarrow> u32" where
  "BIT_INSERT y x start n = (y AND NOT (BIT_MASK_IMEDS start n)) OR BIT_MASK_PREP x start n"

lemma BIT_MASK_LSBS_mask: "BIT_MASK_LSBS n = mask n"
  by (simp add: BIT_MASK_LSBS_def BIT_MASK_ONE_def mask_eq_exp_minus_1 push_bit_eq_mult)

text \<open>The macros keep the contract of a register field.\<close>

lemma utils_field:
  assumes "start + n \<le> 32"
  shows "reg_field (\<lambda>y. BIT_GET y start n) (\<lambda>y x. BIT_INSERT y x start n) start n"
proof
  show "BIT_GET y start n = take_bit n (drop_bit start y)" for y
    by (simp add: BIT_GET_def BIT_MASK_LSBS_mask take_bit_eq_mask)
  show "bit (BIT_INSERT y x start n) k \<longleftrightarrow> (if start \<le> k \<and> k < start + n then bit x (k - start) else bit y k)"
    if "k < 32" for y x k
    using that by (auto simp: BIT_INSERT_def BIT_MASK_IMEDS_def BIT_MASK_PREP_def BIT_MASK_LSBS_mask bit_simps)
qed (rule assms)

interpretation low_nibble: reg_field "\<lambda>y. BIT_GET y 0 4" "\<lambda>y x. BIT_INSERT y x 0 4" 0 4
  by (rule utils_field) simp

section \<open>The shared structure\<close>

definition TB_CHECKER_REQ_NONE :: u32 where "TB_CHECKER_REQ_NONE = 0"
definition TB_CHECKER_REQ_POWER_DOMAIN_STATE_ASSERT :: u32 where "TB_CHECKER_REQ_POWER_DOMAIN_STATE_ASSERT = 1"

datatype tb_checker_power_domain_id_e =
    TB_CHECKER_POWER_DOMAIN_SOC | TB_CHECKER_POWER_DOMAIN_CLUSTER | TB_CHECKER_POWER_DOMAIN_CSI2
  | TB_CHECKER_POWER_DOMAIN_MRAM | TB_CHECKER_POWER_DOMAIN_SWAKEUP | TB_CHECKER_POWER_DOMAIN_IO_LS
  | TB_CHECKER_POWER_DOMAIN_IO_HS_L | TB_CHECKER_POWER_DOMAIN_IO_HS_R

fun domain_id :: "tb_checker_power_domain_id_e \<Rightarrow> u32" where
  "domain_id TB_CHECKER_POWER_DOMAIN_SOC = 0"
| "domain_id TB_CHECKER_POWER_DOMAIN_CLUSTER = 1"
| "domain_id TB_CHECKER_POWER_DOMAIN_CSI2 = 2"
| "domain_id TB_CHECKER_POWER_DOMAIN_MRAM = 3"
| "domain_id TB_CHECKER_POWER_DOMAIN_SWAKEUP = 4"
| "domain_id TB_CHECKER_POWER_DOMAIN_IO_LS = 5"
| "domain_id TB_CHECKER_POWER_DOMAIN_IO_HS_L = 6"
| "domain_id TB_CHECKER_POWER_DOMAIN_IO_HS_R = 7"

datatype tb_checker_power_domain_state_e =
    TB_CHECKER_POWER_DOMAIN_STATE_OFF | TB_CHECKER_POWER_DOMAIN_STATE_ON
  | TB_CHECKER_POWER_DOMAIN_STATE_RETENTIVE | TB_CHECKER_POWER_DOMAIN_STATE_PREVIOUS

fun domain_state :: "tb_checker_power_domain_state_e \<Rightarrow> u32" where
  "domain_state TB_CHECKER_POWER_DOMAIN_STATE_OFF = 0"
| "domain_state TB_CHECKER_POWER_DOMAIN_STATE_ON = 1"
| "domain_state TB_CHECKER_POWER_DOMAIN_STATE_RETENTIVE = 2"
| "domain_state TB_CHECKER_POWER_DOMAIN_STATE_PREVIOUS = 3"

text \<open>The members of the structure are consecutive words; an enumeration is stored as a word.\<close>

definition checker_request :: "u32 \<Rightarrow> u32" where "checker_request p = p"
definition checker_delay :: "u32 \<Rightarrow> u32" where "checker_delay p = p + 4"
definition checker_result :: "u32 \<Rightarrow> u32" where "checker_result p = p + 8"
definition checker_domain :: "u32 \<Rightarrow> tb_checker_power_domain_id_e \<Rightarrow> u32" where
  "checker_domain p d = p + 12 + 4 * domain_id d"

section \<open>Routines\<close>

definition tb_checker_connect :: "u32 \<Rightarrow> ('e, 'z) machine_scheme \<Rightarrow> ('e, 'z) machine_scheme" where
  "tb_checker_connect checker s = s"

definition tb_checker_set_domain_state ::
  "u32 \<Rightarrow> tb_checker_power_domain_id_e \<Rightarrow> tb_checker_power_domain_state_e \<Rightarrow> ('e, 'z) machine_scheme \<Rightarrow> ('e, 'z) machine_scheme" where
  "tb_checker_set_domain_state checker d st s = s\<lparr>ram := store32 (checker_domain checker d) (domain_state st) (ram s)\<rparr>"

definition tb_checker_send_assert ::
  "'e pulp_bus \<Rightarrow> u32 \<Rightarrow> u32 \<Rightarrow> ('e, 'z) machine_scheme \<Rightarrow> ('e, 'z) machine_scheme" where
  "tb_checker_send_assert b checker delay s =
     (let s = s\<lparr>ram := store32 (checker_delay checker) delay (ram s)\<rparr>;
          s = s\<lparr>ram := store32 (checker_request checker) TB_CHECKER_REQ_POWER_DOMAIN_STATE_ASSERT (ram s)\<rparr>
      in apb_soc_jtag_reg_write b (push_bit 1 3) s)"

text \<open>The request is read as a volatile word, so the read is an access at which the test bench may act.\<close>

partial_function (option) checker_reply_loop ::
  "'e pulp_bus \<Rightarrow> u32 \<Rightarrow> ('e, 'z) machine_scheme \<Rightarrow> ('e, 'z) machine_scheme option" where
  "checker_reply_loop b checker s =
     (case pulp_read32 b (checker_request checker) s of (v, s) \<Rightarrow>
        if v \<noteq> TB_CHECKER_REQ_NONE then checker_reply_loop b checker s else Some s)"

partial_function (option) checker_close_loop ::
  "'e pulp_bus \<Rightarrow> ('e, 'z) machine_scheme \<Rightarrow> ('e, 'z) machine_scheme option" where
  "checker_close_loop b s =
     (case apb_soc_jtag_reg_read b s of (v, s) \<Rightarrow>
        if drop_bit 1 (apb_soc_jtag_reg_ext v) \<noteq> 3 then checker_close_loop b s else Some s)"

definition tb_checker_wait_reply ::
  "'e pulp_bus \<Rightarrow> u32 \<Rightarrow> ('e, 'z) machine_scheme \<Rightarrow> (u32 \<times> ('e, 'z) machine_scheme) option" where
  "tb_checker_wait_reply b checker s =
     do {
       s \<leftarrow> checker_reply_loop b checker s;
       let s = apb_soc_jtag_reg_write b (push_bit 1 1) s;
       s \<leftarrow> checker_close_loop b s;
       Some (load32 (checker_result checker) (ram s), s)
     }"

section \<open>The test bench\<close>

text \<open>
  What the comments of the header say of the other side: called through the JTAG register while a request
  is stored, it reaches a verdict on the memory as it is then, writes it to the result, and only then
  takes the request back; after the program has gone back to 1 it goes back to 3.
\<close>

datatype bench = Quiet | Checking nat u32 | Answered | Closing nat

definition jtag_addr :: u32 where
  "jtag_addr = ARCHI_APB_SOC_CTRL_ADDR + APB_SOC_JTAG_REG"

locale checking_bench =
  fixes b :: "'e pulp_bus" and p :: u32 and verdict :: "mem \<Rightarrow> u32" and view :: "'e \<Rightarrow> bench"
  assumes call: "load32 p m = TB_CHECKER_REQ_POWER_DOMAIN_STATE_ASSERT \<Longrightarrow>
      \<exists>e' n. bus_wr b (M32 jtag_addr) 6 (m, e) = (m, e') \<and> view e' = Checking n (verdict m)"
    and undecided: "view e = Checking (Suc n) r \<Longrightarrow>
      \<exists>e'. bus_rd b (M32 p) (m, e) = (load32 p m, m, e') \<and> view e' = Checking n r"
    and answer: "view e = Checking 0 r \<Longrightarrow>
      \<exists>e'. bus_rd b (M32 p) (m, e) = (0, store32 p 0 (store32 (p + 8) r m), e') \<and> view e' = Answered"
    and acknowledged: "view e = Answered \<Longrightarrow> \<exists>e' n. bus_wr b (M32 jtag_addr) 2 (m, e) = (m, e') \<and> view e' = Closing n"
    and closing: "view e = Closing (Suc n) \<Longrightarrow>
      \<exists>e' v. bus_rd b (M32 jtag_addr) (m, e) = (v, m, e') \<and> drop_bit 1 (apb_soc_jtag_reg_ext v) \<noteq> 3 \<and> view e' = Closing n"
    and closed: "view e = Closing 0 \<Longrightarrow>
      \<exists>e' v. bus_rd b (M32 jtag_addr) (m, e) = (v, m, e') \<and> drop_bit 1 (apb_soc_jtag_reg_ext v) = 3 \<and> view e' = Quiet"
begin

lemma rd_result: "bus_rd b l (ram s, ext s) = (v, m, e) \<Longrightarrow> rd b l s = (v, s\<lparr>ram := m, ext := e\<rparr>)"
  by (simp add: rd_def)

lemma replies:
  fixes s :: "('e, 'z) machine_scheme"
  assumes "view (ext s) = Checking n r" and "load32 p (ram s) \<noteq> 0"
  shows "\<exists>e. checker_reply_loop b p s = Some (s\<lparr>ram := store32 p 0 (store32 (p + 8) r (ram s)), ext := e\<rparr>) \<and> view e = Answered"
  using assms
proof (induction n arbitrary: s)
  case 0
  from answer [OF 0(1), of "ram s"] obtain e where
    "bus_rd b (M32 p) (ram s, ext s) = (0, store32 p 0 (store32 (p + 8) r (ram s)), e)" "view e = Answered" by blast
  then show ?case
    by (subst checker_reply_loop.simps) (auto simp: checker_request_def pulp_read32_def rd_result TB_CHECKER_REQ_NONE_def)
next
  case (Suc n)
  from undecided [OF Suc.prems(1), of "ram s"] obtain e where
    e: "bus_rd b (M32 p) (ram s, ext s) = (load32 p (ram s), ram s, e)" "view e = Checking n r" by blast
  from Suc.IH [of "s\<lparr>ext := e\<rparr>"] e(2) Suc.prems(2) show ?case
    by (subst checker_reply_loop.simps)
       (simp add: checker_request_def pulp_read32_def rd_result [OF e(1)] TB_CHECKER_REQ_NONE_def)
qed

lemma closes:
  fixes s :: "('e, 'z) machine_scheme"
  assumes "view (ext s) = Closing n"
  shows "\<exists>e. checker_close_loop b s = Some (s\<lparr>ext := e\<rparr>) \<and> view e = Quiet"
  using assms
proof (induction n arbitrary: s)
  case 0
  from closed [OF 0, of "ram s"] obtain e v where "bus_rd b (M32 jtag_addr) (ram s, ext s) = (v, ram s, e)"
    "drop_bit 1 (apb_soc_jtag_reg_ext v) = 3" "view e = Quiet" by blast
  then show ?case
    by (subst checker_close_loop.simps) (auto simp: apb_soc_jtag_reg_read_def pulp_read32_def rd_result jtag_addr_def)
next
  case (Suc n)
  from closing [OF Suc.prems, of "ram s"] obtain e v where e: "bus_rd b (M32 jtag_addr) (ram s, ext s) = (v, ram s, e)"
    "drop_bit 1 (apb_soc_jtag_reg_ext v) \<noteq> 3" "view e = Closing n" by blast
  from Suc.IH [of "s\<lparr>ext := e\<rparr>"] e show ?case
    by (subst checker_close_loop.simps) (simp add: apb_soc_jtag_reg_read_def pulp_read32_def rd_result jtag_addr_def)
qed

end

lemma load32_store32_apart:
  assumes "4 \<le> k" and "k < 1000"
  shows "load32 (q + of_nat k) (store32 q v m) = load32 (q + of_nat k) m"
proof -
  have "unat (q + of_nat k + of_nat i - q) = k + i" if "i < 4" for i
    using assms that by (simp add: unat_of_nat flip: of_nat_add)
  with assms show ?thesis unfolding load32_def store32_def
    by (intro arg_cong [of _ _ le32] load_bytes_cong store_bytes_outside) simp_all
qed

lemma domain_offset: obtains j where "j < 8" and "checker_domain p d = p + of_nat (12 + 4 * j)"
proof (rule that)
  show "unat (domain_id d) < 8" by (cases d) simp_all
  show "checker_domain p d = p + of_nat (12 + 4 * unat (domain_id d))" by (simp add: checker_domain_def)
qed

lemma checker_words_apart:
  "load32 (p + 8) (store32 p v m) = load32 (p + 8) m"
  "load32 (p + 4) (store32 p v m) = load32 (p + 4) m"
  "load32 (checker_domain p d) (store32 p v m) = load32 (checker_domain p d) m"
  "load32 (checker_domain p d) (store32 (p + 4) v m) = load32 (checker_domain p d) m"
proof -
  obtain j where j: "j < 8" "checker_domain p d = p + of_nat (12 + 4 * j)" by (rule domain_offset)
  then have j': "checker_domain p d = (p + 4) + of_nat (8 + 4 * j)" by simp
  show "load32 (p + 8) (store32 p v m) = load32 (p + 8) m" "load32 (p + 4) (store32 p v m) = load32 (p + 4) m"
    using load32_store32_apart [of 8 p v m] load32_store32_apart [of 4 p v m] by simp_all
  show "load32 (checker_domain p d) (store32 p v m) = load32 (checker_domain p d) m"
    unfolding j(2) using j(1) by (intro load32_store32_apart) simp_all
  show "load32 (checker_domain p d) (store32 (p + 4) v m) = load32 (checker_domain p d) m"
    unfolding j' using j(1) by (intro load32_store32_apart) simp_all
qed

text \<open>A bench that answers after three looks, content when no domain is expected to be off.\<close>

definition patient_verdict :: "mem \<Rightarrow> u32" where
  "patient_verdict m = (if load32 0x1C00000C m = 0 then 1 else 0)"

fun patient_rd :: "pulp_loc \<Rightarrow> mem \<times> bench \<Rightarrow> u32 \<times> mem \<times> bench" where
  "patient_rd l (m, Checking (Suc n) r) = (load32 0x1C000000 m, m, Checking n r)"
| "patient_rd l (m, Checking 0 r) = (0, store32 0x1C000000 0 (store32 0x1C000008 r m), Answered)"
| "patient_rd l (m, Closing (Suc n)) = (0, m, Closing n)"
| "patient_rd l (m, Closing 0) = (0x600, m, Quiet)"
| "patient_rd l (m, e) = (0, m, e)"

fun patient_wr :: "pulp_loc \<Rightarrow> u32 \<Rightarrow> mem \<times> bench \<Rightarrow> mem \<times> bench" where
  "patient_wr l v (m, e) = (m, if v = 6 then Checking 3 (patient_verdict m) else Closing 3)"

definition patient_bench :: "bench pulp_bus" where
  "patient_bench = \<lparr>bus_rd = patient_rd, bus_wr = patient_wr, bus_wp = (\<lambda>l q s. s)\<rparr>"

interpretation patient: checking_bench patient_bench "0x1C000000" patient_verdict "\<lambda>e. e"
  by unfold_locales
    (auto simp: patient_bench_def apb_soc_jtag_reg_ext_def ARCHI_REG_FIELD_GET_eq APB_SOC_JTAG_REG_EXT_BIT_def
       APB_SOC_JTAG_REG_EXT_WIDTH_def take_bit_eq_mod)

section \<open>Properties\<close>

text \<open>
  A program that sets the expected state of a domain, sends the request and waits gets the verdict of the
  test bench on that state and on the delay it asked for: the wait returns, however long the bench takes, with the
  request taken back and the bench ready for the next one.
\<close>

theorem tb_checker_gets_verdict:
  fixes s :: "('e, 'z) machine_scheme" and d :: tb_checker_power_domain_id_e and st :: tb_checker_power_domain_state_e
    and delay :: u32
  assumes "checking_bench b p verdict view"
  defines "s0 \<equiv> tb_checker_set_domain_state p d st s"
    and "m \<equiv> store32 p 1 (store32 (p + 4) delay (ram (tb_checker_set_domain_state p d st s)))"
  shows "\<exists>s'. tb_checker_wait_reply b p (tb_checker_send_assert b p delay s0) = Some (verdict m, s') \<and>
    load32 (checker_domain p d) m = domain_state st \<and> load32 (checker_delay p) m = delay \<and>
    load32 (checker_request p) (ram s') = TB_CHECKER_REQ_NONE \<and> view (ext s') = Quiet"
proof -
  note defs = checker_request_def checker_delay_def checker_result_def TB_CHECKER_REQ_NONE_def
    TB_CHECKER_REQ_POWER_DOMAIN_STATE_ASSERT_def
  have req: "load32 p m = 1" by (simp add: m_def load32_store32)
  with checking_bench.call [OF assms(1), of m "ext s"] obtain e n where
    c: "bus_wr b (M32 jtag_addr) 6 (m, ext s) = (m, e)" "view e = Checking n (verdict m)" by (auto simp: defs)
  then have sent: "tb_checker_send_assert b p delay s0 = s\<lparr>ram := m, ext := e\<rparr>"
    by (simp add: tb_checker_send_assert_def s0_def tb_checker_set_domain_state_def m_def defs apb_soc_jtag_reg_write_def
        pulp_write32_def jtag_addr_def wr_def)
  define m' where "m' = store32 p 0 (store32 (p + 8) (verdict m) m)"
  from checking_bench.replies [OF assms(1), of "s\<lparr>ram := m, ext := e\<rparr>"] c(2) req obtain e1 where
    r: "checker_reply_loop b p (s\<lparr>ram := m, ext := e\<rparr>) = Some (s\<lparr>ram := m', ext := e1\<rparr>)" "view e1 = Answered"
    by (auto simp: m'_def)
  from checking_bench.acknowledged [OF assms(1) r(2), of m'] obtain e2 k where
    a: "bus_wr b (M32 jtag_addr) 2 (m', e1) = (m', e2)" "view e2 = Closing k" by blast
  from checking_bench.closes [OF assms(1), of "s\<lparr>ram := m', ext := e2\<rparr>"] a(2) obtain e3 where
    q: "checker_close_loop b (s\<lparr>ram := m', ext := e2\<rparr>) = Some (s\<lparr>ram := m', ext := e3\<rparr>)" "view e3 = Quiet" by auto
  have "tb_checker_wait_reply b p (tb_checker_send_assert b p delay s0) = Some (verdict m, s\<lparr>ram := m', ext := e3\<rparr>)"
    using a(1) q(1) by (simp add: tb_checker_wait_reply_def sent r(1) apb_soc_jtag_reg_write_def pulp_write32_def jtag_addr_def
        wr_def defs m'_def checker_words_apart load32_store32)
  moreover have "load32 (checker_domain p d) m = domain_state st" "load32 (checker_delay p) m = delay" "load32 p m' = 0"
    by (simp_all add: m_def m'_def defs tb_checker_set_domain_state_def checker_words_apart load32_store32)
  ultimately show ?thesis using q(2) by (auto simp: defs)
qed

end
