(* ===== verification/Remote_Bitbang.thy ===== *)
theory Remote_Bitbang
  imports Prelude
begin

text \<open>
  The JTAG server of the test bench, \<^verbatim>\<open>tb/remote_bitbang\<close>, with its entry \<^verbatim>\<open>sim_jtag.c\<close> and test
  program, and the UART of the test bench, \<^verbatim>\<open>tb/uartdpi\<close>. A debugger connects to a socket and sends
  one-letter commands that drive the JTAG pins; every clock tick of the simulation executes one.
  The operating system is a parameter, a record of the calls the code makes over a state of its own. The
  messages on standard error are not modelled. A call that aborts is the value Aborted, a loop that
  never ends is None.
\<close>

section \<open>Operating system\<close>

datatype io_error = EAGAIN | Other_error

datatype read_result = Got u8 | Eof | Failed io_error

text \<open>Calls that only succeed or fail return whether they succeed; the others return what the code uses.\<close>

record 'o os_calls =
  os_socket :: "'o \<Rightarrow> int \<times> 'o"
  os_nonblock :: "int \<Rightarrow> 'o \<Rightarrow> 'o"
  os_setsockopt :: "int \<Rightarrow> 'o \<Rightarrow> bool \<times> 'o"
  os_bind :: "int \<Rightarrow> u16 \<Rightarrow> 'o \<Rightarrow> bool \<times> 'o"
  os_listen :: "int \<Rightarrow> int \<Rightarrow> 'o \<Rightarrow> bool \<times> 'o"
  os_getsockname :: "int \<Rightarrow> 'o \<Rightarrow> bool \<times> 'o"
  os_accept :: "int \<Rightarrow> 'o \<Rightarrow> (io_error + int) \<times> 'o"
  os_read :: "int \<Rightarrow> 'o \<Rightarrow> read_result \<times> 'o"
  os_write :: "int \<Rightarrow> u8 \<Rightarrow> 'o \<Rightarrow> int \<times> 'o"
  os_close :: "int \<Rightarrow> 'o \<Rightarrow> 'o"

datatype 'a run = Aborted | Returned 'a

section \<open>Server\<close>

text \<open>The globals of \<^verbatim>\<open>remote_bitbang.h\<close>, the flag of \<^verbatim>\<open>sim_jtag.c\<close> and the state of the operating system.\<close>

record 'o rbs =
  rbs_err :: int
  tck :: u8
  tms :: u8
  tdi :: u8
  trstn :: u8
  tdo :: u8
  quit :: u8
  socket_fd :: int
  client_fd :: int
  recv_start :: int
  recv_end :: int
  jtag_init :: int
  world :: 'o

definition rbs_init :: "'o os_calls \<Rightarrow> u16 \<Rightarrow> 'o rbs \<Rightarrow> (int \<times> 'o rbs) run" where
  "rbs_init os port s =
     (let s = s\<lparr>socket_fd := 0, client_fd := 0, recv_start := 0, recv_end := 0, rbs_err := 0\<rparr> in
      case os_socket os (world s) of (fd, w) \<Rightarrow>
      let s = s\<lparr>socket_fd := fd, world := w\<rparr> in
      if fd = -1 then Aborted
      else case os_setsockopt os fd (os_nonblock os fd (world s)) of (ok, w) \<Rightarrow>
      if \<not> ok then Aborted
      else case os_bind os fd port w of (ok, w) \<Rightarrow>
      if \<not> ok then Aborted
      else case os_listen os fd 1 w of (ok, w) \<Rightarrow>
      if \<not> ok then Aborted
      else case os_getsockname os fd w of (ok, w) \<Rightarrow>
      if \<not> ok then Aborted
      else Returned (1, s\<lparr>world := w, tck := 1, tms := 1, tdi := 1, trstn := 1, quit := 0\<rparr>))"

partial_function (option) rbs_accept :: "'o os_calls \<Rightarrow> 'o rbs \<Rightarrow> 'o rbs run option" where
  "rbs_accept os s =
     (case os_accept os (socket_fd s) (world s) of (r, w) \<Rightarrow>
      (case r of
         Inl EAGAIN \<Rightarrow> rbs_accept os (s\<lparr>client_fd := -1, world := w\<rparr>)
       | Inl Other_error \<Rightarrow> Some Aborted
       | Inr fd \<Rightarrow> Some (Returned (s\<lparr>client_fd := fd, world := os_nonblock os fd w\<rparr>))))"

definition rbs_reset :: "'o rbs \<Rightarrow> 'o rbs" where "rbs_reset s = s"

definition rbs_set_pins :: "u8 \<Rightarrow> u8 \<Rightarrow> u8 \<Rightarrow> 'o rbs \<Rightarrow> 'o rbs" where
  "rbs_set_pins a_tck a_tms a_tdi s = s\<lparr>tck := a_tck, tms := a_tms, tdi := a_tdi\<rparr>"

text \<open>The read loop gives the command, or None when the connection is at its end.\<close>

partial_function (option) rbs_read_loop :: "'o os_calls \<Rightarrow> 'o rbs \<Rightarrow> (u8 option \<times> 'o rbs) run option" where
  "rbs_read_loop os s =
     (case os_read os (client_fd s) (world s) of (r, w) \<Rightarrow>
      (case r of
         Failed EAGAIN \<Rightarrow> rbs_read_loop os (s\<lparr>world := w\<rparr>)
       | Failed Other_error \<Rightarrow> Some Aborted
       | Eof \<Rightarrow> Some (Returned (None, s\<lparr>world := w\<rparr>))
       | Got c \<Rightarrow> Some (Returned (Some c, s\<lparr>world := w\<rparr>))))"

text \<open>The switch: the byte to send, if any, and the new state.\<close>

definition rbs_switch :: "u8 \<Rightarrow> 'o rbs \<Rightarrow> u8 option \<times> 'o rbs" where
  "rbs_switch command s =
     (if command = 0x42 then (None, s)
      else if command = 0x62 then (None, s)
      else if command = 0x72 then (None, rbs_reset s)
      else if command = 0x73 then (None, rbs_reset s)
      else if command = 0x74 then (None, rbs_reset s)
      else if command = 0x75 then (None, rbs_reset s)
      else if command = 0x30 then (None, rbs_set_pins 0 0 0 s)
      else if command = 0x31 then (None, rbs_set_pins 0 0 1 s)
      else if command = 0x32 then (None, rbs_set_pins 0 1 0 s)
      else if command = 0x33 then (None, rbs_set_pins 0 1 1 s)
      else if command = 0x34 then (None, rbs_set_pins 1 0 0 s)
      else if command = 0x35 then (None, rbs_set_pins 1 0 1 s)
      else if command = 0x36 then (None, rbs_set_pins 1 1 0 s)
      else if command = 0x37 then (None, rbs_set_pins 1 1 1 s)
      else if command = 0x52 then (Some (if tdo s \<noteq> 0 then 0x31 else 0x30), s)
      else if command = 0x51 then (None, s\<lparr>quit := 1\<rparr>)
      else (None, s))"

partial_function (option) rbs_send_loop :: "'o os_calls \<Rightarrow> u8 \<Rightarrow> 'o rbs \<Rightarrow> 'o rbs run option" where
  "rbs_send_loop os tosend s =
     (case os_write os (client_fd s) tosend (world s) of (bytes, w) \<Rightarrow>
        if bytes = -1 then Some Aborted
        else if bytes > 0 then Some (Returned (s\<lparr>world := w\<rparr>))
        else rbs_send_loop os tosend (s\<lparr>world := w\<rparr>))"

definition rbs_close_on_quit :: "'o os_calls \<Rightarrow> 'o rbs \<Rightarrow> 'o rbs" where
  "rbs_close_on_quit os s =
     (if quit s \<noteq> 0 then s\<lparr>world := os_close os (client_fd s) (world s), client_fd := 0\<rparr> else s)"

definition rbs_execute_command :: "'o os_calls \<Rightarrow> 'o rbs \<Rightarrow> 'o rbs run option" where
  "rbs_execute_command os s =
     (case rbs_read_loop os s of
        None \<Rightarrow> None
      | Some Aborted \<Rightarrow> Some Aborted
      | Some (Returned (None, s)) \<Rightarrow> Some (Returned s)
      | Some (Returned (Some command, s)) \<Rightarrow>
          (case rbs_switch command s of
             (None, s) \<Rightarrow> Some (Returned (rbs_close_on_quit os s))
           | (Some tosend, s) \<Rightarrow>
               (case rbs_send_loop os tosend s of
                  None \<Rightarrow> None
                | Some Aborted \<Rightarrow> Some Aborted
                | Some (Returned s) \<Rightarrow> Some (Returned (rbs_close_on_quit os s)))))"

text \<open>The pins are returned in the order of the parameters: TCK, TMS, TDI, TRSTn.\<close>

type_synonym pins = "u8 \<times> u8 \<times> u8 \<times> u8"

definition rbs_pins :: "'o rbs \<Rightarrow> pins" where "rbs_pins s = (tck s, tms s, tdi s, trstn s)"

definition rbs_tick :: "'o os_calls \<Rightarrow> u8 \<Rightarrow> 'o rbs \<Rightarrow> (pins \<times> 'o rbs) run option" where
  "rbs_tick os jtag_tdo s =
     (case (if client_fd s > 0 then rbs_execute_command os (s\<lparr>tdo := jtag_tdo\<rparr>) else rbs_accept os s) of
        None \<Rightarrow> None
      | Some Aborted \<Rightarrow> Some Aborted
      | Some (Returned s) \<Rightarrow> Some (Returned (rbs_pins s, s)))"

definition rbs_done :: "'o rbs \<Rightarrow> u8" where "rbs_done s = quit s"

definition rbs_exit_code :: "'o rbs \<Rightarrow> int" where "rbs_exit_code s = rbs_err s"

text \<open>
  A port out of range is only reported; it is then cut to 16 bits by the call. \<^verbatim>\<open>rbs_err<<1 | 1\<close> is
  written as an addition: the lowest bit is free.
\<close>

definition jtag_tick :: "'o os_calls \<Rightarrow> int \<Rightarrow> u8 \<Rightarrow> 'o rbs \<Rightarrow> (int \<times> pins \<times> 'o rbs) run option" where
  "jtag_tick os port jtag_TDO s =
     (case (if jtag_init s = 0
            then (case rbs_init os (word_of_int port) s of
                    Aborted \<Rightarrow> Aborted
                  | Returned (i, s) \<Rightarrow> Returned (s\<lparr>jtag_init := i\<rparr>))
            else Returned s) of
        Aborted \<Rightarrow> Some Aborted
      | Returned s \<Rightarrow>
          (case rbs_tick os jtag_TDO s of
             None \<Rightarrow> None
           | Some Aborted \<Rightarrow> Some Aborted
           | Some (Returned (p, s)) \<Rightarrow>
               Some (Returned (if rbs_done s \<noteq> 0 then rbs_exit_code s * 2 + 1 else 0, p, s))))"

text \<open>The test program: its result is always 0, what it prints last is \<^verbatim>\<open>rbs_done\<close>.\<close>

definition rbs_test_main :: "'o os_calls \<Rightarrow> 'o rbs \<Rightarrow> (u8 \<times> 'o rbs) run option" where
  "rbs_test_main os s =
     (case rbs_init os 0 s of
        Aborted \<Rightarrow> Some Aborted
      | Returned (v, s) \<Rightarrow>
          (case rbs_tick os 0 s of
             None \<Rightarrow> None
           | Some Aborted \<Rightarrow> Some Aborted
           | Some (Returned (p, s)) \<Rightarrow> Some (Returned (rbs_done s, s))))"

section \<open>UART of the test bench\<close>

text \<open>A pseudo terminal is opened in raw mode; its name is used for a message only.\<close>

record uartdpi_t =
  master :: int
  slave :: int
  tmp_read :: u8

definition uartdpi_create :: "('o \<Rightarrow> (int \<times> int) \<times> 'o) \<Rightarrow> 'o os_calls \<Rightarrow> u8 \<Rightarrow> 'o \<Rightarrow> uartdpi_t \<times> 'o" where
  "uartdpi_create openpty os garbage w =
     (case openpty w of ((m, sl), w) \<Rightarrow> (\<lparr>master = m, slave = sl, tmp_read = garbage\<rparr>, os_nonblock os m w))"

definition uartdpi_can_read :: "'o os_calls \<Rightarrow> uartdpi_t \<times> 'o \<Rightarrow> bool \<times> (uartdpi_t \<times> 'o)" where
  "uartdpi_can_read os st = (case st of (dpi, w) \<Rightarrow>
     (case os_read os (master dpi) w of (r, w) \<Rightarrow>
      (case r of Got c \<Rightarrow> (True, dpi\<lparr>tmp_read := c\<rparr>, w) | _ \<Rightarrow> (False, dpi, w))))"

definition uartdpi_read :: "uartdpi_t \<Rightarrow> u8" where "uartdpi_read dpi = tmp_read dpi"

definition uartdpi_write :: "'o os_calls \<Rightarrow> u8 \<Rightarrow> uartdpi_t \<times> 'o \<Rightarrow> uartdpi_t \<times> 'o" where
  "uartdpi_write os c st = (case st of (dpi, w) \<Rightarrow> (dpi, snd (os_write os (master dpi) c w)))"

end
