(* ===== verification/Remote_Bitbang_Props.thy ===== *)
theory Remote_Bitbang_Props
  imports Remote_Bitbang
begin

text \<open>
  What the JTAG server does for a connected debugger. The contract \<open>remote_client\<close> is that of a stream
  socket: bytes are read in the order in which the debugger sent them, a byte written is sent. Against
  it, a session is refined to a function from the commands and the samples of TDO to the pins
  and the answers. The contract is interpreted on a socket as a pair of byte lists.
\<close>

section \<open>Contract of a connected client\<close>

locale remote_client =
  fixes os :: "'o os_calls" and inp outp :: "'o \<Rightarrow> u8 list"
  assumes reads: "inp w = c # cs \<Longrightarrow> \<exists>w'. os_read os fd w = (Got c, w') \<and> inp w' = cs \<and> outp w' = outp w"
    and hung_up: "inp w = [] \<Longrightarrow> os_read os fd w = (Eof, w)"
    and writes: "\<exists>w'. os_write os fd c w = (1, w') \<and> inp w' = inp w \<and> outp w' = outp w @ [c]"
begin

lemma read_loop:
  assumes "inp (world s) = c # cs"
  shows "\<exists>w'. rbs_read_loop os s = Some (Returned (Some c, s\<lparr>world := w'\<rparr>)) \<and> inp w' = cs \<and> outp w' = outp (world s)"
proof -
  obtain w' where "os_read os (client_fd s) (world s) = (Got c, w')" "inp w' = cs" "outp w' = outp (world s)"
    using reads [OF assms] by blast
  then show ?thesis by (subst rbs_read_loop.simps) auto
qed

lemma read_loop_end: "inp (world s) = [] \<Longrightarrow> rbs_read_loop os s = Some (Returned (None, s))"
  by (subst rbs_read_loop.simps) (simp add: hung_up)

lemma send_loop:
  "\<exists>w'. rbs_send_loop os c s = Some (Returned (s\<lparr>world := w'\<rparr>)) \<and> inp w' = inp (world s) \<and> outp w' = outp (world s) @ [c]"
proof -
  obtain w' where "os_write os (client_fd s) c (world s) = (1, w')" "inp w' = inp (world s)" "outp w' = outp (world s) @ [c]"
    using writes by blast
  then show ?thesis by (subst rbs_send_loop.simps) auto
qed

end

section \<open>Reference\<close>

text \<open>
  The protocol: the letters \<^verbatim>\<open>0\<close> to \<^verbatim>\<open>7\<close> set TCK, TMS and TDI to the bits of the digit, \<^verbatim>\<open>R\<close> asks for
  TDO. Everything else leaves the pins alone and is not answered.
\<close>

definition digit :: "u8 \<Rightarrow> bool" where "digit c \<longleftrightarrow> 0x30 \<le> c \<and> c \<le> 0x37"

definition pin_bit :: "u8 \<Rightarrow> nat \<Rightarrow> u8" where "pin_bit c n = of_bool (bit c n)"

definition wire :: "u8 \<Rightarrow> pins \<Rightarrow> pins" where
  "wire c p = (case p of (k, m, d, t) \<Rightarrow> if digit c then (pin_bit c 2, pin_bit c 1, pin_bit c 0, t) else p)"

definition answer :: "u8 \<Rightarrow> u8 \<Rightarrow> u8 list" where
  "answer c sample = (if c = 0x52 then [if sample \<noteq> 0 then 0x31 else 0x30] else [])"

fun session :: "(u8 \<times> u8) list \<Rightarrow> pins \<Rightarrow> pins list" where
  "session [] p = []"
| "session ((c, sample) # cs) p = wire c p # session cs (wire c p)"

definition answers :: "(u8 \<times> u8) list \<Rightarrow> u8 list" where
  "answers cs = concat (map (\<lambda>(c, sample). answer c sample) cs)"

text \<open>The ticks of the simulation, each with its sample of TDO.\<close>

fun rbs_ticks :: "'o os_calls \<Rightarrow> u8 list \<Rightarrow> 'o rbs \<Rightarrow> (pins list \<times> 'o rbs) run option" where
  "rbs_ticks os [] s = Some (Returned ([], s))"
| "rbs_ticks os (d # ds) s =
     (case rbs_tick os d s of
        None \<Rightarrow> None
      | Some Aborted \<Rightarrow> Some Aborted
      | Some (Returned (p, s)) \<Rightarrow>
          (case rbs_ticks os ds s of
             None \<Rightarrow> None
           | Some Aborted \<Rightarrow> Some Aborted
           | Some (Returned (ps, s)) \<Rightarrow> Some (Returned (p # ps, s))))"

lemma digits:
  assumes "digit c"
  shows "c = 0x30 \<or> c = 0x31 \<or> c = 0x32 \<or> c = 0x33 \<or> c = 0x34 \<or> c = 0x35 \<or> c = 0x36 \<or> c = 0x37"
proof -
  have "48 \<le> unat c \<and> unat c \<le> 55"
    using assms by (simp add: digit_def word_le_nat_alt)
  then have "unat c = 48 \<or> unat c = 49 \<or> unat c = 50 \<or> unat c = 51 \<or> unat c = 52 \<or> unat c = 53 \<or> unat c = 54 \<or> unat c = 55"
    by arith
  then show ?thesis by (simp add: word_unat_eq_iff)
qed

lemma no_digit: "\<not> digit c \<Longrightarrow> c \<noteq> 0x30 \<and> c \<noteq> 0x31 \<and> c \<noteq> 0x32 \<and> c \<noteq> 0x33 \<and> c \<noteq> 0x34 \<and> c \<noteq> 0x35 \<and> c \<noteq> 0x36 \<and> c \<noteq> 0x37"
  by (auto simp: digit_def)

text \<open>What one command does to the state, other than ending the session.\<close>

lemma switch_wire:
  assumes "c \<noteq> 0x51"
  shows "rbs_switch c s = (if c = 0x52 then Some (if tdo s \<noteq> 0 then 0x31 else 0x30) else None,
    s\<lparr>tck := fst (wire c (rbs_pins s)), tms := fst (snd (wire c (rbs_pins s))), tdi := fst (snd (snd (wire c (rbs_pins s))))\<rparr>)"
proof (cases "digit c")
  case True
  then show ?thesis
    using digits [OF True]
    by (elim disjE) (simp_all add: rbs_switch_def rbs_set_pins_def wire_def rbs_pins_def pin_bit_def digit_def bit_iff_odd)
next
  case False
  then show ?thesis
    using assms no_digit [OF False] by (simp add: rbs_switch_def rbs_reset_def wire_def rbs_pins_def)
qed

lemma switch_frame:
  "quit (snd (rbs_switch c s)) = (if c = 0x51 then 1 else quit s) \<and> client_fd (snd (rbs_switch c s)) = client_fd s \<and>
   world (snd (rbs_switch c s)) = world s \<and> trstn (snd (rbs_switch c s)) = trstn s \<and>
   rbs_err (snd (rbs_switch c s)) = rbs_err s"
  by (simp add: rbs_switch_def rbs_reset_def rbs_set_pins_def)

context remote_client
begin

lemma tick:
  assumes "client_fd s > 0" and "quit s = 0" and "inp (world s) = c # cs" and "c \<noteq> 0x51"
  shows "\<exists>s'. rbs_tick os d s = Some (Returned (wire c (rbs_pins s), s')) \<and> rbs_pins s' = wire c (rbs_pins s) \<and>
    client_fd s' = client_fd s \<and> quit s' = 0 \<and> inp (world s') = cs \<and> outp (world s') = outp (world s) @ answer c d"
proof -
  let ?s = "s\<lparr>tdo := d\<rparr>"
  obtain w' where r: "rbs_read_loop os ?s = Some (Returned (Some c, ?s\<lparr>world := w'\<rparr>))" "inp w' = cs" "outp w' = outp (world s)"
    using read_loop [of ?s c cs] assms by auto
  let ?t = "snd (rbs_switch c (?s\<lparr>world := w'\<rparr>))"
  obtain w'' where w: "rbs_send_loop os x ?t = Some (Returned (?t\<lparr>world := w'' x\<rparr>))" "inp (w'' x) = inp (world ?t)"
    "outp (w'' x) = outp (world ?t) @ [x]" for x
    using send_loop [where s = ?t] by metis
  obtain k m e t where p: "wire c (rbs_pins s) = (k, m, e, t)" "t = trstn s"
    by (cases "wire c (rbs_pins s)") (auto simp: wire_def rbs_pins_def split: if_splits)
  have q: "rbs_pins (?s\<lparr>world := w'\<rparr>) = rbs_pins s" by (simp add: rbs_pins_def)
  show ?thesis
    using r w [of "if d \<noteq> 0 then 0x31 else 0x30"] assms(1,2) p q
    by (auto simp: rbs_tick_def rbs_execute_command_def switch_wire [OF assms(4)] rbs_close_on_quit_def rbs_pins_def answer_def)
qed

lemma ticks:
  assumes "client_fd s > 0" and "quit s = 0" and "inp (world s) = map fst cs @ rest" and "0x51 \<notin> set (map fst cs)"
  shows "\<exists>s'. rbs_ticks os (map snd cs) s = Some (Returned (session cs (rbs_pins s), s')) \<and> client_fd s' = client_fd s \<and>
    quit s' = 0 \<and> inp (world s') = rest \<and> outp (world s') = outp (world s) @ answers cs"
  using assms
proof (induction cs arbitrary: s)
  case Nil
  then show ?case by (simp add: answers_def)
next
  case (Cons a cs)
  obtain c d where a: "a = (c, d)" by (cases a)
  obtain s1 where s1: "rbs_tick os d s = Some (Returned (wire c (rbs_pins s), s1))" "rbs_pins s1 = wire c (rbs_pins s)"
    "client_fd s1 = client_fd s" "quit s1 = 0" "inp (world s1) = map fst cs @ rest" "outp (world s1) = outp (world s) @ answer c d"
    using tick [of s c "map fst cs @ rest" d] Cons.prems a by auto
  obtain s2 where "rbs_ticks os (map snd cs) s1 = Some (Returned (session cs (rbs_pins s1), s2))" "client_fd s2 = client_fd s1"
    "quit s2 = 0" "inp (world s2) = rest" "outp (world s2) = outp (world s1) @ answers cs"
    using Cons.IH [of s1] Cons.prems s1 by auto
  then show ?case using s1 by (simp add: a answers_def)
qed

text \<open>A debugger that has hung up: every tick finds the end of the stream again.\<close>

lemma tick_hung_up:
  assumes "client_fd s > 0" and "inp (world s) = []"
  shows "rbs_tick os d s = Some (Returned (rbs_pins s, s\<lparr>tdo := d\<rparr>))"
  using assms read_loop_end [of "s\<lparr>tdo := d\<rparr>"] by (simp add: rbs_tick_def rbs_execute_command_def rbs_pins_def)

lemma ticks_hung_up:
  assumes "client_fd s > 0" and "inp (world s) = []"
  shows "\<exists>s'. rbs_ticks os ds s = Some (Returned (replicate (length ds) (rbs_pins s), s')) \<and>
    client_fd s' = client_fd s \<and> world s' = world s"
  using assms
proof (induction ds arbitrary: s)
  case (Cons d ds)
  have "rbs_pins (s\<lparr>tdo := d\<rparr>) = rbs_pins s" by (simp add: rbs_pins_def)
  with Cons.IH [of "s\<lparr>tdo := d\<rparr>"] Cons.prems show ?case by (auto simp: tick_hung_up)
qed simp

end

text \<open>The contract with the descriptors that are open: \<open>close\<close> ends one connection and nothing else.\<close>

locale socket_client = remote_client os inp outp
  for os :: "'o os_calls" and inp outp :: "'o \<Rightarrow> u8 list" +
  fixes opened :: "'o \<Rightarrow> int set"
  assumes read_keeps: "opened (snd (os_read os fd w)) = opened w"
    and write_keeps: "opened (snd (os_write os fd c w)) = opened w"
    and closes: "opened (os_close os fd w) = opened w - {fd}"
    and close_quiet: "inp (os_close os fd w) = inp w" "outp (os_close os fd w) = outp w"
begin

lemma tick_quit:
  assumes "client_fd s > 0" and "inp (world s) = c # cs" and "c = 0x51 \<or> quit s \<noteq> 0"
  shows "\<exists>s'. rbs_tick os d s = Some (Returned (rbs_pins s', s')) \<and> client_fd s' = 0 \<and> rbs_done s' \<noteq> 0 \<and>
    opened (world s') = opened (world s) - {client_fd s} \<and>
    inp (world s') = cs \<and> outp (world s') = outp (world s) @ answer c d"
proof -
  let ?s = "s\<lparr>tdo := d\<rparr>"
  obtain w' where r: "rbs_read_loop os ?s = Some (Returned (Some c, ?s\<lparr>world := w'\<rparr>))" "inp w' = cs" "outp w' = outp (world s)"
    and w': "opened w' = opened (world s)"
  proof -
    obtain w where w: "os_read os (client_fd s) (world s) = (Got c, w)" "inp w = cs" "outp w = outp (world s)"
      using reads [OF assms(2)] by blast
    then have "rbs_read_loop os ?s = Some (Returned (Some c, ?s\<lparr>world := w\<rparr>))"
      by (subst rbs_read_loop.simps) simp
    moreover have "opened w = opened (world s)" using read_keeps [of "client_fd s" "world s"] w(1) by simp
    ultimately show thesis using that w(2,3) by blast
  qed
  define t where "t = snd (rbs_switch c (?s\<lparr>world := w'\<rparr>))"
  have t: "quit t \<noteq> 0" "client_fd t = client_fd s" "world t = w'"
    using switch_frame [of c "?s\<lparr>world := w'\<rparr>"] assms(3) by (auto simp: t_def split: if_splits)
  show ?thesis
  proof (cases "c = 0x52")
    case False
    then have "rbs_switch c (?s\<lparr>world := w'\<rparr>) = (None, t)"
      by (cases "c = 0x51") (simp_all add: t_def switch_wire, simp add: rbs_switch_def)
    then show ?thesis using r w' t assms(1) False
      by (simp add: rbs_tick_def rbs_execute_command_def rbs_close_on_quit_def rbs_done_def closes close_quiet answer_def)
  next
    case True
    define y where "y = (if d \<noteq> 0 then 0x31 else 0x30 :: u8)"
    have sw: "rbs_switch c (?s\<lparr>world := w'\<rparr>) = (Some y, t)"
      using True by (simp add: t_def switch_wire y_def)
    obtain w'' where w'': "os_write os (client_fd t) y (world t) = (1, w'')" "inp w'' = inp w'" "outp w'' = outp w' @ [y]"
      using writes [where fd = "client_fd t" and c = y and w = "world t"] t(3) by auto
    then have "rbs_send_loop os y t = Some (Returned (t\<lparr>world := w''\<rparr>))"
      by (subst rbs_send_loop.simps) simp
    moreover have "opened w'' = opened w'" using write_keeps [of "client_fd t" y "world t"] w''(1) t(3) by simp
    ultimately show ?thesis using r w' t sw w'' assms(1) True
      by (simp add: rbs_tick_def rbs_execute_command_def rbs_close_on_quit_def rbs_done_def closes close_quiet answer_def y_def)
  qed
qed

end

section \<open>A socket as two lists\<close>

definition list_os :: "(u8 list \<times> u8 list) os_calls" where
  "list_os = \<lparr>os_socket = \<lambda>w. (3, w), os_nonblock = \<lambda>_ w. w, os_setsockopt = \<lambda>_ w. (True, w),
     os_bind = \<lambda>_ _ w. (True, w), os_listen = \<lambda>_ _ w. (True, w), os_getsockname = \<lambda>_ w. (True, w),
     os_accept = \<lambda>_ w. (Inr 4, w),
     os_read = \<lambda>_ w. (case fst w of [] \<Rightarrow> (Eof, w) | c # cs \<Rightarrow> (Got c, cs, snd w)),
     os_write = \<lambda>_ c w. (1, fst w, snd w @ [c]), os_close = \<lambda>_ w. w\<rparr>"

interpretation list_socket: remote_client list_os fst snd
  by unfold_locales (auto simp: list_os_def)

text \<open>The same socket with the set of its open descriptors.\<close>

definition fd_os :: "((u8 list \<times> u8 list) \<times> int set) os_calls" where
  "fd_os = \<lparr>os_socket = \<lambda>(v, fds). (3, v, insert 3 fds), os_nonblock = \<lambda>_ w. w, os_setsockopt = \<lambda>_ w. (True, w),
     os_bind = \<lambda>_ _ w. (True, w), os_listen = \<lambda>_ _ w. (True, w), os_getsockname = \<lambda>_ w. (True, w),
     os_accept = \<lambda>_ (v, fds). (Inr 4, v, insert 4 fds),
     os_read = \<lambda>fd (v, fds). (case os_read list_os fd v of (r, v) \<Rightarrow> (r, v, fds)),
     os_write = \<lambda>fd c (v, fds). (case os_write list_os fd c v of (n, v) \<Rightarrow> (n, v, fds)),
     os_close = \<lambda>fd (v, fds). (v, fds - {fd})\<rparr>"

interpretation fd_socket: socket_client fd_os "\<lambda>w. fst (fst w)" "\<lambda>w. snd (fst w)" snd
  by unfold_locales (auto simp: fd_os_def list_os_def split: list.splits)

section \<open>What no tick does\<close>

definition kept :: "'o rbs \<Rightarrow> 'o rbs \<Rightarrow> bool" where
  "kept s t \<longleftrightarrow> trstn t = trstn s \<and> rbs_err t = rbs_err s \<and> (quit s \<noteq> 0 \<longrightarrow> quit t \<noteq> 0)"

lemma kept_update [simp]:
  "kept s (s\<lparr>world := w\<rparr>)" "kept (s\<lparr>world := w\<rparr>) t = kept s t"
  "kept s (s\<lparr>client_fd := i, world := w\<rparr>)" "kept (s\<lparr>client_fd := i, world := w\<rparr>) t = kept s t"
  "kept (s\<lparr>tdo := d\<rparr>) t = kept s t" "kept (s\<lparr>client_fd := i\<rparr>) t = kept s t"
  by (simp_all add: kept_def)

lemma accept_kept:
  assumes "rbs_accept os s = Some y"
  shows "y = Returned t \<Longrightarrow> kept s t"
proof (rule rbs_accept.raw_induct [OF _ assms, where P = "\<lambda>os s y. y = Returned t \<longrightarrow> kept s t", THEN mp])
  fix f and os :: "'a os_calls" and s :: "'a rbs" and y
  assume ih: "\<And>os s y. f os s = Some y \<Longrightarrow> y = Returned t \<longrightarrow> kept s t"
    and f: "(case os_accept os (socket_fd s) (world s) of (r, w) \<Rightarrow>
      (case r of Inl EAGAIN \<Rightarrow> f os (s\<lparr>client_fd := -1, world := w\<rparr>) | Inl Other_error \<Rightarrow> Some Aborted
       | Inr fd \<Rightarrow> Some (Returned (s\<lparr>client_fd := fd, world := os_nonblock os fd w\<rparr>)))) = Some y"
  obtain r w where "os_accept os (socket_fd s) (world s) = (r, w)" by (cases "os_accept os (socket_fd s) (world s)")
  with f show "y = Returned t \<longrightarrow> kept s t"
    using ih [of os "s\<lparr>client_fd := -1, world := w\<rparr>" y] by (auto split: sum.splits io_error.splits)
qed

lemma read_loop_kept:
  assumes "rbs_read_loop os s = Some y"
  shows "y = Returned (c, t) \<Longrightarrow> kept s t"
proof (rule rbs_read_loop.raw_induct [OF _ assms, where P = "\<lambda>os s y. y = Returned (c, t) \<longrightarrow> kept s t", THEN mp])
  fix f and os :: "'a os_calls" and s :: "'a rbs" and y
  assume ih: "\<And>os s y. f os s = Some y \<Longrightarrow> y = Returned (c, t) \<longrightarrow> kept s t"
    and f: "(case os_read os (client_fd s) (world s) of (r, w) \<Rightarrow>
      (case r of Failed EAGAIN \<Rightarrow> f os (s\<lparr>world := w\<rparr>) | Failed Other_error \<Rightarrow> Some Aborted
       | Eof \<Rightarrow> Some (Returned (None, s\<lparr>world := w\<rparr>)) | Got c \<Rightarrow> Some (Returned (Some c, s\<lparr>world := w\<rparr>)))) = Some y"
  obtain r w where "os_read os (client_fd s) (world s) = (r, w)" by (cases "os_read os (client_fd s) (world s)")
  with f show "y = Returned (c, t) \<longrightarrow> kept s t"
    using ih [of os "s\<lparr>world := w\<rparr>" y] by (auto split: read_result.splits io_error.splits)
qed

lemma send_loop_kept:
  assumes "rbs_send_loop os x s = Some y"
  shows "y = Returned t \<Longrightarrow> kept s t"
proof (rule rbs_send_loop.raw_induct [OF _ assms, where P = "\<lambda>os x s y. y = Returned t \<longrightarrow> kept s t", THEN mp])
  fix f and os :: "'a os_calls" and x and s :: "'a rbs" and y
  assume ih: "\<And>os x s y. f os x s = Some y \<Longrightarrow> y = Returned t \<longrightarrow> kept s t"
    and f: "(case os_write os (client_fd s) x (world s) of (bytes, w) \<Rightarrow>
      if bytes = -1 then Some Aborted else if bytes > 0 then Some (Returned (s\<lparr>world := w\<rparr>))
      else f os x (s\<lparr>world := w\<rparr>)) = Some y"
  obtain r w where "os_write os (client_fd s) x (world s) = (r, w)" by (cases "os_write os (client_fd s) x (world s)")
  with f show "y = Returned t \<longrightarrow> kept s t"
    using ih [of os x "s\<lparr>world := w\<rparr>" y] by (auto split: if_splits)
qed

lemma close_kept [simp]: "kept s (rbs_close_on_quit os t) = kept s t"
  by (simp add: kept_def rbs_close_on_quit_def)

lemma switch_kept: "rbs_switch c s = (x, t) \<Longrightarrow> kept s t"
  using switch_frame [of c s] by (auto simp: kept_def)

lemma kept_trans: "kept s t \<Longrightarrow> kept t u \<Longrightarrow> kept s u"
  by (auto simp: kept_def)

lemma execute_kept:
  assumes "rbs_execute_command os s = Some (Returned t)"
  shows "kept s t"
  using assms unfolding rbs_execute_command_def
  by (auto split: option.splits run.splits prod.splits dest!: read_loop_kept [OF _ refl] send_loop_kept [OF _ refl] switch_kept)
    (metis kept_trans)+

section \<open>Waiting\<close>

definition no_debugger :: "'o os_calls \<Rightarrow> int \<Rightarrow> bool" where
  "no_debugger os fd \<longleftrightarrow> (\<forall>w. \<exists>w'. os_accept os fd w = (Inl EAGAIN, w'))"

definition silent :: "'o os_calls \<Rightarrow> int \<Rightarrow> bool" where
  "silent os fd \<longleftrightarrow> (\<forall>w. \<exists>w'. os_read os fd w = (Failed EAGAIN, w'))"

lemma accept_waits:
  assumes "rbs_accept os s = Some y"
  shows "\<not> no_debugger os (socket_fd s)"
proof (rule rbs_accept.raw_induct [OF _ assms, where P = "\<lambda>os s y. \<not> no_debugger os (socket_fd s)"])
  fix f and os :: "'a os_calls" and s :: "'a rbs" and y
  assume ih: "\<And>os s y. f os s = Some y \<Longrightarrow> \<not> no_debugger os (socket_fd s)"
    and f: "(case os_accept os (socket_fd s) (world s) of (r, w) \<Rightarrow>
      (case r of Inl EAGAIN \<Rightarrow> f os (s\<lparr>client_fd := -1, world := w\<rparr>) | Inl Other_error \<Rightarrow> Some Aborted
       | Inr fd \<Rightarrow> Some (Returned (s\<lparr>client_fd := fd, world := os_nonblock os fd w\<rparr>)))) = Some y"
  show "\<not> no_debugger os (socket_fd s)"
  proof
    assume n: "no_debugger os (socket_fd s)"
    then obtain w where "os_accept os (socket_fd s) (world s) = (Inl EAGAIN, w)" by (auto simp: no_debugger_def)
    with f n show False using ih [of os "s\<lparr>client_fd := -1, world := w\<rparr>" y] by simp
  qed
qed

lemma read_loop_waits:
  assumes "rbs_read_loop os s = Some y"
  shows "\<not> silent os (client_fd s)"
proof (rule rbs_read_loop.raw_induct [OF _ assms, where P = "\<lambda>os s y. \<not> silent os (client_fd s)"])
  fix f and os :: "'a os_calls" and s :: "'a rbs" and y
  assume ih: "\<And>os s y. f os s = Some y \<Longrightarrow> \<not> silent os (client_fd s)"
    and f: "(case os_read os (client_fd s) (world s) of (r, w) \<Rightarrow>
      (case r of Failed EAGAIN \<Rightarrow> f os (s\<lparr>world := w\<rparr>) | Failed Other_error \<Rightarrow> Some Aborted
       | Eof \<Rightarrow> Some (Returned (None, s\<lparr>world := w\<rparr>)) | Got c \<Rightarrow> Some (Returned (Some c, s\<lparr>world := w\<rparr>)))) = Some y"
  show "\<not> silent os (client_fd s)"
  proof
    assume n: "silent os (client_fd s)"
    then obtain w where "os_read os (client_fd s) (world s) = (Failed EAGAIN, w)" by (auto simp: silent_def)
    with f n show False using ih [of os "s\<lparr>world := w\<rparr>" y] by simp
  qed
qed

lemma tick_kept:
  assumes "rbs_tick os d s = Some (Returned (p, s'))"
  shows "kept s s'"
  using assms execute_kept [of os "s\<lparr>tdo := d\<rparr>"] accept_kept [OF _ refl, of os s]
  by (auto simp: rbs_tick_def split: option.splits run.splits if_splits)

lemma tick_pins: "rbs_tick os d s = Some (Returned (p, s')) \<Longrightarrow> p = rbs_pins s'"
  by (auto simp: rbs_tick_def split: option.splits run.splits)

lemma ticks_kept:
  assumes "rbs_ticks os ds s = Some (Returned (ps, s'))"
  shows "kept s s' \<and> (\<forall>p \<in> set ps. snd (snd (snd p)) = trstn s)"
  using assms
proof (induction ds arbitrary: s ps)
  case (Cons d ds)
  then obtain p s1 qs where 1: "rbs_tick os d s = Some (Returned (p, s1))" "rbs_ticks os ds s1 = Some (Returned (qs, s'))"
      "ps = p # qs"
    by (auto split: option.splits run.splits)
  have "kept s s1" "snd (snd (snd p)) = trstn s1"
    using tick_kept [OF 1(1)] tick_pins [OF 1(1)] by (simp_all add: rbs_pins_def)
  with Cons.IH [OF 1(2)] show ?case by (auto simp: 1(3) kept_def)
qed (simp add: kept_def)

section \<open>Properties\<close>

text \<open>
  C11. A session of the JTAG server is the function of its commands and samples that the protocol
  describes: tick by tick the pins are those that the digits of the debugger set, and the debugger is sent
  one answer for each request, the sample of TDO, in order; the connection stays up.
\<close>

theorem rbs_session:
  assumes "remote_client os inp outp" and "client_fd s > 0" and "quit s = 0"
    and "inp (world s) = map fst cs @ rest" and "0x51 \<notin> set (map fst cs)"
  shows "\<exists>s'. rbs_ticks os (map snd cs) s = Some (Returned (session cs (rbs_pins s), s')) \<and> client_fd s' = client_fd s \<and>
    quit s' = 0 \<and> inp (world s') = rest \<and> outp (world s') = outp (world s) @ answers cs"
  using assms by (rule remote_client.ticks)

definition connected :: "u8 list \<Rightarrow> (u8 list \<times> u8 list) rbs" where
  "connected cs = \<lparr>rbs_err = 0, tck = 1, tms = 1, tdi = 1, trstn = 1, tdo = 0, quit = 0, socket_fd = 3, client_fd = 4,
     recv_start = 0, recv_end = 0, jtag_init = 1, world = (cs, [])\<rparr>"

theorem rbs_session_witness:
  "\<exists>s'. rbs_ticks list_os [0, 1, 0] (connected [0x36, 0x52, 0x31, 0x42]) =
      Some (Returned ([(1, 1, 0, 1), (1, 1, 0, 1), (0, 0, 1, 1)], s')) \<and> snd (world s') = [0x31]"
  using rbs_session [OF list_socket.remote_client_axioms, of "connected [0x36, 0x52, 0x31, 0x42]" "[(0x36, 0), (0x52, 1), (0x31, 0)]" "[0x42]"]
  by (auto simp: connected_def rbs_pins_def wire_def digit_def pin_bit_def answers_def answer_def bit_iff_odd)

text \<open>
  C22. However long the simulation runs and whatever the debuggers send, the reset commands included, no tick
  asserts the reset: at every tick TRSTn is what it was at the start. No error is ever recorded, and the
  request to stop, once made, is not taken back. (The request alone does not keep the server from
  accepting another debugger; it is the simulation that has to stop.)
\<close>

theorem rbs_never_resets:
  assumes "rbs_ticks os ds s = Some (Returned (ps, s'))"
  shows "(\<forall>p \<in> set ps. snd (snd (snd p)) = trstn s) \<and> trstn s' = trstn s \<and>
    rbs_exit_code s' = rbs_exit_code s \<and> (rbs_done s \<noteq> 0 \<longrightarrow> rbs_done s' \<noteq> 0)"
  using ticks_kept [OF assms] by (simp add: kept_def rbs_exit_code_def rbs_done_def)

theorem rbs_never_resets_witness:
  "\<exists>ps s'. rbs_ticks list_os [0, 0] (connected [0x74, 0x72]) = Some (Returned (ps, s')) \<and> trstn s' = 1"
proof -
  obtain ps s' where t: "rbs_ticks list_os [0, 0] (connected [0x74, 0x72]) = Some (Returned (ps, s'))"
    using list_socket.ticks [of "connected [0x74, 0x72]" "[(0x74, 0), (0x72, 0)]" "[]"] by (auto simp: connected_def)
  from rbs_never_resets [OF t] have "trstn s' = 1" by (simp add: connected_def)
  with t show ?thesis by blast
qed

text \<open>
  C23. How a session ends on a server that has been set up and has recorded no error. After the quit command, or after any command once it has been given, the
  command has been answered, the descriptor of the connection is closed and no other, and the simulation is told to stop with
  code 1. When the debugger only hangs up, the server does not notice: in however many ticks, the connection
  stays open and the pins stay as they are.
\<close>

theorem rbs_session_end:
  assumes "socket_client os inp outp opened" and "client_fd s > 0" and "jtag_init s \<noteq> 0" and "rbs_err s = 0"
  shows "(inp (world s) = c # cs \<and> (c = 0x51 \<or> quit s \<noteq> 0) \<longrightarrow>
      (\<exists>s'. jtag_tick os port d s = Some (Returned (1, rbs_pins s', s')) \<and> client_fd s' = 0 \<and>
        opened (world s') = opened (world s) - {client_fd s} \<and>
        inp (world s') = cs \<and> outp (world s') = outp (world s) @ answer c d)) \<and>
    (inp (world s) = [] \<longrightarrow>
      (\<exists>s'. rbs_ticks os ds s = Some (Returned (replicate (length ds) (rbs_pins s), s')) \<and>
        client_fd s' = client_fd s \<and> opened (world s') = opened (world s)))"
proof (intro conjI impI)
  assume "inp (world s) = c # cs \<and> (c = 0x51 \<or> quit s \<noteq> 0)"
  then obtain s' where s': "rbs_tick os d s = Some (Returned (rbs_pins s', s'))" "rbs_done s' \<noteq> 0" "client_fd s' = 0"
      "opened (world s') = opened (world s) - {client_fd s}" "inp (world s') = cs" "outp (world s') = outp (world s) @ answer c d"
    using socket_client.tick_quit [OF assms(1,2), of c cs d] by auto
  then have "rbs_exit_code s' = 0"
    using tick_kept [OF s'(1)] assms(4) by (simp add: kept_def rbs_exit_code_def)
  then show "\<exists>s'. jtag_tick os port d s = Some (Returned (1, rbs_pins s', s')) \<and> client_fd s' = 0 \<and>
      opened (world s') = opened (world s) - {client_fd s} \<and>
      inp (world s') = cs \<and> outp (world s') = outp (world s) @ answer c d"
    using s' assms(3) by (intro exI [of _ s']) (simp add: jtag_tick_def)
next
  assume "inp (world s) = []"
  with remote_client.ticks_hung_up [OF socket_client.axioms(1) [OF assms(1)] assms(2), of ds]
  show "\<exists>s'. rbs_ticks os ds s = Some (Returned (replicate (length ds) (rbs_pins s), s')) \<and>
      client_fd s' = client_fd s \<and> opened (world s') = opened (world s)"
    by auto
qed

definition connected_fd :: "u8 list \<Rightarrow> ((u8 list \<times> u8 list) \<times> int set) rbs" where
  "connected_fd cs = \<lparr>rbs_err = 0, tck = 1, tms = 1, tdi = 1, trstn = 1, tdo = 0, quit = 0, socket_fd = 3, client_fd = 4,
     recv_start = 0, recv_end = 0, jtag_init = 1, world = ((cs, []), {3, 4})\<rparr>"

theorem rbs_session_end_witness:
  "(\<exists>s'. jtag_tick fd_os 0 1 (connected_fd [0x51]) = Some (Returned (1, rbs_pins s', s')) \<and> client_fd s' = 0 \<and>
     snd (world s') = {3}) \<and>
   (\<exists>s'. rbs_ticks fd_os [0, 1, 0] (connected_fd []) = Some (Returned (replicate 3 (1, 1, 1, 1), s')) \<and> client_fd s' = 4)"
  using rbs_session_end [OF fd_socket.socket_client_axioms, of "connected_fd [0x51]" "0x51" "[]" 0 1]
    rbs_session_end [OF fd_socket.socket_client_axioms, of "connected_fd []" 0 "[]" 0 0 "[0, 1, 0]"]
  by (auto simp: connected_fd_def rbs_pins_def eval_nat_numeral)

text \<open>
  A tick waits: with no debugger connecting, or with a connected debugger that sends nothing, it never
  returns, so the simulation stands still (the comment in the read loop says that the next call
  tries again).
\<close>

theorem rbs_tick_waits:
  assumes "no_debugger os (socket_fd s)" and "silent os (client_fd s)"
  shows "rbs_tick os d s = None"
proof -
  have "rbs_accept os s = None"
    using accept_waits [of os s] assms(1) by (cases "rbs_accept os s") auto
  moreover have "rbs_read_loop os (s\<lparr>tdo := d\<rparr>) = None"
    using read_loop_waits [of os "s\<lparr>tdo := d\<rparr>"] assms(2) by (cases "rbs_read_loop os (s\<lparr>tdo := d\<rparr>)") auto
  ultimately show ?thesis by (simp add: rbs_tick_def rbs_execute_command_def)
qed

theorem rbs_tick_waits_witness:
  "rbs_tick (list_os\<lparr>os_accept := \<lambda>_ w. (Inl EAGAIN, w), os_read := \<lambda>_ w. (Failed EAGAIN, w)\<rparr>) 0 (connected []) = None"
  by (rule rbs_tick_waits) (simp_all add: no_debugger_def silent_def)

end
