(* ===== verification/Spec2Isabelle.thy ===== *)
theory Spec2Isabelle
  imports Uart_Safety Uart_Phases A2_Boot A2_I2c_Session I2cs_Fifo Hyper_Device Cplx_Emu Fll Riscv_Csr Reg_Layouts Mchan_Props Tb_Checker Remote_Bitbang_Props
begin

text \<open>
  Verification development of the boot software of CORE-V-MCU and of the C code around it.

  The program. A reset enters the first bootloader (\<^verbatim>\<open>boot_code/boot_code.c\<close>), which reads the boot mode from the
  JTAG register and the boot selection pin and waits for the debugger, or copies an image from the
  SPI flash and jumps to it. The second bootloader (\<^verbatim>\<open>a2_boot/main.c\<close>) boots from its flash when the
  selection pin says so, and otherwise invites a host on two UARTs and the I2C slave, and
  follows the host that answers first: S-records over a UART (\<^verbatim>\<open>uartProtocol.c\<close>) or frames with a CRC
  over I2C (\<^verbatim>\<open>I2CProtocol.c\<close>, \<^verbatim>\<open>crc.c\<close>). Both stand on drivers (\<^verbatim>\<open>uart.c\<close>, \<^verbatim>\<open>spi.c\<close>, \<^verbatim>\<open>hal_apb_i2cs.c\<close>
  for the second, the headers under \<^verbatim>\<open>boot_code/include\<close> for the first). Apart from them the test bench
  has a JTAG server and a UART in C.

  Common ground.
    \<^item> Prelude: words, byte addressed memory, little-endian access, \<^verbatim>\<open>memcpy\<close>; the collections \<open>mem_simps\<close>
      and \<open>io_simps\<close>.
    \<^item> Machine: the bus as a parameter (a function that answers reads and one that takes writes, over a
      state of the peripherals), the machine record that every component extends with its
      globals, and the way a routine ends (\<open>exit\<close>). Polling loops are partial functions into option:
      None is a loop that never ends. So a property that says \<open>Some\<close> says that the code returns.
    \<^item> Mem_Blocks: blocks of memory that meet or miss each other.

  Second bootloader.
    \<^item> Crc: \<^verbatim>\<open>crc.c\<close>. The table driven computation equals the bit by bit one; a message followed by its
      checksum has remainder 0; a burst of one byte is always detected; \<open>reflect\<close> is an involution.
    \<^item> Uart (\<^verbatim>\<open>uart.c\<close>, \<^verbatim>\<open>dbg.c\<close>; contracts \<open>uart_tx\<close> for sending and \<open>uart_hw\<close>, which adds receiving; \<open>uart_line\<close> in
      Uart_Safety, which tells the queue of the transmitter from the line), Uart_Protocol (\<^verbatim>\<open>uartProtocol.c\<close>, one definition per case
      of the state machine), Uart_Srec and Uart_Safety: whole records load memory, jump or are
      rejected; what ends, and the inputs on which the state machine sticks or leaves its buffer. Uart_Phases: the state
      machine implements a transition system of its phases, labelled with the characters, in which a record only moves forward.
    \<^item> I2cs_Hal (\<^verbatim>\<open>hal_apb_i2cs.c\<close>; contract \<open>i2cs_hw\<close>), I2C_Protocol (\<^verbatim>\<open>I2CProtocol.c\<close>), I2C_Frames: what each frame
      of the host does, that a corrupted frame changes no memory, and the frames whose length the code does
      not check. I2cs_Fifo (contract \<open>i2cs_fifo\<close>): the incoming FIFO with its depth of 256 bytes, and a host that
      sends on while it is drained.
    \<^item> Spi_Flash (\<^verbatim>\<open>spi.c\<close>; contract \<open>flash_hw\<close>), Image_Loader (the loader in \<^verbatim>\<open>main.c\<close> and \<^verbatim>\<open>flash.h\<close>, shared by
      both bootloaders), Flash_Boot, Image_Props (contract \<open>image_reader\<close>), Flash_Image, Flash_Props: an image
      in the flash is refined to \<open>place\<close>, the memory after copying its sections.
    \<^item> A2_Main (\<^verbatim>\<open>main\<close>), A2_Invariants: the service loop keeps its state well formed whatever the
      peripherals do, and a host that was chosen stays.
    \<^item> A2_Session (contract \<open>uart_host\<close>): the service loop with a host on the UART. What a character does is
      independent of the peripherals, so the loop does with the characters of the host what \<open>feed\<close>
      does, whatever passes between them; a file of S-records is loaded and entered, the damaged lines in it refused.
    \<^item> A2_I2c_Session (contract \<open>i2c_host\<close>): the same for a host on the I2C slave, as a step relation in which
      the commands of the host and the rounds of the loop interleave.
    \<^item> A2_Boot (contracts \<open>a2_board\<close>, \<open>a2_uart_board\<close>): \<^verbatim>\<open>main\<close> as a whole, from its first access to the jump, for
      both positions of the boot selection, and without a flash.
    \<^item> Devices: a reference device on which the contracts are interpreted; A2_Session adds a host that pauses.

  First bootloader.
    \<^item> Pulp_Io, Pulp_Hal, Pulp_Soc, Spim_Cmds: the platform headers it calls (\<^verbatim>\<open>pulp_io.h\<close>, \<^verbatim>\<open>utils.h\<close>, the
      memory map, interrupt controller, event unit, SoC control, uDMA, UART and SPI master).
    \<^item> Boot_Rom (\<^verbatim>\<open>boot_code.c\<close>), Boot_Rom_Props (contracts \<open>soc_events\<close> of waiting for an event and \<open>rom_hw\<close>, which adds the
      SPI channel), Rom_Device (its interpretation): a boot from the flash, the choice of the mode, the wait for the debugger.
    \<^item> Hyper_Hal (\<^verbatim>\<open>udma_hyper_v1.h\<close>, registers and routines), Hyper_Props (every field setter is an insertion into
      its register), Hyper_Boot (the parts of \<^verbatim>\<open>boot_code.c\<close> for a HyperBus channel), Hyper_Boot_Props (contract
      \<open>hyper_hw\<close>, over \<open>soc_events\<close>), Hyper_Device (its interpretation): the channel is set up so that flash addresses
      select the flash, a section is loaded in blocks of 1024 bytes, and without its event unmasked a read
      never returns.

  Rest of the hardware layer.
    \<^item> Builtins_Emu and Builtins_Props: the C versions of the processor's instructions
      (\<^verbatim>\<open>builtins_v2_emu.h\<close>, \<^verbatim>\<open>riscv_v5.h\<close>); contract \<open>reg_field\<close> of a field of a register, interpreted for
      the fields of the headers whose macros are consistent. Cplx_Emu: the complex arithmetic; a rotation is a
      product, and the steps of a Viterbi decoder keep the path of the survivor.
    \<^item> Fll, Timer, Gpio, Riscv_Csr, Udma_Periphs, Udma_I2s: registers, fields and routines of the FLLs, the timer, the pads
      (contract \<open>gpio_hw\<close>), the core's own registers (contract \<open>csr_file\<close>), and the numbering of
      peripherals and events with the camera and I2S interfaces.
    \<^item> Reg_Layouts: the bit field unions and register blocks of the generated headers, compared with their offsets,
      fields and macros.
    \<^item> Event_Unit, Mchan and Mchan_Props (contract \<open>cluster_dma\<close>): the event unit and the DMA of the PULP cluster
      (\<^verbatim>\<open>eu_v3.h\<close>, \<^verbatim>\<open>mchan_v7.h\<close>), which the tree carries for chips that have a cluster; their addresses are a
      parameter. A transfer that is waited for has been made when the wait returns, and the wait returns: no
      wake-up is lost between the look at the status and the sleep.

  Test bench.
    \<^item> Remote_Bitbang (\<^verbatim>\<open>remote_bitbang.c\<close>, \<^verbatim>\<open>sim_jtag.c\<close>, \<^verbatim>\<open>rbs_test.c\<close>, \<^verbatim>\<open>uartdpi.c\<close>) with the calls of the operating system
      as a parameter, Remote_Bitbang_Props (contracts \<open>remote_client\<close> and \<open>socket_client\<close>, which adds the open descriptors): a session is refined to a function
      from commands to pins and answers, and how it ends or waits.

    \<^item> Tb_Checker (\<^verbatim>\<open>hal/tb/tb.h\<close>, \<^verbatim>\<open>hal/utils.h\<close>; contract \<open>checking_bench\<close>): a program that asks the test bench about
      the power domains gets its verdict.

  Bounds. No fuel is used: loops are structural, have a measure (the areas of an image by the limit of 16,
  the digits of a number, the bits of a remainder) or are partial. Integers have the width
  of the C type; where C leaves an access undefined the model has an explicit outcome \<open>Undefined\<close>. Buffers
  of a program are lists of their C size, memory is a function from 32-bit addresses to bytes.

  Not modelled. The hardware (the RTL, and the register headers generated from it: the register names of the second
  bootloader are the constructors of \<open>a2_reg\<close>) is the bus parameter, and the contracts state what the code
  relies on. Start-up assembly and \<^verbatim>\<open>changeStack\<close> appear as the new stack pointer. Code of other
  configurations is left out: debug output, the headers of other
  chips and of other versions of the peripherals, which no source here includes (those of the cluster's event
  unit and DMA, of the HyperBus channel and of the checker excepted; the RAB also needs headers of the host that are not here). So are macros that cannot be
  expanded, vendored packages, scripts and messages of the test bench on standard error. Compiler
  builtins that count bits are taken from the compiler's documentation.
\<close>

end
